(* ===== verification/Prelude.thy ===== *)
theory Prelude
  imports Main "HOL-Library.AList" "HOL-Library.List_Lexorder" "HOL-Library.Char_ord"
    "HOL-Library.Word"
begin

text \<open>
  What every component shares: Python exceptions as values, Python dictionaries as
  association lists in insertion order, PostgreSQL tables as lists of rows with the
  UPDATE / DELETE / INSERT ... ON CONFLICT statements the stores issue, Python's
  truthiness of strings, and the generic lemmas about them.

  A Python \<open>str\<close> is modelled by its UTF-8 bytes, one \<open>char\<close> per byte: the code measures
  strings by \<open>len(s.encode("utf-8"))\<close> and orders them by code point, which is the order of
  the UTF-8 bytes.
\<close>

section \<open>Exceptions\<close>

text \<open>
  \<open>RunnerError code message retryable\<close> is the class of runner_engine/errors.py with its
  subclasses (every handler catches the base class); \<open>PyError\<close> is any other Python
  exception with its class name and text.
\<close>

datatype exn =
    RunnerError (exn_code: string) (exn_msg: string) (exn_retryable: bool)
  | PyError (exn_type: string) (exn_msg: string)

text \<open>\<open>f"{type(exc).__name__}: {exc}"\<close>; the subclass of an error of the engine is not kept.\<close>

definition exn_text :: "exn \<Rightarrow> string" where
  "exn_text e = (case e of PyError t m \<Rightarrow> t @ '': '' @ m | RunnerError c m r \<Rightarrow> ''RunnerError: '' @ m)"

fun is_runner_error :: "exn \<Rightarrow> bool" where
  "is_runner_error (RunnerError c m r) = True"
| "is_runner_error (PyError t m) = False"

named_theorems model_simps

section \<open>Dictionaries\<close>

type_synonym ('k, 'v) dict = "('k \<times> 'v) list"

abbreviation dict_get :: "('k, 'v) dict \<Rightarrow> 'k \<Rightarrow> 'v option" where
  "dict_get d k \<equiv> map_of d k"

abbreviation dict_set :: "'k \<Rightarrow> 'v \<Rightarrow> ('k, 'v) dict \<Rightarrow> ('k, 'v) dict" where
  "dict_set \<equiv> AList.update"

abbreviation dict_pop :: "'k \<Rightarrow> ('k, 'v) dict \<Rightarrow> ('k, 'v) dict" where
  "dict_pop \<equiv> AList.delete"

definition get_or :: "'v \<Rightarrow> 'v option \<Rightarrow> 'v" where
  "get_or d v = (case v of None \<Rightarrow> d | Some x \<Rightarrow> x)"

lemma get_or_simps [simp]: "get_or d None = d" "get_or d (Some x) = x"
  by (simp_all add: get_or_def)

definition dict_get_or :: "('k, 'v) dict \<Rightarrow> 'k \<Rightarrow> 'v \<Rightarrow> 'v" where
  "dict_get_or d k v = get_or v (dict_get d k)"

lemma dict_get_or_Some [simp]: "dict_get d k = Some x \<Longrightarrow> dict_get_or d k v = x"
  by (simp add: dict_get_or_def)

lemma dict_get_or_None [simp]: "dict_get d k = None \<Longrightarrow> dict_get_or d k v = v"
  by (simp add: dict_get_or_def)

lemma dict_get_set [simp]: "dict_get (dict_set k v d) k' = (if k' = k then Some v else dict_get d k')"
  by (simp add: update_conv)

lemma dict_get_pop [simp]: "dict_get (dict_pop k d) k' = (if k' = k then None else dict_get d k')"
  by (simp add: delete_conv)

lemma dict_pop_idle: "dict_get d k = None \<Longrightarrow> dict_pop k d = d"
  by (simp add: map_of_eq_None_iff)

lemma set_dict_pop: "x \<in> set (dict_pop k d) \<longleftrightarrow> x \<in> set d \<and> fst x \<noteq> k"
  by (cases x) (auto simp: AList.delete_eq)

lemma set_dict_set: "distinct (map fst d) \<Longrightarrow>
    set (dict_set k v d) = insert (k, v) {x \<in> set d. fst x \<noteq> k}"
proof (induction d)
  case (Cons p d)
  then have "fst p = k \<Longrightarrow> {x \<in> set d. fst x \<noteq> k} = set d"
    by (auto simp: rev_image_eqI)
  with Cons show ?case by auto
qed simp

lemma set_dict_set_subset: "set (dict_set k v d) \<subseteq> insert (k, v) (set d)"
  by (induction d) auto

lemma dict_get_mem: "distinct (map fst d) \<Longrightarrow> dict_get d k = Some v \<longleftrightarrow> (k, v) \<in> set d"
  by simp

text \<open>A dictionary opened at one of its keys.\<close>

lemma dict_split: "dict_get d k = Some v \<Longrightarrow> distinct (map fst d) \<Longrightarrow>
    \<exists>xs ys. d = xs @ (k, v) # ys \<and> k \<notin> fst ` set xs \<and> k \<notin> fst ` set ys"
proof -
  assume g: "dict_get d k = Some v" and d: "distinct (map fst d)"
  from g have "(k, v) \<in> set d" by (rule map_of_SomeD)
  then obtain xs ys where "d = xs @ (k, v) # ys" by (meson split_list)
  with d have "d = xs @ (k, v) # ys \<and> k \<notin> fst ` set xs \<and> k \<notin> fst ` set ys" by auto
  then show ?thesis by blast
qed

lemma dict_set_split: "k \<notin> fst ` set xs \<Longrightarrow> dict_set k v (xs @ (k, u) # ys) = xs @ (k, v) # ys"
  by (induction xs) auto

lemma dict_pop_split: "k \<notin> fst ` set xs \<Longrightarrow> k \<notin> fst ` set ys \<Longrightarrow>
    dict_pop k (xs @ (k, u) # ys) = xs @ ys"
  by (induction xs) auto

lemma dict_set_new: "dict_get d k = None \<Longrightarrow> dict_set k v d = d @ [(k, v)]"
  by (induction d) (auto split: if_splits)

section \<open>Tables\<close>

text \<open>
  A table is the list of its rows. \<open>sql_update P f\<close> is \<open>UPDATE t SET f WHERE P\<close>,
  \<open>sql_delete P\<close> is \<open>DELETE FROM t WHERE P\<close>; the row count of both is \<open>sql_count P\<close>
  before the statement. \<open>sql_insert\<close> fails when the key is taken (a unique violation).
  The \<open>fetchone\<close> of a selection by key is \<open>List.find\<close>.
\<close>

definition sql_update :: "('r \<Rightarrow> bool) \<Rightarrow> ('r \<Rightarrow> 'r) \<Rightarrow> 'r list \<Rightarrow> 'r list" where
  "sql_update P f t = map (\<lambda>r. if P r then f r else r) t"

definition sql_delete :: "('r \<Rightarrow> bool) \<Rightarrow> 'r list \<Rightarrow> 'r list" where
  "sql_delete P t = filter (\<lambda>r. \<not> P r) t"

definition sql_count :: "('r \<Rightarrow> bool) \<Rightarrow> 'r list \<Rightarrow> nat" where
  "sql_count P t = length (filter P t)"

definition sql_insert :: "('r \<Rightarrow> 'k) \<Rightarrow> 'r \<Rightarrow> 'r list \<Rightarrow> 'r list option" where
  "sql_insert key r t = (if key r \<in> key ` set t then None else Some (t @ [r]))"

definition unique_violation :: exn where
  "unique_violation = PyError ''UniqueViolation'' ''duplicate key value violates unique constraint''"

lemma set_sql_update: "x \<in> set (sql_update P f t) \<longleftrightarrow>
    (\<exists>y \<in> set t. x = (if P y then f y else y))"
  by (auto simp: sql_update_def)

lemma set_sql_delete [simp]: "x \<in> set (sql_delete P t) \<longleftrightarrow> x \<in> set t \<and> \<not> P x"
  by (auto simp: sql_delete_def)

lemma sql_delete_Nil [simp]: "sql_delete P [] = []"
  by (simp add: sql_delete_def)

lemma sql_update_Nil [simp]: "sql_update P f [] = []"
  by (simp add: sql_update_def)

lemma map_key_sql_update: "(\<And>r. P r \<Longrightarrow> key (f r) = key r) \<Longrightarrow> map key (sql_update P f t) = map key t"
  by (auto simp: sql_update_def)

lemma distinct_key_sql_delete: "distinct (map key t) \<Longrightarrow> distinct (map key (sql_delete P t))"
  by (simp add: sql_delete_def distinct_map_filter)

lemma sql_insert_Some: "sql_insert key r t = Some t' \<longleftrightarrow> key r \<notin> key ` set t \<and> t' = t @ [r]"
  by (auto simp: sql_insert_def)

lemma sql_insert_None: "sql_insert key r t = None \<longleftrightarrow> key r \<in> key ` set t"
  by (auto simp: sql_insert_def)

lemma distinct_key_sql_insert:
  "sql_insert key r t = Some t' \<Longrightarrow> distinct (map key t) \<Longrightarrow> distinct (map key t')"
  by (auto simp: sql_insert_Some)

lemma find_unique:
  assumes "distinct (map key t)" and "r \<in> set t" and "\<And>x. P x \<Longrightarrow> key x = key r" and "P r"
  shows "List.find P t = Some r"
  using assms(1,2)
proof (induction t)
  case (Cons x t)
  show ?case
  proof (cases "x = r")
    case True
    with assms(4) show ?thesis by simp
  next
    case False
    with Cons.prems have r: "r \<in> set t" and "key x \<noteq> key r" by auto
    then have "\<not> P x" using assms(3) by blast
    with Cons.IH Cons.prems(1) r show ?thesis by simp
  qed
qed simp

lemma find_SomeD: "List.find P t = Some r \<Longrightarrow> r \<in> set t \<and> P r"
  by (auto simp: find_Some_iff)

lemma find_NoneD: "List.find P t = None \<Longrightarrow> r \<in> set t \<Longrightarrow> \<not> P r"
  by (simp add: find_None_iff)

lemma find_append [simp]: "List.find P (xs @ ys) =
    (case List.find P xs of None \<Rightarrow> List.find P ys | Some x \<Rightarrow> Some x)"
  by (induction xs) auto

lemma find_sql_update:
  "(\<And>r. P r \<Longrightarrow> Q (f r) = Q r) \<Longrightarrow>
    List.find Q (sql_update P f t) = map_option (\<lambda>r. if P r then f r else r) (List.find Q t)"
  by (induction t) (auto simp: sql_update_def)

lemma find_sql_delete_other:
  "(\<And>r. Q r \<Longrightarrow> \<not> P r) \<Longrightarrow> List.find Q (sql_delete P t) = List.find Q t"
  by (induction t) (auto simp: sql_delete_def)

lemma sql_count_pos: "sql_count P t \<noteq> 0 \<longleftrightarrow> (\<exists>r \<in> set t. P r)"
  by (auto simp: sql_count_def filter_empty_conv)

lemma sql_count_delete: "sql_count P t + length (sql_delete P t) = length t"
  by (simp add: sql_count_def sql_delete_def sum_length_filter_compl)

lemma sql_count_unique:
  assumes "distinct (map key t)" and "r \<in> set t" and "\<And>x. P x \<Longrightarrow> key x = key r" and "P r"
  shows "sql_count P t = 1"
  using assms(1,2)
proof (induction t)
  case (Cons x t)
  show ?case
  proof (cases "x = r")
    case True
    have "\<not> P y" if "y \<in> set t" for y
      using Cons.prems(1) True that assms(3)[of y] by (auto simp: image_iff)
    with True assms(4) show ?thesis by (simp add: sql_count_def filter_empty_conv)
  next
    case False
    with Cons.prems have r: "r \<in> set t" and "key x \<noteq> key r" by auto
    then have "\<not> P x" using assms(3) by blast
    with Cons.IH Cons.prems(1) r show ?thesis by (simp add: sql_count_def)
  qed
qed simp

section \<open>Python odds and ends\<close>

definition starts_with :: "string \<Rightarrow> string \<Rightarrow> bool" where
  "starts_with p s \<longleftrightarrow> take (length p) s = p"

fun contains :: "string \<Rightarrow> string \<Rightarrow> bool" where
  "contains p [] \<longleftrightarrow> p = []"
| "contains p (c # s) \<longleftrightarrow> starts_with p (c # s) \<or> contains p s"

definition ends_with :: "string \<Rightarrow> string \<Rightarrow> bool" where
  "ends_with p s \<longleftrightarrow> length p \<le> length s \<and> drop (length s - length p) s = p"

lemma starts_with_append [simp]: "starts_with p (p @ s)"
  by (simp add: starts_with_def)

definition last_chars :: "nat \<Rightarrow> string \<Rightarrow> string" where
  "last_chars n s = drop (length s - n) s"

lemma length_last_chars: "length (last_chars n s) \<le> n"
  by (simp add: last_chars_def)

end
