(* ===== verification/Runner_Model.thy ===== *)
theory Runner_Model
  imports Prelude
begin

text \<open>
  The data model of the Runner engine: runner_engine/model.py (the dataclasses, field by
  field) and the security-policy loader of runner_engine/policy.py.

  Bytes are lists of \<open>8 word\<close>. \<open>dict[str, str]\<close> fields are association lists. The
  monotonic clock is counted in milliseconds; a dataclass the code mutates (\<open>Worker\<close>) is a
  record here and an object with identity in the pool (theory Pool).
\<close>

type_synonym bytes = "8 word list"

record runtime_env =
  rt_id :: string
  rt_image :: string
  rt_python :: string

record operator_release =
  rel_id :: string
  rel_artifact_path :: string
  rel_artifact_sha256 :: string
  rel_runtime :: runtime_env
  rel_entrypoint :: string
  rel_profile :: string
  rel_input_attributes :: "string list"
  rel_output_attributes :: "string list"

record security_policy =
  pol_name :: string
  pol_cluster :: string
  pol_cpu :: string
  pol_memory :: string
  pol_max_timeout_ms :: int
  pol_network_allow :: "string list"
  pol_reuse_sandbox :: bool

record lease =
  le_id :: string
  le_tenant :: string
  le_project :: string
  le_processor :: string
  le_release :: string
  le_expires_at_ms :: int

record run_request =
  rq_tenant :: string
  rq_lease :: string
  rq_release :: string
  rq_invocation :: string
  rq_key :: string
  rq_content :: bytes
  rq_attributes :: "(string, string) dict"
  rq_parameters :: "(string, string) dict"
  rq_timeout_ms :: int

record run_result =
  rr_status :: string
  rr_relationship :: string
  rr_content :: bytes
  rr_attributes :: "(string, string) dict"
  rr_retryable :: bool
  rr_error_code :: string
  rr_error_message :: string
  rr_worker_id :: string
  rr_duration_ms :: int

record worker =
  w_id :: string
  w_endpoint :: string
  w_token :: string
  w_tenant :: string
  w_runtime :: string
  w_profile :: string
  w_group :: string
  w_created :: int
  w_last_used :: int
  w_installed :: "string list"
  w_expires :: "int option"
  w_runs :: nat
  w_healthy :: bool
  w_destroyed :: bool
  w_headers :: "(string, string) dict"

text \<open>
  An \<open>ActiveRun\<close> refers to its worker object, so the model stores the worker's reference,
  of type \<open>'w\<close>.
\<close>

record 'w active_run =
  ar_tenant :: string
  ar_lease :: string
  ar_release :: string
  ar_worker :: 'w

section \<open>Security policies (policy.py)\<close>

text \<open>
  One item of the decoded policy file: \<open>None\<close> is a missing key. The required key
  \<open>sandbox_cluster\<close> raises \<open>KeyError\<close> when it is missing; the others have defaults.
\<close>

record policy_item =
  pi_sandbox_cluster :: "string option"
  pi_cpu :: "string option"
  pi_memory :: "string option"
  pi_max_timeout_ms :: "int option"
  pi_network_allow :: "string list option"
  pi_reuse_sandbox :: "bool option"

definition load_policy :: "string \<Rightarrow> policy_item \<Rightarrow> exn + security_policy" where
  "load_policy name item =
     (case pi_sandbox_cluster item of
        None \<Rightarrow> Inl (PyError ''KeyError'' ''sandbox_cluster'')
      | Some cluster \<Rightarrow> Inr
          \<lparr> pol_name = name,
            pol_cluster = cluster,
            pol_cpu = get_or ''1'' (pi_cpu item),
            pol_memory = get_or ''512Mi'' (pi_memory item),
            pol_max_timeout_ms = get_or 60000 (pi_max_timeout_ms item),
            pol_network_allow = get_or [] (pi_network_allow item),
            pol_reuse_sandbox = get_or True (pi_reuse_sandbox item) \<rparr>)"

fun load_policies :: "(string, policy_item) dict \<Rightarrow> (string, security_policy) dict
    \<Rightarrow> exn + (string, security_policy) dict" where
  "load_policies [] policies = Inr policies"
| "load_policies ((name, item) # raw) policies =
     (case load_policy name item of
        Inl e \<Rightarrow> Inl e
      | Inr p \<Rightarrow> load_policies raw (dict_set name p policies))"

lemma load_policies_name:
  "load_policies raw ps = Inr ps' \<Longrightarrow> (\<And>n p. dict_get ps n = Some p \<Longrightarrow> pol_name p = n) \<Longrightarrow>
    dict_get ps' n = Some p \<Longrightarrow> pol_name p = n"
proof (induction raw ps rule: load_policies.induct)
  case (2 name item raw policies)
  from "2.prems"(1) obtain q where q: "load_policy name item = Inr q"
    by (cases "load_policy name item") simp_all
  then have nq: "pol_name q = name"
    by (auto simp: load_policy_def split: option.splits)
  show ?case
  proof (rule "2.IH" [OF q _ _ "2.prems"(3)])
    show "load_policies raw (dict_set name q policies) = Inr ps'"
      using "2.prems"(1) q by simp
  next
    fix n' p'
    assume "dict_get (dict_set name q policies) n' = Some p'"
    then show "pol_name p' = n'"
      using "2.prems"(2) nq by (cases "n' = name") simp_all
  qed
next
  case (1 policies)
  then show ?case by simp
qed

text \<open>
  runner_engine/sandbox/backend.py: the \<open>SandboxBackend\<close> protocol between the worker pool
  (client) and the sandbox providers (LocalBackend, OpenSandboxBackend). An operation takes
  and returns the provider's own state \<open>'b\<close> and gives an exception or a result; the clock
  reading of an operation is its \<open>int\<close> argument, in milliseconds.

  The locale states what the pool relies on: what a created worker is, and that renewing a
  sandbox changes its expiry only. A provider may take its own, later clock reading, so the
  expiry is at least the operation's clock reading plus the time to live.
\<close>

record 'b backend =
  be_create :: "'b \<Rightarrow> int \<Rightarrow> string \<Rightarrow> operator_release \<Rightarrow> security_policy \<Rightarrow> int \<Rightarrow> 'b \<times> (exn + worker)"
  be_renew :: "'b \<Rightarrow> int \<Rightarrow> worker \<Rightarrow> int \<Rightarrow> 'b \<times> (exn + worker)"
  be_install :: "'b \<Rightarrow> worker \<Rightarrow> operator_release \<Rightarrow> 'b \<times> (exn + unit)"
  be_run :: "'b \<Rightarrow> worker \<Rightarrow> operator_release \<Rightarrow> run_request \<Rightarrow> int \<Rightarrow> 'b \<times> (exn + run_result)"
  be_cancel :: "'b \<Rightarrow> worker \<Rightarrow> string \<Rightarrow> 'b \<times> (exn + bool)"
  be_destroy :: "'b \<Rightarrow> worker \<Rightarrow> 'b \<times> (exn + unit)"
  be_cleanup :: "'b \<Rightarrow> 'b \<times> (exn + nat)"

text \<open>A worker as a provider hands it out for a tenant and a release.\<close>

definition created_for :: "string \<Rightarrow> operator_release \<Rightarrow> int \<Rightarrow> worker \<Rightarrow> bool" where
  "created_for tenant release expires w \<longleftrightarrow>
     w_tenant w = tenant \<and> w_runtime w = rt_id (rel_runtime release) \<and>
     w_profile w = rel_profile release \<and> w_installed w = [] \<and> w_healthy w \<and>
     \<not> w_destroyed w \<and> (\<exists>e \<ge> expires. w_expires w = Some e)"

locale sandbox_backend =
  fixes B :: "'b backend"
  assumes create_law: "be_create B b now tenant release policy ttl = (b', Inr w) \<Longrightarrow>
      created_for tenant release (now + 1000 * ttl) w"
    and renew_law: "be_renew B b now w ttl = (b', Inr w') \<Longrightarrow>
      \<exists>e \<ge> now + 1000 * ttl. w' = w\<lparr>w_expires := Some e\<rparr>"
begin

lemma create_tenant: "be_create B b now tenant release policy ttl = (b', Inr w) \<Longrightarrow>
    w_tenant w = tenant \<and> \<not> w_destroyed w"
  using create_law by (simp add: created_for_def)

lemma renew_frame: "be_renew B b now w ttl = (b', Inr w') \<Longrightarrow>
    w_tenant w' = w_tenant w \<and> w_runtime w' = w_runtime w \<and> w_profile w' = w_profile w \<and>
    w_destroyed w' = w_destroyed w \<and> w_healthy w' = w_healthy w \<and>
    w_installed w' = w_installed w"
  using renew_law by fastforce

end

end
