(* ===== verification/Codec.thy ===== *)
theory Codec
  imports Runner_Model
begin

text \<open>
  What the engine uses of Python's standard codecs: \<open>base64.b64encode\<close>,
  \<open>base64.b64decode(validate=True)\<close> and \<open>int.to_bytes / int.from_bytes\<close> of four big-endian
  bytes; and decoded JSON values. A JSON object is an association list in source order; a
  non-integral number is opaque text.
\<close>

section \<open>Base 64\<close>

definition b64_alphabet :: string where
  "b64_alphabet = ''ABCDEFGHIJKLMNOPQRSTUVWXYZabcdefghijklmnopqrstuvwxyz0123456789+/''"

definition enc6 :: "nat \<Rightarrow> char" where
  "enc6 n = b64_alphabet ! n"

definition dec6 :: "char \<Rightarrow> nat option" where
  "dec6 c = (let i = length (takeWhile (\<lambda>x. x \<noteq> c) b64_alphabet) in if i < 64 then Some i else None)"

definition pad :: char where
  "pad = CHR ''=''"

fun b64encode :: "bytes \<Rightarrow> string" where
  "b64encode [] = []"
| "b64encode [a] =
     (let n = unat a * 16 in [enc6 (n div 64), enc6 (n mod 64), pad, pad])"
| "b64encode [a, b] =
     (let n = unat a * 1024 + unat b * 4
      in [enc6 (n div 4096), enc6 (n div 64 mod 64), enc6 (n mod 64), pad])"
| "b64encode (a # b # c # rest) =
     (let n = unat a * 65536 + unat b * 256 + unat c
      in enc6 (n div 262144) # enc6 (n div 4096 mod 64) # enc6 (n div 64 mod 64) # enc6 (n mod 64)
         # b64encode rest)"

definition bytes3 :: "nat \<Rightarrow> bytes" where
  "bytes3 n = [of_nat (n div 65536), of_nat (n div 256 mod 256), of_nat (n mod 256)]"

fun b64decode :: "string \<Rightarrow> bytes option" where
  "b64decode [] = Some []"
| "b64decode (c1 # c2 # c3 # c4 # rest) =
     (case (dec6 c1, dec6 c2) of
        (Some x1, Some x2) \<Rightarrow>
          (if c4 = pad then
             (if rest \<noteq> [] then None
              else if c3 = pad then Some [of_nat ((x1 * 64 + x2) div 16)]
              else (case dec6 c3 of
                      None \<Rightarrow> None
                    | Some x3 \<Rightarrow> (let n = x1 * 4096 + x2 * 64 + x3
                                 in Some [of_nat (n div 1024), of_nat (n div 4 mod 256)])))
           else (case (dec6 c3, dec6 c4, b64decode rest) of
                   (Some x3, Some x4, Some bs) \<Rightarrow>
                     Some (bytes3 (x1 * 262144 + x2 * 4096 + x3 * 64 + x4) @ bs)
                 | _ \<Rightarrow> None))
      | _ \<Rightarrow> None)"
| "b64decode _ = None"

lemma horner3: "(n div (b * b) * b + n div b mod b) * b + n mod b = (n :: nat)"
  by (simp add: div_mult2_eq)

lemma horner4: "((n div (b * b * b) * b + n div (b * b) mod b) * b + n div b mod b) * b + n mod b = (n :: nat)"
  by (simp add: div_mult2_eq)

lemma sextets3: "n div 4096 * 4096 + n div 64 mod 64 * 64 + n mod 64 = (n :: nat)"
  using horner3 [of n 64] by (simp add: algebra_simps)

lemma sextets4:
  "n div 262144 * 262144 + n div 4096 mod 64 * 4096 + n div 64 mod 64 * 64 + n mod 64 = (n :: nat)"
  using horner4 [of n 64] by (simp add: algebra_simps)

lemma bytes3_digits:
  assumes "a < 256" "b < 256" "c < (256 :: nat)"
  shows "(a * 65536 + b * 256 + c) div 65536 = a"
    "(a * 65536 + b * 256 + c) div 256 mod 256 = b" "(a * 65536 + b * 256 + c) mod 256 = c"
proof -
  have e: "a * 65536 + b * 256 + c = (a * 256 + b) * 256 + c" by simp
  have q: "((a * 256 + b) * 256 + c) div 256 = a * 256 + b"
    using assms(3) by (simp only: div_mult_self3 add.commute) simp
  show "(a * 65536 + b * 256 + c) div 256 mod 256 = b"
    unfolding e q using assms(2) by (simp only: mod_mult_self3) simp
  show "(a * 65536 + b * 256 + c) mod 256 = c"
    unfolding e using assms(3) by (simp only: mod_mult_self3) simp
  show "(a * 65536 + b * 256 + c) div 65536 = a" using assms by auto
qed

lemma dec6_enc6_all: "\<forall>n \<in> set [0..<64]. dec6 (enc6 n) = Some n \<and> enc6 n \<noteq> pad"
  by code_simp

lemma dec6_enc6 [simp]: "n < 64 \<Longrightarrow> dec6 (enc6 n) = Some n"
  using dec6_enc6_all by simp

lemma enc6_pad [simp]: "n < 64 \<Longrightarrow> enc6 n \<noteq> pad"
  using dec6_enc6_all by simp

lemma unat_byte: "unat (a :: 8 word) < 256"
  using unsigned_less [where w = a] by simp

lemma dec6_pad [simp]: "dec6 pad = None"
  by code_simp

theorem b64_roundtrip: "b64decode (b64encode bs) = Some bs"
proof (induction bs rule: b64encode.induct)
  case (2 a)
  have "unat a < 256" by (rule unat_byte)
  then have lt: "unat a * 16 div 64 < 64" "unat a * 16 mod 64 < 64" by auto
  have out: "(unat a * 16 div 64 * 64 + unat a * 16 mod 64) div 16 = unat a"
    unfolding div_mult_mod_eq by simp
  have "b64decode (b64encode [a]) = Some [of_nat ((unat a * 16 div 64 * 64 + unat a * 16 mod 64) div 16)]"
    using lt by (simp only: b64encode.simps Let_def b64decode.simps dec6_enc6
        option.case prod.case if_True if_False simp_thms)
  then show ?case unfolding out by simp
next
  case (3 a b)
  let ?n = "unat a * 1024 + unat b * 4"
  have "unat a < 256" "unat b < 256" by (rule unat_byte)+
  then have lt: "?n div 4096 < 64" "?n div 64 mod 64 < 64" "?n mod 64 < 64"
    and out: "?n div 1024 = unat a" "?n div 4 mod 256 = unat b" by auto
  have n: "?n div 4096 * 4096 + ?n div 64 mod 64 * 64 + ?n mod 64 = ?n"
    by (rule sextets3)
  have "b64decode (b64encode [a, b]) = Some [of_nat (?n div 1024), of_nat (?n div 4 mod 256)]"
    using lt by (simp only: b64encode.simps Let_def b64decode.simps dec6_enc6 enc6_pad n
        option.case prod.case if_True if_False simp_thms)
  then show ?case unfolding out by simp
next
  case (4 a b c rest)
  let ?n = "unat a * 65536 + unat b * 256 + unat c"
  have "unat a < 256" "unat b < 256" "unat c < 256" by (rule unat_byte)+
  then have lt: "?n div 262144 < 64" "?n div 4096 mod 64 < 64" "?n div 64 mod 64 < 64" "?n mod 64 < 64"
    and out: "?n div 65536 = unat a" "?n div 256 mod 256 = unat b" "?n mod 256 = unat c"
    by (simp_all add: bytes3_digits)
  have n: "?n div 262144 * 262144 + ?n div 4096 mod 64 * 4096 + ?n div 64 mod 64 * 64 + ?n mod 64 = ?n"
    by (rule sextets4)
  have "b64decode (b64encode (a # b # c # rest)) = Some (bytes3 ?n @ rest)"
    using lt 4 by (simp only: b64encode.simps Let_def b64decode.simps dec6_enc6 enc6_pad n
        option.case prod.case if_False simp_thms)
  then show ?case unfolding bytes3_def out by simp
qed simp

lemma length_b64encode: "length (b64encode bs) = 4 * ((length bs + 2) div 3)"
proof (induction bs rule: b64encode.induct)
  case (4 a b c rest)
  have "length (b64encode (a # b # c # rest)) = 4 + length (b64encode rest)"
    by (simp add: Let_def)
  also have "\<dots> = 4 * ((length (a # b # c # rest) + 2) div 3)"
  proof -
    have "length (a # b # c # rest) + 2 = length rest + 2 + 3" by simp
    then have "(length (a # b # c # rest) + 2) div 3 = (length rest + 2) div 3 + 1"
      by simp
    then show ?thesis using 4 [OF refl] by simp
  qed
  finally show ?case .
qed (simp_all add: Let_def)

section \<open>Big-endian lengths\<close>

definition to_bytes4 :: "nat \<Rightarrow> exn + bytes" where
  "to_bytes4 n =
     (if n < 4294967296
      then Inr [of_nat (n div 16777216), of_nat (n div 65536 mod 256),
                of_nat (n div 256 mod 256), of_nat (n mod 256)]
      else Inl (PyError ''OverflowError'' ''int too big to convert''))"

definition from_bytes :: "bytes \<Rightarrow> nat" where
  "from_bytes bs = foldl (\<lambda>n b. n * 256 + unat b) 0 bs"

lemma to_bytes4_roundtrip: "to_bytes4 n = Inr bs \<Longrightarrow> length bs = 4 \<and> from_bytes bs = n"
proof -
  assume "to_bytes4 n = Inr bs"
  then have n: "n < 4294967296"
    and bs: "bs = [of_nat (n div 16777216), of_nat (n div 65536 mod 256),
                of_nat (n div 256 mod 256), of_nat (n mod 256)]"
    by (auto simp: to_bytes4_def split: if_splits)
  from n have "n div 16777216 mod 256 = n div 16777216" by simp
  then have "from_bytes bs = ((n div 16777216 * 256 + n div 65536 mod 256) * 256 + n div 256 mod 256) * 256
      + n mod 256"
    unfolding bs from_bytes_def by (simp add: unat_of_nat)
  also have "\<dots> = n" using horner4 [of n 256] by simp
  finally show ?thesis unfolding bs by simp
qed

section \<open>Decimal integers\<close>

definition digit_char :: "nat \<Rightarrow> char" where
  "digit_char d = char_of (d + 48)"

definition digit_val :: "char \<Rightarrow> nat option" where
  "digit_val c = (let n = of_char c in if 48 \<le> n \<and> n < 58 then Some (n - 48) else None)"

fun nat_str :: "nat \<Rightarrow> string" where
  "nat_str n = (if n < 10 then [digit_char n] else nat_str (n div 10) @ [digit_char (n mod 10)])"

declare nat_str.simps [simp del]

text \<open>Python's \<open>str(i)\<close> and \<open>int(s)\<close>: surrounding ASCII white space, a sign, and underscores
  between digits are accepted by \<open>int\<close>.\<close>

definition int_str :: "int \<Rightarrow> string" where
  "int_str i = (if i < 0 then CHR ''-'' # nat_str (nat (- i)) else nat_str (nat i))"

fun py_digits :: "nat \<Rightarrow> bool \<Rightarrow> string \<Rightarrow> nat option" where
  "py_digits acc digit_before [] = (if digit_before then Some acc else None)"
| "py_digits acc digit_before (c # s) =
     (case digit_val c of
        Some d \<Rightarrow> py_digits (acc * 10 + d) True s
      | None \<Rightarrow> if c = CHR ''_'' \<and> digit_before then py_digits acc False s else None)"

definition py_space :: "char \<Rightarrow> bool" where
  "py_space c = (of_char c \<in> {9, 10, 11, 12, 13, 28, 29, 30, 31, 32 :: nat})"

definition py_strip :: "string \<Rightarrow> string" where
  "py_strip s = rev (dropWhile py_space (rev (dropWhile py_space s)))"

definition py_int :: "string \<Rightarrow> int option" where
  "py_int s =
     (case py_strip s of
        [] \<Rightarrow> None
      | c # r \<Rightarrow>
          if c = CHR ''-'' then map_option (\<lambda>n. - int n) (py_digits 0 False r)
          else if c = CHR ''+'' then map_option int (py_digits 0 False r)
          else map_option int (py_digits 0 False (c # r)))"

lemma digit_val_char [simp]: "d < 10 \<Longrightarrow> digit_val (digit_char d) = Some d"
  by (simp add: digit_val_def digit_char_def Let_def)

lemma py_digits_snoc:
  "py_digits a b s = Some n \<Longrightarrow> digit_val c = Some d \<Longrightarrow> py_digits a b (s @ [c]) = Some (n * 10 + d)"
  by (induction a b s rule: py_digits.induct) (auto split: option.splits if_splits)

lemma py_digits_nat_str: "py_digits 0 False (nat_str n) = Some n"
proof (induction n rule: nat_str.induct)
  case (1 n)
  show ?case
  proof (cases "n < 10")
    case True
    then show ?thesis by (simp add: nat_str.simps [of n])
  next
    case False
    then have "py_digits 0 False (nat_str (n div 10)) = Some (n div 10)" using 1 by simp
    then have "py_digits 0 False (nat_str (n div 10) @ [digit_char (n mod 10)])
        = Some (n div 10 * 10 + n mod 10)"
      by (rule py_digits_snoc) simp
    with False show ?thesis by (simp add: nat_str.simps [of n])
  qed
qed

lemma digit_char_range: "d < 10 \<Longrightarrow> \<not> py_space (digit_char d) \<and> digit_char d \<noteq> CHR ''-'' \<and> digit_char d \<noteq> CHR ''+''"
proof -
  have "\<forall>d \<in> set [0..<10]. \<not> py_space (digit_char d) \<and> digit_char d \<noteq> CHR ''-'' \<and> digit_char d \<noteq> CHR ''+''"
    by code_simp
  then show "d < 10 \<Longrightarrow> ?thesis" by simp
qed

lemma nat_str_digits: "set (nat_str n) \<subseteq> digit_char ` {..<10} \<and> nat_str n \<noteq> []"
proof (induction n rule: nat_str.induct)
  case (1 n)
  show ?case
  proof (cases "n < 10")
    case True
    then have "nat_str n = [digit_char n]" by (subst nat_str.simps) simp
    with True show ?thesis by simp
  next
    case False
    then have "nat_str n = nat_str (n div 10) @ [digit_char (n mod 10)]" by (subst nat_str.simps) simp
    moreover have "digit_char (n mod 10) \<in> digit_char ` {..<10}" by (intro imageI) simp
    ultimately show ?thesis using 1 [OF False] by (simp only: set_append) simp
  qed
qed

lemma py_strip_id: "s \<noteq> [] \<Longrightarrow> \<not> py_space (hd s) \<Longrightarrow> \<not> py_space (last s) \<Longrightarrow> py_strip s = s"
proof -
  assume s: "s \<noteq> []" "\<not> py_space (hd s)" "\<not> py_space (last s)"
  then have "dropWhile py_space s = s" by (cases s) auto
  moreover have "dropWhile py_space (rev s) = rev s" using s by (cases s rule: rev_cases) auto
  ultimately show ?thesis by (simp add: py_strip_def)
qed

theorem py_int_str: "py_int (int_str i) = Some i"
proof -
  have strip: "py_strip (nat_str n) = nat_str n" "py_strip (CHR ''-'' # nat_str n) = CHR ''-'' # nat_str n" for n
  proof -
    have ne: "nat_str n \<noteq> []" using nat_str_digits by blast
    have dig: "\<not> py_space c" if "c \<in> set (nat_str n)" for c
      using that nat_str_digits [of n] digit_char_range by blast
    show "py_strip (nat_str n) = nat_str n" using ne dig by (intro py_strip_id) auto
    show "py_strip (CHR ''-'' # nat_str n) = CHR ''-'' # nat_str n"
    proof (rule py_strip_id)
      show "\<not> py_space (hd (CHR ''-'' # nat_str n))" unfolding list.sel by code_simp
      show "\<not> py_space (last (CHR ''-'' # nat_str n))" using ne dig by simp
    qed simp
  qed
  have sign: "hd (nat_str n) \<noteq> CHR ''-'' \<and> hd (nat_str n) \<noteq> CHR ''+''" for n
  proof -
    have "hd (nat_str n) \<in> digit_char ` {..<10}" using nat_str_digits [of n] by auto
    then obtain d where "d < 10" "hd (nat_str n) = digit_char d" by auto
    then show ?thesis using digit_char_range [of d] by (simp only: simp_thms)
  qed
  have "py_int (nat_str n) = Some (int n)" for n
    unfolding py_int_def strip
    using nat_str_digits [of n] sign [of n] py_digits_nat_str [of n]
    by (cases "nat_str n") simp_all
  moreover have "py_int (CHR ''-'' # nat_str n) = Some (- int n)" for n
    unfolding py_int_def strip by (simp add: py_digits_nat_str)
  ultimately show ?thesis
    by (simp add: int_str_def)
qed

section \<open>JSON values\<close>

datatype json =
    JNull
  | JBool bool
  | JInt int
  | JFloat string
  | JStr string
  | JList "json list"
  | JObj "(string \<times> json) list"

fun truthy :: "json \<Rightarrow> bool" where
  "truthy JNull = False"
| "truthy (JBool b) = b"
| "truthy (JInt i) = (i \<noteq> 0)"
| "truthy (JFloat s) = (s \<notin> {''0.0'', ''-0.0''})"
| "truthy (JStr s) = (s \<noteq> [])"
| "truthy (JList l) = (l \<noteq> [])"
| "truthy (JObj d) = (d \<noteq> [])"

fun as_str :: "json \<Rightarrow> exn + string" where
  "as_str (JStr s) = Inr s"
| "as_str _ = Inl (PyError ''TypeError'' ''expected str'')"

fun is_str :: "json \<Rightarrow> bool" where
  "is_str (JStr s) = True"
| "is_str _ = False"

text \<open>\<open>isinstance(d, dict) and all(isinstance(k, str) and isinstance(v, str) ...)\<close>\<close>

fun as_str_dict :: "json \<Rightarrow> (string, string) dict option" where
  "as_str_dict (JObj d) =
     (if list_all (\<lambda>(k, v). is_str v) d
      then Some (map (\<lambda>(k, v). (k, case v of JStr s \<Rightarrow> s | _ \<Rightarrow> [])) d) else None)"
| "as_str_dict _ = None"

definition json_str_dict :: "(string, string) dict \<Rightarrow> json" where
  "json_str_dict d = JObj (map (\<lambda>(k, v). (k, JStr v)) d)"

lemma as_str_dict_json [simp]: "as_str_dict (json_str_dict d) = Some d"
  by (simp add: json_str_dict_def list_all_iff comp_def case_prod_beta)

lemma as_str_dict_Some: "as_str_dict j = Some d \<Longrightarrow> j = json_str_dict d"
proof (cases j)
  case (JObj e)
  assume "as_str_dict j = Some d"
  with JObj have e: "list_all (\<lambda>(k, v). is_str v) e"
    and d: "d = map (\<lambda>(k, v). (k, case v of JStr s \<Rightarrow> s | _ \<Rightarrow> [])) e"
    by (auto split: if_splits)
  have "v = JStr (case v of JStr s \<Rightarrow> s | _ \<Rightarrow> [])" if "is_str v" for v
    using that by (cases v) auto
  with e have "map (\<lambda>(k, v). (k, JStr v)) d = e"
    unfolding d map_map by (intro map_idI) (auto simp: list_all_iff)
  with JObj show ?thesis by (simp add: json_str_dict_def)
qed simp_all

text \<open>\<open>dict(x)\<close> of a decoded value: an object as it is, an iterable of pairs as items set in
  order; a pair is a two-element array whose first element is text. A text item of two characters,
  which Python would also take as a pair, is an error here.\<close>

fun py_dict_items :: "(string, json) dict \<Rightarrow> json list \<Rightarrow> exn + (string, json) dict" where
  "py_dict_items d [] = Inr d"
| "py_dict_items d (JList [JStr k, v] # l) = py_dict_items (dict_set k v d) l"
| "py_dict_items d _ = Inl (PyError ''ValueError'' ''dictionary update sequence element'')"

fun py_dict :: "json \<Rightarrow> exn + (string, json) dict" where
  "py_dict (JObj d) = Inr d"
| "py_dict (JList l) = py_dict_items [] l"
| "py_dict (JStr []) = Inr []"
| "py_dict _ = Inl (PyError ''TypeError'' ''object is not iterable'')"

text \<open>\<open>x == 1\<close>: the boolean \<open>true\<close> and the float \<open>1.0\<close> are equal to 1 in Python.\<close>

fun json_is_one :: "json option \<Rightarrow> bool" where
  "json_is_one (Some (JInt i)) = (i = 1)"
| "json_is_one (Some (JBool b)) = b"
| "json_is_one (Some (JFloat s)) = (s = ''1.0'')"
| "json_is_one _ = False"

text \<open>What \<open>json.loads\<close> gives back of \<open>json.dumps(..., sort_keys=True)\<close>.\<close>

fun sort_keys :: "json \<Rightarrow> json" where
  "sort_keys (JList l) = JList (map sort_keys l)"
| "sort_keys (JObj d) = JObj (sort_key fst (map (\<lambda>(k, v). (k, sort_keys v)) d))"
| "sort_keys j = j"

lemma dict_get_sort: "distinct (map fst d) \<Longrightarrow> dict_get (sort_key f d) k = dict_get d k"
proof -
  assume d: "distinct (map fst d)"
  then have "distinct (map fst (sort_key f d))"
    by (metis distinct_map distinct_sort set_sort)
  with d show ?thesis
    by (cases "dict_get d k") (auto simp: dict_get_mem, simp add: map_of_eq_None_iff)
qed

definition sorted_items :: "(string, json) dict \<Rightarrow> (string, json) dict" where
  "sorted_items d = sort_key fst (map (\<lambda>(k, v). (k, sort_keys v)) d)"

lemma sort_keys_obj: "sort_keys (JObj d) = JObj (sorted_items d)"
  by (simp add: sorted_items_def)

lemma dict_get_sorted:
  "distinct (map fst d) \<Longrightarrow> dict_get (sorted_items d) k = map_option sort_keys (dict_get d k)"
proof -
  assume d: "distinct (map fst d)"
  have "map fst (map (\<lambda>(k, v). (k, sort_keys v)) d) = map fst d" by auto
  with d show ?thesis unfolding sorted_items_def by (simp only: dict_get_sort map_of_map) (simp add: map_of_map)
qed

lemma insort_key_map: "(\<And>x. g (f x) = h x) \<Longrightarrow>
    insort_key g (f x) (map f xs) = map f (insort_key h x xs)"
  by (induction xs) auto

lemma sort_key_map: "(\<And>x. g (f x) = h x) \<Longrightarrow> sort_key g (map f xs) = map f (sort_key h xs)"
  by (induction xs) (auto simp: insort_key_map [of g f h])

lemma sort_keys_str_dict: "sort_keys (json_str_dict d) = json_str_dict (sort_key fst d)"
proof -
  have a: "map (\<lambda>(k, v). (k, sort_keys v)) (map (\<lambda>(k, v). (k, JStr v)) d) = map (\<lambda>(k, v). (k, JStr v)) d" by auto
  have b: "sort_key fst (map (\<lambda>(k, v). (k, JStr v)) d) = map (\<lambda>(k, v). (k, JStr v)) (sort_key fst d)"
    by (rule sort_key_map) auto
  show ?thesis unfolding json_str_dict_def sort_keys.simps a b ..
qed

lemma sum_list_insort_key: "sum_list (map f (insort_key g x xs)) = f x + (sum_list (map f xs) :: nat)"
  by (induction xs) auto

lemma sum_list_sort_key: "sum_list (map f (sort_key g xs)) = (sum_list (map f xs) :: nat)"
  by (induction xs) (simp_all add: sum_list_insort_key)

text \<open>\<open>str(value)\<close>; \<open>show\<close> is that of a value that is no text.\<close>

definition str_of :: "(json \<Rightarrow> string) \<Rightarrow> json \<Rightarrow> string" where
  "str_of show j = (case j of JStr s \<Rightarrow> s | _ \<Rightarrow> show j)"

end
