(* ===== verification/Frame.thy ===== *)
theory Frame
  imports Codec
begin

text \<open>
  The length-prefixed protocol between the sandbox agent and its child process
  (\<open>worker/agent.py\<close>, \<open>worker/child.py\<close>): four magic bytes, a big-endian length, the
  payload. A file descriptor is the list of segments the kernel will hand out: one \<open>read\<close> returns
  at most the bytes of one segment, so every way of splitting a stream into short reads is a value
  of the model. The outcomes of successive \<open>write\<close> calls are a list of accepted counts.
\<close>

type_synonym fd = "bytes list"

definition protocol_magic :: bytes where
  "protocol_magic = [77, 80, 82, 49]"

definition MAX_REQUEST_BYTES :: nat where "MAX_REQUEST_BYTES = 16777216"
definition MAX_RESULT_BYTES :: nat where "MAX_RESULT_BYTES = 20971520"

fun fd_read :: "nat \<Rightarrow> fd \<Rightarrow> bytes \<times> fd" where
  "fd_read n [] = ([], [])"
| "fd_read n ([] # cs) = fd_read n cs"
| "fd_read n (c # cs) = (take n c, drop n c # cs)"

lemma fd_read_concat: "fd_read n cs = (b, cs') \<Longrightarrow> concat cs = b @ concat cs' \<and> length b \<le> n"
  by (induction n cs rule: fd_read.induct) (auto simp flip: append_assoc)

lemma fd_read_empty: "fd_read n cs = (b, cs') \<Longrightarrow> 0 < n \<Longrightarrow> b = [] \<longleftrightarrow> concat cs = []"
  by (induction n cs rule: fd_read.induct) auto

section \<open>Reading\<close>

function read_exact_loop :: "nat \<Rightarrow> bytes \<Rightarrow> fd \<Rightarrow> (exn + bytes) \<times> fd" where
  "read_exact_loop remaining acc fd =
     (if remaining = 0 then (Inr acc, fd)
      else (case fd_read remaining fd of (chunk, fd') \<Rightarrow>
        if chunk = [] then
          (Inl (PyError ''EOFError'' (''protocol stream ended with '' @ nat_str remaining @ '' bytes remaining'')), fd')
        else read_exact_loop (remaining - length chunk) (acc @ chunk) fd'))"
  by auto
termination
  by (relation "measure (\<lambda>(remaining, _, _). remaining)") (auto dest: fd_read_concat)

declare read_exact_loop.simps [simp del]

definition read_exact :: "fd \<Rightarrow> nat \<Rightarrow> (exn + bytes) \<times> fd" where
  "read_exact fd len4 = read_exact_loop len4 [] fd"

definition read_frame :: "fd \<Rightarrow> nat \<Rightarrow> exn + bytes" where
  "read_frame fd max_bytes =
     (case read_exact fd 8 of
        (Inl e, _) \<Rightarrow> Inl e
      | (Inr header, fd1) \<Rightarrow>
          if take 4 header \<noteq> protocol_magic
          then Inl (PyError ''ValueError'' ''invalid child protocol magic'')
          else (let len4 = from_bytes (take 4 (drop 4 header)) in
            if max_bytes < len4
            then Inl (PyError ''ValueError'' (''protocol frame exceeds limit: '' @ nat_str len4))
            else (case read_exact fd1 len4 of
                    (Inl e, _) \<Rightarrow> Inl e
                  | (Inr payload, fd2) \<Rightarrow>
                      if fst (fd_read 1 fd2) \<noteq> []
                      then Inl (PyError ''ValueError'' ''unexpected trailing bytes after protocol frame'')
                      else Inr payload)))"

lemma read_exact_loop_spec:
  "read_exact_loop n acc fd = (r, fd') \<Longrightarrow>
     (if n \<le> length (concat fd)
      then r = Inr (acc @ take n (concat fd)) \<and> concat fd' = drop n (concat fd)
      else \<exists>e. r = Inl e)"
proof (induction n acc fd rule: read_exact_loop.induct)
  case (1 n acc fd)
  show ?case
  proof (cases "n = 0")
    case True
    with "1.prems" show ?thesis by (simp add: read_exact_loop.simps [of 0])
  next
    case False
    obtain chunk fd1 where rd: "fd_read n fd = (chunk, fd1)" by (cases "fd_read n fd")
    from fd_read_concat [OF rd] have c: "concat fd = chunk @ concat fd1" "length chunk \<le> n" by auto
    show ?thesis
    proof (cases "chunk = []")
      case True
      with False fd_read_empty [OF rd] have e: "concat fd = []" by (simp del: concat_eq_Nil_conv)
      from True False "1.prems" rd show ?thesis
        unfolding e by (auto simp: read_exact_loop.simps [of n])
    next
      case ne: False
      from "1.prems" False ne rd
      have "read_exact_loop (n - length chunk) (acc @ chunk) fd1 = (r, fd')"
        by (simp add: read_exact_loop.simps [of n])
      from "1.IH" [OF False rd [symmetric] ne this] show ?thesis using c
        by (auto split: if_splits)
    qed
  qed
qed

lemma read_exact_ok:
  "n \<le> length (concat fd) \<Longrightarrow>
     \<exists>fd'. read_exact fd n = (Inr (take n (concat fd)), fd') \<and> concat fd' = drop n (concat fd)"
  using read_exact_loop_spec [of n "[]" fd] unfolding read_exact_def
  by (cases "read_exact_loop n [] fd") auto

lemma read_exact_eof:
  "length (concat fd) < n \<Longrightarrow> \<exists>e fd'. read_exact fd n = (Inl e, fd')"
  using read_exact_loop_spec [of n "[]" fd] unfolding read_exact_def
  by (cases "read_exact_loop n [] fd") auto

section \<open>Writing\<close>

fun write_all_loop :: "nat list \<Rightarrow> bytes \<Rightarrow> (exn + unit) \<times> fd" where
  "write_all_loop ks [] = (Inr (), [])"
| "write_all_loop [] view = (Inr (), [view])"
| "write_all_loop (k # ks) view =
     (if k = 0 then (Inl (PyError ''BrokenPipeError'' ''could not write child protocol frame''), [])
      else (case write_all_loop ks (drop k view) of (r, out) \<Rightarrow> (r, take k view # out)))"

definition write_frame :: "nat list \<Rightarrow> bytes \<Rightarrow> (exn + unit) \<times> fd" where
  "write_frame ks payload =
     (if MAX_RESULT_BYTES < length payload
      then (Inl (PyError ''ValueError'' ''child result protocol frame exceeds limit''), [])
      else (case to_bytes4 (length payload) of
              Inl e \<Rightarrow> (Inl e, [])
            | Inr len4 \<Rightarrow> write_all_loop ks ((protocol_magic @ len4) @ payload)))"

definition encode_frame :: "bytes \<Rightarrow> exn + bytes" where
  "encode_frame payload =
     (case to_bytes4 (length payload) of
        Inl e \<Rightarrow> Inl e
      | Inr len4 \<Rightarrow> Inr (protocol_magic @ len4 @ payload))"

definition decode_frame :: "bytes \<Rightarrow> nat \<Rightarrow> exn + bytes" where
  "decode_frame raw max_bytes =
     (if length raw < 8 then Inl (PyError ''ValueError'' ''child protocol frame is truncated'')
      else if take 4 raw \<noteq> protocol_magic
      then Inl (PyError ''ValueError'' ''invalid child protocol magic'')
      else (let len4 = from_bytes (take 4 (drop 4 raw)) in
        if max_bytes < len4
        then Inl (PyError ''ValueError'' ''child protocol frame exceeds configured limit'')
        else if length raw \<noteq> 8 + len4
        then Inl (PyError ''ValueError'' (''child protocol length mismatch: declared='' @ nat_str len4
               @ '', actual='' @ nat_str (length raw - 8)))
        else Inr (drop 8 raw)))"

lemma write_all_concat: "write_all_loop ks view = (Inr u, out) \<Longrightarrow> concat out = view"
  by (induction ks view arbitrary: out rule: write_all_loop.induct)
     (auto split: if_splits prod.splits)

lemma write_all_ok: "0 \<notin> set ks \<Longrightarrow> fst (write_all_loop ks view) = Inr ()"
  by (induction ks view rule: write_all_loop.induct) (auto split: prod.splits)

lemma magic_length [simp]: "length protocol_magic = 4"
  by (simp add: protocol_magic_def)

text \<open>A well-formed frame: the bytes both ends agree on.\<close>

definition is_frame :: "bytes \<Rightarrow> bytes \<Rightarrow> bool" where
  "is_frame payload raw \<longleftrightarrow> (\<exists>len4. raw = protocol_magic @ len4 @ payload
     \<and> length len4 = 4 \<and> from_bytes len4 = length payload)"

lemma encode_frame_is_frame: "encode_frame payload = Inr raw \<Longrightarrow> is_frame payload raw"
  by (auto simp: encode_frame_def is_frame_def dest: to_bytes4_roundtrip split: sum.splits)

lemma encode_frame_total: "length payload < 4294967296 \<Longrightarrow> \<exists>raw. encode_frame payload = Inr raw"
  by (simp add: encode_frame_def to_bytes4_def)

lemma write_frame_is_frame:
  "write_frame ks payload = (Inr u, out) \<Longrightarrow> is_frame payload (concat out) \<and> length payload \<le> MAX_RESULT_BYTES"
  by (auto simp: write_frame_def is_frame_def dest!: write_all_concat to_bytes4_roundtrip
      split: if_splits sum.splits)

lemma is_frame_parts:
  assumes "is_frame payload raw"
  shows "length raw = 8 + length payload" "take 4 raw = protocol_magic"
    "from_bytes (take 4 (drop 4 raw)) = length payload" "drop 8 raw = payload"
  using assms by (auto simp: is_frame_def)

lemma decode_is_frame:
  "is_frame payload raw \<Longrightarrow> length payload \<le> m \<Longrightarrow> decode_frame raw m = Inr payload"
  by (simp add: decode_frame_def is_frame_parts Let_def)

lemma decode_frame_only: "decode_frame raw m = Inr payload \<Longrightarrow> is_frame payload raw \<and> length payload \<le> m"
proof -
  assume "decode_frame raw m = Inr payload"
  define n where "n = from_bytes (take 4 (drop 4 raw))"
  from \<open>decode_frame raw m = Inr payload\<close>
  have d: "(if length raw < 8 then Inl (PyError ''ValueError'' ''child protocol frame is truncated'')
      else if take 4 raw \<noteq> protocol_magic then Inl (PyError ''ValueError'' ''invalid child protocol magic'')
      else if m < n then Inl (PyError ''ValueError'' ''child protocol frame exceeds configured limit'')
      else if length raw \<noteq> 8 + n
      then Inl (PyError ''ValueError'' (''child protocol length mismatch: declared='' @ nat_str n
               @ '', actual='' @ nat_str (length raw - 8)))
      else Inr (drop 8 raw)) = Inr payload"
    unfolding decode_frame_def Let_def n_def [symmetric] .
  have "\<not> length raw < 8" using d by (rule contrapos_pn) simp
  moreover with d have "take 4 raw = protocol_magic" by (rule_tac ccontr) simp
  moreover from calculation d have "\<not> m < n" by (rule_tac notI) simp
  moreover from calculation d have "length raw = 8 + n" by (rule_tac ccontr) simp
  moreover from calculation d have "payload = drop 8 raw" by simp
  ultimately
  have "\<not> length raw < 8" "take 4 raw = protocol_magic" "\<not> m < n" "length raw = 8 + n" "payload = drop 8 raw"
    by blast+
  note r = this [unfolded n_def]
  have "drop 4 raw = take 4 (drop 4 raw) @ drop 4 (drop 4 raw)"
    by (rule append_take_drop_id [symmetric])
  then have "raw = take 4 raw @ take 4 (drop 4 raw) @ drop 4 (drop 4 raw)"
    using append_take_drop_id [of 4 raw] by (simp only:)
  then have "raw = protocol_magic @ take 4 (drop 4 raw) @ payload"
    unfolding r(2,5) by (simp only: drop_drop) simp
  moreover have "length (take 4 (drop 4 raw)) = 4" using r(1) by simp
  moreover have "length payload = from_bytes (take 4 (drop 4 raw))"
    unfolding r(5) length_drop using r(4) by linarith
  ultimately show ?thesis unfolding is_frame_def using r(3) by (metis not_less)
qed

lemma read_is_frame:
  assumes "is_frame payload (concat fd)" "length payload \<le> m"
  shows "read_frame fd m = Inr payload"
proof -
  note p = is_frame_parts [OF assms(1)]
  obtain fd1 where fd1: "read_exact fd 8 = (Inr (take 8 (concat fd)), fd1)" "concat fd1 = payload"
    using read_exact_ok [of 8 fd] p by auto
  obtain fd2 where fd2: "read_exact fd1 (length payload) = (Inr payload, fd2)" "concat fd2 = []"
    using read_exact_ok [of "length payload" fd1] fd1 by auto
  have "fst (fd_read 1 fd2) = []"
    using fd_read_empty [of 1 fd2] fd2(2) by (cases "fd_read 1 fd2") auto
  moreover have "take 4 (take 8 (concat fd)) = protocol_magic"
    "take 4 (drop 4 (take 8 (concat fd))) = take 4 (drop 4 (concat fd))"
    using p by (simp_all add: drop_take)
  ultimately show ?thesis
    using assms(2) fd1 fd2 p by (simp add: read_frame_def Let_def)
qed

section \<open>Bounded readers\<close>

text \<open>\<open>_bounded_reader\<close> and \<open>_bounded_fd_reader\<close>: the collected bytes and whether the limit was
  exceeded, in which case the process group is killed and the rest is dropped. A buffered stream
  fills each block of 64 KiB; a descriptor returns what one segment holds.\<close>

definition READ_BLOCK :: nat where "READ_BLOCK = 65536"

function bounded_reader :: "bytes \<Rightarrow> bytes \<Rightarrow> nat \<Rightarrow> bytes \<times> bool" where
  "bounded_reader stream target cap =
     (let chunk = take READ_BLOCK stream in
      if chunk = [] then (target, False)
      else if cap < length target + length chunk then
        (let remaining = cap - length target
         in (if remaining \<noteq> 0 then target @ take remaining chunk else target, True))
      else bounded_reader (drop READ_BLOCK stream) (target @ chunk) cap)"
  by auto
termination
  by (relation "measure (\<lambda>(stream, _, _). length stream)") (auto simp: READ_BLOCK_def)

declare bounded_reader.simps [simp del]

function bounded_fd_reader :: "fd \<Rightarrow> bytes \<Rightarrow> nat \<Rightarrow> bytes \<times> bool" where
  "bounded_fd_reader fd target cap =
     (case fd_read READ_BLOCK fd of (chunk, fd') \<Rightarrow>
      if chunk = [] then (target, False)
      else if cap < length target + length chunk then
        (let remaining = cap - length target
         in (if remaining \<noteq> 0 then target @ take remaining chunk else target, True))
      else bounded_fd_reader fd' (target @ chunk) cap)"
  by auto
termination
  by (relation "measure (\<lambda>(fd, _, _). length (concat fd))")
     (auto dest!: fd_read_concat [OF sym])

declare bounded_fd_reader.simps [simp del]

lemma bounded_reader_spec:
  "length target \<le> cap \<Longrightarrow> bounded_reader stream target cap =
     (take cap (target @ stream), cap < length (target @ stream))"
proof (induction stream target cap rule: bounded_reader.induct)
  case (1 stream target cap)
  show ?case
  proof (cases "cap < length target + length (take READ_BLOCK stream)")
    case True
    then have lt: "cap - length target \<le> READ_BLOCK" "cap < length target + length stream" by auto
    then have "take (cap - length target) (take READ_BLOCK stream) = take (cap - length target) stream"
      by (simp add: min_def)
    with True lt "1.prems" show ?thesis
      by (auto simp: bounded_reader.simps [of stream] Let_def)
  next
    case False
    show ?thesis
    proof (cases "stream = []")
      case True
      with "1.prems" show ?thesis by (simp add: bounded_reader.simps [of "[]"] Let_def)
    next
      case ne: False
      then have n: "take READ_BLOCK stream \<noteq> []" by (simp add: READ_BLOCK_def)
      from False have "length (target @ take READ_BLOCK stream) \<le> cap" by simp
      from "1.IH" [OF refl n False this] have
        "bounded_reader (drop READ_BLOCK stream) (target @ take READ_BLOCK stream) cap
         = (take cap (target @ stream), cap < length (target @ stream))"
        by (simp del: length_append add: append_assoc)
      with False n show ?thesis by (simp add: bounded_reader.simps [of stream] Let_def)
    qed
  qed
qed

lemma bounded_fd_reader_spec:
  "length target \<le> cap \<Longrightarrow> bounded_fd_reader fd target cap =
     (take cap (target @ concat fd), cap < length (target @ concat fd))"
proof (induction fd target cap rule: bounded_fd_reader.induct)
  case (1 fd target cap)
  obtain chunk fd1 where rd: "fd_read READ_BLOCK fd = (chunk, fd1)" by (cases "fd_read READ_BLOCK fd")
  from fd_read_concat [OF rd] have c: "concat fd = chunk @ concat fd1" by simp
  show ?case
  proof (cases "cap < length target + length chunk")
    case True
    with "1.prems" c rd show ?thesis
      by (auto simp: bounded_fd_reader.simps [of fd] Let_def)
  next
    case False
    show ?thesis
    proof (cases "chunk = []")
      case True
      with fd_read_empty [OF rd] have e: "concat fd = []" by (simp add: READ_BLOCK_def del: concat_eq_Nil_conv)
      from True rd "1.prems" show ?thesis unfolding e by (simp add: bounded_fd_reader.simps [of fd])
    next
      case ne: False
      from False have "length (target @ chunk) \<le> cap" by simp
      from "1.IH" [OF rd [symmetric] ne False this] False ne rd c show ?thesis
        by (simp add: bounded_fd_reader.simps [of fd])
    qed
  qed
qed

section \<open>Theorems\<close>

text \<open>Whatever way the kernel splits the writes of the child and the reads of the agent, a
  result frame the child managed to write is decoded by the agent to the same payload.\<close>

theorem child_frame_reaches_agent:
  assumes "write_frame ks payload = (Inr (), out)" "concat fd = concat out"
    and "length payload \<le> max_protocol"
  shows "\<exists>raw. bounded_fd_reader fd [] (max_protocol + 8) = (raw, False) \<and>
           decode_frame raw max_protocol = Inr payload"
proof -
  from write_frame_is_frame [OF assms(1)] have "is_frame payload (concat fd)" using assms(2) by simp
  with assms(3) show ?thesis
    by (simp add: bounded_fd_reader_spec is_frame_parts decode_is_frame)
qed

end
