(* ===== verification/Child.thy ===== *)
theory Child
  imports Frame
begin

text \<open>
  The child process that runs one user function (\<open>worker/child.py\<close>): the hardening calls, the
  normalisation and limits of the user's return value, \<open>execute\<close> and \<open>main\<close>. The user's module,
  the path layer, the traceback printer and the JSON text codec are parameters, collected in the
  record \<open>child_env\<close>. Text is its UTF-8 bytes.
\<close>

section \<open>Python values a user function can return\<close>

datatype pyval =
    PyNone
  | PyBool bool
  | PyInt int
  | PyBytes bytes
  | PyByteArray bytes
  | PyStr string
  | PyList "pyval list"
  | PyDict "(pyval \<times> pyval) list"
  | PyOther

definition utf8 :: "string \<Rightarrow> bytes" where
  "utf8 s = map of_char s"

lemma utf8_length [simp]: "length (utf8 s) = length s"
  by (simp add: utf8_def)

definition py_get :: "(pyval \<times> pyval) list \<Rightarrow> string \<Rightarrow> pyval \<Rightarrow> pyval" where
  "py_get d k v = (case map_of d (PyStr k) of Some x \<Rightarrow> x | None \<Rightarrow> v)"

fun py_str_of :: "pyval \<Rightarrow> string option" where
  "py_str_of (PyStr s) = Some s"
| "py_str_of _ = None"

text \<open>\<open>isinstance(v, dict)\<close> with only text keys and text values.\<close>

fun str_items :: "(pyval \<times> pyval) list \<Rightarrow> (string, string) dict option" where
  "str_items [] = Some []"
| "str_items ((k, v) # d) =
     (case (py_str_of k, py_str_of v, str_items d) of
        (Some k', Some v', Some d') \<Rightarrow> Some ((k', v') # d')
      | _ \<Rightarrow> None)"

fun py_str_dict :: "pyval \<Rightarrow> (string, string) dict option" where
  "py_str_dict (PyDict d) = str_items d"
| "py_str_dict _ = None"

fun unhashable :: "pyval \<Rightarrow> bool" where
  "unhashable (PyByteArray _) = True"
| "unhashable (PyList _) = True"
| "unhashable (PyDict _) = True"
| "unhashable _ = False"

section \<open>Environment variables and hardening\<close>

definition int_env :: "(string, string) dict \<Rightarrow> string \<Rightarrow> int \<Rightarrow> int" where
  "int_env env name dflt =
     (case py_int (dict_get_or env name (int_str dflt)) of Some i \<Rightarrow> i | None \<Rightarrow> dflt)"

datatype syscall =
    Prctl int int
  | SetRLimit string int int
  | SetGroups "int list"
  | SetGid int
  | SetUid int

definition set_limit :: "string \<Rightarrow> int \<Rightarrow> int option \<Rightarrow> syscall list" where
  "set_limit which soft hard =
     (if soft < 0 then []
      else [SetRLimit which soft (case hard of None \<Rightarrow> soft | Some h \<Rightarrow> h)])"

definition harden_process :: "(string, string) dict \<Rightarrow> int \<Rightarrow> int \<Rightarrow> syscall list" where
  "harden_process env euid egid =
     (let nofile = int_env env ''RUNNER_CHILD_NOFILE'' 256;
          nproc = int_env env ''RUNNER_CHILD_NPROC'' 64;
          cpu_seconds = int_env env ''RUNNER_CHILD_CPU_SECONDS'' 0;
          address_space_bytes = int_env env ''RUNNER_CHILD_ADDRESS_SPACE_BYTES'' 0;
          uid = int_env env ''RUNNER_CHILD_UID'' euid;
          gid = int_env env ''RUNNER_CHILD_GID'' egid
      in [Prctl 38 1]
         @ set_limit ''RLIMIT_CORE'' 0 None
         @ (if 0 < nofile then set_limit ''RLIMIT_NOFILE'' nofile None else [])
         @ (if 0 < nproc then set_limit ''RLIMIT_NPROC'' nproc None else [])
         @ (if 0 < cpu_seconds then set_limit ''RLIMIT_CPU'' cpu_seconds (Some (cpu_seconds + 1)) else [])
         @ (if 0 < address_space_bytes then set_limit ''RLIMIT_AS'' address_space_bytes None else [])
         @ (if euid = 0 then [SetGroups [], SetGid gid, SetUid uid] else []))"

section \<open>Results\<close>

record child_result =
  cr_status :: string
  cr_relationship :: string
  cr_content_b64 :: string
  cr_attributes :: "(string, string) dict"
  cr_retryable :: bool
  cr_error_code :: string
  cr_error_message :: string

record normalized =
  nr_status :: string
  nr_content :: bytes
  nr_attributes :: "(string, string) dict"
  nr_relationship :: string
  nr_retryable :: bool
  nr_error_code :: string
  nr_error_message :: string

definition failed :: "string \<Rightarrow> string \<Rightarrow> child_result" where
  "failed code message =
     \<lparr>cr_status = ''FAILED'', cr_relationship = ''failure'', cr_content_b64 = [], cr_attributes = [],
      cr_retryable = False, cr_error_code = code, cr_error_message = message\<rparr>"

definition invalid_user_result :: "string \<Rightarrow> exn" where
  "invalid_user_result m = PyError ''InvalidUserResultError'' m"

definition output_limit :: "string \<Rightarrow> exn" where
  "output_limit m = PyError ''OutputLimitError'' m"

fun encode_content :: "pyval \<Rightarrow> exn + bytes" where
  "encode_content PyNone = Inr []"
| "encode_content (PyBytes b) = Inr b"
| "encode_content (PyByteArray b) = Inr b"
| "encode_content (PyStr s) = Inr (utf8 s)"
| "encode_content _ =
     Inl (invalid_user_result ''operator result content must be bytes, bytearray, str, or None'')"

definition plain_success :: "bytes \<Rightarrow> normalized" where
  "plain_success content =
     \<lparr>nr_status = ''SUCCEEDED'', nr_content = content, nr_attributes = [], nr_relationship = ''success'',
      nr_retryable = False, nr_error_code = [], nr_error_message = []\<rparr>"

definition normalize_status :: "pyval \<Rightarrow> bool \<Rightarrow> exn + string" where
  "normalize_status v retryable =
     (let status = (if v = PyNone then PyStr (if retryable then ''FAILED'' else ''SUCCEEDED'') else v) in
      if unhashable status then Inl (PyError ''TypeError'' ''unhashable type'')
      else (case py_str_of status of
              None \<Rightarrow> Inl (invalid_user_result ''status must be SUCCEEDED or FAILED'')
            | Some s \<Rightarrow>
                if s \<notin> {''SUCCEEDED'', ''FAILED''}
                then Inl (invalid_user_result ''status must be SUCCEEDED or FAILED'')
                else if s = ''SUCCEEDED'' \<and> retryable
                then Inl (invalid_user_result ''a successful result cannot be retryable'')
                else Inr s))"

definition normalize_dict :: "(pyval \<times> pyval) list \<Rightarrow> bytes \<Rightarrow> exn + normalized" where
  "normalize_dict value original =
     (case py_str_dict (py_get value ''attributes'' (PyDict [])) of
        None \<Rightarrow> Inl (invalid_user_result ''result attributes must be dict[str, str]'')
      | Some attributes \<Rightarrow>
     (case py_get value ''retryable'' (PyBool False) of
        PyBool retryable \<Rightarrow>
     (case normalize_status (py_get value ''status'' PyNone) retryable of
        Inl e \<Rightarrow> Inl e
      | Inr status \<Rightarrow>
     (let dflt = (if retryable then ''retry'' else if status = ''FAILED'' then ''failure'' else ''success'') in
      case py_str_of (py_get value ''relationship'' (PyStr dflt)) of
        None \<Rightarrow> Inl (invalid_user_result ''relationship must be a non-empty string'')
      | Some relationship \<Rightarrow>
          if relationship = []
          then Inl (invalid_user_result ''relationship must be a non-empty string'')
          else
     (case (py_str_of (py_get value ''error_code'' (PyStr [])),
            py_str_of (py_get value ''error_message'' (PyStr []))) of
        (Some code, Some message) \<Rightarrow>
          (let error_code = (if status = ''FAILED'' \<and> code = [] then ''OPERATOR_REPORTED_FAILURE'' else code) in
           case encode_content (py_get value ''content'' (PyBytes original)) of
             Inl e \<Rightarrow> Inl e
           | Inr content \<Rightarrow>
               Inr \<lparr>nr_status = status, nr_content = content, nr_attributes = attributes,
                    nr_relationship = relationship, nr_retryable = retryable,
                    nr_error_code = error_code, nr_error_message = message\<rparr>)
      | _ \<Rightarrow> Inl (invalid_user_result ''error_code and error_message must be strings''))))
      | _ \<Rightarrow> Inl (invalid_user_result ''retryable must be a boolean'')))"

fun normalize_result :: "pyval \<Rightarrow> bytes \<Rightarrow> exn + normalized" where
  "normalize_result PyNone original = Inr (plain_success original)"
| "normalize_result (PyBytes b) original = Inr (plain_success b)"
| "normalize_result (PyByteArray b) original = Inr (plain_success b)"
| "normalize_result (PyStr s) original = Inr (plain_success (utf8 s))"
| "normalize_result (PyDict d) original = normalize_dict d original"
| "normalize_result _ original = Inl (invalid_user_result ''operator must return bytes, str, dict or None'')"

definition attribute_bytes :: "(string, string) dict \<Rightarrow> nat" where
  "attribute_bytes d = (\<Sum>(k, v) \<leftarrow> d. length k + length v)"

definition validate_output :: "(string, string) dict \<Rightarrow> bytes \<Rightarrow> (string, string) dict \<Rightarrow> exn + unit" where
  "validate_output env content attributes =
     (let max_output = int_env env ''RUNNER_MAX_OUTPUT_BYTES'' 8388608;
          max_attributes = int_env env ''RUNNER_MAX_ATTRIBUTES'' 128;
          max_attribute_bytes = int_env env ''RUNNER_MAX_ATTRIBUTE_BYTES'' 65536
      in if max_output < int (length content)
         then Inl (output_limit ''operator output exceeds byte limit'')
         else if max_attributes < int (length attributes)
         then Inl (output_limit ''operator output has too many attributes'')
         else if max_attribute_bytes < int (attribute_bytes attributes)
         then Inl (output_limit ''operator output attributes exceed byte limit'')
         else Inr ())"

section \<open>Executing one request\<close>

record ('m, 'f) child_env =
  ce_env :: "(string, string) dict"
  ce_euid :: int
  ce_egid :: int
  ce_harden :: "syscall list \<Rightarrow> exn + unit"
  ce_resolve :: "string \<Rightarrow> string"
  ce_is_dir :: "string \<Rightarrow> bool"
  ce_sys_path :: "string list"
  ce_path_layer :: "exn + unit"
  ce_import :: "string list \<Rightarrow> string \<Rightarrow> exn + 'm"
  ce_getattr :: "'m \<Rightarrow> string \<Rightarrow> exn + 'f"
  ce_call :: "'f \<Rightarrow> bytes \<Rightarrow> (string, json) dict \<Rightarrow> (string, json) dict \<Rightarrow> exn + pyval"
  ce_traceback :: "exn \<Rightarrow> string"
  ce_context :: string
  ce_loads :: "bytes \<Rightarrow> exn + json"
  ce_dumps :: "json \<Rightarrow> bytes"

record exec_args =
  xa_root :: string
  xa_dependency :: "json option"
  xa_module :: string
  xa_function :: string
  xa_content :: bytes
  xa_attributes :: "(string, json) dict"
  xa_parameters :: "(string, json) dict"

definition split_entrypoint :: "json \<Rightarrow> exn + string \<times> string" where
  "split_entrypoint j =
     (case j of
        JStr s \<Rightarrow>
          (if CHR '':'' \<in> set s
           then Inr (takeWhile (\<lambda>c. c \<noteq> CHR '':'') s, tl (dropWhile (\<lambda>c. c \<noteq> CHR '':'') s))
           else Inl (PyError ''ValueError'' ''not enough values to unpack (expected 2, got 1)''))
      | _ \<Rightarrow> Inl (PyError ''AttributeError'' ''split''))"

definition key_error :: "string \<Rightarrow> exn" where
  "key_error k = PyError ''KeyError'' ([CHR 0x27] @ k @ [CHR 0x27])"

definition decode_b64 :: "json \<Rightarrow> exn + bytes" where
  "decode_b64 j =
     (case j of
        JStr s \<Rightarrow> (case b64decode s of Some b \<Rightarrow> Inr b
                  | None \<Rightarrow> Inl (PyError ''binascii.Error'' ''invalid base64''))
      | _ \<Rightarrow> Inl (PyError ''TypeError'' ''argument should be a bytes-like object or ASCII string''))"

definition parse_request :: "('m, 'f) child_env \<Rightarrow> (string, json) dict \<Rightarrow> exn + exec_args" where
  "parse_request E request =
     (case dict_get request ''release_root'' of
        None \<Rightarrow> Inl (key_error ''release_root'')
      | Some root \<Rightarrow>
     (case as_str root of
        Inl e \<Rightarrow> Inl e
      | Inr root' \<Rightarrow>
     (case dict_get request ''entrypoint'' of
        None \<Rightarrow> Inl (key_error ''entrypoint'')
      | Some ep \<Rightarrow>
     (case split_entrypoint ep of
        Inl e \<Rightarrow> Inl e
      | Inr (m, f) \<Rightarrow>
     (case decode_b64 (dict_get_or request ''content_b64'' (JStr [])) of
        Inl e \<Rightarrow> Inl e
      | Inr content \<Rightarrow>
     (case py_dict (dict_get_or request ''attributes'' (JObj [])) of
        Inl e \<Rightarrow> Inl e
      | Inr attributes \<Rightarrow>
     (case py_dict (dict_get_or request ''parameters'' (JObj [])) of
        Inl e \<Rightarrow> Inl e
      | Inr parameters \<Rightarrow>
          Inr \<lparr>xa_root = ce_resolve E root', xa_dependency = dict_get request ''dependency_root'',
               xa_module = m, xa_function = f, xa_content = content,
               xa_attributes = attributes, xa_parameters = parameters\<rparr>)))))))"

definition import_paths :: "('m, 'f) child_env \<Rightarrow> exec_args \<Rightarrow> exn + string list" where
  "import_paths E a =
     (case xa_dependency a of
        None \<Rightarrow> Inr [xa_root a]
      | Some d \<Rightarrow>
          if \<not> truthy d then Inr [xa_root a]
          else (case as_str d of
                  Inl e \<Rightarrow> Inl e
                | Inr s \<Rightarrow> (let p = ce_resolve E s in
                            Inr (if ce_is_dir E p then [xa_root a, p] else [xa_root a]))))"

definition result_of_value :: "('m, 'f) child_env \<Rightarrow> bytes \<Rightarrow> pyval \<Rightarrow> child_result" where
  "result_of_value E content value =
     (case (case normalize_result value content of
              Inl e \<Rightarrow> Inl e
            | Inr n \<Rightarrow> (case validate_output (ce_env E) (nr_content n) (nr_attributes n) of
                         Inl e \<Rightarrow> Inl e | Inr _ \<Rightarrow> Inr n)) of
        Inl e \<Rightarrow>
          (case e of
             PyError t m \<Rightarrow>
               if t = ''OutputLimitError'' then failed ''OUTPUT_LIMIT'' m
               else failed ''INVALID_USER_RESULT'' (ce_traceback E e)
           | _ \<Rightarrow> failed ''INVALID_USER_RESULT'' (ce_traceback E e))
      | Inr n \<Rightarrow>
          \<lparr>cr_status = nr_status n, cr_relationship = nr_relationship n,
           cr_content_b64 = b64encode (nr_content n), cr_attributes = nr_attributes n,
           cr_retryable = nr_retryable n, cr_error_code = nr_error_code n,
           cr_error_message = nr_error_message n\<rparr>)"

definition execute_user :: "('m, 'f) child_env \<Rightarrow> string list \<Rightarrow> exec_args \<Rightarrow> child_result" where
  "execute_user E paths a =
     (case ce_path_layer E of
        Inl e \<Rightarrow> failed ''FILESYSTEM_COMPAT_ERROR'' (ce_traceback E e)
      | Inr _ \<Rightarrow>
     (case ce_import E (paths @ ce_sys_path E) (xa_module a) of
        Inl e \<Rightarrow> failed ''USER_IMPORT_ERROR'' (ce_traceback E e @ ce_context E)
      | Inr m \<Rightarrow>
     (case ce_getattr E m (xa_function a) of
        Inl e \<Rightarrow> failed ''ENTRYPOINT_NOT_FOUND'' (ce_traceback E e)
      | Inr f \<Rightarrow>
     (case ce_call E f (xa_content a) (xa_attributes a) (xa_parameters a) of
        Inl e \<Rightarrow> failed ''USER_EXCEPTION'' (ce_traceback E e @ ce_context E)
      | Inr value \<Rightarrow> result_of_value E (xa_content a) value))))"

definition execute :: "('m, 'f) child_env \<Rightarrow> (string, json) dict \<Rightarrow> exn + child_result" where
  "execute E request =
     (case parse_request E request of
        Inl e \<Rightarrow> Inr (failed ''CHILD_PROTOCOL_ERROR'' (ce_traceback E e))
      | Inr a \<Rightarrow>
          (case import_paths E a of
             Inl e \<Rightarrow> Inl e
           | Inr paths \<Rightarrow> Inr (execute_user E paths a)))"

section \<open>The child's \<open>main\<close>\<close>

definition value_error :: "string \<Rightarrow> exn" where
  "value_error m = PyError ''ValueError'' m"

definition check_envelope :: "json \<Rightarrow> string \<Rightarrow> exn + (string, json) dict" where
  "check_envelope j invocation_id =
     (case j of
        JObj envelope \<Rightarrow>
          if \<not> json_is_one (dict_get envelope ''protocol_version'')
          then Inl (value_error ''unsupported child protocol version'')
          else if dict_get envelope ''type'' \<noteq> Some (JStr ''invoke'')
          then Inl (value_error ''child request type must be invoke'')
          else if dict_get envelope ''invocation_id'' \<noteq> Some (JStr invocation_id)
          then Inl (value_error ''child invocation id mismatch'')
          else (case dict_get envelope ''request'' of
                  Some (JObj request) \<Rightarrow> Inr request
                | _ \<Rightarrow> Inl (value_error ''child request payload must be an object''))
      | _ \<Rightarrow> Inl (value_error ''child request envelope must be an object''))"

definition child_request :: "('m, 'f) child_env \<Rightarrow> string \<Rightarrow> fd \<Rightarrow> exn + child_result" where
  "child_request E invocation_id request_fd =
     (case ce_harden E (harden_process (ce_env E) (ce_euid E) (ce_egid E)) of
        Inl e \<Rightarrow> Inl e
      | Inr _ \<Rightarrow>
     (case read_frame request_fd MAX_REQUEST_BYTES of
        Inl e \<Rightarrow> Inl e
      | Inr raw \<Rightarrow>
     (case ce_loads E raw of
        Inl e \<Rightarrow> Inl e
      | Inr envelope \<Rightarrow>
     (case check_envelope envelope invocation_id of
        Inl e \<Rightarrow> Inl e
      | Inr request \<Rightarrow> execute E request))))"

definition child_result_json :: "child_result \<Rightarrow> json" where
  "child_result_json r =
     JObj [(''status'', JStr (cr_status r)),
           (''relationship'', JStr (cr_relationship r)),
           (''content_b64'', JStr (cr_content_b64 r)),
           (''attributes'', json_str_dict (cr_attributes r)),
           (''retryable'', JBool (cr_retryable r)),
           (''error_code'', JStr (cr_error_code r)),
           (''error_message'', JStr (cr_error_message r))]"

definition child_response :: "string \<Rightarrow> child_result \<Rightarrow> json" where
  "child_response invocation_id result =
     JObj [(''protocol_version'', JInt 1), (''type'', JStr ''result''),
           (''invocation_id'', JStr invocation_id), (''result'', child_result_json result)]"

definition child_outcome :: "('m, 'f) child_env \<Rightarrow> string \<Rightarrow> fd \<Rightarrow> child_result" where
  "child_outcome E invocation_id request_fd =
     (case child_request E invocation_id request_fd of
        Inl e \<Rightarrow> failed ''CHILD_PROTOCOL_ERROR'' (ce_traceback E e)
      | Inr r \<Rightarrow> r)"

definition child_main :: "('m, 'f) child_env \<Rightarrow> nat list \<Rightarrow> string \<Rightarrow> fd \<Rightarrow> (exn + unit) \<times> fd" where
  "child_main E ks invocation_id request_fd =
     write_frame ks (ce_dumps E (child_response invocation_id (child_outcome E invocation_id request_fd)))"

section \<open>What a child result satisfies\<close>

text \<open>The agent's requirements on a result, stated on the record.\<close>

definition result_ok :: "nat \<Rightarrow> nat \<Rightarrow> nat \<Rightarrow> child_result \<Rightarrow> bool" where
  "result_ok max_output max_attributes max_attribute_bytes r \<longleftrightarrow>
     cr_status r \<in> {''SUCCEEDED'', ''FAILED''} \<and> cr_relationship r \<noteq> [] \<and>
     (\<exists>content. b64decode (cr_content_b64 r) = Some content \<and> length content \<le> max_output) \<and>
     length (cr_attributes r) \<le> max_attributes \<and> attribute_bytes (cr_attributes r) \<le> max_attribute_bytes \<and>
     (cr_status r = ''SUCCEEDED'' \<longrightarrow> \<not> cr_retryable r) \<and>
     (cr_status r = ''FAILED'' \<longrightarrow> cr_error_code r \<noteq> [])"

lemma failed_ok: "code \<noteq> [] \<Longrightarrow> result_ok o' a b (failed code m)"
  by (simp add: result_ok_def failed_def attribute_bytes_def)

lemma normalize_status_ok:
  "normalize_status v r = Inr s \<Longrightarrow> s \<in> {''SUCCEEDED'', ''FAILED''} \<and> (s = ''SUCCEEDED'' \<longrightarrow> \<not> r)"
  by (auto simp: normalize_status_def Let_def split: if_splits option.splits)

lemma normalize_dict_ok:
  assumes "normalize_dict d c = Inr n"
  shows "nr_status n \<in> {''SUCCEEDED'', ''FAILED''} \<and> nr_relationship n \<noteq> [] \<and>
    (nr_status n = ''SUCCEEDED'' \<longrightarrow> \<not> nr_retryable n) \<and> (nr_status n = ''FAILED'' \<longrightarrow> nr_error_code n \<noteq> [])"
  using assms unfolding normalize_dict_def
  by (auto simp: Let_def dest: normalize_status_ok split: option.splits pyval.splits sum.splits if_splits)

lemma normalize_result_ok:
  assumes "normalize_result v c = Inr n"
  shows "nr_status n \<in> {''SUCCEEDED'', ''FAILED''} \<and> nr_relationship n \<noteq> [] \<and>
    (nr_status n = ''SUCCEEDED'' \<longrightarrow> \<not> nr_retryable n) \<and> (nr_status n = ''FAILED'' \<longrightarrow> nr_error_code n \<noteq> [])"
  using assms normalize_dict_ok
  by (cases "(v, c)" rule: normalize_result.cases) (auto simp: plain_success_def)

text \<open>The agent hands its limits to the child as decimal text; the child reads the same numbers.\<close>

definition limits_env :: "(string, string) dict \<Rightarrow> nat \<Rightarrow> nat \<Rightarrow> nat \<Rightarrow> bool" where
  "limits_env env max_output max_attributes max_attribute_bytes \<longleftrightarrow>
     dict_get env ''RUNNER_MAX_OUTPUT_BYTES'' = Some (int_str (int max_output)) \<and>
     dict_get env ''RUNNER_MAX_ATTRIBUTES'' = Some (int_str (int max_attributes)) \<and>
     dict_get env ''RUNNER_MAX_ATTRIBUTE_BYTES'' = Some (int_str (int max_attribute_bytes))"

lemma int_env_set: "dict_get env k = Some (int_str i) \<Longrightarrow> int_env env k d = i"
  by (simp add: int_env_def py_int_str)

lemma validate_output_ok:
  "limits_env env o' a b \<Longrightarrow> validate_output env content attributes = Inr u \<Longrightarrow>
     length content \<le> o' \<and> length attributes \<le> a \<and> attribute_bytes attributes \<le> b"
  unfolding limits_env_def
  by (auto simp: validate_output_def Let_def int_env_set split: if_splits)

lemma result_of_value_ok:
  "limits_env (ce_env E) o' a b \<Longrightarrow> result_ok o' a b (result_of_value E c v)"
proof -
  assume lim: "limits_env (ce_env E) o' a b"
  show ?thesis
  proof (cases "normalize_result v c")
    case (Inl e)
    then show ?thesis by (cases e) (simp_all add: result_of_value_def failed_ok)
  next
    case n: (Inr n)
    show ?thesis
    proof (cases "validate_output (ce_env E) (nr_content n) (nr_attributes n)")
      case (Inl e)
      with n show ?thesis by (cases e) (simp_all add: result_of_value_def failed_ok)
    next
      case (Inr u)
      from validate_output_ok [OF lim this] normalize_result_ok [OF n] n Inr show ?thesis
        by (simp add: result_of_value_def result_ok_def b64_roundtrip)
    qed
  qed
qed

lemma execute_ok:
  "limits_env (ce_env E) o' a b \<Longrightarrow> execute E request = Inr r \<Longrightarrow> result_ok o' a b r"
  by (auto simp: execute_def execute_user_def failed_ok result_of_value_ok split: sum.splits)

lemma child_request_ok:
  "limits_env (ce_env E) o' a b \<Longrightarrow> child_request E i fd = Inr r \<Longrightarrow> result_ok o' a b r"
  by (auto simp: child_request_def intro: execute_ok split: sum.splits)

lemma child_outcome_ok:
  "limits_env (ce_env E) o' a b \<Longrightarrow> result_ok o' a b (child_outcome E i fd)"
  by (auto simp: child_outcome_def failed_ok dest: child_request_ok split: sum.splits)

end
