(* ===== verification/Text.thy ===== *)
theory Text
  imports Codec
begin

text \<open>
  Python's text operations that depend on characters outside ASCII, over the UTF-8 bytes of a
  \<open>str\<close>: slices count code points, white space and line boundaries include the characters of
  Unicode that \<open>str.isspace\<close> and \<open>str.splitlines\<close> know.
\<close>

section \<open>Slices by code points\<close>

definition continuation :: "char \<Rightarrow> bool" where
  "continuation c = (128 \<le> (of_char c :: nat) \<and> (of_char c :: nat) < 192)"

text \<open>\<open>s[:n]\<close> and \<open>s[-n:]\<close>.\<close>

fun take_text :: "nat \<Rightarrow> string \<Rightarrow> string" where
  "take_text n [] = []"
| "take_text n (c # s) =
     (if continuation c then c # take_text n s
      else case n of 0 \<Rightarrow> [] | Suc k \<Rightarrow> c # take_text k s)"

definition text_length :: "string \<Rightarrow> nat" where
  "text_length s = length (filter (\<lambda>c. \<not> continuation c) s)"

fun drop_text :: "nat \<Rightarrow> string \<Rightarrow> string" where
  "drop_text n [] = []"
| "drop_text n (c # s) =
     (if continuation c then drop_text n s
      else case n of 0 \<Rightarrow> c # s | Suc k \<Rightarrow> drop_text k s)"

definition last_text :: "nat \<Rightarrow> string \<Rightarrow> string" where
  "last_text n s = (if text_length s \<le> n then s else drop_text (text_length s - n) s)"

lemma text_length_simps [simp]:
  "text_length [] = 0" "text_length (c # s) = (if continuation c then 0 else 1) + text_length s"
  by (simp_all add: text_length_def)

lemma text_length_drop: "text_length (drop_text n s) = text_length s - n"
  by (induction n s rule: drop_text.induct) (auto split: nat.splits)

lemma text_length_last: "text_length (last_text n s) \<le> n"
  by (simp add: last_text_def text_length_drop)

section \<open>White space and lines\<close>

text \<open>The bytes of the white-space character a text starts with, 0 when there is none.\<close>

definition codes :: "nat \<Rightarrow> string \<Rightarrow> nat list" where
  "codes n s = map of_char (take n s)"

definition wide_space :: "nat list \<Rightarrow> bool" where
  "wide_space b \<longleftrightarrow> b = [225, 154, 128] \<or> b = [226, 129, 159] \<or> b = [227, 128, 128] \<or>
     (take 2 b = [226, 128] \<and> length b = 3 \<and> (b ! 2 \<in> set [128 ..< 139] \<or> b ! 2 \<in> {168, 169, 175}))"

definition space_len :: "string \<Rightarrow> nat" where
  "space_len s =
     (case s of
        [] \<Rightarrow> 0
      | c # r \<Rightarrow>
          if py_space c then 1
          else if codes 2 s = [194, 133] \<or> codes 2 s = [194, 160] then 2
          else if wide_space (codes 3 s) then 3
          else 0)"

text \<open>The bytes of the line boundary a text starts with, 0 when there is none.\<close>

definition break_len :: "string \<Rightarrow> nat" where
  "break_len s =
     (if codes 2 s = [13, 10] then 2
      else if codes 1 s \<in> {[10], [11], [12], [13], [28], [29], [30]} then 1
      else if codes 2 s = [194, 133] then 2
      else if codes 3 s = [226, 128, 168] \<or> codes 3 s = [226, 128, 169] then 3
      else 0)"

lemma space_len_Nil [simp]: "space_len [] = 0"
  by (simp add: space_len_def)

lemma break_len_Nil [simp]: "break_len [] = 0"
  by (simp add: break_len_def codes_def)

function lstrip :: "string \<Rightarrow> string" where
  "lstrip s = (if space_len s = 0 then s else lstrip (drop (space_len s) s))"
  by auto
termination by (relation "measure length") (auto simp: neq_Nil_conv intro!: diff_less gr0I)

declare lstrip.simps [simp del]

text \<open>The bytes of the white-space character a text ends with, 0 when there is none; \<open>s.strip()\<close>.\<close>

definition space_at :: "nat \<Rightarrow> string \<Rightarrow> bool" where
  "space_at n s \<longleftrightarrow> n \<le> length s \<and> space_len (drop (length s - n) s) = n"

definition trail_len :: "string \<Rightarrow> nat" where
  "trail_len s = (if s = [] then 0 else if space_at 1 s then 1 else if space_at 2 s then 2 else if space_at 3 s then 3 else 0)"

lemma trail_len_Nil [simp]: "trail_len [] = 0"
  by (simp add: trail_len_def)

function rstrip :: "string \<Rightarrow> string" where
  "rstrip s = (if trail_len s = 0 then s else rstrip (take (length s - trail_len s) s))"
  by auto
termination
proof (relation "measure length")
  fix s :: string
  assume "trail_len s \<noteq> 0"
  then have "s \<noteq> [] \<and> 0 < trail_len s" by auto
  then show "(take (length s - trail_len s) s, s) \<in> measure length" by simp
qed simp

declare rstrip.simps [simp del]

definition strip :: "string \<Rightarrow> string" where
  "strip s = rstrip (lstrip s)"

text \<open>\<open>str.splitlines\<close>: no empty last line after a final boundary.\<close>

function split_lines :: "string \<Rightarrow> string \<Rightarrow> string list" where
  "split_lines line s =
     (if s = [] then (if line = [] then [] else [line])
      else if break_len s = 0 then split_lines (line @ [hd s]) (tl s)
      else line # split_lines [] (drop (break_len s) s))"
  by auto
termination by (relation "measure (length \<circ> snd)") auto

declare split_lines.simps [simp del]

definition splitlines :: "string \<Rightarrow> string list" where
  "splitlines s = split_lines [] s"

text \<open>Plain characters: neither white space nor a boundary can start with them.\<close>

definition plain :: "char \<Rightarrow> bool" where
  "plain c \<longleftrightarrow> 32 < (of_char c :: nat) \<and> (of_char c :: nat) < 127"

lemma plain_space [simp]: "plain c \<Longrightarrow> space_len (c # s) = 0"
  by (auto simp: plain_def space_len_def codes_def wide_space_def py_space_def)

lemma plain_break [simp]: "plain c \<Longrightarrow> break_len (c # s) = 0"
  by (auto simp: plain_def break_len_def codes_def)

lemma plain_lstrip: "plain c \<Longrightarrow> lstrip (c # s) = c # s"
  by (simp add: lstrip.simps)

lemma newline_break: "break_len (CHR 0x0A # s) = 1"
proof -
  have "codes 2 (CHR 0x0A # s) \<noteq> [13, 10]" "codes 1 (CHR 0x0A # s) = [10]" by (auto simp: codes_def)
  then show ?thesis by (simp add: break_len_def)
qed

lemma split_lines_plain: "list_all plain l \<Longrightarrow> split_lines line (l @ s) = split_lines (line @ l) s"
  by (induction l arbitrary: line) (simp_all add: split_lines.simps [of _ "_ # _"])

lemma split_lines_newline: "split_lines line (CHR 0x0A # s) = line # split_lines [] s"
  by (simp add: split_lines.simps [of _ "_ # _"] newline_break)

lemma splitlines_unlines:
  "list_all (list_all plain) ls \<Longrightarrow> splitlines (concat (map (\<lambda>l. l @ [CHR 0x0A]) ls)) = ls"
proof (induction ls)
  case (Cons l ls)
  then have l: "list_all plain l" by simp
  have "splitlines (concat (map (\<lambda>l. l @ [CHR 0x0A]) (l # ls))) =
      split_lines l (CHR 0x0A # concat (map (\<lambda>l. l @ [CHR 0x0A]) ls))"
    using split_lines_plain [OF l, of "[]"] by (simp add: splitlines_def)
  also have "\<dots> = l # ls" using Cons by (simp add: split_lines_newline splitlines_def)
  finally show ?case .
qed (simp add: splitlines_def split_lines.simps)

section \<open>Splitting, joining, replacing\<close>

text \<open>\<open>str.split\<close> at one character, \<open>str.join\<close>, and \<open>str.replace\<close> of a non-empty text.\<close>

fun split_on :: "char \<Rightarrow> string \<Rightarrow> string list" where
  "split_on c [] = [[]]"
| "split_on c (x # s) =
     (if x = c then [] # split_on c s
      else (case split_on c s of [] \<Rightarrow> [[x]] | p # ps \<Rightarrow> (x # p) # ps))"

fun join_with :: "string \<Rightarrow> string list \<Rightarrow> string" where
  "join_with sep [] = []"
| "join_with sep [p] = p"
| "join_with sep (p # q # ps) = p @ sep @ join_with sep (q # ps)"

function replace_text :: "string \<Rightarrow> string \<Rightarrow> string \<Rightarrow> string" where
  "replace_text p q s =
     (if p = [] then s
      else (case s of
              [] \<Rightarrow> []
            | c # r \<Rightarrow> if starts_with p s then q @ replace_text p q (drop (length p) s) else c # replace_text p q r))"
  by auto
termination by (relation "measure (\<lambda>(p, q, s). length s)") (auto simp: diff_less)

declare replace_text.simps [simp del]

text \<open>\<open>str.split\<close> at every occurrence of a non-empty text.\<close>

function split_text :: "string \<Rightarrow> string \<Rightarrow> string list" where
  "split_text p s =
     (if p = [] then [s]
      else (case s of
              [] \<Rightarrow> [[]]
            | c # r \<Rightarrow>
                if starts_with p s then [] # split_text p (drop (length p) s)
                else (case split_text p r of [] \<Rightarrow> [[c]] | q # qs \<Rightarrow> (c # q) # qs)))"
  by auto
termination by (relation "measure (\<lambda>(p, s). length s)") (auto simp: diff_less)

declare split_text.simps [simp del]

text \<open>
  POSIX paths as \<open>pathlib\<close> handles them: the list of the components below the root, relative text
  split at its slashes, and the resolution of dot-dot components. (Symbolic links are refused or
  absent wherever the code resolves a path that is modelled.)
\<close>

type_synonym path = "string list"

text \<open>\<open>PurePosixPath(name).parts\<close> without the root.\<close>

definition path_parts :: "string \<Rightarrow> path" where
  "path_parts name = filter (\<lambda>c. c \<noteq> [] \<and> c \<noteq> ''.'') (split_on CHR ''/'' name)"

definition is_absolute :: "string \<Rightarrow> bool" where
  "is_absolute name = starts_with ''/'' name"

definition resolve :: "path \<Rightarrow> path" where
  "resolve p = foldl (\<lambda>acc c. if c = ''..'' then butlast acc else acc @ [c]) [] p"

definition join_path :: "path \<Rightarrow> string \<Rightarrow> path" where
  "join_path root name = resolve (if is_absolute name then path_parts name else root @ path_parts name)"

lemma resolve_snoc: "resolve (p @ [c]) = (if c = ''..'' then butlast (resolve p) else resolve p @ [c])"
  by (simp add: resolve_def)

lemma resolve_no_dotdot: "''..'' \<notin> set (resolve p)"
  by (induction p rule: rev_induct) (auto simp: resolve_snoc resolve_def dest: in_set_butlastD)

lemma resolve_append_safe: "''..'' \<notin> set q \<Longrightarrow> resolve (p @ q) = resolve p @ q"
  by (induction q rule: rev_induct) (auto simp: resolve_snoc simp flip: append_assoc)

lemma resolve_idem [simp]: "resolve (resolve p) = resolve p"
  using resolve_append_safe [OF resolve_no_dotdot, of "[]" p] by (simp add: resolve_def)

text \<open>A joined list of proper components splits into these components again.\<close>

definition component :: "string \<Rightarrow> bool" where
  "component c \<longleftrightarrow> c \<noteq> [] \<and> c \<noteq> ''.'' \<and> CHR ''/'' \<notin> set c"

lemma split_on_no: "c \<notin> set s \<Longrightarrow> split_on c s = [s]"
  by (induction s) auto

lemma split_on_append: "c \<notin> set p \<Longrightarrow> split_on c (p @ c # s) = p # split_on c s"
  by (induction p) auto

lemma split_on_join: "list_all (\<lambda>p. c \<notin> set p) ps \<Longrightarrow> ps \<noteq> [] \<Longrightarrow> split_on c (join_with [c] ps) = ps"
  by (induction "[c]" ps rule: join_with.induct) (auto simp: split_on_no split_on_append)

lemma split_on_parts: "p \<in> set (split_on c s) \<Longrightarrow> c \<notin> set p"
  by (induction c s arbitrary: p rule: split_on.induct) (auto split: if_splits list.splits)

lemma path_parts_component: "list_all component (path_parts s)"
  by (auto simp: list_all_iff path_parts_def component_def dest: split_on_parts)

lemma path_parts_join: "list_all component ps \<Longrightarrow> path_parts (join_with ''/'' ps) = ps"
proof (cases "ps = []")
  case False
  assume c: "list_all component ps"
  then have "list_all (\<lambda>p. CHR ''/'' \<notin> set p) ps" by (auto simp: list_all_iff component_def)
  from split_on_join [OF this False] c show ?thesis
    by (auto simp: path_parts_def list_all_iff component_def intro!: filter_True)
qed (simp add: path_parts_def)

end
