(* ===== verification/Materialize.thy ===== *)
theory Materialize
  imports Text "HOL-Library.Sublist"
begin

text \<open>
  \<open>ReleaseMaterializer.install\<close> (\<open>worker/materialize.py\<close>): the digest check, the extraction of
  an untrusted archive into a staging directory, and its move to the release directory. The file
  system is a map from absolute component lists to nodes with their permission bits; SHA-256, the
  archive reader and the process id are parameters. Nothing under the staging directory is a
  symbolic link, so \<open>resolve\<close> only removes dot-dot components.
\<close>

section \<open>The file system\<close>

datatype node = Dir nat | File bytes nat

type_synonym fs = "path \<Rightarrow> node option"

definition is_dir :: "fs \<Rightarrow> path \<Rightarrow> bool" where
  "is_dir fs p = (case fs p of Some (Dir _) \<Rightarrow> True | _ \<Rightarrow> False)"

definition is_file :: "fs \<Rightarrow> path \<Rightarrow> bool" where
  "is_file fs p = (case fs p of Some (File _ _) \<Rightarrow> True | _ \<Rightarrow> False)"

definition rmtree :: "path \<Rightarrow> fs \<Rightarrow> fs" where
  "rmtree root fs = (\<lambda>p. if prefix root p then None else fs p)"

definition mkdir_parents :: "path \<Rightarrow> fs \<Rightarrow> exn + fs" where
  "mkdir_parents p fs =
     (if list_ex (\<lambda>i. is_file fs (take i p)) [0..<Suc (length p)]
      then Inl (PyError ''FileExistsError'' ''file exists'')
      else Inr (\<lambda>q. if prefix q p \<and> fs q = None then Some (Dir 493) else fs q))"

definition write_file :: "path \<Rightarrow> bytes \<Rightarrow> fs \<Rightarrow> exn + fs" where
  "write_file p data fs =
     (if is_dir fs p then Inl (PyError ''IsADirectoryError'' ''is a directory'')
      else Inr (fs(p := Some (File data (case fs p of Some (File _ m) \<Rightarrow> m | _ \<Rightarrow> 420)))))"

definition make_read_only :: "path \<Rightarrow> fs \<Rightarrow> fs" where
  "make_read_only root fs =
     (\<lambda>p. if prefix root p
          then (case fs p of None \<Rightarrow> None | Some (Dir _) \<Rightarrow> Some (Dir 365) | Some (File b _) \<Rightarrow> Some (File b 292))
          else fs p)"

text \<open>\<open>staging.replace(target)\<close> for a target that did not exist before the staging directory was
  made: it is there only as a parent of the staging directory, and then it is not empty.\<close>

definition rename_dir :: "path \<Rightarrow> path \<Rightarrow> fs \<Rightarrow> exn + fs" where
  "rename_dir src dst fs =
     (if \<not> is_dir fs (butlast dst) then Inl (PyError ''FileNotFoundError'' ''no such directory'')
      else if prefix src dst then Inl (PyError ''OSError'' ''invalid argument'')
      else if prefix dst src then Inl (PyError ''OSError'' ''directory not empty'')
      else Inr (\<lambda>p. if prefix dst p then fs (src @ drop (length dst) p)
                    else if prefix src p then None else fs p))"

section \<open>Archive members\<close>

datatype member_kind = MReg | MDir | MSym | MLnk | MDev | MFifo | MOther

record member =
  tm_name :: string
  tm_kind :: member_kind
  tm_size :: nat
  tm_data :: "bytes option"

record materializer =
  mz_root :: path
  mz_max_files :: nat
  mz_max_expanded_bytes :: nat
  mz_pid :: string
  mz_sha256 :: "bytes \<Rightarrow> string"
  mz_tar :: "bytes \<Rightarrow> exn + member list"

record extraction =
  ex_fs :: fs
  ex_count :: nat
  ex_total :: nat
  ex_names :: "path list"

definition check_member :: "materializer \<Rightarrow> extraction \<Rightarrow> member \<Rightarrow> exn + extraction" where
  "check_member M x m =
     (let x = x\<lparr>ex_count := ex_count x + 1\<rparr>; parts = path_parts (tm_name m) in
      if mz_max_files M < ex_count x
      then Inl (PyError ''ValueError'' ''artifact contains too many entries'')
      else if tm_kind m \<in> {MSym, MLnk, MDev, MFifo}
      then Inl (PyError ''ValueError'' (''special/link entry is forbidden: '' @ tm_name m))
      else if is_absolute (tm_name m) \<or> ''..'' \<in> set parts
      then Inl (PyError ''ValueError'' (''unsafe artifact path: '' @ tm_name m))
      else if parts \<in> set (ex_names x)
      then Inl (PyError ''ValueError'' (''duplicate artifact path: '' @ tm_name m))
      else (let x = x\<lparr>ex_names := ex_names x @ [parts],
                      ex_total := (if tm_kind m = MReg then ex_total x + tm_size m else ex_total x)\<rparr> in
        if tm_kind m = MReg \<and> mz_max_expanded_bytes M < ex_total x
        then Inl (PyError ''ValueError'' ''artifact expands beyond configured limit'')
        else Inr x))"

definition extract_member :: "path \<Rightarrow> extraction \<Rightarrow> member \<Rightarrow> exn + extraction" where
  "extract_member staging x m =
     (let destination = resolve (staging @ path_parts (tm_name m)) in
      if \<not> prefix (resolve staging) destination
      then Inl (PyError ''ValueError'' (''path escapes staging directory: '' @ tm_name m))
      else (case tm_kind m of
          MDir \<Rightarrow> (case mkdir_parents destination (ex_fs x) of
                    Inl e \<Rightarrow> Inl e | Inr fs \<Rightarrow> Inr (x\<lparr>ex_fs := fs\<rparr>))
        | MReg \<Rightarrow>
            (case mkdir_parents (butlast destination) (ex_fs x) of
               Inl e \<Rightarrow> Inl e
             | Inr fs \<Rightarrow>
                (case tm_data m of
                   None \<Rightarrow> Inl (PyError ''ValueError'' (''could not read '' @ tm_name m))
                 | Some data \<Rightarrow>
                     (case write_file destination data fs of
                        Inl e \<Rightarrow> Inl e | Inr fs' \<Rightarrow> Inr (x\<lparr>ex_fs := fs'\<rparr>))))
        | _ \<Rightarrow> Inr x))"

fun extract_all :: "materializer \<Rightarrow> path \<Rightarrow> extraction \<Rightarrow> member list \<Rightarrow> exn + extraction" where
  "extract_all M staging x [] = Inr x"
| "extract_all M staging x (m # ms) =
     (case check_member M x m of
        Inl e \<Rightarrow> Inl e
      | Inr x' \<Rightarrow>
          (case extract_member staging x' m of
             Inl e \<Rightarrow> Inl e
           | Inr x'' \<Rightarrow> extract_all M staging x'' ms))"

definition staging_path :: "materializer \<Rightarrow> string \<Rightarrow> path" where
  "staging_path M release_id = join_path (mz_root M) (''.'' @ release_id @ ''.tmp-'' @ mz_pid M)"

definition target_path :: "materializer \<Rightarrow> string \<Rightarrow> path" where
  "target_path M release_id = join_path (mz_root M) release_id"

definition unpack :: "materializer \<Rightarrow> path \<Rightarrow> path \<Rightarrow> bytes \<Rightarrow> fs \<Rightarrow> exn + fs" where
  "unpack M staging target artifact fs =
     (case mz_tar M artifact of
        Inl e \<Rightarrow> Inl e
      | Inr members \<Rightarrow>
          (case extract_all M staging \<lparr>ex_fs = fs, ex_count = 0, ex_total = 0, ex_names = []\<rparr> members of
             Inl e \<Rightarrow> Inl e
           | Inr x \<Rightarrow>
               if \<not> is_file (ex_fs x) (staging @ [''operator.json''])
               then Inl (PyError ''ValueError'' ''operator.json missing from release'')
               else rename_dir staging target (make_read_only staging (ex_fs x))))"

definition install :: "materializer \<Rightarrow> string \<Rightarrow> string \<Rightarrow> bytes \<Rightarrow> fs \<Rightarrow> fs \<times> (exn + path)" where
  "install M release_id expected_sha256 artifact fs =
     (if mz_sha256 M artifact \<noteq> expected_sha256
      then (fs, Inl (PyError ''ValueError'' ''artifact sha256 mismatch''))
      else (let target = target_path M release_id; staging = staging_path M release_id in
        if fs target \<noteq> None then (fs, Inr target)
        else if is_file fs staging
        then (fs, Inl (PyError ''NotADirectoryError'' ''not a directory''))
        else (let fs1 = (if fs staging \<noteq> None then rmtree staging fs else fs) in
          case mkdir_parents staging fs1 of
            Inl e \<Rightarrow> (fs1, Inl e)
          | Inr fs2 \<Rightarrow>
              (case unpack M staging target artifact fs2 of
                 Inl e \<Rightarrow> (rmtree staging fs2, Inl e)
               | Inr fs3 \<Rightarrow> (fs3, Inr target)))))"

section \<open>Containment\<close>

lemma staging_resolved: "resolve (staging_path M r) = staging_path M r"
  by (simp add: staging_path_def join_path_def)

text \<open>While the staging directory is filled, it stays a directory with all its parents, and no
  node outside it changes.\<close>

definition staged :: "path \<Rightarrow> fs \<Rightarrow> fs \<Rightarrow> bool" where
  "staged staging fs0 fs \<longleftrightarrow> is_dir fs staging \<and> (\<forall>q. prefix q staging \<longrightarrow> fs q \<noteq> None)
     \<and> (\<forall>p. \<not> prefix staging p \<longrightarrow> fs p = fs0 p)"

lemma mkdir_parents_staged:
  assumes "staged s fs0 fs" "prefix s p \<or> prefix p s" "mkdir_parents p fs = Inr fs'"
  shows "staged s fs0 fs'"
proof -
  from assms(3) have fs': "fs' = (\<lambda>q. if prefix q p \<and> fs q = None then Some (Dir 493) else fs q)"
    by (auto simp: mkdir_parents_def split: if_splits)
  have up: "prefix q p \<Longrightarrow> \<not> prefix s q \<Longrightarrow> prefix q s" for q
    using assms(2) prefix_same_cases [of q p s] prefix_order.trans [of q p s] by auto
  then have "fs' q = fs q" if "\<not> prefix s q" for q
  proof (cases "prefix q p")
    case True
    with up that have "prefix q s" by blast
    with assms(1) have "fs q \<noteq> None" unfolding staged_def by blast
    then show ?thesis unfolding fs' by simp
  qed (simp add: fs')
  with assms(1) show ?thesis unfolding fs' staged_def is_dir_def by (auto split: option.splits)
qed

lemma write_file_staged:
  assumes "staged s fs0 fs" "prefix s p" "write_file p data fs = Inr fs'"
  shows "staged s fs0 fs'"
proof -
  from assms(3) have "\<not> is_dir fs p" "\<exists>n. fs' = fs(p := Some n)"
    by (auto simp: write_file_def split: if_splits)
  with assms(1,2) show ?thesis unfolding staged_def by (auto simp: is_dir_def)
qed

lemma butlast_prefix_cases: "prefix s p \<Longrightarrow> prefix s (butlast p) \<or> prefix (butlast p) s"
  by (meson prefix_same_cases prefixeq_butlast)

lemma extract_member_staged:
  assumes "staged s fs0 (ex_fs x)" "resolve s = s" "extract_member s x m = Inr x'"
  shows "staged s fs0 (ex_fs x')"
proof -
  let ?d = "resolve (s @ path_parts (tm_name m))"
  from assms(2,3) have d: "prefix s ?d" by (auto simp: extract_member_def Let_def split: if_splits)
  show ?thesis
  proof (cases "tm_kind m")
    case MReg
    with assms(3) obtain fs data where
      "mkdir_parents (butlast ?d) (ex_fs x) = Inr fs" "write_file ?d data fs = Inr (ex_fs x')"
      by (auto simp: extract_member_def Let_def split: if_splits sum.splits option.splits)
    then show ?thesis
      using write_file_staged mkdir_parents_staged [OF assms(1)] butlast_prefix_cases [OF d] d by blast
  next
    case MDir
    with assms(3) have "mkdir_parents ?d (ex_fs x) = Inr (ex_fs x')"
      by (auto simp: extract_member_def Let_def split: if_splits sum.splits)
    with mkdir_parents_staged [OF assms(1)] d show ?thesis by blast
  qed (use assms(1,3) in \<open>auto simp: extract_member_def Let_def split: if_splits\<close>)
qed

lemma check_member_fs: "check_member M x m = Inr x' \<Longrightarrow> ex_fs x' = ex_fs x"
  by (auto simp: check_member_def Let_def split: if_splits)

lemma extract_all_staged:
  "extract_all M s x ms = Inr x' \<Longrightarrow> resolve s = s \<Longrightarrow> staged s fs0 (ex_fs x) \<Longrightarrow> staged s fs0 (ex_fs x')"
proof (induction ms arbitrary: x)
  case (Cons m ms)
  then obtain y z where y: "check_member M x m = Inr y" "extract_member s y m = Inr z"
    "extract_all M s z ms = Inr x'" by (auto split: sum.splits)
  from Cons.prems(3) check_member_fs [OF y(1)] have "staged s fs0 (ex_fs y)" by simp
  from extract_member_staged [OF this Cons.prems(2) y(2)] Cons.IH [OF y(3) Cons.prems(2)]
  show ?case by blast
qed simp

text \<open>The number of files and their total size, and how the accepted names look.\<close>

definition extraction_bounded :: "materializer \<Rightarrow> extraction \<Rightarrow> bool" where
  "extraction_bounded M x \<longleftrightarrow> ex_count x \<le> mz_max_files M \<and> ex_total x \<le> mz_max_expanded_bytes M
     \<and> distinct (ex_names x) \<and> length (ex_names x) = ex_count x \<and> (\<forall>n \<in> set (ex_names x). ''..'' \<notin> set n)"

lemma extract_member_frame: "extract_member s x m = Inr x' \<Longrightarrow>
    ex_count x' = ex_count x \<and> ex_total x' = ex_total x \<and> ex_names x' = ex_names x"
  by (auto simp: extract_member_def Let_def split: if_splits sum.splits option.splits member_kind.splits)

lemma check_member_bounded:
  "check_member M x m = Inr x' \<Longrightarrow> extraction_bounded M x \<Longrightarrow> extraction_bounded M x'"
  by (auto simp: check_member_def extraction_bounded_def Let_def split: if_splits)

lemma extract_all_bounded:
  "extract_all M s x ms = Inr x' \<Longrightarrow> extraction_bounded M x \<Longrightarrow>
     extraction_bounded M x' \<and> ex_count x' = ex_count x + length ms"
proof (induction ms arbitrary: x)
  case (Cons m ms)
  then obtain y z where y: "check_member M x m = Inr y" "extract_member s y m = Inr z"
    "extract_all M s z ms = Inr x'" by (auto split: sum.splits)
  have "ex_count y = ex_count x + 1" using y(1) by (auto simp: check_member_def Let_def split: if_splits)
  moreover have "extraction_bounded M z"
    using check_member_bounded [OF y(1) Cons.prems(2)] extract_member_frame [OF y(2)]
    by (simp add: extraction_bounded_def)
  ultimately show ?case using Cons.IH [OF y(3)] extract_member_frame [OF y(2)] by simp
qed simp

lemma extract_all_total:
  "extract_all M s x ms = Inr x' \<Longrightarrow>
     ex_total x' = ex_total x + sum_list (map tm_size (filter (\<lambda>m. tm_kind m = MReg) ms))"
proof (induction ms arbitrary: x)
  case (Cons m ms)
  then obtain y z where y: "check_member M x m = Inr y" "extract_member s y m = Inr z"
    "extract_all M s z ms = Inr x'" by (auto split: sum.splits)
  have "ex_total y = ex_total x + (if tm_kind m = MReg then tm_size m else 0)"
    using y(1) by (auto simp: check_member_def Let_def split: if_splits)
  with Cons.IH [OF y(3)] extract_member_frame [OF y(2)] show ?case by simp
qed simp

lemma mkdir_staging_staged:
  assumes "mkdir_parents s fs1 = Inr fs2" "fs1 s = None"
  shows "staged s fs2 fs2" "\<And>p. \<not> prefix s p \<Longrightarrow> fs2 p = fs1 p \<or> prefix p s \<and> fs1 p = None"
proof -
  from assms(1) have fs2: "fs2 = (\<lambda>q. if prefix q s \<and> fs1 q = None then Some (Dir 493) else fs1 q)"
    by (auto simp: mkdir_parents_def split: if_splits)
  show "staged s fs2 fs2" unfolding staged_def is_dir_def fs2 using assms(2) by auto
  show "\<And>p. \<not> prefix s p \<Longrightarrow> fs2 p = fs1 p \<or> prefix p s \<and> fs1 p = None"
    unfolding fs2 by auto
qed

lemma make_read_only_outside: "\<not> prefix s p \<Longrightarrow> make_read_only s fs p = fs p"
  by (simp add: make_read_only_def)

lemma unpack_outside:
  assumes "unpack M s t a fs = Inr fs'" "resolve s = s" "staged s fs fs" "\<not> prefix s p" "\<not> prefix t p"
  shows "fs' p = fs p"
proof -
  from assms(1) obtain ms x where
    x: "extract_all M s \<lparr>ex_fs = fs, ex_count = 0, ex_total = 0, ex_names = []\<rparr> ms = Inr x"
    and r: "rename_dir s t (make_read_only s (ex_fs x)) = Inr fs'"
    by (auto simp: unpack_def split: sum.splits if_splits)
  from extract_all_staged [OF x assms(2), of fs] assms(3) have "staged s fs (ex_fs x)" by simp
  with assms(4) have "ex_fs x p = fs p" by (auto simp: staged_def)
  with r assms(4,5) show ?thesis by (auto simp: rename_dir_def make_read_only_outside split: if_splits)
qed

text \<open>Every node the installation of an archive can touch is the release directory, the staging
  directory, or a missing parent of it; the archive's names cannot reach anything else, and a
  refused archive leaves no staging directory behind.\<close>

lemma install_cases:
  assumes "install M rid sha a fs = (fs', r)"
  obtains (unchanged) "fs' = fs" "(\<exists>e. r = Inl e) \<or> fs (target_path M rid) \<noteq> None" | (staging) fs1 where
    "fs (target_path M rid) = None" "\<not> is_file fs (staging_path M rid)"
    "fs1 = (if fs (staging_path M rid) \<noteq> None then rmtree (staging_path M rid) fs else fs)"
    "\<exists>e. mkdir_parents (staging_path M rid) fs1 = Inl e \<and> fs' = fs1 \<and> r = Inl e"
  | (unpacked) fs1 fs2 where
    "mz_sha256 M a = sha" "fs (target_path M rid) = None" "fs1 (staging_path M rid) = None"
    "fs1 = (if fs (staging_path M rid) \<noteq> None then rmtree (staging_path M rid) fs else fs)"
    "mkdir_parents (staging_path M rid) fs1 = Inr fs2"
    "(\<exists>e. unpack M (staging_path M rid) (target_path M rid) a fs2 = Inl e
        \<and> fs' = rmtree (staging_path M rid) fs2 \<and> r = Inl e)
     \<or> unpack M (staging_path M rid) (target_path M rid) a fs2 = Inr fs' \<and> r = Inr (target_path M rid)"
  using assms unfolding install_def Let_def
  by (auto simp: rmtree_def split: if_splits sum.splits)

text \<open>C31: Installing an archive touches nothing outside the release directory and the staging
  directory (missing parents of the staging directory apart), whatever names the archive holds.\<close>

theorem install_contained:
  assumes "install M rid sha a fs = (fs', r)"
    and "\<not> prefix (staging_path M rid) p" "\<not> prefix (target_path M rid) p"
  shows "fs' p = fs p \<or> prefix p (staging_path M rid) \<and> fs p = None"
  using assms(1)
proof (cases rule: install_cases)
  case (staging fs1)
  with assms(2) show ?thesis by (auto simp: rmtree_def split: if_splits)
next
  case (unpacked fs1 fs2)
  let ?s = "staging_path M rid"
  have fs1: "fs1 p = fs p" using unpacked(4) assms(2) by (simp add: rmtree_def)
  note st = mkdir_staging_staged [OF unpacked(5,3)]
  have "fs' p = fs2 p"
    using unpacked(6) unpack_outside [OF _ staging_resolved st(1) assms(2,3)] assms(2)
    by (auto simp: rmtree_def)
  with st(2) [OF assms(2)] fs1 show ?thesis by simp
qed simp

text \<open>A refused archive leaves the release directory as it was and no staging directory: the
  release exists only after its whole content was checked.\<close>

theorem install_refused:
  assumes "install M rid sha a fs = (fs', Inl e)" "fs (staging_path M rid) = None"
    and "\<not> prefix (staging_path M rid) (target_path M rid)" "\<not> prefix (target_path M rid) (staging_path M rid)"
  shows "fs' (target_path M rid) = fs (target_path M rid) \<and> fs' (staging_path M rid) = None"
  using assms(1)
proof (cases rule: install_cases)
  case unchanged
  with assms(2) show ?thesis by simp
next
  case (staging fs1)
  with assms(2) show ?thesis by auto
next
  case (unpacked fs1 fs2)
  note st = mkdir_staging_staged(2) [OF unpacked(5,3) assms(3)]
  from unpacked(6) have "fs' = rmtree (staging_path M rid) fs2" by auto
  with st unpacked(4) assms show ?thesis by (auto simp: rmtree_def)
qed

text \<open>C32: A release that was installed for the first time holds its manifest, every file in it is
  read-only, its archive has the announced digest, and its entries and total size are within the
  limits.\<close>

theorem install_fresh:
  assumes "install M rid sha a fs = (fs', Inr t)" "fs (target_path M rid) = None"
  shows "t = target_path M rid \<and> mz_sha256 M a = sha \<and> is_file fs' (t @ [''operator.json''])
     \<and> (\<forall>p b m. fs' (t @ p) = Some (File b m) \<longrightarrow> m = 292)
     \<and> (\<exists>ms. mz_tar M a = Inr ms \<and> length ms \<le> mz_max_files M
          \<and> sum_list (map tm_size (filter (\<lambda>m. tm_kind m = MReg) ms)) \<le> mz_max_expanded_bytes M)"
  using assms(1)
proof (cases rule: install_cases)
  case unchanged
  with assms(2) show ?thesis by simp
next
  case (staging fs1)
  then show ?thesis by auto
next
  case (unpacked fs1 fs2)
  let ?s = "staging_path M rid" and ?x0 = "\<lparr>ex_fs = fs2, ex_count = 0, ex_total = 0, ex_names = []\<rparr>"
  from unpacked(6) have u: "unpack M ?s (target_path M rid) a fs2 = Inr fs'" "t = target_path M rid" by auto
  from u(1) obtain ms x where ms: "mz_tar M a = Inr ms" "extract_all M ?s ?x0 ms = Inr x"
    and j: "is_file (ex_fs x) (?s @ [''operator.json''])"
    and rn: "rename_dir ?s (target_path M rid) (make_read_only ?s (ex_fs x)) = Inr fs'"
    by (auto simp: unpack_def split: sum.splits if_splits)
  have "extraction_bounded M ?x0" by (simp add: extraction_bounded_def)
  from extract_all_bounded [OF ms(2) this] extract_all_total [OF ms(2)]
  have lim: "length ms \<le> mz_max_files M"
    "sum_list (map tm_size (filter (\<lambda>m. tm_kind m = MReg) ms)) \<le> mz_max_expanded_bytes M"
    by (auto simp: extraction_bounded_def)
  from rn have fs': "fs' (target_path M rid @ p) = make_read_only ?s (ex_fs x) (?s @ p)" for p
    by (auto simp: rename_dir_def split: if_splits)
  show ?thesis
    using unpacked(1) ms(1) lim u(2) j
    by (auto simp: fs' make_read_only_def is_file_def split: option.splits node.splits)
qed

end
