(* ===== verification/Agent.thy ===== *)
theory Agent
  imports Child Materialize
begin

text \<open>
  The agent inside a sandbox (\<open>worker/agent.py\<close>): the releases it holds, the run gate that admits
  one user process at a time, the active child and its cancellation, the request it sends to the
  child, and what it makes of whatever comes back. A run is two steps, \<open>run_begin\<close> up to the
  registration of the child process and \<open>run_end\<close> from there to the release of the gate, so that
  every other request can come between them. Process creation, scratch directories, Python's
  \<open>repr\<close> and the JSON text codec are parameters.
\<close>

section \<open>State\<close>

definition MAX_BODY :: nat where "MAX_BODY = 16777216"
definition MAX_USER_STDOUT :: nat where "MAX_USER_STDOUT = 1048576"
definition MAX_USER_STDERR :: nat where "MAX_USER_STDERR = 1048576"
definition PROTOCOL_OVERHEAD_BYTES :: nat where "PROTOCOL_OVERHEAD_BYTES = 2097152"
definition SIGXCPU :: int where "SIGXCPU = 24"

record active_child =
  ac_invocation :: string
  ac_proc :: nat
  ac_cancel :: bool
  ac_scratch :: string

record agent_env =
  ae_token :: string
  ae_dependency_root :: "string option"
  ae_child_uid :: int
  ae_child_gid :: int
  ae_child_nproc :: int
  ae_child_nofile :: int
  ae_child_address_space :: int
  ae_path :: string
  ae_materializer :: materializer
  ae_scratch :: "string \<Rightarrow> exn + string"
  ae_workspace :: "path \<Rightarrow> string \<Rightarrow> exn + string"
  ae_popen :: "(string, string) dict \<Rightarrow> exn + nat"
  ae_signal_name :: "int \<Rightarrow> string option"
  ae_repr :: "bytes \<Rightarrow> string"
  ae_str :: "json \<Rightarrow> string"
  ae_float_int :: "string \<Rightarrow> exn + int"
  ae_path_str :: "path \<Rightarrow> string"
  ae_loads :: "bytes \<Rightarrow> exn + json"
  ae_dumps :: "json \<Rightarrow> bytes"

record run_plan =
  rp_invocation :: string
  rp_proc :: nat
  rp_scratch :: string
  rp_timeout_ms :: nat
  rp_max_output :: nat
  rp_max_attributes :: nat
  rp_max_attribute_bytes :: nat
  rp_max_protocol :: nat
  rp_env :: "(string, string) dict"
  rp_frame :: bytes

text \<open>\<open>agt_run\<close> is the local state of the request thread that holds the gate.\<close>

record agent =
  agt_fs :: fs
  agt_releases :: "(string, path \<times> (string, json) dict) dict"
  agt_gate :: bool
  agt_active :: "active_child option"
  agt_run :: "run_plan option"

record agent_result = child_result +
  ar_duration_ms :: int

definition agent_init :: "fs \<Rightarrow> agent" where
  "agent_init fs = \<lparr>agt_fs = fs, agt_releases = [], agt_gate = False, agt_active = None, agt_run = None\<rparr>"

definition failure :: "string \<Rightarrow> string \<Rightarrow> int \<Rightarrow> bool \<Rightarrow> agent_result" where
  "failure code message duration retryable =
     \<lparr>cr_status = ''FAILED'', cr_relationship = ''failure'', cr_content_b64 = [], cr_attributes = [],
      cr_retryable = retryable, cr_error_code = code, cr_error_message = message,
      ar_duration_ms = duration\<rparr>"

section \<open>Bootstrap, health and cancellation\<close>

definition str_key :: "(string, json) dict \<Rightarrow> string \<Rightarrow> exn + json" where
  "str_key d k = (case dict_get d k of None \<Rightarrow> Inl (key_error k) | Some v \<Rightarrow> Inr v)"

definition read_manifest :: "agent_env \<Rightarrow> fs \<Rightarrow> path \<Rightarrow> exn + (string, json) dict" where
  "read_manifest A fs p =
     (case fs (p @ [''operator.json'']) of
        Some (File b _) \<Rightarrow>
          (case ae_loads A b of
             Inl e \<Rightarrow> Inl e
           | Inr (JObj m) \<Rightarrow> Inr m
           | Inr _ \<Rightarrow> Inl (PyError ''AttributeError'' ''get''))
      | _ \<Rightarrow> Inl (PyError ''FileNotFoundError'' ''operator.json''))"

definition bootstrap_artifact :: "(string, json) dict \<Rightarrow> exn + string \<times> string \<times> bytes" where
  "bootstrap_artifact payload =
     (case str_key payload ''release_id'' of
        Inl e \<Rightarrow> Inl e
      | Inr rid \<Rightarrow>
     (case str_key payload ''artifact_b64'' of
        Inl e \<Rightarrow> Inl e
      | Inr b64 \<Rightarrow>
     (case decode_b64 b64 of
        Inl e \<Rightarrow> Inl e
      | Inr artifact \<Rightarrow>
     (case str_key payload ''artifact_sha256'' of
        Inl e \<Rightarrow> Inl e
      | Inr (JStr sha) \<Rightarrow> (case as_str rid of Inl e \<Rightarrow> Inl e | Inr r \<Rightarrow> Inr (r, sha, artifact))
      | Inr _ \<Rightarrow> Inl (value_error ''artifact sha256 mismatch'')))))"

definition bootstrap :: "agent_env \<Rightarrow> (string, json) dict \<Rightarrow> agent \<Rightarrow> agent \<times> (exn + json)" where
  "bootstrap A payload S =
     (case bootstrap_artifact payload of
        Inl e \<Rightarrow> (S, Inl e)
      | Inr (release_id, sha, artifact) \<Rightarrow>
     (case install (ae_materializer A) release_id sha artifact (agt_fs S) of
        (fs, Inl e) \<Rightarrow> (S\<lparr>agt_fs := fs\<rparr>, Inl e)
      | (fs, Inr p) \<Rightarrow>
     (case read_manifest A fs p of
        Inl e \<Rightarrow> (S\<lparr>agt_fs := fs\<rparr>, Inl e)
      | Inr manifest \<Rightarrow>
          if dict_get manifest ''id'' \<noteq> Some (JStr release_id)
          then (S\<lparr>agt_fs := fs\<rparr>,
                Inl (value_error ''release id in operator.json does not match bootstrap request''))
          else (S\<lparr>agt_fs := fs, agt_releases := dict_set release_id (p, manifest) (agt_releases S)\<rparr>,
                Inr (JObj [(''ok'', JBool True)])))))"

definition health :: "agent \<Rightarrow> json" where
  "health S = JObj [(''ok'', JBool True), (''busy'', JBool (agt_active S \<noteq> None)),
                    (''path_compatibility'', JStr ''invocation-workspace-v2'')]"

definition register_active :: "string \<Rightarrow> nat \<Rightarrow> string \<Rightarrow> agent \<Rightarrow> exn + agent" where
  "register_active invocation_id proc scratch S =
     (if agt_active S \<noteq> None
      then Inl (PyError ''RuntimeError'' ''agent already has an active child'')
      else Inr (S\<lparr>agt_active := Some \<lparr>ac_invocation = invocation_id, ac_proc = proc,
                    ac_cancel = False, ac_scratch = scratch\<rparr>\<rparr>))"

definition clear_active :: "nat \<Rightarrow> agent \<Rightarrow> agent" where
  "clear_active proc S =
     (case agt_active S of
        Some a \<Rightarrow> if ac_proc a = proc then S\<lparr>agt_active := None\<rparr> else S
      | None \<Rightarrow> S)"

text \<open>\<open>payload.get(k) or ""\<close> as text.\<close>

definition id_text :: "agent_env \<Rightarrow> (string, json) dict \<Rightarrow> string \<Rightarrow> string" where
  "id_text A payload dflt =
     (case dict_get payload ''invocation_id'' of
        Some j \<Rightarrow> if truthy j then (case j of JStr s \<Rightarrow> s | _ \<Rightarrow> ae_str A j) else dflt
      | None \<Rightarrow> dflt)"

definition cancel :: "agent_env \<Rightarrow> (string, json) dict \<Rightarrow> agent \<Rightarrow> agent \<times> (exn + json)" where
  "cancel A payload S =
     (let invocation_id = id_text A payload [] in
      if invocation_id = [] then (S, Inl (value_error ''invocation_id is required''))
      else (case agt_active S of
              None \<Rightarrow> (S, Inr (JObj [(''cancelled'', JBool False)]))
            | Some active \<Rightarrow>
                if ac_invocation active \<noteq> invocation_id
                then (S, Inr (JObj [(''cancelled'', JBool False)]))
                else (S\<lparr>agt_active := Some (active\<lparr>ac_cancel := True\<rparr>)\<rparr>,
                      Inr (JObj [(''cancelled'', JBool True)]))))"

section \<open>Running: the request\<close>

definition int_arg :: "agent_env \<Rightarrow> (string, json) dict \<Rightarrow> string \<Rightarrow> int \<Rightarrow> exn + int" where
  "int_arg A payload k dflt =
     (case dict_get payload k of
        None \<Rightarrow> Inr dflt
      | Some (JInt i) \<Rightarrow> Inr i
      | Some (JBool b) \<Rightarrow> Inr (if b then 1 else 0)
      | Some (JFloat f) \<Rightarrow> ae_float_int A f
      | Some (JStr s) \<Rightarrow> (case py_int s of Some i \<Rightarrow> Inr i
                          | None \<Rightarrow> Inl (value_error ''invalid literal for int() with base 10''))
      | Some _ \<Rightarrow> Inl (PyError ''TypeError'' ''int() argument must be a string or a real number''))"

definition find_release :: "(string, json) dict \<Rightarrow> agent \<Rightarrow> exn + path \<times> (string, json) dict" where
  "find_release payload S =
     (case str_key payload ''release_id'' of
        Inl e \<Rightarrow> Inl e
      | Inr (JList _) \<Rightarrow> Inl (PyError ''TypeError'' ''unhashable type'')
      | Inr (JObj _) \<Rightarrow> Inl (PyError ''TypeError'' ''unhashable type'')
      | Inr (JStr r) \<Rightarrow> (case dict_get (agt_releases S) r of
                          Some pair \<Rightarrow> Inr pair
                        | None \<Rightarrow> Inl (value_error ''release is not bootstrapped''))
      | Inr _ \<Rightarrow> Inl (value_error ''release is not bootstrapped''))"

record run_limits =
  rl_timeout_ms :: nat
  rl_max_output :: nat
  rl_max_attributes :: nat
  rl_max_attribute_bytes :: nat

definition read_limits :: "agent_env \<Rightarrow> (string, json) dict \<Rightarrow> exn + run_limits" where
  "read_limits A payload =
     (case int_arg A payload ''timeout_ms'' 30000 of
        Inl e \<Rightarrow> Inl e
      | Inr t \<Rightarrow>
     (case int_arg A payload ''max_output_bytes'' 8388608 of
        Inl e \<Rightarrow> Inl e
      | Inr mo \<Rightarrow>
     (case int_arg A payload ''max_attributes'' 128 of
        Inl e \<Rightarrow> Inl e
      | Inr ma \<Rightarrow>
     (case int_arg A payload ''max_attribute_bytes'' 65536 of
        Inl e \<Rightarrow> Inl e
      | Inr mb \<Rightarrow> Inr \<lparr>rl_timeout_ms = nat (max 1 t), rl_max_output = nat (max 1 mo),
                      rl_max_attributes = nat (max 0 ma), rl_max_attribute_bytes = nat (max 0 mb)\<rparr>))))"

definition max_protocol :: "run_limits \<Rightarrow> nat" where
  "max_protocol l = rl_max_output l * 2 + rl_max_attribute_bytes l + PROTOCOL_OVERHEAD_BYTES"

definition run_envelope ::
  "agent_env \<Rightarrow> path \<Rightarrow> json \<Rightarrow> (string, json) dict \<Rightarrow> string \<Rightarrow> json" where
  "run_envelope A release_root entrypoint payload invocation_id =
     JObj [(''protocol_version'', JInt 1), (''type'', JStr ''invoke''),
           (''invocation_id'', JStr invocation_id),
           (''request'', JObj
              [(''release_root'', JStr (ae_path_str A release_root)),
               (''dependency_root'', case ae_dependency_root A of None \<Rightarrow> JNull | Some d \<Rightarrow> JStr d),
               (''entrypoint'', entrypoint),
               (''content_b64'', dict_get_or payload ''content_b64'' (JStr [])),
               (''attributes'', dict_get_or payload ''attributes'' (JObj [])),
               (''parameters'', dict_get_or payload ''parameters'' (JObj []))])]"

definition child_environment :: "agent_env \<Rightarrow> string \<Rightarrow> string \<Rightarrow> run_limits \<Rightarrow> (string, string) dict" where
  "child_environment A scratch workspace l =
     [(''PATH'', ae_path A), (''LANG'', ''C.UTF-8''), (''LC_ALL'', ''C.UTF-8''),
      (''HOME'', scratch @ ''/home''), (''TMPDIR'', scratch @ ''/tmp''),
      (''XDG_CACHE_HOME'', scratch @ ''/cache''),
      (''RUNNER_RUNTIME_ROOT'', workspace), (''RUNNER_INVOCATION_ROOT'', scratch),
      (''RUNNER_MAX_OUTPUT_BYTES'', int_str (int (rl_max_output l))),
      (''RUNNER_MAX_ATTRIBUTES'', int_str (int (rl_max_attributes l))),
      (''RUNNER_MAX_ATTRIBUTE_BYTES'', int_str (int (rl_max_attribute_bytes l))),
      (''RUNNER_CHILD_UID'', int_str (ae_child_uid A)),
      (''RUNNER_CHILD_GID'', int_str (ae_child_gid A)),
      (''RUNNER_CHILD_NPROC'', int_str (ae_child_nproc A)),
      (''RUNNER_CHILD_NOFILE'', int_str (ae_child_nofile A)),
      (''RUNNER_CHILD_CPU_SECONDS'', int_str (int (max 1 ((rl_timeout_ms l + 999) div 1000 + 1)))),
      (''RUNNER_CHILD_ADDRESS_SPACE_BYTES'', int_str (ae_child_address_space A))]"

text \<open>Everything from the release lookup to the started process; an exception removes the scratch
  directory again.\<close>

definition run_prepare :: "agent_env \<Rightarrow> string \<Rightarrow> (string, json) dict \<Rightarrow> agent \<Rightarrow> exn + run_plan" where
  "run_prepare A invocation_id payload S =
     (case find_release payload S of
        Inl e \<Rightarrow> Inl e
      | Inr (release_root, manifest) \<Rightarrow>
     (case read_limits A payload of
        Inl e \<Rightarrow> Inl e
      | Inr l \<Rightarrow>
     (case ae_scratch A invocation_id of
        Inl e \<Rightarrow> Inl e
      | Inr scratch \<Rightarrow>
     (case ae_workspace A release_root scratch of
        Inl e \<Rightarrow> Inl e
      | Inr workspace \<Rightarrow>
     (case str_key manifest ''entrypoint'' of
        Inl e \<Rightarrow> Inl e
      | Inr entrypoint \<Rightarrow>
     (case encode_frame (ae_dumps A (run_envelope A release_root entrypoint payload invocation_id)) of
        Inl e \<Rightarrow> Inl e
      | Inr frame \<Rightarrow>
          if MAX_BODY < length frame
          then Inl (value_error ''child request exceeds configured limit'')
          else (let env = child_environment A scratch workspace l in
            case ae_popen A env of
              Inl e \<Rightarrow> Inl e
            | Inr proc \<Rightarrow>
                Inr \<lparr>rp_invocation = invocation_id, rp_proc = proc, rp_scratch = scratch,
                     rp_timeout_ms = rl_timeout_ms l, rp_max_output = rl_max_output l,
                     rp_max_attributes = rl_max_attributes l,
                     rp_max_attribute_bytes = rl_max_attribute_bytes l,
                     rp_max_protocol = max_protocol l, rp_env = env, rp_frame = frame\<rparr>)))))))"

datatype begin_outcome =
    Refused agent_result
  | Raised exn
  | Started run_plan

definition run_begin ::
  "agent_env \<Rightarrow> string \<Rightarrow> (string, json) dict \<Rightarrow> agent \<Rightarrow> agent \<times> begin_outcome" where
  "run_begin A legacy payload S =
     (let invocation_id = id_text A payload (''legacy-'' @ legacy) in
      if agt_gate S
      then (S, Refused (failure ''AGENT_BUSY'' ''sandbox already has an active invocation'' 0 True))
      else (let S1 = S\<lparr>agt_gate := True\<rparr> in
        case run_prepare A invocation_id payload S1 of
          Inl e \<Rightarrow> (S1\<lparr>agt_gate := False\<rparr>, Raised e)
        | Inr plan \<Rightarrow>
            (case register_active invocation_id (rp_proc plan) (rp_scratch plan) S1 of
               Inl e \<Rightarrow> ((clear_active (rp_proc plan) S1)\<lparr>agt_gate := False\<rparr>, Raised e)
             | Inr S2 \<Rightarrow> (S2\<lparr>agt_run := Some plan\<rparr>, Started plan))))"

section \<open>Running: the answer\<close>

record observation =
  ob_timed_out :: bool
  ob_stdout :: bytes
  ob_stderr :: bytes
  ob_result :: fd
  ob_returncode :: "int option"
  ob_duration :: int

definition check_attributes :: "(string, json) dict \<Rightarrow> nat \<Rightarrow> nat \<Rightarrow> exn + (string, string) dict" where
  "check_attributes result max_attributes max_attribute_bytes =
     (case as_str_dict (dict_get_or result ''attributes'' (JObj [])) of
        None \<Rightarrow> Inl (value_error ''child result attributes must be dict[str, str]'')
      | Some attributes \<Rightarrow>
          if max_attributes < length attributes
          then Inl (value_error ''child result has too many attributes'')
          else if max_attribute_bytes < attribute_bytes attributes
          then Inl (value_error ''child result attributes exceed configured limit'')
          else Inr attributes)"

definition check_status :: "(string, json) dict \<Rightarrow> exn + string" where
  "check_status result =
     (case dict_get result ''status'' of
        Some (JList _) \<Rightarrow> Inl (PyError ''TypeError'' ''unhashable type'')
      | Some (JObj _) \<Rightarrow> Inl (PyError ''TypeError'' ''unhashable type'')
      | Some (JStr s) \<Rightarrow> (if s \<in> {''SUCCEEDED'', ''FAILED''} then Inr s
                         else Inl (value_error ''child result has invalid status''))
      | _ \<Rightarrow> Inl (value_error ''child result has invalid status''))"

definition check_result :: "(string, json) dict \<Rightarrow> nat \<Rightarrow> nat \<Rightarrow> nat \<Rightarrow> exn + child_result" where
  "check_result result max_output max_attributes max_attribute_bytes =
     (case check_status result of
        Inl e \<Rightarrow> Inl e
      | Inr status \<Rightarrow>
     (case dict_get result ''relationship'' of
        Some (JStr relationship) \<Rightarrow>
     (if relationship = [] then Inl (value_error ''child result has invalid relationship'') else
      case dict_get_or result ''content_b64'' (JStr []) of
        JStr content_b64 \<Rightarrow>
     (case decode_b64 (JStr content_b64) of
        Inl e \<Rightarrow> Inl e
      | Inr content \<Rightarrow>
          if max_output < length content
          then Inl (value_error ''child result content exceeds configured limit'')
          else
     (case check_attributes result max_attributes max_attribute_bytes of
        Inl e \<Rightarrow> Inl e
      | Inr attributes \<Rightarrow>
     (case dict_get_or result ''retryable'' (JBool False) of
        JBool retryable \<Rightarrow>
     (case (dict_get_or result ''error_code'' (JStr []), dict_get_or result ''error_message'' (JStr [])) of
        (JStr error_code, JStr error_message) \<Rightarrow>
          Inr \<lparr>cr_status = status, cr_relationship = relationship, cr_content_b64 = content_b64,
               cr_attributes = attributes, cr_retryable = retryable,
               cr_error_code = error_code, cr_error_message = error_message\<rparr>
      | _ \<Rightarrow> Inl (value_error ''child result error fields must be strings''))
      | _ \<Rightarrow> Inl (value_error ''child result retryable must be a boolean''))))
      | _ \<Rightarrow> Inl (value_error ''child result content_b64 must be a string''))
      | _ \<Rightarrow> Inl (value_error ''child result has invalid relationship'')))"

definition check_response :: "json \<Rightarrow> string \<Rightarrow> exn + (string, json) dict" where
  "check_response j invocation_id =
     (case j of
        JObj envelope \<Rightarrow>
          if \<not> json_is_one (dict_get envelope ''protocol_version'')
          then Inl (value_error ''unsupported child protocol version'')
          else if dict_get envelope ''type'' \<noteq> Some (JStr ''result'')
          then Inl (value_error ''child protocol response type must be result'')
          else if dict_get envelope ''invocation_id'' \<noteq> Some (JStr invocation_id)
          then Inl (value_error ''child protocol invocation id mismatch'')
          else (case dict_get envelope ''result'' of
                  Some (JObj result) \<Rightarrow> Inr result
                | _ \<Rightarrow> Inl (value_error ''child result must be an object''))
      | _ \<Rightarrow> Inl (value_error ''child protocol response must be an object''))"

definition validate_child_result :: "agent_env \<Rightarrow> bytes \<Rightarrow> run_plan \<Rightarrow> exn + child_result" where
  "validate_child_result A raw plan =
     (case decode_frame raw (rp_max_protocol plan) of
        Inl e \<Rightarrow> Inl e
      | Inr payload \<Rightarrow>
     (case ae_loads A payload of
        Inl e \<Rightarrow> Inl e
      | Inr envelope \<Rightarrow>
     (case check_response envelope (rp_invocation plan) of
        Inl e \<Rightarrow> Inl e
      | Inr result \<Rightarrow>
          check_result result (rp_max_output plan) (rp_max_attributes plan) (rp_max_attribute_bytes plan))))"

definition stderr_tail :: "agent_env \<Rightarrow> bytes \<Rightarrow> string" where
  "stderr_tail A err = ae_repr A (drop (length err - 4096) err)"

definition describe_exn :: "exn \<Rightarrow> string" where
  "describe_exn e = (case e of PyError t m \<Rightarrow> t @ '': '' @ m
     | RunnerError c m r \<Rightarrow> ''RunnerError: '' @ m)"

definition exit_failure :: "agent_env \<Rightarrow> bytes \<Rightarrow> observation \<Rightarrow> agent_result" where
  "exit_failure A err ob =
     (case ob_returncode ob of
        Some rc \<Rightarrow>
          if rc < 0 then
            (let signum = - rc;
                 name = (case ae_signal_name A signum of Some n \<Rightarrow> n | None \<Rightarrow> int_str signum)
             in failure (if signum = SIGXCPU then ''CPU_LIMIT'' else ''USER_PROCESS_SIGNALED'')
                  (''operator child terminated by '' @ name @ ''; stderr_tail='' @ stderr_tail A err)
                  (ob_duration ob) False)
          else failure ''USER_PROCESS_EXITED''
                  (''operator child exited without a protocol result (exit_code='' @ int_str rc
                     @ ''); stderr_tail='' @ stderr_tail A err) (ob_duration ob) False
      | None \<Rightarrow> failure ''USER_PROCESS_EXITED''
                  (''operator child exited without a protocol result (exit_code=None); stderr_tail=''
                     @ stderr_tail A err) (ob_duration ob) False)"

definition run_outcome :: "agent_env \<Rightarrow> run_plan \<Rightarrow> bool \<Rightarrow> observation \<Rightarrow> agent_result" where
  "run_outcome A plan cancelled ob =
     (let duration = ob_duration ob;
          (out, out_over) = bounded_reader (ob_stdout ob) [] MAX_USER_STDOUT;
          (err, err_over) = bounded_reader (ob_stderr ob) [] MAX_USER_STDERR;
          (protocol, protocol_over) = bounded_fd_reader (ob_result ob) [] (rp_max_protocol plan + 8)
      in if cancelled then failure ''CANCELLED'' ''operator invocation was cancelled'' duration False
         else if ob_timed_out ob
         then failure ''TIMEOUT'' (''operator exceeded '' @ nat_str (rp_timeout_ms plan) @ '' ms'') duration False
         else if out_over \<or> err_over
         then failure ''LOG_LIMIT'' ''operator stdout/stderr exceeded configured log limit'' duration False
         else if protocol_over
         then failure ''CHILD_PROTOCOL_ERROR'' ''child result protocol exceeded configured limit'' duration False
         else if protocol = [] then exit_failure A err ob
         else (case validate_child_result A protocol plan of
                 Inl e \<Rightarrow> failure ''CHILD_PROTOCOL_ERROR''
                            (''invalid child protocol response: '' @ describe_exn e @ ''; stderr_tail=''
                              @ stderr_tail A err) duration False
               | Inr r \<Rightarrow> child_result.extend r \<lparr>ar_duration_ms = duration\<rparr>))"

definition run_end :: "agent_env \<Rightarrow> run_plan \<Rightarrow> observation \<Rightarrow> agent \<Rightarrow> agent \<times> agent_result" where
  "run_end A plan ob S =
     (let cancelled = (case agt_active S of Some a \<Rightarrow> ac_cancel a | None \<Rightarrow> False);
          result = run_outcome A plan cancelled ob
      in ((clear_active (rp_proc plan) S)\<lparr>agt_gate := False, agt_run := None\<rparr>, result))"

text \<open>A run with no other request in between, as a caller in the same process sees it; the process
  is a function from the plan to what is observed of it.\<close>

definition run :: "agent_env \<Rightarrow> (run_plan \<Rightarrow> observation) \<Rightarrow> string \<Rightarrow> (string, json) dict \<Rightarrow> agent
    \<Rightarrow> agent \<times> (exn + agent_result)" where
  "run A observe legacy payload S =
     (case run_begin A legacy payload S of
        (S1, Refused r) \<Rightarrow> (S1, Inr r)
      | (S1, Raised e) \<Rightarrow> (S1, Inl e)
      | (S1, Started plan) \<Rightarrow> (case run_end A plan (observe plan) S1 of (S2, r) \<Rightarrow> (S2, Inr r)))"

section \<open>The HTTP interface\<close>

record http_request =
  hr_token :: string
  hr_content_length :: "string option"
  hr_path :: string
  hr_body :: bytes

datatype http_reply =
    Reply nat json
  | RunStarted run_plan

definition error_body :: "exn \<Rightarrow> json" where
  "error_body e = (case e of
      PyError t m \<Rightarrow> JObj [(''error'', JStr t), (''message'', JStr m)]
    | RunnerError c m r \<Rightarrow> JObj [(''error'', JStr ''RunnerError''), (''message'', JStr m)])"

definition agent_result_json :: "agent_result \<Rightarrow> json" where
  "agent_result_json r =
     JObj [(''status'', JStr (cr_status r)), (''relationship'', JStr (cr_relationship r)),
           (''content_b64'', JStr (cr_content_b64 r)), (''attributes'', json_str_dict (cr_attributes r)),
           (''retryable'', JBool (cr_retryable r)), (''error_code'', JStr (cr_error_code r)),
           (''error_message'', JStr (cr_error_message r)), (''duration_ms'', JInt (ar_duration_ms r))]"

definition authorized :: "agent_env \<Rightarrow> http_request \<Rightarrow> bool" where
  "authorized A h \<longleftrightarrow> hr_token h = ae_token A"

definition http_payload :: "agent_env \<Rightarrow> http_request \<Rightarrow> exn + (string, json) dict" where
  "http_payload A h =
     (case py_int (get_or ''0'' (hr_content_length h)) of
        None \<Rightarrow> Inl (value_error ''invalid Content-Length'')
      | Some n \<Rightarrow>
          if n < 0 \<or> int MAX_BODY < n then Inl (value_error ''request body too large'')
          else (let raw = take (nat n) (hr_body h) in
            case (if raw = [] then Inr (JObj []) else ae_loads A raw) of
              Inl e \<Rightarrow> Inl e
            | Inr (JObj d) \<Rightarrow> Inr d
            | Inr _ \<Rightarrow> Inl (value_error ''request body must be a JSON object'')))"

definition do_GET :: "agent_env \<Rightarrow> http_request \<Rightarrow> agent \<Rightarrow> nat \<times> json" where
  "do_GET A h S =
     (if \<not> authorized A h then (401, JObj [(''error'', JStr ''unauthorized'')])
      else if hr_path h \<noteq> ''/health'' then (404, JObj [(''error'', JStr ''not found'')])
      else (200, health S))"

definition answer :: "agent \<times> (exn + json) \<Rightarrow> agent \<times> http_reply" where
  "answer x = (case x of (S, Inl e) \<Rightarrow> (S, Reply 400 (error_body e)) | (S, Inr j) \<Rightarrow> (S, Reply 200 j))"

definition do_POST :: "agent_env \<Rightarrow> string \<Rightarrow> http_request \<Rightarrow> agent \<Rightarrow> agent \<times> http_reply" where
  "do_POST A legacy h S =
     (if \<not> authorized A h then (S, Reply 401 (JObj [(''error'', JStr ''unauthorized'')]))
      else (case http_payload A h of
        Inl e \<Rightarrow> (S, Reply 400 (error_body e))
      | Inr payload \<Rightarrow>
          if hr_path h = ''/bootstrap'' then answer (bootstrap A payload S)
          else if hr_path h = ''/run'' then
            (case run_begin A legacy payload S of
               (S1, Refused r) \<Rightarrow> (S1, Reply 200 (agent_result_json r))
             | (S1, Raised e) \<Rightarrow> (S1, Reply 400 (error_body e))
             | (S1, Started plan) \<Rightarrow> (S1, RunStarted plan))
          else if hr_path h = ''/cancel'' then answer (cancel A payload S)
          else (S, Reply 404 (JObj [(''error'', JStr ''not found'')]))))"

section \<open>Whatever the child sends, the result is within the limits\<close>

text \<open>What a result of the agent always satisfies.\<close>

definition agent_result_ok :: "run_plan \<Rightarrow> 'a child_result_scheme \<Rightarrow> bool" where
  "agent_result_ok plan r \<longleftrightarrow>
     cr_status r \<in> {''SUCCEEDED'', ''FAILED''} \<and> cr_relationship r \<noteq> [] \<and>
     (\<exists>content. b64decode (cr_content_b64 r) = Some content \<and> length content \<le> rp_max_output plan) \<and>
     length (cr_attributes r) \<le> rp_max_attributes plan \<and>
     attribute_bytes (cr_attributes r) \<le> rp_max_attribute_bytes plan"

lemma failure_ok [simp]: "agent_result_ok plan (failure c m d r)"
  by (simp add: agent_result_ok_def failure_def attribute_bytes_def)

lemma check_status_ok: "check_status d = Inr s \<Longrightarrow> s \<in> {''SUCCEEDED'', ''FAILED''}"
  by (auto simp: check_status_def split: option.splits json.splits if_splits)

lemma check_attributes_ok:
  "check_attributes d a b = Inr at \<Longrightarrow> length at \<le> a \<and> attribute_bytes at \<le> b"
  by (auto simp: check_attributes_def split: option.splits if_splits)

lemma decode_b64_Inr: "decode_b64 (JStr s) = Inr c \<longleftrightarrow> b64decode s = Some c"
  by (auto simp: decode_b64_def split: option.splits)

lemma check_result_ok:
  assumes "check_result d (rp_max_output plan) (rp_max_attributes plan) (rp_max_attribute_bytes plan) = Inr r"
  shows "agent_result_ok plan r"
  using assms unfolding check_result_def agent_result_ok_def
  by (auto dest: check_status_ok check_attributes_ok simp: decode_b64_Inr
      split: option.splits json.splits sum.splits if_splits)

lemma validate_child_result_ok: "validate_child_result A raw plan = Inr r \<Longrightarrow> agent_result_ok plan r"
  by (auto simp: validate_child_result_def intro: check_result_ok split: sum.splits)

lemma exit_failure_ok: "agent_result_ok plan (exit_failure A err ob)"
  by (simp add: exit_failure_def Let_def split: option.splits)

lemma extend_result [simp]:
  "agent_result_ok plan (child_result.extend r \<lparr>ar_duration_ms = d\<rparr>) = agent_result_ok plan r"
  by (simp add: agent_result_ok_def child_result.extend_def)

lemma run_outcome_ok: "agent_result_ok plan (run_outcome A plan cancelled ob)"
  using validate_child_result_ok exit_failure_ok
  by (auto simp: run_outcome_def Let_def split: prod.splits sum.splits)

section \<open>An honest child is accepted\<close>

lemma attribute_bytes_sorted: "attribute_bytes (sort_key fst d) = attribute_bytes d"
  unfolding attribute_bytes_def by (rule sum_list_sort_key)

definition result_items :: "child_result \<Rightarrow> (string, json) dict" where
  "result_items r =
     [(''status'', JStr (cr_status r)),
      (''relationship'', JStr (cr_relationship r)),
      (''content_b64'', JStr (cr_content_b64 r)),
      (''attributes'', json_str_dict (cr_attributes r)),
      (''retryable'', JBool (cr_retryable r)),
      (''error_code'', JStr (cr_error_code r)),
      (''error_message'', JStr (cr_error_message r))]"

lemma child_result_items: "child_result_json r = JObj (result_items r)"
  by (simp add: child_result_json_def result_items_def)

lemma result_items_get:
  "dict_get (sorted_items (result_items r)) ''status'' = Some (JStr (cr_status r))"
  "dict_get (sorted_items (result_items r)) ''relationship'' = Some (JStr (cr_relationship r))"
  "dict_get (sorted_items (result_items r)) ''content_b64'' = Some (JStr (cr_content_b64 r))"
  "dict_get (sorted_items (result_items r)) ''attributes'' = Some (json_str_dict (sort_key fst (cr_attributes r)))"
  "dict_get (sorted_items (result_items r)) ''retryable'' = Some (JBool (cr_retryable r))"
  "dict_get (sorted_items (result_items r)) ''error_code'' = Some (JStr (cr_error_code r))"
  "dict_get (sorted_items (result_items r)) ''error_message'' = Some (JStr (cr_error_message r))"
proof -
  have "distinct (map fst (result_items r))" by (simp add: result_items_def)
  note g = dict_get_sorted [OF this]
  show "dict_get (sorted_items (result_items r)) ''attributes'' = Some (json_str_dict (sort_key fst (cr_attributes r)))"
    unfolding g by (simp add: result_items_def sort_keys_str_dict)
qed (simp_all add: dict_get_sorted result_items_def)

lemma check_response_sorted:
  "check_response (sort_keys (child_response i r)) i = Inr (sorted_items (result_items r))"
  by (simp add: child_response_def child_result_items check_response_def dict_get_sorted sort_keys_obj
      del: sort_keys.simps(2))

lemma check_result_sorted:
  assumes "result_ok o' a b r"
  shows "check_result (sorted_items (result_items r)) o' a b
     = Inr (r\<lparr>cr_attributes := sort_key fst (cr_attributes r)\<rparr>)"
proof -
  from assms obtain c where c: "b64decode (cr_content_b64 r) = Some c" "length c \<le> o'"
    by (auto simp: result_ok_def)
  then have d: "decode_b64 (JStr (cr_content_b64 r)) = Inr c" by (simp add: decode_b64_Inr)
  have s: "check_status (sorted_items (result_items r)) = Inr (cr_status r)"
    using assms by (auto simp: check_status_def result_items_get result_ok_def)
  have at: "check_attributes (sorted_items (result_items r)) a b = Inr (sort_key fst (cr_attributes r))"
    using assms by (simp add: check_attributes_def result_items_get result_ok_def attribute_bytes_sorted)
  show ?thesis
    using assms c(2) unfolding check_result_def s at
    by (simp add: result_items_get d result_ok_def)
qed

lemma child_environment_limits:
  "limits_env (child_environment A s w l) (rl_max_output l) (rl_max_attributes l) (rl_max_attribute_bytes l)"
  by (simp add: limits_env_def child_environment_def)

lemma run_prepare_limits:
  assumes "run_prepare A i payload S = Inr plan"
  shows "\<exists>l scratch workspace. read_limits A payload = Inr l \<and> rp_invocation plan = i \<and>
    rp_env plan = child_environment A scratch workspace l \<and> length (rp_frame plan) \<le> MAX_BODY \<and>
    rp_timeout_ms plan = rl_timeout_ms l \<and> rp_max_output plan = rl_max_output l \<and>
    rp_max_attributes plan = rl_max_attributes l \<and> rp_max_attribute_bytes plan = rl_max_attribute_bytes l"
  using assms unfolding run_prepare_def Let_def
  by (clarsimp split: sum.splits prod.splits if_splits) blast

lemma run_prepare_plan:
  assumes "run_prepare A i payload S = Inr plan"
  shows "rp_invocation plan = i"
    "limits_env (rp_env plan) (rp_max_output plan) (rp_max_attributes plan) (rp_max_attribute_bytes plan)"
  using run_prepare_limits [OF assms] child_environment_limits by auto

text \<open>C14: When the child runs to its end and nobody cancelled it, the agent returns exactly the
  result the child computed, attributes in key order, however the pipe cut the stream: the child
  enforces the same limits the agent checks, because it reads them back from its environment.\<close>

theorem honest_child_accepted:
  fixes E :: "('m, 'f) child_env"
  assumes "run_prepare A i payload S = Inr plan" "ce_env E = rp_env plan"
    and "child_main E ks i request = (Inr (), out)" "concat (ob_result ob) = concat out"
    and "ae_loads A (ce_dumps E (child_response i (child_outcome E i request)))
           = Inr (sort_keys (child_response i (child_outcome E i request)))"
    and "length (concat out) \<le> rp_max_protocol plan + 8" "\<not> ob_timed_out ob"
    and "length (ob_stdout ob) \<le> MAX_USER_STDOUT" "length (ob_stderr ob) \<le> MAX_USER_STDERR"
  shows "run_outcome A plan False ob =
     child_result.extend ((child_outcome E i request)\<lparr>cr_attributes :=
        sort_key fst (cr_attributes (child_outcome E i request))\<rparr>) \<lparr>ar_duration_ms = ob_duration ob\<rparr>"
proof -
  let ?r = "child_outcome E i request" and ?m = "rp_max_protocol plan"
  note plan = run_prepare_plan [OF assms(1)]
  have ok: "result_ok (rp_max_output plan) (rp_max_attributes plan) (rp_max_attribute_bytes plan) ?r"
    using plan(2) assms(2) by (intro child_outcome_ok) simp
  have f: "is_frame (ce_dumps E (child_response i ?r)) (concat (ob_result ob))"
    using write_frame_is_frame [of ks _ "()" out] assms(3,4) by (auto simp: child_main_def)
  have len: "length (concat (ob_result ob)) \<le> ?m + 8" using assms(4,6) by simp
  then have rd: "bounded_fd_reader (ob_result ob) [] (?m + 8) = (concat (ob_result ob), False)"
    by (simp add: bounded_fd_reader_spec)
  have ne: "concat (ob_result ob) \<noteq> []" using is_frame_parts(1) [OF f] by force
  have "decode_frame (concat (ob_result ob)) ?m = Inr (ce_dumps E (child_response i ?r))"
    using f len is_frame_parts(1) [OF f] by (intro decode_is_frame) auto
  then have "validate_child_result A (concat (ob_result ob)) plan =
      Inr (?r\<lparr>cr_attributes := sort_key fst (cr_attributes ?r)\<rparr>)"
    using assms(5) plan(1) check_result_sorted [OF ok]
    by (simp add: validate_child_result_def check_response_sorted)
  with rd ne assms(7,8,9) show ?thesis
    by (simp add: run_outcome_def Let_def bounded_reader_spec del: concat_eq_Nil_conv)
qed

section \<open>The agent as a state machine\<close>

inductive agent_request :: "agent_env \<Rightarrow> agent \<Rightarrow> agent \<Rightarrow> bool" for A where
  bootstrap: "bootstrap A payload S = (S', r) \<Longrightarrow> agent_request A S S'"
| cancel: "cancel A payload S = (S', c) \<Longrightarrow> agent_request A S S'"
| run_begin: "run_begin A legacy payload S = (S', b) \<Longrightarrow> agent_request A S S'"

inductive agent_step :: "agent_env \<Rightarrow> agent \<Rightarrow> agent \<Rightarrow> bool" for A where
  request: "agent_request A S S' \<Longrightarrow> agent_step A S S'"
| run_end: "agt_run S = Some plan \<Longrightarrow> run_end A plan ob S = (S', r) \<Longrightarrow> agent_step A S S'"

inductive_cases agent_requestE: "agent_request A S S'"
inductive_cases agent_stepE: "agent_step A S S'"

definition agent_ok :: "agent \<Rightarrow> bool" where
  "agent_ok S \<longleftrightarrow> (agt_gate S \<longleftrightarrow> agt_run S \<noteq> None) \<and>
     (case agt_run S of
        None \<Rightarrow> agt_active S = None
      | Some p \<Rightarrow> (\<exists>c. agt_active S = Some \<lparr>ac_invocation = rp_invocation p, ac_proc = rp_proc p,
                                            ac_cancel = c, ac_scratch = rp_scratch p\<rparr>))"

lemma agent_ok_cong:
  assumes "agt_gate S' = agt_gate S \<and> agt_active S' = agt_active S \<and> agt_run S' = agt_run S" "agent_ok S"
  shows "agent_ok S'"
  using assms unfolding agent_ok_def by (elim conjE) (simp only:)

lemma agent_ok_init: "agent_ok (agent_init fs)"
  by (simp add: agent_ok_def agent_init_def)

lemma bootstrap_frame:
  "bootstrap A payload S = (S', r) \<Longrightarrow>
     agt_gate S' = agt_gate S \<and> agt_active S' = agt_active S \<and> agt_run S' = agt_run S"
  unfolding bootstrap_def by (auto split: sum.splits prod.splits if_splits)

lemma cancel_frame:
  "cancel A payload S = (S', r) \<Longrightarrow> agt_gate S' = agt_gate S \<and> agt_run S' = agt_run S \<and>
     (agt_active S' = agt_active S \<or> agt_active S' = map_option (ac_cancel_update (\<lambda>_. True)) (agt_active S))"
  unfolding cancel_def Let_def by (auto split: option.splits if_splits)

lemma run_begin_busy:
  "agt_gate S \<Longrightarrow> run_begin A legacy payload S =
     (S, Refused (failure ''AGENT_BUSY'' ''sandbox already has an active invocation'' 0 True))"
  by (simp add: run_begin_def Let_def)

lemma run_begin_idle:
  assumes "agent_ok S" "agt_run S = None" "run_begin A legacy payload S = (S', b)"
  shows "(\<exists>e. b = Raised e \<and> S' = S) \<or>
    (\<exists>plan. b = Started plan \<and> S' = S\<lparr>agt_gate := True, agt_run := Some plan,
        agt_active := Some \<lparr>ac_invocation = rp_invocation plan, ac_proc = rp_proc plan,
                           ac_cancel = False, ac_scratch = rp_scratch plan\<rparr>\<rparr>)"
  using assms run_prepare_plan(1)
  by (auto simp: run_begin_def Let_def agent_ok_def register_active_def split: sum.splits if_splits)

lemma agent_request_ok:
  assumes "agent_request A S S'" "agent_ok S"
  shows "agent_ok S'"
  using assms(1)
proof cases
  case (bootstrap payload r)
  from bootstrap_frame [OF this] assms(2) show ?thesis by (blast intro: agent_ok_cong)
next
  case (cancel payload c)
  from cancel_frame [OF this] assms(2) show ?thesis
    by (cases "agt_run S") (auto simp: agent_ok_def)
next
  case (run_begin legacy payload b)
  show ?thesis
  proof (cases "agt_run S")
    case None
    from run_begin_idle [OF assms(2) None run_begin] assms(2) show ?thesis
      by (auto simp: agent_ok_def)
  next
    case (Some p)
    with assms(2) have "agt_gate S" by (simp add: agent_ok_def)
    from run_begin_busy [OF this] run_begin assms(2) show ?thesis by auto
  qed
qed

lemma run_end_ok:
  assumes "agent_ok S" "agt_run S = Some plan" "run_end A plan ob S = (S', r)"
  shows "agent_ok S' \<and> agt_run S' = None \<and> agt_active S' = None \<and> \<not> agt_gate S'"
  using assms by (auto simp: run_end_def agent_ok_def clear_active_def Let_def)

lemma agent_step_ok: "agent_step A S S' \<Longrightarrow> agent_ok S \<Longrightarrow> agent_ok S'"
  by (erule agent_stepE) (auto dest: agent_request_ok run_end_ok)

definition agent_reachable :: "agent_env \<Rightarrow> agent \<Rightarrow> bool" where
  "agent_reachable A S \<longleftrightarrow> (\<exists>fs. (agent_step A)\<^sup>*\<^sup>* (agent_init fs) S)"

lemma agent_reachable_ok: "agent_reachable A S \<Longrightarrow> agent_ok S"
proof -
  have "(agent_step A)\<^sup>*\<^sup>* S S' \<Longrightarrow> agent_ok S \<Longrightarrow> agent_ok S'" for S S'
    by (induction rule: rtranclp_induct) (auto intro: agent_step_ok)
  then show "agent_reachable A S \<Longrightarrow> agent_ok S"
    using agent_ok_init unfolding agent_reachable_def by blast
qed

text \<open>At every reachable state of the agent at most one user process runs: a second run request
  is answered \<open>AGENT_BUSY\<close> and changes nothing, and a request that finds the agent free either
  raises and leaves the state as it was or registers its own process.\<close>

theorem agent_runs_one_process:
  assumes "agent_reachable A S" "run_begin A legacy payload S = (S', b)"
  shows "case agt_run S of
           Some p \<Rightarrow> S' = S \<and>
             b = Refused (failure ''AGENT_BUSY'' ''sandbox already has an active invocation'' 0 True)
         | None \<Rightarrow> (case b of
               Raised e \<Rightarrow> S' = S
             | Started plan \<Rightarrow> agt_run S' = Some plan \<and> map_option ac_proc (agt_active S') = Some (rp_proc plan)
             | Refused r \<Rightarrow> False)"
proof -
  from agent_reachable_ok [OF assms(1)] have ok: "agent_ok S" .
  show ?thesis
  proof (cases "agt_run S")
    case None
    with run_begin_idle [OF ok None assms(2)] show ?thesis by auto
  next
    case (Some p)
    with ok have "agt_gate S" by (simp add: agent_ok_def)
    from run_begin_busy [OF this] assms(2) Some show ?thesis by simp
  qed
qed

lemma request_keeps_cancelled:
  assumes "agent_request A S S'" "agent_ok S" "agt_run S = Some p" "map_option ac_cancel (agt_active S) = Some True"
  shows "agt_run S' = Some p \<and> map_option ac_cancel (agt_active S') = Some True"
  using assms(1)
proof cases
  case (bootstrap payload r)
  from bootstrap_frame [OF this] assms show ?thesis by simp
next
  case (cancel payload c)
  from cancel_frame [OF this] assms show ?thesis by (auto split: option.splits)
next
  case (run_begin legacy payload b)
  from assms(2,3) have "agt_gate S" by (simp add: agent_ok_def)
  from run_begin_busy [OF this] run_begin assms show ?thesis by auto
qed

text \<open>A cancellation that names the running invocation is not lost: whatever requests follow,
  and however the process ends, that run is reported as \<open>CANCELLED\<close>, after which the agent is free
  again.\<close>

theorem cancelled_run_reported:
  assumes "agent_reachable A S" "agt_run S = Some plan"
    and "id_text A payload [] = rp_invocation plan" "rp_invocation plan \<noteq> []"
    and "cancel A payload S = (S1, c)" "(agent_request A)\<^sup>*\<^sup>* S1 S2"
  shows "c = Inr (JObj [(''cancelled'', JBool True)]) \<and> agt_run S2 = Some plan \<and>
     (\<forall>ob. cr_error_code (snd (run_end A plan ob S2)) = ''CANCELLED'' \<and>
           agt_active (fst (run_end A plan ob S2)) = None \<and> \<not> agt_gate (fst (run_end A plan ob S2)))"
proof -
  from agent_reachable_ok [OF assms(1)] have ok: "agent_ok S" .
  then obtain b where act: "agt_active S = Some \<lparr>ac_invocation = rp_invocation plan, ac_proc = rp_proc plan,
      ac_cancel = b, ac_scratch = rp_scratch plan\<rparr>" using assms(2) by (auto simp: agent_ok_def)
  with assms(3,4,5) have c: "c = Inr (JObj [(''cancelled'', JBool True)])"
    and S1: "map_option ac_cancel (agt_active S1) = Some True" "agt_run S1 = Some plan"
    using assms(2) by (auto simp: cancel_def Let_def)
  have "agent_ok S1" using agent_request_ok [OF agent_request.cancel [OF assms(5)] ok] .
  with assms(6) S1 have S2: "agent_ok S2 \<and> map_option ac_cancel (agt_active S2) = Some True \<and> agt_run S2 = Some plan"
  proof (induction rule: rtranclp_induct)
    case (step y z)
    then show ?case using request_keeps_cancelled [OF step.hyps(2)] agent_request_ok [OF step.hyps(2)] by blast
  qed simp
  show ?thesis
  proof (intro conjI allI)
    show "cr_error_code (snd (run_end A plan ob S2)) = ''CANCELLED''" for ob
      using S2 by (auto simp: run_end_def run_outcome_def Let_def failure_def split: prod.splits)
    show "agt_active (fst (run_end A plan ob S2)) = None" "\<not> agt_gate (fst (run_end A plan ob S2))" for ob
      using run_end_ok [of S2 plan A ob "fst (run_end A plan ob S2)" "snd (run_end A plan ob S2)"] S2 by auto
  qed (use c S2 in auto)
qed

section \<open>Requests over HTTP\<close>

text \<open>A request without the agent's token is answered 401 and changes nothing; with it, every
  request is one of the agent's own requests or changes nothing.\<close>

theorem agent_http_guarded:
  "do_POST A legacy h S = (S', reply) \<Longrightarrow>
     (if hr_token h \<noteq> ae_token A
      then S' = S \<and> reply = Reply 401 (JObj [(''error'', JStr ''unauthorized'')])
      else S' = S \<or> agent_request A S S')"
  unfolding do_POST_def authorized_def
  by (auto simp: answer_def split: sum.splits prod.splits begin_outcome.splits if_splits
      intro: agent_request.intros)

lemma run_gate_ok:
  assumes "agent_ok S" "agt_run S = None" "run A observe legacy payload S = (S', r)"
  shows "agent_ok S' \<and> agt_run S' = None \<and> agt_active S' = None \<and>
    (\<forall>x. r = Inr x \<longrightarrow> (\<exists>plan. agent_result_ok plan x \<and>
       run_prepare A (id_text A payload (''legacy-'' @ legacy)) payload (S\<lparr>agt_gate := True\<rparr>) = Inr plan))"
proof -
  obtain S1 b where b: "run_begin A legacy payload S = (S1, b)" by fastforce
  from run_begin_idle [OF assms(1,2) b] show ?thesis
  proof (elim disjE exE conjE)
    fix e assume "b = Raised e" "S1 = S"
    with b assms show ?thesis by (auto simp: run_def agent_ok_def)
  next
    fix plan assume p: "b = Started plan"
    and S1: "S1 = S\<lparr>agt_gate := True, agt_run := Some plan,
        agt_active := Some \<lparr>ac_invocation = rp_invocation plan, ac_proc = rp_proc plan,
                           ac_cancel = False, ac_scratch = rp_scratch plan\<rparr>\<rparr>"
    have i: "run_prepare A (id_text A payload (''legacy-'' @ legacy)) payload (S\<lparr>agt_gate := True\<rparr>) = Inr plan"
      using b p by (auto simp: run_begin_def Let_def split: sum.splits if_splits)
    obtain x where e: "run_end A plan (observe plan) S1 = (S', x)" "r = Inr x"
      using assms(3) b p by (auto simp: run_def split: prod.splits)
    have "agent_ok S1" "agt_run S1 = Some plan" unfolding S1
      by (simp_all add: agent_ok_def) (rule exI [of _ False], simp)
    from run_end_ok [OF this e(1)] have "agent_ok S'" "agt_run S' = None" "agt_active S' = None" by auto
    moreover have "agent_result_ok plan x"
      using e(1) by (auto simp: run_end_def Let_def simp del: split_paired_All intro: run_outcome_ok)
    ultimately show ?thesis using e(2) i by blast
  qed
qed

text \<open>Every run, alone or refused, leaves the gate as it found it, so an agent never stays
  locked after a request that failed at any point.\<close>

theorem run_releases_gate:
  assumes "agent_ok S" "agt_run S = None" "run A observe legacy payload S = (S', r)"
  shows "agent_ok S' \<and> agt_run S' = None \<and> agt_active S' = None \<and>
    (\<forall>x. r = Inr x \<longrightarrow> (\<exists>plan. agent_result_ok plan x \<and>
       run_prepare A (id_text A payload (''legacy-'' @ legacy)) payload (S\<lparr>agt_gate := True\<rparr>) = Inr plan))"
  by (rule run_gate_ok [OF assms])

text \<open>C30: Whatever the untrusted child process writes, however it ends and whether or not it was
  cancelled, the agent's answer has a valid status, a relationship, decodable content within the
  output limit and attributes within both attribute limits.\<close>

theorem run_outcome_within_limits: "agent_result_ok plan (run_outcome A plan cancelled ob)"
  by (rule run_outcome_ok)

end
