(* ===== verification/Pool.thy ===== *)
theory Pool
  imports Runner_Model
begin

text \<open>
  runner_engine/quota.py: the sandbox quota. The counters are Python ints (\<open>int\<close>), the
  per-tenant dictionary is a map whose missing key counts as 0, and the bounded semaphore
  of \<open>creation_slot\<close> is the number of its permits in use. Every method runs under the
  quota's own lock, so each is one step.
\<close>

record quota =
  q_max_creating :: int
  q_creating :: int
  q_max_live :: int
  q_max_tenant :: int
  q_live :: int
  q_tenant :: "string \<Rightarrow> int option"

definition quota_init :: "int \<Rightarrow> int \<Rightarrow> int \<Rightarrow> exn + quota" where
  "quota_init max_creating max_live max_live_per_tenant =
     (if min max_creating (min max_live max_live_per_tenant) \<le> 0
      then Inl (PyError ''ValueError'' ''quota values must be positive'')
      else Inr \<lparr> q_max_creating = max_creating, q_creating = 0, q_max_live = max_live,
                 q_max_tenant = max_live_per_tenant, q_live = 0, q_tenant = Map.empty \<rparr>)"

definition tenant_count :: "quota \<Rightarrow> string \<Rightarrow> int" where
  "tenant_count q t = get_or 0 (q_tenant q t)"

text \<open>
  \<open>BoundedSemaphore.acquire\<close> returns only when a permit is free (\<open>slot_free\<close>);
  \<open>slot_enter\<close> is the state after it returned.
\<close>

definition slot_free :: "quota \<Rightarrow> bool" where
  "slot_free q \<longleftrightarrow> q_creating q < q_max_creating q"

definition slot_enter :: "quota \<Rightarrow> quota" where
  "slot_enter q = q\<lparr>q_creating := q_creating q + 1\<rparr>"

definition slot_exit :: "quota \<Rightarrow> quota" where
  "slot_exit q = q\<lparr>q_creating := q_creating q - 1\<rparr>"

definition reserve_live :: "quota \<Rightarrow> string \<Rightarrow> exn + quota" where
  "reserve_live q tenant =
     (let c = tenant_count q tenant in
      if q_live q \<ge> q_max_live q
      then Inl (RunnerError ''GLOBAL_SANDBOX_QUOTA'' ''global live-sandbox quota reached'' True)
      else if c \<ge> q_max_tenant q
      then Inl (RunnerError ''TENANT_SANDBOX_QUOTA'' ''tenant live-sandbox quota reached'' True)
      else Inr (q\<lparr>q_live := q_live q + 1, q_tenant := (q_tenant q)(tenant \<mapsto> c + 1)\<rparr>))"

definition release_live :: "quota \<Rightarrow> string \<Rightarrow> quota" where
  "release_live q tenant =
     (let c = tenant_count q tenant in
      if c \<le> 0 then q
      else q\<lparr>q_live := q_live q - 1,
             q_tenant := (if c = 1 then (q_tenant q)(tenant := None)
                          else (q_tenant q)(tenant \<mapsto> c - 1))\<rparr>)"

section \<open>The quota's counters\<close>

text \<open>
  \<open>quota_counts q f\<close>: the counters are those of a population of live sandboxes with
  \<open>f t\<close> of them for tenant \<open>t\<close> and \<open>n\<close> in all.
\<close>

definition quota_counts :: "quota \<Rightarrow> (string \<Rightarrow> nat) \<Rightarrow> nat \<Rightarrow> bool" where
  "quota_counts q f n \<longleftrightarrow> q_live q = int n \<and> (\<forall>t. tenant_count q t = int (f t))"

definition quota_bounded :: "quota \<Rightarrow> bool" where
  "quota_bounded q \<longleftrightarrow> 0 < q_max_live q \<and> 0 < q_max_tenant q \<and> 0 < q_max_creating q \<and>
     q_live q \<le> q_max_live q \<and> (\<forall>t. tenant_count q t \<le> q_max_tenant q)"

named_theorems quota_defs

lemmas [quota_defs] = tenant_count_def slot_enter_def slot_exit_def reserve_live_def
  release_live_def quota_counts_def quota_bounded_def slot_free_def

lemma quota_init_ok: "quota_init c l t = Inr q \<Longrightarrow>
    quota_counts q (\<lambda>_. 0) 0 \<and> quota_bounded q \<and> slot_free q"
  by (auto simp: quota_init_def quota_defs split: if_splits)

lemma reserve_live_counts:
  assumes "reserve_live q t = Inr q'" and "quota_counts q f n"
  shows "quota_counts q' (f(t := Suc (f t))) (Suc n)"
  using assms by (auto simp: quota_defs Let_def split: if_splits)

lemma release_live_counts:
  assumes "quota_counts q f n" and "0 < f t" and "0 < n"
  shows "quota_counts (release_live q t) (f(t := f t - 1)) (n - 1)"
proof -
  from assms(1) have c: "get_or 0 (q_tenant q t) = int (f t)" by (simp add: quota_defs)
  with assms(2) have "\<not> get_or 0 (q_tenant q t) \<le> 0" by simp
  then show ?thesis
    using assms c by (auto simp: quota_defs Let_def of_nat_diff)
qed

lemma reserve_live_bounded: "reserve_live q t = Inr q' \<Longrightarrow> quota_bounded q \<Longrightarrow> quota_bounded q'"
  by (auto simp: quota_defs Let_def split: if_splits)

lemma release_live_bounded: "quota_bounded q \<Longrightarrow> quota_bounded (release_live q t)"
  by (auto simp: quota_defs Let_def get_or_def split: if_splits option.splits)
     (smt (verit) option.simps)+

lemma slot_enter_counts [simp]: "quota_counts (slot_enter q) f n = quota_counts q f n"
    "quota_counts (slot_exit q) f n = quota_counts q f n"
  by (simp_all add: quota_defs)

lemma slot_enter_bounded [simp]: "quota_bounded (slot_enter q) = quota_bounded q"
    "quota_bounded (slot_exit q) = quota_bounded q"
  by (simp_all add: quota_defs)

lemma slot_exit_enter [simp]: "slot_exit (slot_enter q) = q"
  by (simp add: slot_enter_def slot_exit_def)

lemma quota_creating_simps [simp]:
  "q_creating (release_live q t) = q_creating q"
  "q_max_creating (release_live q t) = q_max_creating q"
  "q_creating (slot_enter q) = q_creating q + 1"
  "q_creating (slot_exit q) = q_creating q - 1"
  "q_max_creating (slot_enter q) = q_max_creating q"
  "q_max_creating (slot_exit q) = q_max_creating q"
  by (simp_all add: release_live_def slot_enter_def slot_exit_def Let_def)

lemma reserve_live_creating:
  "reserve_live q t = Inr q' \<Longrightarrow> q_creating q' = q_creating q \<and> q_max_creating q' = q_max_creating q"
  by (auto simp: reserve_live_def Let_def split: if_splits)

lemma reserve_live_error: "reserve_live q t = Inl e \<longleftrightarrow>
    (q_max_live q \<le> q_live q \<and>
       e = RunnerError ''GLOBAL_SANDBOX_QUOTA'' ''global live-sandbox quota reached'' True) \<or>
    (q_live q < q_max_live q \<and> q_max_tenant q \<le> tenant_count q t \<and>
       e = RunnerError ''TENANT_SANDBOX_QUOTA'' ''tenant live-sandbox quota reached'' True)"
  by (auto simp: reserve_live_def Let_def)

text \<open>
  runner_engine/pool.py: the warm sandbox pool. \<open>Worker\<close> objects are mutable and shared
  (the idle buckets, the service's active runs and a cancel call may hold the same one), so
  the pool's state has a heap of workers addressed by references (\<open>nat\<close>, allocated in
  order); buckets and active runs hold references. An object that never leaves the method
  that creates it (a worker whose bootstrap fails) is not allocated.

  Each method is one step of the model and reads the clock once (\<open>now\<close>, milliseconds; the
  configured seconds are scaled). A method returns the pool and an exception or a value:
  what it changed before it raised stays changed.
\<close>

record pool_cfg =
  c_idle_seconds :: int
  c_orphan_ttl :: int
  c_renew_before :: int
  c_max_installed :: int

type_synonym pool_key = "string \<times> string \<times> string"

record 'b pool =
  p_heap :: "nat \<Rightarrow> worker"
  p_next :: nat
  p_idle :: "(pool_key, nat list) dict"
  p_quota :: quota
  p_backend :: 'b

definition pool_cfg_check :: "pool_cfg \<Rightarrow> exn + unit" where
  "pool_cfg_check cfg =
     (if c_idle_seconds cfg \<le> 0
      then Inl (PyError ''ValueError'' ''idle_seconds must be positive'')
      else if c_orphan_ttl cfg \<le> c_idle_seconds cfg + 60
      then Inl (PyError ''ValueError'' ''orphan_ttl_seconds must be comfortably larger than idle_seconds'')
      else if c_renew_before cfg \<le> 0 \<or> c_renew_before cfg \<ge> c_orphan_ttl cfg
      then Inl (PyError ''ValueError'' ''renew_before_seconds must be between 0 and orphan_ttl_seconds'')
      else if c_max_installed cfg \<le> 0
      then Inl (PyError ''ValueError'' ''max_installed_releases must be positive'')
      else Inr ())"

definition pool_init :: "(nat \<Rightarrow> worker) \<Rightarrow> quota \<Rightarrow> 'b \<Rightarrow> 'b pool" where
  "pool_init h q b = \<lparr> p_heap = h, p_next = 0, p_idle = [], p_quota = q, p_backend = b \<rparr>"

definition pool_key :: "string \<Rightarrow> operator_release \<Rightarrow> pool_key" where
  "pool_key tenant release = (tenant, rt_id (rel_runtime release), rel_profile release)"

definition worker_key :: "worker \<Rightarrow> pool_key" where
  "worker_key w = (w_tenant w, w_runtime w, w_profile w)"

definition upd_worker :: "nat \<Rightarrow> (worker \<Rightarrow> worker) \<Rightarrow> 'b pool \<Rightarrow> 'b pool" where
  "upd_worker r f p = p\<lparr>p_heap := (p_heap p)(r := f (p_heap p r))\<rparr>"

definition idle_expired :: "pool_cfg \<Rightarrow> int \<Rightarrow> worker \<Rightarrow> bool" where
  "idle_expired cfg now w \<longleftrightarrow>
     w_destroyed w \<or> \<not> w_healthy w \<or> now - w_last_used w > 1000 * c_idle_seconds cfg"

definition ensure_sandbox_ttl :: "'b backend \<Rightarrow> pool_cfg \<Rightarrow> int \<Rightarrow> security_policy \<Rightarrow> nat
    \<Rightarrow> 'b pool \<Rightarrow> 'b pool \<times> (exn + unit)" where
  "ensure_sandbox_ttl B cfg now policy r p =
     (case w_expires (p_heap p r) of
        None \<Rightarrow> (p, Inr ())
      | Some expires \<Rightarrow>
          (let remaining = expires - now;
               execution_headroom = pol_max_timeout_ms policy + 120000;
               renew_threshold = max (1000 * c_renew_before cfg) execution_headroom
           in if remaining \<le> renew_threshold
              then (case be_renew B (p_backend p) now (p_heap p r) (c_orphan_ttl cfg) of
                      (b, Inl e) \<Rightarrow> (p\<lparr>p_backend := b\<rparr>, Inl e)
                    | (b, Inr w) \<Rightarrow> (upd_worker r (\<lambda>_. w) (p\<lparr>p_backend := b\<rparr>), Inr ()))
              else (p, Inr ())))"

text \<open>
  \<open>_ensure_release\<close> on a worker that is not in the heap yet (being created) works on the
  record; on a pooled worker it updates the heap.
\<close>

definition ensure_release_rec :: "'b backend \<Rightarrow> operator_release \<Rightarrow> 'b \<Rightarrow> worker
    \<Rightarrow> 'b \<times> (exn + worker)" where
  "ensure_release_rec B release b w =
     (if rel_id release \<in> set (w_installed w) then (b, Inr w)
      else (case be_install B b w release of
              (b', Inl e) \<Rightarrow> (b', Inl e)
            | (b', Inr _) \<Rightarrow> (b', Inr (w\<lparr>w_installed := w_installed w @ [rel_id release]\<rparr>))))"

definition ensure_release :: "'b backend \<Rightarrow> operator_release \<Rightarrow> nat \<Rightarrow> 'b pool
    \<Rightarrow> 'b pool \<times> (exn + unit)" where
  "ensure_release B release r p =
     (case ensure_release_rec B release (p_backend p) (p_heap p r) of
        (b, Inl e) \<Rightarrow> (p\<lparr>p_backend := b\<rparr>, Inl e)
      | (b, Inr w) \<Rightarrow> (upd_worker r (\<lambda>_. w) (p\<lparr>p_backend := b\<rparr>), Inr ()))"

text \<open>
  \<open>_destroy\<close>: marks the object once; the quota is released in a \<open>finally\<close>, so also when the
  backend raises.
\<close>

definition pool_destroy :: "'b backend \<Rightarrow> nat \<Rightarrow> 'b pool \<Rightarrow> 'b pool \<times> (exn + unit)" where
  "pool_destroy B r p =
     (if w_destroyed (p_heap p r) then (p, Inr ())
      else let p1 = upd_worker r (\<lambda>w. w\<lparr>w_destroyed := True\<rparr>) p in
        (case be_destroy B (p_backend p1) (p_heap p1 r) of
           (b, res) \<Rightarrow>
             (p1\<lparr>p_backend := b, p_quota := release_live (p_quota p1) (w_tenant (p_heap p1 r))\<rparr>,
              res)))"

definition pool_invalidate :: "'b backend \<Rightarrow> nat \<Rightarrow> 'b pool \<Rightarrow> 'b pool \<times> (exn + unit)" where
  "pool_invalidate B r p = pool_destroy B r (upd_worker r (\<lambda>w. w\<lparr>w_healthy := False\<rparr>) p)"

text \<open>\<open>for worker in stale: self._destroy(worker)\<close> stops at the first exception.\<close>

fun destroy_each :: "'b backend \<Rightarrow> nat list \<Rightarrow> 'b pool \<Rightarrow> 'b pool \<times> (exn + unit)" where
  "destroy_each B [] p = (p, Inr ())"
| "destroy_each B (r # rs) p =
     (case pool_destroy B r p of
        (p', Inl e) \<Rightarrow> (p', Inl e)
      | (p', Inr _) \<Rightarrow> destroy_each B rs p')"

text \<open>
  The \<open>while bucket: worker = bucket.pop()\<close> loop of \<open>acquire\<close>, over the bucket from its end
  (the argument is the reversed bucket): the stale workers in the order they are popped, the
  candidate, and what is left (still reversed).
\<close>

fun acquire_scan :: "pool_cfg \<Rightarrow> int \<Rightarrow> (nat \<Rightarrow> worker) \<Rightarrow> string \<Rightarrow> nat list
    \<Rightarrow> nat list \<times> nat option \<times> nat list" where
  "acquire_scan cfg now h rid [] = ([], None, [])"
| "acquire_scan cfg now h rid (r # rs) =
     (if idle_expired cfg now (h r) \<or>
         (rid \<notin> set (w_installed (h r)) \<and> int (length (w_installed (h r))) \<ge> c_max_installed cfg)
      then (case acquire_scan cfg now h rid rs of (stale, c, rest) \<Rightarrow> (r # stale, c, rest))
      else ([], Some r, rs))"

definition set_bucket :: "pool_key \<Rightarrow> nat list \<Rightarrow> 'b pool \<Rightarrow> 'b pool" where
  "set_bucket key bucket p =
     p\<lparr>p_idle := (if bucket = [] then dict_pop key (p_idle p) else dict_set key bucket (p_idle p))\<rparr>"

text \<open>The candidate branch: renew, bootstrap, stamp; on any exception invalidate and re-raise.\<close>

definition acquire_candidate :: "'b backend \<Rightarrow> pool_cfg \<Rightarrow> int \<Rightarrow> operator_release
    \<Rightarrow> security_policy \<Rightarrow> nat \<Rightarrow> 'b pool \<Rightarrow> 'b pool \<times> (exn + nat)" where
  "acquire_candidate B cfg now release policy r p =
     (let (p1, res) = (case ensure_sandbox_ttl B cfg now policy r p of
                         (p', Inl e) \<Rightarrow> (p', Inl e)
                       | (p', Inr _) \<Rightarrow> ensure_release B release r p')
      in case res of
           Inr _ \<Rightarrow> (upd_worker r (\<lambda>w. w\<lparr>w_last_used := now\<rparr>) p1, Inr r)
         | Inl e \<Rightarrow> (case pool_invalidate B r p1 of
                       (p2, Inl e2) \<Rightarrow> (p2, Inl e2)
                     | (p2, Inr _) \<Rightarrow> (p2, Inl e)))"

text \<open>The creation branch: reserve quota, create and bootstrap in a creation slot.\<close>

definition acquire_create :: "'b backend \<Rightarrow> pool_cfg \<Rightarrow> int \<Rightarrow> string \<Rightarrow> operator_release
    \<Rightarrow> security_policy \<Rightarrow> 'b pool \<Rightarrow> 'b pool \<times> (exn + nat)" where
  "acquire_create B cfg now tenant release policy p =
     (case reserve_live (p_quota p) tenant of
        Inl e \<Rightarrow> (p, Inl e)
      | Inr q \<Rightarrow>
          (let q1 = slot_enter q in
           case be_create B (p_backend p) now tenant release policy (c_orphan_ttl cfg) of
             (b, Inl e) \<Rightarrow>
               (p\<lparr>p_backend := b, p_quota := release_live (slot_exit q1) tenant\<rparr>, Inl e)
           | (b, Inr w) \<Rightarrow>
               (case ensure_release_rec B release b w of
                  (b2, Inl e) \<Rightarrow>
                    (p\<lparr>p_backend := fst (be_destroy B b2 w),
                       p_quota := release_live (slot_exit q1) tenant\<rparr>, Inl e)
                | (b2, Inr w2) \<Rightarrow>
                    (p\<lparr>p_backend := b2, p_quota := slot_exit q1,
                       p_heap := (p_heap p)(p_next p := w2), p_next := Suc (p_next p)\<rparr>,
                     Inr (p_next p)))))"

definition pool_acquire :: "'b backend \<Rightarrow> pool_cfg \<Rightarrow> int \<Rightarrow> string \<Rightarrow> operator_release
    \<Rightarrow> security_policy \<Rightarrow> 'b pool \<Rightarrow> 'b pool \<times> (exn + nat)" where
  "pool_acquire B cfg now tenant release policy p =
     (let key = pool_key tenant release;
          bucket = get_or [] (dict_get (p_idle p) key);
          (stale, candidate, rest) = acquire_scan cfg now (p_heap p) (rel_id release) (rev bucket);
          p1 = set_bucket key (rev rest) p
      in case destroy_each B stale p1 of
           (p2, Inl e) \<Rightarrow> (p2, Inl e)
         | (p2, Inr _) \<Rightarrow>
             (case candidate of
                Some r \<Rightarrow> acquire_candidate B cfg now release policy r p2
              | None \<Rightarrow> acquire_create B cfg now tenant release policy p2))"

definition pool_release :: "'b backend \<Rightarrow> int \<Rightarrow> security_policy \<Rightarrow> nat \<Rightarrow> 'b pool
    \<Rightarrow> 'b pool \<times> (exn + unit)" where
  "pool_release B now policy r p =
     (let p1 = upd_worker r (\<lambda>w. w\<lparr>w_runs := w_runs w + 1, w_last_used := now\<rparr>) p;
          w = p_heap p1 r
      in if w_destroyed w \<or> \<not> w_healthy w \<or> \<not> pol_reuse_sandbox policy
         then pool_destroy B r p1
         else (let key = worker_key w in
               (p1\<lparr>p_idle := dict_set key (get_or [] (dict_get (p_idle p1) key) @ [r]) (p_idle p1)\<rparr>,
                Inr ())))"

text \<open>
  \<open>reap\<close>: the buckets are filtered in place (an empty one is popped) and the stale workers
  destroyed; the value is their number.
\<close>

definition reap_stale :: "pool_cfg \<Rightarrow> int \<Rightarrow> 'b pool \<Rightarrow> nat list" where
  "reap_stale cfg now p =
     filter (\<lambda>r. idle_expired cfg now (p_heap p r)) (concat (map snd (p_idle p)))"

definition reap_idle :: "pool_cfg \<Rightarrow> int \<Rightarrow> 'b pool \<Rightarrow> 'b pool" where
  "reap_idle cfg now p = p\<lparr>p_idle :=
     filter (\<lambda>kb. snd kb \<noteq> [])
       (map (\<lambda>(k, bucket). (k, filter (\<lambda>r. \<not> idle_expired cfg now (p_heap p r)) bucket))
          (p_idle p))\<rparr>"

definition pool_reap :: "'b backend \<Rightarrow> pool_cfg \<Rightarrow> int \<Rightarrow> 'b pool \<Rightarrow> 'b pool \<times> (exn + nat)" where
  "pool_reap B cfg now p =
     (let stale = reap_stale cfg now p in
      case destroy_each B stale (reap_idle cfg now p) of
        (p', Inl e) \<Rightarrow> (p', Inl e)
      | (p', Inr _) \<Rightarrow> (p', Inr (length stale)))"

definition reset_after_restart :: "'b backend \<Rightarrow> 'b pool \<Rightarrow> 'b pool \<times> (exn + nat)" where
  "reset_after_restart B p =
     (case be_cleanup B (p_backend p) of
        (b, res) \<Rightarrow> (p\<lparr>p_idle := [], p_backend := b\<rparr>, res))"

end
