(* ===== verification/Runner_DB.thy ===== *)
theory Runner_DB
  imports Codec "HOL-Library.Product_Lexorder"
begin

text \<open>
  The durable state of the runner (\<open>runner_engine/state.py\<close>): the tables \<open>runner.leases\<close>,
  \<open>runner.runs\<close> (execution history) and \<open>runner.idempotency_keys\<close> (claims and replay cache).
  Time is microseconds; one operation is one transaction and reads the clock once. A method that
  changes the database returns an exception, and then nothing is committed, or the new database
  and a value. Fresh identifiers are arguments. Identifiers are compared as text; the driver's
  own failures (a lost connection, text PostgreSQL refuses) are not modelled, nor is the schema
  migration.
\<close>

section \<open>Rows\<close>

datatype run_state = RRunning | RDone | RAbandoned
datatype key_state = KRunning | KDone

record lease_row =
  lr_id :: string
  lr_tenant :: string
  lr_project :: string
  lr_processor :: string
  lr_release :: string
  lr_expires :: int
  lr_updated :: int

record run_row =
  ru_id :: string
  ru_tenant :: string
  ru_project :: string
  ru_processor :: string
  ru_release :: string
  ru_lease :: string
  ru_invocation :: string
  ru_key :: string
  ru_fingerprint :: string
  ru_state :: run_state
  ru_outcome :: "string option"
  ru_status :: "string option"
  ru_relationship :: "string option"
  ru_retryable :: "bool option"
  ru_error_code :: "string option"
  ru_error_message :: "string option"
  ru_worker :: "string option"
  ru_duration :: "int option"
  ru_replayable :: bool
  ru_expires :: "int option"
  ru_started :: int
  ru_completed :: "int option"
  ru_updated :: int

record key_row =
  ik_tenant :: string
  ik_release :: string
  ik_key :: string
  ik_fingerprint :: string
  ik_state :: key_state
  ik_run :: string
  ik_lease :: string
  ik_invocation :: string
  ik_replayable :: bool
  ik_result :: "json option"
  ik_expires :: "int option"
  ik_replays :: nat
  ik_last_replayed :: "int option"
  ik_updated :: int

record runner_db =
  db_leases :: "lease_row list"
  db_runs :: "run_row list"
  db_keys :: "key_row list"

definition db_init :: runner_db where
  "db_init = \<lparr>db_leases = [], db_runs = [], db_keys = []\<rparr>"

definition epoch_ms :: "int \<Rightarrow> int" where
  "epoch_ms t = t div 1000"

definition lease_of_row :: "lease_row \<Rightarrow> lease" where
  "lease_of_row r = \<lparr>le_id = lr_id r, le_tenant = lr_tenant r, le_project = lr_project r,
     le_processor = lr_processor r, le_release = lr_release r, le_expires_at_ms = epoch_ms (lr_expires r)\<rparr>"

section \<open>Results as JSON\<close>

definition result_to_dict :: "run_result \<Rightarrow> json" where
  "result_to_dict r =
     JObj [(''status'', JStr (rr_status r)), (''relationship'', JStr (rr_relationship r)),
           (''content_b64'', JStr (b64encode (rr_content r))),
           (''attributes'', json_str_dict (rr_attributes r)),
           (''retryable'', JBool (rr_retryable r)), (''error_code'', JStr (rr_error_code r)),
           (''error_message'', JStr (rr_error_message r)), (''worker_id'', JStr (rr_worker_id r)),
           (''duration_ms'', JInt (rr_duration_ms r))]"

definition str_item :: "(string, json) dict \<Rightarrow> string \<Rightarrow> string \<Rightarrow> exn + string" where
  "str_item d k dflt = as_str (dict_get_or d k (JStr dflt))"

definition result_from_dict :: "json \<Rightarrow> exn + run_result" where
  "result_from_dict raw =
     (case raw of
        JObj d \<Rightarrow>
          (case (case dict_get d ''status'' of None \<Rightarrow> Inl (PyError ''KeyError'' ''status'') | Some j \<Rightarrow> as_str j,
                 str_item d ''relationship'' ''success'', str_item d ''content_b64'' [],
                 str_item d ''error_code'' [], str_item d ''error_message'' [], str_item d ''worker_id'' []) of
             (Inr status, Inr relationship, Inr content_b64, Inr error_code, Inr error_message, Inr worker) \<Rightarrow>
               (case (b64decode content_b64, as_str_dict (dict_get_or d ''attributes'' (JObj [])),
                      dict_get_or d ''duration_ms'' (JInt 0)) of
                  (Some content, Some attributes, JInt duration) \<Rightarrow>
                    Inr \<lparr>rr_status = status, rr_relationship = relationship, rr_content = content,
                         rr_attributes = attributes,
                         rr_retryable = truthy (dict_get_or d ''retryable'' (JBool False)),
                         rr_error_code = error_code, rr_error_message = error_message,
                         rr_worker_id = worker, rr_duration_ms = duration\<rparr>
                | _ \<Rightarrow> Inl (PyError ''TypeError'' ''result_json''))
           | _ \<Rightarrow> Inl (PyError ''TypeError'' ''result_json''))
      | _ \<Rightarrow> Inl (PyError ''TypeError'' ''result_json''))"

text \<open>A \<open>JSONB\<close> column keeps an object's keys ordered by length and then by bytes.\<close>

definition jsonb_key :: "string \<times> 'a \<Rightarrow> nat \<times> string" where
  "jsonb_key p = (length (fst p), fst p)"

fun jsonb :: "json \<Rightarrow> json" where
  "jsonb (JList l) = JList (map jsonb l)"
| "jsonb (JObj d) = JObj (sort_key jsonb_key (map (\<lambda>(k, v). (k, jsonb v)) d))"
| "jsonb j = j"

definition outcome_class :: "run_result \<Rightarrow> string" where
  "outcome_class r =
     (if rr_status r = ''SUCCEEDED'' then ''SUCCESS''
      else if rr_retryable r then ''RETRYABLE_FAILURE'' else ''USER_FAILURE'')"

section \<open>Leases\<close>

definition lease_error :: "string \<Rightarrow> string \<Rightarrow> bool \<Rightarrow> exn" where
  "lease_error c m r = RunnerError c m r"

definition create_lease ::
  "string \<Rightarrow> int \<Rightarrow> string \<Rightarrow> string \<Rightarrow> string \<Rightarrow> string \<Rightarrow> int \<Rightarrow> runner_db \<Rightarrow> exn + runner_db \<times> lease" where
  "create_lease lease_id now tenant project processor release ttl_ms db =
     (let row = \<lparr>lr_id = lease_id, lr_tenant = tenant, lr_project = project, lr_processor = processor,
                 lr_release = release, lr_expires = now + 1000 * ttl_ms, lr_updated = now\<rparr>
      in case sql_insert lr_id row (db_leases db) of
           None \<Rightarrow> Inl unique_violation
         | Some t \<Rightarrow> Inr (db\<lparr>db_leases := t\<rparr>, lease_of_row row))"

definition require_lease :: "int \<Rightarrow> string \<Rightarrow> string \<Rightarrow> string option \<Rightarrow> runner_db \<Rightarrow> exn + lease" where
  "require_lease now lease_id tenant release db =
     (case List.find (\<lambda>r. lr_id r = lease_id) (db_leases db) of
        None \<Rightarrow> Inl (lease_error ''LEASE_UNKNOWN'' ''lease does not exist'' True)
      | Some row \<Rightarrow>
          if lr_tenant row \<noteq> tenant
          then Inl (lease_error ''LEASE_FORBIDDEN'' ''lease belongs to another tenant'' False)
          else if release \<noteq> None \<and> release \<noteq> Some (lr_release row)
          then Inl (lease_error ''LEASE_RELEASE_MISMATCH'' ''lease is for another release'' False)
          else if lr_expires row \<le> now
          then Inl (lease_error ''LEASE_EXPIRED'' ''lease expired'' True)
          else Inr (lease_of_row row))"

definition renew_lease :: "int \<Rightarrow> string \<Rightarrow> string \<Rightarrow> int \<Rightarrow> runner_db \<Rightarrow> exn + runner_db \<times> lease" where
  "renew_lease now lease_id tenant ttl_ms db =
     (case require_lease now lease_id tenant None db of
        Inl e \<Rightarrow> Inl e
      | Inr current \<Rightarrow>
          (let expires = now + 1000 * ttl_ms in
           Inr (db\<lparr>db_leases := sql_update (\<lambda>r. lr_id r = lease_id \<and> lr_tenant r = tenant)
                      (\<lambda>r. r\<lparr>lr_expires := expires, lr_updated := now\<rparr>) (db_leases db)\<rparr>,
                current\<lparr>le_expires_at_ms := epoch_ms expires\<rparr>)))"

definition delete_lease :: "string \<Rightarrow> string \<Rightarrow> runner_db \<Rightarrow> exn + runner_db" where
  "delete_lease lease_id tenant db =
     (case List.find (\<lambda>r. lr_id r = lease_id) (db_leases db) of
        None \<Rightarrow> Inr db
      | Some row \<Rightarrow>
          if lr_tenant row \<noteq> tenant
          then Inl (lease_error ''LEASE_FORBIDDEN'' ''lease belongs to another tenant'' False)
          else Inr (db\<lparr>db_leases := sql_delete (\<lambda>r. lr_id r = lease_id) (db_leases db)\<rparr>))"

definition purge_expired_leases :: "int \<Rightarrow> runner_db \<Rightarrow> runner_db \<times> nat" where
  "purge_expired_leases now db =
     (db\<lparr>db_leases := sql_delete (\<lambda>r. lr_expires r \<le> now) (db_leases db)\<rparr>,
      sql_count (\<lambda>r. lr_expires r \<le> now) (db_leases db))"

section \<open>Runs and idempotency keys\<close>

definition abandon_row :: "int \<Rightarrow> string \<Rightarrow> string \<Rightarrow> run_row \<Rightarrow> run_row" where
  "abandon_row now code message r =
     r\<lparr>ru_state := RAbandoned, ru_outcome := Some ''INFRASTRUCTURE_FAILURE'', ru_status := Some ''FAILED'',
       ru_relationship := Some ''retry'', ru_retryable := Some True, ru_error_code := Some code,
       ru_error_message := Some message, ru_replayable := False, ru_expires := Some now,
       ru_completed := Some now, ru_updated := now\<rparr>"

definition reset_running :: "int \<Rightarrow> runner_db \<Rightarrow> runner_db \<times> nat" where
  "reset_running now db =
     (db\<lparr>db_runs := sql_update (\<lambda>r. ru_state r = RRunning)
           (abandon_row now ''RUNNER_RESTART'' ''Runner restarted while invocation was active'') (db_runs db),
         db_keys := sql_delete (\<lambda>k. ik_state k = KRunning) (db_keys db)\<rparr>,
      sql_count (\<lambda>r. ru_state r = RRunning) (db_runs db))"

record run_claim =
  claim_run :: "string option"
  claim_cached :: "run_result option"

definition at_key :: "string \<Rightarrow> string \<Rightarrow> string \<Rightarrow> key_row \<Rightarrow> bool" where
  "at_key tenant release key k \<longleftrightarrow> ik_tenant k = tenant \<and> ik_release k = release \<and> ik_key k = key"

definition cache_valid :: "int \<Rightarrow> key_row \<Rightarrow> bool" where
  "cache_valid now k \<longleftrightarrow> ik_state k = KDone \<and> ik_replayable k \<and> ik_result k \<noteq> None \<and>
     (case ik_expires k of None \<Rightarrow> False | Some e \<Rightarrow> now < e)"

record begin_args =
  ba_key :: string
  ba_tenant :: string
  ba_project :: string
  ba_processor :: string
  ba_lease :: string
  ba_release :: string
  ba_invocation :: string
  ba_fingerprint :: string

definition new_run_row :: "string \<Rightarrow> int \<Rightarrow> begin_args \<Rightarrow> run_row" where
  "new_run_row run_id now a =
     \<lparr>ru_id = run_id, ru_tenant = ba_tenant a, ru_project = ba_project a, ru_processor = ba_processor a,
      ru_release = ba_release a, ru_lease = ba_lease a, ru_invocation = ba_invocation a,
      ru_key = ba_key a, ru_fingerprint = ba_fingerprint a, ru_state = RRunning, ru_outcome = None,
      ru_status = None, ru_relationship = None, ru_retryable = None, ru_error_code = None,
      ru_error_message = None, ru_worker = None, ru_duration = None, ru_replayable = False,
      ru_expires = None, ru_started = now, ru_completed = None, ru_updated = now\<rparr>"

definition new_key_row :: "string \<Rightarrow> int \<Rightarrow> begin_args \<Rightarrow> key_row" where
  "new_key_row run_id now a =
     \<lparr>ik_tenant = ba_tenant a, ik_release = ba_release a, ik_key = ba_key a,
      ik_fingerprint = ba_fingerprint a, ik_state = KRunning, ik_run = run_id, ik_lease = ba_lease a,
      ik_invocation = ba_invocation a, ik_replayable = False, ik_result = None, ik_expires = None,
      ik_replays = 0, ik_last_replayed = None, ik_updated = now\<rparr>"

definition reclaim_row :: "string \<Rightarrow> int \<Rightarrow> begin_args \<Rightarrow> key_row \<Rightarrow> key_row" where
  "reclaim_row run_id now a k =
     k\<lparr>ik_state := KRunning, ik_run := run_id, ik_lease := ba_lease a, ik_invocation := ba_invocation a,
       ik_replayable := False, ik_result := None, ik_expires := None, ik_updated := now\<rparr>"

definition claim_run_row :: "string \<Rightarrow> int \<Rightarrow> begin_args \<Rightarrow> key_row list \<Rightarrow> runner_db \<Rightarrow> exn + runner_db \<times> run_claim" where
  "claim_run_row run_id now a keys db =
     (case sql_insert ru_id (new_run_row run_id now a) (db_runs db) of
        None \<Rightarrow> Inl unique_violation
      | Some runs \<Rightarrow> Inr (db\<lparr>db_runs := runs, db_keys := keys\<rparr>,
                         \<lparr>claim_run = Some run_id, claim_cached = None\<rparr>))"

definition begin_run :: "string \<Rightarrow> int \<Rightarrow> begin_args \<Rightarrow> runner_db \<Rightarrow> exn + runner_db \<times> run_claim" where
  "begin_run run_id now a db =
     (let here = at_key (ba_tenant a) (ba_release a) (ba_key a) in
      case List.find here (db_keys db) of
        None \<Rightarrow> claim_run_row run_id now a (db_keys db @ [new_key_row run_id now a]) db
      | Some row \<Rightarrow>
          if ik_fingerprint row \<noteq> ba_fingerprint a
          then Inl (RunnerError ''IDEMPOTENCY_CONFLICT''
                      ''idempotency key was reused for different request content'' False)
          else if ik_state row = KRunning
          then Inl (RunnerError ''RUN_IN_PROGRESS'' ''same logical request is already running'' True)
          else if cache_valid now row
          then (case result_from_dict (the (ik_result row)) of
                  Inl e \<Rightarrow> Inl e
                | Inr cached \<Rightarrow>
                    Inr (db\<lparr>db_keys := sql_update here (\<lambda>k. k\<lparr>ik_replays := ik_replays k + 1,
                               ik_last_replayed := Some now, ik_updated := now\<rparr>) (db_keys db)\<rparr>,
                         \<lparr>claim_run = None, claim_cached = Some cached\<rparr>))
          else claim_run_row run_id now a (sql_update here (reclaim_row run_id now a) (db_keys db)) db)"

definition finish_row :: "int \<Rightarrow> run_result \<Rightarrow> int \<Rightarrow> run_row \<Rightarrow> run_row" where
  "finish_row now result expires r =
     r\<lparr>ru_state := RDone, ru_outcome := Some (outcome_class result), ru_status := Some (rr_status result),
       ru_relationship := Some (rr_relationship result), ru_retryable := Some (rr_retryable result),
       ru_error_code := Some (rr_error_code result), ru_error_message := Some (rr_error_message result),
       ru_worker := Some (rr_worker_id result), ru_duration := Some (rr_duration_ms result),
       ru_replayable := \<not> rr_retryable result, ru_expires := Some expires,
       ru_completed := Some now, ru_updated := now\<rparr>"

definition finish_key :: "int \<Rightarrow> run_result \<Rightarrow> int \<Rightarrow> key_row \<Rightarrow> key_row" where
  "finish_key now result expires k =
     k\<lparr>ik_state := KDone, ik_replayable := \<not> rr_retryable result,
       ik_result := Some (jsonb (result_to_dict result)), ik_expires := Some expires, ik_updated := now\<rparr>"

definition finish_run ::
  "int \<Rightarrow> string \<Rightarrow> string \<Rightarrow> string \<Rightarrow> string \<Rightarrow> run_result \<Rightarrow> int \<Rightarrow> runner_db \<Rightarrow> exn + runner_db" where
  "finish_run now run_id key tenant release result retention_ms db =
     (let expires = (if rr_retryable result then now else now + 1000 * retention_ms);
          this_run = (\<lambda>r. ru_id r = run_id \<and> ru_state r = RRunning);
          this_key = (\<lambda>k. at_key tenant release key k \<and> ik_run k = run_id \<and> ik_state k = KRunning)
      in if sql_count this_run (db_runs db) \<noteq> 1
         then Inl (RunnerError ''RUN_STATE_LOST'' ''RUNNING audit row disappeared before completion'' True)
         else if sql_count this_key (db_keys db) \<noteq> 1
         then Inl (RunnerError ''IDEMPOTENCY_STATE_LOST'' ''idempotency claim disappeared before completion'' True)
         else Inr (db\<lparr>db_runs := sql_update this_run (finish_row now result expires) (db_runs db),
                      db_keys := sql_update this_key (finish_key now result expires) (db_keys db)\<rparr>))"

definition abandon_run ::
  "int \<Rightarrow> string \<Rightarrow> string \<Rightarrow> string \<Rightarrow> string \<Rightarrow> string \<Rightarrow> string \<Rightarrow> runner_db \<Rightarrow> runner_db" where
  "abandon_run now run_id key tenant release code message db =
     db\<lparr>db_runs := sql_update (\<lambda>r. ru_id r = run_id \<and> ru_state r = RRunning)
          (abandon_row now code message) (db_runs db),
        db_keys := sql_delete (\<lambda>k. at_key tenant release key k \<and> ik_run k = run_id \<and> ik_state k = KRunning)
          (db_keys db)\<rparr>"

definition purge_expired_idempotency :: "int \<Rightarrow> runner_db \<Rightarrow> runner_db \<times> nat" where
  "purge_expired_idempotency now db =
     (let P = (\<lambda>k. ik_state k = KDone \<and> (case ik_expires k of None \<Rightarrow> False | Some e \<Rightarrow> e \<le> now))
      in (db\<lparr>db_keys := sql_delete P (db_keys db)\<rparr>, sql_count P (db_keys db)))"

definition purge_old_runs :: "int \<Rightarrow> int \<Rightarrow> runner_db \<Rightarrow> runner_db \<times> nat" where
  "purge_old_runs now older_than_ms db =
     (if older_than_ms \<le> 0 then (db, 0)
      else (let cutoff = now - 1000 * older_than_ms;
                P = (\<lambda>r. ru_state r \<noteq> RRunning \<and>
                       (case ru_completed r of Some c \<Rightarrow> c | None \<Rightarrow> ru_updated r) < cutoff \<and>
                       \<not> list_ex (\<lambda>k. ik_run k = ru_id r \<and> ik_state k = KDone \<and>
                            (case ik_expires k of None \<Rightarrow> False | Some e \<Rightarrow> now < e)) (db_keys db))
            in (db\<lparr>db_runs := sql_delete P (db_runs db)\<rparr>, sql_count P (db_runs db))))"

end
