(* ===== verification/Catalog.thy ===== *)
theory Catalog
  imports Runner_Model Codec
begin

text \<open>
  The release catalog (\<open>runner_engine/catalog.py\<close>): immutable releases, each in its own directory
  with an artifact and a metadata file. A directory is a record of the two files it may hold, and
  saving is a list of file operations, so that an interruption between any two of them is a state
  of the model. Metadata is the decoded JSON value, its keys in the order the writer sorts them.
\<close>

record release_dir =
  rd_metadata :: "(string, json) dict option"
  rd_artifact :: "bytes option"
  rd_tmp_metadata :: "(string, json) dict option"
  rd_tmp_artifact :: "bytes option"

type_synonym catalog = "(string, release_dir) dict"

definition catalog_error :: "string \<Rightarrow> string \<Rightarrow> exn" where
  "catalog_error code m = RunnerError code m False"

definition item :: "(string, json) dict \<Rightarrow> string \<Rightarrow> exn + json" where
  "item d k = (case dict_get d k of None \<Rightarrow> Inl (PyError ''KeyError'' k) | Some j \<Rightarrow> Inr j)"

definition str_req :: "(string, json) dict \<Rightarrow> string \<Rightarrow> exn + string" where
  "str_req d k = (case item d k of Inl e \<Rightarrow> Inl e | Inr j \<Rightarrow> as_str j)"

definition str_opt :: "(string, json) dict \<Rightarrow> string \<Rightarrow> string \<Rightarrow> exn + string" where
  "str_opt d k dflt = as_str (dict_get_or d k (JStr dflt))"

fun str_list :: "json list \<Rightarrow> exn + string list" where
  "str_list [] = Inr []"
| "str_list (j # l) = (case (as_str j, str_list l) of
     (Inr s, Inr r) \<Rightarrow> Inr (s # r) | (Inl e, _) \<Rightarrow> Inl e | (_, Inl e) \<Rightarrow> Inl e)"

definition str_tuple :: "(string, json) dict \<Rightarrow> string \<Rightarrow> exn + string list" where
  "str_tuple d k = (case dict_get_or d k (JList []) of
     JList l \<Rightarrow> str_list l | _ \<Rightarrow> Inl (PyError ''TypeError'' k))"

definition runtime_of :: "(string, json) dict \<Rightarrow> exn + runtime_env" where
  "runtime_of raw =
     (case item raw ''runtime'' of
        Inl e \<Rightarrow> Inl e
      | Inr (JObj d) \<Rightarrow>
          (case (str_req d ''id'', str_req d ''image'', str_opt d ''python'' ''3.12'') of
             (Inr i, Inr img, Inr python) \<Rightarrow> Inr \<lparr>rt_id = i, rt_image = img, rt_python = python\<rparr>
           | (Inl e, _, _) \<Rightarrow> Inl e
           | (_, Inl e, _) \<Rightarrow> Inl e
           | (_, _, Inl e) \<Rightarrow> Inl e)
      | Inr _ \<Rightarrow> Inl (PyError ''TypeError'' ''runtime''))"

definition release_of :: "string \<Rightarrow> runtime_env \<Rightarrow> (string, json) dict \<Rightarrow> exn + operator_release" where
  "release_of artifact_path runtime raw =
     (case (str_req raw ''id'', str_req raw ''artifact_sha256'', str_req raw ''entrypoint'') of
        (Inr i, Inr sha, Inr entrypoint) \<Rightarrow>
          (case (str_opt raw ''profile'' ''standard'', str_tuple raw ''input_attributes'',
                 str_tuple raw ''output_attributes'') of
             (Inr profile, Inr ins, Inr outs) \<Rightarrow>
               Inr \<lparr>rel_id = i, rel_artifact_path = artifact_path, rel_artifact_sha256 = sha,
                    rel_runtime = runtime, rel_entrypoint = entrypoint, rel_profile = profile,
                    rel_input_attributes = ins, rel_output_attributes = outs\<rparr>
           | (Inl e, _, _) \<Rightarrow> Inl e
           | (_, Inl e, _) \<Rightarrow> Inl e
           | (_, _, Inl e) \<Rightarrow> Inl e)
      | (Inl e, _, _) \<Rightarrow> Inl e
      | (_, Inl e, _) \<Rightarrow> Inl e
      | (_, _, Inl e) \<Rightarrow> Inl e)"

definition artifact_path :: "string \<Rightarrow> string \<Rightarrow> string" where
  "artifact_path root release_id = root @ ''/'' @ release_id @ ''/operator.tar.gz''"

definition catalog_get :: "string \<Rightarrow> catalog \<Rightarrow> string \<Rightarrow> exn + operator_release" where
  "catalog_get root C release_id =
     (let not_found = Inl (catalog_error ''RELEASE_NOT_FOUND'' (''unknown release '' @ release_id)) in
      case dict_get C release_id of
        None \<Rightarrow> not_found
      | Some d \<Rightarrow>
     (case rd_metadata d of
        None \<Rightarrow> not_found
      | Some raw \<Rightarrow>
     (case runtime_of raw of
        Inl e \<Rightarrow> Inl e
      | Inr runtime \<Rightarrow>
          if rd_artifact d = None
          then Inl (catalog_error ''ARTIFACT_NOT_FOUND'' (''artifact missing for '' @ release_id))
          else release_of (artifact_path root release_id) runtime raw)))"

text \<open>The file operations of \<open>save\<close> in order.\<close>

datatype save_step = MakeDir | WriteArtifact | WriteMetadata | RenameArtifact | RenameMetadata

definition empty_dir :: release_dir where
  "empty_dir = \<lparr>rd_metadata = None, rd_artifact = None, rd_tmp_metadata = None, rd_tmp_artifact = None\<rparr>"

definition save_step :: "string \<Rightarrow> (string, json) dict \<Rightarrow> bytes \<Rightarrow> save_step \<Rightarrow> catalog \<Rightarrow> catalog" where
  "save_step release_id manifest artifact s C =
     (let d = dict_get_or C release_id empty_dir in
      dict_set release_id
        (case s of
           MakeDir \<Rightarrow> empty_dir
         | WriteArtifact \<Rightarrow> d\<lparr>rd_tmp_artifact := Some artifact\<rparr>
         | WriteMetadata \<Rightarrow> d\<lparr>rd_tmp_metadata := Some manifest\<rparr>
         | RenameArtifact \<Rightarrow> d\<lparr>rd_artifact := rd_tmp_artifact d, rd_tmp_artifact := None\<rparr>
         | RenameMetadata \<Rightarrow> d\<lparr>rd_metadata := rd_tmp_metadata d, rd_tmp_metadata := None\<rparr>) C)"

definition save_steps :: "save_step list" where
  "save_steps = [MakeDir, WriteArtifact, WriteMetadata, RenameArtifact, RenameMetadata]"

text \<open>The catalog after the first \<open>n\<close> operations: a crash leaves one of these.\<close>

definition save_upto :: "nat \<Rightarrow> string \<Rightarrow> (string, json) dict \<Rightarrow> bytes \<Rightarrow> catalog \<Rightarrow> catalog" where
  "save_upto n release_id manifest artifact C =
     fold (save_step release_id manifest artifact) (take n save_steps) C"

definition sort_manifest :: "(string, json) dict \<Rightarrow> (string, json) dict" where
  "sort_manifest manifest = (case sort_keys (JObj manifest) of JObj d \<Rightarrow> d | _ \<Rightarrow> [])"

definition catalog_save ::
  "string \<Rightarrow> catalog \<Rightarrow> (string, json) dict \<Rightarrow> bytes \<Rightarrow> catalog \<times> (exn + operator_release)" where
  "catalog_save root C manifest artifact =
     (case str_req manifest ''id'' of
        Inl e \<Rightarrow> (C, Inl e)
      | Inr release_id \<Rightarrow>
          if dict_get C release_id \<noteq> None
          then (C, (case catalog_get root C release_id of
                      Inl e \<Rightarrow> Inl e
                    | Inr existing \<Rightarrow>
                        (case str_req manifest ''artifact_sha256'' of
                           Inl e \<Rightarrow> Inl e
                         | Inr sha \<Rightarrow>
                             if rel_artifact_sha256 existing \<noteq> sha
                             then Inl (catalog_error ''CATALOG_CONFLICT''
                                    (''release '' @ release_id @ '' already exists with different bits''))
                             else Inr existing)))
          else (let C' = save_upto 5 release_id (sort_manifest manifest) artifact C
                in (C', catalog_get root C' release_id)))"

lemma save_upto_other: "i \<noteq> release_id \<Longrightarrow> dict_get (save_upto n release_id m a C) i = dict_get C i"
proof -
  have "dict_get (fold (save_step release_id m a) ss C) i = dict_get C i" if "i \<noteq> release_id" for ss C
    using that by (induction ss arbitrary: C) (auto simp: save_step_def Let_def)
  then show "i \<noteq> release_id \<Longrightarrow> ?thesis" by (simp add: save_upto_def)
qed

lemma save_upto_partial:
  assumes "dict_get C release_id = None" "0 < n" "n < 5"
  shows "\<exists>d. dict_get (save_upto n release_id m a C) release_id = Some d \<and> rd_metadata d = None"
proof -
  from assms(2,3) consider "n = 1" | "n = 2" | "n = 3" | "n = 4" by linarith
  then show ?thesis
    by cases (auto simp: save_upto_def save_steps_def save_step_def Let_def empty_dir_def
        numeral_2_eq_2 numeral_3_eq_3 eval_nat_numeral)
qed

lemma save_upto_complete:
  "dict_get (save_upto 5 release_id m a C) release_id =
     Some \<lparr>rd_metadata = Some m, rd_artifact = Some a, rd_tmp_metadata = None, rd_tmp_artifact = None\<rparr>"
  by (simp add: save_upto_def save_steps_def save_step_def Let_def empty_dir_def)

text \<open>A release becomes visible only complete: after an interruption at any point of a first
  \<open>save\<close> the release is either still unknown or has its artifact and exactly the metadata that was
  saved, and no other release changes.\<close>

theorem catalog_save_atomic:
  assumes "dict_get C release_id = None"
  shows "(catalog_get root (save_upto n release_id m a C) release_id =
            Inl (catalog_error ''RELEASE_NOT_FOUND'' (''unknown release '' @ release_id)) \<or>
          (\<exists>d. dict_get (save_upto n release_id m a C) release_id = Some d \<and>
             rd_metadata d = Some m \<and> rd_artifact d = Some a)) \<and>
    (\<forall>i \<in> dom (dict_get C). dict_get (save_upto n release_id m a C) i = dict_get C i)"
proof -
  have other: "\<forall>i \<in> dom (dict_get C). dict_get (save_upto n release_id m a C) i = dict_get C i"
    using assms save_upto_other by (metis domIff)
  consider (none) "n = 0" | (part) "0 < n" "n < 5" | (all) "5 \<le> n" by linarith
  then show ?thesis
  proof cases
    case none
    with assms other show ?thesis by (simp add: save_upto_def catalog_get_def Let_def)
  next
    case part
    from save_upto_partial [OF assms part] obtain d where
      "dict_get (save_upto n release_id m a C) release_id = Some d" "rd_metadata d = None" by blast
    with other show ?thesis by (simp add: catalog_get_def Let_def)
  next
    case all
    then have "save_upto n release_id m a C = save_upto 5 release_id m a C"
      by (simp add: save_upto_def save_steps_def)
    with other show ?thesis by (simp add: save_upto_complete)
  qed
qed

text \<open>An interrupted \<open>save\<close> is not repaired by repeating it: the directory it left makes every
  later \<open>save\<close> of that release fail with \<open>RELEASE_NOT_FOUND\<close> and write nothing.\<close>

theorem catalog_save_interrupted:
  assumes "dict_get C release_id = None" "0 < n" "n < 5" "dict_get manifest ''id'' = Some (JStr release_id)"
    and "C1 = save_upto n release_id m a C"
  shows "catalog_save root C1 manifest artifact =
    (C1, Inl (catalog_error ''RELEASE_NOT_FOUND'' (''unknown release '' @ release_id)))"
  using save_upto_partial [OF assms(1-3), of m a] assms(4) unfolding assms(5)
  by (auto simp: catalog_save_def catalog_get_def str_req_def item_def Let_def)

lemma catalog_get_sha:
  "catalog_get root C i = Inr rel \<Longrightarrow> \<exists>d raw. dict_get C i = Some d \<and> rd_metadata d = Some raw \<and>
     str_req raw ''artifact_sha256'' = Inr (rel_artifact_sha256 rel) \<and>
     rel_artifact_path rel = artifact_path root i"
  by (auto simp: catalog_get_def release_of_def Let_def split: option.splits sum.splits if_splits)

text \<open>Releases are immutable: whatever is saved later, a release the catalog can return stays
  exactly as it is.\<close>

theorem catalog_immutable:
  assumes "catalog_get root C i = Inr rel"
  shows "catalog_get root (fst (catalog_save root C manifest artifact)) i = Inr rel"
proof (cases "str_req manifest ''id''")
  case (Inr j)
  have d: "dict_get C i \<noteq> None" using catalog_get_sha [OF assms] by auto
  show ?thesis
  proof (cases "dict_get C j")
    case None
    with d have "i \<noteq> j" by auto
    from save_upto_other [OF this] assms None Inr show ?thesis
      by (simp add: catalog_save_def Let_def catalog_get_def)
  qed (use assms Inr in \<open>simp add: catalog_save_def\<close>)
qed (use assms in \<open>simp add: catalog_save_def\<close>)

end
