(* ===== verification/Service.thy ===== *)
theory Service
  imports Pool Runner_DB Catalog
begin

text \<open>
  The runner's application service (\<open>runner_engine/service.py\<close>): leases, \<open>invoke\<close> with its phases
  in the order of the code, cancellation, start-up and maintenance. The service's state is the
  catalog, the database, the worker pool and the table of active invocations. Every phase of
  \<open>invoke\<close> is an operation of its own, because other requests run between them; \<open>invoke\<close> composes
  them for one request that runs alone. A phase reads the clock once: \<open>us\<close> is the wall clock in
  microseconds, \<open>ms\<close> the monotonic clock in milliseconds. The digest and the canonical JSON text
  are parameters.
\<close>

definition MAX_INLINE_BYTES :: nat where "MAX_INLINE_BYTES = 8388608"
definition MAX_ATTRIBUTES :: nat where "MAX_ATTRIBUTES = 128"
definition MAX_ATTRIBUTE_BYTES :: nat where "MAX_ATTRIBUTE_BYTES = 65536"

record runner_cfg =
  sc_root :: string
  sc_pool :: pool_cfg
  sc_policies :: "(string, security_policy) dict"
  sc_lease_ttl_ms :: int
  sc_idempotency_retention_ms :: int
  sc_run_retention_ms :: int
  sc_sha256 :: "bytes \<Rightarrow> string"
  sc_dumps :: "json \<Rightarrow> bytes"

record 'b service =
  sv_catalog :: catalog
  sv_db :: runner_db
  sv_pool :: "'b pool"
  sv_active :: "(string, nat active_run) dict"

section \<open>Attributes and the request's identity\<close>

definition filter_attributes :: "(string, string) dict \<Rightarrow> string list \<Rightarrow> (string, string) dict" where
  "filter_attributes values allowed =
     (if allowed = [] then [] else filter (\<lambda>(k, v). k \<in> set allowed) values)"

definition attributes_size :: "(string, string) dict \<Rightarrow> nat" where
  "attributes_size d = (\<Sum>(k, v) \<leftarrow> d. length k + length v)"

definition validate_attributes :: "(string, string) dict \<Rightarrow> exn + unit" where
  "validate_attributes values =
     (if MAX_ATTRIBUTES < length values
      then Inl (RunnerError ''TOO_MANY_ATTRIBUTES'' ''attribute count exceeds limit'' False)
      else if MAX_ATTRIBUTE_BYTES < attributes_size values
      then Inl (RunnerError ''ATTRIBUTES_TOO_LARGE'' ''attributes exceed byte limit'' False)
      else Inr ())"

definition request_identity :: "runner_cfg \<Rightarrow> run_request \<Rightarrow> json" where
  "request_identity C rq =
     JObj [(''schema'', JInt 1), (''release_id'', JStr (rq_release rq)),
           (''content_sha256'', JStr (sc_sha256 C (rq_content rq))),
           (''attributes'', json_str_dict (sort_key fst (rq_attributes rq))),
           (''parameters'', json_str_dict (sort_key fst (rq_parameters rq))),
           (''timeout_ms'', JInt (rq_timeout_ms rq))]"

definition request_fingerprint :: "runner_cfg \<Rightarrow> run_request \<Rightarrow> string" where
  "request_fingerprint C rq = sc_sha256 C (sc_dumps C (sort_keys (request_identity C rq)))"

section \<open>Leases, start-up and maintenance\<close>

definition service_acquire_lease ::
  "runner_cfg \<Rightarrow> int \<Rightarrow> string \<Rightarrow> string \<Rightarrow> string \<Rightarrow> string \<Rightarrow> string \<Rightarrow> 'b service \<Rightarrow> exn + 'b service \<times> lease" where
  "service_acquire_lease C us lease_id tenant project processor release_id S =
     (case catalog_get (sc_root C) (sv_catalog S) release_id of
        Inl e \<Rightarrow> Inl e
      | Inr release \<Rightarrow>
          if dict_get (sc_policies C) (rel_profile release) = None
          then Inl (RunnerError ''UNKNOWN_SECURITY_POLICY''
                 (''release uses unknown profile '' @ rel_profile release) False)
          else (case create_lease lease_id us tenant project processor release_id (sc_lease_ttl_ms C) (sv_db S) of
                  Inl e \<Rightarrow> Inl e
                | Inr (db, l) \<Rightarrow> Inr (S\<lparr>sv_db := db\<rparr>, l)))"

definition service_get_lease :: "int \<Rightarrow> string \<Rightarrow> string \<Rightarrow> 'b service \<Rightarrow> exn + lease" where
  "service_get_lease us tenant lease_id S = require_lease us lease_id tenant None (sv_db S)"

definition service_renew_lease ::
  "runner_cfg \<Rightarrow> int \<Rightarrow> string \<Rightarrow> string \<Rightarrow> 'b service \<Rightarrow> exn + 'b service \<times> lease" where
  "service_renew_lease C us tenant lease_id S =
     (case renew_lease us lease_id tenant (sc_lease_ttl_ms C) (sv_db S) of
        Inl e \<Rightarrow> Inl e
      | Inr (db, l) \<Rightarrow> Inr (S\<lparr>sv_db := db\<rparr>, l))"

definition service_release_lease :: "string \<Rightarrow> string \<Rightarrow> 'b service \<Rightarrow> exn + 'b service" where
  "service_release_lease tenant lease_id S =
     (case delete_lease lease_id tenant (sv_db S) of
        Inl e \<Rightarrow> Inl e
      | Inr db \<Rightarrow> Inr (S\<lparr>sv_db := db\<rparr>))"

definition service_startup :: "'b backend \<Rightarrow> int \<Rightarrow> 'b service \<Rightarrow> 'b service \<times> (exn + nat)" where
  "service_startup B us S =
     (case reset_after_restart B (sv_pool S) of
        (p, Inl e) \<Rightarrow> (S\<lparr>sv_pool := p\<rparr>, Inl e)
      | (p, Inr cleaned) \<Rightarrow>
          (let db1 = fst (reset_running us (sv_db S));
               db2 = fst (purge_expired_leases us db1);
               db3 = fst (purge_expired_idempotency us db2)
           in (S\<lparr>sv_pool := p, sv_db := db3\<rparr>, Inr cleaned)))"

text \<open>One turn of the background loop; an exception ends the turn.\<close>

definition service_maintain :: "'b backend \<Rightarrow> runner_cfg \<Rightarrow> int \<Rightarrow> int \<Rightarrow> 'b service \<Rightarrow> 'b service" where
  "service_maintain B C us ms S =
     (case pool_reap B (sc_pool C) ms (sv_pool S) of
        (p, Inl e) \<Rightarrow> S\<lparr>sv_pool := p\<rparr>
      | (p, Inr _) \<Rightarrow>
          (let db1 = fst (purge_expired_leases us (sv_db S));
               db2 = fst (purge_expired_idempotency us db1);
               db3 = fst (purge_old_runs us (sc_run_retention_ms C) db2)
           in S\<lparr>sv_pool := p, sv_db := db3\<rparr>))"

section \<open>The phases of \<open>invoke\<close>\<close>

record prepared =
  pr_request :: run_request
  pr_release :: operator_release
  pr_policy :: security_policy
  pr_lease :: lease
  pr_fingerprint :: string

definition safe_request :: "run_request \<Rightarrow> (string, string) dict \<Rightarrow> security_policy \<Rightarrow> run_request" where
  "safe_request rq attributes policy =
     rq\<lparr>rq_attributes := attributes,
        rq_timeout_ms := min (max 1 (rq_timeout_ms rq)) (pol_max_timeout_ms policy)\<rparr>"

definition invoke_prepare :: "runner_cfg \<Rightarrow> int \<Rightarrow> run_request \<Rightarrow> 'b service \<Rightarrow> exn + prepared" where
  "invoke_prepare C us rq S =
     (if MAX_INLINE_BYTES < length (rq_content rq)
      then Inl (RunnerError ''INLINE_CONTENT_TOO_LARGE'' ''inline content exceeds 8 MiB'' False)
      else if rq_key rq = []
      then Inl (RunnerError ''IDEMPOTENCY_REQUIRED'' ''idempotency_key is required'' False)
      else
     (case require_lease us (rq_lease rq) (rq_tenant rq) (Some (rq_release rq)) (sv_db S) of
        Inl e \<Rightarrow> Inl e
      | Inr lease \<Rightarrow>
     (case catalog_get (sc_root C) (sv_catalog S) (rq_release rq) of
        Inl e \<Rightarrow> Inl e
      | Inr release \<Rightarrow>
     (case dict_get (sc_policies C) (rel_profile release) of
        None \<Rightarrow> Inl (RunnerError ''UNKNOWN_SECURITY_POLICY'' (''unknown profile '' @ rel_profile release) False)
      | Some policy \<Rightarrow>
     (let attributes = filter_attributes (rq_attributes rq) (rel_input_attributes release) in
      case validate_attributes attributes of
        Inl e \<Rightarrow> Inl e
      | Inr _ \<Rightarrow>
     (case validate_attributes (rq_parameters rq) of
        Inl e \<Rightarrow> Inl e
      | Inr _ \<Rightarrow>
          (let safe = safe_request rq attributes policy in
           Inr \<lparr>pr_request = safe, pr_release = release, pr_policy = policy, pr_lease = lease,
                pr_fingerprint = request_fingerprint C safe\<rparr>)))))))"

definition invocation_in_use :: "string \<Rightarrow> exn" where
  "invocation_in_use m = RunnerError ''INVOCATION_ID_IN_USE'' m False"

definition invoke_check_active :: "run_request \<Rightarrow> 'b service \<Rightarrow> exn + unit" where
  "invoke_check_active rq S =
     (if dict_get (sv_active S) (rq_invocation rq) \<noteq> None
      then Inl (invocation_in_use ''invocation id is already active'') else Inr ())"

definition claim_args :: "prepared \<Rightarrow> begin_args" where
  "claim_args P =
     \<lparr>ba_key = rq_key (pr_request P), ba_tenant = rq_tenant (pr_request P),
      ba_project = le_project (pr_lease P), ba_processor = le_processor (pr_lease P),
      ba_lease = rq_lease (pr_request P), ba_release = rq_release (pr_request P),
      ba_invocation = rq_invocation (pr_request P), ba_fingerprint = pr_fingerprint P\<rparr>"

definition invoke_claim ::
  "string \<Rightarrow> int \<Rightarrow> prepared \<Rightarrow> 'b service \<Rightarrow> exn + 'b service \<times> run_claim" where
  "invoke_claim run_id us P S =
     (case begin_run run_id us (claim_args P) (sv_db S) of
        Inl e \<Rightarrow> Inl e
      | Inr (db, c) \<Rightarrow> Inr (S\<lparr>sv_db := db\<rparr>, c))"

definition invoke_acquire ::
  "'b backend \<Rightarrow> runner_cfg \<Rightarrow> int \<Rightarrow> prepared \<Rightarrow> 'b service \<Rightarrow> 'b service \<times> (exn + nat)" where
  "invoke_acquire B C ms P S =
     (case pool_acquire B (sc_pool C) ms (rq_tenant (pr_request P)) (pr_release P) (pr_policy P) (sv_pool S) of
        (p, res) \<Rightarrow> (S\<lparr>sv_pool := p\<rparr>, res))"

definition active_entry :: "prepared \<Rightarrow> nat \<Rightarrow> nat active_run" where
  "active_entry P r =
     \<lparr>ar_tenant = rq_tenant (pr_request P), ar_lease = rq_lease (pr_request P),
      ar_release = rq_release (pr_request P), ar_worker = r\<rparr>"

text \<open>Registration under the lock. The left value carries what the handlers still hold as the
  worker: nothing after a successful \<open>invalidate\<close>, the worker when that raised.\<close>

definition invoke_register ::
  "'b backend \<Rightarrow> prepared \<Rightarrow> nat \<Rightarrow> 'b service \<Rightarrow> 'b service \<times> ((exn \<times> nat option) + unit)" where
  "invoke_register B P r S =
     (let i = rq_invocation (pr_request P) in
      if dict_get (sv_active S) i \<noteq> None
      then (case pool_invalidate B r (sv_pool S) of
              (p, Inl e) \<Rightarrow> (S\<lparr>sv_pool := p\<rparr>, Inl (e, Some r))
            | (p, Inr _) \<Rightarrow>
                (S\<lparr>sv_pool := p\<rparr>, Inl (invocation_in_use ''invocation id became active concurrently'', None)))
      else (S\<lparr>sv_active := dict_set i (active_entry P r) (sv_active S)\<rparr>, Inr ()))"

definition check_output :: "operator_release \<Rightarrow> run_result \<Rightarrow> exn + run_result" where
  "check_output release result =
     (let attributes = filter_attributes (rr_attributes result) (rel_output_attributes release) in
      case validate_attributes attributes of
        Inl e \<Rightarrow> Inl e
      | Inr _ \<Rightarrow>
          if MAX_INLINE_BYTES < length (rr_content result)
          then Inl (RunnerError ''OUTPUT_TOO_LARGE'' ''operator output exceeds 8 MiB'' False)
          else Inr (result\<lparr>rr_attributes := attributes\<rparr>))"

definition invoke_run ::
  "'b backend \<Rightarrow> prepared \<Rightarrow> nat \<Rightarrow> 'b service \<Rightarrow> 'b service \<times> (exn + run_result)" where
  "invoke_run B P r S =
     (case be_run B (p_backend (sv_pool S)) (p_heap (sv_pool S) r) (pr_release P) (pr_request P)
             (rq_timeout_ms (pr_request P)) of
        (b, res) \<Rightarrow> (S\<lparr>sv_pool := (sv_pool S)\<lparr>p_backend := b\<rparr>\<rparr>,
           (case res of Inl e \<Rightarrow> Inl e | Inr result \<Rightarrow> check_output (pr_release P) result)))"

definition invoke_finish ::
  "runner_cfg \<Rightarrow> int \<Rightarrow> string \<Rightarrow> prepared \<Rightarrow> run_result \<Rightarrow> 'b service \<Rightarrow> exn + 'b service" where
  "invoke_finish C us run_id P result S =
     (case finish_run us run_id (rq_key (pr_request P)) (rq_tenant (pr_request P)) (rq_release (pr_request P))
             result (sc_idempotency_retention_ms C) (sv_db S) of
        Inl e \<Rightarrow> Inl e
      | Inr db \<Rightarrow> Inr (S\<lparr>sv_db := db\<rparr>))"

definition reusable_errors :: "string list" where
  "reusable_errors =
     [''TIMEOUT'', ''CANCELLED'', ''CPU_LIMIT'', ''USER_EXCEPTION'', ''USER_IMPORT_ERROR'',
      ''ENTRYPOINT_NOT_FOUND'', ''INVALID_USER_RESULT'', ''USER_PROCESS_EXITED'',
      ''USER_PROCESS_SIGNALED'', ''OUTPUT_LIMIT'', ''LOG_LIMIT'', ''CHILD_PROTOCOL_ERROR'',
      ''INVALID_CHILD_RESPONSE'', ''OPERATOR_REPORTED_FAILURE'']"

text \<open>After the result is stored: the worker goes back or away; an exception is only logged.\<close>

definition invoke_settle ::
  "'b backend \<Rightarrow> int \<Rightarrow> prepared \<Rightarrow> nat \<Rightarrow> run_result \<Rightarrow> 'b service \<Rightarrow> 'b service" where
  "invoke_settle B ms P r result S =
     S\<lparr>sv_pool := fst (if rr_status result = ''SUCCEEDED'' \<or> rr_error_code result \<in> set reusable_errors
                      then pool_release B ms (pr_policy P) r (sv_pool S)
                      else pool_invalidate B r (sv_pool S))\<rparr>"

text \<open>The handlers: invalidate the worker if there is one, abandon the run, and raise.\<close>

definition invoke_fail_worker :: "'b backend \<Rightarrow> nat option \<Rightarrow> 'b service \<Rightarrow> 'b service" where
  "invoke_fail_worker B w S =
     (case w of None \<Rightarrow> S | Some r \<Rightarrow> S\<lparr>sv_pool := fst (pool_invalidate B r (sv_pool S))\<rparr>)"

definition raised_code :: "exn \<Rightarrow> string" where
  "raised_code e = (case e of RunnerError c m r \<Rightarrow> c | PyError t m \<Rightarrow> ''RUNNER_INFRASTRUCTURE_ERROR'')"

definition raised :: "exn \<Rightarrow> exn" where
  "raised e = (case e of RunnerError c m r \<Rightarrow> e
     | PyError t m \<Rightarrow> RunnerError ''RUNNER_INFRASTRUCTURE_ERROR'' m True)"

definition invoke_abandon :: "int \<Rightarrow> string \<Rightarrow> prepared \<Rightarrow> exn \<Rightarrow> 'b service \<Rightarrow> 'b service" where
  "invoke_abandon us run_id P e S =
     S\<lparr>sv_db := abandon_run us run_id (rq_key (pr_request P)) (rq_tenant (pr_request P))
                  (rq_release (pr_request P)) (raised_code e) (exn_msg e) (sv_db S)\<rparr>"

definition invoke_pop :: "prepared \<Rightarrow> 'b service \<Rightarrow> 'b service" where
  "invoke_pop P S = S\<lparr>sv_active := dict_pop (rq_invocation (pr_request P)) (sv_active S)\<rparr>"

section \<open>One request alone\<close>

definition invoke_failed ::
  "'b backend \<Rightarrow> int \<Rightarrow> string \<Rightarrow> prepared \<Rightarrow> nat option \<Rightarrow> exn \<Rightarrow> 'b service \<Rightarrow> 'b service \<times> (exn + run_result)" where
  "invoke_failed B us run_id P w e S =
     (invoke_pop P (invoke_abandon us run_id P e (invoke_fail_worker B w S)), Inl (raised e))"

definition invoke_claimed ::
  "'b backend \<Rightarrow> runner_cfg \<Rightarrow> int \<Rightarrow> int \<Rightarrow> string \<Rightarrow> prepared \<Rightarrow> 'b service \<Rightarrow> 'b service \<times> (exn + run_result)" where
  "invoke_claimed B C us ms run_id P S =
     (case invoke_acquire B C ms P S of
        (S1, Inl e) \<Rightarrow> invoke_failed B us run_id P None e S1
      | (S1, Inr r) \<Rightarrow>
     (case invoke_register B P r S1 of
        (S2, Inl (e, w)) \<Rightarrow> invoke_failed B us run_id P w e S2
      | (S2, Inr _) \<Rightarrow>
     (case invoke_run B P r S2 of
        (S3, Inl e) \<Rightarrow> invoke_failed B us run_id P (Some r) e S3
      | (S3, Inr result) \<Rightarrow>
     (case invoke_finish C us run_id P result S3 of
        Inl e \<Rightarrow> invoke_failed B us run_id P (Some r) e S3
      | Inr S4 \<Rightarrow> (invoke_pop P (invoke_settle B ms P r result S4), Inr result)))))"

definition invoke ::
  "'b backend \<Rightarrow> runner_cfg \<Rightarrow> int \<Rightarrow> int \<Rightarrow> string \<Rightarrow> run_request \<Rightarrow> 'b service \<Rightarrow> 'b service \<times> (exn + run_result)" where
  "invoke B C us ms run_id rq S =
     (case invoke_prepare C us rq S of
        Inl e \<Rightarrow> (S, Inl e)
      | Inr P \<Rightarrow>
     (case invoke_check_active rq S of
        Inl e \<Rightarrow> (S, Inl e)
      | Inr _ \<Rightarrow>
     (case invoke_claim run_id us P S of
        Inl e \<Rightarrow> (S, Inl e)
      | Inr (S1, c) \<Rightarrow>
          (case claim_cached c of
             Some cached \<Rightarrow> (S1, Inr cached)
           | None \<Rightarrow>
               (case claim_run c of
                  None \<Rightarrow> (S1, Inl (RunnerError ''RUN_STATE_INVALID''
                             ''new execution did not receive a run id'' True))
                | Some i \<Rightarrow> invoke_claimed B C us ms i P S1)))))"

section \<open>Cancellation\<close>

definition cancel_lookup ::
  "int \<Rightarrow> string \<Rightarrow> string \<Rightarrow> string \<Rightarrow> 'b service \<Rightarrow> exn + nat option" where
  "cancel_lookup us tenant lease_id invocation_id S =
     (case require_lease us lease_id tenant None (sv_db S) of
        Inl e \<Rightarrow> Inl e
      | Inr _ \<Rightarrow>
     (case dict_get (sv_active S) invocation_id of
        None \<Rightarrow> Inr None
      | Some active \<Rightarrow>
          if ar_tenant active \<noteq> tenant \<or> ar_lease active \<noteq> lease_id
          then Inl (RunnerError ''CANCEL_FORBIDDEN'' ''invocation does not belong to this tenant/lease'' False)
          else Inr (Some (ar_worker active))))"

definition cancel_call ::
  "'b backend \<Rightarrow> string \<Rightarrow> nat \<Rightarrow> 'b service \<Rightarrow> 'b service \<times> (exn + bool)" where
  "cancel_call B invocation_id r S =
     (case be_cancel B (p_backend (sv_pool S)) (p_heap (sv_pool S) r) invocation_id of
        (b, Inr x) \<Rightarrow> (S\<lparr>sv_pool := (sv_pool S)\<lparr>p_backend := b\<rparr>\<rparr>, Inr x)
      | (b, Inl e) \<Rightarrow>
          (S\<lparr>sv_pool := fst (pool_invalidate B r ((sv_pool S)\<lparr>p_backend := b\<rparr>))\<rparr>,
           Inl (RunnerError ''CANCEL_FAILED'' (exn_msg e) True)))"

definition service_cancel ::
  "'b backend \<Rightarrow> int \<Rightarrow> string \<Rightarrow> string \<Rightarrow> string \<Rightarrow> 'b service \<Rightarrow> 'b service \<times> (exn + bool)" where
  "service_cancel B us tenant lease_id invocation_id S =
     (case cancel_lookup us tenant lease_id invocation_id S of
        Inl e \<Rightarrow> (S, Inl e)
      | Inr None \<Rightarrow> (S, Inr False)
      | Inr (Some r) \<Rightarrow> cancel_call B invocation_id r S)"

end
