(* ===== verification/Pool_Invariants.thy ===== *)
theory Pool_Invariants
  imports Pool "HOL-Library.Multiset"
begin

text \<open>
  The pool's invariants. Quota accounting: the quota's counters are exactly the numbers of
  worker objects that exist and are not destroyed, in all and per tenant, so the limits
  bound the live sandboxes. Buckets: an idle worker is in one bucket only, under its own
  tenant, runtime and profile, and never held by an invocation (\<open>H\<close> is the set of held
  references). Sandboxes: what the provider has handed out and the pool has not asked it to delete
  belongs to such a worker object.
\<close>

definition live_refs :: "'b pool \<Rightarrow> nat set" where
  "live_refs p = set (filter (\<lambda>r. \<not> w_destroyed (p_heap p r)) [0..<p_next p])"

definition live_of :: "'b pool \<Rightarrow> string \<Rightarrow> nat" where
  "live_of p t = card {r \<in> live_refs p. w_tenant (p_heap p r) = t}"

definition accounted :: "'b pool \<Rightarrow> bool" where
  "accounted p \<longleftrightarrow> quota_counts (p_quota p) (live_of p) (card (live_refs p))"

definition quota_ok :: "'b pool \<Rightarrow> bool" where
  "quota_ok p \<longleftrightarrow> accounted p \<and> quota_bounded (p_quota p) \<and> q_creating (p_quota p) = 0"

definition idle_refs :: "'b pool \<Rightarrow> nat list" where
  "idle_refs p = concat (map snd (p_idle p))"

definition bucket_ok :: "'b pool \<Rightarrow> pool_key \<times> nat list \<Rightarrow> bool" where
  "bucket_ok p kb \<longleftrightarrow> snd kb \<noteq> [] \<and>
     (\<forall>r \<in> set (snd kb). r < p_next p \<and> worker_key (p_heap p r) = fst kb)"

definition idle_ok :: "nat set \<Rightarrow> 'b pool \<Rightarrow> bool" where
  "idle_ok H p \<longleftrightarrow> distinct (map fst (p_idle p)) \<and> distinct (idle_refs p) \<and>
     (\<forall>kb \<in> set (p_idle p). bucket_ok p kb) \<and> H \<subseteq> {..<p_next p} \<and> H \<inter> set (idle_refs p) = {}"

definition pool_ok :: "nat set \<Rightarrow> 'b pool \<Rightarrow> bool" where
  "pool_ok H p \<longleftrightarrow> quota_ok p \<and> idle_ok H p"

section \<open>Accounting\<close>

lemma finite_live [simp]: "finite (live_refs p)"
  by (simp add: live_refs_def)

lemma live_refs_iff: "r \<in> live_refs p \<longleftrightarrow> r < p_next p \<and> \<not> w_destroyed (p_heap p r)"
  by (auto simp: live_refs_def)

lemma live_congs [simp]:
  "live_refs (p\<lparr>p_idle := i\<rparr>) = live_refs p" "live_of (p\<lparr>p_idle := i\<rparr>) = live_of p"
  "live_refs (p\<lparr>p_backend := b\<rparr>) = live_refs p" "live_of (p\<lparr>p_backend := b\<rparr>) = live_of p"
  "live_refs (p\<lparr>p_quota := q\<rparr>) = live_refs p" "live_of (p\<lparr>p_quota := q\<rparr>) = live_of p"
  by (auto simp: live_refs_def live_of_def fun_eq_iff)

lemma upd_worker_simps [simp]:
  "p_next (upd_worker r f p) = p_next p" "p_idle (upd_worker r f p) = p_idle p"
  "p_quota (upd_worker r f p) = p_quota p" "p_backend (upd_worker r f p) = p_backend p"
  "p_heap (upd_worker r f p) = (p_heap p)(r := f (p_heap p r))"
  by (simp_all add: upd_worker_def)

lemma live_upd_worker:
  assumes "w_destroyed (f (p_heap p r)) = w_destroyed (p_heap p r)"
    and "w_tenant (f (p_heap p r)) = w_tenant (p_heap p r)"
  shows "live_refs (upd_worker r f p) = live_refs p" "live_of (upd_worker r f p) = live_of p"
proof -
  show "live_refs (upd_worker r f p) = live_refs p"
    using assms by (auto simp: live_refs_iff split: if_splits)
  then show "live_of (upd_worker r f p) = live_of p"
    using assms by (auto simp: live_of_def fun_eq_iff split: if_splits intro!: arg_cong [where f = card])
qed

lemma quota_ok_upd_worker:
  assumes "w_destroyed (f (p_heap p r)) = w_destroyed (p_heap p r)"
    and "w_tenant (f (p_heap p r)) = w_tenant (p_heap p r)"
  shows "quota_ok (upd_worker r f p) = quota_ok p"
  using live_upd_worker [of f p r, OF assms] by (simp add: quota_ok_def accounted_def)

lemma quota_ok_frame [simp]:
  "quota_ok (p\<lparr>p_idle := i\<rparr>) = quota_ok p" "quota_ok (p\<lparr>p_backend := b\<rparr>) = quota_ok p"
  by (simp_all add: quota_ok_def accounted_def)

text \<open>Destroying a live worker takes one from the population of its tenant.\<close>

lemma quota_ok_kill:
  assumes "quota_ok p" and r: "r < p_next p" "\<not> w_destroyed (p_heap p r)"
  shows "quota_ok ((upd_worker r (\<lambda>w. w\<lparr>w_destroyed := True\<rparr>) p)
           \<lparr>p_backend := b, p_quota := release_live (p_quota p) (w_tenant (p_heap p r))\<rparr>)"
proof -
  let ?p1 = "upd_worker r (\<lambda>w. w\<lparr>w_destroyed := True\<rparr>) p"
  let ?t = "w_tenant (p_heap p r)"
  have mem: "r \<in> live_refs p" using r by (simp add: live_refs_iff)
  have L: "live_refs ?p1 = live_refs p - {r}"
    by (auto simp: live_refs_iff split: if_splits)
  have S: "{s \<in> live_refs ?p1. w_tenant (p_heap ?p1 s) = t} =
      {s \<in> live_refs p. w_tenant (p_heap p s) = t} - {r}" for t
    using L by (auto split: if_splits)
  have T: "live_of ?p1 = (live_of p)(?t := live_of p ?t - 1)"
  proof
    fix t
    have "live_of ?p1 t = card ({s \<in> live_refs p. w_tenant (p_heap p s) = t} - {r})"
      by (simp only: live_of_def S)
    then show "live_of ?p1 t = ((live_of p)(?t := live_of p ?t - 1)) t"
      using mem by (cases "t = ?t") (auto simp: live_of_def)
  qed
  have "0 < live_of p ?t" using mem by (auto simp: live_of_def card_gt_0_iff)
  moreover have "0 < card (live_refs p)" using mem by (auto simp: card_gt_0_iff)
  ultimately have "quota_counts (release_live (p_quota p) ?t)
      ((live_of p)(?t := live_of p ?t - 1)) (card (live_refs p) - 1)"
    using assms(1) by (intro release_live_counts) (simp_all add: quota_ok_def accounted_def)
  then show ?thesis
    using assms(1) mem L T release_live_bounded [of "p_quota p" ?t]
    by (simp add: quota_ok_def accounted_def)
qed

text \<open>A created worker enters the population of its tenant.\<close>

lemma quota_ok_alloc:
  assumes "quota_ok p" and "reserve_live (p_quota p) t = Inr q"
    and "w_tenant w = t" "\<not> w_destroyed w"
  shows "quota_ok (p\<lparr>p_backend := b, p_quota := q,
           p_heap := (p_heap p)(p_next p := w), p_next := Suc (p_next p)\<rparr>)"
    (is "quota_ok ?p'")
proof -
  have L: "live_refs ?p' = insert (p_next p) (live_refs p)"
    using assms(4) by (auto simp: live_refs_iff split: if_splits)
  have new: "p_next p \<notin> live_refs p" by (simp add: live_refs_iff)
  have S: "{s \<in> live_refs ?p'. w_tenant (p_heap ?p' s) = u} =
      (if u = t then insert (p_next p) {s \<in> live_refs p. w_tenant (p_heap p s) = u}
       else {s \<in> live_refs p. w_tenant (p_heap p s) = u})" for u
    using L new assms(3) by (auto simp: live_refs_iff)
  have T: "live_of ?p' = (live_of p)(t := Suc (live_of p t))"
    using new by (auto simp: live_of_def S [simplified] fun_eq_iff)
  have "quota_counts q ((live_of p)(t := Suc (live_of p t))) (Suc (card (live_refs p)))"
    using assms(1) reserve_live_counts [OF assms(2), of "live_of p" "card (live_refs p)"]
    by (simp add: quota_ok_def accounted_def)
  then show ?thesis
    using assms(1,2) L T new reserve_live_bounded [OF assms(2)] reserve_live_creating [OF assms(2)]
    by (simp add: quota_ok_def accounted_def)
qed

lemma reserve_release: "reserve_live q t = Inr q' \<Longrightarrow> quota_counts q f n \<Longrightarrow>
    quota_counts (release_live q' t) f n"
  using release_live_counts [OF reserve_live_counts, of q t q' f n t] by simp

section \<open>Steps that leave the buckets alone\<close>

definition same_idle :: "'b pool \<Rightarrow> 'b pool \<Rightarrow> bool" where
  "same_idle p p' \<longleftrightarrow> p_idle p' = p_idle p \<and> p_next p' = p_next p \<and>
     (\<forall>r. worker_key (p_heap p' r) = worker_key (p_heap p r))"

lemma same_idle_refl [simp]: "same_idle p p"
  by (simp add: same_idle_def)

lemma same_idle_trans [trans]: "same_idle p q \<Longrightarrow> same_idle q r \<Longrightarrow> same_idle p r"
  by (simp add: same_idle_def)

lemma same_idle_upd: "worker_key (f (p_heap p r)) = worker_key (p_heap p r) \<Longrightarrow>
    same_idle p (upd_worker r f p)"
  by (simp add: same_idle_def)

lemma idle_ok_same: "same_idle p p' \<Longrightarrow> idle_ok H p' = idle_ok H p"
  by (simp add: same_idle_def idle_ok_def bucket_ok_def idle_refs_def)

lemma worker_key_upd [simp]:
  "worker_key (w\<lparr>w_destroyed := d\<rparr>) = worker_key w"
  "worker_key (w\<lparr>w_healthy := d\<rparr>) = worker_key w"
  "worker_key (w\<lparr>w_last_used := i\<rparr>) = worker_key w"
  "worker_key (w\<lparr>w_expires := x\<rparr>) = worker_key w"
  "worker_key (w\<lparr>w_installed := l\<rparr>) = worker_key w"
  "worker_key (w\<lparr>w_runs := n\<rparr>) = worker_key w"
  by (simp_all add: worker_key_def)

text \<open>What destroying does, in one statement.\<close>

lemma pool_destroy_step:
  assumes "pool_destroy B r p = (p', res)" and "r < p_next p"
  shows "same_idle p p'" and "w_destroyed (p_heap p' r)" and "quota_ok p \<Longrightarrow> quota_ok p'"
    and "s \<noteq> r \<Longrightarrow> p_heap p' s = p_heap p s"
proof -
  show "same_idle p p'" "w_destroyed (p_heap p' r)" "s \<noteq> r \<Longrightarrow> p_heap p' s = p_heap p s"
    using assms(1) by (auto simp: pool_destroy_def same_idle_def Let_def split: if_splits prod.splits)
  show "quota_ok p'" if "quota_ok p"
  proof (cases "w_destroyed (p_heap p r)")
    case True
    with assms(1) that show ?thesis by (simp add: pool_destroy_def)
  next
    case False
    obtain b x where b: "be_destroy B (p_backend p) ((p_heap p r)\<lparr>w_destroyed := True\<rparr>) = (b, x)"
      by fastforce
    from assms(1) False b have "p' = (upd_worker r (\<lambda>w. w\<lparr>w_destroyed := True\<rparr>) p)
           \<lparr>p_backend := b, p_quota := release_live (p_quota p) (w_tenant (p_heap p r))\<rparr>"
      by (auto simp: pool_destroy_def Let_def)
    with quota_ok_kill [OF that assms(2) False] show ?thesis by simp
  qed
qed

lemma pool_invalidate_step:
  assumes "pool_invalidate B r p = (p', res)" and "r < p_next p"
  shows "same_idle p p'" and "w_destroyed (p_heap p' r)" and "quota_ok p \<Longrightarrow> quota_ok p'"
    and "s \<noteq> r \<Longrightarrow> p_heap p' s = p_heap p s"
proof -
  let ?p1 = "upd_worker r (\<lambda>w. w\<lparr>w_healthy := False\<rparr>) p"
  have d: "pool_destroy B r ?p1 = (p', res)" and n: "r < p_next ?p1"
    using assms by (simp_all add: pool_invalidate_def)
  have "same_idle p ?p1" by (rule same_idle_upd) simp
  then show "same_idle p p'" using pool_destroy_step(1) [OF d n] by (rule same_idle_trans)
  show "w_destroyed (p_heap p' r)" by (rule pool_destroy_step(2) [OF d n])
  show "quota_ok p'" if "quota_ok p"
    using that pool_destroy_step(3) [OF d n] by (simp add: quota_ok_upd_worker)
  show "p_heap p' s = p_heap p s" if "s \<noteq> r"
    using that pool_destroy_step(4) [OF d n that] by simp
qed

lemma destroy_each_step:
  assumes "destroy_each B rs p = (p', res)" and "set rs \<subseteq> {..<p_next p}"
  shows "same_idle p p' \<and> (quota_ok p \<longrightarrow> quota_ok p') \<and>
    (\<forall>s. s \<notin> set rs \<longrightarrow> p_heap p' s = p_heap p s) \<and>
    (isl res \<or> (\<forall>s \<in> set rs. w_destroyed (p_heap p' s)))"
  using assms
proof (induction B rs p arbitrary: p' res rule: destroy_each.induct)
  case (2 B r rs p)
  obtain q x where q: "pool_destroy B r p = (q, x)" by fastforce
  have r: "r < p_next p" using "2.prems"(2) by simp
  note step = pool_destroy_step [OF q r]
  show ?case
  proof (cases x)
    case (Inl e)
    with "2.prems" q step show ?thesis by auto
  next
    case (Inr u)
    with "2.prems"(1) q have rest: "destroy_each B rs q = (p', res)" by simp
    have sub: "set rs \<subseteq> {..<p_next q}"
      using "2.prems"(2) step(1) by (auto simp: same_idle_def)
    have IH: "same_idle q p' \<and> (quota_ok q \<longrightarrow> quota_ok p') \<and>
        (\<forall>s. s \<notin> set rs \<longrightarrow> p_heap p' s = p_heap q s) \<and>
        (isl res \<or> (\<forall>s \<in> set rs. w_destroyed (p_heap p' s)))"
      using "2.IH" [OF q [symmetric] Inr rest sub] .
    have "w_destroyed (p_heap p' r) \<or> isl res"
      using IH step(2) by (cases "r \<in> set rs") auto
    then show ?thesis
      using IH step same_idle_trans [OF step(1)] by auto
  qed
qed simp

section \<open>Steps that change the buckets\<close>

lemma idle_ok_mono: "idle_ok H p \<Longrightarrow> K \<subseteq> H \<Longrightarrow> idle_ok K p"
  by (auto simp: idle_ok_def)

lemma pool_ok_mono: "pool_ok H p \<Longrightarrow> K \<subseteq> H \<Longrightarrow> pool_ok K p"
  by (auto simp: pool_ok_def intro: idle_ok_mono)

lemma idle_ok_split:
  assumes "idle_ok H p" and "dict_get (p_idle p) key = Some bucket"
  obtains xs ys where "p_idle p = xs @ (key, bucket) # ys"
    and "key \<notin> fst ` set xs" and "key \<notin> fst ` set ys"
  using dict_split [OF assms(2)] assms(1) by (auto simp: idle_ok_def)

text \<open>Taking the end of a bucket: what is taken becomes held.\<close>

lemma set_bucket_ok:
  assumes ok: "idle_ok H p" and b: "get_or [] (dict_get (p_idle p) key) = front @ back"
  shows "idle_ok (H \<union> set back) (set_bucket key front p)"
proof (cases "dict_get (p_idle p) key")
  case None
  with b have "front = []" "back = []" by auto
  with ok None show ?thesis
    by (simp add: set_bucket_def dict_pop_idle)
next
  case (Some bucket)
  then obtain xs ys where d: "p_idle p = xs @ (key, bucket) # ys"
    and k: "key \<notin> fst ` set xs" "key \<notin> fst ` set ys"
    using ok by (rule_tac idle_ok_split)
  have "bucket = front @ back" using b Some by simp
  with ok show ?thesis
    by (auto simp: set_bucket_def d dict_set_split dict_pop_split k idle_ok_def idle_refs_def bucket_ok_def)
qed

text \<open>Putting a held worker back at the end of its bucket.\<close>

lemma put_back_ok:
  assumes ok: "idle_ok H p" and r: "r \<in> H" and key: "key = worker_key (p_heap p r)"
  shows "idle_ok (H - {r})
    (p\<lparr>p_idle := dict_set key (get_or [] (dict_get (p_idle p) key) @ [r]) (p_idle p)\<rparr>)"
proof -
  have n: "r < p_next p" and i: "r \<notin> set (idle_refs p)"
    using ok r by (auto simp: idle_ok_def)
  show ?thesis
  proof (cases "dict_get (p_idle p) key")
    case None
    then have "key \<notin> fst ` set (p_idle p)" by (simp add: map_of_eq_None_iff)
    with ok n i key None show ?thesis
      by (auto simp: dict_set_new idle_ok_def idle_refs_def bucket_ok_def)
  next
    case (Some bucket)
    then obtain xs ys where d: "p_idle p = xs @ (key, bucket) # ys"
      and k: "key \<notin> fst ` set xs" "key \<notin> fst ` set ys"
      using ok by (rule_tac idle_ok_split)
    with ok n i key Some show ?thesis
      by (auto simp: dict_set_split idle_ok_def idle_refs_def bucket_ok_def)
  qed
qed

text \<open>What is taken from the end of a bucket was idle under the bucket's key.\<close>

lemma bucket_back:
  assumes ok: "idle_ok H p" and b: "get_or [] (dict_get (p_idle p) key) = front @ back"
  shows "set back \<inter> H = {}" and "distinct back" and "\<forall>r \<in> set back. worker_key (p_heap p r) = key"
proof -
  have "set back \<inter> H = {} \<and> distinct back \<and> (\<forall>r \<in> set back. worker_key (p_heap p r) = key)"
  proof (cases "dict_get (p_idle p) key")
    case None
    with b show ?thesis by simp
  next
    case (Some bucket)
    with ok obtain xs ys where d: "p_idle p = xs @ (key, bucket) # ys"
      by (rule idle_ok_split)
    moreover have "bucket = front @ back" using b Some by simp
    ultimately show ?thesis
      using ok by (auto simp: idle_ok_def idle_refs_def bucket_ok_def)
  qed
  then show "set back \<inter> H = {}" and "distinct back"
    and "\<forall>r \<in> set back. worker_key (p_heap p r) = key" by blast+
qed

lemma quota_ok_set_bucket [simp]: "quota_ok (set_bucket key b p) = quota_ok p"
  by (simp add: set_bucket_def)

lemma set_bucket_simps [simp]:
  "p_heap (set_bucket key b p) = p_heap p" "p_next (set_bucket key b p) = p_next p"
  by (simp_all add: set_bucket_def)

lemma acquire_scan_split:
  "acquire_scan cfg now h rid rs = (stale, c, rest) \<Longrightarrow>
    rs = stale @ (case c of None \<Rightarrow> [] | Some r \<Rightarrow> [r]) @ rest \<and> (c = None \<longrightarrow> rest = []) \<and>
    (\<forall>r. c = Some r \<longrightarrow> \<not> idle_expired cfg now (h r) \<and>
       (rid \<in> set (w_installed (h r)) \<or> int (length (w_installed (h r))) < c_max_installed cfg))"
proof (induction cfg now h rid rs arbitrary: stale rule: acquire_scan.induct)
  case (2 cfg now h rid r rs)
  show ?case
  proof (cases "idle_expired cfg now (h r) \<or>
      (rid \<notin> set (w_installed (h r)) \<and> int (length (w_installed (h r))) \<ge> c_max_installed cfg)")
    case True
    obtain s' c' rest' where e: "acquire_scan cfg now h rid rs = (s', c', rest')"
      by (metis prod_cases3)
    with "2.prems" True have "stale = r # s'" "c = c'" "rest = rest'" by auto
    with "2.IH" [OF True, of s'] e show ?thesis by simp
  next
    case False
    with "2.prems" show ?thesis by auto
  qed
qed simp

section \<open>The pool's operations over any provider\<close>

text \<open>What \<open>acquire\<close> promises of the worker it returns.\<close>

definition ttl_ok :: "pool_cfg \<Rightarrow> int \<Rightarrow> security_policy \<Rightarrow> worker \<Rightarrow> bool" where
  "ttl_ok cfg now policy w \<longleftrightarrow>
     (case w_expires w of
        None \<Rightarrow> True
      | Some e \<Rightarrow> 1000 * c_orphan_ttl cfg \<le> e - now \<or>
          max (1000 * c_renew_before cfg) (pol_max_timeout_ms policy + 120000) < e - now)"

definition acquired :: "pool_cfg \<Rightarrow> int \<Rightarrow> string \<Rightarrow> operator_release \<Rightarrow> security_policy
    \<Rightarrow> worker \<Rightarrow> bool" where
  "acquired cfg now tenant release policy w \<longleftrightarrow>
     worker_key w = pool_key tenant release \<and> rel_id release \<in> set (w_installed w) \<and>
     w_healthy w \<and> \<not> w_destroyed w \<and> ttl_ok cfg now policy w"

text \<open>
  The postcondition of \<open>acquire\<close> for a caller that shares the pool with the holders \<open>H\<close>, whose
  workers were \<open>h\<close> before.
\<close>

definition acquire_post :: "pool_cfg \<Rightarrow> int \<Rightarrow> string \<Rightarrow> operator_release \<Rightarrow> security_policy
    \<Rightarrow> nat set \<Rightarrow> (nat \<Rightarrow> worker) \<Rightarrow> 'b pool \<Rightarrow> exn + nat \<Rightarrow> bool" where
  "acquire_post cfg now tenant release policy H h p' res \<longleftrightarrow>
     (\<forall>s \<in> H. p_heap p' s = h s) \<and>
     (case res of
        Inl _ \<Rightarrow> pool_ok H p'
      | Inr r \<Rightarrow> r \<notin> H \<and> pool_ok (insert r H) p' \<and>
          acquired cfg now tenant release policy (p_heap p' r))"

lemma ensure_release_rec_Inr:
  "ensure_release_rec B release b w = (b', Inr w') \<Longrightarrow>
    rel_id release \<in> set (w_installed w') \<and> (\<exists>l. w' = w\<lparr>w_installed := l\<rparr>)"
  by (cases w) (auto simp: ensure_release_rec_def split: if_splits prod.splits sum.splits)

lemma ensure_release_step:
  assumes "ensure_release B release r p = (p', res)"
  shows "same_idle p p'" and "quota_ok p' = quota_ok p"
    and "res = Inr u \<Longrightarrow> rel_id release \<in> set (w_installed (p_heap p' r)) \<and>
      (\<exists>l. p_heap p' r = (p_heap p r)\<lparr>w_installed := l\<rparr>)"
    and "s \<noteq> r \<Longrightarrow> p_heap p' s = p_heap p s"
proof -
  obtain b x where e: "ensure_release_rec B release (p_backend p) (p_heap p r) = (b, x)"
    by fastforce
  show "same_idle p p'" "quota_ok p' = quota_ok p"
    "res = Inr u \<Longrightarrow> rel_id release \<in> set (w_installed (p_heap p' r)) \<and>
      (\<exists>l. p_heap p' r = (p_heap p r)\<lparr>w_installed := l\<rparr>)"
    "s \<noteq> r \<Longrightarrow> p_heap p' s = p_heap p s"
    using assms e ensure_release_rec_Inr [of B release "p_backend p" "p_heap p r" b]
    by (auto simp: ensure_release_def same_idle_def quota_ok_upd_worker split: sum.splits)
qed

context sandbox_backend
begin

lemma ensure_sandbox_ttl_step:
  assumes "ensure_sandbox_ttl B cfg now policy r p = (p', res)"
  shows "same_idle p p'" and "quota_ok p' = quota_ok p"
    and "res = Inr u \<Longrightarrow> ttl_ok cfg now policy (p_heap p' r) \<and>
      (\<exists>e. p_heap p' r = (p_heap p r)\<lparr>w_expires := e\<rparr>)"
    and "s \<noteq> r \<Longrightarrow> p_heap p' s = p_heap p s"
proof -
  have "same_idle p p' \<and> quota_ok p' = quota_ok p \<and>
      (res = Inr u \<longrightarrow> ttl_ok cfg now policy (p_heap p' r) \<and>
        (\<exists>e. p_heap p' r = (p_heap p r)\<lparr>w_expires := e\<rparr>)) \<and>
      (s \<noteq> r \<longrightarrow> p_heap p' s = p_heap p s)"
  proof (cases "w_expires (p_heap p r)")
    case None
    then have id: "\<exists>e'. p_heap p r = (p_heap p r)\<lparr>w_expires := e'\<rparr>"
      by (intro exI [of _ None]) simp
    from assms None have "p' = p" "res = Inr ()" "ttl_ok cfg now policy (p_heap p r)"
      by (auto simp: ensure_sandbox_ttl_def ttl_ok_def)
    with id show ?thesis by simp
  next
    case (Some e)
    then have id: "\<exists>e'. p_heap p r = (p_heap p r)\<lparr>w_expires := e'\<rparr>"
      by (intro exI [of _ "Some e"]) simp
    obtain b x where c: "be_renew B (p_backend p) now (p_heap p r) (c_orphan_ttl cfg) = (b, x)"
      by fastforce
    show ?thesis
    proof (cases "e - now \<le> max (1000 * c_renew_before cfg) (pol_max_timeout_ms policy + 120000)")
      case False
      with assms Some have "p' = p" "res = Inr ()" "ttl_ok cfg now policy (p_heap p r)"
        by (auto simp: ensure_sandbox_ttl_def ttl_ok_def Let_def)
      with id show ?thesis by simp
    next
      case True
      show ?thesis
      proof (cases x)
        case (Inl y)
        with assms Some True c show ?thesis
          by (auto simp: ensure_sandbox_ttl_def Let_def same_idle_def)
      next
        case (Inr w)
        with c obtain e1 where e1: "now + 1000 * c_orphan_ttl cfg \<le> e1"
          and w: "w = (p_heap p r)\<lparr>w_expires := Some e1\<rparr>"
          using renew_law by blast
        have "(p', res) = (upd_worker r (\<lambda>_. w) (p\<lparr>p_backend := b\<rparr>), Inr ())"
          using assms Some True c Inr by (simp add: ensure_sandbox_ttl_def Let_def)
        then show ?thesis
          using w e1 by (auto simp: same_idle_def quota_ok_upd_worker ttl_ok_def)
      qed
    qed
  qed
  then show "same_idle p p'" "quota_ok p' = quota_ok p"
    "res = Inr u \<Longrightarrow> ttl_ok cfg now policy (p_heap p' r) \<and>
      (\<exists>e. p_heap p' r = (p_heap p r)\<lparr>w_expires := e\<rparr>)"
    "s \<noteq> r \<Longrightarrow> p_heap p' s = p_heap p s" by simp_all
qed

lemma acquire_candidate_step:
  assumes "acquire_candidate B cfg now release policy r p = (p', res)"
    and r: "r < p_next p" and q: "quota_ok p"
  shows "same_idle p p'" and "quota_ok p'" and "s \<noteq> r \<Longrightarrow> p_heap p' s = p_heap p s"
    and "res = Inr r' \<Longrightarrow> r' = r \<and>
      (w_healthy (p_heap p r) \<and> \<not> w_destroyed (p_heap p r) \<and>
       worker_key (p_heap p r) = pool_key tenant release \<longrightarrow>
       acquired cfg now tenant release policy (p_heap p' r))"
proof -
  obtain p1 x where t: "ensure_sandbox_ttl B cfg now policy r p = (p1, x)" by fastforce
  obtain p2 y where u: "(case x of Inl e \<Rightarrow> (p1, Inl e) | Inr _ \<Rightarrow> ensure_release B release r p1) = (p2, y)"
    by fastforce
  note T = ensure_sandbox_ttl_step [OF t]
  have P2: "same_idle p p2" "quota_ok p2" "s \<noteq> r \<Longrightarrow> p_heap p2 s = p_heap p s"
  proof -
    have "(same_idle p p2 \<and> quota_ok p2) \<and> (s \<noteq> r \<longrightarrow> p_heap p2 s = p_heap p s)"
    proof (cases x)
      case (Inl e)
      then show ?thesis using u q T(1,2,4) by auto
    next
      case (Inr v)
      with u have e: "ensure_release B release r p1 = (p2, y)" by simp
      show ?thesis
        using same_idle_trans [OF T(1) ensure_release_step(1) [OF e]]
          ensure_release_step(2) [OF e] ensure_release_step(4) [OF e] T(2,4) q by simp
    qed
    then show "same_idle p p2" "quota_ok p2" "s \<noteq> r \<Longrightarrow> p_heap p2 s = p_heap p s" by blast+
  qed
  have R2: "r < p_next p2" using P2(1) r by (simp add: same_idle_def)
  have run: "(case y of
        Inr _ \<Rightarrow> (upd_worker r (\<lambda>w. w\<lparr>w_last_used := now\<rparr>) p2, Inr r)
      | Inl e \<Rightarrow> (case pool_invalidate B r p2 of
                    (p3, Inl e2) \<Rightarrow> (p3, Inl e2)
                  | (p3, Inr _) \<Rightarrow> (p3, Inl e))) = (p', res)"
    using assms(1) unfolding acquire_candidate_def t prod.case u Let_def .
  show "same_idle p p'" "quota_ok p'" "s \<noteq> r \<Longrightarrow> p_heap p' s = p_heap p s"
    and "res = Inr r' \<Longrightarrow> r' = r \<and>
      (w_healthy (p_heap p r) \<and> \<not> w_destroyed (p_heap p r) \<and>
       worker_key (p_heap p r) = pool_key tenant release \<longrightarrow>
       acquired cfg now tenant release policy (p_heap p' r))"
  proof -
    obtain p3 z where i: "pool_invalidate B r p2 = (p3, z)" by fastforce
    note I = pool_invalidate_step [OF i R2]
    have "same_idle p2 p'"
      using run i I(1) same_idle_upd [of "\<lambda>w. w\<lparr>w_last_used := now\<rparr>" p2 r]
      by (auto split: sum.splits)
    with P2(1) show "same_idle p p'" by (rule same_idle_trans)
    show "quota_ok p'"
      using run i I(3) P2(2) by (auto simp: quota_ok_upd_worker split: sum.splits)
    show "p_heap p' s = p_heap p s" if "s \<noteq> r"
      using that run i I(4) [OF that] P2(3) [OF that] by (auto split: sum.splits)
    assume res: "res = Inr r'"
    have y: "y = Inr ()"
    proof (cases y)
      case (Inl e)
      then have "isl res" using run i by (cases z) auto
      with res show ?thesis by simp
    qed simp
    with run res have p': "p' = upd_worker r (\<lambda>w. w\<lparr>w_last_used := now\<rparr>) p2" and "r' = r"
      by auto
    have x: "x = Inr ()" using u y by (cases x) simp_all
    with u y have er: "ensure_release B release r p1 = (p2, Inr ())" by simp
    obtain e where e: "p_heap p1 r = (p_heap p r)\<lparr>w_expires := e\<rparr>" "ttl_ok cfg now policy (p_heap p1 r)"
      using T(3) [OF x] by blast
    obtain l where l: "p_heap p2 r = (p_heap p1 r)\<lparr>w_installed := l\<rparr>"
        "rel_id release \<in> set (w_installed (p_heap p2 r))"
      using ensure_release_step(3) [OF er refl] by blast
    have w: "p_heap p' r = (p_heap p r)\<lparr>w_expires := e, w_installed := l, w_last_used := now\<rparr>"
      by (simp add: p' l(1) e(1))
    have tt: "ttl_ok cfg now policy (p_heap p' r)"
      using e(2) by (simp add: w e(1) ttl_ok_def)
    have k: "worker_key (p_heap p' r) = worker_key (p_heap p r)"
      by (simp add: w)
    show "r' = r \<and>
      (w_healthy (p_heap p r) \<and> \<not> w_destroyed (p_heap p r) \<and>
       worker_key (p_heap p r) = pool_key tenant release \<longrightarrow>
       acquired cfg now tenant release policy (p_heap p' r))"
      using \<open>r' = r\<close> l(2) tt by (simp add: acquired_def k) (simp add: w l(1))
  qed
qed

lemma acquire_create_step:
  assumes "acquire_create B cfg now tenant release policy p = (p', res)" and q: "quota_ok p"
  shows "quota_ok p'" and "p_idle p' = p_idle p" and "s < p_next p \<Longrightarrow> p_heap p' s = p_heap p s"
    and "res = Inr r \<Longrightarrow> r = p_next p \<and> p_next p' = Suc r \<and>
      acquired cfg now tenant release policy (p_heap p' r)"
    and "res = Inl e \<Longrightarrow> p_next p' = p_next p \<and> p_heap p' = p_heap p"
proof -
  have "quota_ok p' \<and> p_idle p' = p_idle p \<and> (s < p_next p \<longrightarrow> p_heap p' s = p_heap p s) \<and>
    (res = Inr r \<longrightarrow> r = p_next p \<and> p_next p' = Suc r \<and>
      acquired cfg now tenant release policy (p_heap p' r)) \<and>
    (res = Inl e \<longrightarrow> p_next p' = p_next p \<and> p_heap p' = p_heap p)"
  proof (cases "reserve_live (p_quota p) tenant")
    case (Inl e')
    with assms show ?thesis by (auto simp: acquire_create_def)
  next
    case (Inr q')
    have undo: "quota_ok (p\<lparr>p_backend := b, p_quota := release_live q' tenant\<rparr>)" for b
      using q reserve_release [OF Inr, of "live_of p" "card (live_refs p)"]
        reserve_live_bounded [OF Inr] release_live_bounded [of q'] reserve_live_creating [OF Inr]
      by (simp add: quota_ok_def accounted_def)
    obtain b x where c: "be_create B (p_backend p) now tenant release policy (c_orphan_ttl cfg) = (b, x)"
      by fastforce
    show ?thesis
    proof (cases x)
      case (Inl e')
      with assms(1) Inr c undo show ?thesis by (auto simp: acquire_create_def Let_def)
    next
      fix w assume w: "x = Inr w"
      with c have cf: "created_for tenant release (now + 1000 * c_orphan_ttl cfg) w"
        by (simp add: create_law)
      obtain b2 y where i: "ensure_release_rec B release b w = (b2, y)" by fastforce
      show ?thesis
      proof (cases y)
        case (Inl e')
        with assms(1) Inr c w i undo show ?thesis by (auto simp: acquire_create_def Let_def)
      next
        fix w2 assume w2: "y = Inr w2"
        with i obtain l where l: "w2 = w\<lparr>w_installed := l\<rparr>" "rel_id release \<in> set l"
          using ensure_release_rec_Inr [of B release b w b2 w2] by auto
        have run: "(p', res) = (p\<lparr>p_backend := b2, p_quota := q',
            p_heap := (p_heap p)(p_next p := w2), p_next := Suc (p_next p)\<rparr>, Inr (p_next p))"
          using assms(1) Inr c w i w2 by (simp add: acquire_create_def Let_def)
        moreover have "quota_ok (p\<lparr>p_backend := b2, p_quota := q',
            p_heap := (p_heap p)(p_next p := w2), p_next := Suc (p_next p)\<rparr>)"
          using cf l by (intro quota_ok_alloc [OF q Inr]) (simp_all add: created_for_def)
        ultimately show ?thesis
          using cf l by (auto simp: acquired_def ttl_ok_def created_for_def worker_key_def pool_key_def)
      qed
    qed
  qed
  then show "quota_ok p'" "p_idle p' = p_idle p" "s < p_next p \<Longrightarrow> p_heap p' s = p_heap p s"
    "res = Inr r \<Longrightarrow> r = p_next p \<and> p_next p' = Suc r \<and>
      acquired cfg now tenant release policy (p_heap p' r)"
    "res = Inl e \<Longrightarrow> p_next p' = p_next p \<and> p_heap p' = p_heap p" by blast+
qed

lemma acquire_create_ok:
  assumes "acquire_create B cfg now tenant release policy p = (p', res)" and ok: "pool_ok H p"
    and h: "\<forall>s \<in> H. p_heap p s = h s"
  shows "acquire_post cfg now tenant release policy H h p' res"
proof -
  have q: "quota_ok p" and iok: "idle_ok H p" using ok by (simp_all add: pool_ok_def)
  note A = acquire_create_step [OF assms(1) q]
  have S: "\<forall>s \<in> H. p_heap p' s = h s"
    using A(3) iok h by (auto simp: idle_ok_def)
  show ?thesis
  proof (cases res)
    case (Inl e)
    with A iok S show ?thesis
      by (auto simp: acquire_post_def pool_ok_def idle_ok_def bucket_ok_def idle_refs_def)
  next
    fix r assume r: "res = Inr r"
    note Ar = A(4) [OF r]
    have "\<forall>r \<in> set (idle_refs p). r < p_next p"
      using iok by (auto simp: idle_ok_def bucket_ok_def idle_refs_def)
    then have "idle_ok (insert r H) p'"
      using iok Ar A(2) A(3) by (auto simp: idle_ok_def bucket_ok_def idle_refs_def less_Suc_eq)
    moreover have "r \<notin> H" using iok Ar by (auto simp: idle_ok_def)
    moreover have "acquired cfg now tenant release policy (p_heap p' r)" using Ar by blast
    ultimately show ?thesis using S A(1) by (simp add: acquire_post_def pool_ok_def r)
  qed
qed

lemma acquire_candidate_ok:
  assumes "acquire_candidate B cfg now release policy r p = (p', res)"
    and ok: "pool_ok (insert r H) p" and r: "r \<notin> H" and h: "\<forall>s \<in> H. p_heap p s = h s"
    and w: "w_healthy (p_heap p r)" "\<not> w_destroyed (p_heap p r)"
      "worker_key (p_heap p r) = pool_key tenant release"
  shows "acquire_post cfg now tenant release policy H h p' res"
proof -
  have q: "quota_ok p" and iok: "idle_ok (insert r H) p" using ok by (simp_all add: pool_ok_def)
  then have n: "r < p_next p" by (simp add: idle_ok_def)
  note A = acquire_candidate_step [OF assms(1) n q]
  have S: "\<forall>s \<in> H. p_heap p' s = h s" using A(3) r h by metis
  have P: "pool_ok (insert r H) p'"
    using A(1,2) iok by (simp add: pool_ok_def idle_ok_same)
  show ?thesis
  proof (cases res)
    case (Inl e)
    then show ?thesis using S pool_ok_mono [OF P] by (auto simp: acquire_post_def)
  next
    fix r' assume res: "res = Inr r'"
    from A(4) [OF res, of tenant] w show ?thesis using S P r res by (simp add: acquire_post_def)
  qed
qed

text \<open>
  \<open>acquire\<close>: it keeps the invariant, leaves the workers other invocations hold alone, and a
  worker it returns is nobody else's and is what the caller asked for.
\<close>

lemma pool_acquire_ok:
  assumes run: "pool_acquire B cfg now tenant release policy p = (p', res)" and ok: "pool_ok H p"
  shows "acquire_post cfg now tenant release policy H (p_heap p) p' res"
proof -
  let ?key = "pool_key tenant release"
  let ?bucket = "get_or [] (dict_get (p_idle p) ?key)"
  obtain stale c rest where
    sc: "acquire_scan cfg now (p_heap p) (rel_id release) (rev ?bucket) = (stale, c, rest)"
    by (metis prod_cases3)
  define taken where "taken = stale @ (case c of None \<Rightarrow> [] | Some r \<Rightarrow> [r])"
  note scan = acquire_scan_split [OF sc]
  have split: "?bucket = rev rest @ rev taken"
    using scan unfolding taken_def by (metis append_assoc rev_append rev_rev_ident)
  have iok: "idle_ok H p" using ok by (simp add: pool_ok_def)
  note T = bucket_back [OF iok split]
  define p1 where "p1 = set_bucket ?key (rev rest) p"
  have ok1: "idle_ok (H \<union> set taken) p1"
    using set_bucket_ok [OF iok split] by (simp add: p1_def)
  then have sub: "set stale \<subseteq> {..<p_next p1}" by (auto simp: idle_ok_def taken_def)
  obtain p2 d where de: "destroy_each B stale p1 = (p2, d)" by fastforce
  have D: "same_idle p1 p2" "quota_ok p2" "\<forall>s. s \<notin> set stale \<longrightarrow> p_heap p2 s = p_heap p s"
    using destroy_each_step [OF de sub] ok by (auto simp: p1_def pool_ok_def)
  have ok2: "pool_ok (H \<union> set taken) p2" using ok1 D(1,2) by (simp add: pool_ok_def idle_ok_same)
  have held: "\<forall>s \<in> H. p_heap p2 s = p_heap p s" using T(1) D(3) by (auto simp: taken_def)
  have run2: "(case d of Inl e \<Rightarrow> (p2, Inl e)
      | Inr _ \<Rightarrow> (case c of Some r \<Rightarrow> acquire_candidate B cfg now release policy r p2
                  | None \<Rightarrow> acquire_create B cfg now tenant release policy p2)) = (p', res)"
    using run unfolding pool_acquire_def Let_def sc prod.case p1_def [symmetric] de .
  have okH: "pool_ok H p2" using ok2 by (rule pool_ok_mono) blast
  show ?thesis
  proof (cases d)
    case (Inl e)
    with run2 held okH show ?thesis by (auto simp: acquire_post_def)
  next
    case (Inr v)
    show ?thesis
    proof (cases c)
      case None
      with run2 Inr show ?thesis by (intro acquire_create_ok [OF _ okH held]) simp
    next
      case (Some r)
      then have r: "r \<in> set taken" "r \<notin> set stale" using T(2) by (auto simp: taken_def)
      have "p_heap p2 r = p_heap p r" using D(3) r(2) by blast
      then have "w_healthy (p_heap p2 r)" "\<not> w_destroyed (p_heap p2 r)"
          "worker_key (p_heap p2 r) = ?key"
        using scan Some T(3) r(1) by (auto simp: idle_expired_def)
      moreover have "pool_ok (insert r H) p2" using ok2 by (rule pool_ok_mono) (use r in blast)
      moreover have "r \<notin> H" using T(1) r(1) by auto
      ultimately show ?thesis using run2 Inr Some by (intro acquire_candidate_ok [OF _ _ _ held]) simp_all
    qed
  qed
qed

end

section \<open>Giving workers back\<close>

lemma pool_release_ok:
  assumes run: "pool_release B now policy r p = (p', res)" and ok: "pool_ok H p" and r: "r \<in> H"
  shows "pool_ok (H - {r}) p' \<and> (\<forall>s \<in> H - {r}. p_heap p' s = p_heap p s)"
proof -
  define p1 where "p1 = upd_worker r (\<lambda>w. w\<lparr>w_runs := w_runs w + 1, w_last_used := now\<rparr>) p"
  have ok1: "pool_ok H p1"
    using ok same_idle_upd [of "\<lambda>w. w\<lparr>w_runs := w_runs w + 1, w_last_used := now\<rparr>" p r]
    by (simp add: p1_def pool_ok_def quota_ok_upd_worker idle_ok_same)
  then have n: "r < p_next p1" using r by (auto simp: pool_ok_def idle_ok_def)
  let ?w = "p_heap p1 r"
  show ?thesis
  proof (cases "w_destroyed ?w \<or> \<not> w_healthy ?w \<or> \<not> pol_reuse_sandbox policy")
    case True
    with run have d: "pool_destroy B r p1 = (p', res)"
      by (simp only: pool_release_def Let_def p1_def [symmetric]) simp
    note D = pool_destroy_step [OF d n]
    have "pool_ok H p'" using ok1 D by (simp add: pool_ok_def idle_ok_same)
    then have "pool_ok (H - {r}) p'" by (rule pool_ok_mono) blast
    then show ?thesis using D(4) by (auto simp: p1_def)
  next
    case False
    with run have p': "p' = p1\<lparr>p_idle := dict_set (worker_key ?w)
        (get_or [] (dict_get (p_idle p1) (worker_key ?w)) @ [r]) (p_idle p1)\<rparr>"
      by (simp only: pool_release_def Let_def p1_def [symmetric]) simp
    have "idle_ok (H - {r}) p'"
      unfolding p' by (rule put_back_ok) (use ok1 r in \<open>simp_all add: pool_ok_def\<close>)
    then show ?thesis using ok1 by (auto simp: pool_ok_def p' p1_def)
  qed
qed

lemma pool_invalidate_ok:
  assumes run: "pool_invalidate B r p = (p', res)" and ok: "pool_ok H p" and r: "r < p_next p"
  shows "pool_ok H p'" and "w_destroyed (p_heap p' r)" and "s \<noteq> r \<Longrightarrow> p_heap p' s = p_heap p s"
  using pool_invalidate_step [OF run r] ok by (simp_all add: pool_ok_def idle_ok_same)

lemma idle_refs_filter:
  "concat (map snd (filter (\<lambda>kb. snd kb \<noteq> []) (map (\<lambda>(k, b). (k, filter P b)) d))) =
    filter P (concat (map snd d))"
  by (induction d) (auto simp: filter_empty_conv)

text \<open>Buckets filtered by a predicate on workers, and buckets dropped by key.\<close>

definition keep_idle :: "(nat \<Rightarrow> bool) \<Rightarrow> (pool_key, nat list) dict \<Rightarrow> (pool_key, nat list) dict" where
  "keep_idle P d = filter (\<lambda>kb. snd kb \<noteq> []) (map (\<lambda>(k, bucket). (k, filter P bucket)) d)"

lemma keep_idle_ok:
  assumes "idle_ok H p"
  shows "idle_ok H (p\<lparr>p_idle := keep_idle P (p_idle p)\<rparr>)"
proof -
  have refs: "idle_refs (p\<lparr>p_idle := keep_idle P (p_idle p)\<rparr>) = filter P (idle_refs p)"
    by (simp add: keep_idle_def idle_refs_def idle_refs_filter)
  have keys: "map fst (map (\<lambda>(k, bucket). (k, filter P bucket)) d) = map fst d" for d :: "(pool_key, nat list) dict"
    by (induction d) auto
  have idle: "p_idle (p\<lparr>p_idle := keep_idle P (p_idle p)\<rparr>) =
      filter (\<lambda>kb. snd kb \<noteq> []) (map (\<lambda>(k, bucket). (k, filter P bucket)) (p_idle p))"
    by (simp add: keep_idle_def)
  have "distinct (map fst (p_idle (p\<lparr>p_idle := keep_idle P (p_idle p)\<rparr>)))"
    unfolding idle
    by (rule distinct_map_filter) (use assms in \<open>simp only: keys idle_ok_def\<close>)
  moreover have "bucket_ok (p\<lparr>p_idle := keep_idle P (p_idle p)\<rparr>) kb" if "kb \<in> set (p_idle (p\<lparr>p_idle := keep_idle P (p_idle p)\<rparr>))" for kb
    using that assms by (fastforce simp: keep_idle_def idle_ok_def bucket_ok_def)
  ultimately show ?thesis
    using assms unfolding idle_ok_def refs by (auto simp: keep_idle_def)
qed

lemma reap_idle_keep: "reap_idle cfg now p = p\<lparr>p_idle := keep_idle (\<lambda>r. \<not> idle_expired cfg now (p_heap p r)) (p_idle p)\<rparr>"
  by (simp add: reap_idle_def keep_idle_def)

lemma reap_idle_ok: "idle_ok H p \<Longrightarrow> idle_ok H (reap_idle cfg now p)"
  unfolding reap_idle_keep by (rule keep_idle_ok)

lemma pool_reap_ok:
  assumes run: "pool_reap B cfg now p = (p', res)" and ok: "pool_ok H p"
  shows "pool_ok H p'" and "s \<in> H \<Longrightarrow> p_heap p' s = p_heap p s"
proof -
  let ?p1 = "reap_idle cfg now p" and ?stale = "reap_stale cfg now p"
  have ok1: "pool_ok H ?p1" using ok reap_idle_ok by (auto simp: pool_ok_def reap_idle_def)
  have "set ?stale \<subseteq> set (idle_refs p)" by (auto simp: reap_stale_def idle_refs_def)
  moreover have "set (idle_refs p) \<subseteq> {..<p_next p}" "H \<inter> set (idle_refs p) = {}"
    using ok by (auto simp: pool_ok_def idle_ok_def bucket_ok_def idle_refs_def)
  ultimately have sub: "set ?stale \<subseteq> {..<p_next ?p1}" and dis: "H \<inter> set ?stale = {}"
    by (auto simp: reap_idle_def)
  obtain p2 d where de: "destroy_each B ?stale ?p1 = (p2, d)" by fastforce
  with run have p': "p' = p2" by (auto simp: pool_reap_def Let_def split: sum.splits)
  have D: "same_idle ?p1 p2" "quota_ok p2" "\<forall>s. s \<notin> set ?stale \<longrightarrow> p_heap p2 s = p_heap ?p1 s"
    using destroy_each_step [OF de sub] ok1 by (auto simp: pool_ok_def)
  show "pool_ok H p'" using ok1 D by (simp add: p' pool_ok_def idle_ok_same)
  show "p_heap p' s = p_heap p s" if "s \<in> H" using that dis D(3) by (auto simp: p' reap_idle_def)
qed

lemma reset_after_restart_ok:
  "reset_after_restart B p = (p', res) \<Longrightarrow> pool_ok H p \<Longrightarrow> pool_ok H p'"
  by (auto simp: reset_after_restart_def pool_ok_def idle_ok_def idle_refs_def bucket_ok_def
      split: prod.splits)

lemma pool_init_ok: "quota_init c l t = Inr q \<Longrightarrow> pool_ok {} (pool_init h q b)"
proof -
  assume q: "quota_init c l t = Inr q"
  then have "q_creating q = 0" by (auto simp: quota_init_def split: if_splits)
  moreover have "live_of (pool_init h q b) = (\<lambda>_. 0)" "live_refs (pool_init h q b) = {}"
    by (simp_all add: live_of_def live_refs_def pool_init_def fun_eq_iff)
  ultimately show ?thesis
    using quota_init_ok [OF q]
    by (simp add: pool_ok_def quota_ok_def accounted_def idle_ok_def idle_refs_def)
       (simp add: pool_init_def)
qed

section \<open>What the invariant gives\<close>

lemma pool_ok_limits:
  assumes "pool_ok H p"
  shows "int (card (live_refs p)) \<le> q_max_live (p_quota p)"
    and "int (live_of p t) \<le> q_max_tenant (p_quota p)" and "slot_free (p_quota p)"
proof -
  have c: "q_live (p_quota p) = int (card (live_refs p))"
      "tenant_count (p_quota p) t = int (live_of p t)"
    and b: "quota_bounded (p_quota p)" "q_creating (p_quota p) = 0"
    using assms by (simp_all add: pool_ok_def quota_ok_def accounted_def quota_counts_def)
  show "int (card (live_refs p)) \<le> q_max_live (p_quota p)"
    using b(1) c(1) by (simp add: quota_bounded_def)
  show "int (live_of p t) \<le> q_max_tenant (p_quota p)"
    using b(1) by (simp add: quota_bounded_def flip: c(2))
  show "slot_free (p_quota p)" using b by (simp add: slot_free_def quota_bounded_def)
qed

section \<open>Sandboxes that were not given back\<close>

text \<open>A provider beside a record of what the pool has done with it since the cleanup at start-up: the sandboxes it got
  (their tenant and identifier), without those whose deletion it has asked for. The record is for the statements only; no
  answer depends on it.\<close>

type_synonym sandboxes = "(string \<times> string) multiset"

definition sandbox_of :: "worker \<Rightarrow> string \<times> string" where
  "sandbox_of w = (w_tenant w, w_id w)"

definition beside :: "sandboxes \<Rightarrow> 'b \<times> 'x \<Rightarrow> ('b \<times> sandboxes) \<times> 'x" where
  "beside M bx = ((fst bx, M), snd bx)"

definition counted :: "'b backend \<Rightarrow> ('b \<times> sandboxes) backend" where
  "counted B =
     \<lparr>be_create = (\<lambda>b now tenant release policy ttl.
        case be_create B (fst b) now tenant release policy ttl of
          (b', Inl e) \<Rightarrow> ((b', snd b), Inl e)
        | (b', Inr w) \<Rightarrow> ((b', add_mset (sandbox_of w) (snd b)), Inr w)),
      be_renew = (\<lambda>b now w ttl. beside (snd b) (be_renew B (fst b) now w ttl)),
      be_install = (\<lambda>b w release. beside (snd b) (be_install B (fst b) w release)),
      be_run = (\<lambda>b w release rq ms. beside (snd b) (be_run B (fst b) w release rq ms)),
      be_cancel = (\<lambda>b w i. beside (snd b) (be_cancel B (fst b) w i)),
      be_destroy = (\<lambda>b w. beside (snd b - {#sandbox_of w#}) (be_destroy B (fst b) w)),
      be_cleanup = (\<lambda>b. beside {#} (be_cleanup B (fst b)))\<rparr>"

definition handed_out :: "'b pool \<Rightarrow> sandboxes" where
  "handed_out p = image_mset (\<lambda>r. sandbox_of (p_heap p r)) (mset_set (live_refs p))"

definition covered :: "('b \<times> sandboxes) pool \<Rightarrow> bool" where
  "covered p \<longleftrightarrow> snd (p_backend p) \<subseteq># handed_out p"

lemma handed_out_frame [simp]:
  "handed_out (p\<lparr>p_idle := i\<rparr>) = handed_out p" "handed_out (p\<lparr>p_backend := b\<rparr>) = handed_out p"
  "handed_out (p\<lparr>p_quota := q\<rparr>) = handed_out p"
  by (simp_all add: handed_out_def)

lemma handed_out_upd:
  assumes "w_destroyed (f (p_heap p r)) = w_destroyed (p_heap p r)" "sandbox_of (f (p_heap p r)) = sandbox_of (p_heap p r)"
  shows "handed_out (upd_worker r f p) = handed_out p"
  using assms live_upd_worker(1) [of f p r] by (auto simp: handed_out_def sandbox_of_def intro!: image_mset_cong)

lemma covered_frame [simp]:
  "covered (p\<lparr>p_idle := i\<rparr>) = covered p" "covered (p\<lparr>p_quota := q\<rparr>) = covered p"
  "covered (set_bucket key bucket p) = covered p"
  by (simp_all add: covered_def set_bucket_def)

lemma covered_backend: "covered p \<Longrightarrow> snd b \<subseteq># snd (p_backend p) \<Longrightarrow> covered (p\<lparr>p_backend := b\<rparr>)"
  by (auto simp: covered_def intro: subset_mset.order_trans)

lemma covered_upd:
  assumes "w_destroyed (f (p_heap p r)) = w_destroyed (p_heap p r)" "sandbox_of (f (p_heap p r)) = sandbox_of (p_heap p r)"
  shows "covered (upd_worker r f p) = covered p"
  using handed_out_upd [of f p r] assms by (simp add: covered_def)

lemma handed_out_kill:
  "handed_out p - {#sandbox_of (p_heap p r)#} \<subseteq># handed_out (upd_worker r (\<lambda>w. w\<lparr>w_destroyed := True\<rparr>) p)"
proof -
  let ?p1 = "upd_worker r (\<lambda>w. w\<lparr>w_destroyed := True\<rparr>) p"
  have s: "sandbox_of (p_heap ?p1 s) = sandbox_of (p_heap p s)" for s by (simp add: sandbox_of_def)
  have "live_refs ?p1 = live_refs p - {r}" by (auto simp: live_refs_iff split: if_splits)
  then have h: "handed_out ?p1 = image_mset (\<lambda>r. sandbox_of (p_heap p r)) (mset_set (live_refs p - {r}))"
    by (simp add: handed_out_def s del: upd_worker_simps)
  have "handed_out p - {#sandbox_of (p_heap p r)#} \<subseteq># image_mset (\<lambda>r. sandbox_of (p_heap p r)) (mset_set (live_refs p - {r}))"
    by (cases "r \<in> live_refs p") (simp_all add: mset_set_Diff handed_out_def image_mset_Diff)
  then show ?thesis unfolding h .
qed

lemma subset_diff_mono: "M \<subseteq># N \<Longrightarrow> M - K \<subseteq># N - K"
  by (simp add: subseteq_mset_def diff_le_mono)

lemma pool_destroy_covered: "covered p \<Longrightarrow> covered (fst (pool_destroy (counted B) r p))"
proof -
  assume c: "covered p"
  let ?p1 = "upd_worker r (\<lambda>w. w\<lparr>w_destroyed := True\<rparr>) p"
  have "snd (p_backend p) - {#sandbox_of (p_heap p r)#} \<subseteq># handed_out ?p1"
    by (rule subset_mset.order_trans [OF subset_diff_mono [OF c [unfolded covered_def]] handed_out_kill])
  then show ?thesis
    using c by (simp add: pool_destroy_def Let_def counted_def beside_def covered_def sandbox_of_def split: prod.split)
qed

lemma pool_invalidate_covered: "covered p \<Longrightarrow> covered (fst (pool_invalidate (counted B) r p))"
  unfolding pool_invalidate_def by (rule pool_destroy_covered) (simp add: covered_upd sandbox_of_def)

lemma destroy_each_covered: "covered p \<Longrightarrow> covered (fst (destroy_each (counted B) rs p))"
proof (induction rs arbitrary: p)
  case (Cons r rs)
  obtain p' x where d: "pool_destroy (counted B) r p = (p', x)" by fastforce
  with pool_destroy_covered [OF Cons.prems, of B r] have "covered p'" by simp
  with Cons.IH d show ?case by (auto split: sum.split)
qed simp

lemma ensure_release_covered: "covered p \<Longrightarrow> covered (fst (ensure_release (counted B) release r p))"
  by (auto simp: ensure_release_def ensure_release_rec_def counted_def beside_def covered_upd covered_backend sandbox_of_def
      split: sum.split prod.split)

context sandbox_backend
begin

lemma ensure_sandbox_ttl_covered:
  assumes "covered p"
  shows "covered (fst (ensure_sandbox_ttl (counted B) cfg now policy r p))"
proof -
  obtain b x where c: "be_renew B (fst (p_backend p)) now (p_heap p r) (c_orphan_ttl cfg) = (b, x)" by fastforce
  then have "be_renew (counted B) (p_backend p) now (p_heap p r) (c_orphan_ttl cfg) = ((b, snd (p_backend p)), x)"
    by (simp add: counted_def beside_def)
  moreover have "sandbox_of w = sandbox_of (p_heap p r) \<and> w_destroyed w = w_destroyed (p_heap p r)" if "x = Inr w" for w
    using renew_law c that by (fastforce simp: sandbox_of_def)
  ultimately show ?thesis
    using assms by (auto simp: ensure_sandbox_ttl_def Let_def covered_upd covered_backend split: option.split sum.split)
qed

lemma acquire_candidate_covered:
  assumes "covered p"
  shows "covered (fst (acquire_candidate (counted B) cfg now release policy r p))"
proof -
  let ?res = "case ensure_sandbox_ttl (counted B) cfg now policy r p of
      (p', Inl e) \<Rightarrow> (p', Inl e) | (p', Inr _) \<Rightarrow> ensure_release (counted B) release r p'"
  obtain p1 res where r: "?res = (p1, res)" by fastforce
  have "covered (fst ?res)"
    using ensure_sandbox_ttl_covered [OF assms, of cfg now policy r] ensure_release_covered
    by (auto split: prod.split sum.split)
  then have "covered p1" using r by simp
  then show ?thesis
    using r pool_invalidate_covered [of p1 B r]
    by (auto simp: acquire_candidate_def covered_upd sandbox_of_def split: sum.split prod.split)
qed

lemma acquire_create_covered:
  assumes "covered p"
  shows "covered (fst (acquire_create (counted B) cfg now tenant release policy p))"
proof -
  obtain b x where c: "be_create B (fst (p_backend p)) now tenant release policy (c_orphan_ttl cfg) = (b, x)" by fastforce
  have new: "\<not> w_destroyed w" if "x = Inr w" for w using create_tenant c that by blast
  have alloc: "handed_out (p\<lparr>p_backend := b', p_quota := q, p_heap := (p_heap p)(p_next p := w), p_next := Suc (p_next p)\<rparr>) =
      add_mset (sandbox_of w) (handed_out p)" if "\<not> w_destroyed w" for b' q w
  proof -
    let ?p' = "p\<lparr>p_backend := b', p_quota := q, p_heap := (p_heap p)(p_next p := w), p_next := Suc (p_next p)\<rparr>"
    have "live_refs ?p' = insert (p_next p) (live_refs p)" using that by (auto simp: live_refs_iff split: if_splits)
    moreover have "p_next p \<notin> live_refs p" by (simp add: live_refs_iff)
    ultimately show ?thesis by (auto simp: handed_out_def intro!: image_mset_cong)
  qed
  show ?thesis
    using assms c new
    by (auto simp: acquire_create_def ensure_release_rec_def counted_def beside_def Let_def covered_def alloc sandbox_of_def
        split: sum.split prod.split)
qed

lemma pool_acquire_covered:
  assumes "covered p"
  shows "covered (fst (pool_acquire (counted B) cfg now tenant release policy p))"
proof -
  obtain stale candidate rest where a: "acquire_scan cfg now (p_heap p) (rel_id release)
      (rev (get_or [] (dict_get (p_idle p) (pool_key tenant release)))) = (stale, candidate, rest)" by (metis prod_cases3)
  obtain p2 x where d: "destroy_each (counted B) stale (set_bucket (pool_key tenant release) (rev rest) p) = (p2, x)" by fastforce
  with destroy_each_covered [of "set_bucket (pool_key tenant release) (rev rest) p" B stale] assms have "covered p2" by simp
  with a d show ?thesis
    using acquire_candidate_covered [of p2] acquire_create_covered [of p2]
    by (simp add: pool_acquire_def Let_def split: sum.split option.split)
qed

end

lemma pool_release_covered: "covered p \<Longrightarrow> covered (fst (pool_release (counted B) now policy r p))"
  using pool_destroy_covered [of "upd_worker r (\<lambda>w. w\<lparr>w_runs := w_runs w + 1, w_last_used := now\<rparr>) p" B r]
  by (simp add: pool_release_def Let_def covered_upd sandbox_of_def)

lemma pool_reap_covered:
  assumes "covered p"
  shows "covered (fst (pool_reap (counted B) cfg now p))"
proof -
  have "covered (reap_idle cfg now p)" using assms by (simp add: reap_idle_def)
  with destroy_each_covered [of "reap_idle cfg now p" B "reap_stale cfg now p"] show ?thesis
    by (auto simp: pool_reap_def Let_def split: prod.split sum.split)
qed

lemma reset_after_restart_covered: "covered (fst (reset_after_restart (counted B) p))"
  by (auto simp: reset_after_restart_def counted_def beside_def covered_def split: prod.split)

text \<open>So what the provider gave is within the quota.\<close>

lemma size_covered:
  assumes "covered p" "pool_ok H p"
  shows "int (size (snd (p_backend p))) \<le> q_max_live (p_quota p)"
    and "int (size (filter_mset (\<lambda>s. fst s = t) (snd (p_backend p)))) \<le> q_max_tenant (p_quota p)"
proof -
  have "size (snd (p_backend p)) \<le> size (handed_out p)"
    using assms(1) unfolding covered_def by (rule size_mset_mono)
  also have "\<dots> = card (live_refs p)" by (simp add: handed_out_def)
  finally show "int (size (snd (p_backend p))) \<le> q_max_live (p_quota p)" using pool_ok_limits(1) [OF assms(2)] by linarith
  have "size (filter_mset (\<lambda>s. fst s = t) (snd (p_backend p))) \<le> size (filter_mset (\<lambda>s. fst s = t) (handed_out p))"
    using assms(1) unfolding covered_def by (intro size_mset_mono multiset_filter_mono)
  also have "\<dots> = live_of p t"
    by (simp add: handed_out_def filter_mset_image_mset live_of_def sandbox_of_def filter_mset_mset_set)
  finally show "int (size (filter_mset (\<lambda>s. fst s = t) (snd (p_backend p)))) \<le> q_max_tenant (p_quota p)"
    using pool_ok_limits(2) [OF assms(2), of t] by linarith
qed

end
