(* ===== verification/Runner_DB_Facts.thy ===== *)
theory Runner_DB_Facts
  imports Runner_DB
begin

text \<open>
  What the durable state guarantees: the round trip of a stored result; the invariant that ties
  the claims of the idempotency keys to the running executions, preserved by every transaction;
  mutual exclusion per logical request; and the stability of a stored answer until it expires.
\<close>

section \<open>Stored results\<close>

lemma dict_get_jsonb:
  "distinct (map fst d) \<Longrightarrow>
     dict_get (sort_key jsonb_key (map (\<lambda>(k, v). (k, jsonb v)) d)) k = map_option jsonb (dict_get d k)"
proof -
  assume d: "distinct (map fst d)"
  have "map fst (map (\<lambda>(k, v). (k, jsonb v)) d) = map fst d" by auto
  with d show ?thesis by (simp only: dict_get_sort map_of_map) (simp add: map_of_map)
qed

lemma jsonb_str_dict: "jsonb (json_str_dict d) = json_str_dict (sort_key jsonb_key d)"
proof -
  have a: "map (\<lambda>(k, v). (k, jsonb v)) (map (\<lambda>(k, v). (k, JStr v)) d) = map (\<lambda>(k, v). (k, JStr v)) d" by auto
  have b: "sort_key jsonb_key (map (\<lambda>(k, v). (k, JStr v)) d) = map (\<lambda>(k, v). (k, JStr v)) (sort_key jsonb_key d)"
    by (rule sort_key_map) (auto simp: jsonb_key_def)
  show ?thesis unfolding json_str_dict_def jsonb.simps a b ..
qed

lemma stored_result:
  "result_from_dict (jsonb (result_to_dict r)) = Inr (r\<lparr>rr_attributes := sort_key jsonb_key (rr_attributes r)\<rparr>)"
proof -
  define d where "d = [(''status'', JStr (rr_status r)), (''relationship'', JStr (rr_relationship r)),
           (''content_b64'', JStr (b64encode (rr_content r))), (''attributes'', json_str_dict (rr_attributes r)),
           (''retryable'', JBool (rr_retryable r)), (''error_code'', JStr (rr_error_code r)),
           (''error_message'', JStr (rr_error_message r)), (''worker_id'', JStr (rr_worker_id r)),
           (''duration_ms'', JInt (rr_duration_ms r))]"
  define e where "e = sort_key jsonb_key (map (\<lambda>(k, v). (k, jsonb v)) d)"
  have j: "jsonb (result_to_dict r) = JObj e" by (simp only: result_to_dict_def d_def e_def jsonb.simps)
  have "distinct (map fst d)" by (simp add: d_def)
  from dict_get_jsonb [OF this] have g: "dict_get e k = map_option jsonb (dict_get d k)" for k
    by (simp add: e_def)
  have "dict_get e ''attributes'' = Some (json_str_dict (sort_key jsonb_key (rr_attributes r)))"
    unfolding g by (simp add: d_def jsonb_str_dict)
  moreover have "dict_get e ''status'' = Some (JStr (rr_status r))"
    "dict_get e ''relationship'' = Some (JStr (rr_relationship r))"
    "dict_get e ''content_b64'' = Some (JStr (b64encode (rr_content r)))"
    "dict_get e ''retryable'' = Some (JBool (rr_retryable r))"
    "dict_get e ''error_code'' = Some (JStr (rr_error_code r))"
    "dict_get e ''error_message'' = Some (JStr (rr_error_message r))"
    "dict_get e ''worker_id'' = Some (JStr (rr_worker_id r))"
    "dict_get e ''duration_ms'' = Some (JInt (rr_duration_ms r))"
    unfolding g by (simp_all add: d_def)
  ultimately show ?thesis
    unfolding j result_from_dict_def by (simp add: str_item_def b64_roundtrip)
qed

section \<open>The invariant\<close>

type_synonym logical_key = "string \<times> string \<times> string"

definition key_of :: "key_row \<Rightarrow> logical_key" where
  "key_of k = (ik_tenant k, ik_release k, ik_key k)"

definition run_key :: "run_row \<Rightarrow> logical_key" where
  "run_key r = (ru_tenant r, ru_release r, ru_key r)"

definition key_claims :: "key_row list \<Rightarrow> (logical_key \<times> string) set" where
  "key_claims ks = (\<lambda>k. (key_of k, ik_run k)) ` {k \<in> set ks. ik_state k = KRunning}"

definition run_claims :: "run_row list \<Rightarrow> (logical_key \<times> string) set" where
  "run_claims rs = (\<lambda>r. (run_key r, ru_id r)) ` {r \<in> set rs. ru_state r = RRunning}"

definition db_ok :: "runner_db \<Rightarrow> bool" where
  "db_ok db \<longleftrightarrow> distinct (map lr_id (db_leases db)) \<and> distinct (map ru_id (db_runs db)) \<and>
     distinct (map key_of (db_keys db)) \<and> key_claims (db_keys db) = run_claims (db_runs db)"

lemma db_ok_init: "db_ok db_init"
  by (simp add: db_ok_def db_init_def key_claims_def run_claims_def)

lemma at_key_iff: "at_key t r k row \<longleftrightarrow> key_of row = (t, r, k)"
  by (auto simp: at_key_def key_of_def)

lemma run_claims_unique:
  "distinct (map ru_id rs) \<Longrightarrow> (k1, i) \<in> run_claims rs \<Longrightarrow> (k2, i) \<in> run_claims rs \<Longrightarrow> k1 = k2"
  unfolding run_claims_def by (auto dest: inj_onD [of ru_id "set rs"] simp: distinct_map)

lemma key_claims_unique:
  "distinct (map key_of ks) \<Longrightarrow> (k, i1) \<in> key_claims ks \<Longrightarrow> (k, i2) \<in> key_claims ks \<Longrightarrow> i1 = i2"
  unfolding key_claims_def by (auto dest: inj_onD [of key_of "set ks"] simp: distinct_map)

text \<open>Ending the run \<open>i\<close>: an update that takes the rows it selects out of the running state.\<close>

lemma run_claims_snoc: "run_claims (rs @ [r]) =
    (if ru_state r = RRunning then insert (run_key r, ru_id r) (run_claims rs) else run_claims rs)"
  by (auto simp: run_claims_def)

lemma key_claims_snoc: "key_claims (ks @ [k]) =
    (if ik_state k = KRunning then insert (key_of k, ik_run k) (key_claims ks) else key_claims ks)"
  by (auto simp: key_claims_def)

lemma key_claims_Cons: "key_claims (k # ks) =
    (if ik_state k = KRunning then insert (key_of k, ik_run k) (key_claims ks) else key_claims ks)"
  by (auto simp: key_claims_def)

lemma new_run_row_key [simp]: "ru_id (new_run_row i now a) = i" "ru_state (new_run_row i now a) = RRunning"
    "run_key (new_run_row i now a) = (ba_tenant a, ba_release a, ba_key a)"
  by (simp_all add: new_run_row_def run_key_def)

lemma new_key_row_key [simp]: "ik_run (new_key_row i now a) = i" "ik_state (new_key_row i now a) = KRunning"
    "key_of (new_key_row i now a) = (ba_tenant a, ba_release a, ba_key a)"
  by (simp_all add: new_key_row_def key_of_def)

lemma run_claims_end:
  assumes "\<And>r. ru_state (f r) \<noteq> RRunning"
  shows "run_claims (sql_update (\<lambda>r. ru_id r = i \<and> ru_state r = RRunning) f rs)
       = {(k, j) \<in> run_claims rs. j \<noteq> i}"
  using assms by (auto simp: run_claims_def set_sql_update image_iff split: if_splits)

lemma key_claims_end:
  assumes "\<And>k. ik_state (f k) \<noteq> KRunning"
  shows "key_claims (sql_update (\<lambda>k. key_of k = key \<and> ik_run k = i \<and> ik_state k = KRunning) f ks)
       = key_claims ks - {(key, i)}"
  using assms by (auto simp: key_claims_def set_sql_update image_iff split: if_splits) blast+

lemma key_claims_delete:
  "key_claims (sql_delete (\<lambda>k. key_of k = key \<and> ik_run k = i \<and> ik_state k = KRunning) ks)
     = key_claims ks - {(key, i)}"
  by (auto simp: key_claims_def)

lemma key_claims_delete_done:
  "(\<And>k. P k \<Longrightarrow> ik_state k = KDone) \<Longrightarrow> key_claims (sql_delete P ks) = key_claims ks"
  by (auto simp: key_claims_def)

lemma run_claims_delete_ended:
  "(\<And>r. P r \<Longrightarrow> ru_state r \<noteq> RRunning) \<Longrightarrow> run_claims (sql_delete P rs) = run_claims rs"
  by (auto simp: run_claims_def)

lemma claims_minus:
  "distinct (map ru_id rs) \<Longrightarrow> (key, i) \<in> run_claims rs \<or> (\<forall>k. (k, i) \<notin> run_claims rs) \<Longrightarrow>
     {(k, j) \<in> run_claims rs. j \<noteq> i} = run_claims rs - {(key, i)}"
  using run_claims_unique by fast

section \<open>Every transaction preserves it\<close>

lemma create_lease_ok: "create_lease i now t p pr r ttl db = Inr (db', l) \<Longrightarrow> db_ok db \<Longrightarrow> db_ok db'"
  by (auto simp: create_lease_def db_ok_def Let_def sql_insert_Some split: option.splits)

lemma renew_lease_ok: "renew_lease now i t ttl db = Inr (db', l) \<Longrightarrow> db_ok db \<Longrightarrow> db_ok db'"
  by (auto simp: renew_lease_def db_ok_def Let_def map_key_sql_update split: sum.splits)

lemma delete_lease_ok: "delete_lease i t db = Inr db' \<Longrightarrow> db_ok db \<Longrightarrow> db_ok db'"
  by (auto simp: delete_lease_def db_ok_def distinct_key_sql_delete split: option.splits if_splits)

lemma purge_expired_leases_ok: "db_ok db \<Longrightarrow> db_ok (fst (purge_expired_leases now db))"
  by (auto simp: purge_expired_leases_def db_ok_def distinct_key_sql_delete)

lemma abandon_row_id [simp]: "ru_id (abandon_row now c m r) = ru_id r" "ru_state (abandon_row now c m r) = RAbandoned"
  by (simp_all add: abandon_row_def)

lemma finish_row_id [simp]: "ru_id (finish_row now x e r) = ru_id r" "ru_state (finish_row now x e r) = RDone"
  by (simp_all add: finish_row_def)

lemma finish_key_id [simp]: "key_of (finish_key now x e k) = key_of k" "ik_state (finish_key now x e k) = KDone"
  by (simp_all add: finish_key_def key_of_def)

lemma reset_running_ok: "db_ok db \<Longrightarrow> db_ok (fst (reset_running now db))"
  by (auto simp: reset_running_def db_ok_def distinct_key_sql_delete map_key_sql_update key_claims_def
      run_claims_def set_sql_update)

lemma claim_run_row_ok:
  assumes "claim_run_row run_id now a keys db = Inr (db', c)" "db_ok db"
    and "distinct (map key_of keys)"
    and "key_claims keys = insert ((ba_tenant a, ba_release a, ba_key a), run_id) (key_claims (db_keys db))"
  shows "db_ok db' \<and> c = \<lparr>claim_run = Some run_id, claim_cached = None\<rparr> \<and>
    run_claims (db_runs db') = insert ((ba_tenant a, ba_release a, ba_key a), run_id) (run_claims (db_runs db))"
proof -
  from assms(1) have new: "run_id \<notin> ru_id ` set (db_runs db)"
    and db': "db' = db\<lparr>db_runs := db_runs db @ [new_run_row run_id now a], db_keys := keys\<rparr>"
    and c: "c = \<lparr>claim_run = Some run_id, claim_cached = None\<rparr>"
    by (auto simp: claim_run_row_def sql_insert_Some split: option.splits)
  with assms(2-4) show ?thesis unfolding db' by (auto simp: db_ok_def run_claims_snoc)
qed

lemma begin_new_key:
  assumes "\<And>k. k \<in> set ks \<Longrightarrow> key_of k \<noteq> (ba_tenant a, ba_release a, ba_key a)" "distinct (map key_of ks)"
  shows "distinct (map key_of (ks @ [new_key_row i now a]))"
    "key_claims (ks @ [new_key_row i now a]) = insert ((ba_tenant a, ba_release a, ba_key a), i) (key_claims ks)"
proof -
  have "(ba_tenant a, ba_release a, ba_key a) \<notin> key_of ` set ks" using assms(1) by fastforce
  with assms(2) show "distinct (map key_of (ks @ [new_key_row i now a]))" by simp
qed (simp add: key_claims_snoc)

lemma begin_old_key:
  assumes "row \<in> set ks" "key_of row = key" "ik_state row \<noteq> KRunning" "distinct (map key_of ks)"
    and "\<And>k. key_of (f k) = key_of k" "\<And>k. ik_state (f k) = KRunning \<and> ik_run (f k) = i"
  shows "distinct (map key_of (sql_update (\<lambda>k. key_of k = key) f ks))"
    "key_claims (sql_update (\<lambda>k. key_of k = key) f ks) = insert (key, i) (key_claims ks)"
proof -
  show "distinct (map key_of (sql_update (\<lambda>k. key_of k = key) f ks))"
    using assms(4,5) by (simp add: map_key_sql_update)
  have one: "k = row" if "k \<in> set ks" "key_of k = key" for k
    using that assms(1,2,4) by (metis inj_onD distinct_map)
  have "{k \<in> set (sql_update (\<lambda>k. key_of k = key) f ks). ik_state k = KRunning}
      = insert (f row) {k \<in> set ks. ik_state k = KRunning}"
  proof (rule set_eqI)
    fix x
    have "x \<in> set (sql_update (\<lambda>k. key_of k = key) f ks) \<longleftrightarrow>
        x = f row \<or> (x \<in> set ks \<and> key_of x \<noteq> key)"
      unfolding set_sql_update using one assms(1,2) by (metis (no_types, lifting))
    moreover have "x \<in> set ks \<Longrightarrow> key_of x = key \<Longrightarrow> ik_state x \<noteq> KRunning"
      using one assms(3) by blast
    ultimately show "x \<in> {k \<in> set (sql_update (\<lambda>k. key_of k = key) f ks). ik_state k = KRunning} \<longleftrightarrow>
        x \<in> insert (f row) {k \<in> set ks. ik_state k = KRunning}"
      using assms(6) by blast
  qed
  then show "key_claims (sql_update (\<lambda>k. key_of k = key) f ks) = insert (key, i) (key_claims ks)"
    using assms(2,5,6) by (simp add: key_claims_def)
qed

text \<open>What \<open>begin_run\<close> does, case by case.\<close>

lemma begin_run_cases:
  assumes "begin_run run_id now a db = Inr (db', c)" "db_ok db"
  obtains (replay) row cached where "row \<in> set (db_keys db)"
      "key_of row = (ba_tenant a, ba_release a, ba_key a)" "ik_fingerprint row = ba_fingerprint a"
      "cache_valid now row" "result_from_dict (the (ik_result row)) = Inr cached"
      "c = \<lparr>claim_run = None, claim_cached = Some cached\<rparr>"
      "db' = db\<lparr>db_keys := sql_update (\<lambda>k. key_of k = (ba_tenant a, ba_release a, ba_key a))
          (\<lambda>k. k\<lparr>ik_replays := ik_replays k + 1, ik_last_replayed := Some now, ik_updated := now\<rparr>) (db_keys db)\<rparr>"
  | (claim) keys where "claim_run_row run_id now a keys db = Inr (db', c)" "distinct (map key_of keys)"
      "key_claims keys = insert ((ba_tenant a, ba_release a, ba_key a), run_id) (key_claims (db_keys db))"
      "keys = db_keys db @ [new_key_row run_id now a] \<or>
       keys = sql_update (\<lambda>k. key_of k = (ba_tenant a, ba_release a, ba_key a)) (reclaim_row run_id now a) (db_keys db)"
      "(ba_tenant a, ba_release a, ba_key a) \<notin> fst ` key_claims (db_keys db)"
      "\<And>k. k \<in> set (db_keys db) \<Longrightarrow> key_of k = (ba_tenant a, ba_release a, ba_key a) \<Longrightarrow> \<not> cache_valid now k"
proof -
  let ?key = "(ba_tenant a, ba_release a, ba_key a)"
  have d: "distinct (map key_of (db_keys db))" using assms(2) by (simp add: db_ok_def)
  have same: "k = k'" if "k \<in> set (db_keys db)" "k' \<in> set (db_keys db)" "key_of k = key_of k'" for k k'
    using that d by (metis inj_onD distinct_map)
  have here: "at_key (ba_tenant a) (ba_release a) (ba_key a) = (\<lambda>k. key_of k = ?key)"
    by (simp add: fun_eq_iff at_key_iff)
  show thesis
  proof (cases "List.find (\<lambda>k. key_of k = ?key) (db_keys db)")
    case None
    then have no: "key_of k \<noteq> ?key" if "k \<in> set (db_keys db)" for k using that by (auto dest: find_NoneD)
    have "claim_run_row run_id now a (db_keys db @ [new_key_row run_id now a]) db = Inr (db', c)"
      using assms(1) None by (simp add: begin_run_def Let_def here)
    moreover note begin_new_key [of "db_keys db" a run_id now, OF no d]
    ultimately show thesis using no by (intro claim) (auto simp: key_claims_def)
  next
    case (Some row)
    from find_SomeD [OF Some] have row: "row \<in> set (db_keys db)" "key_of row = ?key" by auto
    show thesis
    proof (cases "cache_valid now row")
      case True
      from assms(1) Some True obtain cached where cd: "ik_fingerprint row = ba_fingerprint a"
        "result_from_dict (the (ik_result row)) = Inr cached" "c = \<lparr>claim_run = None, claim_cached = Some cached\<rparr>"
        "db' = db\<lparr>db_keys := sql_update (\<lambda>k. key_of k = ?key) (\<lambda>k. k\<lparr>ik_replays := ik_replays k + 1,
            ik_last_replayed := Some now, ik_updated := now\<rparr>) (db_keys db)\<rparr>"
        by (simp add: begin_run_def Let_def here split: if_splits sum.splits)
      show thesis by (rule replay [OF row cd(1) True cd(2-4)])
    next
      case False
      with assms(1) Some have cl: "claim_run_row run_id now a
          (sql_update (\<lambda>k. key_of k = ?key) (reclaim_row run_id now a) (db_keys db)) db = Inr (db', c)"
        and st: "ik_state row \<noteq> KRunning"
        by (auto simp: begin_run_def Let_def here split: if_splits)
      have f: "key_of (reclaim_row run_id now a k) = key_of k"
        "ik_state (reclaim_row run_id now a k) = KRunning \<and> ik_run (reclaim_row run_id now a k) = run_id" for k
        by (simp_all add: reclaim_row_def key_of_def)
      show thesis
      proof (rule claim [OF cl begin_old_key [OF row st d f]])
        show "?key \<notin> fst ` key_claims (db_keys db)" 
          using row st same unfolding key_claims_def by fastforce
        show "\<not> cache_valid now k" if "k \<in> set (db_keys db)" "key_of k = ?key" for k
          using that same [OF that(1) row(1)] row(2) False by simp
      qed simp
    qed
  qed
qed

lemma begin_run_ok: "begin_run run_id now a db = Inr (db', c) \<Longrightarrow> db_ok db \<Longrightarrow> db_ok db'"
proof (erule begin_run_cases)
  fix keys
  assume "db_ok db" "claim_run_row run_id now a keys db = Inr (db', c)" "distinct (map key_of keys)"
    "key_claims keys = insert ((ba_tenant a, ba_release a, ba_key a), run_id) (key_claims (db_keys db))"
  from claim_run_row_ok [OF this(2,1,3,4)] show "db_ok db'" by blast
next
  assume "db_ok db" and db': "db' = db\<lparr>db_keys := sql_update (\<lambda>k. key_of k = (ba_tenant a, ba_release a, ba_key a))
          (\<lambda>k. k\<lparr>ik_replays := ik_replays k + 1, ik_last_replayed := Some now, ik_updated := now\<rparr>) (db_keys db)\<rparr>"
  moreover have "key_claims (sql_update P (\<lambda>k. k\<lparr>ik_replays := ik_replays k + 1, ik_last_replayed := Some now,
      ik_updated := now\<rparr>) ks) = key_claims ks" for P ks
    by (induction ks) (auto simp: key_claims_Cons sql_update_def key_of_def)
  ultimately show "db_ok db'" by (simp add: db_ok_def map_key_sql_update key_of_def)
qed

lemma at_key_fun: "at_key t r k = (\<lambda>x. key_of x = (t, r, k))"
  by (simp add: fun_eq_iff at_key_iff)

lemma finish_run_effect:
  assumes "finish_run now i key tenant release result ret db = Inr db'" "db_ok db"
  shows "((tenant, release, key), i) \<in> run_claims (db_runs db)"
    "run_claims (db_runs db') = run_claims (db_runs db) - {((tenant, release, key), i)}" "db_ok db'"
proof -
  let ?e = "if rr_retryable result then now else now + 1000 * ret" and ?key = "(tenant, release, key)"
  from assms(1) have cnt: "sql_count (\<lambda>k. key_of k = ?key \<and> ik_run k = i \<and> ik_state k = KRunning) (db_keys db) \<noteq> 0"
    and db': "db' = db\<lparr>
      db_runs := sql_update (\<lambda>r. ru_id r = i \<and> ru_state r = RRunning) (finish_row now result ?e) (db_runs db),
      db_keys := sql_update (\<lambda>k. key_of k = ?key \<and> ik_run k = i \<and> ik_state k = KRunning)
         (finish_key now result ?e) (db_keys db)\<rparr>"
    by (auto simp: finish_run_def Let_def at_key_fun split: if_splits)
  from cnt have k: "(?key, i) \<in> key_claims (db_keys db)"
    unfolding sql_count_pos key_claims_def by force
  with assms(2) show r: "(?key, i) \<in> run_claims (db_runs db)" by (simp add: db_ok_def)
  have d: "distinct (map ru_id (db_runs db))" using assms(2) by (simp add: db_ok_def)
  show "run_claims (db_runs db') = run_claims (db_runs db) - {(?key, i)}"
    unfolding db' using claims_minus [OF d, of ?key i] r by (simp add: run_claims_end)
  with assms(2) show "db_ok db'"
    unfolding db' by (simp add: db_ok_def key_claims_end map_key_sql_update)
qed

lemma abandon_run_effect:
  assumes "db_ok db" "\<And>k. (k, i) \<in> run_claims (db_runs db) \<Longrightarrow> k = (tenant, release, key)"
    and "db' = abandon_run now i key tenant release code message db"
  shows "run_claims (db_runs db') = run_claims (db_runs db) - {((tenant, release, key), i)}" "db_ok db'"
proof -
  let ?key = "(tenant, release, key)"
  have d: "distinct (map ru_id (db_runs db))" using assms(1) by (simp add: db_ok_def)
  have "(?key, i) \<in> run_claims (db_runs db) \<or> (\<forall>k. (k, i) \<notin> run_claims (db_runs db))" using assms(2) by blast
  from claims_minus [OF d this]
  show "run_claims (db_runs db') = run_claims (db_runs db) - {(?key, i)}"
    by (simp add: assms(3) abandon_run_def run_claims_end)
  with assms(1) show "db_ok db'"
    by (simp add: assms(3) abandon_run_def db_ok_def at_key_fun key_claims_delete map_key_sql_update
        distinct_key_sql_delete)
qed

lemma purge_expired_idempotency_ok: "db_ok db \<Longrightarrow> db_ok (fst (purge_expired_idempotency now db))"
proof -
  let ?P = "\<lambda>k. ik_state k = KDone \<and> (case ik_expires k of None \<Rightarrow> False | Some e \<Rightarrow> e \<le> now)"
  have "key_claims (sql_delete ?P ks) = key_claims ks" for ks by (rule key_claims_delete_done) simp
  then show "db_ok db \<Longrightarrow> ?thesis"
    by (simp add: purge_expired_idempotency_def Let_def db_ok_def distinct_key_sql_delete)
qed

lemma purge_old_runs_ok: "db_ok db \<Longrightarrow> db_ok (fst (purge_old_runs now age db))"
proof -
  have "run_claims (sql_delete (\<lambda>r. ru_state r \<noteq> RRunning \<and> Q r) rs) = run_claims rs" for Q rs
    by (rule run_claims_delete_ended) simp
  then show "db_ok db \<Longrightarrow> ?thesis"
    by (simp add: purge_old_runs_def Let_def db_ok_def distinct_key_sql_delete)
qed

section \<open>Transactions as steps\<close>

text \<open>\<open>db_step now db db'\<close>: some transaction of the runner commits at time \<open>now\<close>. A run is
  abandoned by the invocation that claimed it, under its own logical key.\<close>

inductive db_step :: "int \<Rightarrow> runner_db \<Rightarrow> runner_db \<Rightarrow> bool" for now where
  create_lease: "create_lease i now t p pr r ttl db = Inr (db', l) \<Longrightarrow> db_step now db db'"
| renew_lease: "renew_lease now i t ttl db = Inr (db', l) \<Longrightarrow> db_step now db db'"
| delete_lease: "delete_lease i t db = Inr db' \<Longrightarrow> db_step now db db'"
| purge_leases: "db_step now db (fst (purge_expired_leases now db))"
| reset_running: "db_step now db (fst (reset_running now db))"
| begin_run: "begin_run i now a db = Inr (db', c) \<Longrightarrow> db_step now db db'"
| finish_run: "finish_run now i k t r x ret db = Inr db' \<Longrightarrow> db_step now db db'"
| abandon_run: "(\<And>key. (key, i) \<in> run_claims (db_runs db) \<Longrightarrow> key = (t, r, k))
    \<Longrightarrow> db_step now db (abandon_run now i k t r code message db)"
| purge_idempotency: "db_step now db (fst (purge_expired_idempotency now db))"
| purge_runs: "db_step now db (fst (purge_old_runs now age db))"

lemma db_step_ok: "db_step now db db' \<Longrightarrow> db_ok db \<Longrightarrow> db_ok db'"
proof (induction rule: db_step.induct)
  case (finish_run i k t r x ret db db')
  then show ?case using finish_run_effect(3) by blast
next
  case (abandon_run i db t r k code message)
  then show ?case using abandon_run_effect(2) by blast
qed (auto intro: create_lease_ok renew_lease_ok delete_lease_ok purge_expired_leases_ok reset_running_ok
    begin_run_ok purge_expired_idempotency_ok purge_old_runs_ok)

definition db_step_before :: "int \<Rightarrow> runner_db \<Rightarrow> runner_db \<Rightarrow> bool" where
  "db_step_before t db db' \<longleftrightarrow> (\<exists>now < t. db_step now db db')"

definition db_reachable :: "runner_db \<Rightarrow> bool" where
  "db_reachable db \<longleftrightarrow> (\<exists>t. (db_step_before t)\<^sup>*\<^sup>* db_init db)"

lemma db_steps_ok: "(db_step_before t)\<^sup>*\<^sup>* db db' \<Longrightarrow> db_ok db \<Longrightarrow> db_ok db'"
  by (induction rule: rtranclp_induct) (auto simp: db_step_before_def intro: db_step_ok)

lemma db_reachable_ok: "db_reachable db \<Longrightarrow> db_ok db"
  using db_steps_ok db_ok_init unfolding db_reachable_def by blast

lemma running_runs_unique:
  assumes "db_ok db" "r1 \<in> set (db_runs db)" "r2 \<in> set (db_runs db)"
    and "ru_state r1 = RRunning" "ru_state r2 = RRunning" "run_key r1 = run_key r2"
  shows "r1 = r2"
proof -
  have "(run_key r1, ru_id r1) \<in> run_claims (db_runs db)" "(run_key r2, ru_id r2) \<in> run_claims (db_runs db)"
    using assms(2-5) by (auto simp: run_claims_def)
  with assms(1,6) have "ru_id r1 = ru_id r2"
    using key_claims_unique by (metis db_ok_def)
  with assms(1-3) show ?thesis by (metis db_ok_def distinct_map inj_onD)
qed

text \<open>A key row that stays an answer: its fingerprint, result and expiry.\<close>

definition answers :: "runner_db \<Rightarrow> logical_key \<Rightarrow> string \<Rightarrow> json \<Rightarrow> int \<Rightarrow> bool" where
  "answers db key fp result expires \<longleftrightarrow> (\<exists>k \<in> set (db_keys db). key_of k = key \<and> ik_fingerprint k = fp \<and>
     ik_state k = KDone \<and> ik_replayable k \<and> ik_result k = Some result \<and> ik_expires k = Some expires)"

lemma answers_update:
  assumes "answers db key fp res ex" "db_keys db' = sql_update P f (db_keys db)"
    and "\<And>k. k \<in> set (db_keys db) \<Longrightarrow> key_of k = key \<Longrightarrow> ik_state k = KDone \<Longrightarrow> P k \<Longrightarrow>
      key_of (f k) = key \<and> ik_fingerprint (f k) = ik_fingerprint k \<and> ik_state (f k) = KDone \<and>
      ik_replayable (f k) = ik_replayable k \<and> ik_result (f k) = ik_result k \<and> ik_expires (f k) = ik_expires k"
  shows "answers db' key fp res ex"
proof -
  from assms(1) obtain k where k: "k \<in> set (db_keys db)" "key_of k = key" "ik_fingerprint k = fp"
    "ik_state k = KDone" "ik_replayable k" "ik_result k = Some res" "ik_expires k = Some ex"
    by (auto simp: answers_def)
  have "(if P k then f k else k) \<in> set (db_keys db')" using k(1) unfolding assms(2) set_sql_update by blast
  with k assms(3) [OF k(1,2,4)] show ?thesis unfolding answers_def by (metis (full_types))
qed

lemma answers_delete:
  "answers db key fp res ex \<Longrightarrow> db_keys db' = sql_delete P (db_keys db) \<Longrightarrow>
     (\<And>k. ik_state k = KDone \<Longrightarrow> ik_expires k = Some ex \<Longrightarrow> \<not> P k) \<Longrightarrow> answers db' key fp res ex"
  unfolding answers_def by (auto simp del: split_paired_All)

lemma answers_same: "answers db key fp res ex \<Longrightarrow> db_keys db' = db_keys db \<Longrightarrow> answers db' key fp res ex"
  by (simp add: answers_def)

lemma begin_run_answers:
  assumes "begin_run i now a db = Inr (db', c)" "db_ok db" "answers db key fp res ex" "now < ex"
  shows "answers db' key fp res ex"
  using assms(1,2)
proof (cases rule: begin_run_cases)
  case (replay row cached)
  show ?thesis
    by (rule answers_update [OF assms(3), where P = "\<lambda>k. key_of k = (ba_tenant a, ba_release a, ba_key a)"])
      (auto simp: replay(7) key_of_def)
next
  case (claim keys)
  then have db': "db_keys db' = keys"
    by (auto simp: claim_run_row_def split: option.splits)
  from claim(4) show ?thesis
  proof
    assume "keys = db_keys db @ [new_key_row i now a]"
    with assms(3) db' show ?thesis by (auto simp: answers_def)
  next
    assume u: "keys = sql_update (\<lambda>k. key_of k = (ba_tenant a, ba_release a, ba_key a))
        (reclaim_row i now a) (db_keys db)"
    from assms(3) obtain k where k: "k \<in> set (db_keys db)" "key_of k = key" "cache_valid now k"
      using assms(4) by (auto simp: answers_def cache_valid_def)
    have "key \<noteq> (ba_tenant a, ba_release a, ba_key a)"
      using claim(6) [OF k(1)] k(2,3) by blast
    then show ?thesis by (intro answers_update [OF assms(3) db' [unfolded u]]) auto
  qed
qed

lemma db_step_answers:
  assumes "db_step now db db'" "db_ok db" "answers db key fp res ex" "now < ex"
  shows "answers db' key fp res ex"
  using assms(1)
proof cases
  case (begin_run i a c)
  from begin_run_answers [OF this assms(2-4)] show ?thesis .
next
  case (finish_run i k t r x ret)
  show ?thesis
    by (rule answers_update [OF assms(3), where
          P = "\<lambda>x. at_key t r k x \<and> ik_run x = i \<and> ik_state x = KRunning" and
          f = "finish_key now x (if rr_retryable x then now else now + 1000 * ret)"])
      (use finish_run in \<open>auto simp: finish_run_def Let_def split: if_splits\<close>)
next
  case (abandon_run i t r k code message)
  show ?thesis
    by (rule answers_delete [OF assms(3), where
          P = "\<lambda>x. at_key t r k x \<and> ik_run x = i \<and> ik_state x = KRunning"])
      (auto simp: abandon_run abandon_run_def)
next
  case reset_running
  show ?thesis by (rule answers_delete [OF assms(3), where P = "\<lambda>k. ik_state k = KRunning"])
      (auto simp: reset_running reset_running_def)
next
  case purge_idempotency
  show ?thesis
    by (rule answers_delete [OF assms(3), where
          P = "\<lambda>k. ik_state k = KDone \<and> (case ik_expires k of None \<Rightarrow> False | Some e \<Rightarrow> e \<le> now)"])
      (use assms(4) in \<open>auto simp: purge_idempotency purge_expired_idempotency_def Let_def\<close>)
qed (rule answers_same [OF assms(3)];
  auto simp: create_lease_def renew_lease_def delete_lease_def purge_expired_leases_def purge_old_runs_def Let_def
    split: option.splits sum.splits if_splits)+

lemma db_steps_answers:
  "(db_step_before ex)\<^sup>*\<^sup>* db db' \<Longrightarrow> db_ok db \<Longrightarrow> answers db key fp res ex \<Longrightarrow> answers db' key fp res ex"
proof (induction rule: rtranclp_induct)
  case (step y z)
  from step.hyps(2) obtain now where "now < ex" "db_step now y z" by (auto simp: db_step_before_def)
  then show ?case using db_step_answers [OF _ db_steps_ok [OF step.hyps(1) step.prems(1)] step.IH [OF step.prems]] by blast
qed simp

lemma begin_run_answered:
  assumes "db_ok db" "answers db (ba_tenant a, ba_release a, ba_key a) fp (jsonb (result_to_dict x)) ex" "now < ex"
  shows "if ba_fingerprint a = fp
     then \<exists>db'. begin_run i now a db = Inr (db', \<lparr>claim_run = None,
            claim_cached = Some (x\<lparr>rr_attributes := sort_key jsonb_key (rr_attributes x)\<rparr>)\<rparr>)
     else \<exists>e. begin_run i now a db = Inl e \<and> exn_code e = ''IDEMPOTENCY_CONFLICT''"
proof -
  from assms(2) obtain k where k: "k \<in> set (db_keys db)" "key_of k = (ba_tenant a, ba_release a, ba_key a)"
    "ik_fingerprint k = fp" "ik_state k = KDone" "ik_replayable k"
    "ik_result k = Some (jsonb (result_to_dict x))" "ik_expires k = Some ex"
    by (auto simp: answers_def)
  have "List.find (\<lambda>k. key_of k = (ba_tenant a, ba_release a, ba_key a)) (db_keys db) = Some k"
    using assms(1) k(1,2) by (intro find_unique [where key = key_of]) (auto simp: db_ok_def)
  with k assms(3) show ?thesis
    by (auto simp: begin_run_def at_key_fun cache_valid_def stored_result)
qed

lemma finish_run_answers:
  assumes "finish_run now i key tenant release x ret db = Inr db'" "db_ok db" "\<not> rr_retryable x"
  shows "\<exists>fp. answers db' (tenant, release, key) fp (jsonb (result_to_dict x)) (now + 1000 * ret) \<and>
     (\<exists>k \<in> set (db_keys db). key_of k = (tenant, release, key) \<and> ik_fingerprint k = fp)"
proof -
  let ?P = "\<lambda>k. key_of k = (tenant, release, key) \<and> ik_run k = i \<and> ik_state k = KRunning"
  from assms(1,3) have cnt: "sql_count ?P (db_keys db) \<noteq> 0"
    and keys: "db_keys db' = sql_update ?P (finish_key now x (now + 1000 * ret)) (db_keys db)"
    by (auto simp: finish_run_def Let_def at_key_fun split: if_splits)
  from cnt obtain k where k: "k \<in> set (db_keys db)" "?P k" unfolding sql_count_pos by blast
  then have "finish_key now x (now + 1000 * ret) k \<in> set (db_keys db')"
    unfolding keys set_sql_update by (intro bexI [of _ k]) auto
  then have "answers db' (tenant, release, key) (ik_fingerprint k) (jsonb (result_to_dict x)) (now + 1000 * ret)"
    unfolding answers_def using k(2) assms(3)
    by (intro bexI [of _ "finish_key now x (now + 1000 * ret) k"]) (auto simp: finish_key_def key_of_def)
  with k show ?thesis by blast
qed

section \<open>Theorems\<close>

text \<open>In every reachable state of the database at most one execution runs per tenant, release and
  idempotency key, and exactly the running executions hold a claim.\<close>

theorem one_running_execution:
  assumes "db_reachable db" "r1 \<in> set (db_runs db)" "r2 \<in> set (db_runs db)"
    and "ru_state r1 = RRunning" "ru_state r2 = RRunning" "run_key r1 = run_key r2"
  shows "r1 = r2 \<and> (\<exists>k \<in> set (db_keys db). key_of k = run_key r1 \<and> ik_state k = KRunning \<and> ik_run k = ru_id r1)"
proof -
  from db_reachable_ok [OF assms(1)] have ok: "db_ok db" .
  have "(run_key r1, ru_id r1) \<in> key_claims (db_keys db)"
    using ok assms(2,4) by (auto simp: db_ok_def run_claims_def)
  with running_runs_unique [OF ok assms(2-6)] show ?thesis by (auto simp: key_claims_def)
qed

text \<open>C3: Exactly-once answers: after an execution finished with a final result, every later request
  with the same key and the same content gets that result back (attributes in storage order), and
  one with other content is refused, whatever other transactions commit in between, until the
  retention time is over.\<close>

theorem replay_until_expiry:
  assumes "db_reachable db" "finish_run now run_id key tenant release x retention db = Inr db1"
    and "\<not> rr_retryable x" "(db_step_before (now + 1000 * retention))\<^sup>*\<^sup>* db1 db2"
    and "ba_tenant a = tenant" "ba_release a = release" "ba_key a = key" "later < now + 1000 * retention"
  shows "\<exists>fp. (\<exists>k \<in> set (db_keys db). key_of k = (tenant, release, key) \<and> ik_fingerprint k = fp) \<and>
    (if ba_fingerprint a = fp
     then \<exists>db3. begin_run i later a db2 = Inr (db3, \<lparr>claim_run = None,
            claim_cached = Some (x\<lparr>rr_attributes := sort_key jsonb_key (rr_attributes x)\<rparr>)\<rparr>)
     else \<exists>e. begin_run i later a db2 = Inl e \<and> exn_code e = ''IDEMPOTENCY_CONFLICT'')"
proof -
  from db_reachable_ok [OF assms(1)] have ok: "db_ok db" .
  from finish_run_effect(3) [OF assms(2) ok] have ok1: "db_ok db1" .
  from finish_run_answers [OF assms(2) ok assms(3)] obtain fp where
    fp: "answers db1 (tenant, release, key) fp (jsonb (result_to_dict x)) (now + 1000 * retention)"
    "\<exists>k \<in> set (db_keys db). key_of k = (tenant, release, key) \<and> ik_fingerprint k = fp" by blast
  from db_steps_answers [OF assms(4) ok1 fp(1)] assms(5-7)
  have "answers db2 (ba_tenant a, ba_release a, ba_key a) fp (jsonb (result_to_dict x)) (now + 1000 * retention)"
    by simp
  from begin_run_answered [OF db_steps_ok [OF assms(4) ok1] this assms(8), of i] fp(2) show ?thesis by blast
qed

text \<open>A result that was stored and read back is the same result; only the order in which its
  attributes are listed is the database's.\<close>

theorem result_store_roundtrip:
  "result_from_dict (jsonb (result_to_dict r)) = Inr (r\<lparr>rr_attributes := sort_key jsonb_key (rr_attributes r)\<rparr>) \<and>
   set (sort_key jsonb_key (rr_attributes r)) = set (rr_attributes r) \<and>
   length (sort_key jsonb_key (rr_attributes r)) = length (rr_attributes r)"
  by (simp add: stored_result)

end
