(* ===== verification/Local_Backend.thy ===== *)
theory Local_Backend
  imports Runner_Model Agent
begin

text \<open>
  \<open>LocalBackend\<close> (\<open>sandbox/local.py\<close>): one agent per worker in the same process. Its state is
  the worker table and the sequence number. Fresh tokens, temporary directories, the artifact files
  and the behaviour of the started processes are parameters. The operations form a provider of
  the theory Runner_Model, and the interpretation at the end discharges its contract.
\<close>

record local_env =
  lv_token :: "nat \<Rightarrow> string"
  lv_agent :: "nat \<Rightarrow> agent_env"
  lv_fs :: "nat \<Rightarrow> fs"
  lv_read :: "string \<Rightarrow> exn + bytes"
  lv_observe :: "run_plan \<Rightarrow> observation"

record local_backend =
  lb_workers :: "(string, agent_env \<times> agent) dict"
  lb_sequence :: nat

definition local_init :: local_backend where
  "local_init = \<lparr>lb_workers = [], lb_sequence = 0\<rparr>"

definition local_create ::
  "local_env \<Rightarrow> local_backend \<Rightarrow> int \<Rightarrow> string \<Rightarrow> operator_release \<Rightarrow> security_policy \<Rightarrow> int
     \<Rightarrow> local_backend \<times> (exn + worker)" where
  "local_create L b now tenant release policy ttl =
     (let n = lb_sequence b + 1;
          worker_id = ''local-'' @ nat_str n;
          token = lv_token L n;
          state = (lv_agent L n)\<lparr>ae_token := token, ae_child_nproc := 0, ae_child_nofile := 256\<rparr>
      in (\<lparr>lb_workers = dict_set worker_id (state, agent_init (lv_fs L n)) (lb_workers b), lb_sequence = n\<rparr>,
          Inr \<lparr>w_id = worker_id, w_endpoint = ''local://agent-state'', w_token = token,
               w_tenant = tenant, w_runtime = rt_id (rel_runtime release), w_profile = rel_profile release,
               w_group = ''local'', w_created = now, w_last_used = now, w_installed = [],
               w_expires = Some (now + 1000 * ttl), w_runs = 0, w_healthy = True, w_destroyed = False,
               w_headers = []\<rparr>))"

definition local_renew ::
  "local_backend \<Rightarrow> int \<Rightarrow> worker \<Rightarrow> int \<Rightarrow> local_backend \<times> (exn + worker)" where
  "local_renew b now w ttl = (b, Inr (w\<lparr>w_expires := Some (now + 1000 * ttl)\<rparr>))"

definition bootstrap_payload :: "operator_release \<Rightarrow> bytes \<Rightarrow> (string, json) dict" where
  "bootstrap_payload release artifact =
     [(''release_id'', JStr (rel_id release)),
      (''artifact_sha256'', JStr (rel_artifact_sha256 release)),
      (''artifact_b64'', JStr (b64encode artifact))]"

definition local_install ::
  "local_env \<Rightarrow> local_backend \<Rightarrow> worker \<Rightarrow> operator_release \<Rightarrow> local_backend \<times> (exn + unit)" where
  "local_install L b w release =
     (case dict_get (lb_workers b) (w_id w) of
        None \<Rightarrow> (b, Inl (key_error (w_id w)))
      | Some (A, state) \<Rightarrow>
     (case lv_read L (rel_artifact_path release) of
        Inl e \<Rightarrow> (b, Inl e)
      | Inr artifact \<Rightarrow>
     (case bootstrap A (bootstrap_payload release artifact) state of
        (state', res) \<Rightarrow>
          (b\<lparr>lb_workers := dict_set (w_id w) (A, state') (lb_workers b)\<rparr>,
           (case res of Inl e \<Rightarrow> Inl e | Inr _ \<Rightarrow> Inr ())))))"

definition run_payload :: "operator_release \<Rightarrow> run_request \<Rightarrow> int \<Rightarrow> (string, json) dict" where
  "run_payload release request timeout_ms =
     [(''release_id'', JStr (rel_id release)),
      (''invocation_id'', JStr (rq_invocation request)),
      (''content_b64'', JStr (b64encode (rq_content request))),
      (''attributes'', json_str_dict (rq_attributes request)),
      (''parameters'', json_str_dict (rq_parameters request)),
      (''timeout_ms'', JInt timeout_ms),
      (''max_output_bytes'', JInt 8388608),
      (''max_attributes'', JInt 128),
      (''max_attribute_bytes'', JInt 65536)]"

text \<open>\<open>RunResult(...)\<close> of the agent's answer.\<close>

definition result_of_response :: "string \<Rightarrow> agent_result \<Rightarrow> exn + run_result" where
  "result_of_response worker_id r =
     (case b64decode (cr_content_b64 r) of
        None \<Rightarrow> Inl (PyError ''binascii.Error'' ''invalid base64'')
      | Some content \<Rightarrow>
          Inr \<lparr>rr_status = cr_status r, rr_relationship = cr_relationship r, rr_content = content,
               rr_attributes = cr_attributes r, rr_retryable = cr_retryable r,
               rr_error_code = cr_error_code r, rr_error_message = cr_error_message r,
               rr_worker_id = worker_id, rr_duration_ms = ar_duration_ms r\<rparr>)"

definition local_run ::
  "local_env \<Rightarrow> local_backend \<Rightarrow> worker \<Rightarrow> operator_release \<Rightarrow> run_request \<Rightarrow> int
     \<Rightarrow> local_backend \<times> (exn + run_result)" where
  "local_run L b w release request timeout_ms =
     (case dict_get (lb_workers b) (w_id w) of
        None \<Rightarrow> (b, Inl (key_error (w_id w)))
      | Some (A, state) \<Rightarrow>
     (case run A (lv_observe L) [] (run_payload release request timeout_ms) state of
        (state', res) \<Rightarrow>
          (b\<lparr>lb_workers := dict_set (w_id w) (A, state') (lb_workers b)\<rparr>,
           (case res of Inl e \<Rightarrow> Inl e | Inr r \<Rightarrow> result_of_response (w_id w) r))))"

definition local_cancel ::
  "local_backend \<Rightarrow> worker \<Rightarrow> string \<Rightarrow> local_backend \<times> (exn + bool)" where
  "local_cancel b w invocation_id =
     (case dict_get (lb_workers b) (w_id w) of
        None \<Rightarrow> (b, Inl (key_error (w_id w)))
      | Some (A, state) \<Rightarrow>
     (case cancel A [(''invocation_id'', JStr invocation_id)] state of
        (state', res) \<Rightarrow>
          (b\<lparr>lb_workers := dict_set (w_id w) (A, state') (lb_workers b)\<rparr>,
           (case res of
              Inl e \<Rightarrow> Inl e
            | Inr (JObj d) \<Rightarrow> Inr (truthy (dict_get_or d ''cancelled'' (JBool False)))
            | Inr _ \<Rightarrow> Inl (PyError ''AttributeError'' ''get'')))))"

definition local_destroy :: "local_backend \<Rightarrow> worker \<Rightarrow> local_backend \<times> (exn + unit)" where
  "local_destroy b w = (b\<lparr>lb_workers := dict_pop (w_id w) (lb_workers b)\<rparr>, Inr ())"

definition local_cleanup :: "local_backend \<Rightarrow> local_backend \<times> (exn + nat)" where
  "local_cleanup b = (b\<lparr>lb_workers := []\<rparr>, Inr (length (lb_workers b)))"

definition local_provider :: "local_env \<Rightarrow> local_backend backend" where
  "local_provider L =
     \<lparr>be_create = local_create L, be_renew = local_renew, be_install = local_install L,
      be_run = local_run L, be_cancel = local_cancel, be_destroy = local_destroy,
      be_cleanup = local_cleanup\<rparr>"

section \<open>The provider's contract\<close>

lemma local_create_law:
  "local_create L b now tenant release policy ttl = (b', Inr w) \<Longrightarrow>
     created_for tenant release (now + 1000 * ttl) w"
  by (auto simp: local_create_def Let_def created_for_def)

interpretation local_sandbox: sandbox_backend "local_provider L" for L
  by unfold_locales (auto simp: local_provider_def local_renew_def intro: local_create_law)

section \<open>Runs\<close>

text \<open>Every agent of the table is between runs.\<close>

definition agents_idle :: "local_backend \<Rightarrow> bool" where
  "agents_idle b \<longleftrightarrow> (\<forall>(i, A, S) \<in> set (lb_workers b). agent_ok S \<and> agt_run S = None)"

lemma agents_idle_get: "agents_idle b \<Longrightarrow> dict_get (lb_workers b) i = Some (A, S) \<Longrightarrow> agent_ok S \<and> agt_run S = None"
  by (force simp: agents_idle_def dest: map_of_SomeD)

lemma agents_idle_set:
  "agents_idle b \<Longrightarrow> agent_ok S \<and> agt_run S = None \<Longrightarrow>
     agents_idle (b\<lparr>lb_workers := dict_set i (A, S) (lb_workers b)\<rparr>)"
  unfolding agents_idle_def by (auto dest!: subsetD [OF set_dict_set_subset])

lemma result_of_response_fields:
  "agent_result_ok plan r \<Longrightarrow> \<exists>x. result_of_response i r = Inr x \<and>
     rr_worker_id x = i \<and> rr_status x = cr_status r \<and> length (rr_content x) \<le> rp_max_output plan"
  by (auto simp: agent_result_ok_def result_of_response_def)

lemma run_payload_limits:
  "read_limits A (run_payload release request t) =
     Inr \<lparr>rl_timeout_ms = nat (max 1 t), rl_max_output = 8388608, rl_max_attributes = 128,
          rl_max_attribute_bytes = 65536\<rparr>"
  by (simp add: read_limits_def int_arg_def run_payload_def)

text \<open>A local run leaves every agent free again, names its worker, and its content and
  attributes are within the limits the engine asked for, whatever the user's process did.\<close>

theorem local_run_bounded:
  assumes "agents_idle b" "local_run L b w release request t = (b', r)"
  shows "agents_idle b' \<and> (\<forall>x. r = Inr x \<longrightarrow> rr_worker_id x = w_id w \<and>
     rr_status x \<in> {''SUCCEEDED'', ''FAILED''} \<and> length (rr_content x) \<le> 8388608 \<and>
     length (rr_attributes x) \<le> 128 \<and> attribute_bytes (rr_attributes x) \<le> 65536)"
proof (cases "dict_get (lb_workers b) (w_id w)")
  case None
  with assms show ?thesis by (auto simp: local_run_def)
next
  case (Some AS)
  obtain A S where AS: "AS = (A, S)" by (cases AS)
  note idle = agents_idle_get [OF assms(1) Some [unfolded AS]]
  obtain S' res where rn: "run A (lv_observe L) [] (run_payload release request t) S = (S', res)" by fastforce
  note gate = run_gate_ok [OF idle [THEN conjunct1] idle [THEN conjunct2] rn]
  have b': "b' = b\<lparr>lb_workers := dict_set (w_id w) (A, S') (lb_workers b)\<rparr>"
    and r: "r = (case res of Inl e \<Rightarrow> Inl e | Inr y \<Rightarrow> result_of_response (w_id w) y)"
    using assms(2) Some AS rn by (simp_all add: local_run_def)
  have "agents_idle b'" unfolding b' using gate by (intro agents_idle_set [OF assms(1)]) auto
  moreover have "rr_worker_id x = w_id w \<and> rr_status x \<in> {''SUCCEEDED'', ''FAILED''} \<and>
     length (rr_content x) \<le> 8388608 \<and> length (rr_attributes x) \<le> 128 \<and>
     attribute_bytes (rr_attributes x) \<le> 65536" if x: "r = Inr x" for x
  proof -
    from x r obtain y where y: "res = Inr y" "result_of_response (w_id w) y = Inr x"
      by (auto split: sum.splits)
    with gate obtain plan where plan: "agent_result_ok plan y"
      "run_prepare A (id_text A (run_payload release request t) (''legacy-'' @ [])) (run_payload release request t)
         (S\<lparr>agt_gate := True\<rparr>) = Inr plan" by blast
    from run_prepare_limits [OF plan(2)] have "rp_max_output plan = 8388608 \<and>
      rp_max_attributes plan = 128 \<and> rp_max_attribute_bytes plan = 65536"
      by (auto simp: run_payload_limits)
    with plan(1) y(2) show ?thesis by (auto simp: agent_result_ok_def result_of_response_def)
  qed
  ultimately show ?thesis by blast
qed

end
