(* ===== verification/Open_Sandbox.thy ===== *)
theory Open_Sandbox
  imports Local_Backend
begin

text \<open>
  \<open>OpenSandboxBackend\<close> (\<open>sandbox/opensandbox.py\<close>) and the agent's HTTP client
  (\<open>worker/http_api.py\<close>). The OpenSandbox control plane and the agents behind it are one
  external service: a state of type \<open>'s\<close> and two transition functions that also say how many
  milliseconds a call took. The clock is the operation's start plus the time spent; a poll sleeps
  200 ms, so both waiting loops end. SHA-256 and fresh tokens are parameters. The agent's JSON
  answers are assumed to carry the field types the agent sends.
\<close>

section \<open>The external service\<close>

datatype http_outcome =
    HttpOk json
  | HttpStatus nat string
  | HttpDown string
  | HttpRaised exn

record http_call =
  hc_method :: string
  hc_url :: string
  hc_headers :: "(string, string) dict"
  hc_payload :: "json option"

record cluster =
  cl_url :: string
  cl_api_key :: "string option"

record 's os_env =
  os_clusters :: "(string, cluster) dict"
  os_owner :: string
  os_port :: nat
  os_sha256 :: "string \<Rightarrow> string"
  os_token :: "'s \<Rightarrow> string"
  os_isoformat :: "int \<Rightarrow> string"
  os_str :: "json \<Rightarrow> string"
  os_read :: "string \<Rightarrow> exn + bytes"
  os_http :: "'s \<Rightarrow> http_call \<Rightarrow> 's \<times> nat \<times> http_outcome"

definition MANAGED_BY :: string where "MANAGED_BY = ''managed-python-runner-v3.3''"
definition SANDBOX_READY_WAIT_MS :: int where "SANDBOX_READY_WAIT_MS = 60000"
definition AGENT_READY_WAIT_MS :: int where "AGENT_READY_WAIT_MS = 20000"
definition POLL_MS :: int where "POLL_MS = 200"

section \<open>Text helpers\<close>

definition url_safe :: "char \<Rightarrow> bool" where
  "url_safe c \<longleftrightarrow> c \<in> set ''ABCDEFGHIJKLMNOPQRSTUVWXYZabcdefghijklmnopqrstuvwxyz0123456789_.-~/''"

definition hex_digit :: "nat \<Rightarrow> char" where
  "hex_digit n = ''0123456789ABCDEF'' ! n"

definition quote :: "string \<Rightarrow> string" where
  "quote s = concat (map (\<lambda>c. if url_safe c then [c]
     else [CHR ''%'', hex_digit (of_char c div 16), hex_digit (of_char c mod 16)]) s)"

definition upper_char :: "char \<Rightarrow> char" where
  "upper_char c = (let n = of_char c :: nat in if 97 \<le> n \<and> n \<le> 122 then char_of (n - 32) else c)"

definition upper :: "string \<Rightarrow> string" where
  "upper s = map upper_char s"

definition rstrip_slash :: "string \<Rightarrow> string" where
  "rstrip_slash s = rev (dropWhile (\<lambda>c. c = CHR ''/'') (rev s))"

section \<open>The agent's HTTP client (\<open>http_api.py\<close>)\<close>

definition agent_call ::
  "'s os_env \<Rightarrow> 's \<Rightarrow> string \<Rightarrow> string \<Rightarrow> string \<Rightarrow> json option \<Rightarrow> (string, string) dict
     \<Rightarrow> 's \<times> nat \<times> (exn + json)" where
  "agent_call K s endpoint token p payload extra_headers =
     (let headers = [(''X-Runner-Agent-Token'', token)];
          headers = (if payload \<noteq> None then dict_set ''Content-Type'' ''application/json'' headers else headers);
          headers = AList.updates (map fst extra_headers) (map snd extra_headers) headers
      in case os_http K s \<lparr>hc_method = (if payload = None then ''GET'' else ''POST''),
                           hc_url = rstrip_slash endpoint @ p, hc_headers = headers, hc_payload = payload\<rparr> of
           (s', t, HttpOk j) \<Rightarrow> (s', t, Inr j)
         | (s', t, HttpStatus n detail) \<Rightarrow>
             (s', t, Inl (PyError ''RuntimeError'' (''worker HTTP '' @ nat_str n @ '': '' @ detail)))
         | (s', t, HttpDown m) \<Rightarrow> (s', t, Inl (PyError ''URLError'' m))
         | (s', t, HttpRaised e) \<Rightarrow> (s', t, Inl e))"

section \<open>Control-plane requests\<close>

definition os_request ::
  "'s os_env \<Rightarrow> 's \<Rightarrow> string \<Rightarrow> string \<Rightarrow> string \<Rightarrow> json option \<Rightarrow> 's \<times> nat \<times> (exn + json)" where
  "os_request K s cluster method p payload =
     (case dict_get (os_clusters K) cluster of
        None \<Rightarrow> (s, 0, Inl (RunnerError ''UNKNOWN_SANDBOX_CLUSTER''
                   (''no OpenSandbox cluster named '' @ cluster) False))
      | Some config \<Rightarrow>
          (let headers = [(''Accept'', ''application/json'')];
               headers = (if payload \<noteq> None then dict_set ''Content-Type'' ''application/json'' headers else headers);
               headers = (case cl_api_key config of
                            Some k \<Rightarrow> if k \<noteq> [] then dict_set ''OPEN-SANDBOX-API-KEY'' k headers else headers
                          | None \<Rightarrow> headers)
           in case os_http K s \<lparr>hc_method = method, hc_url = rstrip_slash (cl_url config) @ p,
                                hc_headers = headers, hc_payload = payload\<rparr> of
                (s', t, HttpOk j) \<Rightarrow> (s', t, Inr j)
              | (s', t, HttpStatus n detail) \<Rightarrow>
                  (s', t, Inl (RunnerError ''OPENSANDBOX_HTTP''
                     (method @ '' '' @ p @ '': HTTP '' @ nat_str n @ '': '' @ detail) True))
              | (s', t, HttpDown m) \<Rightarrow>
                  (s', t, Inl (RunnerError ''OPENSANDBOX_UNREACHABLE'' (method @ '' '' @ p @ '': '' @ m) True))
              | (s', t, HttpRaised e) \<Rightarrow> (s', t, Inl e)))"

definition get_field :: "json \<Rightarrow> string \<Rightarrow> json" where
  "get_field j k = (case j of JObj d \<Rightarrow> dict_get_or d k JNull | _ \<Rightarrow> JNull)"

definition is_obj :: "json \<Rightarrow> bool" where
  "is_obj j = (case j of JObj _ \<Rightarrow> True | _ \<Rightarrow> False)"

definition attribute_error :: exn where
  "attribute_error = PyError ''AttributeError'' ''get''"

definition text_of :: "'s os_env \<Rightarrow> json \<Rightarrow> string" where
  "text_of K j = (case j of JStr s \<Rightarrow> s | _ \<Rightarrow> os_str K j)"

lemma size_get_field: "get_field j k \<noteq> JNull \<Longrightarrow> size (get_field j k) < size j"
proof -
  have "size v < Suc (size_list (size_prod (\<lambda>_. 0) size) d)" if "dict_get d k = Some v" for v d
  proof -
    have "(k, v) \<in> set d" using that by (rule map_of_SomeD)
    then have "size_prod (\<lambda>_. 0) size (k, v) \<le> size_list (size_prod (\<lambda>_. 0) size) d"
      by (rule size_list_estimation') simp
    then show ?thesis by simp
  qed
  then show "get_field j k \<noteq> JNull \<Longrightarrow> ?thesis"
    unfolding get_field_def by (cases j) (auto simp: dict_get_or_def get_or_def split: option.splits)
qed

function sandbox_id :: "'s os_env \<Rightarrow> json \<Rightarrow> exn + string" where
  "sandbox_id K v =
     (if \<not> is_obj v then Inl attribute_error
      else case find (\<lambda>k. truthy (get_field v k)) [''id'', ''sandboxId'', ''sandbox_id''] of
        Some k \<Rightarrow> Inr (text_of K (get_field v k))
      | None \<Rightarrow>
          if is_obj (get_field v ''sandbox'') then sandbox_id K (get_field v ''sandbox'')
          else Inl (RunnerError ''OPENSANDBOX_PROTOCOL'' ''create response did not contain a sandbox id'' False))"
  by auto
termination
  by (relation "measure (\<lambda>(K, v). size v)") (auto intro: size_get_field simp: is_obj_def)

declare sandbox_id.simps [simp del]

definition sandbox_state :: "'s os_env \<Rightarrow> json \<Rightarrow> string" where
  "sandbox_state K v =
     (let status = get_field v ''status'' in
      if is_obj status \<and> truthy (get_field status ''state'')
      then upper (text_of K (get_field status ''state''))
      else (case status of
              JStr s \<Rightarrow> upper s
            | _ \<Rightarrow> if truthy (get_field v ''state'') then upper (text_of K (get_field v ''state'')) else []))"

definition label_hash :: "'s os_env \<Rightarrow> string \<Rightarrow> string" where
  "label_hash K v = take 32 (os_sha256 K v)"

section \<open>Creating a sandbox\<close>

definition create_payload ::
  "'s os_env \<Rightarrow> string \<Rightarrow> string \<Rightarrow> operator_release \<Rightarrow> security_policy \<Rightarrow> int \<Rightarrow> json" where
  "create_payload K token tenant release policy ttl =
     JObj [(''image'', JObj [(''uri'', JStr (rt_image (rel_runtime release)))]),
           (''timeout'', JInt ttl),
           (''resourceLimits'', JObj [(''cpu'', JStr (pol_cpu policy)), (''memory'', JStr (pol_memory policy))]),
           (''env'', JObj [(''RUNNER_AGENT_TOKEN'', JStr token),
                          (''RUNNER_AGENT_PORT'', JStr (nat_str (os_port K))),
                          (''RUNNER_RELEASES_ROOT'', JStr ''/opt/runner/releases''),
                          (''RUNNER_INVOCATIONS_ROOT'', JStr ''/opt/runner/invocations''),
                          (''RUNNER_DEPENDENCY_ROOT'', JStr ''/opt/python-deps'')]),
           (''entrypoint'', JList [JStr ''python'', JStr ''-m'', JStr ''runner_engine.worker.agent'',
                                  JStr ''--listen'', JStr ''0.0.0.0'', JStr ''--port'', JStr (nat_str (os_port K))]),
           (''metadata'', JObj [(''managed-by'', JStr MANAGED_BY),
                               (''runner-owner'', JStr (label_hash K (os_owner K))),
                               (''tenant'', JStr (label_hash K tenant)),
                               (''runtime'', JStr (take 32 (rt_id (rel_runtime release)))),
                               (''profile'', JStr (label_hash K (rel_profile release)))])]"

definition sandbox_path :: "string \<Rightarrow> string" where
  "sandbox_path i = ''/v1/sandboxes/'' @ quote i"

text \<open>\<open>while time.monotonic() < ready_deadline\<close>: the service, the clock after the loop and the
  outcome.\<close>

function wait_running ::
  "'s os_env \<Rightarrow> string \<Rightarrow> string \<Rightarrow> int \<Rightarrow> int \<Rightarrow> 's \<Rightarrow> 's \<times> int \<times> (exn + unit)" where
  "wait_running K cluster i deadline now s =
     (if now \<ge> deadline
      then (s, now, Inl (RunnerError ''SANDBOX_START_TIMEOUT'' ''sandbox did not become ready'' True))
      else (case os_request K s cluster ''GET'' (sandbox_path i) None of
              (s', t, Inl e) \<Rightarrow> (s', now + int t, Inl e)
            | (s', t, Inr status) \<Rightarrow>
                if \<not> is_obj status then (s', now + int t, Inl attribute_error)
                else (let state = sandbox_state K status in
                  if state \<in> {''RUNNING'', ''READY'', ''STARTED''} then (s', now + int t, Inr ())
                  else if state \<in> {''FAILED'', ''STOPPED'', ''ERROR'', ''TERMINATED''}
                  then (s', now + int t, Inl (RunnerError ''SANDBOX_START_FAILED''
                          (''sandbox entered state '' @ state) True))
                  else wait_running K cluster i deadline (now + int t + POLL_MS) s')))"
  by auto
termination
  by (relation "measure (\<lambda>(K, c, i, deadline, now, s). nat (deadline - now))") (auto simp: POLL_MS_def)

declare wait_running.simps [simp del]

text \<open>The agent's health loop: any exception is remembered and polled past.\<close>

function wait_healthy ::
  "'s os_env \<Rightarrow> worker \<Rightarrow> int \<Rightarrow> string option \<Rightarrow> int \<Rightarrow> 's \<Rightarrow> 's \<times> int \<times> (exn + unit)" where
  "wait_healthy K w deadline last_error now s =
     (if now \<ge> deadline
      then (s, now, Inl (RunnerError ''AGENT_START_TIMEOUT''
              (''trusted agent did not become healthy'' @
               (case last_error of None \<Rightarrow> [] | Some m \<Rightarrow> '': '' @ m)) True))
      else (case agent_call K s (w_endpoint w) (w_token w) ''/health'' None (w_headers w) of
              (s', t, Inl e) \<Rightarrow> wait_healthy K w deadline (Some (describe_exn e)) (now + int t + POLL_MS) s'
            | (s', t, Inr response) \<Rightarrow>
                if truthy (get_field response ''ok'') then (s', now + int t, Inr ())
                else wait_healthy K w deadline
                       (Some (if is_obj response
                              then ''RuntimeError: unexpected health response: '' @ os_str K response
                              else describe_exn attribute_error)) (now + int t + POLL_MS) s'))"
  by auto
termination
  by (relation "measure (\<lambda>(K, w, deadline, e, now, s). nat (deadline - now))") (auto simp: POLL_MS_def)

declare wait_healthy.simps [simp del]

definition endpoint_url :: "string \<Rightarrow> string" where
  "endpoint_url e = (let e = py_strip e in if contains ''://'' e then e else ''http://'' @ e)"

definition endpoint_headers :: "json \<Rightarrow> exn + (string, string) dict" where
  "endpoint_headers j =
     (let h = get_field j ''headers'' in
      if \<not> truthy h then Inr []
      else (case as_str_dict h of Some d \<Rightarrow> Inr d | None \<Rightarrow> Inl (PyError ''TypeError'' ''headers'')))"

definition sandbox_worker ::
  "'s os_env \<Rightarrow> string \<Rightarrow> string \<Rightarrow> json \<Rightarrow> string \<Rightarrow> operator_release \<Rightarrow> security_policy \<Rightarrow> int \<Rightarrow> int
     \<Rightarrow> exn + worker" where
  "sandbox_worker K i token data tenant release policy ttl now =
     (let raw = (if truthy (get_field data ''endpoint'') then get_field data ''endpoint''
                 else get_field data ''url'') in
      if \<not> is_obj data then Inl attribute_error
      else if \<not> truthy raw
      then Inl (RunnerError ''SANDBOX_ENDPOINT_MISSING'' ''OpenSandbox endpoint response had no endpoint'' False)
      else (case endpoint_headers data of
              Inl e \<Rightarrow> Inl e
            | Inr headers \<Rightarrow>
                Inr \<lparr>w_id = i, w_endpoint = endpoint_url (text_of K raw), w_token = token, w_tenant = tenant,
                     w_runtime = rt_id (rel_runtime release), w_profile = rel_profile release,
                     w_group = pol_cluster policy, w_created = now, w_last_used = now, w_installed = [],
                     w_expires = Some (now + 1000 * ttl), w_runs = 0, w_healthy = True,
                     w_destroyed = False, w_headers = headers\<rparr>))"

text \<open>The body of the \<open>try\<close>: the caller deletes the sandbox when it raises.\<close>

definition create_steps ::
  "'s os_env \<Rightarrow> string \<Rightarrow> string \<Rightarrow> string \<Rightarrow> operator_release \<Rightarrow> security_policy \<Rightarrow> int \<Rightarrow> int \<Rightarrow> 's
     \<Rightarrow> 's \<times> (exn + worker)" where
  "create_steps K i token tenant release policy ttl now s =
     (let cluster = pol_cluster policy in
      case wait_running K cluster i (now + SANDBOX_READY_WAIT_MS) now s of
        (s1, _, Inl e) \<Rightarrow> (s1, Inl e)
      | (s1, t1, Inr _) \<Rightarrow>
     (case os_request K s1 cluster ''GET'' (sandbox_path i @ ''/endpoints/'' @ nat_str (os_port K)) None of
        (s2, _, Inl e) \<Rightarrow> (s2, Inl e)
      | (s2, d2, Inr data) \<Rightarrow>
     (case sandbox_worker K i token data tenant release policy ttl (t1 + int d2) of
        Inl e \<Rightarrow> (s2, Inl e)
      | Inr w \<Rightarrow>
     (case wait_healthy K w (t1 + int d2 + AGENT_READY_WAIT_MS) None (t1 + int d2) s2 of
        (s3, _, Inl e) \<Rightarrow> (s3, Inl e)
      | (s3, _, Inr _) \<Rightarrow> (s3, Inr w)))))"

definition os_create ::
  "'s os_env \<Rightarrow> 's \<Rightarrow> int \<Rightarrow> string \<Rightarrow> operator_release \<Rightarrow> security_policy \<Rightarrow> int \<Rightarrow> 's \<times> (exn + worker)" where
  "os_create K s now tenant release policy ttl =
     (let token = os_token K s; cluster = pol_cluster policy in
      case os_request K s cluster ''POST'' ''/v1/sandboxes''
             (Some (create_payload K token tenant release policy ttl)) of
        (s1, _, Inl e) \<Rightarrow> (s1, Inl e)
      | (s1, d1, Inr created) \<Rightarrow>
     (case sandbox_id K created of
        Inl e \<Rightarrow> (s1, Inl e)
      | Inr i \<Rightarrow>
     (case create_steps K i token tenant release policy ttl (now + int d1) s1 of
        (s2, Inr w) \<Rightarrow> (s2, Inr w)
      | (s2, Inl e) \<Rightarrow> (fst (os_request K s2 cluster ''DELETE'' (sandbox_path i) None), Inl e))))"

section \<open>Using and removing a sandbox\<close>

definition os_renew :: "'s os_env \<Rightarrow> 's \<Rightarrow> int \<Rightarrow> worker \<Rightarrow> int \<Rightarrow> 's \<times> (exn + worker)" where
  "os_renew K s now w ttl =
     (case os_request K s (w_group w) ''POST'' (sandbox_path (w_id w) @ ''/renew-expiration'')
             (Some (JObj [(''expiresAt'', JStr (os_isoformat K (now + 1000 * ttl)))])) of
        (s', _, Inl e) \<Rightarrow> (s', Inl e)
      | (s', t, Inr _) \<Rightarrow> (s', Inr (w\<lparr>w_expires := Some (now + int t + 1000 * ttl)\<rparr>)))"

definition os_install :: "'s os_env \<Rightarrow> 's \<Rightarrow> worker \<Rightarrow> operator_release \<Rightarrow> 's \<times> (exn + unit)" where
  "os_install K s w release =
     (case os_read K (rel_artifact_path release) of
        Inl e \<Rightarrow> (s, Inl e)
      | Inr artifact \<Rightarrow>
     (case agent_call K s (w_endpoint w) (w_token w) ''/bootstrap''
             (Some (JObj (bootstrap_payload release artifact))) (w_headers w) of
        (s', _, Inl e) \<Rightarrow> (s', Inl e)
      | (s', _, Inr _) \<Rightarrow> (s', Inr ())))"

definition str_field :: "json \<Rightarrow> string \<Rightarrow> string \<Rightarrow> exn + string" where
  "str_field j k dflt = (case j of
      JObj d \<Rightarrow> as_str (dict_get_or d k (JStr dflt)) | _ \<Rightarrow> Inl attribute_error)"

definition field_or :: "json \<Rightarrow> string \<Rightarrow> json \<Rightarrow> json" where
  "field_or j k dflt = (case j of JObj d \<Rightarrow> dict_get_or d k dflt | _ \<Rightarrow> dflt)"

text \<open>\<open>RunResult(...)\<close> of the decoded answer: the fields with the defaults of \<open>get\<close>.\<close>

definition run_result_of_json :: "string \<Rightarrow> json \<Rightarrow> exn + run_result" where
  "run_result_of_json worker_id j =
     (case (str_field j ''status'' ''FAILED'', str_field j ''relationship'' ''failure'',
            str_field j ''content_b64'' [], str_field j ''error_code'' [], str_field j ''error_message'' []) of
        (Inr status, Inr relationship, Inr content_b64, Inr error_code, Inr error_message) \<Rightarrow>
          (case (b64decode content_b64, as_str_dict (field_or j ''attributes'' (JObj [])),
                 (case field_or j ''duration_ms'' (JInt 0) of JInt i \<Rightarrow> Some i | _ \<Rightarrow> None)) of
             (Some content, Some attributes, Some duration) \<Rightarrow>
               Inr \<lparr>rr_status = status, rr_relationship = relationship, rr_content = content,
                    rr_attributes = attributes, rr_retryable = truthy (get_field j ''retryable''),
                    rr_error_code = error_code, rr_error_message = error_message,
                    rr_worker_id = worker_id, rr_duration_ms = duration\<rparr>
           | _ \<Rightarrow> Inl (PyError ''TypeError'' ''response''))
      | _ \<Rightarrow> Inl (PyError ''TypeError'' ''response''))"

definition os_run :: "'s os_env \<Rightarrow> 's \<Rightarrow> worker \<Rightarrow> operator_release \<Rightarrow> run_request \<Rightarrow> int \<Rightarrow> 's \<times> (exn + run_result)" where
  "os_run K s w release request timeout_ms =
     (case agent_call K s (w_endpoint w) (w_token w) ''/run''
             (Some (JObj (run_payload release request timeout_ms))) (w_headers w) of
        (s', _, Inl e) \<Rightarrow> (s', Inl e)
      | (s', _, Inr j) \<Rightarrow> (s', run_result_of_json (w_id w) j))"

definition os_cancel :: "'s os_env \<Rightarrow> 's \<Rightarrow> worker \<Rightarrow> string \<Rightarrow> 's \<times> (exn + bool)" where
  "os_cancel K s w invocation_id =
     (case agent_call K s (w_endpoint w) (w_token w) ''/cancel''
             (Some (JObj [(''invocation_id'', JStr invocation_id)])) (w_headers w) of
        (s', _, Inl e) \<Rightarrow> (s', Inl e)
      | (s', _, Inr j) \<Rightarrow>
          (s', if is_obj j then Inr (truthy (get_field j ''cancelled'')) else Inl attribute_error))"

definition os_destroy :: "'s os_env \<Rightarrow> 's \<Rightarrow> worker \<Rightarrow> 's \<times> (exn + unit)" where
  "os_destroy K s w =
     (case os_request K s (w_group w) ''DELETE'' (sandbox_path (w_id w)) None of
        (s', _, Inr _) \<Rightarrow> (s', Inr ())
      | (s', _, Inl e) \<Rightarrow>
          if is_runner_error e \<and> contains ''404'' (exn_msg e) then (s', Inr ()) else (s', Inl e))"

definition list_items :: "json \<Rightarrow> exn + json list" where
  "list_items j = (case j of
      JList l \<Rightarrow> Inr l
    | JObj _ \<Rightarrow>
        (let items = (if truthy (get_field j ''items'') then get_field j ''items''
                      else if truthy (get_field j ''sandboxes'') then get_field j ''sandboxes'' else JList [])
         in case items of JList l \<Rightarrow> Inr l | JObj _ \<Rightarrow> Inl attribute_error
              | JStr _ \<Rightarrow> Inl attribute_error | _ \<Rightarrow> Inl (PyError ''TypeError'' ''not iterable''))
    | _ \<Rightarrow> Inl attribute_error)"

definition owned_item :: "'s os_env \<Rightarrow> json \<Rightarrow> exn + bool" where
  "owned_item K item =
     (if \<not> is_obj item then Inl attribute_error
      else (let metadata = (if truthy (get_field item ''metadata'') then get_field item ''metadata''
                            else if truthy (get_field item ''labels'') then get_field item ''labels''
                            else JObj []) in
        if \<not> is_obj metadata then Inl attribute_error
        else Inr (get_field metadata ''managed-by'' = JStr MANAGED_BY \<and>
                  get_field metadata ''runner-owner'' = JStr (label_hash K (os_owner K)))))"

fun cleanup_items :: "'s os_env \<Rightarrow> string \<Rightarrow> json list \<Rightarrow> nat \<Rightarrow> 's \<Rightarrow> 's \<times> (exn + nat)" where
  "cleanup_items K cluster [] deleted s = (s, Inr deleted)"
| "cleanup_items K cluster (item # items) deleted s =
     (case owned_item K item of
        Inl e \<Rightarrow> (s, Inl e)
      | Inr False \<Rightarrow> cleanup_items K cluster items deleted s
      | Inr True \<Rightarrow>
          (case sandbox_id K item of
             Inl e \<Rightarrow> cleanup_items K cluster items deleted s
           | Inr i \<Rightarrow>
               (case os_request K s cluster ''DELETE'' (sandbox_path i) None of
                  (s', _, Inl e) \<Rightarrow> cleanup_items K cluster items deleted s'
                | (s', _, Inr _) \<Rightarrow> cleanup_items K cluster items (deleted + 1) s')))"

fun cleanup_clusters :: "'s os_env \<Rightarrow> string list \<Rightarrow> nat \<Rightarrow> 's \<Rightarrow> 's \<times> (exn + nat)" where
  "cleanup_clusters K [] deleted s = (s, Inr deleted)"
| "cleanup_clusters K (cluster # cs) deleted s =
     (case os_request K s cluster ''GET'' ''/v1/sandboxes?page=1&pageSize=100'' None of
        (s', _, Inl e) \<Rightarrow> cleanup_clusters K cs deleted s'
      | (s', _, Inr response) \<Rightarrow>
          (case list_items response of
             Inl e \<Rightarrow> (s', Inl e)
           | Inr items \<Rightarrow>
               (case cleanup_items K cluster items deleted s' of
                  (s'', Inl e) \<Rightarrow> (s'', Inl e)
                | (s'', Inr n) \<Rightarrow> cleanup_clusters K cs n s'')))"

definition os_cleanup :: "'s os_env \<Rightarrow> 's \<Rightarrow> 's \<times> (exn + nat)" where
  "os_cleanup K s = cleanup_clusters K (map fst (os_clusters K)) 0 s"

definition open_provider :: "'s os_env \<Rightarrow> 's backend" where
  "open_provider K =
     \<lparr>be_create = os_create K, be_renew = os_renew K, be_install = os_install K, be_run = os_run K,
      be_cancel = os_cancel K, be_destroy = os_destroy K, be_cleanup = os_cleanup K\<rparr>"

section \<open>The provider's contract\<close>

lemma wait_running_later:
  "wait_running K c i deadline now s = (s', now', r) \<Longrightarrow> now \<le> now'"
proof (induction K c i deadline now s arbitrary: s' now' r rule: wait_running.induct)
  case (1 K c i deadline now s)
  show ?case
  proof (cases "now \<ge> deadline")
    case True
    with "1.prems" show ?thesis by (simp add: wait_running.simps [of K c i deadline now])
  next
    case False
    obtain s1 t x where rq: "os_request K s c ''GET'' (sandbox_path i) None = (s1, t, x)" by (rule prod_cases3)
    show ?thesis
    proof (cases x)
      case (Inl e)
      with "1.prems" False rq show ?thesis by (simp add: wait_running.simps [of K c i deadline now])
    next
      case (Inr status)
      note IH = "1.IH" [OF False rq [symmetric] refl Inr]
      show ?thesis
        using "1.prems" False rq Inr IH
        by (auto simp: wait_running.simps [of K c i deadline now] Let_def POLL_MS_def split: if_splits)
          (smt (verit) of_nat_0_le_iff)+
    qed
  qed
qed

lemma sandbox_worker_created:
  assumes "sandbox_worker K i token data tenant release policy ttl t = Inr w" "now \<le> t"
  shows "created_for tenant release (now + 1000 * ttl) w"
  using assms by (auto simp: sandbox_worker_def created_for_def Let_def split: if_splits sum.splits)

lemma create_steps_worker:
  assumes "create_steps K i token tenant release policy ttl now s = (s', Inr w)"
  shows "created_for tenant release (now + 1000 * ttl) w \<and> w_id w = i \<and> w_token w = token \<and>
    w_group w = pol_cluster policy"
proof -
  from assms obtain s1 t1 s2 d2 data where
    w1: "wait_running K (pol_cluster policy) i (now + SANDBOX_READY_WAIT_MS) now s = (s1, t1, Inr ())"
    and w: "sandbox_worker K i token data tenant release policy ttl (t1 + int d2) = Inr w"
    by (auto simp: create_steps_def Let_def split: prod.splits sum.splits)
  from wait_running_later [OF w1] have "now \<le> t1 + int d2" by simp
  from sandbox_worker_created [OF w this] w show ?thesis
    by (auto simp: sandbox_worker_def Let_def split: if_splits sum.splits)
qed

lemma created_for_earlier:
  "created_for tenant release e w \<Longrightarrow> e' \<le> e \<Longrightarrow> created_for tenant release e' w"
  unfolding created_for_def by (meson order_trans)

lemma os_create_law:
  assumes "os_create K s now tenant release policy ttl = (s', Inr w)"
  shows "created_for tenant release (now + 1000 * ttl) w"
proof -
  from assms obtain s1 d1 i s2 where
    "create_steps K i (os_token K s) tenant release policy ttl (now + int d1) s1 = (s2, Inr w)"
    by (auto simp: os_create_def Let_def split: prod.splits sum.splits)
  from create_steps_worker [OF this] show ?thesis by (auto intro: created_for_earlier)
qed

lemma os_renew_law:
  assumes "os_renew K s now w ttl = (s', Inr w')"
  shows "\<exists>e \<ge> now + 1000 * ttl. w' = w\<lparr>w_expires := Some e\<rparr>"
proof -
  from assms obtain t :: nat where "w' = w\<lparr>w_expires := Some (now + int t + 1000 * ttl)\<rparr>"
    by (auto simp: os_renew_def split: prod.splits sum.splits)
  then show ?thesis by (intro exI [of _ "now + int t + 1000 * ttl"]) simp
qed

interpretation open_sandbox: sandbox_backend "open_provider K" for K
  by unfold_locales (auto simp: open_provider_def intro: os_create_law os_renew_law)

section \<open>What is asked of the control plane\<close>

text \<open>The same service with the list of the calls it received.\<close>

definition log_env :: "'s os_env \<Rightarrow> ('s \<times> http_call list) os_env" where
  "log_env K =
     \<lparr>os_clusters = os_clusters K, os_owner = os_owner K, os_port = os_port K, os_sha256 = os_sha256 K,
      os_token = (\<lambda>(s, l). os_token K s), os_isoformat = os_isoformat K, os_str = os_str K,
      os_read = os_read K,
      os_http = (\<lambda>(s, l) c. case os_http K s c of (s', t, x) \<Rightarrow> ((s', l @ [c]), t, x))\<rparr>"

lemma os_request_logged:
  assumes "dict_get (os_clusters K) c = Some config"
  shows "\<exists>call. snd (fst (os_request (log_env K) (s, l) c m p j)) = l @ [call] \<and>
     hc_method call = m \<and> hc_url call = rstrip_slash (cl_url config) @ p \<and> hc_payload call = j"
  using assms by (auto simp: os_request_def log_env_def Let_def split: prod.splits http_outcome.splits)

text \<open>A sandbox whose creation fails after the control plane gave it an id is not leaked: the
  last thing asked of the control plane is to delete that sandbox, whatever failed in between.\<close>

theorem os_create_no_leak:
  assumes "dict_get (os_clusters K) (pol_cluster policy) = Some config"
    and "os_request (log_env K) s (pol_cluster policy) ''POST'' ''/v1/sandboxes''
           (Some (create_payload (log_env K) (os_token (log_env K) s) tenant release policy ttl))
         = (s1, d1, Inr created)"
    and "sandbox_id (log_env K) created = Inr i"
    and "os_create (log_env K) s now tenant release policy ttl = (s', Inl e)"
  shows "snd s' \<noteq> [] \<and> hc_method (last (snd s')) = ''DELETE'' \<and>
     hc_url (last (snd s')) = rstrip_slash (cl_url config) @ sandbox_path i"
proof -
  obtain s2 where "s' = fst (os_request (log_env K) s2 (pol_cluster policy) ''DELETE'' (sandbox_path i) None)"
    using assms(2-4) by (auto simp: os_create_def Let_def split: prod.splits sum.splits)
  with os_request_logged [OF assms(1), of "fst s2" "snd s2" "''DELETE''" "sandbox_path i" None]
  show ?thesis by auto
qed

text \<open>The cleanup at start-up counts only sandboxes that carry this installation's ownership
  labels, and every deletion it asks for is of such a sandbox.\<close>

lemma cleanup_items_only_owned:
  assumes "cleanup_items K c items n s = (s', Inr m)"
  shows "n \<le> m \<and> m \<le> n + length (filter (\<lambda>x. owned_item K x = Inr True) items)"
  using assms
proof (induction K c items n s rule: cleanup_items.induct)
  case (2 K c item items n s)
  then show ?case
    by (auto split: sum.splits prod.splits bool.splits) (fastforce+)?
qed simp

lemma cleanup_calls_owned:
  "dict_get (os_clusters K) c = Some config \<Longrightarrow>
   cleanup_items (log_env K) c items n (s, l) = (s', r) \<Longrightarrow>
   \<exists>calls. snd s' = l @ calls \<and> (\<forall>call \<in> set calls. hc_method call = ''DELETE'' \<and>
     (\<exists>item \<in> set items. \<exists>i. owned_item (log_env K) item = Inr True \<and> sandbox_id (log_env K) item = Inr i \<and>
        hc_url call = rstrip_slash (cl_url config) @ sandbox_path i))"
proof (induction items arbitrary: n s l)
  case (Cons item items)
  consider (skip) m where "cleanup_items (log_env K) c items m (s, l) = (s', r)" | (stop) "s' = (s, l)"
    | (delete) i x t y m where "owned_item (log_env K) item = Inr True" "sandbox_id (log_env K) item = Inr i"
      "os_request (log_env K) (s, l) c ''DELETE'' (sandbox_path i) None = (x, t, y)"
      "cleanup_items (log_env K) c items m x = (s', r)"
    using Cons.prems(2) by (auto split: sum.splits bool.splits prod.splits)
  then show ?case
  proof cases
    case skip
    from Cons.IH [OF Cons.prems(1) this] show ?thesis by auto
  next
    case delete
    obtain u v where x: "x = (u, v)" by (cases x)
    from os_request_logged [OF Cons.prems(1), of s l "''DELETE''" "sandbox_path i" None] delete(3) x
    obtain call where v: "v = l @ [call]" "hc_method call = ''DELETE''"
      "hc_url call = rstrip_slash (cl_url config) @ sandbox_path i" by auto
    from Cons.IH [OF Cons.prems(1) delete(4) [unfolded x]] obtain calls where
      c: "snd s' = v @ calls" "\<forall>call \<in> set calls. hc_method call = ''DELETE'' \<and>
        (\<exists>item \<in> set items. \<exists>i. owned_item (log_env K) item = Inr True \<and>
          sandbox_id (log_env K) item = Inr i \<and> hc_url call = rstrip_slash (cl_url config) @ sandbox_path i)" by blast
    show ?thesis
      using c v delete(1,2) by (intro exI [of _ "call # calls"]) auto
  qed auto
qed auto

end
