(* ===== verification/Service_Steps.thy ===== *)
theory Service_Steps
  imports Service Pool_Invariants Runner_DB_Facts Open_Sandbox
begin

text \<open>
  The runner under concurrency: request threads interleave at the phases of \<open>invoke\<close>, with
  cancellations, lease calls and maintenance in between. The invariant ties the threads to the
  pool (who holds which worker), to the database (whose claim is running) and is preserved by
  every step over any provider that meets the contract in Runner_Model.
\<close>

section \<open>Threads\<close>

datatype thread =
    Prepared prepared
  | Claimed prepared string
  | Holding prepared string nat
  | Registered prepared string nat
  | Ran prepared string nat run_result
  | Settling prepared nat run_result
  | Failing prepared string "nat option" exn
  | Abandoning prepared string exn
  | Popping prepared "exn + run_result"

fun held_by :: "thread \<Rightarrow> nat option" where
  "held_by (Holding P i r) = Some r"
| "held_by (Registered P i r) = Some r"
| "held_by (Ran P i r x) = Some r"
| "held_by (Settling P r x) = Some r"
| "held_by (Failing P i w e) = w"
| "held_by _ = None"

fun request_of :: "thread \<Rightarrow> prepared" where
  "request_of (Prepared P) = P"
| "request_of (Claimed P i) = P"
| "request_of (Holding P i r) = P"
| "request_of (Registered P i r) = P"
| "request_of (Ran P i r x) = P"
| "request_of (Settling P r x) = P"
| "request_of (Failing P i w e) = P"
| "request_of (Abandoning P i e) = P"
| "request_of (Popping P x) = P"

definition claim_of :: "prepared \<Rightarrow> logical_key" where
  "claim_of P = (rq_tenant (pr_request P), rq_release (pr_request P), rq_key (pr_request P))"

fun claimed_by :: "thread \<Rightarrow> (logical_key \<times> string) option" where
  "claimed_by (Claimed P i) = Some (claim_of P, i)"
| "claimed_by (Holding P i r) = Some (claim_of P, i)"
| "claimed_by (Registered P i r) = Some (claim_of P, i)"
| "claimed_by (Ran P i r x) = Some (claim_of P, i)"
| "claimed_by (Failing P i w e) = Some (claim_of P, i)"
| "claimed_by (Abandoning P i e) = Some (claim_of P, i)"
| "claimed_by _ = None"

record 'b runner =
  rn_service :: "'b service"
  rn_threads :: "nat \<Rightarrow> thread option"

definition set_thread :: "nat \<Rightarrow> thread \<Rightarrow> 'b service \<Rightarrow> 'b runner \<Rightarrow> 'b runner" where
  "set_thread t th S R = \<lparr>rn_service = S, rn_threads = (rn_threads R)(t := Some th)\<rparr>"

definition end_thread :: "nat \<Rightarrow> 'b service \<Rightarrow> 'b runner \<Rightarrow> 'b runner" where
  "end_thread t S R = \<lparr>rn_service = S, rn_threads = (rn_threads R)(t := None)\<rparr>"

definition same_threads :: "'b service \<Rightarrow> 'b runner \<Rightarrow> 'b runner" where
  "same_threads S R = R\<lparr>rn_service := S\<rparr>"

section \<open>Steps\<close>

inductive thread_step :: "'b backend \<Rightarrow> runner_cfg \<Rightarrow> nat \<Rightarrow> 'b runner \<Rightarrow> 'b runner \<Rightarrow> bool" for B C t where
  prepare: "rn_threads R t = None \<Longrightarrow> invoke_prepare C us rq (rn_service R) = Inr P \<Longrightarrow>
    invoke_check_active rq (rn_service R) = Inr () \<Longrightarrow>
    thread_step B C t R (set_thread t (Prepared P) (rn_service R) R)"
| claim_refused: "rn_threads R t = Some (Prepared P) \<Longrightarrow> invoke_claim i us P (rn_service R) = Inl e \<Longrightarrow>
    thread_step B C t R (end_thread t (rn_service R) R)"
| claim_cached: "rn_threads R t = Some (Prepared P) \<Longrightarrow> invoke_claim i us P (rn_service R) = Inr (S, c) \<Longrightarrow>
    claim_cached c = Some x \<Longrightarrow> thread_step B C t R (end_thread t S R)"
| claim: "rn_threads R t = Some (Prepared P) \<Longrightarrow> invoke_claim i us P (rn_service R) = Inr (S, c) \<Longrightarrow>
    claim_cached c = None \<Longrightarrow> claim_run c = Some j \<Longrightarrow>
    thread_step B C t R (set_thread t (Claimed P j) S R)"
| acquire_fails: "rn_threads R t = Some (Claimed P i) \<Longrightarrow> invoke_acquire B C ms P (rn_service R) = (S, Inl e) \<Longrightarrow>
    thread_step B C t R (set_thread t (Abandoning P i e) S R)"
| acquire: "rn_threads R t = Some (Claimed P i) \<Longrightarrow> invoke_acquire B C ms P (rn_service R) = (S, Inr r) \<Longrightarrow>
    thread_step B C t R (set_thread t (Holding P i r) S R)"
| register_fails: "rn_threads R t = Some (Holding P i r) \<Longrightarrow>
    invoke_register B P r (rn_service R) = (S, Inl (e, w)) \<Longrightarrow>
    thread_step B C t R (set_thread t (Failing P i w e) S R)"
| register: "rn_threads R t = Some (Holding P i r) \<Longrightarrow> invoke_register B P r (rn_service R) = (S, Inr ()) \<Longrightarrow>
    thread_step B C t R (set_thread t (Registered P i r) S R)"
| run_fails: "rn_threads R t = Some (Registered P i r) \<Longrightarrow> invoke_run B P r (rn_service R) = (S, Inl e) \<Longrightarrow>
    thread_step B C t R (set_thread t (Failing P i (Some r) e) S R)"
| run: "rn_threads R t = Some (Registered P i r) \<Longrightarrow> invoke_run B P r (rn_service R) = (S, Inr x) \<Longrightarrow>
    thread_step B C t R (set_thread t (Ran P i r x) S R)"
| finish_fails: "rn_threads R t = Some (Ran P i r x) \<Longrightarrow> invoke_finish C us i P x (rn_service R) = Inl e \<Longrightarrow>
    thread_step B C t R (set_thread t (Failing P i (Some r) e) (rn_service R) R)"
| finish: "rn_threads R t = Some (Ran P i r x) \<Longrightarrow> invoke_finish C us i P x (rn_service R) = Inr S \<Longrightarrow>
    thread_step B C t R (set_thread t (Settling P r x) S R)"
| settle: "rn_threads R t = Some (Settling P r x) \<Longrightarrow>
    thread_step B C t R (set_thread t (Popping P (Inr x)) (invoke_settle B ms P r x (rn_service R)) R)"
| fail_worker: "rn_threads R t = Some (Failing P i w e) \<Longrightarrow>
    thread_step B C t R (set_thread t (Abandoning P i e) (invoke_fail_worker B w (rn_service R)) R)"
| abandon: "rn_threads R t = Some (Abandoning P i e) \<Longrightarrow>
    thread_step B C t R (set_thread t (Popping P (Inl (raised e))) (invoke_abandon us i P e (rn_service R)) R)"
| pop: "rn_threads R t = Some (Popping P x) \<Longrightarrow>
    thread_step B C t R (end_thread t (invoke_pop P (rn_service R)) R)"

text \<open>Everything else that runs beside the request threads. A cancellation may call the provider
  long after it looked the worker up, so the worker is any worker ever created.\<close>

inductive other_step :: "'b backend \<Rightarrow> runner_cfg \<Rightarrow> 'b runner \<Rightarrow> 'b runner \<Rightarrow> bool" for B C where
  acquire_lease: "service_acquire_lease C us i tenant pr p rel (rn_service R) = Inr (S, l) \<Longrightarrow>
    other_step B C R (same_threads S R)"
| renew_lease: "service_renew_lease C us tenant i (rn_service R) = Inr (S, l) \<Longrightarrow>
    other_step B C R (same_threads S R)"
| release_lease: "service_release_lease tenant i (rn_service R) = Inr S \<Longrightarrow>
    other_step B C R (same_threads S R)"
| maintain: "other_step B C R (same_threads (service_maintain B C us ms (rn_service R)) R)"
| cancel: "r < p_next (sv_pool (rn_service R)) \<Longrightarrow> cancel_call B invocation r (rn_service R) = (S, x) \<Longrightarrow>
    other_step B C R (same_threads S R)"
| publish: "other_step B C R (same_threads ((rn_service R)\<lparr>sv_catalog := cat\<rparr>) R)"

inductive runner_step :: "'b backend \<Rightarrow> runner_cfg \<Rightarrow> 'b runner \<Rightarrow> 'b runner \<Rightarrow> bool" for B C where
  thread: "thread_step B C t R R' \<Longrightarrow> runner_step B C R R'"
| other: "other_step B C R R' \<Longrightarrow> runner_step B C R R'"

section \<open>Injective partial maps\<close>

definition inj_map :: "('t \<Rightarrow> 'x option) \<Rightarrow> bool" where
  "inj_map g \<longleftrightarrow> (\<forall>t1 t2 x. g t1 = Some x \<longrightarrow> g t2 = Some x \<longrightarrow> t1 = t2)"

lemma inj_mapD: "inj_map g \<Longrightarrow> g t1 = Some x \<Longrightarrow> g t2 = Some x \<Longrightarrow> t1 = t2"
  by (simp add: inj_map_def)

lemma ran_upd_inj: "inj_map g \<Longrightarrow> ran (g(t := v)) = ran g - set_option (g t) \<union> set_option v"
  by (auto simp: ran_def dest: inj_mapD split: if_splits)

lemma inj_map_upd: "inj_map g \<Longrightarrow> set_option v \<inter> (ran g - set_option (g t)) = {} \<Longrightarrow> inj_map (g(t := v))"
  unfolding inj_map_def ran_def by (auto split: if_splits)

section \<open>The invariant\<close>

definition holder :: "'b runner \<Rightarrow> nat \<Rightarrow> nat option" where
  "holder R t = Option.bind (rn_threads R t) held_by"

definition claimer :: "'b runner \<Rightarrow> nat \<Rightarrow> (logical_key \<times> string) option" where
  "claimer R t = Option.bind (rn_threads R t) claimed_by"

definition own_key :: "prepared \<Rightarrow> pool_key" where
  "own_key P = pool_key (rq_tenant (pr_request P)) (pr_release P)"

definition isolated :: "'b runner \<Rightarrow> bool" where
  "isolated R \<longleftrightarrow> (\<forall>t th r. rn_threads R t = Some th \<longrightarrow> held_by th = Some r \<longrightarrow>
     worker_key (p_heap (sv_pool (rn_service R)) r) = own_key (request_of th))"

definition runner_ok :: "'b runner \<Rightarrow> bool" where
  "runner_ok R \<longleftrightarrow> pool_ok (ran (holder R)) (sv_pool (rn_service R)) \<and> db_ok (sv_db (rn_service R)) \<and>
     run_claims (db_runs (sv_db (rn_service R))) = ran (claimer R) \<and>
     inj_map (holder R) \<and> inj_map (claimer R) \<and> isolated R"

lemma thread_upd:
  "holder (set_thread t th S R) = (holder R)(t := held_by th)"
  "claimer (set_thread t th S R) = (claimer R)(t := claimed_by th)"
  "holder (end_thread t S R) = (holder R)(t := None)"
  "claimer (end_thread t S R) = (claimer R)(t := None)"
  "rn_service (set_thread t th S R) = S" "rn_service (end_thread t S R) = S"
  "holder (same_threads S R) = holder R" "claimer (same_threads S R) = claimer R"
  "rn_service (same_threads S R) = S"
  by (auto simp: holder_def claimer_def set_thread_def end_thread_def same_threads_def)

text \<open>One thread moves: what has to be shown of the new service.\<close>

lemma runner_ok_set:
  assumes ok: "runner_ok R"
    and pool: "pool_ok (ran (holder R) - set_option (holder R t) \<union> set_option (held_by th)) (sv_pool S)"
    and db: "db_ok (sv_db S)"
      "run_claims (db_runs (sv_db S)) = ran (claimer R) - set_option (claimer R t) \<union> set_option (claimed_by th)"
    and new: "set_option (held_by th) \<inter> (ran (holder R) - set_option (holder R t)) = {}"
      "set_option (claimed_by th) \<inter> (ran (claimer R) - set_option (claimer R t)) = {}"
    and keys: "\<And>s. s \<in> ran (holder R) \<Longrightarrow> holder R t \<noteq> Some s \<Longrightarrow>
        worker_key (p_heap (sv_pool S) s) = worker_key (p_heap (sv_pool (rn_service R)) s)"
      "\<And>r. held_by th = Some r \<Longrightarrow> worker_key (p_heap (sv_pool S) r) = own_key (request_of th)"
  shows "runner_ok (set_thread t th S R)"
proof -
  have inj: "inj_map (holder R)" "inj_map (claimer R)" and iso: "isolated R"
    using ok by (simp_all add: runner_ok_def)
  have "isolated (set_thread t th S R)"
    unfolding isolated_def
  proof (intro allI impI)
    fix t' th' r
    assume a: "rn_threads (set_thread t th S R) t' = Some th'" "held_by th' = Some r"
    show "worker_key (p_heap (sv_pool (rn_service (set_thread t th S R))) r) = own_key (request_of th')"
    proof (cases "t' = t")
      case True
      with a keys(2) show ?thesis by (simp add: set_thread_def)
    next
      case False
      with a have r: "rn_threads R t' = Some th'" by (simp add: set_thread_def)
      with a(2) have h: "holder R t' = Some r" by (simp add: holder_def)
      then have m: "r \<in> ran (holder R)" by (rule ranI)
      have n: "holder R t \<noteq> Some r" using False inj_mapD [OF inj(1) h, of t] by blast
      from iso r a(2) have "worker_key (p_heap (sv_pool (rn_service R)) r) = own_key (request_of th')"
        unfolding isolated_def by blast
      with keys(1) [OF m n] show ?thesis by (simp add: set_thread_def)
    qed
  qed
  moreover have "inj_map ((holder R)(t := held_by th))" "inj_map ((claimer R)(t := claimed_by th))"
    by (rule inj_map_upd [OF inj(1) new(1)], rule inj_map_upd [OF inj(2) new(2)])
  ultimately show ?thesis
    using pool db by (simp add: runner_ok_def thread_upd ran_upd_inj [OF inj(1)] ran_upd_inj [OF inj(2)])
qed

lemma runner_ok_end:
  assumes ok: "runner_ok R" and t: "holder R t = None" "claimer R t = None"
    and pool: "sv_pool S = sv_pool (rn_service R)"
    and db: "db_ok (sv_db S)" "run_claims (db_runs (sv_db S)) = ran (claimer R)"
  shows "runner_ok (end_thread t S R)"
proof -
  have "(holder R)(t := None) = holder R" "(claimer R)(t := None) = claimer R"
    using t by (auto simp: fun_eq_iff)
  moreover have "isolated (end_thread t S R)"
    using ok pool by (auto simp: isolated_def end_thread_def runner_ok_def split: if_splits)
  ultimately show ?thesis using ok pool db by (simp add: runner_ok_def thread_upd)
qed

lemma runner_ok_same:
  assumes ok: "runner_ok R" and pool: "pool_ok (ran (holder R)) (sv_pool S)"
    and db: "db_ok (sv_db S)" "run_claims (db_runs (sv_db S)) = run_claims (db_runs (sv_db (rn_service R)))"
    and keys: "\<And>s. s \<in> ran (holder R) \<Longrightarrow>
        worker_key (p_heap (sv_pool S) s) = worker_key (p_heap (sv_pool (rn_service R)) s)"
  shows "runner_ok (same_threads S R)"
proof -
  have "isolated (same_threads S R)"
    unfolding isolated_def
  proof (intro allI impI)
    fix t th r
    assume a: "rn_threads (same_threads S R) t = Some th" "held_by th = Some r"
    then have t: "rn_threads R t = Some th" by (simp add: same_threads_def)
    with a(2) have "holder R t = Some r" by (simp add: holder_def)
    then have "r \<in> ran (holder R)" by (rule ranI)
    with t keys a(2) ok show "worker_key (p_heap (sv_pool (rn_service (same_threads S R))) r) = own_key (request_of th)"
      by (simp add: thread_upd runner_ok_def isolated_def)
  qed
  with assms show ?thesis by (simp add: runner_ok_def thread_upd)
qed

lemma pool_ok_backend: "pool_ok H p \<Longrightarrow> pool_ok H (p\<lparr>p_backend := b\<rparr>)"
  unfolding pool_ok_def quota_ok_def accounted_def idle_ok_def bucket_ok_def idle_refs_def by simp

lemma held_created: "pool_ok H p \<Longrightarrow> r \<in> H \<Longrightarrow> r < p_next p"
  by (auto simp: pool_ok_def idle_ok_def)

lemma pool_invalidate_key:
  assumes "pool_invalidate B r p = (p', res)"
  shows "worker_key (p_heap p' s) = worker_key (p_heap p s)" "p_next p' = p_next p"
  using assms
  by (auto simp: pool_invalidate_def pool_destroy_def Let_def worker_key_def upd_worker_def split: if_splits prod.splits)

lemma held_in: "rn_threads R t = Some th \<Longrightarrow> held_by th = Some r \<Longrightarrow> r \<in> ran (holder R)"
  by (rule ranI [of _ t]) (simp add: holder_def)

lemma claim_in: "rn_threads R t = Some th \<Longrightarrow> claimed_by th = Some c \<Longrightarrow> c \<in> ran (claimer R)"
  by (rule ranI [of _ t]) (simp add: claimer_def)

lemma thread_views:
  "rn_threads R t = Some th \<Longrightarrow> holder R t = held_by th \<and> claimer R t = claimed_by th"
  "rn_threads R t = None \<Longrightarrow> holder R t = None \<and> claimer R t = None"
  by (simp_all add: holder_def claimer_def)

lemma claimer_unique_run:
  assumes "runner_ok R" "rn_threads R t = Some th" "claimed_by th = Some (key, i)"
    and "(k, i) \<in> run_claims (db_runs (sv_db (rn_service R)))"
  shows "k = key"
proof -
  have "(key, i) \<in> run_claims (db_runs (sv_db (rn_service R)))"
    using assms(1) claim_in [OF assms(2,3)] by (simp add: runner_ok_def)
  with assms(1,4) show ?thesis by (auto simp: runner_ok_def db_ok_def dest: run_claims_unique)
qed

section \<open>Steps that only move a thread\<close>

text \<open>A move that keeps the worker and the claim and leaves pool and database alone.\<close>

lemma runner_ok_move:
  assumes ok: "runner_ok R" and t: "rn_threads R t = Some old"
    and same: "held_by th = held_by old" "claimed_by th = claimed_by old" "request_of th = request_of old"
    and S: "sv_db S = sv_db (rn_service R)" "sv_pool S = (sv_pool (rn_service R))\<lparr>p_backend := b\<rparr>"
  shows "runner_ok (set_thread t th S R)"
proof (rule runner_ok_set [OF ok])
  note v = thread_views(1) [OF t]
  have h: "set_option (holder R t) \<subseteq> ran (holder R)" "set_option (claimer R t) \<subseteq> ran (claimer R)"
    by (auto simp: ran_def)
  have "ran (holder R) - set_option (holder R t) \<union> set_option (held_by th) = ran (holder R)"
    using h v same by auto
  with ok S(2) show "pool_ok (ran (holder R) - set_option (holder R t) \<union> set_option (held_by th)) (sv_pool S)"
    by (simp add: runner_ok_def pool_ok_backend)
  have "ran (claimer R) - set_option (claimer R t) \<union> set_option (claimed_by th) = ran (claimer R)"
    using h v same by auto
  with ok S(1) show "run_claims (db_runs (sv_db S)) = ran (claimer R) - set_option (claimer R t) \<union> set_option (claimed_by th)"
    by (simp add: runner_ok_def)
  show "db_ok (sv_db S)" using ok S(1) by (simp add: runner_ok_def)
  show "worker_key (p_heap (sv_pool S) r) = own_key (request_of th)" if "held_by th = Some r" for r
    using that ok t same S(2) by (simp add: runner_ok_def isolated_def)
qed (use thread_views(1) [OF t] same S in auto)

text \<open>A move that gives the worker up after the pool was changed for it.\<close>

lemma runner_ok_drop:
  assumes ok: "runner_ok R" and t: "rn_threads R t = Some old"
    and new: "held_by th = None" "claimed_by th = claimed_by old"
    and db: "sv_db S = sv_db (rn_service R)"
    and pool: "pool_ok (ran (holder R) - set_option (held_by old)) (sv_pool S)"
    and keys: "\<And>s. s \<in> ran (holder R) \<Longrightarrow> held_by old \<noteq> Some s \<Longrightarrow>
        worker_key (p_heap (sv_pool S) s) = worker_key (p_heap (sv_pool (rn_service R)) s)"
  shows "runner_ok (set_thread t th S R)"
proof (rule runner_ok_set [OF ok])
  note v = thread_views(1) [OF t]
  show "pool_ok (ran (holder R) - set_option (holder R t) \<union> set_option (held_by th)) (sv_pool S)"
    using pool v new by simp
  have "set_option (claimer R t) \<subseteq> ran (claimer R)" by (auto simp: ran_def)
  then have "ran (claimer R) - set_option (claimer R t) \<union> set_option (claimed_by th) = ran (claimer R)"
    using v new by auto
  with ok db show "run_claims (db_runs (sv_db S)) = ran (claimer R) - set_option (claimer R t) \<union> set_option (claimed_by th)"
    by (simp add: runner_ok_def)
  show "db_ok (sv_db S)" using ok db by (simp add: runner_ok_def)
  show "worker_key (p_heap (sv_pool S) s) = worker_key (p_heap (sv_pool (rn_service R)) s)"
    if "s \<in> ran (holder R)" "holder R t \<noteq> Some s" for s using keys that v by simp
qed (use thread_views(1) [OF t] new in auto)

text \<open>A move that ends the claim in the database.\<close>

lemma runner_ok_unclaim:
  assumes ok: "runner_ok R" and t: "rn_threads R t = Some old"
    and new: "held_by th = held_by old" "claimed_by th = None" "claimed_by old = Some c"
      "request_of th = request_of old"
    and pool: "sv_pool S = sv_pool (rn_service R)"
    and db: "db_ok (sv_db S)" "run_claims (db_runs (sv_db S)) = run_claims (db_runs (sv_db (rn_service R))) - {c}"
  shows "runner_ok (set_thread t th S R)"
proof (rule runner_ok_set [OF ok])
  note v = thread_views(1) [OF t]
  have "set_option (holder R t) \<subseteq> ran (holder R)" by (auto simp: ran_def)
  then have "ran (holder R) - set_option (holder R t) \<union> set_option (held_by th) = ran (holder R)"
    using v new by auto
  with ok pool show "pool_ok (ran (holder R) - set_option (holder R t) \<union> set_option (held_by th)) (sv_pool S)"
    by (simp add: runner_ok_def)
  show "run_claims (db_runs (sv_db S)) = ran (claimer R) - set_option (claimer R t) \<union> set_option (claimed_by th)"
    using ok db(2) v new by (simp add: runner_ok_def)
  show "db_ok (sv_db S)" by (rule db(1))
  show "worker_key (p_heap (sv_pool S) r) = own_key (request_of th)" if "held_by th = Some r" for r
    using that ok t new pool by (simp add: runner_ok_def isolated_def)
qed (use thread_views(1) [OF t] new pool in auto)

section \<open>Every step preserves the invariant\<close>

lemma claim_of_args: "(ba_tenant (claim_args P), ba_release (claim_args P), ba_key (claim_args P)) = claim_of P"
  by (simp add: claim_args_def claim_of_def)

lemma begin_run_claim:
  assumes "begin_run i us a db = Inr (db', c)" "db_ok db"
  shows "claim_cached c = Some x \<Longrightarrow> run_claims (db_runs db') = run_claims (db_runs db)"
    and "claim_cached c = None \<Longrightarrow> claim_run c = Some j \<Longrightarrow> j = i \<and>
      run_claims (db_runs db') = insert ((ba_tenant a, ba_release a, ba_key a), i) (run_claims (db_runs db)) \<and>
      (\<forall>k. (k, i) \<notin> run_claims (db_runs db))"
proof -
  have "(claim_cached c = Some x \<longrightarrow> run_claims (db_runs db') = run_claims (db_runs db)) \<and>
    (claim_cached c = None \<longrightarrow> claim_run c = Some j \<longrightarrow> j = i \<and>
      run_claims (db_runs db') = insert ((ba_tenant a, ba_release a, ba_key a), i) (run_claims (db_runs db)) \<and>
      (\<forall>k. (k, i) \<notin> run_claims (db_runs db)))"
    using assms
  proof (cases rule: begin_run_cases)
    case (claim keys)
    have "i \<notin> ru_id ` set (db_runs db)"
      using claim(1) by (auto simp: claim_run_row_def sql_insert_Some split: option.splits)
    then have "\<forall>k. (k, i) \<notin> run_claims (db_runs db)" by (auto simp: run_claims_def)
    with claim_run_row_ok [OF claim(1) assms(2) claim(2,3)] show ?thesis by auto
  qed auto
  then show "claim_cached c = Some x \<Longrightarrow> run_claims (db_runs db') = run_claims (db_runs db)"
    and "claim_cached c = None \<Longrightarrow> claim_run c = Some j \<Longrightarrow> j = i \<and>
      run_claims (db_runs db') = insert ((ba_tenant a, ba_release a, ba_key a), i) (run_claims (db_runs db)) \<and>
      (\<forall>k. (k, i) \<notin> run_claims (db_runs db))" by blast+
qed

lemma step_claim_cached:
  assumes ok: "runner_ok R" and t: "rn_threads R t = Some (Prepared P)"
    and c: "invoke_claim i us P (rn_service R) = Inr (S, c)" "claim_cached c = Some x"
  shows "runner_ok (end_thread t S R)"
proof -
  from c(1) obtain db where db: "begin_run i us (claim_args P) (sv_db (rn_service R)) = Inr (db, c)"
    "S = (rn_service R)\<lparr>sv_db := db\<rparr>" by (auto simp: invoke_claim_def split: sum.splits)
  have d: "db_ok (sv_db (rn_service R))" using ok by (simp add: runner_ok_def)
  show ?thesis
    using begin_run_ok [OF db(1) d] begin_run_claim(1) [OF db(1) d c(2)] thread_views(1) [OF t] ok db(2)
    by (intro runner_ok_end [OF ok]) (simp_all add: runner_ok_def)
qed

lemma step_claim:
  assumes ok: "runner_ok R" and t: "rn_threads R t = Some (Prepared P)"
    and c: "invoke_claim i us P (rn_service R) = Inr (S, c)" "claim_cached c = None" "claim_run c = Some j"
  shows "runner_ok (set_thread t (Claimed P j) S R)"
proof -
  from c(1) obtain db where db: "begin_run i us (claim_args P) (sv_db (rn_service R)) = Inr (db, c)"
    and S: "S = (rn_service R)\<lparr>sv_db := db\<rparr>" by (auto simp: invoke_claim_def split: sum.splits)
  have d: "db_ok (sv_db (rn_service R))" using ok by (simp add: runner_ok_def)
  note b = begin_run_claim(2) [OF db d c(2,3), unfolded claim_of_args]
  have cl: "run_claims (db_runs (sv_db (rn_service R))) = ran (claimer R)" using ok by (simp add: runner_ok_def)
  have fresh: "(claim_of P, j) \<notin> ran (claimer R)" using b cl by blast
  have new: "run_claims (db_runs db) = insert (claim_of P, j) (ran (claimer R))" using b cl by simp
  show ?thesis
    using begin_run_ok [OF db d] new fresh thread_views(1) [OF t] ok
    by (intro runner_ok_set [OF ok]) (auto simp: S runner_ok_def)
qed

lemma step_register_fails:
  assumes ok: "runner_ok R" and t: "rn_threads R t = Some (Holding P i r)"
    and g: "invoke_register B P r (rn_service R) = (S, Inl (e, w))"
  shows "runner_ok (set_thread t (Failing P i w e) S R)"
proof -
  from g obtain p res where p: "pool_invalidate B r (sv_pool (rn_service R)) = (p, res)"
    and S: "S = (rn_service R)\<lparr>sv_pool := p\<rparr>" and w: "w = Some r \<or> w = None"
    by (auto simp: invoke_register_def Let_def split: if_splits prod.splits sum.splits)
  have r: "r \<in> ran (holder R)" using held_in [OF t] by simp
  have pk: "pool_ok (ran (holder R)) (sv_pool (rn_service R))" using ok by (simp add: runner_ok_def)
  from pool_invalidate_ok(1) [OF p pk held_created [OF pk r]] have p': "pool_ok (ran (holder R)) p" .
  note key = pool_invalidate_key(1) [OF p]
  from w show ?thesis
  proof
    assume w: "w = None"
    show ?thesis
      by (rule runner_ok_drop [OF ok t]) (use p' key w S in \<open>auto intro: pool_ok_mono\<close>)
  next
    assume w: "w = Some r"
    have "ran (holder R) - {r} \<union> {r} = ran (holder R)" using r by blast
    moreover have "ran (claimer R) - {(claim_of P, i)} \<union> {(claim_of P, i)} = ran (claimer R)"
      using claim_in [OF t] by auto
    moreover have "worker_key (p_heap (sv_pool (rn_service R)) r) = own_key P"
      using ok t by (force simp: runner_ok_def isolated_def)
    ultimately show ?thesis
      using p' key S thread_views(1) [OF t] ok w
      by (intro runner_ok_set [OF ok]) (auto simp: runner_ok_def)
  qed
qed

lemma step_fail_worker:
  assumes ok: "runner_ok R" and t: "rn_threads R t = Some (Failing P i w e)"
  shows "runner_ok (set_thread t (Abandoning P i e) (invoke_fail_worker B w (rn_service R)) R)"
proof (cases w)
  case None
  then show ?thesis
    by (intro runner_ok_drop [OF ok t]) (use ok in \<open>auto simp: invoke_fail_worker_def runner_ok_def\<close>)
next
  case (Some r)
  obtain p res where p: "pool_invalidate B r (sv_pool (rn_service R)) = (p, res)" by fastforce
  have r: "r \<in> ran (holder R)" using held_in [OF t] Some by simp
  have pk: "pool_ok (ran (holder R)) (sv_pool (rn_service R))" using ok by (simp add: runner_ok_def)
  from pool_invalidate_ok(1) [OF p pk held_created [OF pk r]] have p': "pool_ok (ran (holder R)) p" .
  show ?thesis
    by (rule runner_ok_drop [OF ok t])
      (use p' p pool_invalidate_key(1) [OF p] Some in \<open>auto simp: invoke_fail_worker_def intro: pool_ok_mono\<close>)
qed

lemma step_settle:
  assumes ok: "runner_ok R" and t: "rn_threads R t = Some (Settling P r x)"
  shows "runner_ok (set_thread t (Popping P (Inr x)) (invoke_settle B ms P r x (rn_service R)) R)"
proof -
  have r: "r \<in> ran (holder R)" using held_in [OF t] by simp
  have pk: "pool_ok (ran (holder R)) (sv_pool (rn_service R))" using ok by (simp add: runner_ok_def)
  define p' where "p' = sv_pool (invoke_settle B ms P r x (rn_service R))"
  have "pool_ok (ran (holder R) - {r}) p' \<and> (\<forall>s \<in> ran (holder R) - {r}. worker_key (p_heap p' s) =
      worker_key (p_heap (sv_pool (rn_service R)) s))"
  proof (cases "rr_status x = ''SUCCEEDED'' \<or> rr_error_code x \<in> set reusable_errors")
    case True
    obtain q res where q: "pool_release B ms (pr_policy P) r (sv_pool (rn_service R)) = (q, res)" by fastforce
    from True q have "p' = q" by (simp add: p'_def invoke_settle_def)
    with pool_release_ok [OF q pk r] show ?thesis by simp
  next
    case False
    obtain q res where q: "pool_invalidate B r (sv_pool (rn_service R)) = (q, res)" by fastforce
    from False q have "p' = q" by (simp add: p'_def invoke_settle_def)
    with pool_invalidate_ok(1) [OF q pk held_created [OF pk r]] pool_invalidate_key(1) [OF q] show ?thesis
      by (auto intro: pool_ok_mono)
  qed
  then show ?thesis
    by (intro runner_ok_drop [OF ok t]) (auto simp: p'_def invoke_settle_def)
qed

lemma step_finish:
  assumes ok: "runner_ok R" and t: "rn_threads R t = Some (Ran P i r x)"
    and f: "invoke_finish C us i P x (rn_service R) = Inr S"
  shows "runner_ok (set_thread t (Settling P r x) S R)"
proof -
  from f obtain db where db: "finish_run us i (rq_key (pr_request P)) (rq_tenant (pr_request P))
      (rq_release (pr_request P)) x (sc_idempotency_retention_ms C) (sv_db (rn_service R)) = Inr db"
    and S: "S = (rn_service R)\<lparr>sv_db := db\<rparr>" by (auto simp: invoke_finish_def split: sum.splits)
  have d: "db_ok (sv_db (rn_service R))" using ok by (simp add: runner_ok_def)
  show ?thesis
    by (rule runner_ok_unclaim [OF ok t])
      (use finish_run_effect(2,3) [OF db d] S in \<open>auto simp: claim_of_def\<close>)
qed

lemma step_abandon:
  assumes ok: "runner_ok R" and t: "rn_threads R t = Some (Abandoning P i e)"
  shows "runner_ok (set_thread t (Popping P (Inl (raised e))) (invoke_abandon us i P e (rn_service R)) R)"
proof -
  have d: "db_ok (sv_db (rn_service R))" using ok by (simp add: runner_ok_def)
  have "k = (rq_tenant (pr_request P), rq_release (pr_request P), rq_key (pr_request P))"
    if "(k, i) \<in> run_claims (db_runs (sv_db (rn_service R)))" for k
    using claimer_unique_run [OF ok t _ that] by (simp add: claim_of_def)
  note a = abandon_run_effect [OF d this refl, where now = us and code = "raised_code e" and message = "exn_msg e"]
  show ?thesis
    by (rule runner_ok_unclaim [OF ok t]) (use a in \<open>auto simp: invoke_abandon_def claim_of_def\<close>)
qed

lemma finish_never_lost:
  assumes ok: "runner_ok R" and t: "rn_threads R t = Some (Ran P i r x)"
  shows "\<exists>S. invoke_finish C us i P x (rn_service R) = Inr S"
proof -
  let ?db = "sv_db (rn_service R)" and ?key = "(rq_tenant (pr_request P), rq_release (pr_request P), rq_key (pr_request P))"
  have d: "db_ok ?db" using ok by (simp add: runner_ok_def)
  have c: "(?key, i) \<in> run_claims (db_runs ?db)"
    using claim_in [OF t] ok by (simp add: runner_ok_def claim_of_def)
  then obtain u where u: "u \<in> set (db_runs ?db)" "ru_id u = i" "ru_state u = RRunning"
    by (auto simp: run_claims_def)
  have n1: "sql_count (\<lambda>r. ru_id r = i \<and> ru_state r = RRunning) (db_runs ?db) = 1"
    using d u by (intro sql_count_unique [where key = ru_id]) (auto simp: db_ok_def)
  from c d have "(?key, i) \<in> key_claims (db_keys ?db)" by (simp add: db_ok_def)
  then obtain k where k: "k \<in> set (db_keys ?db)" "key_of k = ?key" "ik_run k = i" "ik_state k = KRunning"
    by (auto simp: key_claims_def)
  have n2: "sql_count (\<lambda>k. key_of k = ?key \<and> ik_run k = i \<and> ik_state k = KRunning) (db_keys ?db) = 1"
    using d k by (intro sql_count_unique [where key = key_of]) (auto simp: db_ok_def)
  show ?thesis
    using n1 n2 by (simp add: invoke_finish_def finish_run_def Let_def at_key_fun)
qed

section \<open>The other requests\<close>

lemma purge_claims:
  "db_runs (fst (purge_expired_leases us db)) = db_runs db"
  "db_runs (fst (purge_expired_idempotency us db)) = db_runs db"
  "run_claims (db_runs (fst (purge_old_runs us age db))) = run_claims (db_runs db)"
proof -
  have "run_claims (sql_delete (\<lambda>r. ru_state r \<noteq> RRunning \<and> Q r) rs) = run_claims rs" for Q rs
    by (rule run_claims_delete_ended) simp
  then show "run_claims (db_runs (fst (purge_old_runs us age db))) = run_claims (db_runs db)"
    by (simp add: purge_old_runs_def Let_def)
qed (simp_all add: purge_expired_leases_def purge_expired_idempotency_def Let_def)

lemma step_maintain:
  assumes ok: "runner_ok R"
  shows "runner_ok (same_threads (service_maintain B C us ms (rn_service R)) R)"
proof -
  obtain p res where p: "pool_reap B (sc_pool C) ms (sv_pool (rn_service R)) = (p, res)" by fastforce
  have pk: "pool_ok (ran (holder R)) (sv_pool (rn_service R))" using ok by (simp add: runner_ok_def)
  have d: "db_ok (sv_db (rn_service R))" using ok by (simp add: runner_ok_def)
  have sv: "sv_pool (service_maintain B C us ms (rn_service R)) = p"
    by (simp add: service_maintain_def p Let_def split: sum.splits)
  show ?thesis
  proof (rule runner_ok_same [OF ok])
    show "pool_ok (ran (holder R)) (sv_pool (service_maintain B C us ms (rn_service R)))"
      using pool_reap_ok(1) [OF p pk] sv by simp
    show "db_ok (sv_db (service_maintain B C us ms (rn_service R)))"
      using d by (simp add: service_maintain_def p Let_def purge_old_runs_ok purge_expired_idempotency_ok
          purge_expired_leases_ok split: sum.splits)
    show "run_claims (db_runs (sv_db (service_maintain B C us ms (rn_service R)))) =
        run_claims (db_runs (sv_db (rn_service R)))"
      by (simp add: service_maintain_def p Let_def purge_claims split: sum.splits)
  qed (use pool_reap_ok(2) [OF p pk] sv in simp)
qed

lemma step_cancel:
  assumes ok: "runner_ok R" and r: "r < p_next (sv_pool (rn_service R))"
    and c: "cancel_call B i r (rn_service R) = (S, x)"
  shows "runner_ok (same_threads S R)"
proof -
  obtain b y where b: "be_cancel B (p_backend (sv_pool (rn_service R))) (p_heap (sv_pool (rn_service R)) r) i = (b, y)"
    by fastforce
  define p where "p = (sv_pool (rn_service R))\<lparr>p_backend := b\<rparr>"
  have pk: "pool_ok (ran (holder R)) p" using ok by (simp add: p_def runner_ok_def pool_ok_backend)
  obtain q res where q: "pool_invalidate B r p = (q, res)" by fastforce
  have r': "r < p_next p" using r by (simp add: p_def)
  have S: "S = (rn_service R)\<lparr>sv_pool := sv_pool S\<rparr>" "sv_pool S = p \<or> sv_pool S = q"
    using c b q by (auto simp: cancel_call_def p_def [symmetric] split: sum.splits)
  have "p_heap p = p_heap (sv_pool (rn_service R))" by (simp add: p_def)
  then have keys: "worker_key (p_heap (sv_pool S) s) = worker_key (p_heap (sv_pool (rn_service R)) s)" for s
    using S(2) pool_invalidate_key(1) [OF q] by auto
  have po: "pool_ok (ran (holder R)) (sv_pool S)" using S(2) pk pool_invalidate_ok(1) [OF q pk r'] by auto
  have "sv_db S = sv_db (rn_service R)" using S(1) by (metis service.ext_inject service.surjective service.update_convs(3))
  with keys po ok show ?thesis by (intro runner_ok_same [OF ok]) (auto simp: runner_ok_def)
qed

lemma other_step_ok:
  assumes "other_step B C R R'" "runner_ok R"
  shows "runner_ok R'"
  using assms(1)
proof cases
  case (acquire_lease us i tenant pr p rel S l)
  then obtain db where "create_lease i us tenant pr p rel (sc_lease_ttl_ms C) (sv_db (rn_service R)) = Inr (db, l)"
    and S: "S = (rn_service R)\<lparr>sv_db := db\<rparr>"
    by (auto simp: service_acquire_lease_def split: sum.splits if_splits)
  then have "db_ok db" "db_runs db = db_runs (sv_db (rn_service R))"
    using create_lease_ok assms(2) by (auto simp: runner_ok_def create_lease_def Let_def split: option.splits)
  with acquire_lease(1) S assms(2) show ?thesis
    by (simp only:) (intro runner_ok_same [OF assms(2)]; simp add: runner_ok_def)
next
  case (renew_lease us tenant i S l)
  then obtain db where "renew_lease us i tenant (sc_lease_ttl_ms C) (sv_db (rn_service R)) = Inr (db, l)"
    and S: "S = (rn_service R)\<lparr>sv_db := db\<rparr>"
    by (auto simp: service_renew_lease_def split: sum.splits)
  then have "db_ok db" "db_runs db = db_runs (sv_db (rn_service R))"
    using renew_lease_ok assms(2) by (auto simp: runner_ok_def renew_lease_def Let_def split: sum.splits)
  with renew_lease(1) S assms(2) show ?thesis
    by (simp only:) (intro runner_ok_same [OF assms(2)]; simp add: runner_ok_def)
next
  case (release_lease tenant i S)
  then obtain db where "delete_lease i tenant (sv_db (rn_service R)) = Inr db"
    and S: "S = (rn_service R)\<lparr>sv_db := db\<rparr>"
    by (auto simp: service_release_lease_def split: sum.splits)
  then have "db_ok db" "db_runs db = db_runs (sv_db (rn_service R))"
    using delete_lease_ok assms(2) by (auto simp: runner_ok_def delete_lease_def split: option.splits if_splits)
  with release_lease(1) S assms(2) show ?thesis
    by (simp only:) (intro runner_ok_same [OF assms(2)]; simp add: runner_ok_def)
next
  case (maintain us ms)
  with step_maintain [OF assms(2)] show ?thesis by simp
next
  case (cancel r i S x)
  with step_cancel [OF assms(2)] show ?thesis by simp
next
  case (publish cat)
  then show ?thesis
    by (simp only:) (intro runner_ok_same [OF assms(2)]; use assms(2) in \<open>simp add: runner_ok_def\<close>)
qed

section \<open>Acquisition, over any provider\<close>

context sandbox_backend
begin

lemma step_acquire_fails:
  assumes ok: "runner_ok R" and t: "rn_threads R t = Some (Claimed P i)"
    and a: "invoke_acquire B C ms P (rn_service R) = (S, Inl e)"
  shows "runner_ok (set_thread t (Abandoning P i e) S R)"
proof -
  from a obtain p where p: "pool_acquire B (sc_pool C) ms (rq_tenant (pr_request P)) (pr_release P) (pr_policy P)
      (sv_pool (rn_service R)) = (p, Inl e)" and S: "S = (rn_service R)\<lparr>sv_pool := p\<rparr>"
    by (auto simp: invoke_acquire_def split: prod.splits)
  have pk: "pool_ok (ran (holder R)) (sv_pool (rn_service R))" using ok by (simp add: runner_ok_def)
  from pool_acquire_ok [OF p pk] have "pool_ok (ran (holder R)) p"
    "\<forall>s \<in> ran (holder R). p_heap p s = p_heap (sv_pool (rn_service R)) s"
    by (simp_all add: acquire_post_def)
  then show ?thesis
    by (intro runner_ok_drop [OF ok t]) (auto simp: S)
qed

lemma step_acquire:
  assumes ok: "runner_ok R" and t: "rn_threads R t = Some (Claimed P i)"
    and a: "invoke_acquire B C ms P (rn_service R) = (S, Inr r)"
  shows "runner_ok (set_thread t (Holding P i r) S R)"
proof -
  from a obtain p where p: "pool_acquire B (sc_pool C) ms (rq_tenant (pr_request P)) (pr_release P) (pr_policy P)
      (sv_pool (rn_service R)) = (p, Inr r)" and S: "S = (rn_service R)\<lparr>sv_pool := p\<rparr>"
    by (auto simp: invoke_acquire_def split: prod.splits)
  have pk: "pool_ok (ran (holder R)) (sv_pool (rn_service R))" using ok by (simp add: runner_ok_def)
  note post = pool_acquire_ok [OF p pk, unfolded acquire_post_def]
  have p': "pool_ok (insert r (ran (holder R))) p" "r \<notin> ran (holder R)"
    "\<forall>s \<in> ran (holder R). p_heap p s = p_heap (sv_pool (rn_service R)) s"
    "worker_key (p_heap p r) = own_key P"
    using post by (simp_all add: acquired_def own_key_def)
  have "ran (claimer R) - {(claim_of P, i)} \<union> {(claim_of P, i)} = ran (claimer R)"
    using claim_in [OF t] by auto
  with p' S thread_views(1) [OF t] ok show ?thesis
    by (intro runner_ok_set [OF ok]) (auto simp: runner_ok_def)
qed

lemma thread_step_ok:
  assumes "thread_step B C t R R'" and ok: "runner_ok R"
  shows "runner_ok R'"
  using assms(1)
proof cases
  case (prepare us rq P)
  note v = thread_views(2) [OF prepare(2)]
  show ?thesis unfolding prepare(1)
    by (rule runner_ok_set [OF ok]) (use ok v in \<open>auto simp: runner_ok_def\<close>)
next
  case (claim_refused P i us e)
  show ?thesis unfolding claim_refused(1)
    by (rule runner_ok_end [OF ok]) (use thread_views(1) [OF claim_refused(2)] ok in \<open>auto simp: runner_ok_def\<close>)
next
  case (register P i r S)
  then have "S = (rn_service R)\<lparr>sv_active := sv_active S\<rparr>"
    by (auto simp: invoke_register_def Let_def split: if_splits prod.splits sum.splits)
  then have "sv_db S = sv_db (rn_service R)" "sv_pool S = sv_pool (rn_service R)"
    by (metis service.select_convs service.surjective service.update_convs(4))+
  then show ?thesis unfolding register(1)
    by (intro runner_ok_move [OF ok register(2), where b = "p_backend (sv_pool (rn_service R))"]) auto
next
  case (run_fails P i r S e)
  then obtain b where "S = (rn_service R)\<lparr>sv_pool := (sv_pool (rn_service R))\<lparr>p_backend := b\<rparr>\<rparr>"
    by (auto simp: invoke_run_def split: prod.splits)
  then show ?thesis unfolding run_fails(1) by (intro runner_ok_move [OF ok run_fails(2)]) auto
next
  case (run P i r S x)
  then obtain b where "S = (rn_service R)\<lparr>sv_pool := (sv_pool (rn_service R))\<lparr>p_backend := b\<rparr>\<rparr>"
    by (auto simp: invoke_run_def split: prod.splits)
  then show ?thesis unfolding run(1) by (intro runner_ok_move [OF ok run(2)]) auto
next
  case (finish_fails P i r x us e)
  show ?thesis unfolding finish_fails(1) by (rule runner_ok_move [OF ok finish_fails(2), where b = "p_backend (sv_pool (rn_service R))"]) auto
next
  case (pop P x)
  show ?thesis unfolding pop(1)
    by (rule runner_ok_end [OF ok]) (use thread_views(1) [OF pop(2)] ok in \<open>auto simp: runner_ok_def invoke_pop_def\<close>)
qed (simp_all add: ok step_claim_cached step_claim step_acquire_fails step_acquire step_register_fails step_finish
    step_settle step_fail_worker step_abandon)

lemma runner_steps_ok: "(runner_step B C)\<^sup>*\<^sup>* R R' \<Longrightarrow> runner_ok R \<Longrightarrow> runner_ok R'"
  by (induction rule: rtranclp_induct) (auto elim!: runner_step.cases intro: thread_step_ok other_step_ok)

end

section \<open>Reachable states\<close>

definition runner_started :: "'b backend \<Rightarrow> 'b runner \<Rightarrow> bool" where
  "runner_started B R \<longleftrightarrow> (\<exists>us S. pool_ok {} (sv_pool S) \<and> db_ok (sv_db S) \<and>
     (\<exists>n. service_startup B us S = (rn_service R, Inr n)) \<and> rn_threads R = (\<lambda>_. None))"

definition runner_reachable :: "'b backend \<Rightarrow> runner_cfg \<Rightarrow> 'b runner \<Rightarrow> bool" where
  "runner_reachable B C R \<longleftrightarrow> (\<exists>R0. runner_started B R0 \<and> (runner_step B C)\<^sup>*\<^sup>* R0 R)"

lemma runner_started_ok:
  assumes "runner_started B R"
  shows "runner_ok R"
proof -
  from assms obtain us S n where S: "pool_ok {} (sv_pool S)" "db_ok (sv_db S)"
    "service_startup B us S = (rn_service R, Inr n)" "rn_threads R = (\<lambda>_. None)"
    by (auto simp: runner_started_def)
  obtain p res where p: "reset_after_restart B (sv_pool S) = (p, res)" by fastforce
  have cl: "run_claims (db_runs (fst (reset_running us db))) = {}" for db
    by (auto simp: reset_running_def run_claims_def set_sql_update)
  have "rn_service R = S\<lparr>sv_pool := p, sv_db := fst (purge_expired_idempotency us
      (fst (purge_expired_leases us (fst (reset_running us (sv_db S))))))\<rparr>"
    using S(3) p by (auto simp: service_startup_def Let_def split: sum.splits)
  moreover have "holder R = (\<lambda>_. None)" "claimer R = (\<lambda>_. None)"
    using S(4) by (auto simp: holder_def claimer_def fun_eq_iff)
  ultimately show ?thesis
    using reset_after_restart_ok [OF p S(1)] S(2,4) cl
    by (simp add: runner_ok_def isolated_def inj_map_def purge_claims reset_running_ok purge_expired_leases_ok
        purge_expired_idempotency_ok)
qed

context sandbox_backend
begin

lemma reachable_ok: "runner_reachable B C R \<Longrightarrow> runner_ok R"
  unfolding runner_reachable_def using runner_started_ok runner_steps_ok by blast

lemma reachable_exclusive:
  assumes "runner_reachable B C R" "rn_threads R t1 = Some th1" "rn_threads R t2 = Some th2"
    and "held_by th1 = Some r" "held_by th2 = Some r"
  shows "t1 = t2"
proof -
  from reachable_ok [OF assms(1)] have "inj_map (holder R)" by (simp add: runner_ok_def)
  moreover have "holder R t1 = Some r" "holder R t2 = Some r"
    using assms(2-5) by (simp_all add: holder_def)
  ultimately show ?thesis by (rule inj_mapD)
qed

lemma reachable_isolated:
  assumes "runner_reachable B C R" "rn_threads R t = Some th" "held_by th = Some r"
  shows "worker_key (p_heap (sv_pool (rn_service R)) r) = own_key (request_of th)"
    "r \<notin> set (idle_refs (sv_pool (rn_service R)))"
proof -
  from reachable_ok [OF assms(1)] have ok: "runner_ok R" .
  with assms(2,3) show "worker_key (p_heap (sv_pool (rn_service R)) r) = own_key (request_of th)"
    by (simp add: runner_ok_def isolated_def)
  show "r \<notin> set (idle_refs (sv_pool (rn_service R)))"
    using ok held_in [OF assms(2,3)] by (auto simp: runner_ok_def pool_ok_def idle_ok_def)
qed

lemma reachable_claims:
  assumes "runner_reachable B C R"
  shows "run_claims (db_runs (sv_db (rn_service R))) = ran (claimer R)"
  using reachable_ok [OF assms] by (simp add: runner_ok_def)

lemma reachable_keys:
  assumes "runner_reachable B C R"
  shows "key_claims (db_keys (sv_db (rn_service R))) = run_claims (db_runs (sv_db (rn_service R)))"
  using reachable_ok [OF assms] by (simp add: runner_ok_def db_ok_def)

lemma reachable_limits:
  assumes "runner_reachable B C R"
  shows "int (card (live_refs (sv_pool (rn_service R)))) \<le> q_max_live (p_quota (sv_pool (rn_service R))) \<and>
    int (live_of (sv_pool (rn_service R)) tenant) \<le> q_max_tenant (p_quota (sv_pool (rn_service R)))"
  using reachable_ok [OF assms] pool_ok_limits by (auto simp: runner_ok_def)

end

section \<open>The sandboxes that were not given back\<close>

text \<open>Every step leaves the record of Pool_Invariants covered by the workers of the pool.\<close>

lemma run_covered: "covered p \<Longrightarrow> be_run (counted B) (p_backend p) w release rq ms = (b, x) \<Longrightarrow> covered (p\<lparr>p_backend := b\<rparr>)"
  by (auto simp: counted_def beside_def intro: covered_backend)

lemma cancel_covered: "covered p \<Longrightarrow> be_cancel (counted B) (p_backend p) w i = (b, x) \<Longrightarrow> covered (p\<lparr>p_backend := b\<rparr>)"
  by (auto simp: counted_def beside_def intro: covered_backend)

lemma same_pool:
  "invoke_claim i us P S = Inr (S', c) \<Longrightarrow> sv_pool S' = sv_pool S" "invoke_finish C us i P x S = Inr S' \<Longrightarrow> sv_pool S' = sv_pool S"
  "sv_pool (invoke_abandon us i P e S) = sv_pool S" "sv_pool (invoke_pop P S) = sv_pool S"
  by (auto simp: invoke_claim_def invoke_finish_def invoke_abandon_def invoke_pop_def split: sum.splits prod.splits)

lemma lease_calls_pool:
  "service_acquire_lease C us i tenant pr p rel S = Inr (S', l) \<Longrightarrow> sv_pool S' = sv_pool S"
  "service_renew_lease C us tenant i S = Inr (S', l) \<Longrightarrow> sv_pool S' = sv_pool S"
  "service_release_lease tenant i S = Inr S' \<Longrightarrow> sv_pool S' = sv_pool S"
  by (auto simp: service_acquire_lease_def service_renew_lease_def service_release_lease_def Let_def split: sum.splits prod.splits if_splits)

lemma register_covered:
  "covered (sv_pool S) \<Longrightarrow> invoke_register (counted B) P r S = (S', x) \<Longrightarrow> covered (sv_pool S')"
  using pool_invalidate_covered [of "sv_pool S" B r]
  by (auto simp: invoke_register_def Let_def split: if_splits prod.splits sum.splits)

lemma run_phase_covered: "covered (sv_pool S) \<Longrightarrow> invoke_run (counted B) P r S = (S', x) \<Longrightarrow> covered (sv_pool S')"
  by (auto simp: invoke_run_def intro: run_covered split: prod.splits)

lemma settle_covered: "covered (sv_pool S) \<Longrightarrow> covered (sv_pool (invoke_settle (counted B) ms P r x S))"
  by (simp add: invoke_settle_def pool_release_covered pool_invalidate_covered)

lemma fail_worker_covered: "covered (sv_pool S) \<Longrightarrow> covered (sv_pool (invoke_fail_worker (counted B) w S))"
  by (simp add: invoke_fail_worker_def pool_invalidate_covered split: option.split)

lemma cancel_call_covered:
  assumes "covered (sv_pool S)" "cancel_call (counted B) i r S = (S', x)"
  shows "covered (sv_pool S')"
proof -
  obtain b y where c: "be_cancel (counted B) (p_backend (sv_pool S)) (p_heap (sv_pool S) r) i = (b, y)" by fastforce
  from cancel_covered [OF assms(1) c] have "covered ((sv_pool S)\<lparr>p_backend := b\<rparr>)" .
  with assms(2) c show ?thesis
    using pool_invalidate_covered [of "(sv_pool S)\<lparr>p_backend := b\<rparr>" B r]
    by (auto simp: cancel_call_def split: sum.splits)
qed

lemma maintain_covered: "covered (sv_pool S) \<Longrightarrow> covered (sv_pool (service_maintain (counted B) C us ms S))"
  using pool_reap_covered [of "sv_pool S" B "sc_pool C" ms]
  by (auto simp: service_maintain_def Let_def split: prod.split sum.split)

context sandbox_backend
begin

lemma acquire_phase_covered:
  "covered (sv_pool S) \<Longrightarrow> invoke_acquire (counted B) C ms P S = (S', x) \<Longrightarrow> covered (sv_pool S')"
  using pool_acquire_covered [of "sv_pool S" "sc_pool C" ms "rq_tenant (pr_request P)" "pr_release P" "pr_policy P"] by (auto simp: invoke_acquire_def split: prod.splits)

lemma thread_step_covered:
  "thread_step (counted B) C t R R' \<Longrightarrow> covered (sv_pool (rn_service R)) \<Longrightarrow> covered (sv_pool (rn_service R'))"
  by (induction rule: thread_step.induct)
    (auto simp: thread_upd same_pool settle_covered fail_worker_covered
      intro: acquire_phase_covered register_covered run_phase_covered)

lemma other_step_covered:
  "other_step (counted B) C R R' \<Longrightarrow> covered (sv_pool (rn_service R)) \<Longrightarrow> covered (sv_pool (rn_service R'))"
  by (induction rule: other_step.induct)
    (auto simp: thread_upd lease_calls_pool maintain_covered intro: cancel_call_covered)

lemma reachable_covered:
  assumes "runner_reachable (counted B) C R"
  shows "covered (sv_pool (rn_service R))"
proof -
  from assms obtain R0 where R0: "runner_started (counted B) R0" "(runner_step (counted B) C)\<^sup>*\<^sup>* R0 R"
    by (auto simp: runner_reachable_def)
  from R0(1) obtain us S n where "service_startup (counted B) us S = (rn_service R0, Inr n)" by (auto simp: runner_started_def)
  then have "sv_pool (rn_service R0) = fst (reset_after_restart (counted B) (sv_pool S))"
    by (auto simp: service_startup_def Let_def split: prod.splits sum.splits dest!: arg_cong [where f = sv_pool])
  then have "covered (sv_pool (rn_service R0))" using reset_after_restart_covered [of B "sv_pool S"] by simp
  with R0(2) show ?thesis
    by (induction rule: rtranclp_induct) (auto elim!: runner_step.cases intro: thread_step_covered other_step_covered)
qed

text \<open>The record changes no answer, so the provider with it meets the contract.\<close>

lemma counted_backend: "sandbox_backend (counted B)"
proof
  fix b now tenant release policy ttl b' w
  assume "be_create (counted B) b now tenant release policy ttl = (b', Inr w)"
  then obtain b1 where "be_create B (fst b) now tenant release policy ttl = (b1, Inr w)"
    by (auto simp: counted_def split: prod.splits sum.splits)
  then show "created_for tenant release (now + 1000 * ttl) w" by (rule create_law)
next
  fix b now w ttl b' w'
  assume "be_renew (counted B) b now w ttl = (b', Inr w')"
  then have "be_renew B (fst b) now w ttl = (fst (be_renew B (fst b) now w ttl), Inr w')"
    by (auto simp: counted_def beside_def prod_eq_iff)
  then show "\<exists>e\<ge>now + 1000 * ttl. w' = w\<lparr>w_expires := Some e\<rparr>" by (rule renew_law)
qed

end

interpretation counted_sandbox: sandbox_backend "counted (open_provider K)" for K
  by (rule open_sandbox.counted_backend)

end
