(* ===== verification/Runner_System.thy ===== *)
theory Runner_System
  imports Service_Steps
begin

text \<open>
  The runner as a whole: \<open>invoke\<close> for a request that runs alone is a sequence of the concurrent
  steps, and what that gives over any sandbox provider.
\<close>

section \<open>A lone \<open>invoke\<close> is a run of the step relation\<close>

abbreviation steps :: "'b backend \<Rightarrow> runner_cfg \<Rightarrow> 'b runner \<Rightarrow> 'b runner \<Rightarrow> bool" where
  "steps B C \<equiv> (runner_step B C)\<^sup>*\<^sup>*"

lemma step_then: "thread_step B C t R R1 \<Longrightarrow> steps B C R1 R2 \<Longrightarrow> steps B C R R2"
  by (meson converse_rtranclp_into_rtranclp runner_step.thread)

definition at_thread :: "nat \<Rightarrow> thread option \<Rightarrow> 'b service \<Rightarrow> 'b runner \<Rightarrow> 'b runner" where
  "at_thread t th S R = \<lparr>rn_service = S, rn_threads = (rn_threads R)(t := th)\<rparr>"

lemma at_thread_simps [simp]:
  "rn_threads (at_thread t th S R) t = th" "rn_service (at_thread t th S R) = S"
  "set_thread t th' S' (at_thread t th S R) = at_thread t (Some th') S' R"
  "end_thread t S' (at_thread t th S R) = at_thread t None S' R"
  by (simp_all add: at_thread_def set_thread_def end_thread_def)

lemma step_at:
  assumes "thread_step B C t (at_thread t th S R) (at_thread t th' S' R)" "steps B C (at_thread t th' S' R) R2"
  shows "steps B C (at_thread t th S R) R2"
  using assms by (rule step_then)

lemma failed_steps:
  assumes "invoke_failed B us i P w e S = (S', res)"
  shows "steps B C (at_thread t (Some (Failing P i w e)) S R) (at_thread t None S' R)"
proof -
  let ?S1 = "invoke_fail_worker B w S" and ?S2 = "invoke_abandon us i P e (invoke_fail_worker B w S)"
  have S': "S' = invoke_pop P ?S2" using assms by (simp add: invoke_failed_def)
  have "thread_step B C t (at_thread t (Some (Failing P i w e)) S R) (at_thread t (Some (Abandoning P i e)) ?S1 R)"
    using thread_step.fail_worker [of "at_thread t (Some (Failing P i w e)) S R" t P i w e B C] by simp
  moreover have "thread_step B C t (at_thread t (Some (Abandoning P i e)) ?S1 R)
      (at_thread t (Some (Popping P (Inl (raised e)))) ?S2 R)"
    using thread_step.abandon [of "at_thread t (Some (Abandoning P i e)) ?S1 R" t P i e B C us] by simp
  moreover have "thread_step B C t (at_thread t (Some (Popping P (Inl (raised e)))) ?S2 R) (at_thread t None S' R)"
    using thread_step.pop [of "at_thread t (Some (Popping P (Inl (raised e)))) ?S2 R" t P "Inl (raised e)" B C] S'
    by simp
  ultimately show ?thesis by (blast intro: step_at)
qed

lemma abandoning_steps:
  assumes "invoke_failed B us i P None e S = (S', res)"
  shows "steps B C (at_thread t (Some (Abandoning P i e)) S R) (at_thread t None S' R)"
proof -
  let ?S2 = "invoke_abandon us i P e S"
  have S': "S' = invoke_pop P ?S2" using assms by (simp add: invoke_failed_def invoke_fail_worker_def)
  have "thread_step B C t (at_thread t (Some (Abandoning P i e)) S R)
      (at_thread t (Some (Popping P (Inl (raised e)))) ?S2 R)"
    using thread_step.abandon [of "at_thread t (Some (Abandoning P i e)) S R" t P i e B C us] by simp
  moreover have "thread_step B C t (at_thread t (Some (Popping P (Inl (raised e)))) ?S2 R) (at_thread t None S' R)"
    using thread_step.pop [of "at_thread t (Some (Popping P (Inl (raised e)))) ?S2 R" t P "Inl (raised e)" B C] S'
    by simp
  ultimately show ?thesis by (blast intro: step_at)
qed

lemma ran_steps:
  assumes "(case invoke_finish C us i P x S of
       Inl e \<Rightarrow> invoke_failed B us i P (Some r) e S
     | Inr S4 \<Rightarrow> (invoke_pop P (invoke_settle B ms P r x S4), Inr x)) = (S', res)"
  shows "steps B C (at_thread t (Some (Ran P i r x)) S R) (at_thread t None S' R)"
proof (cases "invoke_finish C us i P x S")
  case (Inl e)
  have "thread_step B C t (at_thread t (Some (Ran P i r x)) S R) (at_thread t (Some (Failing P i (Some r) e)) S R)"
    using thread_step.finish_fails [of "at_thread t (Some (Ran P i r x)) S R" t P i r x C us e B] Inl by simp
  then show ?thesis
    by (rule step_at [OF _ failed_steps]) (use assms Inl in simp)
next
  case (Inr S4)
  let ?S5 = "invoke_settle B ms P r x S4"
  have "thread_step B C t (at_thread t (Some (Ran P i r x)) S R) (at_thread t (Some (Settling P r x)) S4 R)"
    using thread_step.finish [of "at_thread t (Some (Ran P i r x)) S R" t P i r x C us S4 B] Inr by simp
  moreover have "thread_step B C t (at_thread t (Some (Settling P r x)) S4 R)
      (at_thread t (Some (Popping P (Inr x))) ?S5 R)"
    using thread_step.settle [of "at_thread t (Some (Settling P r x)) S4 R" t P r x B C ms] by simp
  moreover have "thread_step B C t (at_thread t (Some (Popping P (Inr x))) ?S5 R) (at_thread t None S' R)"
    using thread_step.pop [of "at_thread t (Some (Popping P (Inr x))) ?S5 R" t P "Inr x" B C] assms Inr by simp
  ultimately show ?thesis by (blast intro: step_at)
qed

lemma claimed_steps:
  assumes "invoke_claimed B C us ms i P S = (S', res)"
  shows "steps B C (at_thread t (Some (Claimed P i)) S R) (at_thread t None S' R)"
proof -
  let ?at = "\<lambda>th S. at_thread t (Some th) S R"
  obtain S1 x1 where a: "invoke_acquire B C ms P S = (S1, x1)" by fastforce
  show ?thesis
  proof (cases x1)
    case (Inl e)
    have "thread_step B C t (?at (Claimed P i) S) (?at (Abandoning P i e) S1)"
      using thread_step.acquire_fails [of "?at (Claimed P i) S" t P i B C ms S1 e] a Inl by simp
    then show ?thesis
      by (rule step_at [OF _ abandoning_steps]) (use assms a Inl in \<open>simp add: invoke_claimed_def\<close>)
  next
    case r: (Inr r)
    have s1: "thread_step B C t (?at (Claimed P i) S) (?at (Holding P i r) S1)"
      using thread_step.acquire [of "?at (Claimed P i) S" t P i B C ms S1 r] a r by simp
    obtain S2 x2 where g: "invoke_register B P r S1 = (S2, x2)" by fastforce
    show ?thesis
    proof (cases x2)
      case (Inl ew)
      obtain e w where ew: "ew = (e, w)" by fastforce
      have "thread_step B C t (?at (Holding P i r) S1) (?at (Failing P i w e) S2)"
        using thread_step.register_fails [of "?at (Holding P i r) S1" t P i r B S2 e w C] g Inl ew by simp
      then have "steps B C (?at (Holding P i r) S1) (at_thread t None S' R)"
        by (rule step_at [OF _ failed_steps]) (use assms a r g Inl ew in \<open>simp add: invoke_claimed_def\<close>)
      with s1 show ?thesis by (rule step_at)
    next
      case (Inr u)
      have s2: "thread_step B C t (?at (Holding P i r) S1) (?at (Registered P i r) S2)"
        using thread_step.register [of "?at (Holding P i r) S1" t P i r B S2 C] g Inr by simp
      obtain S3 x3 where n: "invoke_run B P r S2 = (S3, x3)" by fastforce
      have rest: "steps B C (?at (Registered P i r) S2) (at_thread t None S' R)"
      proof (cases x3)
        case (Inl e)
        have "thread_step B C t (?at (Registered P i r) S2) (?at (Failing P i (Some r) e) S3)"
          using thread_step.run_fails [of "?at (Registered P i r) S2" t P i r B S3 e C] n Inl by simp
        then show ?thesis
          by (rule step_at [OF _ failed_steps])
            (use assms a r g \<open>x2 = Inr u\<close> n Inl in \<open>simp add: invoke_claimed_def\<close>)
      next
        case x: (Inr x)
        have "thread_step B C t (?at (Registered P i r) S2) (?at (Ran P i r x) S3)"
          using thread_step.run [of "?at (Registered P i r) S2" t P i r B S3 x C] n x by simp
        moreover have "steps B C (?at (Ran P i r x) S3) (at_thread t None S' R)"
          using assms a r g \<open>x2 = Inr u\<close> n x by (intro ran_steps) (simp add: invoke_claimed_def)
        ultimately show ?thesis by (rule step_at)
      qed
      show ?thesis by (rule step_at [OF s1 step_at [OF s2 rest]])
    qed
  qed
qed

lemma begin_run_claim_shape:
  "begin_run i us a db = Inr (db', c) \<Longrightarrow> claim_cached c = None \<Longrightarrow> \<exists>j. claim_run c = Some j"
  by (auto simp: begin_run_def claim_run_row_def Let_def split: option.splits if_splits sum.splits)

lemma invoke_steps:
  assumes "invoke B C us ms i rq (rn_service R) = (S', res)" "rn_threads R t = None"
  shows "steps B C R (at_thread t None S' R)"
proof -
  have R: "R = at_thread t None (rn_service R) R"
    using assms(2) by (simp add: at_thread_def fun_upd_idem)
  consider (refused) "S' = rn_service R" | (prepared) P where
      "invoke_prepare C us rq (rn_service R) = Inr P" "invoke_check_active rq (rn_service R) = Inr ()"
    using assms(1) by (auto simp: invoke_def split: sum.splits)
  then show ?thesis
  proof cases
    case refused
    with R show ?thesis by simp
  next
    case (prepared P)
    let ?S = "rn_service R"
    have s0: "thread_step B C t R (at_thread t (Some (Prepared P)) ?S R)"
      using thread_step.prepare [OF assms(2) prepared, of B]
      by (simp add: set_thread_def at_thread_def)
    let ?R1 = "at_thread t (Some (Prepared P)) ?S R"
    have "steps B C ?R1 (at_thread t None S' R)"
    proof (cases "invoke_claim i us P ?S")
      case (Inl e)
      have "thread_step B C t ?R1 (at_thread t None ?S R)"
        using thread_step.claim_refused [of ?R1 t P i us e B C] Inl by simp
      with assms(1) prepared Inl show ?thesis
        by (auto simp: invoke_def intro: step_at)
    next
      case (Inr Sc)
      obtain S1 c where Sc: "invoke_claim i us P ?S = Inr (S1, c)" using Inr by (cases Sc) simp
      show ?thesis
      proof (cases "claim_cached c")
        case (Some x)
        have "thread_step B C t ?R1 (at_thread t None S1 R)"
          using thread_step.claim_cached [of ?R1 t P i us S1 c x B C] Sc Some by simp
        with assms(1) prepared Sc Some show ?thesis
          by (auto simp: invoke_def intro: step_at)
      next
        case None
        then obtain j where j: "claim_run c = Some j"
          using Sc begin_run_claim_shape by (fastforce simp: invoke_claim_def split: sum.splits)
        have "thread_step B C t ?R1 (at_thread t (Some (Claimed P j)) S1 R)"
          using thread_step.claim [of ?R1 t P i us S1 c j B C] Sc None j by simp
        moreover have "steps B C (at_thread t (Some (Claimed P j)) S1 R) (at_thread t None S' R)"
          using assms(1) prepared Sc None j by (intro claimed_steps) (simp add: invoke_def)
        ultimately show ?thesis by (rule step_at)
      qed
    qed
    with s0 show ?thesis by (rule step_then)
  qed
qed

lemma at_thread_idem: "rn_threads R t = None \<Longrightarrow> at_thread t None S R = R\<lparr>rn_service := S\<rparr>"
  by (simp add: at_thread_def fun_upd_idem)

lemma invoke_reachable:
  assumes "runner_reachable B C R" "rn_threads R t = None" "invoke B C us ms i rq (rn_service R) = (S', res)"
  shows "runner_reachable B C (R\<lparr>rn_service := S'\<rparr>)"
proof -
  from invoke_steps [OF assms(3,2)] have "steps B C R (R\<lparr>rn_service := S'\<rparr>)"
    by (simp add: at_thread_idem [OF assms(2)])
  with assms(1) show ?thesis unfolding runner_reachable_def by (meson rtranclp_trans)
qed

context sandbox_backend
begin

lemma invoke_leaves_no_claim:
  assumes "runner_reachable B C R" "rn_threads R t = None" "invoke B C us ms i rq (rn_service R) = (S', res)"
  shows "run_claims (db_runs (sv_db S')) = run_claims (db_runs (sv_db (rn_service R)))"
proof -
  from invoke_reachable [OF assms] have "run_claims (db_runs (sv_db S')) = ran (claimer (R\<lparr>rn_service := S'\<rparr>))"
    using reachable_claims by fastforce
  also have "\<dots> = run_claims (db_runs (sv_db (rn_service R)))"
    unfolding reachable_claims [OF assms(1)] by (simp add: claimer_def [abs_def])
  finally show ?thesis .
qed

lemma reachable_finish:
  assumes "runner_reachable B C R" "rn_threads R t = Some (Ran P i r x)"
  shows "\<exists>S. invoke_finish C us i P x (rn_service R) = Inr S"
  using finish_never_lost [OF reachable_ok [OF assms(1)] assms(2)] .

end

text \<open>The pool's contract, also for the interpretations made before it was proved.\<close>

context sandbox_backend
begin

lemma acquire_spec:
  "pool_acquire B cfg now tenant release policy p = (p', res) \<Longrightarrow> pool_ok H p \<Longrightarrow>
   acquire_post cfg now tenant release policy H (p_heap p) p' res"
  by (rule pool_acquire_ok)

end

text \<open>What a failed \<open>invoke\<close> raises.\<close>

lemma raised_runner: "is_runner_error (raised e)"
  by (cases e) (simp_all add: raised_def)

lemma failed_raises: "invoke_failed B us i P w e S = (S', Inl x) \<Longrightarrow> is_runner_error x"
  by (auto simp: invoke_failed_def raised_runner)

lemma claimed_raises: "invoke_claimed B C us ms i P S = (S', Inl x) \<Longrightarrow> is_runner_error x"
  by (auto simp: invoke_claimed_def dest: failed_raises split: prod.splits sum.splits)

end
