(* ===== verification/Runner_Example.thy ===== *)
theory Runner_Example
  imports Runner_System
begin

text \<open>
  A small concrete runner for the statements about whole runs: one OpenSandbox cluster whose control
  plane and agents give the same answer to every request, one policy, one release, one lease and one
  request. Its start-up and the phases of one \<open>invoke\<close> up to the operator's answer are computed here.
\<close>

section \<open>The configuration\<close>

definition demo_answer :: json where
  "demo_answer = JObj [(''id'', JStr ''s''), (''status'', JStr ''RUNNING''), (''endpoint'', JStr ''e''), (''ok'', JBool True)]"

definition demo_env :: "unit os_env" where
  "demo_env =
     \<lparr>os_clusters = [(''c'', \<lparr>cl_url = ''u'', cl_api_key = None\<rparr>)], os_owner = ''o'', os_port = 1,
      os_sha256 = (\<lambda>s. s), os_token = (\<lambda>_. ''t''), os_isoformat = (\<lambda>_. []), os_str = (\<lambda>_. []),
      os_read = (\<lambda>_. Inr []), os_http = (\<lambda>s c. (s, 0, HttpOk demo_answer))\<rparr>"

definition demo_policy :: security_policy where
  "demo_policy = \<lparr>pol_name = ''p'', pol_cluster = ''c'', pol_cpu = ''1'', pol_memory = ''m'',
     pol_max_timeout_ms = 1000, pol_network_allow = [], pol_reuse_sandbox = True\<rparr>"

definition demo_cfg :: runner_cfg where
  "demo_cfg = \<lparr>sc_root = ''/'', sc_pool = \<lparr>c_idle_seconds = 600, c_orphan_ttl = 3600, c_renew_before = 900,
       c_max_installed = 256\<rparr>, sc_policies = [(''p'', demo_policy)], sc_lease_ttl_ms = 1000,
     sc_idempotency_retention_ms = 1000, sc_run_retention_ms = 1000, sc_sha256 = (\<lambda>_. ''h''),
     sc_dumps = (\<lambda>_. [])\<rparr>"

definition demo_release :: "(string, json) dict" where
  "demo_release = [(''id'', JStr ''r''), (''runtime'', JObj [(''id'', JStr ''i''), (''image'', JStr ''g'')]),
     (''artifact_sha256'', JStr ''a''), (''entrypoint'', JStr ''m:f''), (''profile'', JStr ''p'')]"

definition demo_worker :: worker where
  "demo_worker = \<lparr>w_id = [], w_endpoint = [], w_token = [], w_tenant = [], w_runtime = [], w_profile = [],
     w_group = [], w_created = 0, w_last_used = 0, w_installed = [], w_expires = None, w_runs = 0,
     w_healthy = False, w_destroyed = True, w_headers = []\<rparr>"

definition demo_quota :: quota where
  "demo_quota = \<lparr>q_max_creating = 1, q_creating = 0, q_max_live = 1, q_max_tenant = 1, q_live = 0,
     q_tenant = Map.empty\<rparr>"

definition demo_lease :: lease_row where
  "demo_lease = \<lparr>lr_id = ''l'', lr_tenant = ''t'', lr_project = ''j'', lr_processor = ''q'',
     lr_release = ''r'', lr_expires = 1000, lr_updated = 0\<rparr>"

definition demo_service :: "unit service" where
  "demo_service =
     \<lparr>sv_catalog = [(''r'', \<lparr>rd_metadata = Some demo_release, rd_artifact = Some [], rd_tmp_metadata = None,
                            rd_tmp_artifact = None\<rparr>)],
      sv_db = db_init\<lparr>db_leases := [demo_lease]\<rparr>,
      sv_pool = pool_init (\<lambda>_. demo_worker) demo_quota (), sv_active = []\<rparr>"

definition demo_request :: run_request where
  "demo_request = \<lparr>rq_tenant = ''t'', rq_lease = ''l'', rq_release = ''r'', rq_invocation = ''v'',
     rq_key = ''k'', rq_content = [], rq_attributes = [], rq_parameters = [], rq_timeout_ms = 5\<rparr>"

definition demo_P :: prepared where
  "demo_P = \<lparr>pr_request = demo_request,
     pr_release = \<lparr>rel_id = ''r'', rel_artifact_path = ''//r/operator.tar.gz'', rel_artifact_sha256 = ''a'',
       rel_runtime = \<lparr>rt_id = ''i'', rt_image = ''g'', rt_python = ''3.12''\<rparr>, rel_entrypoint = ''m:f'',
       rel_profile = ''p'', rel_input_attributes = [], rel_output_attributes = []\<rparr>,
     pr_policy = demo_policy,
     pr_lease = \<lparr>le_id = ''l'', le_tenant = ''t'', le_project = ''j'', le_processor = ''q'', le_release = ''r'',
       le_expires_at_ms = 1\<rparr>, pr_fingerprint = ''h''\<rparr>"

definition demo_w :: worker where
  "demo_w = \<lparr>w_id = ''s'', w_endpoint = ''http://e'', w_token = ''t'', w_tenant = ''t'', w_runtime = ''i'',
     w_profile = ''p'', w_group = ''c'', w_created = 0, w_last_used = 0, w_installed = [],
     w_expires = Some 3600000, w_runs = 0, w_healthy = True, w_destroyed = False, w_headers = []\<rparr>"

lemma demo_pool: "sv_pool demo_service = pool_init (\<lambda>_. demo_worker) demo_quota ()"
  "sv_db demo_service = db_init\<lparr>db_leases := [demo_lease]\<rparr>" "sv_active demo_service = []"
  by (simp_all add: demo_service_def)

lemma demo_lease_ok: "require_lease 0 ''l'' ''t'' (Some ''r'') (sv_db demo_service) = Inr (pr_lease demo_P)"
  by code_simp

lemma demo_release_ok: "catalog_get ''/'' (sv_catalog demo_service) ''r'' = Inr (pr_release demo_P)"
  by code_simp

lemma demo_finger: "request_fingerprint demo_cfg rq = ''h''"
  by (simp add: request_fingerprint_def demo_cfg_def)

lemma demo_prepare: "invoke_prepare demo_cfg 0 demo_request demo_service = Inr demo_P"
proof -
  have r: "rq_content demo_request = []" "rq_key demo_request = ''k''" "rq_lease demo_request = ''l''"
    "rq_tenant demo_request = ''t''" "rq_release demo_request = ''r''" "rq_attributes demo_request = []"
    "rq_parameters demo_request = []"
    by (simp_all add: demo_request_def)
  have c: "sc_root demo_cfg = ''/''" "dict_get (sc_policies demo_cfg) (rel_profile (pr_release demo_P)) = Some demo_policy"
    "rel_input_attributes (pr_release demo_P) = []"
    by (simp_all add: demo_cfg_def demo_P_def)
  have s: "safe_request demo_request [] demo_policy = demo_request"
    by (simp add: safe_request_def demo_request_def demo_policy_def)
  have P: "\<lparr>pr_request = demo_request, pr_release = pr_release demo_P, pr_policy = demo_policy,
      pr_lease = pr_lease demo_P, pr_fingerprint = ''h''\<rparr> = demo_P"
    by (simp add: demo_P_def)
  show ?thesis
    by (simp add: invoke_prepare_def r c s P demo_lease_ok demo_release_ok demo_finger filter_attributes_def
        validate_attributes_def attributes_size_def MAX_ATTRIBUTES_def MAX_ATTRIBUTE_BYTES_def Let_def)
qed

lemma demo_check: "invoke_check_active demo_request demo_service = Inr ()"
  by (simp add: invoke_check_active_def demo_pool)

lemma demo_os_request: "os_request demo_env s ''c'' m p j = ((), 0, Inr demo_answer)"
  by (simp add: os_request_def demo_env_def)

lemma demo_agent_call: "agent_call demo_env s e tok p j h = ((), 0, Inr demo_answer)"
  by (simp add: agent_call_def demo_env_def Let_def)

lemma demo_id: "sandbox_id demo_env demo_answer = Inr ''s''"
  by code_simp

lemma demo_state: "sandbox_state demo_env demo_answer = ''RUNNING'' \<and> is_obj demo_answer"
  by code_simp

lemma demo_running: "now < d \<Longrightarrow> wait_running demo_env ''c'' i d now s = ((), now, Inr ())"
  by (simp add: wait_running.simps [of demo_env "''c''"] demo_os_request demo_state)

lemma demo_ok: "truthy (get_field demo_answer ''ok'')"
  by code_simp

lemma demo_healthy: "now < d \<Longrightarrow> wait_healthy demo_env w d e now s = ((), now, Inr ())"
  by (simp add: wait_healthy.simps [of demo_env w] demo_agent_call demo_ok)

lemma demo_worker: "sandbox_worker demo_env ''s'' ''t'' demo_answer ''t'' (pr_release demo_P) demo_policy 3600 0 = Inr demo_w"
  by code_simp

lemma demo_create: "os_create demo_env s 0 ''t'' (pr_release demo_P) demo_policy 3600 = ((), Inr demo_w)"
proof -
  have "pol_cluster demo_policy = ''c''" "os_token demo_env s = ''t''" by (simp_all add: demo_policy_def demo_env_def)
  then show ?thesis
    by (simp add: os_create_def create_steps_def Let_def demo_os_request demo_id demo_running demo_healthy
        SANDBOX_READY_WAIT_MS_def AGENT_READY_WAIT_MS_def demo_worker)
qed

lemma demo_read: "os_read demo_env p = Inr []"
  by (simp add: demo_env_def)

lemma demo_install: "os_install demo_env s w r = ((), Inr ())"
  by (simp add: os_install_def demo_agent_call demo_read)

lemma demo_items: "list_items demo_answer = Inr []"
  by code_simp

lemma demo_cleanup: "os_cleanup demo_env s = ((), Inr 0)"
proof -
  have "map fst (os_clusters demo_env) = [''c'']" by (simp add: demo_env_def)
  then show ?thesis by (simp add: os_cleanup_def demo_os_request demo_items)
qed

lemma demo_runner_result: "\<exists>x. run_result_of_json i demo_answer = Inr x \<and> rr_attributes x = [] \<and> rr_content x = []"
  by (simp add: run_result_of_json_def str_field_def field_or_def demo_answer_def dict_get_or_def)

lemma demo_run: "\<exists>x. os_run demo_env s w rel rq t = ((), Inr x) \<and> rr_attributes x = [] \<and> rr_content x = []"
  using demo_runner_result [of "w_id w"] by (auto simp: os_run_def demo_agent_call)

abbreviation demo_B :: "unit backend" where "demo_B \<equiv> open_provider demo_env"

lemma demo_B:
  "be_cleanup demo_B = os_cleanup demo_env" "be_run demo_B = os_run demo_env"
  "be_install demo_B = os_install demo_env" "be_create demo_B = os_create demo_env"
  by (simp_all add: open_provider_def)

definition demo_started :: "unit service" where
  "demo_started = fst (service_startup demo_B 0 demo_service)"

lemma demo_started:
  "service_startup demo_B 0 demo_service = (demo_started, Inr 0)"
  "sv_catalog demo_started = sv_catalog demo_service" "sv_active demo_started = []"
  "sv_db demo_started = sv_db demo_service" "sv_pool demo_started = sv_pool demo_service"
  by (simp_all add: demo_started_def service_startup_def reset_after_restart_def demo_pool demo_B demo_cleanup pool_init_def
    reset_running_def purge_expired_leases_def purge_expired_idempotency_def db_init_def demo_lease_def sql_update_def
    sql_delete_def Let_def)

lemma demo_prepared: "invoke_prepare demo_cfg 0 demo_request demo_started = Inr demo_P"
  "invoke_check_active demo_request demo_started = Inr ()"
proof -
  have "invoke_prepare demo_cfg 0 demo_request demo_started = invoke_prepare demo_cfg 0 demo_request demo_service"
    unfolding invoke_prepare_def demo_started ..
  then show "invoke_prepare demo_cfg 0 demo_request demo_started = Inr demo_P" by (simp add: demo_prepare)
qed (simp add: invoke_check_active_def demo_started)

definition demo_claimed :: "unit service" where
  "demo_claimed = demo_started\<lparr>sv_db := (sv_db demo_started)\<lparr>db_runs := [new_run_row ''run'' 0 (claim_args demo_P)],
     db_keys := [new_key_row ''run'' 0 (claim_args demo_P)]\<rparr>\<rparr>"

lemma demo_claimed: "invoke_claim ''run'' 0 demo_P demo_started
    = Inr (demo_claimed, \<lparr>claim_run = Some ''run'', claim_cached = None\<rparr>)"
  by (simp add: invoke_claim_def begin_run_def claim_run_row_def sql_insert_def demo_started demo_pool db_init_def
      demo_claimed_def Let_def)

lemma demo_quota_init: "quota_init 1 1 1 = Inr demo_quota"
  by (simp add: quota_init_def demo_quota_def)

lemma pool_init_empty: "set_bucket k [] (pool_init h q b) = pool_init h q b" "p_idle (pool_init h q b) = []"
  by (simp_all add: set_bucket_def pool_init_def)

lemmas pool_ok_init_demo = pool_init_ok [OF demo_quota_init]

lemma demo_created: "acquire_create demo_B (sc_pool demo_cfg) 0 ''t'' (pr_release demo_P) demo_policy
    (pool_init (\<lambda>_. demo_worker) demo_quota ()) =
    (\<lparr>p_heap = (\<lambda>_. demo_worker)(0 := demo_w\<lparr>w_installed := [''r'']\<rparr>), p_next = 1, p_idle = [],
      p_quota = demo_quota\<lparr>q_live := 1, q_tenant := [''t'' \<mapsto> 1]\<rparr>, p_backend = ()\<rparr>, Inr 0)"
proof -
  have "c_orphan_ttl (sc_pool demo_cfg) = 3600" "rel_id (pr_release demo_P) = ''r''" "w_installed demo_w = []"
    by (simp_all add: demo_cfg_def demo_P_def demo_w_def)
  then show ?thesis
    by (simp add: acquire_create_def ensure_release_rec_def demo_B demo_create demo_install pool_init_def demo_quota_def
        reserve_live_def tenant_count_def slot_enter_def slot_exit_def Let_def)
qed

lemma demo_acquired: "pool_acquire demo_B (sc_pool demo_cfg) 0 ''t'' (pr_release demo_P) demo_policy
    (pool_init (\<lambda>_. demo_worker) demo_quota ()) =
    (\<lparr>p_heap = (\<lambda>_. demo_worker)(0 := demo_w\<lparr>w_installed := [''r'']\<rparr>), p_next = 1, p_idle = [],
      p_quota = demo_quota\<lparr>q_live := 1, q_tenant := [''t'' \<mapsto> 1]\<rparr>, p_backend = ()\<rparr>, Inr 0)"
  by (simp add: pool_acquire_def demo_created Let_def pool_init_empty)

lemma demo_args: "rq_tenant (pr_request demo_P) = ''t''" "rq_invocation (pr_request demo_P) = ''v''"
  "pr_policy demo_P = demo_policy" "rel_output_attributes (pr_release demo_P) = []"
  by (simp_all add: demo_P_def demo_request_def)

lemma demo_threads:
  obtains R S x where "runner_reachable demo_B demo_cfg R" "rn_threads R = [0 \<mapsto> Holding demo_P ''run'' 0]"
    "runner_reachable demo_B demo_cfg S" "rn_threads S = [0 \<mapsto> Ran demo_P ''run'' 0 x]"
proof -
  define R0 where "R0 = \<lparr>rn_service = demo_started, rn_threads = Map.empty\<rparr>"
  let ?at = "\<lambda>th S. at_thread 0 (Some th) S R0"
  have ok: "pool_ok {} (sv_pool demo_service)" "db_ok (sv_db demo_service)"
    unfolding demo_pool by (rule pool_init_ok [OF demo_quota_init])
      (simp add: db_ok_def key_claims_def run_claims_def db_init_def)
  have "runner_started demo_B R0"
    unfolding runner_started_def R0_def using ok demo_started(1) by (intro exI conjI) auto
  then have r0: "runner_reachable demo_B demo_cfg R0" unfolding runner_reachable_def by blast
  have step: "runner_reachable demo_B demo_cfg R' \<Longrightarrow> thread_step demo_B demo_cfg 0 R' R'' \<Longrightarrow>
      runner_reachable demo_B demo_cfg R''" for R' R''
    unfolding runner_reachable_def by (blast intro: rtranclp.rtrancl_into_rtrancl runner_step.thread)
  have r1: "runner_reachable demo_B demo_cfg (?at (Prepared demo_P) demo_started)"
    by (rule step [OF r0], use thread_step.prepare [of R0 0 demo_cfg 0 demo_request demo_P demo_B] demo_prepared in
       \<open>simp add: R0_def set_thread_def at_thread_def\<close>)
  have r2: "runner_reachable demo_B demo_cfg (?at (Claimed demo_P ''run'') demo_claimed)"
    by (rule step [OF r1], use thread_step.claim [of "?at (Prepared demo_P) demo_started" 0 demo_P "''run''" 0 demo_claimed
        "\<lparr>claim_run = Some ''run'', claim_cached = None\<rparr>" "''run''" demo_B demo_cfg] demo_claimed in simp)
  obtain S3 where S3: "invoke_acquire demo_B demo_cfg 0 demo_P demo_claimed = (S3, Inr 0)" "sv_active S3 = []"
    by (simp add: invoke_acquire_def demo_args demo_claimed_def demo_started demo_pool demo_acquired)
  have r3: "runner_reachable demo_B demo_cfg (?at (Holding demo_P ''run'' 0) S3)"
    by (rule step [OF r2], use thread_step.acquire [of "?at (Claimed demo_P ''run'') demo_claimed" 0 demo_P "''run''"
        demo_B demo_cfg 0 S3 0] S3 in simp)
  obtain S4 where S4: "invoke_register demo_B demo_P 0 S3 = (S4, Inr ())"
    by (simp add: invoke_register_def S3 Let_def)
  have r4: "runner_reachable demo_B demo_cfg (?at (Registered demo_P ''run'' 0) S4)"
    by (rule step [OF r3], use thread_step.register [of "?at (Holding demo_P ''run'' 0) S3" 0 demo_P "''run''" 0 demo_B S4
        demo_cfg] S4 in simp)
  obtain x where x: "os_run demo_env () (p_heap (sv_pool S4) 0) (pr_release demo_P) (pr_request demo_P)
      (rq_timeout_ms (pr_request demo_P)) = ((), Inr x)" "rr_attributes x = []" "rr_content x = []"
    using demo_run by blast
  obtain S5 y where S5: "invoke_run demo_B demo_P 0 S4 = (S5, Inr y)"
    using x by (simp add: invoke_run_def demo_B check_output_def demo_args filter_attributes_def validate_attributes_def
        attributes_size_def Let_def)
  have r5: "runner_reachable demo_B demo_cfg (?at (Ran demo_P ''run'' 0 y) S5)"
    by (rule step [OF r4], use thread_step.run [of "?at (Registered demo_P ''run'' 0) S4" 0 demo_P "''run''" 0 demo_B S5 y
        demo_cfg] S5 in simp)
  have "rn_threads (?at th S) = [0 \<mapsto> th]" for th S by (simp add: at_thread_def R0_def)
  with r3 r5 show thesis using that by blast
qed

section \<open>The same runner beside the record of its sandboxes\<close>

abbreviation counted_B :: "(unit \<times> sandboxes) backend" where "counted_B \<equiv> counted demo_B"

definition counted_service :: "(unit \<times> sandboxes) service" where
  "counted_service =
     \<lparr>sv_catalog = sv_catalog demo_service, sv_db = sv_db demo_service,
      sv_pool = pool_init (\<lambda>_. demo_worker) demo_quota ((), {#}), sv_active = []\<rparr>"

lemma prepare_ignores_pool:
  "sv_db S = sv_db T \<Longrightarrow> sv_catalog S = sv_catalog T \<Longrightarrow> invoke_prepare C us rq S = invoke_prepare C us rq T"
  unfolding invoke_prepare_def by (simp only:)

lemma counted_started: "service_startup counted_B 0 counted_service = (counted_service, Inr 0)"
  by (simp add: service_startup_def reset_after_restart_def counted_service_def counted_def beside_def demo_pool demo_B demo_cleanup
    pool_init_def reset_running_def purge_expired_leases_def purge_expired_idempotency_def db_init_def demo_lease_def
    sql_update_def sql_delete_def Let_def)

lemma counted_prepared: "invoke_prepare demo_cfg 0 demo_request counted_service = Inr demo_P"
  "invoke_check_active demo_request counted_service = Inr ()"
  using prepare_ignores_pool [of counted_service demo_service] demo_prepare
  by (simp_all add: counted_service_def invoke_check_active_def)

definition counted_claimed :: "(unit \<times> sandboxes) service" where
  "counted_claimed = counted_service\<lparr>sv_db := (sv_db demo_service)\<lparr>db_runs := [new_run_row ''run'' 0 (claim_args demo_P)],
     db_keys := [new_key_row ''run'' 0 (claim_args demo_P)]\<rparr>\<rparr>"

lemma counted_claimed: "invoke_claim ''run'' 0 demo_P counted_service
    = Inr (counted_claimed, \<lparr>claim_run = Some ''run'', claim_cached = None\<rparr>)"
  by (simp add: invoke_claim_def begin_run_def claim_run_row_def sql_insert_def counted_service_def demo_pool db_init_def
      counted_claimed_def Let_def)

lemma counted_B:
  "be_create counted_B ((), M) 0 ''t'' (pr_release demo_P) demo_policy 3600 = (((), add_mset (''t'', ''s'') M), Inr demo_w)"
  "be_install counted_B ((), M) w r = (((), M), Inr ())"
  by (simp_all add: counted_def beside_def demo_B demo_create demo_install) (simp add: sandbox_of_def demo_w_def)

lemma counted_created:
  "acquire_create counted_B (sc_pool demo_cfg) 0 ''t'' (pr_release demo_P) demo_policy
     (pool_init (\<lambda>_. demo_worker) demo_quota ((), {#})) =
   (\<lparr>p_heap = (\<lambda>_. demo_worker)(0 := demo_w\<lparr>w_installed := [''r'']\<rparr>), p_next = 1, p_idle = [],
     p_quota = demo_quota\<lparr>q_live := 1, q_tenant := [''t'' \<mapsto> 1]\<rparr>, p_backend = ((), {#(''t'', ''s'')#})\<rparr>, Inr 0)"
proof -
  have "c_orphan_ttl (sc_pool demo_cfg) = 3600" "rel_id (pr_release demo_P) = ''r''" "w_installed demo_w = []"
    by (simp_all add: demo_cfg_def demo_P_def demo_w_def)
  then show ?thesis
    by (simp add: acquire_create_def ensure_release_rec_def counted_B pool_init_def demo_quota_def
        reserve_live_def tenant_count_def slot_enter_def slot_exit_def Let_def)
qed

lemma counted_acquired:
  "\<exists>p. pool_acquire counted_B (sc_pool demo_cfg) 0 ''t'' (pr_release demo_P) demo_policy
     (pool_init (\<lambda>_. demo_worker) demo_quota ((), {#})) = (p, Inr 0) \<and> p_backend p = ((), {#(''t'', ''s'')#}) \<and>
     q_max_live (p_quota p) = 1 \<and> q_max_tenant (p_quota p) = 1"
  by (simp add: pool_acquire_def counted_created Let_def pool_init_empty) (simp add: demo_quota_def)

lemma counted_threads:
  obtains R where "runner_reachable counted_B demo_cfg R" "rn_threads R = [0 \<mapsto> Holding demo_P ''run'' 0]"
    "snd (p_backend (sv_pool (rn_service R))) = {#(''t'', ''s'')#}" "q_max_live (p_quota (sv_pool (rn_service R))) = 1"
    "q_max_tenant (p_quota (sv_pool (rn_service R))) = 1"
proof -
  define R0 where "R0 = \<lparr>rn_service = counted_service, rn_threads = Map.empty\<rparr>"
  let ?at = "\<lambda>th S. at_thread 0 (Some th) S R0"
  have ok: "pool_ok {} (sv_pool counted_service)" "db_ok (sv_db counted_service)"
    using pool_ok_init_demo
    by (simp_all add: counted_service_def demo_pool db_ok_def key_claims_def run_claims_def db_init_def)
  have "runner_started counted_B R0"
    unfolding runner_started_def R0_def using ok counted_started by (intro exI conjI) auto
  then have r0: "runner_reachable counted_B demo_cfg R0" unfolding runner_reachable_def by blast
  have step: "runner_reachable counted_B demo_cfg R' \<Longrightarrow> thread_step counted_B demo_cfg 0 R' R'' \<Longrightarrow>
      runner_reachable counted_B demo_cfg R''" for R' R''
    unfolding runner_reachable_def by (blast intro: rtranclp.rtrancl_into_rtrancl runner_step.thread)
  have r1: "runner_reachable counted_B demo_cfg (?at (Prepared demo_P) counted_service)"
    by (rule step [OF r0], use thread_step.prepare [of R0 0 demo_cfg 0 demo_request demo_P counted_B] counted_prepared in
       \<open>simp add: R0_def set_thread_def at_thread_def\<close>)
  have r2: "runner_reachable counted_B demo_cfg (?at (Claimed demo_P ''run'') counted_claimed)"
    by (rule step [OF r1], use thread_step.claim [of "?at (Prepared demo_P) counted_service" 0 demo_P "''run''" 0 counted_claimed
        "\<lparr>claim_run = Some ''run'', claim_cached = None\<rparr>" "''run''" counted_B demo_cfg] counted_claimed in simp)
  obtain p where p: "pool_acquire counted_B (sc_pool demo_cfg) 0 ''t'' (pr_release demo_P) demo_policy
      (pool_init (\<lambda>_. demo_worker) demo_quota ((), {#})) = (p, Inr 0)" "p_backend p = ((), {#(''t'', ''s'')#})"
      "q_max_live (p_quota p) = 1" "q_max_tenant (p_quota p) = 1"
    using counted_acquired by blast
  obtain S3 where S3: "invoke_acquire counted_B demo_cfg 0 demo_P counted_claimed = (S3, Inr 0)" "sv_pool S3 = p"
    using p(1) by (simp add: invoke_acquire_def demo_args counted_claimed_def counted_service_def)
  have r3: "runner_reachable counted_B demo_cfg (?at (Holding demo_P ''run'' 0) S3)"
    by (rule step [OF r2], use thread_step.acquire [of "?at (Claimed demo_P ''run'') counted_claimed" 0 demo_P "''run''"
        counted_B demo_cfg 0 S3 0] S3 in simp)
  have "rn_threads (?at th S) = [0 \<mapsto> th]" "rn_service (?at th S) = S" for th S by (simp_all add: at_thread_def R0_def)
  with r3 S3(2) p that show thesis by simp
qed

end
