(* ===== verification/Runner_Theorems.thy ===== *)
theory Runner_Theorems
  imports Runner_Example
begin

text \<open>
  What holds of the runner over the OpenSandbox provider in every reachable state, each statement
  with an instance on the runner of \<open>Runner_Example\<close>.
\<close>

section \<open>Properties of the runner over OpenSandbox\<close>

text \<open>C1: A sandbox is used by one invocation at a time: the worker that an invocation in flight holds
  belongs to the invocation's tenant, runtime and profile, is not in any idle bucket, and is not
  held by another invocation, whatever requests, failures, cancellations and maintenance turns came
  before.\<close>

theorem worker_exclusive:
  assumes "runner_reachable (open_provider K) C R" "rn_threads R t = Some th" "held_by th = Some r"
  shows "worker_key (p_heap (sv_pool (rn_service R)) r) = own_key (request_of th) \<and>
    r \<notin> set (idle_refs (sv_pool (rn_service R))) \<and>
    (\<forall>t2. t2 \<noteq> t \<longrightarrow> Option.bind (rn_threads R t2) held_by \<noteq> Some r)"
proof -
  have "t2 = t" if "Option.bind (rn_threads R t2) held_by = Some r" for t2
    using that open_sandbox.reachable_exclusive [OF assms(1) _ assms(2) _ assms(3)]
    by (auto simp: bind_eq_Some_conv)
  with open_sandbox.reachable_isolated [OF assms] show ?thesis by blast
qed

theorem worker_exclusive_witness:
  "\<exists>R. runner_reachable demo_B demo_cfg R \<and> rn_threads R 0 = Some (Holding demo_P ''run'' 0) \<and>
     worker_key (p_heap (sv_pool (rn_service R)) 0) = own_key demo_P \<and>
     0 \<notin> set (idle_refs (sv_pool (rn_service R)))"
proof -
  obtain R where R: "runner_reachable demo_B demo_cfg R" "rn_threads R = [0 \<mapsto> Holding demo_P ''run'' 0]"
    using demo_threads by metis
  from worker_exclusive [OF R(1), of 0 "Holding demo_P ''run'' 0" 0] R show ?thesis by auto
qed

text \<open>C2: The database agrees with the threads: at every moment the executions stored as running are exactly
  those of the invocations in flight, and so are the idempotency keys stored as running, each with its
  execution, so no execution is left running when nobody works on it and no key stays blocked.\<close>

theorem running_rows_in_flight:
  assumes "runner_reachable (open_provider K) C R"
  shows "run_claims (db_runs (sv_db (rn_service R))) = {c. \<exists>t th. rn_threads R t = Some th \<and> claimed_by th = Some c} \<and>
    key_claims (db_keys (sv_db (rn_service R))) = {c. \<exists>t th. rn_threads R t = Some th \<and> claimed_by th = Some c}"
  unfolding open_sandbox.reachable_keys [OF assms] open_sandbox.reachable_claims [OF assms]
  by (auto simp: claimer_def ran_def bind_eq_Some_conv)

theorem running_rows_in_flight_witness:
  "\<exists>R. runner_reachable demo_B demo_cfg R \<and>
     run_claims (db_runs (sv_db (rn_service R))) = {(claim_of demo_P, ''run'')} \<and>
     key_claims (db_keys (sv_db (rn_service R))) = {(claim_of demo_P, ''run'')}"
proof -
  obtain R where R: "runner_reachable demo_B demo_cfg R" "rn_threads R = [0 \<mapsto> Holding demo_P ''run'' 0]"
    using demo_threads by metis
  have "{c. \<exists>t th. rn_threads R t = Some th \<and> claimed_by th = Some c} = {(claim_of demo_P, ''run'')}"
    using R(2) by (auto split: if_splits)
  with running_rows_in_flight [OF R(1)] R(1) show ?thesis by auto
qed

text \<open>A computed result is never lost: an invocation whose operator has answered can always store
  the answer, whatever other requests, restarts of maintenance and cancellations came in between.\<close>

theorem computed_result_recorded:
  assumes "runner_reachable (open_provider K) C R" "rn_threads R t = Some (Ran P i r x)"
  shows "\<exists>S. invoke_finish C us i P x (rn_service R) = Inr S"
  by (rule open_sandbox.reachable_finish [OF assms])

theorem computed_result_recorded_witness:
  "\<exists>R x S. rn_threads R 0 = Some (Ran demo_P ''run'' 0 x) \<and>
     invoke_finish demo_cfg 7 ''run'' demo_P x (rn_service (R :: unit runner)) = Inr S"
proof -
  obtain R x where R: "runner_reachable demo_B demo_cfg R" "rn_threads R = [0 \<mapsto> Ran demo_P ''run'' 0 x]"
    using demo_threads by metis
  from computed_result_recorded [OF R(1), of 0 demo_P "''run''" 0 x 7] R(2) show ?thesis by (intro exI [of _ R] exI [of _ x]) simp
qed

text \<open>C29: The quotas hold for the sandboxes themselves: of all sandboxes the provider has handed out since the start of the
  runner, those whose deletion the pool has not asked for are within the global limit at every moment, and those of a
  tenant within the tenant's limit, whatever requests, failures, cancellations and maintenance turns came before. A deletion
  that the provider refuses counts as asked for.\<close>

theorem undeleted_sandboxes_bounded:
  assumes "runner_reachable (counted (open_provider K)) C R"
  shows "int (size (snd (p_backend (sv_pool (rn_service R))))) \<le> q_max_live (p_quota (sv_pool (rn_service R))) \<and>
    int (size (filter_mset (\<lambda>s. fst s = tenant) (snd (p_backend (sv_pool (rn_service R)))))) \<le>
      q_max_tenant (p_quota (sv_pool (rn_service R)))"
proof -
  have "pool_ok (ran (holder R)) (sv_pool (rn_service R))"
    using counted_sandbox.reachable_ok [OF assms] by (simp add: runner_ok_def)
  with size_covered [OF open_sandbox.reachable_covered [OF assms]] show ?thesis by blast
qed

theorem undeleted_sandboxes_bounded_witness:
  "\<exists>R. runner_reachable counted_B demo_cfg R \<and> rn_threads R 0 = Some (Holding demo_P ''run'' 0) \<and>
    snd (p_backend (sv_pool (rn_service R))) = {#(''t'', ''s'')#} \<and>
    size (snd (p_backend (sv_pool (rn_service R)))) \<le> 1 \<and>
    size (filter_mset (\<lambda>s. fst s = ''t'') (snd (p_backend (sv_pool (rn_service R))))) \<le> 1"
proof -
  obtain R where R: "runner_reachable counted_B demo_cfg R" "rn_threads R = [0 \<mapsto> Holding demo_P ''run'' 0]"
    "snd (p_backend (sv_pool (rn_service R))) = {#(''t'', ''s'')#}" "q_max_live (p_quota (sv_pool (rn_service R))) = 1"
    "q_max_tenant (p_quota (sv_pool (rn_service R))) = 1"
    by (rule counted_threads)
  from undeleted_sandboxes_bounded [OF R(1), of "''t''"] R(2-) show ?thesis by (intro exI [of _ R]) (simp add: R(1))
qed

text \<open>C13: \<open>invoke\<close> as one piece of code refines the concurrent steps: whatever it returns, errors included,
  the runner is in a state those steps reach with the same threads, the running executions and the running
  idempotency keys are those from before, and the pool's accounts are right with no other workers held
  than before.\<close>

theorem invoke_refines_steps:
  assumes "runner_reachable (open_provider K) C R" "rn_threads R t = None"
    and "invoke (open_provider K) C us ms i rq (rn_service R) = (S, result)"
  shows "(runner_step (open_provider K) C)\<^sup>*\<^sup>* R (R\<lparr>rn_service := S\<rparr>) \<and>
    run_claims (db_runs (sv_db S)) = run_claims (db_runs (sv_db (rn_service R))) \<and>
    key_claims (db_keys (sv_db S)) = key_claims (db_keys (sv_db (rn_service R))) \<and>
    pool_ok (ran (holder R)) (sv_pool S)"
proof -
  have "holder (R\<lparr>rn_service := S\<rparr>) = holder R" by (simp add: holder_def fun_eq_iff)
  moreover have "runner_ok (R\<lparr>rn_service := S\<rparr>)"
    using open_sandbox.reachable_ok [OF invoke_reachable [OF assms]] .
  ultimately have "pool_ok (ran (holder R)) (sv_pool S)" by (simp add: runner_ok_def)
  moreover have "(runner_step (open_provider K) C)\<^sup>*\<^sup>* R (R\<lparr>rn_service := S\<rparr>)"
    using invoke_steps [OF assms(3,2)] by (simp add: at_thread_idem [OF assms(2)])
  moreover have "key_claims (db_keys (sv_db S)) = key_claims (db_keys (sv_db (rn_service R)))"
    using open_sandbox.invoke_leaves_no_claim [OF assms] open_sandbox.reachable_keys [OF assms(1)]
      open_sandbox.reachable_keys [OF invoke_reachable [OF assms]] by simp
  ultimately show ?thesis using open_sandbox.invoke_leaves_no_claim [OF assms] by blast
qed

theorem invoke_refines_steps_witness:
  "\<exists>R S result. rn_threads R 0 = Some (Holding demo_P ''run'' 0) \<and>
     invoke demo_B demo_cfg 0 0 ''run2'' demo_request (rn_service R) = (S, result) \<and>
     (runner_step demo_B demo_cfg)\<^sup>*\<^sup>* R (R\<lparr>rn_service := S\<rparr>)"
proof -
  obtain R where R: "runner_reachable demo_B demo_cfg R" "rn_threads R = [0 \<mapsto> Holding demo_P ''run'' 0]"
    using demo_threads by metis
  obtain S result where S: "invoke demo_B demo_cfg 0 0 ''run2'' demo_request (rn_service R) = (S, result)" by fastforce
  from invoke_refines_steps [OF R(1) _ S, of 1] R(2) S show ?thesis
    by (intro exI [of _ R] exI [of _ S] exI [of _ result]) simp
qed

text \<open>What \<open>acquire\<close> hands out: a live, healthy worker of the tenant, runtime and profile that has
  the release installed and lives long enough for the whole execution, held by nobody else; and in
  every case, also after an error, the accounts of the pool are right and no held worker changed.\<close>

theorem acquire_delivers:
  assumes "pool_acquire (open_provider K) cfg now tenant release policy p = (p', res)" "pool_ok H p"
  shows "(\<forall>s \<in> H. p_heap p' s = p_heap p s) \<and>
    (case res of
       Inl e \<Rightarrow> pool_ok H p'
     | Inr r \<Rightarrow> r \<notin> H \<and> pool_ok (insert r H) p' \<and> worker_key (p_heap p' r) = pool_key tenant release \<and>
         rel_id release \<in> set (w_installed (p_heap p' r)) \<and> w_healthy (p_heap p' r) \<and>
         \<not> w_destroyed (p_heap p' r) \<and> ttl_ok cfg now policy (p_heap p' r))"
  using open_sandbox.acquire_spec [OF assms] by (simp add: acquire_post_def acquired_def split: sum.splits)

theorem acquire_delivers_witness:
  "\<exists>p r. pool_acquire demo_B (sc_pool demo_cfg) 0 ''t'' (pr_release demo_P) demo_policy
       (pool_init (\<lambda>_. demo_worker) demo_quota ()) = (p, Inr r) \<and>
     ttl_ok (sc_pool demo_cfg) 0 demo_policy (p_heap p r) \<and> pool_ok {r} p"
  using acquire_delivers [OF demo_acquired pool_ok_init_demo] demo_acquired by auto

end
