(* ===== verification/Service_Examples.thy ===== *)
theory Service_Examples
  imports Agent Runner_Theorems Local_Backend
begin

text \<open>
  A small agent with one release and one child process, on which the theorems about frames,
  installation, the agent and the child are instantiated.
\<close>

section \<open>Installing an archive\<close>

definition sample_mz :: materializer where
  "sample_mz = \<lparr>mz_root = [''r''], mz_max_files = 4, mz_max_expanded_bytes = 100, mz_pid = ''1'',
     mz_sha256 = (\<lambda>_. ''d''),
     mz_tar = (\<lambda>a. Inr [\<lparr>tm_name = (if a = [] then ''operator.json'' else ''../x''), tm_kind = MReg, tm_size = 2,
                         tm_data = Some [1, 2]\<rparr>])\<rparr>"

definition sample_fs :: fs where
  "sample_fs = (\<lambda>p. if p = [] \<or> p = [''r''] then Some (Dir 493) else None)"

lemma sample_paths: "staging_path sample_mz ''x'' = [''r'', ''.x.tmp-1'']" "target_path sample_mz ''x'' = [''r'', ''x'']"
  by (simp_all add: staging_path_def target_path_def join_path_def path_parts_def is_absolute_def starts_with_def
      resolve_def sample_mz_def)

lemma sample_answers:
  "snd (install sample_mz ''x'' ''d'' [] sample_fs) = Inr [''r'', ''x'']"
  "isl (snd (install sample_mz ''x'' ''d'' [0] sample_fs))"
  by code_simp+

definition sample_installed :: fs where "sample_installed = fst (install sample_mz ''x'' ''d'' [] sample_fs)"

lemma sample_install: "install sample_mz ''x'' ''d'' [] sample_fs = (sample_installed, Inr [''r'', ''x''])"
  by (simp add: prod_eq_iff sample_answers sample_installed_def)

lemma sample_refused: "\<exists>fs' e. install sample_mz ''x'' ''d'' [0] sample_fs = (fs', Inl e)"
  using sample_answers(2) by (metis isl_def prod.exhaust_sel)

theorem install_contained_witness: "sample_installed [''etc''] = None"
  using install_contained [OF sample_install, of "[''etc'']"] by (simp add: sample_paths sample_fs_def)

theorem install_refused_witness:
  "\<exists>fs' e. install sample_mz ''x'' ''d'' [0] sample_fs = (fs', Inl e) \<and> fs' [''r'', ''x''] = None \<and>
     fs' [''r'', ''.x.tmp-1''] = None"
proof -
  obtain fs' e where r: "install sample_mz ''x'' ''d'' [0] sample_fs = (fs', Inl e)" using sample_refused by blast
  from install_refused [OF r] r show ?thesis by (auto simp: sample_paths sample_fs_def)
qed

theorem install_fresh_witness:
  "is_file sample_installed [''r'', ''x'', ''operator.json'']"
  using install_fresh [OF sample_install] by (simp add: sample_paths sample_fs_def)

theorem child_frame_reaches_agent_witness:
  "\<exists>out raw. write_frame [3, 100, 100] [7, 8] = (Inr (), out) \<and>
     bounded_fd_reader [concat out] [] 10 = (raw, False) \<and> decode_frame raw 2 = Inr [7, 8]"
proof -
  obtain out where w: "write_frame [3, 100, 100] [7, 8] = (Inr (), out)"
    by (simp add: write_frame_def to_bytes4_def protocol_magic_def MAX_RESULT_BYTES_def)
  from child_frame_reaches_agent [OF w, of "[concat out]" 2] w show ?thesis by auto
qed

section \<open>An agent and its child\<close>

definition sample_agent :: "(bytes \<Rightarrow> exn + json) \<Rightarrow> agent_env" where
  "sample_agent loads = \<lparr>ae_token = ''t'', ae_dependency_root = None, ae_child_uid = 1, ae_child_gid = 1,
     ae_child_nproc = 1, ae_child_nofile = 1, ae_child_address_space = 1, ae_path = [], ae_materializer = sample_mz,
     ae_scratch = (\<lambda>_. Inr ''s''), ae_workspace = (\<lambda>_ _. Inr ''w''), ae_popen = (\<lambda>_. Inr 5),
     ae_signal_name = (\<lambda>_. None), ae_repr = (\<lambda>_. []), ae_str = (\<lambda>_. []),
     ae_float_int = (\<lambda>_. Inr 0), ae_path_str = (\<lambda>_. []),
     ae_loads = loads, ae_dumps = (\<lambda>_. [])\<rparr>"

definition sample_agent_env :: agent_env where
  "sample_agent_env = sample_agent (\<lambda>_. Inr (JObj [(''id'', JStr ''x''), (''entrypoint'', JStr ''e'')]))"

definition sample_payload :: "(string, json) dict" where
  "sample_payload = [(''invocation_id'', JStr ''i''), (''release_id'', JStr ''x'')]"

text \<open>A plan for a release that is there.\<close>

definition sample_limits :: run_limits where
  "sample_limits = \<lparr>rl_timeout_ms = 30000, rl_max_output = 8388608, rl_max_attributes = 128,
     rl_max_attribute_bytes = 65536\<rparr>"

definition sample_plan :: run_plan where
  "sample_plan = \<lparr>rp_invocation = ''i'', rp_proc = 5, rp_scratch = ''s'', rp_timeout_ms = 30000,
     rp_max_output = 8388608, rp_max_attributes = 128, rp_max_attribute_bytes = 65536,
     rp_max_protocol = max_protocol sample_limits,
     rp_env = child_environment sample_agent_env ''s'' ''w'' sample_limits,
     rp_frame = [77, 80, 82, 49, 0, 0, 0, 0]\<rparr>"

lemma sample_prepare_with:
  assumes "dict_get (agt_releases S) ''x'' = Some (p, [(''id'', JStr ''x''), (''entrypoint'', JStr ''e'')])"
  shows "run_prepare (sample_agent L) ''i'' sample_payload S = Inr sample_plan"
proof -
  let ?A = "sample_agent L"
  have e: "ae_scratch ?A i = Inr ''s''" "ae_workspace ?A q s = Inr ''w''" "ae_dumps ?A j = []" "ae_popen ?A v = Inr 5"
    "child_environment ?A s w l = child_environment sample_agent_env s w l" for i q s j v w l
    by (simp_all add: sample_agent_def sample_agent_env_def child_environment_def)
  have f: "find_release sample_payload S = Inr (p, [(''id'', JStr ''x''), (''entrypoint'', JStr ''e'')])"
    using assms by (simp add: find_release_def sample_payload_def str_key_def)
  have l: "read_limits ?A sample_payload = Inr sample_limits"
    by (simp add: read_limits_def int_arg_def sample_payload_def sample_limits_def)
  show ?thesis
    by (simp add: run_prepare_def f l e str_key_def encode_frame_def to_bytes4_def protocol_magic_def MAX_BODY_def
        Let_def sample_plan_def) (simp add: sample_limits_def)
qed

lemmas sample_prepare = sample_prepare_with [of _ _ "\<lambda>_. Inr (JObj [(''id'', JStr ''x''), (''entrypoint'', JStr ''e'')])",
  folded sample_agent_env_def]

definition sample_ready :: agent where
  "sample_ready = fst (bootstrap sample_agent_env [(''release_id'', JStr ''x''), (''artifact_b64'', JStr []),
     (''artifact_sha256'', JStr ''d'')] (agent_init sample_fs))"

lemma sample_ready: "agent_reachable sample_agent_env sample_ready" "agt_gate sample_ready = False"
  "agt_run sample_ready = None" "agt_active sample_ready = None"
  "dict_get (agt_releases sample_ready) ''x'' = Some ([''r'', ''x''], [(''id'', JStr ''x''), (''entrypoint'', JStr ''e'')])"
proof -
  let ?p = "[(''release_id'', JStr ''x''), (''artifact_b64'', JStr []), (''artifact_sha256'', JStr ''d'')]"
  obtain r where b: "bootstrap sample_agent_env ?p (agent_init sample_fs) = (sample_ready, r)"
    unfolding sample_ready_def by (metis prod.collapse)
  then have "agent_step sample_agent_env (agent_init sample_fs) sample_ready"
    by (intro agent_step.request agent_request.bootstrap)
  then show "agent_reachable sample_agent_env sample_ready" unfolding agent_reachable_def by blast
  from bootstrap_frame [OF b] show "agt_gate sample_ready = False" "agt_run sample_ready = None"
    "agt_active sample_ready = None" by (simp_all add: agent_init_def)
  show "dict_get (agt_releases sample_ready) ''x'' = Some ([''r'', ''x''], [(''id'', JStr ''x''), (''entrypoint'', JStr ''e'')])"
    by code_simp
qed

definition sample_running :: agent where
  "sample_running = sample_ready\<lparr>agt_gate := True, agt_run := Some sample_plan,
     agt_active := Some \<lparr>ac_invocation = ''i'', ac_proc = 5, ac_cancel = False, ac_scratch = ''s''\<rparr>\<rparr>"

lemma sample_id: "id_text sample_agent_env sample_payload d = ''i''"
  by (simp add: id_text_def sample_payload_def)

lemma sample_begin: "run_begin sample_agent_env ''l'' sample_payload sample_ready = (sample_running, Started sample_plan)"
  using sample_prepare [of "sample_ready\<lparr>agt_gate := True\<rparr>"] sample_ready
  by (simp add: run_begin_def sample_id register_active_def sample_running_def Let_def) (simp add: sample_plan_def)

lemma sample_running: "agent_reachable sample_agent_env sample_running" "agt_run sample_running = Some sample_plan"
  using sample_ready(1) agent_step.request [OF agent_request.run_begin [OF sample_begin]] unfolding agent_reachable_def
  by (auto simp: sample_running_def intro: rtranclp.rtrancl_into_rtrancl)

theorem agent_runs_one_process_witness:
  "run_begin sample_agent_env ''l'' sample_payload sample_running =
     (sample_running, Refused (failure ''AGENT_BUSY'' ''sandbox already has an active invocation'' 0 True))"
proof -
  obtain S b where b: "run_begin sample_agent_env ''l'' sample_payload sample_running = (S, b)" by fastforce
  from agent_runs_one_process [OF sample_running(1) b] sample_running(2) b show ?thesis by simp
qed

theorem cancelled_run_reported_witness:
  "\<forall>ob. cr_error_code (snd (run_end sample_agent_env sample_plan ob
     (fst (cancel sample_agent_env sample_payload sample_running)))) = ''CANCELLED''"
proof -
  obtain S c where c: "cancel sample_agent_env sample_payload sample_running = (S, c)" by fastforce
  have p: "rp_invocation sample_plan = ''i''" by (simp add: sample_plan_def)
  from cancelled_run_reported [OF sample_running(1,2) _ _ c, of S] c show ?thesis by (simp add: sample_id p)
qed

theorem agent_http_guarded_witness:
  "do_POST sample_agent_env ''l'' \<lparr>hr_token = ''wrong'', hr_content_length = None, hr_path = ''/run'', hr_body = []\<rparr> sample_running
     = (sample_running, Reply 401 (JObj [(''error'', JStr ''unauthorized'')]))"
proof -
  let ?h = "\<lparr>hr_token = ''wrong'', hr_content_length = None, hr_path = ''/run'', hr_body = []\<rparr>"
  obtain S r where p: "do_POST sample_agent_env ''l'' ?h sample_running = (S, r)" by fastforce
  from agent_http_guarded [OF p] p show ?thesis by (simp add: sample_agent_env_def sample_agent_def)
qed

theorem run_releases_gate_witness:
  "\<forall>ob. agt_active (fst (run sample_agent_env (\<lambda>_. ob) ''l'' sample_payload sample_ready)) = None"
proof
  fix ob
  obtain S r where b: "run sample_agent_env (\<lambda>_. ob) ''l'' sample_payload sample_ready = (S, r)" by fastforce
  from run_releases_gate [OF agent_reachable_ok [OF sample_ready(1)] sample_ready(3) b] b
  show "agt_active (fst (run sample_agent_env (\<lambda>_. ob) ''l'' sample_payload sample_ready)) = None" by simp
qed

text \<open>A child that answers.\<close>

definition sample_child :: "(unit, unit) child_env" where
  "sample_child = \<lparr>ce_env = rp_env sample_plan, ce_euid = 1, ce_egid = 1, ce_harden = (\<lambda>_. Inr ()), ce_resolve = (\<lambda>s. s),
     ce_is_dir = (\<lambda>_. False), ce_sys_path = [], ce_path_layer = Inr (), ce_import = (\<lambda>_ _. Inr ()),
     ce_getattr = (\<lambda>_ _. Inr ()), ce_call = (\<lambda>_ c _ _. Inr (PyBytes c)), ce_traceback = (\<lambda>_. []), ce_context = [],
     ce_loads = (\<lambda>_. Inr (JObj [(''protocol_version'', JInt 1), (''type'', JStr ''invoke''), (''invocation_id'', JStr ''i''),
        (''request'', JObj [(''release_root'', JStr ''/r''), (''entrypoint'', JStr ''m:f'')])])), ce_dumps = (\<lambda>_. [1])\<rparr>"

lemma sample_limits_of: "int_env (rp_env sample_plan) ''RUNNER_MAX_OUTPUT_BYTES'' 8388608 = 8388608"
  "int_env (rp_env sample_plan) ''RUNNER_MAX_ATTRIBUTES'' 128 = 128"
  "int_env (rp_env sample_plan) ''RUNNER_MAX_ATTRIBUTE_BYTES'' 65536 = 65536"
  by (simp_all add: sample_plan_def child_environment_def int_env_def sample_limits_def dict_get_or_def
      py_int_str)

lemma sample_outcome: "child_outcome sample_child ''i'' [rp_frame sample_plan] =
    \<lparr>cr_status = ''SUCCEEDED'', cr_relationship = ''success'', cr_content_b64 = [], cr_attributes = [],
     cr_retryable = False, cr_error_code = [], cr_error_message = []\<rparr>"
proof -
  have r: "read_frame [[77, 80, 82, 49, 0, 0, 0, 0]] MAX_REQUEST_BYTES = Inr []"
    by (simp add: read_frame_def read_exact_def read_exact_loop.simps [of 0] read_exact_loop.simps [of 8]
        protocol_magic_def from_bytes_def Let_def)
  have c: "ce_harden sample_child l = Inr ()" "ce_loads sample_child b = Inr (JObj [(''protocol_version'', JInt 1),
      (''type'', JStr ''invoke''), (''invocation_id'', JStr ''i''),
      (''request'', JObj [(''release_root'', JStr ''/r''), (''entrypoint'', JStr ''m:f'')])])"
    "ce_resolve sample_child p = p" "ce_path_layer sample_child = Inr ()" "ce_import sample_child ps m = Inr ()"
    "ce_getattr sample_child u f = Inr ()" "ce_call sample_child u v a b' = Inr (PyBytes v)"
    "ce_env sample_child = rp_env sample_plan" for l b p ps m f u v a b'
    by (simp_all add: sample_child_def)
  have e: "execute sample_child [(''release_root'', JStr ''/r''), (''entrypoint'', JStr ''m:f'')] = Inr
      \<lparr>cr_status = ''SUCCEEDED'', cr_relationship = ''success'', cr_content_b64 = [], cr_attributes = [],
       cr_retryable = False, cr_error_code = [], cr_error_message = []\<rparr>"
    by (simp add: execute_def parse_request_def split_entrypoint_def decode_b64_def c import_paths_def execute_user_def
        result_of_value_def validate_output_def sample_limits_of plain_success_def attribute_bytes_def dict_get_or_def
        Let_def)
  have k: "check_envelope (JObj [(''protocol_version'', JInt 1),
      (''type'', JStr ''invoke''), (''invocation_id'', JStr ''i''),
      (''request'', JObj [(''release_root'', JStr ''/r''), (''entrypoint'', JStr ''m:f'')])]) ''i''
      = Inr [(''release_root'', JStr ''/r''), (''entrypoint'', JStr ''m:f'')]"
    by (simp add: check_envelope_def)
  show ?thesis
    by (simp add: child_outcome_def child_request_def c k e sample_plan_def r [simplified])
qed

theorem honest_child_accepted_witness:
  "\<exists>A ob. cr_status (run_outcome A sample_plan False ob) = ''SUCCEEDED'' \<and> ob_result ob = [[77, 80, 82, 49, 0, 0, 0, 1, 1]]"
proof -
  let ?o = "child_outcome sample_child ''i'' [rp_frame sample_plan]"
  let ?A = "sample_agent (\<lambda>_. Inr (sort_keys (child_response ''i'' ?o)))"
  let ?ob = "\<lparr>ob_timed_out = False, ob_stdout = [], ob_stderr = [], ob_result = [[77, 80, 82, 49, 0, 0, 0, 1, 1]],
    ob_returncode = Some 0, ob_duration = 1\<rparr>"
  have m: "child_main sample_child [100] ''i'' [rp_frame sample_plan] = (Inr (), [[77, 80, 82, 49, 0, 0, 0, 1, 1]])"
    by (simp add: child_main_def write_frame_def MAX_RESULT_BYTES_def to_bytes4_def protocol_magic_def)
      (simp add: sample_child_def to_bytes4_def)
  have c: "ce_env sample_child = rp_env sample_plan" "ae_loads ?A b = Inr (sort_keys (child_response ''i'' ?o))"
    "9 \<le> rp_max_protocol sample_plan + 8" for b
    by (simp_all add: sample_agent_def sample_child_def) (simp add: sample_plan_def max_protocol_def sample_limits_def)
  have "run_outcome ?A sample_plan False ?ob = child_result.extend (?o\<lparr>cr_attributes := sort_key fst (cr_attributes ?o)\<rparr>)
      \<lparr>ar_duration_ms = 1\<rparr>"
    using honest_child_accepted [OF sample_prepare_with [OF sample_ready(5)] c(1) m, of ?ob] c by simp
  then show ?thesis
    by (intro exI [of _ ?A] exI [of _ ?ob]) (simp add: sample_outcome child_result.extend_def)
qed

text \<open>Concrete instances of the theorems about the database, the catalog and the providers.\<close>

section \<open>The database\<close>

definition sample_args :: begin_args where
  "sample_args = \<lparr>ba_key = ''k'', ba_tenant = ''t'', ba_project = ''j'', ba_processor = ''q'', ba_lease = ''l'',
     ba_release = ''r'', ba_invocation = ''v'', ba_fingerprint = ''h''\<rparr>"

definition sample_result :: run_result where
  "sample_result = \<lparr>rr_status = ''SUCCEEDED'', rr_relationship = ''success'', rr_content = [1],
     rr_attributes = [(''bb'', ''1''), (''a'', ''2'')], rr_retryable = False, rr_error_code = [],
     rr_error_message = [], rr_worker_id = ''w'', rr_duration_ms = 3\<rparr>"

definition sample_running_db :: runner_db where
  "sample_running_db = \<lparr>db_leases = [], db_runs = [new_run_row ''n'' 0 sample_args], db_keys = [new_key_row ''n'' 0 sample_args]\<rparr>"

lemma sample_running_db: "db_reachable sample_running_db"
proof -
  have "begin_run ''n'' 0 sample_args db_init = Inr (sample_running_db, \<lparr>claim_run = Some ''n'', claim_cached = None\<rparr>)"
    by (simp add: begin_run_def claim_run_row_def sql_insert_def db_init_def sample_running_db_def Let_def)
  then have "db_step_before 1 db_init sample_running_db"
    unfolding db_step_before_def by (intro exI [of _ 0]) (auto intro: db_step.begin_run)
  then show ?thesis unfolding db_reachable_def by blast
qed

theorem one_running_execution_witness:
  "\<exists>k \<in> set (db_keys sample_running_db). key_of k = (''t'', ''r'', ''k'') \<and> ik_run k = ''n''"
  using one_running_execution [OF sample_running_db, of "new_run_row ''n'' 0 sample_args" "new_run_row ''n'' 0 sample_args"]
  by (simp add: sample_running_db_def new_run_row_def run_key_def sample_args_def)

theorem replay_until_expiry_witness:
  "\<exists>db db2. finish_run 5 ''n'' ''k'' ''t'' ''r'' sample_result 10 sample_running_db = Inr db \<and>
     begin_run ''m'' 9 sample_args db = Inr (db2, \<lparr>claim_run = None,
       claim_cached = Some (sample_result\<lparr>rr_attributes := [(''a'', ''2''), (''bb'', ''1'')]\<rparr>)\<rparr>)"
proof -
  obtain db where db: "finish_run 5 ''n'' ''k'' ''t'' ''r'' sample_result 10 sample_running_db = Inr db"
    by (simp add: finish_run_def sample_running_db_def sample_args_def new_run_row_def new_key_row_def sql_count_def
        at_key_def Let_def)
  have k: "k \<in> set (db_keys sample_running_db) \<Longrightarrow> ik_fingerprint k = ''h''" for k
    by (simp add: sample_running_db_def new_key_row_def sample_args_def)
  have a: "rr_retryable sample_result = False" "ba_tenant sample_args = ''t''" "ba_release sample_args = ''r''"
    "ba_key sample_args = ''k''" "ba_fingerprint sample_args = ''h''"
    by (simp_all add: sample_result_def sample_args_def)
  have s: "sort_key jsonb_key (rr_attributes sample_result) = [(''a'', ''2''), (''bb'', ''1'')]"
    by code_simp
  from replay_until_expiry [OF sample_running_db db, of db sample_args 9 "''m''"] db a s
  show ?thesis by (auto simp: a split: if_splits dest: k)
qed

section \<open>The catalog\<close>

theorem catalog_save_atomic_witness:
  "catalog_get ''/'' (save_upto 0 ''r'' [] [1] []) ''r'' =
     Inl (catalog_error ''RELEASE_NOT_FOUND'' (''unknown release '' @ ''r''))"
  using catalog_save_atomic [of "[]" "''r''" "''/''" 0 "[]" "[1]"] by (simp add: save_upto_def)

theorem catalog_save_interrupted_witness:
  "\<exists>C. catalog_save ''/'' C [(''id'', JStr ''r'')] [1] =
     (C, Inl (catalog_error ''RELEASE_NOT_FOUND'' (''unknown release '' @ ''r'')))"
  using catalog_save_interrupted [of "[]" "''r''" 2 "[(''id'', JStr ''r'')]" _ "[(''id'', JStr ''r'')]" "[1]" "''/''" "[1]"]
  by auto

theorem catalog_immutable_witness:
  "\<exists>rel. catalog_get ''/'' (fst (catalog_save ''/'' (sv_catalog demo_service) [(''id'', JStr ''r'')] [9])) ''r'' = Inr rel"
  using catalog_immutable [OF demo_release_ok] by blast

section \<open>Providers\<close>

definition sample_local :: local_env where
  "sample_local = \<lparr>lv_token = (\<lambda>_. []), lv_agent = (\<lambda>_. sample_agent_env), lv_fs = (\<lambda>_. sample_fs), lv_read = (\<lambda>_. Inr []),
     lv_observe = (\<lambda>_. \<lparr>ob_timed_out = True, ob_stdout = [], ob_stderr = [], ob_result = [], ob_returncode = None,
        ob_duration = 7\<rparr>)\<rparr>"

definition sample_backend :: local_backend where
  "sample_backend = \<lparr>lb_workers = [(''s'', sample_agent_env, sample_ready)], lb_sequence = 1\<rparr>"

theorem local_run_bounded_witness:
  "agents_idle (fst (local_run sample_local sample_backend demo_w (pr_release demo_P) demo_request 5))"
proof -
  obtain b r where b: "local_run sample_local sample_backend demo_w (pr_release demo_P) demo_request 5 = (b, r)" by fastforce
  have "agents_idle sample_backend"
    using agent_reachable_ok [OF sample_ready(1)] sample_ready(3) by (simp add: agents_idle_def sample_backend_def)
  from local_run_bounded [OF this b] b show ?thesis by simp
qed

definition failing_env :: "unit os_env" where
  "failing_env = demo_env\<lparr>os_http := \<lambda>s c. (s, 0, if hc_method c = ''POST'' then HttpOk demo_answer else HttpDown [])\<rparr>"

theorem os_create_no_leak_witness:
  "\<exists>s e. os_create (log_env failing_env) ((), []) 0 ''t'' (pr_release demo_P) demo_policy 3600 = (s, Inl e) \<and>
     hc_method (last (snd s)) = ''DELETE'' \<and> hc_url (last (snd s)) = ''u/v1/sandboxes/s''"
proof -
  have c: "dict_get (os_clusters failing_env) (pol_cluster demo_policy) = Some \<lparr>cl_url = ''u'', cl_api_key = None\<rparr>"
    by (simp add: failing_env_def demo_env_def demo_policy_def)
  have req: "\<exists>l'. os_request (log_env failing_env) ((), l) (pol_cluster demo_policy) m p j =
      (((), l'), 0, if m = ''POST'' then Inr demo_answer
        else Inl (RunnerError ''OPENSANDBOX_UNREACHABLE'' (m @ '' '' @ p @ '': '' @ []) True))" for l m p j
    using c by (simp add: os_request_def log_env_def failing_env_def Let_def)
  have i: "sandbox_id (log_env failing_env) demo_answer = Inr ''s''" by code_simp
  obtain l1 where l1: "os_request (log_env failing_env) ((), []) (pol_cluster demo_policy) ''POST'' ''/v1/sandboxes''
      (Some (create_payload (log_env failing_env) (os_token (log_env failing_env) ((), [])) ''t'' (pr_release demo_P)
        demo_policy 3600)) = (((), l1), 0, Inr demo_answer)"
    using req [of "[]" "''POST''" "''/v1/sandboxes''"] by auto
  obtain s2 e where s2: "create_steps (log_env failing_env) ''s'' (os_token (log_env failing_env) ((), [])) ''t''
      (pr_release demo_P) demo_policy 3600 0 ((), l1) = (s2, Inl e)"
    using req [of l1 "''GET''" "sandbox_path ''s''" None]
    by (auto simp: create_steps_def wait_running.simps [of "log_env failing_env"] SANDBOX_READY_WAIT_MS_def Let_def)
  obtain s where s: "os_create (log_env failing_env) ((), []) 0 ''t'' (pr_release demo_P) demo_policy 3600 = (s, Inl e)"
    using l1 i s2 by (simp add: os_create_def Let_def)
  have u: "rstrip_slash ''u'' @ sandbox_path ''s'' = ''u/v1/sandboxes/s''" by code_simp
  from os_create_no_leak [OF c l1 i s] s show ?thesis by (auto simp: u)
qed

end
