(* ===== verification/Retirement.thy ===== *)
theory Retirement
  imports Prelude
begin

text \<open>
  The lifecycle of a runtime image, as the runner, the publish service and the build service each
  keep it in a table of their own. A key that has no lifecycle entry is active; retirement is begun,
  taken back or finished. The locale states what the three stores share: taking back works only
  while a runtime is \<open>RETIRING\<close>, and \<open>RETIRED\<close> is final for these operations.
\<close>

datatype lc_state = Retiring | Retired

locale retirement =
  fixes ok :: "'db \<Rightarrow> bool"
    and state_of :: "'db \<Rightarrow> 'k \<Rightarrow> lc_state option"
    and key :: "'r \<Rightarrow> 'k"
    and retire :: "'r \<Rightarrow> 'db \<Rightarrow> 'db"
    and reopen :: "'r \<Rightarrow> 'db \<Rightarrow> 'db"
    and finish :: "'r \<Rightarrow> 'db \<Rightarrow> 'db"
  assumes retire_ok: "ok db \<Longrightarrow> ok (retire r db)"
    and reopen_ok: "ok db \<Longrightarrow> ok (reopen r db)"
    and finish_ok: "ok db \<Longrightarrow> ok (finish r db)"
    and retire_law: "ok db \<Longrightarrow> state_of (retire r db) k = state_of db k \<or>
      k = key r \<and> state_of db k = None \<and> state_of (retire r db) k = Some Retiring"
    and reopen_law: "ok db \<Longrightarrow> state_of (reopen r db) k = state_of db k \<or>
      k = key r \<and> state_of db k = Some Retiring \<and> state_of (reopen r db) k = None"
    and finish_law: "ok db \<Longrightarrow> state_of (finish r db) k = state_of db k \<or>
      k = key r \<and> state_of db k \<noteq> None \<and> state_of (finish r db) k = Some Retired"
begin

text \<open>One operation by any request.\<close>

definition lc_step :: "'db \<Rightarrow> 'db \<Rightarrow> bool" where
  "lc_step db db' \<longleftrightarrow> (\<exists>r. db' = retire r db \<or> db' = reopen r db \<or> db' = finish r db)"

lemma lc_step_ok: "lc_step db db' \<Longrightarrow> ok db \<Longrightarrow> ok db'"
  unfolding lc_step_def using retire_ok reopen_ok finish_ok by blast

lemma lc_step_retired: "lc_step db db' \<Longrightarrow> ok db \<Longrightarrow> state_of db k = Some Retired \<Longrightarrow> state_of db' k = Some Retired"
  unfolding lc_step_def using retire_law [of db _ k] reopen_law [of db _ k] finish_law [of db _ k] by auto

lemma retired_is_final:
  assumes "lc_step\<^sup>*\<^sup>* db db'" "ok db" "state_of db k = Some Retired"
  shows "state_of db' k = Some Retired \<and> ok db'"
  using assms(1)
proof (induction rule: rtranclp_induct)
  case (step y z)
  then show ?case using lc_step_retired lc_step_ok by blast
qed (use assms in simp)

text \<open>A blocked runtime becomes active only by an accepted \<open>reopen\<close> of that runtime.\<close>

lemma unblocked_by_reopen:
  assumes "lc_step db db'" "ok db" "state_of db k \<noteq> None" "state_of db' k = None"
  shows "state_of db k = Some Retiring \<and> (\<exists>r. key r = k \<and> db' = reopen r db)"
proof -
  from assms(1) obtain r where "db' = retire r db \<or> db' = reopen r db \<or> db' = finish r db"
    unfolding lc_step_def by blast
  then show ?thesis
    using assms(2-4) retire_law [OF assms(2), of r k] reopen_law [OF assms(2), of r k] finish_law [OF assms(2), of r k]
    by (auto split: if_splits)
qed

end

end
