(* ===== verification/Lifecycle_Store.thy ===== *)
theory Lifecycle_Store
  imports Retirement Text
begin

text \<open>
  \<open>RuntimeLifecycleStore\<close> (\<open>runner_engine/lifecycle_store.py\<close>): the table
  \<open>runner.runtime_image_lifecycle\<close>, with the primary key \<open>runtime_id\<close> and the unique column
  \<open>image_ref\<close>. The digest is a parameter, \<open>now()\<close> an argument. The store is an instance of the
  locale of the theory Retirement.
\<close>

record lc_row =
  lc_runtime :: string
  lc_image :: string
  lc_status :: lc_state
  lc_reason :: string
  lc_cleanup_error :: "string option"
  lc_created :: int
  lc_updated :: int
  lc_retired :: "int option"

type_synonym lc_table = "lc_row list"

definition get_by_runtime_id :: "string \<Rightarrow> lc_table \<Rightarrow> lc_row option" where
  "get_by_runtime_id rid t = List.find (\<lambda>r. lc_runtime r = rid) t"

definition get_by_image :: "string \<Rightarrow> lc_table \<Rightarrow> lc_row option" where
  "get_by_image img t = List.find (\<lambda>r. lc_image r = img) t"

definition is_blocked_runtime :: "string \<Rightarrow> lc_table \<Rightarrow> bool" where
  "is_blocked_runtime rid t \<longleftrightarrow> get_by_runtime_id rid t \<noteq> None"

definition begin_row :: "int \<Rightarrow> string \<Rightarrow> string \<Rightarrow> lc_row \<Rightarrow> lc_row" where
  "begin_row now img reason r =
     r\<lparr>lc_image := img, lc_reason := take_text 1000 reason,
       lc_status := (if lc_status r = Retired then Retired else Retiring),
       lc_cleanup_error := None, lc_updated := now\<rparr>"

definition new_lc_row :: "int \<Rightarrow> string \<Rightarrow> string \<Rightarrow> string \<Rightarrow> lc_row" where
  "new_lc_row now rid img reason =
     \<lparr>lc_runtime = rid, lc_image = img, lc_status = Retiring, lc_reason = take_text 1000 reason,
      lc_cleanup_error = None, lc_created = now, lc_updated = now, lc_retired = None\<rparr>"

text \<open>\<open>INSERT ... ON CONFLICT (runtime_id) DO UPDATE\<close>; another row with the image violates its
  unique constraint.\<close>

definition lc_begin_retirement ::
  "(string \<Rightarrow> string) \<Rightarrow> int \<Rightarrow> string \<Rightarrow> string \<Rightarrow> lc_table \<Rightarrow> exn + lc_table \<times> lc_row" where
  "lc_begin_retirement sha now img reason t =
     (let rid = sha img in
      if list_ex (\<lambda>r. lc_image r = img \<and> lc_runtime r \<noteq> rid) t then Inl unique_violation
      else (case get_by_runtime_id rid t of
              None \<Rightarrow> (let r = new_lc_row now rid img reason in Inr (t @ [r], r))
            | Some r \<Rightarrow> Inr (sql_update (\<lambda>r. lc_runtime r = rid) (begin_row now img reason) t,
                            begin_row now img reason r)))"

definition lc_cancel_retirement :: "string \<Rightarrow> lc_table \<Rightarrow> lc_table \<times> bool" where
  "lc_cancel_retirement img t =
     (let P = (\<lambda>r. lc_image r = img \<and> lc_status r = Retiring) in (sql_delete P t, 0 < sql_count P t))"

definition finalize_row :: "int \<Rightarrow> lc_row \<Rightarrow> lc_row" where
  "finalize_row now r =
     r\<lparr>lc_status := Retired, lc_retired := Some (case lc_retired r of None \<Rightarrow> now | Some x \<Rightarrow> x),
       lc_cleanup_error := None, lc_updated := now\<rparr>"

definition lc_finalize_retirement :: "int \<Rightarrow> string \<Rightarrow> lc_table \<Rightarrow> lc_table \<times> lc_row option" where
  "lc_finalize_retirement now img t =
     (sql_update (\<lambda>r. lc_image r = img) (finalize_row now) t,
      map_option (finalize_row now) (get_by_image img t))"

definition lc_list_recent :: "int \<Rightarrow> lc_table \<Rightarrow> lc_row list" where
  "lc_list_recent limit t = take (nat (max 1 (min limit 500))) (sort_key (\<lambda>r. - lc_updated r) t)"

section \<open>The table's invariant\<close>

text \<open>The constraints of the table, and that the key of every row is the digest of its image.\<close>

definition lc_ok :: "(string \<Rightarrow> string) \<Rightarrow> lc_table \<Rightarrow> bool" where
  "lc_ok sha t \<longleftrightarrow> distinct (map lc_runtime t) \<and> (\<forall>r \<in> set t. lc_runtime r = sha (lc_image r))"

definition runtime_state :: "lc_table \<Rightarrow> string \<Rightarrow> lc_state option" where
  "runtime_state t rid = map_option lc_status (get_by_runtime_id rid t)"

lemma lc_row_frame [simp]:
  "lc_runtime (begin_row now img reason r) = lc_runtime r"
  "lc_image (begin_row now img reason r) = img"
  "lc_runtime (finalize_row now r) = lc_runtime r" "lc_image (finalize_row now r) = lc_image r"
  "lc_status (finalize_row now r) = Retired"
  "lc_status (begin_row now img reason r) = (if lc_status r = Retired then Retired else Retiring)"
  by (simp_all add: begin_row_def finalize_row_def)

lemma runtime_state_iff:
  assumes "distinct (map lc_runtime t)" "r \<in> set t"
  shows "runtime_state t (lc_runtime r) = Some (lc_status r)"
proof -
  have "get_by_runtime_id (lc_runtime r) t = Some r"
    unfolding get_by_runtime_id_def by (rule find_unique [OF assms]) auto
  then show ?thesis by (simp add: runtime_state_def)
qed

lemma runtime_state_None: "runtime_state t rid = None \<longleftrightarrow> rid \<notin> lc_runtime ` set t"
  by (auto simp: runtime_state_def get_by_runtime_id_def find_None_iff)

lemma runtime_state_update:
  "(\<And>r. lc_runtime (f r) = lc_runtime r) \<Longrightarrow> runtime_state (sql_update P f t) k =
     map_option (\<lambda>r. lc_status (if P r then f r else r)) (get_by_runtime_id k t)"
  unfolding runtime_state_def get_by_runtime_id_def by (subst find_sql_update) (simp_all add: option.map_comp comp_def)

lemma runtime_state_delete:
  assumes "distinct (map lc_runtime t)"
  shows "runtime_state (sql_delete P t) k =
    (case get_by_runtime_id k t of None \<Rightarrow> None | Some r \<Rightarrow> if P r then None else Some (lc_status r))"
proof (cases "get_by_runtime_id k t")
  case None
  then have "k \<notin> lc_runtime ` set (sql_delete P t)" by (auto simp: get_by_runtime_id_def find_None_iff)
  with None show ?thesis by (simp add: runtime_state_None)
next
  case (Some r)
  then have r: "r \<in> set t" "lc_runtime r = k" by (auto simp: get_by_runtime_id_def dest: find_SomeD)
  have d: "distinct (map lc_runtime (sql_delete P t))" using assms by (rule distinct_key_sql_delete)
  have only: "x = r" if "x \<in> set t" "lc_runtime x = k" for x
    using assms r that by (metis distinct_map inj_onD)
  show ?thesis
  proof (cases "P r")
    case True
    with only have "k \<notin> lc_runtime ` set (sql_delete P t)" by auto
    with Some True show ?thesis by (simp add: runtime_state_None)
  next
    case False
    with r have "r \<in> set (sql_delete P t)" by simp
    from runtime_state_iff [OF d this] r Some False show ?thesis by simp
  qed
qed

lemma lc_begin_spec:
  assumes "lc_ok sha t"
  shows "\<exists>t' row. lc_begin_retirement sha now img reason t = Inr (t', row) \<and> lc_ok sha t' \<and>
    lc_status row = (if runtime_state t (sha img) = Some Retired then Retired else Retiring) \<and>
    runtime_state t' k = (if k = sha img then Some (lc_status row) else runtime_state t k)"
proof -
  let ?rid = "sha img"
  have no: "\<not> list_ex (\<lambda>r. lc_image r = img \<and> lc_runtime r \<noteq> ?rid) t"
    using assms by (auto simp: lc_ok_def list_ex_iff)
  show ?thesis
  proof (cases "get_by_runtime_id ?rid t")
    case None
    let ?r = "new_lc_row now ?rid img reason"
    have "?rid \<notin> lc_runtime ` set t" using None by (auto simp: get_by_runtime_id_def find_None_iff)
    then have "lc_ok sha (t @ [?r])" using assms by (simp add: lc_ok_def new_lc_row_def)
    moreover have "runtime_state (t @ [?r]) k = (if k = ?rid then Some Retiring else runtime_state t k)"
      using None by (auto simp: runtime_state_def get_by_runtime_id_def new_lc_row_def split: option.splits)
    ultimately show ?thesis
      using None no by (simp add: lc_begin_retirement_def Let_def runtime_state_def new_lc_row_def)
  next
    case (Some r)
    let ?t = "sql_update (\<lambda>r. lc_runtime r = ?rid) (begin_row now img reason) t"
    have "map lc_runtime ?t = map lc_runtime t" by (rule map_key_sql_update) simp
    then have "lc_ok sha ?t" using assms by (auto simp: lc_ok_def set_sql_update)
    moreover have "runtime_state ?t k = (if k = ?rid then Some (lc_status (begin_row now img reason r))
        else runtime_state t k)"
    proof -
      have u: "runtime_state ?t k = map_option (\<lambda>r. lc_status (if lc_runtime r = ?rid then begin_row now img reason r else r))
          (get_by_runtime_id k t)" by (rule runtime_state_update) simp
      show ?thesis
      proof (cases "get_by_runtime_id k t")
        case None
        with Some u show ?thesis by (auto simp: runtime_state_def)
      next
        case (Some s)
        then have "lc_runtime s = k" by (auto simp: get_by_runtime_id_def dest: find_SomeD)
        with Some \<open>get_by_runtime_id ?rid t = Some r\<close> u show ?thesis by (auto simp: runtime_state_def)
      qed
    qed
    ultimately show ?thesis
      using Some no by (simp add: lc_begin_retirement_def Let_def runtime_state_def)
  qed
qed

lemma lc_cancel_spec:
  assumes "lc_ok sha t" "lc_cancel_retirement img t = (t', b)"
  shows "lc_ok sha t'" "runtime_state t' k = runtime_state t k \<or>
    k = sha img \<and> runtime_state t k = Some Retiring \<and> runtime_state t' k = None"
    "b \<Longrightarrow> runtime_state t' (sha img) = None \<and> runtime_state t (sha img) = Some Retiring"
proof -
  let ?P = "\<lambda>r. lc_image r = img \<and> lc_status r = Retiring"
  have t': "t' = sql_delete ?P t" "b = (0 < sql_count ?P t)" using assms(2) by (simp_all add: lc_cancel_retirement_def Let_def)
  have d: "distinct (map lc_runtime t)" using assms(1) by (simp add: lc_ok_def)
  show "lc_ok sha t'" using assms(1) distinct_key_sql_delete [of lc_runtime t] by (simp add: t' lc_ok_def)
  show "runtime_state t' k = runtime_state t k \<or>
    k = sha img \<and> runtime_state t k = Some Retiring \<and> runtime_state t' k = None"
    using assms(1) unfolding t'(1) runtime_state_delete [OF d] runtime_state_def [of t]
    by (auto simp: get_by_runtime_id_def lc_ok_def dest: find_SomeD split: option.splits)
  assume b
  then obtain r where r: "r \<in> set t" "lc_image r = img" "lc_status r = Retiring"
    using sql_count_pos [of ?P t] t'(2) by auto
  then have "runtime_state t (sha img) = Some Retiring" "get_by_runtime_id (sha img) t = Some r"
    using runtime_state_iff [OF d r(1)] assms(1) find_unique [OF d r(1), of "\<lambda>x. lc_runtime x = sha img"]
    by (auto simp: lc_ok_def get_by_runtime_id_def)
  then show "runtime_state t' (sha img) = None \<and> runtime_state t (sha img) = Some Retiring"
    using r unfolding t'(1) runtime_state_delete [OF d] by simp
qed

lemma lc_finalize_spec:
  assumes "lc_ok sha t" "lc_finalize_retirement now img t = (t', row)"
  shows "lc_ok sha t'" "runtime_state t' k = runtime_state t k \<or>
    k = sha img \<and> runtime_state t k \<noteq> None \<and> runtime_state t' k = Some Retired"
    "row \<noteq> None \<Longrightarrow> runtime_state t' (sha img) = Some Retired"
proof -
  have t': "t' = sql_update (\<lambda>r. lc_image r = img) (finalize_row now) t"
    "row = map_option (finalize_row now) (get_by_image img t)"
    using assms(2) by (simp_all add: lc_finalize_retirement_def)
  have u: "runtime_state t' k = map_option (\<lambda>r. lc_status (if lc_image r = img then finalize_row now r else r))
      (get_by_runtime_id k t)" for k unfolding t'(1) by (rule runtime_state_update) simp
  have m: "map lc_runtime t' = map lc_runtime t" unfolding t'(1) by (rule map_key_sql_update) simp
  show ok: "lc_ok sha t'"
    using assms(1) m unfolding lc_ok_def by (auto simp: t'(1) set_sql_update split: if_splits)
  show "runtime_state t' k = runtime_state t k \<or>
    k = sha img \<and> runtime_state t k \<noteq> None \<and> runtime_state t' k = Some Retired"
  proof (cases "get_by_runtime_id k t")
    case None
    then show ?thesis by (simp add: u) (simp add: runtime_state_def)
  next
    case (Some r)
    then have "r \<in> set t" "lc_runtime r = k" by (auto simp: get_by_runtime_id_def dest: find_SomeD)
    then have "lc_image r = img \<Longrightarrow> k = sha img" using assms(1) by (auto simp: lc_ok_def)
    with Some show ?thesis by (auto simp: u) (auto simp: runtime_state_def)
  qed
  assume "row \<noteq> None"
  then obtain r where "r \<in> set t" "lc_image r = img"
    by (auto simp: t'(2) get_by_image_def dest: find_SomeD)
  then have "finalize_row now r \<in> set t'" "lc_runtime (finalize_row now r) = sha img"
    using assms(1) by (auto simp: t'(1) set_sql_update lc_ok_def)
  with runtime_state_iff [of t' "finalize_row now r"] ok show "runtime_state t' (sha img) = Some Retired"
    by (simp add: lc_ok_def)
qed

section \<open>The store as a retirement table\<close>

definition lc_retire_op :: "(string \<Rightarrow> string) \<Rightarrow> int \<times> string \<times> string \<Rightarrow> lc_table \<Rightarrow> lc_table" where
  "lc_retire_op sha r t = (case r of (now, img, reason) \<Rightarrow>
     (case lc_begin_retirement sha now img reason t of Inl e \<Rightarrow> t | Inr (t', row) \<Rightarrow> t'))"

definition lc_reopen_op :: "int \<times> string \<times> string \<Rightarrow> lc_table \<Rightarrow> lc_table" where
  "lc_reopen_op r t = fst (lc_cancel_retirement (fst (snd r)) t)"

definition lc_finish_op :: "int \<times> string \<times> string \<Rightarrow> lc_table \<Rightarrow> lc_table" where
  "lc_finish_op r t = fst (lc_finalize_retirement (fst r) (fst (snd r)) t)"

interpretation runner_lifecycle: retirement "lc_ok sha" runtime_state "\<lambda>r. sha (fst (snd r))" "lc_retire_op sha"
  lc_reopen_op lc_finish_op for sha
proof
  fix t k and r :: "int \<times> string \<times> string"
  assume ok: "lc_ok sha t"
  obtain now img reason where r: "r = (now, img, reason)" by (cases r)
  note b = lc_begin_spec [OF ok, of now img reason k]
  from b show "lc_ok sha (lc_retire_op sha r t)" by (auto simp: lc_retire_op_def r)
  from b show "runtime_state (lc_retire_op sha r t) k = runtime_state t k \<or>
      k = sha (fst (snd r)) \<and> runtime_state t k = None \<and> runtime_state (lc_retire_op sha r t) k = Some Retiring"
  proof -
    obtain t' row where e: "lc_begin_retirement sha now img reason t = Inr (t', row)"
        "lc_status row = (if runtime_state t (sha img) = Some Retired then Retired else Retiring)"
        "runtime_state t' k = (if k = sha img then Some (lc_status row) else runtime_state t k)"
      using b by blast
    then have t': "lc_retire_op sha r t = t'" by (simp add: lc_retire_op_def r)
    show ?thesis unfolding t' using e(2,3)
      by (cases "runtime_state t (sha img)"; cases "the (runtime_state t (sha img))") (auto simp: r split: if_splits)
  qed
  obtain t1 c where c: "lc_cancel_retirement img t = (t1, c)" by fastforce
  from lc_cancel_spec [OF ok c] show "lc_ok sha (lc_reopen_op r t)"
    "runtime_state (lc_reopen_op r t) k = runtime_state t k \<or>
      k = sha (fst (snd r)) \<and> runtime_state t k = Some Retiring \<and> runtime_state (lc_reopen_op r t) k = None"
    by (simp_all add: lc_reopen_op_def r c)
  obtain t2 f where f: "lc_finalize_retirement now img t = (t2, f)" by fastforce
  from lc_finalize_spec [OF ok f] show "lc_ok sha (lc_finish_op r t)"
    "runtime_state (lc_finish_op r t) k = runtime_state t k \<or>
      k = sha (fst (snd r)) \<and> runtime_state t k \<noteq> None \<and> runtime_state (lc_finish_op r t) k = Some Retired"
    by (simp_all add: lc_finish_op_def r f)
qed

end
