(* ===== verification/Lifecycle_Runtime.thy ===== *)
theory Lifecycle_Runtime
  imports Lifecycle_Store Service Open_Sandbox
begin

text \<open>
  The runner with runtime retirement (\<open>runner_engine/lifecycle_runtime.py\<close>,
  \<open>runner_engine/lifecycle_service.py\<close>): the pool whose \<open>acquire\<close> passes a gate, the retirement of
  idle workers, the list of managed sandboxes, the controller, and the checks before leases and
  invocations. The state adds the lifecycle table and the counters of the threads inside
  \<open>acquire\<close> to the runner's service. \<open>us\<close> is the database clock, \<open>ms\<close> the monotonic clock.
\<close>

record 'b lifecycle_runner =
  lr_service :: "'b service"
  lr_acquiring :: "(string, int) dict"
  lr_table :: lc_table

section \<open>The gate of \<open>acquire\<close>\<close>

definition retiring_error :: exn where
  "retiring_error = RunnerError ''RUNTIME_RETIRING'' ''runtime image is retiring and cannot acquire a sandbox'' True"

definition gate_enter :: "string \<Rightarrow> lc_table \<Rightarrow> (string, int) dict \<Rightarrow> exn + (string, int) dict" where
  "gate_enter rid t acquiring =
     (if is_blocked_runtime rid t then Inl retiring_error
      else Inr (dict_set rid (dict_get_or acquiring rid 0 + 1) acquiring))"

definition gate_leave :: "string \<Rightarrow> (string, int) dict \<Rightarrow> (string, int) dict" where
  "gate_leave rid acquiring =
     (let remaining = dict_get_or acquiring rid 0 - 1 in
      if 0 < remaining then dict_set rid remaining acquiring else dict_pop rid acquiring)"

definition lifecycle_acquire ::
  "'b backend \<Rightarrow> pool_cfg \<Rightarrow> int \<Rightarrow> string \<Rightarrow> operator_release \<Rightarrow> security_policy \<Rightarrow> 'b lifecycle_runner
     \<Rightarrow> 'b lifecycle_runner \<times> (exn + nat)" where
  "lifecycle_acquire B cfg ms tenant release policy L =
     (let rid = rt_id (rel_runtime release) in
      case gate_enter rid (lr_table L) (lr_acquiring L) of
        Inl e \<Rightarrow> (L, Inl e)
      | Inr a \<Rightarrow>
          (case pool_acquire B cfg ms tenant release policy (sv_pool (lr_service L)) of
             (p, res) \<Rightarrow> (L\<lparr>lr_service := (lr_service L)\<lparr>sv_pool := p\<rparr>, lr_acquiring := gate_leave rid a\<rparr>, res)))"

section \<open>Idle workers\<close>

record idle_info =
  ii_worker :: string
  ii_tenant :: string
  ii_runtime :: string
  ii_profile :: string
  ii_group :: string
  ii_runs :: int
  ii_healthy :: bool
  ii_idle_ms :: int
  ii_installed :: nat

definition idle_info :: "int \<Rightarrow> worker \<Rightarrow> idle_info" where
  "idle_info ms w =
     \<lparr>ii_worker = w_id w, ii_tenant = w_tenant w, ii_runtime = w_runtime w, ii_profile = w_profile w,
      ii_group = w_group w, ii_runs = int (w_runs w), ii_healthy = w_healthy w,
      ii_idle_ms = max 0 (ms - w_last_used w), ii_installed = length (w_installed w)\<rparr>"

definition pool_snapshot :: "int \<Rightarrow> 'b pool \<Rightarrow> idle_info list" where
  "pool_snapshot ms p = map (\<lambda>r. idle_info ms (p_heap p r)) (concat (map snd (p_idle p)))"

text \<open>\<open>key[1]\<close> of a bucket is the runtime id.\<close>

definition retired_workers :: "string \<Rightarrow> 'b pool \<Rightarrow> nat list" where
  "retired_workers rid p = concat (map snd (filter (\<lambda>(k, b). fst (snd k) = rid) (p_idle p)))"

definition retire_runtime :: "'b backend \<Rightarrow> string \<Rightarrow> 'b pool \<Rightarrow> 'b pool \<times> (exn + string list)" where
  "retire_runtime B rid p =
     (let retired = retired_workers rid p;
          p1 = p\<lparr>p_idle := filter (\<lambda>(k, b). fst (snd k) \<noteq> rid) (p_idle p)\<rparr>
      in case destroy_each B retired p1 of
           (p2, Inl e) \<Rightarrow> (p2, Inl e)
         | (p2, Inr _) \<Rightarrow> (p2, Inr (map (\<lambda>r. w_id (p_heap p2 r)) retired)))"

text \<open>The first idle worker with the id, and what is kept of a bucket.\<close>

fun take_worker :: "(nat \<Rightarrow> worker) \<Rightarrow> string \<Rightarrow> nat option \<Rightarrow> nat list \<Rightarrow> nat option \<times> nat list" where
  "take_worker h wid target [] = (target, [])"
| "take_worker h wid target (r # rs) =
     (if target = None \<and> w_id (h r) = wid then take_worker h wid (Some r) rs
      else (case take_worker h wid target rs of (t, kept) \<Rightarrow> (t, r # kept)))"

fun take_from_buckets :: "(nat \<Rightarrow> worker) \<Rightarrow> string \<Rightarrow> nat option \<Rightarrow> (pool_key, nat list) dict
    \<Rightarrow> nat option \<times> (pool_key, nat list) dict" where
  "take_from_buckets h wid target [] = (target, [])"
| "take_from_buckets h wid target ((k, b) # d) =
     (case take_worker h wid target b of
        (t, kept) \<Rightarrow>
          (case take_from_buckets h wid t d of
             (t', d') \<Rightarrow> (t', if kept = [] then d' else (k, kept) # d')))"

definition retire_idle_worker :: "'b backend \<Rightarrow> string \<Rightarrow> 'b pool \<Rightarrow> 'b pool \<times> (exn + bool)" where
  "retire_idle_worker B wid p =
     (case take_from_buckets (p_heap p) wid None (p_idle p) of
        (None, d) \<Rightarrow> (p\<lparr>p_idle := d\<rparr>, Inr False)
      | (Some r, d) \<Rightarrow>
          (case pool_destroy B r (p\<lparr>p_idle := d\<rparr>) of
             (p', Inl e) \<Rightarrow> (p', Inl e)
           | (p', Inr _) \<Rightarrow> (p', Inr True)))"

section \<open>The sandboxes the control plane knows\<close>

record managed_sandbox =
  ms_sandbox :: string
  ms_cluster :: string
  ms_state :: string
  ms_runtime :: json
  ms_tenant :: json
  ms_profile :: json

text \<open>One item: not ours (\<open>None\<close>) or its entry; an item or metadata that is no object raises, an item
  without an id is left out.\<close>

definition item_metadata :: "json \<Rightarrow> json" where
  "item_metadata it =
     (if truthy (get_field it ''metadata'') then get_field it ''metadata''
      else if truthy (get_field it ''labels'') then get_field it ''labels'' else JObj [])"

definition managed_item ::
  "'s os_env \<Rightarrow> string option \<Rightarrow> string \<Rightarrow> json \<Rightarrow> exn + managed_sandbox option" where
  "managed_item K label cluster it =
     (case owned_item K it of
        Inl e \<Rightarrow> Inl e
      | Inr False \<Rightarrow> Inr None
      | Inr True \<Rightarrow>
          (let metadata = item_metadata it in
           if (case label of None \<Rightarrow> False | Some l \<Rightarrow> l \<noteq> [] \<and> get_field metadata ''runtime'' \<noteq> JStr l)
           then Inr None
           else (case sandbox_id K it of
                   Inl e \<Rightarrow> Inr None
                 | Inr i \<Rightarrow>
                     Inr (Some \<lparr>ms_sandbox = i, ms_cluster = cluster, ms_state = sandbox_state K it,
                                ms_runtime = get_field metadata ''runtime'', ms_tenant = get_field metadata ''tenant'',
                                ms_profile = get_field metadata ''profile''\<rparr>))))"

fun managed_items ::
  "'s os_env \<Rightarrow> string option \<Rightarrow> string \<Rightarrow> json list \<Rightarrow> exn + managed_sandbox list" where
  "managed_items K label cluster [] = Inr []"
| "managed_items K label cluster (it # items) =
     (case managed_item K label cluster it of
        Inl e \<Rightarrow> Inl e
      | Inr m \<Rightarrow>
          (case managed_items K label cluster items of
             Inl e \<Rightarrow> Inl e
           | Inr l \<Rightarrow> Inr ((case m of None \<Rightarrow> [] | Some x \<Rightarrow> [x]) @ l)))"

text \<open>The list of a page; \<open>None\<close> when the answer holds something else, which ends the cluster.\<close>

definition page_items :: "json \<Rightarrow> exn + json list option" where
  "page_items j = (case j of
      JList l \<Rightarrow> Inr (Some l)
    | JObj _ \<Rightarrow>
        (let items = (if truthy (get_field j ''items'') then get_field j ''items''
                      else if truthy (get_field j ''sandboxes'') then get_field j ''sandboxes'' else JList [])
         in case items of JList l \<Rightarrow> Inr (Some l) | _ \<Rightarrow> Inr None)
    | _ \<Rightarrow> Inl attribute_error)"

fun list_pages ::
  "'s os_env \<Rightarrow> string option \<Rightarrow> string \<Rightarrow> nat list \<Rightarrow> 's \<Rightarrow> 's \<times> (exn + managed_sandbox list)" where
  "list_pages K label cluster [] s = (s, Inr [])"
| "list_pages K label cluster (page # pages) s =
     (case os_request K s cluster ''GET'' (''/v1/sandboxes?page='' @ nat_str page @ ''&pageSize=100'') None of
        (s1, _, Inl e) \<Rightarrow> (s1, Inr [])
      | (s1, _, Inr response) \<Rightarrow>
     (case page_items response of
        Inl e \<Rightarrow> (s1, Inl e)
      | Inr None \<Rightarrow> (s1, Inr [])
      | Inr (Some items) \<Rightarrow>
     (case managed_items K label cluster items of
        Inl e \<Rightarrow> (s1, Inl e)
      | Inr l \<Rightarrow>
          if length items < 100 then (s1, Inr l)
          else (case list_pages K label cluster pages s1 of
                  (s2, Inl e) \<Rightarrow> (s2, Inl e)
                | (s2, Inr l') \<Rightarrow> (s2, Inr (l @ l'))))))"

fun list_clusters ::
  "'s os_env \<Rightarrow> string option \<Rightarrow> string list \<Rightarrow> 's \<Rightarrow> 's \<times> (exn + managed_sandbox list)" where
  "list_clusters K label [] s = (s, Inr [])"
| "list_clusters K label (cluster # cs) s =
     (case list_pages K label cluster [1..<101] s of
        (s1, Inl e) \<Rightarrow> (s1, Inl e)
      | (s1, Inr l) \<Rightarrow>
          (case list_clusters K label cs s1 of
             (s2, Inl e) \<Rightarrow> (s2, Inl e)
           | (s2, Inr l') \<Rightarrow> (s2, Inr (l @ l'))))"

definition list_managed :: "'s os_env \<Rightarrow> string option \<Rightarrow> 's \<Rightarrow> 's \<times> (exn + managed_sandbox list)" where
  "list_managed K runtime_id s =
     list_clusters K (case runtime_id of Some r \<Rightarrow> if r = [] then None else Some (take 32 r) | None \<Rightarrow> None)
       (map fst (os_clusters K)) s"

section \<open>The controller\<close>

text \<open>The provider's \<open>list_managed\<close>, if it has one.\<close>

type_synonym 'b lister = "('b \<Rightarrow> string \<Rightarrow> 'b \<times> (exn + managed_sandbox list)) option"

definition open_lister :: "'s os_env \<Rightarrow> 's lister" where
  "open_lister K = Some (\<lambda>s rid. list_managed K (Some rid) s)"

record release_ref =
  rf_release :: string
  rf_profile :: string
  rf_image :: string

definition release_rows :: "string \<Rightarrow> catalog \<Rightarrow> string \<Rightarrow> release_ref list" where
  "release_rows root C rid =
     concat (map (\<lambda>(name, d).
       if rd_metadata d = None then []
       else (case catalog_get root C name of
               Inl e \<Rightarrow> []
             | Inr release \<Rightarrow>
                 if rt_id (rel_runtime release) \<noteq> rid then []
                 else [\<lparr>rf_release = rel_id release, rf_profile = rel_profile release,
                        rf_image = rt_image (rel_runtime release)\<rparr>])) C)"

definition unexpired_lease_count :: "int \<Rightarrow> string list \<Rightarrow> runner_db \<Rightarrow> nat" where
  "unexpired_lease_count us release_ids db =
     (if release_ids = [] then 0
      else sql_count (\<lambda>r. lr_release r \<in> set release_ids \<and> us < lr_expires r) (db_leases db))"

record active_info =
  ai_invocation :: string
  ai_tenant :: string
  ai_lease :: string
  ai_release :: string
  ai_worker :: string

definition active_info :: "(nat \<Rightarrow> worker) \<Rightarrow> string \<times> nat active_run \<Rightarrow> active_info" where
  "active_info h x = (case x of (i, a) \<Rightarrow>
     \<lparr>ai_invocation = i, ai_tenant = ar_tenant a, ai_lease = ar_lease a, ai_release = ar_release a,
      ai_worker = w_id (h (ar_worker a))\<rparr>)"

definition active_of :: "string \<Rightarrow> 'b service \<Rightarrow> active_info list" where
  "active_of rid S =
     map (active_info (p_heap (sv_pool S)))
       (filter (\<lambda>(i, a). w_runtime (p_heap (sv_pool S) (ar_worker a)) = rid) (sv_active S))"

record runtime_status =
  st_runtime :: string
  st_image :: string
  st_state :: "lc_state option"
  st_releases :: "release_ref list"
  st_release_count :: nat
  st_leases :: nat
  st_active :: "active_info list"
  st_idle :: "idle_info list"
  st_acquiring :: int
  st_managed :: "managed_sandbox list"
  st_safe :: bool

definition runtime_image_status ::
  "'b lister \<Rightarrow> (string \<Rightarrow> string) \<Rightarrow> string \<Rightarrow> int \<Rightarrow> int \<Rightarrow> string \<Rightarrow> 'b lifecycle_runner
     \<Rightarrow> 'b lifecycle_runner \<times> (exn + runtime_status)" where
  "runtime_image_status lister sha root us ms img L =
     (let rid = sha img; S = lr_service L;
          state = map_option lc_status (get_by_runtime_id rid (lr_table L));
          releases = release_rows root (sv_catalog S) rid;
          active = active_of rid S;
          idle = filter (\<lambda>x. ii_runtime x = rid) (pool_snapshot ms (sv_pool S));
          acquiring = dict_get_or (lr_acquiring L) rid 0;
          (b, managed) = (case lister of None \<Rightarrow> (p_backend (sv_pool S), Inr [])
                                       | Some f \<Rightarrow> f (p_backend (sv_pool S)) rid);
          L1 = L\<lparr>lr_service := S\<lparr>sv_pool := (sv_pool S)\<lparr>p_backend := b\<rparr>\<rparr>\<rparr>
      in (L1, case managed of
            Inl e \<Rightarrow> Inl e
          | Inr l \<Rightarrow>
              Inr \<lparr>st_runtime = rid, st_image = img, st_state = state, st_releases = take 100 releases,
                   st_release_count = length releases,
                   st_leases = unexpired_lease_count us (map rf_release releases) (sv_db S),
                   st_active = active, st_idle = idle, st_acquiring = acquiring, st_managed = l,
                   st_safe = (state = Some Retiring \<and> active = [] \<and> idle = [] \<and> acquiring = 0 \<and> l = [])\<rparr>))"

definition begin_runtime_retirement ::
  "'b backend \<Rightarrow> 'b lister \<Rightarrow> (string \<Rightarrow> string) \<Rightarrow> string \<Rightarrow> int \<Rightarrow> int \<Rightarrow> string \<Rightarrow> string \<Rightarrow> 'b lifecycle_runner
     \<Rightarrow> 'b lifecycle_runner \<times> (exn + runtime_status \<times> string list option)" where
  "begin_runtime_retirement B lister sha root us ms img reason L =
     (case lc_begin_retirement sha us img reason (lr_table L) of
        Inl e \<Rightarrow> (L, Inl e)
      | Inr (t, row) \<Rightarrow>
          (let L1 = L\<lparr>lr_table := t\<rparr> in
           if lc_status row = Retired
           then (case runtime_image_status lister sha root us ms img L1 of
                   (L2, Inl e) \<Rightarrow> (L2, Inl e)
                 | (L2, Inr st) \<Rightarrow> (L2, Inr (st, None)))
           else (case retire_runtime B (sha img) (sv_pool (lr_service L1)) of
                   (p, Inl e) \<Rightarrow> (L1\<lparr>lr_service := (lr_service L1)\<lparr>sv_pool := p\<rparr>\<rparr>, Inl e)
                 | (p, Inr ids) \<Rightarrow>
                     (case runtime_image_status lister sha root us ms img
                             (L1\<lparr>lr_service := (lr_service L1)\<lparr>sv_pool := p\<rparr>\<rparr>) of
                        (L2, Inl e) \<Rightarrow> (L2, Inl e)
                      | (L2, Inr st) \<Rightarrow> (L2, Inr (st, Some ids))))))"

definition cancel_runtime_retirement ::
  "string \<Rightarrow> 'b lifecycle_runner \<Rightarrow> 'b lifecycle_runner \<times> (exn + bool)" where
  "cancel_runtime_retirement img L =
     (if (case get_by_image img (lr_table L) of None \<Rightarrow> False | Some row \<Rightarrow> lc_status row = Retired)
      then (L, Inl (PyError ''RuntimeError'' ''a RETIRED runtime cannot be reactivated''))
      else (case lc_cancel_retirement img (lr_table L) of
              (t, cancelled) \<Rightarrow> (L\<lparr>lr_table := t\<rparr>, Inr cancelled)))"

definition finalize_runtime_retirement ::
  "'b lister \<Rightarrow> (string \<Rightarrow> string) \<Rightarrow> string \<Rightarrow> int \<Rightarrow> int \<Rightarrow> string \<Rightarrow> 'b lifecycle_runner
     \<Rightarrow> 'b lifecycle_runner \<times> (exn + runtime_status)" where
  "finalize_runtime_retirement lister sha root us ms img L =
     (case runtime_image_status lister sha root us ms img L of
        (L1, Inl e) \<Rightarrow> (L1, Inl e)
      | (L1, Inr st) \<Rightarrow>
          if \<not> st_safe st
          then (L1, Inl (PyError ''RuntimeError''
                  ''runtime still has an active invocation, sandbox acquisition, idle worker or managed sandbox''))
          else (case lc_finalize_retirement us img (lr_table L1) of
                  (t, None) \<Rightarrow> (L1\<lparr>lr_table := t\<rparr>, Inl (PyError ''RuntimeError'' ''runtime lifecycle row disappeared''))
                | (t, Some row) \<Rightarrow>
                    (L1\<lparr>lr_table := t\<rparr>, Inr (st\<lparr>st_state := Some (lc_status row), st_safe := False\<rparr>))))"

definition controller_retire_idle_worker ::
  "'b backend \<Rightarrow> string \<Rightarrow> 'b lifecycle_runner \<Rightarrow> 'b lifecycle_runner \<times> (exn + string)" where
  "controller_retire_idle_worker B wid L =
     (case retire_idle_worker B wid (sv_pool (lr_service L)) of
        (p, res) \<Rightarrow>
          (L\<lparr>lr_service := (lr_service L)\<lparr>sv_pool := p\<rparr>\<rparr>,
           (case res of
              Inl e \<Rightarrow> Inl e
            | Inr False \<Rightarrow> Inl (PyError ''RuntimeError''
                              ''worker is not idle or is no longer owned by this Runner process'')
            | Inr True \<Rightarrow> Inr wid)))"

definition runtime_snapshot ::
  "int \<Rightarrow> 'b lifecycle_runner
     \<Rightarrow> (active_info \<times> string \<times> string) list \<times> idle_info list \<times> (string, int) dict \<times> lc_row list" where
  "runtime_snapshot ms L =
     (let S = lr_service L; h = p_heap (sv_pool S) in
      (map (\<lambda>(i, a). (active_info h (i, a), w_runtime (h (ar_worker a)), w_profile (h (ar_worker a)))) (sv_active S),
       pool_snapshot ms (sv_pool S), lr_acquiring L, lc_list_recent 100 (lr_table L)))"

section \<open>The service\<close>

definition runtime_inactive_error :: "lc_state \<Rightarrow> exn" where
  "runtime_inactive_error s =
     (case s of
        Retired \<Rightarrow> RunnerError ''RUNTIME_RETIRED'' ''runtime image is retired and cannot accept new execution'' False
      | Retiring \<Rightarrow> RunnerError ''RUNTIME_RETIRING'' ''runtime image is retiring and cannot accept new execution'' True)"

definition assert_runtime_active :: "operator_release \<Rightarrow> lc_table \<Rightarrow> exn + unit" where
  "assert_runtime_active release t =
     (case get_by_runtime_id (rt_id (rel_runtime release)) t of
        None \<Rightarrow> Inr ()
      | Some row \<Rightarrow> Inl (runtime_inactive_error (lc_status row)))"

definition release_active :: "runner_cfg \<Rightarrow> string \<Rightarrow> 'b lifecycle_runner \<Rightarrow> exn + unit" where
  "release_active C release_id L =
     (case catalog_get (sc_root C) (sv_catalog (lr_service L)) release_id of
        Inl e \<Rightarrow> Inl e
      | Inr release \<Rightarrow> assert_runtime_active release (lr_table L))"

definition lifecycle_acquire_lease ::
  "runner_cfg \<Rightarrow> int \<Rightarrow> string \<Rightarrow> string \<Rightarrow> string \<Rightarrow> string \<Rightarrow> string \<Rightarrow> 'b lifecycle_runner
     \<Rightarrow> exn + 'b lifecycle_runner \<times> lease" where
  "lifecycle_acquire_lease C us lease_id tenant project processor release_id L =
     (case release_active C release_id L of
        Inl e \<Rightarrow> Inl e
      | Inr _ \<Rightarrow>
          (case service_acquire_lease C us lease_id tenant project processor release_id (lr_service L) of
             Inl e \<Rightarrow> Inl e
           | Inr (S, l) \<Rightarrow> Inr (L\<lparr>lr_service := S\<rparr>, l)))"

definition lifecycle_renew_lease ::
  "runner_cfg \<Rightarrow> int \<Rightarrow> string \<Rightarrow> string \<Rightarrow> 'b lifecycle_runner \<Rightarrow> exn + 'b lifecycle_runner \<times> lease" where
  "lifecycle_renew_lease C us tenant lease_id L =
     (case require_lease us lease_id tenant None (sv_db (lr_service L)) of
        Inl e \<Rightarrow> Inl e
      | Inr current \<Rightarrow>
     (case release_active C (le_release current) L of
        Inl e \<Rightarrow> Inl e
      | Inr _ \<Rightarrow>
          (case service_renew_lease C us tenant lease_id (lr_service L) of
             Inl e \<Rightarrow> Inl e
           | Inr (S, l) \<Rightarrow> Inr (L\<lparr>lr_service := S\<rparr>, l))))"

text \<open>\<open>invoke\<close> for one request alone: the base method runs with the gated \<open>acquire\<close>, whose error is
  handled like any other error of \<open>acquire\<close>.\<close>

definition lifecycle_claimed ::
  "'b backend \<Rightarrow> runner_cfg \<Rightarrow> lc_table \<Rightarrow> int \<Rightarrow> int \<Rightarrow> string \<Rightarrow> prepared \<Rightarrow> 'b service
     \<Rightarrow> 'b service \<times> (exn + run_result)" where
  "lifecycle_claimed B C t us ms run_id P S =
     (if is_blocked_runtime (rt_id (rel_runtime (pr_release P))) t
      then invoke_failed B us run_id P None retiring_error S
      else invoke_claimed B C us ms run_id P S)"

definition lifecycle_invoke ::
  "'b backend \<Rightarrow> runner_cfg \<Rightarrow> int \<Rightarrow> int \<Rightarrow> string \<Rightarrow> run_request \<Rightarrow> 'b lifecycle_runner
     \<Rightarrow> 'b lifecycle_runner \<times> (exn + run_result)" where
  "lifecycle_invoke B C us ms run_id rq L =
     (let S = lr_service L; t = lr_table L; put = (\<lambda>S. L\<lparr>lr_service := S\<rparr>) in
      case release_active C (rq_release rq) L of
        Inl e \<Rightarrow> (L, Inl e)
      | Inr _ \<Rightarrow>
     (case invoke_prepare C us rq S of
        Inl e \<Rightarrow> (L, Inl e)
      | Inr P \<Rightarrow>
     (case invoke_check_active rq S of
        Inl e \<Rightarrow> (L, Inl e)
      | Inr _ \<Rightarrow>
     (case invoke_claim run_id us P S of
        Inl e \<Rightarrow> (L, Inl e)
      | Inr (S1, c) \<Rightarrow>
          (case claim_cached c of
             Some cached \<Rightarrow> (put S1, Inr cached)
           | None \<Rightarrow>
               (case claim_run c of
                  None \<Rightarrow> (put S1, Inl (RunnerError ''RUN_STATE_INVALID''
                             ''new execution did not receive a run id'' True))
                | Some i \<Rightarrow> (case lifecycle_claimed B C t us ms i P S1 of (S2, res) \<Rightarrow> (put S2, res))))))))"

end
