(* ===== verification/Lifecycle_Steps.thy ===== *)
theory Lifecycle_Steps
  imports Lifecycle_Runtime Service_Steps
begin

text \<open>
  Runtime retirement beside running invocations: the gate around \<open>acquire\<close> as two steps of a request
  thread, the retirement operations as steps of their own, everything else as in Service_Steps. A
  retired runtime that nobody uses any more is never used again, over any sandbox provider.
\<close>

section \<open>Which runtimes a pool operation can bring up\<close>

text \<open>\<open>pool_grows rid p q\<close>: no worker of runtime \<open>rid\<close> was created from \<open>p\<close> to \<open>q\<close>, and no worker
  came back to life.\<close>

definition pool_grows :: "string \<Rightarrow> 'b pool \<Rightarrow> 'b pool \<Rightarrow> bool" where
  "pool_grows rid p q \<longleftrightarrow> p_next p \<le> p_next q \<and>
     (\<forall>r < p_next q.
        if r < p_next p
        then w_runtime (p_heap q r) = w_runtime (p_heap p r) \<and>
          (w_destroyed (p_heap p r) \<longrightarrow> w_destroyed (p_heap q r))
        else w_runtime (p_heap q r) \<noteq> rid)"

definition unused :: "string \<Rightarrow> 'b pool \<Rightarrow> bool" where
  "unused rid p \<longleftrightarrow> (\<forall>r < p_next p. w_runtime (p_heap p r) = rid \<longrightarrow> w_destroyed (p_heap p r))"

named_theorems grows

lemma grows_refl [grows]: "pool_grows rid p p"
  by (simp add: pool_grows_def)

lemma growsD:
  assumes "pool_grows rid p q" "r < p_next q"
  shows "r < p_next p \<Longrightarrow> w_runtime (p_heap q r) = w_runtime (p_heap p r)"
    "r < p_next p \<Longrightarrow> w_destroyed (p_heap p r) \<Longrightarrow> w_destroyed (p_heap q r)"
    "\<not> r < p_next p \<Longrightarrow> w_runtime (p_heap q r) \<noteq> rid"
  using assms unfolding pool_grows_def by (metis (full_types))+

lemma grows_next: "pool_grows rid p q \<Longrightarrow> p_next p \<le> p_next q"
  by (simp add: pool_grows_def)

lemma grows_trans:
  assumes "pool_grows rid p q" "pool_grows rid q s"
  shows "pool_grows rid p s"
  unfolding pool_grows_def
proof (intro conjI allI impI)
  show "p_next p \<le> p_next s" using grows_next [OF assms(1)] grows_next [OF assms(2)] by simp
  fix r assume r: "r < p_next s"
  show "if r < p_next p
        then w_runtime (p_heap s r) = w_runtime (p_heap p r) \<and>
          (w_destroyed (p_heap p r) \<longrightarrow> w_destroyed (p_heap s r))
        else w_runtime (p_heap s r) \<noteq> rid"
    using growsD [OF assms(2) r] growsD [OF assms(1)] grows_next [OF assms(1)]
    by (cases "r < p_next q") auto
qed

lemma grows_unused:
  assumes "pool_grows rid p q" "unused rid p"
  shows "unused rid q"
  unfolding unused_def
proof (intro allI impI)
  fix r assume r: "r < p_next q" "w_runtime (p_heap q r) = rid"
  with growsD(3) [OF assms(1) r(1)] have "r < p_next p" by blast
  with growsD(1,2) [OF assms(1) r(1)] assms(2) r(2) show "w_destroyed (p_heap q r)" by (simp add: unused_def)
qed

lemma grows_same_heap [grows]: "p_heap q = p_heap p \<Longrightarrow> p_next q = p_next p \<Longrightarrow> pool_grows rid p q"
  by (simp add: pool_grows_def)

lemma grows_upd [grows]:
  "w_runtime (f (p_heap p r)) = w_runtime (p_heap p r) \<Longrightarrow>
   (w_destroyed (p_heap p r) \<Longrightarrow> w_destroyed (f (p_heap p r))) \<Longrightarrow> pool_grows rid p (upd_worker r f p)"
  by (simp add: pool_grows_def)

lemma grows_destroy [grows]: "pool_destroy B r p = (q, res) \<Longrightarrow> pool_grows rid p q"
  by (auto simp: pool_destroy_def Let_def pool_grows_def split: if_splits prod.splits)

lemma grows_invalidate [grows]:
  assumes "pool_invalidate B r p = (q, res)"
  shows "pool_grows rid p q"
proof -
  have "pool_grows rid p (upd_worker r (\<lambda>w. w\<lparr>w_healthy := False\<rparr>) p)" by (rule grows_upd) simp_all
  with grows_destroy [OF assms [unfolded pool_invalidate_def]] show ?thesis by (blast intro: grows_trans)
qed

lemma grows_destroy_each [grows]: "destroy_each B rs p = (q, res) \<Longrightarrow> pool_grows rid p q"
proof (induction rs arbitrary: p)
  case (Cons r rs)
  obtain p1 x where p1: "pool_destroy B r p = (p1, x)" by fastforce
  from grows_destroy [OF p1] Cons show ?case
    by (cases x) (auto simp: p1 intro: grows_trans)
qed (simp add: grows_refl)

lemma grows_release [grows]:
  assumes "pool_release B now policy r p = (q, res)"
  shows "pool_grows rid p q"
proof -
  let ?p1 = "upd_worker r (\<lambda>w. w\<lparr>w_runs := w_runs w + 1, w_last_used := now\<rparr>) p"
  have p1: "pool_grows rid p ?p1" by (rule grows_upd) simp_all
  have "pool_grows rid ?p1 q"
    using assms by (auto simp: pool_release_def Let_def split: if_splits intro: grows_destroy grows_same_heap)
  with p1 show ?thesis by (rule grows_trans)
qed

lemma grows_reap [grows]:
  assumes "pool_reap B cfg now p = (q, res)"
  shows "pool_grows rid p q"
proof -
  have "pool_grows rid p (reap_idle cfg now p)" by (rule grows_same_heap) (simp_all add: reap_idle_def)
  moreover have "pool_grows rid (reap_idle cfg now p) q"
    using assms by (auto simp: pool_reap_def Let_def split: prod.splits sum.splits intro: grows_destroy_each)
  ultimately show ?thesis by (rule grows_trans)
qed

lemma grows_retire [grows]:
  assumes "retire_runtime B runtime p = (q, res)"
  shows "pool_grows rid p q"
proof -
  let ?p1 = "p\<lparr>p_idle := filter (\<lambda>(k, b). fst (snd k) \<noteq> runtime) (p_idle p)\<rparr>"
  have "pool_grows rid p ?p1" by (rule grows_same_heap) simp_all
  moreover have "pool_grows rid ?p1 q"
    using assms by (auto simp: retire_runtime_def Let_def split: prod.splits sum.splits intro: grows_destroy_each)
  ultimately show ?thesis by (rule grows_trans)
qed

lemma grows_retire_idle [grows]:
  assumes "retire_idle_worker B wid p = (q, res)"
  shows "pool_grows rid p q"
proof -
  obtain t d where td: "take_from_buckets (p_heap p) wid None (p_idle p) = (t, d)" by fastforce
  have "pool_grows rid p (p\<lparr>p_idle := d\<rparr>)" by (rule grows_same_heap) simp_all
  moreover have "pool_grows rid (p\<lparr>p_idle := d\<rparr>) q"
    using assms td by (auto simp: retire_idle_worker_def split: option.splits prod.splits sum.splits
        intro: grows_destroy grows_refl)
  ultimately show ?thesis by (rule grows_trans)
qed

lemma grows_ensure_release [grows]:
  assumes "ensure_release B release r p = (q, res)"
  shows "pool_grows rid p q"
proof -
  obtain b x where e: "ensure_release_rec B release (p_backend p) (p_heap p r) = (b, x)" by fastforce
  have w: "x = Inr w \<Longrightarrow> w_runtime w = w_runtime (p_heap p r) \<and> w_destroyed w = w_destroyed (p_heap p r)" for w
    using ensure_release_rec_Inr [of B release "p_backend p" "p_heap p r" b w] e by auto
  show ?thesis
    using assms e w by (cases x) (auto simp: ensure_release_def pool_grows_def)
qed

context sandbox_backend
begin

lemma grows_ensure_ttl:
  assumes "ensure_sandbox_ttl B cfg now policy r p = (q, res)"
  shows "pool_grows rid p q"
proof -
  have w: "w_runtime w = w_runtime (p_heap p r) \<and> w_destroyed w = w_destroyed (p_heap p r)"
    if "be_renew B (p_backend p) now (p_heap p r) (c_orphan_ttl cfg) = (b, Inr w)" for b w
    using renew_frame [OF that] by simp
  show ?thesis
    using assms w by (auto simp: ensure_sandbox_ttl_def Let_def pool_grows_def
        split: option.splits if_splits prod.splits sum.splits)
qed

lemma grows_candidate:
  assumes "acquire_candidate B cfg now release policy r p = (q, res)"
  shows "pool_grows rid p q"
proof -
  obtain p0 x0 where p0: "ensure_sandbox_ttl B cfg now policy r p = (p0, x0)" by fastforce
  obtain p1 x1 where p1: "ensure_release B release r p0 = (p1, x1)" by fastforce
  note g0 = grows_ensure_ttl [OF p0, of rid] and g1 = grows_ensure_release [OF p1, of rid]
  have stamp: "pool_grows rid p1 (upd_worker r (\<lambda>w. w\<lparr>w_last_used := now\<rparr>) p1)" by (rule grows_upd) simp_all
  obtain p2 x2 where p2: "pool_invalidate B r p0 = (p2, x2)" by fastforce
  obtain p3 x3 where p3: "pool_invalidate B r p1 = (p3, x3)" by fastforce
  have "q = p2 \<or> q = p3 \<or> q = upd_worker r (\<lambda>w. w\<lparr>w_last_used := now\<rparr>) p1"
    using assms p0 p1 p2 p3 by (auto simp: acquire_candidate_def Let_def split: sum.splits)
  then show ?thesis
    using grows_invalidate [OF p2, of rid] grows_invalidate [OF p3, of rid] g0 g1 stamp
    by (blast intro: grows_trans)
qed

lemma grows_create:
  assumes "acquire_create B cfg now tenant release policy p = (q, res)" "rt_id (rel_runtime release) \<noteq> rid"
  shows "pool_grows rid p q"
proof -
  have w: "w_runtime w2 = rt_id (rel_runtime release)"
    if "be_create B b now tenant release policy ttl = (b1, Inr w)" "ensure_release_rec B release b1 w = (b2, Inr w2)"
    for b ttl b1 b2 w w2
    using create_law [OF that(1)] ensure_release_rec_Inr [OF that(2)] by (auto simp: created_for_def)
  show ?thesis
    using assms w by (auto simp: acquire_create_def Let_def pool_grows_def split: sum.splits prod.splits)
qed

lemma grows_acquire:
  assumes "pool_acquire B cfg now tenant release policy p = (q, res)" "rt_id (rel_runtime release) \<noteq> rid"
  shows "pool_grows rid p q"
proof -
  let ?key = "pool_key tenant release"
  obtain stale c rest where sc: "acquire_scan cfg now (p_heap p) (rel_id release)
      (rev (get_or [] (dict_get (p_idle p) ?key))) = (stale, c, rest)" by (metis prod_cases3)
  let ?p1 = "set_bucket ?key (rev rest) p"
  obtain p2 x2 where p2: "destroy_each B stale ?p1 = (p2, x2)" by fastforce
  have "pool_grows rid p ?p1" by (rule grows_same_heap) simp_all
  with grows_destroy_each [OF p2] have g2: "pool_grows rid p p2" by (blast intro: grows_trans)
  have "q = p2 \<or> pool_grows rid p2 q"
    using assms sc p2
    by (auto simp: pool_acquire_def Let_def split: sum.splits option.splits dest: grows_candidate grows_create)
  with g2 show ?thesis by (blast intro: grows_trans)
qed

end

section \<open>The steps\<close>

text \<open>\<open>lx_inside\<close> are the threads that passed the gate and have not left it.\<close>

record 'b lifecycle_system =
  lx_runner :: "'b runner"
  lx_acquiring :: "(string, int) dict"
  lx_table :: lc_table
  lx_inside :: "nat set"

definition own_runtime :: "prepared \<Rightarrow> string" where
  "own_runtime P = rt_id (rel_runtime (pr_release P))"

abbreviation lx_pool :: "'b lifecycle_system \<Rightarrow> 'b pool" where
  "lx_pool L \<equiv> sv_pool (rn_service (lx_runner L))"

definition set_pool :: "'b pool \<Rightarrow> 'b lifecycle_system \<Rightarrow> 'b lifecycle_system" where
  "set_pool p L = L\<lparr>lx_runner := same_threads ((rn_service (lx_runner L))\<lparr>sv_pool := p\<rparr>) (lx_runner L)\<rparr>"

definition is_claimed :: "thread option \<Rightarrow> bool" where
  "is_claimed th = (case th of Some (Claimed P i) \<Rightarrow> True | _ \<Rightarrow> False)"

text \<open>What the controller does: each operation on the table, and the removal of idle workers, is a
  step of its own; the locks of the code only exclude some of these orders. \<open>us\<close> is the database
  clock.\<close>

inductive lifecycle_step ::
  "'b backend \<Rightarrow> runner_cfg \<Rightarrow> (string \<Rightarrow> string) \<Rightarrow> 'b lifecycle_system \<Rightarrow> 'b lifecycle_system \<Rightarrow> bool"
  for B C sha where
  enter: "rn_threads (lx_runner L) t = Some (Claimed P i) \<Longrightarrow> t \<notin> lx_inside L \<Longrightarrow>
    gate_enter (own_runtime P) (lx_table L) (lx_acquiring L) = Inr a \<Longrightarrow>
    lifecycle_step B C sha L (L\<lparr>lx_acquiring := a, lx_inside := insert t (lx_inside L)\<rparr>)"
| blocked: "rn_threads (lx_runner L) t = Some (Claimed P i) \<Longrightarrow> t \<notin> lx_inside L \<Longrightarrow>
    gate_enter (own_runtime P) (lx_table L) (lx_acquiring L) = Inl e \<Longrightarrow>
    lifecycle_step B C sha L
      (L\<lparr>lx_runner := set_thread t (Abandoning P i e) (rn_service (lx_runner L)) (lx_runner L)\<rparr>)"
| thread: "thread_step B C t (lx_runner L) R \<Longrightarrow> t \<in> lx_inside L \<longleftrightarrow> is_claimed (rn_threads (lx_runner L) t) \<Longrightarrow>
    lifecycle_step B C sha L (L\<lparr>lx_runner := R\<rparr>)"
| leave: "rn_threads (lx_runner L) t = Some th \<Longrightarrow> t \<in> lx_inside L \<Longrightarrow> \<not> is_claimed (Some th) \<Longrightarrow>
    lifecycle_step B C sha L (L\<lparr>lx_acquiring := gate_leave (own_runtime (request_of th)) (lx_acquiring L),
      lx_inside := lx_inside L - {t}\<rparr>)"
| other: "other_step B C (lx_runner L) R \<Longrightarrow> lifecycle_step B C sha L (L\<lparr>lx_runner := R\<rparr>)"
| retire: "lc_begin_retirement sha us img reason (lx_table L) = Inr (t, row) \<Longrightarrow>
    lifecycle_step B C sha L (L\<lparr>lx_table := t\<rparr>)"
| retire_idle: "retire_runtime B rid (lx_pool L) = (p, res) \<Longrightarrow> lifecycle_step B C sha L (set_pool p L)"
| retire_worker: "retire_idle_worker B wid (lx_pool L) = (p, x) \<Longrightarrow> lifecycle_step B C sha L (set_pool p L)"
| cancel: "lc_cancel_retirement img (lx_table L) = (t, b) \<Longrightarrow> lifecycle_step B C sha L (L\<lparr>lx_table := t\<rparr>)"
| finalize: "lc_finalize_retirement us img (lx_table L) = (t, r) \<Longrightarrow>
    lifecycle_step B C sha L (L\<lparr>lx_table := t\<rparr>)"
| inspect: "lifecycle_step B C sha L (set_pool ((lx_pool L)\<lparr>p_backend := b\<rparr>) L)"

inductive_cases lifecycle_stepE: "lifecycle_step B C sha L L'"

section \<open>The invariant\<close>

text \<open>The threads inside the gate, by runtime, are what the counters say.\<close>

definition inside_of :: "'b lifecycle_system \<Rightarrow> string \<Rightarrow> nat set" where
  "inside_of L rid = {t \<in> lx_inside L. \<exists>th. rn_threads (lx_runner L) t = Some th \<and> own_runtime (request_of th) = rid}"

definition lifecycle_ok :: "(string \<Rightarrow> string) \<Rightarrow> 'b lifecycle_system \<Rightarrow> bool" where
  "lifecycle_ok sha L \<longleftrightarrow> runner_ok (lx_runner L) \<and> lc_ok sha (lx_table L) \<and> finite (lx_inside L) \<and>
     (\<forall>t \<in> lx_inside L. rn_threads (lx_runner L) t \<noteq> None) \<and>
     (\<forall>rid. dict_get_or (lx_acquiring L) rid 0 = int (card (inside_of L rid)))"

lemma gate_enter_count:
  "gate_enter rid t a = Inr a' \<Longrightarrow> dict_get_or a' r 0 = dict_get_or a r 0 + (if r = rid then 1 else 0)"
  by (auto simp: gate_enter_def dict_get_or_def split: if_splits)

lemma gate_leave_count:
  "0 < dict_get_or a rid 0 \<Longrightarrow> dict_get_or (gate_leave rid a) r 0 = dict_get_or a r 0 - (if r = rid then 1 else 0)"
  by (auto simp: gate_leave_def dict_get_or_def Let_def)

lemma retired_workers_refs:
  "set (retired_workers rid p) \<subseteq> set (idle_refs p)"
  by (auto simp: retired_workers_def idle_refs_def)

lemma idle_ok_filter:
  assumes "idle_ok H p"
  shows "idle_ok H (p\<lparr>p_idle := filter Q (p_idle p)\<rparr>)"
proof -
  have "distinct (concat (map snd (filter Q d)))" if "distinct (concat (map snd d))" for d :: "(pool_key, nat list) dict"
    using that by (induction d) auto
  then show ?thesis
    using assms unfolding idle_ok_def idle_refs_def bucket_ok_def by (auto simp: distinct_map_filter)
qed

lemma retire_runtime_ok:
  assumes run: "retire_runtime B rid p = (q, res)" and ok: "pool_ok H p"
  shows "pool_ok H q" "s \<in> H \<Longrightarrow> p_heap q s = p_heap p s"
proof -
  let ?p1 = "p\<lparr>p_idle := filter (\<lambda>(k, b). fst (snd k) \<noteq> rid) (p_idle p)\<rparr>" and ?rs = "retired_workers rid p"
  have ok1: "pool_ok H ?p1" using ok by (auto simp: pool_ok_def idle_ok_filter)
  have "set (idle_refs p) \<subseteq> {..<p_next p}" "H \<inter> set (idle_refs p) = {}"
    using ok by (auto simp: pool_ok_def idle_ok_def bucket_ok_def idle_refs_def)
  with retired_workers_refs [of rid p] have sub: "set ?rs \<subseteq> {..<p_next ?p1}" and dis: "H \<inter> set ?rs = {}" by auto
  obtain x where d: "destroy_each B ?rs ?p1 = (q, x)"
    using run by (auto simp: retire_runtime_def Let_def split: prod.splits sum.splits)
  from destroy_each_step [OF d sub] ok1 dis show "pool_ok H q" "s \<in> H \<Longrightarrow> p_heap q s = p_heap p s"
    by (auto simp: pool_ok_def idle_ok_same)
qed

lemma take_worker_done: "take_worker h wid (Some x) b = (Some x, b)"
  by (induction b) auto

lemma take_worker_spec:
  "take_worker h wid None b = (t, kept) \<Longrightarrow> distinct b \<Longrightarrow>
     (case t of None \<Rightarrow> kept = b | Some r \<Rightarrow> r \<in> set b \<and> kept = filter (\<lambda>x. x \<noteq> r) b)"
proof (induction b arbitrary: kept)
  case (Cons r rs)
  have f: "r \<notin> set rs \<Longrightarrow> filter (\<lambda>x. x \<noteq> r) rs = rs" by (auto simp: filter_id_conv)
  obtain t1 k1 where rec: "take_worker h wid None rs = (t1, k1)" by fastforce
  from Cons f rec show ?case
    by (auto simp: take_worker_done split: if_splits option.splits)
qed simp

lemma keep_idle_Nil [simp]: "keep_idle P [] = []"
  by (simp add: keep_idle_def)

lemma keep_idle_Cons [simp]: "keep_idle P ((k, b) # d) =
    (if filter P b = [] then keep_idle P d else (k, filter P b) # keep_idle P d)"
  by (simp add: keep_idle_def)

lemma take_done: "take_from_buckets h wid (Some x) d = (Some x, keep_idle (\<lambda>_. True) d)"
  by (induction d) (auto simp: take_worker_done)

lemma keep_idle_cong: "(\<And>r. r \<in> set (concat (map snd d)) \<Longrightarrow> P r = Q r) \<Longrightarrow> keep_idle P d = keep_idle Q d"
proof (induction d)
  case (Cons kb d)
  have "filter P (snd kb) = filter Q (snd kb)" using Cons.prems by (intro filter_cong) auto
  with Cons show ?case by (cases kb) auto
qed simp

lemma take_spec:
  "take_from_buckets h wid None d = (t, d') \<Longrightarrow> distinct (concat (map snd d)) \<Longrightarrow>
     (case t of None \<Rightarrow> True | Some r \<Rightarrow> r \<in> set (concat (map snd d))) \<and> d' = keep_idle (\<lambda>x. t \<noteq> Some x) d"
proof (induction d arbitrary: t d')
  case (Cons kb d)
  obtain k b where kb: "kb = (k, b)" by (cases kb)
  obtain t1 kept where w: "take_worker h wid None b = (t1, kept)" by fastforce
  have dis: "distinct b" "distinct (concat (map snd d))" "set b \<inter> set (concat (map snd d)) = {}"
    using Cons.prems(2) by (auto simp: kb)
  note s = take_worker_spec [OF w dis(1)]
  show ?case
  proof (cases t1)
    case None
    obtain t2 d2 where r: "take_from_buckets h wid None d = (t2, d2)" by fastforce
    note IH = Cons.IH [OF r dis(2)]
    have "filter (\<lambda>x. t2 \<noteq> Some x) b = b" using IH dis(3) by (auto simp: filter_id_conv split: option.splits)
    with None s r w IH Cons.prems(1) show ?thesis
      by (auto simp: kb split: option.splits)
  next
    case (Some r)
    have "keep_idle (\<lambda>_. True) d = keep_idle ((\<noteq>) r) d"
      using dis(3) s Some by (intro keep_idle_cong) auto
    moreover have "filter (\<lambda>x. x \<noteq> r) b = filter ((\<noteq>) r) b" by (rule filter_cong) auto
    ultimately show ?thesis using Some s w Cons.prems(1)
      by (auto simp: kb take_done)
  qed
qed auto

lemma retire_idle_worker_ok:
  assumes run: "retire_idle_worker B wid p = (q, res)" and ok: "pool_ok H p"
  shows "pool_ok H q" "s \<in> H \<Longrightarrow> p_heap q s = p_heap p s"
proof -
  have i: "distinct (concat (map snd (p_idle p)))" "\<And>r. r \<in> set (concat (map snd (p_idle p))) \<Longrightarrow> r < p_next p \<and> r \<notin> H"
    using ok by (auto simp: pool_ok_def idle_ok_def idle_refs_def bucket_ok_def)
  obtain t d where td: "take_from_buckets (p_heap p) wid None (p_idle p) = (t, d)" by fastforce
  note s = take_spec [OF td i(1)]
  have ok1: "pool_ok H (p\<lparr>p_idle := d\<rparr>)"
    using ok s keep_idle_ok [of H p "\<lambda>x. t \<noteq> Some x"] by (simp add: pool_ok_def)
  show "pool_ok H q" "s \<in> H \<Longrightarrow> p_heap q s = p_heap p s"
  proof (atomize (full), cases t)
    case None
    with run td ok1 show "pool_ok H q \<and> (s \<in> H \<longrightarrow> p_heap q s = p_heap p s)" by (auto simp: retire_idle_worker_def)
  next
    case (Some r)
    have r: "r < p_next (p\<lparr>p_idle := d\<rparr>)" "r \<notin> H" using s Some i(2) by auto
    obtain x where x: "pool_destroy B r (p\<lparr>p_idle := d\<rparr>) = (q, x)"
      using run td Some by (auto simp: retire_idle_worker_def split: prod.splits sum.splits)
    from pool_destroy_step [OF x r(1)] ok1 r(2)
    show "pool_ok H q \<and> (s \<in> H \<longrightarrow> p_heap q s = p_heap p s)"
      by (cases "s = r") (auto simp: pool_ok_def idle_ok_same)
  qed
qed

section \<open>Preservation\<close>

lemma set_pool_simps [simp]:
  "lx_runner (set_pool p L) = same_threads ((rn_service (lx_runner L))\<lparr>sv_pool := p\<rparr>) (lx_runner L)"
  "lx_acquiring (set_pool p L) = lx_acquiring L" "lx_table (set_pool p L) = lx_table L"
  "lx_inside (set_pool p L) = lx_inside L"
  by (simp_all add: set_pool_def)

lemma same_threads_threads [simp]: "rn_threads (same_threads S R) = rn_threads R"
  by (simp add: same_threads_def)

lemma inside_of_set_pool [simp]: "inside_of (set_pool p L) = inside_of L"
  by (rule ext) (simp add: inside_of_def)

lemma runner_ok_set_pool:
  assumes ok: "runner_ok R" and p: "pool_ok (ran (holder R)) p"
    and h: "\<And>s. s \<in> ran (holder R) \<Longrightarrow> p_heap p s = p_heap (sv_pool (rn_service R)) s"
  shows "runner_ok (same_threads ((rn_service R)\<lparr>sv_pool := p\<rparr>) R)"
  by (rule runner_ok_same [OF ok]) (use ok p h in \<open>simp_all add: runner_ok_def\<close>)

lemma thread_step_request:
  assumes "thread_step B C t R R'" "rn_threads R t = Some th" "is_claimed (Some th)"
  shows "\<exists>th'. rn_threads R' t = Some th' \<and> request_of th' = request_of th \<and> \<not> is_claimed (Some th')"
  using assms by cases (auto simp: is_claimed_def set_thread_def split: thread.splits)

lemma thread_step_others: "thread_step B C t R R' \<Longrightarrow> u \<noteq> t \<Longrightarrow> rn_threads R' u = rn_threads R u"
  by (erule thread_step.cases) (auto simp: set_thread_def end_thread_def)

lemma other_step_threads: "other_step B C R R' \<Longrightarrow> rn_threads R' = rn_threads R"
  by (erule other_step.cases) (auto simp: same_threads_def)

lemma inside_of_thread:
  assumes "thread_step B C t (lx_runner L) R" "t \<in> lx_inside L \<longleftrightarrow> is_claimed (rn_threads (lx_runner L) t)"
  shows "inside_of (L\<lparr>lx_runner := R\<rparr>) rid = inside_of L rid"
    "(\<forall>u \<in> lx_inside L. rn_threads (lx_runner L) u \<noteq> None) \<Longrightarrow> (\<forall>u \<in> lx_inside L. rn_threads R u \<noteq> None)"
proof -
  have own: "\<exists>th th'. rn_threads (lx_runner L) t = Some th \<and> rn_threads R t = Some th' \<and> request_of th' = request_of th"
    if "t \<in> lx_inside L"
    using that assms thread_step_request [OF assms(1)]
    by (cases "rn_threads (lx_runner L) t") (auto simp: is_claimed_def)
  have "u \<in> lx_inside L \<Longrightarrow> (\<exists>th. rn_threads R u = Some th \<and> own_runtime (request_of th) = rid) =
      (\<exists>th. rn_threads (lx_runner L) u = Some th \<and> own_runtime (request_of th) = rid)" for u
    using own thread_step_others [OF assms(1), of u] by (cases "u = t") auto
  then show "inside_of (L\<lparr>lx_runner := R\<rparr>) rid = inside_of L rid" by (auto simp: inside_of_def)
  show "\<forall>u \<in> lx_inside L. rn_threads R u \<noteq> None" if "\<forall>u \<in> lx_inside L. rn_threads (lx_runner L) u \<noteq> None"
  proof
    fix u assume u: "u \<in> lx_inside L"
    with that own thread_step_others [OF assms(1), of u] show "rn_threads R u \<noteq> None" by (cases "u = t") auto
  qed
qed

lemma blocked_ok:
  assumes ok: "runner_ok R" and t: "rn_threads R t = Some (Claimed P i)"
  shows "runner_ok (set_thread t (Abandoning P i e) (rn_service R) R)"
  by (rule runner_ok_move [OF ok t, where b = "p_backend (sv_pool (rn_service R))"]) auto

lemma inside_of_set: "t \<notin> lx_inside L \<Longrightarrow>
    inside_of (L\<lparr>lx_runner := set_thread t th S (lx_runner L)\<rparr>) rid = inside_of L rid"
  by (auto simp: inside_of_def set_thread_def)

context sandbox_backend
begin

lemma lifecycle_step_ok:
  assumes "lifecycle_step B C sha L L'" and ok: "lifecycle_ok sha L"
  shows "lifecycle_ok sha L'"
  using assms(1)
proof cases
  case (enter t P i a)
  have "inside_of L' rid = (if rid = own_runtime P then insert t (inside_of L rid) else inside_of L rid)" for rid
    using enter by (auto simp: inside_of_def)
  moreover have "t \<notin> inside_of L rid" "finite (inside_of L rid)" for rid
    using enter ok by (auto simp: inside_of_def lifecycle_ok_def)
  ultimately show ?thesis using enter ok by (simp add: lifecycle_ok_def gate_enter_count)
next
  case (blocked t P i e)
  with ok show ?thesis
    by (auto simp: lifecycle_ok_def blocked_ok inside_of_set) (auto simp: set_thread_def)
next
  case (thread t R)
  from thread_step_ok [OF thread(2)] ok have "runner_ok R" by (simp add: lifecycle_ok_def)
  with ok inside_of_thread [OF thread(2,3)] thread(1) show ?thesis by (simp add: lifecycle_ok_def)
next
  case (leave t th)
  let ?rid = "own_runtime (request_of th)"
  have i: "inside_of L' rid = inside_of L rid - (if rid = ?rid then {t} else {})" for rid
    using leave by (auto simp: inside_of_def)
  have m: "t \<in> inside_of L ?rid" "finite (inside_of L rid)" for rid
    using leave ok by (auto simp: inside_of_def lifecycle_ok_def)
  then have "0 < card (inside_of L ?rid)" by (auto simp: card_gt_0_iff)
  with ok have "0 < dict_get_or (lx_acquiring L) ?rid 0" by (simp add: lifecycle_ok_def)
  note g = gate_leave_count [OF this]
  have "dict_get_or (lx_acquiring L') rid 0 = int (card (inside_of L' rid))" for rid
    using ok m g [of rid] leave(1) i [of rid] card_Suc_Diff1 [OF m(2) m(1)]
    by (auto simp: lifecycle_ok_def)
  with leave ok show ?thesis by (simp add: lifecycle_ok_def)
next
  case (other R)
  with ok other_step_ok [OF other(2)] other_step_threads [OF other(2)] show ?thesis
    by (simp add: lifecycle_ok_def inside_of_def)
next
  case (retire us img reason t row)
  with ok lc_begin_spec [of sha "lx_table L" us img reason] show ?thesis
    by (auto simp: lifecycle_ok_def inside_of_def)
next
  case (retire_idle rid p res)
  from ok retire_runtime_ok [OF retire_idle(2), of "ran (holder (lx_runner L))"]
  have "runner_ok (lx_runner L')" unfolding retire_idle(1) set_pool_simps
    by (intro runner_ok_set_pool) (simp_all add: lifecycle_ok_def runner_ok_def)
  with ok show ?thesis by (simp add: retire_idle(1) lifecycle_ok_def)
next
  case (retire_worker wid p x)
  from ok retire_idle_worker_ok [OF retire_worker(2), of "ran (holder (lx_runner L))"]
  have "runner_ok (lx_runner L')" unfolding retire_worker(1) set_pool_simps
    by (intro runner_ok_set_pool) (simp_all add: lifecycle_ok_def runner_ok_def)
  with ok show ?thesis by (simp add: retire_worker(1) lifecycle_ok_def)
next
  case (cancel img t b)
  with ok lc_cancel_spec(1) [OF _ cancel(2)] show ?thesis by (simp add: lifecycle_ok_def inside_of_def)
next
  case (finalize us img t r)
  with ok lc_finalize_spec(1) [OF _ finalize(2)] show ?thesis by (simp add: lifecycle_ok_def inside_of_def)
next
  case (inspect b)
  from ok have "runner_ok (lx_runner L')" unfolding inspect set_pool_simps
    by (intro runner_ok_set_pool) (simp_all add: lifecycle_ok_def runner_ok_def pool_ok_backend)
  with ok show ?thesis by (simp add: inspect lifecycle_ok_def)
qed

end

end
