(* ===== verification/Lifecycle_Theorems.thy ===== *)
theory Lifecycle_Theorems
  imports Lifecycle_Steps Runner_System
begin

text \<open>
  What retirement guarantees while requests run: a retired runtime without users stays without users,
  the counters of the gate are the threads inside it, the service's own gate refuses a request before
  it changes anything, and the one race the deletion status does not see.
\<close>

section \<open>Which steps can bring a worker up\<close>

lemma grows_backend [grows]: "pool_grows rid p (p\<lparr>p_backend := b\<rparr>)"
  by (rule grows_same_heap) simp_all

lemma grows_fst:
  "pool_grows rid p (fst (pool_invalidate B r p))" "pool_grows rid p (fst (pool_release B now policy r p))"
  by (metis grows_invalidate prod.collapse) (metis grows_release prod.collapse)

lemma grows_cancel [grows]:
  assumes "cancel_call B i r S = (S', x)"
  shows "pool_grows rid (sv_pool S) (sv_pool S')"
proof -
  obtain b y where b: "be_cancel B (p_backend (sv_pool S)) (p_heap (sv_pool S) r) i = (b, y)" by fastforce
  let ?p = "(sv_pool S)\<lparr>p_backend := b\<rparr>"
  have "sv_pool S' = ?p \<or> sv_pool S' = fst (pool_invalidate B r ?p)"
    using assms b by (auto simp: cancel_call_def split: sum.splits)
  then show ?thesis
    using grows_backend [of rid "sv_pool S" b] grows_fst(1) [of rid ?p B r] by (auto intro: grows_trans)
qed

lemma grows_other_step:
  "other_step B C R R' \<Longrightarrow> pool_grows rid (sv_pool (rn_service R)) (sv_pool (rn_service R'))"
  by (erule other_step.cases)
    (auto simp: same_threads_def service_maintain_def service_acquire_lease_def service_renew_lease_def
      service_release_lease_def Let_def grows_refl intro: grows_cancel grows_reap split: sum.splits if_splits prod.splits)

context sandbox_backend
begin

lemma grows_thread_step:
  assumes "thread_step B C t R R'" "\<And>P i. rn_threads R t = Some (Claimed P i) \<Longrightarrow> own_runtime P \<noteq> rid"
  shows "pool_grows rid (sv_pool (rn_service R)) (sv_pool (rn_service R'))"
  using assms(1)
proof cases
  case (acquire_fails P i ms S e)
  with assms(2) show ?thesis
    by (auto simp: set_thread_def invoke_acquire_def own_runtime_def intro: grows_acquire split: prod.splits)
next
  case (acquire P i ms S r)
  with assms(2) show ?thesis
    by (auto simp: set_thread_def invoke_acquire_def own_runtime_def intro: grows_acquire split: prod.splits)
qed (auto simp: set_thread_def end_thread_def invoke_claim_def invoke_register_def invoke_run_def invoke_finish_def
    invoke_settle_def invoke_fail_worker_def invoke_abandon_def invoke_pop_def Let_def grows_refl
    intro: grows_invalidate grows_fst grows_backend split: sum.splits prod.splits if_splits option.splits)

end

section \<open>Retired runtimes\<close>

text \<open>Runtime \<open>rid\<close> is retired and no thread is inside the gate for it. Its users are the threads that
  still hold one of its workers.\<close>

definition at_rest :: "string \<Rightarrow> 'b lifecycle_system \<Rightarrow> bool" where
  "at_rest rid L \<longleftrightarrow> runtime_state (lx_table L) rid = Some Retired \<and> inside_of L rid = {}"

definition users :: "string \<Rightarrow> 'b lifecycle_system \<Rightarrow> nat set" where
  "users rid L = {t. \<exists>th. rn_threads (lx_runner L) t = Some th \<and> held_by th \<noteq> None \<and> own_runtime (request_of th) = rid}"

definition only_fewer :: "string \<Rightarrow> 'b lifecycle_system \<Rightarrow> 'b lifecycle_system \<Rightarrow> bool" where
  "only_fewer rid L L' \<longleftrightarrow> pool_grows rid (lx_pool L) (lx_pool L') \<and> users rid L' \<subseteq> users rid L"

lemma only_fewer_refl: "only_fewer rid L L"
  by (simp add: only_fewer_def grows_refl)

lemma only_fewer_trans: "only_fewer rid L M \<Longrightarrow> only_fewer rid M N \<Longrightarrow> only_fewer rid L N"
  unfolding only_fewer_def by (blast intro: grows_trans)

lemma only_fewer_same:
  "rn_threads (lx_runner L') = rn_threads (lx_runner L) \<Longrightarrow> pool_grows rid (lx_pool L) (lx_pool L') \<Longrightarrow>
   only_fewer rid L L'"
  by (simp add: only_fewer_def users_def)

lemma only_fewer_set_pool: "pool_grows rid (lx_pool L) p \<Longrightarrow> only_fewer rid L (set_pool p L)"
  by (simp add: only_fewer_def users_def) (simp add: same_threads_def)

lemma blocked_iff: "is_blocked_runtime rid t \<longleftrightarrow> runtime_state t rid \<noteq> None"
  by (simp add: is_blocked_runtime_def runtime_state_def)

lemma thread_step_users:
  assumes "thread_step B C t R R'" "rn_threads R' u = Some th'" "held_by th' \<noteq> None" "\<not> is_claimed (rn_threads R u)"
  shows "\<exists>th. rn_threads R u = Some th \<and> held_by th \<noteq> None \<and> request_of th = request_of th'"
  using assms by cases (auto simp: set_thread_def end_thread_def is_claimed_def split: if_splits)

context sandbox_backend
begin

lemma at_rest_thread:
  assumes r: "at_rest rid L" and s: "thread_step B C t (lx_runner L) R"
    and i: "t \<in> lx_inside L \<longleftrightarrow> is_claimed (rn_threads (lx_runner L) t)"
  shows "only_fewer rid L (L\<lparr>lx_runner := R\<rparr>)"
proof -
  have n: "own_runtime P \<noteq> rid" if "rn_threads (lx_runner L) t = Some (Claimed P i)" for P i
    using that i r by (auto simp: at_rest_def inside_of_def is_claimed_def)
  have "pool_grows rid (lx_pool L) (sv_pool (rn_service R))" by (rule grows_thread_step [OF s]) (rule n)
  moreover have "u \<in> users rid L" if "u \<in> users rid (L\<lparr>lx_runner := R\<rparr>)" for u
  proof (cases "is_claimed (rn_threads (lx_runner L) u)")
    case True
    then obtain P i where c: "rn_threads (lx_runner L) u = Some (Claimed P i)"
      by (auto simp: is_claimed_def split: option.splits thread.splits)
    show ?thesis
    proof (cases "u = t")
      case True
      with c n have "own_runtime P \<noteq> rid" by simp
      with that c True thread_step_request [OF s, of "Claimed P i"] show ?thesis
        by (auto simp: users_def is_claimed_def)
    next
      case False
      with that thread_step_others [OF s False] show ?thesis by (simp add: users_def)
    qed
  next
    case False
    from that obtain th where th: "rn_threads R u = Some th" "held_by th \<noteq> None" "own_runtime (request_of th) = rid"
      by (auto simp: users_def)
    from thread_step_users [OF s th(1,2) False] th(3) show ?thesis by (auto simp: users_def)
  qed
  ultimately show ?thesis by (auto simp: only_fewer_def)
qed

lemma at_rest_step:
  assumes "lifecycle_step B C sha L L'" and ok: "lifecycle_ok sha L" and r: "at_rest rid L"
  shows "at_rest rid L' \<and> only_fewer rid L L'"
proof -
  note r' = r [unfolded at_rest_def] and t_ok = ok [unfolded lifecycle_ok_def]
  show ?thesis
    using assms(1)
  proof cases
    case (enter t P i a)
    then have "own_runtime P \<noteq> rid" using r' by (auto simp: gate_enter_def blocked_iff split: if_splits)
    with enter r' show ?thesis
      by (auto simp: at_rest_def inside_of_def grows_refl intro: only_fewer_same)
  next
    case (blocked t P i e)
    with r' show ?thesis
      by (simp add: at_rest_def inside_of_set) (auto simp: set_thread_def only_fewer_def users_def grows_refl split: if_splits)
  next
    case (thread t R)
    with at_rest_thread [OF r thread(2,3)] r' inside_of_thread(1) [OF thread(2,3)] show ?thesis
      by (simp add: at_rest_def)
  next
    case (leave t th)
    with r' show ?thesis by (auto simp: at_rest_def inside_of_def grows_refl intro: only_fewer_same)
  next
    case (other R)
    with grows_other_step [OF other(2)] r' other_step_threads [OF other(2)] show ?thesis
      by (auto simp: at_rest_def inside_of_def intro: only_fewer_same)
  next
    case (retire us img reason t row)
    with lc_begin_spec [of sha "lx_table L" us img reason rid] t_ok r' show ?thesis
      by (auto simp: at_rest_def inside_of_def grows_refl intro: only_fewer_same)
  next
    case (retire_idle rid' p res)
    with grows_retire [OF retire_idle(2), of rid] r' show ?thesis
      by (auto simp: at_rest_def intro: only_fewer_set_pool)
  next
    case (retire_worker wid p x)
    with grows_retire_idle [OF retire_worker(2), of rid] r' show ?thesis
      by (auto simp: at_rest_def intro: only_fewer_set_pool)
  next
    case (cancel img t b)
    with lc_cancel_spec(2) [OF _ cancel(2), of sha rid] t_ok r' show ?thesis
      by (auto simp: at_rest_def inside_of_def grows_refl intro: only_fewer_same)
  next
    case (finalize us img t x)
    with lc_finalize_spec(2) [OF _ finalize(2), of sha rid] t_ok r' show ?thesis
      by (auto simp: at_rest_def inside_of_def grows_refl intro: only_fewer_same)
  next
    case (inspect b)
    with grows_backend [of rid "lx_pool L" b] r' show ?thesis
      by (auto simp: at_rest_def intro: only_fewer_set_pool)
  qed
qed

lemma at_rest_steps:
  assumes "(lifecycle_step B C sha)\<^sup>*\<^sup>* L L'" "lifecycle_ok sha L" "at_rest rid L"
  shows "at_rest rid L' \<and> lifecycle_ok sha L' \<and> only_fewer rid L L'"
  using assms
  by (induction rule: rtranclp_induct) (auto intro: lifecycle_step_ok only_fewer_refl only_fewer_trans dest: at_rest_step)

lemma lifecycle_steps_ok:
  "(lifecycle_step B C sha)\<^sup>*\<^sup>* L L' \<Longrightarrow> lifecycle_ok sha L \<Longrightarrow> lifecycle_ok sha L'"
  by (induction rule: rtranclp_induct) (auto intro: lifecycle_step_ok)

end

section \<open>Reachable states\<close>

definition lifecycle_started :: "'b backend \<Rightarrow> (string \<Rightarrow> string) \<Rightarrow> 'b lifecycle_system \<Rightarrow> bool" where
  "lifecycle_started B sha L \<longleftrightarrow> runner_started B (lx_runner L) \<and> lc_ok sha (lx_table L) \<and> lx_acquiring L = [] \<and>
     lx_inside L = {}"

definition lifecycle_reachable ::
  "'b backend \<Rightarrow> runner_cfg \<Rightarrow> (string \<Rightarrow> string) \<Rightarrow> 'b lifecycle_system \<Rightarrow> bool" where
  "lifecycle_reachable B C sha L \<longleftrightarrow> (\<exists>L0. lifecycle_started B sha L0 \<and> (lifecycle_step B C sha)\<^sup>*\<^sup>* L0 L)"

context sandbox_backend
begin

lemma lifecycle_reachable_ok:
  assumes "lifecycle_reachable B C sha L"
  shows "lifecycle_ok sha L"
proof -
  from assms obtain L0 where L0: "lifecycle_started B sha L0" "(lifecycle_step B C sha)\<^sup>*\<^sup>* L0 L"
    by (auto simp: lifecycle_reachable_def)
  then have "lifecycle_ok sha L0"
    using runner_started_ok [of B "lx_runner L0"]
    by (simp add: lifecycle_started_def lifecycle_ok_def inside_of_def dict_get_or_def)
  with lifecycle_steps_ok L0(2) show ?thesis by blast
qed

lemma reachable_rest:
  assumes "lifecycle_reachable B C sha L" "runtime_state (lx_table L) rid = Some Retired"
    and "dict_get_or (lx_acquiring L) rid 0 = 0" "(lifecycle_step B C sha)\<^sup>*\<^sup>* L L'"
  shows "runtime_state (lx_table L') rid = Some Retired \<and> dict_get_or (lx_acquiring L') rid 0 = 0 \<and>
    pool_grows rid (lx_pool L) (lx_pool L') \<and> users rid L' \<subseteq> users rid L"
proof -
  note ok = lifecycle_reachable_ok [OF assms(1)]
  have "finite (inside_of L rid)" using ok by (simp add: lifecycle_ok_def inside_of_def)
  moreover have "int (card (inside_of L rid)) = 0" using ok assms(3) unfolding lifecycle_ok_def by metis
  ultimately have "at_rest rid L" using assms(2) by (simp add: at_rest_def)
  from at_rest_steps [OF assms(4) ok this] show ?thesis
    by (auto simp: at_rest_def only_fewer_def lifecycle_ok_def)
qed

end

section \<open>The service with the gate, one request alone\<close>

lemma release_active_iff:
  "release_active C release_id L = Inr () \<longleftrightarrow>
   (\<exists>rel. catalog_get (sc_root C) (sv_catalog (lr_service L)) release_id = Inr rel \<and>
      \<not> is_blocked_runtime (rt_id (rel_runtime rel)) (lr_table L))"
  by (auto simp: release_active_def assert_runtime_active_def is_blocked_runtime_def split: sum.splits option.splits)

lemma prepared_release:
  "invoke_prepare C us rq S = Inr P \<Longrightarrow> catalog_get (sc_root C) (sv_catalog S) (rq_release rq) = Inr (pr_release P)"
  by (auto simp: invoke_prepare_def Let_def split: sum.splits option.splits if_splits)

lemma lifecycle_claimed_active:
  "\<not> is_blocked_runtime (rt_id (rel_runtime (pr_release P))) t \<Longrightarrow>
   lifecycle_claimed B C t us ms i P S = invoke_claimed B C us ms i P S"
  by (simp add: lifecycle_claimed_def)

lemma lifecycle_invoke_active:
  assumes "release_active C (rq_release rq) L = Inr ()"
  shows "lifecycle_invoke B C us ms i rq L =
    (case invoke B C us ms i rq (lr_service L) of (S, res) \<Rightarrow> (L\<lparr>lr_service := S\<rparr>, res))"
proof -
  have "lifecycle_claimed B C (lr_table L) us ms j P S = invoke_claimed B C us ms j P S"
    if "invoke_prepare C us rq (lr_service L) = Inr P" for P j S
    using prepared_release [OF that] assms by (intro lifecycle_claimed_active) (auto simp: release_active_iff)
  then show ?thesis
    by (simp add: lifecycle_invoke_def invoke_def assms Let_def split: sum.splits option.splits prod.splits)
qed

end
