(* ===== verification/Gateway.thy ===== *)
theory Gateway
  imports Lifecycle_Runtime
begin

text \<open>
  \<open>runner_engine/gateway.py\<close>: which client may act for which tenant and project, and the gRPC methods over the
  service of the runner. The authentication context and the messages come from gRPC; a handler answers, aborts
  with a status, or lets an exception escape, which gRPC reports as UNKNOWN.
\<close>

section \<open>Access control\<close>

text \<open>\<open>needle in value\<close> for a decoded value: an element of a list, a key, or a substring.\<close>

definition json_in :: "string \<Rightarrow> json \<Rightarrow> exn + bool" where
  "json_in needle j =
     (case j of
        JList l \<Rightarrow> Inr (JStr needle \<in> set l)
      | JObj d \<Rightarrow> Inr (dict_get d needle \<noteq> None)
      | JStr s \<Rightarrow> Inr (contains needle s)
      | _ \<Rightarrow> Inl (PyError ''TypeError'' ''argument is not iterable''))"

text \<open>\<open>d.get(key, default)\<close> of a decoded value.\<close>

definition json_get :: "json \<Rightarrow> string \<Rightarrow> json \<Rightarrow> exn + json" where
  "json_get j key dflt =
     (case j of JObj d \<Rightarrow> Inr (dict_get_or d key dflt)
              | _ \<Rightarrow> Inl attribute_error)"

definition access_from_json :: "json \<Rightarrow> exn + json" where
  "access_from_json raw = json_get raw ''identities'' (JObj [])"

definition allow :: "json \<Rightarrow> string \<Rightarrow> string \<Rightarrow> string option \<Rightarrow> exn + bool" where
  "allow identities identity tenant project =
     (case json_get identities identity (JObj []) of Inl e \<Rightarrow> Inl e | Inr tenants \<Rightarrow>
     (case json_get tenants tenant JNull of Inl e \<Rightarrow> Inl e | Inr projects \<Rightarrow>
        if projects = JNull then Inr False
        else (case project of
                None \<Rightarrow> Inr True
              | Some p \<Rightarrow>
                  (case json_in ''*'' projects of
                     Inl e \<Rightarrow> Inl e
                   | Inr True \<Rightarrow> Inr True
                   | Inr False \<Rightarrow> json_in p projects))))"

section \<open>The peer\<close>

definition continues :: "nat \<Rightarrow> bool" where
  "continues b \<longleftrightarrow> 128 \<le> b \<and> b < 192"

fun valid_utf8 :: "nat list \<Rightarrow> bool" where
  "valid_utf8 [] = True"
| "valid_utf8 (a # s) =
     (if a < 128 then valid_utf8 s
      else if 194 \<le> a \<and> a < 224 then (case s of b # s' \<Rightarrow> continues b \<and> valid_utf8 s' | _ \<Rightarrow> False)
      else if 224 \<le> a \<and> a < 240
      then (case s of b # c # s' \<Rightarrow> continues b \<and> continues c \<and> (a = 224 \<longrightarrow> 160 \<le> b) \<and> (a = 237 \<longrightarrow> b < 160) \<and> valid_utf8 s'
                    | _ \<Rightarrow> False)
      else if 240 \<le> a \<and> a < 245
      then (case s of b # c # d # s' \<Rightarrow>
                continues b \<and> continues c \<and> continues d \<and> (a = 240 \<longrightarrow> 144 \<le> b) \<and> (a = 244 \<longrightarrow> b < 144) \<and> valid_utf8 s'
              | _ \<Rightarrow> False)
      else False)"

definition decode_utf8 :: "bytes \<Rightarrow> exn + string" where
  "decode_utf8 b =
     (if valid_utf8 (map unat b) then Inr (map (\<lambda>x. char_of (unat x)) b)
      else Inl (PyError ''UnicodeDecodeError'' ''codec cannot decode bytes''))"

text \<open>A value of the authentication context.\<close>

datatype auth_value = AuthBytes bytes | AuthText string

type_synonym auth_context = "(string, auth_value list) dict"

fun auth_text :: "auth_value \<Rightarrow> exn + string" where
  "auth_text (AuthBytes b) = decode_utf8 b"
| "auth_text (AuthText s) = Inr s"

fun first_identity :: "auth_context \<Rightarrow> string list \<Rightarrow> exn + string" where
  "first_identity auth [] = Inl (RunnerError ''UNAUTHENTICATED'' ''mTLS peer identity is missing'' False)"
| "first_identity auth (key # keys) =
     (case dict_get_or auth key [] of v # _ \<Rightarrow> auth_text v | [] \<Rightarrow> first_identity auth keys)"

definition peer_identity :: "auth_context \<Rightarrow> exn + string" where
  "peer_identity auth = first_identity auth [''x509_subject_alternative_name'', ''x509_common_name'']"

section \<open>Errors as statuses\<close>

datatype grpc_status = Unauthenticated | PermissionDenied | NotFound | Unavailable | FailedPrecondition

datatype grpc_stop = Abort grpc_status string | Unhandled exn

definition error_status :: "string \<Rightarrow> bool \<Rightarrow> grpc_status" where
  "error_status code retryable =
     (if code = ''UNAUTHENTICATED'' then Unauthenticated
      else if ends_with ''FORBIDDEN'' code \<or> code = ''CANCEL_FORBIDDEN'' then PermissionDenied
      else if code \<in> {''RELEASE_NOT_FOUND'', ''LEASE_UNKNOWN''} then NotFound
      else if retryable then Unavailable
      else FailedPrecondition)"

text \<open>\<open>except RunnerError\<close>: other exceptions escape.\<close>

fun abort_runner_error :: "exn \<Rightarrow> grpc_stop" where
  "abort_runner_error (RunnerError c m r) = Abort (error_status c r) (c @ '':'' @ m)"
| "abort_runner_error (PyError t m) = Unhandled (PyError t m)"

section \<open>Authorization\<close>

definition allowed :: "json \<Rightarrow> string \<Rightarrow> string \<Rightarrow> string \<Rightarrow> string \<Rightarrow> grpc_stop + unit" where
  "allowed identities identity tenant project m =
     (case allow identities identity tenant (Some project) of
        Inl e \<Rightarrow> Inl (Unhandled e)
      | Inr ok \<Rightarrow> if ok then Inr () else Inl (Abort PermissionDenied m))"

definition authorize :: "json \<Rightarrow> auth_context \<Rightarrow> string \<Rightarrow> string \<Rightarrow> grpc_stop + unit" where
  "authorize identities auth tenant project =
     (case peer_identity auth of
        Inl e \<Rightarrow> Inl (Unhandled e)
      | Inr identity \<Rightarrow> allowed identities identity tenant project ''identity is not allowed for tenant/project'')"

definition authorize_lease :: "json \<Rightarrow> int \<Rightarrow> auth_context \<Rightarrow> string \<Rightarrow> string \<Rightarrow> 'b lifecycle_runner \<Rightarrow> grpc_stop + lease" where
  "authorize_lease identities us auth tenant lease_id L =
     (case peer_identity auth of
        Inl e \<Rightarrow> Inl (Unhandled e)
      | Inr identity \<Rightarrow>
     (case service_get_lease us tenant lease_id (lr_service L) of
        Inl e \<Rightarrow> Inl (abort_runner_error e)
      | Inr l \<Rightarrow>
     (case allowed identities identity tenant (le_project l) ''identity is not allowed for lease project'' of
        Inl stop \<Rightarrow> Inl stop
      | Inr _ \<Rightarrow> Inr l)))"

section \<open>The methods\<close>

definition answered :: "exn + 'a \<Rightarrow> grpc_stop + 'a" where
  "answered r = (case r of Inl e \<Rightarrow> Inl (abort_runner_error e) | Inr x \<Rightarrow> Inr x)"

definition VERSION :: string where
  "VERSION = ''3.3.0''"

definition health :: "auth_context \<Rightarrow> grpc_stop + bool \<times> string" where
  "health auth = (case peer_identity auth of Inl e \<Rightarrow> Inl (Unhandled e) | Inr _ \<Rightarrow> Inr (True, VERSION))"

text \<open>An operation that changes nothing when it fails.\<close>

definition committed :: "'s \<Rightarrow> exn + 's \<times> 'a \<Rightarrow> 's \<times> (grpc_stop + 'a)" where
  "committed s r = (case r of Inl e \<Rightarrow> (s, Inl (abort_runner_error e)) | Inr (s', x) \<Rightarrow> (s', Inr x))"

definition grpc_acquire_lease ::
  "json \<Rightarrow> runner_cfg \<Rightarrow> int \<Rightarrow> string \<Rightarrow> auth_context \<Rightarrow> string \<Rightarrow> string \<Rightarrow> string \<Rightarrow> string \<Rightarrow> 'b lifecycle_runner
     \<Rightarrow> 'b lifecycle_runner \<times> (grpc_stop + lease)" where
  "grpc_acquire_lease identities C us lease_id auth tenant project processor release L =
     (case authorize identities auth tenant project of
        Inl stop \<Rightarrow> (L, Inl stop)
      | Inr _ \<Rightarrow> committed L (lifecycle_acquire_lease C us lease_id tenant project processor release L))"

definition grpc_renew_lease ::
  "json \<Rightarrow> runner_cfg \<Rightarrow> int \<Rightarrow> auth_context \<Rightarrow> string \<Rightarrow> string \<Rightarrow> 'b lifecycle_runner
     \<Rightarrow> 'b lifecycle_runner \<times> (grpc_stop + lease)" where
  "grpc_renew_lease identities C us auth tenant lease_id L =
     (case authorize_lease identities us auth tenant lease_id L of
        Inl stop \<Rightarrow> (L, Inl stop)
      | Inr _ \<Rightarrow> committed L (lifecycle_renew_lease C us tenant lease_id L))"

text \<open>\<open>request.timeout_ms or 30_000\<close>.\<close>

definition grpc_request :: "run_request \<Rightarrow> run_request" where
  "grpc_request rq = rq\<lparr>rq_timeout_ms := (if rq_timeout_ms rq = 0 then 30000 else rq_timeout_ms rq)\<rparr>"

definition grpc_invoke ::
  "json \<Rightarrow> 'b backend \<Rightarrow> runner_cfg \<Rightarrow> int \<Rightarrow> int \<Rightarrow> string \<Rightarrow> auth_context \<Rightarrow> run_request \<Rightarrow> 'b lifecycle_runner
     \<Rightarrow> 'b lifecycle_runner \<times> (grpc_stop + run_result)" where
  "grpc_invoke identities B C us ms run_id auth rq L =
     (case authorize_lease identities us auth (rq_tenant rq) (rq_lease rq) L of
        Inl stop \<Rightarrow> (L, Inl stop)
      | Inr _ \<Rightarrow> apsnd answered (lifecycle_invoke B C us ms run_id (grpc_request rq) L))"

definition grpc_cancel ::
  "json \<Rightarrow> 'b backend \<Rightarrow> int \<Rightarrow> auth_context \<Rightarrow> string \<Rightarrow> string \<Rightarrow> string \<Rightarrow> 'b lifecycle_runner
     \<Rightarrow> 'b lifecycle_runner \<times> (grpc_stop + bool)" where
  "grpc_cancel identities B us auth tenant lease_id invocation L =
     (case authorize_lease identities us auth tenant lease_id L of
        Inl stop \<Rightarrow> (L, Inl stop)
      | Inr _ \<Rightarrow>
          (case service_cancel B us tenant lease_id invocation (lr_service L) of
             (S, r) \<Rightarrow> (L\<lparr>lr_service := S\<rparr>, answered r)))"

definition grpc_release_lease ::
  "json \<Rightarrow> int \<Rightarrow> auth_context \<Rightarrow> string \<Rightarrow> string \<Rightarrow> 'b lifecycle_runner \<Rightarrow> 'b lifecycle_runner \<times> (grpc_stop + bool)" where
  "grpc_release_lease identities us auth tenant lease_id L =
     (case authorize_lease identities us auth tenant lease_id L of
        Inl stop \<Rightarrow> (L, Inl stop)
      | Inr _ \<Rightarrow>
          (case service_release_lease tenant lease_id (lr_service L) of
             Inl e \<Rightarrow> (L, Inl (abort_runner_error e))
           | Inr S \<Rightarrow> (L\<lparr>lr_service := S\<rparr>, Inr True)))"

section \<open>Who may do what\<close>

text \<open>The five methods as one function of the call.\<close>

datatype grpc_call =
    AcquireLease string string string string
  | RenewLease string string
  | Invoke run_request
  | Cancel string string string
  | ReleaseLease string string

datatype grpc_reply = LeaseReply lease | ResultReply run_result | FlagReply bool

fun grpc_handle ::
  "json \<Rightarrow> 'b backend \<Rightarrow> runner_cfg \<Rightarrow> int \<Rightarrow> int \<Rightarrow> string \<Rightarrow> auth_context \<Rightarrow> grpc_call \<Rightarrow> 'b lifecycle_runner
     \<Rightarrow> 'b lifecycle_runner \<times> (grpc_stop + grpc_reply)" where
  "grpc_handle identities B C us ms i auth (AcquireLease tenant project processor release) L =
     apsnd (map_sum id LeaseReply) (grpc_acquire_lease identities C us i auth tenant project processor release L)"
| "grpc_handle identities B C us ms i auth (RenewLease tenant lease_id) L =
     apsnd (map_sum id LeaseReply) (grpc_renew_lease identities C us auth tenant lease_id L)"
| "grpc_handle identities B C us ms i auth (Invoke rq) L =
     apsnd (map_sum id ResultReply) (grpc_invoke identities B C us ms i auth rq L)"
| "grpc_handle identities B C us ms i auth (Cancel tenant lease_id invocation) L =
     apsnd (map_sum id FlagReply) (grpc_cancel identities B us auth tenant lease_id invocation L)"
| "grpc_handle identities B C us ms i auth (ReleaseLease tenant lease_id) L =
     apsnd (map_sum id FlagReply) (grpc_release_lease identities us auth tenant lease_id L)"

text \<open>What the access list says of a call: the peer may act for the project the call names, or for the project of a
  lease of its tenant.\<close>

definition may_act :: "json \<Rightarrow> auth_context \<Rightarrow> string \<Rightarrow> string \<Rightarrow> bool" where
  "may_act identities auth tenant project \<longleftrightarrow>
     (case peer_identity auth of Inl e \<Rightarrow> False | Inr identity \<Rightarrow> allow identities identity tenant (Some project) = Inr True)"

definition may_use_lease :: "json \<Rightarrow> int \<Rightarrow> auth_context \<Rightarrow> string \<Rightarrow> string \<Rightarrow> runner_db \<Rightarrow> bool" where
  "may_use_lease identities us auth tenant lease_id db \<longleftrightarrow>
     (case require_lease us lease_id tenant None db of Inl e \<Rightarrow> False | Inr l \<Rightarrow> may_act identities auth tenant (le_project l))"

fun permitted :: "json \<Rightarrow> int \<Rightarrow> auth_context \<Rightarrow> grpc_call \<Rightarrow> runner_db \<Rightarrow> bool" where
  "permitted identities us auth (AcquireLease tenant project processor release) db = may_act identities auth tenant project"
| "permitted identities us auth (RenewLease tenant lease_id) db = may_use_lease identities us auth tenant lease_id db"
| "permitted identities us auth (Invoke rq) db = may_use_lease identities us auth (rq_tenant rq) (rq_lease rq) db"
| "permitted identities us auth (Cancel tenant lease_id invocation) db = may_use_lease identities us auth tenant lease_id db"
| "permitted identities us auth (ReleaseLease tenant lease_id) db = may_use_lease identities us auth tenant lease_id db"

lemma authorize_permits: "isl (authorize identities auth tenant project) \<longleftrightarrow> \<not> may_act identities auth tenant project"
  by (auto simp: authorize_def allowed_def may_act_def split: sum.splits bool.splits)

lemma authorize_lease_permits:
  "isl (authorize_lease identities us auth tenant lease_id L) \<longleftrightarrow>
     \<not> may_use_lease identities us auth tenant lease_id (sv_db (lr_service L))"
  by (auto simp: authorize_lease_def service_get_lease_def allowed_def may_use_lease_def may_act_def split: sum.splits bool.splits)

lemma refused_unchanged:
  "isl (authorize identities auth tenant project) \<Longrightarrow>
    \<exists>stop. grpc_acquire_lease identities C us lease_id auth tenant project processor release L = (L, Inl stop)"
  "isl (authorize_lease identities us auth tenant lease_id L) \<Longrightarrow>
    (\<exists>stop. grpc_renew_lease identities C us auth tenant lease_id L = (L, Inl stop)) \<and>
    (\<exists>stop. grpc_cancel identities B us auth tenant lease_id invocation L = (L, Inl stop)) \<and>
    (\<exists>stop. grpc_release_lease identities us auth tenant lease_id L = (L, Inl stop))"
  "isl (authorize_lease identities us auth (rq_tenant rq) (rq_lease rq) L) \<Longrightarrow>
    \<exists>stop. grpc_invoke identities B C us ms run_id auth rq L = (L, Inl stop)"
  by (auto simp: grpc_acquire_lease_def grpc_renew_lease_def grpc_cancel_def grpc_release_lease_def grpc_invoke_def split: sum.splits)

text \<open>C23: A call the access list does not permit to the peer is refused and changes nothing: neither leases nor runs,
  workers or quotas of any tenant.\<close>

theorem forbidden_call_changes_nothing:
  assumes "\<not> permitted identities us auth call (sv_db (lr_service L))"
  shows "\<exists>stop. grpc_handle identities B C us ms i auth call L = (L, Inl stop)"
proof (cases call)
  case (AcquireLease tenant project processor release)
  then have "isl (authorize identities auth tenant project)" using assms by (simp add: authorize_permits)
  from refused_unchanged(1) [OF this, of C us i processor release L] AcquireLease show ?thesis by auto
next
  case (Invoke rq)
  then have "isl (authorize_lease identities us auth (rq_tenant rq) (rq_lease rq) L)" using assms by (simp add: authorize_lease_permits)
  from refused_unchanged(3) [OF this, of B C ms i] Invoke show ?thesis by auto
next
  case (RenewLease tenant lease_id)
  then have "isl (authorize_lease identities us auth tenant lease_id L)" using assms by (simp add: authorize_lease_permits)
  from refused_unchanged(2) [OF this, of C, THEN conjunct1] RenewLease show ?thesis by auto
next
  case (Cancel tenant lease_id invocation)
  then have "isl (authorize_lease identities us auth tenant lease_id L)" using assms by (simp add: authorize_lease_permits)
  from refused_unchanged(2) [OF this, of C B invocation, THEN conjunct2, THEN conjunct1] Cancel show ?thesis by auto
next
  case (ReleaseLease tenant lease_id)
  then have "isl (authorize_lease identities us auth tenant lease_id L)" using assms by (simp add: authorize_lease_permits)
  from refused_unchanged(2) [OF this, of C, THEN conjunct2, THEN conjunct2] ReleaseLease show ?thesis by auto
qed

text \<open>A peer without an identity is never told UNAUTHENTICATED: the exception is raised outside the handlers that map it,
  so every method ends with an exception that gRPC reports as UNKNOWN.\<close>

theorem missing_identity_unmapped:
  assumes "peer_identity auth = Inl e"
  shows "grpc_handle identities B C us ms i auth call L = (L, Inl (Unhandled e)) \<and> health auth = Inl (Unhandled e)"
  using assms
  by (cases call) (simp_all add: health_def grpc_acquire_lease_def grpc_renew_lease_def grpc_cancel_def grpc_release_lease_def
      grpc_invoke_def authorize_def authorize_lease_def)

end
