(* ===== verification/Http.thy ===== *)
theory Http
  imports Codec
begin

text \<open>
  What the HTTP services share: answers with a status and a JSON body, the classes of exceptions their
  routes catch, and the check of an administration token.
\<close>

record http_answer =
  ha_status :: nat
  ha_body :: json

definition http_ok :: "json \<Rightarrow> http_answer" where
  "http_ok j = \<lparr>ha_status = 200, ha_body = j\<rparr>"

text \<open>\<open>HTTPException(status, detail)\<close>.\<close>

definition http_error :: "nat \<Rightarrow> string \<Rightarrow> http_answer" where
  "http_error status detail = \<lparr>ha_status = status, ha_body = JObj [(''detail'', JStr detail)]\<rparr>"

text \<open>An exception no route catches.\<close>

definition server_error :: http_answer where
  "server_error = \<lparr>ha_status = 500, ha_body = JStr ''Internal Server Error''\<rparr>"

section \<open>Classes of exceptions\<close>

definition value_errors :: "string list" where
  "value_errors =
     [''ValueError'', ''ValidationError'', ''ContractCompilationError'', ''SnapshotError'', ''JSONDecodeError'',
      ''UnicodeDecodeError'']"

definition publish_errors :: "string list" where
  "publish_errors = [''PublishError'', ''EdgeDependencyConflictError'']"

definition runtime_errors :: "string list" where
  "runtime_errors =
     publish_errors @ [''RuntimeError'', ''SourceStoreError'', ''BuildServiceClientError'', ''HarborError'', ''HarborConflict'']"

fun of_class :: "string list \<Rightarrow> exn \<Rightarrow> bool" where
  "of_class names (PyError t m) = (t \<in> set names)"
| "of_class names (RunnerError c m r) = (''RuntimeError'' \<in> set names)"

text \<open>The handlers of a route in their order: classes with their status.\<close>

fun by_class :: "(string list \<times> nat) list \<Rightarrow> exn \<Rightarrow> http_answer" where
  "by_class [] e = server_error"
| "by_class ((names, status) # rest) e = (if of_class names e then http_error status (exn_msg e) else by_class rest e)"

text \<open>\<open>str.lower\<close> of a header, which has no character that becomes ASCII otherwise.\<close>

definition ascii_lower :: "string \<Rightarrow> string" where
  "ascii_lower s = map (\<lambda>c. let n = of_char c :: nat in if 65 \<le> n \<and> n \<le> 90 then char_of (n + 32) else c) s"

section \<open>Administration tokens\<close>

definition ascii_text :: "string \<Rightarrow> bool" where
  "ascii_text s \<longleftrightarrow> list_all (\<lambda>c. (of_char c :: nat) < 128) s"

text \<open>\<open>hmac.compare_digest\<close> of texts raises an exception when one has a character outside ASCII.\<close>

definition compare_digest :: "string \<Rightarrow> string \<Rightarrow> exn + bool" where
  "compare_digest a b =
     (if ascii_text a \<and> ascii_text b then Inr (a = b)
      else Inl (PyError ''TypeError'' ''comparing strings with non-ASCII characters is not supported''))"

definition bearer :: string where
  "bearer = ''Bearer ''"

text \<open>\<open>_require_admin\<close> of the build and the publish service: the answer that refuses a request, if any.
  \<open>name\<close> is the environment variable the token is in.\<close>

definition require_admin :: "string \<Rightarrow> string \<Rightarrow> string option \<Rightarrow> http_answer option" where
  "require_admin name expected header =
     (let authorization = (case header of None \<Rightarrow> [] | Some h \<Rightarrow> h) in
      if expected = [] then Some (http_error 503 (name @ '' is not configured''))
      else if \<not> starts_with bearer authorization then Some (http_error 401 ''unauthorized'')
      else (case compare_digest (drop 7 authorization) expected of
              Inl e \<Rightarrow> Some server_error
            | Inr same \<Rightarrow> if same then None else Some (http_error 401 ''unauthorized'')))"

lemma require_admin_token:
  "require_admin name expected header = None \<longleftrightarrow> expected \<noteq> [] \<and> ascii_text expected \<and> header = Some (bearer @ expected)"
proof
  assume r: "require_admin name expected header = None"
  have b: "length bearer = 7" by (simp add: bearer_def)
  have "bearer \<noteq> []" by (simp add: bearer_def)
  with r obtain h where h: "header = Some h" "starts_with bearer h" "drop 7 h = expected" "expected \<noteq> []" "ascii_text expected"
    by (auto simp: require_admin_def compare_digest_def starts_with_def Let_def split: option.splits if_splits)
  have "h = bearer @ expected"
    using append_take_drop_id [of 7 h] h(2,3) by (simp add: starts_with_def b)
  with h show "expected \<noteq> [] \<and> ascii_text expected \<and> header = Some (bearer @ expected)" by simp
next
  assume "expected \<noteq> [] \<and> ascii_text expected \<and> header = Some (bearer @ expected)"
  then show "require_admin name expected header = None"
    by (simp add: require_admin_def compare_digest_def bearer_def starts_with_def)
qed

text \<open>A route behind the token: a refused request leaves the state as it is.\<close>

definition admin_route ::
  "string \<Rightarrow> string \<Rightarrow> string option \<Rightarrow> ('s \<Rightarrow> 's \<times> http_answer) \<Rightarrow> 's \<Rightarrow> 's \<times> http_answer" where
  "admin_route name expected header handler s =
     (case require_admin name expected header of None \<Rightarrow> handler s | Some a \<Rightarrow> (s, a))"

lemma admin_route_refused:
  "header \<noteq> Some (bearer @ expected) \<Longrightarrow>
     fst (admin_route name expected header handler s) = s \<and> ha_status (snd (admin_route name expected header handler s)) \<in> {401, 500, 503}"
proof -
  assume "header \<noteq> Some (bearer @ expected)"
  then have "require_admin name expected header \<noteq> None" by (simp add: require_admin_token)
  then show ?thesis
    by (auto simp: admin_route_def require_admin_def http_error_def server_error_def Let_def
        split: option.splits if_splits sum.splits)
qed

end
