(* ===== verification/Admin_Http.thy ===== *)
theory Admin_Http
  imports Lifecycle_Runtime Http
begin

text \<open>
  \<open>runner_engine/admin_http.py\<close>: the administration interface of the runner over the lifecycle controller, and
  the JSON of its answers. A request is its method, its target split by \<open>urllib\<close>, its headers and its body. An
  exception outside the handlers closes the connection without an answer (\<open>None\<close>). The text of an error of the
  engine names the class RunnerError, not the subclass.
\<close>

section \<open>Requests\<close>

record admin_request =
  aq_path :: string
  aq_query :: "(string, string list) dict"
  aq_authorization :: "string option"
  aq_length :: "string option"
  aq_body :: bytes

text \<open>The decoder of JSON, \<open>str\<close> of a decoded value that is no text, and how times are written.\<close>

record admin_env =
  ad_token :: string
  ad_loads :: "bytes \<Rightarrow> json option"
  ad_show :: "json \<Rightarrow> string"
  ad_seconds :: "int \<Rightarrow> json"
  ad_time :: "int \<Rightarrow> json"

definition MAX_BODY :: int where
  "MAX_BODY = 262144"

definition admin_authorized :: "admin_env \<Rightarrow> admin_request \<Rightarrow> exn + bool" where
  "admin_authorized D q =
     (let v = get_or [] (aq_authorization q) in
      if starts_with bearer v then compare_digest (drop 7 v) (ad_token D) else Inr False)"

definition admin_payload :: "admin_env \<Rightarrow> admin_request \<Rightarrow> exn + (string, json) dict" where
  "admin_payload D q =
     (case py_int (get_or ''0'' (aq_length q)) of
        None \<Rightarrow> Inl (value_error ''invalid literal for int()'')
      | Some n \<Rightarrow>
          if n < 0 \<or> MAX_BODY < n then Inl (value_error ''request body too large'')
          else (let data = take (nat n) (aq_body q) in
                case (if data = [] then Some (JObj []) else ad_loads D data) of
                  None \<Rightarrow> Inl (PyError ''JSONDecodeError'' ''Expecting value'')
                | Some (JObj d) \<Rightarrow> Inr d
                | Some _ \<Rightarrow> Inl (value_error ''request body must be an object'')))"

definition last_query :: "admin_request \<Rightarrow> string \<Rightarrow> string" where
  "last_query q key = (case dict_get (aq_query q) key of Some (v # vs) \<Rightarrow> List.last (v # vs) | _ \<Rightarrow> [])"

text \<open>\<open>str(payload.get(key) or "")\<close>.\<close>

definition payload_text :: "admin_env \<Rightarrow> (string, json) dict \<Rightarrow> string \<Rightarrow> string" where
  "payload_text D d key = (let v = dict_get_or d key JNull in if truthy v then str_of (ad_show D) v else [])"

section \<open>The JSON of the controller\<close>

fun runner_state_name :: "lc_state option \<Rightarrow> string" where
  "runner_state_name None = ''ACTIVE''"
| "runner_state_name (Some Retiring) = ''RETIRING''"
| "runner_state_name (Some Retired) = ''RETIRED''"

definition release_json :: "release_ref \<Rightarrow> json" where
  "release_json r =
     JObj [(''releaseId'', JStr (rf_release r)), (''profile'', JStr (rf_profile r)), (''imageRef'', JStr (rf_image r))]"

definition active_items :: "active_info \<Rightarrow> (string, json) dict" where
  "active_items a =
     [(''invocationId'', JStr (ai_invocation a)), (''tenantId'', JStr (ai_tenant a)), (''leaseId'', JStr (ai_lease a)),
      (''releaseId'', JStr (ai_release a)), (''workerId'', JStr (ai_worker a))]"

definition idle_json :: "admin_env \<Rightarrow> idle_info \<Rightarrow> json" where
  "idle_json D i =
     JObj [(''workerId'', JStr (ii_worker i)), (''tenantId'', JStr (ii_tenant i)), (''runtimeId'', JStr (ii_runtime i)),
       (''profile'', JStr (ii_profile i)), (''backendGroup'', JStr (ii_group i)), (''runs'', JInt (ii_runs i)),
       (''healthy'', JBool (ii_healthy i)), (''idleSeconds'', ad_seconds D (ii_idle_ms i)),
       (''installedReleaseCount'', JInt (int (ii_installed i)))]"

definition managed_json :: "managed_sandbox \<Rightarrow> json" where
  "managed_json m =
     JObj [(''sandboxId'', JStr (ms_sandbox m)), (''cluster'', JStr (ms_cluster m)), (''state'', JStr (ms_state m)),
       (''runtime'', ms_runtime m), (''tenant'', ms_tenant m), (''profile'', ms_profile m)]"

definition status_items :: "admin_env \<Rightarrow> runtime_status \<Rightarrow> (string, json) dict" where
  "status_items D s =
     [(''runtimeId'', JStr (st_runtime s)), (''imageRef'', JStr (st_image s)),
      (''lifecycleState'', JStr (runner_state_name (st_state s))), (''releaseCount'', JInt (int (st_release_count s))),
      (''releases'', JList (map release_json (st_releases s))), (''unexpiredLeaseCount'', JInt (int (st_leases s))),
      (''activeInvocationCount'', JInt (int (length (st_active s)))),
      (''activeInvocations'', JList (map (\<lambda>a. JObj (active_items a)) (st_active s))),
      (''idleWorkerCount'', JInt (int (length (st_idle s)))), (''idleWorkers'', JList (map (idle_json D) (st_idle s))),
      (''acquiringWorkerCount'', JInt (st_acquiring s)), (''managedSandboxCount'', JInt (int (length (st_managed s)))),
      (''managedSandboxes'', JList (map managed_json (st_managed s))), (''safeForArtifactDeletion'', JBool (st_safe s))]"

definition retirement_json :: "admin_env \<Rightarrow> runtime_status \<times> string list option \<Rightarrow> json" where
  "retirement_json D x =
     JObj (status_items D (fst x) @
       (case snd x of None \<Rightarrow> [] | Some ids \<Rightarrow> [(''retiredIdleWorkerIds'', JList (map JStr ids))]))"

definition lc_row_json :: "admin_env \<Rightarrow> lc_row \<Rightarrow> json" where
  "lc_row_json D r =
     JObj [(''runtime_id'', JStr (lc_runtime r)), (''image_ref'', JStr (lc_image r)),
       (''state'', JStr (runner_state_name (Some (lc_status r)))), (''reason'', JStr (lc_reason r)),
       (''cleanup_error'', (case lc_cleanup_error r of None \<Rightarrow> JNull | Some m \<Rightarrow> JStr m)),
       (''created_at'', ad_time D (lc_created r)), (''updated_at'', ad_time D (lc_updated r)),
       (''retired_at'', (case lc_retired r of None \<Rightarrow> JNull | Some t \<Rightarrow> ad_time D t))]"

definition snapshot_json ::
  "admin_env \<Rightarrow> (active_info \<times> string \<times> string) list \<times> idle_info list \<times> (string, int) dict \<times> lc_row list \<Rightarrow> json" where
  "snapshot_json D s =
     (case s of (active, idle, acquiring, rows) \<Rightarrow>
        JObj [(''activeInvocationCount'', JInt (int (length active))),
          (''activeInvocations'', JList (map (\<lambda>(a, runtime, profile).
              JObj (active_items a @ [(''runtimeId'', JStr runtime), (''profile'', JStr profile)])) active)),
          (''idleWorkerCount'', JInt (int (length idle))), (''idleWorkers'', JList (map (idle_json D) idle)),
          (''acquiringByRuntime'', JObj (map (\<lambda>(k, n). (k, JInt n)) acquiring)),
          (''runtimeLifecycle'', JList (map (lc_row_json D) rows))])"

section \<open>Routes\<close>

text \<open>\<open>except ValueError\<close> answers 400, any other exception \<open>status\<close>.\<close>

definition caught :: "nat \<Rightarrow> exn \<Rightarrow> http_answer" where
  "caught status e =
     (if of_class value_errors e then http_error 400 (exn_msg e) else http_error status (exn_text e))"

definition answer_or :: "nat \<Rightarrow> ('a \<Rightarrow> json) \<Rightarrow> exn + 'a \<Rightarrow> http_answer" where
  "answer_or status show r = (case r of Inl e \<Rightarrow> caught status e | Inr x \<Rightarrow> http_ok (show x))"

definition unauthorized :: http_answer where
  "unauthorized = http_error 401 ''unauthorized''"

text \<open>What a handler is run in: the token, else 401 or nothing at all.\<close>

definition admin_guard ::
  "admin_env \<Rightarrow> admin_request \<Rightarrow> ('s \<Rightarrow> 's \<times> http_answer) \<Rightarrow> 's \<Rightarrow> 's \<times> http_answer option" where
  "admin_guard D q handler s =
     (case admin_authorized D q of
        Inl e \<Rightarrow> (s, None)
      | Inr False \<Rightarrow> (s, Some unauthorized)
      | Inr True \<Rightarrow> apsnd Some (handler s))"

record 'b controller =
  ct_backend :: "'b backend"
  ct_lister :: "'b lister"
  ct_sha :: "string \<Rightarrow> string"
  ct_root :: string

definition get_route ::
  "admin_env \<Rightarrow> 'b controller \<Rightarrow> int \<Rightarrow> int \<Rightarrow> admin_request \<Rightarrow> 'b lifecycle_runner \<Rightarrow> 'b lifecycle_runner \<times> http_answer" where
  "get_route D K us ms q L =
     (if aq_path q = ''/health'' then (L, http_ok (JObj [(''ok'', JBool True), (''service'', JStr ''runner-admin'')]))
      else if aq_path q = ''/v1/observe/runtime'' then (L, http_ok (snapshot_json D (runtime_snapshot ms L)))
      else if aq_path q = ''/v1/admin/runtime-images/status''
      then (let img = last_query q ''imageRef'' in
            if img = [] then (L, caught 500 (value_error ''imageRef is required''))
            else apsnd (answer_or 500 (\<lambda>s. JObj (status_items D s)))
                   (runtime_image_status (ct_lister K) (ct_sha K) (ct_root K) us ms img L))
      else (L, http_error 404 ''not found''))"

definition do_get ::
  "admin_env \<Rightarrow> 'b controller \<Rightarrow> int \<Rightarrow> int \<Rightarrow> admin_request \<Rightarrow> 'b lifecycle_runner
     \<Rightarrow> 'b lifecycle_runner \<times> http_answer option" where
  "do_get D K us ms q = admin_guard D q (get_route D K us ms q)"

definition admin_retire ::
  "admin_env \<Rightarrow> 'b controller \<Rightarrow> int \<Rightarrow> int \<Rightarrow> (string, json) dict \<Rightarrow> 'b lifecycle_runner \<Rightarrow> 'b lifecycle_runner \<times> http_answer" where
  "admin_retire D K us ms d L =
     (let img = payload_text D d ''imageRef''; reason = payload_text D d ''reason'' in
      if img = [] \<or> text_length (strip reason) < 5
      then (L, caught 409 (value_error ''imageRef and a meaningful reason are required''))
      else apsnd (answer_or 409 (retirement_json D))
             (begin_runtime_retirement (ct_backend K) (ct_lister K) (ct_sha K) (ct_root K) us ms img (strip reason) L))"

definition admin_cancel ::
  "admin_env \<Rightarrow> (string, json) dict \<Rightarrow> 'b lifecycle_runner \<Rightarrow> 'b lifecycle_runner \<times> http_answer" where
  "admin_cancel D d L =
     (let img = payload_text D d ''imageRef'' in
      if img = [] then (L, caught 409 (value_error ''imageRef is required''))
      else apsnd (answer_or 409 (\<lambda>cancelled. JObj [(''cancelled'', JBool cancelled), (''imageRef'', JStr img),
                    (''lifecycleState'', JStr ''ACTIVE'')]))
             (cancel_runtime_retirement img L))"

definition admin_finalize ::
  "admin_env \<Rightarrow> 'b controller \<Rightarrow> int \<Rightarrow> int \<Rightarrow> (string, json) dict \<Rightarrow> 'b lifecycle_runner \<Rightarrow> 'b lifecycle_runner \<times> http_answer" where
  "admin_finalize D K us ms d L =
     (let img = payload_text D d ''imageRef'' in
      if img = [] then (L, caught 409 (value_error ''imageRef is required''))
      else apsnd (answer_or 409 (\<lambda>s. JObj (status_items D s)))
             (finalize_runtime_retirement (ct_lister K) (ct_sha K) (ct_root K) us ms img L))"

definition admin_retire_idle ::
  "admin_env \<Rightarrow> 'b controller \<Rightarrow> (string, json) dict \<Rightarrow> 'b lifecycle_runner \<Rightarrow> 'b lifecycle_runner \<times> http_answer" where
  "admin_retire_idle D K d L =
     (let wid = payload_text D d ''workerId'' in
      if wid = [] then (L, caught 409 (value_error ''workerId is required''))
      else apsnd (answer_or 409 (\<lambda>i. JObj [(''retired'', JBool True), (''workerId'', JStr i)]))
             (controller_retire_idle_worker (ct_backend K) wid L))"

definition post_route ::
  "admin_env \<Rightarrow> 'b controller \<Rightarrow> int \<Rightarrow> int \<Rightarrow> admin_request \<Rightarrow> 'b lifecycle_runner \<Rightarrow> 'b lifecycle_runner \<times> http_answer" where
  "post_route D K us ms q L =
     (case admin_payload D q of
        Inl e \<Rightarrow> (L, caught 409 e)
      | Inr d \<Rightarrow>
          if aq_path q = ''/v1/admin/runtime-images/retire'' then admin_retire D K us ms d L
          else if aq_path q = ''/v1/admin/runtime-images/cancel-retirement'' then admin_cancel D d L
          else if aq_path q = ''/v1/admin/runtime-images/finalize-retirement'' then admin_finalize D K us ms d L
          else if aq_path q = ''/v1/admin/sandboxes/retire-idle'' then admin_retire_idle D K d L
          else (L, http_error 404 ''not found''))"

definition do_post ::
  "admin_env \<Rightarrow> 'b controller \<Rightarrow> int \<Rightarrow> int \<Rightarrow> admin_request \<Rightarrow> 'b lifecycle_runner
     \<Rightarrow> 'b lifecycle_runner \<times> http_answer option" where
  "do_post D K us ms q = admin_guard D q (post_route D K us ms q)"

text \<open>\<open>__init__\<close> refuses an empty token.\<close>

definition admin_init :: "string \<Rightarrow> exn + string" where
  "admin_init token = (if token = [] then Inl (value_error ''RUNNER_ADMIN_TOKEN is required'') else Inr token)"

section \<open>What the answers mean\<close>

lemma admin_token: "admin_authorized D q = Inr True \<Longrightarrow> aq_authorization q = Some (bearer @ ad_token D)"
proof -
  assume a: "admin_authorized D q = Inr True"
  have b: "length bearer = 7" "bearer \<noteq> []" by (simp_all add: bearer_def)
  from a b obtain v where v: "aq_authorization q = Some v" "starts_with bearer v" "drop 7 v = ad_token D"
    by (cases "aq_authorization q") (auto simp: admin_authorized_def compare_digest_def starts_with_def Let_def split: if_splits)
  have "v = bearer @ ad_token D" using append_take_drop_id [of 7 v] v(2,3) by (simp add: starts_with_def b)
  with v(1) show ?thesis by simp
qed

lemma admin_guard_refused:
  assumes "aq_authorization q \<noteq> Some (bearer @ ad_token D)"
  shows "admin_guard D q handler s = (s, None) \<or> admin_guard D q handler s = (s, Some unauthorized)"
  using admin_token [of D q] assms by (auto simp: admin_guard_def split: sum.splits bool.splits)

text \<open>C24: Without the token neither method of the administration interface reaches the controller: the runner is as it
  was, and the answer is 401 or the connection is closed.\<close>

theorem admin_needs_token:
  assumes "aq_authorization q \<noteq> Some (bearer @ ad_token D)"
  shows "fst (do_get D K us ms q L) = L \<and> fst (do_post D K us ms q L) = L \<and>
    snd (do_get D K us ms q L) \<in> {None, Some unauthorized} \<and> snd (do_post D K us ms q L) \<in> {None, Some unauthorized}"
  using admin_guard_refused [OF assms, of "get_route D K us ms q" L] admin_guard_refused [OF assms, of "post_route D K us ms q" L]
  by (auto simp: do_get_def do_post_def)

lemma answered_200: "ha_status (answer_or status show r) = 200 \<Longrightarrow> status \<noteq> 200 \<Longrightarrow> \<exists>x. r = Inr x"
  by (cases r) (auto simp: answer_or_def caught_def http_error_def split: if_splits)

lemma status_safe:
  assumes "runtime_image_status lister sha root us ms img L = (L1, Inr st)" "st_safe st"
  shows "active_of (sha img) (lr_service L) = []"
    "filter (\<lambda>x. ii_runtime x = sha img) (pool_snapshot ms (sv_pool (lr_service L))) = []"
    "dict_get_or (lr_acquiring L) (sha img) 0 = 0" "lr_table L1 = lr_table L"
    "lister = Some f \<Longrightarrow> snd (f (p_backend (sv_pool (lr_service L))) (sha img)) = Inr []"
  using assms by (auto simp: runtime_image_status_def Let_def split: prod.splits sum.splits option.splits)

text \<open>C25: When the interface answers 200 to the finalization of a retirement, everything it looks at was empty of the runtime:
  the registered invocations, the idle workers, the acquisitions, and the provider's list of sandboxes when it has one; and
  the table says RETIRED afterwards. (A worker between its acquisition and its registration is in none of these lists.)\<close>

theorem finalized_answer_found_nothing:
  assumes "do_post D K us ms q L = (L', Some a)" "aq_path q = ''/v1/admin/runtime-images/finalize-retirement''" "ha_status a = 200"
    and "admin_payload D q = Inr d" "lc_ok (ct_sha K) (lr_table L)" "rid = ct_sha K (payload_text D d ''imageRef'')"
  shows "active_of rid (lr_service L) = [] \<and> filter (\<lambda>x. ii_runtime x = rid) (pool_snapshot ms (sv_pool (lr_service L))) = [] \<and>
    dict_get_or (lr_acquiring L) rid 0 = 0 \<and>
    (case ct_lister K of None \<Rightarrow> True | Some f \<Rightarrow> snd (f (p_backend (sv_pool (lr_service L))) rid) = Inr []) \<and>
    runtime_state (lr_table L') rid = Some Retired"
proof -
  let ?img = "payload_text D d ''imageRef''"
  from assms(1,3) have "post_route D K us ms q L = (L', a)"
    by (cases "post_route D K us ms q L") (auto simp: do_post_def admin_guard_def unauthorized_def http_error_def split: sum.splits bool.splits)
  with assms(2,4) have p: "admin_finalize D K us ms d L = (L', a)" by (simp add: post_route_def)
  with assms(3) obtain st' where f: "finalize_runtime_retirement (ct_lister K) (ct_sha K) (ct_root K) us ms ?img L = (L', Inr st')"
    using answered_200 [of 409]
    by (cases "finalize_runtime_retirement (ct_lister K) (ct_sha K) (ct_root K) us ms ?img L")
      (fastforce simp: admin_finalize_def caught_def http_error_def Let_def split: if_splits)
  then obtain L1 st t row where s: "runtime_image_status (ct_lister K) (ct_sha K) (ct_root K) us ms ?img L = (L1, Inr st)" "st_safe st"
    and t: "lc_finalize_retirement us ?img (lr_table L1) = (t, Some row)" "lr_table L' = t"
    by (auto simp: finalize_runtime_retirement_def split: prod.splits sum.splits if_splits option.splits)
  have "runtime_state t rid = Some Retired"
    using lc_finalize_spec(3) [OF assms(5)] t(1) status_safe(4) [OF s] assms(6) by simp
  moreover have "case ct_lister K of None \<Rightarrow> True | Some f \<Rightarrow> snd (f (p_backend (sv_pool (lr_service L))) rid) = Inr []"
    using status_safe(5) [OF s] assms(6) by (simp split: option.split)
  ultimately show ?thesis using status_safe(1-3) [OF s] t(2) assms(6) by simp
qed

end
