(* ===== verification/Lifecycle_Examples.thy ===== *)
theory Lifecycle_Examples
  imports Lifecycle_Theorems Runner_Example Gateway Admin_Http
begin

text \<open>
  The properties of runtime retirement beside running requests, each with an instance: the demo
  runner of Runner_Example with one request that has just acquired its sandbox when the runtime is
  retired.
\<close>

section \<open>A request that holds a sandbox, and the retirement of its runtime\<close>

abbreviation demo_sha :: "string \<Rightarrow> string" where "demo_sha \<equiv> (\<lambda>_. ''i'')"

definition demo_row :: lc_row where "demo_row = new_lc_row 5 ''i'' ''g'' ''old''"

definition demo_start :: "unit lifecycle_system" where
  "demo_start = \<lparr>lx_runner = \<lparr>rn_service = demo_started, rn_threads = Map.empty\<rparr>, lx_acquiring = [], lx_table = [],
     lx_inside = {}\<rparr>"

text \<open>The demo runner with thread 0 at \<open>th\<close>, inside the gate or not.\<close>

definition demo_at :: "thread \<Rightarrow> unit service \<Rightarrow> bool \<Rightarrow> lc_table \<Rightarrow> unit lifecycle_system" where
  "demo_at th S inside t =
     \<lparr>lx_runner = \<lparr>rn_service = S, rn_threads = [0 \<mapsto> th]\<rparr>, lx_acquiring = (if inside then [(''i'', 1)] else []),
      lx_table = t, lx_inside = (if inside then {0} else {})\<rparr>"

lemma demo_at_simps [simp]:
  "rn_threads (lx_runner (demo_at th S b t)) = [0 \<mapsto> th]" "rn_service (lx_runner (demo_at th S b t)) = S"
  "lx_acquiring (demo_at th S b t) = (if b then [(''i'', 1)] else [])" "lx_table (demo_at th S b t) = t"
  "lx_inside (demo_at th S b t) = (if b then {0} else {})"
  "(demo_at th S b t)\<lparr>lx_table := t'\<rparr> = demo_at th S b t'"
  by (simp_all add: demo_at_def)

lemma demo_set: "set_thread 0 th' S' (lx_runner (demo_at th S b t)) = lx_runner (demo_at th' S' b t)"
  "(demo_at th S b t)\<lparr>lx_runner := lx_runner (demo_at th' S' b t)\<rparr> = demo_at th' S' b t"
  by (simp_all add: demo_at_def set_thread_def)

lemma demo_own: "own_runtime demo_P = ''i''"
  by (simp add: own_runtime_def demo_P_def)

abbreviation demo_reachable :: "unit lifecycle_system \<Rightarrow> bool" where
  "demo_reachable \<equiv> lifecycle_reachable demo_B demo_cfg demo_sha"

lemma reach_step: "lifecycle_reachable B C sha L \<Longrightarrow> lifecycle_step B C sha L L' \<Longrightarrow> lifecycle_reachable B C sha L'"
  unfolding lifecycle_reachable_def by (blast intro: rtranclp.rtrancl_into_rtrancl)

lemma demo_thread_step:
  assumes "demo_reachable (demo_at th S b t)" "b \<longleftrightarrow> is_claimed (Some th)"
    and "thread_step demo_B demo_cfg 0 (lx_runner (demo_at th S b t)) (lx_runner (demo_at th' S' b t))"
  shows "demo_reachable (demo_at th' S' b t)"
proof -
  from lifecycle_step.thread [OF assms(3), of demo_sha] assms(2)
  have "lifecycle_step demo_B demo_cfg demo_sha (demo_at th S b t) (demo_at th' S' b t)"
    by (simp add: demo_set)
  with assms(1) show ?thesis by (rule reach_step)
qed

lemma demo_start: "demo_reachable demo_start"
proof -
  have ok: "pool_ok {} (sv_pool demo_service)" "db_ok (sv_db demo_service)"
    unfolding demo_pool by (rule pool_init_ok [OF demo_quota_init])
      (simp add: db_ok_def key_claims_def run_claims_def db_init_def)
  have "runner_started demo_B (lx_runner demo_start)"
    unfolding runner_started_def demo_start_def using ok demo_started(1) by (intro exI conjI) auto
  then have "lifecycle_started demo_B demo_sha demo_start"
    unfolding lifecycle_started_def by (simp add: demo_start_def lc_ok_def)
  then show ?thesis unfolding lifecycle_reachable_def by blast
qed

lemma demo_claim_reachable: "demo_reachable (demo_at (Claimed demo_P ''run'') demo_claimed False [])"
proof -
  have "lifecycle_step demo_B demo_cfg demo_sha demo_start (demo_at (Prepared demo_P) demo_started False [])"
    using lifecycle_step.thread [OF thread_step.prepare [of "lx_runner demo_start" 0 demo_cfg 0 demo_request demo_P demo_B],
        of demo_sha] demo_prepared
    by (simp add: demo_start_def demo_at_def set_thread_def is_claimed_def)
  then have p: "demo_reachable (demo_at (Prepared demo_P) demo_started False [])" by (rule reach_step [OF demo_start])
  show ?thesis
    by (rule demo_thread_step [OF p])
      (use thread_step.claim [of "lx_runner (demo_at (Prepared demo_P) demo_started False [])" 0 demo_P "''run''" 0
         demo_claimed "\<lparr>claim_run = Some ''run'', claim_cached = None\<rparr>" "''run''" demo_B demo_cfg] demo_claimed
       in \<open>simp_all add: is_claimed_def demo_set(1) [of _ _ "Prepared demo_P" demo_started]\<close>)
qed

lemma demo_acquire: obtains S where "invoke_acquire demo_B demo_cfg 0 demo_P demo_claimed = (S, Inr 0)"
  "sv_active S = []" "sv_pool S = fst (pool_acquire demo_B (sc_pool demo_cfg) 0 ''t'' (pr_release demo_P) demo_policy
    (pool_init (\<lambda>_. demo_worker) demo_quota ()))"
  by (simp add: invoke_acquire_def demo_args demo_claimed_def demo_started demo_pool demo_acquired)

lemma demo_held_retiring:
  obtains S where "demo_reachable (demo_at (Holding demo_P ''run'' 0) S False [demo_row])" "sv_active S = []"
    "p_idle (sv_pool S) = []" "\<not> w_destroyed (p_heap (sv_pool S) 0)"
proof -
  let ?C = "Claimed demo_P ''run''" and ?H = "Holding demo_P ''run'' 0"
  obtain S where S: "invoke_acquire demo_B demo_cfg 0 demo_P demo_claimed = (S, Inr 0)" "sv_active S = []"
    and pool: "sv_pool S = fst (pool_acquire demo_B (sc_pool demo_cfg) 0 ''t'' (pr_release demo_P) demo_policy
      (pool_init (\<lambda>_. demo_worker) demo_quota ()))" using demo_acquire .
  have "lifecycle_step demo_B demo_cfg demo_sha (demo_at ?C demo_claimed False []) (demo_at ?C demo_claimed True [])"
    using lifecycle_step.enter [of "demo_at ?C demo_claimed False []" 0 demo_P "''run''" "[(''i'', 1)]"]
    by (simp add: demo_own gate_enter_def is_blocked_runtime_def get_by_runtime_id_def dict_get_or_def)
      (simp add: demo_at_def)
  then have c: "demo_reachable (demo_at ?C demo_claimed True [])" by (rule reach_step [OF demo_claim_reachable])
  have h: "demo_reachable (demo_at ?H S True [])"
    by (rule demo_thread_step [OF c])
      (use thread_step.acquire [of "lx_runner (demo_at ?C demo_claimed True [])" 0 demo_P "''run''" demo_B demo_cfg 0 S 0] S
       in \<open>simp_all add: is_claimed_def demo_set(1) [of _ _ ?C demo_claimed]\<close>)
  have "lifecycle_step demo_B demo_cfg demo_sha (demo_at ?H S True []) (demo_at ?H S False [])"
    using lifecycle_step.leave [of "demo_at ?H S True []" 0 ?H]
    by (simp add: demo_own gate_leave_def is_claimed_def dict_get_or_def) (simp add: demo_at_def)
  with h have l: "demo_reachable (demo_at ?H S False [])" by (rule reach_step)
  have "lifecycle_step demo_B demo_cfg demo_sha (demo_at ?H S False []) (demo_at ?H S False [demo_row])"
    using lifecycle_step.retire [of demo_sha 5 "''g''" "''old''" "demo_at ?H S False []" "[demo_row]" demo_row]
    by (simp add: lc_begin_retirement_def get_by_runtime_id_def demo_row_def Let_def)
  with l have r: "demo_reachable (demo_at ?H S False [demo_row])" by (rule reach_step)
  have "p_idle (sv_pool S) = []" "\<not> w_destroyed (p_heap (sv_pool S) 0)"
    by (simp_all add: pool demo_acquired demo_w_def)
  with r S(2) show thesis by (rule that)
qed

section \<open>Properties\<close>

text \<open>C28: Retirement is final while requests run: once a runtime is stored as retired and no thread is
  inside the gate of \<open>acquire\<close>, then after any further steps it is still retired and nobody is inside;
  no worker of the runtime has been created, none that was destroyed has come back, and a thread that
  holds one of its workers held one before.\<close>

theorem retired_runtime_stays_unused:
  assumes "lifecycle_reachable (open_provider K) C sha L" "runtime_state (lx_table L) rid = Some Retired"
    and "dict_get_or (lx_acquiring L) rid 0 = 0" "(lifecycle_step (open_provider K) C sha)\<^sup>*\<^sup>* L L'"
  shows "runtime_state (lx_table L') rid = Some Retired \<and> dict_get_or (lx_acquiring L') rid 0 = 0 \<and>
    (\<forall>r < p_next (lx_pool L'). w_runtime (p_heap (lx_pool L') r) = rid \<longrightarrow> r < p_next (lx_pool L) \<and>
       (w_destroyed (p_heap (lx_pool L) r) \<longrightarrow> w_destroyed (p_heap (lx_pool L') r))) \<and>
    users rid L' \<subseteq> users rid L"
proof -
  note rest = open_sandbox.reachable_rest [OF assms]
  then have g: "pool_grows rid (lx_pool L) (lx_pool L')" by blast
  have "r < p_next (lx_pool L) \<and> (w_destroyed (p_heap (lx_pool L) r) \<longrightarrow> w_destroyed (p_heap (lx_pool L') r))"
    if "r < p_next (lx_pool L')" "w_runtime (p_heap (lx_pool L') r) = rid" for r
    using growsD [OF g that(1)] that(2) by blast
  with rest show ?thesis by blast
qed

text \<open>The counters of the gate never leak: in every reachable state the counter of a runtime is the
  number of threads between entering and leaving \<open>acquire\<close> for it, errors of \<open>acquire\<close> included.\<close>

theorem acquiring_counts_threads:
  assumes "lifecycle_reachable (open_provider K) C sha L"
  shows "dict_get_or (lx_acquiring L) rid 0 = int (card (inside_of L rid))"
  using open_sandbox.lifecycle_reachable_ok [OF assms] by (simp add: lifecycle_ok_def)

text \<open>A race the deletion status does not see: the thread has left the gate with its sandbox and has
  not yet registered as active, so neither the counter nor the active list nor the idle list shows
  it, and with a provider that lists no sandboxes the retirement is finished under the running request.\<close>

theorem finalize_misses_held_worker:
  "\<exists>L th S st. lifecycle_reachable (open_provider demo_env) demo_cfg demo_sha L \<and>
     rn_threads (lx_runner L) 0 = Some th \<and> held_by th = Some 0 \<and> \<not> w_destroyed (p_heap (lx_pool L) 0) \<and>
     finalize_runtime_retirement None demo_sha ''/'' 9 0 ''g''
       \<lparr>lr_service = rn_service (lx_runner L), lr_acquiring = lx_acquiring L, lr_table = lx_table L\<rparr> = (S, Inr st) \<and>
     runtime_state (lr_table S) ''i'' = Some Retired"
proof -
  obtain S where S: "demo_reachable (demo_at (Holding demo_P ''run'' 0) S False [demo_row])" "sv_active S = []"
    "p_idle (sv_pool S) = []" "\<not> w_destroyed (p_heap (sv_pool S) 0)" by (rule demo_held_retiring)
  let ?L = "demo_at (Holding demo_P ''run'' 0) S False [demo_row]"
  let ?R = "\<lparr>lr_service = S, lr_acquiring = [], lr_table = [demo_row]\<rparr>"
  have i: "pool_snapshot 0 (sv_pool S) = []" "active_of ''i'' S = []"
    using S(2,3) by (simp_all add: pool_snapshot_def active_of_def)
  have g: "get_by_runtime_id ''i'' [demo_row] = Some demo_row" "get_by_image ''g'' [demo_row] = Some demo_row"
    "lc_status demo_row = Retiring"
    by (simp_all add: get_by_runtime_id_def get_by_image_def demo_row_def new_lc_row_def)
  obtain L1 st where st: "runtime_image_status None demo_sha ''/'' 9 0 ''g'' ?R = (L1, Inr st)" "st_safe st"
    "lr_table L1 = [demo_row]"
    by (simp add: runtime_image_status_def i g Let_def dict_get_or_def)
  have f: "lc_finalize_retirement 9 ''g'' [demo_row] = ([finalize_row 9 demo_row], Some (finalize_row 9 demo_row))"
    using g by (simp add: lc_finalize_retirement_def sql_update_def demo_row_def new_lc_row_def)
  have "runtime_state [finalize_row 9 demo_row] ''i'' = Some Retired"
    by (simp add: runtime_state_def get_by_runtime_id_def demo_row_def new_lc_row_def)
  then have "\<exists>L' st'. finalize_runtime_retirement None demo_sha ''/'' 9 0 ''g'' ?R = (L', Inr st') \<and>
      runtime_state (lr_table L') ''i'' = Some Retired"
    by (simp add: finalize_runtime_retirement_def st f)
  with S show ?thesis
    by (intro exI [of _ ?L] exI [of _ "Holding demo_P ''run'' 0"]) simp
qed

text \<open>The gate of the service refuses before it touches anything: an invocation of a release whose
  runtime is retiring or retired raises and leaves database, pool, table and counters as they were;
  for an active runtime the service behaves exactly as the base service.\<close>

theorem lifecycle_invoke_gated:
  "lifecycle_invoke B C us ms i rq L =
    (case release_active C (rq_release rq) L of
       Inl e \<Rightarrow> (L, Inl e)
     | Inr _ \<Rightarrow> (case invoke B C us ms i rq (lr_service L) of (S, res) \<Rightarrow> (L\<lparr>lr_service := S\<rparr>, res)))"
proof (cases "release_active C (rq_release rq) L")
  case (Inl e)
  then show ?thesis by (simp add: lifecycle_invoke_def Let_def)
next
  case (Inr u)
  with lifecycle_invoke_active [of C rq L B us ms i] show ?thesis by (simp split: prod.splits)
qed

text \<open>A retired image stays retired in the runner's table under any sequence of its operations, and
  the table keeps its constraints.\<close>

theorem runner_retired_is_final:
  assumes "(runner_lifecycle.lc_step sha)\<^sup>*\<^sup>* t t'" "lc_ok sha t" "runtime_state t rid = Some Retired"
  shows "runtime_state t' rid = Some Retired \<and> lc_ok sha t'"
  using runner_lifecycle.retired_is_final [OF assms] .

section \<open>Instances\<close>

lemma demo_finalized:
  obtains L where "demo_reachable L" "runtime_state (lx_table L) ''i'' = Some Retired"
    "dict_get_or (lx_acquiring L) ''i'' 0 = 0"
proof -
  obtain S where S: "demo_reachable (demo_at (Holding demo_P ''run'' 0) S False [demo_row])"
    by (rule demo_held_retiring)
  let ?r = "finalize_row 9 demo_row" and ?H = "Holding demo_P ''run'' 0"
  have "lc_finalize_retirement 9 ''g'' [demo_row] = ([?r], Some ?r)"
    by (simp add: lc_finalize_retirement_def sql_update_def get_by_image_def demo_row_def new_lc_row_def)
  from lifecycle_step.finalize [of 9 "''g''" "demo_at ?H S False [demo_row]" "[?r]" "Some ?r" demo_B demo_cfg demo_sha] this
  have "lifecycle_step demo_B demo_cfg demo_sha (demo_at ?H S False [demo_row]) (demo_at ?H S False [?r])" by simp
  with S have "demo_reachable (demo_at ?H S False [?r])" by (rule reach_step)
  then show thesis
    by (rule that) (simp_all add: runtime_state_def get_by_runtime_id_def demo_row_def new_lc_row_def dict_get_or_def)
qed

theorem retired_runtime_stays_unused_witness:
  "\<exists>L. demo_reachable L \<and> runtime_state (lx_table L) ''i'' = Some Retired \<and> users ''i'' L \<subseteq> users ''i'' L"
proof -
  obtain L where L: "demo_reachable L" "runtime_state (lx_table L) ''i'' = Some Retired"
    "dict_get_or (lx_acquiring L) ''i'' 0 = 0" by (rule demo_finalized)
  from retired_runtime_stays_unused [OF L rtranclp.rtrancl_refl] L(1) show ?thesis by blast
qed

theorem acquiring_counts_threads_witness:
  "\<exists>L. demo_reachable L \<and> 0 = int (card (inside_of L ''i''))"
proof -
  obtain L where L: "demo_reachable L" "dict_get_or (lx_acquiring L) ''i'' 0 = 0" by (rule demo_finalized)
  from acquiring_counts_threads [OF L(1), of "''i''"] L show ?thesis by auto
qed

theorem runner_retired_is_final_witness:
  "\<exists>t. lc_ok demo_sha t \<and> runtime_state (fst (lc_cancel_retirement ''g'' t)) ''i'' = Some Retired"
proof -
  let ?t = "[finalize_row 9 demo_row]"
  have ok: "lc_ok demo_sha ?t" "runtime_state ?t ''i'' = Some Retired"
    by (simp_all add: lc_ok_def runtime_state_def get_by_runtime_id_def demo_row_def new_lc_row_def)
  have "runner_lifecycle.lc_step demo_sha ?t (fst (lc_cancel_retirement ''g'' ?t))"
    unfolding runner_lifecycle.lc_step_def by (rule exI [of _ "(0, ''g'', [])"]) (simp add: lc_reopen_op_def)
  then have "(runner_lifecycle.lc_step demo_sha)\<^sup>*\<^sup>* ?t (fst (lc_cancel_retirement ''g'' ?t))" by (rule r_into_rtranclp)
  from runner_retired_is_final [OF this ok] ok(1) show ?thesis by blast
qed

text \<open>The properties of the two interfaces of the runner at the demo runner of Runner_Example.\<close>

definition demo_peer :: auth_context where
  "demo_peer = [(''x509_common_name'', [AuthText ''nifi''])]"

definition demo_runner :: "unit lifecycle_runner" where
  "demo_runner = \<lparr>lr_service = demo_started, lr_acquiring = [], lr_table = [demo_row]\<rparr>"

text \<open>The peer may act for another tenant only.\<close>

definition demo_access :: json where
  "demo_access = JObj [(''nifi'', JObj [(''u'', JList [JStr ''*''])])]"

lemma demo_forbidden: "\<not> permitted demo_access 0 demo_peer (Invoke demo_request) (sv_db demo_started)"
  by (simp add: may_use_lease_def may_act_def peer_identity_def demo_peer_def demo_access_def demo_request_def allow_def
      json_get_def dict_get_or_def demo_started(4) demo_service_def require_lease_def demo_lease_def lease_of_row_def db_init_def)

theorem forbidden_call_changes_nothing_witness:
  "\<exists>stop. grpc_handle demo_access demo_B demo_cfg 0 0 ''run'' demo_peer (Invoke demo_request) demo_runner = (demo_runner, Inl stop)"
  by (rule forbidden_call_changes_nothing) (simp only: demo_runner_def lifecycle_runner.simps demo_forbidden not_False_eq_True)

theorem missing_identity_unmapped_witness:
  "health [] = Inl (Unhandled (RunnerError ''UNAUTHENTICATED'' ''mTLS peer identity is missing'' False))"
proof -
  have "peer_identity [] = Inl (RunnerError ''UNAUTHENTICATED'' ''mTLS peer identity is missing'' False)" by code_simp
  from missing_identity_unmapped [OF this, of JNull demo_B demo_cfg 0 0 "[]" "Invoke demo_request" demo_runner]
  show ?thesis by blast
qed

definition demo_admin :: admin_env where
  "demo_admin = \<lparr>ad_token = ''secret'', ad_loads = (\<lambda>_. Some (JObj [(''imageRef'', JStr ''g'')])), ad_show = (\<lambda>_. []),
     ad_seconds = JInt, ad_time = JInt\<rparr>"

definition demo_controller :: "unit controller" where
  "demo_controller = \<lparr>ct_backend = demo_B, ct_lister = None, ct_sha = demo_sha, ct_root = ''/''\<rparr>"

definition demo_post :: "string option \<Rightarrow> admin_request" where
  "demo_post authorization =
     \<lparr>aq_path = ''/v1/admin/runtime-images/finalize-retirement'', aq_query = [], aq_authorization = authorization,
      aq_length = Some ''1'', aq_body = [0]\<rparr>"

theorem admin_needs_token_witness:
  "fst (do_post demo_admin demo_controller 0 0 (demo_post None) demo_runner) = demo_runner"
  using admin_needs_token [of "demo_post None" demo_admin demo_controller 0 0 demo_runner] by (simp add: demo_post_def)

lemma demo_payload: "admin_payload demo_admin (demo_post a) = Inr [(''imageRef'', JStr ''g'')]"
proof -
  have "py_int ''1'' = Some 1" by code_simp
  then show ?thesis by (simp add: admin_payload_def demo_post_def demo_admin_def MAX_BODY_def)
qed

theorem finalized_answer_found_nothing_witness:
  "\<exists>L' a. do_post demo_admin demo_controller 9 0 (demo_post (Some ''Bearer secret'')) demo_runner = (L', Some a) \<and>
     ha_status a = 200 \<and> runtime_state (lr_table L') ''i'' = Some Retired"
proof -
  let ?q = "demo_post (Some ''Bearer secret'')"
  have i: "pool_snapshot 0 (sv_pool demo_started) = []" "active_of ''i'' demo_started = []"
    by (simp_all add: pool_snapshot_def active_of_def demo_started demo_service_def pool_init_def)
  have g: "get_by_runtime_id ''i'' [demo_row] = Some demo_row" "get_by_image ''g'' [demo_row] = Some demo_row"
    "lc_status demo_row = Retiring" by (simp_all add: get_by_runtime_id_def get_by_image_def demo_row_def new_lc_row_def)
  obtain L1 st where st: "runtime_image_status None demo_sha ''/'' 9 0 ''g'' demo_runner = (L1, Inr st)" "st_safe st"
    "lr_table L1 = [demo_row]"
    by (simp add: runtime_image_status_def i g Let_def dict_get_or_def demo_runner_def)
  have f: "lc_finalize_retirement 9 ''g'' [demo_row] = ([finalize_row 9 demo_row], Some (finalize_row 9 demo_row))"
    using g by (simp add: lc_finalize_retirement_def sql_update_def demo_row_def new_lc_row_def)
  have t: "payload_text demo_admin [(''imageRef'', JStr ''g'')] ''imageRef'' = ''g''" by code_simp
  have "admin_authorized demo_admin ?q = Inr True" by code_simp
  then obtain L' a where d: "do_post demo_admin demo_controller 9 0 ?q demo_runner = (L', Some a)" "ha_status a = 200"
    by (simp add: do_post_def admin_guard_def post_route_def demo_payload)
      (simp add: demo_post_def admin_finalize_def t demo_controller_def finalize_runtime_retirement_def st f answer_or_def http_ok_def)
  have "lc_ok (ct_sha demo_controller) (lr_table demo_runner)"
    by (simp add: lc_ok_def demo_runner_def demo_row_def new_lc_row_def demo_controller_def)
  from finalized_answer_found_nothing [OF d(1) _ d(2) demo_payload this, of "''i''"] t
  have "runtime_state (lr_table L') ''i'' = Some Retired" by (simp add: demo_post_def demo_controller_def)
  with d show ?thesis by blast
qed

end
