(* ===== verification/Build_Model.thy ===== *)
theory Build_Model
  imports Text
begin

text \<open>
  What the build service builds (\<open>build_service/model.py\<close>, the requirement handling of
  \<open>build_service/builder.py\<close>): the specification of a runtime environment with its digest key, the
  packages of a lock file, and the normalised requirements.
\<close>

section \<open>Parameters\<close>

text \<open>
  The identity of a specification is digested by \<open>sha256\<close> over its canonical JSON; the digest is one
  parameter. Third-party or library functions: the canonical package name and the requirement parser
  of \<open>packaging\<close>, \<open>repr\<close> and \<open>str.lower\<close> of a string.
\<close>

record build_spec =
  sp_base :: string
  sp_python :: string
  sp_platform :: string
  sp_lock :: string
  sp_policy :: string

record build_env =
  be_identity_digest :: "string \<times> string \<times> string \<times> string \<times> string \<Rightarrow> string"
  be_sha256 :: "string \<Rightarrow> string"
  be_canonical :: "string \<Rightarrow> string"
  be_requirement :: "string \<Rightarrow> (string \<times> string option) option"
  be_repr :: "string \<Rightarrow> string"
  be_lower :: "string \<Rightarrow> string"

definition value_error :: "string \<Rightarrow> exn" where
  "value_error m = PyError ''ValueError'' m"

section \<open>Lock files\<close>

text \<open>\<open>_PIN.match\<close> on a line: a name, \<open>==\<close>, and a version that ends at white space, \<open>;\<close> or \<open>\\<close>.\<close>

definition name_char :: "char \<Rightarrow> bool" where
  "name_char c \<longleftrightarrow> c \<in> set ''ABCDEFGHIJKLMNOPQRSTUVWXYZabcdefghijklmnopqrstuvwxyz0123456789_.-''"

definition version_end :: "string \<Rightarrow> bool" where
  "version_end s \<longleftrightarrow> s = [] \<or> space_len s \<noteq> 0 \<or> hd s = CHR '';'' \<or> hd s = CHR 0x5C"

fun version_of :: "string \<Rightarrow> string" where
  "version_of [] = []"
| "version_of (c # s) = (if version_end (c # s) then [] else c # version_of s)"

definition pin_match :: "string \<Rightarrow> (string \<times> string) option" where
  "pin_match line =
     (let s = lstrip line; name = takeWhile name_char s; rest = dropWhile name_char s;
          version = version_of (drop 2 rest)
      in if name = [] \<or> take 2 rest \<noteq> ''=='' \<or> version = [] then None else Some (name, version))"

definition skipped_line :: "string \<Rightarrow> bool" where
  "skipped_line line \<longleftrightarrow> lstrip line = [] \<or> starts_with ''#'' (lstrip line) \<or> starts_with ''--'' (lstrip line) \<or>
     space_len line \<noteq> 0"

fun parse_lines :: "build_env \<Rightarrow> string list \<Rightarrow> (string, string) dict \<Rightarrow> exn + (string, string) dict" where
  "parse_lines E [] packages = Inr packages"
| "parse_lines E (line # lines) packages =
     (if skipped_line line then parse_lines E lines packages
      else (case pin_match line of
              None \<Rightarrow> Inl (value_error (''lock line is not an exact pin: '' @ be_repr E line))
            | Some (raw, version) \<Rightarrow>
                (let name = be_canonical E raw in
                 if (case dict_get packages name of None \<Rightarrow> False | Some previous \<Rightarrow> previous \<noteq> version)
                 then Inl (value_error (name @ '' has conflicting versions''))
                 else parse_lines E lines (dict_set name version packages))))"

definition sort_dict :: "(string, 'a) dict \<Rightarrow> (string, 'a) dict" where
  "sort_dict d = sort_key fst d"

definition parse_locked_packages :: "build_env \<Rightarrow> string \<Rightarrow> exn + (string, string) dict" where
  "parse_locked_packages E lock_text = map_sum id sort_dict (parse_lines E (splitlines lock_text) [])"

section \<open>The specification's key\<close>

definition lock_sha256 :: "build_env \<Rightarrow> build_spec \<Rightarrow> string" where
  "lock_sha256 E spec = be_sha256 E (sp_lock spec)"

definition packages_of :: "build_env \<Rightarrow> build_spec \<Rightarrow> exn + (string, string) dict" where
  "packages_of E spec = parse_locked_packages E (sp_lock spec)"

definition spec_identity :: "build_env \<Rightarrow> build_spec \<Rightarrow> string \<times> string \<times> string \<times> string \<times> string" where
  "spec_identity E spec = (sp_base spec, sp_python spec, sp_platform spec, lock_sha256 E spec, sp_policy spec)"

definition env_key :: "build_env \<Rightarrow> build_spec \<Rightarrow> exn + string" where
  "env_key E spec =
     (if \<not> contains ''@sha256:'' (sp_base spec)
      then Inl (value_error ''base_image must be pinned as repo@sha256:<digest>'')
      else Inr (be_identity_digest E (spec_identity E spec)))"

section \<open>Requirements\<close>

text \<open>The set \<open>result\<close> is kept in the order of first occurrence; Python's order of equal sort keys is
  that of its hash table.\<close>

definition requirement_of :: "build_env \<Rightarrow> string \<Rightarrow> exn + string option" where
  "requirement_of E raw =
     (let value = strip raw in
      if value = [] then Inr None
      else if CHR 0x0A \<in> set value \<or> CHR 0x0D \<in> set value \<or> starts_with ''-'' value
      then Inl (value_error (''unsupported requirement: '' @ be_repr E raw))
      else (case be_requirement E value of
              None \<Rightarrow> Inl (value_error (''invalid requirement: '' @ be_repr E raw))
            | Some (_, Some url) \<Rightarrow> Inl (value_error ''URL/VCS/path dependencies are not allowed'')
            | Some (text, None) \<Rightarrow> Inr (Some text)))"

fun collect_requirements :: "build_env \<Rightarrow> string list \<Rightarrow> string list \<Rightarrow> exn + string list" where
  "collect_requirements E [] result = Inr result"
| "collect_requirements E (raw # rest) result =
     (case requirement_of E raw of
        Inl e \<Rightarrow> Inl e
      | Inr None \<Rightarrow> collect_requirements E rest result
      | Inr (Some r) \<Rightarrow> collect_requirements E rest (List.insert r result))"

definition normalize_requirements :: "build_env \<Rightarrow> string list \<Rightarrow> exn + string list" where
  "normalize_requirements E values = map_sum id (sort_key (be_lower E)) (collect_requirements E values [])"

text \<open>The text of \<open>requirements.in\<close> that \<open>uv pip compile\<close> reads.\<close>

definition requirements_in :: "string list \<Rightarrow> string" where
  "requirements_in rs = (if rs = [] then [] else concat (map (\<lambda>r. r @ [CHR 0x0A]) rs))"

section \<open>Facts\<close>

lemma parse_lines_distinct:
  "parse_lines E ls d = Inr d' \<Longrightarrow> distinct (map fst d) \<Longrightarrow> distinct (map fst d')"
  by (induction E ls d rule: parse_lines.induct)
    (auto simp: Let_def distinct_update split: if_splits option.splits prod.splits)

lemma parse_sorted:
  assumes "parse_locked_packages E s = Inr d"
  shows "sorted (map fst d)" "distinct (map fst d)"
proof -
  from assms obtain d0 where d: "d = sort_key fst d0" "parse_lines E (splitlines s) [] = Inr d0"
    by (auto simp: parse_locked_packages_def sort_dict_def map_sum_def split: sum.splits)
  then show "sorted (map fst d)" by simp
  have "distinct (map fst d0)" using parse_lines_distinct [OF d(2)] by simp
  then show "distinct (map fst d)" by (simp add: d(1) distinct_map)
qed

text \<open>A line the lock writer prints: a canonical name and a version without white space.\<close>

definition pin_line :: "string \<times> string \<Rightarrow> string" where
  "pin_line nv = fst nv @ ''=='' @ snd nv"

definition printable_pin :: "build_env \<Rightarrow> string \<times> string \<Rightarrow> bool" where
  "printable_pin E nv \<longleftrightarrow> fst nv \<noteq> [] \<and> list_all name_char (fst nv) \<and> \<not> starts_with ''--'' (fst nv) \<and>
     snd nv \<noteq> [] \<and> list_all (\<lambda>c. plain c \<and> c \<noteq> CHR '';'' \<and> c \<noteq> CHR 0x5C) (snd nv) \<and>
     be_canonical E (fst nv) = fst nv"

lemma name_char_plain: "name_char c \<Longrightarrow> plain c \<and> c \<noteq> CHR ''#'' \<and> c \<noteq> CHR ''=''"
proof -
  have "\<forall>c \<in> set ''ABCDEFGHIJKLMNOPQRSTUVWXYZabcdefghijklmnopqrstuvwxyz0123456789_.-''.
      plain c \<and> c \<noteq> CHR ''#'' \<and> c \<noteq> CHR ''=''" by code_simp
  then show "name_char c \<Longrightarrow> ?thesis" unfolding name_char_def by blast
qed

lemma version_of_plain: "list_all (\<lambda>c. plain c \<and> c \<noteq> CHR '';'' \<and> c \<noteq> CHR 0x5C) v \<Longrightarrow> version_of v = v"
  by (induction v) (auto simp: version_end_def)

lemma pin_match_line:
  assumes "printable_pin E nv"
  shows "pin_match (pin_line nv) = Some nv" "\<not> skipped_line (pin_line nv)" "list_all plain (pin_line nv)"
proof -
  obtain n v where nv: "nv = (n, v)" by fastforce
  have p: "n \<noteq> []" "list_all name_char n" "\<not> starts_with ''--'' n" "v \<noteq> []"
      "list_all (\<lambda>c. plain c \<and> c \<noteq> CHR '';'' \<and> c \<noteq> CHR 0x5C) v"
    using assms by (simp_all add: printable_pin_def nv)
  then obtain c n' where n: "n = c # n'" "name_char c" by (cases n) auto
  have l: "lstrip (pin_line nv) = pin_line nv" "space_len (pin_line nv) = 0"
    using n name_char_plain by (simp_all add: pin_line_def nv plain_lstrip)
  have eq: "\<not> name_char CHR ''=''" by code_simp
  have t: "takeWhile name_char (n @ CHR ''='' # r) = n \<and> dropWhile name_char (n @ CHR ''='' # r) = CHR ''='' # r" for r
    using p(2) eq by (induction n) auto
  show "pin_match (pin_line nv) = Some nv"
    unfolding pin_match_def l(1) Let_def
    using t [of "CHR ''='' # v"] p version_of_plain [OF p(5)] by (simp add: pin_line_def nv)
  have "take 1 (pin_line nv) \<noteq> ''#''" "take 2 (pin_line nv) \<noteq> ''--''"
    using n p(3) name_char_plain [OF n(2)]
    by (cases n'; auto simp: pin_line_def nv starts_with_def)+
  then show "\<not> skipped_line (pin_line nv)"
    unfolding skipped_line_def l by (simp add: starts_with_def pin_line_def nv n numeral_2_eq_2)
  have "plain CHR ''=''" by code_simp
  moreover have "list_all plain n" "list_all plain v"
    using p(2,5) name_char_plain by (auto simp: list_all_iff)
  ultimately show "list_all plain (pin_line nv)" by (simp add: pin_line_def nv)
qed

lemma parse_pin_lines:
  "list_all (printable_pin E) d \<Longrightarrow> distinct (map fst (acc @ d)) \<Longrightarrow>
   parse_lines E (map pin_line d) acc = Inr (acc @ d)"
proof (induction d arbitrary: acc)
  case (Cons nv d)
  obtain n v where nv: "nv = (n, v)" by fastforce
  have p: "printable_pin E (n, v)" "be_canonical E n = n" using Cons.prems by (simp_all add: nv printable_pin_def)
  have new: "dict_get acc n = None" using Cons.prems(2) by (auto simp: nv map_of_eq_None_iff)
  have "parse_lines E (map pin_line d) (acc @ [(n, v)]) = Inr ((acc @ [(n, v)]) @ d)"
    using Cons.prems by (intro Cons.IH) (auto simp: nv)
  with p new pin_match_line [OF p(1)] show ?case by (simp add: nv dict_set_new Let_def)
qed simp

end
