(* ===== verification/Build_Store.thy ===== *)
theory Build_Store
  imports Build_Model Retirement "HOL-Library.Product_Lexorder"
begin

text \<open>
  The build service's tables and transactions (\<open>build_service/store.py\<close>, \<open>LifecycleBuildStore\<close> of
  \<open>build_service/lifecycle_service.py\<close>). The record \<open>build_store\<close> holds the methods the subclass
  overrides; \<open>base_store\<close> and \<open>lifecycle_store\<close> are the two classes. \<open>now\<close> is the database clock and
  the uuids are arguments.
\<close>

section \<open>Tables\<close>

datatype build_status = Pending | Building | Verifying | Ready | Failed

datatype lifecycle_state = LActive | LRetiring | LRetired

record env_row =
  ev_id :: string
  ev_key :: string
  ev_spec :: build_spec
  ev_lock_sha256 :: string
  ev_packages :: "(string, string) dict"
  ev_package_count :: nat
  ev_image :: "string option"
  ev_status :: build_status
  ev_last_error :: "string option"
  ev_created :: int
  ev_updated :: int
  ev_lifecycle :: lifecycle_state
  ev_retired_at :: "int option"
  ev_deleted_at :: "int option"
  ev_cleanup_error :: "string option"

datatype resolution = Exact | Superset

record alias_row =
  al_key :: string
  al_env :: string
  al_kind :: resolution
  al_created :: int

record job_row =
  jb_id :: string
  jb_env :: string
  jb_status :: build_status
  jb_error :: "string option"
  jb_created :: int
  jb_finished :: "int option"

record build_db =
  bd_envs :: "env_row list"
  bd_aliases :: "alias_row list"
  bd_jobs :: "job_row list"

definition build_db_init :: build_db where
  "build_db_init = \<lparr>bd_envs = [], bd_aliases = [], bd_jobs = []\<rparr>"

text \<open>The row of a request: the environment with its alias.\<close>

type_synonym env_view = "env_row \<times> alias_row"

definition foreign_key_violation :: exn where
  "foreign_key_violation = PyError ''ForeignKeyViolation'' ''violates foreign key constraint''"

definition key_error :: "string \<Rightarrow> exn" where
  "key_error k = PyError ''KeyError'' k"

definition env_at :: "string \<Rightarrow> build_db \<Rightarrow> env_row option" where
  "env_at i db = List.find (\<lambda>e. ev_id e = i) (bd_envs db)"

definition update_env :: "(env_row \<Rightarrow> bool) \<Rightarrow> (env_row \<Rightarrow> env_row) \<Rightarrow> build_db \<Rightarrow> build_db" where
  "update_env P f db = db\<lparr>bd_envs := sql_update P f (bd_envs db)\<rparr>"

definition update_job :: "string \<Rightarrow> (job_row \<Rightarrow> job_row) \<Rightarrow> build_db \<Rightarrow> build_db" where
  "update_job j f db = db\<lparr>bd_jobs := sql_update (\<lambda>r. jb_id r = j) f (bd_jobs db)\<rparr>"

text \<open>\<open>UPDATE ... WHERE id = i AND P RETURNING *\<close>.\<close>

definition update_where :: "string \<Rightarrow> (env_row \<Rightarrow> bool) \<Rightarrow> (env_row \<Rightarrow> env_row) \<Rightarrow> build_db \<Rightarrow> build_db \<times> env_row option" where
  "update_where i P f db =
     (update_env (\<lambda>e. ev_id e = i \<and> P e) f db,
      (case env_at i db of Some e \<Rightarrow> if P e then Some (f e) else None | None \<Rightarrow> None))"

section \<open>\<open>BuildStore\<close>\<close>

definition alias_at :: "string \<Rightarrow> build_db \<Rightarrow> alias_row option" where
  "alias_at k db = List.find (\<lambda>a. al_key a = k) (bd_aliases db)"

definition base_get_for_request :: "string \<Rightarrow> build_db \<Rightarrow> env_view option" where
  "base_get_for_request k db =
     (case alias_at k db of
        None \<Rightarrow> None
      | Some a \<Rightarrow> (case env_at (al_env a) db of None \<Rightarrow> None | Some e \<Rightarrow> Some (e, a)))"

text \<open>\<open>packages @> requested\<close>.\<close>

definition jsonb_contains :: "(string, string) dict \<Rightarrow> (string, string) dict \<Rightarrow> bool" where
  "jsonb_contains have requested \<longleftrightarrow> list_all (\<lambda>(n, v). dict_get have n = Some v) requested"

definition compatible :: "build_spec \<Rightarrow> (string, string) dict \<Rightarrow> env_row \<Rightarrow> bool" where
  "compatible spec packages e \<longleftrightarrow> ev_status e = Ready \<and> sp_base (ev_spec e) = sp_base spec \<and>
     sp_python (ev_spec e) = sp_python spec \<and> sp_platform (ev_spec e) = sp_platform spec \<and>
     sp_policy (ev_spec e) = sp_policy spec \<and> jsonb_contains (ev_packages e) packages"

text \<open>Rows with the same count and creation time come in the order of the table here, in any order in
  PostgreSQL.\<close>

definition smallest :: "env_row list \<Rightarrow> env_row option" where
  "smallest l = (case sort_key (\<lambda>e. (int (ev_package_count e), ev_created e)) l of [] \<Rightarrow> None | e # _ \<Rightarrow> Some e)"

definition base_superset :: "build_spec \<Rightarrow> (string, string) dict \<Rightarrow> build_db \<Rightarrow> env_row option" where
  "base_superset spec packages db = smallest (filter (compatible spec packages) (bd_envs db))"

record new_env =
  ne_id :: string
  ne_key :: string
  ne_spec :: build_spec
  ne_lock_sha256 :: string
  ne_packages :: "(string, string) dict"

definition new_env_row :: "int \<Rightarrow> new_env \<Rightarrow> env_row" where
  "new_env_row now n =
     \<lparr>ev_id = ne_id n, ev_key = ne_key n, ev_spec = ne_spec n, ev_lock_sha256 = ne_lock_sha256 n,
      ev_packages = ne_packages n, ev_package_count = length (ne_packages n), ev_image = None,
      ev_status = Pending, ev_last_error = None, ev_created = now, ev_updated = now,
      ev_lifecycle = LActive, ev_retired_at = None, ev_deleted_at = None, ev_cleanup_error = None\<rparr>"

definition base_exact :: "int \<Rightarrow> new_env \<Rightarrow> build_db \<Rightarrow> build_db \<times> (exn + env_row)" where
  "base_exact now n db =
     (case List.find (\<lambda>e. ev_key e = ne_key n) (bd_envs db) of
        Some e \<Rightarrow> (db, Inr e)
      | None \<Rightarrow>
          if ne_id n \<in> ev_id ` set (bd_envs db) then (db, Inl unique_violation)
          else (db\<lparr>bd_envs := bd_envs db @ [new_env_row now n]\<rparr>, Inr (new_env_row now n)))"

definition insert_alias :: "int \<Rightarrow> string \<Rightarrow> string \<Rightarrow> resolution \<Rightarrow> build_db \<Rightarrow> build_db \<times> (exn + unit)" where
  "insert_alias now k i kind db =
     (if alias_at k db \<noteq> None then (db, Inr ())
      else if env_at i db = None then (db, Inl foreign_key_violation)
      else (db\<lparr>bd_aliases := bd_aliases db @ [\<lparr>al_key = k, al_env = i, al_kind = kind, al_created = now\<rparr>]\<rparr>, Inr ()))"

abbreviation "base_bind \<equiv> insert_alias"

definition reset_failed :: "int \<Rightarrow> string \<Rightarrow> build_db \<Rightarrow> build_db \<times> env_row option" where
  "reset_failed now i =
     update_where i (\<lambda>e. ev_status e = Failed)
       (\<lambda>e. e\<lparr>ev_status := Pending, ev_image := None, ev_last_error := None, ev_updated := now\<rparr>)"

definition new_job :: "int \<Rightarrow> string \<Rightarrow> string \<Rightarrow> job_row" where
  "new_job now j i = \<lparr>jb_id = j, jb_env = i, jb_status = Building, jb_error = None, jb_created = now, jb_finished = None\<rparr>"

text \<open>The two statements of \<open>claim_build\<close>; the condition is the subclass's.\<close>

definition claim_where :: "(env_row \<Rightarrow> bool) \<Rightarrow> int \<Rightarrow> string \<Rightarrow> string \<Rightarrow> build_db \<Rightarrow> build_db \<times> (exn + string option)" where
  "claim_where P now j i db =
     (case update_where i (\<lambda>e. ev_status e = Pending \<and> P e)
             (\<lambda>e. e\<lparr>ev_status := Building, ev_last_error := None, ev_updated := now\<rparr>) db of
        (db1, None) \<Rightarrow> (db1, Inr None)
      | (db1, Some e) \<Rightarrow>
          (case sql_insert jb_id (new_job now j i) (bd_jobs db1) of
             None \<Rightarrow> (db, Inl unique_violation)
           | Some js \<Rightarrow> (db1\<lparr>bd_jobs := js\<rparr>, Inr (Some j))))"

definition base_claim :: "int \<Rightarrow> string \<Rightarrow> string \<Rightarrow> build_db \<Rightarrow> build_db \<times> (exn + string option)" where
  "base_claim = claim_where (\<lambda>_. True)"

definition mark_verifying :: "int \<Rightarrow> string \<Rightarrow> string \<Rightarrow> build_db \<Rightarrow> build_db" where
  "mark_verifying now i j db =
     update_job j (\<lambda>r. r\<lparr>jb_status := Verifying\<rparr>)
       (update_env (\<lambda>e. ev_id e = i) (\<lambda>e. e\<lparr>ev_status := Verifying, ev_updated := now\<rparr>) db)"

text \<open>\<open>image_ref\<close> is unique: another environment with the image makes the transaction fail.\<close>

definition mark_ready :: "int \<Rightarrow> string \<Rightarrow> string \<Rightarrow> string \<Rightarrow> build_db \<Rightarrow> build_db \<times> (exn + unit)" where
  "mark_ready now i j img db =
     (if list_ex (\<lambda>e. ev_image e = Some img \<and> ev_id e \<noteq> i) (bd_envs db) \<and> env_at i db \<noteq> None
      then (db, Inl unique_violation)
      else (update_job j (\<lambda>r. r\<lparr>jb_status := Ready, jb_finished := Some now\<rparr>)
              (update_env (\<lambda>e. ev_id e = i)
                 (\<lambda>e. e\<lparr>ev_status := Ready, ev_image := Some img, ev_last_error := None, ev_updated := now\<rparr>) db),
            Inr ()))"

definition mark_failed :: "int \<Rightarrow> string \<Rightarrow> string \<Rightarrow> string \<Rightarrow> build_db \<Rightarrow> build_db" where
  "mark_failed now i j message db =
     (let m = last_text 8192 message in
      update_job j (\<lambda>r. r\<lparr>jb_status := Failed, jb_error := Some m, jb_finished := Some now\<rparr>)
        (update_env (\<lambda>e. ev_id e = i) (\<lambda>e. e\<lparr>ev_status := Failed, ev_last_error := Some m, ev_updated := now\<rparr>) db))"

section \<open>\<open>LifecycleBuildStore\<close>\<close>

definition lifecycle_get_for_request :: "string \<Rightarrow> build_db \<Rightarrow> env_view option" where
  "lifecycle_get_for_request k db =
     (case base_get_for_request k db of
        None \<Rightarrow> None
      | Some (e, a) \<Rightarrow> if ev_lifecycle e = LActive then Some (e, a) else None)"

definition lifecycle_superset :: "build_spec \<Rightarrow> (string, string) dict \<Rightarrow> build_db \<Rightarrow> env_row option" where
  "lifecycle_superset spec packages db =
     smallest (filter (\<lambda>e. compatible spec packages e \<and> ev_lifecycle e = LActive) (bd_envs db))"

definition reactivate_retired :: "int \<Rightarrow> string \<Rightarrow> build_db \<Rightarrow> build_db \<times> env_row option" where
  "reactivate_retired now i =
     update_where i (\<lambda>e. ev_lifecycle e = LRetired)
       (\<lambda>e. e\<lparr>ev_lifecycle := LActive, ev_status := Pending, ev_image := None, ev_retired_at := None,
              ev_deleted_at := None, ev_cleanup_error := None, ev_updated := now\<rparr>)"

text \<open>Two transactions: the base method, then the reactivation of a retired row.\<close>

definition reactivate_exact :: "int \<Rightarrow> env_row \<Rightarrow> build_db \<Rightarrow> build_db \<times> (exn + env_row)" where
  "reactivate_exact now row db =
     (case ev_lifecycle row of
        LRetiring \<Rightarrow> (db, Inl (value_error ''exact runtime environment is being retired; retry after cleanup''))
      | LRetired \<Rightarrow>
          (case reactivate_retired now (ev_id row) db of
             (db1, None) \<Rightarrow> (db1, Inl (value_error ''retired runtime environment could not reactivate''))
           | (db1, Some r) \<Rightarrow> (db1, Inr r))
      | LActive \<Rightarrow> (db, Inr row))"

definition lifecycle_exact :: "int \<Rightarrow> new_env \<Rightarrow> build_db \<Rightarrow> build_db \<times> (exn + env_row)" where
  "lifecycle_exact now n db =
     (case base_exact now n db of
        (db1, Inl e) \<Rightarrow> (db1, Inl e)
      | (db1, Inr row) \<Rightarrow> reactivate_exact now row db1)"

definition lifecycle_claim :: "int \<Rightarrow> string \<Rightarrow> string \<Rightarrow> build_db \<Rightarrow> build_db \<times> (exn + string option)" where
  "lifecycle_claim = claim_where (\<lambda>e. ev_lifecycle e = LActive)"

definition lifecycle_name :: "lifecycle_state \<Rightarrow> string" where
  "lifecycle_name s = (case s of LActive \<Rightarrow> ''ACTIVE'' | LRetiring \<Rightarrow> ''RETIRING'' | LRetired \<Rightarrow> ''RETIRED'')"

definition lifecycle_bind :: "int \<Rightarrow> string \<Rightarrow> string \<Rightarrow> resolution \<Rightarrow> build_db \<Rightarrow> build_db \<times> (exn + unit)" where
  "lifecycle_bind now k i kind db =
     (case env_at i db of
        None \<Rightarrow> (db, Inl (key_error i))
      | Some e \<Rightarrow>
          if ev_lifecycle e \<noteq> LActive
          then (db, Inl (value_error (''runtime environment lifecycle is '' @ lifecycle_name (ev_lifecycle e))))
          else insert_alias now k i kind db)"

definition count_aliases :: "string \<Rightarrow> build_db \<Rightarrow> nat" where
  "count_aliases i db = sql_count (\<lambda>a. al_env a = i) (bd_aliases db)"

definition active_job :: "string \<Rightarrow> job_row \<Rightarrow> bool" where
  "active_job i r \<longleftrightarrow> jb_env r = i \<and> (jb_status r = Building \<or> jb_status r = Verifying)"

definition count_active_build_jobs :: "string \<Rightarrow> build_db \<Rightarrow> nat" where
  "count_active_build_jobs i db = sql_count (active_job i) (bd_jobs db)"

definition store_begin_retirement :: "int \<Rightarrow> string \<Rightarrow> build_db \<Rightarrow> build_db \<times> env_row option" where
  "store_begin_retirement now i db =
     update_where i
       (\<lambda>e. ev_lifecycle e = LActive \<and> ev_status e \<notin> {Pending, Building, Verifying} \<and> \<not> list_ex (active_job i) (bd_jobs db))
       (\<lambda>e. e\<lparr>ev_lifecycle := LRetiring, ev_cleanup_error := None, ev_updated := now\<rparr>) db"

definition store_cancel_retirement :: "int \<Rightarrow> string \<Rightarrow> build_db \<Rightarrow> build_db \<times> env_row option" where
  "store_cancel_retirement now i =
     update_where i (\<lambda>e. ev_lifecycle e = LRetiring)
       (\<lambda>e. e\<lparr>ev_lifecycle := LActive, ev_cleanup_error := None, ev_updated := now\<rparr>)"

definition coalesce :: "'a option \<Rightarrow> 'a \<Rightarrow> 'a option" where
  "coalesce x d = Some (case x of None \<Rightarrow> d | Some y \<Rightarrow> y)"

definition store_finalize_retirement :: "int \<Rightarrow> string \<Rightarrow> build_db \<Rightarrow> build_db \<times> env_row option" where
  "store_finalize_retirement now i db =
     update_where i (\<lambda>e. ev_lifecycle e = LRetiring)
       (\<lambda>e. e\<lparr>ev_lifecycle := LRetired, ev_retired_at := coalesce (ev_retired_at e) now,
              ev_deleted_at := coalesce (ev_deleted_at e) now, ev_cleanup_error := None, ev_updated := now\<rparr>)
       (db\<lparr>bd_aliases := sql_delete (\<lambda>a. al_env a = i) (bd_aliases db)\<rparr>)"

definition record_cleanup_error :: "int \<Rightarrow> string \<Rightarrow> string \<Rightarrow> build_db \<Rightarrow> build_db" where
  "record_cleanup_error now i message =
     update_env (\<lambda>e. ev_id e = i \<and> ev_lifecycle e = LRetiring)
       (\<lambda>e. e\<lparr>ev_cleanup_error := Some (last_text 8192 message), ev_updated := now\<rparr>)"

section \<open>The two classes\<close>

record build_store =
  bs_get_for_request :: "string \<Rightarrow> build_db \<Rightarrow> env_view option"
  bs_superset :: "build_spec \<Rightarrow> (string, string) dict \<Rightarrow> build_db \<Rightarrow> env_row option"
  bs_exact :: "int \<Rightarrow> new_env \<Rightarrow> build_db \<Rightarrow> build_db \<times> (exn + env_row)"
  bs_bind :: "int \<Rightarrow> string \<Rightarrow> string \<Rightarrow> resolution \<Rightarrow> build_db \<Rightarrow> build_db \<times> (exn + unit)"
  bs_claim :: "int \<Rightarrow> string \<Rightarrow> string \<Rightarrow> build_db \<Rightarrow> build_db \<times> (exn + string option)"

definition base_store :: build_store where
  "base_store = \<lparr>bs_get_for_request = base_get_for_request, bs_superset = base_superset, bs_exact = base_exact,
     bs_bind = base_bind, bs_claim = base_claim\<rparr>"

definition lifecycle_store :: build_store where
  "lifecycle_store = \<lparr>bs_get_for_request = lifecycle_get_for_request, bs_superset = lifecycle_superset,
     bs_exact = lifecycle_exact, bs_bind = lifecycle_bind, bs_claim = lifecycle_claim\<rparr>"

end
