(* ===== verification/Build_Service.thy ===== *)
theory Build_Service
  imports Build_Store Open_Sandbox
begin

text \<open>
  The build service (\<open>build_service/service.py\<close>, \<open>build_service/builder.py\<close>, \<open>build_service/lifecycle.py\<close>,
  \<open>build_service/harbor.py\<close>): resolving requirements to an environment, building it, the retry of a
  failed one, and the retirement of environments with the deletion of their image. The answers of the
  processes and of Harbor are arguments; the progress callback only queues, so its calls are the list
  of stages an operation returns.
\<close>

section \<open>Processes\<close>

record build_settings =
  bc_base :: string
  bc_repo :: string
  bc_python :: string
  bc_platform :: string
  bc_policy :: string
  bc_reuse :: bool

text \<open>\<open>tl_lock\<close> is \<open>uv pip compile\<close> on \<open>requirements.in\<close>, \<open>tl_build\<close> is \<open>docker buildx\<close> with its metadata
  file, \<open>tl_verify\<close> is the check inside the image.\<close>

record tools =
  tl_lock :: "string \<Rightarrow> exn + string"
  tl_build :: "build_spec \<Rightarrow> string \<Rightarrow> exn + json"
  tl_verify :: "string \<Rightarrow> (string, string) dict \<Rightarrow> exn + unit"

definition lock_requirements :: "build_env \<Rightarrow> tools \<Rightarrow> string list \<Rightarrow> exn + string" where
  "lock_requirements E T requirements =
     (case normalize_requirements E requirements of
        Inl e \<Rightarrow> Inl e
      | Inr normalized \<Rightarrow> tl_lock T (requirements_in normalized))"

definition build_runtime_image :: "tools \<Rightarrow> build_spec \<Rightarrow> string \<Rightarrow> string \<Rightarrow> exn + string" where
  "build_runtime_image T spec repo tag =
     (case tl_build T spec (repo @ '':'' @ tag) of
        Inl e \<Rightarrow> Inl e
      | Inr metadata \<Rightarrow>
          if \<not> is_obj metadata then Inl attribute_error
          else (case get_field metadata ''containerimage.digest'' of
                  JStr digest \<Rightarrow>
                    if starts_with ''sha256:'' digest then Inr (repo @ ''@'' @ digest)
                    else Inl (PyError ''RuntimeError'' ''buildx did not return containerimage.digest'')
                | _ \<Rightarrow> Inl (PyError ''RuntimeError'' ''buildx did not return containerimage.digest'')))"

section \<open>Building\<close>

text \<open>Inside the \<open>try\<close>: build, mark, verify, mark. A failure is recorded and swallowed.\<close>

definition build_attempt ::
  "tools \<Rightarrow> build_settings \<Rightarrow> int \<Rightarrow> env_row \<Rightarrow> string \<Rightarrow> build_spec \<Rightarrow> (string, string) dict \<Rightarrow> build_db
     \<Rightarrow> build_db \<times> string list \<times> (exn + unit)" where
  "build_attempt T C now env job spec packages db =
     (case build_runtime_image T spec (bc_repo C) (''env-'' @ ev_id env) of
        Inl e \<Rightarrow> (db, [], Inl e)
      | Inr img \<Rightarrow>
          (let db1 = mark_verifying now (ev_id env) job db in
           case tl_verify T img packages of
             Inl e \<Rightarrow> (db1, [''VERIFYING_RUNTIME''], Inl e)
           | Inr _ \<Rightarrow>
               (case mark_ready now (ev_id env) job img db1 of
                  (db2, Inl e) \<Rightarrow> (db2, [''VERIFYING_RUNTIME''], Inl e)
                | (db2, Inr _) \<Rightarrow> (db2, [''VERIFYING_RUNTIME'', ''RUNTIME_READY''], Inr ()))))"

definition build_claimed ::
  "tools \<Rightarrow> build_settings \<Rightarrow> int \<Rightarrow> env_row \<Rightarrow> string \<Rightarrow> build_spec \<Rightarrow> (string, string) dict \<Rightarrow> build_db
     \<Rightarrow> build_db \<times> string list" where
  "build_claimed T C now env job spec packages db =
     (case build_attempt T C now env job spec packages db of
        (db1, stages, Inr _) \<Rightarrow> (db1, ''BUILDING_RUNTIME'' # stages)
      | (db1, stages, Inl e) \<Rightarrow>
          (mark_failed now (ev_id env) job (exn_text e) db1, ''BUILDING_RUNTIME'' # stages @ [''RUNTIME_FAILED'']))"

type_synonym build_answer = "build_db \<times> string list \<times> (exn + env_view option)"

definition build_env_row ::
  "build_env \<Rightarrow> build_store \<Rightarrow> tools \<Rightarrow> build_settings \<Rightarrow> int \<Rightarrow> string \<Rightarrow> string \<Rightarrow> env_row \<Rightarrow> build_spec
     \<Rightarrow> build_db \<Rightarrow> build_answer" where
  "build_env_row E S T C now job request_key env spec db =
     (case bs_claim S now job (ev_id env) db of
        (db1, Inl e) \<Rightarrow> (db1, [], Inl e)
      | (db1, Inr None) \<Rightarrow> (db1, [''WAITING_RUNTIME''], Inr (bs_get_for_request S request_key db1))
      | (db1, Inr (Some j)) \<Rightarrow>
          (case packages_of E spec of
             Inl e \<Rightarrow> (db1, [], Inl e)
           | Inr packages \<Rightarrow>
               (case build_claimed T C now env j spec packages db1 of
                  (db2, stages) \<Rightarrow> (db2, stages, Inr (bs_get_for_request S request_key db2)))))"

section \<open>Resolving\<close>

definition status_stages :: "build_status \<Rightarrow> string list" where
  "status_stages s =
     (case s of
        Pending \<Rightarrow> []
      | Ready \<Rightarrow> [''REUSING_RUNTIME'', ''RUNTIME_READY'']
      | Building \<Rightarrow> [''WAITING_RUNTIME'']
      | Verifying \<Rightarrow> [''WAITING_RUNTIME'']
      | Failed \<Rightarrow> [''RUNTIME_FAILED''])"

definition with_stages :: "string list \<Rightarrow> build_answer \<Rightarrow> build_answer" where
  "with_stages s a = (case a of (db, t, r) \<Rightarrow> (db, s @ t, r))"

definition resolve_exact ::
  "build_env \<Rightarrow> build_store \<Rightarrow> tools \<Rightarrow> build_settings \<Rightarrow> int \<Rightarrow> string \<Rightarrow> string \<Rightarrow> string \<Rightarrow> build_spec
     \<Rightarrow> (string, string) dict \<Rightarrow> build_db \<Rightarrow> build_answer" where
  "resolve_exact E S T C now env_id job key spec packages db =
     (case bs_exact S now \<lparr>ne_id = env_id, ne_key = key, ne_spec = spec, ne_lock_sha256 = lock_sha256 E spec,
                           ne_packages = packages\<rparr> db of
        (db1, Inl e) \<Rightarrow> (db1, [], Inl e)
      | (db1, Inr env) \<Rightarrow>
     (case bs_bind S now key (ev_id env) Exact db1 of
        (db2, Inl e) \<Rightarrow> (db2, [], Inl e)
      | (db2, Inr _) \<Rightarrow>
          if ev_status env = Pending then build_env_row E S T C now job key env spec db2
          else (db2, status_stages (ev_status env), Inr (bs_get_for_request S key db2))))"

definition resolve_new ::
  "build_env \<Rightarrow> build_store \<Rightarrow> tools \<Rightarrow> build_settings \<Rightarrow> int \<Rightarrow> string \<Rightarrow> string \<Rightarrow> string \<Rightarrow> build_spec
     \<Rightarrow> (string, string) dict \<Rightarrow> build_db \<Rightarrow> build_answer" where
  "resolve_new E S T C now env_id job key spec packages db =
     (case (if bc_reuse C then bs_superset S spec packages db else None) of
        Some candidate \<Rightarrow>
          (case bs_bind S now key (ev_id candidate) Superset db of
             (db1, Inl e) \<Rightarrow> (db1, [], Inl e)
           | (db1, Inr _) \<Rightarrow> (db1, [''REUSING_RUNTIME'', ''RUNTIME_READY''], Inr (bs_get_for_request S key db1)))
      | None \<Rightarrow> resolve_exact E S T C now env_id job key spec packages db)"

definition settings_spec :: "build_settings \<Rightarrow> string \<Rightarrow> build_spec" where
  "settings_spec C lock =
     \<lparr>sp_base = bc_base C, sp_python = bc_python C, sp_platform = bc_platform C, sp_lock = lock, sp_policy = bc_policy C\<rparr>"

definition resolve_spec ::
  "build_env \<Rightarrow> build_store \<Rightarrow> tools \<Rightarrow> build_settings \<Rightarrow> int \<Rightarrow> string \<Rightarrow> string \<Rightarrow> build_spec \<Rightarrow> build_db \<Rightarrow> build_answer" where
  "resolve_spec E S T C now env_id job spec db =
     (case env_key E spec of
        Inl e \<Rightarrow> (db, [], Inl e)
      | Inr key \<Rightarrow>
     (case packages_of E spec of
        Inl e \<Rightarrow> (db, [], Inl e)
      | Inr packages \<Rightarrow>
          with_stages [''CHECKING_RUNTIME_CACHE'']
            (case bs_get_for_request S key db of
               Some (env, a) \<Rightarrow>
                 if ev_status env = Pending then build_env_row E S T C now job key env spec db
                 else (db, status_stages (ev_status env), Inr (Some (env, a)))
             | None \<Rightarrow> resolve_new E S T C now env_id job key spec packages db)))"

definition build_resolve ::
  "build_env \<Rightarrow> build_store \<Rightarrow> tools \<Rightarrow> build_settings \<Rightarrow> int \<Rightarrow> string \<Rightarrow> string \<Rightarrow> string list \<Rightarrow> build_db \<Rightarrow> build_answer" where
  "build_resolve E S T C now env_id job requirements db =
     with_stages [''RESOLVING_DEPENDENCIES'']
       (case lock_requirements E T requirements of
          Inl e \<Rightarrow> (db, [], Inl e)
        | Inr lock \<Rightarrow> resolve_spec E S T C now env_id job (settings_spec C lock) db)"

definition status_name :: "build_status \<Rightarrow> string" where
  "status_name s = (case s of Pending \<Rightarrow> ''PENDING'' | Building \<Rightarrow> ''BUILDING'' | Verifying \<Rightarrow> ''VERIFYING''
     | Ready \<Rightarrow> ''READY'' | Failed \<Rightarrow> ''FAILED'')"

definition build_retry ::
  "build_env \<Rightarrow> build_store \<Rightarrow> tools \<Rightarrow> build_settings \<Rightarrow> int \<Rightarrow> string \<Rightarrow> string \<Rightarrow> build_db \<Rightarrow> build_answer" where
  "build_retry E S T C now job key db =
     (case bs_get_for_request S key db of
        None \<Rightarrow> (db, [], Inl (key_error key))
      | Some (existing, a) \<Rightarrow>
          if ev_status existing \<noteq> Failed
          then (db, [], Inl (value_error (''runtime environment status is '' @ status_name (ev_status existing) @
                  ''; only FAILED environments can be retried'')))
          else (case reset_failed now (ev_id existing) db of
                  (db1, Some env) \<Rightarrow> build_env_row E S T C now job key env (ev_spec env) db1
                | (db1, None) \<Rightarrow>
                    (case bs_get_for_request S key db1 of
                       None \<Rightarrow> (db1, [], Inl (key_error key))
                     | Some current \<Rightarrow> (db1, [], Inr (Some current)))))"

section \<open>Harbor\<close>

record artifact_ref =
  rf_registry :: string
  rf_project :: string
  rf_repository :: string
  rf_digest :: string

text \<open>\<open>rsplit("@", 1)\<close> at the last sign.\<close>

definition rsplit_at :: "char \<Rightarrow> string \<Rightarrow> string \<times> string" where
  "rsplit_at c s = (rev (tl (dropWhile ((\<noteq>) c) (rev s))), rev (takeWhile ((\<noteq>) c) (rev s)))"

definition parse_image_ref :: "string \<Rightarrow> exn + artifact_ref" where
  "parse_image_ref img =
     (if CHR ''@'' \<notin> set img then Inl (value_error ''image_ref must be pinned by digest'')
      else (let (repository_ref, digest) = rsplit_at CHR ''@'' img in
        if \<not> starts_with ''sha256:'' digest \<or> text_length digest \<noteq> 71
        then Inl (value_error ''image_ref must contain a sha256 digest'')
        else (case split_on CHR ''/'' repository_ref of
                registry # project # rest \<Rightarrow>
                  if rest = [] then Inl (value_error ''image_ref must look like registry/project/repository@sha256:...'')
                  else if registry = [] \<or> project = [] \<or> join_with ''/'' rest = []
                  then Inl (value_error ''image_ref contains an empty registry/project/repository component'')
                  else Inr \<lparr>rf_registry = registry, rf_project = project, rf_repository = join_with ''/'' rest,
                            rf_digest = digest\<rparr>
              | _ \<Rightarrow> Inl (value_error ''image_ref must look like registry/project/repository@sha256:...''))))"

text \<open>A request to Harbor: the registry may answer anything, here a status with a body or no answer.\<close>

datatype harbor_outcome = HarborStatus nat string | HarborFailure nat string | HarborDown string

record harbor =
  hb_url :: string
  hb_registry :: string
  hb_send :: "string \<Rightarrow> string \<Rightarrow> harbor_outcome"

definition quote_all :: "string \<Rightarrow> string" where
  "quote_all s = concat (map (\<lambda>c. if c = CHR ''/'' then ''%2F'' else quote [c]) s)"

definition artifact_url :: "harbor \<Rightarrow> artifact_ref \<Rightarrow> string" where
  "artifact_url H ref =
     hb_url H @ ''/api/v2.0/projects/'' @ quote_all (rf_project ref) @ ''/repositories/'' @
       quote_all (quote_all (rf_repository ref)) @ ''/artifacts/'' @ quote_all (rf_digest ref)"

definition harbor_error :: "string \<Rightarrow> exn" where
  "harbor_error m = PyError ''HarborError'' m"

definition harbor_request :: "harbor \<Rightarrow> string \<Rightarrow> string \<Rightarrow> exn + nat \<times> string" where
  "harbor_request H method url =
     (case hb_send H method url of
        HarborStatus status body \<Rightarrow> Inr (status, body)
      | HarborFailure code body \<Rightarrow>
          if code = 404 then Inr (404, body)
          else if code = 409
          then Inl (PyError ''HarborConflict''
                 (''Harbor refused artifact deletion because it is still referenced or protected: '' @ body))
          else Inl (harbor_error (''Harbor API '' @ method @ '' failed with HTTP '' @ nat_str code @ '': '' @ body))
      | HarborDown m \<Rightarrow> Inl (harbor_error (''Harbor API unavailable: '' @ m)))"

definition verify_registry :: "build_env \<Rightarrow> harbor \<Rightarrow> artifact_ref \<Rightarrow> exn + unit" where
  "verify_registry E H ref =
     (if hb_registry H \<noteq> [] \<and> rf_registry ref \<noteq> hb_registry H
      then Inl (harbor_error (''image registry '' @ be_repr E (rf_registry ref) @ '' does not match configured BUILD_HARBOR_REGISTRY '' @
             be_repr E (hb_registry H)))
      else Inr ())"

text \<open>The answer is whether the artifact was there.\<close>

definition harbor_delete_artifact :: "build_env \<Rightarrow> harbor \<Rightarrow> string \<Rightarrow> exn + bool" where
  "harbor_delete_artifact E H img =
     (case parse_image_ref img of
        Inl e \<Rightarrow> Inl e
      | Inr ref \<Rightarrow>
     (case verify_registry E H ref of
        Inl e \<Rightarrow> Inl e
      | Inr _ \<Rightarrow>
     (case harbor_request H ''DELETE'' (artifact_url H ref) of
        Inl e \<Rightarrow> Inl e
      | Inr (status, _) \<Rightarrow> Inr (status \<noteq> 404))))"

section \<open>Retirement\<close>

record lifecycle_plan =
  lp_env :: string
  lp_key :: string
  lp_status :: build_status
  lp_lifecycle :: lifecycle_state
  lp_image :: "string option"
  lp_aliases :: nat
  lp_jobs :: nat

definition locally_blocked :: "lifecycle_plan \<Rightarrow> bool" where
  "locally_blocked p \<longleftrightarrow> 0 < lp_jobs p \<or> lp_status p \<in> {Pending, Building, Verifying}"

definition build_plan :: "string \<Rightarrow> build_db \<Rightarrow> exn + lifecycle_plan" where
  "build_plan i db =
     (case env_at i db of
        None \<Rightarrow> Inl (key_error i)
      | Some e \<Rightarrow> Inr \<lparr>lp_env = ev_id e, lp_key = ev_key e, lp_status = ev_status e, lp_lifecycle = ev_lifecycle e,
                       lp_image = ev_image e, lp_aliases = count_aliases (ev_id e) db,
                       lp_jobs = count_active_build_jobs (ev_id e) db\<rparr>)"

definition build_begin_retirement :: "int \<Rightarrow> string \<Rightarrow> build_db \<Rightarrow> build_db \<times> (exn + env_row)" where
  "build_begin_retirement now i db =
     (case build_plan i db of
        Inl e \<Rightarrow> (db, Inl e)
      | Inr p \<Rightarrow>
          if locally_blocked p
          then (db, Inl (value_error ''runtime environment has active build work or is still being prepared''))
          else if lp_lifecycle p \<noteq> LActive
          then (case env_at i db of None \<Rightarrow> (db, Inl (key_error i)) | Some e \<Rightarrow> (db, Inr e))
          else (case store_begin_retirement now i db of
                  (db1, None) \<Rightarrow> (db1, Inl (value_error ''runtime environment could not enter RETIRING''))
                | (db1, Some e) \<Rightarrow> (db1, Inr e)))"

definition build_cancel_retirement :: "int \<Rightarrow> string \<Rightarrow> build_db \<Rightarrow> build_db \<times> (exn + env_row)" where
  "build_cancel_retirement now i db =
     (case store_cancel_retirement now i db of
        (db1, Some e) \<Rightarrow> (db1, Inr e)
      | (db1, None) \<Rightarrow>
          (case env_at i db1 of
             None \<Rightarrow> (db1, Inl (key_error i))
           | Some _ \<Rightarrow> (db1, Inl (value_error ''only RETIRING environments can return to ACTIVE''))))"

text \<open>What \<open>delete_artifact\<close> checks before it calls Harbor: the image to delete, \<open>None\<close> when there is
  none.\<close>

definition deletion_check :: "string \<Rightarrow> string \<Rightarrow> build_db \<Rightarrow> exn + string option" where
  "deletion_check i expected db =
     (case build_plan i db of
        Inl e \<Rightarrow> Inl e
      | Inr p \<Rightarrow>
          if lp_lifecycle p \<noteq> LRetiring then Inl (value_error ''runtime environment must be RETIRING before deletion'')
          else if locally_blocked p then Inl (value_error ''runtime environment still has active build work'')
          else if lp_image p \<noteq> Some expected then Inl (value_error ''image_ref changed after cleanup planning'')
          else Inr (case lp_image p of None \<Rightarrow> None | Some img \<Rightarrow> if img = [] then None else Some img))"

record deletion =
  dl_image :: "string option"
  dl_deleted :: bool
  dl_missing :: bool

definition is_harbor_error :: "exn \<Rightarrow> bool" where
  "is_harbor_error e = (case e of PyError t m \<Rightarrow> t = ''HarborError'' \<or> t = ''HarborConflict'' | _ \<Rightarrow> False)"

definition delete_artifact ::
  "build_env \<Rightarrow> harbor option \<Rightarrow> int \<Rightarrow> string \<Rightarrow> string \<Rightarrow> build_db \<Rightarrow> build_db \<times> (exn + deletion)" where
  "delete_artifact E H now i expected db =
     (case deletion_check i expected db of
        Inl e \<Rightarrow> (db, Inl e)
      | Inr None \<Rightarrow>
          (fst (store_finalize_retirement now i db), Inr \<lparr>dl_image = None, dl_deleted = False, dl_missing = True\<rparr>)
      | Inr (Some img) \<Rightarrow>
          (case H of
             None \<Rightarrow> (db, Inl (PyError ''RuntimeError''
                       ''Harbor deletion is disabled; configure BUILD_HARBOR_URL and credentials''))
           | Some h \<Rightarrow>
               (case harbor_delete_artifact E h img of
                  Inl e \<Rightarrow> (if is_harbor_error e then record_cleanup_error now i (exn_msg e) db else db, Inl e)
                | Inr found \<Rightarrow>
                    (fst (store_finalize_retirement now i db),
                     Inr \<lparr>dl_image = Some img, dl_deleted = found, dl_missing = \<not> found\<rparr>))))"

end
