(* ===== verification/Build_Facts.thy ===== *)
theory Build_Facts
  imports Build_Service
begin

text \<open>
  The invariant of the build tables, preserved by every transaction: keys belong to their
  specification, an alias points to an environment that satisfies the request it stands for, a ready
  environment has an image, and the environments under construction are, one by one, those of the
  active jobs.
\<close>

section \<open>The invariant\<close>

definition building :: "build_status \<Rightarrow> bool" where
  "building s \<longleftrightarrow> s = Building \<or> s = Verifying"

lemma building_simps [simp]:
  "building Building" "building Verifying" "\<not> building Pending" "\<not> building Ready" "\<not> building Failed"
  by (simp_all add: building_def)

definition env_ok :: "build_env \<Rightarrow> env_row \<Rightarrow> bool" where
  "env_ok E e \<longleftrightarrow> env_key E (ev_spec e) = Inr (ev_key e) \<and> packages_of E (ev_spec e) = Inr (ev_packages e) \<and>
     (ev_status e = Ready \<longrightarrow> ev_image e \<noteq> None) \<and> (building (ev_status e) \<longrightarrow> ev_lifecycle e = LActive)"

definition satisfies :: "env_row \<Rightarrow> build_spec \<Rightarrow> (string, string) dict \<Rightarrow> bool" where
  "satisfies e spec packages \<longleftrightarrow> sp_base (ev_spec e) = sp_base spec \<and> sp_python (ev_spec e) = sp_python spec \<and>
     sp_platform (ev_spec e) = sp_platform spec \<and> sp_policy (ev_spec e) = sp_policy spec \<and>
     jsonb_contains (ev_packages e) packages"

definition serves :: "build_env \<Rightarrow> env_row \<Rightarrow> string \<Rightarrow> bool" where
  "serves E e k \<longleftrightarrow> (\<exists>spec packages. env_key E spec = Inr k \<and> packages_of E spec = Inr packages \<and> satisfies e spec packages)"

definition alias_ok :: "build_env \<Rightarrow> env_row list \<Rightarrow> alias_row \<Rightarrow> bool" where
  "alias_ok E envs a \<longleftrightarrow> (\<exists>e \<in> set envs. ev_id e = al_env a \<and> serves E e (al_key a))"

definition tables_ok :: "build_env \<Rightarrow> build_db \<Rightarrow> bool" where
  "tables_ok E db \<longleftrightarrow> distinct (map ev_id (bd_envs db)) \<and> distinct (map ev_key (bd_envs db)) \<and>
     distinct (map al_key (bd_aliases db)) \<and> distinct (map jb_id (bd_jobs db)) \<and>
     (\<forall>e \<in> set (bd_envs db). env_ok E e) \<and> (\<forall>a \<in> set (bd_aliases db). alias_ok E (bd_envs db) a)"

definition actives :: "build_db \<Rightarrow> (string \<times> string \<times> build_status) set" where
  "actives db = (\<lambda>r. (jb_env r, jb_id r, jb_status r)) ` {r \<in> set (bd_jobs db). building (jb_status r)}"

definition builds :: "build_db \<Rightarrow> (string \<times> build_status) set" where
  "builds db = (\<lambda>e. (ev_id e, ev_status e)) ` {e \<in> set (bd_envs db). building (ev_status e)}"

definition jobs_ok :: "build_db \<Rightarrow> bool" where
  "jobs_ok db \<longleftrightarrow> (\<lambda>(i, j, s). (i, s)) ` actives db = builds db \<and> inj_on fst (actives db)"

definition build_ok :: "build_env \<Rightarrow> build_db \<Rightarrow> bool" where
  "build_ok E db \<longleftrightarrow> tables_ok E db \<and> jobs_ok db"

lemma build_ok_init: "build_ok E build_db_init"
  by (simp add: build_ok_def tables_ok_def jobs_ok_def actives_def builds_def build_db_init_def)

lemma env_at_in: "env_at i db = Some e \<Longrightarrow> e \<in> set (bd_envs db) \<and> ev_id e = i"
  by (auto simp: env_at_def dest: find_SomeD)

lemma env_at_iff: "distinct (map ev_id (bd_envs db)) \<Longrightarrow> e \<in> set (bd_envs db) \<Longrightarrow> env_at (ev_id e) db = Some e"
  unfolding env_at_def by (rule find_unique [where key = ev_id]) auto

lemma env_at_None: "env_at i db = None \<longleftrightarrow> i \<notin> ev_id ` set (bd_envs db)"
  by (auto simp: env_at_def find_None_iff)

section \<open>Updates of environments\<close>

text \<open>What no statement changes of a row.\<close>

definition keeps :: "(env_row \<Rightarrow> env_row) \<Rightarrow> bool" where
  "keeps f \<longleftrightarrow> (\<forall>e. ev_id (f e) = ev_id e \<and> ev_key (f e) = ev_key e \<and> ev_spec (f e) = ev_spec e \<and>
     ev_packages (f e) = ev_packages e)"

lemma keepsD: "keeps f \<Longrightarrow> ev_id (f e) = ev_id e" "keeps f \<Longrightarrow> ev_key (f e) = ev_key e"
  "keeps f \<Longrightarrow> ev_spec (f e) = ev_spec e" "keeps f \<Longrightarrow> ev_packages (f e) = ev_packages e"
  by (simp_all add: keeps_def)

lemma satisfies_keeps: "keeps f \<Longrightarrow> serves E (f e) k = serves E e k"
  by (simp add: serves_def satisfies_def keepsD)

lemma tables_update:
  assumes ok: "tables_ok E db" and f: "keeps f"
    and r: "\<And>e. e \<in> set (bd_envs db) \<Longrightarrow> P e \<Longrightarrow> ev_status (f e) = Ready \<Longrightarrow> ev_image (f e) \<noteq> None"
    and l: "\<And>e. e \<in> set (bd_envs db) \<Longrightarrow> P e \<Longrightarrow> building (ev_status (f e)) \<Longrightarrow> ev_lifecycle (f e) = LActive"
  shows "tables_ok E (update_env P f db)"
proof -
  let ?t = "sql_update P f (bd_envs db)"
  have k: "map ev_id ?t = map ev_id (bd_envs db)" "map ev_key ?t = map ev_key (bd_envs db)"
    by (auto intro: map_key_sql_update simp: keepsD [OF f])
  have "env_ok E e" if "e \<in> set ?t" for e
    using that ok r l by (auto simp: tables_ok_def env_ok_def set_sql_update keepsD [OF f] split: if_splits)
  moreover have "alias_ok E ?t a" if "a \<in> set (bd_aliases db)" for a
  proof -
    from that ok obtain e where e: "e \<in> set (bd_envs db)" "ev_id e = al_env a" "serves E e (al_key a)"
      by (auto simp: tables_ok_def alias_ok_def)
    let ?e = "if P e then f e else e"
    have "?e \<in> set ?t" using e(1) by (auto simp: set_sql_update)
    with e(2,3) show ?thesis unfolding alias_ok_def
      by (intro bexI [of _ ?e]) (auto simp: keepsD [OF f] satisfies_keeps [OF f])
  qed
  ultimately show ?thesis using ok k by (simp add: tables_ok_def update_env_def)
qed

lemma builds_update_same:
  assumes "keeps f" "\<And>e. e \<in> set (bd_envs db) \<Longrightarrow> P e \<Longrightarrow> \<not> building (ev_status e) \<and> \<not> building (ev_status (f e))"
  shows "builds (update_env P f db) = builds db"
  unfolding builds_def update_env_def
  using assms(2) by (fastforce simp: set_sql_update keepsD [OF assms(1)])

lemma build_ok_update:
  assumes "build_ok E db" "keeps f"
    and "\<And>e. e \<in> set (bd_envs db) \<Longrightarrow> P e \<Longrightarrow> \<not> building (ev_status e) \<and> \<not> building (ev_status (f e))"
    and "\<And>e. e \<in> set (bd_envs db) \<Longrightarrow> P e \<Longrightarrow> ev_status (f e) = Ready \<Longrightarrow> ev_image (f e) \<noteq> None"
  shows "build_ok E (update_env P f db)"
proof -
  have "actives (update_env P f db) = actives db" by (simp add: actives_def update_env_def)
  with assms tables_update [of E db f P] builds_update_same [of f db P] show ?thesis
    by (auto simp: build_ok_def jobs_ok_def)
qed

text \<open>The environment and the job of a build move together.\<close>

lemma set_update_at:
  assumes "distinct (map key t)" "e \<in> set t"
  shows "set (sql_update (\<lambda>x. key x = key e) f t) = insert (f e) {x \<in> set t. key x \<noteq> key e}"
proof -
  have only: "x = e" if "x \<in> set t" "key x = key e" for x
    using that assms by (auto simp: distinct_map inj_on_def)
  then have s: "set t = insert e {x \<in> set t. key x \<noteq> key e}" using assms(2) by blast
  have "(\<lambda>x. if key x = key e then f x else x) ` {x \<in> set t. key x \<noteq> key e} = {x \<in> set t. key x \<noteq> key e}"
    by (subst image_cong [where g = id]) auto
  then show ?thesis unfolding sql_update_def set_map by (subst s) (simp only: image_insert if_True simp_thms)
qed

lemma image_insert_where: "v ` {x \<in> insert a A. P x} = v ` {x \<in> A. P x} \<union> (if P a then {v a} else {})"
  by auto

lemma image_without: "(\<And>x. h (v x) = k x) \<Longrightarrow> v ` {x \<in> {x \<in> T. k x \<noteq> c}. P x} = {y \<in> v ` {x \<in> T. P x}. h y \<noteq> c}"
  by auto

lemma builds_at:
  assumes "distinct (map ev_id (bd_envs db))" "e \<in> set (bd_envs db)" "keeps f"
  shows "builds (update_env (\<lambda>x. ev_id x = ev_id e) f db) =
    {x \<in> builds db. fst x \<noteq> ev_id e} \<union> (if building (ev_status (f e)) then {(ev_id e, ev_status (f e))} else {})"
proof -
  let ?v = "\<lambda>e. (ev_id e, ev_status e)" and ?A = "{x \<in> set (bd_envs db). ev_id x \<noteq> ev_id e}"
  have "set (bd_envs (update_env (\<lambda>x. ev_id x = ev_id e) f db)) = insert (f e) ?A"
    using set_update_at [OF assms(1,2), of f] by (simp add: update_env_def)
  then have "builds (update_env (\<lambda>x. ev_id x = ev_id e) f db) = ?v ` {x \<in> insert (f e) ?A. building (ev_status x)}"
    unfolding builds_def by (simp only:)
  also have "\<dots> = ?v ` {x \<in> ?A. building (ev_status x)} \<union> (if building (ev_status (f e)) then {(ev_id e, ev_status (f e))} else {})"
    unfolding image_insert_where by (simp only: keepsD(1) [OF assms(3)])
  also have "?v ` {x \<in> ?A. building (ev_status x)} = {x \<in> builds db. fst x \<noteq> ev_id e}"
    unfolding builds_def by (rule image_without) simp
  finally show ?thesis .
qed

lemma actives_at:
  assumes "distinct (map jb_id (bd_jobs db))" "r \<in> set (bd_jobs db)"
    and "\<And>x. jb_id (f x) = jb_id x" "\<And>x. jb_env (f x) = jb_env x"
  shows "actives (update_job (jb_id r) f db) =
    {x \<in> actives db. fst (snd x) \<noteq> jb_id r} \<union>
      (if building (jb_status (f r)) then {(jb_env r, jb_id r, jb_status (f r))} else {})"
proof -
  let ?v = "\<lambda>r. (jb_env r, jb_id r, jb_status r)" and ?A = "{x \<in> set (bd_jobs db). jb_id x \<noteq> jb_id r}"
  have "set (bd_jobs (update_job (jb_id r) f db)) = insert (f r) ?A"
    using set_update_at [OF assms(1,2), of f] by (simp add: update_job_def)
  then have "actives (update_job (jb_id r) f db) = ?v ` {x \<in> insert (f r) ?A. building (jb_status x)}"
    unfolding actives_def by (simp only:)
  also have "\<dots> = ?v ` {x \<in> ?A. building (jb_status x)} \<union>
      (if building (jb_status (f r)) then {(jb_env r, jb_id r, jb_status (f r))} else {})"
    unfolding image_insert_where by (simp only: assms(3,4))
  also have "?v ` {x \<in> ?A. building (jb_status x)} = {x \<in> actives db. fst (snd x) \<noteq> jb_id r}"
    unfolding actives_def by (rule image_without) simp
  finally show ?thesis .
qed

definition holds_job :: "string \<Rightarrow> string \<Rightarrow> build_status \<Rightarrow> build_db \<Rightarrow> bool" where
  "holds_job i j s db \<longleftrightarrow> (i, j, s) \<in> actives db"

lemma build_move:
  assumes ok: "build_ok E db" and h: "holds_job i j s db"
    and f: "keeps f" "\<And>e. ev_status (f e) = s'" "\<And>e. s' = Ready \<Longrightarrow> ev_image (f e) \<noteq> None"
      "\<And>e. ev_lifecycle (f e) = ev_lifecycle e"
    and g: "\<And>r. jb_id (g r) = jb_id r \<and> jb_env (g r) = jb_env r \<and> jb_status (g r) = s'"
  shows "build_ok E (update_job j g (update_env (\<lambda>e. ev_id e = i) f db)) \<and>
    actives (update_job j g (update_env (\<lambda>e. ev_id e = i) f db)) =
      {x \<in> actives db. fst x \<noteq> i} \<union> (if building s' then {(i, j, s')} else {})"
proof -
  let ?db1 = "update_env (\<lambda>e. ev_id e = i) f db"
  let ?db2 = "update_job j g ?db1"
  have t: "tables_ok E db" and jo: "jobs_ok db" using ok by (simp_all add: build_ok_def)
  from h obtain r where r: "r \<in> set (bd_jobs db)" "jb_id r = j" "jb_env r = i" "jb_status r = s" "building s"
    by (auto simp: holds_job_def actives_def)
  have "(i, s) \<in> builds db" using jo h by (force simp: jobs_ok_def holds_job_def)
  then obtain e where e: "e \<in> set (bd_envs db)" "ev_id e = i" "building (ev_status e)" by (auto simp: builds_def)
  have only: "x = e" if "x \<in> set (bd_envs db)" "ev_id x = i" for x
    using that e t by (auto simp: tables_ok_def distinct_map inj_on_def)
  have "ev_lifecycle e = LActive" using e t by (auto simp: tables_ok_def env_ok_def)
  note live = this
  have inj: "x = (i, j, s)" if "x \<in> actives db" "fst x = i" for x
    using that jo h by (fastforce simp: jobs_ok_def holds_job_def inj_on_def)
  have same: "fst (snd x) = j \<longleftrightarrow> fst x = i" if "x \<in> actives db" for x
  proof
    assume "fst x = i" with inj [OF that] show "fst (snd x) = j" by simp
  next
    assume "fst (snd x) = j"
    with that r(1,2) t have "fst x = jb_env r" by (auto simp: actives_def tables_ok_def distinct_map inj_on_def)
    with r show "fst x = i" by simp
  qed
  have a1: "actives ?db1 = actives db" by (simp add: actives_def update_env_def)
  have d1: "distinct (map jb_id (bd_jobs ?db1))" "r \<in> set (bd_jobs ?db1)"
    using t r by (simp_all add: tables_ok_def update_env_def)
  have A: "actives ?db2 = {x \<in> actives db. fst x \<noteq> i} \<union> (if building s' then {(i, j, s')} else {})"
    using actives_at [OF d1, of g] g r(2,3) same by (auto simp: a1)
  have B: "builds ?db2 = {x \<in> builds db. fst x \<noteq> i} \<union> (if building s' then {(i, s')} else {})"
  proof -
    have "builds ?db2 = builds ?db1" by (simp add: builds_def update_job_def)
    moreover have "distinct (map ev_id (bd_envs db))" using t by (simp add: tables_ok_def)
    from builds_at [OF this e(1) f(1)] have "builds ?db1 = {x \<in> builds db. fst x \<noteq> i} \<union> (if building s' then {(i, s')} else {})"
      using e(2) f(2) by simp
    ultimately show ?thesis by simp
  qed
  have "(\<lambda>(i, j, s). (i, s)) ` {x \<in> actives db. fst x \<noteq> i} = {x \<in> builds db. fst x \<noteq> i}"
    using jo unfolding jobs_ok_def by (force simp: image_iff)
  moreover have "inj_on fst {x \<in> actives db. fst x \<noteq> i}"
    using jo by (auto simp: jobs_ok_def inj_on_def)
  ultimately have "jobs_ok ?db2"
    unfolding jobs_ok_def A B by (auto simp: inj_on_def)
  moreover have "tables_ok E ?db1" by (rule tables_update [OF t f(1)]) (use f only live in auto)
  then have "tables_ok E ?db2"
    by (auto simp: tables_ok_def update_job_def map_key_sql_update g)
  ultimately show ?thesis using A by (simp add: build_ok_def)
qed

section \<open>The transactions\<close>

lemma update_env_none: "(\<And>e. e \<in> set (bd_envs db) \<Longrightarrow> \<not> P e) \<Longrightarrow> update_env P f db = db"
proof -
  assume "\<And>e. e \<in> set (bd_envs db) \<Longrightarrow> \<not> P e"
  then have "sql_update P f (bd_envs db) = bd_envs db" unfolding sql_update_def by (intro map_idI) simp
  then show ?thesis by (simp add: update_env_def)
qed

lemma update_where_cases:
  assumes d: "distinct (map ev_id (bd_envs db))"
  shows "update_where i P f db =
    (case env_at i db of
       None \<Rightarrow> (db, None)
     | Some e \<Rightarrow> if P e then (update_env (\<lambda>x. ev_id x = i) f db, Some (f e)) else (db, None))"
proof -
  have only: "x = e" if "env_at i db = Some e" "x \<in> set (bd_envs db)" "ev_id x = i" for x e
    using that d env_at_in [OF that(1)] by (auto simp: distinct_map inj_on_def)
  have same: "update_env (\<lambda>x. ev_id x = i \<and> P x) f db = update_env (\<lambda>x. ev_id x = i) f db" if "env_at i db = Some e" "P e" for e
  proof -
    have "sql_update (\<lambda>x. ev_id x = i \<and> P x) f (bd_envs db) = sql_update (\<lambda>x. ev_id x = i) f (bd_envs db)"
      unfolding sql_update_def using only [OF that(1)] that(2) by (intro map_cong) auto
    then show ?thesis by (simp add: update_env_def)
  qed
  have none: "update_env (\<lambda>x. ev_id x = i \<and> P x) f db = db" if "env_at i db = None \<or> (\<exists>e. env_at i db = Some e \<and> \<not> P e)"
    using that only by (intro update_env_none) (auto simp: env_at_None)
  show ?thesis using same none by (auto simp: update_where_def split: option.splits)
qed

lemma tables_ids: "tables_ok E db \<Longrightarrow> distinct (map ev_id (bd_envs db))"
  by (simp add: tables_ok_def)

lemma build_ok_ids: "build_ok E db \<Longrightarrow> distinct (map ev_id (bd_envs db))"
  by (simp add: build_ok_def tables_ok_def)

lemma okD:
  assumes "build_ok E db" "e \<in> set (bd_envs db)"
  shows "ev_status e = Ready \<Longrightarrow> ev_image e \<noteq> None" "building (ev_status e) \<Longrightarrow> ev_lifecycle e = LActive"
  using assms by (auto simp: build_ok_def tables_ok_def env_ok_def)

text \<open>A statement on an environment that is not under construction.\<close>

lemma update_where_ok:
  assumes ok: "build_ok E db" and run: "update_where i P f db = (db', res)" and k: "keeps f"
    and idle: "\<And>e. e \<in> set (bd_envs db) \<Longrightarrow> P e \<Longrightarrow> \<not> building (ev_status e) \<and> \<not> building (ev_status (f e))"
    and ready: "\<And>e. e \<in> set (bd_envs db) \<Longrightarrow> P e \<Longrightarrow> ev_status (f e) = Ready \<Longrightarrow> ev_image (f e) \<noteq> None"
  shows "build_ok E db' \<and> actives db' = actives db"
proof -
  have "build_ok E (update_env (\<lambda>e. ev_id e = i \<and> P e) f db)"
    by (rule build_ok_update [OF ok k]) (use idle ready in auto)
  moreover have "db' = update_env (\<lambda>e. ev_id e = i \<and> P e) f db" using run by (simp add: update_where_def)
  ultimately show ?thesis by (simp add: actives_def update_env_def)
qed

lemma contains_refl: "distinct (map fst d) \<Longrightarrow> jsonb_contains d d"
  by (auto simp: jsonb_contains_def list_all_iff)

lemma env_serves: "env_ok E e \<Longrightarrow> serves E e (ev_key e)"
  unfolding serves_def satisfies_def packages_of_def env_ok_def using contains_refl parse_sorted(2) by blast

lemma compatible_serves:
  "compatible spec packages e \<Longrightarrow> env_key E spec = Inr k \<Longrightarrow> packages_of E spec = Inr packages \<Longrightarrow> serves E e k"
  unfolding serves_def satisfies_def compatible_def by blast

lemma reset_failed_ok:
  assumes "build_ok E db" "reset_failed now i db = (db', res)"
  shows "build_ok E db' \<and> actives db' = actives db"
  by (rule update_where_ok [OF assms(1) assms(2) [unfolded reset_failed_def]]) (auto simp: keeps_def)

lemma reactivate_ok:
  assumes "build_ok E db" "reactivate_retired now i db = (db', res)"
  shows "build_ok E db' \<and> actives db' = actives db"
  by (rule update_where_ok [OF assms(1) assms(2) [unfolded reactivate_retired_def]])
    (use okD [OF assms(1)] in \<open>auto simp: keeps_def\<close>)

lemma store_begin_ok:
  assumes "build_ok E db" "store_begin_retirement now i db = (db', res)"
  shows "build_ok E db' \<and> actives db' = actives db"
  by (rule update_where_ok [OF assms(1) assms(2) [unfolded store_begin_retirement_def]])
    (use okD [OF assms(1)] in \<open>auto simp: keeps_def building_def\<close>)

lemma store_cancel_ok:
  assumes "build_ok E db" "store_cancel_retirement now i db = (db', res)"
  shows "build_ok E db' \<and> actives db' = actives db"
  by (rule update_where_ok [OF assms(1) assms(2) [unfolded store_cancel_retirement_def]])
    (use okD [OF assms(1)] in \<open>fastforce simp: keeps_def\<close>)+

lemma delete_aliases_ok:
  "build_ok E db \<Longrightarrow> build_ok E (db\<lparr>bd_aliases := sql_delete P (bd_aliases db)\<rparr>)"
  by (simp add: build_ok_def tables_ok_def jobs_ok_def actives_def builds_def distinct_key_sql_delete)

lemma store_finalize_ok:
  assumes "build_ok E db" "store_finalize_retirement now i db = (db', res)"
  shows "build_ok E db' \<and> actives db' = actives db"
proof -
  let ?db = "db\<lparr>bd_aliases := sql_delete (\<lambda>a. al_env a = i) (bd_aliases db)\<rparr>"
  have "build_ok E ?db" by (rule delete_aliases_ok [OF assms(1)])
  note ok = this
  have "build_ok E db' \<and> actives db' = actives ?db"
    by (rule update_where_ok [OF ok assms(2) [unfolded store_finalize_retirement_def]])
      (use okD [OF ok] in \<open>fastforce simp: keeps_def\<close>)+
  then show ?thesis by (simp add: actives_def)
qed

lemma record_error_ok:
  "build_ok E db \<Longrightarrow> build_ok E (record_cleanup_error now i m db) \<and> actives (record_cleanup_error now i m db) = actives db"
proof -
  assume ok: "build_ok E db"
  have "build_ok E (record_cleanup_error now i m db)" unfolding record_cleanup_error_def
    by (rule build_ok_update [OF ok]) (use okD [OF ok] in \<open>fastforce simp: keeps_def\<close>)+
  then show ?thesis by (simp add: record_cleanup_error_def actives_def update_env_def)
qed

lemma claim_ok:
  assumes ok: "build_ok E db" and run: "claim_where P now j i db = (db', res)"
    and P: "\<And>e. e \<in> set (bd_envs db) \<Longrightarrow> ev_status e = Pending \<Longrightarrow> P e \<Longrightarrow> ev_lifecycle e = LActive"
  shows "build_ok E db' \<and> (res = Inr (Some j) \<and> i \<notin> fst ` actives db \<and> actives db' = insert (i, j, Building) (actives db) \<or>
    (res = Inr None \<or> (\<exists>x. res = Inl x)) \<and> db' = db)"
proof -
  let ?f = "\<lambda>e. e\<lparr>ev_status := Building, ev_last_error := None, ev_updated := now\<rparr>"
  let ?db1 = "update_env (\<lambda>x. ev_id x = i) ?f db"
  have k: "keeps ?f" by (simp add: keeps_def)
  note u = update_where_cases [OF build_ok_ids [OF ok], of i "\<lambda>e. ev_status e = Pending \<and> P e" ?f]
  show ?thesis
  proof (cases "\<exists>e. env_at i db = Some e \<and> ev_status e = Pending \<and> P e \<and> j \<notin> jb_id ` set (bd_jobs db)")
    case False
    with run u ok show ?thesis
      by (auto simp: claim_where_def sql_insert_def new_job_def update_env_def split: option.splits if_splits)
  next
    case True
    then obtain e where e: "env_at i db = Some e" "ev_status e = Pending" "P e" "j \<notin> jb_id ` set (bd_jobs db)" by blast
    let ?db2 = "?db1\<lparr>bd_jobs := bd_jobs db @ [new_job now j i]\<rparr>"
    have r: "db' = ?db2" "res = Inr (Some j)"
      using run u e by (auto simp: claim_where_def sql_insert_def new_job_def update_env_def)
    note ei = env_at_in [OF e(1)]
    have only: "x = e" if "x \<in> set (bd_envs db)" "ev_id x = i" for x
      using that ei build_ok_ids [OF ok] by (auto simp: distinct_map inj_on_def)
    have "ev_lifecycle e = LActive" using P e ei by blast
    then have t: "tables_ok E ?db1"
      by (intro tables_update) (use ok k only in \<open>auto simp: build_ok_def\<close>)
    then have t2: "tables_ok E ?db2" using e(4) by (simp add: tables_ok_def new_job_def update_env_def)
    have a: "actives ?db2 = insert (i, j, Building) (actives db)"
      unfolding actives_def using image_insert_where [of "\<lambda>r. (jb_env r, jb_id r, jb_status r)" "new_job now j i"
        "set (bd_jobs db)" "\<lambda>r. building (jb_status r)"] by (simp add: new_job_def)
    have "builds ?db1 = {x \<in> builds db. fst x \<noteq> i} \<union> {(i, Building)}"
      using builds_at [OF build_ok_ids [OF ok], of e ?f] ei k by simp
    moreover have new: "i \<notin> fst ` builds db" using only e(2) by (auto simp: builds_def)
    ultimately have b: "builds ?db2 = insert (i, Building) (builds db)" by (auto simp: builds_def image_iff)
    have jo: "(\<lambda>(i, j, s). (i, s)) ` actives db = builds db" "inj_on fst (actives db)"
      using ok by (simp_all add: build_ok_def jobs_ok_def)
    then have fresh: "i \<notin> fst ` actives db" using new by force
    with jo have "jobs_ok ?db2" unfolding jobs_ok_def a b by auto
    with t2 a r fresh show ?thesis by (simp add: build_ok_def)
  qed
qed

lemma base_exact_ok:
  assumes ok: "build_ok E db" and n: "env_key E (ne_spec n) = Inr (ne_key n)" "packages_of E (ne_spec n) = Inr (ne_packages n)"
    and run: "base_exact now n db = (db', res)"
  shows "build_ok E db' \<and> actives db' = actives db \<and> (\<forall>e. res = Inr e \<longrightarrow> e \<in> set (bd_envs db') \<and> ev_key e = ne_key n)"
proof (cases "List.find (\<lambda>e. ev_key e = ne_key n) (bd_envs db)")
  case (Some e)
  with run ok find_SomeD [OF Some] show ?thesis by (auto simp: base_exact_def)
next
  case None
  then have new: "ne_key n \<notin> ev_key ` set (bd_envs db)" by (auto simp: find_None_iff)
  show ?thesis
  proof (cases "ne_id n \<in> ev_id ` set (bd_envs db)")
    case True
    with None run ok show ?thesis by (auto simp: base_exact_def)
  next
    case False
    let ?db = "db\<lparr>bd_envs := bd_envs db @ [new_env_row now n]\<rparr>"
    have r: "db' = ?db" "res = Inr (new_env_row now n)" using None False run by (auto simp: base_exact_def)
    have "env_ok E (new_env_row now n)" using n by (simp add: env_ok_def new_env_row_def)
    moreover have "alias_ok E (bd_envs ?db) a" if "alias_ok E (bd_envs db) a" for a using that by (auto simp: alias_ok_def)
    ultimately have "tables_ok E ?db" using ok new False by (auto simp: build_ok_def tables_ok_def new_env_row_def)
    moreover have "builds ?db = builds db" "actives ?db = actives db" by (auto simp: builds_def actives_def new_env_row_def)
    ultimately show ?thesis using ok r by (simp add: build_ok_def jobs_ok_def) (simp add: new_env_row_def)
  qed
qed

lemma insert_alias_ok:
  assumes ok: "build_ok E db" and e: "e \<in> set (bd_envs db)" "ev_id e = i" "serves E e k"
    and run: "insert_alias now k i kind db = (db', res)"
  shows "build_ok E db' \<and> actives db' = actives db \<and> bd_envs db' = bd_envs db"
proof -
  have new: "alias_at k db = None \<Longrightarrow> k \<notin> al_key ` set (bd_aliases db)" by (auto simp: alias_at_def find_None_iff)
  consider "db' = db" | "alias_at k db = None"
      "db' = db\<lparr>bd_aliases := bd_aliases db @ [\<lparr>al_key = k, al_env = i, al_kind = kind, al_created = now\<rparr>]\<rparr>"
    using run by (auto simp: insert_alias_def split: if_splits)
  then show ?thesis
  proof cases
    case 2
    have "alias_ok E (bd_envs db) \<lparr>al_key = k, al_env = i, al_kind = kind, al_created = now\<rparr>"
      using e by (auto simp: alias_ok_def)
    with 2 ok new have "tables_ok E db'" by (simp add: build_ok_def tables_ok_def)
    moreover have "actives db' = actives db" "builds db' = builds db" "bd_envs db' = bd_envs db"
      using 2 by (simp_all add: actives_def builds_def)
    ultimately show ?thesis using ok by (simp add: build_ok_def jobs_ok_def)
  qed (use ok in simp)
qed

end
