(* ===== verification/Build_Laws.thy ===== *)
theory Build_Laws
  imports Build_Facts
begin

text \<open>
  The contract between the build service and its store, proved of \<open>BuildStore\<close> and of
  \<open>LifecycleBuildStore\<close>: what a lookup, a new environment, an alias and a claim may do to the tables.
  From it, once for both classes: every resolve and retry keeps the invariant, ends its build, and
  answers with an environment that serves the request.
\<close>

locale build_store_laws =
  fixes S :: build_store
    and inv :: "build_db \<Rightarrow> bool"
  assumes inv_update: "inv db \<Longrightarrow> (\<And>e. ev_lifecycle (f e) = ev_lifecycle e) \<Longrightarrow> inv (update_env P f db)"
    and inv_jobs: "inv (db\<lparr>bd_jobs := js\<rparr>) = inv db"
    and get_law: "bs_get_for_request S k db = Some (e, a) \<Longrightarrow>
      e \<in> set (bd_envs db) \<and> a \<in> set (bd_aliases db) \<and> al_key a = k \<and> al_env a = ev_id e"
    and superset_law: "bs_superset S spec packages db = Some e \<Longrightarrow> e \<in> set (bd_envs db) \<and> compatible spec packages e"
    and exact_law: "build_ok E db \<Longrightarrow> inv db \<Longrightarrow> env_key E (ne_spec n) = Inr (ne_key n) \<Longrightarrow>
      packages_of E (ne_spec n) = Inr (ne_packages n) \<Longrightarrow> bs_exact S now n db = (db', res) \<Longrightarrow>
      build_ok E db' \<and> inv db' \<and> actives db' = actives db \<and>
        (\<forall>e. res = Inr e \<longrightarrow> e \<in> set (bd_envs db') \<and> ev_key e = ne_key n)"
    and bind_law: "build_ok E db \<Longrightarrow> inv db \<Longrightarrow> e \<in> set (bd_envs db) \<Longrightarrow> serves E e k \<Longrightarrow>
      bs_bind S now k (ev_id e) kind db = (db', bound) \<Longrightarrow>
      build_ok E db' \<and> inv db' \<and> actives db' = actives db \<and> bd_envs db' = bd_envs db"
    and claim_law: "build_ok E db \<Longrightarrow> inv db \<Longrightarrow> bs_claim S now j i db = (db', claimed) \<Longrightarrow>
      build_ok E db' \<and> inv db' \<and>
        (claimed = Inr (Some j) \<and> i \<notin> fst ` actives db \<and> actives db' = insert (i, j, Building) (actives db) \<or>
         (claimed = Inr None \<or> (\<exists>x. claimed = Inl x)) \<and> db' = db)"
begin

lemma inv_mark: "inv db \<Longrightarrow> (\<And>e. ev_lifecycle (f e) = ev_lifecycle e) \<Longrightarrow> inv (update_job j g (update_env P f db))"
  by (simp add: update_job_def inv_jobs inv_update)

lemma only_active:
  assumes "build_ok E db" "(i, j, s) \<in> actives db" "x \<in> actives db" "fst x = i"
  shows "x = (i, j, s)"
  using assms by (fastforce simp: build_ok_def jobs_ok_def inj_on_def)

lemma mark_verifying_ok:
  assumes "build_ok E db" "inv db" "holds_job i j s db"
  shows "build_ok E (mark_verifying now i j db) \<and> inv (mark_verifying now i j db) \<and>
    actives (mark_verifying now i j db) = {x \<in> actives db. fst x \<noteq> i} \<union> {(i, j, Verifying)}"
  using build_move [OF assms(1,3), of "\<lambda>e. e\<lparr>ev_status := Verifying, ev_updated := now\<rparr>" Verifying
      "\<lambda>r. r\<lparr>jb_status := Verifying\<rparr>"] inv_mark [OF assms(2)]
  by (simp add: mark_verifying_def keeps_def)

lemma mark_failed_ok:
  assumes "build_ok E db" "inv db" "holds_job i j s db"
  shows "build_ok E (mark_failed now i j m db) \<and> inv (mark_failed now i j m db) \<and>
    actives (mark_failed now i j m db) = {x \<in> actives db. fst x \<noteq> i}"
  using build_move [OF assms(1,3), of "\<lambda>e. e\<lparr>ev_status := Failed, ev_last_error := Some (last_text 8192 m), ev_updated := now\<rparr>"
      Failed "\<lambda>r. r\<lparr>jb_status := Failed, jb_error := Some (last_text 8192 m), jb_finished := Some now\<rparr>"] inv_mark [OF assms(2)]
  by (simp add: mark_failed_def keeps_def Let_def)

lemma mark_ready_ok:
  assumes "build_ok E db" "inv db" "holds_job i j s db" "mark_ready now i j img db = (db', res)"
  shows "build_ok E db' \<and> inv db' \<and>
    (res = Inr () \<and> actives db' = {x \<in> actives db. fst x \<noteq> i} \<or> (\<exists>x. res = Inl x) \<and> db' = db)"
  using build_move [OF assms(1,3), of "\<lambda>e. e\<lparr>ev_status := Ready, ev_image := Some img, ev_last_error := None, ev_updated := now\<rparr>"
      Ready "\<lambda>r. r\<lparr>jb_status := Ready, jb_finished := Some now\<rparr>"] inv_mark [OF assms(2)] assms
  by (auto simp: mark_ready_def keeps_def split: if_splits)

lemma build_attempt_ok:
  assumes "build_ok E db" "inv db" "holds_job (ev_id env) job Building db"
    and "build_attempt T C now env job spec packages db = (db', st, res)"
  shows "build_ok E db' \<and> inv db' \<and>
    (res = Inr () \<and> actives db' = {x \<in> actives db. fst x \<noteq> ev_id env} \<or>
     (\<exists>x s. res = Inl x \<and> holds_job (ev_id env) job s db' \<and> {x \<in> actives db'. fst x \<noteq> ev_id env} = {x \<in> actives db. fst x \<noteq> ev_id env}))"
proof -
  let ?i = "ev_id env" and ?db1 = "mark_verifying now (ev_id env) job db"
  note v = mark_verifying_ok [OF assms(1-3), of now]
  then have h: "holds_job ?i job Verifying ?db1" by (simp add: holds_job_def)
  have same: "{x \<in> actives ?db1. fst x \<noteq> ?i} = {x \<in> actives db. fst x \<noteq> ?i}" using v by auto
  show ?thesis
  proof (cases "build_runtime_image T spec (bc_repo C) (''env-'' @ ?i)")
    case (Inl e)
    with assms show ?thesis by (auto simp: build_attempt_def)
  next
    case (Inr img)
    show ?thesis
    proof (cases "tl_verify T img packages")
      case (Inl e)
      with Inr assms(4) have "db' = ?db1" "res = Inl e" by (auto simp: build_attempt_def Let_def)
      with v h same show ?thesis by (simp only:) blast
    next
      case (Inr u)
      obtain db2 r where m: "mark_ready now ?i job img ?db1 = (db2, r)" by fastforce
      from \<open>build_runtime_image _ _ _ _ = Inr img\<close> Inr m assms(4) have d: "db' = db2" "res = r"
        by (auto simp: build_attempt_def Let_def split: sum.splits)
      from mark_ready_ok [OF conjunct1 [OF v] conjunct1 [OF conjunct2 [OF v]] h m] h same show ?thesis
        unfolding d by auto
    qed
  qed
qed

lemma build_claimed_ok:
  assumes "build_ok E db" "inv db" "holds_job (ev_id env) job Building db"
    and "build_claimed T C now env job spec packages db = (db', st)"
  shows "build_ok E db' \<and> inv db' \<and> actives db' = {x \<in> actives db. fst x \<noteq> ev_id env}"
proof -
  obtain db1 st1 r where a: "build_attempt T C now env job spec packages db = (db1, st1, r)" by (metis prod_cases3)
  note at = build_attempt_ok [OF assms(1-3) a]
  show ?thesis
  proof (cases r)
    case (Inr u)
    with at assms(4) a show ?thesis by (auto simp: build_claimed_def)
  next
    case (Inl e)
    then obtain s where h: "holds_job (ev_id env) job s db1" and
        same: "{x \<in> actives db1. fst x \<noteq> ev_id env} = {x \<in> actives db. fst x \<noteq> ev_id env}" using at by auto
    from Inl assms(4) a have "db' = mark_failed now (ev_id env) job (exn_text e) db1" by (auto simp: build_claimed_def)
    with mark_failed_ok [of E db1, OF _ _ h] at same show ?thesis by simp
  qed
qed

text \<open>What a resolve or a retry leaves: the invariant, no job of its own, and an answer that serves the
  request's key.\<close>

definition answered :: "build_env \<Rightarrow> string \<Rightarrow> build_db \<Rightarrow> build_answer \<Rightarrow> bool" where
  "answered E k db ans \<longleftrightarrow> (case ans of (db', st, res) \<Rightarrow>
     build_ok E db' \<and> inv db' \<and> actives db' = actives db \<and>
     (\<forall>e a. res = Inr (Some (e, a)) \<longrightarrow> e \<in> set (bd_envs db') \<and> serves E e k))"

lemma got_serves:
  assumes "build_ok E db" "bs_get_for_request S k db = Some (e, a)"
  shows "e \<in> set (bd_envs db) \<and> serves E e k"
proof -
  note g = get_law [OF assms(2)]
  then obtain e' where "e' \<in> set (bd_envs db)" "ev_id e' = ev_id e" "serves E e' k"
    using assms(1) by (auto simp: build_ok_def tables_ok_def alias_ok_def)
  moreover from this(1,2) g have "e' = e"
    using build_ok_ids [OF assms(1)] by (auto simp: distinct_map inj_on_def)
  ultimately show ?thesis using g by simp
qed

lemma answered_get:
  "build_ok E db' \<Longrightarrow> inv db' \<Longrightarrow> actives db' = actives db \<Longrightarrow> answered E k db (db', st, Inr (bs_get_for_request S k db'))"
  using got_serves [of E db' k] by (auto simp: answered_def)

lemma answered_error: "build_ok E db' \<Longrightarrow> inv db' \<Longrightarrow> actives db' = actives db \<Longrightarrow> answered E k db (db', st, Inl e)"
  by (simp add: answered_def)

lemma answered_stages: "answered E k db (with_stages st ans) = answered E k db ans"
  by (auto simp: answered_def with_stages_def split: prod.splits)

lemma answered_from: "answered E k db1 ans \<Longrightarrow> actives db1 = actives db \<Longrightarrow> answered E k db ans"
  by (simp add: answered_def split: prod.splits)

lemma build_env_answered:
  assumes ok: "build_ok E db" "inv db" and p: "packages_of E spec = Inr packages"
  shows "answered E k db (build_env_row E S T C now job k env spec db)"
proof -
  obtain db1 r where c: "bs_claim S now job (ev_id env) db = (db1, r)" by fastforce
  note cl = claim_law [OF ok c]
  show ?thesis
  proof (cases "r = Inr (Some job)")
    case False
    then have "db1 = db" "r = Inr None \<or> (\<exists>x. r = Inl x)" using cl by auto
    with cl c show ?thesis
      by (auto simp: build_env_row_def intro: answered_get answered_error)
  next
    case True
    then have a: "actives db1 = insert (ev_id env, job, Building) (actives db)" using cl by auto
    have new: "ev_id env \<notin> fst ` actives db" using cl True by auto
    obtain db2 st where b: "build_claimed T C now env job spec packages db1 = (db2, st)" by fastforce
    have "holds_job (ev_id env) job Building db1" using a by (simp add: holds_job_def)
    from build_claimed_ok [OF _ _ this b] cl have d: "build_ok E db2" "inv db2"
        "actives db2 = {x \<in> actives db1. fst x \<noteq> ev_id env}" by auto
    have "actives db2 = actives db" unfolding d(3) a using new by force
    with d p c b True show ?thesis by (simp add: build_env_row_def answered_get)
  qed
qed

lemma resolve_exact_answered:
  assumes ok: "build_ok E db" "inv db" and k: "env_key E spec = Inr k" and p: "packages_of E spec = Inr packages"
  shows "answered E k db (resolve_exact E S T C now env_id job k spec packages db)"
proof -
  let ?n = "\<lparr>ne_id = env_id, ne_key = k, ne_spec = spec, ne_lock_sha256 = lock_sha256 E spec, ne_packages = packages\<rparr>"
  obtain db1 r where e: "bs_exact S now ?n db = (db1, r)" by fastforce
  have x: "build_ok E db1 \<and> inv db1 \<and> actives db1 = actives db \<and> (\<forall>e. r = Inr e \<longrightarrow> e \<in> set (bd_envs db1) \<and> ev_key e = k)"
    using exact_law [OF ok _ _ e] k p by simp
  show ?thesis
  proof (cases r)
    case (Inl err)
    with e x show ?thesis by (simp add: resolve_exact_def answered_error)
  next
    case (Inr env)
    with x have env: "env \<in> set (bd_envs db1)" "ev_key env = k" by auto
    then have "serves E env k" using x env_serves [of E env] by (auto simp: build_ok_def tables_ok_def)
    moreover obtain db2 b where b: "bs_bind S now k (ev_id env) Exact db1 = (db2, b)" by fastforce
    ultimately have y: "build_ok E db2 \<and> inv db2 \<and> actives db2 = actives db"
      using bind_law [OF _ _ env(1) _ b] x by auto
    from build_env_answered [of E db2 spec packages k T C now job env] y p
    have "answered E k db (build_env_row E S T C now job k env spec db2)" by (auto intro: answered_from)
    with e Inr b y show ?thesis
      by (auto simp: resolve_exact_def intro: answered_get answered_error split: sum.splits)
  qed
qed

lemma resolve_new_answered:
  assumes ok: "build_ok E db" "inv db" and k: "env_key E spec = Inr k" and p: "packages_of E spec = Inr packages"
  shows "answered E k db (resolve_new E S T C now env_id job k spec packages db)"
proof (cases "if bc_reuse C then bs_superset S spec packages db else None")
  case None
  with resolve_exact_answered [OF assms] show ?thesis by (simp add: resolve_new_def)
next
  case (Some c)
  then have s: "bs_superset S spec packages db = Some c" by (simp split: if_splits)
  note c = superset_law [OF s]
  obtain db1 b where b: "bs_bind S now k (ev_id c) Superset db = (db1, b)" by fastforce
  from c compatible_serves [OF _ k p] bind_law [OF ok _ _ b] have "build_ok E db1 \<and> inv db1 \<and> actives db1 = actives db" by blast
  with Some b show ?thesis
    by (auto simp: resolve_new_def intro: answered_get answered_error split: sum.splits)
qed

lemma resolve_spec_answered:
  assumes ok: "build_ok E db" "inv db" and k: "env_key E spec = Inr k"
  shows "answered E k db (resolve_spec E S T C now env_id job spec db)"
proof (cases "packages_of E spec")
  case (Inl e)
  with k ok show ?thesis by (simp add: resolve_spec_def answered_error)
next
  case (Inr packages)
  show ?thesis
  proof (cases "bs_get_for_request S k db")
    case None
    with k Inr resolve_new_answered [OF ok k Inr] show ?thesis by (simp add: resolve_spec_def answered_stages)
  next
    case (Some ea)
    obtain e a where ea: "ea = (e, a)" by fastforce
    from build_env_answered [OF ok Inr] ok got_serves [OF ok(1), of k e a] Some ea k Inr show ?thesis
      by (auto simp: resolve_spec_def answered_stages) (auto simp: answered_def)
  qed
qed

lemma retry_answered:
  assumes ok: "build_ok E db" "inv db"
  shows "answered E k db (build_retry E S T C now job k db)"
proof -
  have fail: "answered E k db (db, [], Inl x)" for x using ok by (simp add: answered_error)
  show ?thesis
  proof (cases "\<exists>e a. bs_get_for_request S k db = Some (e, a) \<and> ev_status e = Failed")
    case False
    with fail show ?thesis by (auto simp: build_retry_def split: option.splits)
  next
    case True
    then obtain e a where ea: "bs_get_for_request S k db = Some (e, a)" "ev_status e = Failed" by blast
    have in_db: "e \<in> set (bd_envs db)" using get_law [OF ea(1)] by simp
    obtain db1 r where r: "reset_failed now (ev_id e) db = (db1, r)" by fastforce
    have d1: "build_ok E db1" "actives db1 = actives db" using reset_failed_ok [OF ok(1) r] by auto
    have i1: "inv db1" using r inv_update [OF ok(2)] by (auto simp: reset_failed_def update_where_def)
    show ?thesis
    proof (cases r)
      case None
      with ea r d1 i1 show ?thesis
        by (auto simp: build_retry_def answered_error split: option.splits)
          (auto simp: answered_def dest: got_serves [OF d1(1)])
    next
      case (Some env)
      have "ev_spec env = ev_spec e"
        using r Some env_at_iff [OF build_ok_ids [OF ok(1)] in_db] by (auto simp: reset_failed_def update_where_def split: if_splits)
      moreover have "packages_of E (ev_spec e) = Inr (ev_packages e)"
        using ok(1) in_db by (auto simp: build_ok_def tables_ok_def env_ok_def)
      ultimately have "answered E k db1 (build_env_row E S T C now job k env (ev_spec env) db1)"
        using build_env_answered [OF d1(1) i1] by simp
      with ea r Some d1(2) show ?thesis by (auto simp: build_retry_def intro: answered_from)
    qed
  qed
qed

end

section \<open>The two stores\<close>

lemma base_get_law:
  "base_get_for_request k db = Some (e, a) \<Longrightarrow>
   e \<in> set (bd_envs db) \<and> a \<in> set (bd_aliases db) \<and> al_key a = k \<and> al_env a = ev_id e"
  by (auto simp: base_get_for_request_def alias_at_def dest!: env_at_in find_SomeD split: option.splits)

lemma smallest_in: "smallest l = Some e \<Longrightarrow> e \<in> set l"
  unfolding smallest_def by (metis (no_types, lifting) list.set_intros(1) list.simps(4,5) neq_Nil_conv option.inject option.simps(3) set_sort)

definition all_active :: "build_db \<Rightarrow> bool" where
  "all_active db \<longleftrightarrow> (\<forall>e \<in> set (bd_envs db). ev_lifecycle e = LActive)"

lemma all_active_update: "all_active db \<Longrightarrow> (\<And>e. ev_lifecycle (f e) = ev_lifecycle e) \<Longrightarrow> all_active (update_env P f db)"
  by (auto simp: all_active_def update_env_def set_sql_update)

lemma claim_envs:
  assumes "claim_where P now j i db = (db', r)"
  shows "bd_envs db' = bd_envs db \<or> bd_envs db' = bd_envs (update_env (\<lambda>e. ev_id e = i \<and> ev_status e = Pending \<and> P e)
    (\<lambda>e. e\<lparr>ev_status := Building, ev_last_error := None, ev_updated := now\<rparr>) db)"
proof -
  let ?u = "update_where i (\<lambda>e. ev_status e = Pending \<and> P e) (\<lambda>e. e\<lparr>ev_status := Building, ev_last_error := None, ev_updated := now\<rparr>) db"
  obtain db1 x where u: "?u = (db1, x)" by fastforce
  have "db1 = fst ?u" by (simp add: u)
  then have "bd_envs db1 = bd_envs (update_env (\<lambda>e. ev_id e = i \<and> ev_status e = Pending \<and> P e)
    (\<lambda>e. e\<lparr>ev_status := Building, ev_last_error := None, ev_updated := now\<rparr>) db)" by (simp add: update_where_def)
  moreover have "bd_envs db' = bd_envs db1 \<or> bd_envs db' = bd_envs db"
    using assms unfolding claim_where_def u by (cases x) (auto split: option.splits)
  ultimately show ?thesis by argo
qed

interpretation base_laws: build_store_laws base_store all_active
proof
  fix db db' :: build_db and E n now and res :: "exn + env_row"
  assume "build_ok E db" "all_active db" "env_key E (ne_spec n) = Inr (ne_key n)"
    "packages_of E (ne_spec n) = Inr (ne_packages n)" "bs_exact base_store now n db = (db', res)"
  moreover from this(2,5) have "all_active db'"
    by (auto simp: base_store_def base_exact_def all_active_def new_env_row_def split: option.splits if_splits)
  ultimately show "build_ok E db' \<and> all_active db' \<and> actives db' = actives db \<and>
      (\<forall>e. res = Inr e \<longrightarrow> e \<in> set (bd_envs db') \<and> ev_key e = ne_key n)"
    using base_exact_ok [of E db n now db' res] by (simp add: base_store_def)
next
  fix db db' :: build_db and E e k now kind and bound :: "exn + unit"
  assume "build_ok E db" "all_active db" "e \<in> set (bd_envs db)" "serves E e k"
    "bs_bind base_store now k (ev_id e) kind db = (db', bound)"
  then show "build_ok E db' \<and> all_active db' \<and> actives db' = actives db \<and> bd_envs db' = bd_envs db"
    using insert_alias_ok [of E db e "ev_id e" k now kind db' bound] by (simp add: base_store_def all_active_def)
next
  fix db db' :: build_db and E now j i claimed
  assume a: "build_ok E db" "all_active db" "bs_claim base_store now j i db = (db', claimed)"
  then have c: "claim_where (\<lambda>_. True) now j i db = (db', claimed)" by (simp add: base_store_def base_claim_def)
  let ?f = "\<lambda>e. e\<lparr>ev_status := Building, ev_last_error := None, ev_updated := now\<rparr>"
  have "bd_envs db' = bd_envs db \<or> bd_envs db' = bd_envs (update_env (\<lambda>e. ev_id e = i \<and> ev_status e = Pending) ?f db)"
    using claim_envs [OF c] unfolding simp_thms .
  moreover have "all_active (update_env (\<lambda>e. ev_id e = i \<and> ev_status e = Pending) ?f db)"
    by (rule all_active_update [OF a(2)]) simp
  ultimately have "all_active db'" using a(2) unfolding all_active_def by (elim disjE) (simp_all only:)
  with claim_ok [OF a(1) c] a(2) show "build_ok E db' \<and> all_active db' \<and>
        (claimed = Inr (Some j) \<and> i \<notin> fst ` actives db \<and> actives db' = insert (i, j, Building) (actives db) \<or>
         (claimed = Inr None \<or> (\<exists>x. claimed = Inl x)) \<and> db' = db)"
    by (simp add: all_active_def)
qed (simp_all add: base_store_def all_active_update,
    auto simp: base_superset_def all_active_def dest: base_get_law smallest_in)

lemma lifecycle_exact_ok:
  assumes "build_ok E db" "env_key E (ne_spec n) = Inr (ne_key n)" "packages_of E (ne_spec n) = Inr (ne_packages n)"
    and "lifecycle_exact now n db = (db', res)"
  shows "build_ok E db' \<and> actives db' = actives db \<and> (\<forall>e. res = Inr e \<longrightarrow> e \<in> set (bd_envs db') \<and> ev_key e = ne_key n)"
proof -
  obtain db1 r where b: "base_exact now n db = (db1, r)" by fastforce
  note x = base_exact_ok [OF assms(1-3) b]
  show ?thesis
  proof (cases r)
    case (Inl e)
    with b x assms(4) show ?thesis by (auto simp: lifecycle_exact_def)
  next
    case (Inr row)
    with x have row: "row \<in> set (bd_envs db1)" "ev_key row = ne_key n" by auto
    obtain db2 r2 where t: "reactivate_retired now (ev_id row) db1 = (db2, r2)" by fastforce
    have y: "build_ok E db2 \<and> actives db2 = actives db1" using reactivate_ok [OF _ t] x by blast
    have "e \<in> set (bd_envs db2) \<and> ev_key e = ne_key n" if "r2 = Some e" for e
      using that t row env_at_iff [OF build_ok_ids row(1)] x
      by (auto simp: reactivate_retired_def update_where_def update_env_def set_sql_update split: if_splits)
    with assms(4) b Inr t x y show ?thesis
      by (auto simp: lifecycle_exact_def reactivate_exact_def split: lifecycle_state.splits option.splits)
  qed
qed

lemma lifecycle_get_law: "lifecycle_get_for_request k db = Some (e, a) \<Longrightarrow>
   base_get_for_request k db = Some (e, a) \<and> ev_lifecycle e = LActive"
  by (auto simp: lifecycle_get_for_request_def split: option.splits if_splits)

lemma lifecycle_claim_ok:
  "build_ok E db \<Longrightarrow> lifecycle_claim now j i db = (db', claimed) \<Longrightarrow> build_ok E db' \<and>
     (claimed = Inr (Some j) \<and> i \<notin> fst ` actives db \<and> actives db' = insert (i, j, Building) (actives db) \<or>
      (claimed = Inr None \<or> (\<exists>x. claimed = Inl x)) \<and> db' = db)"
  unfolding lifecycle_claim_def by (rule claim_ok) auto

lemma lifecycle_bind_ok:
  assumes "build_ok E db" "e \<in> set (bd_envs db)" "serves E e k" "lifecycle_bind now k (ev_id e) kind db = (db', bound)"
  shows "build_ok E db' \<and> actives db' = actives db \<and> bd_envs db' = bd_envs db"
  using assms insert_alias_ok [OF assms(1,2) refl assms(3)]
  by (auto simp: lifecycle_bind_def split: option.splits if_splits)

interpretation lifecycle_laws: build_store_laws lifecycle_store "\<lambda>_. True"
proof
  fix db db' :: build_db and E n now and res :: "exn + env_row"
  assume "build_ok E db" "env_key E (ne_spec n) = Inr (ne_key n)" "packages_of E (ne_spec n) = Inr (ne_packages n)"
    "bs_exact lifecycle_store now n db = (db', res)"
  then show "build_ok E db' \<and> True \<and> actives db' = actives db \<and>
      (\<forall>e. res = Inr e \<longrightarrow> e \<in> set (bd_envs db') \<and> ev_key e = ne_key n)"
    using lifecycle_exact_ok [of E db n now db' res] by (simp add: lifecycle_store_def)
next
  fix db db' :: build_db and E e k now kind and bound :: "exn + unit"
  assume "build_ok E db" "e \<in> set (bd_envs db)" "serves E e k" "bs_bind lifecycle_store now k (ev_id e) kind db = (db', bound)"
  then show "build_ok E db' \<and> True \<and> actives db' = actives db \<and> bd_envs db' = bd_envs db"
    using lifecycle_bind_ok [of E db e k now kind db' bound] by (simp add: lifecycle_store_def)
next
  fix db db' :: build_db and E now j i claimed
  assume "build_ok E db" "bs_claim lifecycle_store now j i db = (db', claimed)"
  then show "build_ok E db' \<and> True \<and>
        (claimed = Inr (Some j) \<and> i \<notin> fst ` actives db \<and> actives db' = insert (i, j, Building) (actives db) \<or>
         (claimed = Inr None \<or> (\<exists>x. claimed = Inl x)) \<and> db' = db)"
    using lifecycle_claim_ok [of E db now j i db' claimed] by (simp add: lifecycle_store_def)
qed (auto simp: lifecycle_store_def lifecycle_superset_def dest: lifecycle_get_law base_get_law smallest_in)

text \<open>
  The build service with many requests at once: every transaction is a step, a build is a thread that
  owns a job, the deletion of an image is a thread between its check and its last transaction, and a
  thread may vanish with its process.
\<close>

section \<open>Steps\<close>

record build_system =
  bx_db :: build_db
  bx_builders :: "nat \<Rightarrow> (string \<times> string) option"
  bx_deleting :: "nat \<Rightarrow> (string \<times> string) option"
  bx_deleted :: "string set"

text \<open>\<open>bx_deleted\<close> are the images Harbor has removed. With \<open>guarded\<close>, a retirement is not taken back once
  a deletion of its image was started, and a build never yields an image whose deletion was started.\<close>

definition deletion_started :: "build_system \<Rightarrow> string \<Rightarrow> bool" where
  "deletion_started X img \<longleftrightarrow> img \<in> bx_deleted X \<or> (\<exists>t i. bx_deleting X t = Some (i, img))"

definition cancel_allowed :: "build_system \<Rightarrow> string \<Rightarrow> bool" where
  "cancel_allowed X i \<longleftrightarrow>
     (case env_at i (bx_db X) of
        None \<Rightarrow> True
      | Some e \<Rightarrow> (case ev_image e of None \<Rightarrow> True | Some img \<Rightarrow> \<not> deletion_started X img))"

inductive build_step :: "bool \<Rightarrow> build_env \<Rightarrow> build_system \<Rightarrow> build_system \<Rightarrow> bool" for guarded E where
  exact: "env_key E (ne_spec n) = Inr (ne_key n) \<Longrightarrow> packages_of E (ne_spec n) = Inr (ne_packages n) \<Longrightarrow>
    base_exact now n (bx_db X) = (db, res) \<Longrightarrow> build_step guarded E X (X\<lparr>bx_db := db\<rparr>)"
| reactivate: "reactivate_retired now i (bx_db X) = (db, r) \<Longrightarrow> build_step guarded E X (X\<lparr>bx_db := db\<rparr>)"
| add_alias: "e \<in> set (bd_envs (bx_db X)) \<Longrightarrow> serves E e k \<Longrightarrow> insert_alias now k (ev_id e) kind (bx_db X) = (db, u) \<Longrightarrow>
    build_step guarded E X (X\<lparr>bx_db := db\<rparr>)"
| reset: "reset_failed now i (bx_db X) = (db, r) \<Longrightarrow> build_step guarded E X (X\<lparr>bx_db := db\<rparr>)"
| claim: "bx_builders X t = None \<Longrightarrow> lifecycle_claim now j i (bx_db X) = (db, Inr (Some j)) \<Longrightarrow>
    build_step guarded E X (X\<lparr>bx_db := db, bx_builders := (bx_builders X)(t \<mapsto> (i, j))\<rparr>)"
| verifying: "bx_builders X t = Some (i, j) \<Longrightarrow>
    build_step guarded E X (X\<lparr>bx_db := mark_verifying now i j (bx_db X)\<rparr>)"
| ready: "bx_builders X t = Some (i, j) \<Longrightarrow> mark_ready now i j img (bx_db X) = (db, Inr ()) \<Longrightarrow>
    (guarded \<Longrightarrow> \<not> deletion_started X img) \<Longrightarrow>
    build_step guarded E X (X\<lparr>bx_db := db, bx_builders := (bx_builders X)(t := None)\<rparr>)"
| failed: "bx_builders X t = Some (i, j) \<Longrightarrow>
    build_step guarded E X (X\<lparr>bx_db := mark_failed now i j m (bx_db X), bx_builders := (bx_builders X)(t := None)\<rparr>)"
| vanish: "build_step guarded E X (X\<lparr>bx_builders := (bx_builders X)(t := None), bx_deleting := (bx_deleting X)(t := None)\<rparr>)"
| begin_retirement: "build_begin_retirement now i (bx_db X) = (db, r) \<Longrightarrow> build_step guarded E X (X\<lparr>bx_db := db\<rparr>)"
| cancel_retirement: "build_cancel_retirement now i (bx_db X) = (db, r) \<Longrightarrow> (guarded \<Longrightarrow> cancel_allowed X i) \<Longrightarrow>
    build_step guarded E X (X\<lparr>bx_db := db\<rparr>)"
| check_deletion: "bx_deleting X t = None \<Longrightarrow> deletion_check i expected (bx_db X) = Inr (Some img) \<Longrightarrow>
    build_step guarded E X (X\<lparr>bx_deleting := (bx_deleting X)(t \<mapsto> (i, img))\<rparr>)"
| harbor_deletes: "bx_deleting X t = Some (i, img) \<Longrightarrow>
    build_step guarded E X (X\<lparr>bx_deleted := insert img (bx_deleted X)\<rparr>)"
| harbor_error: "bx_deleting X t = Some (i, img) \<Longrightarrow>
    build_step guarded E X (X\<lparr>bx_db := record_cleanup_error now i m (bx_db X), bx_deleting := (bx_deleting X)(t := None)\<rparr>)"
| finalize: "bx_deleting X t = Some (i, img) \<Longrightarrow> img \<in> bx_deleted X \<Longrightarrow>
    store_finalize_retirement now i (bx_db X) = (db, r) \<Longrightarrow>
    build_step guarded E X (X\<lparr>bx_db := db, bx_deleting := (bx_deleting X)(t := None)\<rparr>)"
| finalize_without_image: "deletion_check i expected (bx_db X) = Inr None \<Longrightarrow>
    store_finalize_retirement now i (bx_db X) = (db, r) \<Longrightarrow> build_step guarded E X (X\<lparr>bx_db := db\<rparr>)"

definition build_start :: build_system where
  "build_start = \<lparr>bx_db = build_db_init, bx_builders = (\<lambda>_. None), bx_deleting = (\<lambda>_. None), bx_deleted = {}\<rparr>"

definition build_reachable :: "bool \<Rightarrow> build_env \<Rightarrow> build_system \<Rightarrow> bool" where
  "build_reachable guarded E X \<longleftrightarrow> (build_step guarded E)\<^sup>*\<^sup>* build_start X"

section \<open>Builders and jobs\<close>

text \<open>Every build thread owns the active job of its environment.\<close>

definition builders_ok :: "build_system \<Rightarrow> bool" where
  "builders_ok X \<longleftrightarrow> (\<forall>t i j. bx_builders X t = Some (i, j) \<longrightarrow> (\<exists>s. (i, j, s) \<in> actives (bx_db X))) \<and>
     (\<forall>t u i j k. bx_builders X t = Some (i, j) \<longrightarrow> bx_builders X u = Some (i, k) \<longrightarrow> t = u)"

definition system_ok :: "build_env \<Rightarrow> build_system \<Rightarrow> bool" where
  "system_ok E X \<longleftrightarrow> build_ok E (bx_db X) \<and> builders_ok X"

lemma builders_same:
  "builders_ok X \<Longrightarrow> actives db = actives (bx_db X) \<Longrightarrow> builders_ok (X\<lparr>bx_db := db, bx_deleting := d\<rparr>)"
  by (simp add: builders_ok_def)

lemma begin_ok:
  assumes "build_ok E db" "build_begin_retirement now i db = (db', r)"
  shows "build_ok E db' \<and> actives db' = actives db"
  using assms store_begin_ok [OF assms(1)]
  by (auto simp: build_begin_retirement_def split: sum.splits if_splits option.splits prod.splits)

lemma cancel_ok:
  assumes "build_ok E db" "build_cancel_retirement now i db = (db', r)"
  shows "build_ok E db' \<and> actives db' = actives db"
  using assms store_cancel_ok [OF assms(1)]
  by (auto simp: build_cancel_retirement_def split: option.splits prod.splits)

text \<open>What a step does to the jobs: a claim adds one of an idle environment, a builder moves its own,
  nothing else.\<close>

lemma step_ok:
  assumes st: "build_step guarded E X X'" and ok: "system_ok E X"
  shows "system_ok E X'"
proof -
  have b: "build_ok E (bx_db X)" and th: "builders_ok X" using ok by (simp_all add: system_ok_def)
  have same: "system_ok E (X\<lparr>bx_db := db, bx_deleting := d\<rparr>)"
    if "build_ok E db \<and> actives db = actives (bx_db X)" for db d
    using that th builders_same by (simp add: system_ok_def)
  have own: "\<exists>s. holds_job i j s (bx_db X)" if "bx_builders X t = Some (i, j)" for t i j
    using th that by (auto simp: builders_ok_def holds_job_def)
  have others: "builders_ok (X\<lparr>bx_db := db, bx_builders := (bx_builders X)(t := None)\<rparr>)"
    if "bx_builders X t = Some (i, j)" "actives db = {x \<in> actives (bx_db X). fst x \<noteq> i}" for db t i j
    using that th by (fastforce simp: builders_ok_def)
  show ?thesis
    using st
  proof cases
    case (exact n now db res)
    with base_exact_ok [OF b exact(2,3,4)] same [of db "bx_deleting X"] show ?thesis by simp
  next
    case (reactivate now i db r)
    with reactivate_ok [OF b reactivate(2)] same [of db "bx_deleting X"] show ?thesis by simp
  next
    case (add_alias e k now kind db u)
    with insert_alias_ok [OF b add_alias(2) refl add_alias(3,4)] same [of db "bx_deleting X"] show ?thesis by simp
  next
    case (reset now i db r)
    with reset_failed_ok [OF b reset(2)] same [of db "bx_deleting X"] show ?thesis by simp
  next
    case (claim t now j i db)
    from lifecycle_claim_ok [OF b claim(3)] have c: "build_ok E db" "i \<notin> fst ` actives (bx_db X)"
      "actives db = insert (i, j, Building) (actives (bx_db X))" by auto
    have free: "bx_builders X u \<noteq> Some (i, k)" for u k
    proof
      assume "bx_builders X u = Some (i, k)"
      then obtain s where "(i, k, s) \<in> actives (bx_db X)" using th unfolding builders_ok_def by blast
      then have "i \<in> fst ` actives (bx_db X)" by (rule rev_image_eqI) simp
      with c(2) show False by simp
    qed
    have "builders_ok X'"
      using th free by (simp add: builders_ok_def claim(1) c(3)) blast
    with c(1) claim(1) show ?thesis by (simp add: system_ok_def)
  next
    case (verifying t i j now)
    from own [OF verifying(2)] obtain s where h: "holds_job i j s (bx_db X)" by blast
    note v = lifecycle_laws.mark_verifying_ok [OF b TrueI h, of now]
    have "\<exists>s. (i', j', s) \<in> {x \<in> actives (bx_db X). fst x \<noteq> i} \<union> {(i, j, Verifying)}"
      if u: "bx_builders X u = Some (i', j')" for u i' j'
    proof (cases "i' = i")
      case True
      then have "u = t" using th u verifying(2) unfolding builders_ok_def by blast
      then show ?thesis using u verifying(2) by simp
    next
      case False
      with th u show ?thesis unfolding builders_ok_def by auto
    qed
    then have "builders_ok X'" using th v verifying(1) by (simp add: builders_ok_def)
    with v verifying(1) show ?thesis by (simp add: system_ok_def)
  next
    case (ready t i j now img db)
    from own [OF ready(2)] obtain s where h: "holds_job i j s (bx_db X)" by blast
    from lifecycle_laws.mark_ready_ok [OF b TrueI h ready(3)] others [OF ready(2), of db] ready(1) show ?thesis
      by (auto simp: system_ok_def)
  next
    case (failed t i j now m)
    from own [OF failed(2)] obtain s where h: "holds_job i j s (bx_db X)" by blast
    from lifecycle_laws.mark_failed_ok [OF b TrueI h, of now m] others [OF failed(2)] failed(1) show ?thesis
      by (auto simp: system_ok_def)
  next
    case (vanish t)
    with ok show ?thesis by (auto simp: system_ok_def builders_ok_def)
  next
    case (begin_retirement now i db r)
    with begin_ok [OF b begin_retirement(2)] same [of db "bx_deleting X"] show ?thesis by simp
  next
    case (cancel_retirement now i db r)
    with cancel_ok [OF b cancel_retirement(2)] same [of db "bx_deleting X"] show ?thesis by simp
  next
    case (harbor_error t i img now m)
    with record_error_ok [OF b] same show ?thesis by simp
  next
    case (finalize t i img now db r)
    with store_finalize_ok [OF b finalize(4)] same show ?thesis by simp
  next
    case (finalize_without_image i expected now db r)
    with store_finalize_ok [OF b finalize_without_image(3)] same [of db "bx_deleting X"] show ?thesis by simp
  qed (use ok in \<open>auto simp: system_ok_def builders_ok_def\<close>)
qed

lemma steps_ok: "(build_step guarded E)\<^sup>*\<^sup>* X X' \<Longrightarrow> system_ok E X \<Longrightarrow> system_ok E X'"
  by (induction rule: rtranclp_induct) (auto intro: step_ok)

lemma build_reachable_ok: "build_reachable guarded E X \<Longrightarrow> system_ok E X"
  unfolding build_reachable_def
  by (erule steps_ok) (simp add: build_start_def system_ok_def build_ok_init builders_ok_def)

text \<open>A job without a thread stays.\<close>

lemma orphan_step:
  assumes st: "build_step guarded E X X'" and ok: "system_ok E X"
    and o: "(i, j, s) \<in> actives (bx_db X)" "\<And>t k. bx_builders X t \<noteq> Some (i, k)"
  shows "(i, j, s) \<in> actives (bx_db X') \<and> (\<forall>t k. bx_builders X' t \<noteq> Some (i, k))"
proof -
  have b: "build_ok E (bx_db X)" and th: "builders_ok X" using ok by (simp_all add: system_ok_def)
  have own: "\<exists>s. holds_job i j s (bx_db X)" if "bx_builders X t = Some (i, j)" for t i j
    using th that by (auto simp: builders_ok_def holds_job_def)
  show ?thesis
    using st
  proof cases
    case (exact n now db res)
    with base_exact_ok [OF b exact(2,3,4)] o show ?thesis by simp
  next
    case (reactivate now i db r)
    with reactivate_ok [OF b reactivate(2)] o show ?thesis by simp
  next
    case (add_alias e k now kind db u)
    with insert_alias_ok [OF b add_alias(2) refl add_alias(3,4)] o show ?thesis by simp
  next
    case (reset now i db r)
    with reset_failed_ok [OF b reset(2)] o show ?thesis by simp
  next
    case (claim t now j' i' db)
    from lifecycle_claim_ok [OF b claim(3)] have c: "i' \<notin> fst ` actives (bx_db X)"
      "actives db = insert (i', j', Building) (actives (bx_db X))" by auto
    then have "i' \<noteq> i" using o(1) by force
    with c o claim(1) show ?thesis by auto
  next
    case (verifying t i' j' now)
    from own [OF verifying(2)] obtain s where h: "holds_job i' j' s (bx_db X)" by blast
    have "i' \<noteq> i" using verifying(2) o(2) by blast
    with lifecycle_laws.mark_verifying_ok [OF b TrueI h, of now] o verifying(1) show ?thesis by auto
  next
    case (ready t i' j' now img db)
    from own [OF ready(2)] obtain s where h: "holds_job i' j' s (bx_db X)" by blast
    have "i' \<noteq> i" using ready(2) o(2) by blast
    with lifecycle_laws.mark_ready_ok [OF b TrueI h ready(3)] o ready(1) show ?thesis by auto
  next
    case (failed t i' j' now m)
    from own [OF failed(2)] obtain s where h: "holds_job i' j' s (bx_db X)" by blast
    have "i' \<noteq> i" using failed(2) o(2) by blast
    with lifecycle_laws.mark_failed_ok [OF b TrueI h, of now m] o failed(1) show ?thesis by auto
  next
    case (begin_retirement now i db r)
    with begin_ok [OF b begin_retirement(2)] o show ?thesis by simp
  next
    case (cancel_retirement now i db r)
    with cancel_ok [OF b cancel_retirement(2)] o show ?thesis by simp
  next
    case (harbor_error t i img now m)
    with record_error_ok [OF b] o show ?thesis by simp
  next
    case (finalize t i img now db r)
    with store_finalize_ok [OF b finalize(4)] o show ?thesis by simp
  next
    case (finalize_without_image i expected now db r)
    with store_finalize_ok [OF b finalize_without_image(3)] o show ?thesis by simp
  qed (use o in auto)
qed

lemma orphan_steps:
  assumes "(build_step guarded E)\<^sup>*\<^sup>* X X'" "system_ok E X"
    and "(i, j, s) \<in> actives (bx_db X)" "\<And>t k. bx_builders X t \<noteq> Some (i, k)"
  shows "(i, j, s) \<in> actives (bx_db X')"
proof -
  from assms(1) have "system_ok E X' \<and> (i, j, s) \<in> actives (bx_db X') \<and> (\<forall>t k. bx_builders X' t \<noteq> Some (i, k))"
    by (induction rule: rtranclp_induct) (use assms(2-4) step_ok orphan_step in \<open>blast+\<close>)
  then show ?thesis by blast
qed

end
