(* ===== verification/Build_Theorems.thy ===== *)
theory Build_Theorems
  imports Build_Laws
begin

text \<open>
  What the build steps guarantee: which images a request can get, that a resolve alone is a run of the
  steps, that an alias to a retiring environment blocks its request, and the lifecycle contract.
\<close>

section \<open>No active environment with a deleted image\<close>

definition images_ok :: "build_db \<Rightarrow> bool" where
  "images_ok db \<longleftrightarrow> (\<forall>e \<in> set (bd_envs db). \<forall>e' \<in> set (bd_envs db). \<forall>img.
     ev_image e = Some img \<longrightarrow> ev_image e' = Some img \<longrightarrow> ev_id e = ev_id e')"

definition deletion_safe :: "string set \<Rightarrow> build_db \<Rightarrow> bool" where
  "deletion_safe D db \<longleftrightarrow> (\<forall>e \<in> set (bd_envs db). \<forall>img. ev_image e = Some img \<longrightarrow> img \<in> D \<longrightarrow> ev_lifecycle e \<noteq> LActive)"

text \<open>An update that keeps or drops the image, and activates only rows without one.\<close>

definition keeps_images :: "(env_row \<Rightarrow> bool) \<Rightarrow> (env_row \<Rightarrow> env_row) \<Rightarrow> build_db \<Rightarrow> bool" where
  "keeps_images P f db \<longleftrightarrow> (\<forall>e \<in> set (bd_envs db). P e \<longrightarrow> ev_id (f e) = ev_id e \<and>
     (ev_image (f e) = None \<or> ev_image (f e) = ev_image e \<and> (ev_lifecycle (f e) = LActive \<longrightarrow> ev_lifecycle e = LActive)))"

lemma images_ok_from:
  assumes "images_ok db"
    and k: "\<And>x. x \<in> set (bd_envs db') \<Longrightarrow> ev_image x \<noteq> None \<Longrightarrow>
      \<exists>e \<in> set (bd_envs db). ev_id e = ev_id x \<and> ev_image e = ev_image x"
  shows "images_ok db'"
  unfolding images_ok_def
proof (intro ballI allI impI)
  fix e e' img
  assume x: "e \<in> set (bd_envs db')" "e' \<in> set (bd_envs db')" "ev_image e = Some img" "ev_image e' = Some img"
  obtain y where "y \<in> set (bd_envs db)" "ev_id y = ev_id e" "ev_image y = Some img" using k [OF x(1)] x(3) by auto
  moreover obtain y' where "y' \<in> set (bd_envs db)" "ev_id y' = ev_id e'" "ev_image y' = Some img" using k [OF x(2)] x(4) by auto
  ultimately show "ev_id e = ev_id e'" using assms(1) unfolding images_ok_def by metis
qed

lemma images_update:
  assumes "keeps_images P f db"
  shows "images_ok db \<Longrightarrow> images_ok (update_env P f db)" "deletion_safe D db \<Longrightarrow> deletion_safe D (update_env P f db)"
proof -
  have k: "\<exists>e \<in> set (bd_envs db). ev_id e = ev_id x \<and> ev_image e = ev_image x \<and> (ev_lifecycle x = LActive \<longrightarrow> ev_lifecycle e = LActive)"
    if x: "x \<in> set (bd_envs (update_env P f db))" "ev_image x \<noteq> None" for x
  proof -
    from x(1) obtain e where e: "e \<in> set (bd_envs db)" "x = (if P e then f e else e)" by (auto simp: update_env_def set_sql_update)
    then show ?thesis using assms x(2) by (intro bexI [of _ e]) (auto simp: keeps_images_def split: if_splits)
  qed
  then show "images_ok db \<Longrightarrow> images_ok (update_env P f db)" using images_ok_from [of db "update_env P f db"] by blast
  show "deletion_safe D (update_env P f db)" if s: "deletion_safe D db"
    unfolding deletion_safe_def
  proof (intro ballI allI impI)
    fix e img
    assume x: "e \<in> set (bd_envs (update_env P f db))" "ev_image e = Some img" "img \<in> D"
    obtain y where "y \<in> set (bd_envs db)" "ev_image y = Some img" "ev_lifecycle e = LActive \<longrightarrow> ev_lifecycle y = LActive"
      using k [OF x(1)] x(2) by auto
    with s x(3) show "ev_lifecycle e \<noteq> LActive" unfolding deletion_safe_def by blast
  qed
qed

lemma images_where:
  assumes "update_where i P f db = (db', r)" "keeps_images P f db" "images_ok db \<and> deletion_safe D db"
  shows "images_ok db' \<and> deletion_safe D db'"
proof -
  have "db' = update_env (\<lambda>e. ev_id e = i \<and> P e) f db" using assms(1) by (simp add: update_where_def)
  moreover have "keeps_images (\<lambda>e. ev_id e = i \<and> P e) f db" using assms(2) by (simp add: keeps_images_def)
  ultimately show ?thesis using images_update [of _ f db] assms(3) by simp
qed

lemma images_envs: "bd_envs db' = bd_envs db \<Longrightarrow> images_ok db' = images_ok db \<and> deletion_safe D db' = deletion_safe D db"
  by (simp add: images_ok_def deletion_safe_def)

definition images_safe :: "build_system \<Rightarrow> bool" where
  "images_safe X \<longleftrightarrow> images_ok (bx_db X) \<and> deletion_safe {img. deletion_started X img} (bx_db X)"

lemma deletion_safe_mono: "deletion_safe D db \<Longrightarrow> D' \<subseteq> D \<Longrightarrow> deletion_safe D' db"
  unfolding deletion_safe_def by blast

lemma started_simps:
  "deletion_started (X\<lparr>bx_db := db\<rparr>) img = deletion_started X img"
  "deletion_started (X\<lparr>bx_db := db, bx_builders := b\<rparr>) img = deletion_started X img"
  by (simp_all add: deletion_started_def)

lemma started_less:
  "deletion_started (X\<lparr>bx_db := db, bx_deleting := (bx_deleting X)(t := None)\<rparr>) img \<Longrightarrow> deletion_started X img"
  "deletion_started (X\<lparr>bx_builders := b, bx_deleting := (bx_deleting X)(t := None)\<rparr>) img \<Longrightarrow> deletion_started X img"
  by (auto simp: deletion_started_def split: if_splits)

lemma images_safe_db:
  "images_safe X \<Longrightarrow> images_ok db \<and> deletion_safe {img. deletion_started X img} db \<Longrightarrow> images_safe (X\<lparr>bx_db := db\<rparr>)"
  by (simp add: images_safe_def started_simps)

lemma images_safe_deleting:
  assumes "images_ok db \<and> deletion_safe {img. deletion_started X img} db"
  shows "images_safe (X\<lparr>bx_db := db, bx_deleting := (bx_deleting X)(t := None)\<rparr>)"
proof -
  let ?X = "X\<lparr>bx_db := db, bx_deleting := (bx_deleting X)(t := None)\<rparr>"
  have "{img. deletion_started ?X img} \<subseteq> {img. deletion_started X img}" using started_less(1) by blast
  with assms have "deletion_safe {img. deletion_started ?X img} db" by (blast intro: deletion_safe_mono)
  with assms show ?thesis by (simp add: images_safe_def)
qed

lemma images_exact:
  assumes "base_exact now n db = (db', r)" "images_ok db \<and> deletion_safe D db"
  shows "images_ok db' \<and> deletion_safe D db'"
proof -
  have s: "set (bd_envs db') \<subseteq> insert (new_env_row now n) (set (bd_envs db))"
    using assms(1) by (auto simp: base_exact_def split: option.splits if_splits)
  have old: "x \<in> set (bd_envs db)" if "x \<in> set (bd_envs db')" "ev_image x \<noteq> None" for x
    using s that by (auto simp: new_env_row_def)
  then show ?thesis using assms(2) images_ok_from [of db db'] unfolding deletion_safe_def by blast
qed

lemma images_claim:
  assumes "claim_where P now j i db = (db', r)" "images_ok db \<and> deletion_safe D db"
  shows "images_ok db' \<and> deletion_safe D db'"
proof -
  let ?P = "\<lambda>e. ev_id e = i \<and> ev_status e = Pending \<and> P e" and
    ?f = "\<lambda>e. e\<lparr>ev_status := Building, ev_last_error := None, ev_updated := now\<rparr>"
  have "keeps_images ?P ?f db" by (simp add: keeps_images_def)
  from images_update [OF this] assms(2) have u: "images_ok (update_env ?P ?f db) \<and> deletion_safe D (update_env ?P ?f db)" by blast
  from claim_envs [OF assms(1)] show ?thesis
    using images_envs [of db' db D] images_envs [of db' "update_env ?P ?f db" D] u assms(2) by (elim disjE) simp_all
qed

lemma images_finalize:
  assumes "store_finalize_retirement now i db = (db', r)" "images_ok db \<and> deletion_safe D db"
  shows "images_ok db' \<and> deletion_safe D db'"
proof -
  let ?db = "db\<lparr>bd_aliases := sql_delete (\<lambda>a. al_env a = i) (bd_aliases db)\<rparr>"
  have "images_ok ?db \<and> deletion_safe D ?db" using assms(2) images_envs [of ?db db D] by simp
  then show ?thesis
    by (rule images_where [OF assms(1) [unfolded store_finalize_retirement_def], rotated]) (simp add: keeps_images_def)
qed

lemma images_begin:
  assumes "build_begin_retirement now i db = (db', r)" "images_ok db \<and> deletion_safe D db"
  shows "images_ok db' \<and> deletion_safe D db'"
proof -
  have "images_ok d \<and> deletion_safe D d" if "store_begin_retirement now i db = (d, x)" for d x
    by (rule images_where [OF that [unfolded store_begin_retirement_def] _ assms(2)]) (simp add: keeps_images_def)
  with assms show ?thesis
    by (auto simp: build_begin_retirement_def split: sum.splits if_splits option.splits prod.splits)
qed

lemma update_by_id:
  "distinct (map ev_id (bd_envs db)) \<Longrightarrow> env_at i db = Some e \<Longrightarrow>
   {x \<in> set (bd_envs db). ev_id x = i} = {e}"
  using env_at_in [of i db e] by (auto simp: distinct_map inj_on_def)

lemma images_cancel:
  assumes "build_cancel_retirement now i db = (db', r)" "images_ok db \<and> deletion_safe D db"
    and ids: "distinct (map ev_id (bd_envs db))"
    and allowed: "\<And>e img. env_at i db = Some e \<Longrightarrow> ev_image e = Some img \<Longrightarrow> img \<notin> D"
  shows "images_ok db' \<and> deletion_safe D db'"
proof -
  let ?f = "\<lambda>e. e\<lparr>ev_lifecycle := LActive, ev_cleanup_error := None, ev_updated := now\<rparr>"
  let ?db = "update_env (\<lambda>e. ev_id e = i \<and> ev_lifecycle e = LRetiring) ?f db"
  have "db' = fst (store_cancel_retirement now i db)"
    using assms(1) by (auto simp: build_cancel_retirement_def split: prod.splits option.splits)
  then have db': "db' = ?db" by (simp add: store_cancel_retirement_def update_where_def)
  have "\<exists>e \<in> set (bd_envs db). ev_id e = ev_id x \<and> ev_image e = ev_image x" if "x \<in> set (bd_envs ?db)" for x
  proof -
    from that obtain e where e: "e \<in> set (bd_envs db)" "x = (if ev_id e = i \<and> ev_lifecycle e = LRetiring then ?f e else e)"
      by (auto simp: update_env_def set_sql_update)
    then show ?thesis by (intro bexI [of _ e]) auto
  qed
  then have "images_ok ?db" using images_ok_from [of db ?db] assms(2) by blast
  moreover have "ev_lifecycle x \<noteq> LActive" if x: "x \<in> set (bd_envs ?db)" "ev_image x = Some img" "img \<in> D" for x img
  proof -
    from x(1) obtain e where e: "e \<in> set (bd_envs db)" "x = (if ev_id e = i \<and> ev_lifecycle e = LRetiring then ?f e else e)"
      by (auto simp: update_env_def set_sql_update)
    have "ev_image e = Some img" using e(2) x(2) by (simp split: if_splits)
    moreover have "ev_id e \<noteq> i" using allowed [of e img] env_at_iff [OF ids e(1)] x(3) calculation by auto
    ultimately show ?thesis using e assms(2) x(3) by (auto simp: deletion_safe_def)
  qed
  ultimately show ?thesis by (simp add: db' deletion_safe_def)
qed

lemma images_ready:
  assumes "mark_ready now i j img db = (db', Inr ())" "images_ok db \<and> deletion_safe D db" "img \<notin> D"
  shows "images_ok db' \<and> deletion_safe D db'"
proof -
  let ?f = "\<lambda>e. e\<lparr>ev_status := Ready, ev_image := Some img, ev_last_error := None, ev_updated := now\<rparr>"
  have e: "bd_envs db' = sql_update (\<lambda>e. ev_id e = i) ?f (bd_envs db)"
    and u: "env_at i db = None \<or> (\<forall>e \<in> set (bd_envs db). ev_image e = Some img \<longrightarrow> ev_id e = i)"
    using assms(1) by (auto simp: mark_ready_def update_job_def update_env_def list_ex_iff split: if_splits)
  show ?thesis
  proof (cases "env_at i db")
    case None
    then have "sql_update (\<lambda>e. ev_id e = i) ?f (bd_envs db) = bd_envs db"
      unfolding sql_update_def by (intro map_idI) (auto simp: env_at_None)
    with e assms(2) images_envs [of db' db D] show ?thesis by simp
  next
    case (Some e0)
    with u have u: "ev_image e = Some img \<Longrightarrow> e \<in> set (bd_envs db) \<Longrightarrow> ev_id e = i" for e by auto
    have x: "(ev_id e = i \<and> ev_image e = Some img) \<or> (e \<in> set (bd_envs db) \<and> ev_id e \<noteq> i)" if y: "e \<in> set (bd_envs db')" for e
    proof -
      from y obtain e1 where "e1 \<in> set (bd_envs db)" "e = (if ev_id e1 = i then ?f e1 else e1)"
        by (auto simp: e set_sql_update)
      then show ?thesis by (cases "ev_id e1 = i") simp_all
    qed
    have "images_ok db'" unfolding images_ok_def
    proof (intro ballI allI impI)
      fix e e' m
      assume a: "e \<in> set (bd_envs db')" "e' \<in> set (bd_envs db')" "ev_image e = Some m" "ev_image e' = Some m"
      show "ev_id e = ev_id e'"
      proof (cases "m = img")
        case True
        with x [OF a(1)] x [OF a(2)] a(3,4) u [of e] u [of e'] show ?thesis by auto
      next
        case False
        with x [OF a(1)] x [OF a(2)] a(3,4) have "e \<in> set (bd_envs db)" "e' \<in> set (bd_envs db)" by auto
        with assms(2) a(3,4) show ?thesis unfolding images_ok_def by blast
      qed
    qed
    moreover have "deletion_safe D db'"
      unfolding deletion_safe_def
    proof (intro ballI allI impI)
      fix e m
      assume a: "e \<in> set (bd_envs db')" "ev_image e = Some m" "m \<in> D"
      with x [OF a(1)] assms(3) have "e \<in> set (bd_envs db)" by auto
      with a assms(2) show "ev_lifecycle e \<noteq> LActive" unfolding deletion_safe_def by blast
    qed
    ultimately show ?thesis by simp
  qed
qed

lemma images_step:
  assumes st: "build_step True E X X'" and ok: "system_ok E X" and s: "images_safe X"
  shows "images_safe X'"
proof -
  let ?D = "{img. deletion_started X img}"
  have s': "images_ok (bx_db X) \<and> deletion_safe ?D (bx_db X)" using s by (simp add: images_safe_def)
  have ids: "distinct (map ev_id (bd_envs (bx_db X)))" using ok build_ok_ids by (auto simp: system_ok_def)
  have mark: "images_ok (update_job j g (update_env P f (bx_db X))) \<and> deletion_safe ?D (update_job j g (update_env P f (bx_db X)))"
    if "keeps_images P f (bx_db X)" for j g P f
    using images_update [OF that] s' images_envs [of "update_job j g (update_env P f (bx_db X))" "update_env P f (bx_db X)" ?D]
    by (simp add: update_job_def)
  have builders: "images_safe (X\<lparr>bx_db := db, bx_builders := b\<rparr>)" if "images_ok db \<and> deletion_safe ?D db" for db b
    using that by (simp add: images_safe_def started_simps)
  show ?thesis
    using st
  proof cases
    case (exact n now db res)
    with images_exact [OF exact(4) s'] images_safe_db [OF s] show ?thesis by simp
  next
    case (reactivate now i db r)
    have "images_ok db \<and> deletion_safe ?D db"
      by (rule images_where [OF reactivate(2) [unfolded reactivate_retired_def] _ s']) (simp add: keeps_images_def)
    with reactivate images_safe_db [OF s] show ?thesis by simp
  next
    case (add_alias e k now kind db u)
    then have "bd_envs db = bd_envs (bx_db X)" by (auto simp: insert_alias_def split: if_splits)
    from images_envs [OF this, of ?D] s' add_alias(1) images_safe_db [OF s] show ?thesis by simp
  next
    case (reset now i db r)
    have "images_ok db \<and> deletion_safe ?D db"
      by (rule images_where [OF reset(2) [unfolded reset_failed_def] _ s']) (simp add: keeps_images_def)
    with reset images_safe_db [OF s] show ?thesis by simp
  next
    case (claim t now j i db)
    with images_claim [OF claim(3) [unfolded lifecycle_claim_def] s'] builders show ?thesis by simp
  next
    case (verifying t i j now)
    with mark [of "\<lambda>e. ev_id e = i"] images_safe_db [OF s] show ?thesis by (simp add: mark_verifying_def keeps_images_def)
  next
    case (ready t i j now img db)
    with images_ready [OF ready(3) s'] builders show ?thesis by simp
  next
    case (failed t i j now m)
    with mark [of "\<lambda>e. ev_id e = i"] builders show ?thesis by (simp add: mark_failed_def Let_def keeps_images_def)
  next
    case (vanish t)
    have "{img. deletion_started X' img} \<subseteq> ?D" unfolding vanish using started_less(2) by blast
    with s' show ?thesis by (auto simp: vanish images_safe_def intro: deletion_safe_mono)
  next
    case (begin_retirement now i db r)
    with images_begin [OF begin_retirement(2) s'] images_safe_db [OF s] show ?thesis by simp
  next
    case (cancel_retirement now i db r)
    have "images_ok db \<and> deletion_safe ?D db"
      by (rule images_cancel [OF cancel_retirement(2) s' ids]) (use cancel_retirement(3) in \<open>auto simp: cancel_allowed_def\<close>)
    with cancel_retirement images_safe_db [OF s] show ?thesis by simp
  next
    case (check_deletion t i expected img)
    then obtain e where e: "env_at i (bx_db X) = Some e" "ev_lifecycle e = LRetiring" "ev_image e = Some img"
      by (auto simp: deletion_check_def build_plan_def split: option.splits if_splits sum.splits)
    have d: "{img. deletion_started X' img} \<subseteq> insert img ?D"
      using check_deletion(1) by (auto simp: deletion_started_def split: if_splits)
    have "ev_lifecycle x \<noteq> LActive" if "x \<in> set (bd_envs (bx_db X))" "ev_image x = Some img" for x
    proof -
      have "ev_id x = ev_id e" using s' that e env_at_in [OF e(1)] unfolding images_ok_def by blast
      then have "x = e" using that env_at_in [OF e(1)] ids by (auto simp: distinct_map inj_on_def)
      with e show ?thesis by simp
    qed
    with s' have "deletion_safe (insert img ?D) (bx_db X)" unfolding deletion_safe_def by blast
    from deletion_safe_mono [OF this d] s' show ?thesis by (simp add: images_safe_def check_deletion(1))
  next
    case (harbor_deletes t i img)
    then have "{img. deletion_started X' img} = ?D" by (auto simp: deletion_started_def)
    with s' harbor_deletes show ?thesis by (simp add: images_safe_def)
  next
    case (harbor_error t i img now m)
    have "images_ok (record_cleanup_error now i m (bx_db X)) \<and> deletion_safe ?D (record_cleanup_error now i m (bx_db X))"
      unfolding record_cleanup_error_def
      by (intro conjI images_update) (use s' in \<open>auto simp: keeps_images_def\<close>)
    with images_safe_deleting harbor_error show ?thesis by simp
  next
    case (finalize t i img now db r)
    with images_finalize [OF finalize(4) s'] images_safe_deleting show ?thesis by simp
  next
    case (finalize_without_image i expected now db r)
    with images_finalize [OF finalize_without_image(3) s'] images_safe_db [OF s] show ?thesis by simp
  qed
qed

lemma guarded_images_safe: "build_reachable True E X \<Longrightarrow> images_safe X"
proof -
  have "(build_step True E)\<^sup>*\<^sup>* build_start X \<Longrightarrow> system_ok E X \<and> images_safe X"
  proof (induction rule: rtranclp_induct)
    case base
    show ?case
      by (simp add: system_ok_def build_start_def build_ok_init builders_ok_def images_safe_def images_ok_def
          deletion_safe_def) (simp add: build_db_init_def)
  next
    case (step Y Z)
    then show ?case using step_ok images_step by blast
  qed
  then show "build_reachable True E X \<Longrightarrow> images_safe X" by (simp add: build_reachable_def)
qed

section \<open>An alias to a retiring environment\<close>

lemma store_simps:
  "bs_get_for_request lifecycle_store = lifecycle_get_for_request" "bs_superset lifecycle_store = lifecycle_superset"
  "bs_exact lifecycle_store = lifecycle_exact" "bs_bind lifecycle_store = lifecycle_bind"
  "bs_claim lifecycle_store = lifecycle_claim"
  by (simp_all add: lifecycle_store_def)

definition blocked_alias :: "string \<Rightarrow> build_db \<Rightarrow> bool" where
  "blocked_alias k db \<longleftrightarrow> (\<exists>a e. alias_at k db = Some a \<and> env_at (al_env a) db = Some e \<and> ev_lifecycle e = LRetiring)"

lemma env_at_update:
  "(\<And>e. P e \<Longrightarrow> ev_id (f e) = ev_id e) \<Longrightarrow> env_at i (update_env P f db) = map_option (\<lambda>e. if P e then f e else e) (env_at i db)"
  unfolding env_at_def update_env_def by (simp add: find_sql_update)

lemma blocked_none: "blocked_alias k db \<Longrightarrow> bs_get_for_request lifecycle_store k db = None"
  by (auto simp: blocked_alias_def store_simps lifecycle_get_for_request_def base_get_for_request_def)

lemma blocked_update:
  assumes "blocked_alias k db" "\<And>e. P e \<Longrightarrow> ev_id (f e) = ev_id e"
    and "\<And>e. P e \<Longrightarrow> ev_lifecycle e = LRetiring \<Longrightarrow> ev_lifecycle (f e) = LRetiring"
  shows "blocked_alias k (update_env P f db)"
proof -
  from assms(1) obtain a e where ae: "alias_at k db = Some a" "env_at (al_env a) db = Some e" "ev_lifecycle e = LRetiring"
    by (auto simp: blocked_alias_def)
  have "alias_at k (update_env P f db) = Some a" using ae(1) by (simp add: alias_at_def update_env_def)
  with ae assms(3) env_at_update [of P f "al_env a" db, OF assms(2)] show ?thesis by (auto simp: blocked_alias_def)
qed

lemma blocked_jobs: "blocked_alias k (db\<lparr>bd_jobs := js\<rparr>) = blocked_alias k db" "blocked_alias k (update_job j g db) = blocked_alias k db"
  by (simp_all add: blocked_alias_def alias_at_def env_at_def update_job_def)

lemma blocked_where:
  assumes "blocked_alias k db" "update_where i P f db = (db', r)" "\<And>e. ev_id (f e) = ev_id e"
    and "\<And>e. P e \<Longrightarrow> ev_lifecycle e = LRetiring \<Longrightarrow> ev_lifecycle (f e) = LRetiring"
  shows "blocked_alias k db'"
proof -
  have "db' = update_env (\<lambda>e. ev_id e = i \<and> P e) f db" using assms(2) by (simp add: update_where_def)
  with blocked_update [OF assms(1), of "\<lambda>e. ev_id e = i \<and> P e" f] assms(3,4) show ?thesis by simp
qed

lemma blocked_claimed:
  assumes "blocked_alias k db" "build_claimed T C now env job spec packages db = (db', st)"
  shows "blocked_alias k db'"
proof -
  have v: "blocked_alias k (mark_verifying now i j d)" "blocked_alias k (mark_failed now i j m d)" if "blocked_alias k d" for i j m d
    using blocked_update [OF that] by (simp_all add: mark_verifying_def mark_failed_def blocked_jobs Let_def)
  have r: "blocked_alias k d'" if "blocked_alias k d" "mark_ready now i j img d = (d', x)" for i j img d d' x
    using that blocked_update [OF that(1)] by (auto simp: mark_ready_def blocked_jobs split: if_splits)
  obtain d s x where a: "build_attempt T C now env job spec packages db = (d, s, x)" by (metis prod_cases3)
  have "blocked_alias k d"
    using a assms(1) v(1) r by (fastforce simp: build_attempt_def Let_def split: sum.splits prod.splits)
  with a assms(2) v(2) show ?thesis by (auto simp: build_claimed_def split: sum.splits)
qed

lemma blocked_build:
  assumes "blocked_alias k db" "build_env_row E lifecycle_store T C now job key env spec db = (db', st, res)"
  shows "blocked_alias k db'"
proof -
  obtain db1 r where c: "lifecycle_claim now job (ev_id env) db = (db1, r)" by fastforce
  have b1: "blocked_alias k db1"
    using c assms(1) unfolding lifecycle_claim_def claim_where_def
    by (auto simp: blocked_jobs dest: blocked_where [OF assms(1)] split: option.splits prod.splits)
  with assms(2) c show ?thesis
    by (auto simp: build_env_row_def store_simps split: sum.splits option.splits prod.splits dest: blocked_claimed)
qed

lemma blocked_resolve:
  assumes b: "blocked_alias k db" and k: "env_key E spec = Inr k"
    and run: "resolve_spec E lifecycle_store T C now env_id job spec db = (db', st, res)"
  shows "blocked_alias k db'"
proof -
  have none: "bs_get_for_request lifecycle_store k db = None" by (rule blocked_none [OF b])
  have bind: "blocked_alias k d'" if "blocked_alias k d" "lifecycle_bind now k i kind d = (d', x)" for d d' i kind x
    using that by (auto simp: lifecycle_bind_def insert_alias_def blocked_alias_def split: option.splits if_splits)
  have exact: "blocked_alias k d'" if "blocked_alias k d" "lifecycle_exact now n d = (d', x)" for d d' n x
  proof -
    obtain d1 y where d1: "base_exact now n d = (d1, y)" by fastforce
    have "blocked_alias k d1" using that(1) d1
      by (auto simp: base_exact_def blocked_alias_def alias_at_def env_at_def split: option.splits if_splits)
    then have "blocked_alias k (fst (reactivate_retired now i d1))" for i
      using blocked_where [of k d1 i "\<lambda>e. ev_lifecycle e = LRetired"] by (auto simp: reactivate_retired_def update_where_def)
    with \<open>blocked_alias k d1\<close> that(2) d1 show ?thesis
      by (auto simp: lifecycle_exact_def reactivate_exact_def split: sum.splits lifecycle_state.splits option.splits prod.splits)
        (metis fst_conv)+
  qed
  have ex: "blocked_alias k d'" if r: "resolve_exact E lifecycle_store T C now env_id job k spec packages db = (d', s, x)"
    for d' s x packages
  proof -
    let ?n = "\<lparr>ne_id = env_id, ne_key = k, ne_spec = spec, ne_lock_sha256 = lock_sha256 E spec, ne_packages = packages\<rparr>"
    obtain d1 y where d1: "lifecycle_exact now ?n db = (d1, y)" by fastforce
    note b1 = exact [OF b d1]
    show ?thesis
    proof (cases y)
      case (Inl e)
      with r d1 b1 show ?thesis by (simp add: resolve_exact_def store_simps)
    next
      case (Inr env)
      obtain d2 z where d2: "lifecycle_bind now k (ev_id env) Exact d1 = (d2, z)" by fastforce
      note b2 = bind [OF b1 d2]
      have "d' = d2 \<or> (\<exists>u v. build_env_row E lifecycle_store T C now job k env spec d2 = (d', u, v))"
        using r d1 d2 Inr by (auto simp: resolve_exact_def store_simps split: sum.splits if_splits)
      with b2 show ?thesis using blocked_build by blast
    qed
  qed
  have new: "blocked_alias k d'" if r: "resolve_new E lifecycle_store T C now env_id job k spec packages db = (d', s, x)"
    for d' s x packages
  proof (cases "if bc_reuse C then bs_superset lifecycle_store spec packages db else None")
    case None
    with r ex show ?thesis by (simp add: resolve_new_def)
  next
    case (Some c)
    obtain d1 z where d1: "lifecycle_bind now k (ev_id c) Superset db = (d1, z)" by fastforce
    with bind [OF b d1] Some r show ?thesis by (auto simp: resolve_new_def store_simps split: sum.splits)
  qed
  show ?thesis
  proof (cases "packages_of E spec")
    case (Inl e)
    with run k b show ?thesis by (simp add: resolve_spec_def)
  next
    case (Inr packages)
    obtain d s x where n: "resolve_new E lifecycle_store T C now env_id job k spec packages db = (d, s, x)" by (metis prod_cases3)
    from new [OF n] run k none n Inr show ?thesis by (simp add: resolve_spec_def with_stages_def)
  qed
qed

lemma resolve_result:
  "resolve_spec E S T C now env_id job spec db = (db', st, Inr (Some v)) \<Longrightarrow> env_key E spec = Inr k \<Longrightarrow>
   bs_get_for_request S k db \<noteq> None \<or> bs_get_for_request S k db' = Some v"
  by (auto simp: resolve_spec_def resolve_new_def resolve_exact_def build_env_row_def with_stages_def
      split: sum.splits option.splits prod.splits if_splits)

section \<open>The lifecycle contract\<close>

definition env_state :: "build_db \<Rightarrow> string \<Rightarrow> lc_state option" where
  "env_state db i =
     (case env_at i db of
        None \<Rightarrow> None
      | Some e \<Rightarrow> (case ev_lifecycle e of LActive \<Rightarrow> None | LRetiring \<Rightarrow> Some Retiring | LRetired \<Rightarrow> Some Retired))"

definition build_retire_op :: "int \<times> string \<times> string \<Rightarrow> build_db \<Rightarrow> build_db" where
  "build_retire_op r db = fst (build_begin_retirement (fst r) (fst (snd r)) db)"

definition build_reopen_op :: "int \<times> string \<times> string \<Rightarrow> build_db \<Rightarrow> build_db" where
  "build_reopen_op r db = fst (build_cancel_retirement (fst r) (fst (snd r)) db)"

definition build_finish_op :: "build_env \<Rightarrow> harbor option \<Rightarrow> int \<times> string \<times> string \<Rightarrow> build_db \<Rightarrow> build_db" where
  "build_finish_op E H r db = fst (delete_artifact E H (fst r) (fst (snd r)) (snd (snd r)) db)"

lemma env_state_where:
  assumes "update_where i P f db = (db', r)" "\<And>e. ev_id (f e) = ev_id e"
  shows "env_at k db' = map_option (\<lambda>e. if ev_id e = i \<and> P e then f e else e) (env_at k db)"
proof -
  have "db' = update_env (\<lambda>e. ev_id e = i \<and> P e) f db" using assms(1) by (simp add: update_where_def)
  with env_at_update [of "\<lambda>e. ev_id e = i \<and> P e" f] assms(2) show ?thesis by simp
qed

lemma env_at_id: "env_at k db = Some e \<Longrightarrow> ev_id e = k"
  by (simp add: env_at_in)

interpretation build_lifecycle: retirement "build_ok E" env_state "\<lambda>r. fst (snd r)" build_retire_op build_reopen_op
  "build_finish_op E H" for E H
proof
  fix db k and r :: "int \<times> string \<times> string"
  assume ok: "build_ok E db"
  obtain now i x where r: "r = (now, i, x)" by (metis prod_cases3)
  obtain db1 b where b: "build_begin_retirement now i db = (db1, b)" by fastforce
  from begin_ok [OF ok b] b show "build_ok E (build_retire_op r db)" by (simp add: build_retire_op_def r)
  obtain s sr where s: "store_begin_retirement now i db = (s, sr)" by fastforce
  have "db1 = db \<or> db1 = s"
    using b s by (auto simp: build_begin_retirement_def split: sum.splits if_splits option.splits)
  moreover have "env_state s k = env_state db k \<or> k = i \<and> env_state db k = None \<and> env_state s k = Some Retiring"
    using env_state_where [OF s [unfolded store_begin_retirement_def], of k]
    by (auto simp: env_state_def dest: env_at_id split: option.splits)
  ultimately show "env_state (build_retire_op r db) k = env_state db k \<or>
      k = fst (snd r) \<and> env_state db k = None \<and> env_state (build_retire_op r db) k = Some Retiring"
    using b by (auto simp: build_retire_op_def r)
  obtain db2 c where c: "build_cancel_retirement now i db = (db2, c)" by fastforce
  from cancel_ok [OF ok c] c show "build_ok E (build_reopen_op r db)" by (simp add: build_reopen_op_def r)
  obtain s sr where s: "store_cancel_retirement now i db = (s, sr)" by fastforce
  have "db2 = s" using c s by (auto simp: build_cancel_retirement_def split: option.splits)
  moreover have "env_state s k = env_state db k \<or> k = i \<and> env_state db k = Some Retiring \<and> env_state s k = None"
    using env_state_where [OF s [unfolded store_cancel_retirement_def], of k]
    by (auto simp: env_state_def dest: env_at_id split: option.splits)
  ultimately show "env_state (build_reopen_op r db) k = env_state db k \<or>
      k = fst (snd r) \<and> env_state db k = Some Retiring \<and> env_state (build_reopen_op r db) k = None"
    using c by (auto simp: build_reopen_op_def r)
  obtain s sr where s: "store_finalize_retirement now i db = (s, sr)" by fastforce
  let ?d = "fst (delete_artifact E H now i x db)"
  have d: "?d = db \<or> ?d = s \<or> (\<exists>m. ?d = record_cleanup_error now i m db)"
    using s by (auto simp: delete_artifact_def split: sum.splits option.splits)
  with ok store_finalize_ok [OF ok s] record_error_ok [OF ok] have "build_ok E ?d" by auto
  then show "build_ok E (build_finish_op E H r db)" by (simp add: build_finish_op_def r)
  have "env_state s k = env_state db k \<or> k = i \<and> env_state db k \<noteq> None \<and> env_state s k = Some Retired"
    using env_state_where [OF s [unfolded store_finalize_retirement_def], of k]
    by (auto simp: env_state_def env_at_def dest: find_SomeD split: option.splits)
  moreover have "env_state (record_cleanup_error now i m db) k = env_state db k" for m
    unfolding record_cleanup_error_def env_state_def
    by (subst env_at_update) (auto split: option.splits lifecycle_state.splits)
  ultimately show "env_state (build_finish_op E H r db) k = env_state db k \<or>
      k = fst (snd r) \<and> env_state db k \<noteq> None \<and> env_state (build_finish_op E H r db) k = Some Retired"
    using d by (auto simp: build_finish_op_def r)
qed

end
