(* ===== verification/Build_Examples.thy ===== *)
theory Build_Examples
  imports Build_Theorems
begin

text \<open>
  A resolve of \<open>LifecycleBuildService\<close> for one request is a run of the build steps: the sequential
  function refines the transition system whose invariants hold under any interleaving.
\<close>

abbreviation build_steps :: "build_env \<Rightarrow> build_system \<Rightarrow> build_system \<Rightarrow> bool" where
  "build_steps E \<equiv> (build_step False E)\<^sup>*\<^sup>*"

abbreviation at_db :: "build_system \<Rightarrow> build_db \<Rightarrow> build_system" where
  "at_db X db \<equiv> X\<lparr>bx_db := db\<rparr>"

abbreviation at_job :: "build_system \<Rightarrow> build_db \<Rightarrow> nat \<Rightarrow> (string \<times> string) option \<Rightarrow> build_system" where
  "at_job X db t b \<equiv> X\<lparr>bx_db := db, bx_builders := (bx_builders X)(t := b)\<rparr>"

lemma one: "build_step False E X Y \<Longrightarrow> build_steps E Y Z \<Longrightarrow> build_steps E X Z"
  by (rule converse_rtranclp_into_rtranclp)

lemma failed_step: "build_steps E (at_job X db t (Some (i, j))) (at_job X (mark_failed now i j m db) t None)"
  using build_step.failed [of "at_job X db t (Some (i, j))" t i j False E now m] by auto

lemma verifying_step: "build_step False E (at_job X db t (Some (i, j))) (at_job X (mark_verifying now i j db) t (Some (i, j)))"
  using build_step.verifying [of "at_job X db t (Some (i, j))" t i j False E now] by (cases X) simp

lemma build_claimed_steps:
  assumes "build_claimed T C now env j spec packages db = (db', st)"
  shows "build_steps E (at_job X db t (Some (ev_id env, j))) (at_job X db' t None)"
proof (cases "build_runtime_image T spec (bc_repo C) (''env-'' @ ev_id env)")
  case (Inl e)
  with assms failed_step show ?thesis by (auto simp: build_claimed_def build_attempt_def)
next
  case img: (Inr img)
  let ?i = "ev_id env" and ?db1 = "mark_verifying now (ev_id env) j db"
  have "build_steps E (at_job X ?db1 t (Some (?i, j))) (at_job X db' t None)"
  proof (cases "tl_verify T img packages")
    case (Inl e)
    with assms img failed_step show ?thesis by (auto simp: build_claimed_def build_attempt_def Let_def)
  next
    case v: (Inr u)
    obtain db2 r where m: "mark_ready now ?i j img ?db1 = (db2, r)" by fastforce
    show ?thesis
    proof (cases r)
      case (Inl e)
      then have "db2 = ?db1" using m by (auto simp: mark_ready_def split: if_splits)
      with Inl assms img v m failed_step show ?thesis by (auto simp: build_claimed_def build_attempt_def Let_def)
    next
      case (Inr w)
      with assms img v m have "db' = db2" by (auto simp: build_claimed_def build_attempt_def Let_def)
      then show ?thesis
        using build_step.ready [of "at_job X ?db1 t (Some (?i, j))" t ?i j now img db2 False E] m Inr by auto
    qed
  qed
  with verifying_step show ?thesis by (rule one)
qed

lemma env_row_steps:
  assumes run: "build_env_row E lifecycle_store T C now job k env spec db = (db', st, r)"
    and ok: "build_ok E db" and p: "packages_of E spec = Inr packages" and t: "bx_builders X t = None"
  shows "build_steps E (at_db X db) (at_db X db')"
proof -
  have idle: "at_job X d t None = at_db X d" for d using t by (cases X) (simp add: fun_upd_idem)
  obtain db1 c where c: "lifecycle_claim now job (ev_id env) db = (db1, c)" by fastforce
  show ?thesis
  proof (cases "c = Inr (Some job)")
    case False
    then have "db1 = db" using lifecycle_claim_ok [OF ok c] by auto
    with run c False lifecycle_claim_ok [OF ok c] show ?thesis
      by (auto simp: build_env_row_def store_simps)
  next
    case True
    obtain db2 s where b: "build_claimed T C now env job spec packages db1 = (db2, s)" by fastforce
    from run c True p b have "db' = db2" by (auto simp: build_env_row_def store_simps)
    with build_claimed_steps [OF b, of E X t] idle have "build_steps E (at_job X db1 t (Some (ev_id env, job))) (at_db X db')" by simp
    moreover have "build_step False E (at_db X db) (at_job X db1 t (Some (ev_id env, job)))"
      using build_step.claim [of "at_db X db" t now job "ev_id env" db1 False E] c True t by simp
    ultimately show ?thesis by (blast intro: one)
  qed
qed

lemma bind_steps:
  assumes "lifecycle_bind now k (ev_id e) kind db = (db', u)" "e \<in> set (bd_envs db)" "serves E e k"
  shows "build_steps E (at_db X db) (at_db X db')"
proof -
  have "db' = db \<or> insert_alias now k (ev_id e) kind db = (db', u)"
    using assms(1) by (auto simp: lifecycle_bind_def split: option.splits if_splits)
  then show ?thesis
    using build_step.add_alias [of e "at_db X db" E k now kind db' u False] assms(2,3) by auto
qed

lemma exact_steps:
  assumes "lifecycle_exact now n db = (db', r)" "env_key E (ne_spec n) = Inr (ne_key n)" "packages_of E (ne_spec n) = Inr (ne_packages n)"
  shows "build_steps E (at_db X db) (at_db X db')"
proof -
  obtain db1 x where b: "base_exact now n db = (db1, x)" by fastforce
  have s: "build_step False E (at_db X db) (at_db X db1)"
    using build_step.exact [OF assms(2,3), of now "at_db X db" db1 x False] b by simp
  have "db' = db1 \<or> (\<exists>i y. reactivate_retired now i db1 = (db', y))"
    using assms(1) b by (auto simp: lifecycle_exact_def reactivate_exact_def split: sum.splits lifecycle_state.splits option.splits prod.splits)
  then show ?thesis
  proof (elim disjE exE)
    fix i y
    assume "reactivate_retired now i db1 = (db', y)"
    then have "build_step False E (at_db X db1) (at_db X db')"
      using build_step.reactivate [of now i "at_db X db1" db' y False E] by simp
    with s show ?thesis by (blast intro: one)
  qed (use s in blast)
qed

lemma resolve_exact_steps:
  assumes run: "resolve_exact E lifecycle_store T C now env_id job k spec packages db = (db', st, r)"
    and ok: "build_ok E db" and k: "env_key E spec = Inr k" and p: "packages_of E spec = Inr packages"
    and t: "bx_builders X t = None"
  shows "build_steps E (at_db X db) (at_db X db')"
proof -
  let ?n = "\<lparr>ne_id = env_id, ne_key = k, ne_spec = spec, ne_lock_sha256 = lock_sha256 E spec, ne_packages = packages\<rparr>"
  obtain db1 x where e: "lifecycle_exact now ?n db = (db1, x)" by fastforce
  have s1: "build_steps E (at_db X db) (at_db X db1)" using exact_steps [OF e] k p by simp
  have l: "build_ok E db1" "\<And>e. x = Inr e \<Longrightarrow> e \<in> set (bd_envs db1) \<and> ev_key e = k"
    using lifecycle_exact_ok [OF ok _ _ e] k p by auto
  show ?thesis
  proof (cases x)
    case (Inl err)
    with run e s1 show ?thesis by (simp add: resolve_exact_def store_simps)
  next
    case (Inr env)
    have "env_ok E env" using l(1) l(2) [OF Inr] by (simp add: build_ok_def tables_ok_def)
    then have sv: "serves E env k" using env_serves l(2) [OF Inr] by auto
    obtain db2 u where b: "lifecycle_bind now k (ev_id env) Exact db1 = (db2, u)" by fastforce
    have s2: "build_steps E (at_db X db1) (at_db X db2)" using bind_steps [OF b] l(2) [OF Inr] sv by blast
    have ok2: "build_ok E db2" using lifecycle_bind_ok [OF l(1) _ sv b] l(2) [OF Inr] by blast
    have "db' = db2 \<or> (\<exists>v w. build_env_row E lifecycle_store T C now job k env spec db2 = (db', v, w))"
      using run e Inr b by (auto simp: resolve_exact_def store_simps split: sum.splits if_splits)
    with env_row_steps [OF _ ok2 p t] have "build_steps E (at_db X db2) (at_db X db')" by blast
    with s1 s2 show ?thesis by (meson rtranclp_trans)
  qed
qed

lemma resolve_spec_steps:
  assumes run: "resolve_spec E lifecycle_store T C now env_id job spec db = (db', st, r)"
    and ok: "build_ok E db" and t: "bx_builders X t = None"
  shows "build_steps E (at_db X db) (at_db X db')"
proof (cases "\<exists>k packages. env_key E spec = Inr k \<and> packages_of E spec = Inr packages")
  case False
  with run show ?thesis by (auto simp: resolve_spec_def split: sum.splits)
next
  case True
  then obtain k packages where k: "env_key E spec = Inr k" and p: "packages_of E spec = Inr packages" by blast
  have new: "build_steps E (at_db X db) (at_db X d)"
    if n: "resolve_new E lifecycle_store T C now env_id job k spec packages db = (d, s, x)" for d s x
  proof (cases "if bc_reuse C then bs_superset lifecycle_store spec packages db else None")
    case None
    with n have "resolve_exact E lifecycle_store T C now env_id job k spec packages db = (d, s, x)"
      by (simp add: resolve_new_def)
    then show ?thesis by (rule resolve_exact_steps [OF _ ok k p t])
  next
    case (Some c)
    then have "bs_superset lifecycle_store spec packages db = Some c" by (simp split: if_splits)
    note c = lifecycle_laws.superset_law [OF this]
    obtain d1 z where b: "lifecycle_bind now k (ev_id c) Superset db = (d1, z)" by fastforce
    have "d = d1" using n Some b by (auto simp: resolve_new_def store_simps split: sum.splits)
    with bind_steps [OF b] c compatible_serves [OF _ k p] show ?thesis by blast
  qed
  show ?thesis
  proof (cases "lifecycle_get_for_request k db")
    case None
    obtain d s x where n: "resolve_new E lifecycle_store T C now env_id job k spec packages db = (d, s, x)" by (metis prod_cases3)
    with run None k p new show ?thesis by (simp add: resolve_spec_def with_stages_def store_simps)
  next
    case (Some v)
    obtain env a where v: "v = (env, a)" by fastforce
    obtain d s x where n: "build_env_row E lifecycle_store T C now job k env spec db = (d, s, x)" by (metis prod_cases3)
    have "db' = db \<or> db' = d" using run Some v k p n by (auto simp: resolve_spec_def with_stages_def store_simps split: if_splits)
    with env_row_steps [OF n ok p t] show ?thesis by auto
  qed
qed

lemma resolve_steps:
  assumes "build_resolve E lifecycle_store T C now env_id job reqs (bx_db X) = (db', st, r)"
    and "build_ok E (bx_db X)" "bx_builders X t = None"
  shows "build_steps E X (at_db X db')"
proof (cases "lock_requirements E T reqs")
  case (Inl e)
  with assms(1) have "db' = bx_db X" by (simp add: build_resolve_def with_stages_def)
  then show ?thesis by simp
next
  case (Inr lock)
  obtain d s x where n: "resolve_spec E lifecycle_store T C now env_id job (settings_spec C lock) (bx_db X) = (d, s, x)"
    by (metis prod_cases3)
  with assms(1) Inr have "db' = d" by (simp add: build_resolve_def with_stages_def)
  with resolve_spec_steps [OF n assms(2,3)] show ?thesis by simp
qed

text \<open>
  The properties of the build service, each with an instance on a small service: one requirement, a
  build that succeeds, and the retirement of what it built.
\<close>

section \<open>A small build service\<close>

definition tiny_lock :: string where
  "tiny_lock = ''a==1'' @ [CHR 0x0A]"

definition tiny_spec :: build_spec where
  "tiny_spec = \<lparr>sp_base = ''b@sha256:1'', sp_python = ''3'', sp_platform = ''l'', sp_lock = tiny_lock, sp_policy = ''1''\<rparr>"

definition tiny_env :: build_env where
  "tiny_env = \<lparr>be_identity_digest = (\<lambda>i. if i = (''b@sha256:1'', ''3'', ''l'', tiny_lock, ''1'') then ''k'' else ''x''),
     be_sha256 = (\<lambda>s. s), be_canonical = (\<lambda>s. s), be_requirement = (\<lambda>s. Some (s, None)), be_repr = (\<lambda>s. s),
     be_lower = (\<lambda>s. s)\<rparr>"

definition tiny_tools :: tools where
  "tiny_tools = \<lparr>tl_lock = (\<lambda>_. Inr tiny_lock),
     tl_build = (\<lambda>_ _. Inr (JObj [(''containerimage.digest'', JStr ''sha256:d'')])), tl_verify = (\<lambda>_ _. Inr ())\<rparr>"

definition tiny_settings :: build_settings where
  "tiny_settings = \<lparr>bc_base = ''b@sha256:1'', bc_repo = ''r/p/q'', bc_python = ''3'', bc_platform = ''l'', bc_policy = ''1'',
     bc_reuse = True\<rparr>"

abbreviation tiny_resolve :: "build_db \<Rightarrow> build_answer" where
  "tiny_resolve \<equiv> build_resolve tiny_env lifecycle_store tiny_tools tiny_settings 0 ''e'' ''j'' [''a'']"

definition tiny_row :: env_row where
  "tiny_row = \<lparr>ev_id = ''e'', ev_key = ''k'', ev_spec = tiny_spec, ev_lock_sha256 = tiny_lock, ev_packages = [(''a'', ''1'')],
     ev_package_count = 1, ev_image = Some ''r/p/q@sha256:d'', ev_status = Ready, ev_last_error = None, ev_created = 0,
     ev_updated = 0, ev_lifecycle = LActive, ev_retired_at = None, ev_deleted_at = None, ev_cleanup_error = None\<rparr>"

definition tiny_alias :: alias_row where
  "tiny_alias = \<lparr>al_key = ''k'', al_env = ''e'', al_kind = Exact, al_created = 0\<rparr>"

definition tiny_db :: build_db where
  "tiny_db = \<lparr>bd_envs = [tiny_row], bd_aliases = [tiny_alias],
     bd_jobs = [\<lparr>jb_id = ''j'', jb_env = ''e'', jb_status = Ready, jb_error = None, jb_created = 0, jb_finished = Some 0\<rparr>]\<rparr>"

lemma tiny_resolved: "tiny_resolve build_db_init =
    (tiny_db, [''RESOLVING_DEPENDENCIES'', ''CHECKING_RUNTIME_CACHE'', ''BUILDING_RUNTIME'', ''VERIFYING_RUNTIME'',
       ''RUNTIME_READY''], Inr (Some (tiny_row, tiny_alias)))"
  by code_simp

lemma tiny_key: "env_key tiny_env tiny_spec = Inr ''k''"
  by code_simp

lemma tiny_packages: "packages_of tiny_env tiny_spec = Inr [(''a'', ''1'')]"
  by code_simp

lemma tiny_locked: "lock_requirements tiny_env tiny_tools [''a''] = Inr tiny_lock"
  by code_simp

lemma tiny_settings_spec: "settings_spec tiny_settings tiny_lock = tiny_spec"
  by code_simp

lemma tiny_injective: "env_key tiny_env spec = Inr ''k'' \<Longrightarrow> spec = tiny_spec"
  by (cases spec) (auto simp: env_key_def spec_identity_def lock_sha256_def tiny_env_def tiny_spec_def split: if_splits)

lemma resolve_reachable:
  assumes "build_reachable False E X" "bx_builders X t = None"
    and "build_resolve E lifecycle_store T C now env_id job requirements (bx_db X) = (db', st, res)"
  shows "build_reachable False E (X\<lparr>bx_db := db'\<rparr>)"
proof -
  have "build_ok E (bx_db X)" using build_reachable_ok [OF assms(1)] by (simp add: system_ok_def)
  from resolve_steps [OF assms(3) this assms(2)] assms(1) show ?thesis
    unfolding build_reachable_def by (meson rtranclp_trans)
qed

section \<open>Properties\<close>

text \<open>C5: One build per environment: however requests, retries, retirements, deletions and crashes
  interleave, two build threads never work on the same environment, and the environment a thread
  builds is active, in construction, and has that thread's job as its only active job.\<close>

theorem one_builder_per_environment:
  assumes "build_reachable guarded E X" "bx_builders X t = Some (i, j)"
  shows "(\<forall>u k. bx_builders X u = Some (i, k) \<longrightarrow> u = t) \<and>
    (\<exists>e \<in> set (bd_envs (bx_db X)). ev_id e = i \<and> building (ev_status e) \<and> ev_lifecycle e = LActive) \<and>
    (\<forall>r \<in> set (bd_jobs (bx_db X)). active_job i r \<longrightarrow> jb_id r = j)"
proof -
  have ok: "build_ok E (bx_db X)" and th: "builders_ok X"
    using build_reachable_ok [OF assms(1)] by (simp_all add: system_ok_def)
  from th assms(2) obtain s where s: "(i, j, s) \<in> actives (bx_db X)" unfolding builders_ok_def by blast
  have "(i, s) \<in> builds (bx_db X)" using ok s by (force simp: build_ok_def jobs_ok_def)
  then have e: "\<exists>e \<in> set (bd_envs (bx_db X)). ev_id e = i \<and> building (ev_status e) \<and> ev_lifecycle e = LActive"
    using okD(2) [OF ok] by (auto simp: builds_def)
  have "jb_id r = j" if "r \<in> set (bd_jobs (bx_db X))" "active_job i r" for r
  proof -
    have "(i, jb_id r, jb_status r) \<in> actives (bx_db X)" using that by (auto simp: actives_def active_job_def building_def)
    from lifecycle_laws.only_active [OF ok s this] show ?thesis by simp
  qed
  with e th assms(2) show ?thesis unfolding builders_ok_def by blast
qed

text \<open>C21: What a resolve answers serves the request: it keeps the invariant of the tables, leaves no
  job behind, and an environment it returns has the requested base image, Python, platform and policy
  and contains every locked package in the locked version - provided no other specification has the
  same digest.\<close>

theorem resolve_serves_request:
  assumes "build_ok E db" "lock_requirements E T requirements = Inr lock"
    and "env_key E (settings_spec C lock) = Inr k" "packages_of E (settings_spec C lock) = Inr packages"
    and "\<And>spec. env_key E spec = Inr k \<Longrightarrow> spec = settings_spec C lock"
    and "build_resolve E lifecycle_store T C now env_id job requirements db = (db', st, res)"
  shows "build_ok E db' \<and> actives db' = actives db \<and>
    (\<forall>e a. res = Inr (Some (e, a)) \<longrightarrow> e \<in> set (bd_envs db') \<and> satisfies e (settings_spec C lock) packages)"
proof -
  have "lifecycle_laws.answered E k db (build_resolve E lifecycle_store T C now env_id job requirements db)"
    using lifecycle_laws.resolve_spec_answered [OF assms(1) TrueI assms(3)] assms(2)
    by (simp add: build_resolve_def lifecycle_laws.answered_stages)
  with assms(6) have a: "build_ok E db'" "actives db' = actives db"
    "\<And>e a. res = Inr (Some (e, a)) \<Longrightarrow> e \<in> set (bd_envs db') \<and> serves E e k"
    by (auto simp: lifecycle_laws.answered_def)
  have "satisfies e (settings_spec C lock) packages" if "serves E e k" for e
    using that assms(4,5) unfolding serves_def by fastforce
  with a show ?thesis by blast
qed

text \<open>The sequential resolve refines the transactions: for one request it is a run of the build
  steps, so every invariant of the concurrent system holds around it.\<close>

theorem resolve_refines_steps:
  assumes "build_reachable False E X" "bx_builders X t = None"
    and "build_resolve E lifecycle_store T C now env_id job requirements (bx_db X) = (db', st, res)"
  shows "build_reachable False E (X\<lparr>bx_db := db'\<rparr>)"
  using assms by (rule resolve_reachable)

text \<open>C15: A request never gets an environment whose image was deleted, in runs in which no retirement is taken back
  after the deletion of its image was started, and no build yields an image whose deletion was started. The code
  enforces neither; the guard of the steps leaves such runs out.\<close>

theorem deleted_image_not_served:
  assumes "build_reachable True E X" "lifecycle_get_for_request k (bx_db X) = Some (e, a)" "ev_image e = Some img"
  shows "img \<notin> bx_deleted X"
proof
  assume "img \<in> bx_deleted X"
  then have "deletion_started X img" by (simp add: deletion_started_def)
  moreover have "e \<in> set (bd_envs (bx_db X))" "ev_lifecycle e = LActive"
    using lifecycle_get_law [OF assms(2)] base_get_law [of k "bx_db X" e a] by auto
  ultimately show False
    using guarded_images_safe [OF assms(1)] assms(3) by (auto simp: images_safe_def deletion_safe_def)
qed

text \<open>Without that proviso it does: the deletion checks the lifecycle state, calls Harbor, and only
  then finalizes; a cancellation in between makes the environment active and ready again, and requests
  get an image Harbor has removed.\<close>

theorem cancelled_deletion_serves_deleted_image:
  "\<exists>X e a img. build_reachable False tiny_env X \<and> lifecycle_get_for_request ''k'' (bx_db X) = Some (e, a) \<and>
     ev_status e = Ready \<and> ev_image e = Some img \<and> img \<in> bx_deleted X"
proof -
  let ?img = "''r/p/q@sha256:d''"
  define db1 where "db1 = fst (build_begin_retirement 1 ''e'' tiny_db)"
  define db2 where "db2 = fst (build_cancel_retirement 2 ''e'' db1)"
  let ?at = "\<lambda>db d del. \<lparr>bx_db = db, bx_builders = \<lambda>_. None, bx_deleting = d, bx_deleted = del\<rparr>"
  have "build_start\<lparr>bx_db := tiny_db\<rparr> = ?at tiny_db (\<lambda>_. None) {}" "bx_db build_start = build_db_init"
    "bx_builders build_start 0 = None" by (simp_all add: build_start_def)
  with resolve_reachable [of tiny_env build_start 0] tiny_resolved
  have r0: "build_reachable False tiny_env (?at tiny_db (\<lambda>_. None) {})"
    by (metis build_reachable_def rtranclp.rtrancl_refl)
  have step: "build_reachable False tiny_env X \<Longrightarrow> build_step False tiny_env X Y \<Longrightarrow> build_reachable False tiny_env Y" for X Y
    unfolding build_reachable_def by (rule rtranclp.rtrancl_into_rtrancl)
  have r1: "build_reachable False tiny_env (?at db1 (\<lambda>_. None) {})"
    by (rule step [OF r0]) (use build_step.begin_retirement [of 1 "''e''" "?at tiny_db (\<lambda>_. None) {}"] in \<open>simp add: db1_def prod_eq_iff\<close>)
  have c: "deletion_check ''e'' ?img db1 = Inr (Some ?img)" unfolding db1_def by code_simp
  have r2: "build_reachable False tiny_env (?at db1 [0 \<mapsto> (''e'', ?img)] {})"
    by (rule step [OF r1]) (use build_step.check_deletion [of "?at db1 (\<lambda>_. None) {}" 0] c in simp)
  have r3: "build_reachable False tiny_env (?at db2 [0 \<mapsto> (''e'', ?img)] {})"
    by (rule step [OF r2]) (use build_step.cancel_retirement [of 2 "''e''" "?at db1 [0 \<mapsto> (''e'', ?img)] {}"] in \<open>simp add: db2_def prod_eq_iff\<close>)
  have r4: "build_reachable False tiny_env (?at db2 [0 \<mapsto> (''e'', ?img)] {?img})"
    by (rule step [OF r3]) (use build_step.harbor_deletes [of "?at db2 [0 \<mapsto> (''e'', ?img)] {}" 0] in simp)
  have "\<exists>e a. lifecycle_get_for_request ''k'' db2 = Some (e, a) \<and> ev_status e = Ready \<and> ev_image e = Some ?img"
  proof -
    have "map_option (\<lambda>(e, a). (ev_status e, ev_image e)) (lifecycle_get_for_request ''k'' db2) = Some (Ready, Some ?img)"
      unfolding db2_def db1_def by code_simp
    then show ?thesis by auto
  qed
  with r4 show ?thesis by (intro exI [of _ "?at db2 [0 \<mapsto> (''e'', ?img)] {?img}"]) auto
qed

text \<open>A build whose process died is never taken up again: once an environment is in construction
  and no thread builds it, it stays in construction whatever resolves, retries, retirements and
  deletions follow, so its requests wait forever.\<close>

theorem orphaned_build_stays:
  assumes "build_reachable guarded E X" "e \<in> set (bd_envs (bx_db X))" "building (ev_status e)"
    and "\<And>t j. bx_builders X t \<noteq> Some (ev_id e, j)" "(build_step guarded E)\<^sup>*\<^sup>* X X'"
  shows "\<exists>e' \<in> set (bd_envs (bx_db X')). ev_id e' = ev_id e \<and> building (ev_status e')"
proof -
  have ok: "system_ok E X" using build_reachable_ok [OF assms(1)] .
  then have "(ev_id e, ev_status e) \<in> (\<lambda>(i, j, s). (i, s)) ` actives (bx_db X)"
    using assms(2,3) by (auto simp: system_ok_def build_ok_def jobs_ok_def builds_def)
  then obtain j where "(ev_id e, j, ev_status e) \<in> actives (bx_db X)" by auto
  from orphan_steps [OF assms(5) ok this assms(4)] have "(ev_id e, j, ev_status e) \<in> actives (bx_db X')" .
  then have "(ev_id e, ev_status e) \<in> builds (bx_db X')"
    using steps_ok [OF assms(5) ok] by (force simp: system_ok_def build_ok_def jobs_ok_def)
  then show ?thesis by (auto simp: builds_def)
qed

text \<open>A request whose alias points to a retiring environment cannot be answered: the alias hides the
  environment and keeps its place, so even after a new environment was built for the request the
  resolve answers with nothing or an error.\<close>

theorem retiring_alias_blocks_request:
  assumes "alias_at k db = Some a" "env_at (al_env a) db = Some e" "ev_lifecycle e = LRetiring"
    and "env_key E spec = Inr k" "resolve_spec E lifecycle_store T C now env_id job spec db = (db', st, res)"
  shows "res = Inr None \<or> (\<exists>x. res = Inl x)"
proof (rule ccontr)
  assume "\<not> ?thesis"
  then obtain v where v: "res = Inr (Some v)" by (cases res) auto
  have b: "blocked_alias k db" using assms(1-3) by (auto simp: blocked_alias_def)
  from resolve_result [OF assms(5) [unfolded v] assms(4)] blocked_none [OF b]
    blocked_none [OF blocked_resolve [OF b assms(4,5)]] show False by simp
qed

text \<open>An environment without an image can never be finalized: the comparison with the expected image
  fails before the branch that would retire it, whatever image is expected.\<close>

theorem imageless_environment_not_retired:
  assumes "env_at i db = Some e" "ev_image e = None"
  shows "\<exists>x. delete_artifact E H now i expected db = (db, Inl x)"
  using assms by (auto simp: delete_artifact_def deletion_check_def build_plan_def)

text \<open>A lock file written from a table of pins reads back as that table: names and versions survive,
  in order.\<close>

theorem lock_roundtrip:
  assumes "list_all (printable_pin E) d" "sorted (map fst d)" "distinct (map fst d)"
  shows "parse_locked_packages E (concat (map (\<lambda>nv. pin_line nv @ [CHR 0x0A]) d)) = Inr d"
proof -
  have "list_all (list_all plain) (map pin_line d)" using assms(1) pin_match_line(3) by (auto simp: list_all_iff)
  from splitlines_unlines [OF this] have "splitlines (concat (map (\<lambda>nv. pin_line nv @ [CHR 0x0A]) d)) = map pin_line d"
    by (simp add: comp_def)
  moreover have "parse_lines E (map pin_line d) [] = Inr ([] @ d)" by (rule parse_pin_lines) (use assms in simp_all)
  moreover have "sort_key fst d = d" using assms(2) by (induction d) (auto simp: insort_is_Cons)
  ultimately show ?thesis by (simp add: parse_locked_packages_def sort_dict_def)
qed

section \<open>Instances\<close>

lemma tiny_start: "build_start\<lparr>bx_db := db\<rparr> = \<lparr>bx_db = db, bx_builders = \<lambda>_. None, bx_deleting = \<lambda>_. None, bx_deleted = {}\<rparr>"
  by (simp add: build_start_def)

lemma tiny_reachable0: "build_reachable guarded E build_start"
  by (simp add: build_reachable_def)

lemma tiny_claimed:
  obtains X where "build_reachable guarded tiny_env X" "bx_builders X 0 = Some (''e'', ''j'')"
    "\<exists>e \<in> set (bd_envs (bx_db X)). ev_id e = ''e'' \<and> building (ev_status e)"
proof -
  let ?n = "\<lparr>ne_id = ''e'', ne_key = ''k'', ne_spec = tiny_spec, ne_lock_sha256 = tiny_lock, ne_packages = [(''a'', ''1'')]\<rparr>"
  define db1 where "db1 = fst (base_exact 0 ?n build_db_init)"
  define db2 where "db2 = fst (lifecycle_claim 0 ''j'' ''e'' db1)"
  have "build_step guarded tiny_env build_start (build_start\<lparr>bx_db := db1\<rparr>)"
    using build_step.exact [of tiny_env ?n 0 build_start db1 "snd (base_exact 0 ?n build_db_init)"] tiny_key tiny_packages
    by (simp add: db1_def build_start_def)
  moreover have "snd (lifecycle_claim 0 ''j'' ''e'' db1) = Inr (Some ''j'')" unfolding db1_def by code_simp
  then have "lifecycle_claim 0 ''j'' ''e'' db1 = (db2, Inr (Some ''j''))" by (simp add: db2_def prod_eq_iff)
  then have "build_step guarded tiny_env (build_start\<lparr>bx_db := db1\<rparr>)
      (build_start\<lparr>bx_db := db2, bx_builders := [0 \<mapsto> (''e'', ''j'')]\<rparr>)"
    using build_step.claim [of "build_start\<lparr>bx_db := db1\<rparr>" 0 0 "''j''" "''e''" db2 guarded tiny_env]
    by (simp add: build_start_def)
  ultimately have "build_reachable guarded tiny_env (build_start\<lparr>bx_db := db2, bx_builders := [0 \<mapsto> (''e'', ''j'')]\<rparr>)"
    unfolding build_reachable_def by (meson rtranclp.rtrancl_into_rtrancl rtranclp.rtrancl_refl)
  moreover have "list_ex (\<lambda>e. ev_id e = ''e'' \<and> ev_status e = Building) (bd_envs db2)"
    unfolding db2_def db1_def by code_simp
  then have "\<exists>e \<in> set (bd_envs db2). ev_id e = ''e'' \<and> building (ev_status e)" by (auto simp: list_ex_iff)
  ultimately show thesis by (intro that) auto
qed

theorem one_builder_per_environment_witness:
  "\<exists>X. build_reachable True tiny_env X \<and> bx_builders X 0 = Some (''e'', ''j'') \<and>
     (\<exists>e \<in> set (bd_envs (bx_db X)). ev_id e = ''e'' \<and> building (ev_status e) \<and> ev_lifecycle e = LActive)"
proof -
  obtain X where X: "build_reachable True tiny_env X" "bx_builders X 0 = Some (''e'', ''j'')" by (rule tiny_claimed)
  from one_builder_per_environment [OF X] X show ?thesis by blast
qed

theorem resolve_serves_request_witness:
  "satisfies tiny_row tiny_spec [(''a'', ''1'')]"
proof -
  have k: "env_key tiny_env (settings_spec tiny_settings tiny_lock) = Inr ''k''"
    "packages_of tiny_env (settings_spec tiny_settings tiny_lock) = Inr [(''a'', ''1'')]"
    by (simp_all add: tiny_settings_spec tiny_key tiny_packages)
  have "\<And>spec. env_key tiny_env spec = Inr ''k'' \<Longrightarrow> spec = settings_spec tiny_settings tiny_lock"
    using tiny_injective tiny_settings_spec by simp
  from resolve_serves_request [OF build_ok_init tiny_locked k this tiny_resolved] show ?thesis
    by (simp add: tiny_settings_spec)
qed

theorem resolve_refines_steps_witness:
  "build_reachable False tiny_env (build_start\<lparr>bx_db := tiny_db\<rparr>)"
proof -
  have "bx_builders build_start 0 = None" "bx_db build_start = build_db_init" by (simp_all add: build_start_def)
  with resolve_refines_steps [OF tiny_reachable0 _ tiny_resolved [folded this(2)]] show ?thesis by blast
qed

lemma tiny_ready:
  obtains X where "build_reachable True tiny_env X" "bx_db X = tiny_db" "bx_deleted X = {}"
proof -
  let ?n = "\<lparr>ne_id = ''e'', ne_key = ''k'', ne_spec = tiny_spec, ne_lock_sha256 = tiny_lock, ne_packages = [(''a'', ''1'')]\<rparr>"
  define db1 where "db1 = fst (base_exact 0 ?n build_db_init)"
  define db2 where "db2 = fst (insert_alias 0 ''k'' ''e'' Exact db1)"
  define db3 where "db3 = fst (lifecycle_claim 0 ''j'' ''e'' db2)"
  let ?b = "[0 \<mapsto> (''e'', ''j'')]"
  let ?at = "\<lambda>db b. build_start\<lparr>bx_db := db, bx_builders := b\<rparr>"
  have step: "build_reachable True tiny_env X \<Longrightarrow> build_step True tiny_env X Y \<Longrightarrow> build_reachable True tiny_env Y" for X Y
    unfolding build_reachable_def by (rule rtranclp.rtrancl_into_rtrancl)
  have r1: "build_reachable True tiny_env (?at db1 (\<lambda>_. None))"
    by (rule step [OF tiny_reachable0], use build_step.exact [of tiny_env ?n 0 build_start db1 "snd (base_exact 0 ?n build_db_init)"]
      tiny_key tiny_packages in \<open>simp add: db1_def build_start_def\<close>)
  have e: "hd (bd_envs db1) \<in> set (bd_envs db1)" "ev_id (hd (bd_envs db1)) = ''e''" "ev_key (hd (bd_envs db1)) = ''k''"
    unfolding db1_def by code_simp+
  have "system_ok tiny_env (?at db1 (\<lambda>_. None))" by (rule build_reachable_ok [OF r1])
  then have "env_ok tiny_env (hd (bd_envs db1))" using e(1) by (simp add: system_ok_def build_ok_def tables_ok_def)
  from env_serves [OF this] e(3) have s: "serves tiny_env (hd (bd_envs db1)) ''k''" by simp
  have r2: "build_reachable True tiny_env (?at db2 (\<lambda>_. None))"
    by (rule step [OF r1], use build_step.add_alias [of "hd (bd_envs db1)" "?at db1 (\<lambda>_. None)" tiny_env "''k''" 0 Exact db2] e s
      in \<open>simp add: db2_def prod_eq_iff build_start_def\<close>)
  have c: "snd (lifecycle_claim 0 ''j'' ''e'' db2) = Inr (Some ''j'')" unfolding db2_def db1_def by code_simp
  have r3: "build_reachable True tiny_env (?at db3 ?b)"
    by (rule step [OF r2], use build_step.claim [of "?at db2 (\<lambda>_. None)" 0 0 "''j''" "''e''" db3] c in \<open>simp add: db3_def prod_eq_iff\<close>)
  have r4: "build_reachable True tiny_env (?at (mark_verifying 0 ''e'' ''j'' db3) ?b)"
    by (rule step [OF r3], use build_step.verifying [of "?at db3 ?b" 0 "''e''" "''j''"] in \<open>simp add: build_start_def\<close>)
  have m: "mark_ready 0 ''e'' ''j'' ''r/p/q@sha256:d'' (mark_verifying 0 ''e'' ''j'' db3) = (tiny_db, Inr ())"
    unfolding db3_def db2_def db1_def by code_simp
  have "build_reachable True tiny_env (?at tiny_db (\<lambda>_. None))"
    by (rule step [OF r4], use build_step.ready [of "?at (mark_verifying 0 ''e'' ''j'' db3) ?b" 0 "''e''" "''j''" 0
      "''r/p/q@sha256:d''" tiny_db] m in \<open>simp add: deletion_started_def build_start_def fun_upd_idem\<close>)
  then show thesis by (rule that) (simp_all add: build_start_def)
qed

theorem deleted_image_not_served_witness:
  "\<exists>X. build_reachable True tiny_env X \<and> lifecycle_get_for_request ''k'' (bx_db X) = Some (tiny_row, tiny_alias) \<and>
     ''r/p/q@sha256:d'' \<notin> bx_deleted X"
proof -
  obtain X where X: "build_reachable True tiny_env X" "bx_db X = tiny_db" by (rule tiny_ready)
  have g: "lifecycle_get_for_request ''k'' (bx_db X) = Some (tiny_row, tiny_alias)" unfolding X(2) by code_simp
  have "ev_image tiny_row = Some ''r/p/q@sha256:d''" by (simp add: tiny_row_def)
  from deleted_image_not_served [OF X(1) g this] X(1) g show ?thesis by blast
qed

theorem orphaned_build_stays_witness:
  "\<exists>X. build_reachable True tiny_env X \<and> bx_builders X 0 = None \<and>
     (\<exists>e \<in> set (bd_envs (bx_db X)). ev_id e = ''e'' \<and> building (ev_status e))"
proof -
  obtain X where X: "build_reachable True tiny_env X" "bx_builders X 0 = Some (''e'', ''j'')"
    "\<exists>e \<in> set (bd_envs (bx_db X)). ev_id e = ''e'' \<and> building (ev_status e)" by (rule tiny_claimed)
  have only: "bx_builders X u \<noteq> Some (''e'', k)" if "u \<noteq> 0" for u k
    using build_reachable_ok [OF X(1)] X(2) that unfolding system_ok_def builders_ok_def by blast
  let ?X = "X\<lparr>bx_builders := (bx_builders X)(0 := None), bx_deleting := (bx_deleting X)(0 := None)\<rparr>"
  have r: "build_reachable True tiny_env ?X"
    using X(1) build_step.vanish [of True tiny_env X 0] unfolding build_reachable_def by (rule rtranclp.rtrancl_into_rtrancl)
  obtain e where e: "e \<in> set (bd_envs (bx_db ?X))" "building (ev_status e)" "ev_id e = ''e''" using X(3) by auto
  have n: "\<And>t j. bx_builders ?X t \<noteq> Some (ev_id e, j)" using only e(3) by auto
  have "\<exists>e' \<in> set (bd_envs (bx_db ?X)). ev_id e' = ev_id e \<and> building (ev_status e')"
    by (rule orphaned_build_stays [OF r e(1,2) n rtranclp.rtrancl_refl])
  with r e(3) show ?thesis by (intro exI [of _ ?X]) simp
qed

theorem retiring_alias_blocks_request_witness:
  "\<exists>x. snd (snd (resolve_spec tiny_env lifecycle_store tiny_tools tiny_settings 2 ''f'' ''i'' tiny_spec
     (fst (build_begin_retirement 1 ''e'' tiny_db)))) = x \<and> (x = Inr None \<or> (\<exists>y. x = Inl y))"
proof -
  let ?db = "fst (build_begin_retirement 1 ''e'' tiny_db)"
  have a: "alias_at ''k'' ?db = Some tiny_alias" by code_simp
  have e: "env_at (al_env tiny_alias) ?db = Some (tiny_row\<lparr>ev_lifecycle := LRetiring, ev_updated := 1\<rparr>)" by code_simp
  obtain db' st res where r: "resolve_spec tiny_env lifecycle_store tiny_tools tiny_settings 2 ''f'' ''i'' tiny_spec ?db = (db', st, res)"
    by (metis prod_cases3)
  have "ev_lifecycle (tiny_row\<lparr>ev_lifecycle := LRetiring, ev_updated := 1\<rparr>) = LRetiring" by simp
  from retiring_alias_blocks_request [OF a e this tiny_key r] r show ?thesis by simp
qed

theorem imageless_environment_not_retired_witness:
  "\<exists>x. delete_artifact tiny_env None 1 ''e'' [] (tiny_db\<lparr>bd_envs := [tiny_row\<lparr>ev_status := Failed, ev_image := None\<rparr>]\<rparr>) =
     (tiny_db\<lparr>bd_envs := [tiny_row\<lparr>ev_status := Failed, ev_image := None\<rparr>]\<rparr>, Inl x)"
  by (rule imageless_environment_not_retired [where e = "tiny_row\<lparr>ev_status := Failed, ev_image := None\<rparr>"])
    (simp_all add: env_at_def tiny_row_def)

theorem lock_roundtrip_witness:
  "parse_locked_packages tiny_env (concat (map (\<lambda>nv. pin_line nv @ [CHR 0x0A]) [(''a'', ''1''), (''b'', ''2.0'')]))
     = Inr [(''a'', ''1''), (''b'', ''2.0'')]"
  by (rule lock_roundtrip) (code_simp, code_simp, code_simp)

end
