(* ===== verification/Authoring_Model.thy ===== *)
theory Authoring_Model
  imports Text "HOL-Library.Product_Lexorder"
begin

text \<open>
  The data of operator authoring (\<open>operator_authoring/model.py\<close>): what the scanner found in a project,
  the contract a user makes about one of its callables, and the validators every contract has passed.
  A default or constant of type \<open>Any\<close> is a JSON value: it comes from a request or passed \<open>json.dumps\<close>.
\<close>

section \<open>Enumerations\<close>

datatype callable_kind = PlainFunction | InstanceMethod | StaticMethod | ClassMethod

datatype binding_source = InputPayload | InputMetadata | OperatorParameter | ConstantValue

datatype codec = BytesCodec | TextCodec | JsonCodec | StreamCodec

datatype none_policy = KeepOriginal | EmptyContent

datatype value_source = ReturnValue | ReturnPath | ConstantOutput

fun kind_value :: "callable_kind \<Rightarrow> string" where
  "kind_value PlainFunction = ''function''"
| "kind_value InstanceMethod = ''instance-method''"
| "kind_value StaticMethod = ''static-method''"
| "kind_value ClassMethod = ''class-method''"

fun source_value :: "binding_source \<Rightarrow> string" where
  "source_value InputPayload = ''input.payload''"
| "source_value InputMetadata = ''input.metadata''"
| "source_value OperatorParameter = ''operator.parameter''"
| "source_value ConstantValue = ''constant''"

fun codec_value :: "codec \<Rightarrow> string" where
  "codec_value BytesCodec = ''bytes''"
| "codec_value TextCodec = ''text''"
| "codec_value JsonCodec = ''json''"
| "codec_value StreamCodec = ''binary_stream''"

fun policy_value :: "none_policy \<Rightarrow> string" where
  "policy_value KeepOriginal = ''keep-original''"
| "policy_value EmptyContent = ''empty''"

fun output_value_name :: "value_source \<Rightarrow> string" where
  "output_value_name ReturnValue = ''return''"
| "output_value_name ReturnPath = ''return.path''"
| "output_value_name ConstantOutput = ''constant''"

section \<open>The project catalog\<close>

record catalog_warning =
  cw_severity :: string
  cw_file :: string
  cw_line :: "int option"
  cw_message :: string

record parameter_info =
  pi_name :: string
  pi_kind :: string
  pi_annotation :: "string option"
  pi_required :: bool
  pi_has_default :: bool
  pi_default :: json
  pi_default_repr :: "string option"

record callable_info =
  ci_id :: string
  ci_module :: string
  ci_qualname :: string
  ci_kind :: callable_kind
  ci_class :: "string option"
  ci_method :: "string option"
  ci_file :: string
  ci_line :: int
  ci_async :: bool
  ci_decorators :: "string list"
  ci_score :: int
  ci_parameters :: "parameter_info list"
  ci_returns :: "string option"

record class_info =
  cl_id :: string
  cl_module :: string
  cl_qualname :: string
  cl_target :: string
  cl_file :: string
  cl_line :: int
  cl_constructor :: "parameter_info list"
  cl_methods :: "callable_info list"

record project_catalog =
  pc_revision :: string
  pc_python_path :: string
  pc_functions :: "callable_info list"
  pc_classes :: "class_info list"
  pc_warnings :: "catalog_warning list"

definition by_score :: "callable_info list \<Rightarrow> callable_info list" where
  "by_score = sort_key (\<lambda>c. (- ci_score c, ci_id c))"

definition all_callables :: "project_catalog \<Rightarrow> callable_info list" where
  "all_callables P = by_score (pc_functions P @ concat (map cl_methods (pc_classes P)))"

definition callable_by_id :: "project_catalog \<Rightarrow> string \<Rightarrow> callable_info option" where
  "callable_by_id P i = List.find (\<lambda>c. ci_id c = i) (all_callables P)"

definition class_by_target :: "project_catalog \<Rightarrow> string \<Rightarrow> class_info option" where
  "class_by_target P t = List.find (\<lambda>c. cl_target c = t) (pc_classes P)"

section \<open>The contract\<close>

record parameter_spec =
  ps_key :: string
  ps_display_name :: string
  ps_description :: string
  ps_required :: bool
  ps_has_default :: bool
  ps_default :: json
  ps_type :: string

record argument_binding =
  ab_source :: binding_source
  ab_codec :: codec
  ab_metadata_key :: "string option"
  ab_parameter :: "parameter_spec option"
  ab_constant :: json
  ab_type :: string

datatype path_part = Field string | Position int

record output_value =
  ov_source :: value_source
  ov_path :: "path_part list"
  ov_codec :: codec
  ov_value :: json

record output_spec =
  out_payload :: output_value
  out_metadata :: "(string, output_value) dict"
  out_none_policy :: none_policy

record operator_contract =
  oc_name :: string
  oc_display_name :: string
  oc_description :: string
  oc_revision :: string
  oc_python_path :: string
  oc_source_ref :: "string option"
  oc_callable :: string
  oc_constructor :: "(string, argument_binding) dict"
  oc_arguments :: "(string, argument_binding) dict"
  oc_output :: output_spec

section \<open>Validation\<close>

definition validation_error :: "string \<Rightarrow> exn" where
  "validation_error m = PyError ''ValidationError'' m"

definition validate_key :: "string \<Rightarrow> exn + string" where
  "validate_key value =
     (let v = strip value in
      if v = [] then Inl (validation_error ''operator parameter key cannot be empty'') else Inr v)"

definition validate_parameter :: "parameter_spec \<Rightarrow> exn + parameter_spec" where
  "validate_parameter p = (case validate_key (ps_key p) of Inl e \<Rightarrow> Inl e | Inr k \<Rightarrow> Inr (p\<lparr>ps_key := k\<rparr>))"

text \<open>\<open>not self.metadata_key\<close>: absent or empty.\<close>

definition missing_text :: "string option \<Rightarrow> bool" where
  "missing_text s \<longleftrightarrow> s = None \<or> s = Some []"

definition validate_payload :: "argument_binding \<Rightarrow> exn + argument_binding" where
  "validate_payload b =
     (if ab_source b = InputMetadata \<and> missing_text (ab_metadata_key b)
      then Inl (validation_error ''input.metadata requires metadata_key'')
      else if ab_source b = OperatorParameter \<and> ab_parameter b = None
      then Inl (validation_error ''operator.parameter requires parameter'')
      else Inr b)"

definition validate_binding :: "argument_binding \<Rightarrow> exn + argument_binding" where
  "validate_binding b =
     (case ab_parameter b of
        None \<Rightarrow> validate_payload b
      | Some p \<Rightarrow> (case validate_parameter p of Inl e \<Rightarrow> Inl e | Inr q \<Rightarrow> validate_payload (b\<lparr>ab_parameter := Some q\<rparr>)))"

definition name_allowed :: "char \<Rightarrow> bool" where
  "name_allowed c \<longleftrightarrow>
     c \<in> set ''abcdefghijklmnopqrstuvwxyzABCDEFGHIJKLMNOPQRSTUVWXYZ0123456789._-''"

definition validate_name :: "string \<Rightarrow> exn + string" where
  "validate_name value =
     (let v = strip value in
      if v = [] then Inl (validation_error ''operator name cannot be empty'')
      else if \<not> list_all name_allowed v
      then Inl (validation_error (''operator name may contain only letters, digits, '.', '_' and '-'' @ [CHR 0x27]))
      else Inr v)"

definition validate_value :: "output_value \<Rightarrow> exn + output_value" where
  "validate_value v =
     (if ov_source v = ReturnPath \<and> ov_path v = []
      then Inl (validation_error ''return.path output requires a non-empty path'') else Inr v)"

definition validate_python_path :: "string \<Rightarrow> exn + string" where
  "validate_python_path value =
     (let v = (if strip value = [] then ''.'' else strip value); parts = path_parts v in
      if starts_with ''/'' v \<or> CHR 0x5C \<in> set v
      then Inl (validation_error ''python_path must be a relative POSIX path'')
      else if ''..'' \<in> set parts
      then Inl (validation_error ''python_path must stay inside the source snapshot'')
      else Inr (if parts = [] then ''.'' else join_with ''/'' parts))"

text \<open>The first failing value of a dictionary, or the dictionary of the validated values.\<close>

fun validate_dict :: "('a \<Rightarrow> exn + 'a) \<Rightarrow> (string, 'a) dict \<Rightarrow> exn + (string, 'a) dict" where
  "validate_dict f [] = Inr []"
| "validate_dict f ((k, v) # d) =
     (case f v of
        Inl e \<Rightarrow> Inl e
      | Inr w \<Rightarrow> (case validate_dict f d of Inl e \<Rightarrow> Inl e | Inr d' \<Rightarrow> Inr ((k, w) # d')))"

definition validate_output :: "output_spec \<Rightarrow> exn + output_spec" where
  "validate_output q =
     (case validate_value (out_payload q) of
        Inl e \<Rightarrow> Inl e
      | Inr v \<Rightarrow> (case validate_dict validate_value (out_metadata q) of
                    Inl e \<Rightarrow> Inl e
                  | Inr d \<Rightarrow> Inr (q\<lparr>out_payload := v, out_metadata := d\<rparr>)))"

text \<open>A contract is built by validating its parts; an error of a part is an error of the contract. (The
  library reports all errors at once, in one exception.)\<close>

definition validate_contract :: "operator_contract \<Rightarrow> exn + operator_contract" where
  "validate_contract c =
     (case validate_name (oc_name c) of Inl e \<Rightarrow> Inl e | Inr name \<Rightarrow>
     (case validate_python_path (oc_python_path c) of Inl e \<Rightarrow> Inl e | Inr path \<Rightarrow>
     (case validate_dict validate_binding (oc_constructor c) of Inl e \<Rightarrow> Inl e | Inr cons \<Rightarrow>
     (case validate_dict validate_binding (oc_arguments c) of Inl e \<Rightarrow> Inl e | Inr args \<Rightarrow>
     (case validate_output (oc_output c) of Inl e \<Rightarrow> Inl e | Inr out \<Rightarrow>
        Inr (c\<lparr>oc_name := name, oc_python_path := path, oc_constructor := cons, oc_arguments := args,
               oc_output := out\<rparr>))))))"

text \<open>What the validators promise of a contract.\<close>

definition binding_ok :: "argument_binding \<Rightarrow> bool" where
  "binding_ok b \<longleftrightarrow>
     (ab_source b = InputMetadata \<longrightarrow> \<not> missing_text (ab_metadata_key b)) \<and>
     (ab_source b = OperatorParameter \<longrightarrow> ab_parameter b \<noteq> None) \<and>
     (\<forall>p. ab_parameter b = Some p \<longrightarrow> ps_key p \<noteq> [])"

lemma validate_binding_ok: "validate_binding b = Inr b' \<Longrightarrow> binding_ok b'"
  by (auto simp: validate_binding_def validate_payload_def validate_parameter_def validate_key_def binding_ok_def
    Let_def split: option.splits if_splits sum.splits)

lemma validate_dict_all:
  "validate_dict f d = Inr d' \<Longrightarrow> map fst d' = map fst d \<and> (\<forall>v \<in> snd ` set d'. \<exists>u. f u = Inr v)"
  by (induction d arbitrary: d') (fastforce split: sum.splits)+

lemma validate_contract_ok:
  assumes "validate_contract c = Inr c'"
  shows "\<forall>b \<in> snd ` set (oc_constructor c'). binding_ok b" "\<forall>b \<in> snd ` set (oc_arguments c'). binding_ok b"
    "map fst (oc_constructor c') = map fst (oc_constructor c)" "map fst (oc_arguments c') = map fst (oc_arguments c)"
    "validate_python_path (oc_python_path c) = Inr (oc_python_path c')"
proof -
  from assms obtain name path out where r: "validate_dict validate_binding (oc_constructor c) = Inr (oc_constructor c')"
    "validate_dict validate_binding (oc_arguments c) = Inr (oc_arguments c')"
    "validate_python_path (oc_python_path c) = Inr (oc_python_path c')"
    by (auto simp: validate_contract_def split: sum.splits)
  from validate_dict_all [OF r(1)] validate_dict_all [OF r(2)] validate_binding_ok
  show "\<forall>b \<in> snd ` set (oc_constructor c'). binding_ok b" "\<forall>b \<in> snd ` set (oc_arguments c'). binding_ok b"
    "map fst (oc_constructor c') = map fst (oc_constructor c)" "map fst (oc_arguments c') = map fst (oc_arguments c)"
    "validate_python_path (oc_python_path c) = Inr (oc_python_path c')" using r(3) by blast+
qed

end
