(* ===== verification/Authoring_Compiler.thy ===== *)
theory Authoring_Compiler
  imports Authoring_Model
begin

text \<open>
  The contract compiler (\<open>operator_authoring/compiler.py\<close>): it checks a contract against the catalog of
  the project it is about and turns it into an execution plan. Python's \<open>repr\<close>, \<open>lower\<close> and equality of
  values, the JSON text and the hash are arguments.
\<close>

record authoring =
  au_repr :: "string \<Rightarrow> string"
  au_lower :: "string \<Rightarrow> string"
  au_same :: "json \<Rightarrow> json \<Rightarrow> bool"
  au_canonical :: "json \<Rightarrow> string"
  au_sha256 :: "string \<Rightarrow> string"

definition list_repr :: "authoring \<Rightarrow> string list \<Rightarrow> string" where
  "list_repr A xs = ''['' @ join_with '', '' (map (au_repr A) xs) @ '']''"

definition compilation_error :: "string \<Rightarrow> exn" where
  "compilation_error m = PyError ''ContractCompilationError'' m"

section \<open>The hash of a contract\<close>

definition opt_json :: "string option \<Rightarrow> json" where
  "opt_json s = (case s of None \<Rightarrow> JNull | Some t \<Rightarrow> JStr t)"

definition parameter_json :: "parameter_spec \<Rightarrow> json" where
  "parameter_json p =
     JObj [(''key'', JStr (ps_key p)), (''display_name'', JStr (ps_display_name p)),
       (''description'', JStr (ps_description p)), (''required'', JBool (ps_required p)),
       (''has_default'', JBool (ps_has_default p)), (''default'', ps_default p), (''parameter_type'', JStr (ps_type p))]"

definition binding_json :: "argument_binding \<Rightarrow> json" where
  "binding_json b =
     JObj [(''source'', JStr (source_value (ab_source b))), (''codec'', JStr (codec_value (ab_codec b))),
       (''metadata_key'', opt_json (ab_metadata_key b)),
       (''parameter'', case ab_parameter b of None \<Rightarrow> JNull | Some p \<Rightarrow> parameter_json p),
       (''constant'', ab_constant b), (''argument_type'', JStr (ab_type b))]"

fun part_json :: "path_part \<Rightarrow> json" where
  "part_json (Field s) = JStr s"
| "part_json (Position i) = JInt i"

definition output_value_json :: "output_value \<Rightarrow> json" where
  "output_value_json v =
     JObj [(''source'', JStr (output_value_name (ov_source v))), (''path'', JList (map part_json (ov_path v))),
       (''codec'', JStr (codec_value (ov_codec v))), (''value'', ov_value v)]"

definition dict_json :: "('a \<Rightarrow> json) \<Rightarrow> (string, 'a) dict \<Rightarrow> json" where
  "dict_json f d = JObj (map (\<lambda>(k, v). (k, f v)) d)"

definition output_json :: "output_spec \<Rightarrow> json" where
  "output_json q =
     JObj [(''payload'', output_value_json (out_payload q)), (''metadata'', dict_json output_value_json (out_metadata q)),
       (''none_policy'', JStr (policy_value (out_none_policy q)))]"

definition contract_json :: "operator_contract \<Rightarrow> json" where
  "contract_json c =
     JObj [(''api_version'', JStr ''dsc.virtual-operator/v1''), (''execution_model'', JStr ''direct''),
       (''metadata'', JObj [(''name'', JStr (oc_name c)), (''display_name'', JStr (oc_display_name c)),
          (''description'', JStr (oc_description c))]),
       (''source'', JObj [(''source_revision'', JStr (oc_revision c)), (''python_path'', JStr (oc_python_path c)),
          (''source_ref'', opt_json (oc_source_ref c))]),
       (''target'', JObj [(''callable_id'', JStr (oc_callable c))]),
       (''constructor_arguments'', dict_json binding_json (oc_constructor c)),
       (''arguments'', dict_json binding_json (oc_arguments c)),
       (''output'', output_json (oc_output c))]"

text \<open>\<open>json.dumps(..., sort_keys=True)\<close>: the text of the value with its keys in order.\<close>

definition canonical_json :: "authoring \<Rightarrow> json \<Rightarrow> string" where
  "canonical_json A j = au_canonical A (sort_keys j)"

definition contract_sha256 :: "authoring \<Rightarrow> operator_contract \<Rightarrow> string" where
  "contract_sha256 A c = au_sha256 A (canonical_json A (contract_json c))"

section \<open>Which callables are supported\<close>

definition supported_kind :: "parameter_info \<Rightarrow> bool" where
  "supported_kind p \<longleftrightarrow> pi_kind p \<in> {''POSITIONAL_OR_KEYWORD'', ''KEYWORD_ONLY''}"

definition kind_reasons :: "authoring \<Rightarrow> string \<Rightarrow> parameter_info list \<Rightarrow> string list" where
  "kind_reasons A what ps =
     map (\<lambda>p. what @ au_repr A (pi_name p) @ '' uses unsupported kind '' @ pi_kind p)
       (filter (\<lambda>p. \<not> supported_kind p) ps)"

definition callable_support_reasons :: "authoring \<Rightarrow> project_catalog \<Rightarrow> callable_info \<Rightarrow> string list" where
  "callable_support_reasons A P c =
     (if ci_async c then [''async callable is not supported by Direct Invoke v1''] else []) @
     kind_reasons A ''parameter '' (ci_parameters c) @
     (if ci_kind c \<noteq> InstanceMethod then []
      else if missing_text (ci_class c) then [''instance method has no class metadata'']
      else (case class_by_target P (get_or [] (ci_class c)) of
              None \<Rightarrow> [''class metadata is missing'']
            | Some cls \<Rightarrow> kind_reasons A ''constructor parameter '' (cl_constructor cls)))"

section \<open>Bindings\<close>

text \<open>A dictionary by name: a later parameter of the same name replaces the earlier one.\<close>

definition parameter_map :: "parameter_info list \<Rightarrow> (string, parameter_info) dict" where
  "parameter_map ps = foldl (\<lambda>d p. dict_set (pi_name p) p d) [] ps"

definition validate_bindings ::
  "authoring \<Rightarrow> string \<Rightarrow> parameter_info list \<Rightarrow> (string, argument_binding) dict \<Rightarrow> exn + unit" where
  "validate_bindings A label ps bindings =
     (let unknown = sort (filter (\<lambda>k. k \<notin> pi_name ` set ps) (map fst bindings));
          missing = map pi_name (filter (\<lambda>p. pi_required p \<and> pi_name p \<notin> fst ` set bindings) ps) in
      if unknown \<noteq> []
      then Inl (compilation_error (label @ '' contains bindings for unknown parameters: '' @ list_repr A unknown))
      else if missing \<noteq> []
      then Inl (compilation_error (label @ '' is missing required parameter bindings: '' @ list_repr A missing))
      else Inr ())"

record compiled_parameter =
  cp_key :: string
  cp_display_name :: string
  cp_description :: string
  cp_required :: bool
  cp_has_default :: bool
  cp_default :: json
  cp_type :: string

text \<open>The payload of a binding; \<open>has_default\<close> and \<open>default\<close> are there for operator parameters only.\<close>

record compiled_binding =
  cb_source :: string
  cb_codec :: string
  cb_required :: bool
  cb_metadata_key :: "string option"
  cb_parameter_key :: "string option"
  cb_constant :: json
  cb_default :: "(bool \<times> json) option"

definition same_parameter :: "authoring \<Rightarrow> compiled_parameter \<Rightarrow> compiled_parameter \<Rightarrow> bool" where
  "same_parameter A p q \<longleftrightarrow> cp_key p = cp_key q \<and> cp_display_name p = cp_display_name q \<and>
     cp_description p = cp_description q \<and> cp_required p = cp_required q \<and> cp_has_default p = cp_has_default q \<and>
     au_same A (cp_default p) (cp_default q) \<and> cp_type p = cp_type q"

text \<open>\<open>CompiledParameter(...)\<close> without \<open>parameter_type\<close>: it takes the default of the class.\<close>

definition compiled_parameter_of :: "parameter_info \<Rightarrow> parameter_spec \<Rightarrow> compiled_parameter" where
  "compiled_parameter_of p s =
     \<lparr>cp_key = ps_key s, cp_display_name = (if ps_display_name s = [] then ps_key s else ps_display_name s),
      cp_description = ps_description s, cp_required = (ps_required s \<or> pi_required p),
      cp_has_default = ps_has_default s, cp_default = ps_default s, cp_type = ''str''\<rparr>"

definition compile_binding ::
  "authoring \<Rightarrow> parameter_info \<Rightarrow> argument_binding \<Rightarrow> (string, compiled_parameter) dict
     \<Rightarrow> exn + compiled_binding \<times> (string, compiled_parameter) dict" where
  "compile_binding A p b parameters =
     (let payload = \<lparr>cb_source = source_value (ab_source b), cb_codec = codec_value (ab_codec b),
            cb_required = pi_required p, cb_metadata_key = ab_metadata_key b, cb_parameter_key = None,
            cb_constant = ab_constant b, cb_default = None\<rparr> in
      if ab_source b \<noteq> OperatorParameter then Inr (payload, parameters)
      else (case ab_parameter b of
              None \<Rightarrow> Inl (PyError ''AssertionError'' [])
            | Some s \<Rightarrow>
                (let compiled = compiled_parameter_of p s;
                     conflict = (case dict_get parameters (ps_key s) of
                                   None \<Rightarrow> False | Some old \<Rightarrow> \<not> same_parameter A old compiled) in
                 if conflict
                 then Inl (compilation_error (''conflicting definitions for operator parameter '' @ au_repr A (ps_key s)))
                 else Inr (payload\<lparr>cb_parameter_key := Some (ps_key s), cb_required := cp_required compiled,
                                  cb_default := Some (cp_has_default compiled, cp_default compiled)\<rparr>,
                           dict_set (ps_key s) compiled parameters))))"

fun compile_bindings ::
  "authoring \<Rightarrow> (string, parameter_info) dict \<Rightarrow> (string, argument_binding) dict \<Rightarrow> (string, compiled_parameter) dict
     \<Rightarrow> exn + (string, compiled_binding) dict \<times> (string, compiled_parameter) dict" where
  "compile_bindings A by_name [] parameters = Inr ([], parameters)"
| "compile_bindings A by_name ((name, b) # bindings) parameters =
     (case dict_get by_name name of
        None \<Rightarrow> Inl (PyError ''KeyError'' name)
      | Some p \<Rightarrow>
     (case compile_binding A p b parameters of
        Inl e \<Rightarrow> Inl e
      | Inr (cb, parameters1) \<Rightarrow>
     (case compile_bindings A by_name bindings parameters1 of
        Inl e \<Rightarrow> Inl e
      | Inr (cbs, parameters2) \<Rightarrow> Inr ((name, cb) # cbs, parameters2))))"

section \<open>Target and output\<close>

record plan_target =
  tg_kind :: string
  tg_module :: string
  tg_qualname :: string
  tg_class_target :: "string option"
  tg_method :: "string option"
  tg_class :: "(string \<times> string) option"

text \<open>\<open>class_target.split(":", 1)\<close> unpacked into two names.\<close>

definition split_target :: "string \<Rightarrow> exn + string \<times> string" where
  "split_target t =
     (if CHR '':'' \<notin> set t then Inl (PyError ''ValueError'' ''not enough values to unpack'')
      else Inr (takeWhile ((\<noteq>) CHR '':'') t, tl (dropWhile ((\<noteq>) CHR '':'') t)))"

definition target_payload :: "callable_info \<Rightarrow> exn + plan_target" where
  "target_payload c =
     (let t = \<lparr>tg_kind = kind_value (ci_kind c), tg_module = ci_module c, tg_qualname = ci_qualname c,
               tg_class_target = ci_class c, tg_method = ci_method c, tg_class = None\<rparr> in
      if missing_text (ci_class c) then Inr t
      else (case split_target (get_or [] (ci_class c)) of Inl e \<Rightarrow> Inl e | Inr mc \<Rightarrow> Inr (t\<lparr>tg_class := Some mc\<rparr>)))"

fun json_type_name :: "json \<Rightarrow> string" where
  "json_type_name JNull = ''NoneType''"
| "json_type_name (JBool b) = ''bool''"
| "json_type_name (JInt i) = ''int''"
| "json_type_name (JFloat f) = ''float''"
| "json_type_name (JStr s) = ''str''"
| "json_type_name (JList l) = ''list''"
| "json_type_name (JObj d) = ''dict''"

definition check_output_field :: "authoring \<Rightarrow> string \<times> output_value \<Rightarrow> exn + unit" where
  "check_output_field A fv =
     (let (field, v) = fv in
      if ov_codec v = StreamCodec
      then Inl (compilation_error (''output.'' @ field @ '': unsupported output codec '' @ au_repr A (codec_value (ov_codec v)) @
             ''; binary_stream is input-only''))
      else if ov_codec v = BytesCodec \<and> ov_source v = ConstantOutput \<and> ov_value v \<noteq> JNull \<and> \<not> is_str (ov_value v)
      then Inl (compilation_error (''output.'' @ field @ '': constant of type '' @ json_type_name (ov_value v) @
             '' cannot use bytes; select json''))
      else Inr ())"

fun check_fields :: "authoring \<Rightarrow> (string \<times> output_value) list \<Rightarrow> exn + unit" where
  "check_fields A [] = Inr ()"
| "check_fields A (f # fs) = (case check_output_field A f of Inl e \<Rightarrow> Inl e | Inr _ \<Rightarrow> check_fields A fs)"

definition annotation_prefix :: "authoring \<Rightarrow> string option \<Rightarrow> string" where
  "annotation_prefix A returns =
     takeWhile ((\<noteq>) CHR ''|'') (takeWhile ((\<noteq>) CHR ''['')
       (au_lower A (replace_text '' '' [] (replace_text ''typing.'' [] (get_or [] returns)))))"

definition validate_output_codecs :: "authoring \<Rightarrow> output_spec \<Rightarrow> string option \<Rightarrow> exn + unit" where
  "validate_output_codecs A q returns =
     (case check_fields A ((''payload'', out_payload q) # map (\<lambda>(n, v). (''metadata.'' @ n, v)) (out_metadata q)) of
        Inl e \<Rightarrow> Inl e
      | Inr _ \<Rightarrow>
          if ov_codec (out_payload q) = BytesCodec \<and> ov_source (out_payload q) = ReturnValue \<and>
             annotation_prefix A returns \<in> {''dict'', ''list'', ''tuple'', ''set'', ''mapping'', ''sequence''}
          then Inl (compilation_error (''output.payload: return annotation '' @ au_repr A (get_or [] returns) @
                 '' is structured; select json instead of bytes''))
          else Inr ())"

section \<open>Compiling a contract\<close>

record execution_plan =
  ep_revision :: string
  ep_source_ref :: "string option"
  ep_python_path :: string
  ep_target :: plan_target
  ep_constructor :: "(string, compiled_binding) dict"
  ep_arguments :: "(string, compiled_binding) dict"
  ep_output :: output_spec
  ep_parameters :: "compiled_parameter list"
  ep_input_metadata :: "string list"
  ep_output_metadata :: "string list"
  ep_contract_sha256 :: string

definition warning_text :: "catalog_warning \<Rightarrow> string" where
  "warning_text w = cw_file w @ '':'' @ int_str (get_or 0 (cw_line w)) @ '': '' @ cw_message w"

text \<open>The parameters of the constructor to bind: none unless the callable is an instance method.\<close>

definition constructor_defs ::
  "authoring \<Rightarrow> project_catalog \<Rightarrow> operator_contract \<Rightarrow> callable_info \<Rightarrow> exn + parameter_info list" where
  "constructor_defs A P c ci =
     (if ci_kind ci = InstanceMethod
      then (case class_by_target P (get_or [] (ci_class ci)) of
              None \<Rightarrow> Inl (compilation_error (''selected class not found: '' @ get_or ''None'' (ci_class ci)))
            | Some cls \<Rightarrow>
                (case validate_bindings A ''constructor arguments'' (cl_constructor cls) (oc_constructor c) of
                   Inl e \<Rightarrow> Inl e | Inr _ \<Rightarrow> Inr (cl_constructor cls)))
      else if oc_constructor c \<noteq> []
      then Inl (compilation_error ''constructor arguments are only valid for instance methods'')
      else Inr [])"

definition input_metadata :: "compiled_binding list \<Rightarrow> string list" where
  "input_metadata bs =
     sort (remdups (map (\<lambda>b. get_or [] (cb_metadata_key b))
       (filter (\<lambda>b. cb_source b = source_value InputMetadata \<and> \<not> missing_text (cb_metadata_key b)) bs)))"

definition make_plan ::
  "authoring \<Rightarrow> operator_contract \<Rightarrow> callable_info \<Rightarrow> parameter_info list \<Rightarrow> exn + execution_plan" where
  "make_plan A c ci cdefs =
     (case validate_bindings A ''invoke arguments'' (ci_parameters ci) (oc_arguments c) of Inl e \<Rightarrow> Inl e | Inr _ \<Rightarrow>
     (case compile_bindings A (parameter_map cdefs) (oc_constructor c) [] of Inl e \<Rightarrow> Inl e | Inr (cons, ps1) \<Rightarrow>
     (case compile_bindings A (parameter_map (ci_parameters ci)) (oc_arguments c) ps1 of Inl e \<Rightarrow> Inl e | Inr (args, ps2) \<Rightarrow>
     (case validate_output_codecs A (oc_output c) (ci_returns ci) of Inl e \<Rightarrow> Inl e | Inr _ \<Rightarrow>
     (case target_payload ci of Inl e \<Rightarrow> Inl e | Inr t \<Rightarrow>
        Inr \<lparr>ep_revision = oc_revision c, ep_source_ref = oc_source_ref c, ep_python_path = oc_python_path c,
             ep_target = t, ep_constructor = cons, ep_arguments = args, ep_output = oc_output c,
             ep_parameters = sort_key cp_key (map snd ps2),
             ep_input_metadata = input_metadata (map snd (cons @ args)),
             ep_output_metadata = sort (map fst (out_metadata (oc_output c))),
             ep_contract_sha256 = contract_sha256 A c\<rparr>)))))"

definition compile_virtual_contract :: "authoring \<Rightarrow> project_catalog \<Rightarrow> operator_contract \<Rightarrow> exn + execution_plan" where
  "compile_virtual_contract A P c =
     (let blocking = filter (\<lambda>w. cw_severity w = ''error'') (pc_warnings P) in
      if oc_revision c \<noteq> pc_revision P
      then Inl (compilation_error ''source revision does not match the immutable source snapshot'')
      else if oc_python_path c \<noteq> pc_python_path P
      then Inl (compilation_error ''contract python_path does not match the analyzed project'')
      else if blocking \<noteq> []
      then Inl (compilation_error (''source contains Python syntax errors: '' @ join_with ''; '' (map warning_text blocking)))
      else (case callable_by_id P (oc_callable c) of
              None \<Rightarrow> Inl (compilation_error (''selected callable not found: '' @ oc_callable c))
            | Some ci \<Rightarrow>
                (let reasons = callable_support_reasons A P ci in
                 if reasons \<noteq> [] then Inl (compilation_error (join_with ''; '' reasons))
                 else (case constructor_defs A P c ci of
                         Inl e \<Rightarrow> Inl e
                       | Inr cdefs \<Rightarrow> make_plan A c ci cdefs))))"

end
