(* ===== verification/Authoring_Adapter.thy ===== *)
theory Authoring_Adapter
  imports Authoring_Compiler
begin

text \<open>
  How the bindings of a compiled plan are read: the functions of the template in
  \<open>operator_authoring/adapter_generator.py\<close> that turn a FlowFile's content, attributes and parameters
  into keyword arguments (\<open>_decode\<close>, \<open>_resolve_binding\<close>, \<open>_build_kwargs\<close>) and take the output out of the
  result (\<open>_extract\<close>, \<open>_output_value\<close>). The template as a whole is not a Python module: the body of an
  \<open>if\<close> in \<open>_encode_payload\<close> is not indented, so no generated module can be imported. What is shown below
  is therefore about the plan the compiler makes and these rules, not about a run of the generated
  module; \<open>_encode_payload\<close>, \<open>process\<close> and the look-up of the source directory are not modelled.

  The second part gives contracts a meaning of their own and shows that compiling preserves it.
\<close>

section \<open>Decoding\<close>

text \<open>What the runner hands over: the content, and texts. What a parameter gets.\<close>

datatype raw = RawBytes bytes | RawText string

datatype arg_value = BytesArg bytes | JsonArg json | StreamArg bytes

text \<open>\<open>bytes.decode("utf-8")\<close> and \<open>json.loads\<close>.\<close>

record adapter_env =
  ad_decode :: "bytes \<Rightarrow> exn + string"
  ad_loads :: "string \<Rightarrow> exn + json"

definition text_bytes :: "string \<Rightarrow> bytes" where
  "text_bytes s = map of_char s"

definition raw_text :: "adapter_env \<Rightarrow> raw \<Rightarrow> exn + string" where
  "raw_text D r = (case r of RawBytes b \<Rightarrow> ad_decode D b | RawText s \<Rightarrow> Inr s)"

definition decode :: "adapter_env \<Rightarrow> raw \<Rightarrow> string \<Rightarrow> exn + arg_value" where
  "decode D r codec =
     (if codec = ''bytes'' then Inr (BytesArg (case r of RawBytes b \<Rightarrow> b | RawText s \<Rightarrow> text_bytes s))
      else if codec = ''text'' then (case raw_text D r of Inl e \<Rightarrow> Inl e | Inr s \<Rightarrow> Inr (JsonArg (JStr s)))
      else if codec = ''json''
      then (case raw_text D r of
              Inl e \<Rightarrow> Inl e
            | Inr s \<Rightarrow> (case ad_loads D s of Inl e \<Rightarrow> Inl e | Inr j \<Rightarrow> Inr (JsonArg j)))
      else if codec = ''binary_stream''
      then (case r of
              RawBytes b \<Rightarrow> Inr (StreamArg b)
            | RawText s \<Rightarrow> Inl (PyError ''TypeError'' ''binary_stream codec requires bytes-like input, got str''))
      else Inl (PyError ''ValueError'' (''unsupported codec: '' @ codec)))"

section \<open>Arguments\<close>

record flow_input =
  fi_content :: bytes
  fi_attributes :: "(string, string) dict"
  fi_parameters :: "(string, string) dict"

definition some_value :: "exn + 'a \<Rightarrow> exn + 'a option" where
  "some_value r = (case r of Inl e \<Rightarrow> Inl e | Inr v \<Rightarrow> Inr (Some v))"

text \<open>\<open>None\<close> is \<open>_MISSING\<close>: the argument is left out of the call.\<close>

definition resolve_binding :: "adapter_env \<Rightarrow> flow_input \<Rightarrow> compiled_binding \<Rightarrow> exn + arg_value option" where
  "resolve_binding D I b =
     (if cb_source b = ''input.payload'' then some_value (decode D (RawBytes (fi_content I)) (cb_codec b))
      else if cb_source b = ''input.metadata''
      then (let key = get_or ''None'' (cb_metadata_key b) in
            case Option.bind (cb_metadata_key b) (dict_get (fi_attributes I)) of
              None \<Rightarrow> if cb_required b then Inl (PyError ''ValueError'' (''required input metadata is missing: '' @ key)) else Inr None
            | Some s \<Rightarrow> some_value (decode D (RawText s) (cb_codec b)))
      else if cb_source b = ''operator.parameter''
      then (let key = get_or ''None'' (cb_parameter_key b); (has_default, default) = get_or (False, JNull) (cb_default b) in
            case Option.bind (cb_parameter_key b) (dict_get (fi_parameters I)) of
              Some s \<Rightarrow> some_value (decode D (RawText s) (cb_codec b))
            | None \<Rightarrow>
                if has_default then Inr (Some (JsonArg default))
                else if cb_required b
                then Inl (PyError ''ValueError'' (''required operator parameter is missing: '' @ key))
                else Inr None)
      else if cb_source b = ''constant'' then Inr (Some (JsonArg (cb_constant b)))
      else Inl (PyError ''ValueError'' (''unsupported binding source: '' @ cb_source b)))"

fun build_kwargs ::
  "adapter_env \<Rightarrow> flow_input \<Rightarrow> (string, compiled_binding) dict \<Rightarrow> exn + (string, arg_value) dict" where
  "build_kwargs D I [] = Inr []"
| "build_kwargs D I ((name, b) # bindings) =
     (case resolve_binding D I b of
        Inl e \<Rightarrow> Inl e
      | Inr v \<Rightarrow>
          (case build_kwargs D I bindings of
             Inl e \<Rightarrow> Inl e
           | Inr kw \<Rightarrow> Inr ((case v of None \<Rightarrow> [] | Some x \<Rightarrow> [(name, x)]) @ kw)))"

datatype target_call =
    MethodCall string string "(string, arg_value) dict" string "(string, arg_value) dict"
  | FunctionCall string string "(string, arg_value) dict"

text \<open>The call a plan describes, for the statements: the class and the method or the function it names, with
  the keyword arguments of its bindings. No function of the code computes it.\<close>

definition planned_call :: "adapter_env \<Rightarrow> execution_plan \<Rightarrow> flow_input \<Rightarrow> exn + target_call" where
  "planned_call D plan I =
     (case build_kwargs D I (ep_constructor plan) of
        Inl e \<Rightarrow> Inl e
      | Inr constructor_kwargs \<Rightarrow>
     (case build_kwargs D I (ep_arguments plan) of
        Inl e \<Rightarrow> Inl e
      | Inr invoke_kwargs \<Rightarrow>
          (let t = ep_target plan in
           if tg_kind t = ''instance-method''
           then (case tg_class t of
                   None \<Rightarrow> Inl (PyError ''KeyError'' ''class_module'')
                 | Some (m, q) \<Rightarrow> Inr (MethodCall m q constructor_kwargs (get_or ''None'' (tg_method t)) invoke_kwargs))
           else Inr (FunctionCall (tg_module t) (tg_qualname t) invoke_kwargs))))"

section \<open>Taking the output out of the result\<close>

text \<open>The result is any Python object; indexing, the test for a dictionary and attributes are its own.\<close>

record 'o objects =
  ob_index :: "'o \<Rightarrow> int \<Rightarrow> exn + 'o"
  ob_is_dict :: "'o \<Rightarrow> bool"
  ob_key :: "'o \<Rightarrow> string \<Rightarrow> exn + 'o"
  ob_attr :: "'o \<Rightarrow> string \<Rightarrow> exn + 'o"
  ob_json :: "json \<Rightarrow> 'o"

fun extract_path :: "'o objects \<Rightarrow> 'o \<Rightarrow> path_part list \<Rightarrow> exn + 'o" where
  "extract_path Q v [] = Inr v"
| "extract_path Q v (part # path) =
     (case (case part of
              Position i \<Rightarrow> ob_index Q v i
            | Field s \<Rightarrow> if ob_is_dict Q v then ob_key Q v s else ob_attr Q v s) of
        Inl e \<Rightarrow> Inl e
      | Inr w \<Rightarrow> extract_path Q w path)"

definition output_of :: "'o objects \<Rightarrow> 'o \<Rightarrow> output_value \<Rightarrow> exn + 'o" where
  "output_of Q result v =
     (case ov_source v of
        ReturnValue \<Rightarrow> Inr result
      | ReturnPath \<Rightarrow> extract_path Q result (ov_path v)
      | ConstantOutput \<Rightarrow> Inr (ob_json Q (ov_value v)))"

section \<open>What a contract means\<close>

text \<open>The value a contract gives a parameter of the callable, \<open>None\<close> when the callable's own default
  applies.\<close>

definition bound_value ::
  "adapter_env \<Rightarrow> flow_input \<Rightarrow> parameter_info \<Rightarrow> argument_binding \<Rightarrow> exn + arg_value option" where
  "bound_value D I p b =
     (case ab_source b of
        InputPayload \<Rightarrow> some_value (decode D (RawBytes (fi_content I)) (codec_value (ab_codec b)))
      | InputMetadata \<Rightarrow>
          (let key = get_or [] (ab_metadata_key b) in
           case dict_get (fi_attributes I) key of
             Some s \<Rightarrow> some_value (decode D (RawText s) (codec_value (ab_codec b)))
           | None \<Rightarrow> if pi_required p then Inl (PyError ''ValueError'' (''required input metadata is missing: '' @ key)) else Inr None)
      | OperatorParameter \<Rightarrow>
          (let s = the (ab_parameter b) in
           case dict_get (fi_parameters I) (ps_key s) of
             Some t \<Rightarrow> some_value (decode D (RawText t) (codec_value (ab_codec b)))
           | None \<Rightarrow>
               if ps_has_default s then Inr (Some (JsonArg (ps_default s)))
               else if ps_required s \<or> pi_required p
               then Inl (PyError ''ValueError'' (''required operator parameter is missing: '' @ ps_key s))
               else Inr None)
      | ConstantValue \<Rightarrow> Inr (Some (JsonArg (ab_constant b))))"

fun bound_kwargs ::
  "adapter_env \<Rightarrow> flow_input \<Rightarrow> parameter_info list \<Rightarrow> (string, argument_binding) dict \<Rightarrow> exn + (string, arg_value) dict" where
  "bound_kwargs D I ps [] = Inr []"
| "bound_kwargs D I ps ((name, b) # bindings) =
     (case bound_value D I (the (List.find (\<lambda>p. pi_name p = name) ps)) b of
        Inl e \<Rightarrow> Inl e
      | Inr v \<Rightarrow>
          (case bound_kwargs D I ps bindings of
             Inl e \<Rightarrow> Inl e
           | Inr kw \<Rightarrow> Inr ((case v of None \<Rightarrow> [] | Some x \<Rightarrow> [(name, x)]) @ kw)))"

text \<open>A call with keyword arguments alone is accepted: every required parameter gets an argument, every
  argument has a parameter, and the parameters can be given by keyword.\<close>

definition accepts :: "parameter_info list \<Rightarrow> (string, arg_value) dict \<Rightarrow> bool" where
  "accepts ps kw \<longleftrightarrow> distinct (map fst kw) \<and> list_all supported_kind ps \<and>
     (\<forall>p \<in> set ps. pi_required p \<longrightarrow> pi_name p \<in> fst ` set kw) \<and> fst ` set kw \<subseteq> pi_name ` set ps"

section \<open>Compiling preserves the meaning\<close>

lemma compiled_parameter_simps [simp]:
  "cp_required (compiled_parameter_of p s) = (ps_required s \<or> pi_required p)"
  "cp_has_default (compiled_parameter_of p s) = ps_has_default s" "cp_default (compiled_parameter_of p s) = ps_default s"
  "cp_key (compiled_parameter_of p s) = ps_key s" "cp_type (compiled_parameter_of p s) = ''str''"
  by (simp_all add: compiled_parameter_of_def)

lemma compile_binding_fields:
  assumes "compile_binding A p b parameters = Inr (cb, parameters')"
  shows "cb_source cb = source_value (ab_source b) \<and> cb_codec cb = codec_value (ab_codec b) \<and>
    cb_metadata_key cb = ab_metadata_key b \<and> cb_constant cb = ab_constant b"
    "ab_source b \<noteq> OperatorParameter \<Longrightarrow> cb_required cb = pi_required p \<and> parameters' = parameters"
    "ab_source b = OperatorParameter \<Longrightarrow> \<exists>s. ab_parameter b = Some s \<and> cb_parameter_key cb = Some (ps_key s) \<and>
       cb_required cb = (ps_required s \<or> pi_required p) \<and> cb_default cb = Some (ps_has_default s, ps_default s) \<and>
       parameters' = dict_set (ps_key s) (compiled_parameter_of p s) parameters \<and>
       (\<forall>q. dict_get parameters (ps_key s) = Some q \<longrightarrow> same_parameter A q (compiled_parameter_of p s))"
  using assms by (auto simp: compile_binding_def Let_def split: if_splits option.splits)

lemma resolve_compiled:
  assumes "compile_binding A p b parameters = Inr (cb, parameters')" "binding_ok b"
  shows "resolve_binding D I cb = bound_value D I p b"
proof -
  note f = compile_binding_fields [OF assms(1)]
  show ?thesis
  proof (cases "ab_source b")
    case InputPayload
    with f(1) show ?thesis by (simp add: resolve_binding_def bound_value_def)
  next
    case InputMetadata
    with assms(2) obtain k where "ab_metadata_key b = Some k" by (auto simp: binding_ok_def missing_text_def)
    with InputMetadata f(1,2) show ?thesis
      by (simp add: resolve_binding_def bound_value_def Let_def split: option.split)
  next
    case OperatorParameter
    from f(3) [OF this] OperatorParameter f(1) show ?thesis
      by (auto simp: resolve_binding_def bound_value_def Let_def split: option.split)
  next
    case ConstantValue
    with f(1) show ?thesis by (simp add: resolve_binding_def bound_value_def)
  qed
qed

lemma parameter_map_find:
  assumes "distinct (map pi_name ps)"
  shows "dict_get (parameter_map ps) name = List.find (\<lambda>p. pi_name p = name) ps"
  using assms
proof (induction ps rule: rev_induct)
  case (snoc p ps)
  have "dict_get (parameter_map (ps @ [p])) name = (if pi_name p = name then Some p else dict_get (parameter_map ps) name)"
    by (simp add: parameter_map_def update_conv')
  moreover have "List.find (\<lambda>q. pi_name q = name) ps = None" if "pi_name p = name"
    unfolding find_None_iff using snoc.prems that by (metis Un_iff distinct_append disjoint_iff image_eqI list.simps(15) list.set_map insertI1 list.simps(9) map_append)
  ultimately show ?case using snoc by (auto split: option.split)
qed (simp add: parameter_map_def)

lemma compile_bindings_kwargs:
  assumes "compile_bindings A (parameter_map ps) bindings parameters = Inr (cbs, parameters')" "distinct (map pi_name ps)"
    and "\<forall>b \<in> snd ` set bindings. binding_ok b"
  shows "build_kwargs D I cbs = bound_kwargs D I ps bindings"
  using assms(1,3)
proof (induction bindings arbitrary: parameters cbs)
  case (Cons nb bindings)
  obtain name b where nb: "nb = (name, b)" by (cases nb)
  from Cons.prems(1) nb obtain p cb ps1 cbs' where
    p: "dict_get (parameter_map ps) name = Some p" and c: "compile_binding A p b parameters = Inr (cb, ps1)"
    and r: "compile_bindings A (parameter_map ps) bindings ps1 = Inr (cbs', parameters')" and cbs: "cbs = (name, cb) # cbs'"
    by (auto split: option.splits sum.splits)
  have "resolve_binding D I cb = bound_value D I p b" using Cons.prems(2) nb by (intro resolve_compiled [OF c]) simp
  moreover have "the (List.find (\<lambda>q. pi_name q = name) ps) = p" using p parameter_map_find [OF assms(2)] by simp
  moreover have "build_kwargs D I cbs' = bound_kwargs D I ps bindings" using Cons.IH [OF r] Cons.prems(2) by simp
  ultimately show ?case using nb cbs by (simp split: sum.split)
qed simp

text \<open>What a contract gives to a callable's parameters is a call the callable accepts.\<close>

lemma bound_kwargs_Cons:
  assumes "bound_kwargs D I ps ((name, b) # bindings) = Inr kw"
  obtains v kw' where "bound_value D I (the (List.find (\<lambda>p. pi_name p = name) ps)) b = Inr v"
    "bound_kwargs D I ps bindings = Inr kw'" "kw = (case v of None \<Rightarrow> [] | Some x \<Rightarrow> [(name, x)]) @ kw'"
  using assms by (auto split: sum.splits)

lemma bound_kwargs_keys: "bound_kwargs D I ps bindings = Inr kw \<Longrightarrow> fst ` set kw \<subseteq> fst ` set bindings"
proof (induction bindings arbitrary: kw)
  case (Cons nb bindings)
  obtain name b where nb: "nb = (name, b)" by (cases nb)
  from Cons.prems [unfolded nb] show ?case
    proof (rule bound_kwargs_Cons)
    fix v kw'
    assume r: "bound_kwargs D I ps bindings = Inr kw'" and kw: "kw = (case v of None \<Rightarrow> [] | Some x \<Rightarrow> [(name, x)]) @ kw'"
    from Cons.IH [OF r] show ?thesis unfolding kw nb by (auto split: option.splits)
  qed
qed simp

lemma bound_kwargs_distinct:
  "bound_kwargs D I ps bindings = Inr kw \<Longrightarrow> distinct (map fst bindings) \<Longrightarrow> distinct (map fst kw)"
proof (induction bindings arbitrary: kw)
  case (Cons nb bindings)
  obtain name b where nb: "nb = (name, b)" by (cases nb)
  from Cons.prems(1) [unfolded nb] obtain v kw' where r: "bound_kwargs D I ps bindings = Inr kw'"
    and kw: "kw = (case v of None \<Rightarrow> [] | Some x \<Rightarrow> [(name, x)]) @ kw'" by (rule bound_kwargs_Cons)
  from bound_kwargs_keys [OF r] Cons.IH [OF r] Cons.prems(2) nb kw show ?case by (auto split: option.split)
qed simp

lemma bound_required:
  assumes "bound_value D I p b = Inr v" "pi_required p"
  shows "v \<noteq> None"
  using assms by (auto simp: bound_value_def some_value_def Let_def split: binding_source.splits option.splits sum.splits if_splits)

lemma bound_kwargs_required:
  assumes "bound_kwargs D I ps bindings = Inr kw" "p \<in> set ps" "distinct (map pi_name ps)" "pi_required p"
    and "pi_name p \<in> fst ` set bindings"
  shows "pi_name p \<in> fst ` set kw"
  using assms(1,5)
proof (induction bindings arbitrary: kw)
  case (Cons nb bindings)
  obtain name b where nb: "nb = (name, b)" by (cases nb)
  from Cons.prems(1) [unfolded nb] obtain v kw' where r: "bound_kwargs D I ps bindings = Inr kw'"
    and v: "bound_value D I (the (List.find (\<lambda>p. pi_name p = name) ps)) b = Inr v"
    and kw: "kw = (case v of None \<Rightarrow> [] | Some x \<Rightarrow> [(name, x)]) @ kw'" by (rule bound_kwargs_Cons)
  show ?case
  proof (cases "pi_name p = name")
    case True
    have "List.find (\<lambda>q. pi_name q = name) ps = Some p"
      by (rule find_unique [OF assms(3,2)]) (use True in auto)
    with v bound_required [OF _ assms(4)] have "v \<noteq> None" by simp
    with kw True show ?thesis by auto
  next
    case False
    with Cons.prems(2) nb have "pi_name p \<in> fst ` set bindings" by auto
    from Cons.IH [OF r this] kw show ?thesis by auto
  qed
qed simp

lemma validate_bindings_keys:
  assumes "validate_bindings A label ps bindings = Inr u"
  shows "fst ` set bindings \<subseteq> pi_name ` set ps" "\<forall>p \<in> set ps. pi_required p \<longrightarrow> pi_name p \<in> fst ` set bindings"
proof -
  let ?unknown = "filter (\<lambda>k. k \<notin> pi_name ` set ps) (map fst bindings)"
  from assms have "sort ?unknown = []" "filter (\<lambda>p. pi_required p \<and> pi_name p \<notin> fst ` set bindings) ps = []"
    by (auto simp: validate_bindings_def Let_def split: if_splits)
  moreover from this(1) have "set ?unknown = {}" by (metis set_sort set_empty)
  ultimately show "fst ` set bindings \<subseteq> pi_name ` set ps"
    "\<forall>p \<in> set ps. pi_required p \<longrightarrow> pi_name p \<in> fst ` set bindings"
    by (auto simp: filter_empty_conv)
qed

lemma bound_accepts:
  assumes "validate_bindings A label ps bindings = Inr u" "bound_kwargs D I ps bindings = Inr kw"
    and "distinct (map pi_name ps)" "distinct (map fst bindings)" "list_all supported_kind ps"
  shows "accepts ps kw"
proof -
  have "pi_name p \<in> fst ` set kw" if "p \<in> set ps" "pi_required p" for p
    using validate_bindings_keys(2) [OF assms(1)] that by (intro bound_kwargs_required [OF assms(2) _ assms(3)]) auto
  moreover have "fst ` set kw \<subseteq> pi_name ` set ps"
    using validate_bindings_keys(1) [OF assms(1)] bound_kwargs_keys [OF assms(2)] by (rule order_trans [rotated])
  ultimately show ?thesis using bound_kwargs_distinct [OF assms(2,4)] assms(5) by (simp add: accepts_def)
qed

end
