(* ===== verification/Authoring_Scanner.thy ===== *)
theory Authoring_Scanner
  imports Authoring_Compiler Text
begin

text \<open>
  The scanner (\<open>operator_authoring/ast_scanner.py\<close>): it finds the functions and classes of a project in
  the syntax trees of its files and hashes the workspace. Python's parser, \<open>ast.unparse\<close>,
  \<open>ast.literal_eval\<close>, \<open>isidentifier\<close>, \<open>lower\<close> and SHA-256 are arguments; expressions are opaque.
\<close>

section \<open>Syntax trees\<close>

record 'e py_arg =
  arg_name :: string
  arg_annotation :: "'e option"

text \<open>\<open>ast.arguments\<close>: the defaults belong to the last positional parameters.\<close>

record 'e py_arguments =
  ar_posonly :: "'e py_arg list"
  ar_args :: "'e py_arg list"
  ar_defaults :: "'e list"
  ar_vararg :: "'e py_arg option"
  ar_kwonly :: "'e py_arg list"
  ar_kw_defaults :: "'e option list"
  ar_kwarg :: "'e py_arg option"

datatype decorator = DecName string | DecAttribute decorator string | DecCall decorator | DecOther

record 'e py_def =
  df_name :: string
  df_async :: bool
  df_arguments :: "'e py_arguments"
  df_decorators :: "decorator list"
  df_returns :: "'e option"
  df_line :: int

datatype 'e statement = DefStatement "'e py_def" | ClassStatement string int "'e statement list" | OtherStatement

text \<open>Reading and parsing a file: its statements, a syntax or encoding error, any other exception.\<close>

datatype 'e parsed = Parsed "'e statement list" | NotPython "int option" string | Unreadable exn

record 'e source_file =
  sf_parts :: path
  sf_symlink :: bool
  sf_parsed :: "'e parsed"

record 'e scanner =
  sn_unparse :: "'e \<Rightarrow> string option"
  sn_literal :: "'e \<Rightarrow> json option"
  sn_identifier :: "string \<Rightarrow> bool"
  sn_lower :: "string \<Rightarrow> string"
  sn_repr :: "string \<Rightarrow> string"

definition EXCLUDED_DIRS :: "string list" where
  "EXCLUDED_DIRS =
     [''.git'', ''.idea'', ''.vscode'', ''.qoder'', ''__pycache__'', ''.ipynb_checkpoints'', ''.pytest_cache'',
      ''.mypy_cache'', ''venv'', ''.venv'', ''site-packages'', ''dist'', ''build'']"

definition excluded :: "path \<Rightarrow> bool" where
  "excluded p \<longleftrightarrow> list_ex (\<lambda>c. c \<in> set EXCLUDED_DIRS) p"

section \<open>Parameters\<close>

definition unparse_opt :: "'e scanner \<Rightarrow> 'e option \<Rightarrow> string option" where
  "unparse_opt N e = Option.bind e (sn_unparse N)"

definition literal_value :: "'e scanner \<Rightarrow> 'e option \<Rightarrow> bool \<times> json" where
  "literal_value N e = (case Option.bind e (sn_literal N) of None \<Rightarrow> (False, JNull) | Some j \<Rightarrow> (True, j))"

definition parameter_of :: "'e scanner \<Rightarrow> string \<Rightarrow> 'e py_arg \<Rightarrow> 'e option \<Rightarrow> parameter_info" where
  "parameter_of N kind a dflt =
     \<lparr>pi_name = arg_name a, pi_kind = kind, pi_annotation = unparse_opt N (arg_annotation a),
      pi_required = (dflt = None), pi_has_default = fst (literal_value N dflt),
      pi_default = snd (literal_value N dflt), pi_default_repr = unparse_opt N dflt\<rparr>"

definition variadic :: "'e scanner \<Rightarrow> string \<Rightarrow> 'e py_arg option \<Rightarrow> parameter_info list" where
  "variadic N kind a =
     (case a of
        None \<Rightarrow> []
      | Some v \<Rightarrow> [\<lparr>pi_name = arg_name v, pi_kind = kind, pi_annotation = unparse_opt N (arg_annotation v),
                   pi_required = False, pi_has_default = False, pi_default = JNull, pi_default_repr = None\<rparr>])"

text \<open>The positional parameters, each with its kind and its default.\<close>

definition positional :: "'e py_arguments \<Rightarrow> ('e py_arg \<times> string \<times> 'e option) list" where
  "positional a =
     (let ps = ar_posonly a @ ar_args a; offset = length ps - length (ar_defaults a) in
      map (\<lambda>i. (ps ! i,
                if i < length (ar_posonly a) then ''POSITIONAL_ONLY'' else ''POSITIONAL_OR_KEYWORD'',
                if offset \<le> i then Some (ar_defaults a ! (i - offset)) else None)) [0 ..< length ps])"

definition dropped :: "bool \<Rightarrow> ('e py_arg \<times> string \<times> 'e option) list \<Rightarrow> ('e py_arg \<times> string \<times> 'e option) list" where
  "dropped drop_first ps =
     (case ps of
        p # rest \<Rightarrow> if drop_first \<and> arg_name (fst p) \<in> {''self'', ''cls''} then rest else ps
      | [] \<Rightarrow> [])"

definition parameter_infos :: "'e scanner \<Rightarrow> bool \<Rightarrow> 'e py_arguments \<Rightarrow> parameter_info list" where
  "parameter_infos N drop_first a =
     map (\<lambda>(p, kind, dflt). parameter_of N kind p dflt) (dropped drop_first (positional a)) @
     variadic N ''VAR_POSITIONAL'' (ar_vararg a) @
     map (\<lambda>(p, dflt). parameter_of N ''KEYWORD_ONLY'' p dflt) (zip (ar_kwonly a) (ar_kw_defaults a)) @
     variadic N ''VAR_KEYWORD'' (ar_kwarg a)"

section \<open>Callables\<close>

fun decorator_name :: "decorator \<Rightarrow> string" where
  "decorator_name (DecName i) = i"
| "decorator_name (DecAttribute d attr) =
     (let prefix = decorator_name d in if prefix = [] then attr else prefix @ ''.'' @ attr)"
| "decorator_name (DecCall d) = decorator_name d"
| "decorator_name DecOther = []"

definition NAME_WEIGHTS :: "(string, int) dict" where
  "NAME_WEIGHTS =
     [(''run'', 100), (''process'', 95), (''predict'', 90), (''transform'', 85), (''execute'', 80), (''convert'', 80),
      (''calculate'', 80), (''handle'', 75), (''infer'', 75), (''main'', 20)]"

definition callable_score :: "'e scanner \<Rightarrow> string \<Rightarrow> string list \<Rightarrow> int" where
  "callable_score N name decorators =
     dict_get_or NAME_WEIGHTS (sn_lower N name) 10 - (if starts_with ''_'' name then 25 else 0) +
     (if list_ex (\<lambda>d. d \<in> {''operator'', ''dsc.operator'', ''dsc_sdk.operator''}) decorators then 100 else 0)"

definition method_kind :: "string list \<Rightarrow> callable_kind" where
  "method_kind decorators =
     (if ''staticmethod'' \<in> set decorators then StaticMethod
      else if ''classmethod'' \<in> set decorators then ClassMethod else InstanceMethod)"

definition callable_of ::
  "'e scanner \<Rightarrow> string \<Rightarrow> string \<Rightarrow> string \<Rightarrow> callable_kind \<Rightarrow> (string \<times> string) option \<Rightarrow> 'e py_def \<Rightarrow> callable_info" where
  "callable_of N module qualname file kind cls d =
     (let decorators = map decorator_name (df_decorators d) in
      \<lparr>ci_id = module @ '':'' @ qualname, ci_module = module, ci_qualname = qualname, ci_kind = kind,
       ci_class = map_option fst cls, ci_method = map_option snd cls, ci_file = file, ci_line = df_line d,
       ci_async = df_async d, ci_decorators = decorators, ci_score = callable_score N (df_name d) decorators,
       ci_parameters = parameter_infos N (kind \<in> {InstanceMethod, ClassMethod}) (df_arguments d),
       ci_returns = unparse_opt N (df_returns d)\<rparr>)"

text \<open>The methods of a class body and its constructor: the last \<open>__init__\<close>.\<close>

definition dunder :: "string \<Rightarrow> bool" where
  "dunder name \<longleftrightarrow> starts_with ''__'' name \<and> ends_with ''__'' name"

fun body_defs :: "'e statement list \<Rightarrow> 'e py_def list" where
  "body_defs [] = []"
| "body_defs (DefStatement d # b) = d # body_defs b"
| "body_defs (_ # b) = body_defs b"

definition class_constructor :: "'e scanner \<Rightarrow> 'e statement list \<Rightarrow> parameter_info list" where
  "class_constructor N body =
     (case filter (\<lambda>d. df_name d = ''__init__'') (body_defs body) of
        [] \<Rightarrow> []
      | ds \<Rightarrow> parameter_infos N True (df_arguments (last ds)))"

definition class_of :: "'e scanner \<Rightarrow> string \<Rightarrow> string \<Rightarrow> string \<Rightarrow> int \<Rightarrow> 'e statement list \<Rightarrow> class_info" where
  "class_of N module file name line body =
     (let target = module @ '':'' @ name in
      \<lparr>cl_id = target, cl_module = module, cl_qualname = name, cl_target = target, cl_file = file, cl_line = line,
       cl_constructor = class_constructor N body,
       cl_methods = map (\<lambda>d. callable_of N module (name @ ''.'' @ df_name d) file
                           (method_kind (map decorator_name (df_decorators d))) (Some (target, df_name d)) d)
                      (filter (\<lambda>d. \<not> dunder (df_name d)) (body_defs body))\<rparr>)"

section \<open>Projects\<close>

definition py_module_name :: "path \<Rightarrow> string" where
  "py_module_name parts =
     (let name = last parts in
      join_with ''.'' (if name = ''__init__.py'' then butlast parts
                     else if name = ''.py'' then parts
                     else butlast parts @ [take (length name - 3) name]))"

definition valid_module_name :: "'e scanner \<Rightarrow> string \<Rightarrow> bool" where
  "valid_module_name N v \<longleftrightarrow> v \<noteq> [] \<and> list_all (sn_identifier N) (split_on CHR ''.'' v)"

type_synonym findings = "callable_info list \<times> class_info list \<times> catalog_warning list"

definition add_found :: "findings \<Rightarrow> findings \<Rightarrow> findings" where
  "add_found f g = (case f of (fs, cs, ws) \<Rightarrow> case g of (fs', cs', ws') \<Rightarrow> (fs @ fs', cs @ cs', ws @ ws'))"

definition scan_statement :: "'e scanner \<Rightarrow> string \<Rightarrow> string \<Rightarrow> 'e statement \<Rightarrow> findings" where
  "scan_statement N module file s =
     (case s of
        DefStatement d \<Rightarrow> ([callable_of N module (df_name d) file PlainFunction None d], [], [])
      | ClassStatement name line body \<Rightarrow> ([], [class_of N module file name line body], [])
      | OtherStatement \<Rightarrow> ([], [], []))"

definition scan_file :: "'e scanner \<Rightarrow> string \<Rightarrow> path \<Rightarrow> 'e source_file \<Rightarrow> exn + findings" where
  "scan_file N python_path relative f =
     (let module = py_module_name (sf_parts f); file = join_with ''/'' relative in
      if \<not> valid_module_name N module
      then Inr ([], [], [\<lparr>cw_severity = ''warning'', cw_file = file, cw_line = None,
             cw_message = ''file is not importable from python_path='' @ sn_repr N python_path @ ''; module='' @ sn_repr N module\<rparr>])
      else (case sf_parsed f of
              Unreadable e \<Rightarrow> Inl e
            | NotPython line m \<Rightarrow> Inr ([], [], [\<lparr>cw_severity = ''error'', cw_file = file, cw_line = line, cw_message = m\<rparr>])
            | Parsed body \<Rightarrow> Inr (foldr (\<lambda>s. add_found (scan_statement N module file s)) body ([], [], []))))"

fun scan_files :: "'e scanner \<Rightarrow> string \<Rightarrow> path \<Rightarrow> 'e source_file list \<Rightarrow> exn + findings" where
  "scan_files N python_path prefix [] = Inr ([], [], [])"
| "scan_files N python_path prefix (f # fs) =
     (let relative = prefix @ sf_parts f in
      if excluded relative \<or> starts_with ''test_'' (last (sf_parts f)) \<or> sf_symlink f
      then scan_files N python_path prefix fs
      else (case scan_file N python_path relative f of
              Inl e \<Rightarrow> Inl e
            | Inr found \<Rightarrow>
                (case scan_files N python_path prefix fs of Inl e \<Rightarrow> Inl e | Inr later \<Rightarrow> Inr (add_found found later))))"

section \<open>The revision of the sources\<close>

record workspace_entry =
  we_parts :: path
  we_symlink :: bool
  we_file :: bool
  we_bytes :: bytes

text \<open>SHA-256 and the hexadecimal text of a digest.\<close>

record hashing =
  hs_digest :: "bytes \<Rightarrow> bytes"
  hs_hex :: "bytes \<Rightarrow> string"

definition relative_bytes :: "workspace_entry \<Rightarrow> bytes" where
  "relative_bytes e = map of_char (join_with ''/'' (we_parts e))"

fun revision_stream :: "hashing \<Rightarrow> workspace_entry list \<Rightarrow> exn + bytes" where
  "revision_stream H [] = Inr []"
| "revision_stream H (e # es) =
     (if excluded (we_parts e) then revision_stream H es
      else if we_symlink e
      then Inl (PyError ''ValueError'' (''symlinks are not allowed in operator workspace: '' @ join_with ''/'' (we_parts e)))
      else if \<not> we_file e then revision_stream H es
      else (case revision_stream H es of
              Inl x \<Rightarrow> Inl x
            | Inr s \<Rightarrow> Inr (relative_bytes e @ [0] @ hs_digest H (we_bytes e) @ [0] @ s)))"

definition source_revision :: "hashing \<Rightarrow> workspace_entry list \<Rightarrow> exn + string" where
  "source_revision H es =
     (case revision_stream H (sort_key (\<lambda>e. join_with ''/'' (we_parts e)) es) of
        Inl x \<Rightarrow> Inl x | Inr s \<Rightarrow> Inr (hs_hex H (hs_digest H s)))"

record 'e workspace =
  wk_root :: path
  wk_entries :: "workspace_entry list"
  wk_is_dir :: "path \<Rightarrow> bool"
  wk_python_files :: "path \<Rightarrow> 'e source_file list"

definition scan_project :: "'e scanner \<Rightarrow> hashing \<Rightarrow> 'e workspace \<Rightarrow> string \<Rightarrow> exn + project_catalog" where
  "scan_project N H W python_path =
     (let root = join_path (wk_root W) python_path; prefix = drop (length (wk_root W)) root in
      if take (length (wk_root W)) root \<noteq> wk_root W then Inl (PyError ''ValueError'' ''python_path escapes the workspace'')
      else if \<not> wk_is_dir W root then Inl (PyError ''ValueError'' (''python_path does not exist: '' @ python_path))
      else (case scan_files N python_path prefix (sort_key sf_parts (wk_python_files W root)) of
              Inl e \<Rightarrow> Inl e
            | Inr (fs, cs, ws) \<Rightarrow>
                (case source_revision H (wk_entries W) of
                   Inl e \<Rightarrow> Inl e
                 | Inr revision \<Rightarrow> Inr \<lparr>pc_revision = revision, pc_python_path = python_path, pc_functions = by_score fs,
                                   pc_classes = sort_key cl_id cs, pc_warnings = ws\<rparr>)))"

text \<open>
  Snapshots of a workspace, its requirements (\<open>operator_authoring/snapshot.py\<close>) and the suggested
  bindings (\<open>operator_authoring/inference.py\<close>), with what a snapshot keeps: the revision of the sources,
  and a bound on their size.
\<close>

definition snapshot_error :: "string \<Rightarrow> exn" where
  "snapshot_error m = PyError ''SnapshotError'' m"

section \<open>Snapshots\<close>

definition posix :: "workspace_entry \<Rightarrow> string" where
  "posix e = join_with ''/'' (we_parts e)"

text \<open>The copies made until the end or the first error: directories and files, below the destination. An
  entry that is neither a file nor a directory is skipped; \<open>is_dir\<close> tells directories.\<close>

fun copy_entries ::
  "(path \<Rightarrow> bool) \<Rightarrow> nat \<Rightarrow> nat \<Rightarrow> workspace_entry list \<Rightarrow> workspace_entry list \<times> (exn + unit)" where
  "copy_entries is_dir max_bytes copied [] = ([], Inr ())"
| "copy_entries is_dir max_bytes copied (e # es) =
     (if excluded (we_parts e) then copy_entries is_dir max_bytes copied es
      else if we_symlink e
      then ([], Inl (snapshot_error (''symlinks are not allowed in operator workspace: '' @ posix e)))
      else if is_dir (we_parts e)
      then (case copy_entries is_dir max_bytes copied es of (cs, r) \<Rightarrow> (e # cs, r))
      else if \<not> we_file e then copy_entries is_dir max_bytes copied es
      else (let copied' = copied + length (we_bytes e) in
            if max_bytes < copied'
            then ([], Inl (snapshot_error (''workspace source exceeds '' @ nat_str max_bytes @ '' bytes'')))
            else (case copy_entries is_dir max_bytes copied' es of (cs, r) \<Rightarrow> (e # cs, r))))"

definition snapshot_workspace ::
  "(path \<Rightarrow> bool) \<Rightarrow> nat \<Rightarrow> bool \<Rightarrow> workspace_entry list \<Rightarrow> workspace_entry list \<times> (exn + unit)" where
  "snapshot_workspace is_dir max_bytes source_exists es =
     (if \<not> source_exists then ([], Inl (snapshot_error ''workspace does not exist''))
      else if \<not> list_ex (\<lambda>e. we_parts e = [''requirements.txt''] \<and> we_file e) es
      then ([], Inl (snapshot_error ''workspace root must contain requirements.txt; it may be empty''))
      else copy_entries is_dir max_bytes 0 (sort_key posix es))"

section \<open>Requirements\<close>

definition backslash :: char where
  "backslash = CHR 0x5C"

definition cut_comment :: "string \<Rightarrow> string" where
  "cut_comment line = (if contains '' #'' line then rstrip (hd (split_text '' #'' line)) else line)"

fun requirement_lines :: "nat \<Rightarrow> string list \<Rightarrow> exn + string list" where
  "requirement_lines n [] = Inr []"
| "requirement_lines n (raw # raws) =
     (let line = strip raw in
      if line = [] \<or> starts_with ''#'' line then requirement_lines (n + 1) raws
      else if ends_with [backslash] line
      then Inl (snapshot_error (''requirements.txt line '' @ nat_str n @ '': line continuations are not supported''))
      else if starts_with ''-'' line
      then Inl (snapshot_error (''requirements.txt line '' @ nat_str n @
             '': pip options/includes are not supported; configure package indexes in Build Service''))
      else (case requirement_lines (n + 1) raws of
              Inl e \<Rightarrow> Inl e
            | Inr rs \<Rightarrow> Inr (if cut_comment line = [] then rs else cut_comment line # rs)))"

definition read_requirements :: "string option \<Rightarrow> exn + string list" where
  "read_requirements text =
     (case text of
        None \<Rightarrow> Inl (snapshot_error ''requirements.txt is required'')
      | Some t \<Rightarrow> requirement_lines 1 (splitlines t))"

section \<open>Suggested bindings\<close>

definition CONTENT_NAMES :: "string list" where
  "CONTENT_NAMES =
     [''content'', ''payload'', ''body'', ''data'', ''input'', ''record'', ''order'', ''request'', ''document'']"

definition METADATA_NAMES :: "(string, string) dict" where
  "METADATA_NAMES =
     [(''filename'', ''filename''), (''file_name'', ''filename''), (''mime_type'', ''mime.type''),
      (''mimetype'', ''mime.type''), (''path'', ''path''), (''uuid'', ''uuid'')]"

text \<open>Confidences in hundredths; the key of the metadata or of the operator parameter.\<close>

record suggestion =
  sg_source :: binding_source
  sg_codec :: codec
  sg_key :: "string option"
  sg_display_name :: string
  sg_required :: bool
  sg_has_default :: bool
  sg_default :: json
  sg_confidence :: int

definition codec_for :: "'e scanner \<Rightarrow> parameter_info \<Rightarrow> bool \<Rightarrow> codec" where
  "codec_for N p payload =
     (let annotation = sn_lower N (replace_text '' '' [] (get_or [] (pi_annotation p))); name = sn_lower N (pi_name p) in
      if contains ''bytes'' annotation \<or> contains ''bytearray'' annotation then BytesCodec
      else if contains ''dict'' annotation \<or> contains ''list'' annotation \<or> contains ''json'' name \<or>
              name \<in> {''record'', ''order'', ''document''} then JsonCodec
      else if contains ''str'' annotation then TextCodec
      else if payload then BytesCodec else TextCodec)"

definition parameter_suggestions ::
  "'e scanner \<Rightarrow> (string \<Rightarrow> string) \<Rightarrow> parameter_info \<Rightarrow> nat \<Rightarrow> bool \<Rightarrow> suggestion list" where
  "parameter_suggestions N title p index constructor =
     (let name = sn_lower N (pi_name p); content = (name \<in> set CONTENT_NAMES);
          no_key = \<lparr>sg_source = InputPayload, sg_codec = codec_for N p True, sg_key = None, sg_display_name = [],
             sg_required = False, sg_has_default = False, sg_default = JNull,
             sg_confidence = (if content then 95 else 60)\<rparr> in
      sort_key (\<lambda>s. - sg_confidence s)
        ((if \<not> constructor \<and> (content \<or> index = 0) then [no_key] else []) @
         (case dict_get METADATA_NAMES name of
            Some k \<Rightarrow> if constructor then []
                      else [no_key\<lparr>sg_source := InputMetadata, sg_codec := TextCodec, sg_key := Some k, sg_confidence := 90\<rparr>]
          | None \<Rightarrow> []) @
         [no_key\<lparr>sg_source := OperatorParameter, sg_codec := codec_for N p False, sg_key := Some (pi_name p),
             sg_display_name := title (replace_text ''_'' '' '' (pi_name p)), sg_required := pi_required p,
             sg_has_default := pi_has_default p,
             sg_default := (if pi_has_default p then pi_default p else JNull),
             sg_confidence := (if constructor \<or> pi_has_default p then 70 else 50)\<rparr>]))"

lemma constructor_suggestions:
  "s \<in> set (parameter_suggestions N title p i True) \<Longrightarrow> sg_source s = OperatorParameter"
  by (auto simp: parameter_suggestions_def Let_def split: option.splits)

lemma suggestion_keys:
  "s \<in> set (parameter_suggestions N title p i c) \<Longrightarrow> sg_source s \<noteq> InputPayload \<Longrightarrow> sg_key s \<noteq> None"
  by (cases "dict_get METADATA_NAMES (sn_lower N (pi_name p))") (auto simp: parameter_suggestions_def Let_def split: option.splits if_splits)

section \<open>What a snapshot keeps\<close>

definition copied_bytes :: "workspace_entry list \<Rightarrow> nat" where
  "copied_bytes es = sum_list (map (\<lambda>e. length (we_bytes e)) es)"

text \<open>A directory is not a file and has no content.\<close>

definition entries_ok :: "(path \<Rightarrow> bool) \<Rightarrow> workspace_entry list \<Rightarrow> bool" where
  "entries_ok is_dir es \<longleftrightarrow> (\<forall>e \<in> set es. is_dir (we_parts e) \<longrightarrow> \<not> we_file e \<and> we_bytes e = [])"

lemma copy_entries_bounded:
  "entries_ok is_dir es \<Longrightarrow> copied \<le> max_bytes \<Longrightarrow> copy_entries is_dir max_bytes copied es = (cs, r) \<Longrightarrow>
     copied + copied_bytes cs \<le> max_bytes"
proof (induction is_dir max_bytes copied es arbitrary: cs r rule: copy_entries.induct)
  case (2 is_dir max_bytes copied e es)
  then show ?case
    by (auto simp: copied_bytes_def entries_ok_def Let_def split: if_splits prod.splits) force+
qed (simp add: copied_bytes_def)

lemma copy_entries_revision:
  "entries_ok is_dir es \<Longrightarrow> copy_entries is_dir max_bytes copied es = (cs, Inr u) \<Longrightarrow>
     revision_stream H cs = revision_stream H es"
proof (induction is_dir max_bytes copied es arbitrary: cs rule: copy_entries.induct)
  case (2 is_dir max_bytes copied e es)
  then show ?case
    by (auto simp: entries_ok_def Let_def split: if_splits prod.splits)
qed simp

lemma copy_entries_sorted:
  "copy_entries is_dir max_bytes copied es = (cs, r) \<Longrightarrow> set cs \<subseteq> set es \<and> (sorted (map f es) \<longrightarrow> sorted (map f cs))"
proof (induction is_dir max_bytes copied es arbitrary: cs r rule: copy_entries.induct)
  case (2 is_dir max_bytes copied e es)
  then show ?case by (force simp: Let_def subset_iff split: if_splits prod.splits)
qed simp

lemma snapshot_revision:
  assumes "entries_ok is_dir es" "snapshot_workspace is_dir max_bytes source_exists es = (cs, Inr u)"
  shows "source_revision H cs = source_revision H es"
proof -
  from assms(2) have c: "copy_entries is_dir max_bytes 0 (sort_key posix es) = (cs, Inr u)"
    by (simp add: snapshot_workspace_def split: if_splits)
  have "sorted (map posix (sort_key posix es))" by simp
  with copy_entries_sorted [OF c, of posix] have "sort_key posix cs = cs" by (intro sort_key_id_if_sorted) simp
  moreover have "posix = (\<lambda>e. join_with ''/'' (we_parts e))" by (simp add: fun_eq_iff posix_def)
  moreover have "entries_ok is_dir (sort_key posix es)" using assms(1) by (simp add: entries_ok_def)
  ultimately show ?thesis using copy_entries_revision [OF _ c] by (simp add: source_revision_def)
qed

section \<open>What a revision identifies\<close>

definition revision_files :: "workspace_entry list \<Rightarrow> (bytes \<times> bytes) list" where
  "revision_files es =
     map (\<lambda>e. (relative_bytes e, we_bytes e)) (filter (\<lambda>e. \<not> excluded (we_parts e) \<and> we_file e) (sort_key posix es))"

definition file_stream :: "hashing \<Rightarrow> bytes \<times> bytes \<Rightarrow> bytes" where
  "file_stream H f = fst f @ [0] @ hs_digest H (snd f) @ [0]"

lemma revision_stream_files:
  "revision_stream H es = Inr s \<Longrightarrow>
     s = concat (map (file_stream H) (map (\<lambda>e. (relative_bytes e, we_bytes e)) (filter (\<lambda>e. \<not> excluded (we_parts e) \<and> we_file e) es)))"
  by (induction es arbitrary: s) (auto simp: file_stream_def split: if_splits sum.splits)

lemma source_revision_files:
  assumes "source_revision H es = Inr r"
  shows "r = hs_hex H (hs_digest H (concat (map (file_stream H) (revision_files es))))"
proof -
  have p: "posix = (\<lambda>e. join_with ''/'' (we_parts e))" by (simp add: fun_eq_iff posix_def)
  from assms obtain s where s: "revision_stream H (sort_key posix es) = Inr s" "r = hs_hex H (hs_digest H s)"
    unfolding source_revision_def p by (auto split: sum.splits)
  from revision_stream_files [OF s(1)] s(2) show ?thesis by (simp add: revision_files_def)
qed

lemma split_at_zero:
  fixes p q :: bytes
  shows "p @ 0 # x = q @ 0 # y \<Longrightarrow> 0 \<notin> set p \<Longrightarrow> 0 \<notin> set q \<Longrightarrow> p = q \<and> x = y"
  by (induction p arbitrary: q) (auto simp: Cons_eq_append_conv append_eq_Cons_conv)

lemma file_streams_inject:
  assumes "\<And>b. length (hs_digest H b) = n"
  shows "concat (map (file_stream H) fs) = concat (map (file_stream H) gs) \<Longrightarrow>
    \<forall>f \<in> set fs \<union> set gs. 0 \<notin> set (fst f) \<Longrightarrow>
    map (\<lambda>f. (fst f, hs_digest H (snd f))) fs = map (\<lambda>f. (fst f, hs_digest H (snd f))) gs"
proof (induction fs arbitrary: gs)
  case Nil
  then show ?case by (cases gs) (auto simp: file_stream_def)
next
  case (Cons f fs)
  show ?case
  proof (cases gs)
    case Nil
    with Cons.prems show ?thesis by (simp add: file_stream_def)
  next
    case (Cons g gs')
    have "fst f @ 0 # (hs_digest H (snd f) @ 0 # concat (map (file_stream H) fs)) =
        fst g @ 0 # (hs_digest H (snd g) @ 0 # concat (map (file_stream H) gs'))"
      using Cons.prems(1) Cons by (simp add: file_stream_def [of _ f] file_stream_def [of _ g])
    from split_at_zero [OF this] Cons.prems(2) Cons have "fst f = fst g"
      "hs_digest H (snd f) @ 0 # concat (map (file_stream H) fs) = hs_digest H (snd g) @ 0 # concat (map (file_stream H) gs')"
      by auto
    moreover from this(2) assms have "hs_digest H (snd f) = hs_digest H (snd g)"
      "concat (map (file_stream H) fs) = concat (map (file_stream H) gs')"
      by (simp_all add: append_eq_append_conv)
    ultimately show ?thesis using Cons.IH [of gs'] Cons.prems(2) Cons by simp
  qed
qed

text \<open>Everything \<open>source_revision\<close> hashes.\<close>

definition hashed :: "hashing \<Rightarrow> workspace_entry list \<Rightarrow> bytes set" where
  "hashed H es = snd ` set (revision_files es) \<union> {concat (map (file_stream H) (revision_files es))}"

lemma map_pair_inject:
  "map (\<lambda>f. (fst f, d (snd f))) fs = map (\<lambda>f. (fst f, d (snd f))) gs \<Longrightarrow> inj_on d (snd ` set fs \<union> snd ` set gs) \<Longrightarrow> fs = gs"
proof (induction fs arbitrary: gs)
  case (Cons f fs)
  then obtain g gs' where g: "gs = g # gs'" by (cases gs) auto
  with Cons.prems have "fst f = fst g" "d (snd f) = d (snd g)" by auto
  moreover have "snd f = snd g" using Cons.prems(2) g \<open>d (snd f) = d (snd g)\<close> by (elim inj_onD) auto
  ultimately have "f = g" by (simp add: prod_eq_iff)
  moreover have "fs = gs'" using Cons.prems g by (intro Cons.IH) (auto intro: inj_on_subset)
  ultimately show ?case using g by simp
qed simp

lemma revision_identifies:
  assumes "source_revision H es = Inr r" "source_revision H es' = Inr r"
    and "\<And>b. length (hs_digest H b) = 32" "inj (hs_hex H)" "inj_on (hs_digest H) (hashed H es \<union> hashed H es')"
    and "\<forall>e \<in> set es \<union> set es'. 0 \<notin> set (relative_bytes e)"
  shows "revision_files es = revision_files es'"
proof -
  let ?s = "\<lambda>es. concat (map (file_stream H) (revision_files es))"
  from source_revision_files [OF assms(1)] source_revision_files [OF assms(2)] assms(4)
  have "hs_digest H (?s es) = hs_digest H (?s es')" by (auto dest: injD)
  with assms(5) have s: "?s es = ?s es'" by (rule inj_onD) (auto simp: hashed_def)
  have "\<forall>f \<in> set (revision_files es) \<union> set (revision_files es'). 0 \<notin> set (fst f)"
    using assms(6) by (auto simp: revision_files_def)
  from file_streams_inject [of H 32, OF assms(3) s this] show ?thesis
    by (rule map_pair_inject) (rule inj_on_subset [OF assms(5)], auto simp: hashed_def)
qed

end
