(* ===== verification/Authoring_Theorems.thy ===== *)
theory Authoring_Theorems
  imports Authoring_Adapter Authoring_Scanner
begin

text \<open>
  From a project to a call: a compiled contract hands the callable what the contract says, in a call
  that Python accepts; the parameters of the plan are those its bindings ask for; and the revision of a
  workspace identifies its files.
\<close>

section \<open>Compiled contracts\<close>

lemma compile_cases:
  assumes "compile_virtual_contract A P c = Inr plan"
  obtains ci cdefs where "callable_by_id P (oc_callable c) = Some ci" "callable_support_reasons A P ci = []"
    "constructor_defs A P c ci = Inr cdefs" "make_plan A c ci cdefs = Inr plan"
    "oc_revision c = pc_revision P" "oc_python_path c = pc_python_path P" "\<forall>w \<in> set (pc_warnings P). cw_severity w \<noteq> ''error''"
  using assms
  by (auto simp: compile_virtual_contract_def Let_def filter_empty_conv split: if_splits option.splits sum.splits)

lemma make_plan_cases:
  assumes "make_plan A c ci cdefs = Inr plan"
  obtains u ps1 ps2 where "validate_bindings A ''invoke arguments'' (ci_parameters ci) (oc_arguments c) = Inr u"
    "compile_bindings A (parameter_map cdefs) (oc_constructor c) [] = Inr (ep_constructor plan, ps1)"
    "compile_bindings A (parameter_map (ci_parameters ci)) (oc_arguments c) ps1 = Inr (ep_arguments plan, ps2)"
    "target_payload ci = Inr (ep_target plan)" "ep_parameters plan = sort_key cp_key (map snd ps2)"
    "ep_output plan = oc_output c"
  using assms unfolding make_plan_def by (auto split: sum.splits)

text \<open>A contract that passed the validators, with its bindings in dictionaries.\<close>

definition contract_ok :: "operator_contract \<Rightarrow> bool" where
  "contract_ok c \<longleftrightarrow> distinct (map fst (oc_constructor c)) \<and> distinct (map fst (oc_arguments c)) \<and>
     (\<forall>b \<in> snd ` set (oc_constructor c). binding_ok b) \<and> (\<forall>b \<in> snd ` set (oc_arguments c). binding_ok b)"

text \<open>Python's signatures have distinct names.\<close>

definition catalog_ok :: "project_catalog \<Rightarrow> bool" where
  "catalog_ok P \<longleftrightarrow> (\<forall>c \<in> set (all_callables P). distinct (map pi_name (ci_parameters c))) \<and>
     (\<forall>k \<in> set (pc_classes P). distinct (map pi_name (cl_constructor k)))"

definition constructor_of :: "project_catalog \<Rightarrow> callable_info \<Rightarrow> parameter_info list" where
  "constructor_of P ci =
     (if ci_kind ci = InstanceMethod
      then (case class_by_target P (get_or [] (ci_class ci)) of None \<Rightarrow> [] | Some k \<Rightarrow> cl_constructor k) else [])"

text \<open>The call a contract asks for.\<close>

definition contract_call ::
  "adapter_env \<Rightarrow> project_catalog \<Rightarrow> callable_info \<Rightarrow> operator_contract \<Rightarrow> flow_input \<Rightarrow> exn + target_call" where
  "contract_call D P ci c I =
     (case bound_kwargs D I (constructor_of P ci) (oc_constructor c) of
        Inl e \<Rightarrow> Inl e
      | Inr ck \<Rightarrow>
     (case bound_kwargs D I (ci_parameters ci) (oc_arguments c) of
        Inl e \<Rightarrow> Inl e
      | Inr ik \<Rightarrow>
          if ci_kind ci = InstanceMethod
          then (case split_target (get_or [] (ci_class ci)) of
                  Inl e \<Rightarrow> Inl e
                | Inr (m, q) \<Rightarrow> Inr (MethodCall m q ck (get_or ''None'' (ci_method ci)) ik))
          else Inr (FunctionCall (ci_module ci) (ci_qualname ci) ik)))"

lemma by_score_set [simp]: "set (by_score cs) = set cs"
  by (simp add: by_score_def)

lemma callable_by_id_in: "callable_by_id P i = Some ci \<Longrightarrow> ci \<in> set (all_callables P) \<and> ci_id ci = i"
  unfolding callable_by_id_def by (drule find_SomeD) simp

lemma class_by_target_in: "class_by_target P t = Some k \<Longrightarrow> k \<in> set (pc_classes P) \<and> cl_target k = t"
  unfolding class_by_target_def by (drule find_SomeD) simp

lemma constructor_defs_of:
  assumes "constructor_defs A P c ci = Inr cdefs"
  shows "cdefs = constructor_of P ci"
    "ci_kind ci = InstanceMethod \<Longrightarrow>
       \<exists>u. validate_bindings A ''constructor arguments'' (constructor_of P ci) (oc_constructor c) = Inr u"
    "ci_kind ci \<noteq> InstanceMethod \<Longrightarrow> oc_constructor c = []"
  using assms by (auto simp: constructor_defs_def constructor_of_def split: if_splits option.splits sum.splits)

lemma constructor_names:
  assumes "catalog_ok P"
  shows "distinct (map pi_name (constructor_of P ci))"
proof (cases "class_by_target P (get_or [] (ci_class ci))")
  case (Some k)
  then show ?thesis using assms class_by_target_in [OF Some] by (simp add: constructor_of_def catalog_ok_def)
qed (simp add: constructor_of_def)

lemma target_payload_simps:
  assumes "target_payload ci = Inr t"
  shows "tg_kind t = kind_value (ci_kind ci)" "tg_module t = ci_module ci" "tg_qualname t = ci_qualname ci"
    "tg_method t = ci_method ci" "\<not> missing_text (ci_class ci) \<Longrightarrow> \<exists>mc. split_target (get_or [] (ci_class ci)) = Inr mc \<and> tg_class t = Some mc"
  using assms by (auto simp: target_payload_def Let_def split: if_splits sum.splits)

lemma kind_value_instance: "kind_value k = ''instance-method'' \<longleftrightarrow> k = InstanceMethod"
  by (cases k) simp_all

lemma kind_reasons_Nil: "kind_reasons A what ps = [] \<longleftrightarrow> list_all supported_kind ps"
  by (auto simp: kind_reasons_def filter_empty_conv list_all_iff)

lemma reasons_class:
  assumes "callable_support_reasons A P ci = []"
  shows "list_all supported_kind (ci_parameters ci)" "ci_kind ci = InstanceMethod \<Longrightarrow> \<not> missing_text (ci_class ci)"
    "list_all supported_kind (constructor_of P ci)"
  using assms unfolding callable_support_reasons_def constructor_of_def append_is_Nil_conv kind_reasons_Nil
  by (simp_all add: kind_reasons_Nil split: if_splits option.splits)

lemma compiled_call:
  assumes "compile_virtual_contract A P c = Inr plan" "contract_ok c" "catalog_ok P"
    and "callable_by_id P (oc_callable c) = Some ci"
  shows "planned_call D plan I = contract_call D P ci c I"
proof -
  from compile_cases [OF assms(1)] assms(4) obtain cdefs where r: "callable_support_reasons A P ci = []"
    and d: "constructor_defs A P c ci = Inr cdefs" and b: "make_plan A c ci cdefs = Inr plan" by auto
  note k = constructor_defs_of(1) [OF d]
  from make_plan_cases [OF b] obtain ps1 ps2 where
    c1: "compile_bindings A (parameter_map (constructor_of P ci)) (oc_constructor c) [] = Inr (ep_constructor plan, ps1)"
    and c2: "compile_bindings A (parameter_map (ci_parameters ci)) (oc_arguments c) ps1 = Inr (ep_arguments plan, ps2)"
    and t: "target_payload ci = Inr (ep_target plan)" unfolding k by blast
  have "distinct (map pi_name (ci_parameters ci))"
    using assms(3) callable_by_id_in [OF assms(4)] by (simp add: catalog_ok_def)
  with compile_bindings_kwargs [OF c1 constructor_names [OF assms(3)]] compile_bindings_kwargs [OF c2] assms(2)
  have "build_kwargs D I (ep_constructor plan) = bound_kwargs D I (constructor_of P ci) (oc_constructor c)"
    "build_kwargs D I (ep_arguments plan) = bound_kwargs D I (ci_parameters ci) (oc_arguments c)"
    by (simp_all add: contract_ok_def)
  with target_payload_simps [OF t] reasons_class(2) [OF r] show ?thesis
    by (auto simp: planned_call_def contract_call_def kind_value_instance Let_def split: sum.splits)
qed

definition call_accepted :: "project_catalog \<Rightarrow> callable_info \<Rightarrow> target_call \<Rightarrow> bool" where
  "call_accepted P ci call \<longleftrightarrow>
     (case call of
        MethodCall m q ck f ik \<Rightarrow> ci_kind ci = InstanceMethod \<and> accepts (constructor_of P ci) ck \<and> accepts (ci_parameters ci) ik
      | FunctionCall m q ik \<Rightarrow> ci_kind ci \<noteq> InstanceMethod \<and> accepts (ci_parameters ci) ik)"

lemma compiled_call_accepted:
  assumes "compile_virtual_contract A P c = Inr plan" "contract_ok c" "catalog_ok P"
    and "callable_by_id P (oc_callable c) = Some ci" "planned_call D plan I = Inr call"
  shows "call_accepted P ci call"
proof -
  from compile_cases [OF assms(1)] assms(4) obtain cdefs where r: "callable_support_reasons A P ci = []"
    and d: "constructor_defs A P c ci = Inr cdefs" and b: "make_plan A c ci cdefs = Inr plan" by auto
  from make_plan_cases [OF b] obtain u where
    v: "validate_bindings A ''invoke arguments'' (ci_parameters ci) (oc_arguments c) = Inr u" by blast
  have names: "distinct (map pi_name (ci_parameters ci))"
    using assms(3) callable_by_id_in [OF assms(4)] by (simp add: catalog_ok_def)
  have dist: "distinct (map fst (oc_constructor c))" "distinct (map fst (oc_arguments c))"
    using assms(2) by (simp_all add: contract_ok_def)
  from assms(5) compiled_call [OF assms(1-4)] have call: "contract_call D P ci c I = Inr call" by simp
  then obtain ck ik where ck: "bound_kwargs D I (constructor_of P ci) (oc_constructor c) = Inr ck"
    and ik: "bound_kwargs D I (ci_parameters ci) (oc_arguments c) = Inr ik"
    by (auto simp: contract_call_def split: sum.splits)
  have ia: "accepts (ci_parameters ci) ik" by (rule bound_accepts [OF v ik names dist(2) reasons_class(1) [OF r]])
  show ?thesis
  proof (cases "ci_kind ci = InstanceMethod")
    case True
    from constructor_defs_of(2) [OF d True] obtain w where
      w: "validate_bindings A ''constructor arguments'' (constructor_of P ci) (oc_constructor c) = Inr w" by blast
    have "accepts (constructor_of P ci) ck"
      by (rule bound_accepts [OF w ck constructor_names [OF assms(3)] dist(1) reasons_class(3) [OF r]])
    with True ia ck ik call show ?thesis by (auto simp: call_accepted_def contract_call_def split: sum.splits)
  next
    case False
    with ia ck ik call show ?thesis by (auto simp: call_accepted_def contract_call_def)
  qed
qed

section \<open>The parameters of a plan\<close>

definition declared :: "(string, compiled_parameter) dict \<Rightarrow> compiled_binding \<Rightarrow> bool" where
  "declared d cb \<longleftrightarrow> (\<forall>k. cb_parameter_key cb = Some k \<longrightarrow>
     (\<exists>q. dict_get d k = Some q \<and> cb_required cb = cp_required q \<and> map_option fst (cb_default cb) = Some (cp_has_default q)))"

definition parameters_ok :: "(string, compiled_parameter) dict \<Rightarrow> bool" where
  "parameters_ok d \<longleftrightarrow> distinct (map fst d) \<and> (\<forall>(k, q) \<in> set d. cp_key q = k \<and> cp_type q = ''str'')"

lemma parameters_ok_set: "parameters_ok d \<Longrightarrow> cp_key q = k \<Longrightarrow> cp_type q = ''str'' \<Longrightarrow> parameters_ok (dict_set k q d)"
  unfolding parameters_ok_def by (auto simp: distinct_update dest: set_dict_set_subset [THEN subsetD])

lemma compile_binding_declared:
  assumes "compile_binding A p b d = Inr (cb, d')" "parameters_ok d"
  shows "parameters_ok d' \<and> declared d' cb \<and> (\<forall>cb0. declared d cb0 \<longrightarrow> declared d' cb0)"
proof (cases "ab_source b = OperatorParameter")
  case True
  from compile_binding_fields(3) [OF assms(1) this] obtain s where s: "cb_parameter_key cb = Some (ps_key s)"
    "cb_required cb = (ps_required s \<or> pi_required p)" "cb_default cb = Some (ps_has_default s, ps_default s)"
    "d' = dict_set (ps_key s) (compiled_parameter_of p s) d"
    "\<forall>q. dict_get d (ps_key s) = Some q \<longrightarrow> same_parameter A q (compiled_parameter_of p s)" by blast
  have "declared d' cb0" if "declared d cb0" for cb0
    using that s(5) by (auto simp: declared_def s(4) update_conv' same_parameter_def)
  with s assms(2) show ?thesis by (auto simp: declared_def update_conv' intro: parameters_ok_set)
next
  case False
  with assms show ?thesis by (auto simp: compile_binding_def Let_def declared_def)
qed

lemma compile_bindings_declared:
  assumes "compile_bindings A by_name bindings d = Inr (cbs, d')" "parameters_ok d"
  shows "parameters_ok d' \<and> (\<forall>cb \<in> snd ` set cbs. declared d' cb) \<and> (\<forall>cb0. declared d cb0 \<longrightarrow> declared d' cb0)"
  using assms
proof (induction bindings arbitrary: d cbs)
  case (Cons nb bindings)
  obtain name b where nb: "nb = (name, b)" by (cases nb)
  from Cons.prems(1) nb obtain p cb d1 cbs' where p: "compile_binding A p b d = Inr (cb, d1)"
    and r: "compile_bindings A by_name bindings d1 = Inr (cbs', d')" and cbs: "cbs = (name, cb) # cbs'"
    by (auto split: option.splits sum.splits)
  from compile_binding_declared [OF p Cons.prems(2)] Cons.IH [OF r] cbs show ?case by auto
qed simp

lemma plan_parameters:
  assumes "compile_virtual_contract A P c = Inr plan"
  shows "sorted (map cp_key (ep_parameters plan)) \<and> distinct (map cp_key (ep_parameters plan)) \<and>
    (\<forall>q \<in> set (ep_parameters plan). cp_type q = ''str'') \<and>
    (\<forall>cb \<in> snd ` set (ep_constructor plan @ ep_arguments plan). \<forall>k. cb_parameter_key cb = Some k \<longrightarrow>
       (\<exists>q \<in> set (ep_parameters plan). cp_key q = k \<and> cb_required cb = cp_required q \<and>
          map_option fst (cb_default cb) = Some (cp_has_default q)))"
proof -
  from compile_cases [OF assms] obtain ci cdefs where b: "make_plan A c ci cdefs = Inr plan" by blast
  from make_plan_cases [OF b] obtain ps1 ps2 where
    c1: "compile_bindings A (parameter_map cdefs) (oc_constructor c) [] = Inr (ep_constructor plan, ps1)"
    and c2: "compile_bindings A (parameter_map (ci_parameters ci)) (oc_arguments c) ps1 = Inr (ep_arguments plan, ps2)"
    and e: "ep_parameters plan = sort_key cp_key (map snd ps2)" by blast
  have d1: "parameters_ok ps1 \<and> (\<forall>cb \<in> snd ` set (ep_constructor plan). declared ps1 cb)"
    using compile_bindings_declared [OF c1] by (simp add: parameters_ok_def)
  with compile_bindings_declared [OF c2] have d2: "parameters_ok ps2"
    "\<forall>cb \<in> snd ` set (ep_constructor plan @ ep_arguments plan). declared ps2 cb" by auto
  have "\<forall>x \<in> set ps2. cp_key (snd x) = fst x" using d2(1) by (auto simp: parameters_ok_def)
  then have keys: "map cp_key (map snd ps2) = map fst ps2" by simp
  have "distinct (map cp_key (map snd ps2))" unfolding keys using d2(1) by (simp add: parameters_ok_def)
  then have "distinct (map cp_key (sort_key cp_key (map snd ps2)))" unfolding distinct_map set_sort distinct_sort .
  moreover have "\<exists>q \<in> set (map snd ps2). cp_key q = k \<and> cb_required cb = cp_required q \<and>
      map_option fst (cb_default cb) = Some (cp_has_default q)"
    if cb: "cb \<in> snd ` set (ep_constructor plan @ ep_arguments plan)" and k: "cb_parameter_key cb = Some k" for cb k
  proof -
    from d2(2) cb have "declared ps2 cb" by blast
    with k obtain q where q: "dict_get ps2 k = Some q" "cb_required cb = cp_required q"
      "map_option fst (cb_default cb) = Some (cp_has_default q)" by (auto simp: declared_def)
    have m: "(k, q) \<in> set ps2" by (rule map_of_SomeD [OF q(1)])
    from imageI [OF m, of snd] have "q \<in> set (map snd ps2)" by simp
    moreover have "cp_key q = k" using d2(1) m by (auto simp: parameters_ok_def)
    ultimately show ?thesis using q by blast
  qed
  moreover have "\<forall>q \<in> set (map snd ps2). cp_type q = ''str''" using d2(1) by (auto simp: parameters_ok_def)
  moreover have s: "set (ep_parameters plan) = set (map snd ps2)" unfolding e by (rule set_sort)
  ultimately show ?thesis unfolding s unfolding e by (intro conjI sorted_sort_key ballI allI impI) blast+
qed

section \<open>Scanned signatures\<close>

text \<open>Python's own rule for a call with keyword arguments only: \<open>bound\<close> when the first positional
  parameter is the instance or the class.\<close>

definition callable_with :: "bool \<Rightarrow> 'e py_arguments \<Rightarrow> string set \<Rightarrow> bool" where
  "callable_with bound a ks \<longleftrightarrow>
     (let ps = ar_posonly a @ ar_args a; n = (if bound then 1 else 0) in
      (\<forall>i \<in> set [n ..< length ps]. i + length (ar_defaults a) < length ps \<longrightarrow>
         length (ar_posonly a) \<le> i \<and> arg_name (ps ! i) \<in> ks) \<and>
      (\<forall>(p, d) \<in> set (zip (ar_kwonly a) (ar_kw_defaults a)). d = None \<longrightarrow> arg_name p \<in> ks) \<and>
      (ar_kwarg a = None \<longrightarrow> ks \<subseteq> (\<lambda>i. arg_name (ps ! i)) ` set [max n (length (ar_posonly a)) ..< length ps] \<union>
         arg_name ` set (ar_kwonly a)))"

definition option_list :: "'a option \<Rightarrow> 'a list" where
  "option_list x = (case x of None \<Rightarrow> [] | Some y \<Rightarrow> [y])"

text \<open>What Python's parser guarantees of a signature.\<close>

definition py_signature :: "'e py_arguments \<Rightarrow> bool" where
  "py_signature a \<longleftrightarrow> length (ar_defaults a) \<le> length (ar_posonly a @ ar_args a) \<and>
     length (ar_kw_defaults a) = length (ar_kwonly a) \<and>
     distinct (map arg_name (ar_posonly a @ ar_args a @ option_list (ar_vararg a) @ ar_kwonly a @ option_list (ar_kwarg a)))"

text \<open>The first parameter of a method is called \<open>self\<close> or \<open>cls\<close>.\<close>

definition self_first :: "'e py_arguments \<Rightarrow> bool" where
  "self_first a \<longleftrightarrow> (case ar_posonly a @ ar_args a of [] \<Rightarrow> False | p # _ \<Rightarrow> arg_name p \<in> {''self'', ''cls''})"

lemma positional_nth:
  assumes "i < length (ar_posonly a @ ar_args a)"
  shows "positional a ! i = ((ar_posonly a @ ar_args a) ! i,
    if i < length (ar_posonly a) then ''POSITIONAL_ONLY'' else ''POSITIONAL_OR_KEYWORD'',
    if length (ar_posonly a @ ar_args a) - length (ar_defaults a) \<le> i
    then Some (ar_defaults a ! (i - (length (ar_posonly a @ ar_args a) - length (ar_defaults a)))) else None)"
  using assms by (simp add: positional_def Let_def)

lemma length_positional [simp]: "length (positional a) = length (ar_posonly a @ ar_args a)"
  by (simp add: positional_def Let_def)

lemma positional_names: "map (\<lambda>p. arg_name (fst p)) (positional a) = map arg_name (ar_posonly a @ ar_args a)"
  by (rule nth_equalityI) (simp_all add: positional_nth del: map_append)

lemma dropped_drop: "b = self_first a \<Longrightarrow> dropped True (positional a) = drop (if b then 1 else 0) (positional a)"
  using positional_names [of a]
  by (cases "positional a"; cases "ar_posonly a @ ar_args a") (auto simp: dropped_def self_first_def)

lemma dropped_cases:
  assumes "bound \<Longrightarrow> self_first a"
  shows "dropped bound (positional a) = drop (if bound then 1 else 0) (positional a)"
  using dropped_drop [of True a] assms by (cases bound) (auto simp: dropped_def split: list.split)

lemma parameter_of_simps [simp]:
  "pi_name (parameter_of N k p d) = arg_name p" "pi_kind (parameter_of N k p d) = k"
  "pi_required (parameter_of N k p d) = (d = None)"
  by (simp_all add: parameter_of_def)

lemma variadic_names: "map pi_name (variadic N k v) = map arg_name (option_list v)"
  by (simp add: variadic_def option_list_def split: option.split)

lemma parameter_infos_names:
  assumes "bound \<Longrightarrow> self_first a" "py_signature a"
  shows "map pi_name (parameter_infos N bound a) =
    drop (if bound then 1 else 0) (map arg_name (ar_posonly a @ ar_args a)) @ map arg_name (option_list (ar_vararg a)) @
    map arg_name (ar_kwonly a) @ map arg_name (option_list (ar_kwarg a))"
proof -
  have "map pi_name (map (\<lambda>(p, kind, dflt). parameter_of N kind p dflt) (dropped bound (positional a))) =
      drop (if bound then 1 else 0) (map (\<lambda>p. arg_name (fst p)) (positional a))"
    by (simp add: dropped_cases [OF assms(1)] comp_def case_prod_beta drop_map)
  moreover have "map (\<lambda>x. arg_name (fst x)) (zip (ar_kwonly a) (ar_kw_defaults a)) = map arg_name (ar_kwonly a)"
    using assms(2) by (simp add: py_signature_def flip: map_map [of arg_name fst, unfolded comp_def])
  ultimately show ?thesis
    by (simp add: parameter_infos_def positional_names variadic_names comp_def case_prod_beta)
qed

lemma parameter_infos_distinct:
  assumes "bound \<Longrightarrow> self_first a" "py_signature a"
  shows "distinct (map pi_name (parameter_infos N bound a))"
proof -
  let ?n = "if bound then 1 else (0::nat)" and ?ps = "map arg_name (ar_posonly a @ ar_args a)"
  let ?rest = "map arg_name (option_list (ar_vararg a)) @ map arg_name (ar_kwonly a) @ map arg_name (option_list (ar_kwarg a))"
  have "?n \<le> length ?ps"
    using assms(1) by (cases "ar_posonly a @ ar_args a") (auto simp: self_first_def split: if_splits)
  then have "map pi_name (parameter_infos N bound a) = drop ?n (?ps @ ?rest)"
    using parameter_infos_names [OF assms] by simp
  moreover have "distinct (?ps @ ?rest)" using assms(2) by (simp add: py_signature_def)
  ultimately show ?thesis by (metis distinct_drop)
qed

lemma scanned_call:
  assumes "bound \<Longrightarrow> self_first a" "py_signature a" "accepts (parameter_infos N bound a) kw"
  shows "callable_with bound a (fst ` set kw)"
proof -
  let ?n = "if bound then 1 else (0::nat)" and ?ps = "ar_posonly a @ ar_args a" and ?ks = "fst ` set kw"
  let ?pos = "map (\<lambda>(p, kind, dflt). parameter_of N kind p dflt) (drop ?n (positional a))"
  have infos: "parameter_infos N bound a = ?pos @ variadic N ''VAR_POSITIONAL'' (ar_vararg a) @
      map (\<lambda>(p, dflt). parameter_of N ''KEYWORD_ONLY'' p dflt) (zip (ar_kwonly a) (ar_kw_defaults a)) @
      variadic N ''VAR_KEYWORD'' (ar_kwarg a)"
    by (simp add: parameter_infos_def dropped_cases [OF assms(1)])
  have kinds: "list_all supported_kind (parameter_infos N bound a)"
    and req: "\<And>p. p \<in> set (parameter_infos N bound a) \<Longrightarrow> pi_required p \<Longrightarrow> pi_name p \<in> ?ks"
    and sub: "?ks \<subseteq> pi_name ` set (parameter_infos N bound a)" using assms(3) by (auto simp: accepts_def)
  have item: "(case positional a ! i of (p, k, d) \<Rightarrow> parameter_of N k p d) \<in> set (parameter_infos N bound a)"
    if "?n \<le> i" "i < length ?ps" for i
  proof -
    have "positional a ! i \<in> set (drop ?n (positional a))"
      using nth_mem [of "i - ?n" "drop ?n (positional a)"] that by simp
    then show ?thesis unfolding infos by auto
  qed
  have pos: "length (ar_posonly a) \<le> i" if i: "?n \<le> i" "i < length ?ps" for i
  proof (rule ccontr)
    assume "\<not> ?thesis"
    moreover have "supported_kind (case positional a ! i of (p, k, d) \<Rightarrow> parameter_of N k p d)"
      using item [OF i] kinds by (simp only: list_all_iff)
    ultimately show False by (simp add: positional_nth [OF i(2)] supported_kind_def split: if_splits)
  qed
  have kwonly: "parameter_of N ''KEYWORD_ONLY'' p d \<in> set (parameter_infos N bound a)"
    if "(p, d) \<in> set (zip (ar_kwonly a) (ar_kw_defaults a))" for p d
    unfolding infos using that by auto
  have none: "variadic N ''VAR_POSITIONAL'' (ar_vararg a) = []" "variadic N ''VAR_KEYWORD'' (ar_kwarg a) = []"
    using kinds unfolding infos by (auto simp: variadic_def supported_kind_def split: option.splits)
  have "arg_name (?ps ! i) \<in> ?ks" if "?n \<le> i" "i + length (ar_defaults a) < length ?ps" for i
  proof -
    have i: "?n \<le> i" "i < length ?ps" using that by simp_all
    from req [OF item [OF i]] that show ?thesis by (simp add: positional_nth [OF i(2)])
  qed
  moreover have "arg_name p \<in> ?ks" if "(p, None) \<in> set (zip (ar_kwonly a) (ar_kw_defaults a))" for p
    using req [OF kwonly [OF that]] by simp
  moreover have "k \<in> (\<lambda>i. arg_name (?ps ! i)) ` set [max ?n (length (ar_posonly a)) ..< length ?ps] \<union> arg_name ` set (ar_kwonly a)"
    if "k \<in> ?ks" for k
  proof -
    from that sub obtain q where q: "q \<in> set (parameter_infos N bound a)" "k = pi_name q" by blast
    then consider p m d where "(p, m, d) \<in> set (drop ?n (positional a))" "k = arg_name p"
      | p d where "(p, d) \<in> set (zip (ar_kwonly a) (ar_kw_defaults a))" "k = arg_name p"
      unfolding infos none by auto
    then show ?thesis
    proof cases
      case 1
      then obtain i where "i < length (drop ?n (positional a))" "drop ?n (positional a) ! i = (p, m, d)"
        by (metis in_set_conv_nth)
      then have i: "?n + i < length ?ps" "positional a ! (?n + i) = (p, m, d)" by simp_all
      have "p = ?ps ! (?n + i)" using i by (simp add: positional_nth)
      with 1(2) pos [of "?n + i"] i(1) show ?thesis by (intro UnI1 image_eqI [of _ _ "?n + i"]) auto
    next
      case 2
      then show ?thesis by (auto dest: set_zip_leftD)
    qed
  qed
  ultimately show ?thesis
    unfolding callable_with_def Let_def using pos by (intro conjI ballI impI subsetI) auto
qed

section \<open>Scanned projects\<close>

fun function_defs :: "'e statement list \<Rightarrow> 'e py_def list" where
  "function_defs [] = []"
| "function_defs (DefStatement d # b) = d # function_defs b"
| "function_defs (_ # b) = function_defs b"

fun method_defs :: "'e statement list \<Rightarrow> 'e py_def list" where
  "method_defs [] = []"
| "method_defs (ClassStatement n l body # b) = body_defs body @ method_defs b"
| "method_defs (_ # b) = method_defs b"

definition parsed_body :: "'e source_file \<Rightarrow> 'e statement list" where
  "parsed_body f = (case sf_parsed f of Parsed b \<Rightarrow> b | _ \<Rightarrow> [])"

text \<open>Where a callable and a class come from: a function of a module, or the methods of a class.\<close>

definition from_function :: "'e scanner \<Rightarrow> 'e py_def set \<Rightarrow> callable_info \<Rightarrow> bool" where
  "from_function N F c \<longleftrightarrow> (\<exists>d \<in> F. \<exists>m file. c = callable_of N m (df_name d) file PlainFunction None d)"

definition from_class :: "'e scanner \<Rightarrow> 'e py_def set \<Rightarrow> class_info \<Rightarrow> bool" where
  "from_class N M k \<longleftrightarrow>
     (cl_constructor k = [] \<or> (\<exists>d \<in> M. df_name d = ''__init__'' \<and> cl_constructor k = parameter_infos N True (df_arguments d))) \<and>
     (\<forall>c \<in> set (cl_methods k). \<exists>d \<in> M. c = callable_of N (cl_module k) (cl_qualname k @ ''.'' @ df_name d) (cl_file k)
        (method_kind (map decorator_name (df_decorators d))) (Some (cl_target k, df_name d)) d)"

definition found_ok :: "'e scanner \<Rightarrow> 'e py_def set \<Rightarrow> 'e py_def set \<Rightarrow> findings \<Rightarrow> bool" where
  "found_ok N F M f = (case f of (fs, cs, ws) \<Rightarrow> list_all (from_function N F) fs \<and> list_all (from_class N M) cs)"

lemma found_ok_add: "found_ok N F M f \<Longrightarrow> found_ok N F M g \<Longrightarrow> found_ok N F M (add_found f g)"
  by (auto simp: found_ok_def add_found_def split: prod.splits)

lemma class_from:
  assumes "set (body_defs body) \<subseteq> M"
  shows "from_class N M (class_of N m file name line body)"
proof -
  let ?ds = "filter (\<lambda>d. df_name d = ''__init__'') (body_defs body)"
  have "class_constructor N body = [] \<or>
      (\<exists>d \<in> M. df_name d = ''__init__'' \<and> class_constructor N body = parameter_infos N True (df_arguments d))"
  proof (cases "?ds = []")
    case False
    have "last ?ds \<in> set ?ds" using False by (rule last_in_set)
    then have "last ?ds \<in> M" "df_name (last ?ds) = ''__init__''" using assms by auto
    moreover have "class_constructor N body = parameter_infos N True (df_arguments (last ?ds))"
      using False by (auto simp: class_constructor_def split: list.split)
    ultimately show ?thesis by blast
  qed (simp add: class_constructor_def)
  then show ?thesis using assms by (auto simp: from_class_def class_of_def Let_def)
qed

lemma body_found:
  assumes "set (function_defs body) \<subseteq> F" "set (method_defs body) \<subseteq> M"
  shows "found_ok N F M (foldr (\<lambda>s. add_found (scan_statement N m file s)) body ([], [], []))"
  using assms
proof (induction body)
  case (Cons s body)
  have "found_ok N F M (scan_statement N m file s)"
    using Cons.prems class_from by (cases s) (auto simp: found_ok_def scan_statement_def from_function_def)
  moreover have "found_ok N F M (foldr (\<lambda>s. add_found (scan_statement N m file s)) body ([], [], []))"
    using Cons.IH Cons.prems by (cases s) auto
  ultimately show ?case by (simp add: found_ok_add)
qed (simp add: found_ok_def)

lemma scan_file_found:
  assumes "scan_file N p r f = Inr found" "set (function_defs (parsed_body f)) \<subseteq> F" "set (method_defs (parsed_body f)) \<subseteq> M"
  shows "found_ok N F M found"
  using assms body_found [of "parsed_body f" F M N]
  by (auto simp: scan_file_def parsed_body_def Let_def split: if_splits parsed.splits) (auto simp: found_ok_def)

lemma scan_files_found:
  assumes "scan_files N p prefix files = Inr found"
    and "\<forall>f \<in> set files. set (function_defs (parsed_body f)) \<subseteq> F \<and> set (method_defs (parsed_body f)) \<subseteq> M"
  shows "found_ok N F M found"
  using assms
proof (induction files arbitrary: found)
  case (Cons f files)
  then show ?case
    by (auto simp: Let_def split: if_splits sum.splits intro: found_ok_add scan_file_found)
qed (simp add: found_ok_def)

definition workspace_files :: "'e workspace \<Rightarrow> string \<Rightarrow> 'e source_file list" where
  "workspace_files W python_path = wk_python_files W (join_path (wk_root W) python_path)"

definition workspace_functions :: "'e workspace \<Rightarrow> string \<Rightarrow> 'e py_def set" where
  "workspace_functions W p = (\<Union>f \<in> set (workspace_files W p). set (function_defs (parsed_body f)))"

definition workspace_methods :: "'e workspace \<Rightarrow> string \<Rightarrow> 'e py_def set" where
  "workspace_methods W p = (\<Union>f \<in> set (workspace_files W p). set (method_defs (parsed_body f)))"

definition bound_method :: "'e py_def \<Rightarrow> bool" where
  "bound_method d \<longleftrightarrow> df_name d = ''__init__'' \<or> method_kind (map decorator_name (df_decorators d)) \<noteq> StaticMethod"

text \<open>Python's signatures, and methods that call their first parameter \<open>self\<close> or \<open>cls\<close>.\<close>

definition workspace_ok :: "'e workspace \<Rightarrow> string \<Rightarrow> bool" where
  "workspace_ok W p \<longleftrightarrow> (\<forall>d \<in> workspace_functions W p \<union> workspace_methods W p. py_signature (df_arguments d)) \<and>
     (\<forall>d \<in> workspace_methods W p. bound_method d \<longrightarrow> self_first (df_arguments d))"

lemma scan_project_found:
  assumes "scan_project N H W p = Inr P"
  shows "\<forall>c \<in> set (pc_functions P). from_function N (workspace_functions W p) c"
    "\<forall>k \<in> set (pc_classes P). from_class N (workspace_methods W p) k"
proof -
  let ?files = "sort_key sf_parts (wk_python_files W (join_path (wk_root W) p))"
  obtain fs cs ws where f: "scan_files N p (drop (length (wk_root W)) (join_path (wk_root W) p)) ?files = Inr (fs, cs, ws)"
    and P: "set (pc_functions P) = set fs" "set (pc_classes P) = set cs"
    using assms by (auto simp: scan_project_def Let_def split: if_splits sum.splits)
  have "found_ok N (workspace_functions W p) (workspace_methods W p) (fs, cs, ws)"
    by (rule scan_files_found [OF f]) (auto simp: workspace_functions_def workspace_methods_def workspace_files_def)
  with P show "\<forall>c \<in> set (pc_functions P). from_function N (workspace_functions W p) c"
    "\<forall>k \<in> set (pc_classes P). from_class N (workspace_methods W p) k"
    by (auto simp: found_ok_def list_all_iff)
qed

lemma callable_of_simps [simp]:
  "ci_parameters (callable_of N m q file k cls d) = parameter_infos N (k \<in> {InstanceMethod, ClassMethod}) (df_arguments d)"
  "ci_kind (callable_of N m q file k cls d) = k" "ci_class (callable_of N m q file k cls d) = map_option fst cls"
  by (simp_all add: callable_of_def Let_def)

text \<open>The definition a callable was made from.\<close>

definition definition_of :: "'e scanner \<Rightarrow> callable_info \<Rightarrow> 'e py_def \<Rightarrow> bool" where
  "definition_of N c d \<longleftrightarrow> (\<exists>m q path k cls. c = callable_of N m q path k cls d)"

lemma scanned_callable:
  assumes "scan_project N H W p = Inr P" "workspace_ok W p" "c \<in> set (all_callables P)"
  obtains d where "definition_of N c d" "d \<in> workspace_functions W p \<union> workspace_methods W p" "py_signature (df_arguments d)"
    "ci_kind c \<in> {InstanceMethod, ClassMethod} \<Longrightarrow> self_first (df_arguments d)"
    "ci_parameters c = parameter_infos N (ci_kind c \<in> {InstanceMethod, ClassMethod}) (df_arguments d)"
proof -
  from assms(3) consider "c \<in> set (pc_functions P)" | k where "k \<in> set (pc_classes P)" "c \<in> set (cl_methods k)"
    by (auto simp: all_callables_def)
  then show thesis
  proof cases
    case 1
    with scan_project_found(1) [OF assms(1)] obtain d m path where d: "d \<in> workspace_functions W p"
      "c = callable_of N m (df_name d) path PlainFunction None d" by (auto simp: from_function_def)
    moreover have "definition_of N c d" unfolding definition_of_def d(2) by blast
    ultimately show ?thesis using assms(2) by (intro that [of d]) (auto simp: workspace_ok_def)
  next
    case 2
    with scan_project_found(2) [OF assms(1)] obtain d where d: "d \<in> workspace_methods W p"
      "c = callable_of N (cl_module k) (cl_qualname k @ ''.'' @ df_name d) (cl_file k)
        (method_kind (map decorator_name (df_decorators d))) (Some (cl_target k, df_name d)) d"
      unfolding from_class_def by blast
    moreover have "definition_of N c d" unfolding definition_of_def d(2) by blast
    ultimately show ?thesis
      using assms(2) by (intro that [of d]) (auto simp: workspace_ok_def bound_method_def)
  qed
qed

lemma scanned_catalog:
  assumes "scan_project N H W p = Inr P" "workspace_ok W p"
  shows "catalog_ok P"
  unfolding catalog_ok_def
proof (intro conjI ballI)
  fix c assume "c \<in> set (all_callables P)"
  from scanned_callable [OF assms this] show "distinct (map pi_name (ci_parameters c))"
    by (metis parameter_infos_distinct)
next
  fix k assume "k \<in> set (pc_classes P)"
  with scan_project_found(2) [OF assms(1)] have "cl_constructor k = [] \<or>
      (\<exists>d \<in> workspace_methods W p. df_name d = ''__init__'' \<and> cl_constructor k = parameter_infos N True (df_arguments d))"
    by (auto simp: from_class_def)
  with assms(2) show "distinct (map pi_name (cl_constructor k))"
    by (auto simp: workspace_ok_def bound_method_def intro!: parameter_infos_distinct)
qed

end
