(* ===== verification/Authoring_Examples.thy ===== *)
theory Authoring_Examples
  imports Authoring_Theorems Authoring_Scanner
begin

text \<open>The properties of operator authoring, each with an instance on a project of one class.\<close>

section \<open>A small project\<close>

definition toy_scanner :: "string scanner" where
  "toy_scanner = \<lparr>sn_unparse = Some, sn_literal = (\<lambda>e. Some (JStr e)), sn_identifier = (\<lambda>s. s \<noteq> []), sn_lower = (\<lambda>s. s),
     sn_repr = (\<lambda>s. s)\<rparr>"

definition toy_hashing :: hashing where
  "toy_hashing = \<lparr>hs_digest = (\<lambda>b. replicate 31 0 @ [if b = [] then 0 else 1]), hs_hex = map (\<lambda>w. char_of (unat w))\<rparr>"

abbreviation toy_arg :: "string \<Rightarrow> string py_arg" where
  "toy_arg n \<equiv> \<lparr>arg_name = n, arg_annotation = None\<rparr>"

text \<open>\<open>class K: def __init__(self, a): ...; def run(self, x, y=1): ...\<close>\<close>

definition toy_init :: "string py_def" where
  "toy_init = \<lparr>df_name = ''__init__'', df_async = False,
     df_arguments = \<lparr>ar_posonly = [], ar_args = [toy_arg ''self'', toy_arg ''a''], ar_defaults = [], ar_vararg = None,
       ar_kwonly = [], ar_kw_defaults = [], ar_kwarg = None\<rparr>,
     df_decorators = [], df_returns = None, df_line = 2\<rparr>"

definition toy_run :: "string py_def" where
  "toy_run = \<lparr>df_name = ''run'', df_async = False,
     df_arguments = \<lparr>ar_posonly = [], ar_args = [toy_arg ''self'', toy_arg ''x'', toy_arg ''y''], ar_defaults = [''1''],
       ar_vararg = None, ar_kwonly = [], ar_kw_defaults = [], ar_kwarg = None\<rparr>,
     df_decorators = [], df_returns = None, df_line = 4\<rparr>"

definition toy_workspace :: "string workspace" where
  "toy_workspace = \<lparr>wk_root = [''w''],
     wk_entries = [\<lparr>we_parts = [''m.py''], we_symlink = False, we_file = True, we_bytes = []\<rparr>],
     wk_is_dir = (\<lambda>p. p = [''w'']),
     wk_python_files = (\<lambda>p. [\<lparr>sf_parts = [''m.py''], sf_symlink = False,
        sf_parsed = Parsed [ClassStatement ''K'' 1 [DefStatement toy_init, DefStatement toy_run]]\<rparr>])\<rparr>"

definition toy_authoring :: authoring where
  "toy_authoring = \<lparr>au_repr = (\<lambda>s. s), au_lower = (\<lambda>s. s), au_same = (=), au_canonical = (\<lambda>j. ''c''), au_sha256 = (\<lambda>s. s)\<rparr>"

definition toy_adapter :: adapter_env where
  "toy_adapter = \<lparr>ad_decode = (\<lambda>b. Inr (map (\<lambda>w. char_of (unat w)) b)), ad_loads = (\<lambda>s. Inr (JStr s))\<rparr>"

definition toy_binding :: "binding_source \<Rightarrow> codec \<Rightarrow> string option \<Rightarrow> argument_binding" where
  "toy_binding s c k = \<lparr>ab_source = s, ab_codec = c, ab_metadata_key = None,
     ab_parameter = map_option (\<lambda>k. \<lparr>ps_key = k, ps_display_name = [], ps_description = [], ps_required = False,
       ps_has_default = False, ps_default = JNull, ps_type = ''int''\<rparr>) k,
     ab_constant = JInt 7, ab_type = ''str''\<rparr>"

definition toy_contract :: "string \<Rightarrow> operator_contract" where
  "toy_contract revision = \<lparr>oc_name = ''op'', oc_display_name = ''Op'', oc_description = [], oc_revision = revision,
     oc_python_path = ''.'', oc_source_ref = None, oc_callable = ''m:K.run'',
     oc_constructor = [(''a'', toy_binding ConstantValue JsonCodec None)],
     oc_arguments = [(''x'', toy_binding InputPayload BytesCodec None), (''y'', toy_binding OperatorParameter TextCodec (Some ''p''))],
     oc_output = \<lparr>out_payload = \<lparr>ov_source = ReturnValue, ov_path = [], ov_codec = JsonCodec, ov_value = JNull\<rparr>,
       out_metadata = [], out_none_policy = KeepOriginal\<rparr>\<rparr>"

definition toy_revision :: string where
  "toy_revision = (case source_revision toy_hashing (wk_entries toy_workspace) of Inr r \<Rightarrow> r | Inl e \<Rightarrow> [])"

definition toy_catalog :: project_catalog where
  "toy_catalog = (case scan_project toy_scanner toy_hashing toy_workspace ''.'' of Inr P \<Rightarrow> P
     | Inl e \<Rightarrow> \<lparr>pc_revision = [], pc_python_path = [], pc_functions = [], pc_classes = [], pc_warnings = []\<rparr>)"

definition toy_input :: flow_input where
  "toy_input = \<lparr>fi_content = [1], fi_attributes = [], fi_parameters = [(''p'', ''q'')]\<rparr>"

section \<open>Properties\<close>

lemma validated_contract_ok:
  assumes "validate_contract c0 = Inr c" "distinct (map fst (oc_constructor c0))" "distinct (map fst (oc_arguments c0))"
  shows "contract_ok c"
  using validate_contract_ok [OF assms(1)] assms(2,3) by (simp add: contract_ok_def)

lemma constructor_accepted:
  assumes "scan_project N H W p = Inr P" "workspace_ok W p" "accepts (constructor_of P ci) ck"
  shows "ck = [] \<or> (\<exists>init \<in> workspace_methods W p. df_name init = ''__init__'' \<and> callable_with True (df_arguments init) (fst ` set ck))"
proof (cases "constructor_of P ci = []")
  case True
  with assms(3) show ?thesis by (simp add: accepts_def)
next
  case False
  then obtain k where k: "k \<in> set (pc_classes P)" "constructor_of P ci = cl_constructor k"
    by (auto simp: constructor_of_def dest: class_by_target_in split: if_splits option.splits)
  with False scan_project_found(2) [OF assms(1)] obtain d where d: "d \<in> workspace_methods W p" "df_name d = ''__init__''"
    "constructor_of P ci = parameter_infos N True (df_arguments d)" by (auto simp: from_class_def)
  with assms(2) have "self_first (df_arguments d)" "py_signature (df_arguments d)"
    by (auto simp: workspace_ok_def bound_method_def)
  with scanned_call [of True "df_arguments d" N ck] d assms(3) show ?thesis by auto
qed

text \<open>C10: Type safety of compiled operators: when a contract was validated and compiled against the scan
  of a project that Python compiles and in which every method calls its first parameter self or cls, the call the plan describes
  is for every input one Python accepts: the definition of the selected callable gets all its required
  parameters and no unknown ones, and so does the constructor of its class.\<close>

theorem compiled_call_fits_signature:
  assumes "scan_project N H W p = Inr P" "workspace_ok W p"
    and "validate_contract c0 = Inr c" "distinct (map fst (oc_constructor c0))" "distinct (map fst (oc_arguments c0))"
    and "compile_virtual_contract A P c = Inr plan" "planned_call D plan I = Inr call"
  shows "\<exists>ci d. callable_by_id P (oc_callable c) = Some ci \<and> definition_of N ci d \<and>
    (case call of
       FunctionCall m q kw \<Rightarrow> callable_with (ci_kind ci = ClassMethod) (df_arguments d) (fst ` set kw)
     | MethodCall m q ck f kw \<Rightarrow> callable_with True (df_arguments d) (fst ` set kw) \<and>
         (ck = [] \<or> (\<exists>init \<in> workspace_methods W p. df_name init = ''__init__'' \<and>
            callable_with True (df_arguments init) (fst ` set ck))))"
proof -
  from compile_cases [OF assms(6)] obtain ci where ci: "callable_by_id P (oc_callable c) = Some ci" by blast
  from compiled_call_accepted [OF assms(6) validated_contract_ok [OF assms(3-5)] scanned_catalog [OF assms(1,2)] ci assms(7)]
  have a: "call_accepted P ci call" .
  from callable_by_id_in [OF ci] have "ci \<in> set (all_callables P)" by simp
  from scanned_callable [OF assms(1,2) this] obtain d where d: "definition_of N ci d" "py_signature (df_arguments d)"
    "ci_kind ci \<in> {InstanceMethod, ClassMethod} \<Longrightarrow> self_first (df_arguments d)"
    "ci_parameters ci = parameter_infos N (ci_kind ci \<in> {InstanceMethod, ClassMethod}) (df_arguments d)" by blast
  have fits: "callable_with (ci_kind ci \<in> {InstanceMethod, ClassMethod}) (df_arguments d) (fst ` set kw)"
    if "accepts (ci_parameters ci) kw" for kw
    using scanned_call [OF d(3,2)] that d(4) by simp
  show ?thesis
  proof (cases call)
    case (MethodCall m q ck f kw)
    with a fits constructor_accepted [OF assms(1,2), of ci ck] ci d(1) show ?thesis
      by (auto simp: call_accepted_def)
  next
    case (FunctionCall m q kw)
    with a fits [of kw] ci d(1) show ?thesis by (auto simp: call_accepted_def)
  qed
qed

text \<open>C9: The compiler preserves what a contract means: for every input the plan, its bindings read by the
  rules of the template, describes the same call, or the same error, as the contract with the project's
  catalog. This says nothing of a run of the generated module, which does not import.\<close>

theorem compiled_contract_meaning:
  assumes "catalog_ok P" "validate_contract c0 = Inr c" "distinct (map fst (oc_constructor c0))"
    and "distinct (map fst (oc_arguments c0))" "compile_virtual_contract A P c = Inr plan"
  shows "\<exists>ci. callable_by_id P (oc_callable c) = Some ci \<and> planned_call D plan I = contract_call D P ci c I"
proof -
  from compile_cases [OF assms(5)] obtain ci where ci: "callable_by_id P (oc_callable c) = Some ci" by blast
  with compiled_call [OF assms(5) validated_contract_ok [OF assms(2-4)] assms(1) ci] show ?thesis by blast
qed

text \<open>The parameters of a plan are those its bindings read: sorted, one per key, required and with a
  default exactly when the binding says so - and, whatever type the contract gives them, of type str.\<close>

theorem plan_parameters_declared:
  assumes "compile_virtual_contract A P c = Inr plan"
  shows "sorted (map cp_key (ep_parameters plan)) \<and> distinct (map cp_key (ep_parameters plan)) \<and>
    (\<forall>q \<in> set (ep_parameters plan). cp_type q = ''str'') \<and>
    (\<forall>cb \<in> snd ` set (ep_constructor plan @ ep_arguments plan). \<forall>k. cb_parameter_key cb = Some k \<longrightarrow>
       (\<exists>q \<in> set (ep_parameters plan). cp_key q = k \<and> cb_required cb = cp_required q \<and>
          map_option fst (cb_default cb) = Some (cp_has_default q)))"
  by (rule plan_parameters [OF assms])

text \<open>C40: A source revision identifies the sources: two workspaces with the same revision have the same
  files with the same contents, unless SHA-256 collides on what was hashed.\<close>

theorem source_revision_identifies:
  assumes "source_revision H es = Inr r" "source_revision H es' = Inr r"
    and "\<And>b. length (hs_digest H b) = 32" "inj (hs_hex H)" "inj_on (hs_digest H) (hashed H es \<union> hashed H es')"
    and "\<forall>e \<in> set es \<union> set es'. 0 \<notin> set (relative_bytes e)"
  shows "revision_files es = revision_files es'"
  by (rule revision_identifies [OF assms])

text \<open>A snapshot of a workspace has the revision of the workspace and is within the size limit; a
  snapshot that stopped with an error is within the limit, too.\<close>

theorem snapshot_keeps_revision:
  assumes "entries_ok is_dir es" "snapshot_workspace is_dir max_bytes source_exists es = (cs, r)"
  shows "copied_bytes cs \<le> max_bytes \<and> (r = Inr () \<longrightarrow> source_revision H cs = source_revision H es)"
proof -
  have "copied_bytes cs \<le> max_bytes"
  proof (cases "copy_entries is_dir max_bytes 0 (sort_key posix es) = (cs, r)")
    case True
    from copy_entries_bounded [OF _ _ this] assms(1) show ?thesis by (simp add: entries_ok_def)
  next
    case False
    with assms(2) show ?thesis by (auto simp: snapshot_workspace_def copied_bytes_def split: if_splits)
  qed
  with snapshot_revision [OF assms(1)] assms(2) show ?thesis by auto
qed

text \<open>A python_path that was accepted stays inside the snapshot: it resolves to components below the
  root, none of them dot-dot.\<close>

theorem python_path_contained:
  assumes "validate_python_path v = Inr p"
  shows "join_path root p = resolve root @ path_parts p \<and> ''..'' \<notin> set (path_parts p)"
proof -
  let ?v = "if strip v = [] then ''.'' else strip v"
  from assms have p: "p = (if path_parts ?v = [] then ''.'' else join_with ''/'' (path_parts ?v))" "''..'' \<notin> set (path_parts ?v)"
    by (auto simp: validate_python_path_def Let_def split: if_splits)
  have parts: "path_parts p = path_parts ?v" unfolding p(1)
    using path_parts_join [OF path_parts_component, of ?v] by (auto simp: path_parts_def)
  have "\<not> is_absolute p"
  proof (cases "path_parts ?v")
    case (Cons c cs)
    with path_parts_component [of ?v] have "c \<noteq> []" "CHR ''/'' \<notin> set c" by (auto simp: component_def)
    then obtain x xs where "c = x # xs" "x \<noteq> CHR ''/''" by (cases c) auto
    then show ?thesis unfolding p(1) Cons by (cases cs) (simp_all add: is_absolute_def starts_with_def)
  qed (simp add: p(1) is_absolute_def starts_with_def)
  with parts p(2) show ?thesis by (simp add: join_path_def resolve_append_safe)
qed

section \<open>Instances\<close>

lemma toy_scan: "scan_project toy_scanner toy_hashing toy_workspace ''.'' = Inr toy_catalog"
  by code_simp

lemma toy_contract_valid: "validate_contract (toy_contract toy_revision) = Inr (toy_contract toy_revision)"
  by code_simp

lemma toy_compiled:
  obtains plan where "compile_virtual_contract toy_authoring toy_catalog (toy_contract toy_revision) = Inr plan"
    "planned_call toy_adapter plan toy_input =
       Inr (MethodCall ''m'' ''K'' [(''a'', JsonArg (JInt 7))] ''run'' [(''x'', BytesArg [1]), (''y'', JsonArg (JStr ''q''))])"
    "map cp_key (ep_parameters plan) = [''p'']"
proof -
  have "map_sum id (\<lambda>plan. (planned_call toy_adapter plan toy_input, map cp_key (ep_parameters plan)))
      (compile_virtual_contract toy_authoring toy_catalog (toy_contract toy_revision)) =
    Inr (Inr (MethodCall ''m'' ''K'' [(''a'', JsonArg (JInt 7))] ''run'' [(''x'', BytesArg [1]), (''y'', JsonArg (JStr ''q''))]),
      [''p''])" by code_simp
  with that show thesis by (cases "compile_virtual_contract toy_authoring toy_catalog (toy_contract toy_revision)") auto
qed

lemma toy_distinct: "distinct (map fst (oc_constructor (toy_contract r)))" "distinct (map fst (oc_arguments (toy_contract r)))"
  by (simp_all add: toy_contract_def)

lemma toy_ok: "workspace_ok toy_workspace ''.''"
  by (auto simp: workspace_ok_def workspace_functions_def workspace_methods_def workspace_files_def toy_workspace_def
    parsed_body_def toy_init_def toy_run_def py_signature_def self_first_def option_list_def)

theorem compiled_call_fits_signature_witness:
  "\<exists>ci d. callable_by_id toy_catalog ''m:K.run'' = Some ci \<and> definition_of toy_scanner ci d \<and>
     callable_with True (df_arguments d) {''x'', ''y''}"
proof -
  obtain plan where p: "compile_virtual_contract toy_authoring toy_catalog (toy_contract toy_revision) = Inr plan"
    "planned_call toy_adapter plan toy_input =
       Inr (MethodCall ''m'' ''K'' [(''a'', JsonArg (JInt 7))] ''run'' [(''x'', BytesArg [1]), (''y'', JsonArg (JStr ''q''))])"
    by (rule toy_compiled)
  from compiled_call_fits_signature [OF toy_scan toy_ok toy_contract_valid toy_distinct p] show ?thesis
    by (auto simp: toy_contract_def)
qed

theorem compiled_contract_meaning_witness:
  "\<exists>ci. callable_by_id toy_catalog ''m:K.run'' = Some ci \<and>
     contract_call toy_adapter toy_catalog ci (toy_contract toy_revision) toy_input =
       Inr (MethodCall ''m'' ''K'' [(''a'', JsonArg (JInt 7))] ''run'' [(''x'', BytesArg [1]), (''y'', JsonArg (JStr ''q''))])"
proof -
  obtain plan where p: "compile_virtual_contract toy_authoring toy_catalog (toy_contract toy_revision) = Inr plan"
    "planned_call toy_adapter plan toy_input =
       Inr (MethodCall ''m'' ''K'' [(''a'', JsonArg (JInt 7))] ''run'' [(''x'', BytesArg [1]), (''y'', JsonArg (JStr ''q''))])"
    by (rule toy_compiled)
  from compiled_contract_meaning [OF scanned_catalog [OF toy_scan toy_ok] toy_contract_valid toy_distinct p(1),
    of toy_adapter toy_input] p(2) show ?thesis by (auto simp: toy_contract_def)
qed

theorem plan_parameters_declared_witness:
  "\<exists>plan. compile_virtual_contract toy_authoring toy_catalog (toy_contract toy_revision) = Inr plan \<and>
     map cp_key (ep_parameters plan) = [''p''] \<and> (\<forall>q \<in> set (ep_parameters plan). cp_type q = ''str'')"
proof -
  obtain plan where p: "compile_virtual_contract toy_authoring toy_catalog (toy_contract toy_revision) = Inr plan"
    "map cp_key (ep_parameters plan) = [''p'']" by (rule toy_compiled)
  from plan_parameters_declared [OF p(1)] p show ?thesis by (intro exI [of _ plan]) simp
qed

lemma toy_hex: "inj (hs_hex toy_hashing)"
proof -
  have "v = w" if "(char_of (unat v) :: char) = char_of (unat w)" for v w :: "8 word"
  proof -
    have "of_char (char_of (unat v) :: char) = unat v" "of_char (char_of (unat w) :: char) = unat w"
      using unsigned_less [of v, where 'a = nat] unsigned_less [of w, where 'a = nat] by simp_all
    with that show ?thesis by (metis word_unat_eq_iff)
  qed
  then have "inj (\<lambda>w :: 8 word. char_of (unat w) :: char)" by (intro injI)
  then show ?thesis unfolding toy_hashing_def hashing.simps by (rule list.inj_map)
qed

definition toy_cache :: workspace_entry where
  "toy_cache = \<lparr>we_parts = [''__pycache__'', ''m.pyc''], we_symlink = False, we_file = True, we_bytes = [5]\<rparr>"

theorem source_revision_identifies_witness:
  "revision_files (toy_cache # wk_entries toy_workspace) = revision_files (wk_entries toy_workspace)"
proof (rule source_revision_identifies [of toy_hashing _ toy_revision])
  show "source_revision toy_hashing (toy_cache # wk_entries toy_workspace) = Inr toy_revision"
    "source_revision toy_hashing (wk_entries toy_workspace) = Inr toy_revision" by code_simp+
  show "length (hs_digest toy_hashing b) = 32" for b by (simp add: toy_hashing_def)
  show "inj (hs_hex toy_hashing)" by (rule toy_hex)
  let ?s = "109 # 46 # 112 # 121 # 0 # replicate 32 0 @ [0]"
  have "hashed toy_hashing (toy_cache # wk_entries toy_workspace) = {[], ?s}" "hashed toy_hashing (wk_entries toy_workspace) = {[], ?s}"
    unfolding hashed_def by code_simp+
  then show "inj_on (hs_digest toy_hashing) (hashed toy_hashing (toy_cache # wk_entries toy_workspace) \<union>
      hashed toy_hashing (wk_entries toy_workspace))"
    by (simp add: toy_hashing_def)
  show "\<forall>e \<in> set (toy_cache # wk_entries toy_workspace) \<union> set (wk_entries toy_workspace). 0 \<notin> set (relative_bytes e)"
    by code_simp
qed

theorem snapshot_keeps_revision_witness:
  "copied_bytes (fst (snapshot_workspace (\<lambda>_. False) 5 True
     [\<lparr>we_parts = [''requirements.txt''], we_symlink = False, we_file = True, we_bytes = [1, 2]\<rparr>])) \<le> 5"
proof -
  let ?es = "[\<lparr>we_parts = [''requirements.txt''], we_symlink = False, we_file = True, we_bytes = [1, 2]\<rparr>]"
  have ok: "entries_ok (\<lambda>_. False) ?es" by (simp add: entries_ok_def)
  from snapshot_keeps_revision [OF ok prod.collapse [symmetric], of 5 True] show ?thesis by blast
qed

theorem python_path_contained_witness:
  "join_path [''r''] ''src'' = [''r'', ''src'']"
proof -
  have "validate_python_path '' ./src/ '' = Inr ''src''" by code_simp
  from python_path_contained [OF this, of "[''r'']"]
  have "join_path [''r''] ''src'' = resolve [''r''] @ path_parts ''src''" by blast
  also have "\<dots> = [''r'', ''src'']" by code_simp
  finally show ?thesis .
qed

end
