(* ===== verification/Publish_Store.thy ===== *)
theory Publish_Store
  imports Build_Store Authoring_Compiler
begin

text \<open>
  The publish service's tables and transactions (\<open>publish_service/store.py\<close>, \<open>schema.py\<close>): operators and
  the versions of their contracts, backend variants, publish jobs, and per edge device the deployments
  and the bundles made of them. \<open>now\<close> is the database clock; the uuids a method draws are arguments.
  Texts hold no NUL byte, which PostgreSQL refuses.
\<close>

section \<open>Tables\<close>

record operator_row =
  op_id :: string
  op_user :: string
  op_workspace :: string
  op_name :: string
  op_display_name :: string
  op_description :: string
  op_created :: int
  op_updated :: int

record contract_row =
  cv_id :: string
  cv_operator :: string
  cv_version :: nat
  cv_revision :: string
  cv_source_ref :: string
  cv_sha256 :: string
  cv_contract :: json
  cv_created :: int

datatype variant_status = Compiled | Published | VariantFailed

record variant_row =
  vr_id :: string
  vr_contract :: string
  vr_backend :: string
  vr_compiler :: string
  vr_key :: string
  vr_options :: json
  vr_sha256 :: string
  vr_backend_contract :: json
  vr_status :: variant_status
  vr_ref :: "string option"
  vr_metadata :: "json option"
  vr_error :: "string option"
  vr_created :: int
  vr_updated :: int

datatype publish_status = JobPending | JobRunning | JobReady | JobFailed

record publish_job =
  pj_id :: string
  pj_variant :: string
  pj_status :: publish_status
  pj_ref :: "string option"
  pj_result :: "json option"
  pj_error :: "string option"
  pj_created :: int
  pj_started :: "int option"
  pj_finished :: "int option"

text \<open>The edge device a native processor is published to; rows from before the identity of devices have
  no token pair and no edge name.\<close>

record edge_device =
  ed_user :: string
  ed_os :: string
  ed_arch :: string
  ed_python :: string
  ed_token :: "string option"
  ed_edge :: "string option"

record deployment_row =
  dp_id :: string
  dp_device :: edge_device
  dp_operator :: string
  dp_variant :: string
  dp_platform :: string
  dp_package :: string
  dp_artifact :: string
  dp_requirements :: "string list"
  dp_created :: int
  dp_updated :: int

record bundle_row =
  bn_id :: string
  bn_device :: edge_device
  bn_platform :: string
  bn_revision :: nat
  bn_requirements :: "string list"
  bn_lock :: string
  bn_lock_sha256 :: string
  bn_ref :: string
  bn_sha256 :: string
  bn_manifest :: json
  bn_created :: int

record member_row =
  mb_bundle :: string
  mb_operator :: string
  mb_variant :: string
  mb_package :: string
  mb_artifact :: string
  mb_requirements :: "string list"

record runtime_gate =
  rg_key :: string
  rg_image :: string
  rg_state :: lc_state
  rg_reason :: string
  rg_created :: int
  rg_updated :: int
  rg_retired_at :: "int option"

record publish_db =
  pd_operators :: "operator_row list"
  pd_contracts :: "contract_row list"
  pd_variants :: "variant_row list"
  pd_jobs :: "publish_job list"
  pd_deployments :: "deployment_row list"
  pd_bundles :: "bundle_row list"
  pd_members :: "member_row list"
  pd_gates :: "runtime_gate list"

definition publish_db_init :: publish_db where
  "publish_db_init = \<lparr>pd_operators = [], pd_contracts = [], pd_variants = [], pd_jobs = [], pd_deployments = [],
     pd_bundles = [], pd_members = [], pd_gates = []\<rparr>"

text \<open>What PostgreSQL does with JSON: the value it gives back for a float, the text \<open>->>\<close> shows for a value
  that is no string, and the order of values.\<close>

record postgres =
  pg_number :: "string \<Rightarrow> json"
  pg_text :: "json \<Rightarrow> string"
  pg_rank :: "json option \<Rightarrow> nat"

text \<open>\<open>Jsonb\<close>: keys in the order of their length, then of their bytes.\<close>

fun pg_jsonb :: "postgres \<Rightarrow> json \<Rightarrow> json" where
  "pg_jsonb G (JFloat s) = pg_number G s"
| "pg_jsonb G (JList l) = JList (map (pg_jsonb G) l)"
| "pg_jsonb G (JObj d) = JObj (sort_key (\<lambda>(k, v). (length k, k)) (map (\<lambda>(k, v). (k, pg_jsonb G v)) d))"
| "pg_jsonb G j = j"

text \<open>\<open>value -> name\<close> and \<open>value ->> name\<close>.\<close>

fun json_member :: "json option \<Rightarrow> string \<Rightarrow> json option" where
  "json_member (Some (JObj d)) k = dict_get d k"
| "json_member _ k = None"

definition json_text :: "postgres \<Rightarrow> json option \<Rightarrow> string option" where
  "json_text G v = (case v of None \<Rightarrow> None | Some JNull \<Rightarrow> None | Some (JStr s) \<Rightarrow> Some s | Some j \<Rightarrow> Some (pg_text G j))"

definition not_null_violation :: "string \<Rightarrow> exn" where
  "not_null_violation column = PyError ''NotNullViolation'' (''null value in column '' @ column)"

definition check_violation :: exn where
  "check_violation = PyError ''CheckViolation'' ''new row violates check constraint''"

definition operator_at :: "string \<Rightarrow> publish_db \<Rightarrow> operator_row option" where
  "operator_at i db = List.find (\<lambda>r. op_id r = i) (pd_operators db)"

definition contract_at :: "string \<Rightarrow> publish_db \<Rightarrow> contract_row option" where
  "contract_at i db = List.find (\<lambda>r. cv_id r = i) (pd_contracts db)"

definition variant_at :: "string \<Rightarrow> publish_db \<Rightarrow> variant_row option" where
  "variant_at i db = List.find (\<lambda>r. vr_id r = i) (pd_variants db)"

definition publish_job_at :: "string \<Rightarrow> publish_db \<Rightarrow> publish_job option" where
  "publish_job_at i db = List.find (\<lambda>r. pj_id r = i) (pd_jobs db)"

section \<open>Operators and contracts\<close>

definition owns :: "string \<Rightarrow> string \<Rightarrow> string \<Rightarrow> operator_row \<Rightarrow> bool" where
  "owns user workspace name r \<longleftrightarrow> op_user r = user \<and> op_workspace r = workspace \<and> op_name r = name"

definition named_operator :: "string \<Rightarrow> string \<Rightarrow> string \<Rightarrow> publish_db \<Rightarrow> operator_row option" where
  "named_operator user workspace name db = List.find (owns user workspace name) (pd_operators db)"

definition insert_operator ::
  "int \<Rightarrow> string \<Rightarrow> string \<Rightarrow> string \<Rightarrow> operator_contract \<Rightarrow> publish_db \<Rightarrow> exn + publish_db" where
  "insert_operator now i user workspace c db =
     (if named_operator user workspace (oc_name c) db \<noteq> None
      then Inr (db\<lparr>pd_operators := sql_update (owns user workspace (oc_name c))
             (\<lambda>r. r\<lparr>op_display_name := oc_display_name c, op_description := oc_description c, op_updated := now\<rparr>)
             (pd_operators db)\<rparr>)
      else if operator_at i db \<noteq> None then Inl unique_violation
      else Inr (db\<lparr>pd_operators := pd_operators db @
             [\<lparr>op_id = i, op_user = user, op_workspace = workspace, op_name = oc_name c,
               op_display_name = oc_display_name c, op_description = oc_description c, op_created = now, op_updated = now\<rparr>]\<rparr>))"

text \<open>\<open>COALESCE(MAX(version), 0) + 1\<close>.\<close>

definition contract_versions :: "string \<Rightarrow> publish_db \<Rightarrow> nat list" where
  "contract_versions i db = map cv_version (filter (\<lambda>r. cv_operator r = i) (pd_contracts db))"

definition next_version :: "string \<Rightarrow> publish_db \<Rightarrow> nat" where
  "next_version i db = fold max (contract_versions i db) 0 + 1"

definition insert_contract :: "contract_row \<Rightarrow> publish_db \<Rightarrow> exn + publish_db" where
  "insert_contract r db =
     (if contract_at (cv_id r) db \<noteq> None \<or>
         list_ex (\<lambda>q. cv_operator q = cv_operator r \<and> (cv_version q = cv_version r \<or> cv_sha256 q = cv_sha256 r)) (pd_contracts db)
      then Inl unique_violation
      else Inr (db\<lparr>pd_contracts := pd_contracts db @ [r]\<rparr>))"

text \<open>The operator's row is locked between the statements, so they see the same rows.\<close>

definition save_virtual_contract ::
  "authoring \<Rightarrow> postgres \<Rightarrow> int \<Rightarrow> string \<Rightarrow> string \<Rightarrow> string \<Rightarrow> operator_contract \<Rightarrow> string \<Rightarrow> publish_db
     \<Rightarrow> exn + publish_db \<times> operator_row \<times> contract_row \<times> bool" where
  "save_virtual_contract A G now operator_id contract_id workspace c user db =
     (let digest = contract_sha256 A c in
      case insert_operator now operator_id user workspace c db of
        Inl e \<Rightarrow> Inl e
      | Inr db1 \<Rightarrow>
     (case named_operator user workspace (oc_name c) db1 of
        None \<Rightarrow> Inl (PyError ''RuntimeError'' ''failed to create or load logical operator'')
      | Some operator \<Rightarrow>
     (case List.find (\<lambda>r. cv_operator r = op_id operator \<and> cv_sha256 r = digest) (pd_contracts db1) of
        Some existing \<Rightarrow> Inr (db1, operator, existing, False)
      | None \<Rightarrow>
     (case oc_source_ref c of
        None \<Rightarrow> Inl (not_null_violation ''source_ref'')
      | Some source \<Rightarrow>
          (let row = \<lparr>cv_id = contract_id, cv_operator = op_id operator, cv_version = next_version (op_id operator) db1,
                      cv_revision = oc_revision c, cv_source_ref = source, cv_sha256 = digest,
                      cv_contract = pg_jsonb G (contract_json c), cv_created = now\<rparr> in
           case insert_contract row db1 of
             Inl e \<Rightarrow> Inl e
           | Inr db2 \<Rightarrow> Inr (db2, operator, row, True))))))"

definition get_operator :: "string \<Rightarrow> string \<Rightarrow> publish_db \<Rightarrow> operator_row option" where
  "get_operator i user db = List.find (\<lambda>r. op_id r = i \<and> op_user r = user) (pd_operators db)"

definition owned_by :: "string \<Rightarrow> string \<Rightarrow> publish_db \<Rightarrow> bool" where
  "owned_by operator user db \<longleftrightarrow> (case operator_at operator db of None \<Rightarrow> False | Some o' \<Rightarrow> op_user o' = user)"

text \<open>\<open>ORDER BY version DESC LIMIT 1\<close>.\<close>

definition latest_version :: "string \<Rightarrow> publish_db \<Rightarrow> contract_row option" where
  "latest_version i db =
     (case sort_key (\<lambda>r. - int (cv_version r)) (filter (\<lambda>r. cv_operator r = i) (pd_contracts db)) of
        [] \<Rightarrow> None | r # _ \<Rightarrow> Some r)"

definition get_latest_contract :: "string \<Rightarrow> string \<Rightarrow> publish_db \<Rightarrow> contract_row option" where
  "get_latest_contract i user db = (if owned_by i user db then latest_version i db else None)"

text \<open>The contract with the row of its operator.\<close>

definition get_contract :: "string \<Rightarrow> string \<Rightarrow> publish_db \<Rightarrow> (contract_row \<times> operator_row) option" where
  "get_contract i user db =
     (case contract_at i db of
        None \<Rightarrow> None
      | Some c \<Rightarrow>
     (case operator_at (cv_operator c) db of
        None \<Rightarrow> None
      | Some r \<Rightarrow> if op_user r = user then Some (c, r) else None))"

section \<open>Backend variants\<close>

definition list_variants :: "string \<Rightarrow> publish_db \<Rightarrow> variant_row list" where
  "list_variants contract db =
     sort_key (\<lambda>v. (vr_backend v, - vr_created v)) (filter (\<lambda>v. vr_contract v = contract) (pd_variants db))"

record new_variant =
  nv_id :: string
  nv_contract :: string
  nv_backend :: string
  nv_compiler :: string
  nv_key :: string
  nv_options :: json
  nv_sha256 :: string
  nv_backend_contract :: json

definition variant_key_is :: "new_variant \<Rightarrow> variant_row \<Rightarrow> bool" where
  "variant_key_is n v \<longleftrightarrow> vr_contract v = nv_contract n \<and> vr_backend v = nv_backend n \<and> vr_key v = nv_key n"

definition recompiled :: "postgres \<Rightarrow> int \<Rightarrow> new_variant \<Rightarrow> variant_row \<Rightarrow> variant_row" where
  "recompiled G now n v =
     v\<lparr>vr_compiler := nv_compiler n, vr_options := pg_jsonb G (nv_options n), vr_sha256 := nv_sha256 n,
       vr_backend_contract := pg_jsonb G (nv_backend_contract n),
       vr_status := (if vr_status v = Published then Published else Compiled), vr_error := None, vr_updated := now\<rparr>"

definition upsert_variant ::
  "postgres \<Rightarrow> int \<Rightarrow> new_variant \<Rightarrow> publish_db \<Rightarrow> exn + publish_db \<times> variant_row" where
  "upsert_variant G now n db =
     (case List.find (variant_key_is n) (pd_variants db) of
        Some v \<Rightarrow> Inr (db\<lparr>pd_variants := sql_update (variant_key_is n) (recompiled G now n) (pd_variants db)\<rparr>, recompiled G now n v)
      | None \<Rightarrow>
          if variant_at (nv_id n) db \<noteq> None then Inl unique_violation
          else if contract_at (nv_contract n) db = None then Inl foreign_key_violation
          else (let v = \<lparr>vr_id = nv_id n, vr_contract = nv_contract n, vr_backend = nv_backend n, vr_compiler = nv_compiler n,
                         vr_key = nv_key n, vr_options = pg_jsonb G (nv_options n), vr_sha256 = nv_sha256 n,
                         vr_backend_contract = pg_jsonb G (nv_backend_contract n), vr_status = Compiled, vr_ref = None,
                         vr_metadata = None, vr_error = None, vr_created = now, vr_updated = now\<rparr> in
                Inr (db\<lparr>pd_variants := pd_variants db @ [v]\<rparr>, v)))"

section \<open>What a user can use\<close>

text \<open>\<open>DISTINCT ON\<close> keeps the first row of every key in the sorted list; rows that are equal in the sort
  come in the order of the table here, in any order in PostgreSQL.\<close>

fun distinct_on :: "('r \<Rightarrow> 'k) \<Rightarrow> 'r list \<Rightarrow> 'r list" where
  "distinct_on key [] = []"
| "distinct_on key (r # rs) = r # distinct_on key (filter (\<lambda>q. key q \<noteq> key r) rs)"

definition published_rows ::
  "string \<Rightarrow> string \<Rightarrow> string \<Rightarrow> publish_db \<Rightarrow> (operator_row \<times> contract_row \<times> variant_row) list" where
  "published_rows user backend compiler db =
     concat (map (\<lambda>r. concat (map (\<lambda>c. map (\<lambda>v. (r, c, v))
         (filter (\<lambda>v. vr_contract v = cv_id c \<and> vr_backend v = backend \<and> vr_status v = Published \<and> vr_compiler v = compiler)
            (pd_variants db)))
       (filter (\<lambda>c. cv_operator c = op_id r) (pd_contracts db))))
       (filter (\<lambda>r. op_user r = user) (pd_operators db)))"

definition RUNNER_COMPILER :: string where
  "RUNNER_COMPILER = ''runner-contract-v4''"

definition NATIVE_COMPILER :: string where
  "NATIVE_COMPILER = ''nifi-native-contract-v2''"

text \<open>An operator of the list: the columns both kinds have, then the release and the properties of a runner
  operator, or class, platform, identity and properties of a native one.\<close>

record listed_operator =
  lo_operator :: string
  lo_name :: string
  lo_display_name :: string
  lo_description :: string
  lo_release :: "string option"
  lo_class :: "string option"
  lo_platform :: "string option"
  lo_identity :: "json option"
  lo_properties :: "string option"
  lo_contract :: string
  lo_version :: nat
  lo_variant :: string
  lo_backend :: string
  lo_artifact :: "string option"

definition variant_platform :: "postgres \<Rightarrow> variant_row \<Rightarrow> string option" where
  "variant_platform G v = json_text G (json_member (Some (vr_backend_contract v)) ''target_platform'')"

definition variant_identity :: "variant_row \<Rightarrow> json option" where
  "variant_identity v = json_member (Some (vr_options v)) ''edgeIdentity''"

definition listed_runner :: "postgres \<Rightarrow> operator_row \<times> contract_row \<times> variant_row \<Rightarrow> listed_operator" where
  "listed_runner G = (\<lambda>(r, c, v).
     \<lparr>lo_operator = op_id r, lo_name = op_name r, lo_display_name = op_display_name r, lo_description = op_description r,
      lo_release = json_text G (json_member (vr_metadata v) ''releaseId''), lo_class = None, lo_platform = None,
      lo_identity = None, lo_properties = json_text G (json_member (Some (vr_backend_contract v)) ''parameters''),
      lo_contract = cv_id c, lo_version = cv_version c, lo_variant = vr_id v, lo_backend = vr_backend v,
      lo_artifact = vr_ref v\<rparr>)"

definition listed_native :: "postgres \<Rightarrow> operator_row \<times> contract_row \<times> variant_row \<Rightarrow> listed_operator" where
  "listed_native G = (\<lambda>(r, c, v).
     \<lparr>lo_operator = op_id r, lo_name = op_name r, lo_display_name = op_display_name r, lo_description = op_description r,
      lo_release = None, lo_class = json_text G (json_member (Some (vr_backend_contract v)) ''class_name''),
      lo_platform = variant_platform G v, lo_identity = variant_identity v,
      lo_properties = json_text G (json_member (Some (vr_backend_contract v)) ''properties''),
      lo_contract = cv_id c, lo_version = cv_version c, lo_variant = vr_id v, lo_backend = vr_backend v,
      lo_artifact = vr_ref v\<rparr>)"

text \<open>NULL comes last in an ascending order.\<close>

definition nulls_last :: "string option \<Rightarrow> nat \<times> string" where
  "nulls_last t = (case t of None \<Rightarrow> (1, []) | Some s \<Rightarrow> (0, s))"

definition get_operator_list :: "postgres \<Rightarrow> string \<Rightarrow> string \<Rightarrow> publish_db \<Rightarrow> listed_operator list" where
  "get_operator_list G run_type user db =
     (if run_type = ''runner''
      then map (listed_runner G) (distinct_on (\<lambda>(r, c, v). op_id r)
        (sort_key (\<lambda>(r, c, v). (op_id r, - int (cv_version c))) (published_rows user ''runner'' RUNNER_COMPILER db)))
      else map (listed_native G) (distinct_on (\<lambda>(r, c, v). (op_id r, variant_platform G v, variant_identity v))
        (sort_key (\<lambda>(r, c, v). (op_id r, nulls_last (variant_platform G v), pg_rank G (variant_identity v),
             - int (cv_version c), - vr_updated v)) (published_rows user ''nifi_native'' NATIVE_COMPILER db))))"

section \<open>Jobs\<close>

definition update_publish_job :: "(publish_job \<Rightarrow> bool) \<Rightarrow> (publish_job \<Rightarrow> publish_job) \<Rightarrow> publish_db \<Rightarrow> publish_db" where
  "update_publish_job P f db = db\<lparr>pd_jobs := sql_update P f (pd_jobs db)\<rparr>"

definition update_variant :: "string \<Rightarrow> (variant_row \<Rightarrow> variant_row) \<Rightarrow> publish_db \<Rightarrow> publish_db" where
  "update_variant i f db = db\<lparr>pd_variants := sql_update (\<lambda>v. vr_id v = i) f (pd_variants db)\<rparr>"

definition create_publish_job :: "int \<Rightarrow> string \<Rightarrow> string \<Rightarrow> publish_db \<Rightarrow> exn + publish_db \<times> publish_job" where
  "create_publish_job now i variant db =
     (if publish_job_at i db \<noteq> None then Inl unique_violation
      else if variant_at variant db = None then Inl foreign_key_violation
      else (let j = \<lparr>pj_id = i, pj_variant = variant, pj_status = JobPending, pj_ref = None, pj_result = None,
                     pj_error = None, pj_created = now, pj_started = None, pj_finished = None\<rparr> in
            Inr (db\<lparr>pd_jobs := pd_jobs db @ [j]\<rparr>, j)))"

definition mark_job_running :: "int \<Rightarrow> string \<Rightarrow> publish_db \<Rightarrow> publish_db" where
  "mark_job_running now i =
     update_publish_job (\<lambda>j. pj_id j = i) (\<lambda>j. j\<lparr>pj_status := JobRunning, pj_started := Some now\<rparr>)"

definition active_publish_job :: "publish_job \<Rightarrow> bool" where
  "active_publish_job j \<longleftrightarrow> pj_status j \<in> {JobPending, JobRunning}"

definition update_job_progress :: "postgres \<Rightarrow> string \<Rightarrow> json \<Rightarrow> publish_db \<Rightarrow> publish_db" where
  "update_job_progress G i event =
     update_publish_job (\<lambda>j. pj_id j = i \<and> active_publish_job j)
       (\<lambda>j. j\<lparr>pj_result := Some (pg_jsonb G (JObj [(''_progress'', event)]))\<rparr>)"

text \<open>The job with the backend and the id of its variant and the operator.\<close>

definition get_publish_job :: "string \<Rightarrow> string \<Rightarrow> publish_db \<Rightarrow> (publish_job \<times> variant_row \<times> string) option" where
  "get_publish_job i user db =
     (case publish_job_at i db of None \<Rightarrow> None | Some j \<Rightarrow>
     (case variant_at (pj_variant j) db of None \<Rightarrow> None | Some v \<Rightarrow>
     (case contract_at (vr_contract v) db of None \<Rightarrow> None | Some c \<Rightarrow>
        if owned_by (cv_operator c) user db then Some (j, v, cv_operator c) else None)))"

definition ready_job :: "postgres \<Rightarrow> int \<Rightarrow> string \<Rightarrow> json \<Rightarrow> publish_job \<Rightarrow> publish_job" where
  "ready_job G now ref result j =
     j\<lparr>pj_status := JobReady, pj_ref := Some ref, pj_result := Some (pg_jsonb G result), pj_error := None, pj_finished := Some now\<rparr>"

definition published_variant :: "postgres \<Rightarrow> int \<Rightarrow> string \<Rightarrow> json \<Rightarrow> variant_row \<Rightarrow> variant_row" where
  "published_variant G now ref result v =
     v\<lparr>vr_status := Published, vr_ref := Some ref, vr_metadata := Some (pg_jsonb G result), vr_error := None, vr_updated := now\<rparr>"

definition mark_job_ready ::
  "postgres \<Rightarrow> int \<Rightarrow> string \<Rightarrow> string \<Rightarrow> string \<Rightarrow> json \<Rightarrow> publish_db \<Rightarrow> publish_db" where
  "mark_job_ready G now i variant ref result db =
     update_variant variant (published_variant G now ref result)
       (update_publish_job (\<lambda>j. pj_id j = i) (ready_job G now ref result) db)"

definition mark_job_failed :: "int \<Rightarrow> string \<Rightarrow> string \<Rightarrow> string \<Rightarrow> publish_db \<Rightarrow> publish_db" where
  "mark_job_failed now i variant message db =
     (let m = last_text 8192 message in
      update_variant variant
        (\<lambda>v. v\<lparr>vr_status := (if vr_status v = Published then Published else VariantFailed), vr_error := Some m, vr_updated := now\<rparr>)
        (update_publish_job (\<lambda>j. pj_id j = i)
           (\<lambda>j. j\<lparr>pj_status := JobFailed, pj_error := Some m, pj_finished := Some now\<rparr>) db))"

section \<open>Edge devices\<close>

text \<open>\<open>token_pair = %s AND edge_name = %s\<close> is not true of a NULL.\<close>

definition on_device :: "edge_device \<Rightarrow> edge_device \<Rightarrow> bool" where
  "on_device d r \<longleftrightarrow> r = d \<and> ed_token d \<noteq> None \<and> ed_edge d \<noteq> None"

text \<open>\<open>btrim\<close> removes blanks only.\<close>

definition blank_text :: "string \<Rightarrow> bool" where
  "blank_text s \<longleftrightarrow> list_all (\<lambda>c. c = CHR '' '') s"

definition device_checks :: "edge_device \<Rightarrow> bool" where
  "device_checks d \<longleftrightarrow> ed_os d \<in> {''linux'', ''windows''} \<and> ed_arch d \<in> {''x86_64'', ''aarch64''} \<and>
     (case (ed_token d, ed_edge d) of
        (None, None) \<Rightarrow> True
      | (Some t, Some e) \<Rightarrow> \<not> blank_text t \<and> \<not> blank_text e
      | _ \<Rightarrow> False)"

definition list_edge_deployments :: "edge_device \<Rightarrow> string option \<Rightarrow> publish_db \<Rightarrow> deployment_row list" where
  "list_edge_deployments d exclude db =
     sort_key dp_operator (filter (\<lambda>r. on_device d (dp_device r) \<and> Some (dp_operator r) \<noteq> exclude) (pd_deployments db))"

definition list_edge_deployments_for_user :: "string \<Rightarrow> publish_db \<Rightarrow> (deployment_row \<times> operator_row) list" where
  "list_edge_deployments_for_user user db =
     sort_key (\<lambda>(d, r). (ed_os (dp_device d), ed_arch (dp_device d), ed_python (dp_device d),
         nulls_last (ed_token (dp_device d)), nulls_last (ed_edge (dp_device d)), op_display_name r))
       (concat (map (\<lambda>d. map (\<lambda>r. (d, r)) (filter (\<lambda>r. op_id r = dp_operator d \<and> op_user r = user) (pd_operators db)))
         (filter (\<lambda>d. ed_user (dp_device d) = user) (pd_deployments db))))"

definition limited :: "int \<Rightarrow> int \<Rightarrow> nat" where
  "limited limit most = nat (max 1 (min limit most))"

definition list_edge_bundles :: "string \<Rightarrow> int \<Rightarrow> publish_db \<Rightarrow> bundle_row list" where
  "list_edge_bundles user limit db =
     take (limited limit 200) (sort_key (\<lambda>b. - bn_created b) (filter (\<lambda>b. ed_user (bn_device b) = user) (pd_bundles db)))"

definition get_edge_bundle :: "string \<Rightarrow> string \<Rightarrow> publish_db \<Rightarrow> bundle_row option" where
  "get_edge_bundle user i db = List.find (\<lambda>b. bn_id b = i \<and> ed_user (bn_device b) = user) (pd_bundles db)"

definition list_edge_operations ::
  "string \<Rightarrow> int \<Rightarrow> publish_db \<Rightarrow> (publish_job \<times> variant_row \<times> operator_row) list" where
  "list_edge_operations user limit db =
     take (limited limit 300) (sort_key (\<lambda>(j, v, r). - pj_created j)
       (List.map_filter (\<lambda>j.
          case variant_at (pj_variant j) db of None \<Rightarrow> None | Some v \<Rightarrow>
         (case contract_at (vr_contract v) db of None \<Rightarrow> None | Some c \<Rightarrow>
         (case operator_at (cv_operator c) db of None \<Rightarrow> None | Some r \<Rightarrow>
            if op_user r = user \<and> vr_backend v = ''nifi_native'' then Some (j, v, r) else None))) (pd_jobs db)))"

definition device_bundles :: "edge_device \<Rightarrow> publish_db \<Rightarrow> bundle_row list" where
  "device_bundles d db = filter (\<lambda>b. on_device d (bn_device b)) (pd_bundles db)"

definition get_latest_edge_bundle :: "edge_device \<Rightarrow> publish_db \<Rightarrow> bundle_row option" where
  "get_latest_edge_bundle d db =
     (case sort_key (\<lambda>b. - int (bn_revision b)) (device_bundles d db) of [] \<Rightarrow> None | b # _ \<Rightarrow> Some b)"

definition list_edge_bundle_members :: "string \<Rightarrow> publish_db \<Rightarrow> member_row list" where
  "list_edge_bundle_members i db = sort_key mb_operator (filter (\<lambda>m. mb_bundle m = i) (pd_members db))"

definition next_edge_bundle_revision :: "edge_device \<Rightarrow> publish_db \<Rightarrow> nat" where
  "next_edge_bundle_revision d db = fold max (map bn_revision (device_bundles d db)) 0 + 1"

section \<open>The transaction of an edge publication\<close>

text \<open>A member of a bundle; a candidate that is only compared has no artifact yet.\<close>

record edge_member =
  em_operator :: string
  em_variant :: string
  em_package :: string
  em_artifact :: string
  em_requirements :: "string list"

record edge_commit =
  ec_deployment :: string
  ec_bundle :: string
  ec_device :: edge_device
  ec_operator :: string
  ec_variant :: string
  ec_platform :: string
  ec_package :: string
  ec_artifact :: string
  ec_requirements :: "string list"
  ec_job :: string
  ec_result :: json
  ec_revision :: nat
  ec_bundle_requirements :: "string list"
  ec_lock :: string
  ec_lock_sha256 :: string
  ec_ref :: string
  ec_bundle_sha256 :: string
  ec_manifest :: json
  ec_members :: "edge_member list"

definition deployment_of :: "int \<Rightarrow> edge_commit \<Rightarrow> deployment_row" where
  "deployment_of now q =
     \<lparr>dp_id = ec_deployment q, dp_device = ec_device q, dp_operator = ec_operator q, dp_variant = ec_variant q,
      dp_platform = ec_platform q, dp_package = ec_package q, dp_artifact = ec_artifact q,
      dp_requirements = ec_requirements q, dp_created = now, dp_updated = now\<rparr>"

definition same_deployment :: "edge_commit \<Rightarrow> deployment_row \<Rightarrow> bool" where
  "same_deployment q r \<longleftrightarrow> on_device (ec_device q) (dp_device r) \<and> dp_operator r = ec_operator q"

definition upsert_deployment :: "int \<Rightarrow> edge_commit \<Rightarrow> publish_db \<Rightarrow> exn + publish_db" where
  "upsert_deployment now q db =
     (if \<not> device_checks (ec_device q) then Inl check_violation
      else if \<not> list_ex (same_deployment q) (pd_deployments db) \<and> ec_deployment q \<in> dp_id ` set (pd_deployments db)
      then Inl unique_violation
      else if operator_at (ec_operator q) db = None \<or> variant_at (ec_variant q) db = None then Inl foreign_key_violation
      else if list_ex (same_deployment q) (pd_deployments db)
      then Inr (db\<lparr>pd_deployments := sql_update (same_deployment q)
             (\<lambda>r. r\<lparr>dp_variant := ec_variant q, dp_platform := ec_platform q, dp_package := ec_package q,
                    dp_artifact := ec_artifact q, dp_requirements := ec_requirements q, dp_updated := now\<rparr>)
             (pd_deployments db)\<rparr>)
      else Inr (db\<lparr>pd_deployments := pd_deployments db @ [deployment_of now q]\<rparr>))"

definition insert_bundle :: "postgres \<Rightarrow> int \<Rightarrow> edge_commit \<Rightarrow> publish_db \<Rightarrow> exn + publish_db" where
  "insert_bundle G now q db =
     (if \<not> device_checks (ec_device q) \<or> ec_revision q = 0 then Inl check_violation
      else if ec_bundle q \<in> bn_id ` set (pd_bundles db) \<or>
         list_ex (\<lambda>b. on_device (ec_device q) (bn_device b) \<and> bn_revision b = ec_revision q) (pd_bundles db)
      then Inl unique_violation
      else Inr (db\<lparr>pd_bundles := pd_bundles db @
             [\<lparr>bn_id = ec_bundle q, bn_device = ec_device q, bn_platform = ec_platform q, bn_revision = ec_revision q,
               bn_requirements = ec_bundle_requirements q, bn_lock = ec_lock q, bn_lock_sha256 = ec_lock_sha256 q,
               bn_ref = ec_ref q, bn_sha256 = ec_bundle_sha256 q, bn_manifest = pg_jsonb G (ec_manifest q), bn_created = now\<rparr>]\<rparr>))"

fun insert_members :: "string \<Rightarrow> edge_member list \<Rightarrow> publish_db \<Rightarrow> exn + publish_db" where
  "insert_members i [] db = Inr db"
| "insert_members i (m # ms) db =
     (if list_ex (\<lambda>r. mb_bundle r = i \<and> mb_operator r = em_operator m) (pd_members db) then Inl unique_violation
      else if operator_at (em_operator m) db = None \<or> variant_at (em_variant m) db = None then Inl foreign_key_violation
      else insert_members i ms (db\<lparr>pd_members := pd_members db @
             [\<lparr>mb_bundle = i, mb_operator = em_operator m, mb_variant = em_variant m, mb_package = em_package m,
               mb_artifact = em_artifact m, mb_requirements = em_requirements m\<rparr>]\<rparr>))"

text \<open>An error rolls the transaction back.\<close>

definition commit_edge_publish :: "postgres \<Rightarrow> int \<Rightarrow> edge_commit \<Rightarrow> publish_db \<Rightarrow> publish_db \<times> (exn + string)" where
  "commit_edge_publish G now q db =
     (case upsert_deployment now q db of Inl e \<Rightarrow> (db, Inl e) | Inr db1 \<Rightarrow>
     (case insert_bundle G now q db1 of Inl e \<Rightarrow> (db, Inl e) | Inr db2 \<Rightarrow>
     (case insert_members (ec_bundle q) (ec_members q) db2 of Inl e \<Rightarrow> (db, Inl e) | Inr db3 \<Rightarrow>
        (mark_job_ready G now (ec_job q) (ec_variant q) (ec_ref q) (ec_result q) db3, Inr (ec_bundle q)))))"

end
