(* ===== verification/Publish_Lifecycle.thy ===== *)
theory Publish_Lifecycle
  imports Publish_Store
begin

text \<open>
  \<open>PublishRuntimeLifecycle\<close> (\<open>publish_service/runtime_lifecycle.py\<close>): the gate a runner runtime has while it
  is being retired. The advisory lock of \<open>guard\<close> is a matter of the steps; an operation here is what a
  caller does while it has the lock. The table of gates is the third instance of the locale of the
  theory Retirement.
\<close>

definition runtime_error :: "string \<Rightarrow> exn" where
  "runtime_error m = PyError ''RuntimeError'' m"

fun lc_name :: "lc_state \<Rightarrow> string" where
  "lc_name Retiring = ''RETIRING''"
| "lc_name Retired = ''RETIRED''"

definition gate_at :: "string \<Rightarrow> publish_db \<Rightarrow> runtime_gate option" where
  "gate_at k db = List.find (\<lambda>r. rg_key r = k) (pd_gates db)"

definition assert_active :: "string \<Rightarrow> string \<Rightarrow> publish_db \<Rightarrow> exn + unit" where
  "assert_active k img db =
     (case gate_at k db of
        None \<Rightarrow> Inr ()
      | Some r \<Rightarrow>
          if rg_image r \<noteq> img
          then Inl (runtime_error ''runtime environment is lifecycle-blocked with another image_ref'')
          else Inl (runtime_error (''runtime environment '' @ k @ '' is '' @ lc_name (rg_state r) @
                 '' and cannot be used by a new Runner publication'')))"

section \<open>References\<close>

definition mentions :: "postgres \<Rightarrow> string \<Rightarrow> string \<Rightarrow> json \<Rightarrow> bool" where
  "mentions G k img metadata \<longleftrightarrow>
     json_text G (json_member (Some metadata) ''runtimeEnvKey'') = Some k \<or>
     json_text G (json_member (Some metadata) ''envKey'') = Some k \<or>
     json_text G (json_member (Some metadata) ''runtimeImage'') = Some img"

text \<open>The contract is the one with the highest version of its operator.\<close>

definition is_latest :: "publish_db \<Rightarrow> contract_row \<Rightarrow> bool" where
  "is_latest db c \<longleftrightarrow> list_all (\<lambda>v. v \<le> cv_version c) (contract_versions (cv_operator c) db)"

definition runner_references ::
  "postgres \<Rightarrow> string \<Rightarrow> string \<Rightarrow> publish_db \<Rightarrow> (operator_row \<times> contract_row \<times> variant_row) list" where
  "runner_references G k img db =
     sort_key (\<lambda>(r, c, v). (op_display_name r, - vr_updated v))
       (concat (map (\<lambda>v. concat (map (\<lambda>c. map (\<lambda>r. (r, c, v)) (filter (\<lambda>r. op_id r = cv_operator c) (pd_operators db)))
          (filter (\<lambda>c. cv_id c = vr_contract v \<and> is_latest db c) (pd_contracts db))))
        (filter (\<lambda>v. vr_backend v = ''runner'' \<and> vr_status v = Published \<and>
             (case vr_metadata v of None \<Rightarrow> False | Some m \<Rightarrow> mentions G k img m)) (pd_variants db))))"

section \<open>Retirement\<close>

record retirement_answer =
  ra_key :: string
  ra_image :: string
  ra_state :: lc_state
  ra_references :: "(operator_row \<times> contract_row \<times> variant_row) list"
  ra_safe :: bool

definition reopened_gate :: "int \<Rightarrow> string \<Rightarrow> string \<Rightarrow> runtime_gate \<Rightarrow> runtime_gate" where
  "reopened_gate now img reason r =
     r\<lparr>rg_image := img, rg_reason := take_text 1000 reason,
       rg_state := (if rg_state r = Retired then Retired else Retiring), rg_updated := now\<rparr>"

definition new_gate :: "int \<Rightarrow> string \<Rightarrow> string \<Rightarrow> string \<Rightarrow> runtime_gate" where
  "new_gate now k img reason =
     \<lparr>rg_key = k, rg_image = img, rg_state = Retiring, rg_reason = take_text 1000 reason,
      rg_created = now, rg_updated = now, rg_retired_at = None\<rparr>"

text \<open>The transaction that puts up the gate, and the answer read after it.\<close>

definition put_gate :: "int \<Rightarrow> string \<Rightarrow> string \<Rightarrow> string \<Rightarrow> publish_db \<Rightarrow> publish_db \<times> runtime_gate" where
  "put_gate now k img reason db =
     (case gate_at k db of
        None \<Rightarrow> (db\<lparr>pd_gates := pd_gates db @ [new_gate now k img reason]\<rparr>, new_gate now k img reason)
      | Some r \<Rightarrow> (db\<lparr>pd_gates := sql_update (\<lambda>r. rg_key r = k) (reopened_gate now img reason) (pd_gates db)\<rparr>,
                   reopened_gate now img reason r))"

definition retirement_answer :: "postgres \<Rightarrow> string \<Rightarrow> string \<Rightarrow> runtime_gate \<Rightarrow> publish_db \<Rightarrow> retirement_answer" where
  "retirement_answer G k img gate db =
     (let references = runner_references G k img db in
      \<lparr>ra_key = k, ra_image = img, ra_state = rg_state gate, ra_references = references,
       ra_safe = (references = [] \<and> rg_state gate = Retiring)\<rparr>)"

definition begin_retirement ::
  "postgres \<Rightarrow> int \<Rightarrow> string \<Rightarrow> string \<Rightarrow> string \<Rightarrow> publish_db \<Rightarrow> publish_db \<times> (exn + retirement_answer)" where
  "begin_retirement G now k img reason db =
     (if k = [] \<or> img = [] then (db, Inl (value_error ''runtime_env_key and image_ref are required''))
      else (case put_gate now k img reason db of (db1, gate) \<Rightarrow> (db1, Inr (retirement_answer G k img gate db1))))"

datatype cancellation = AlreadyActive | Cancelled string

definition cancel_retirement :: "string \<Rightarrow> publish_db \<Rightarrow> publish_db \<times> (exn + cancellation)" where
  "cancel_retirement k db =
     (if k = [] then (db, Inl (value_error ''runtime_env_key is required''))
      else (case gate_at k db of
              None \<Rightarrow> (db, Inr AlreadyActive)
            | Some r \<Rightarrow>
                if rg_state r = Retiring
                then (db\<lparr>pd_gates := sql_delete (\<lambda>r. rg_key r = k \<and> rg_state r = Retiring) (pd_gates db)\<rparr>, Inr (Cancelled (rg_image r)))
                else (db, Inl (value_error (''runtime environment lifecycle is '' @ lc_name (rg_state r) @ ''; it cannot be reactivated'')))))"

definition finalized_gate :: "int \<Rightarrow> runtime_gate \<Rightarrow> runtime_gate" where
  "finalized_gate now r =
     r\<lparr>rg_state := Retired, rg_retired_at := Some (case rg_retired_at r of None \<Rightarrow> now | Some t \<Rightarrow> t), rg_updated := now\<rparr>"

definition finalize_retirement :: "int \<Rightarrow> string \<Rightarrow> publish_db \<Rightarrow> publish_db \<times> (exn + runtime_gate)" where
  "finalize_retirement now k db =
     (if k = [] then (db, Inl (value_error ''runtime_env_key is required''))
      else (case gate_at k db of
              None \<Rightarrow> (db, Inl (key_error k))
            | Some r \<Rightarrow> (db\<lparr>pd_gates := sql_update (\<lambda>r. rg_key r = k) (finalized_gate now) (pd_gates db)\<rparr>, Inr (finalized_gate now r))))"

section \<open>The gates are a retirement table\<close>

definition gates_ok :: "publish_db \<Rightarrow> bool" where
  "gates_ok db \<longleftrightarrow> distinct (map rg_key (pd_gates db))"

definition gate_state :: "publish_db \<Rightarrow> string \<Rightarrow> lc_state option" where
  "gate_state db k = map_option rg_state (gate_at k db)"

lemma gate_frame [simp]:
  "rg_key (reopened_gate now img reason r) = rg_key r" "rg_key (finalized_gate now r) = rg_key r"
  "rg_key (new_gate now k img reason) = k" "rg_state (new_gate now k img reason) = Retiring"
  "rg_image (new_gate now k img reason) = img" "rg_image (reopened_gate now img reason r) = img"
  "rg_image (finalized_gate now r) = rg_image r" "rg_state (finalized_gate now r) = Retired"
  "rg_state (reopened_gate now img reason r) = (if rg_state r = Retired then Retired else Retiring)"
  by (simp_all add: reopened_gate_def finalized_gate_def new_gate_def)

lemma gate_at_key: "gate_at k db = Some r \<Longrightarrow> rg_key r = k \<and> r \<in> set (pd_gates db)"
  by (auto simp: gate_at_def dest: find_SomeD)

lemma gate_at_update:
  "(\<And>r. rg_key (f r) = rg_key r) \<Longrightarrow> gate_at k' (db\<lparr>pd_gates := sql_update (\<lambda>r. rg_key r = k) f (pd_gates db)\<rparr>) =
     (if k' = k then map_option f (gate_at k db) else gate_at k' db)"
  by (cases "List.find (\<lambda>r. rg_key r = k') (pd_gates db)") (auto simp: gate_at_def find_sql_update dest: find_SomeD)

lemma gate_at_append: "gate_at k db = None \<Longrightarrow> rg_key g = k \<Longrightarrow>
    gate_at k' (db\<lparr>pd_gates := pd_gates db @ [g]\<rparr>) = (if k' = k then Some g else gate_at k' db)"
  by (auto simp: gate_at_def split: option.split)

lemma gate_at_delete:
  assumes "gates_ok db" "gate_at k db = Some r" "rg_state r = Retiring"
  shows "gate_at k' (db\<lparr>pd_gates := sql_delete (\<lambda>r. rg_key r = k \<and> rg_state r = Retiring) (pd_gates db)\<rparr>) =
    (if k' = k then None else gate_at k' db)"
proof (cases "k' = k")
  case True
  have "x = r" if "x \<in> set (pd_gates db)" "rg_key x = k" for x
    using assms(1) gate_at_key [OF assms(2)] that unfolding gates_ok_def by (metis distinct_map inj_onD)
  with True assms(3) show ?thesis by (auto simp: gate_at_def find_None_iff)
qed (auto simp: gate_at_def intro!: find_sql_delete_other)

lemma put_gate_spec:
  assumes "put_gate now k img reason db = (db', g)"
  shows "gate_at k' db' = (if k' = k then Some g else gate_at k' db)" "rg_key g = k" "rg_image g = img"
    and "rg_state g = (if gate_state db k = Some Retired then Retired else Retiring)"
    and "gates_ok db \<Longrightarrow> gates_ok db'"
proof -
  note defs = put_gate_def gate_state_def
  from assms show "gate_at k' db' = (if k' = k then Some g else gate_at k' db)" "rg_image g = img"
      "rg_state g = (if gate_state db k = Some Retired then Retired else Retiring)"
    by (auto simp: defs gate_at_append gate_at_update split: option.splits)
  from assms show "rg_key g = k" by (auto simp: defs split: option.splits dest: gate_at_key)
  show "gates_ok db \<Longrightarrow> gates_ok db'"
    using assms by (auto simp: defs gates_ok_def map_key_sql_update gate_at_def find_None_iff split: option.splits)
qed

lemma cancel_spec:
  assumes "cancel_retirement k db = (db', a)" "gates_ok db"
  shows "gates_ok db'"
    and "gate_at k' db' = (if k' = k \<and> gate_state db k = Some Retiring \<and> k \<noteq> [] then None else gate_at k' db)"
  using assms
  by (auto simp: cancel_retirement_def gate_state_def gate_at_delete gates_ok_def distinct_key_sql_delete split: option.splits if_splits)

lemma finalize_spec:
  assumes "finalize_retirement now k db = (db', a)"
  shows "gates_ok db \<Longrightarrow> gates_ok db'"
    and "gate_at k' db' = (if k' = k \<and> k \<noteq> [] then map_option (finalized_gate now) (gate_at k db) else gate_at k' db)"
  using assms
  by (auto simp: finalize_retirement_def gates_ok_def map_key_sql_update gate_at_update split: option.splits if_splits)

definition gate_retire_op :: "postgres \<times> int \<times> string \<times> string \<times> string \<Rightarrow> publish_db \<Rightarrow> publish_db" where
  "gate_retire_op = (\<lambda>(G, now, k, img, reason) db. fst (begin_retirement G now k img reason db))"

definition gate_reopen_op :: "postgres \<times> int \<times> string \<times> string \<times> string \<Rightarrow> publish_db \<Rightarrow> publish_db" where
  "gate_reopen_op = (\<lambda>(G, now, k, img, reason) db. fst (cancel_retirement k db))"

definition gate_finish_op :: "postgres \<times> int \<times> string \<times> string \<times> string \<Rightarrow> publish_db \<Rightarrow> publish_db" where
  "gate_finish_op = (\<lambda>(G, now, k, img, reason) db. fst (finalize_retirement now k db))"

interpretation publish_lifecycle: retirement gates_ok gate_state "\<lambda>(G, now, k, img, reason). k"
  gate_retire_op gate_reopen_op gate_finish_op
proof
  fix db k' and r :: "postgres \<times> int \<times> string \<times> string \<times> string"
  assume ok: "gates_ok db"
  obtain G now k img reason where r: "r = (G, now, k, img, reason)" by (metis prod_cases5)
  obtain db1 g where p: "put_gate now k img reason db = (db1, g)" by fastforce
  have b: "gate_retire_op r db = (if k = [] \<or> img = [] then db else db1)"
    by (simp add: gate_retire_op_def begin_retirement_def r p)
  have s: "gate_state db1 k' = (if k' = k then Some (rg_state g) else gate_state db k')"
    using put_gate_spec(1) [OF p, of k'] by (simp add: gate_state_def)
  show "gates_ok (gate_retire_op r db)" using ok put_gate_spec(5) [OF p] by (simp add: b)
  show "gate_state (gate_retire_op r db) k' = gate_state db k' \<or>
      k' = (case r of (G, now, k, img, reason) \<Rightarrow> k) \<and> gate_state db k' = None \<and> gate_state (gate_retire_op r db) k' = Some Retiring"
    unfolding b unfolding r using put_gate_spec(4) [OF p]
    by (cases "gate_state db k"; cases "the (gate_state db k)") (simp_all add: s)
  obtain db2 c where c: "cancel_retirement k db = (db2, c)" by fastforce
  show "gates_ok (gate_reopen_op r db)" using cancel_spec(1) [OF c ok] by (simp add: gate_reopen_op_def r c)
  show "gate_state (gate_reopen_op r db) k' = gate_state db k' \<or>
      k' = (case r of (G, now, k, img, reason) \<Rightarrow> k) \<and> gate_state db k' = Some Retiring \<and> gate_state (gate_reopen_op r db) k' = None"
    using cancel_spec(2) [OF c ok, of k'] by (auto simp: gate_reopen_op_def r c gate_state_def)
  obtain db3 f where f: "finalize_retirement now k db = (db3, f)" by fastforce
  show "gates_ok (gate_finish_op r db)" using finalize_spec(1) [OF f ok] by (simp add: gate_finish_op_def r f)
  show "gate_state (gate_finish_op r db) k' = gate_state db k' \<or>
      k' = (case r of (G, now, k, img, reason) \<Rightarrow> k) \<and> gate_state db k' \<noteq> None \<and> gate_state (gate_finish_op r db) k' = Some Retired"
    using finalize_spec(2) [OF f, of k'] by (cases "gate_at k db") (auto simp: gate_finish_op_def r f gate_state_def)
qed

end
