(* ===== verification/Publish_Roundtrip.thy ===== *)
theory Publish_Roundtrip
  imports Publish_Contract "HOL-Library.Multiset"
begin

definition jsonb_items :: "postgres \<Rightarrow> (string, json) dict \<Rightarrow> (string, json) dict" where
  "jsonb_items G d = sort_key (\<lambda>(k, v). (length k, k)) (map (\<lambda>(k, v). (k, pg_jsonb G v)) d)"

lemma jsonb_obj: "pg_jsonb G (JObj d) = JObj (jsonb_items G d)"
  by (simp add: jsonb_items_def)

lemma dict_get_pg_jsonb: "distinct (map fst d) \<Longrightarrow> dict_get (jsonb_items G d) k = map_option (pg_jsonb G) (dict_get d k)"
proof -
  assume d: "distinct (map fst d)"
  have "map fst (map (\<lambda>(k, v). (k, pg_jsonb G v)) d) = map fst d" by auto
  with d show ?thesis unfolding jsonb_items_def by (simp only: dict_get_sort map_of_map) (simp add: map_of_map)
qed

definition in_jsonb_order :: "(string, 'a) dict \<Rightarrow> (string, 'a) dict" where
  "in_jsonb_order d = sort_key (\<lambda>(k, v). (length k, k)) d"

definition stored_parameter :: "postgres \<Rightarrow> parameter_spec \<Rightarrow> parameter_spec" where
  "stored_parameter G p = p\<lparr>ps_default := pg_jsonb G (ps_default p)\<rparr>"

definition stored_binding :: "postgres \<Rightarrow> argument_binding \<Rightarrow> argument_binding" where
  "stored_binding G b =
     b\<lparr>ab_parameter := map_option (stored_parameter G) (ab_parameter b), ab_constant := pg_jsonb G (ab_constant b)\<rparr>"

definition stored_value :: "postgres \<Rightarrow> output_value \<Rightarrow> output_value" where
  "stored_value G v = v\<lparr>ov_value := pg_jsonb G (ov_value v)\<rparr>"

definition stored_dict :: "('a \<Rightarrow> 'a) \<Rightarrow> (string, 'a) dict \<Rightarrow> (string, 'a) dict" where
  "stored_dict f d = in_jsonb_order (map (\<lambda>(k, v). (k, f v)) d)"

definition stored_output :: "postgres \<Rightarrow> output_spec \<Rightarrow> output_spec" where
  "stored_output G q =
     q\<lparr>out_payload := stored_value G (out_payload q), out_metadata := stored_dict (stored_value G) (out_metadata q)\<rparr>"

definition stored_contract :: "postgres \<Rightarrow> operator_contract \<Rightarrow> operator_contract" where
  "stored_contract G c =
     c\<lparr>oc_constructor := stored_dict (stored_binding G) (oc_constructor c),
       oc_arguments := stored_dict (stored_binding G) (oc_arguments c), oc_output := stored_output G (oc_output c)\<rparr>"

lemma sort_key_map_fst:
  "(\<And>x. key (f x) = key' x) \<Longrightarrow> sort_key key (map f xs) = map f (sort_key key' xs)"
  by (induction xs) (auto simp: insort_key_map)

lemma jsonb_dict: "pg_jsonb G (dict_json f d) = JObj (in_jsonb_order (map (\<lambda>(k, v). (k, pg_jsonb G (f v))) d))"
proof -
  have "map (\<lambda>(k, v). (k, pg_jsonb G v)) (map (\<lambda>(k, v). (k, f v)) d) = map (\<lambda>(k, v). (k, pg_jsonb G (f v))) d"
    by (induction d) auto
  then show ?thesis by (simp only: dict_json_def pg_jsonb.simps in_jsonb_order_def)
qed

lemma read_items_map:
  "\<forall>v \<in> snd ` set d. r (g v) = Inr (h v) \<Longrightarrow>
    read_items r (map (\<lambda>(k, v). (k, g v)) d) = Inr (map (\<lambda>(k, v). (k, h v)) d)"
  by (induction d) auto

lemma read_dict_stored:
  assumes "\<And>v. v \<in> snd ` set d \<Longrightarrow> r (pg_jsonb G (f v)) = Inr (h v)"
  shows "read_dict r (pg_jsonb G (dict_json f d)) = Inr (stored_dict h d)"
proof -
  let ?s = "in_jsonb_order d"
  have o: "in_jsonb_order (map (\<lambda>(k, v). (k, g v)) d) = map (\<lambda>(k, v). (k, g v)) ?s" for g :: "'a \<Rightarrow> 'c"
    unfolding in_jsonb_order_def by (rule sort_key_map_fst) auto
  have o2: "in_jsonb_order (map (\<lambda>(k, v). (k, h v)) d) = map (\<lambda>(k, v). (k, h v)) ?s"
    unfolding in_jsonb_order_def by (rule sort_key_map_fst) auto
  have "read_items r (map (\<lambda>(k, v). (k, pg_jsonb G (f v))) ?s) = Inr (map (\<lambda>(k, v). (k, h v)) ?s)"
    by (rule read_items_map) (use assms in \<open>simp add: in_jsonb_order_def\<close>)
  then show ?thesis
    unfolding jsonb_dict stored_dict_def o2 read_dict_def
    by (simp add: in_jsonb_order_def sort_key_map_fst [of _ _ "\<lambda>(k, v). (length k, k)"] case_prod_beta)
qed


lemma read_enum_value: "v \<in> set vs \<Longrightarrow> inj_on name (set vs) \<Longrightarrow> read_enum name vs (JStr (name v)) = Inr v"
proof -
  assume v: "v \<in> set vs" and i: "inj_on name (set vs)"
  have "List.find (\<lambda>w. name w = name v) vs = Some w \<Longrightarrow> w = v" for w
    using v i by (auto dest!: find_SomeD simp: inj_on_eq_iff)
  moreover have "List.find (\<lambda>w. name w = name v) vs \<noteq> None" using v by (auto simp: find_None_iff)
  ultimately show ?thesis by (auto simp: read_enum_def split: option.split)
qed

lemma read_enums [simp]:
  "read_source (JStr (source_value s)) = Inr s" "read_codec (JStr (codec_value c)) = Inr c"
  "read_policy (JStr (policy_value p)) = Inr p" "read_value_source (JStr (output_value_name v)) = Inr v"
  by (rule read_enum_value; (cases s; simp)?; (cases c; simp)?; (cases p; simp)?; (cases v; simp)?; simp add: inj_on_def)+

lemma read_optional_text [simp]: "read_optional read_text (opt_json s) = Inr s"
  by (cases s) (simp_all add: opt_json_def)

lemma jsonb_opt [simp]: "pg_jsonb G (opt_json s) = opt_json s"
  by (cases s) (simp_all add: opt_json_def)

lemma read_fields_jsonb [simp]: "read_fields (pg_jsonb G (JObj d)) = Inr (jsonb_items G d)"
  by (simp add: jsonb_obj del: pg_jsonb.simps)

lemma stored_parameter_eq: "stored_parameter G p = \<lparr>ps_key = ps_key p, ps_display_name = ps_display_name p,
    ps_description = ps_description p, ps_required = ps_required p, ps_has_default = ps_has_default p,
    ps_default = pg_jsonb G (ps_default p), ps_type = ps_type p\<rparr>"
  by (simp add: stored_parameter_def)

lemma read_parameter_stored:
  "validate_parameter p = Inr p \<Longrightarrow> read_parameter (pg_jsonb G (parameter_json p)) = Inr (stored_parameter G p)"
proof -
  assume v: "validate_parameter p = Inr p"
  then have "validate_parameter (stored_parameter G p) = Inr (stored_parameter G p)"
    by (cases p) (auto simp: validate_parameter_def stored_parameter_eq split: sum.splits)
  then show ?thesis
    unfolding read_parameter_def parameter_json_def
    by (simp add: dict_get_pg_jsonb required_field_def field_default_def stored_parameter_eq del: pg_jsonb.simps(3))
qed


lemma stored_binding_eq: "stored_binding G b = \<lparr>ab_source = ab_source b, ab_codec = ab_codec b,
    ab_metadata_key = ab_metadata_key b, ab_parameter = map_option (stored_parameter G) (ab_parameter b),
    ab_constant = pg_jsonb G (ab_constant b), ab_type = ab_type b\<rparr>"
  by (simp add: stored_binding_def)

lemma stored_value_eq: "stored_value G v =
    \<lparr>ov_source = ov_source v, ov_path = ov_path v, ov_codec = ov_codec v, ov_value = pg_jsonb G (ov_value v)\<rparr>"
  by (simp add: stored_value_def)

lemma jsonb_parameter_obj: "pg_jsonb G (parameter_json p) \<noteq> JNull"
  by (simp add: parameter_json_def)

lemma read_optional_some: "j \<noteq> JNull \<Longrightarrow> f j = Inr x \<Longrightarrow> read_optional f j = Inr (Some x)"
  by (cases j) simp_all

lemma valid_binding_parts:
  assumes "validate_binding b = Inr b"
  shows "validate_payload b = Inr b" "ab_parameter b = Some p \<Longrightarrow> validate_parameter p = Inr p"
  using assms
  by (cases b; auto simp: validate_binding_def validate_payload_def split: option.splits sum.splits if_splits)+

lemma read_binding_stored:
  assumes "validate_binding b = Inr b"
  shows "read_binding (pg_jsonb G (binding_json b)) = Inr (stored_binding G b)"
proof -
  have p: "read_optional read_parameter (pg_jsonb G (case ab_parameter b of None \<Rightarrow> JNull | Some p \<Rightarrow> parameter_json p)) =
      Inr (map_option (stored_parameter G) (ab_parameter b))"
    using valid_binding_parts(2) [OF assms] read_parameter_stored jsonb_parameter_obj
    by (cases "ab_parameter b") (simp_all add: read_optional_some)
  have "validate_payload (stored_binding G b) = Inr (stored_binding G b)"
    using valid_binding_parts(1) [OF assms]
    by (auto simp: validate_payload_def stored_binding_eq split: if_splits)
  with p show ?thesis
    unfolding read_binding_def binding_json_def
    by (simp add: dict_get_pg_jsonb required_field_def field_default_def stored_binding_eq del: pg_jsonb.simps(3))
qed

lemma read_parts_stored: "read_list read_part (map (pg_jsonb G) (map part_json ps)) = Inr ps"
proof (induction ps)
  case (Cons p ps)
  then show ?case by (cases p) simp_all
qed simp

lemma read_value_stored:
  assumes "validate_value v = Inr v"
  shows "read_output_value (pg_jsonb G (output_value_json v)) = Inr (stored_value G v)"
proof -
  have "validate_value (stored_value G v) = Inr (stored_value G v)"
    using assms by (auto simp: validate_value_def stored_value_eq split: if_splits)
  with read_parts_stored [of G "ov_path v"] show ?thesis
    unfolding read_output_value_def output_value_json_def
    by (simp add: dict_get_pg_jsonb field_default_def stored_value_eq del: pg_jsonb.simps(3))
qed

lemma validate_dict_fixed: "validate_dict f d = Inr d \<Longrightarrow> v \<in> snd ` set d \<Longrightarrow> f v = Inr v"
proof (induction d)
  case (Cons p d)
  then have "f (snd p) = Inr (snd p) \<and> validate_dict f d = Inr d" by (cases p) (auto split: sum.splits)
  with Cons show ?case by auto
qed simp

lemma read_output_stored:
  assumes "validate_output q = Inr q"
  shows "read_output (pg_jsonb G (output_json q)) = Inr (stored_output G q)"
proof -
  from assms have p: "validate_value (out_payload q) = Inr (out_payload q)"
    and m: "validate_dict validate_value (out_metadata q) = Inr (out_metadata q)"
    by (cases q; auto simp: validate_output_def split: sum.splits)+
  have "read_dict read_output_value (pg_jsonb G (dict_json output_value_json (out_metadata q))) =
      Inr (stored_dict (stored_value G) (out_metadata q))"
    by (rule read_dict_stored) (use read_value_stored validate_dict_fixed [OF m] in blast)
  with read_value_stored [OF p] show ?thesis
    unfolding read_output_def output_json_def
    by (simp add: dict_get_pg_jsonb field_default_def stored_output_def del: pg_jsonb.simps(3))
qed

lemma valid_contract_parts:
  assumes "validate_contract c = Inr c"
  shows "validate_name (oc_name c) = Inr (oc_name c)" "validate_python_path (oc_python_path c) = Inr (oc_python_path c)"
    "validate_dict validate_binding (oc_constructor c) = Inr (oc_constructor c)"
    "validate_dict validate_binding (oc_arguments c) = Inr (oc_arguments c)" "validate_output (oc_output c) = Inr (oc_output c)"
  using assms by (cases c; auto simp: validate_contract_def split: sum.splits)+

lemma read_contract_stored:
  assumes "validate_contract c = Inr c"
  shows "read_contract (pg_jsonb G (contract_json c)) = Inr (stored_contract G c)"
proof -
  note v = valid_contract_parts [OF assms]
  have cons: "read_dict read_binding (pg_jsonb G (dict_json binding_json (oc_constructor c))) =
      Inr (stored_dict (stored_binding G) (oc_constructor c))"
    by (rule read_dict_stored) (use read_binding_stored validate_dict_fixed [OF v(3)] in blast)
  have args: "read_dict read_binding (pg_jsonb G (dict_json binding_json (oc_arguments c))) =
      Inr (stored_dict (stored_binding G) (oc_arguments c))"
    by (rule read_dict_stored) (use read_binding_stored validate_dict_fixed [OF v(4)] in blast)
  show ?thesis
    unfolding read_contract_def contract_json_def using v(1,2) cons args read_output_stored [OF v(5)]
    by (simp add: dict_get_pg_jsonb required_field_def field_default_def read_literal_def stored_contract_def del: pg_jsonb.simps(3))
qed


section \<open>The digest\<close>

text \<open>The objects of a value have distinct keys, and PostgreSQL gives its floats back as they are written.\<close>

fun plain_json :: "postgres \<Rightarrow> json \<Rightarrow> bool" where
  "plain_json G (JFloat s) = (pg_number G s = JFloat s)"
| "plain_json G (JList l) = list_all (plain_json G) l"
| "plain_json G (JObj d) = (distinct (map fst d) \<and> list_all (\<lambda>(k, v). plain_json G v) d)"
| "plain_json G j = True"

lemma sort_key_twice:
  assumes "distinct (map fst d)"
  shows "sort_key fst (sort_key g d) = sort_key fst (d :: (string \<times> 'a) list)"
  by (rule sort_key_inj_key_eq) (use assms in \<open>auto simp: distinct_map\<close>)

lemma sort_keys_cong:
  "map (\<lambda>(k, v). (k, sort_keys v)) d = map (\<lambda>(k, v). (k, sort_keys v)) e \<Longrightarrow> sort_keys (JObj d) = sort_keys (JObj e)"
  by simp

lemma sort_keys_order:
  assumes "distinct (map fst d)"
  shows "sort_keys (JObj (in_jsonb_order d)) = sort_keys (JObj d)"
proof -
  have "map (\<lambda>(k, v). (k, sort_keys v)) (in_jsonb_order d) = in_jsonb_order (map (\<lambda>(k, v). (k, sort_keys v)) d)"
    unfolding in_jsonb_order_def by (rule sort_key_map_fst [symmetric]) auto
  moreover have "distinct (map fst (map (\<lambda>(k, v). (k, sort_keys v)) d))" using assms by (simp add: comp_def case_prod_beta)
  ultimately show ?thesis unfolding sort_keys.simps in_jsonb_order_def by (simp only: sort_key_twice)
qed

lemma sort_keys_jsonb: "plain_json G j \<Longrightarrow> sort_keys (pg_jsonb G j) = sort_keys j"
proof (induction j)
  case (JObj d)
  then have d: "distinct (map fst d)" and v: "\<forall>p \<in> set d. sort_keys (pg_jsonb G (snd p)) = sort_keys (snd p)"
    by (auto simp: list_all_iff)
  have "pg_jsonb G (JObj d) = JObj (in_jsonb_order (map (\<lambda>(k, v). (k, pg_jsonb G v)) d))"
    by (simp add: in_jsonb_order_def)
  also have "sort_keys \<dots> = sort_keys (JObj (map (\<lambda>(k, v). (k, pg_jsonb G v)) d))"
    by (rule sort_keys_order) (use d in \<open>simp add: comp_def case_prod_beta\<close>)
  also have "\<dots> = sort_keys (JObj d)"
    by (rule sort_keys_cong) (use v in auto)
  finally show ?case .
qed (auto simp: list_all_iff)

lemma sort_keys_dict:
  assumes "distinct (map fst d)" "\<forall>v \<in> snd ` set d. sort_keys (f (h v)) = sort_keys (f v)"
  shows "sort_keys (dict_json f (stored_dict h d)) = sort_keys (dict_json f d)"
proof -
  have "dict_json f (stored_dict h d) = JObj (in_jsonb_order (map (\<lambda>(k, v). (k, f (h v))) d))"
  proof -
    have "map (\<lambda>(k, v). (k, f v)) (in_jsonb_order (map (\<lambda>(k, v). (k, h v)) d)) =
        in_jsonb_order (map (\<lambda>(k, v). (k, f v)) (map (\<lambda>(k, v). (k, h v)) d))"
      unfolding in_jsonb_order_def by (rule sort_key_map_fst [symmetric]) auto
    moreover have "map (\<lambda>(k, v). (k, f v)) (map (\<lambda>(k, v). (k, h v)) d) = map (\<lambda>(k, v). (k, f (h v))) d" by auto
    ultimately show ?thesis by (simp only: dict_json_def stored_dict_def)
  qed
  also have "sort_keys \<dots> = sort_keys (JObj (map (\<lambda>(k, v). (k, f (h v))) d))"
    by (rule sort_keys_order) (use assms(1) in \<open>simp add: comp_def case_prod_beta\<close>)
  also have "\<dots> = sort_keys (dict_json f d)"
    unfolding dict_json_def by (rule sort_keys_cong) (use assms(2) in auto)
  finally show ?thesis .
qed

lemma plain_dict: "plain_json G (dict_json f d) \<longleftrightarrow> distinct (map fst d) \<and> (\<forall>v \<in> snd ` set d. plain_json G (f v))"
  by (auto simp: dict_json_def list_all_iff comp_def case_prod_beta)

lemma sort_keys_parameter:
  "plain_json G (parameter_json p) \<Longrightarrow> sort_keys (parameter_json (stored_parameter G p)) = sort_keys (parameter_json p)"
  unfolding parameter_json_def by (rule sort_keys_cong) (simp add: stored_parameter_def sort_keys_jsonb)

lemma sort_keys_binding:
  assumes "plain_json G (binding_json b)"
  shows "sort_keys (binding_json (stored_binding G b)) = sort_keys (binding_json b)"
  unfolding binding_json_def
proof (rule sort_keys_cong)
  have "plain_json G (ab_constant b)" "\<And>p. ab_parameter b = Some p \<Longrightarrow> plain_json G (parameter_json p)"
    using assms by (simp_all add: binding_json_def)
  then show "map (\<lambda>(k, v). (k, sort_keys v))
     [(''source'', JStr (source_value (ab_source (stored_binding G b)))), (''codec'', JStr (codec_value (ab_codec (stored_binding G b)))),
      (''metadata_key'', opt_json (ab_metadata_key (stored_binding G b))),
      (''parameter'', case ab_parameter (stored_binding G b) of None \<Rightarrow> JNull | Some p \<Rightarrow> parameter_json p),
      (''constant'', ab_constant (stored_binding G b)), (''argument_type'', JStr (ab_type (stored_binding G b)))] =
    map (\<lambda>(k, v). (k, sort_keys v))
     [(''source'', JStr (source_value (ab_source b))), (''codec'', JStr (codec_value (ab_codec b))),
      (''metadata_key'', opt_json (ab_metadata_key b)),
      (''parameter'', case ab_parameter b of None \<Rightarrow> JNull | Some p \<Rightarrow> parameter_json p),
      (''constant'', ab_constant b), (''argument_type'', JStr (ab_type b))]"
    by (cases "ab_parameter b") (simp_all add: stored_binding_def sort_keys_jsonb sort_keys_parameter)
qed

lemma sort_keys_value:
  "plain_json G (output_value_json v) \<Longrightarrow> sort_keys (output_value_json (stored_value G v)) = sort_keys (output_value_json v)"
  unfolding output_value_json_def by (rule sort_keys_cong) (simp add: stored_value_def sort_keys_jsonb)

lemma sort_keys_output:
  "plain_json G (output_json q) \<Longrightarrow> sort_keys (output_json (stored_output G q)) = sort_keys (output_json q)"
  unfolding output_json_def
  by (rule sort_keys_cong) (simp add: stored_output_def sort_keys_value sort_keys_dict plain_dict)

lemma stored_digest:
  assumes "plain_json G (contract_json c)"
  shows "contract_sha256 A (stored_contract G c) = contract_sha256 A c"
proof -
  have p: "plain_json G (dict_json binding_json (oc_constructor c))" "plain_json G (dict_json binding_json (oc_arguments c))"
    "plain_json G (output_json (oc_output c))"
    using assms by (simp_all add: contract_json_def)
  have "sort_keys (contract_json (stored_contract G c)) = sort_keys (contract_json c)"
    unfolding contract_json_def
    by (rule sort_keys_cong) (use p in \<open>simp add: stored_contract_def sort_keys_dict sort_keys_binding sort_keys_output plain_dict\<close>)
  then show ?thesis by (simp add: contract_sha256_def canonical_json_def)
qed


section \<open>Validated contracts stay as they are\<close>

lemma space_len_zero: "space_len s = 0 \<longleftrightarrow> s = [] \<or> \<not> py_space (hd s) \<and> codes 2 s \<noteq> [194, 133] \<and>
    codes 2 s \<noteq> [194, 160] \<and> \<not> wide_space (codes 3 s)"
  by (cases s) (simp_all add: space_len_def)

lemma codes_take: "codes m (take n s) = codes m s \<or> length (codes m (take n s)) < m"
  by (cases "n \<le> m") (auto simp: codes_def min_def)

lemma space_len_take: "space_len s = 0 \<Longrightarrow> space_len (take n s) = 0"
proof -
  assume s: "space_len s = 0"
  have "codes 2 (take n s) \<noteq> [194, 133] \<and> codes 2 (take n s) \<noteq> [194, 160]" if "s \<noteq> []"
    using codes_take [of 2 n s] s that by (auto simp: space_len_zero)
  moreover have "wide_space b \<Longrightarrow> length b = 3" for b by (auto simp: wide_space_def)
  then have "\<not> wide_space (codes 3 (take n s))" if "s \<noteq> []"
    using codes_take [of 3 n s] s that by (auto simp: space_len_zero)
  moreover have "take n s = [] \<or> hd (take n s) = hd s" by (cases n; cases s) auto
  ultimately show ?thesis using s by (auto simp: space_len_zero)
qed

lemma lstrip_start: "space_len (lstrip s) = 0"
  by (induction s rule: lstrip.induct) (subst lstrip.simps, simp)

lemma rstrip_end: "trail_len (rstrip s) = 0"
  by (induction s rule: rstrip.induct) (subst rstrip.simps, simp)

lemma rstrip_take: "\<exists>n. rstrip s = take n s"
proof (induction s rule: rstrip.induct)
  case (1 s)
  show ?case
  proof (cases "trail_len s = 0")
    case True
    then have "rstrip s = take (length s) s" by (subst rstrip.simps) simp
    then show ?thesis by blast
  next
    case False
    with 1 obtain n where "rstrip (take (length s - trail_len s) s) = take n (take (length s - trail_len s) s)" by blast
    with False have "rstrip s = take (min n (length s - trail_len s)) s" by (subst rstrip.simps) simp
    then show ?thesis by blast
  qed
qed

lemma strip_idem: "strip (strip s) = strip s"
proof -
  obtain n where "rstrip (lstrip s) = take n (lstrip s)" using rstrip_take by blast
  then have "space_len (strip s) = 0" by (simp add: strip_def space_len_take lstrip_start)
  moreover have "trail_len (strip s) = 0" by (simp add: strip_def rstrip_end)
  ultimately show ?thesis by (simp add: strip_def lstrip.simps [of "rstrip (lstrip s)"] rstrip.simps [of "rstrip (lstrip s)"])
qed

lemma validate_parameter_again: "validate_parameter p = Inr q \<Longrightarrow> validate_parameter q = Inr q"
  by (auto simp: validate_parameter_def validate_key_def Let_def strip_idem split: sum.splits if_splits)

lemma validate_binding_again: "validate_binding b = Inr b' \<Longrightarrow> validate_binding b' = Inr b'"
  using validate_parameter_again
  by (auto simp: validate_binding_def validate_payload_def split: option.splits sum.splits if_splits)

lemma validate_value_again: "validate_value v = Inr w \<Longrightarrow> validate_value w = Inr w"
  by (auto simp: validate_value_def split: if_splits)

lemma validate_dict_again:
  "validate_dict f d = Inr d' \<Longrightarrow> (\<And>v w. f v = Inr w \<Longrightarrow> f w = Inr w) \<Longrightarrow> validate_dict f d' = Inr d'"
proof (induction d arbitrary: d')
  case (Cons p d)
  obtain k v where p: "p = (k, v)" by fastforce
  with Cons.prems obtain w e where "f v = Inr w" "validate_dict f d = Inr e" "d' = (k, w) # e"
    by (auto split: sum.splits)
  with Cons.IH [of e] Cons.prems(2) show ?case by simp
qed simp

lemma validate_output_again: "validate_output q = Inr q' \<Longrightarrow> validate_output q' = Inr q'"
  using validate_value_again validate_dict_again [OF _ validate_value_again]
  by (auto simp: validate_output_def split: sum.splits)

text \<open>The python path is the exception: white space after a dropped component can become leading.\<close>

lemma validate_contract_again:
  assumes "validate_contract c = Inr c'" "validate_python_path (oc_python_path c') = Inr (oc_python_path c')"
  shows "validate_contract c' = Inr c'"
proof -
  from assms(1) obtain name path cons args out where v: "validate_name (oc_name c) = Inr name"
    "validate_dict validate_binding (oc_constructor c) = Inr cons" "validate_dict validate_binding (oc_arguments c) = Inr args"
    "validate_output (oc_output c) = Inr out"
    and c': "c' = c\<lparr>oc_name := name, oc_python_path := path, oc_constructor := cons, oc_arguments := args, oc_output := out\<rparr>"
    by (auto simp: validate_contract_def split: sum.splits)
  have "validate_name name = Inr name" using v(1) by (auto simp: validate_name_def Let_def strip_idem split: if_splits)
  moreover note validate_dict_again [OF v(2) validate_binding_again] validate_dict_again [OF v(3) validate_binding_again]
    validate_output_again [OF v(4)]
  ultimately show ?thesis using assms(2) by (simp add: validate_contract_def c')
qed

end
