(* ===== verification/Publish_Source.thy ===== *)
theory Publish_Source
  imports Publish_Roundtrip Authoring_Scanner
begin

text \<open>
  Where sources come from and where they are kept: the workspaces of users with the analysis of
  \<open>PublishService.analyze\<close> (\<open>publish_service/service.py\<close>) and the store of immutable source trees
  (\<open>publish_service/source_store.py\<close>), a directory of trees named by their revision.
\<close>

section \<open>Workspaces\<close>

definition publish_error :: "string \<Rightarrow> exn" where
  "publish_error m = PyError ''PublishError'' m"

text \<open>\<open>_workspace\<close>: the directories that exist are an argument.\<close>

definition find_workspace :: "path \<Rightarrow> (path \<Rightarrow> 'e workspace option) \<Rightarrow> string \<Rightarrow> exn + 'e workspace" where
  "find_workspace root workspaces name =
     (if name = [] \<or> starts_with ''/'' name
      then Inl (publish_error ''workspace must be a non-empty relative path'')
      else (let candidate = join_path root name in
            if take (length root) candidate \<noteq> root then Inl (publish_error ''workspace escapes PUBLISH_WORKSPACE_ROOT'')
            else (case workspaces candidate of
                    None \<Rightarrow> Inl (publish_error (''workspace does not exist: '' @ name))
                  | Some W \<Rightarrow> Inr W)))"

lemma find_workspace_contained:
  "find_workspace root workspaces name = Inr W \<Longrightarrow> \<exists>p. take (length root) p = root \<and> workspaces p = Some W"
  by (auto simp: find_workspace_def Let_def split: if_splits option.splits)

record root_candidate =
  rc_path :: string
  rc_recommended :: bool

definition python_root_candidates :: "'e workspace \<Rightarrow> root_candidate list" where
  "python_root_candidates W =
     (let usable = (\<lambda>c. let p = (if c = ''.'' then wk_root W else join_path (wk_root W) c) in
                        wk_is_dir W p \<and> wk_python_files W p \<noteq> []);
          found = map (\<lambda>c. \<lparr>rc_path = c, rc_recommended = (c = ''src'')\<rparr>) (filter usable [''src'', ''.'']) in
      if found \<noteq> [] \<and> \<not> list_ex rc_recommended found
      then (hd found)\<lparr>rc_recommended := True\<rparr> # tl found else found)"

definition select_python_root :: "'e workspace \<Rightarrow> string option \<Rightarrow> exn + string \<times> root_candidate list" where
  "select_python_root W requested =
     (let candidates = python_root_candidates W in
      if candidates = [] then Inl (publish_error ''workspace does not contain Python source files'')
      else (case requested of
              Some r \<Rightarrow> if r \<in> rc_path ` set candidates then Inr (r, candidates)
                        else Inl (publish_error (''pythonRoot is not available: '' @ r))
            | None \<Rightarrow>
                (case List.find rc_recommended candidates of
                   Some c \<Rightarrow> Inr (rc_path c, candidates)
                 | None \<Rightarrow> Inr (rc_path (hd candidates), candidates))))"

lemma python_root_recommended:
  "python_root_candidates W \<noteq> [] \<Longrightarrow> list_ex rc_recommended (python_root_candidates W)"
proof -
  have "(if f \<noteq> [] \<and> \<not> list_ex rc_recommended f then (hd f)\<lparr>rc_recommended := True\<rparr> # tl f else f) \<noteq> [] \<Longrightarrow>
      list_ex rc_recommended (if f \<noteq> [] \<and> \<not> list_ex rc_recommended f then (hd f)\<lparr>rc_recommended := True\<rparr> # tl f else f)"
    for f :: "root_candidate list" by auto
  then show "python_root_candidates W \<noteq> [] \<Longrightarrow> list_ex rc_recommended (python_root_candidates W)"
    unfolding python_root_candidates_def Let_def .
qed

section \<open>Analysis\<close>

record parameter_view =
  pv_name :: string
  pv_kind :: string
  pv_annotation :: "string option"
  pv_required :: bool
  pv_has_literal :: bool
  pv_default :: json
  pv_expression :: "string option"
  pv_sources :: "string list"
  pv_suggestions :: "suggestion list"

definition parameter_view ::
  "'e scanner \<Rightarrow> (string \<Rightarrow> string) \<Rightarrow> parameter_info \<Rightarrow> nat \<Rightarrow> bool \<Rightarrow> parameter_view" where
  "parameter_view N title p index constructor =
     \<lparr>pv_name = pi_name p, pv_kind = pi_kind p, pv_annotation = pi_annotation p, pv_required = pi_required p,
      pv_has_literal = pi_has_default p, pv_default = (if pi_has_default p then pi_default p else JNull),
      pv_expression = pi_default_repr p,
      pv_sources = (if constructor then [''operator.parameter'', ''constant'']
                    else [''input.payload'', ''input.metadata'', ''operator.parameter'', ''constant'']),
      pv_suggestions = parameter_suggestions N title p index constructor\<rparr>"

definition parameter_views ::
  "'e scanner \<Rightarrow> (string \<Rightarrow> string) \<Rightarrow> bool \<Rightarrow> parameter_info list \<Rightarrow> parameter_view list" where
  "parameter_views N title constructor ps =
     map (\<lambda>(i, p). parameter_view N title p i constructor) (enumerate 0 ps)"

record callable_view =
  kv_id :: string
  kv_kind :: string
  kv_display_name :: string
  kv_file :: string
  kv_line :: int
  kv_supported :: bool
  kv_reasons :: "string list"
  kv_constructor :: "parameter_view list"
  kv_parameters :: "parameter_view list"
  kv_returns :: "string option"
  kv_score :: int

definition callable_view ::
  "authoring \<Rightarrow> 'e scanner \<Rightarrow> (string \<Rightarrow> string) \<Rightarrow> project_catalog \<Rightarrow> callable_info \<Rightarrow> callable_view" where
  "callable_view A N title P c =
     (let reasons = callable_support_reasons A P c;
          class = (if missing_text (ci_class c) \<or> ci_kind c \<noteq> InstanceMethod then None
                   else class_by_target P (get_or [] (ci_class c))) in
      \<lparr>kv_id = ci_id c, kv_kind = kind_value (ci_kind c), kv_display_name = ci_qualname c, kv_file = ci_file c,
       kv_line = ci_line c, kv_supported = (reasons = []), kv_reasons = reasons,
       kv_constructor = (case class of None \<Rightarrow> [] | Some k \<Rightarrow> parameter_views N title True (cl_constructor k)),
       kv_parameters = parameter_views N title False (ci_parameters c), kv_returns = ci_returns c, kv_score = ci_score c\<rparr>)"

record analysis =
  an_workspace :: string
  an_revision :: string
  an_python_root :: string
  an_candidates :: "root_candidate list"
  an_recommended :: "string option"
  an_callables :: "callable_view list"
  an_warnings :: "catalog_warning list"

text \<open>The directories of the service and what the scanner, the hash and \<open>str.title\<close> compute.\<close>

record 'e source_env =
  sv_authoring :: authoring
  sv_scanner :: "'e scanner"
  sv_hashing :: hashing
  sv_title :: "string \<Rightarrow> string"
  sv_workspace_root :: path
  sv_workspaces :: "path \<Rightarrow> 'e workspace option"

definition analyze :: "'e source_env \<Rightarrow> string \<Rightarrow> string option \<Rightarrow> exn + analysis" where
  "analyze V name python_root =
     (case find_workspace (sv_workspace_root V) (sv_workspaces V) name of Inl e \<Rightarrow> Inl e | Inr W \<Rightarrow>
     (case select_python_root W python_root of Inl e \<Rightarrow> Inl e | Inr (selected, candidates) \<Rightarrow>
     (case scan_project (sv_scanner V) (sv_hashing V) W selected of Inl e \<Rightarrow> Inl e | Inr P \<Rightarrow>
        (let views = map (callable_view (sv_authoring V) (sv_scanner V) (sv_title V) P) (all_callables P) in
         Inr \<lparr>an_workspace = name, an_revision = pc_revision P, an_python_root = selected, an_candidates = candidates,
              an_recommended = map_option kv_id (List.find kv_supported views), an_callables = views,
              an_warnings = pc_warnings P\<rparr>))))"

section \<open>The source store\<close>

text \<open>The trees of the store by name, with what a scan sees of them.\<close>

type_synonym 'e source_trees = "(string, 'e workspace) dict"

definition source_store_error :: "string \<Rightarrow> exn" where
  "source_store_error m = PyError ''SourceStoreError'' m"

text \<open>\<open>os.replace\<close> fails when another request put the same tree there before, or for another reason.\<close>

datatype 'e replace_outcome = Moved | Lost "'e workspace" | NotMoved exn

text \<open>\<open>copy\<close> is the tree that the snapshot wrote, as a later scan sees it.\<close>

definition put_workspace ::
  "hashing \<Rightarrow> nat \<Rightarrow> 'e workspace \<Rightarrow> string \<Rightarrow> (workspace_entry list \<Rightarrow> 'e workspace) \<Rightarrow> 'e replace_outcome \<Rightarrow> 'e source_trees
     \<Rightarrow> 'e source_trees \<times> (exn + string)" where
  "put_workspace H max_bytes W expected copy moved trees =
     (case dict_get trees expected of
        Some T \<Rightarrow>
          (trees, case source_revision H (wk_entries T) of
                    Inl e \<Rightarrow> Inl e
                  | Inr actual \<Rightarrow>
                      if actual \<noteq> expected
                      then Inl (source_store_error (''source store corruption: expected '' @ expected @ '', found '' @ actual))
                      else Inr (''local:'' @ expected))
      | None \<Rightarrow>
     (case snapshot_workspace (wk_is_dir W) max_bytes True (wk_entries W) of (copied, result) \<Rightarrow>
     (case result of Inl e \<Rightarrow> (trees, Inl e) | Inr _ \<Rightarrow>
     (case source_revision H copied of Inl e \<Rightarrow> (trees, Inl e) | Inr actual \<Rightarrow>
        if actual \<noteq> expected
        then (trees, Inl (source_store_error ''workspace changed while creating immutable source snapshot; analyze again''))
        else (case moved of
                Moved \<Rightarrow> (dict_set expected (copy copied) trees, Inr (''local:'' @ expected))
              | Lost T \<Rightarrow> (dict_set expected T trees, Inr (''local:'' @ expected))
              | NotMoved e \<Rightarrow> (trees, Inl e))))))"

definition resolve_source :: "path \<Rightarrow> 'e source_trees \<Rightarrow> string \<Rightarrow> exn + path" where
  "resolve_source root trees ref =
     (let revision = drop 6 ref; p = join_path root revision in
      if \<not> starts_with ''local:'' ref then Inl (source_store_error (''unsupported source_ref: '' @ ref))
      else if revision = [] \<or> CHR ''/'' \<in> set revision \<or> CHR 0x5C \<in> set revision
      then Inl (source_store_error ''invalid local source_ref'')
      else if take (length root) p \<noteq> root then Inl (source_store_error ''source_ref escapes source root'')
      else if p \<noteq> root \<and> (\<forall>r \<in> fst ` set trees. p \<noteq> root @ [r])
      then Inl (source_store_error (''source snapshot not found: '' @ ref))
      else Inr p)"

text \<open>The tree at a resolved path.\<close>

definition tree_at :: "path \<Rightarrow> 'e source_trees \<Rightarrow> path \<Rightarrow> 'e workspace option" where
  "tree_at root trees p = (if take (length root) p = root \<and> length p = length root + 1 then dict_get trees (last p) else None)"

lemma join_one: "component r \<Longrightarrow> r \<noteq> ''..'' \<Longrightarrow> root = resolve root \<Longrightarrow> join_path root r = root @ [r]"
proof -
  assume c: "component r" "r \<noteq> ''..''" and root: "root = resolve root"
  from c have parts: "path_parts r = [r]" using split_on_no [of "CHR ''/''" r] by (simp add: path_parts_def component_def)
  have "\<not> is_absolute r" using c by (cases r) (auto simp: is_absolute_def starts_with_def component_def)
  then show ?thesis
    using resolve_append_safe [of "[r]" root] parts c root by (simp add: join_path_def)
qed

text \<open>What was put is found again.\<close>

lemma put_then_resolve:
  assumes "put_workspace H m W v copy moved trees = (trees', Inr ref)" and "component v" "v \<noteq> ''..''"
    and "CHR 0x5C \<notin> set v" and "root = resolve root"
  shows "ref = ''local:'' @ v" "resolve_source root trees' ref = Inr (root @ [v])"
    "\<exists>T. tree_at root trees' (root @ [v]) = Some T"
proof -
  show ref: "ref = ''local:'' @ v"
    using assms(1) by (auto simp: put_workspace_def split: option.splits prod.splits sum.splits if_splits replace_outcome.splits)
  have T: "\<exists>T. dict_get trees' v = Some T"
    using assms(1) by (auto simp: put_workspace_def split: option.splits prod.splits sum.splits if_splits replace_outcome.splits)
  then show "\<exists>T. tree_at root trees' (root @ [v]) = Some T" by (simp add: tree_at_def)
  have "v \<in> fst ` set trees'" using T by (metis domI dom_map_of_conv_image_fst)
  then show "resolve_source root trees' ref = Inr (root @ [v])"
    using assms(2-4) by (auto simp: resolve_source_def ref starts_with_def join_one [OF assms(2,3,5)] component_def)
qed

end
