(* ===== verification/Publish_Backends.thy ===== *)
theory Publish_Backends
  imports Publish_Source
begin

text \<open>
  The two backends a contract is compiled for (\<open>publish_service/backends\<close>): the runner's release
  (\<open>runner.py\<close>) and the native NiFi processor of an edge device (\<open>nifi_native.py\<close>, \<open>edge_identity.py\<close>).
  A backend contract is the contract with what the backend adds (\<open>models.py\<close>). \<open>str\<close> of a JSON value that
  is no text and \<open>str.upper\<close> of one letter are arguments.
\<close>

section \<open>Backend contracts\<close>

record backend_contract =
  kb_contract :: operator_contract
  kb_parent_id :: string
  kb_parent_version :: nat
  kb_parent_sha256 :: string
  kb_compiler :: string
  kb_variant_key :: string
  kb_options :: json

record runner_manifest =
  rm_name :: string
  rm_entrypoint :: string
  rm_inputs :: "string list"
  rm_outputs :: "string list"

record runner_parameter =
  rp_key :: string
  rp_property :: string
  rp_display_name :: string
  rp_description :: string
  rp_required :: bool
  rp_has_default :: bool
  rp_default :: json
  rp_type :: string

record runner_contract = backend_contract +
  kr_profile :: string
  kr_manifest :: runner_manifest
  kr_parameters :: "runner_parameter list"

record native_property =
  np_key :: string
  np_display_name :: string
  np_description :: string
  np_required :: bool
  np_has_default :: bool
  np_default :: json
  np_type :: string

record native_target =
  nt_os :: string
  nt_arch :: string
  nt_python :: string
  nt_platform :: string

record edge_identity =
  ei_token :: string
  ei_edge :: string

record native_contract = backend_contract +
  kn_class :: string
  kn_package :: string
  kn_properties :: "native_property list"
  kn_requirements :: "string list"
  kn_target :: native_target
  kn_identity :: edge_identity

section \<open>Their JSON\<close>

definition strings_json :: "string list \<Rightarrow> json" where
  "strings_json xs = JList (map JStr xs)"

definition manifest_json :: "runner_manifest \<Rightarrow> json" where
  "manifest_json m =
     JObj [(''name'', JStr (rm_name m)), (''entrypoint'', JStr (rm_entrypoint m)),
       (''input_attributes'', strings_json (rm_inputs m)), (''output_attributes'', strings_json (rm_outputs m))]"

definition runner_parameter_json :: "runner_parameter \<Rightarrow> json" where
  "runner_parameter_json p =
     JObj [(''key'', JStr (rp_key p)), (''nifi_property_name'', JStr (rp_property p)),
       (''display_name'', JStr (rp_display_name p)), (''description'', JStr (rp_description p)),
       (''required'', JBool (rp_required p)), (''has_default'', JBool (rp_has_default p)),
       (''default'', rp_default p), (''parameter_type'', JStr (rp_type p))]"

definition native_property_json :: "native_property \<Rightarrow> json" where
  "native_property_json p =
     JObj [(''key'', JStr (np_key p)), (''display_name'', JStr (np_display_name p)),
       (''description'', JStr (np_description p)), (''required'', JBool (np_required p)),
       (''has_default'', JBool (np_has_default p)), (''default'', np_default p), (''property_type'', JStr (np_type p))]"

definition target_json :: "native_target \<Rightarrow> json" where
  "target_json t =
     JObj [(''os'', JStr (nt_os t)), (''arch'', JStr (nt_arch t)), (''python_version'', JStr (nt_python t)),
       (''uv_python_platform'', JStr (nt_platform t))]"

text \<open>The fields every backend contract has, after those of the contract.\<close>

fun object_items :: "json \<Rightarrow> (string, json) dict" where
  "object_items (JObj d) = d"
| "object_items j = []"

definition backend_items :: "string \<Rightarrow> 'a backend_contract_scheme \<Rightarrow> (string, json) dict" where
  "backend_items backend k =
     object_items (contract_json (kb_contract k)) @
     [(''backend_contract_version'', JStr ''dsc.backend-contract/v1''), (''parent_contract_id'', JStr (kb_parent_id k)),
      (''parent_contract_version'', JInt (int (kb_parent_version k))), (''parent_contract_sha256'', JStr (kb_parent_sha256 k)),
      (''backend'', JStr backend), (''compiler_version'', JStr (kb_compiler k)), (''variant_key'', JStr (kb_variant_key k)),
      (''backend_options'', kb_options k)]"

definition runner_contract_json :: "runner_contract \<Rightarrow> json" where
  "runner_contract_json k =
     JObj (backend_items ''runner'' k @
       [(''runtime_profile'', JStr (kr_profile k)), (''runner_manifest'', manifest_json (kr_manifest k)),
        (''parameters'', JList (map runner_parameter_json (kr_parameters k)))])"

definition native_contract_json :: "native_contract \<Rightarrow> json" where
  "native_contract_json k =
     JObj (backend_items ''nifi_native'' k @
       [(''processor_type'', JStr ''FlowFileTransform''), (''class_name'', JStr (kn_class k)),
        (''package_name'', JStr (kn_package k)), (''properties'', JList (map native_property_json (kn_properties k))),
        (''requirements'', strings_json (kn_requirements k)), (''target_platform'', target_json (kn_target k)),
        (''deployment_mode'', JStr ''edge_shared_environment'')])"

section \<open>\<open>base.py\<close>\<close>

definition backend_variant_key :: "authoring \<Rightarrow> string \<Rightarrow> string \<Rightarrow> string \<Rightarrow> json \<Rightarrow> string" where
  "backend_variant_key A sha backend compiler options =
     au_sha256 A (canonical_json A (JObj
       [(''contract_sha256'', JStr sha), (''backend'', JStr backend), (''compiler_version'', JStr compiler),
        (''options'', options)]))"

definition backend_contract_sha256 :: "authoring \<Rightarrow> json \<Rightarrow> string" where
  "backend_contract_sha256 A contract = au_sha256 A (canonical_json A contract)"

section \<open>\<open>runner.py\<close>\<close>

type_synonym options = "(string, json) dict"

definition compile_runner_contract ::
  "authoring \<Rightarrow> (json \<Rightarrow> string) \<Rightarrow> string \<Rightarrow> nat \<Rightarrow> operator_contract \<Rightarrow> execution_plan \<Rightarrow> options \<Rightarrow> runner_contract" where
  "compile_runner_contract A show i version parent plan options =
     (let profile = str_of show (dict_get_or options ''profile'' (JStr ''standard''));
          chosen = JObj [(''profile'', JStr profile)] in
      \<lparr>kb_contract = parent, kb_parent_id = i, kb_parent_version = version, kb_parent_sha256 = ep_contract_sha256 plan,
       kb_compiler = RUNNER_COMPILER,
       kb_variant_key = backend_variant_key A (ep_contract_sha256 plan) ''runner'' RUNNER_COMPILER chosen,
       kb_options = chosen, kr_profile = profile,
       kr_manifest = \<lparr>rm_name = oc_name parent, rm_entrypoint = ''__dsc_entry__:process'',
                      rm_inputs = ep_input_metadata plan, rm_outputs = ep_output_metadata plan\<rparr>,
       kr_parameters = map (\<lambda>p. \<lparr>rp_key = cp_key p, rp_property = ''Parameter.'' @ cp_key p,
           rp_display_name = cp_display_name p, rp_description = cp_description p, rp_required = cp_required p,
           rp_has_default = cp_has_default p, rp_default = cp_default p, rp_type = cp_type p\<rparr>) (ep_parameters plan)\<rparr>)"

text \<open>The files of a release besides the sources: the text of a plan and of YAML is an argument.\<close>

record release_texts =
  rt_yaml :: "json \<Rightarrow> string"
  rt_adapter :: "execution_plan \<Rightarrow> string"
  rt_plan :: "execution_plan \<Rightarrow> json"

definition publish_info :: "authoring \<Rightarrow> release_texts \<Rightarrow> runner_contract \<Rightarrow> execution_plan \<Rightarrow> json" where
  "publish_info A R k plan =
     JObj [(''schema'', JInt 3), (''backend'', JStr ''runner''), (''parent_contract_id'', JStr (kb_parent_id k)),
       (''parent_contract_version'', JInt (int (kb_parent_version k))),
       (''parent_contract_sha256'', JStr (kb_parent_sha256 k)), (''variant_key'', JStr (kb_variant_key k)),
       (''execution_plan_sha256'', JStr (au_sha256 A (canonical_json A (rt_plan R plan)))),
       (''execution_plan_embedded_in'', JStr ''__dsc_entry__.py'')]"

definition write_runner_release_files ::
  "authoring \<Rightarrow> release_texts \<Rightarrow> runner_contract \<Rightarrow> execution_plan \<Rightarrow> (string, string) dict" where
  "write_runner_release_files A R k plan =
     [(''operator-contract.yaml'', rt_yaml R (runner_contract_json k)),
      (''__dsc_entry__.py'', rt_adapter R plan),
      (''operator.yaml'', rt_yaml R (manifest_json (kr_manifest k))),
      (''publish-info.json'', canonical_json A (publish_info A R k plan))]"

section \<open>Edge devices\<close>

definition visible_text :: "string \<Rightarrow> bool" where
  "visible_text s \<longleftrightarrow> s \<noteq> [] \<and> text_length s \<le> 128 \<and> list_all (\<lambda>c. 32 \<le> (of_char c :: nat) \<and> (of_char c :: nat) \<noteq> 127) s"

text \<open>\<open>value.get(field, value.get(alias))\<close>.\<close>

definition get_alias :: "options \<Rightarrow> string \<Rightarrow> string \<Rightarrow> json option" where
  "get_alias d field alt = (case dict_get d field of Some v \<Rightarrow> Some v | None \<Rightarrow> dict_get d alt)"

definition identity_field :: "options \<Rightarrow> string \<Rightarrow> string \<Rightarrow> exn + string" where
  "identity_field d field alt =
     (case get_alias d field alt of
        Some (JStr raw) \<Rightarrow>
          if visible_text (strip raw) then Inr (strip raw)
          else Inl (PyError ''ValueError'' (''edgeIdentity.'' @ field @ '' must contain 1-128 visible characters''))
      | _ \<Rightarrow> Inl (PyError ''ValueError'' (''edgeIdentity.'' @ field @ '' must be a non-empty string'')))"

definition normalize_edge_identity :: "json \<Rightarrow> exn + edge_identity" where
  "normalize_edge_identity v =
     (case v of
        JObj d \<Rightarrow>
          and_then (identity_field d ''tokenPair'' ''token_pair'') (\<lambda>t.
          and_then (identity_field d ''edgeName'' ''edge_name'') (\<lambda>e. Inr \<lparr>ei_token = t, ei_edge = e\<rparr>))
      | _ \<Rightarrow> Inl (PyError ''ValueError'' ''nifi_native requires options.edgeIdentity with tokenPair and edgeName''))"

text \<open>The directory of a pair: 20 characters of the digest of its JSON text.\<close>

definition edge_directory_name :: "authoring \<Rightarrow> string \<Rightarrow> string \<Rightarrow> string" where
  "edge_directory_name A token edge = ''edge-'' @ take 20 (au_sha256 A (au_canonical A (JList [JStr token, JStr edge])))"

section \<open>\<open>nifi_native.py\<close>\<close>

definition UV_PLATFORMS :: "((string \<times> string) \<times> string) list" where
  "UV_PLATFORMS =
     [((''linux'', ''x86_64''), ''x86_64-unknown-linux-gnu''), ((''linux'', ''aarch64''), ''aarch64-unknown-linux-gnu''),
      ((''windows'', ''x86_64''), ''x86_64-pc-windows-msvc''), ((''windows'', ''aarch64''), ''aarch64-pc-windows-msvc'')]"

definition supported_native_targets :: "string \<Rightarrow> (string \<times> native_target) list" where
  "supported_native_targets python =
     map (\<lambda>((os, arch), p). (os @ ''-'' @ arch, \<lparr>nt_os = os, nt_arch = arch, nt_python = python, nt_platform = p\<rparr>)) UV_PLATFORMS"

definition option_or :: "options \<Rightarrow> string \<Rightarrow> string \<Rightarrow> json" where
  "option_or d k k2 = (case dict_get d k of Some v \<Rightarrow> if truthy v then v else dict_get_or d k2 JNull | None \<Rightarrow> dict_get_or d k2 JNull)"

text \<open>\<open>str(raw.get(k) or "").strip().lower()\<close>.\<close>

definition lower_option :: "authoring \<Rightarrow> (json \<Rightarrow> string) \<Rightarrow> options \<Rightarrow> string \<Rightarrow> string" where
  "lower_option A show d k =
     (let v = dict_get_or d k JNull in au_lower A (strip (if truthy v then str_of show v else [])))"

definition ARCH_ALIASES :: "(string, string) dict" where
  "ARCH_ALIASES = [(''x86'', ''x86_64''), (''amd64'', ''x86_64''), (''arm64'', ''aarch64'')]"

definition normalize_target_platform ::
  "authoring \<Rightarrow> (json \<Rightarrow> string) \<Rightarrow> options \<Rightarrow> string \<Rightarrow> exn + native_target" where
  "normalize_target_platform A show options python =
     (case option_or options ''targetPlatform'' ''target_platform'' of
        JObj raw \<Rightarrow>
          (let os = lower_option A show raw ''os''; arch0 = lower_option A show raw ''arch'';
               arch = dict_get_or ARCH_ALIASES arch0 arch0 in
           case map_of UV_PLATFORMS (os, arch) of
             None \<Rightarrow> Inl (PyError ''ValueError'' (''unsupported edge target platform: os='' @ au_repr A os @ '' arch='' @ au_repr A arch))
           | Some p \<Rightarrow> Inr \<lparr>nt_os = os, nt_arch = arch, nt_python = python, nt_platform = p\<rparr>)
      | _ \<Rightarrow> Inl (PyError ''ValueError'' ''nifi_native publish requires options.targetPlatform with os and arch''))"

definition ascii_digit :: "char \<Rightarrow> bool" where
  "ascii_digit c \<longleftrightarrow> c \<in> set ''0123456789''"

definition ascii_word :: "char \<Rightarrow> bool" where
  "ascii_word c \<longleftrightarrow> ascii_digit c \<or> c \<in> set ''abcdefghijklmnopqrstuvwxyzABCDEFGHIJKLMNOPQRSTUVWXYZ''"

text \<open>\<open>re.sub("[^...]+", "_", value)\<close>: every maximal run of other characters becomes one underscore.\<close>

fun squeeze :: "(char \<Rightarrow> bool) \<Rightarrow> bool \<Rightarrow> string \<Rightarrow> string" where
  "squeeze P inside [] = []"
| "squeeze P inside (c # s) =
     (if P c then c # squeeze P False s else if inside then squeeze P True s else CHR ''_'' # squeeze P True s)"

definition strip_char :: "char \<Rightarrow> string \<Rightarrow> string" where
  "strip_char x s = rev (dropWhile ((=) x) (rev (dropWhile ((=) x) s)))"

definition safe_identifier :: "string \<Rightarrow> string" where
  "safe_identifier v =
     (let s = strip_char CHR ''_'' (squeeze (\<lambda>c. ascii_word c \<or> c = CHR ''_'') False v);
          t = (if s = [] then ''GeneratedOperator'' else s) in
      if ascii_digit (hd t) then CHR ''_'' # t else t)"

text \<open>\<open>[part for part in re.split("[^A-Za-z0-9]+", name) if part]\<close>.\<close>

definition word_parts :: "string \<Rightarrow> string list" where
  "word_parts s = filter (\<lambda>p. p \<noteq> []) (split_on CHR ''_'' (squeeze ascii_word False s))"

definition class_name :: "(char \<Rightarrow> char) \<Rightarrow> string \<Rightarrow> string \<Rightarrow> string" where
  "class_name upper name suffix =
     (let joined = concat (map (\<lambda>p. upper (hd p) # tl p) (word_parts name));
          base = (if joined = [] then ''GeneratedOperator'' else joined);
          start = (if ascii_digit (hd base) then ''Operator'' @ base else base) in
      start @ ''_'' @ suffix)"

definition identity_json :: "edge_identity \<Rightarrow> json" where
  "identity_json i = JObj [(''tokenPair'', JStr (ei_token i)), (''edgeName'', JStr (ei_edge i))]"

definition platform_json :: "native_target \<Rightarrow> json" where
  "platform_json t =
     JObj [(''os'', JStr (nt_os t)), (''arch'', JStr (nt_arch t)), (''pythonVersion'', JStr (nt_python t)),
       (''uvPythonPlatform'', JStr (nt_platform t))]"

record native_env =
  ne_show :: "json \<Rightarrow> string"
  ne_upper :: "char \<Rightarrow> char"
  ne_python :: string

definition truthy_text :: "native_env \<Rightarrow> options \<Rightarrow> string \<Rightarrow> string \<Rightarrow> string" where
  "truthy_text M d k dflt = (case dict_get d k of Some v \<Rightarrow> if truthy v then str_of (ne_show M) v else dflt | None \<Rightarrow> dflt)"

text \<open>\<open>requirements\<close> is the text of the file \<open>requirements.txt\<close> of the source tree, if there is one.\<close>

definition compile_nifi_native_contract ::
  "authoring \<Rightarrow> native_env \<Rightarrow> string \<Rightarrow> nat \<Rightarrow> operator_contract \<Rightarrow> execution_plan \<Rightarrow> string option \<Rightarrow> options
     \<Rightarrow> exn + native_contract" where
  "compile_nifi_native_contract A M i version parent plan requirements options =
     and_then (read_requirements requirements) (\<lambda>reqs.
     and_then (normalize_edge_identity (option_or options ''edgeIdentity'' ''edge_identity'')) (\<lambda>identity.
     and_then (normalize_target_platform A (ne_show M) options (ne_python M)) (\<lambda>target.
       (let sha8 = take 8 (ep_contract_sha256 plan);
            class = truthy_text M options ''className'' (class_name (ne_upper M) (oc_name parent) sha8);
            package = truthy_text M options ''packageName'' (safe_identifier (''dsc_'' @ oc_name parent @ ''_'' @ sha8));
            chosen = JObj [(''className'', JStr class), (''packageName'', JStr package),
              (''targetPlatform'', platform_json target), (''edgeIdentity'', identity_json identity)] in
        Inr \<lparr>kb_contract = parent, kb_parent_id = i, kb_parent_version = version,
             kb_parent_sha256 = ep_contract_sha256 plan, kb_compiler = NATIVE_COMPILER,
             kb_variant_key = backend_variant_key A (ep_contract_sha256 plan) ''nifi_native'' NATIVE_COMPILER chosen,
             kb_options = chosen, kn_class = class, kn_package = package,
             kn_properties = map (\<lambda>p. \<lparr>np_key = cp_key p, np_display_name = cp_display_name p,
                 np_description = cp_description p, np_required = cp_required p, np_has_default = cp_has_default p,
                 np_default = cp_default p, np_type = cp_type p\<rparr>) (ep_parameters plan),
             kn_requirements = reqs, kn_target = target, kn_identity = identity\<rparr>))))"

end
