(* ===== verification/Edge_Bundle.thy ===== *)
theory Edge_Bundle
  imports Publish_Backends
begin

text \<open>
  The files of native publications: the archive of a processor (\<open>write_native_package\<close> of
  \<open>publish_service/backends/nifi_native.py\<close>), the shared dependencies of a device
  (\<open>publish_service/edge_dependencies.py\<close>) and the bundle of all its processors
  (\<open>publish_service/edge_bundle.py\<close>), over a disk of files and directories. \<open>uv\<close>, the ZIP format, hashes and
  the requirement parser are arguments.
\<close>

section \<open>A disk\<close>

record disk =
  dk_files :: "(path, bytes) dict"
  dk_dirs :: "path list"

definition os_error :: "string \<Rightarrow> path \<Rightarrow> exn" where
  "os_error kind p = PyError kind (''/'' @ join_with ''/'' p)"

text \<open>An operation on the disk gives the disk after it and a value or an exception.\<close>

type_synonym 'a io = "disk \<Rightarrow> disk \<times> (exn + 'a)"

definition then_io :: "disk \<times> (exn + 'a) \<Rightarrow> ('a \<Rightarrow> 'b io) \<Rightarrow> disk \<times> (exn + 'b)" where
  "then_io r f = (case r of (k, Inl e) \<Rightarrow> (k, Inl e) | (k, Inr x) \<Rightarrow> f x k)"

lemma then_io_simps [simp]: "then_io (k, Inl e) f = (k, Inl e)" "then_io (k, Inr x) f = f x k"
  by (simp_all add: then_io_def)

text \<open>\<open>mkdir(parents=True)\<close>, and \<open>exist_ok\<close>.\<close>

definition mkdirs :: "bool \<Rightarrow> path \<Rightarrow> unit io" where
  "mkdirs exist_ok p k =
     (if list_ex (\<lambda>n. dict_get (dk_files k) (take n p) \<noteq> None) [0 ..< length p] then (k, Inl (os_error ''NotADirectoryError'' p))
      else if dict_get (dk_files k) p \<noteq> None then (k, Inl (os_error ''FileExistsError'' p))
      else if p \<in> set (dk_dirs k) \<and> \<not> exist_ok then (k, Inl (os_error ''FileExistsError'' p))
      else (k\<lparr>dk_dirs := map (\<lambda>n. take n p) [0 ..< length p + 1] @ dk_dirs k\<rparr>, Inr ()))"

definition write_at :: "path \<Rightarrow> bytes \<Rightarrow> unit io" where
  "write_at p b k =
     (if p \<in> set (dk_dirs k) then (k, Inl (os_error ''IsADirectoryError'' p))
      else if butlast p \<notin> set (dk_dirs k) then (k, Inl (os_error ''FileNotFoundError'' p))
      else (k\<lparr>dk_files := dict_set p b (dk_files k)\<rparr>, Inr ()))"

fun write_all :: "(path \<times> bytes) list \<Rightarrow> unit io" where
  "write_all [] k = (k, Inr ())"
| "write_all ((p, b) # ws) k = then_io (write_at p b k) (\<lambda>_. write_all ws)"

text \<open>\<open>shutil.copytree\<close> of a tree given by its directories and files.\<close>

record source_tree =
  st_dirs :: "path list"
  st_files :: "(path, bytes) dict"

fun make_all :: "path list \<Rightarrow> unit io" where
  "make_all [] k = (k, Inr ())"
| "make_all (p # ps) k = then_io (mkdirs True p k) (\<lambda>_. make_all ps)"

definition copytree :: "source_tree \<Rightarrow> path \<Rightarrow> unit io" where
  "copytree S dst k =
     then_io (mkdirs False dst k) (\<lambda>_ k.
     then_io (make_all (map (\<lambda>d. dst @ d) (st_dirs S)) k)
       (\<lambda>_. write_all (map (\<lambda>(p, b). (dst @ p, b)) (st_files S))))"

definition under :: "path \<Rightarrow> path \<Rightarrow> bool" where
  "under root p \<longleftrightarrow> take (length root) p = root \<and> p \<noteq> root"

definition remove_tree :: "path \<Rightarrow> disk \<Rightarrow> disk" where
  "remove_tree root k =
     k\<lparr>dk_files := filter (\<lambda>(p, b). \<not> under root p) (dk_files k),
       dk_dirs := filter (\<lambda>p. p \<noteq> root \<and> \<not> under root p) (dk_dirs k)\<rparr>"

text \<open>The files below a directory, in the order of their paths; the archive names them from its parent.\<close>

definition archive_of :: "path \<Rightarrow> disk \<Rightarrow> (path \<times> bytes) list" where
  "archive_of root k =
     map (\<lambda>(p, b). (drop (length root - 1) p, b)) (sort_key fst (filter (\<lambda>(p, b). under root p) (dk_files k)))"

section \<open>The archive of a processor\<close>

record package_env =
  pe_zip :: "(path \<times> bytes) list \<Rightarrow> bytes"
  pe_source :: "native_contract \<Rightarrow> execution_plan \<Rightarrow> string"
  pe_utf8 :: "string \<Rightarrow> bytes"

definition package_zip :: "path \<Rightarrow> native_contract \<Rightarrow> path" where
  "package_zip root k = join_path root (kn_package k @ ''-'' @ take 12 (kb_variant_key k) @ ''.zip'')"

text \<open>What is written below the temporary directory, up to the archive.\<close>

definition stage_package ::
  "package_env \<Rightarrow> authoring \<Rightarrow> path \<Rightarrow> native_contract \<Rightarrow> execution_plan \<Rightarrow> source_tree \<Rightarrow> path io" where
  "stage_package Z A tmp k plan S d =
     (let root = join_path tmp (kn_package k) in
      then_io (mkdirs False root d) (\<lambda>_ d.
      then_io (write_at (root @ [''__init__.py'']) [] d) (\<lambda>_ d.
      then_io (write_at (join_path root (kn_class k @ ''.py'')) (pe_utf8 Z (pe_source Z k plan)) d) (\<lambda>_ d.
      (case dict_get (st_files S) [''requirements.txt''] of
         None \<Rightarrow> (d, Inl (os_error ''FileNotFoundError'' [''requirements.txt'']))
       | Some reqs \<Rightarrow>
           then_io (write_at (root @ [''requirements.txt'']) reqs d) (\<lambda>_ d.
           then_io (copytree S (root @ [''runtime'']) d) (\<lambda>_ d.
           then_io (write_at (root @ [''edge-target.json'']) (pe_utf8 Z (canonical_json A (target_json (kn_target k)))) d) (\<lambda>_ d.
             (d, Inr root)))))))))"

text \<open>\<open>tmp\<close> is the fresh temporary directory, removed in the end.\<close>

definition write_native_package ::
  "package_env \<Rightarrow> authoring \<Rightarrow> path \<Rightarrow> path \<Rightarrow> native_contract \<Rightarrow> execution_plan \<Rightarrow> source_tree \<Rightarrow> path io" where
  "write_native_package Z A output tmp k plan S d =
     then_io (mkdirs True output d) (\<lambda>_ d.
     (case then_io (mkdirs False tmp d) (\<lambda>_ d.
           then_io (stage_package Z A tmp k plan S d) (\<lambda>root d.
           then_io (write_at (package_zip output k) (pe_zip Z (archive_of root d)) d) (\<lambda>_ d.
             (d, Inr (package_zip output k))))) of
        (d, r) \<Rightarrow> (remove_tree tmp d, r)))"

section \<open>Shared dependencies\<close>

record edge_resolution =
  er_direct :: "string list"
  er_lock :: string

datatype edge_failure = ResolutionError string string string | OtherFailure exn

definition resolution_error :: "string \<Rightarrow> string \<Rightarrow> string \<Rightarrow> edge_failure" where
  "resolution_error m stderr stdout = ResolutionError m (last_text 8192 stderr) (last_text 4096 stdout)"

text \<open>The parser of requirements gives the normal text of one and whether it names a URL.\<close>

record resolver =
  rs_parse :: "string \<Rightarrow> (string \<times> bool) option"
  rs_uv_compile :: "string list \<Rightarrow> native_target \<Rightarrow> (string \<times> string) + string"
  rs_uv_install :: "string \<Rightarrow> native_target \<Rightarrow> (string \<times> string) + (path, bytes) dict"
  rs_sha256 :: "string \<Rightarrow> string"

fun edge_requirements :: "authoring \<Rightarrow> resolver \<Rightarrow> string list \<Rightarrow> exn + string list" where
  "edge_requirements A U [] = Inr []"
| "edge_requirements A U (raw # raws) =
     (let v = strip raw in
      if v = [] then edge_requirements A U raws
      else if CHR 0x0A \<in> set v \<or> CHR 0x0D \<in> set v \<or> starts_with ''-'' v
      then Inl (PyError ''ValueError'' (''unsupported edge requirement: '' @ au_repr A raw))
      else (case rs_parse U v of
              None \<Rightarrow> Inl (PyError ''ValueError'' (''invalid edge requirement: '' @ au_repr A raw))
            | Some (s, url) \<Rightarrow>
                if url then Inl (PyError ''ValueError'' ''URL/VCS/path dependencies are not supported for edge native publishing'')
                else and_then (edge_requirements A U raws) (\<lambda>rs. Inr (s # rs))))"

text \<open>The set, sorted without regard to case.\<close>

definition edge_normalize :: "authoring \<Rightarrow> resolver \<Rightarrow> string list \<Rightarrow> exn + string list" where
  "edge_normalize A U values = and_then (edge_requirements A U values) (\<lambda>rs. Inr (sort_key (au_lower A) (remdups rs)))"

definition edge_resolve :: "authoring \<Rightarrow> resolver \<Rightarrow> string list \<Rightarrow> native_target \<Rightarrow> edge_failure + edge_resolution" where
  "edge_resolve A U requirements target =
     (case edge_normalize A U requirements of
        Inl e \<Rightarrow> Inl (OtherFailure e)
      | Inr [] \<Rightarrow> Inr \<lparr>er_direct = [], er_lock = []\<rparr>
      | Inr rs \<Rightarrow>
          (case rs_uv_compile U rs target of
             Inl (stderr, stdout) \<Rightarrow>
               Inl (resolution_error ''uv could not resolve a single edge dependency environment'' stderr stdout)
           | Inr lock \<Rightarrow> Inr \<lparr>er_direct = rs, er_lock = lock\<rparr>))"

definition edge_lock_sha256 :: "resolver \<Rightarrow> edge_resolution \<Rightarrow> string" where
  "edge_lock_sha256 U r = rs_sha256 U (er_lock r)"

definition pin_char :: "char \<Rightarrow> bool" where
  "pin_char c \<longleftrightarrow> ascii_word c \<or> c \<in> set ''_.-''"

text \<open>The pattern of a pinned package on a line that does not start with white space.\<close>

definition pinned :: "string \<Rightarrow> bool" where
  "pinned line \<longleftrightarrow>
     (let name = takeWhile pin_char line; r = dropWhile pin_char line; v = drop 2 r in
      name \<noteq> [] \<and> starts_with ''=='' r \<and> v \<noteq> [] \<and> space_len v = 0 \<and> hd v \<noteq> CHR '';'' \<and> hd v \<noteq> CHR 0x5C)"

definition counted_line :: "string \<Rightarrow> bool" where
  "counted_line line \<longleftrightarrow> strip line \<noteq> [] \<and> \<not> starts_with ''#'' (lstrip line) \<and> \<not> starts_with ''--'' (lstrip line) \<and>
     space_len line = 0 \<and> pinned line"

definition package_count :: "edge_resolution \<Rightarrow> nat" where
  "package_count r = length (filter counted_line (splitlines (er_lock r)))"

definition edge_io :: "disk \<times> (exn + 'a) \<Rightarrow> disk \<times> (edge_failure + 'a)" where
  "edge_io r = (case r of (k, Inl e) \<Rightarrow> (k, Inl (OtherFailure e)) | (k, Inr x) \<Rightarrow> (k, Inr x))"

definition then_edge ::
  "disk \<times> (edge_failure + 'a) \<Rightarrow> ('a \<Rightarrow> disk \<Rightarrow> disk \<times> (edge_failure + 'b)) \<Rightarrow> disk \<times> (edge_failure + 'b)" where
  "then_edge r f = (case r of (k, Inl e) \<Rightarrow> (k, Inl e) | (k, Inr x) \<Rightarrow> f x k)"

definition edge_materialize ::
  "resolver \<Rightarrow> edge_resolution \<Rightarrow> native_target \<Rightarrow> path \<Rightarrow> disk \<Rightarrow> disk \<times> (edge_failure + unit)" where
  "edge_materialize U r target dst k =
     then_edge (edge_io (mkdirs True dst k)) (\<lambda>_ k.
       if er_direct r = [] then (k, Inr ())
       else (case rs_uv_install U (er_lock r) target of
               Inl (stderr, stdout) \<Rightarrow>
                 (k, Inl (resolution_error ''uv resolved the environment but could not materialize target-platform dependencies'' stderr stdout))
             | Inr files \<Rightarrow>
                 (k\<lparr>dk_files := foldl (\<lambda>fs (p, b). dict_set (dst @ p) b fs) (dk_files k) files\<rparr>, Inr ())))"

section \<open>The bundle of a device\<close>

record bundle_env =
  bf_zip :: "(path \<times> bytes) list \<Rightarrow> bytes"
  bf_utf8 :: "string \<Rightarrow> bytes"
  bf_sha256 :: "bytes \<Rightarrow> string"
  bf_md5 :: "bytes \<Rightarrow> string"

definition target_key :: "native_target \<Rightarrow> string" where
  "target_key t = nt_os t @ ''-'' @ nt_arch t @ ''-py'' @ nt_python t"

text \<open>\<open>Path(artifact_file)\<close>: the artifact of a member is the text of an absolute path.\<close>

definition artifact_at :: "string \<Rightarrow> path" where
  "artifact_at s = resolve (path_parts s)"

definition member_file :: "edge_member \<Rightarrow> string" where
  "member_file m = em_package m @ ''-'' @ take 8 (em_variant m) @ ''.zip''"

definition member_json :: "edge_member \<Rightarrow> json" where
  "member_json m =
     JObj [(''operatorId'', JStr (em_operator m)), (''variantId'', JStr (em_variant m)), (''packageName'', JStr (em_package m)),
       (''processorArtifact'', JStr (''processors/'' @ member_file m)), (''requirements'', strings_json (em_requirements m))]"

fun copy_members :: "path \<Rightarrow> edge_member list \<Rightarrow> unit io" where
  "copy_members dst [] k = (k, Inr ())"
| "copy_members dst (m # ms) k =
     (case dict_get (dk_files k) (artifact_at (em_artifact m)) of
        None \<Rightarrow> (k, Inl (PyError ''FileNotFoundError'' (''native processor artifact does not exist: '' @ em_artifact m)))
      | Some b \<Rightarrow> then_io (write_at (join_path dst (member_file m)) b k) (\<lambda>_. copy_members dst ms))"

record bundle_request =
  br_user :: string
  br_target :: native_target
  br_token :: string
  br_edge :: string
  br_revision :: nat
  br_members :: "edge_member list"
  br_resolution :: edge_resolution

definition bundle_members :: "bundle_request \<Rightarrow> edge_member list" where
  "bundle_members q = sort_key (\<lambda>m. (em_operator m, em_variant m)) (br_members q)"

definition bundle_manifest :: "resolver \<Rightarrow> bundle_request \<Rightarrow> json" where
  "bundle_manifest U q =
     JObj [(''schema'', JStr ''dsc.edge-native-bundle/v1''), (''userId'', JStr (br_user q)),
       (''edgeIdentity'', JObj [(''tokenPair'', JStr (br_token q)), (''edgeName'', JStr (br_edge q))]),
       (''revision'', JInt (int (br_revision q))), (''target'', platform_json (br_target q)),
       (''dependencyLockSha256'', JStr (edge_lock_sha256 U (br_resolution q))),
       (''dependencyPackageCount'', JInt (int (package_count (br_resolution q)))),
       (''processors'', JList (map member_json (bundle_members q)))]"

definition bundle_directory :: "authoring \<Rightarrow> path \<Rightarrow> string \<Rightarrow> string \<Rightarrow> string \<Rightarrow> string \<Rightarrow> path" where
  "bundle_directory A root user key token edge =
     resolve (root @ path_parts (''user-'' @ user) @ [key, edge_directory_name A token edge])"

definition pad6 :: "nat \<Rightarrow> string" where
  "pad6 n = replicate (6 - length (nat_str n)) CHR ''0'' @ nat_str n"

definition bundle_file :: "authoring \<Rightarrow> bundle_env \<Rightarrow> resolver \<Rightarrow> bundle_request \<Rightarrow> string" where
  "bundle_file A B U q =
     (let identity = JObj [(''manifest'', bundle_manifest U q), (''requirementsLockSha256'', JStr (edge_lock_sha256 U (br_resolution q)))] in
      ''edge-native-'' @ target_key (br_target q) @ ''-r'' @ pad6 (br_revision q) @ ''-'' @
      take 12 (au_sha256 A (canonical_json A identity)) @ ''.zip'')"

definition edge_requirements_in :: "edge_resolution \<Rightarrow> string" where
  "edge_requirements_in r =
     (let text = join_with [CHR 0x0A] (er_direct r) in if text = [] then [] else text @ [CHR 0x0A])"

record built_bundle =
  bb_path :: path
  bb_sha256 :: string
  bb_md5 :: string
  bb_manifest :: json

text \<open>The stages it reports: their name and detail.\<close>

type_synonym bundle_stage = "string \<times> json"

definition count_detail :: "string \<Rightarrow> nat \<Rightarrow> json" where
  "count_detail k n = JObj [(k, JInt (int n))]"

definition bundle_stages :: "bundle_request \<Rightarrow> bundle_stage list" where
  "bundle_stages q =
     [(''ASSEMBLING_PROCESSORS'', count_detail ''processorCount'' (length (br_members q))),
      (''DOWNLOADING_DEPENDENCIES'', count_detail ''packageCount'' (package_count (br_resolution q))),
      (''PACKAGING_BUNDLE'', count_detail ''revision'' (br_revision q)),
      (''VERIFYING_ARTIFACT'', count_detail ''revision'' (br_revision q))]"

text \<open>The parts of the assembly between two reports; the number is that of the stages reported when the
  part fails.\<close>

definition bundle_parts ::
  "authoring \<Rightarrow> bundle_env \<Rightarrow> resolver \<Rightarrow> path \<Rightarrow> path \<Rightarrow> bundle_request \<Rightarrow> (nat \<times> (disk \<Rightarrow> disk \<times> (edge_failure + unit))) list" where
  "bundle_parts A B U final staging q =
     [(0, \<lambda>d. edge_io (then_io (mkdirs False (staging @ [''processors'']) d) (\<lambda>_. mkdirs False (staging @ [''dependencies''])))),
      (1, \<lambda>d. edge_io (copy_members (staging @ [''processors'']) (bundle_members q) d)),
      (2, \<lambda>d. then_edge (edge_materialize U (br_resolution q) (br_target q) (staging @ [''dependencies'']) d) (\<lambda>_ d.
         edge_io (write_all
           [(staging @ [''requirements.in''], bf_utf8 B (edge_requirements_in (br_resolution q))),
            (staging @ [''requirements.lock''], bf_utf8 B (er_lock (br_resolution q))),
            (staging @ [''manifest.json''], bf_utf8 B (canonical_json A (bundle_manifest U q)))] d))),
      (3, \<lambda>d. edge_io (write_at final (bf_zip B (archive_of staging d)) d))]"

fun run_parts ::
  "(nat \<times> (disk \<Rightarrow> disk \<times> (edge_failure + unit))) list \<Rightarrow> disk \<Rightarrow> nat \<times> disk \<times> (edge_failure + unit)" where
  "run_parts [] d = (4, d, Inr ())"
| "run_parts ((n, f) # fs) d = (case f d of (d', Inl e) \<Rightarrow> (n, d', Inl e) | (d', Inr _) \<Rightarrow> run_parts fs d')"

definition build_edge_bundle ::
  "authoring \<Rightarrow> bundle_env \<Rightarrow> resolver \<Rightarrow> path \<Rightarrow> path \<Rightarrow> bundle_request \<Rightarrow> disk
     \<Rightarrow> bundle_stage list \<times> disk \<times> (edge_failure + built_bundle)" where
  "build_edge_bundle A B U output tmp q d =
     (let staging = tmp @ [''edge-bundle''];
          target = bundle_directory A output (br_user q) (target_key (br_target q)) (br_token q) (br_edge q);
          final = target @ [bundle_file A B U q] in
      case edge_io (mkdirs True target d) of
        (d, Inl e) \<Rightarrow> ([], d, Inl e)
      | (d, Inr _) \<Rightarrow>
     (case run_parts (bundle_parts A B U final staging q) d of
        (n, d', Inl e) \<Rightarrow> (take n (bundle_stages q), remove_tree tmp d', Inl e)
      | (n, d', Inr _) \<Rightarrow>
          (bundle_stages q, remove_tree tmp d',
           Inr \<lparr>bb_path = final, bb_sha256 = bf_sha256 B (get_or [] (dict_get (dk_files d') final)),
                bb_md5 = bf_md5 B (get_or [] (dict_get (dk_files d') final)), bb_manifest = bundle_manifest U q\<rparr>)))"

section \<open>The file of a stored bundle\<close>

definition row_directory :: "authoring \<Rightarrow> path \<Rightarrow> bundle_row \<Rightarrow> path" where
  "row_directory A root b =
     (let d = bn_device b; base = root @ path_parts (''user-'' @ ed_user d) @ [ed_os d @ ''-'' @ ed_arch d @ ''-py'' @ ed_python d] in
      case (ed_token d, ed_edge d) of
        (Some t, Some e) \<Rightarrow> base @ [edge_directory_name A t e]
      | _ \<Rightarrow> base)"

text \<open>\<open>Path(filename).name != filename\<close>: the name is one component.\<close>

definition bundle_path_from_row :: "authoring \<Rightarrow> path \<Rightarrow> bundle_row \<Rightarrow> disk \<Rightarrow> exn + path" where
  "bundle_path_from_row A root b k =
     (let prefix = ''edge-native-bundle:''; filename = drop (length prefix) (bn_ref b);
          p = resolve (row_directory A root b @ path_parts filename) in
      if \<not> starts_with prefix (bn_ref b) then Inl (publish_error ''edge bundle artifact reference is invalid'')
      else if filename = [] \<or> path_parts filename \<noteq> [filename]
      then Inl (publish_error ''edge bundle artifact filename is invalid'')
      else if take (length root) p \<noteq> root then Inl (publish_error ''edge bundle path escapes configured root'')
      else if dict_get (dk_files k) p = None then Inl (publish_error ''edge bundle artifact file is missing'')
      else Inr p)"

text \<open>\<open>_same_edge_members\<close>: the same members, whatever their order.\<close>

definition member_signature :: "edge_member \<Rightarrow> string \<times> string \<times> string \<times> string list" where
  "member_signature m = (em_operator m, em_variant m, em_package m, em_requirements m)"

definition same_edge_members :: "edge_member list \<Rightarrow> edge_member list \<Rightarrow> bool" where
  "same_edge_members expected actual \<longleftrightarrow> sort (map member_signature expected) = sort (map member_signature actual)"

lemma same_edge_members_mset:
  "same_edge_members xs ys \<longleftrightarrow> mset (map member_signature xs) = mset (map member_signature ys)"
proof
  assume "same_edge_members xs ys"
  then show "mset (map member_signature xs) = mset (map member_signature ys)"
    unfolding same_edge_members_def by (metis mset_sort)
next
  assume "mset (map member_signature xs) = mset (map member_signature ys)"
  then show "same_edge_members xs ys"
    unfolding same_edge_members_def by (intro properties_for_sort) simp_all
qed

end
