(* ===== verification/Build_Http.thy ===== *)
theory Build_Http
  imports Http Build_Service
begin

text \<open>
  The HTTP interface of the build service: \<open>build_service/app.py\<close>, the progress stream of
  \<open>build_service/progress_routes.py\<close> and the administration of \<open>build_service/lifecycle_routes.py\<close>. The
  framework checks a body before it calls a route.
\<close>

section \<open>Environments as JSON\<close>

definition opt_text_json :: "string option \<Rightarrow> json" where
  "opt_text_json s = (case s of None \<Rightarrow> JNull | Some t \<Rightarrow> JStr t)"

definition kind_name :: "resolution \<Rightarrow> string" where
  "kind_name k = (case k of Exact \<Rightarrow> ''exact'' | Superset \<Rightarrow> ''superset'')"

definition lifecycle_name :: "lifecycle_state \<Rightarrow> string" where
  "lifecycle_name s = (case s of LActive \<Rightarrow> ''ACTIVE'' | LRetiring \<Rightarrow> ''RETIRING'' | LRetired \<Rightarrow> ''RETIRED'')"

definition serialize_environment :: "env_view option \<Rightarrow> json" where
  "serialize_environment view =
     (case view of
        None \<Rightarrow> JObj [(''found'', JBool False)]
      | Some (e, a) \<Rightarrow>
          JObj [(''found'', JBool True), (''environmentId'', JStr (ev_id e)), (''envKey'', JStr (al_key a)),
            (''runtimeEnvKey'', JStr (ev_key e)), (''resolutionKind'', JStr (kind_name (al_kind a))),
            (''status'', JStr (status_name (ev_status e))), (''image'', opt_text_json (ev_image e)),
            (''error'', opt_text_json (ev_last_error e)), (''canRetry'', JBool (ev_status e = Failed)),
            (''lifecycleState'', JStr (lifecycle_name (ev_lifecycle e)))])"

section \<open>Resolving\<close>

definition resolve_route :: "build_answer \<Rightarrow> build_db \<times> http_answer" where
  "resolve_route a =
     (case a of (db, stages, r) \<Rightarrow>
       (db, case r of
              Inr view \<Rightarrow> http_ok (serialize_environment view)
            | Inl e \<Rightarrow> if of_class value_errors e then http_error 400 (exn_msg e) else server_error))"

definition environment_route :: "build_store \<Rightarrow> string \<Rightarrow> build_db \<Rightarrow> http_answer" where
  "environment_route S key db =
     (case bs_get_for_request S key db of
        None \<Rightarrow> http_error 404 ''runtime environment not found''
      | Some view \<Rightarrow> http_ok (serialize_environment (Some view)))"

definition retry_route :: "build_answer \<Rightarrow> build_db \<times> http_answer" where
  "retry_route a =
     (case a of (db, stages, r) \<Rightarrow>
       (db, case r of
              Inr view \<Rightarrow> http_ok (serialize_environment view)
            | Inl e \<Rightarrow> if of_class [''KeyError''] e then http_error 404 ''runtime environment not found''
                      else if of_class value_errors e then http_error 409 (exn_msg e) else server_error))"

section \<open>The progress stream\<close>

text \<open>\<open>dumps\<close> is \<open>json.dumps\<close>; \<open>message\<close> and \<open>detail\<close> are what the service reports with a stage.\<close>

definition newline :: char where
  "newline = CHR 0x0A"

definition sse :: "(json \<Rightarrow> string) \<Rightarrow> string \<Rightarrow> json \<Rightarrow> string" where
  "sse dumps event data = ''event: '' @ event @ [newline] @ ''data: '' @ dumps data @ [newline, newline]"

definition keep_alive :: string where
  "keep_alive = '': keep-alive'' @ [newline, newline]"

datatype stream_item = Event string json | KeepAlive

definition progress_event :: "(string \<Rightarrow> string) \<Rightarrow> (string \<Rightarrow> json) \<Rightarrow> string \<Rightarrow> stream_item" where
  "progress_event message detail stage =
     Event ''progress'' (JObj [(''stage'', JStr stage), (''message'', JStr (message stage)), (''detail'', detail stage)])"

definition final_event :: "exn + env_view option \<Rightarrow> stream_item" where
  "final_event r =
     (case r of
        Inr view \<Rightarrow> Event ''result'' (serialize_environment view)
      | Inl e \<Rightarrow> Event ''error'' (JObj [(''message'', JStr (exn_text e))]))"

text \<open>The events of a resolve; a queue that stays empty for 15 seconds puts a comment between them: \<open>idle\<close>
  says how many before each.\<close>

fun with_idle :: "nat list \<Rightarrow> stream_item list \<Rightarrow> stream_item list" where
  "with_idle idle [] = []"
| "with_idle [] (i # items) = i # with_idle [] items"
| "with_idle (n # idle) (i # items) = replicate n KeepAlive @ i # with_idle idle items"

definition resolve_events ::
  "(string \<Rightarrow> string) \<Rightarrow> (string \<Rightarrow> json) \<Rightarrow> build_answer \<Rightarrow> stream_item list" where
  "resolve_events message detail a =
     (case a of (db, stages, r) \<Rightarrow> map (progress_event message detail) stages @ [final_event r])"

definition item_text :: "(json \<Rightarrow> string) \<Rightarrow> stream_item \<Rightarrow> string" where
  "item_text dumps i = (case i of Event event data \<Rightarrow> sse dumps event data | KeepAlive \<Rightarrow> keep_alive)"

definition stream_body ::
  "(json \<Rightarrow> string) \<Rightarrow> (string \<Rightarrow> string) \<Rightarrow> (string \<Rightarrow> json) \<Rightarrow> nat list \<Rightarrow> build_answer \<Rightarrow> string" where
  "stream_body dumps message detail idle a =
     concat (map (item_text dumps) (with_idle idle (resolve_events message detail a)))"

section \<open>Administration\<close>

definition plan_json :: "lifecycle_plan \<Rightarrow> json" where
  "plan_json p =
     JObj [(''environmentId'', JStr (lp_env p)), (''envKey'', JStr (lp_key p)), (''buildStatus'', JStr (status_name (lp_status p))),
       (''lifecycleState'', JStr (lifecycle_name (lp_lifecycle p))), (''imageRef'', opt_text_json (lp_image p)),
       (''aliasCount'', JInt (int (lp_aliases p))), (''activeBuildJobs'', JInt (int (lp_jobs p))),
       (''locallyBlocked'', JBool (locally_blocked p))]"

definition lifecycle_error :: "string list \<Rightarrow> exn \<Rightarrow> http_answer" where
  "lifecycle_error conflicts e =
     (if of_class [''KeyError''] e then http_error 404 ''runtime environment not found''
      else if of_class conflicts e then http_error 409 (exn_msg e) else server_error)"

definition answer_of :: "string list \<Rightarrow> ('a \<Rightarrow> json) \<Rightarrow> exn + 'a \<Rightarrow> http_answer" where
  "answer_of conflicts show r = (case r of Inr x \<Rightarrow> http_ok (show x) | Inl e \<Rightarrow> lifecycle_error conflicts e)"

definition BUILD_ADMIN_TOKEN :: string where
  "BUILD_ADMIN_TOKEN = ''BUILD_ADMIN_TOKEN''"

abbreviation build_admin where
  "build_admin \<equiv> admin_route BUILD_ADMIN_TOKEN"

definition unprocessable :: http_answer where
  "unprocessable = http_error 422 ''request validation failed''"

definition text_between :: "nat \<Rightarrow> nat \<Rightarrow> string \<Rightarrow> bool" where
  "text_between lo hi s \<longleftrightarrow> lo \<le> text_length s \<and> text_length s \<le> hi"

definition cleanup_plan_route :: "string \<Rightarrow> string option \<Rightarrow> string \<Rightarrow> build_db \<Rightarrow> build_db \<times> http_answer" where
  "cleanup_plan_route token header i =
     build_admin token header (\<lambda>db. (db, answer_of [] plan_json (build_plan i db)))"

definition retire_route ::
  "(env_row \<Rightarrow> json) \<Rightarrow> int \<Rightarrow> string \<Rightarrow> string option \<Rightarrow> string \<Rightarrow> string \<Rightarrow> build_db \<Rightarrow> build_db \<times> http_answer" where
  "retire_route show now token header i reason db =
     (if \<not> text_between 5 1000 reason then (db, unprocessable)
      else build_admin token header (\<lambda>db. apsnd (answer_of value_errors show) (build_begin_retirement now i db)) db)"

definition cancel_route ::
  "(env_row \<Rightarrow> json) \<Rightarrow> int \<Rightarrow> string \<Rightarrow> string option \<Rightarrow> string \<Rightarrow> build_db \<Rightarrow> build_db \<times> http_answer" where
  "cancel_route show now token header i =
     build_admin token header (\<lambda>db. apsnd (answer_of value_errors show) (build_cancel_retirement now i db))"

definition delete_route ::
  "build_env \<Rightarrow> harbor option \<Rightarrow> (deletion \<Rightarrow> json) \<Rightarrow> int \<Rightarrow> string \<Rightarrow> string option \<Rightarrow> string \<Rightarrow> string \<Rightarrow> build_db
     \<Rightarrow> build_db \<times> http_answer" where
  "delete_route E H show now token header i expected db =
     (if \<not> text_between 1 2048 expected then (db, unprocessable)
      else build_admin token header
             (\<lambda>db. apsnd (answer_of (value_errors @ runtime_errors) show) (delete_artifact E H now i expected db)) db)"

text \<open>Without the token no administration route changes the database.\<close>

lemma build_admin_guard:
  assumes "header \<noteq> Some (bearer @ token)"
  shows "fst (cleanup_plan_route token header i db) = db" "fst (retire_route show now token header i reason db) = db"
    "fst (cancel_route show now token header i db) = db" "fst (delete_route E H dshow now token header i expected db) = db"
  by (simp_all add: cleanup_plan_route_def retire_route_def cancel_route_def delete_route_def
      admin_route_refused [OF assms, THEN conjunct1])

end
