(* ===== verification/Build_Client.thy ===== *)
theory Build_Client
  imports Build_Http Publish_Contract
begin

text \<open>
  The publish service's client of the build service (\<open>publish_service/build_client.py\<close>): the reader of
  server-sent events, the requests, and the loop that polls an environment until it is ready or failed.
  What the other side answers is an argument, and so is the time it takes, in milliseconds.
\<close>

section \<open>Reading events\<close>

text \<open>A response is read line by line.\<close>

fun response_lines :: "string \<Rightarrow> string list" where
  "response_lines [] = []"
| "response_lines (c # s) =
     (if c = newline then [c] # response_lines s
      else (case response_lines s of [] \<Rightarrow> [[c]] | l # ls \<Rightarrow> (c # l) # ls))"

definition strip_line :: "string \<Rightarrow> string" where
  "strip_line l = rev (dropWhile (\<lambda>c. c = CHR 0x0D \<or> c = newline) (rev l))"

definition message_or :: "string \<Rightarrow> string" where
  "message_or s = (if s = [] then ''message'' else s)"

text \<open>The events, each with the lines of its data joined; \<open>event\<close> and \<open>data\<close> belong to the one being read.\<close>

fun read_sse :: "string \<Rightarrow> string list \<Rightarrow> string list \<Rightarrow> (string \<times> string) list" where
  "read_sse event data [] = (if data = [] then [] else [(event, join_with [newline] data)])"
| "read_sse event data (raw # raws) =
     (let line = strip_line raw in
      if line = [] then (if data = [] then [] else [(event, join_with [newline] data)]) @ read_sse ''message'' [] raws
      else if starts_with '':'' line then read_sse event data raws
      else if starts_with ''event:'' line then read_sse (message_or (strip (drop 6 line))) data raws
      else if starts_with ''data:'' line then read_sse event (data @ [lstrip (drop 5 line)]) raws
      else read_sse event data raws)"

definition read_events :: "string \<Rightarrow> (string \<times> string) list" where
  "read_events body = read_sse ''message'' [] (response_lines body)"

section \<open>Requests\<close>

text \<open>\<open>Broken\<close>: reading the answer raises something else, as a time-out does.\<close>

datatype http_exchange = Body string | HttpFailure nat string | Unreachable string | Broken exn

record build_client =
  bl_loads :: "string \<Rightarrow> json option"
  bl_show :: "json \<Rightarrow> string"
  bl_timeout :: int
  bl_interval :: int

definition client_error :: "string \<Rightarrow> exn" where
  "client_error m = PyError ''BuildServiceClientError'' m"

definition failed_exchange :: "nat \<Rightarrow> string \<Rightarrow> exn" where
  "failed_exchange code detail = client_error (''Build Service returned HTTP '' @ nat_str code @ '': '' @ detail)"

definition json_request :: "build_client \<Rightarrow> http_exchange \<Rightarrow> exn + json" where
  "json_request L x =
     (case x of
        Body b \<Rightarrow> (case bl_loads L b of None \<Rightarrow> Inl (PyError ''JSONDecodeError'' b) | Some j \<Rightarrow> Inr j)
      | HttpFailure code detail \<Rightarrow> Inl (failed_exchange code detail)
      | Unreachable m \<Rightarrow> Inl (client_error (''Build Service is unavailable: '' @ m))
      | Broken e \<Rightarrow> Inl e)"

text \<open>What the caller's progress function gets: stage, message, detail.\<close>

type_synonym progress_call = "string \<times> string \<times> json option"

definition show_or :: "build_client \<Rightarrow> json \<Rightarrow> string \<Rightarrow> string" where
  "show_or L j dflt = (if truthy j then (case j of JStr s \<Rightarrow> s | _ \<Rightarrow> bl_show L j) else dflt)"

definition progress_call :: "build_client \<Rightarrow> json \<Rightarrow> progress_call" where
  "progress_call L p =
     (show_or L (get_field p ''stage'') ''BUILDING_RUNTIME'',
      show_or L (get_field p ''message'') ''Build Service is preparing the runtime'',
      (if is_obj (get_field p ''detail'') then Some (get_field p ''detail'') else None))"

text \<open>What one event does: calls to the progress function and the loop goes on, or the loop ends.\<close>

datatype event_outcome = Goes_on "progress_call list" | Ends "exn + json"

definition handle_event :: "build_client \<Rightarrow> string \<Rightarrow> string \<Rightarrow> event_outcome" where
  "handle_event L event raw =
     (if raw = [] then Goes_on []
      else (case bl_loads L raw of
              None \<Rightarrow> Ends (Inl (client_error ''Build Service returned malformed SSE JSON''))
            | Some payload \<Rightarrow>
                if event = ''progress''
                then (if is_obj payload then Goes_on [progress_call L payload] else Ends (Inl attribute_error))
                else if event = ''result''
                then Ends (if is_obj payload then Inr payload
                           else Inl (client_error ''Build Service result event is not an object''))
                else if event = ''error''
                then Ends (Inl (client_error (show_or L (get_field payload ''message'') ''Build Service progress stream failed'')))
                else Goes_on []))"

definition stream_ended :: exn where
  "stream_ended = client_error ''Build Service progress stream ended without a result''"

text \<open>The events of a stream that has ended.\<close>

fun stream_events :: "build_client \<Rightarrow> (string \<times> string) list \<Rightarrow> progress_call list \<times> (exn + json)" where
  "stream_events L [] = ([], Inl stream_ended)"
| "stream_events L ((event, raw) # events) =
     (case handle_event L event raw of
        Ends r \<Rightarrow> ([], r)
      | Goes_on calls \<Rightarrow> apfst ((@) calls) (stream_events L events))"

text \<open>What one line does to the event being read, and the event it completes.\<close>

definition read_line_step :: "string \<Rightarrow> string list \<Rightarrow> string \<Rightarrow> string \<times> string list \<times> (string \<times> string) option" where
  "read_line_step event data raw =
     (let line = strip_line raw in
      if line = [] then (''message'', [], if data = [] then None else Some (event, join_with [newline] data))
      else if starts_with '':'' line then (event, data, None)
      else if starts_with ''event:'' line then (message_or (strip (drop 6 line)), data, None)
      else if starts_with ''data:'' line then (event, data @ [lstrip (drop 5 line)], None)
      else (event, data, None))"

lemma read_sse_step:
  "read_sse event data (raw # raws) =
     (case read_line_step event data raw of (event', data', e) \<Rightarrow> (case e of None \<Rightarrow> [] | Some x \<Rightarrow> [x]) @ read_sse event' data' raws)"
  by (simp add: read_line_step_def Let_def)

lemma read_line_blank: "read_line_step event data raw = (event', data', e) \<Longrightarrow> strip_line raw = [] \<Longrightarrow> data' = []"
  by (simp add: read_line_step_def)

lemma read_line_done: "read_line_step event data raw = (event', data', Some x) \<Longrightarrow> strip_line raw = []"
  by (auto simp: read_line_step_def Let_def split: if_splits)

text \<open>The loop over the response: \<open>lines n\<close> is what the \<open>n\<close>-th read gives, a line, the end, or an error such as a
  time-out. Nothing but the end, an error or a final event ends the loop, so the result is \<open>None\<close> for a stream that goes
  on for ever.\<close>

datatype stream_read = Line string | Closed | Fails exn

partial_function (option) follow_stream ::
  "build_client \<Rightarrow> (nat \<Rightarrow> stream_read) \<Rightarrow> nat \<Rightarrow> string \<Rightarrow> string list \<Rightarrow> progress_call list
     \<Rightarrow> (progress_call list \<times> (exn + json)) option" where
  "follow_stream L lines n event data calls =
     (case lines n of
        Fails e \<Rightarrow> Some (calls, Inl e)
      | Closed \<Rightarrow>
          (if data = [] then Some (calls, Inl stream_ended)
           else (case handle_event L event (join_with [newline] data) of
                   Ends r \<Rightarrow> Some (calls, r)
                 | Goes_on told \<Rightarrow> Some (calls @ told, Inl stream_ended)))
      | Line raw \<Rightarrow>
          (case read_line_step event data raw of
             (event', data', None) \<Rightarrow> follow_stream L lines (n + 1) event' data' calls
           | (event', data', Some (e, payload)) \<Rightarrow>
               (case handle_event L e payload of
                  Ends r \<Rightarrow> Some (calls, r)
                | Goes_on told \<Rightarrow> follow_stream L lines (n + 1) event' data' (calls @ told))))"

text \<open>A response that has been read as a whole, and the lines of a body.\<close>

definition body_lines :: "string list \<Rightarrow> nat \<Rightarrow> stream_read" where
  "body_lines raws n = (if n < length raws then Line (raws ! n) else Closed)"

lemma apfst_append: "apfst ((@) a) (apfst ((@) b) p) = apfst ((@) (a @ b)) p"
  by (cases p) simp

lemma follow_body:
  "n \<le> length raws \<Longrightarrow> follow_stream L (body_lines raws) n event data calls =
     Some (apfst ((@) calls) (stream_events L (read_sse event data (drop n raws))))"
proof (induction "length raws - n" arbitrary: n event data calls)
  case 0
  then have "body_lines raws n = Closed" "drop n raws = []" by (simp_all add: body_lines_def)
  then show ?case
    by (subst follow_stream.simps) (simp split: event_outcome.split)
next
  case (Suc k)
  then have n: "n < length raws" and k: "k = length raws - Suc n" by simp_all
  then have l: "body_lines raws n = Line (raws ! n)" and d: "drop n raws = raws ! n # drop (Suc n) raws"
    by (simp_all add: body_lines_def Cons_nth_drop_Suc)
  note IH = Suc.hyps(1) [OF k, unfolded Suc_le_eq, OF n]
  obtain event' data' e where s: "read_line_step event data (raws ! n) = (event', data', e)" by (metis prod_cases3)
  show ?case
    unfolding d
    by (subst follow_stream.simps)
      (simp add: l IH s read_sse_step apfst_append del: read_sse.simps split: option.split event_outcome.split)
qed

text \<open>How the request for a stream is answered. The result is \<open>None\<close> inside when the service has no stream.\<close>

datatype stream_exchange = Lines "nat \<Rightarrow> stream_read" | StreamFailure nat string | StreamUnreachable string

definition resolve_stream :: "build_client \<Rightarrow> stream_exchange \<Rightarrow> (progress_call list \<times> (exn + json option)) option" where
  "resolve_stream L x =
     (case x of
        Lines lines \<Rightarrow> map_option (apsnd (map_sum id Some)) (follow_stream L lines 0 ''message'' [] [])
      | StreamFailure code detail \<Rightarrow> Some ([], if code = 404 \<or> code = 405 then Inr None else Inl (failed_exchange code detail))
      | StreamUnreachable m \<Rightarrow> Some ([], Inl (client_error (''Build Service is unavailable: '' @ m))))"

section \<open>When the stream ends\<close>

text \<open>The lines from the \<open>n\<close>-th on that decide the loop: after them the stream ends, or they contain a final event and the
  blank line that completes it.\<close>

definition line_block :: "(nat \<Rightarrow> stream_read) \<Rightarrow> nat \<Rightarrow> string list \<Rightarrow> bool" where
  "line_block lines n raws \<longleftrightarrow> (\<forall>i<length raws. lines (n + i) = Line (raws ! i))"

definition ends_loop :: "build_client \<Rightarrow> string \<times> string \<Rightarrow> bool" where
  "ends_loop L e = (case handle_event L (fst e) (snd e) of Ends _ \<Rightarrow> True | Goes_on _ \<Rightarrow> False)"

definition deciding :: "build_client \<Rightarrow> (nat \<Rightarrow> stream_read) \<Rightarrow> nat \<Rightarrow> string \<Rightarrow> string list \<Rightarrow> string list \<Rightarrow> bool" where
  "deciding L lines n event data raws \<longleftrightarrow>
     line_block lines n raws \<and>
     ((\<forall>raw. lines (n + length raws) \<noteq> Line raw) \<or>
      raws \<noteq> [] \<and> strip_line (last raws) = [] \<and> list_ex (ends_loop L) (read_sse event data raws))"

lemma line_block_Nil [simp]: "line_block lines n []"
  by (simp add: line_block_def)

lemma line_block_Cons [simp]:
  "line_block lines n (raw # raws) \<longleftrightarrow> lines n = Line raw \<and> line_block lines (Suc n) raws"
  by (simp add: line_block_def All_less_Suc2)

lemma deciding_follow:
  "deciding L lines n event data raws \<Longrightarrow> follow_stream L lines n event data calls \<noteq> None"
proof (induction raws arbitrary: n event data calls)
  case Nil
  then have "\<forall>raw. lines n \<noteq> Line raw" by (simp add: deciding_def)
  then show ?case by (subst follow_stream.simps) (simp split: event_outcome.split stream_read.split)
next
  case (Cons raw raws)
  then have l: "lines n = Line raw" and b: "line_block lines (Suc n) raws" by (simp_all add: deciding_def)
  have final: "(\<forall>r. lines (Suc n + length raws) \<noteq> Line r) \<or>
      strip_line (last (raw # raws)) = [] \<and> list_ex (ends_loop L) (read_sse event data (raw # raws))"
    using Cons.prems by (simp add: deciding_def del: read_sse.simps)
  have IH: "follow_stream L lines (Suc n) event' data' calls' \<noteq> None"
    if "list_ex (ends_loop L) (read_sse event data (raw # raws)) \<longrightarrow> list_ex (ends_loop L) (read_sse event' data' raws)"
      and "strip_line raw = [] \<longrightarrow> data' = []" for event' data' calls'
  proof (rule Cons.IH, cases "raws = []")
    case True
    with final that have "\<forall>r. lines (Suc n) \<noteq> Line r" by (auto simp del: read_sse.simps(2))
    with True show "deciding L lines (Suc n) event' data' raws" by (simp add: deciding_def)
  next
    case False
    with final that(1) b show "deciding L lines (Suc n) event' data' raws"
      by (auto simp: deciding_def simp del: read_sse.simps)
  qed
  obtain event' data' e where s: "read_line_step event data raw = (event', data', e)" by (metis prod_cases3)
  have blank: "strip_line raw = [] \<longrightarrow> data' = []" using read_line_blank [OF s] by blast
  have rest: "follow_stream L lines (Suc n) event' data' calls' \<noteq> None"
    if "\<forall>x. e = Some x \<longrightarrow> \<not> ends_loop L x" for calls'
    using IH [of event' data' calls'] blank that by (cases e) (simp_all add: read_sse_step s del: read_sse.simps)
  show ?case
  proof (cases e)
    case None
    with rest show ?thesis by (subst follow_stream.simps) (simp add: l s)
  next
    case (Some x)
    with rest show ?thesis
      by (cases x, subst follow_stream.simps) (simp add: l s ends_loop_def split: event_outcome.split)
  qed
qed

lemma follow_deciding:
  "follow_stream L lines n event data calls = Some r \<Longrightarrow> \<exists>raws. deciding L lines n event data raws"
proof (erule follow_stream.raw_induct
    [of "\<lambda>L lines n event data calls r. \<exists>raws. deciding L lines n event data raws", rotated], goal_cases)
  case (1 follow L lines n event data calls r)
  show ?case
  proof (cases "\<exists>raw. lines n = Line raw")
    case False
    then have "deciding L lines n event data []" by (simp add: deciding_def)
    then show ?thesis ..
  next
    case True
    then obtain raw where line: "lines n = Line raw" ..
    obtain event' data' e where s: "read_line_step event data raw = (event', data', e)" by (metis prod_cases3)
    show ?thesis
    proof (cases "\<exists>x. e = Some x \<and> ends_loop L x")
      case True
      then have "strip_line raw = []" using s read_line_done by blast
      with True have "deciding L lines n event data [raw]"
        using line by (auto simp: deciding_def read_sse_step s simp del: read_sse.simps(2))
      then show ?thesis ..
    next
      case False
      then obtain calls' where "follow L lines (n + 1) event' data' calls' = Some r"
        using 1(2) line s by (cases e) (auto simp: ends_loop_def split: event_outcome.splits prod.splits)
      then obtain raws where "deciding L lines (n + 1) event' data' raws" using 1(1) by blast
      then have "deciding L lines n event data (raw # raws)"
        using line by (auto simp: deciding_def read_sse_step s simp del: read_sse.simps)
      then show ?thesis ..
    qed
  qed
qed

text \<open>The streams that end, break or deliver a final event are those the client stops reading.\<close>

definition stream_stops :: "build_client \<Rightarrow> stream_exchange \<Rightarrow> bool" where
  "stream_stops L x = (case x of Lines lines \<Rightarrow> \<exists>raws. deciding L lines 0 ''message'' [] raws | _ \<Rightarrow> True)"

lemma resolve_stream_stops: "resolve_stream L x \<noteq> None \<longleftrightarrow> stream_stops L x"
proof (cases x)
  case (Lines lines)
  then show ?thesis
    using deciding_follow [of L lines 0 "''message''" "[]"] follow_deciding [of L lines 0 "''message''" "[]" "[]"]
    by (auto simp: resolve_stream_def stream_stops_def)
qed (simp_all add: resolve_stream_def stream_stops_def)

section \<open>Waiting\<close>

text \<open>The messages of the code are Chinese; these are their bytes in UTF-8. In order: the environment waits for its build,
  is built, is verified, is ready, has failed; the service has no stream, so a plain request follows.\<close>

definition utf8_text :: "nat list \<Rightarrow> string" where
  "utf8_text = map char_of"

definition waiting_text :: string where
  "waiting_text = utf8_text
     [232, 191, 144, 232, 161, 140, 230, 151, 182, 231, 142, 175, 229, 162, 131, 229, 183, 178, 229, 136,
      155, 229, 187, 186, 239, 188, 140, 231, 173, 137, 229, 190, 133, 230, 158, 132, 229, 187, 186, 228,
      187, 187, 229, 138, 161, 229, 188, 128, 229, 167, 139]"

definition building_text :: string where
  "building_text = utf8_text
     [230, 173, 163, 229, 156, 168, 230, 158, 132, 229, 187, 186, 229, 185, 182, 230, 142, 168, 233, 128,
      129, 32, 82, 117, 110, 110, 101, 114, 32, 82, 117, 110, 116, 105, 109, 101, 32, 233, 149, 156, 229,
      131, 143]"

definition verifying_text :: string where
  "verifying_text = utf8_text
     [230, 173, 163, 229, 156, 168, 233, 170, 140, 232, 175, 129, 32, 82, 117, 110, 110, 101, 114, 32, 82,
      117, 110, 116, 105, 109, 101, 32, 233, 149, 156, 229, 131, 143, 228, 184, 173, 231, 154, 132, 228, 190,
      157, 232, 181, 150]"

definition ready_text :: string where
  "ready_text = utf8_text
     [82, 117, 110, 110, 101, 114, 32, 82, 117, 110, 116, 105, 109, 101, 32, 231, 142, 175, 229, 162, 131,
      229, 183, 178, 229, 176, 177, 231, 187, 170]"

definition failed_text :: string where
  "failed_text = utf8_text
     [82, 117, 110, 110, 101, 114, 32, 82, 117, 110, 116, 105, 109, 101, 32, 231, 142, 175, 229, 162, 131,
      230, 158, 132, 229, 187, 186, 229, 164, 177, 232, 180, 165]"

definition degraded_text :: string where
  "degraded_text = utf8_text
     [66, 117, 105, 108, 100, 32, 83, 101, 114, 118, 105, 99, 101, 32, 230, 156, 170, 230, 143, 144, 228,
      190, 155, 232, 191, 155, 229, 186, 166, 230, 181, 129, 239, 188, 140, 229, 183, 178, 233, 153, 141,
      231, 186, 167, 228, 184, 186, 230, 153, 174, 233, 128, 154, 32, 82, 101, 115, 111, 108, 118, 101]"

definition status_call :: "build_client \<Rightarrow> json \<Rightarrow> json \<Rightarrow> json \<Rightarrow> progress_call list" where
  "status_call L key current status =
     (let detail = JObj [(''envKey'', key)]; call = (\<lambda>stage m. [(stage, m, Some detail)]) in
      if status = JStr ''PENDING'' then call ''WAITING_RUNTIME'' waiting_text
      else if status = JStr ''BUILDING'' then call ''BUILDING_RUNTIME'' building_text
      else if status = JStr ''VERIFYING'' then call ''VERIFYING_RUNTIME'' verifying_text
      else if status = JStr ''READY'' then call ''RUNTIME_READY'' ready_text
      else if status = JStr ''FAILED''
      then [(''RUNTIME_FAILED'', failed_text, Some (JObj [(''envKey'', key), (''error'', get_field current ''error'')]))]
      else [])"

definition terminal :: "json \<Rightarrow> bool" where
  "terminal status \<longleftrightarrow> status = JStr ''READY'' \<or> status = JStr ''FAILED''"

text \<open>\<open>status in {"READY", "FAILED"}\<close> needs a hash.\<close>

definition unhashable :: "json \<Rightarrow> bool" where
  "unhashable j = (case j of JList _ \<Rightarrow> True | JObj _ \<Rightarrow> True | _ \<Rightarrow> False)"

definition unhashable_error :: exn where
  "unhashable_error = PyError ''TypeError'' ''unhashable type''"

text \<open>The loop: \<open>now\<close> is the time of a test of the deadline, \<open>answers n\<close> the answer to the \<open>n\<close>-th request and
  \<open>spent n\<close> the time it took; \<open>time.sleep\<close> takes at least its argument, \<open>late n\<close> is what it took longer. The result has the
  number of requests.\<close>

definition pause :: "build_client \<Rightarrow> int" where
  "pause L = max 100 (bl_interval L)"

record waiting =
  wt_spent :: "nat \<Rightarrow> nat"
  wt_late :: "nat \<Rightarrow> nat"
  wt_answers :: "nat \<Rightarrow> http_exchange"

partial_function (option) poll ::
  "build_client \<Rightarrow> waiting \<Rightarrow> json \<Rightarrow> int \<Rightarrow> int \<Rightarrow> nat \<Rightarrow> json \<Rightarrow> progress_call list
     \<Rightarrow> (nat \<times> progress_call list \<times> (exn + json)) option" where
  "poll L W key deadline now n prior calls =
     (if deadline \<le> now
      then Some (n, calls, Inl (client_error (''Timed out waiting for Build Service runtime env_key='' @ show_or L key [])))
      else (case json_request L (wt_answers W n) of
              Inl e \<Rightarrow> Some (n + 1, calls, Inl e)
            | Inr current \<Rightarrow>
                if \<not> is_obj current then Some (n + 1, calls, Inl attribute_error)
                else (let status = get_field current ''status'';
                          calls' = (if status \<noteq> prior then calls @ status_call L key current status else calls) in
                      if unhashable status then Some (n + 1, calls', Inl unhashable_error)
                      else if terminal status then Some (n + 1, calls', Inr current)
                      else poll L W key deadline (now + int (wt_spent W n) + pause L + int (wt_late W n)) (n + 1) status calls')))"

definition wait_until_terminal ::
  "build_client \<Rightarrow> waiting \<Rightarrow> int \<Rightarrow> json \<Rightarrow> (nat \<times> progress_call list \<times> (exn + json)) option" where
  "wait_until_terminal L W start runtime =
     (let status = get_field runtime ''status''; key = get_field runtime ''envKey'' in
      if \<not> is_obj runtime then Some (0, [], Inl attribute_error)
      else if unhashable status then Some (0, [], Inl unhashable_error)
      else if terminal status \<or> \<not> truthy key then Some (0, [], Inr runtime)
      else poll L W key (start + bl_timeout L) start 0 JNull [])"

text \<open>\<open>resolve\<close> with a progress function: the stream, or the plain request when there is none.\<close>

definition client_resolve ::
  "build_client \<Rightarrow> waiting \<Rightarrow> int \<Rightarrow> stream_exchange \<Rightarrow> http_exchange \<Rightarrow> (nat \<times> progress_call list \<times> (exn + json)) option" where
  "client_resolve L W start stream reply =
     (case resolve_stream L stream of
        None \<Rightarrow> None
      | Some (calls, Inl e) \<Rightarrow> Some (0, calls, Inl e)
      | Some (calls, Inr (Some runtime)) \<Rightarrow>
          map_option (\<lambda>(n, cs, r). (n, calls @ cs, r)) (wait_until_terminal L W start runtime)
      | Some (calls, Inr None) \<Rightarrow>
          (let calls1 = calls @ [(''RESOLVING_RUNTIME'', degraded_text, Some (JObj [(''degraded'', JBool True)]))] in
           case json_request L reply of
             Inl e \<Rightarrow> Some (0, calls1, Inl e)
           | Inr runtime \<Rightarrow>
               map_option (\<lambda>(n, cs, r). (n, calls1 @ cs, r)) (wait_until_terminal L W start runtime)))"

section \<open>The loop ends\<close>

text \<open>Every test of the deadline is later than the one before by the pause, so the number of requests is bounded.\<close>

lemma poll_ends:
  "\<exists>m cs r. poll L W key deadline now n prior calls = Some (m, cs, r) \<and> n \<le> m \<and>
    int (m - n) * pause L < max 0 (deadline - now) + pause L \<and> (deadline \<le> now \<longrightarrow> m = n)"
proof (induction "nat (deadline - now)" arbitrary: now n prior calls rule: less_induct)
  case less
  note unfold = poll.simps [of L W key deadline now n prior calls]
  have step: "0 < pause L" by (simp add: pause_def)
  show ?case
  proof (cases "deadline \<le> now")
    case True
    then show ?thesis using step by (simp add: unfold)
  next
    case False
    let ?now = "now + int (wt_spent W n) + pause L + int (wt_late W n)"
    have later: "now + pause L \<le> ?now" by simp
    have smaller: "nat (deadline - ?now) < nat (deadline - now)"
      using False later step by linarith
    show ?thesis
    proof (cases "\<exists>current. json_request L (wt_answers W n) = Inr current \<and> is_obj current \<and>
        \<not> unhashable (get_field current ''status'') \<and> \<not> terminal (get_field current ''status'')")
      case True
      then obtain current where c: "json_request L (wt_answers W n) = Inr current" "is_obj current"
        "\<not> unhashable (get_field current ''status'')" "\<not> terminal (get_field current ''status'')" by blast
      let ?status = "get_field current ''status''"
      let ?calls = "if ?status \<noteq> prior then calls @ status_call L key current ?status else calls"
      from less [OF smaller, of "n + 1" ?status ?calls] obtain m cs r where
        p: "poll L W key deadline ?now (n + 1) ?status ?calls = Some (m, cs, r)" and m: "n + 1 \<le> m"
        and b: "int (m - (n + 1)) * pause L < max 0 (deadline - ?now) + pause L" "deadline \<le> ?now \<longrightarrow> m = n + 1" by blast
      have "poll L W key deadline now n prior calls = Some (m, cs, r)"
        using False c p by (simp add: unfold Let_def)
      moreover have "int (m - n) * pause L = int (m - (n + 1)) * pause L + pause L" using m by (simp add: algebra_simps of_nat_diff)
      moreover have "int (m - (n + 1)) * pause L < deadline - now"
        using b later False step by (cases "deadline \<le> ?now") auto
      ultimately show ?thesis using m False by auto
    next
      case False2: False
      then have "\<exists>cs r. poll L W key deadline now n prior calls = Some (n + 1, cs, r)"
        using False by (auto simp: unfold Let_def split: sum.splits)
      with False show ?thesis by auto
    qed
  qed
qed

end
