(* ===== verification/Publisher.thy ===== *)
theory Publisher
  imports Catalog Materialize
begin

text \<open>
  The publisher of releases (\<open>runner_engine/publisher.py\<close>): it checks a project, hashes its sources,
  packs them into an archive that depends on nothing but their content, and saves the release in the
  catalog. YAML, hashes, the text of JSON and the archive format are arguments.
\<close>

section \<open>A project\<close>

text \<open>The entries \<open>rglob\<close> finds: whether the path is a file (followed through links), a link, and its
  content.\<close>

record project_entry =
  pe_parts :: path
  pe_is_file :: bool
  pe_symlink :: bool
  pe_data :: bytes

record publishing =
  pb_yaml :: "bytes \<Rightarrow> exn + json"
  pb_show :: "json \<Rightarrow> string"
  pb_canonical :: "json \<Rightarrow> bytes"
  pb_digest :: "bytes \<Rightarrow> bytes"
  pb_hex :: "bytes \<Rightarrow> string"
  pb_archive :: "(string \<times> bytes) list \<Rightarrow> bytes"

definition pb_error :: "string \<Rightarrow> exn" where
  "pb_error m = PyError ''ValueError'' m"

definition IGNORED_PARTS :: "string list" where
  "IGNORED_PARTS = [''.git'', ''__pycache__'', ''.pytest_cache'', ''.mypy_cache'', ''.qoder'']"

definition entry_name :: "project_entry \<Rightarrow> string" where
  "entry_name e = join_with ''/'' (pe_parts e)"

definition source_entry :: "project_entry \<Rightarrow> bool" where
  "source_entry e \<longleftrightarrow> pe_is_file e \<and> \<not> list_ex (\<lambda>p. p \<in> set IGNORED_PARTS) (pe_parts e)"

text \<open>\<open>_iter_source_files\<close>: the source files in the order of their names, an exception at the first link.\<close>

fun iter_sources :: "project_entry list \<Rightarrow> exn + (string \<times> bytes) list" where
  "iter_sources [] = Inr []"
| "iter_sources (e # es) =
     (if \<not> source_entry e then iter_sources es
      else if pe_symlink e then Inl (pb_error (''symlink is not allowed in operator source: '' @ entry_name e))
      else (case iter_sources es of Inl x \<Rightarrow> Inl x | Inr fs \<Rightarrow> Inr ((entry_name e, pe_data e) # fs)))"

definition source_files :: "project_entry list \<Rightarrow> exn + (string \<times> bytes) list" where
  "source_files es = iter_sources (sort_key entry_name es)"

definition utf8 :: "string \<Rightarrow> bytes" where
  "utf8 s = map of_char s"

definition pb_sha256 :: "publishing \<Rightarrow> bytes \<Rightarrow> string" where
  "pb_sha256 P b = pb_hex P (pb_digest P b)"

definition source_stream :: "publishing \<Rightarrow> (string \<times> bytes) list \<Rightarrow> bytes" where
  "source_stream P fs = concat (map (\<lambda>(n, b). utf8 n @ [0] @ pb_digest P b @ [0]) fs)"

section \<open>Checks\<close>

definition ident_start :: "char \<Rightarrow> bool" where
  "ident_start c \<longleftrightarrow> c \<in> set ''ABCDEFGHIJKLMNOPQRSTUVWXYZabcdefghijklmnopqrstuvwxyz_''"

definition ident_char :: "char \<Rightarrow> bool" where
  "ident_char c \<longleftrightarrow> ident_start c \<or> c \<in> set ''0123456789''"

text \<open>\<open>module.submodule:function\<close>.\<close>

definition entrypoint_ok :: "string \<Rightarrow> bool" where
  "entrypoint_ok s \<longleftrightarrow>
     (case split_on CHR '':'' s of
        [m, f] \<Rightarrow> m \<noteq> [] \<and> ident_start (hd m) \<and> list_all (\<lambda>c. ident_char c \<or> c = CHR ''.'') (tl m) \<and>
                  f \<noteq> [] \<and> ident_start (hd f) \<and> list_all ident_char (tl f)
      | _ \<Rightarrow> False)"

definition hex_char :: "char \<Rightarrow> bool" where
  "hex_char c \<longleftrightarrow> c \<in> set ''0123456789abcdefABCDEF''"

text \<open>\<open>.+@sha256:[0-9a-fA-F]{64}\<close>.\<close>

definition pinned_image :: "string \<Rightarrow> bool" where
  "pinned_image s \<longleftrightarrow>
     (let hex = last_chars 64 s; r = take (length s - 64) s in
      length s > 72 \<and> list_all hex_char hex \<and> ends_with ''@sha256:'' r \<and> CHR 0x0A \<notin> set r)"

definition names_ok :: "json option \<Rightarrow> bool" where
  "names_ok v \<longleftrightarrow>
     (case v of
        None \<Rightarrow> True
      | Some (JList l) \<Rightarrow> list_all (\<lambda>j. case j of JStr s \<Rightarrow> s \<noteq> [] | _ \<Rightarrow> False) l
      | _ \<Rightarrow> False)"

definition names_of :: "json option \<Rightarrow> string list" where
  "names_of v =
     (case v of Some (JList l) \<Rightarrow> sort (remdups (List.map_filter (\<lambda>j. case j of JStr s \<Rightarrow> Some s | _ \<Rightarrow> None) l)) | _ \<Rightarrow> [])"

definition MAX_ARTIFACT_BYTES :: nat where
  "MAX_ARTIFACT_BYTES = 10 * 1024 * 1024"

section \<open>Publishing\<close>

record publish_request =
  pq_image :: string
  pq_profile :: string
  pq_python :: string
  pq_mutable :: bool

definition operator_spec :: "publishing \<Rightarrow> project_entry list \<Rightarrow> exn + (string, json) dict" where
  "operator_spec P es =
     (case List.find (\<lambda>e. pe_parts e = [''operator.yaml''] \<and> pe_is_file e) es of
        None \<Rightarrow> Inl (pb_error ''operator.yaml is required'')
      | Some e \<Rightarrow>
     (case pb_yaml P (pe_data e) of
        Inl x \<Rightarrow> Inl x
      | Inr j \<Rightarrow>
          (if \<not> truthy j then Inr []
           else (case j of JObj d \<Rightarrow> Inr d | _ \<Rightarrow> Inl (pb_error ''operator.yaml must contain a mapping'')))))"

definition spec_entrypoint :: "publishing \<Rightarrow> (string, json) dict \<Rightarrow> string" where
  "spec_entrypoint P d = (case dict_get_or d ''entrypoint'' (JStr []) of JStr s \<Rightarrow> s | j \<Rightarrow> pb_show P j)"

definition check_spec :: "publishing \<Rightarrow> publish_request \<Rightarrow> (string, json) dict \<Rightarrow> exn + string" where
  "check_spec P q d =
     (let entrypoint = spec_entrypoint P d in
      if \<not> entrypoint_ok entrypoint then Inl (pb_error (''entrypoint must look like '' @ [CHR 0x27] @ ''module.submodule:function'' @ [CHR 0x27]))
      else if \<not> names_ok (dict_get d ''input_attributes'')
      then Inl (pb_error ''input_attributes must be a list of non-empty strings'')
      else if \<not> names_ok (dict_get d ''output_attributes'')
      then Inl (pb_error ''output_attributes must be a list of non-empty strings'')
      else if \<not> pq_mutable q \<and> \<not> pinned_image (pq_image q)
      then Inl (pb_error ''runtime_image must be pinned as repo/image@sha256:<64 hex chars>'')
      else Inr entrypoint)"

definition name_list :: "string list \<Rightarrow> json" where
  "name_list xs = JList (map JStr xs)"

definition runtime_id :: "publishing \<Rightarrow> publish_request \<Rightarrow> string" where
  "runtime_id P q = pb_sha256 P (utf8 (pq_image q))"

definition release_identity ::
  "publishing \<Rightarrow> publish_request \<Rightarrow> string \<Rightarrow> (string, json) dict \<Rightarrow> (string \<times> bytes) list \<Rightarrow> json" where
  "release_identity P q entrypoint d fs =
     JObj [(''abi'', JInt 1), (''runtime_id'', JStr (runtime_id P q)), (''entrypoint'', JStr entrypoint),
       (''profile'', JStr (pq_profile q)), (''input_attributes'', name_list (names_of (dict_get d ''input_attributes''))),
       (''output_attributes'', name_list (names_of (dict_get d ''output_attributes''))),
       (''source'', JStr (pb_sha256 P (source_stream P fs)))]"

definition release_id_of ::
  "publishing \<Rightarrow> publish_request \<Rightarrow> string \<Rightarrow> (string, json) dict \<Rightarrow> (string \<times> bytes) list \<Rightarrow> string" where
  "release_id_of P q entrypoint d fs = pb_sha256 P (pb_canonical P (release_identity P q entrypoint d fs))"

text \<open>The archive: the source files and the compiled manifest as \<open>operator.json\<close>.\<close>

definition archive_files ::
  "publishing \<Rightarrow> publish_request \<Rightarrow> string \<Rightarrow> (string, json) dict \<Rightarrow> (string \<times> bytes) list \<Rightarrow> (string \<times> bytes) list" where
  "archive_files P q entrypoint d fs =
     fs @ [(''operator.json'', pb_canonical P (JObj
       [(''abi'', JInt 1), (''id'', JStr (release_id_of P q entrypoint d fs)), (''entrypoint'', JStr entrypoint),
        (''input_attributes'', name_list (names_of (dict_get d ''input_attributes''))),
        (''output_attributes'', name_list (names_of (dict_get d ''output_attributes'')))]))]"

definition release_manifest ::
  "publishing \<Rightarrow> publish_request \<Rightarrow> string \<Rightarrow> (string, json) dict \<Rightarrow> (string \<times> bytes) list \<Rightarrow> bytes \<Rightarrow> (string, json) dict" where
  "release_manifest P q entrypoint d fs artifact =
     [(''id'', JStr (release_id_of P q entrypoint d fs)), (''artifact_sha256'', JStr (pb_sha256 P artifact)),
      (''runtime'', JObj [(''id'', JStr (runtime_id P q)), (''image'', JStr (pq_image q)), (''python'', JStr (pq_python q))]),
      (''entrypoint'', JStr entrypoint), (''profile'', JStr (pq_profile q)),
      (''input_attributes'', name_list (names_of (dict_get d ''input_attributes''))),
      (''output_attributes'', name_list (names_of (dict_get d ''output_attributes'')))]"

text \<open>Everything before the catalog: the manifest and the artifact to save.\<close>

definition prepare_release :: "publishing \<Rightarrow> publish_request \<Rightarrow> project_entry list \<Rightarrow> exn + (string, json) dict \<times> bytes" where
  "prepare_release P q es =
     (case operator_spec P es of Inl x \<Rightarrow> Inl x | Inr d \<Rightarrow>
     (case check_spec P q d of Inl x \<Rightarrow> Inl x | Inr entrypoint \<Rightarrow>
     (case source_files es of Inl x \<Rightarrow> Inl x | Inr fs \<Rightarrow>
       (let artifact = pb_archive P (archive_files P q entrypoint d fs) in
        if MAX_ARTIFACT_BYTES < length artifact
        then Inl (pb_error ''compressed operator artifact exceeds 10 MiB'')
        else Inr (release_manifest P q entrypoint d fs artifact, artifact)))))"

definition publish_release ::
  "publishing \<Rightarrow> string \<Rightarrow> publish_request \<Rightarrow> project_entry list \<Rightarrow> catalog \<Rightarrow> catalog \<times> (exn + operator_release)" where
  "publish_release P root q es C =
     (case prepare_release P q es of
        Inl x \<Rightarrow> (C, Inl x)
      | Inr (manifest, artifact) \<Rightarrow> catalog_save root C manifest artifact)"

end
