(* ===== verification/Publish_Service.thy ===== *)
theory Publish_Service
  imports Publish_Lifecycle Edge_Bundle Build_Client Publisher
begin

text \<open>
  \<open>PublishService\<close> and \<open>LifecyclePublishService\<close> (\<open>publish_service/service.py\<close>, \<open>lifecycle_service.py\<close>,
  \<open>progress.py\<close>): contracts are saved and compiled for a backend, and a job publishes the variant, a runner
  release into the catalog or a native processor into the bundle of an edge device. The (Chinese) messages
  of the stages are given by their bytes in UTF-8. \<open>now\<close> is the database clock; uuids and the answers of the build
  service are arguments.
\<close>

section \<open>Messages\<close>

definition queued_text :: string where
  "queued_text = utf8_text
     [229, 143, 145, 229, 184, 131, 228, 187, 187, 229, 138, 161, 229, 183, 178, 229, 136, 155, 229, 187,
      186, 239, 188, 140, 231, 173, 137, 229, 190, 133, 229, 144, 142, 229, 143, 176, 32, 87, 111, 114, 107,
      101, 114, 32, 230, 137, 167, 232, 161, 140]"

definition started_text :: string where
  "started_text = utf8_text
     [229, 144, 142, 229, 143, 176, 32, 87, 111, 114, 107, 101, 114, 32, 229, 183, 178, 229, 188, 128, 229,
      167, 139, 230, 137, 167, 232, 161, 140, 229, 143, 145, 229, 184, 131, 228, 187, 187, 229, 138, 161]"

definition reading_text :: string where
  "reading_text = utf8_text
     [230, 173, 163, 229, 156, 168, 232, 175, 187, 229, 143, 150, 32, 82, 117, 110, 110, 101, 114, 32, 231,
      174, 151, 229, 173, 144, 231, 154, 132, 32, 80, 121, 116, 104, 111, 110, 32, 114, 101, 113, 117, 105,
      114, 101, 109, 101, 110, 116, 115]"

definition packing_release_text :: string where
  "packing_release_text = utf8_text
     [82, 117, 110, 110, 101, 114, 32, 82, 117, 110, 116, 105, 109, 101, 32, 229, 183, 178, 229, 176, 177,
      231, 187, 170, 239, 188, 140, 230, 173, 163, 229, 156, 168, 231, 148, 159, 230, 136, 144, 32, 82, 101,
      108, 101, 97, 115, 101, 32, 230, 150, 135, 228, 187, 182]"

definition storing_release_text :: string where
  "storing_release_text = utf8_text
     [230, 173, 163, 229, 156, 168, 229, 134, 153, 229, 133, 165, 32, 82, 117, 110, 110, 101, 114, 32, 82,
      101, 108, 101, 97, 115, 101, 32, 228, 184, 142, 32, 67, 97, 116, 97, 108, 111, 103]"

definition device_lock_text :: string where
  "device_lock_text = utf8_text
     [230, 173, 163, 229, 156, 168, 231, 173, 137, 229, 190, 133, 231, 155, 174, 230, 160, 135, 232, 190,
      185, 231, 171, 175, 230, 156, 186, 229, 153, 168, 231, 154, 132, 229, 143, 145, 229, 184, 131, 233,
      148, 129]"

definition reuse_check_text :: string where
  "reuse_check_text = utf8_text
     [229, 183, 178, 232, 142, 183, 229, 143, 150, 232, 190, 185, 231, 171, 175, 229, 143, 145, 229, 184,
      131, 233, 148, 129, 239, 188, 140, 230, 173, 163, 229, 156, 168, 230, 163, 128, 230, 159, 165, 231,
      142, 176, 230, 156, 137, 32, 66, 117, 110, 100, 108, 101, 32, 230, 152, 175, 229, 144, 166, 229, 143,
      175, 228, 187, 165, 231, 155, 180, 230, 142, 165, 229, 164, 141, 231, 148, 168]"

definition unchanged_text :: string where
  "unchanged_text = utf8_text
     [229, 143, 145, 229, 184, 131, 229, 134, 133, 229, 174, 185, 230, 156, 170, 229, 143, 152, 229, 140,
      150, 239, 188, 140, 230, 173, 163, 229, 156, 168, 230, 160, 161, 233, 170, 140, 229, 183, 178, 230,
      156, 137, 32, 69, 100, 103, 101, 32, 66, 117, 110, 100, 108, 101, 32, 229, 174, 140, 230, 149, 180,
      230, 128, 167]"

definition reused_text :: string where
  "reused_text = utf8_text
     [229, 183, 178, 230, 156, 137, 32, 66, 117, 110, 100, 108, 101, 32, 230, 160, 161, 233, 170, 140, 233,
      128, 154, 232, 191, 135, 239, 188, 140, 231, 155, 180, 230, 142, 165, 229, 164, 141, 231, 148, 168,
      231, 142, 176, 230, 156, 137, 229, 143, 145, 229, 184, 131, 228, 186, 167, 231, 137, 169]"

definition packing_processor_text :: string where
  "packing_processor_text = utf8_text
     [231, 142, 176, 230, 156, 137, 32, 66, 117, 110, 100, 108, 101, 32, 230, 151, 160, 230, 179, 149, 229,
      164, 141, 231, 148, 168, 239, 188, 140, 230, 173, 163, 229, 156, 168, 231, 148, 159, 230, 136, 144, 32,
      78, 105, 70, 105, 32, 78, 97, 116, 105, 118, 101, 32, 80, 114, 111, 99, 101, 115, 115, 111, 114, 32,
      229, 140, 133]"

definition shared_text :: string where
  "shared_text = utf8_text
     [230, 173, 163, 229, 156, 168, 232, 167, 163, 230, 158, 144, 232, 175, 165, 232, 190, 185, 231, 171,
      175, 230, 156, 186, 229, 153, 168, 229, 174, 140, 230, 149, 180, 231, 142, 175, 229, 162, 131, 231,
      154, 132, 229, 133, 177, 228, 186, 171, 32, 80, 121, 116, 104, 111, 110, 32, 228, 190, 157, 232, 181,
      150]"

definition building_bundle_text :: string where
  "building_bundle_text = utf8_text
     [228, 190, 157, 232, 181, 150, 232, 167, 163, 230, 158, 144, 229, 174, 140, 230, 136, 144, 239, 188,
      140, 230, 173, 163, 229, 156, 168, 231, 148, 159, 230, 136, 144, 229, 174, 140, 230, 149, 180, 32, 69,
      100, 103, 101, 32, 66, 117, 110, 100, 108, 101]"

definition storing_bundle_text :: string where
  "storing_bundle_text = utf8_text
     [230, 173, 163, 229, 156, 168, 228, 191, 157, 229, 173, 152, 32, 69, 100, 103, 101, 32, 66, 117, 110,
      100, 108, 101, 227, 128, 129, 233, 131, 168, 231, 189, 178, 230, 136, 144, 229, 145, 152, 229, 146,
      140, 229, 143, 145, 229, 184, 131, 231, 187, 147, 230, 158, 156]"

definition arranging_text :: string where
  "arranging_text = utf8_text
     [230, 173, 163, 229, 156, 168, 230, 149, 180, 231, 144, 134, 230, 156, 172, 230, 172, 161, 32, 69, 100,
      103, 101, 32, 66, 117, 110, 100, 108, 101, 32, 228, 184, 173, 231, 154, 132, 32, 78, 97, 116, 105, 118,
      101, 32, 80, 114, 111, 99, 101, 115, 115, 111, 114]"

definition downloading_text :: string where
  "downloading_text = utf8_text
     [230, 173, 163, 229, 156, 168, 228, 184, 139, 232, 189, 189, 229, 185, 182, 231, 137, 169, 229, 140,
      150, 231, 155, 174, 230, 160, 135, 229, 185, 179, 229, 143, 176, 32, 80, 121, 116, 104, 111, 110, 32,
      228, 190, 157, 232, 181, 150]"

definition compressing_text :: string where
  "compressing_text = utf8_text
     [230, 173, 163, 229, 156, 168, 229, 142, 139, 231, 188, 169, 32, 69, 100, 103, 101, 32, 66, 117, 110,
      100, 108, 101]"

definition digests_text :: string where
  "digests_text = utf8_text
     [230, 173, 163, 229, 156, 168, 232, 174, 161, 231, 174, 151, 32, 69, 100, 103, 101, 32, 66, 117, 110,
      100, 108, 101, 32, 230, 160, 161, 233, 170, 140, 229, 128, 188]"

section \<open>Parameters and state\<close>

record 'e publish_env =
  sx_source :: "'e source_env"
  sx_postgres :: postgres
  sx_source_root :: path
  sx_max_source :: nat
  sx_copy :: "workspace_entry list \<Rightarrow> 'e workspace"
  sx_profile :: string
  sx_native :: native_env
  sx_publishing :: publishing
  sx_texts :: release_texts
  sx_catalog_root :: string
  sx_package :: package_env
  sx_bundle :: bundle_env
  sx_resolver :: resolver
  sx_native_root :: path
  sx_bundle_root :: path
  sx_dumps :: "json \<Rightarrow> string"
  sx_utc :: "nat \<Rightarrow> string"

record 'e publish_state =
  xs_db :: publish_db
  xs_trees :: "'e source_trees"
  xs_catalog :: catalog
  xs_disk :: disk

abbreviation sx_authoring :: "'e publish_env \<Rightarrow> authoring" where
  "sx_authoring V \<equiv> sv_authoring (sx_source V)"

abbreviation sx_show :: "'e publish_env \<Rightarrow> json \<Rightarrow> string" where
  "sx_show V \<equiv> ne_show (sx_native V)"

definition scan_tree :: "'e publish_env \<Rightarrow> 'e workspace \<Rightarrow> string \<Rightarrow> exn + project_catalog" where
  "scan_tree V = scan_project (sv_scanner (sx_source V)) (sv_hashing (sx_source V))"

section \<open>Saving a contract\<close>

text \<open>The tree a reference names. A reference the service wrote never names the directory of all trees.\<close>

definition stored_source :: "'e publish_env \<Rightarrow> 'e source_trees \<Rightarrow> string \<Rightarrow> exn + 'e workspace" where
  "stored_source V trees ref =
     and_then (resolve_source (sx_source_root V) trees ref) (\<lambda>p.
       case tree_at (sx_source_root V) trees p of
         None \<Rightarrow> Inl (source_store_error (''source snapshot not found: '' @ ref))
       | Some T \<Rightarrow> Inr T)"

record created_contract =
  cd_created :: bool
  cd_operator :: operator_row
  cd_contract :: contract_row
  cd_parent :: operator_contract
  cd_plan :: execution_plan

text \<open>The draft is checked against the workspace as it is.\<close>

definition check_draft :: "'e publish_env \<Rightarrow> contract_selection \<Rightarrow> exn + 'e workspace" where
  "check_draft V s =
     and_then (find_workspace (sv_workspace_root (sx_source V)) (sv_workspaces (sx_source V)) (se_workspace s)) (\<lambda>W.
     and_then (scan_tree V W (se_python_root s)) (\<lambda>P.
       if pc_revision P \<noteq> se_revision s
       then Inl (publish_error (''SOURCE_CHANGED: workspace changed after Analyze; '' @
              ''analyze again before saving the contract''))
       else and_then (selection_to_virtual_contract s None) (\<lambda>draft.
            and_then (compile_virtual_contract (sx_authoring V) P draft) (\<lambda>_. Inr W))))"

text \<open>Then the contract is compiled against the stored tree and saved.\<close>

definition save_compiled ::
  "'e publish_env \<Rightarrow> int \<Rightarrow> string \<Rightarrow> string \<Rightarrow> contract_selection \<Rightarrow> string \<Rightarrow> string \<Rightarrow> 'e publish_state
     \<Rightarrow> exn + publish_db \<times> created_contract" where
  "save_compiled V now operator_id contract_id s ref user st =
     and_then (stored_source V (xs_trees st) ref) (\<lambda>T.
     and_then (scan_tree V T (se_python_root s)) (\<lambda>P.
     and_then (selection_to_virtual_contract s (Some ref)) (\<lambda>parent.
     and_then (compile_virtual_contract (sx_authoring V) P parent) (\<lambda>plan.
     and_then (save_virtual_contract (sx_authoring V) (sx_postgres V) now operator_id contract_id (se_workspace s)
                 parent user (xs_db st)) (\<lambda>(db, operator, row, created).
       Inr (db, \<lparr>cd_created = created, cd_operator = operator, cd_contract = row, cd_parent = parent, cd_plan = plan\<rparr>))))))"

definition create_virtual_contract ::
  "'e publish_env \<Rightarrow> int \<Rightarrow> string \<Rightarrow> string \<Rightarrow> 'e replace_outcome \<Rightarrow> contract_selection \<Rightarrow> string \<Rightarrow> 'e publish_state
     \<Rightarrow> 'e publish_state \<times> (exn + created_contract)" where
  "create_virtual_contract V now operator_id contract_id moved s user st =
     (case check_draft V s of
        Inl e \<Rightarrow> (st, Inl e)
      | Inr W \<Rightarrow>
     (case put_workspace (sv_hashing (sx_source V)) (sx_max_source V) W (se_revision s) (sx_copy V) moved (xs_trees st) of
        (trees, Inl e) \<Rightarrow> (st\<lparr>xs_trees := trees\<rparr>, Inl e)
      | (trees, Inr ref) \<Rightarrow>
          (let st1 = st\<lparr>xs_trees := trees\<rparr> in
           case save_compiled V now operator_id contract_id s ref user st1 of
             Inl e \<Rightarrow> (st1, Inl e)
           | Inr (db, created) \<Rightarrow> (st1\<lparr>xs_db := db\<rparr>, Inr created))))"

section \<open>What a user sees\<close>

record operator_view =
  vw_operator :: operator_row
  vw_contract :: contract_row
  vw_variants :: "variant_row list"

definition view_operator :: "string \<Rightarrow> string \<Rightarrow> publish_db \<Rightarrow> exn + operator_view" where
  "view_operator i user db =
     (case get_operator i user db of
        None \<Rightarrow> Inl (publish_error ''operator not found'')
      | Some r \<Rightarrow>
     (case get_latest_contract i user db of
        None \<Rightarrow> Inl (publish_error ''operator has no contract versions'')
      | Some c \<Rightarrow> Inr \<lparr>vw_operator = r, vw_contract = c, vw_variants = list_variants (cv_id c) db\<rparr>))"

definition operator_list :: "postgres \<Rightarrow> string \<Rightarrow> string \<Rightarrow> publish_db \<Rightarrow> exn + listed_operator list" where
  "operator_list G run_type user db =
     (if run_type \<noteq> ''runner'' \<and> run_type \<noteq> ''edge'' then Inl (publish_error ''run_type not defined'')
      else if user = [] then Inl (publish_error ''authenticated user_id is required'')
      else Inr (get_operator_list G run_type user db))"

record job_view =
  jv_job :: publish_job
  jv_backend :: string
  jv_operator :: string
  jv_progress :: "json option"
  jv_result :: "json option"

text \<open>A stored result is progress while the job is active and the result when it is ready.\<close>

definition view_publish_job :: "string \<Rightarrow> string \<Rightarrow> publish_db \<Rightarrow> exn + job_view" where
  "view_publish_job i user db =
     (case get_publish_job i user db of
        None \<Rightarrow> Inl (publish_error ''publish job not found'')
      | Some (j, v, operator) \<Rightarrow>
          (let stored = (case pj_result j of Some (JObj d) \<Rightarrow> Some d | _ \<Rightarrow> None);
               candidate = (case stored of None \<Rightarrow> None | Some d \<Rightarrow> dict_get d ''_progress'') in
           Inr \<lparr>jv_job = j, jv_backend = vr_backend v, jv_operator = operator,
                jv_progress = (if active_publish_job j then (case candidate of Some (JObj p) \<Rightarrow> Some (JObj p) | _ \<Rightarrow> None) else None),
                jv_result = (if pj_status j = JobReady then map_option JObj stored else None)\<rparr>))"

definition edge_bundle_file :: "'e publish_env \<Rightarrow> string \<Rightarrow> string \<Rightarrow> 'e publish_state \<Rightarrow> exn + path" where
  "edge_bundle_file V i user st =
     (case get_edge_bundle user i (xs_db st) of
        None \<Rightarrow> Inl (publish_error ''edge bundle not found'')
      | Some b \<Rightarrow> bundle_path_from_row (sx_authoring V) (sx_bundle_root V) b (xs_disk st))"

section \<open>Compiling for a backend\<close>

datatype backend_child = RunnerChild runner_contract | NativeChild native_contract

fun child_json :: "backend_child \<Rightarrow> json" where
  "child_json (RunnerChild k) = runner_contract_json k"
| "child_json (NativeChild k) = native_contract_json k"

fun child_key :: "backend_child \<Rightarrow> string" where
  "child_key (RunnerChild k) = kb_variant_key k"
| "child_key (NativeChild k) = kb_variant_key k"

text \<open>The id, version and digest of the contract a backend contract was made of.\<close>

fun child_parent :: "backend_child \<Rightarrow> string \<times> nat \<times> string" where
  "child_parent (RunnerChild k) = (kb_parent_id k, kb_parent_version k, kb_parent_sha256 k)"
| "child_parent (NativeChild k) = (kb_parent_id k, kb_parent_version k, kb_parent_sha256 k)"

record 'e loaded =
  ld_row :: contract_row
  ld_parent :: operator_contract
  ld_plan :: execution_plan
  ld_tree :: "'e workspace"

definition load_current_parent :: "'e publish_env \<Rightarrow> string \<Rightarrow> string \<Rightarrow> 'e publish_state \<Rightarrow> exn + 'e loaded" where
  "load_current_parent V operator user st =
     (case get_latest_contract operator user (xs_db st) of
        None \<Rightarrow> Inl (publish_error ''operator or contract not found'')
      | Some row \<Rightarrow>
          and_then (read_contract (cv_contract row)) (\<lambda>parent.
            if missing_text (oc_source_ref parent) then Inl (publish_error ''virtual contract has no immutable source_ref'')
            else and_then (stored_source V (xs_trees st) (get_or [] (oc_source_ref parent))) (\<lambda>T.
                 and_then (scan_tree V T (oc_python_path parent)) (\<lambda>P.
                 and_then (compile_virtual_contract (sx_authoring V) P parent) (\<lambda>plan.
                   Inr \<lparr>ld_row = row, ld_parent = parent, ld_plan = plan, ld_tree = T\<rparr>)))))"

definition requirements_text :: "'e workspace \<Rightarrow> string option" where
  "requirements_text T =
     map_option (\<lambda>e. map (\<lambda>b. char_of (unat b)) (we_bytes e)) (List.find (\<lambda>e. we_parts e = [''requirements.txt''] \<and> we_file e) (wk_entries T))"

text \<open>The backend contract, the options of the variant and the version of the compiler.\<close>

definition compile_child ::
  "'e publish_env \<Rightarrow> 'e loaded \<Rightarrow> string \<Rightarrow> options \<Rightarrow> exn + backend_child \<times> json \<times> string" where
  "compile_child V l backend options =
     (let i = cv_id (ld_row l); version = cv_version (ld_row l) in
      if backend = ''runner''
      then (let profile = str_of (sx_show V) (dict_get_or options ''profile'' (JStr (sx_profile V)));
                chosen = [(''profile'', JStr profile)] in
            Inr (RunnerChild (compile_runner_contract (sx_authoring V) (sx_show V) i version (ld_parent l) (ld_plan l) chosen),
                 JObj chosen, RUNNER_COMPILER))
      else if backend = ''nifi_native''
      then and_then (compile_nifi_native_contract (sx_authoring V) (sx_native V) i version (ld_parent l) (ld_plan l)
                       (requirements_text (ld_tree l)) options) (\<lambda>k.
             Inr (NativeChild k, kb_options k, NATIVE_COMPILER))
      else Inl (publish_error (''unsupported backend: '' @ backend)))"

record 'e compilation =
  cn_variant :: variant_row
  cn_child :: backend_child
  cn_plan :: execution_plan
  cn_tree :: "'e workspace"

definition compile_variant ::
  "'e publish_env \<Rightarrow> int \<Rightarrow> string \<Rightarrow> string \<Rightarrow> string \<Rightarrow> options \<Rightarrow> string \<Rightarrow> 'e publish_state
     \<Rightarrow> exn + publish_db \<times> 'e compilation" where
  "compile_variant V now variant_id operator backend options user st =
     and_then (load_current_parent V operator user st) (\<lambda>l.
     and_then (compile_child V l backend options) (\<lambda>(child, chosen, compiler).
     and_then (upsert_variant (sx_postgres V) now
         \<lparr>nv_id = variant_id, nv_contract = cv_id (ld_row l), nv_backend = backend, nv_compiler = compiler,
          nv_key = child_key child, nv_options = chosen,
          nv_sha256 = backend_contract_sha256 (sx_authoring V) (child_json child), nv_backend_contract = child_json child\<rparr>
         (xs_db st)) (\<lambda>(db, variant).
       Inr (db, \<lparr>cn_variant = variant, cn_child = child, cn_plan = ld_plan l, cn_tree = ld_tree l\<rparr>))))"

definition compile_backend ::
  "'e publish_env \<Rightarrow> int \<Rightarrow> string \<Rightarrow> string \<Rightarrow> string \<Rightarrow> options \<Rightarrow> string \<Rightarrow> 'e publish_state
     \<Rightarrow> 'e publish_state \<times> (exn + variant_row \<times> string \<times> nat \<times> string)" where
  "compile_backend V now variant_id operator backend options user st =
     (case compile_variant V now variant_id operator backend options user st of
        Inl e \<Rightarrow> (st, Inl e)
      | Inr (db, c) \<Rightarrow> (st\<lparr>xs_db := db\<rparr>, Inr (cn_variant c, child_parent (cn_child c))))"

section \<open>Progress\<close>

text \<open>What a job works on: the shared state but the sources, and the reporter's counter and event.\<close>

record job_world =
  jw_db :: publish_db
  jw_catalog :: catalog
  jw_disk :: disk
  jw_seq :: nat
  jw_event :: "(string, json) dict option"

definition put_event :: "postgres \<Rightarrow> string \<Rightarrow> (string, json) dict \<Rightarrow> job_world \<Rightarrow> job_world" where
  "put_event G job event w =
     w\<lparr>jw_db := update_job_progress G job (JObj event) (jw_db w), jw_seq := jw_seq w + 1, jw_event := Some event\<rparr>"

definition emit ::
  "'e publish_env \<Rightarrow> string \<Rightarrow> string \<Rightarrow> string \<Rightarrow> string \<Rightarrow> string \<Rightarrow> json option \<Rightarrow> job_world \<Rightarrow> job_world" where
  "emit V job backend status stage message detail w =
     (let seq = jw_seq w + 1; now = JStr (sx_utc V seq);
          shown = (case detail of Some d \<Rightarrow> if truthy d then d else JObj [] | None \<Rightarrow> JObj []) in
      put_event (sx_postgres V) job
        [(''seq'', JInt (int seq)), (''eventType'', JStr ''progress''), (''jobId'', JStr job), (''backend'', JStr backend),
         (''status'', JStr status), (''stage'', JStr stage), (''message'', JStr message), (''progress'', JNull),
         (''detail'', shown), (''timestamp'', now), (''stageStartedAt'', now), (''heartbeatAt'', now)] w)"

definition touch_heartbeat :: "'e publish_env \<Rightarrow> string \<Rightarrow> job_world \<Rightarrow> job_world" where
  "touch_heartbeat V job w =
     (case jw_event w of
        None \<Rightarrow> w
      | Some event \<Rightarrow>
          (let seq = jw_seq w + 1 in
           put_event (sx_postgres V) job
             (dict_set ''heartbeatAt'' (JStr (sx_utc V seq)) (dict_set ''eventType'' (JStr ''heartbeat'')
               (dict_set ''seq'' (JInt (int seq)) event))) w))"

section \<open>Starting a job\<close>

record 'e publish_task =
  tk_operator :: string
  tk_backend :: string
  tk_job :: string
  tk_variant :: string
  tk_child :: backend_child
  tk_plan :: execution_plan
  tk_tree :: "'e workspace"
  tk_user :: string
  tk_force :: bool

definition job_world_of :: "'e publish_state \<Rightarrow> publish_db \<Rightarrow> job_world" where
  "job_world_of st db = \<lparr>jw_db = db, jw_catalog = xs_catalog st, jw_disk = xs_disk st, jw_seq = 0, jw_event = None\<rparr>"

text \<open>\<open>submitted\<close> is what the executor raises when it takes no more jobs.\<close>

definition publish_backend ::
  "'e publish_env \<Rightarrow> int \<Rightarrow> string \<Rightarrow> string \<Rightarrow> exn option \<Rightarrow> string \<Rightarrow> string \<Rightarrow> options \<Rightarrow> string \<Rightarrow> 'e publish_state
     \<Rightarrow> 'e publish_state \<times> (exn + 'e publish_task)" where
  "publish_backend V now variant_id job_id submitted operator backend options user st =
     (case compile_variant V now variant_id operator backend options user st of
        Inl e \<Rightarrow> (st, Inl e)
      | Inr (db1, c) \<Rightarrow>
     (case create_publish_job now job_id (vr_id (cn_variant c)) db1 of
        Inl e \<Rightarrow> (st\<lparr>xs_db := db1\<rparr>, Inl e)
      | Inr (db2, job) \<Rightarrow>
          (let w = emit V job_id backend ''PENDING'' ''QUEUED'' queued_text None (job_world_of st db2) in
           case submitted of
             Some e \<Rightarrow> (st\<lparr>xs_db := mark_job_failed now job_id (vr_id (cn_variant c)) (exn_text e) (jw_db w)\<rparr>, Inl e)
           | None \<Rightarrow> (st\<lparr>xs_db := jw_db w\<rparr>,
                      Inr \<lparr>tk_operator = operator, tk_backend = backend, tk_job = job_id, tk_variant = vr_id (cn_variant c),
                           tk_child = cn_child c, tk_plan = cn_plan c, tk_tree = cn_tree c, tk_user = user,
                           tk_force = (dict_get options ''forceRebuild'' = Some (JBool True))\<rparr>))))"

text \<open>\<open>progress.emit\<close> of a running job.\<close>

definition say :: "'e publish_env \<Rightarrow> 'e publish_task \<Rightarrow> string \<Rightarrow> string \<Rightarrow> json option \<Rightarrow> job_world \<Rightarrow> job_world" where
  "say V t = emit V (tk_job t) (tk_backend t) ''RUNNING''"

section \<open>Publishing a runner release\<close>

text \<open>\<open>str\<close> in an f-string.\<close>

definition shown :: "'e publish_env \<Rightarrow> json \<Rightarrow> string" where
  "shown V j = str_of (sx_show V) j"

text \<open>The runtime the build service answered must be ready: its key and its image.\<close>

definition ready_runtime :: "'e publish_env \<Rightarrow> json \<Rightarrow> exn + string \<times> string" where
  "ready_runtime V runtime =
     (let field = get_field runtime; key = (if truthy (field ''runtimeEnvKey'') then field ''runtimeEnvKey'' else field ''envKey'') in
      if \<not> is_obj runtime then Inl attribute_error
      else if \<not> truthy (field ''found'') then Inl (publish_error ''Build Service did not return a runtime environment'')
      else if field ''status'' = JStr ''FAILED''
      then Inl (publish_error (''RUNTIME_BUILD_FAILED env_key='' @ shown V (field ''envKey'') @ '': '' @ shown V (field ''error'')))
      else if field ''status'' \<noteq> JStr ''READY'' \<or> \<not> truthy (field ''image'')
      then Inl (publish_error (''RUNTIME_NOT_READY env_key='' @ shown V (field ''envKey'') @ '' status='' @ shown V (field ''status'')))
      else if \<not> truthy key then Inl (publish_error ''Build Service did not return runtimeEnvKey/envKey'')
      else Inr (shown V key, shown V (field ''image'')))"

text \<open>The project the publisher gets: the release files and the sources below \<open>runtime\<close>.\<close>

definition file_entry :: "path \<Rightarrow> bytes \<Rightarrow> project_entry" where
  "file_entry p b = \<lparr>pe_parts = p, pe_is_file = True, pe_symlink = False, pe_data = b\<rparr>"

definition release_project :: "'e publish_env \<Rightarrow> runner_contract \<Rightarrow> execution_plan \<Rightarrow> 'e workspace \<Rightarrow> project_entry list" where
  "release_project V k plan T =
     map (\<lambda>e. file_entry (''runtime'' # we_parts e) (we_bytes e)) (filter we_file (wk_entries T)) @
     map (\<lambda>(n, text). file_entry [n] (map of_char text)) (write_runner_release_files (sx_authoring V) (sx_texts V) k plan)"

definition runner_result :: "json \<Rightarrow> string \<Rightarrow> runner_contract \<Rightarrow> operator_release \<Rightarrow> json" where
  "runner_result runtime img k rel =
     JObj [(''releaseId'', JStr (rel_id rel)), (''runtimeImage'', JStr img),
       (''environmentId'', get_field runtime ''environmentId''), (''envKey'', get_field runtime ''envKey''),
       (''runtimeEnvKey'', get_field runtime ''runtimeEnvKey''), (''resolutionKind'', get_field runtime ''resolutionKind''),
       (''processorDefinition'', JObj
         [(''processorType'', JStr ''ManagedPythonTransform''), (''inputAttributes'', strings_json (rm_inputs (kr_manifest k))),
          (''outputAttributes'', strings_json (rm_outputs (kr_manifest k))),
          (''parameters'', JList (map runner_parameter_json (kr_parameters k)))])]"

text \<open>A failed job is told why: the detail of a dependency conflict, or an exception.\<close>

datatype job_failure = Conflict json | Raised exn

text \<open>The release is packed from a temporary copy and saved in the catalog.\<close>

definition release_request :: "string \<Rightarrow> runner_contract \<Rightarrow> publish_request" where
  "release_request img k = \<lparr>pq_image = img, pq_profile = kr_profile k, pq_python = ''3.12'', pq_mutable = False\<rparr>"

text \<open>What is done while the lock of the runtime is held; gates cannot change in between.\<close>

definition publish_guarded ::
  "'e publish_env \<Rightarrow> int \<Rightarrow> 'e publish_task \<Rightarrow> runner_contract \<Rightarrow> json \<Rightarrow> string \<Rightarrow> string \<Rightarrow> job_world
     \<Rightarrow> job_world \<times> (job_failure + json \<times> string)" where
  "publish_guarded V now t k runtime key img w =
     (case assert_active key img (jw_db w) of
        Inl (PyError c m) \<Rightarrow> (w, Inl (Raised (publish_error (''RUNTIME_RETIRING: '' @ m))))
      | Inl e \<Rightarrow> (w, Inl (Raised e))
      | Inr _ \<Rightarrow>
          (let w1 = say V t ''BUILDING_PACKAGE'' packing_release_text
                 (Some (JObj [(''envKey'', get_field runtime ''envKey''), (''runtimeEnvKey'', get_field runtime ''runtimeEnvKey'')])) w;
               w2 = say V t ''PERSISTING'' storing_release_text None w1 in
           case publish_release (sx_publishing V) (sx_catalog_root V) (release_request img k)
                  (release_project V k (tk_plan t) (tk_tree t)) (jw_catalog w2) of
             (C, Inl e) \<Rightarrow> (w2\<lparr>jw_catalog := C\<rparr>, Inl (Raised e))
           | (C, Inr rel) \<Rightarrow>
               (let w3 = w2\<lparr>jw_catalog := C\<rparr> in
                case assert_active key img (jw_db w3) of
                  Inl e \<Rightarrow> (w3, Inl (Raised e))
                | Inr _ \<Rightarrow>
                    (let result = runner_result runtime img k rel; ref = ''runner-release:'' @ rel_id rel in
                     (w3\<lparr>jw_db := mark_job_ready (sx_postgres V) now (tk_job t) (tk_variant t) ref result (jw_db w3)\<rparr>,
                      Inr (result, ref))))))"

text \<open>\<open>builds\<close> is what the client of the build service answers for requirements.\<close>

fun emit_calls :: "'e publish_env \<Rightarrow> 'e publish_task \<Rightarrow> progress_call list \<Rightarrow> job_world \<Rightarrow> job_world" where
  "emit_calls V t [] w = w"
| "emit_calls V t ((stage, message, detail) # calls) w = emit_calls V t calls (say V t stage message detail w)"

definition publish_runner ::
  "'e publish_env \<Rightarrow> (string list \<Rightarrow> progress_call list \<times> (exn + json)) \<Rightarrow> int \<Rightarrow> 'e publish_task \<Rightarrow> runner_contract \<Rightarrow> job_world
     \<Rightarrow> job_world \<times> (job_failure + json \<times> string)" where
  "publish_runner V builds now t k w =
     (let w1 = say V t ''READING_REQUIREMENTS'' reading_text None w in
      case read_requirements (requirements_text (tk_tree t)) of
        Inl e \<Rightarrow> (w1, Inl (Raised e))
      | Inr requirements \<Rightarrow>
     (case builds requirements of
        (calls, Inl e) \<Rightarrow> (emit_calls V t calls w1, Inl (Raised e))
      | (calls, Inr runtime) \<Rightarrow>
          (let w2 = emit_calls V t calls w1 in
           case ready_runtime V runtime of
             Inl e \<Rightarrow> (w2, Inl (Raised e))
           | Inr (key, img) \<Rightarrow>
               if key = [] then (w2, Inl (Raised (value_error ''runtime_env_key is required'')))
               else publish_guarded V now t k runtime key img w2)))"

section \<open>Publishing a native processor\<close>

definition native_device :: "string \<Rightarrow> native_contract \<Rightarrow> edge_device" where
  "native_device user k =
     \<lparr>ed_user = user, ed_os = nt_os (kn_target k), ed_arch = nt_arch (kn_target k), ed_python = nt_python (kn_target k),
      ed_token = Some (ei_token (kn_identity k)), ed_edge = Some (ei_edge (kn_identity k))\<rparr>"

definition deployed_member :: "deployment_row \<Rightarrow> edge_member" where
  "deployed_member r =
     \<lparr>em_operator = dp_operator r, em_variant = dp_variant r, em_package = dp_package r, em_artifact = dp_artifact r,
      em_requirements = dp_requirements r\<rparr>"

definition bundled_member :: "member_row \<Rightarrow> edge_member" where
  "bundled_member r =
     \<lparr>em_operator = mb_operator r, em_variant = mb_variant r, em_package = mb_package r, em_artifact = mb_artifact r,
      em_requirements = mb_requirements r\<rparr>"

text \<open>The processor to publish, without its artifact.\<close>

definition candidate :: "'e publish_task \<Rightarrow> native_contract \<Rightarrow> edge_member" where
  "candidate t k =
     \<lparr>em_operator = tk_operator t, em_variant = tk_variant t, em_package = kn_package k, em_artifact = [],
      em_requirements = kn_requirements k\<rparr>"

definition other_members :: "'e publish_task \<Rightarrow> deployment_row list \<Rightarrow> edge_member list" where
  "other_members t rows = map deployed_member (filter (\<lambda>r. dp_operator r \<noteq> tk_operator t) rows)"

definition path_text :: "path \<Rightarrow> string" where
  "path_text p = ''/'' @ join_with ''/'' p"

record bundle_facts =
  bx_id :: string
  bx_revision :: nat
  bx_file :: path
  bx_ref :: string
  bx_sha256 :: string
  bx_md5 :: string
  bx_lock_sha256 :: string
  bx_packages :: json
  bx_processors :: nat

definition DEPLOYMENT_HINT :: string where
  "DEPLOYMENT_HINT = ''Deploy this full edge bundle atomically. It contains the shared '' @
     ''target-platform dependency layer and every currently active '' @
     ''NiFi Native processor for this user, target, and edge device.''"

definition native_publish_result :: "native_contract \<Rightarrow> string \<Rightarrow> bundle_facts \<Rightarrow> bool \<Rightarrow> json" where
  "native_publish_result k artifact b reused =
     JObj [(''packageName'', JStr (kn_package k)), (''className'', JStr (kn_class k)),
       (''processorType'', JStr ''FlowFileTransform''), (''artifactFile'', JStr artifact),
       (''deploymentRequired'', JBool True), (''deploymentMode'', JStr ''edge_shared_environment''),
       (''edgeIdentity'', identity_json (kn_identity k)), (''targetPlatform'', platform_json (kn_target k)),
       (''edgeBundle'', JObj
         [(''bundleId'', JStr (bx_id b)), (''revision'', JInt (int (bx_revision b))),
          (''artifactFile'', JStr (path_text (bx_file b))), (''artifactRef'', JStr (bx_ref b)),
          (''artifactSha256'', JStr (bx_sha256 b)), (''artifactMd5'', JStr (bx_md5 b)),
          (''dependencyLockSha256'', JStr (bx_lock_sha256 b)), (''dependencyPackageCount'', bx_packages b),
          (''processorCount'', JInt (int (bx_processors b)))]),
       (''reusedExistingBundle'', JBool reused),
       (''deploymentHint'', JStr DEPLOYMENT_HINT)]"

definition dependency_conflict :: "'e publish_task \<Rightarrow> native_contract \<Rightarrow> edge_member list \<Rightarrow> string \<Rightarrow> string \<Rightarrow> string \<Rightarrow> json" where
  "dependency_conflict t k members m stderr stdout =
     JObj [(''code'', JStr ''EDGE_DEPENDENCY_CONFLICT''),
       (''message'', JStr (''The new NiFi Native operator cannot share one dependency '' @
         ''environment with the operators already published to this edge target.'')),
       (''edgeIdentity'', identity_json (kn_identity k)), (''targetPlatform'', platform_json (kn_target k)),
       (''candidate'', JObj [(''operatorId'', JStr (tk_operator t)), (''packageName'', JStr (kn_package k)),
         (''requirements'', strings_json (kn_requirements k))]),
       (''environmentMembers'', JList (map (\<lambda>i. JObj [(''operatorId'', JStr (em_operator i)),
           (''packageName'', JStr (em_package i)), (''requirements'', strings_json (em_requirements i))])
         (filter (\<lambda>i. em_operator i \<noteq> tk_operator t) members))),
       (''resolverError'', JStr (if stderr \<noteq> [] then stderr else if stdout \<noteq> [] then stdout else m))]"

definition edge_job_failure :: "'e publish_task \<Rightarrow> native_contract \<Rightarrow> edge_member list \<Rightarrow> edge_failure \<Rightarrow> job_failure" where
  "edge_job_failure t k members f =
     (case f of ResolutionError m stderr stdout \<Rightarrow> Conflict (dependency_conflict t k members m stderr stdout)
              | OtherFailure e \<Rightarrow> Raised e)"

text \<open>The newest bundle of the device can be reused when it was made of exactly these members.\<close>

definition reusable_bundle ::
  "'e publish_task \<Rightarrow> native_contract \<Rightarrow> deployment_row list \<Rightarrow> publish_db \<Rightarrow> (deployment_row \<times> bundle_row \<times> member_row list) option" where
  "reusable_bundle t k rows db =
     (if tk_force t then None
      else (case List.find (\<lambda>r. dp_operator r = tk_operator t) rows of
              None \<Rightarrow> None
            | Some current \<Rightarrow>
           (case get_latest_edge_bundle (native_device (tk_user t) k) db of
              None \<Rightarrow> None
            | Some b \<Rightarrow>
                (let members = list_edge_bundle_members (bn_id b) db in
                 if bn_platform b = nt_platform (kn_target k) \<and> same_edge_members [candidate t k] [deployed_member current] \<and>
                    same_edge_members (other_members t rows @ [candidate t k]) (map bundled_member members)
                 then Some (current, b, members) else None))))"

text \<open>It is used when its file and the processor's archive are there and the file has the stored digest.\<close>

definition reused_result ::
  "'e publish_env \<Rightarrow> 'e publish_task \<Rightarrow> native_contract \<Rightarrow> deployment_row \<Rightarrow> bundle_row \<Rightarrow> member_row list \<Rightarrow> disk \<Rightarrow> json option" where
  "reused_result V t k current b members d =
     (case bundle_path_from_row (sx_authoring V) (sx_bundle_root V) b d of
        Inl _ \<Rightarrow> None
      | Inr p \<Rightarrow>
          (let data = get_or [] (dict_get (dk_files d) p); sha = bf_sha256 (sx_bundle V) data in
           if dict_get (dk_files d) (artifact_at (dp_artifact current)) \<noteq> None \<and> sha = bn_sha256 b
           then Some (native_publish_result k (dp_artifact current)
             \<lparr>bx_id = bn_id b, bx_revision = bn_revision b, bx_file = p, bx_ref = bn_ref b, bx_sha256 = sha,
              bx_md5 = bf_md5 (sx_bundle V) data, bx_lock_sha256 = bn_lock_sha256 b,
              bx_packages = (case json_member (Some (bn_manifest b)) ''dependencyPackageCount'' of Some j \<Rightarrow> j | None \<Rightarrow> JInt 0),
              bx_processors = length members\<rparr> True)
           else None))"

definition revision_detail :: "bundle_row \<Rightarrow> (string, json) dict" where
  "revision_detail b = [(''bundleId'', JStr (bn_id b)), (''revision'', JInt (int (bn_revision b)))]"

definition try_reuse ::
  "'e publish_env \<Rightarrow> int \<Rightarrow> 'e publish_task \<Rightarrow> native_contract \<Rightarrow> deployment_row list \<Rightarrow> job_world \<Rightarrow> job_world \<times> (json \<times> string) option" where
  "try_reuse V now t k rows w =
     (case reusable_bundle t k rows (jw_db w) of
        None \<Rightarrow> (w, None)
      | Some (current, b, members) \<Rightarrow>
          (let w1 = say V t ''VERIFYING_ARTIFACT'' unchanged_text (Some (JObj (revision_detail b))) w in
           case reused_result V t k current b members (jw_disk w1) of
             None \<Rightarrow> (w1, None)
           | Some result \<Rightarrow>
               (let w2 = say V t ''PERSISTING'' reused_text
                      (Some (JObj (revision_detail b @ [(''reusedExistingBundle'', JBool True)]))) w1 in
                (w2\<lparr>jw_db := mark_job_ready (sx_postgres V) now (tk_job t) (tk_variant t) (bn_ref b) result (jw_db w2)\<rparr>,
                 Some (result, bn_ref b)))))"

definition tree_files :: "'e workspace \<Rightarrow> source_tree" where
  "tree_files T =
     \<lparr>st_dirs = map we_parts (filter (\<lambda>e. \<not> we_file e) (wk_entries T)),
      st_files = map (\<lambda>e. (we_parts e, we_bytes e)) (filter we_file (wk_entries T))\<rparr>"

text \<open>What a publication draws at random: two temporary directories and two uuids.\<close>

record fresh_names =
  fn_package_tmp :: path
  fn_bundle_tmp :: path
  fn_bundle :: string
  fn_deployment :: string

definition commit_request ::
  "'e publish_task \<Rightarrow> native_contract \<Rightarrow> fresh_names \<Rightarrow> edge_member list \<Rightarrow> string \<Rightarrow> bundle_request \<Rightarrow> resolver \<Rightarrow> built_bundle
     \<Rightarrow> string \<Rightarrow> json \<Rightarrow> edge_commit" where
  "commit_request t k F members artifact q U b ref result =
     \<lparr>ec_deployment = fn_deployment F, ec_bundle = fn_bundle F, ec_device = native_device (tk_user t) k,
      ec_operator = tk_operator t, ec_variant = tk_variant t, ec_platform = nt_platform (kn_target k),
      ec_package = kn_package k, ec_artifact = artifact, ec_requirements = kn_requirements k, ec_job = tk_job t,
      ec_result = result, ec_revision = br_revision q, ec_bundle_requirements = er_direct (br_resolution q),
      ec_lock = er_lock (br_resolution q), ec_lock_sha256 = edge_lock_sha256 U (br_resolution q), ec_ref = ref,
      ec_bundle_sha256 = bb_sha256 b, ec_manifest = bb_manifest b, ec_members = members\<rparr>"

definition bundle_message :: "string \<Rightarrow> string" where
  "bundle_message stage =
     (if stage = ''ASSEMBLING_PROCESSORS'' then arranging_text
      else if stage = ''DOWNLOADING_DEPENDENCIES'' then downloading_text
      else if stage = ''PACKAGING_BUNDLE'' then compressing_text else digests_text)"

text \<open>The built bundle, its members and the result are stored in one transaction.\<close>

definition commit_bundle ::
  "'e publish_env \<Rightarrow> int \<Rightarrow> fresh_names \<Rightarrow> 'e publish_task \<Rightarrow> native_contract \<Rightarrow> edge_member list \<Rightarrow> string \<Rightarrow> bundle_request
     \<Rightarrow> built_bundle \<Rightarrow> job_world \<Rightarrow> job_world \<times> (job_failure + json \<times> string)" where
  "commit_bundle V now F t k members artifact q b w =
     (let resolution = br_resolution q; U = sx_resolver V; ref = ''edge-native-bundle:'' @ last (bb_path b);
          result = native_publish_result k artifact
            \<lparr>bx_id = fn_bundle F, bx_revision = br_revision q, bx_file = bb_path b, bx_ref = ref, bx_sha256 = bb_sha256 b,
             bx_md5 = bb_md5 b, bx_lock_sha256 = edge_lock_sha256 U resolution,
             bx_packages = JInt (int (package_count resolution)), bx_processors = length members\<rparr> False;
          w1 = say V t ''PERSISTING'' storing_bundle_text (Some (JObj
             [(''bundleId'', JStr (fn_bundle F)), (''revision'', JInt (int (br_revision q))), (''reusedExistingBundle'', JBool False)])) w in
      case commit_edge_publish (sx_postgres V) now (commit_request t k F members artifact q U b ref result) (jw_db w1) of
        (db, Inl e) \<Rightarrow> (w1\<lparr>jw_db := db\<rparr>, Inl (Raised e))
      | (db, Inr _) \<Rightarrow> (w1\<lparr>jw_db := db\<rparr>, Inr (result, ref)))"

definition build_and_commit ::
  "'e publish_env \<Rightarrow> int \<Rightarrow> fresh_names \<Rightarrow> 'e publish_task \<Rightarrow> native_contract \<Rightarrow> edge_member list \<Rightarrow> string \<Rightarrow> edge_resolution
     \<Rightarrow> job_world \<Rightarrow> job_world \<times> (job_failure + json \<times> string)" where
  "build_and_commit V now F t k members artifact resolution w =
     (let revision = next_edge_bundle_revision (native_device (tk_user t) k) (jw_db w);
          q = \<lparr>br_user = tk_user t, br_target = kn_target k, br_token = ei_token (kn_identity k), br_edge = ei_edge (kn_identity k),
               br_revision = revision, br_members = members, br_resolution = resolution\<rparr>;
          w1 = say V t ''BUILDING_BUNDLE'' building_bundle_text (Some (JObj
             [(''revision'', JInt (int revision)), (''dependencyPackageCount'', JInt (int (package_count resolution))),
              (''processorCount'', JInt (int (length members)))])) w in
      case build_edge_bundle (sx_authoring V) (sx_bundle V) (sx_resolver V) (sx_bundle_root V) (fn_bundle_tmp F) q (jw_disk w1) of
        (stages, d, r) \<Rightarrow>
          (let w2 = (emit_calls V t (map (\<lambda>(s, j). (s, bundle_message s, Some j)) stages) w1)\<lparr>jw_disk := d\<rparr> in
           case r of
             Inl f \<Rightarrow> (w2, Inl (edge_job_failure t k members f))
           | Inr b \<Rightarrow> commit_bundle V now F t k members artifact q b w2))"

text \<open>Without a bundle to reuse: the processor is packed and the dependencies of all are resolved.\<close>

definition pack_and_build ::
  "'e publish_env \<Rightarrow> int \<Rightarrow> fresh_names \<Rightarrow> 'e publish_task \<Rightarrow> native_contract \<Rightarrow> deployment_row list \<Rightarrow> job_world
     \<Rightarrow> job_world \<times> (job_failure + json \<times> string)" where
  "pack_and_build V now F t k rows w =
     (let w1 = say V t ''BUILDING_PACKAGE'' packing_processor_text (Some (JObj [(''forceRebuild'', JBool (tk_force t))])) w in
      case write_native_package (sx_package V) (sx_authoring V) (sx_native_root V) (fn_package_tmp F) k (tk_plan t)
             (tree_files (tk_tree t)) (jw_disk w1) of
        (d, Inl e) \<Rightarrow> (w1\<lparr>jw_disk := d\<rparr>, Inl (Raised e))
      | (d, Inr p) \<Rightarrow>
          (let members = other_members t rows @ [(candidate t k)\<lparr>em_artifact := path_text p\<rparr>];
               requirements = concat (map em_requirements members);
               w2 = say V t ''RESOLVING_DEPENDENCIES'' shared_text (Some (JObj
                  [(''directRequirementCount'', JInt (int (length requirements))),
                   (''processorCount'', JInt (int (length members)))])) (w1\<lparr>jw_disk := d\<rparr>) in
           case edge_resolve (sx_authoring V) (sx_resolver V) requirements (kn_target k) of
             Inl f \<Rightarrow> (w2, Inl (edge_job_failure t k members f))
           | Inr resolution \<Rightarrow> build_and_commit V now F t k members (path_text p) resolution w2))"

text \<open>What is done while the lock of the device is held.\<close>

definition publish_locked ::
  "'e publish_env \<Rightarrow> int \<Rightarrow> fresh_names \<Rightarrow> 'e publish_task \<Rightarrow> native_contract \<Rightarrow> job_world
     \<Rightarrow> job_world \<times> (job_failure + json \<times> string)" where
  "publish_locked V now F t k w =
     (let w1 = say V t ''CHECKING_BUNDLE_REUSE'' reuse_check_text
            (Some (JObj [(''edgeIdentity'', identity_json (kn_identity k))])) w;
          rows = list_edge_deployments (native_device (tk_user t) k) None (jw_db w1) in
      case try_reuse V now t k rows w1 of
        (w2, Some published) \<Rightarrow> (w2, Inr published)
      | (w2, None) \<Rightarrow> pack_and_build V now F t k rows w2)"

definition publish_native ::
  "'e publish_env \<Rightarrow> int \<Rightarrow> fresh_names \<Rightarrow> 'e publish_task \<Rightarrow> native_contract \<Rightarrow> job_world
     \<Rightarrow> job_world \<times> (job_failure + json \<times> string)" where
  "publish_native V now F t k w =
     publish_locked V now F t k
       (say V t ''WAITING_LOCK'' device_lock_text
          (Some (JObj [(''edgeIdentity'', identity_json (kn_identity k)), (''targetPlatform'', platform_json (kn_target k))])) w)"

section \<open>A job\<close>

definition job_failure_text :: "'e publish_env \<Rightarrow> job_failure \<Rightarrow> string" where
  "job_failure_text V f = (case f of Conflict d \<Rightarrow> sx_dumps V d | Raised e \<Rightarrow> exn_text e)"

definition publish_child ::
  "'e publish_env \<Rightarrow> (string list \<Rightarrow> progress_call list \<times> (exn + json)) \<Rightarrow> int \<Rightarrow> fresh_names \<Rightarrow> 'e publish_task \<Rightarrow> job_world
     \<Rightarrow> job_world \<times> (job_failure + json \<times> string)" where
  "publish_child V builds now F t w =
     (case tk_child t of
        RunnerChild k \<Rightarrow> publish_runner V builds now t k w
      | NativeChild k \<Rightarrow> publish_native V now F t k w)"

definition execute_publish_job ::
  "'e publish_env \<Rightarrow> (string list \<Rightarrow> progress_call list \<times> (exn + json)) \<Rightarrow> int \<Rightarrow> fresh_names \<Rightarrow> 'e publish_task \<Rightarrow> job_world \<Rightarrow> job_world" where
  "execute_publish_job V builds now F t w =
     (let w1 = say V t ''PREPARING'' started_text None (w\<lparr>jw_db := mark_job_running now (tk_job t) (jw_db w)\<rparr>) in
      case publish_child V builds now F t w1 of
        (w2, Inr _) \<Rightarrow> w2
      | (w2, Inl f) \<Rightarrow> w2\<lparr>jw_db := mark_job_failed now (tk_job t) (tk_variant t) (job_failure_text V f) (jw_db w2)\<rparr>)"

end
