(* ===== verification/Publish_Facts.thy ===== *)
theory Publish_Facts
  imports Publish_Service
begin

text \<open>
  What the tables of the publish service satisfy and every transaction keeps: the versions of a contract
  and the revisions of a device's bundles are numbered from one without gaps, and the newest bundle of a
  device has exactly the members deployed on it.
\<close>

section \<open>Numbered rows\<close>

lemma fold_max_upt: "fold max [1..<Suc n] 0 = n"
proof (induction n)
  case (Suc n)
  have "[1..<Suc (Suc n)] = [1..<Suc n] @ [Suc n]" by simp
  with Suc show ?case by simp
qed simp

definition numbered :: "('a \<Rightarrow> nat) \<Rightarrow> 'a list \<Rightarrow> bool" where
  "numbered key xs \<longleftrightarrow> map key xs = [1..<Suc (length xs)]"

lemma newest_first:
  assumes "numbered key xs"
  shows "sort_key (\<lambda>x. - int (key x)) xs = rev xs"
proof (rule sort_key_inj_key_eq)
  note assms = assms [unfolded numbered_def]
  let ?n = "length xs"
  have "distinct (map key xs)" unfolding assms by simp
  then show "inj_on (\<lambda>x. - int (key x)) (set xs)" by (auto simp: distinct_map inj_on_def)
  have "map (\<lambda>x. - int (key x)) (rev xs) = rev (map (\<lambda>k. - int k) (map key xs))" by (simp add: rev_map)
  also have "\<dots> = rev (map (\<lambda>k. - int k) [1..<Suc ?n])" unfolding assms ..
  finally have r: "map (\<lambda>x. - int (key x)) (rev xs) = rev (map (\<lambda>k. - int k) [1..<Suc ?n])" .
  have "sorted_wrt (\<lambda>x y. - int y \<le> - int x) [1..<Suc ?n]"
    by (rule sorted_wrt_mono_rel [OF _ sorted_wrt_upt]) simp
  then show "sorted (map (\<lambda>x. - int (key x)) (rev xs))"
    unfolding r by (simp only: sorted_wrt_rev sorted_wrt_map)
qed simp

lemma numbered_snoc:
  assumes "numbered key xs" "key x = Suc (length xs)"
  shows "numbered key (xs @ [x])"
  using assms by (simp add: numbered_def)

lemma next_number: "numbered key xs \<Longrightarrow> fold max (map key xs) 0 + 1 = Suc (length xs)"
  unfolding numbered_def by (simp only: fold_max_upt)

section \<open>The invariant\<close>

definition contracts_of :: "string \<Rightarrow> publish_db \<Rightarrow> contract_row list" where
  "contracts_of i db = filter (\<lambda>r. cv_operator r = i) (pd_contracts db)"

definition numbered_contracts :: "publish_db \<Rightarrow> bool" where
  "numbered_contracts db \<longleftrightarrow> distinct (map op_id (pd_operators db)) \<and> distinct (map cv_id (pd_contracts db)) \<and>
     distinct (map (\<lambda>r. (cv_operator r, cv_sha256 r)) (pd_contracts db)) \<and>
     (\<forall>c \<in> set (pd_contracts db). cv_operator c \<in> op_id ` set (pd_operators db)) \<and>
     (\<forall>i. numbered cv_version (contracts_of i db))"

definition rows_ok :: "publish_db \<Rightarrow> bool" where
  "rows_ok db \<longleftrightarrow> numbered_contracts db \<and> distinct (map vr_id (pd_variants db)) \<and> distinct (map pj_id (pd_jobs db)) \<and> gates_ok db \<and>
     (\<forall>v \<in> set (pd_variants db). vr_contract v \<in> cv_id ` set (pd_contracts db))"

definition identified :: "edge_device \<Rightarrow> bool" where
  "identified d \<longleftrightarrow> ed_token d \<noteq> None \<and> ed_edge d \<noteq> None"

definition deployed_on :: "edge_device \<Rightarrow> publish_db \<Rightarrow> deployment_row list" where
  "deployed_on d db = filter (\<lambda>r. dp_device r = d) (pd_deployments db)"

definition bundle_members_of :: "string \<Rightarrow> publish_db \<Rightarrow> edge_member multiset" where
  "bundle_members_of i db = mset (map bundled_member (list_edge_bundle_members i db))"

definition device_ok :: "edge_device \<Rightarrow> publish_db \<Rightarrow> bool" where
  "device_ok d db \<longleftrightarrow>
     distinct (map dp_operator (deployed_on d db)) \<and>
     numbered bn_revision (device_bundles d db) \<and>
     (case get_latest_edge_bundle d db of
        None \<Rightarrow> deployed_on d db = []
      | Some b \<Rightarrow> bundle_members_of (bn_id b) db = mset (map deployed_member (deployed_on d db)))"

definition edges_ok :: "publish_db \<Rightarrow> bool" where
  "edges_ok db \<longleftrightarrow> distinct (map bn_id (pd_bundles db)) \<and> (\<forall>m \<in> set (pd_members db). mb_bundle m \<in> bn_id ` set (pd_bundles db)) \<and>
     (\<forall>d. identified d \<longrightarrow> device_ok d db)"

lemma on_device_identified: "identified d \<Longrightarrow> on_device d r \<longleftrightarrow> r = d"
  by (auto simp: on_device_def identified_def)

lemma device_deployments: "identified d \<Longrightarrow> list_edge_deployments d None db = sort_key dp_operator (deployed_on d db)"
  by (simp add: list_edge_deployments_def deployed_on_def on_device_identified)

lemma device_bundles_of: "identified d \<Longrightarrow> device_bundles d db = filter (\<lambda>b. bn_device b = d) (pd_bundles db)"
  by (simp add: device_bundles_def on_device_identified)

lemma latest_bundle:
  assumes "numbered bn_revision (device_bundles d db)"
  shows "get_latest_edge_bundle d db = (if device_bundles d db = [] then None else Some (last (device_bundles d db)))"
  unfolding get_latest_edge_bundle_def newest_first [OF assms]
  by (cases "device_bundles d db" rule: rev_cases) auto

lemma next_revision:
  assumes "numbered bn_revision (device_bundles d db)"
  shows "next_edge_bundle_revision d db = Suc (length (device_bundles d db))"
  unfolding next_edge_bundle_revision_def by (rule next_number [OF assms])

lemma latest_contract:
  assumes "numbered_contracts db"
  shows "latest_version i db = (if contracts_of i db = [] then None else Some (last (contracts_of i db)))"
proof -
  have n: "numbered cv_version (contracts_of i db)"
    using assms by (simp add: numbered_contracts_def)
  show ?thesis
    unfolding latest_version_def contracts_of_def [symmetric] newest_first [OF n]
    by (cases "contracts_of i db" rule: rev_cases) auto
qed

lemma next_contract_version:
  assumes "numbered_contracts db"
  shows "next_version i db = Suc (length (contracts_of i db))"
  using assms next_number [of cv_version "contracts_of i db"]
  by (simp add: next_version_def contract_versions_def numbered_contracts_def contracts_of_def)

section \<open>What an operation does not touch\<close>

lemma contracts_frame [simp]:
  "numbered_contracts (db\<lparr>pd_variants := v\<rparr>) = numbered_contracts db" "numbered_contracts (db\<lparr>pd_jobs := j\<rparr>) = numbered_contracts db"
  "numbered_contracts (db\<lparr>pd_deployments := d\<rparr>) = numbered_contracts db" "numbered_contracts (db\<lparr>pd_bundles := b\<rparr>) = numbered_contracts db"
  "numbered_contracts (db\<lparr>pd_members := m\<rparr>) = numbered_contracts db" "numbered_contracts (db\<lparr>pd_gates := g\<rparr>) = numbered_contracts db"
  "gates_ok (db\<lparr>pd_variants := v\<rparr>) = gates_ok db" "gates_ok (db\<lparr>pd_jobs := j\<rparr>) = gates_ok db"
  "gates_ok (db\<lparr>pd_deployments := d\<rparr>) = gates_ok db" "gates_ok (db\<lparr>pd_bundles := b\<rparr>) = gates_ok db"
  "gates_ok (db\<lparr>pd_members := m\<rparr>) = gates_ok db" "gates_ok (db\<lparr>pd_operators := r\<rparr>) = gates_ok db"
  "gates_ok (db\<lparr>pd_contracts := c\<rparr>) = gates_ok db"
  by (simp_all add: numbered_contracts_def contracts_of_def gates_ok_def)

lemma device_frame [simp]:
  "deployed_on d (db\<lparr>pd_operators := r\<rparr>) = deployed_on d db" "deployed_on d (db\<lparr>pd_contracts := c\<rparr>) = deployed_on d db"
  "deployed_on d (db\<lparr>pd_variants := v\<rparr>) = deployed_on d db" "deployed_on d (db\<lparr>pd_jobs := j\<rparr>) = deployed_on d db"
  "deployed_on d (db\<lparr>pd_gates := g\<rparr>) = deployed_on d db" "deployed_on d (db\<lparr>pd_bundles := b\<rparr>) = deployed_on d db"
  "deployed_on d (db\<lparr>pd_members := m\<rparr>) = deployed_on d db"
  "device_bundles d (db\<lparr>pd_operators := r\<rparr>) = device_bundles d db" "device_bundles d (db\<lparr>pd_contracts := c\<rparr>) = device_bundles d db"
  "device_bundles d (db\<lparr>pd_variants := v\<rparr>) = device_bundles d db" "device_bundles d (db\<lparr>pd_jobs := j\<rparr>) = device_bundles d db"
  "device_bundles d (db\<lparr>pd_gates := g\<rparr>) = device_bundles d db" "device_bundles d (db\<lparr>pd_deployments := p\<rparr>) = device_bundles d db"
  "device_bundles d (db\<lparr>pd_members := m\<rparr>) = device_bundles d db"
  by (simp_all add: deployed_on_def device_bundles_def)

lemma members_frame [simp]:
  "bundle_members_of i (db\<lparr>pd_operators := r\<rparr>) = bundle_members_of i db" "bundle_members_of i (db\<lparr>pd_contracts := c\<rparr>) = bundle_members_of i db"
  "bundle_members_of i (db\<lparr>pd_variants := v\<rparr>) = bundle_members_of i db" "bundle_members_of i (db\<lparr>pd_jobs := j\<rparr>) = bundle_members_of i db"
  "bundle_members_of i (db\<lparr>pd_gates := g\<rparr>) = bundle_members_of i db" "bundle_members_of i (db\<lparr>pd_deployments := p\<rparr>) = bundle_members_of i db"
  "bundle_members_of i (db\<lparr>pd_bundles := b\<rparr>) = bundle_members_of i db"
  by (simp_all add: bundle_members_of_def list_edge_bundle_members_def)

lemma edges_frame [simp]:
  "edges_ok (db\<lparr>pd_operators := r\<rparr>) = edges_ok db" "edges_ok (db\<lparr>pd_contracts := c\<rparr>) = edges_ok db"
  "edges_ok (db\<lparr>pd_variants := v\<rparr>) = edges_ok db" "edges_ok (db\<lparr>pd_jobs := j\<rparr>) = edges_ok db"
  "edges_ok (db\<lparr>pd_gates := g\<rparr>) = edges_ok db"
  by (simp_all add: edges_ok_def device_ok_def get_latest_edge_bundle_def cong: option.case_cong)

lemma update_frame [simp]:
  "numbered_contracts (update_variant i f db) = numbered_contracts db" "numbered_contracts (update_publish_job P g db) = numbered_contracts db"
  "edges_ok (update_variant i f db) = edges_ok db" "edges_ok (update_publish_job P g db) = edges_ok db"
  "gates_ok (update_variant i f db) = gates_ok db" "gates_ok (update_publish_job P g db) = gates_ok db"
  by (simp_all add: update_variant_def update_publish_job_def)

lemma at_None:
  "operator_at i db = None \<longleftrightarrow> i \<notin> op_id ` set (pd_operators db)" "contract_at i db = None \<longleftrightarrow> i \<notin> cv_id ` set (pd_contracts db)"
  "variant_at i db = None \<longleftrightarrow> i \<notin> vr_id ` set (pd_variants db)" "publish_job_at i db = None \<longleftrightarrow> i \<notin> pj_id ` set (pd_jobs db)"
  by (auto simp: operator_at_def contract_at_def variant_at_def publish_job_at_def find_None_iff)

section \<open>Contracts, variants and jobs\<close>

lemma named_operator_id: "named_operator u w n db = Some r \<Longrightarrow> r \<in> set (pd_operators db)"
  by (auto simp: named_operator_def dest: find_SomeD)

lemma insert_operator_ok:
  assumes "insert_operator now i user w c db = Inr db'" "numbered_contracts db"
  shows "numbered_contracts db'" "pd_contracts db' = pd_contracts db" "pd_variants db' = pd_variants db" "pd_jobs db' = pd_jobs db"
    "pd_gates db' = pd_gates db" "edges_ok db' = edges_ok db" "op_id ` set (pd_operators db) \<subseteq> op_id ` set (pd_operators db')"
proof -
  let ?f = "\<lambda>r. r\<lparr>op_display_name := oc_display_name c, op_description := oc_description c, op_updated := now\<rparr>"
  have k: "map op_id (sql_update P ?f t) = map op_id t" for P and t :: "operator_row list" by (rule map_key_sql_update) simp
  have s: "op_id ` set (sql_update P ?f t) = op_id ` set t" for P and t :: "operator_row list" unfolding set_map [symmetric] k ..
  consider "db' = db\<lparr>pd_operators := sql_update (owns user w (oc_name c)) ?f (pd_operators db)\<rparr>"
    | r where "db' = db\<lparr>pd_operators := pd_operators db @ [r]\<rparr>" "op_id r \<notin> op_id ` set (pd_operators db)"
    using assms(1) by (auto simp: insert_operator_def at_None split: if_splits)
  note cases = this
  show "pd_contracts db' = pd_contracts db" "pd_variants db' = pd_variants db" "pd_jobs db' = pd_jobs db"
    "pd_gates db' = pd_gates db" "edges_ok db' = edges_ok db"
    by (cases rule: cases; simp)+
  show sub: "op_id ` set (pd_operators db) \<subseteq> op_id ` set (pd_operators db')" by (cases rule: cases) (auto simp: s)
  have "distinct (map op_id (pd_operators db'))" using assms(2) by (cases rule: cases) (auto simp: numbered_contracts_def k)
  moreover have "contracts_of i db' = contracts_of i db" for i by (cases rule: cases) (simp_all add: contracts_of_def)
  ultimately show "numbered_contracts db'"
    using assms(2) sub \<open>pd_contracts db' = pd_contracts db\<close> by (auto simp: numbered_contracts_def)
qed

lemma insert_contract_ok:
  assumes "insert_contract r db = Inr db'" "numbered_contracts db" "cv_version r = next_version (cv_operator r) db"
    and "cv_operator r \<in> op_id ` set (pd_operators db)"
  shows "numbered_contracts db'"
proof -
  from assms(1) have db': "db' = db\<lparr>pd_contracts := pd_contracts db @ [r]\<rparr>"
    and new: "\<forall>q \<in> set (pd_contracts db). cv_operator q = cv_operator r \<longrightarrow> cv_sha256 q \<noteq> cv_sha256 r"
      "\<forall>q \<in> set (pd_contracts db). cv_id q \<noteq> cv_id r"
    by (auto simp: insert_contract_def contract_at_def find_None_iff list_ex_iff split: if_splits)
  have c: "contracts_of i db' = (if i = cv_operator r then contracts_of i db @ [r] else contracts_of i db)" for i
    by (simp add: db' contracts_of_def)
  have n: "numbered cv_version (contracts_of i db)" for i
    using assms(2) by (simp add: numbered_contracts_def)
  have "numbered cv_version (contracts_of i db')" for i
    unfolding c using n [of i] numbered_snoc [OF n, of r] assms(3) next_contract_version [OF assms(2)] by auto
  then show ?thesis
    using assms(2,4) new unfolding numbered_contracts_def by (auto simp: db' image_iff)
qed

lemma save_ok:
  assumes "save_virtual_contract A G now i ci w c user db = Inr (db', operator, row, created)" "rows_ok db"
  shows "rows_ok db'" "edges_ok db' = edges_ok db" "pd_variants db' = pd_variants db" "pd_gates db' = pd_gates db" "pd_jobs db' = pd_jobs db"
    "\<exists>new. pd_contracts db' = pd_contracts db @ new"
proof -
  from assms(1) obtain db1 where i: "insert_operator now i user w c db = Inr db1"
    by (auto simp: save_virtual_contract_def Let_def split: sum.splits)
  note I = insert_operator_ok [OF i]
  have n: "numbered_contracts db1" using I(1) assms(2) by (simp add: rows_ok_def)
  from assms(1) i consider "db' = db1" |
    s r where "r = \<lparr>cv_id = ci, cv_operator = op_id operator, cv_version = next_version (op_id operator) db1,
        cv_revision = oc_revision c, cv_source_ref = s, cv_sha256 = contract_sha256 A c, cv_contract = pg_jsonb G (contract_json c), cv_created = now\<rparr>"
      "insert_contract r db1 = Inr db'" "named_operator user w (oc_name c) db1 = Some operator"
    by (auto simp: save_virtual_contract_def Let_def split: option.splits sum.splits)
  then have "numbered_contracts db' \<and> (\<exists>new. pd_contracts db' = pd_contracts db1 @ new) \<and> edges_ok db' = edges_ok db1 \<and>
      pd_variants db' = pd_variants db1 \<and> pd_gates db' = pd_gates db1 \<and> pd_jobs db' = pd_jobs db1"
  proof cases
    case 2
    have "numbered_contracts db'" 
      using named_operator_id [OF 2(3)] by (intro insert_contract_ok [OF 2(2) n]) (simp_all add: 2(1))
    with 2(2) show ?thesis by (auto simp: insert_contract_def split: if_splits)
  qed (use n in auto)
  moreover note I assms(2)
  ultimately show "rows_ok db'" "edges_ok db' = edges_ok db" "pd_variants db' = pd_variants db" "pd_gates db' = pd_gates db"
    "pd_jobs db' = pd_jobs db" "\<exists>new. pd_contracts db' = pd_contracts db @ new"
    by (auto simp: rows_ok_def gates_ok_def)
qed

lemma upsert_ok:
  assumes "upsert_variant G now n db = Inr (db', v)" "rows_ok db"
  shows "rows_ok db'" "edges_ok db' = edges_ok db" "pd_contracts db' = pd_contracts db" "pd_gates db' = pd_gates db" "pd_jobs db' = pd_jobs db"
    "pd_operators db' = pd_operators db"
proof -
  have k: "vr_id (recompiled G now n v) = vr_id v" "vr_contract (recompiled G now n v) = vr_contract v" for v
    by (simp_all add: recompiled_def)
  consider "db' = db\<lparr>pd_variants := sql_update (variant_key_is n) (recompiled G now n) (pd_variants db)\<rparr>"
    | w where "db' = db\<lparr>pd_variants := pd_variants db @ [w]\<rparr>" "vr_id w \<notin> vr_id ` set (pd_variants db)"
      "vr_contract w \<in> cv_id ` set (pd_contracts db)"
    using assms(1) at_None(2) [of "nv_contract n" db]
    by (auto simp: upsert_variant_def at_None Let_def split: option.splits if_splits)
  then show "rows_ok db'"
    using assms(2) by cases (auto simp: rows_ok_def map_key_sql_update set_sql_update k split: if_splits)
  from assms(1) show "edges_ok db' = edges_ok db" "pd_contracts db' = pd_contracts db" "pd_gates db' = pd_gates db"
    "pd_jobs db' = pd_jobs db" "pd_operators db' = pd_operators db"
    by (auto simp: upsert_variant_def Let_def split: option.splits if_splits)
qed

lemma update_rows_ok:
  assumes "rows_ok db"
  shows "(\<And>v. vr_id (f v) = vr_id v \<and> vr_contract (f v) = vr_contract v) \<Longrightarrow> rows_ok (update_variant i f db)"
    "(\<And>j. pj_id (g j) = pj_id j) \<Longrightarrow> rows_ok (update_publish_job P g db)"
  using assms by (auto simp: rows_ok_def update_variant_def update_publish_job_def map_key_sql_update set_sql_update split: if_splits)

lemma job_rows_ok:
  assumes "rows_ok db"
  shows "rows_ok (mark_job_running now i db)" "rows_ok (update_job_progress G i e db)" "rows_ok (mark_job_ready G now i v ref res db)"
    "rows_ok (mark_job_failed now i v m db)"
  unfolding mark_job_running_def update_job_progress_def mark_job_ready_def mark_job_failed_def Let_def
  by (intro update_rows_ok assms; simp add: ready_job_def published_variant_def)+

lemma job_edges [simp]:
  "edges_ok (mark_job_running now i db) = edges_ok db" "edges_ok (update_job_progress G i e db) = edges_ok db"
  "edges_ok (mark_job_ready G now i v ref res db) = edges_ok db" "edges_ok (mark_job_failed now i v m db) = edges_ok db"
  by (simp_all add: mark_job_running_def update_job_progress_def mark_job_ready_def mark_job_failed_def Let_def)

lemma create_job_ok:
  assumes "create_publish_job now i v db = Inr (db', j)" "rows_ok db"
  shows "rows_ok db'" "edges_ok db' = edges_ok db"
  using assms by (auto simp: create_publish_job_def rows_ok_def at_None Let_def split: if_splits)

section \<open>The commit of an edge publication\<close>

definition committed_member :: "edge_commit \<Rightarrow> edge_member" where
  "committed_member q =
     \<lparr>em_operator = ec_operator q, em_variant = ec_variant q, em_package = ec_package q, em_artifact = ec_artifact q,
      em_requirements = ec_requirements q\<rparr>"

text \<open>What a holder of the device's lock puts into a commit: the other deployed members and its own.\<close>

definition commit_fits :: "edge_commit \<Rightarrow> publish_db \<Rightarrow> bool" where
  "commit_fits q db \<longleftrightarrow> identified (ec_device q) \<and> ec_revision q = next_edge_bundle_revision (ec_device q) db \<and>
     ec_members q = map deployed_member (filter (\<lambda>r. dp_operator r \<noteq> ec_operator q) (list_edge_deployments (ec_device q) None db)) @
       [committed_member q]"

lemma mset_upsert:
  assumes "distinct (map key xs)" "\<And>r. r \<in> set xs \<Longrightarrow> key r = k \<Longrightarrow> g (f r) = m"
  shows "mset (map g (map (\<lambda>r. if key r = k then f r else r) xs)) =
     mset (map g (filter (\<lambda>r. key r \<noteq> k) xs)) + (if k \<in> key ` set xs then {#m#} else {#})"
  using assms by (induction xs) (auto simp: image_iff)

lemma filter_sql_update: "(\<And>r. R (f r) = R r) \<Longrightarrow> filter R (sql_update P f t) = sql_update P f (filter R t)"
  by (induction t) (auto simp: sql_update_def)

lemma upsert_deployment_on:
  assumes "upsert_deployment now q db = Inr db'" "identified (ec_device q)" "distinct (map dp_operator (deployed_on (ec_device q) db))"
  shows "d \<noteq> ec_device q \<Longrightarrow> deployed_on d db' = deployed_on d db"
    "distinct (map dp_operator (deployed_on (ec_device q) db'))" "deployed_on (ec_device q) db' \<noteq> []"
    "mset (map deployed_member (deployed_on (ec_device q) db')) =
       mset (map deployed_member (filter (\<lambda>r. dp_operator r \<noteq> ec_operator q) (deployed_on (ec_device q) db))) + {#committed_member q#}"
    "\<exists>t. db' = db\<lparr>pd_deployments := t\<rparr>"
proof -
  let ?D = "ec_device q"
  let ?f = "\<lambda>r. r\<lparr>dp_variant := ec_variant q, dp_platform := ec_platform q, dp_package := ec_package q,
      dp_artifact := ec_artifact q, dp_requirements := ec_requirements q, dp_updated := now\<rparr>"
  let ?u = "\<lambda>xs. map (\<lambda>r. if dp_operator r = ec_operator q then ?f r else r) xs"
  have same: "same_deployment q r \<longleftrightarrow> dp_device r = ?D \<and> dp_operator r = ec_operator q" for r
    using assms(2) by (auto simp: same_deployment_def on_device_identified)
  have ex: "list_ex (same_deployment q) (pd_deployments db) \<longleftrightarrow> ec_operator q \<in> dp_operator ` set (deployed_on ?D db)"
    by (auto simp: list_ex_iff deployed_on_def same image_iff)
  note c = assms(1) [unfolded upsert_deployment_def]
  consider (update) "ec_operator q \<in> dp_operator ` set (deployed_on ?D db)"
      "db' = db\<lparr>pd_deployments := sql_update (same_deployment q) ?f (pd_deployments db)\<rparr>"
    | (insert) "ec_operator q \<notin> dp_operator ` set (deployed_on ?D db)"
      "db' = db\<lparr>pd_deployments := pd_deployments db @ [deployment_of now q]\<rparr>"
    using c unfolding ex by (auto split: if_splits)
  note cases = this
  show "\<exists>t. db' = db\<lparr>pd_deployments := t\<rparr>" by (cases rule: cases) auto
  have upd: "filter (\<lambda>r. dp_device r = d) (sql_update (same_deployment q) ?f t) =
      (if d = ?D then ?u (filter (\<lambda>r. dp_device r = d) t) else filter (\<lambda>r. dp_device r = d) t)" for d and t :: "deployment_row list"
    by (induction t) (auto simp: sql_update_def same)
  show "d \<noteq> ?D \<Longrightarrow> deployed_on d db' = deployed_on d db"
    by (cases rule: cases) (auto simp: deployed_on_def upd deployment_of_def)
  have on: "deployed_on ?D db' = (if ec_operator q \<in> dp_operator ` set (deployed_on ?D db) then ?u (deployed_on ?D db)
      else deployed_on ?D db @ [deployment_of now q])"
    by (cases rule: cases) (simp_all add: deployed_on_def upd deployment_of_def)
  have k: "map dp_operator (?u xs) = map dp_operator xs" for xs :: "deployment_row list" by auto
  show "distinct (map dp_operator (deployed_on ?D db'))"
    using assms(3) unfolding on by (auto simp: k deployment_of_def simp del: map_map)
  show "deployed_on ?D db' \<noteq> []" unfolding on by auto
  have other: "filter (\<lambda>r. dp_operator r \<noteq> ec_operator q) xs = xs" if "ec_operator q \<notin> dp_operator ` set xs"
    for xs :: "deployment_row list" using that by (intro filter_True) (auto simp: image_iff)
  show "mset (map deployed_member (deployed_on ?D db')) =
      mset (map deployed_member (filter (\<lambda>r. dp_operator r \<noteq> ec_operator q) (deployed_on ?D db))) + {#committed_member q#}"
  proof (cases "ec_operator q \<in> dp_operator ` set (deployed_on ?D db)")
    case True
    then show ?thesis
      unfolding on if_P [OF True]
      by (subst mset_upsert [where m = "committed_member q"]) (simp_all add: assms(3) deployed_member_def committed_member_def)
  next
    case False
    show ?thesis
      unfolding on if_not_P [OF False] other [OF False]
      by (simp add: deployed_member_def committed_member_def deployment_of_def)
  qed
qed

definition stored_member :: "string \<Rightarrow> edge_member \<Rightarrow> member_row" where
  "stored_member i m =
     \<lparr>mb_bundle = i, mb_operator = em_operator m, mb_variant = em_variant m, mb_package = em_package m,
      mb_artifact = em_artifact m, mb_requirements = em_requirements m\<rparr>"

lemma bundled_stored [simp]: "bundled_member (stored_member i m) = m" "mb_bundle (stored_member i m) = i"
  by (simp_all add: bundled_member_def stored_member_def)

lemma insert_members_rows:
  "insert_members i ms db = Inr db' \<Longrightarrow> db' = db\<lparr>pd_members := pd_members db @ map (stored_member i) ms\<rparr>"
  by (induction i ms db rule: insert_members.induct) (auto simp: stored_member_def split: if_splits)

definition bundle_of :: "postgres \<Rightarrow> int \<Rightarrow> edge_commit \<Rightarrow> bundle_row" where
  "bundle_of G now q =
     \<lparr>bn_id = ec_bundle q, bn_device = ec_device q, bn_platform = ec_platform q, bn_revision = ec_revision q,
      bn_requirements = ec_bundle_requirements q, bn_lock = ec_lock q, bn_lock_sha256 = ec_lock_sha256 q,
      bn_ref = ec_ref q, bn_sha256 = ec_bundle_sha256 q, bn_manifest = pg_jsonb G (ec_manifest q), bn_created = now\<rparr>"

lemma insert_bundle_row:
  "insert_bundle G now q db = Inr db' \<Longrightarrow> db' = db\<lparr>pd_bundles := pd_bundles db @ [bundle_of G now q]\<rparr> \<and> ec_bundle q \<notin> bn_id ` set (pd_bundles db)"
  by (auto simp: insert_bundle_def bundle_of_def split: if_splits)

lemma commit_cases:
  assumes "commit_edge_publish G now q db = (db', r)"
  obtains (rolled_back) e where "db' = db" "r = Inl e"
  | (committed) db1 where "upsert_deployment now q db = Inr db1" "r = Inr (ec_bundle q)" "ec_bundle q \<notin> bn_id ` set (pd_bundles db1)"
      "db' = mark_job_ready G now (ec_job q) (ec_variant q) (ec_ref q) (ec_result q)
         (db1\<lparr>pd_bundles := pd_bundles db1 @ [bundle_of G now q], pd_members := pd_members db1 @ map (stored_member (ec_bundle q)) (ec_members q)\<rparr>)"
proof -
  note c = assms [unfolded commit_edge_publish_def]
  show thesis
  proof (cases "upsert_deployment now q db")
    case (Inr db1)
    show thesis
    proof (cases "insert_bundle G now q db1")
      case b: (Inr db2)
      show thesis
      proof (cases "insert_members (ec_bundle q) (ec_members q) db2")
        case m: (Inr db3)
        from insert_bundle_row [OF b] insert_members_rows [OF m] show thesis
          using c Inr b m by (intro committed) auto
      qed (use c Inr b in \<open>auto intro: rolled_back\<close>)
    qed (use c Inr in \<open>auto intro: rolled_back\<close>)
  qed (use c in \<open>auto intro: rolled_back\<close>)
qed

lemma members_of_bundles:
  assumes "edges_ok db" "device_bundles d db \<noteq> []"
  shows "bn_id (last (device_bundles d db)) \<in> bn_id ` set (pd_bundles db)"
  using last_in_set [OF assms(2)] by (auto simp: device_bundles_def)

lemma commit_device_ok:
  assumes ok: "edges_ok db" and fits: "commit_fits q db" and up: "upsert_deployment now q db = Inr db1"
    and new: "ec_bundle q \<notin> bn_id ` set (pd_bundles db1)" and d: "identified d"
    and db2: "db2 = db1\<lparr>pd_bundles := pd_bundles db1 @ [bundle_of G now q],
        pd_members := pd_members db1 @ map (stored_member (ec_bundle q)) (ec_members q)\<rparr>"
  shows "device_ok d db2"
proof -
  let ?D = "ec_device q"
  have D: "identified ?D" using fits by (simp add: commit_fits_def)
  have dev: "device_ok e db" if "identified e" for e using ok that by (simp add: edges_ok_def)
  note U = upsert_deployment_on [OF up D] 
  have dist: "distinct (map dp_operator (deployed_on ?D db))" using dev [OF D] by (simp add: device_ok_def)
  obtain t where db1: "db1 = db\<lparr>pd_deployments := t\<rparr>" using U(5) [OF dist] by blast
  have dep: "deployed_on e db2 = deployed_on e db1" for e by (simp add: db2)
  have bun: "device_bundles e db2 = (if e = ?D then device_bundles e db @ [bundle_of G now q] else device_bundles e db)"
    if "identified e" for e using that by (auto simp: device_bundles_of db2 db1 bundle_of_def)
  have old: "bundle_members_of i db2 = bundle_members_of i db" if "i \<noteq> ec_bundle q" for i
    using that by (auto simp: bundle_members_of_def list_edge_bundle_members_def db2 db1 filter_empty_conv)
  have fresh: "\<forall>m \<in> set (pd_members db). mb_bundle m \<noteq> ec_bundle q" using ok new unfolding edges_ok_def by (simp add: db1) metis
  have mem: "bundle_members_of (ec_bundle q) db2 = mset (ec_members q)"
    using fresh by (simp add: bundle_members_of_def list_edge_bundle_members_def db2 db1 filter_False multiset.map_comp comp_def)
  show ?thesis
  proof (cases "d = ?D")
    case True
    have n: "numbered bn_revision (device_bundles ?D db2)"
      unfolding bun [OF D] using dev [OF D] fits
      by (simp add: device_ok_def commit_fits_def next_revision numbered_snoc bundle_of_def)
    have "get_latest_edge_bundle ?D db2 = Some (bundle_of G now q)" unfolding latest_bundle [OF n] by (simp add: bun [OF D])
    moreover have "mset (ec_members q) = mset (map deployed_member (deployed_on ?D db2))"
      using fits unfolding dep U(4) [OF dist] by (simp add: commit_fits_def device_deployments filter_sort)
    ultimately show ?thesis using n U(2) [OF dist] mem by (simp add: True device_ok_def dep bundle_of_def)
  next
    case False
    have n: "numbered bn_revision (device_bundles d db2)" using dev [OF d] by (simp add: bun [OF d] False device_ok_def)
    have l: "get_latest_edge_bundle d db2 = get_latest_edge_bundle d db"
      by (simp add: get_latest_edge_bundle_def bun [OF d] False)
    have "bn_id b \<noteq> ec_bundle q" if "get_latest_edge_bundle d db = Some b" for b
      using that new latest_bundle [of d db] dev [OF d] members_of_bundles [OF ok, of d]
      by (auto simp: device_ok_def db1 split: if_splits)
    then show ?thesis using dev [OF d] n U(1) [OF dist False]
      by (auto simp: device_ok_def dep l old split: option.splits)
  qed
qed

lemma commit_ok:
  assumes "commit_edge_publish G now q db = (db', r)" "rows_ok db" "edges_ok db" "commit_fits q db"
  shows "rows_ok db'" "edges_ok db'"
proof -
  have "rows_ok db' \<and> edges_ok db'"
    using assms(1)
  proof (cases rule: commit_cases)
    case (committed db1)
    let ?db2 = "db1\<lparr>pd_bundles := pd_bundles db1 @ [bundle_of G now q],
        pd_members := pd_members db1 @ map (stored_member (ec_bundle q)) (ec_members q)\<rparr>"
    have D: "identified (ec_device q)" using assms(4) by (simp add: commit_fits_def)
    have "distinct (map dp_operator (deployed_on (ec_device q) db))" using assms(3) D by (simp add: edges_ok_def device_ok_def)
    from upsert_deployment_on(5) [OF committed(1) D this] obtain t where db1: "db1 = db\<lparr>pd_deployments := t\<rparr>" by blast
    have "rows_ok ?db2" using assms(2) by (simp add: rows_ok_def db1)
    moreover have "edges_ok ?db2"
      using assms(3) committed(3) commit_device_ok [OF assms(3,4) committed(1,3) _ refl]
      by (auto simp: edges_ok_def db1 bundle_of_def)
    ultimately show ?thesis unfolding committed(4) by (simp add: job_rows_ok(3))
  qed (use assms in simp)
  then show "rows_ok db'" "edges_ok db'" by auto
qed

end
