(* ===== verification/Publish_Theorems.thy ===== *)
theory Publish_Theorems
  imports Publish_Facts
begin

text \<open>
  The publish service as its threads interleave: transactions that take no lock, jobs that publish a
  runner release under the lock of the runtime, the administration of a runtime under the same lock, and
  jobs that publish a native processor under the lock of the device. Locks are PostgreSQL's advisory
  locks: one holder per key, and a crash gives them back.
\<close>

section \<open>Transactions without a lock\<close>

inductive table_step :: "postgres \<Rightarrow> publish_db \<Rightarrow> publish_db \<Rightarrow> bool" for G where
  save: "save_virtual_contract A G now i ci w c user db = Inr (db', operator, row, created) \<Longrightarrow> table_step G db db'"
| compile: "upsert_variant G now n db = Inr (db', v) \<Longrightarrow> table_step G db db'"
| create: "create_publish_job now i v db = Inr (db', j) \<Longrightarrow> table_step G db db'"
| running: "table_step G db (mark_job_running now i db)"
| progress: "table_step G db (update_job_progress G i event db)"
| failed: "table_step G db (mark_job_failed now i v m db)"

section \<open>Locks\<close>

text \<open>Who holds the lock of a runtime: a job with its variant, key and image, or an administrator.\<close>

datatype runtime_hold = JobIn (hold_job: string) (hold_variant: string) (hold_key: string) (hold_image: string) | AdminIn (hold_key: string)

text \<open>Who holds the lock of a device, with what it has read since.\<close>

record device_hold =
  dh_device :: edge_device
  dh_job :: string
  dh_operator :: string
  dh_variant :: string
  dh_rows :: "deployment_row list option"
  dh_revision :: "nat option"

record publish_sys =
  py_db :: publish_db
  py_runtimes :: "runtime_hold list"
  py_devices :: "device_hold list"

definition publish_start :: publish_sys where
  "publish_start = \<lparr>py_db = publish_db_init, py_runtimes = [], py_devices = []\<rparr>"

definition swap :: "'a \<Rightarrow> 'a \<Rightarrow> 'a list \<Rightarrow> 'a list" where
  "swap x y xs = map (\<lambda>z. if z = x then y else z) xs"

text \<open>The runtime a publication was guarded for, as its stored result tells it.\<close>

definition metadata_key :: "postgres \<Rightarrow> json \<Rightarrow> string option" where
  "metadata_key G m =
     (case json_text G (json_member (Some m) ''runtimeEnvKey'') of
        Some s \<Rightarrow> if s \<noteq> [] then Some s else json_text G (json_member (Some m) ''envKey'')
      | None \<Rightarrow> json_text G (json_member (Some m) ''envKey''))"

text \<open>The label of a step is the runtime whose retirement it cancels, if any.\<close>

inductive publish_step :: "postgres \<Rightarrow> string option \<Rightarrow> publish_sys \<Rightarrow> publish_sys \<Rightarrow> bool" for G where
  table: "table_step G (py_db s) db \<Longrightarrow> publish_step G None s (s\<lparr>py_db := db\<rparr>)"
| runner_enter: "k \<notin> hold_key ` set (py_runtimes s) \<Longrightarrow> assert_active k img (py_db s) = Inr () \<Longrightarrow>
    publish_step G None s (s\<lparr>py_runtimes := JobIn j v k img # py_runtimes s\<rparr>)"
| runner_ready: "JobIn j v k img \<in> set (py_runtimes s) \<Longrightarrow> assert_active k img (py_db s) = Inr () \<Longrightarrow>
    metadata_key G (pg_jsonb G result) = Some k \<Longrightarrow>
    publish_step G None s (s\<lparr>py_db := mark_job_ready G now j v ref result (py_db s)\<rparr>)"
| admin_enter: "k \<notin> hold_key ` set (py_runtimes s) \<Longrightarrow> publish_step G None s (s\<lparr>py_runtimes := AdminIn k # py_runtimes s\<rparr>)"
| admin_gate: "AdminIn k \<in> set (py_runtimes s) \<Longrightarrow> put_gate now k img reason (py_db s) = (db, g) \<Longrightarrow>
    publish_step G None s (s\<lparr>py_db := db\<rparr>)"
| admin_cancel: "AdminIn k \<in> set (py_runtimes s) \<Longrightarrow> cancel_retirement k (py_db s) = (db, r) \<Longrightarrow>
    publish_step G (Some k) s (s\<lparr>py_db := db\<rparr>)"
| admin_finalize: "AdminIn k \<in> set (py_runtimes s) \<Longrightarrow> finalize_retirement now k (py_db s) = (db, r) \<Longrightarrow>
    publish_step G None s (s\<lparr>py_db := db\<rparr>)"
| runtime_leave: "publish_step G None s (s\<lparr>py_runtimes := remove1 h (py_runtimes s)\<rparr>)"
| device_enter: "dev \<notin> dh_device ` set (py_devices s) \<Longrightarrow> identified dev \<Longrightarrow>
    publish_step G None s (s\<lparr>py_devices := \<lparr>dh_device = dev, dh_job = j, dh_operator = i, dh_variant = v, dh_rows = None, dh_revision = None\<rparr>
      # py_devices s\<rparr>)"
| device_read: "h \<in> set (py_devices s) \<Longrightarrow>
    publish_step G None s (s\<lparr>py_devices := swap h (h\<lparr>dh_rows := Some (list_edge_deployments (dh_device h) None (py_db s))\<rparr>) (py_devices s)\<rparr>)"
| device_number: "h \<in> set (py_devices s) \<Longrightarrow>
    publish_step G None s (s\<lparr>py_devices := swap h (h\<lparr>dh_revision := Some (next_edge_bundle_revision (dh_device h) (py_db s))\<rparr>) (py_devices s)\<rparr>)"
| device_reuse: "h \<in> set (py_devices s) \<Longrightarrow> get_latest_edge_bundle (dh_device h) (py_db s) = Some b \<Longrightarrow>
    metadata_key G (pg_jsonb G result) = None \<Longrightarrow>
    publish_step G None s (s\<lparr>py_db := mark_job_ready G now (dh_job h) (dh_variant h) (bn_ref b) result (py_db s)\<rparr>)"
| device_commit: "h \<in> set (py_devices s) \<Longrightarrow> dh_rows h = Some rows \<Longrightarrow> dh_revision h = Some (ec_revision q) \<Longrightarrow>
    ec_device q = dh_device h \<Longrightarrow> ec_operator q = dh_operator h \<Longrightarrow> ec_variant q = dh_variant h \<Longrightarrow> ec_job q = dh_job h \<Longrightarrow>
    ec_members q = map deployed_member (filter (\<lambda>r. dp_operator r \<noteq> ec_operator q) rows) @ [committed_member q] \<Longrightarrow>
    metadata_key G (pg_jsonb G (ec_result q)) = None \<Longrightarrow> commit_edge_publish G now q (py_db s) = (db, r) \<Longrightarrow>
    publish_step G None s (s\<lparr>py_db := db, py_devices := swap h (h\<lparr>dh_rows := None, dh_revision := None\<rparr>) (py_devices s)\<rparr>)"
| device_leave: "publish_step G None s (s\<lparr>py_devices := remove1 h (py_devices s)\<rparr>)"

text \<open>A run in which no cancellation of \<open>k\<close> happens.\<close>

inductive run_without :: "postgres \<Rightarrow> string option \<Rightarrow> publish_sys \<Rightarrow> publish_sys \<Rightarrow> bool" for G k where
  run_refl: "run_without G k s s"
| run_step: "run_without G k s t \<Longrightarrow> publish_step G l t u \<Longrightarrow> l = None \<or> l \<noteq> k \<Longrightarrow> run_without G k s u"

definition publish_reachable :: "postgres \<Rightarrow> publish_sys \<Rightarrow> bool" where
  "publish_reachable G s \<longleftrightarrow> run_without G None publish_start s"

section \<open>The invariant\<close>

definition hold_ok :: "publish_db \<Rightarrow> device_hold \<Rightarrow> bool" where
  "hold_ok db h \<longleftrightarrow> identified (dh_device h) \<and>
     (\<forall>rows. dh_rows h = Some rows \<longrightarrow> rows = list_edge_deployments (dh_device h) None db) \<and>
     (\<forall>n. dh_revision h = Some n \<longrightarrow> n = next_edge_bundle_revision (dh_device h) db)"

definition sys_ok :: "publish_sys \<Rightarrow> bool" where
  "sys_ok s \<longleftrightarrow> rows_ok (py_db s) \<and> edges_ok (py_db s) \<and> distinct (map hold_key (py_runtimes s)) \<and>
     distinct (map dh_device (py_devices s)) \<and> (\<forall>h \<in> set (py_devices s). hold_ok (py_db s) h)"

lemma start_ok: "sys_ok publish_start"
  by (auto simp: sys_ok_def publish_start_def publish_db_init_def rows_ok_def numbered_contracts_def contracts_of_def numbered_def
      gates_ok_def edges_ok_def device_ok_def deployed_on_def device_bundles_def get_latest_edge_bundle_def)

text \<open>What the lock of a device protects.\<close>

definition same_edges :: "publish_db \<Rightarrow> publish_db \<Rightarrow> bool" where
  "same_edges db db' \<longleftrightarrow> pd_deployments db' = pd_deployments db \<and> pd_bundles db' = pd_bundles db \<and> pd_members db' = pd_members db"

lemma same_edges_holds: "same_edges db db' \<Longrightarrow> hold_ok db' h = hold_ok db h"
  by (simp add: same_edges_def hold_ok_def list_edge_deployments_def next_edge_bundle_revision_def device_bundles_def)

lemma same_edges_ok: "same_edges db db' \<Longrightarrow> edges_ok db' = edges_ok db"
  by (simp add: same_edges_def edges_ok_def device_ok_def deployed_on_def device_bundles_def bundle_members_of_def
      get_latest_edge_bundle_def list_edge_bundle_members_def cong: option.case_cong)

lemma mark_same_edges [simp]:
  "same_edges db (mark_job_running now i db)" "same_edges db (update_job_progress G i e db)"
  "same_edges db (mark_job_ready G now i v ref res db)" "same_edges db (mark_job_failed now i v m db)"
  by (simp_all add: same_edges_def mark_job_running_def update_job_progress_def mark_job_ready_def mark_job_failed_def
      update_publish_job_def update_variant_def Let_def)

lemma insert_operator_edges: "insert_operator now i user w c db = Inr db' \<Longrightarrow> same_edges db db'"
  by (auto simp: insert_operator_def same_edges_def split: if_splits)

lemma table_step_ok:
  assumes "table_step G db db'" "rows_ok db"
  shows "rows_ok db'" "same_edges db db'"
proof -
  from assms(1) have "rows_ok db' \<and> same_edges db db'"
  proof cases
    case (save A now i ci w c user operator row created)
    from save obtain db1 where i: "insert_operator now i user w c db = Inr db1"
      by (auto simp: save_virtual_contract_def Let_def split: sum.splits)
    with save have "pd_deployments db' = pd_deployments db1 \<and> pd_bundles db' = pd_bundles db1 \<and> pd_members db' = pd_members db1"
      by (auto simp: save_virtual_contract_def insert_contract_def Let_def split: option.splits sum.splits if_splits)
    with insert_operator_edges [OF i] save_ok(1) [OF save assms(2)] show ?thesis by (simp add: same_edges_def)
  next
    case (compile now n v)
    with upsert_ok(1) [OF compile assms(2)] show ?thesis
      by (auto simp: same_edges_def upsert_variant_def Let_def split: option.splits if_splits)
  next
    case (create now i v j)
    with create_job_ok(1) [OF create assms(2)] show ?thesis
      by (auto simp: same_edges_def create_publish_job_def Let_def split: if_splits)
  qed (use job_rows_ok [OF assms(2)] in simp_all)
  then show "rows_ok db'" "same_edges db db'" by auto
qed

lemma gates_same_edges:
  "put_gate now k img reason db = (db', g) \<Longrightarrow> same_edges db db'" "cancel_retirement k db = (db', r) \<Longrightarrow> same_edges db db'"
  "finalize_retirement now k db = (db', f) \<Longrightarrow> same_edges db db'"
  by (auto simp: same_edges_def put_gate_def cancel_retirement_def finalize_retirement_def split: option.splits if_splits)

lemma gates_only:
  "put_gate now k img reason db = (db', g) \<Longrightarrow> \<exists>t. db' = db\<lparr>pd_gates := t\<rparr>" "cancel_retirement k db = (db', r) \<Longrightarrow> \<exists>t. db' = db\<lparr>pd_gates := t\<rparr>"
  "finalize_retirement now k db = (db', f) \<Longrightarrow> \<exists>t. db' = db\<lparr>pd_gates := t\<rparr>"
proof -
  have same: "\<exists>t. db = db\<lparr>pd_gates := t\<rparr>" by (rule exI [of _ "pd_gates db"]) simp
  show "put_gate now k img reason db = (db', g) \<Longrightarrow> \<exists>t. db' = db\<lparr>pd_gates := t\<rparr>" by (auto simp: put_gate_def split: option.splits)
  show "cancel_retirement k db = (db', r) \<Longrightarrow> \<exists>t. db' = db\<lparr>pd_gates := t\<rparr>"
    using same by (auto simp: cancel_retirement_def split: option.splits if_splits)
  show "finalize_retirement now k db = (db', f) \<Longrightarrow> \<exists>t. db' = db\<lparr>pd_gates := t\<rparr>"
    using same by (auto simp: finalize_retirement_def split: option.splits if_splits)
qed

lemma gates_rows_ok:
  assumes "rows_ok db"
  shows "put_gate now k img reason db = (db', g) \<Longrightarrow> rows_ok db'" "cancel_retirement k db = (db', r) \<Longrightarrow> rows_ok db'"
    "finalize_retirement now k db = (db', f) \<Longrightarrow> rows_ok db'"
proof -
  have g: "gates_ok db" using assms by (simp add: rows_ok_def)
  have rows: "\<exists>t. db' = db\<lparr>pd_gates := t\<rparr> \<Longrightarrow> gates_ok db' \<Longrightarrow> rows_ok db'" using assms by (auto simp: rows_ok_def)
  show "put_gate now k img reason db = (db', g) \<Longrightarrow> rows_ok db'" by (rule rows [OF gates_only(1) put_gate_spec(5) [OF _ g]])
  show "cancel_retirement k db = (db', r) \<Longrightarrow> rows_ok db'" by (rule rows [OF gates_only(2) cancel_spec(1) [OF _ g]])
  show "finalize_retirement now k db = (db', f) \<Longrightarrow> rows_ok db'" by (rule rows [OF gates_only(3) finalize_spec(1) [OF _ g]])
qed

lemma commit_other_devices:
  assumes "commit_edge_publish G now q db = (db', r)" "edges_ok db" "identified (ec_device q)" "identified d" "d \<noteq> ec_device q"
  shows "list_edge_deployments d None db' = list_edge_deployments d None db"
    "next_edge_bundle_revision d db' = next_edge_bundle_revision d db"
proof -
  have "deployed_on d db' = deployed_on d db \<and> device_bundles d db' = device_bundles d db"
    using assms(1)
  proof (cases rule: commit_cases)
    case (committed db1)
    have "distinct (map dp_operator (deployed_on (ec_device q) db))" using assms(2,3) by (simp add: edges_ok_def device_ok_def)
    note U = upsert_deployment_on [OF committed(1) assms(3) this]
    obtain t where db1: "db1 = db\<lparr>pd_deployments := t\<rparr>" using U(5) by blast
    have "deployed_on d db' = deployed_on d db1" "device_bundles d db' = device_bundles d db"
      using assms(4,5) unfolding committed(4)
      by (simp_all add: mark_job_ready_def update_variant_def update_publish_job_def deployed_on_def device_bundles_of db1 bundle_of_def)
    with U(1) assms(5) show ?thesis by simp
  qed simp
  then show "list_edge_deployments d None db' = list_edge_deployments d None db"
    "next_edge_bundle_revision d db' = next_edge_bundle_revision d db"
    using assms(4) by (simp_all add: device_deployments next_edge_bundle_revision_def)
qed

lemma swap_devices: "dh_device h' = dh_device h \<Longrightarrow> map dh_device (swap h h' xs) = map dh_device xs"
  by (induction xs) (auto simp: swap_def)

lemma in_swap: "x \<in> set (swap h h' xs) \<Longrightarrow> x = h' \<or> x \<in> set xs \<and> x \<noteq> h"
  by (auto simp: swap_def split: if_splits)

lemma distinct_remove1_map: "distinct (map f xs) \<Longrightarrow> distinct (map f (remove1 x xs))"
  by (induction xs) (auto dest: notin_set_remove1 simp: image_iff)

lemma sys_ok_db: "sys_ok s \<Longrightarrow> rows_ok db \<Longrightarrow> same_edges (py_db s) db \<Longrightarrow> sys_ok (s\<lparr>py_db := db\<rparr>)"
  by (simp add: sys_ok_def same_edges_holds same_edges_ok)

lemma publish_step_ok:
  assumes "publish_step G l s t" "sys_ok s"
  shows "sys_ok t"
proof -
  have rows: "rows_ok (py_db s)" using assms(2) by (simp add: sys_ok_def)
  from assms(1) show ?thesis
  proof cases
    case (table db)
    with table_step_ok [OF table(3) rows] show ?thesis using sys_ok_db [OF assms(2)] by simp
  next
    case (runner_ready j v k img result now ref)
    with sys_ok_db [OF assms(2) job_rows_ok(3) [OF rows]] show ?thesis by simp
  next
    case (admin_gate k now img reason db g)
    with sys_ok_db [OF assms(2) gates_rows_ok(1) [OF rows] gates_same_edges(1)] show ?thesis by auto
  next
    case (admin_cancel k db r)
    with sys_ok_db [OF assms(2) gates_rows_ok(2) [OF rows] gates_same_edges(2)] show ?thesis by auto
  next
    case (admin_finalize k now db r)
    with sys_ok_db [OF assms(2) gates_rows_ok(3) [OF rows] gates_same_edges(3)] show ?thesis by auto
  next
    case (runtime_leave h)
    with assms(2) show ?thesis by (simp add: sys_ok_def distinct_remove1_map)
  next
    case (device_enter dev j i v)
    with assms(2) show ?thesis by (auto simp: sys_ok_def hold_ok_def)
  next
    case (device_read h)
    with assms(2) show ?thesis by (auto simp: sys_ok_def swap_devices hold_ok_def dest!: in_swap)
  next
    case (device_number h)
    with assms(2) show ?thesis by (auto simp: sys_ok_def swap_devices hold_ok_def dest!: in_swap)
  next
    case (device_reuse h b result now)
    with sys_ok_db [OF assms(2) job_rows_ok(3) [OF rows]] show ?thesis by simp
  next
    case (device_commit h rows q now db r)
    have h: "hold_ok (py_db s) h" and ok: "rows_ok (py_db s)" "edges_ok (py_db s)"
      using assms(2) device_commit(3) by (auto simp: sys_ok_def)
    have fits: "commit_fits q (py_db s)" using h device_commit by (simp add: commit_fits_def hold_ok_def)
    note C = commit_ok [OF device_commit(12) ok fits]
    have other: "hold_ok db x" if "x \<in> set (py_devices s)" "x \<noteq> h" for x
    proof -
      have "dh_device x \<noteq> ec_device q" "hold_ok (py_db s) x"
        using assms(2) that device_commit(3,6) by (auto simp: sys_ok_def distinct_map inj_on_def)
      moreover from this(2) have "identified (dh_device x)" by (simp add: hold_ok_def)
      ultimately show ?thesis
        using commit_other_devices [OF device_commit(12) ok(2), of "dh_device x"] fits by (simp add: hold_ok_def commit_fits_def)
    qed
    have "hold_ok db (h\<lparr>dh_rows := None, dh_revision := None\<rparr>)" using h by (simp add: hold_ok_def)
    with C other assms(2) show ?thesis unfolding device_commit(2) by (auto simp: sys_ok_def swap_devices dest!: in_swap)
  next
    case (device_leave h)
    with assms(2) show ?thesis by (auto simp: sys_ok_def distinct_remove1_map dest: notin_set_remove1)
  qed (use assms(2) in \<open>auto simp: sys_ok_def\<close>)
qed

lemma run_ok: "run_without G k s t \<Longrightarrow> sys_ok s \<Longrightarrow> sys_ok t"
  by (induction rule: run_without.induct) (auto intro: publish_step_ok)

lemma published_ok: "publish_reachable G s \<Longrightarrow> sys_ok s"
  using run_ok start_ok unfolding publish_reachable_def by blast

text \<open>
  What the publish service promises in every reachable state: a runtime whose retirement was answered as
  safe gets no new release, a device's newest bundle is complete, and contracts are numbered; and where
  it does not keep what it promises.
\<close>

section \<open>Retirement\<close>

text \<open>No current release was guarded for the runtime.\<close>

definition unreferenced :: "postgres \<Rightarrow> string \<Rightarrow> publish_db \<Rightarrow> bool" where
  "unreferenced G k db \<longleftrightarrow>
     (\<forall>v \<in> set (pd_variants db). \<forall>c \<in> set (pd_contracts db).
        vr_backend v = ''runner'' \<and> vr_status v = Published \<and> cv_id c = vr_contract v \<and> is_latest db c \<longrightarrow>
        (\<forall>m. vr_metadata v = Some m \<longrightarrow> metadata_key G m \<noteq> Some k))"

lemma unreferencedD:
  "unreferenced G k db \<Longrightarrow> v \<in> set (pd_variants db) \<Longrightarrow> c \<in> set (pd_contracts db) \<Longrightarrow> vr_backend v = ''runner'' \<Longrightarrow>
   vr_status v = Published \<Longrightarrow> cv_id c = vr_contract v \<Longrightarrow> is_latest db c \<Longrightarrow> vr_metadata v = Some m \<Longrightarrow> metadata_key G m \<noteq> Some k"
  unfolding unreferenced_def by blast

definition retired_for :: "postgres \<Rightarrow> string \<Rightarrow> publish_sys \<Rightarrow> bool" where
  "retired_for G k s \<longleftrightarrow> gate_at k (py_db s) \<noteq> None \<and> (\<forall>h \<in> set (py_runtimes s). hold_key h = k \<longrightarrow> h = AdminIn k) \<and>
     unreferenced G k (py_db s)"

text \<open>A safe answer establishes it.\<close>

lemma mentions_key: "metadata_key G m = Some k \<Longrightarrow> mentions G k img m"
  by (auto simp: metadata_key_def mentions_def split: option.splits if_splits)

lemma in_references:
  "(r, c, v) \<in> set (runner_references G k img db) \<longleftrightarrow>
     v \<in> set (pd_variants db) \<and> c \<in> set (pd_contracts db) \<and> r \<in> set (pd_operators db) \<and> vr_backend v = ''runner'' \<and>
     vr_status v = Published \<and> cv_id c = vr_contract v \<and> is_latest db c \<and> op_id r = cv_operator c \<and>
     (case vr_metadata v of None \<Rightarrow> False | Some m \<Rightarrow> mentions G k img m)"
  unfolding runner_references_def set_sort set_concat set_map image_image by (auto simp: image_iff)

lemma safe_unreferenced:
  assumes "runner_references G k img db = []" "rows_ok db"
  shows "unreferenced G k db"
  unfolding unreferenced_def
proof (intro ballI impI allI)
  fix v c m
  assume v: "v \<in> set (pd_variants db)" and c: "c \<in> set (pd_contracts db)" and m: "vr_metadata v = Some m"
    and cond: "vr_backend v = ''runner'' \<and> vr_status v = Published \<and> cv_id c = vr_contract v \<and> is_latest db c"
  from assms(2) c obtain r where r: "r \<in> set (pd_operators db)" "op_id r = cv_operator c"
    by (auto simp: rows_ok_def numbered_contracts_def)
  show "metadata_key G m \<noteq> Some k"
  proof
    assume "metadata_key G m = Some k"
    then have "mentions G k img m" by (rule mentions_key)
    with v c r cond m have "(r, c, v) \<in> set (runner_references G k img db)" by (simp add: in_references)
    with assms(1) show False by simp
  qed
qed

section \<open>It is kept by every step but a cancellation\<close>

definition published_like :: "variant_row \<Rightarrow> variant_row \<Rightarrow> bool" where
  "published_like v w \<longleftrightarrow> vr_status w = Published \<and> vr_backend w = vr_backend v \<and> vr_contract w = vr_contract v \<and> vr_metadata w = vr_metadata v"

lemma is_latest_before: "pd_contracts db' = pd_contracts db @ new \<Longrightarrow> is_latest db' c \<Longrightarrow> is_latest db c"
  by (simp add: is_latest_def contract_versions_def)

lemma unreferenced_kept:
  assumes "unreferenced G k db" "rows_ok db" "rows_ok db'" "pd_contracts db' = pd_contracts db @ new"
    and "\<And>v. v \<in> set (pd_variants db') \<Longrightarrow> vr_status v = Published \<Longrightarrow> \<exists>w \<in> set (pd_variants db). published_like v w"
  shows "unreferenced G k db'"
  unfolding unreferenced_def
proof (intro ballI impI allI)
  fix v c m
  assume v: "v \<in> set (pd_variants db')" and c: "c \<in> set (pd_contracts db')" and m: "vr_metadata v = Some m"
    and cond: "vr_backend v = ''runner'' \<and> vr_status v = Published \<and> cv_id c = vr_contract v \<and> is_latest db' c"
  from assms(5) [OF v] cond obtain w where w: "w \<in> set (pd_variants db)" "published_like v w" by blast
  from w(1) assms(2) obtain c0 where c0: "c0 \<in> set (pd_contracts db)" "cv_id c0 = vr_contract w"
    unfolding rows_ok_def by (metis imageE)
  moreover have "distinct (map cv_id (pd_contracts db'))" using assms(3) by (simp add: rows_ok_def numbered_contracts_def)
  ultimately have "c0 = c" using c w(2) cond unfolding assms(4) published_like_def
    by (metis (no_types, lifting) Un_iff distinct_map inj_on_def set_append)
  with assms(1) w c0 cond m is_latest_before [OF assms(4)] show "metadata_key G m \<noteq> Some k"
    by (intro unreferencedD [of G k db w c]) (auto simp: published_like_def)
qed

lemma published_update:
  assumes "\<And>v. vr_status (f v) = Published \<Longrightarrow> published_like (f v) v" "v \<in> set (sql_update P f t)" "vr_status v = Published"
  shows "\<exists>w \<in> set t. published_like v w"
proof -
  from assms(2) obtain w where "w \<in> set t" "v = f w \<or> v = w" by (auto simp: sql_update_def split: if_splits)
  with assms(1,3) show ?thesis by (auto simp: published_like_def)
qed

lemma table_step_published:
  assumes "table_step G db db'" "rows_ok db"
  shows "\<exists>new. pd_contracts db' = pd_contracts db @ new" "pd_gates db' = pd_gates db"
    "v \<in> set (pd_variants db') \<Longrightarrow> vr_status v = Published \<Longrightarrow> \<exists>w \<in> set (pd_variants db). published_like v w"
proof -
  have "(\<exists>new. pd_contracts db' = pd_contracts db @ new) \<and> pd_gates db' = pd_gates db \<and>
    (\<forall>v \<in> set (pd_variants db'). vr_status v = Published \<longrightarrow> (\<exists>w \<in> set (pd_variants db). published_like v w))"
    using assms(1)
  proof cases
    case (save A now i ci w c user operator row created)
    from save_ok [OF save assms(2)] show ?thesis by (auto simp: published_like_def)
  next
    case (compile now n x)
    have like: "vr_status (recompiled G now n v) = Published \<Longrightarrow> published_like (recompiled G now n v) v" for v
      by (simp add: recompiled_def published_like_def split: if_splits)
    consider "db' = db\<lparr>pd_variants := sql_update (variant_key_is n) (recompiled G now n) (pd_variants db)\<rparr>"
      | w where "db' = db\<lparr>pd_variants := pd_variants db @ [w]\<rparr>" "vr_status w = Compiled"
      using compile by (auto simp: upsert_variant_def Let_def split: option.splits if_splits)
    then show ?thesis
    proof cases
      case 1
      then show ?thesis using published_update [OF like] by simp
    qed (auto simp: published_like_def)
  next
    case (create now i v j)
    then show ?thesis by (auto simp: create_publish_job_def Let_def published_like_def split: if_splits)
  next
    case (running now i)
    then show ?thesis by (auto simp: mark_job_running_def update_publish_job_def published_like_def)
  next
    case (progress i event)
    then show ?thesis by (auto simp: update_job_progress_def update_publish_job_def published_like_def)
  next
    case (failed now i v m)
    let ?f = "\<lambda>w. w\<lparr>vr_status := if vr_status w = Published then Published else VariantFailed, vr_error := Some (last_text 8192 m), vr_updated := now\<rparr>"
    have like: "vr_status (?f w) = Published \<Longrightarrow> published_like (?f w) w" for w
      by (simp add: published_like_def split: if_splits)
    from failed show ?thesis
      by (auto simp: mark_job_failed_def update_publish_job_def update_variant_def Let_def intro: published_update [OF like])
  qed
  then show "\<exists>new. pd_contracts db' = pd_contracts db @ new" "pd_gates db' = pd_gates db"
    "v \<in> set (pd_variants db') \<Longrightarrow> vr_status v = Published \<Longrightarrow> \<exists>w \<in> set (pd_variants db). published_like v w" by auto
qed

lemma ready_variant:
  "v \<in> set (pd_variants (mark_job_ready G now j i ref result db)) \<Longrightarrow>
     v \<in> set (pd_variants db) \<or> vr_metadata v = Some (pg_jsonb G result)"
  by (auto simp: mark_job_ready_def update_variant_def update_publish_job_def sql_update_def published_variant_def split: if_splits)

lemma ready_unreferenced:
  assumes "unreferenced G k db" "metadata_key G (pg_jsonb G result) \<noteq> Some k"
  shows "unreferenced G k (mark_job_ready G now j i ref result db)"
proof -
  let ?db = "mark_job_ready G now j i ref result db"
  have l: "is_latest ?db = is_latest db" and c: "pd_contracts ?db = pd_contracts db"
    by (simp_all add: fun_eq_iff is_latest_def contract_versions_def mark_job_ready_def update_variant_def update_publish_job_def)
  show ?thesis
    unfolding unreferenced_def l c
  proof (intro ballI impI allI)
    fix v c m
    assume v: "v \<in> set (pd_variants ?db)" "c \<in> set (pd_contracts db)" "vr_metadata v = Some m"
      and cond: "vr_backend v = ''runner'' \<and> vr_status v = Published \<and> cv_id c = vr_contract v \<and> is_latest db c"
    from ready_variant [OF v(1)] assms(2) v cond unreferencedD [OF assms(1), of v c m] show "metadata_key G m \<noteq> Some k" by auto
  qed
qed

lemma unreferenced_cong:
  "pd_contracts db' = pd_contracts db \<Longrightarrow> pd_variants db' = pd_variants db \<Longrightarrow> unreferenced G k db' = unreferenced G k db"
  by (simp add: unreferenced_def is_latest_def contract_versions_def)

lemma commit_unreferenced:
  assumes "commit_edge_publish G now q db = (db', r)" "unreferenced G k db" "metadata_key G (pg_jsonb G (ec_result q)) = None"
  shows "unreferenced G k db'" "pd_gates db' = pd_gates db"
proof -
  have "unreferenced G k db' \<and> pd_gates db' = pd_gates db"
    using assms(1)
  proof (cases rule: commit_cases)
    case (committed db1)
    then have db1: "pd_contracts db1 = pd_contracts db" "pd_variants db1 = pd_variants db" "pd_gates db1 = pd_gates db"
      by (auto simp: upsert_deployment_def split: if_splits)
    have "unreferenced G k (db1\<lparr>pd_bundles := b, pd_members := m\<rparr>)" for b m
      using assms(2) unreferenced_cong [of "db1\<lparr>pd_bundles := b, pd_members := m\<rparr>" db] db1 by simp
    with db1(3) show ?thesis unfolding committed(4)
      by (simp add: ready_unreferenced assms(3)) (simp add: mark_job_ready_def update_variant_def update_publish_job_def)
  qed (use assms(2) in simp)
  then show "unreferenced G k db'" "pd_gates db' = pd_gates db" by auto
qed

lemma active_no_gate: "assert_active k img db = Inr () \<longleftrightarrow> gate_at k db = None"
  by (auto simp: assert_active_def split: option.splits if_splits)

lemma retired_step:
  assumes "publish_step G l s t" "l = None \<or> l \<noteq> Some k" "sys_ok s" "retired_for G k s"
  shows "retired_for G k t"
proof -
  have rows: "rows_ok (py_db s)" and g: "gates_ok (py_db s)" using assms(3) by (simp_all add: sys_ok_def rows_ok_def)
  have gate: "gate_at k (py_db s) \<noteq> None" and holds: "\<forall>h \<in> set (py_runtimes s). hold_key h = k \<longrightarrow> h = AdminIn k"
    and un: "unreferenced G k (py_db s)" using assms(4) by (auto simp: retired_for_def)
  have gates: "unreferenced G k db" if "\<exists>u. db = (py_db s)\<lparr>pd_gates := u\<rparr>" for db
    using that un unreferenced_cong [of db "py_db s"] by auto
  from assms(1) show ?thesis
  proof cases
    case (table db)
    note T = table_step_published [OF table(3) rows]
    from T(1) obtain new where new: "pd_contracts db = pd_contracts (py_db s) @ new" by blast
    have "unreferenced G k db" by (rule unreferenced_kept [OF un rows table_step_ok(1) [OF table(3) rows] new T(3)])
    with gate holds T(2) table(2) show ?thesis by (simp add: retired_for_def gate_at_def)
  next
    case (runner_enter k' img j v)
    with gate holds assms(4) show ?thesis by (auto simp: retired_for_def active_no_gate)
  next
    case (runner_ready j v k' img result now ref)
    then have "k' \<noteq> k" using gate by (auto simp: active_no_gate)
    with runner_ready(5) ready_unreferenced [OF un, of result] gate holds runner_ready(2) show ?thesis
      by (simp add: retired_for_def gate_at_def mark_job_ready_def update_variant_def update_publish_job_def)
  next
    case (admin_gate k' now img reason db gt)
    with gate holds gates [OF gates_only(1)] put_gate_spec(1) [OF admin_gate(4), of k] show ?thesis by (simp add: retired_for_def)
  next
    case (admin_cancel k' db r)
    with assms(2) gate holds gates [OF gates_only(2)] cancel_spec(2) [OF admin_cancel(4) g, of k] show ?thesis
      by (auto simp: retired_for_def)
  next
    case (admin_finalize k' now db r)
    with gate holds gates [OF gates_only(3)] finalize_spec(2) [OF admin_finalize(4), of k] show ?thesis
      by (auto simp: retired_for_def)
  next
    case (runtime_leave h)
    with assms(4) show ?thesis by (auto simp: retired_for_def dest: notin_set_remove1)
  next
    case (device_reuse h b result now)
    with ready_unreferenced [OF un, of result] gate holds show ?thesis
      by (simp add: retired_for_def gate_at_def mark_job_ready_def update_variant_def update_publish_job_def)
  next
    case (device_commit h rows q now db r)
    with commit_unreferenced [OF device_commit(12) un device_commit(11)] gate holds show ?thesis
      by (simp add: retired_for_def gate_at_def)
  qed (use assms(4) in \<open>auto simp: retired_for_def\<close>)
qed

lemma retired_run:
  "run_without G (Some k) s t \<Longrightarrow> sys_ok s \<Longrightarrow> retired_for G k s \<Longrightarrow> retired_for G k t"
  by (induction rule: run_without.induct) (auto dest: run_ok intro: retired_step)

text \<open>C6: Once a retirement of a runtime was answered as safe, and as long as it is not cancelled, the runtime
  stays gated and no current release is ever one that was published for it, however publications, saved
  contracts and other retirements interleave.\<close>

theorem safe_retirement_stays:
  assumes "publish_reachable G s" "AdminIn k \<in> set (py_runtimes s)" "gate_at k (py_db s) = Some g"
    and "ra_safe (retirement_answer G k img g (py_db s))" "run_without G (Some k) s t"
  shows "gate_at k (py_db t) \<noteq> None \<and>
     (\<forall>(r, c, v) \<in> set (runner_references G k img' (py_db t)). metadata_key G (get_or JNull (vr_metadata v)) \<noteq> Some k)"
proof -
  have ok: "sys_ok s" by (rule published_ok [OF assms(1)])
  then have "inj_on hold_key (set (py_runtimes s))" by (simp add: sys_ok_def distinct_map)
  then have "hold_key h = k \<Longrightarrow> h \<in> set (py_runtimes s) \<Longrightarrow> h = AdminIn k" for h
    using assms(2) by (auto dest: inj_onD [of _ _ h "AdminIn k"])
  moreover have "runner_references G k img (py_db s) = []" using assms(4) by (simp add: retirement_answer_def Let_def)
  ultimately have "retired_for G k s" using assms(3) safe_unreferenced ok by (auto simp: retired_for_def sys_ok_def)
  from retired_run [OF assms(5) ok this] show ?thesis
    by (auto simp: retired_for_def in_references get_or_def split: option.splits dest: unreferencedD)
qed

section \<open>Bundles and contracts\<close>

text \<open>C16: In every reachable state the newest bundle of a device was made of exactly the processors deployed on
  it, the revisions of its bundles are one, two, three and so on, and a device without bundles has no
  deployments.\<close>

theorem bundle_lists_deployments:
  assumes "publish_reachable G s" "identified d"
  shows "map bn_revision (device_bundles d (py_db s)) = [1..<Suc (length (device_bundles d (py_db s)))] \<and>
     (case get_latest_edge_bundle d (py_db s) of
        None \<Rightarrow> list_edge_deployments d None (py_db s) = []
      | Some b \<Rightarrow> mset (map bundled_member (list_edge_bundle_members (bn_id b) (py_db s))) =
                  mset (map deployed_member (list_edge_deployments d None (py_db s))))"
proof -
  have "device_ok d (py_db s)" using published_ok [OF assms(1)] assms(2) by (simp add: sys_ok_def edges_ok_def)
  then show ?thesis
    by (simp add: device_ok_def numbered_def bundle_members_of_def device_deployments assms(2) split: option.splits)
qed

text \<open>In every reachable state the versions of an operator's contracts are one, two, three and so on, no two of
  them have the same digest, and the contract a publication uses is the last one saved.\<close>

theorem contracts_numbered:
  assumes "publish_reachable G s"
  shows "map cv_version (contracts_of i (py_db s)) = [1..<Suc (length (contracts_of i (py_db s)))] \<and>
     distinct (map cv_sha256 (contracts_of i (py_db s))) \<and>
     latest_version i (py_db s) = (if contracts_of i (py_db s) = [] then None else Some (last (contracts_of i (py_db s))))"
proof -
  have n: "numbered_contracts (py_db s)" using published_ok [OF assms] by (simp add: sys_ok_def rows_ok_def)
  then have "distinct (map (\<lambda>r. (cv_operator r, cv_sha256 r)) (contracts_of i (py_db s)))"
    by (simp add: numbered_contracts_def contracts_of_def distinct_map_filter)
  then have "distinct (map cv_sha256 (contracts_of i (py_db s)))"
    by (simp add: distinct_map inj_on_def contracts_of_def)
  with n latest_contract [OF n, of i] show ?thesis by (simp add: numbered_contracts_def numbered_def)
qed

text \<open>Saving a contract that has the digest of an older version succeeds and answers that version, but the next
  compilation and publication still use the newest one.\<close>

theorem resaved_contract_not_current:
  assumes "rows_ok db" "save_virtual_contract A G now i ci w c user db = Inr (db', operator, row, False)"
    and "latest_version (op_id operator) db = Some newest" "cv_sha256 newest \<noteq> contract_sha256 A c"
  shows "cv_sha256 row = contract_sha256 A c \<and> latest_version (op_id operator) db' = Some newest \<and>
     cv_version row < cv_version newest"
proof -
  from assms(2) obtain db1 where db1: "insert_operator now i user w c db = Inr db1" "db' = db1"
    and row: "List.find (\<lambda>r. cv_operator r = op_id operator \<and> cv_sha256 r = contract_sha256 A c) (pd_contracts db1) = Some row"
    by (auto simp: save_virtual_contract_def Let_def split: sum.splits option.splits)
  have n: "numbered_contracts db" using assms(1) by (simp add: rows_ok_def)
  have c: "pd_contracts db' = pd_contracts db" using insert_operator_ok(2) [OF db1(1) n] db1(2) by simp
  have latest: "latest_version (op_id operator) db' = Some newest" using assms(3) by (simp add: latest_version_def c)
  let ?cs = "contracts_of (op_id operator) db"
  have r: "row \<in> set ?cs" "cv_sha256 row = contract_sha256 A c" using row db1(2) c
    by (auto simp: contracts_of_def dest: find_SomeD)
  have last: "newest = last ?cs" using latest_contract [OF n, of "op_id operator"] assms(3) by (auto split: if_splits)
  have num: "numbered cv_version ?cs" using n by (simp add: numbered_contracts_def)
  from r(1) obtain j where j: "j < length ?cs" "row = ?cs ! j" by (metis in_set_conv_nth)
  have v: "cv_version (?cs ! m) = Suc m" if "m < length ?cs" for m
    using arg_cong [OF num [unfolded numbered_def], of "\<lambda>xs. xs ! m"] that by (simp add: nth_upt del: upt_Suc)
  have ne: "?cs \<noteq> []" using j(1) by auto
  have l: "newest = ?cs ! (length ?cs - 1)" using last last_conv_nth [OF ne] by simp
  have "j \<noteq> length ?cs - 1" using assms(4) r(2) j(2) l by auto
  then have "cv_version row < cv_version newest" using v [OF j(1)] v [of "length ?cs - 1"] j l by auto
  with latest r(2) show ?thesis by simp
qed

end
