(* ===== verification/Publish_Jobs.thy ===== *)
theory Publish_Jobs
  imports Publish_Theorems
begin

text \<open>
  A publish job as one function: it is a run of the steps of the theory Publish_Theorems, and it ends with its
  job ready or failed.
\<close>

section \<open>Rows that stay\<close>

definition same_rows :: "publish_db \<Rightarrow> publish_db \<Rightarrow> bool" where
  "same_rows db db' \<longleftrightarrow> map pj_id (pd_jobs db') = map pj_id (pd_jobs db) \<and> map vr_id (pd_variants db') = map vr_id (pd_variants db)"

lemma same_rows_refl [simp]: "same_rows db db"
  by (simp add: same_rows_def)

lemma same_rows_trans: "same_rows db db1 \<Longrightarrow> same_rows db1 db2 \<Longrightarrow> same_rows db db2"
  by (simp add: same_rows_def)

lemma same_rows_jobs [simp]:
  "same_rows db (mark_job_running now i db1) = same_rows db db1" "same_rows db (update_job_progress G i e db1) = same_rows db db1"
  "same_rows db (mark_job_ready G now i v ref res db1) = same_rows db db1" "same_rows db (mark_job_failed now i v m db1) = same_rows db db1"
  by (simp_all add: same_rows_def mark_job_running_def update_job_progress_def mark_job_ready_def mark_job_failed_def
      update_publish_job_def update_variant_def map_key_sql_update ready_job_def published_variant_def Let_def)

lemma emit_rows [simp]: "same_rows db (jw_db (emit V j b st sg m d w)) = same_rows db (jw_db w)"
  by (simp add: emit_def put_event_def Let_def)

lemma say_rows [simp]: "same_rows db (jw_db (say V t sg m d w)) = same_rows db (jw_db w)"
  by (simp add: say_def)

lemma say_frame [simp]: "jw_disk (say V t sg m d w) = jw_disk w" "jw_catalog (say V t sg m d w) = jw_catalog w"
  by (simp_all add: say_def emit_def put_event_def Let_def)

lemma emit_calls_rows [simp]: "same_rows db (jw_db (emit_calls V t calls w)) = same_rows db (jw_db w)"
  by (induction V t calls w rule: emit_calls.induct) simp_all

section \<open>How a publication ends\<close>

definition job_outcome ::
  "'e publish_env \<Rightarrow> int \<Rightarrow> 'e publish_task \<Rightarrow> job_world \<Rightarrow> job_world \<times> (job_failure + json \<times> string) \<Rightarrow> bool" where
  "job_outcome V now t w x \<longleftrightarrow> same_rows (jw_db w) (jw_db (fst x)) \<and>
     (\<forall>result ref. snd x = Inr (result, ref) \<longrightarrow>
        (\<exists>db. same_rows (jw_db w) db \<and> jw_db (fst x) = mark_job_ready (sx_postgres V) now (tk_job t) (tk_variant t) ref result db))"

lemma outcome_failed [simp]: "job_outcome V now t w (w', Inl f) \<longleftrightarrow> same_rows (jw_db w) (jw_db w')"
  by (simp add: job_outcome_def)

lemma outcome_ready:
  "jw_db w' = mark_job_ready (sx_postgres V) now (tk_job t) (tk_variant t) ref result db \<Longrightarrow> same_rows (jw_db w) db \<Longrightarrow>
     job_outcome V now t w (w', Inr (result, ref))"
  by (auto simp: job_outcome_def)

lemma outcome_after: "job_outcome V now t w1 x \<Longrightarrow> same_rows (jw_db w) (jw_db w1) \<Longrightarrow> job_outcome V now t w x"
  unfolding job_outcome_def by (blast intro: same_rows_trans)

lemma guarded_outcome: "job_outcome V now t w (publish_guarded V now t k runtime key img w)"
  by (auto simp: publish_guarded_def Let_def intro!: outcome_ready split: sum.splits exn.splits prod.splits)

lemma runner_outcome: "job_outcome V now t w (publish_runner V builds now t k w)"
  by (auto simp: publish_runner_def Let_def split: sum.splits prod.splits intro!: outcome_after [OF guarded_outcome])

lemma reuse_outcome:
  assumes "try_reuse V now t k rows w = (w', r)"
  shows "same_rows (jw_db w) (jw_db w')" "r = Some done \<Longrightarrow> job_outcome V now t w (w', Inr done)"
  using assms by (auto simp: try_reuse_def Let_def intro!: outcome_ready split: option.splits prod.splits)

lemma upsert_deployment_rows: "upsert_deployment now q db = Inr db' \<Longrightarrow> same_rows db db'"
  by (auto simp: upsert_deployment_def same_rows_def split: if_splits)

lemma commit_rows:
  assumes "commit_edge_publish G now q db = (db', r)"
  shows "same_rows db db'"
    "r = Inr i \<Longrightarrow> \<exists>db1. same_rows db db1 \<and> db' = mark_job_ready G now (ec_job q) (ec_variant q) (ec_ref q) (ec_result q) db1"
proof -
  have "same_rows db db' \<and> (r = Inr i \<longrightarrow> (\<exists>db1. same_rows db db1 \<and> db' = mark_job_ready G now (ec_job q) (ec_variant q) (ec_ref q) (ec_result q) db1))"
    for i using assms
  proof (cases rule: commit_cases)
    case (committed db1)
    have "same_rows db (db1\<lparr>pd_bundles := b, pd_members := m\<rparr>)" for b m
      using upsert_deployment_rows [OF committed(1)] by (simp add: same_rows_def)
    then show ?thesis unfolding committed(4) by auto
  qed simp
  then show "same_rows db db'"
    "r = Inr i \<Longrightarrow> \<exists>db1. same_rows db db1 \<and> db' = mark_job_ready G now (ec_job q) (ec_variant q) (ec_ref q) (ec_result q) db1" by blast+
qed

lemma commit_outcome:
  assumes "same_rows (jw_db w) (jw_db w1)" "ec_job q = tk_job t" "ec_variant q = tk_variant t" "ec_ref q = ref" "ec_result q = result"
  shows "job_outcome V now t w
    (case commit_edge_publish (sx_postgres V) now q (jw_db w1) of
       (db, Inl e) \<Rightarrow> (w1\<lparr>jw_db := db\<rparr>, Inl (Raised e)) | (db, Inr _) \<Rightarrow> (w1\<lparr>jw_db := db\<rparr>, Inr (result, ref)))"
proof -
  obtain db r where c: "commit_edge_publish (sx_postgres V) now q (jw_db w1) = (db, r)" by fastforce
  show ?thesis
  proof (cases r)
    case (Inl e)
    with same_rows_trans [OF assms(1) commit_rows(1) [OF c]] show ?thesis by (simp add: c)
  next
    case (Inr i)
    from commit_rows(2) [OF c Inr] same_rows_trans [OF assms(1)] assms(2-5) show ?thesis
      by (auto simp: c Inr intro!: outcome_ready)
  qed
qed

lemma commit_bundle_outcome: "job_outcome V now t w (commit_bundle V now F t k members artifact q b w)"
  unfolding commit_bundle_def Let_def by (rule commit_outcome) (simp_all add: commit_request_def)

lemma build_outcome: "job_outcome V now t w (build_and_commit V now F t k members artifact resolution w)"
  by (auto simp: build_and_commit_def Let_def split: prod.splits sum.splits intro!: outcome_after [OF commit_bundle_outcome])

lemma pack_outcome: "job_outcome V now t w (pack_and_build V now F t k rows w)"
  by (auto simp: pack_and_build_def Let_def split: prod.splits sum.splits intro!: outcome_after [OF build_outcome])

lemma locked_outcome: "job_outcome V now t w (publish_locked V now F t k w)"
proof -
  let ?w1 = "say V t ''CHECKING_BUNDLE_REUSE'' reuse_check_text
      (Some (JObj [(''edgeIdentity'', identity_json (kn_identity k))])) w"
  let ?rows = "list_edge_deployments (native_device (tk_user t) k) None (jw_db ?w1)"
  obtain w2 r where c: "try_reuse V now t k ?rows ?w1 = (w2, r)" by fastforce
  have "job_outcome V now t ?w1 (publish_locked V now F t k w)"
  proof (cases r)
    case None
    then show ?thesis
      using outcome_after [OF pack_outcome reuse_outcome(1) [OF c]] by (simp add: publish_locked_def c Let_def)
  next
    case (Some p)
    then show ?thesis using reuse_outcome(2) [OF c Some] by (simp add: publish_locked_def c Let_def)
  qed
  then show ?thesis by (rule outcome_after) simp
qed

lemma native_outcome: "job_outcome V now t w (publish_native V now F t k w)"
  unfolding publish_native_def by (rule outcome_after [OF locked_outcome]) simp

lemma child_outcome: "job_outcome V now t w (publish_child V builds now F t w)"
  by (simp add: publish_child_def runner_outcome native_outcome split: backend_child.split)

section \<open>A job ends\<close>

lemma rows_at:
  assumes "same_rows db db'"
  shows "publish_job_at i db' = None \<longleftrightarrow> publish_job_at i db = None" "variant_at i db' = None \<longleftrightarrow> variant_at i db = None"
  using assms unfolding same_rows_def at_None by (metis list.set_map)+

lemma find_update_at:
  "(\<And>r. key (f r) = key r) \<Longrightarrow>
     List.find (\<lambda>r. key r = i) (sql_update (\<lambda>r. key r = i) f t) = map_option f (List.find (\<lambda>r. key r = i) t)"
  by (subst find_sql_update) (auto intro!: map_option_cong dest: find_SomeD)

lemma at_ready:
  "publish_job_at i (mark_job_ready G now i v ref result db) = map_option (ready_job G now ref result) (publish_job_at i db)"
  "variant_at v (mark_job_ready G now i v ref result db) = map_option (published_variant G now ref result) (variant_at v db)"
  unfolding publish_job_at_def variant_at_def
  by (simp_all add: mark_job_ready_def update_variant_def update_publish_job_def find_update_at ready_job_def published_variant_def)

lemma at_failed:
  "publish_job_at i (mark_job_failed now i v m db) =
     map_option (\<lambda>j. j\<lparr>pj_status := JobFailed, pj_error := Some (last_text 8192 m), pj_finished := Some now\<rparr>) (publish_job_at i db)"
  unfolding publish_job_at_def
  by (simp add: mark_job_failed_def update_variant_def update_publish_job_def find_update_at Let_def)

text \<open>C17: A job that is executed ends, whatever the build service, the resolver, the disk and the publisher answer: it is
  ready, with its variant published under the same reference and with the same result, or it failed with a message.\<close>

theorem executed_job_ends:
  assumes "publish_job_at (tk_job t) (jw_db w) \<noteq> None" "variant_at (tk_variant t) (jw_db w) \<noteq> None"
  shows "\<exists>j v. publish_job_at (tk_job t) (jw_db (execute_publish_job V builds now F t w)) = Some j \<and>
     variant_at (tk_variant t) (jw_db (execute_publish_job V builds now F t w)) = Some v \<and>
     (pj_status j = JobReady \<and> pj_ref j \<noteq> None \<and> pj_error j = None \<and> vr_status v = Published \<and> vr_ref v = pj_ref j \<and> vr_metadata v = pj_result j \<or>
      pj_status j = JobFailed \<and> pj_error j \<noteq> None)"
proof -
  let ?w = "say V t ''PREPARING'' started_text None (w\<lparr>jw_db := mark_job_running now (tk_job t) (jw_db w)\<rparr>)"
  obtain w2 r where c: "publish_child V builds now F t ?w = (w2, r)" by fastforce
  have o: "job_outcome V now t w (w2, r)"
    using outcome_after [OF child_outcome [of V now t ?w builds F], of w] by (simp add: c)
  show ?thesis
  proof (cases r)
    case (Inl f)
    with o have s: "same_rows (jw_db w) (jw_db w2)" by simp
    let ?db = "mark_job_failed now (tk_job t) (tk_variant t) (job_failure_text V f) (jw_db w2)"
    have e: "jw_db (execute_publish_job V builds now F t w) = ?db" by (simp add: execute_publish_job_def c Inl)
    have "same_rows (jw_db w) ?db" using s by simp
    with assms(2) obtain v where v: "variant_at (tk_variant t) ?db = Some v" using rows_at(2) [of _ ?db] by fastforce
    from assms(1) obtain j where j: "publish_job_at (tk_job t) (jw_db w2) = Some j" using rows_at(1) [OF s] by fastforce
    show ?thesis unfolding e v at_failed j by simp
  next
    case (Inr p)
    obtain result ref where p: "p = (result, ref)" by (cases p)
    from o obtain db where db: "same_rows (jw_db w) db"
      "jw_db w2 = mark_job_ready (sx_postgres V) now (tk_job t) (tk_variant t) ref result db"
      unfolding job_outcome_def Inr p by auto
    have e: "jw_db (execute_publish_job V builds now F t w) = jw_db w2" by (simp add: execute_publish_job_def c Inr)
    from assms(1) obtain j where j: "publish_job_at (tk_job t) db = Some j" using rows_at(1) [OF db(1)] by fastforce
    from assms(2) obtain v where v: "variant_at (tk_variant t) db = Some v" using rows_at(2) [OF db(1)] by fastforce
    show ?thesis unfolding e db(2) at_ready j v by (simp add: ready_job_def published_variant_def)
  qed
qed

section \<open>A job is a run of steps\<close>

text \<open>A run of steps that cancel nothing.\<close>

definition quiet :: "postgres \<Rightarrow> publish_sys \<Rightarrow> publish_sys \<Rightarrow> bool" where
  "quiet G s t \<longleftrightarrow> (\<forall>k. run_without G k s t)"

lemma quiet_refl [simp]: "quiet G s s"
  by (simp add: quiet_def run_refl)

lemma quiet_step: "quiet G s t \<Longrightarrow> publish_step G None t u \<Longrightarrow> quiet G s u"
  unfolding quiet_def by (blast intro: run_step)

lemma run_trans: "run_without G k t u \<Longrightarrow> run_without G k s t \<Longrightarrow> run_without G k s u"
  by (induction rule: run_without.induct) (auto intro: run_step)

lemma quiet_trans: "quiet G s t \<Longrightarrow> quiet G t u \<Longrightarrow> quiet G s u"
  unfolding quiet_def by (blast intro: run_trans)

lemma quiet_table: "quiet G s (t\<lparr>py_db := db\<rparr>) \<Longrightarrow> table_step G db db' \<Longrightarrow> quiet G s (t\<lparr>py_db := db'\<rparr>)"
  using quiet_step [of G s "t\<lparr>py_db := db\<rparr>" "t\<lparr>py_db := db'\<rparr>"] publish_step.table [of G "t\<lparr>py_db := db\<rparr>" db'] by simp

lemma quiet_emit: "quiet (sx_postgres V) s (u\<lparr>py_db := jw_db w\<rparr>) \<Longrightarrow> quiet (sx_postgres V) s (u\<lparr>py_db := jw_db (emit V j b st sg m d w)\<rparr>)"
  by (erule quiet_table) (simp add: emit_def put_event_def Let_def table_step.progress)

lemma quiet_say: "quiet (sx_postgres V) s (u\<lparr>py_db := jw_db w\<rparr>) \<Longrightarrow> quiet (sx_postgres V) s (u\<lparr>py_db := jw_db (say V t sg m d w)\<rparr>)"
  unfolding say_def by (rule quiet_emit)

lemma quiet_calls:
  "quiet (sx_postgres V) s (u\<lparr>py_db := jw_db w\<rparr>) \<Longrightarrow> quiet (sx_postgres V) s (u\<lparr>py_db := jw_db (emit_calls V t calls w)\<rparr>)"
  by (induction V t calls w rule: emit_calls.induct) (auto intro: quiet_say)

text \<open>The answers of the build service have texts where it writes texts.\<close>

definition text_or_null :: "json \<Rightarrow> bool" where
  "text_or_null j \<longleftrightarrow> j = JNull \<or> (\<exists>s. j = JStr s)"

definition text_keys :: "json \<Rightarrow> bool" where
  "text_keys runtime \<longleftrightarrow> text_or_null (get_field runtime ''runtimeEnvKey'') \<and> text_or_null (get_field runtime ''envKey'')"

lemma metadata_of_result:
  assumes "ready_runtime V runtime = Inr (key, img)" "text_keys runtime"
  shows "metadata_key G (pg_jsonb G (runner_result runtime img' k rel)) = Some key"
proof -
  have d: "distinct (map fst d) \<Longrightarrow> json_member (Some (pg_jsonb G (JObj d))) n = map_option (pg_jsonb G) (dict_get d n)" for d n
    by (simp add: jsonb_obj dict_get_pg_jsonb del: pg_jsonb.simps)
  have m: "json_member (Some (pg_jsonb G (runner_result runtime img' k rel))) n = Some (pg_jsonb G (get_field runtime n))"
    if "n = ''runtimeEnvKey'' \<or> n = ''envKey''" for n
    unfolding runner_result_def using that by (subst d) auto
  show ?thesis
    using assms unfolding metadata_key_def m [OF disjI1 [OF refl]] m [OF disjI2 [OF refl]]
    by (auto simp: ready_runtime_def text_keys_def text_or_null_def json_text_def shown_def str_of_def Let_def split: if_splits)
qed

text \<open>Whether the lock a job will ask for is free.\<close>

definition lock_free :: "'e publish_env \<Rightarrow> (string list \<Rightarrow> progress_call list \<times> (exn + json)) \<Rightarrow> 'e publish_task \<Rightarrow> publish_sys \<Rightarrow> bool" where
  "lock_free V builds t s \<longleftrightarrow>
     (case tk_child t of
        NativeChild k \<Rightarrow> native_device (tk_user t) k \<notin> dh_device ` set (py_devices s)
      | RunnerChild k \<Rightarrow>
          (\<forall>rs calls runtime. builds rs = (calls, Inr runtime) \<longrightarrow> text_keys runtime \<and>
             (\<forall>key img. ready_runtime V runtime = Inr (key, img) \<longrightarrow> key \<notin> hold_key ` set (py_runtimes s))))"

lemma guarded_steps:
  assumes "ready_runtime V runtime = Inr (key, img)" "text_keys runtime" "key \<notin> hold_key ` set (py_runtimes s)"
  shows "quiet (sx_postgres V) (s\<lparr>py_db := jw_db w\<rparr>) (s\<lparr>py_db := jw_db (fst (publish_guarded V now t k runtime key img w))\<rparr>)"
proof (cases "assert_active key img (jw_db w)")
  case (Inl e)
  then show ?thesis by (simp add: publish_guarded_def split: exn.split)
next
  case (Inr u)
  let ?G = "sx_postgres V" and ?h = "JobIn (tk_job t) (tk_variant t) key img"
  let ?in = "s\<lparr>py_runtimes := ?h # py_runtimes s\<rparr>"
  have comm: "s\<lparr>py_db := d, py_runtimes := r\<rparr> = s\<lparr>py_runtimes := r, py_db := d\<rparr>" for d r by simp
  have enter: "quiet ?G (s\<lparr>py_db := jw_db w\<rparr>) (?in\<lparr>py_db := jw_db w\<rparr>)"
    using quiet_step [OF quiet_refl publish_step.runner_enter [of key "s\<lparr>py_db := jw_db w\<rparr>" img ?G "tk_job t" "tk_variant t"]]
      assms(3) Inr by (simp add: comm)
  have leave: "quiet ?G (s\<lparr>py_db := jw_db w\<rparr>) (s\<lparr>py_db := db\<rparr>)" if "quiet ?G (s\<lparr>py_db := jw_db w\<rparr>) (?in\<lparr>py_db := db\<rparr>)" for db
    using quiet_step [OF that publish_step.runtime_leave [of ?G "?in\<lparr>py_db := db\<rparr>" ?h]] by simp
  have ready: "quiet ?G (s\<lparr>py_db := jw_db w\<rparr>) (?in\<lparr>py_db := mark_job_ready ?G now (tk_job t) (tk_variant t) ref (runner_result runtime img k rel) db\<rparr>)"
    if "quiet ?G (s\<lparr>py_db := jw_db w\<rparr>) (?in\<lparr>py_db := db\<rparr>)" "assert_active key img db = Inr ()" for db ref rel
    using quiet_step [OF that(1) publish_step.runner_ready [of "tk_job t" "tk_variant t" key img]] that(2)
      metadata_of_result [OF assms(1,2)] by simp
  show ?thesis
    unfolding publish_guarded_def Inr Let_def
    by (auto split: sum.splits prod.splits intro!: leave quiet_say ready enter)
qed

lemma runner_steps:
  assumes "lock_free V builds t s" "tk_child t = RunnerChild k"
  shows "quiet (sx_postgres V) (s\<lparr>py_db := jw_db w\<rparr>) (s\<lparr>py_db := jw_db (fst (publish_runner V builds now t k w))\<rparr>)"
proof -
  let ?G = "sx_postgres V"
  have guarded: "quiet ?G s' (s\<lparr>py_db := jw_db (fst (publish_guarded V now t k runtime key img w1))\<rparr>)"
    if "builds rs = (calls, Inr runtime)" "ready_runtime V runtime = Inr (key, img)" "quiet ?G s' (s\<lparr>py_db := jw_db w1\<rparr>)"
    for rs calls runtime key img w1 s'
  proof -
    have "text_keys runtime" "key \<notin> hold_key ` set (py_runtimes s)" using assms that(1,2) by (auto simp: lock_free_def)
    from quiet_trans [OF that(3) guarded_steps [OF that(2) this]] show ?thesis .
  qed
  show ?thesis
    unfolding publish_runner_def Let_def
    by (auto split: sum.splits prod.splits intro!: guarded quiet_say quiet_calls)
qed

section \<open>A native publication is a run of steps\<close>

lemma native_result_keys:
  "\<exists>d. native_publish_result k artifact b reused = JObj d \<and>
     map fst d = [''packageName'', ''className'', ''processorType'', ''artifactFile'', ''deploymentRequired'', ''deploymentMode'',
       ''edgeIdentity'', ''targetPlatform'', ''edgeBundle'', ''reusedExistingBundle'', ''deploymentHint'']"
  unfolding native_publish_result_def by (intro exI conjI, rule refl) (simp only: list.map fst_conv)

lemma no_runtime_in_result: "metadata_key G (pg_jsonb G (native_publish_result k artifact b reused)) = None"
proof -
  obtain d where d: "native_publish_result k artifact b reused = JObj d"
    and keys: "map fst d = [''packageName'', ''className'', ''processorType'', ''artifactFile'', ''deploymentRequired'', ''deploymentMode'',
       ''edgeIdentity'', ''targetPlatform'', ''edgeBundle'', ''reusedExistingBundle'', ''deploymentHint'']"
    using native_result_keys [of k artifact b reused] by (elim exE conjE)
  have dist: "distinct (map fst d)" unfolding keys by simp
  have "n \<in> {''runtimeEnvKey'', ''envKey''} \<Longrightarrow> n \<notin> set (map fst d)" for n unfolding keys by auto
  then have "n \<in> {''runtimeEnvKey'', ''envKey''} \<Longrightarrow> json_member (Some (pg_jsonb G (JObj d))) n = None" for n
    by (simp add: jsonb_obj dict_get_pg_jsonb [OF dist] map_of_eq_None_iff del: pg_jsonb.simps)
  then show ?thesis by (simp add: d metadata_key_def json_text_def del: pg_jsonb.simps)
qed

text \<open>The system with the lock of a device held.\<close>

definition held :: "publish_sys \<Rightarrow> device_hold \<Rightarrow> job_world \<Rightarrow> publish_sys" where
  "held s h w = \<lparr>py_db = jw_db w, py_runtimes = py_runtimes s, py_devices = h # py_devices s\<rparr>"

lemma held_say: "quiet (sx_postgres V) r (held s h w) \<Longrightarrow> quiet (sx_postgres V) r (held s h (say V t sg m d w))"
  using quiet_say [where s = r and u = "held s h w" and w = w] by (simp add: held_def)

lemma held_calls: "quiet (sx_postgres V) r (held s h w) \<Longrightarrow> quiet (sx_postgres V) r (held s h (emit_calls V t calls w))"
  using quiet_calls [where s = r and u = "held s h w" and w = w] by (simp add: held_def)

lemma held_disk [simp]: "held s h (w\<lparr>jw_disk := d\<rparr>) = held s h w"
  by (simp add: held_def)

lemma device_enter_held:
  assumes "dh_device h \<notin> dh_device ` set (py_devices s)" "identified (dh_device h)" "dh_rows h = None" "dh_revision h = None"
  shows "publish_step G None (s\<lparr>py_db := jw_db w\<rparr>) (held s h w)"
proof -
  have "h = \<lparr>dh_device = dh_device h, dh_job = dh_job h, dh_operator = dh_operator h, dh_variant = dh_variant h,
      dh_rows = None, dh_revision = None\<rparr>" using assms(3,4) by (cases h) simp
  with publish_step.device_enter [of "dh_device h" "s\<lparr>py_db := jw_db w\<rparr>" G "dh_job h" "dh_operator h" "dh_variant h"] assms(1,2)
  show ?thesis by (cases s) (simp add: held_def)
qed

lemma swap_head: "dh_device h \<notin> dh_device ` set xs \<Longrightarrow> swap h h' (h # xs) = h' # xs"
  by (induction xs) (auto simp: swap_def)

lemma held_read:
  assumes "quiet G r (held s h w)" "dh_device h \<notin> dh_device ` set (py_devices s)"
  shows "quiet G r (held s (h\<lparr>dh_rows := Some (list_edge_deployments (dh_device h) None (jw_db w))\<rparr>) w)"
    "quiet G r (held s (h\<lparr>dh_revision := Some (next_edge_bundle_revision (dh_device h) (jw_db w))\<rparr>) w)"
  using quiet_step [OF assms(1) publish_step.device_read [of h "held s h w" G]]
    quiet_step [OF assms(1) publish_step.device_number [of h "held s h w" G]]
  by (simp_all add: held_def swap_head [OF assms(2)])

lemma latest_say [simp]:
  "get_latest_edge_bundle d (jw_db (say V t sg m det w)) = get_latest_edge_bundle d (jw_db w)"
  by (simp add: say_def emit_def put_event_def Let_def update_job_progress_def update_publish_job_def
      get_latest_edge_bundle_def device_bundles_def)

definition device_hold_of :: "'e publish_task \<Rightarrow> native_contract \<Rightarrow> deployment_row list \<Rightarrow> device_hold" where
  "device_hold_of t k rows =
     \<lparr>dh_device = native_device (tk_user t) k, dh_job = tk_job t, dh_operator = tk_operator t, dh_variant = tk_variant t,
      dh_rows = Some rows, dh_revision = None\<rparr>"

lemma reuse_steps:
  assumes "quiet (sx_postgres V) r (held s (device_hold_of t k rows) w)" "try_reuse V now t k rows w = (w', p)"
  shows "quiet (sx_postgres V) r (held s (device_hold_of t k rows) w')"
proof -
  let ?h = "device_hold_of t k rows"
  have ready: "quiet (sx_postgres V) r (held s ?h (w1\<lparr>jw_db := mark_job_ready (sx_postgres V) now (tk_job t) (tk_variant t) (bn_ref b) result (jw_db w1)\<rparr>))"
    if "quiet (sx_postgres V) r (held s ?h w1)" "get_latest_edge_bundle (native_device (tk_user t) k) (jw_db w1) = Some b"
      "metadata_key (sx_postgres V) (pg_jsonb (sx_postgres V) result) = None" for w1 b result
    using quiet_step [OF that(1) publish_step.device_reuse [of ?h "held s ?h w1" b "sx_postgres V" result now]] that(2,3)
    by (simp add: held_def device_hold_of_def)
  show ?thesis
    using assms by (auto simp: try_reuse_def Let_def reusable_bundle_def reused_result_def no_runtime_in_result
        split: option.splits prod.splits if_splits sum.splits intro!: ready held_say)
qed

lemma commit_steps:
  assumes "quiet (sx_postgres V) r (held s h w)" "dh_device h \<notin> dh_device ` set (py_devices s)"
    and "h = (device_hold_of t k rows)\<lparr>dh_revision := Some (br_revision q)\<rparr>"
    and "members = other_members t rows @ [(candidate t k)\<lparr>em_artifact := artifact\<rparr>]"
  shows "\<exists>h'. dh_device h' = dh_device h \<and> quiet (sx_postgres V) r (held s h' (fst (commit_bundle V now F t k members artifact q b w)))"
proof -
  let ?G = "sx_postgres V" and ?h' = "h\<lparr>dh_rows := None, dh_revision := None\<rparr>"
  have step: "quiet ?G r (held s ?h' (w1\<lparr>jw_db := db\<rparr>))"
    if "quiet ?G r (held s h w1)" "commit_edge_publish ?G now (commit_request t k F members artifact q (sx_resolver V) b ref
          (native_publish_result k artifact bx re)) (jw_db w1) = (db, res)" for w1 db res ref bx re
  proof -
    have "publish_step ?G None (held s h w1)
        ((held s h w1)\<lparr>py_db := db, py_devices := swap h ?h' (py_devices (held s h w1))\<rparr>)"
      by (rule publish_step.device_commit [where rows = rows and r = res and now = now and
            q = "commit_request t k F members artifact q (sx_resolver V) b ref (native_publish_result k artifact bx re)"])
        (use that(2) assms(3,4) in \<open>simp_all add: held_def device_hold_of_def commit_request_def committed_member_def
           candidate_def other_members_def no_runtime_in_result\<close>)
    from quiet_step [OF that(1) this] show ?thesis by (simp add: held_def swap_head [OF assms(2)])
  qed
  show ?thesis
    unfolding commit_bundle_def Let_def
    by (intro exI [of _ ?h']) (auto split: prod.splits sum.splits intro!: step held_say assms(1))
qed

lemma build_steps:
  assumes "quiet (sx_postgres V) r (held s (device_hold_of t k rows) w)"
    and "native_device (tk_user t) k \<notin> dh_device ` set (py_devices s)"
    and "members = other_members t rows @ [(candidate t k)\<lparr>em_artifact := artifact\<rparr>]"
  shows "\<exists>h'. dh_device h' = native_device (tk_user t) k \<and>
    quiet (sx_postgres V) r (held s h' (fst (build_and_commit V now F t k members artifact resolution w)))"
proof -
  let ?h = "device_hold_of t k rows"
  define n where "n = next_edge_bundle_revision (native_device (tk_user t) k) (jw_db w)"
  define h where "h = ?h\<lparr>dh_revision := Some n\<rparr>"
  have dev: "dh_device ?h = native_device (tk_user t) k" "dh_device h = native_device (tk_user t) k"
    by (simp_all add: h_def device_hold_of_def)
  have r: "quiet (sx_postgres V) r (held s h w)"
    using held_read(2) [OF assms(1)] assms(2) by (simp add: dev(1) h_def n_def)
  define q where "q = \<lparr>br_user = tk_user t, br_target = kn_target k, br_token = ei_token (kn_identity k),
    br_edge = ei_edge (kn_identity k), br_revision = n, br_members = members, br_resolution = resolution\<rparr>"
  define w1 where "w1 = say V t ''BUILDING_BUNDLE'' building_bundle_text (Some (JObj
             [(''revision'', JInt (int n)), (''dependencyPackageCount'', JInt (int (package_count resolution))),
              (''processorCount'', JInt (int (length members)))])) w"
  obtain stages d b where c: "build_edge_bundle (sx_authoring V) (sx_bundle V) (sx_resolver V) (sx_bundle_root V)
      (fn_bundle_tmp F) q (jw_disk w1) = (stages, d, b)" by (metis prod_cases3)
  define w2 where "w2 = (emit_calls V t (map (\<lambda>(s, j). (s, bundle_message s, Some j)) stages) w1)\<lparr>jw_disk := d\<rparr>"
  have w2: "quiet (sx_postgres V) r (held s h w2)"
    unfolding w2_def w1_def held_disk by (intro held_calls held_say r)
  have eq: "build_and_commit V now F t k members artifact resolution w =
      (case b of Inl f \<Rightarrow> (w2, Inl (edge_job_failure t k members f)) | Inr b \<Rightarrow> commit_bundle V now F t k members artifact q b w2)"
    unfolding build_and_commit_def Let_def n_def [symmetric] q_def [symmetric] w1_def [symmetric] c w2_def by simp
  have h: "h = ?h\<lparr>dh_revision := Some (br_revision q)\<rparr>" by (simp add: h_def q_def)
  show ?thesis
  proof (cases b)
    case (Inl f)
    then show ?thesis using w2 dev(2) by (auto simp: eq)
  next
    case (Inr b')
    from commit_steps [OF w2 _ h assms(3)] assms(2) show ?thesis by (simp add: eq Inr dev)
  qed
qed

lemma pack_steps:
  assumes "quiet (sx_postgres V) r (held s (device_hold_of t k rows) w)"
    and "native_device (tk_user t) k \<notin> dh_device ` set (py_devices s)"
  shows "\<exists>h'. dh_device h' = native_device (tk_user t) k \<and> quiet (sx_postgres V) r (held s h' (fst (pack_and_build V now F t k rows w)))"
proof -
  have stay: "\<exists>h'. dh_device h' = native_device (tk_user t) k \<and> quiet (sx_postgres V) r (held s h' w1)"
    if "quiet (sx_postgres V) r (held s (device_hold_of t k rows) w1)" for w1
    using that by (intro exI [of _ "device_hold_of t k rows"]) (simp add: device_hold_of_def)
  define w1 where "w1 = say V t ''BUILDING_PACKAGE'' packing_processor_text (Some (JObj [(''forceRebuild'', JBool (tk_force t))])) w"
  obtain d x where c: "write_native_package (sx_package V) (sx_authoring V) (sx_native_root V) (fn_package_tmp F) k (tk_plan t)
      (tree_files (tk_tree t)) (jw_disk w1) = (d, x)" by fastforce
  have w1: "quiet (sx_postgres V) r (held s (device_hold_of t k rows) (w1\<lparr>jw_disk := d\<rparr>))"
    unfolding w1_def held_disk by (rule held_say [OF assms(1)])
  show ?thesis
  proof (cases x)
    case (Inl e)
    then show ?thesis using stay [OF w1] unfolding pack_and_build_def Let_def w1_def [symmetric] c by simp
  next
    case (Inr p)
    define members where "members = other_members t rows @ [(candidate t k)\<lparr>em_artifact := path_text p\<rparr>]"
    define w2 where "w2 = say V t ''RESOLVING_DEPENDENCIES'' shared_text (Some (JObj
        [(''directRequirementCount'', JInt (int (length (concat (map em_requirements members))))),
         (''processorCount'', JInt (int (length members)))])) (w1\<lparr>jw_disk := d\<rparr>)"
    have w2: "quiet (sx_postgres V) r (held s (device_hold_of t k rows) w2)" unfolding w2_def by (rule held_say [OF w1])
    have eq: "pack_and_build V now F t k rows w =
        (case edge_resolve (sx_authoring V) (sx_resolver V) (concat (map em_requirements members)) (kn_target k) of
           Inl f \<Rightarrow> (w2, Inl (edge_job_failure t k members f))
         | Inr resolution \<Rightarrow> build_and_commit V now F t k members (path_text p) resolution w2)"
      unfolding pack_and_build_def Let_def w1_def [symmetric] c w2_def members_def Inr by simp
    show ?thesis
      using stay [OF w2] build_steps [OF w2 assms(2) members_def] by (cases "edge_resolve (sx_authoring V) (sx_resolver V)
        (concat (map em_requirements members)) (kn_target k)") (simp_all add: eq)
  qed
qed

lemma native_steps:
  assumes "native_device (tk_user t) k \<notin> dh_device ` set (py_devices s)"
  shows "quiet (sx_postgres V) (s\<lparr>py_db := jw_db w\<rparr>) (s\<lparr>py_db := jw_db (fst (publish_native V now F t k w))\<rparr>)"
proof -
  let ?G = "sx_postgres V" and ?r = "s\<lparr>py_db := jw_db w\<rparr>"
  let ?w1 = "say V t ''WAITING_LOCK'' device_lock_text
      (Some (JObj [(''edgeIdentity'', identity_json (kn_identity k)), (''targetPlatform'', platform_json (kn_target k))])) w"
  let ?w2 = "say V t ''CHECKING_BUNDLE_REUSE'' reuse_check_text
      (Some (JObj [(''edgeIdentity'', identity_json (kn_identity k))])) ?w1"
  let ?rows = "list_edge_deployments (native_device (tk_user t) k) None (jw_db ?w2)"
  define h where "h = (device_hold_of t k [])\<lparr>dh_rows := None\<rparr>"
  have h: "h = \<lparr>dh_device = native_device (tk_user t) k, dh_job = tk_job t, dh_operator = tk_operator t, dh_variant = tk_variant t,
      dh_rows = None, dh_revision = None\<rparr>" by (simp add: h_def device_hold_of_def)
  have "quiet ?G ?r (s\<lparr>py_db := jw_db ?w1\<rparr>)" by (rule quiet_say) simp
  from quiet_step [OF this device_enter_held [where h = h and s = s and w = ?w1 and G = ?G]] assms have "quiet ?G ?r (held s h ?w1)"
    by (simp add: h identified_def native_device_def)
  then have "quiet ?G ?r (held s h ?w2)" by (rule held_say)
  from held_read(1) [OF this] assms have rows: "quiet ?G ?r (held s (device_hold_of t k ?rows) ?w2)"
    by (simp add: h device_hold_of_def)
  obtain w3 p where c: "try_reuse V now t k ?rows ?w2 = (w3, p)" by fastforce
  note reuse = reuse_steps [OF rows c]
  have "\<exists>h'. quiet ?G ?r (held s h' (fst (publish_native V now F t k w)))"
  proof (cases p)
    case None
    then show ?thesis using pack_steps [OF reuse assms, of now F] by (auto simp: publish_native_def publish_locked_def c Let_def)
  next
    case (Some x)
    then show ?thesis using reuse by (auto simp: publish_native_def publish_locked_def c Let_def)
  qed
  then obtain h' where "quiet ?G ?r (held s h' (fst (publish_native V now F t k w)))" by blast
  from quiet_step [OF this publish_step.device_leave [of ?G _ h']] show ?thesis by (cases s) (simp add: held_def)
qed

text \<open>C18: The execution of a publish job, as one function, is a run of the steps of the concurrent service that starts and
  ends without the job holding a lock, if the lock it asks for is free.\<close>

theorem execute_refines_steps:
  assumes "lock_free V builds t s"
  shows "run_without (sx_postgres V) k (s\<lparr>py_db := jw_db w\<rparr>) (s\<lparr>py_db := jw_db (execute_publish_job V builds now F t w)\<rparr>)"
proof -
  let ?G = "sx_postgres V"
  let ?w = "say V t ''PREPARING'' started_text None (w\<lparr>jw_db := mark_job_running now (tk_job t) (jw_db w)\<rparr>)"
  obtain w2 r where c: "publish_child V builds now F t ?w = (w2, r)" by fastforce
  have "quiet ?G (s\<lparr>py_db := jw_db w\<rparr>) (s\<lparr>py_db := jw_db (w\<lparr>jw_db := mark_job_running now (tk_job t) (jw_db w)\<rparr>)\<rparr>)"
    using quiet_table [OF quiet_refl table_step.running] by simp
  then have "quiet ?G (s\<lparr>py_db := jw_db w\<rparr>) (s\<lparr>py_db := jw_db ?w\<rparr>)" by (rule quiet_say)
  moreover have "quiet ?G (s\<lparr>py_db := jw_db ?w\<rparr>) (s\<lparr>py_db := jw_db (fst (publish_child V builds now F t ?w))\<rparr>)"
  proof (cases "tk_child t")
    case (RunnerChild k)
    then show ?thesis using runner_steps [OF assms] by (simp add: publish_child_def)
  next
    case (NativeChild k)
    then show ?thesis using native_steps [of t k s V ?w now F] assms by (simp add: publish_child_def lock_free_def)
  qed
  then have "quiet ?G (s\<lparr>py_db := jw_db ?w\<rparr>) (s\<lparr>py_db := jw_db w2\<rparr>)" by (simp add: c)
  ultimately have "quiet ?G (s\<lparr>py_db := jw_db w\<rparr>) (s\<lparr>py_db := jw_db w2\<rparr>)" by (rule quiet_trans)
  then have "quiet ?G (s\<lparr>py_db := jw_db w\<rparr>) (s\<lparr>py_db := jw_db (execute_publish_job V builds now F t w)\<rparr>)"
    by (auto simp: execute_publish_job_def c split: sum.splits intro: quiet_table table_step.failed)
  then show ?thesis by (simp add: quiet_def)
qed

end
