(* ===== verification/Publish_Examples.thy ===== *)
theory Publish_Examples
  imports Publish_Jobs
begin

text \<open>
  Concrete runs of the publish service: a contract is saved, compiled and published as a runner release and
  as a processor of a device, and the runtime of the release is retired. They are the witnesses of the
  properties of publications, and one of them shows a release that outlives its runtime.
\<close>

section \<open>Contracts and variants\<close>

text \<open>A digest that tells descriptions apart.\<close>

definition story_authoring :: authoring where
  "story_authoring = \<lparr>au_repr = (\<lambda>s. s), au_lower = (\<lambda>s. s), au_same = (=),
     au_canonical = (\<lambda>j. case json_member (json_member (Some j) ''metadata'') ''description'' of Some (JStr s) \<Rightarrow> s | _ \<Rightarrow> []),
     au_sha256 = (\<lambda>s. ''sha256:'' @ s)\<rparr>"

definition story_postgres :: postgres where
  "story_postgres = \<lparr>pg_number = JFloat, pg_text = (\<lambda>_. []), pg_rank = (\<lambda>_. 0)\<rparr>"

definition story_contract :: "string \<Rightarrow> operator_contract" where
  "story_contract d =
     \<lparr>oc_name = ''clean'', oc_display_name = ''Clean'', oc_description = d, oc_revision = ''r'', oc_python_path = ''.'',
      oc_source_ref = Some ''ref'', oc_callable = ''m:f'', oc_constructor = [], oc_arguments = [],
      oc_output = \<lparr>out_payload = \<lparr>ov_source = ReturnValue, ov_path = [], ov_codec = BytesCodec, ov_value = JNull\<rparr>,
        out_metadata = [], out_none_policy = KeepOriginal\<rparr>\<rparr>"

abbreviation story_save :: "string \<Rightarrow> string \<Rightarrow> publish_db \<Rightarrow> exn + publish_db \<times> operator_row \<times> contract_row \<times> bool" where
  "story_save i d \<equiv> save_virtual_contract story_authoring story_postgres 1 ''operator'' i ''w'' (story_contract d) ''user''"

definition story_variant :: "string \<Rightarrow> string \<Rightarrow> string \<Rightarrow> string \<Rightarrow> new_variant" where
  "story_variant i contract backend compiler =
     \<lparr>nv_id = i, nv_contract = contract, nv_backend = backend, nv_compiler = compiler, nv_key = ''key'', nv_options = JObj [],
      nv_sha256 = ''x'', nv_backend_contract = JObj []\<rparr>"

text \<open>The database before the first publication: one contract, compiled for the runner, and a job.\<close>

definition saved_db :: publish_db where
  "saved_db = fst (projr (story_save ''c1'' ''first'' publish_db_init))"

definition compiled_db :: publish_db where
  "compiled_db = fst (projr (upsert_variant story_postgres 2 (story_variant ''v1'' ''c1'' ''runner'' RUNNER_COMPILER) saved_db))"

definition queued_db :: publish_db where
  "queued_db = fst (projr (create_publish_job 3 ''j1'' ''v1'' compiled_db))"

text \<open>The release is published for the runtime \<open>env\<close>.\<close>

definition release_result :: json where
  "release_result = JObj [(''releaseId'', JStr ''rel''), (''runtimeEnvKey'', JStr ''env'')]"

definition released_db :: publish_db where
  "released_db = mark_job_ready story_postgres 4 ''j1'' ''v1'' ''runner://rel'' release_result queued_db"

text \<open>A second contract, which is not published, then the gate of the runtime.\<close>

definition resaved_db :: publish_db where
  "resaved_db = fst (projr (story_save ''c2'' ''second'' released_db))"

definition gated_db :: publish_db where
  "gated_db = fst (put_gate 6 ''env'' ''img'' ''old'' resaved_db)"

text \<open>The second contract is compiled for a device and published to it.\<close>

definition story_device :: edge_device where
  "story_device = \<lparr>ed_user = ''user'', ed_os = ''linux'', ed_arch = ''x86_64'', ed_python = ''3.11'', ed_token = Some ''t'', ed_edge = Some ''e''\<rparr>"

definition native_db :: publish_db where
  "native_db = fst (projr (create_publish_job 8 ''j2'' ''v2''
     (fst (projr (upsert_variant story_postgres 7 (story_variant ''v2'' ''c2'' ''nifi_native'' NATIVE_COMPILER) resaved_db)))))"

definition story_commit :: edge_commit where
  "story_commit = \<lparr>ec_deployment = ''d1'', ec_bundle = ''b1'', ec_device = story_device, ec_operator = ''operator'', ec_variant = ''v2'',
     ec_platform = ''linux'', ec_package = ''p'', ec_artifact = ''a'', ec_requirements = [], ec_job = ''j2'', ec_result = JObj [],
     ec_revision = 1, ec_bundle_requirements = [], ec_lock = ''l'', ec_lock_sha256 = ''s'', ec_ref = ''edge://b1'', ec_bundle_sha256 = ''h'',
     ec_manifest = JObj [],
     ec_members = [\<lparr>em_operator = ''operator'', em_variant = ''v2'', em_package = ''p'', em_artifact = ''a'', em_requirements = []\<rparr>]\<rparr>"

definition bundled_db :: publish_db where
  "bundled_db = fst (commit_edge_publish story_postgres 9 story_commit native_db)"

lemma projr_pair: "\<not> isl x \<Longrightarrow> x = Inr (fst (projr x), snd (projr x))"
  by (cases x) auto

lemma story_calls:
  "\<not> isl (story_save ''c1'' ''first'' publish_db_init)"
  "\<not> isl (upsert_variant story_postgres 2 (story_variant ''v1'' ''c1'' ''runner'' RUNNER_COMPILER) saved_db)"
  "\<not> isl (create_publish_job 3 ''j1'' ''v1'' compiled_db)"
  "\<not> isl (story_save ''c2'' ''second'' released_db)"
  "\<not> isl (upsert_variant story_postgres 7 (story_variant ''v2'' ''c2'' ''nifi_native'' NATIVE_COMPILER) resaved_db)"
  "\<not> isl (create_publish_job 8 ''j2'' ''v2''
     (fst (projr (upsert_variant story_postgres 7 (story_variant ''v2'' ''c2'' ''nifi_native'' NATIVE_COMPILER) resaved_db))))"
  by code_simp+

lemma story_answers:
  "retirement_answer story_postgres ''env'' ''img'' (the (gate_at ''env'' gated_db)) gated_db =
     \<lparr>ra_key = ''env'', ra_image = ''img'', ra_state = Retiring, ra_references = [], ra_safe = True\<rparr>"
  "gate_at ''env'' gated_db \<noteq> None"
  "map lo_release (get_operator_list story_postgres ''runner'' ''user'' gated_db) = [Some ''rel'']"
  "snd (commit_edge_publish story_postgres 9 story_commit native_db) = Inr ''b1''"
  by code_simp+

section \<open>The runs\<close>

abbreviation publish_at :: "publish_db \<Rightarrow> runtime_hold list \<Rightarrow> device_hold list \<Rightarrow> publish_sys" where
  "publish_at db rs ds \<equiv> \<lparr>py_db = db, py_runtimes = rs, py_devices = ds\<rparr>"

lemma reach_publish: "publish_reachable G s \<Longrightarrow> publish_step G l s t \<Longrightarrow> publish_reachable G t"
  unfolding publish_reachable_def by (blast intro: run_step)

lemma reach_table: "publish_reachable G (publish_at db rs ds) \<Longrightarrow> table_step G db db' \<Longrightarrow> publish_reachable G (publish_at db' rs ds)"
  using reach_publish [of G "publish_at db rs ds" None] publish_step.table [of G "publish_at db rs ds" db'] by simp

lemma reach_queued: "publish_reachable story_postgres (publish_at queued_db [] [])"
proof -
  have "publish_reachable story_postgres (publish_at publish_db_init [] [])"
    by (simp add: publish_reachable_def publish_start_def run_refl)
  moreover have "table_step story_postgres publish_db_init saved_db"
    using projr_pair [OF story_calls(1)] unfolding saved_db_def by (metis prod.collapse table_step.save)
  moreover have "table_step story_postgres saved_db compiled_db"
    using projr_pair [OF story_calls(2)] unfolding compiled_db_def by (rule table_step.compile)
  moreover have "table_step story_postgres compiled_db queued_db"
    using projr_pair [OF story_calls(3)] unfolding queued_db_def by (rule table_step.create)
  ultimately show ?thesis by (blast intro: reach_table)
qed

lemma reach_released: "publish_reachable story_postgres (publish_at released_db [] [])"
proof -
  let ?h = "JobIn ''j1'' ''v1'' ''env'' ''img''"
  have free: "assert_active ''env'' ''img'' queued_db = Inr ()" by code_simp
  have key: "metadata_key story_postgres (pg_jsonb story_postgres release_result) = Some ''env''" by code_simp
  have "publish_reachable story_postgres (publish_at queued_db [?h] [])"
    using reach_publish [OF reach_queued publish_step.runner_enter] free by fastforce
  from reach_publish [OF this publish_step.runner_ready [of "''j1''" "''v1''" "''env''" "''img''" _ story_postgres release_result 4 "''runner://rel''"]]
  have "publish_reachable story_postgres (publish_at released_db [?h] [])" using free key by (simp add: released_db_def)
  from reach_publish [OF this publish_step.runtime_leave [of _ _ ?h]] show ?thesis by simp
qed

lemma reach_resaved: "publish_reachable story_postgres (publish_at resaved_db [] [])"
  using reach_table [OF reach_released] projr_pair [OF story_calls(4)] unfolding resaved_db_def
  by (metis prod.collapse table_step.save)

lemma reach_gated: "publish_reachable story_postgres (publish_at gated_db [AdminIn ''env''] [])"
proof -
  have "publish_reachable story_postgres (publish_at resaved_db [AdminIn ''env''] [])"
    using reach_publish [OF reach_resaved publish_step.admin_enter [of "''env''"]] by simp
  from reach_publish [OF this publish_step.admin_gate [of "''env''" _ 6 "''img''" "''old''"]] show ?thesis
    by (cases "put_gate 6 ''env'' ''img'' ''old'' resaved_db") (simp add: gated_db_def)
qed

definition story_hold :: device_hold where
  "story_hold = \<lparr>dh_device = story_device, dh_job = ''j2'', dh_operator = ''operator'', dh_variant = ''v2'', dh_rows = Some [],
     dh_revision = Some 1\<rparr>"

lemma reach_native: "publish_reachable story_postgres (publish_at native_db [] [])"
proof -
  have "table_step story_postgres resaved_db
      (fst (projr (upsert_variant story_postgres 7 (story_variant ''v2'' ''c2'' ''nifi_native'' NATIVE_COMPILER) resaved_db)))"
    using projr_pair [OF story_calls(5)] by (rule table_step.compile)
  moreover have "table_step story_postgres (fst (projr (upsert_variant story_postgres 7
      (story_variant ''v2'' ''c2'' ''nifi_native'' NATIVE_COMPILER) resaved_db))) native_db"
    using projr_pair [OF story_calls(6)] unfolding native_db_def by (rule table_step.create)
  ultimately show ?thesis by (blast intro: reach_table [OF reach_resaved] reach_table)
qed

lemma reach_held: "publish_reachable story_postgres (publish_at native_db [] [story_hold])"
proof -
  define h where "h = story_hold\<lparr>dh_rows := None, dh_revision := None\<rparr>"
  have h: "h = \<lparr>dh_device = story_device, dh_job = ''j2'', dh_operator = ''operator'', dh_variant = ''v2'', dh_rows = None,
     dh_revision = None\<rparr>" by (simp add: h_def story_hold_def)
  have rows: "list_edge_deployments story_device None native_db = []" "next_edge_bundle_revision story_device native_db = 1"
    by code_simp+
  have "publish_reachable story_postgres (publish_at native_db [] [h])"
    using reach_publish [OF reach_native publish_step.device_enter [of story_device _ story_postgres "''j2''" "''operator''" "''v2''"]]
    by (simp add: h identified_def story_device_def)
  from reach_publish [OF this publish_step.device_read [of h]]
  have "publish_reachable story_postgres (publish_at native_db [] [h\<lparr>dh_rows := Some []\<rparr>])" by (simp add: swap_def rows h)
  from reach_publish [OF this publish_step.device_number [of "h\<lparr>dh_rows := Some []\<rparr>"]] show ?thesis
    by (simp add: swap_def rows h story_hold_def)
qed

lemma reach_bundled: "publish_reachable story_postgres (publish_at bundled_db [] [story_hold\<lparr>dh_rows := None, dh_revision := None\<rparr>])"
proof -
  have key: "metadata_key story_postgres (pg_jsonb story_postgres (ec_result story_commit)) = None" by code_simp
  have c: "commit_edge_publish story_postgres 9 story_commit native_db = (bundled_db, Inr ''b1'')"
    using story_answers(4) by (simp add: bundled_db_def prod_eq_iff)
  show ?thesis
    using reach_publish [OF reach_held publish_step.device_commit [of story_hold _ "[]" story_commit story_postgres 9 bundled_db, OF _ _ _ _ _ _ _ _ key]] c
    by (simp add: swap_def story_hold_def story_commit_def committed_member_def)
qed

section \<open>Retirement\<close>

theorem safe_retirement_stays_witness:
  "gate_at ''env'' (fst (finalize_retirement 7 ''env'' gated_db)) \<noteq> None \<and>
   filter (\<lambda>(r, c, v). metadata_key story_postgres (get_or JNull (vr_metadata v)) = Some ''env'')
     (runner_references story_postgres ''env'' ''other'' (fst (finalize_retirement 7 ''env'' gated_db))) = []"
proof -
  let ?s = "publish_at gated_db [AdminIn ''env''] []" and ?t = "fst (finalize_retirement 7 ''env'' gated_db)"
  have "gate_at ''env'' gated_db = Some (the (gate_at ''env'' gated_db))" using story_answers(2) by simp
  note gate = this
  have safe: "ra_safe (retirement_answer story_postgres ''env'' ''img'' (the (gate_at ''env'' gated_db)) gated_db)"
    by (simp add: story_answers(1))
  have "publish_step story_postgres None ?s (publish_at ?t [AdminIn ''env''] [])"
    using publish_step.admin_finalize [of "''env''" ?s 7] by (cases "finalize_retirement 7 ''env'' gated_db") simp
  then have run: "run_without story_postgres (Some ''env'') ?s (publish_at ?t [AdminIn ''env''] [])"
    by (blast intro: run_step run_refl)
  show ?thesis
    using safe_retirement_stays [where s = ?s and g = "the (gate_at ''env'' gated_db)" and img = "''img''" and img' = "''other''", OF reach_gated _ _ _ run]
      gate safe by (auto simp: filter_empty_conv)
qed

text \<open>A retirement is answered as safe although the list of operators still offers a release that was published for
  the runtime: the references are those of the newest contract of an operator, the list falls back to the newest
  published one.\<close>

theorem safe_retirement_still_offered:
  "\<exists>G s k g user r c v. publish_reachable G s \<and> AdminIn k \<in> set (py_runtimes s) \<and> gate_at k (py_db s) = Some g \<and>
     ra_safe (retirement_answer G k (rg_image g) g (py_db s)) \<and>
     (r, c, v) \<in> set (published_rows user ''runner'' RUNNER_COMPILER (py_db s)) \<and>
     metadata_key G (get_or JNull (vr_metadata v)) = Some k \<and>
     listed_runner G (r, c, v) \<in> set (get_operator_list G ''runner'' user (py_db s))"
proof -
  define x where "x = hd (published_rows ''user'' ''runner'' RUNNER_COMPILER gated_db)"
  obtain r c v where rcv: "x = (r, c, v)" using prod_cases3 by blast
  have "x \<in> set (published_rows ''user'' ''runner'' RUNNER_COMPILER gated_db) \<and>
      metadata_key story_postgres (get_or JNull (vr_metadata (snd (snd x)))) = Some ''env'' \<and>
      listed_runner story_postgres x \<in> set (get_operator_list story_postgres ''runner'' ''user'' gated_db)"
    unfolding x_def by code_simp
  moreover have "gate_at ''env'' gated_db = Some (the (gate_at ''env'' gated_db))" using story_answers(2) by simp
  moreover have "rg_image (the (gate_at ''env'' gated_db)) = ''img''" by code_simp
  ultimately show ?thesis
    using reach_gated story_answers(1)
    by (intro exI [of _ story_postgres] exI [of _ "publish_at gated_db [AdminIn ''env''] []"] exI [of _ "''env''"]
        exI [of _ "the (gate_at ''env'' gated_db)"] exI [of _ "''user''"] exI [of _ r] exI [of _ c] exI [of _ v]) (simp add: rcv)
qed

section \<open>Contracts and devices\<close>

theorem contracts_numbered_witness:
  "map cv_version (contracts_of ''operator'' resaved_db) = [1, 2] \<and> distinct (map cv_sha256 (contracts_of ''operator'' resaved_db))"
proof -
  have "length (contracts_of ''operator'' resaved_db) = 2" by code_simp
  with contracts_numbered [OF reach_resaved, of "''operator''"] show ?thesis by (simp add: upt_conv_Cons)
qed

theorem bundle_lists_deployments_witness:
  "map bn_revision (device_bundles story_device bundled_db) = [1] \<and>
   mset (map bundled_member (list_edge_bundle_members ''b1'' bundled_db)) = mset (map deployed_member (list_edge_deployments story_device None bundled_db))"
proof -
  have "length (device_bundles story_device bundled_db) = 1" "map_option bn_id (get_latest_edge_bundle story_device bundled_db) = Some ''b1''"
    by code_simp+
  with bundle_lists_deployments [OF reach_bundled, of story_device] show ?thesis
    by (auto simp: identified_def story_device_def [symmetric] upt_conv_Cons split: option.splits) (simp_all add: story_device_def)
qed

text \<open>The first contract is saved again after the second.\<close>

definition again :: "publish_db \<times> operator_row \<times> contract_row \<times> bool" where
  "again = projr (story_save ''c3'' ''first'' resaved_db)"

theorem resaved_contract_not_current_witness:
  "cv_version (fst (snd (snd again))) < 2 \<and> map_option cv_version (latest_version ''operator'' (fst again)) = Some 2"
proof -
  have r: "rows_ok resaved_db" using published_ok [OF reach_resaved] by (simp add: sys_ok_def)
  have "\<not> isl (story_save ''c3'' ''first'' resaved_db)" by code_simp
  then have "story_save ''c3'' ''first'' resaved_db = Inr (fst again, fst (snd again), fst (snd (snd again)), snd (snd (snd again)))"
    by (simp add: again_def)
  moreover have "snd (snd (snd again)) = False" "op_id (fst (snd again)) = ''operator''" by code_simp+
  moreover obtain newest where n: "latest_version ''operator'' resaved_db = Some newest" "cv_version newest = 2"
      "cv_sha256 newest \<noteq> contract_sha256 story_authoring (story_contract ''first'')"
  proof -
    have "case latest_version ''operator'' resaved_db of None \<Rightarrow> False | Some c \<Rightarrow>
        cv_version c = 2 \<and> cv_sha256 c \<noteq> contract_sha256 story_authoring (story_contract ''first'')" by code_simp
    then show ?thesis using that by (auto split: option.splits)
  qed
  ultimately show ?thesis
    using resaved_contract_not_current [OF r, of story_authoring story_postgres 1 "''operator''" "''c3''" "''w''"
        "story_contract ''first''" "''user''" "fst again" "fst (snd again)" "fst (snd (snd again))" newest] by simp
qed

section \<open>A job\<close>

text \<open>A job of a processor whose requirements the resolver cannot satisfy, on an empty disk.\<close>

definition empty_tree :: "unit workspace" where
  "empty_tree = \<lparr>wk_root = [], wk_entries = [], wk_is_dir = (\<lambda>_. False), wk_python_files = (\<lambda>_. [])\<rparr>"

definition story_env :: "unit publish_env" where
  "story_env =
     \<lparr>sx_source = \<lparr>sv_authoring = story_authoring,
        sv_scanner = \<lparr>sn_unparse = (\<lambda>_. None), sn_literal = (\<lambda>_. None), sn_identifier = (\<lambda>_. True), sn_lower = (\<lambda>s. s), sn_repr = (\<lambda>s. s)\<rparr>,
        sv_hashing = \<lparr>hs_digest = (\<lambda>b. b), hs_hex = (\<lambda>_. [])\<rparr>, sv_title = (\<lambda>s. s), sv_workspace_root = [''w''],
        sv_workspaces = (\<lambda>_. None)\<rparr>,
      sx_postgres = story_postgres, sx_source_root = [''s''], sx_max_source = 0, sx_copy = (\<lambda>_. empty_tree), sx_profile = ''p'',
      sx_native = \<lparr>ne_show = (\<lambda>_. []), ne_upper = (\<lambda>c. c), ne_python = ''3.11''\<rparr>,
      sx_publishing = \<lparr>pb_yaml = (\<lambda>_. Inr JNull), pb_show = (\<lambda>_. []), pb_canonical = (\<lambda>_. []), pb_digest = (\<lambda>b. b), pb_hex = (\<lambda>_. []),
        pb_archive = (\<lambda>_. [])\<rparr>,
      sx_texts = \<lparr>rt_yaml = (\<lambda>_. []), rt_adapter = (\<lambda>_. []), rt_plan = (\<lambda>_. JNull)\<rparr>, sx_catalog_root = ''/c'',
      sx_package = \<lparr>pe_zip = (\<lambda>_. []), pe_source = (\<lambda>_ _. []), pe_utf8 = (\<lambda>_. [])\<rparr>,
      sx_bundle = \<lparr>bf_zip = (\<lambda>_. []), bf_utf8 = (\<lambda>_. []), bf_sha256 = (\<lambda>_. []), bf_md5 = (\<lambda>_. [])\<rparr>,
      sx_resolver = \<lparr>rs_parse = (\<lambda>_. None), rs_uv_compile = (\<lambda>_ _. Inl ([], [])), rs_uv_install = (\<lambda>_ _. Inl ([], [])), rs_sha256 = (\<lambda>s. s)\<rparr>,
      sx_native_root = [''n''], sx_bundle_root = [''b''], sx_dumps = (\<lambda>_. ''conflict''), sx_utc = (\<lambda>_. ''now'')\<rparr>"

definition story_native :: native_contract where
  "story_native =
     \<lparr>kb_contract = story_contract ''second'', kb_parent_id = ''c2'', kb_parent_version = 2, kb_parent_sha256 = ''x'',
      kb_compiler = NATIVE_COMPILER, kb_variant_key = ''key'', kb_options = JObj [], kn_class = ''Clean'', kn_package = ''p'',
      kn_properties = [], kn_requirements = [''a''],
      kn_target = \<lparr>nt_os = ''linux'', nt_arch = ''x86_64'', nt_python = ''3.11'', nt_platform = ''linux''\<rparr>,
      kn_identity = \<lparr>ei_token = ''t'', ei_edge = ''e''\<rparr>\<rparr>"

definition story_plan :: execution_plan where
  "story_plan =
     \<lparr>ep_revision = ''r'', ep_source_ref = Some ''ref'', ep_python_path = ''.'',
      ep_target = \<lparr>tg_kind = ''function'', tg_module = ''m'', tg_qualname = ''f'', tg_class_target = None, tg_method = None, tg_class = None\<rparr>,
      ep_constructor = [], ep_arguments = [], ep_output = oc_output (story_contract ''second''), ep_parameters = [],
      ep_input_metadata = [], ep_output_metadata = [], ep_contract_sha256 = ''x''\<rparr>"

definition story_task :: "unit publish_task" where
  "story_task =
     \<lparr>tk_operator = ''operator'', tk_backend = ''nifi_native'', tk_job = ''j2'', tk_variant = ''v2'', tk_child = NativeChild story_native,
      tk_plan = story_plan, tk_tree = empty_tree, tk_user = ''user'', tk_force = False\<rparr>"

definition story_world :: job_world where
  "story_world = \<lparr>jw_db = native_db, jw_catalog = [], jw_disk = \<lparr>dk_files = [], dk_dirs = []\<rparr>, jw_seq = 0, jw_event = None\<rparr>"

definition story_names :: fresh_names where
  "story_names = \<lparr>fn_package_tmp = [''t'', ''1''], fn_bundle_tmp = [''t'', ''2''], fn_bundle = ''b2'', fn_deployment = ''d2''\<rparr>"

abbreviation story_end :: publish_db where
  "story_end \<equiv> jw_db (execute_publish_job story_env (\<lambda>_. ([], Inl (PyError ''RuntimeError'' ''down''))) 9 story_names story_task story_world)"

theorem executed_job_ends_witness:
  "\<exists>j. publish_job_at ''j2'' story_end = Some j \<and> pj_status j \<in> {JobReady, JobFailed}"
proof -
  have "publish_job_at ''j2'' native_db \<noteq> None" "variant_at ''v2'' native_db \<noteq> None" by code_simp+
  then show ?thesis
    using executed_job_ends [of story_task story_world story_env "\<lambda>_. ([], Inl (PyError ''RuntimeError'' ''down''))" 9 story_names]
    by (auto simp: story_task_def story_world_def)
qed

theorem execute_refines_steps_witness:
  "run_without story_postgres (Some ''env'') (publish_at native_db [] []) (publish_at story_end [] [])"
proof -
  let ?s = "publish_at native_db [] []" and ?down = "\<lambda>_. ([], Inl (PyError ''RuntimeError'' ''down''))"
  have "lock_free story_env ?down story_task ?s" by (simp add: lock_free_def story_task_def)
  from execute_refines_steps [OF this, of "Some ''env''" story_world 9 story_names]
  show ?thesis by (simp add: story_env_def story_world_def)
qed

end
