(* ===== verification/Build_Stream.thy ===== *)
theory Build_Stream
  imports Build_Client
begin

text \<open>
  The two ends of the progress stream: what the publish service reads of what the build service writes.
  The text of an event's JSON has no line break and does not start with white space, as \<open>json.dumps\<close>
  promises of an object.
\<close>

definition data_text :: "string \<Rightarrow> bool" where
  "data_text s \<longleftrightarrow> s \<noteq> [] \<and> newline \<notin> set s \<and> CHR 0x0D \<notin> set s \<and> space_len s = 0"

lemma response_lines_line: "newline \<notin> set l \<Longrightarrow> response_lines (l @ newline # s) = (l @ [newline]) # response_lines s"
  by (induction l) auto

lemma strip_line_line: "newline \<notin> set l \<Longrightarrow> CHR 0x0D \<notin> set l \<Longrightarrow> strip_line (l @ [newline]) = l"
proof (cases l rule: rev_cases)
  case (snoc k c)
  assume "newline \<notin> set l" "CHR 0x0D \<notin> set l"
  with snoc show ?thesis by (auto simp: strip_line_def)
qed (simp add: strip_line_def)

lemma read_line:
  assumes "newline \<notin> set l" "CHR 0x0D \<notin> set l"
  shows "read_sse event data ((l @ [newline]) # raws) =
    (if l = [] then (if data = [] then [] else [(event, join_with [newline] data)]) @ read_sse ''message'' [] raws
     else if starts_with '':'' l then read_sse event data raws
     else if starts_with ''event:'' l then read_sse (message_or (strip (drop 6 l))) data raws
     else if starts_with ''data:'' l then read_sse event (data @ [lstrip (drop 5 l)]) raws
     else read_sse event data raws)"
  by (simp add: strip_line_line [OF assms] Let_def)

definition event_names :: "string list" where
  "event_names = [''progress'', ''result'', ''error'']"

lemma event_line:
  assumes "event \<in> set event_names"
  shows "newline \<notin> set (''event: '' @ event)" "CHR 0x0D \<notin> set (''event: '' @ event)"
    "message_or (strip (drop 6 (''event: '' @ event))) = event"
proof -
  have "list_all (\<lambda>e. newline \<notin> set (''event: '' @ e) \<and> CHR 0x0D \<notin> set (''event: '' @ e) \<and>
      message_or (strip (drop 6 (''event: '' @ e))) = e) event_names"
    by code_simp
  with assms show "newline \<notin> set (''event: '' @ event)" "CHR 0x0D \<notin> set (''event: '' @ event)"
    "message_or (strip (drop 6 (''event: '' @ event))) = event"
    by (simp_all add: list_all_iff)
qed

lemma lstrip_data:
  assumes "data_text s"
  shows "lstrip (CHR '' '' # s) = s"
proof -
  have "space_len (CHR '' '' # s) = 1" by (simp add: space_len_def py_space_def)
  then have "lstrip (CHR '' '' # s) = lstrip s" by (subst lstrip.simps) simp
  also have "\<dots> = s" using assms by (subst lstrip.simps) (simp add: data_text_def)
  finally show ?thesis .
qed

lemma response_lines_sse:
  assumes "event \<in> set event_names" "data_text (dumps data)"
  shows "response_lines (sse dumps event data @ s) =
    ((''event: '' @ event) @ [newline]) # ((''data: '' @ dumps data) @ [newline]) # ([] @ [newline]) # response_lines s"
proof -
  have d: "newline \<notin> set (''data: '' @ dumps data)" using assms(2) by (simp add: data_text_def newline_def)
  have "sse dumps event data @ s = (''event: '' @ event) @ newline # ((''data: '' @ dumps data) @ newline # ([] @ newline # s))"
    by (simp add: sse_def)
  then show ?thesis
    by (simp only: response_lines_line [OF event_line(1) [OF assms(1)]] response_lines_line [OF d]
        response_lines_line [of "[]"] set_empty2 empty_iff not_False_eq_True list.set(1) simp_thms)
qed

lemma read_sse_event:
  assumes "event \<in> set event_names" "data_text (dumps data)"
  shows "read_sse ''message'' [] (response_lines (sse dumps event data @ s)) =
    (event, dumps data) # read_sse ''message'' [] (response_lines s)"
proof -
  have d: "newline \<notin> set (''data: '' @ dumps data)" "CHR 0x0D \<notin> set (''data: '' @ dumps data)"
    using assms(2) by (simp_all add: data_text_def newline_def)
  have "read_sse ''message'' [] (((''event: '' @ event) @ [newline]) # raws) = read_sse event [] raws" for raws
    unfolding read_line [OF event_line(1,2) [OF assms(1)]] using event_line(3) [OF assms(1)]
    by (simp add: starts_with_def)
  moreover have "read_sse event [] (((''data: '' @ dumps data) @ [newline]) # raws) = read_sse event [dumps data] raws" for raws
    unfolding read_line [OF d] using lstrip_data [OF assms(2)] by (simp add: starts_with_def)
  moreover have "read_sse event [dumps data] (([] @ [newline]) # raws) = (event, dumps data) # read_sse ''message'' [] raws" for raws
    by (subst read_line) simp_all
  ultimately show ?thesis by (simp only: response_lines_sse [of event dumps data, OF assms])
qed

lemma read_sse_idle: "read_sse ''message'' [] (response_lines (keep_alive @ s)) = read_sse ''message'' [] (response_lines s)"
proof -
  have k: "newline \<notin> set '': keep-alive''" "CHR 0x0D \<notin> set '': keep-alive''" by (simp_all add: newline_def)
  have "keep_alive @ s = '': keep-alive'' @ newline # ([] @ newline # s)" by (simp add: keep_alive_def)
  then have "response_lines (keep_alive @ s) = ('': keep-alive'' @ [newline]) # ([] @ [newline]) # response_lines s"
    by (simp only: response_lines_line [OF k(1)] response_lines_line [of "[]"] set_empty2 empty_iff not_False_eq_True list.set(1) simp_thms)
  moreover have "read_sse ''message'' [] (('': keep-alive'' @ [newline]) # raws) = read_sse ''message'' [] raws" for raws
    unfolding read_line [OF k] by (simp add: starts_with_def)
  moreover have "read_sse ''message'' [] (([] @ [newline]) # raws) = read_sse ''message'' [] raws" for raws
    by (subst read_line) simp_all
  ultimately show ?thesis by (simp only:)
qed

definition item_ok :: "(json \<Rightarrow> string) \<Rightarrow> stream_item \<Rightarrow> bool" where
  "item_ok dumps i = (case i of Event event data \<Rightarrow> event \<in> set event_names \<and> data_text (dumps data) | KeepAlive \<Rightarrow> True)"

definition item_events :: "(json \<Rightarrow> string) \<Rightarrow> stream_item \<Rightarrow> (string \<times> string) list" where
  "item_events dumps i = (case i of Event event data \<Rightarrow> [(event, dumps data)] | KeepAlive \<Rightarrow> [])"

lemma read_items_events:
  "list_all (item_ok dumps) items \<Longrightarrow> read_sse ''message'' [] (response_lines (concat (map (item_text dumps) items) @ s)) =
    concat (map (item_events dumps) items) @ read_sse ''message'' [] (response_lines s)"
proof (induction items)
  case (Cons i items)
  then show ?case
    by (cases i) (simp_all add: item_ok_def item_text_def item_events_def read_sse_event read_sse_idle)
qed simp

text \<open>Comments between the events change nothing.\<close>

lemma with_idle_events: "concat (map (item_events dumps) (with_idle idle items)) = concat (map (item_events dumps) items)"
proof (induction idle items rule: with_idle.induct)
  case (3 n idle i items)
  have "concat (map (item_events dumps) (replicate n KeepAlive)) = []" by (induction n) (simp_all add: item_events_def)
  with 3 show ?case by simp
qed simp_all

lemma with_idle_ok: "list_all (item_ok dumps) items \<Longrightarrow> list_all (item_ok dumps) (with_idle idle items)"
proof (induction idle items rule: with_idle.induct)
  case (3 n idle i items)
  then show ?case by (auto simp: list_all_iff item_ok_def)
qed simp_all

lemma read_stream:
  assumes "list_all (item_ok dumps) (resolve_events message detail a)"
  shows "read_events (stream_body dumps message detail idle a) = concat (map (item_events dumps) (resolve_events message detail a))"
  using read_items_events [OF with_idle_ok [OF assms], of idle "[]"]
  by (simp add: read_events_def stream_body_def with_idle_events)

section \<open>What the publish service learns\<close>

text \<open>The encoder and the decoder of JSON agree on the events of an answer.\<close>

definition json_agrees :: "(json \<Rightarrow> string) \<Rightarrow> build_client \<Rightarrow> stream_item \<Rightarrow> bool" where
  "json_agrees dumps L i =
     (case i of Event event data \<Rightarrow> data_text (dumps data) \<and> bl_loads L (dumps data) = Some data | KeepAlive \<Rightarrow> True)"

definition stage_call :: "(string \<Rightarrow> string) \<Rightarrow> (string \<Rightarrow> json) \<Rightarrow> string \<Rightarrow> progress_call" where
  "stage_call message detail stage = (stage, message stage, if is_obj (detail stage) then Some (detail stage) else None)"

lemma progress_call_stage:
  assumes "stage \<noteq> []" "message stage \<noteq> []"
  shows "progress_call L (JObj [(''stage'', JStr stage), (''message'', JStr (message stage)), (''detail'', detail stage)]) =
    stage_call message detail stage"
  using assms by (simp add: progress_call_def stage_call_def show_or_def get_field_def)

lemma stream_events_stages:
  assumes "list_all (json_agrees dumps L) (map (progress_event message detail) stages)"
    and "\<forall>stage \<in> set stages. stage \<noteq> [] \<and> message stage \<noteq> []"
  shows "stream_events L (concat (map (item_events dumps) (map (progress_event message detail) stages)) @ events) =
    apfst ((@) (map (stage_call message detail) stages)) (stream_events L events)"
  using assms
proof (induction stages)
  case Nil
  then show ?case by (cases "stream_events L events") simp
next
  case (Cons stage stages)
  then show ?case
    by (cases "stream_events L events")
      (simp add: item_events_def progress_event_def json_agrees_def data_text_def is_obj_def progress_call_stage handle_event_def)
qed

lemma stream_events_result:
  assumes "json_agrees dumps L (final_event (Inr view))"
  shows "stream_events L (item_events dumps (final_event (Inr view))) = ([], Inr (serialize_environment view))"
proof -
  have "is_obj (serialize_environment view)" by (auto simp: serialize_environment_def is_obj_def split: option.split prod.split)
  with assms show ?thesis by (simp add: item_events_def final_event_def json_agrees_def data_text_def handle_event_def)
qed

lemma stream_events_error:
  assumes "json_agrees dumps L (final_event (Inl e))" "exn_text e \<noteq> []"
  shows "stream_events L (item_events dumps (final_event (Inl e))) = ([], Inl (client_error (exn_text e)))"
  using assms by (simp add: item_events_def final_event_def json_agrees_def data_text_def show_or_def get_field_def handle_event_def)

lemma resolve_events_named:
  "i \<in> set (resolve_events message detail a) \<Longrightarrow> \<exists>event data. i = Event event data \<and> event \<in> set event_names"
  by (cases a) (auto simp: resolve_events_def progress_event_def final_event_def event_names_def split: sum.splits)

lemma agrees_ok:
  assumes "list_all (json_agrees dumps L) (resolve_events message detail a)"
  shows "list_all (item_ok dumps) (resolve_events message detail a)"
  unfolding list_all_iff
proof
  fix i assume i: "i \<in> set (resolve_events message detail a)"
  with assms have "json_agrees dumps L i" by (simp add: list_all_iff)
  with resolve_events_named [OF i] show "item_ok dumps i" by (auto simp: json_agrees_def item_ok_def)
qed

lemma resolve_body:
  "resolve_stream L (Lines (body_lines (response_lines body))) = Some (apsnd (map_sum id Some) (stream_events L (read_events body)))"
  by (cases "stream_events L (read_events body)") (simp add: resolve_stream_def follow_body read_events_def)

text \<open>C35: What the event stream of a resolve carries is what the client of the publish service reads from it: every
  stage as a progress call and then the environment, or the error, however many keep-alive comments come between.\<close>

theorem stream_reaches_client:
  assumes "list_all (json_agrees dumps L) (resolve_events message detail (db, stages, r))"
    and "\<forall>stage \<in> set stages. stage \<noteq> [] \<and> message stage \<noteq> []"
  shows "resolve_stream L (Lines (body_lines (response_lines (stream_body dumps message detail idle (db, stages, r))))) =
    Some (map (stage_call message detail) stages,
      case r of Inr view \<Rightarrow> Inr (Some (serialize_environment view)) | Inl e \<Rightarrow> Inl (client_error (exn_text e)))"
proof -
  have a: "list_all (json_agrees dumps L) (map (progress_event message detail) stages)" "json_agrees dumps L (final_event r)"
    using assms(1) by (simp_all add: resolve_events_def)
  have e: "exn_text e \<noteq> []" for e by (cases e) (simp_all add: exn_text_def)
  have "stream_events L (item_events dumps (final_event r)) =
      ([], case r of Inr view \<Rightarrow> Inr (serialize_environment view) | Inl e \<Rightarrow> Inl (client_error (exn_text e)))"
    using a(2) stream_events_result stream_events_error [OF _ e] by (cases r) simp_all
  moreover have "read_events (stream_body dumps message detail idle (db, stages, r)) =
      concat (map (item_events dumps) (map (progress_event message detail) stages)) @ item_events dumps (final_event r)"
    using read_stream [OF agrees_ok [OF assms(1)]] by (simp add: resolve_events_def)
  ultimately have "stream_events L (read_events (stream_body dumps message detail idle (db, stages, r))) =
      (map (stage_call message detail) stages, case r of Inr view \<Rightarrow> Inr (serialize_environment view) | Inl e \<Rightarrow> Inl (client_error (exn_text e)))"
    using stream_events_stages [OF a(1) assms(2)] by simp
  then show ?thesis by (cases r) (simp_all add: resolve_body)
qed

section \<open>A resolve ends\<close>

lemma wait_ends:
  "\<exists>n cs r. wait_until_terminal L W start runtime = Some (n, cs, r) \<and> int n * pause L < max 0 (bl_timeout L) + pause L"
proof -
  let ?key = "get_field runtime ''envKey''" and ?deadline = "start + bl_timeout L"
  have "0 < pause L" by (simp add: pause_def)
  moreover obtain m cs r where "poll L W ?key ?deadline start 0 JNull [] = Some (m, cs, r)"
    "int (m - 0) * pause L < max 0 (?deadline - start) + pause L"
    using poll_ends [of L W ?key ?deadline start 0 JNull "[]"] by blast
  ultimately show ?thesis by (auto simp: wait_until_terminal_def Let_def)
qed

lemma resolve_after_stream:
  assumes "resolve_stream L stream = Some (calls, a)"
  shows "\<exists>n cs r. client_resolve L W start stream reply = Some (n, cs, r) \<and> int n * pause L < max 0 (bl_timeout L) + pause L"
proof -
  have "0 < pause L" by (simp add: pause_def)
  then have now: "int 0 * pause L < max 0 (bl_timeout L) + pause L" by simp
  have wait: "\<exists>n cs' r. map_option (\<lambda>(n, cs, r). (n, calls' @ cs, r)) (wait_until_terminal L W start runtime) = Some (n, cs', r) \<and>
      int n * pause L < max 0 (bl_timeout L) + pause L" for runtime calls'
    using wait_ends [of L W start runtime] by auto
  show ?thesis
  proof (cases a)
    case (Inl e)
    with assms now show ?thesis by (simp add: client_resolve_def)
  next
    case (Inr found)
    show ?thesis
    proof (cases found)
      case None
      show ?thesis
      proof (cases "json_request L reply")
        case (Inl e)
        with assms Inr None now show ?thesis by (simp add: client_resolve_def Let_def)
      next
        case (Inr runtime)
        with assms \<open>a = Inr found\<close> None wait show ?thesis by (simp add: client_resolve_def Let_def)
      qed
    next
      case (Some runtime)
      with assms Inr wait show ?thesis by (simp add: client_resolve_def)
    qed
  qed
qed

text \<open>C36: A resolve of the client returns exactly when the event stream comes to an end: it is refused, it is closed, reading
  it fails, or it delivers an event that ends the loop; keep-alive comments alone keep the client for ever. Then the number
  of status requests times the pause between them is below the timeout plus one pause, whatever the answers are (each
  request gets one, if only an error) and however long they and the sleeps take.\<close>

theorem client_resolve_ends:
  "(\<exists>n cs r. client_resolve L W start stream reply = Some (n, cs, r) \<and> int n * pause L < max 0 (bl_timeout L) + pause L)
    \<longleftrightarrow> stream_stops L stream"
proof (cases "resolve_stream L stream")
  case None
  then have "client_resolve L W start stream reply = None" by (simp add: client_resolve_def)
  with None show ?thesis using resolve_stream_stops [of L stream] by simp
next
  case (Some a)
  then have "stream_stops L stream" using resolve_stream_stops [of L stream] by simp
  with Some show ?thesis using resolve_after_stream [of L stream "fst a" "snd a" W start reply] by simp
qed

text \<open>A stream of comments only.\<close>

lemma idle_never_stops: "\<not> stream_stops L (Lines (\<lambda>_. Line '': keep-alive''))"
proof -
  have "line_block (\<lambda>_. Line '': keep-alive'') n raws \<Longrightarrow> list_ex (ends_loop L) (read_sse event [] raws) \<Longrightarrow> False" for n event raws
  proof (induction raws arbitrary: n)
    case (Cons raw raws)
    have "strip_line '': keep-alive'' = '': keep-alive''" by code_simp
    moreover have "starts_with '':'' '': keep-alive''" by code_simp
    ultimately show ?case using Cons by (auto simp: Let_def)
  qed simp
  then show ?thesis by (auto simp: stream_stops_def deciding_def)
qed

section \<open>Examples\<close>

definition short_text :: "json \<Rightarrow> string" where
  "short_text j = (if get_field j ''stage'' = JNull then ''e'' else ''p'')"

definition down :: exn where
  "down = PyError ''RuntimeError'' ''down''"

definition short_client :: build_client where
  "short_client =
     \<lparr>bl_loads = (\<lambda>s. if s = ''p''
        then Some (JObj [(''stage'', JStr ''LOCKING''), (''message'', JStr ''m''), (''detail'', JNull)])
        else if s = ''e'' then Some (JObj [(''message'', JStr (exn_text down))]) else None),
      bl_show = (\<lambda>_. []), bl_timeout = 600, bl_interval = 2\<rparr>"

theorem stream_reaches_client_witness:
  "resolve_stream short_client
     (Lines (body_lines (response_lines (stream_body short_text (\<lambda>_. ''m'') (\<lambda>_. JNull) [1, 2] (build_db_init, [''LOCKING''], Inl down))))) =
    Some ([(''LOCKING'', ''m'', None)], Inl (client_error (exn_text down)))"
proof -
  have "list_all (json_agrees short_text short_client) (resolve_events (\<lambda>_. ''m'') (\<lambda>_. JNull) (build_db_init, [''LOCKING''], Inl down))"
    by (simp add: resolve_events_def progress_event_def final_event_def json_agrees_def short_text_def short_client_def data_text_def
        get_field_def) code_simp
  from stream_reaches_client [OF this, of "[1, 2]"] show ?thesis by (simp add: stage_call_def is_obj_def)
qed

theorem client_resolve_ends_witness:
  "\<exists>n cs r. client_resolve short_client \<lparr>wt_spent = (\<lambda>_. 5), wt_late = (\<lambda>_. 0), wt_answers = (\<lambda>_. Body ''p'')\<rparr> 0
     (StreamFailure 404 []) (Body ''p'') = Some (n, cs, r) \<and> n < 7"
proof -
  have "stream_stops short_client (StreamFailure 404 [])" by (simp add: stream_stops_def)
  then show ?thesis
    using client_resolve_ends [of short_client "\<lparr>wt_spent = (\<lambda>_. 5), wt_late = (\<lambda>_. 0), wt_answers = (\<lambda>_. Body ''p'')\<rparr>" 0
        "StreamFailure 404 []" "Body ''p''"]
    by (fastforce simp: short_client_def pause_def)
qed

lemma idle_stream_keeps_client: "client_resolve short_client W 0 (Lines (\<lambda>_. Line '': keep-alive'')) reply = None"
proof -
  have "resolve_stream short_client (Lines (\<lambda>_. Line '': keep-alive'')) = None"
    using idle_never_stops [of short_client] resolve_stream_stops [of short_client "Lines (\<lambda>_. Line '': keep-alive'')"] by blast
  then show ?thesis by (simp add: client_resolve_def)
qed

end
