(* ===== verification/Publisher_Theorems.thy ===== *)
theory Publisher_Theorems
  imports Publisher
begin

text \<open>
  A published release can be had from the catalog, and publishing again changes nothing; the archive of
  a project that keeps the agent's limits is one the agent installs, file by file.
\<close>

section \<open>Publishing twice\<close>

lemma prepare_cases:
  assumes "prepare_release P q es = Inr (manifest, artifact)"
  obtains d entrypoint fs where "operator_spec P es = Inr d" "check_spec P q d = Inr entrypoint" "source_files es = Inr fs"
    "artifact = pb_archive P (archive_files P q entrypoint d fs)" "length artifact \<le> MAX_ARTIFACT_BYTES"
    "manifest = release_manifest P q entrypoint d fs artifact"
  using assms by (auto simp: prepare_release_def Let_def split: sum.splits if_splits)

lemma manifest_texts:
  "dict_get (release_manifest P q e d fs artifact) ''id'' = Some (JStr (release_id_of P q e d fs))"
  "dict_get (release_manifest P q e d fs artifact) ''artifact_sha256'' = Some (JStr (pb_sha256 P artifact))"
  "distinct (map fst (release_manifest P q e d fs artifact))"
  by (simp_all add: release_manifest_def)

lemma sort_manifest_items: "sort_manifest m = sorted_items m"
  unfolding sort_manifest_def sort_keys_obj by simp

lemma str_req_sorted: "dict_get m k = Some (JStr s) \<Longrightarrow> distinct (map fst m) \<Longrightarrow> str_req (sort_manifest m) k = Inr s"
  unfolding sort_manifest_items str_req_def item_def by (simp only: dict_get_sorted) simp

lemma catalog_save_again:
  assumes "catalog_save root C m artifact = (C', Inr rel)" "dict_get m ''id'' = Some (JStr i)"
    and "dict_get m ''artifact_sha256'' = Some (JStr sha)" "distinct (map fst m)"
  shows "catalog_save root C' m artifact = (C', Inr rel)" "catalog_get root C' i = Inr rel" "rel_artifact_sha256 rel = sha"
proof -
  have i: "str_req m ''id'' = Inr i" and s: "str_req m ''artifact_sha256'' = Inr sha"
    using assms(2,3) by (simp_all add: str_req_def item_def)
  have "catalog_get root C' i = Inr rel \<and> dict_get C' i \<noteq> None \<and> rel_artifact_sha256 rel = sha"
  proof (cases "dict_get C i")
    case None
    with assms(1) i have C': "C' = save_upto 5 i (sort_manifest m) artifact C" and g: "catalog_get root C' i = Inr rel"
      by (auto simp: catalog_save_def Let_def)
    then have d: "dict_get C' i = Some \<lparr>rd_metadata = Some (sort_manifest m), rd_artifact = Some artifact,
        rd_tmp_metadata = None, rd_tmp_artifact = None\<rparr>" by (simp add: save_upto_complete)
    with g obtain rt where "release_of (artifact_path root i) rt (sort_manifest m) = Inr rel"
      by (auto simp: catalog_get_def Let_def split: sum.splits)
    then have "rel_artifact_sha256 rel = sha"
      using str_req_sorted [OF assms(3,4)] by (auto simp: release_of_def split: sum.splits)
    with g d show ?thesis by simp
  next
    case (Some x)
    with assms(1) i s show ?thesis by (auto simp: catalog_save_def split: sum.splits if_splits)
  qed
  with i s show "catalog_save root C' m artifact = (C', Inr rel)" "catalog_get root C' i = Inr rel" "rel_artifact_sha256 rel = sha"
    by (auto simp: catalog_save_def)
qed

lemma publish_again:
  assumes "publish_release P root q es C = (C', Inr rel)"
  shows "publish_release P root q es C' = (C', Inr rel)"
    "\<exists>m a. prepare_release P q es = Inr (m, a) \<and> rel_artifact_sha256 rel = pb_sha256 P a \<and>
       (\<exists>i. dict_get m ''id'' = Some (JStr i) \<and> catalog_get root C' i = Inr rel)"
proof -
  from assms obtain m a where p: "prepare_release P q es = Inr (m, a)" and s: "catalog_save root C m a = (C', Inr rel)"
    by (auto simp: publish_release_def split: sum.splits)
  from prepare_cases [OF p] obtain d e fs where m: "m = release_manifest P q e d fs a" by metis
  note again = catalog_save_again [OF s manifest_texts [of P q e d fs a, folded m]]
  show "publish_release P root q es C' = (C', Inr rel)" using again(1) p by (simp add: publish_release_def)
  show "\<exists>m a. prepare_release P q es = Inr (m, a) \<and> rel_artifact_sha256 rel = pb_sha256 P a \<and>
       (\<exists>i. dict_get m ''id'' = Some (JStr i) \<and> catalog_get root C' i = Inr rel)"
    using again(2,3) p manifest_texts(1) [of P q e d fs a, folded m] by blast
qed

section \<open>Unpacking regular files\<close>

text \<open>Paths as a directory tree has them: no file has another below it.\<close>

definition file_tree :: "path list \<Rightarrow> bool" where
  "file_tree ps \<longleftrightarrow> distinct ps \<and> (\<forall>p \<in> set ps. p \<noteq> [] \<and> ''..'' \<notin> set p \<and> list_all component p) \<and>
     (\<forall>p \<in> set ps. \<forall>q \<in> set ps. \<not> strict_prefix p q)"

text \<open>What the staging directory holds once some files are there.\<close>

definition unpacked :: "path \<Rightarrow> fs \<Rightarrow> (path \<times> bytes) list \<Rightarrow> fs \<Rightarrow> bool" where
  "unpacked staging fs0 fs k \<longleftrightarrow>
     (\<forall>p. \<not> prefix staging p \<longrightarrow> k p = fs0 p) \<and> (\<forall>p. prefix p staging \<longrightarrow> is_dir k p) \<and>
     (\<forall>q. q \<noteq> [] \<longrightarrow> k (staging @ q) =
        (case map_of fs q of
           Some b \<Rightarrow> Some (File b 420)
         | None \<Rightarrow> if \<exists>d \<in> fst ` set fs. strict_prefix q d then Some (Dir 493) else None))"

lemma unpacked_file: "unpacked staging fs0 fs k \<Longrightarrow> q \<noteq> [] \<Longrightarrow> is_file k (staging @ q) \<longleftrightarrow> q \<in> fst ` set fs"
  by (auto simp: unpacked_def is_file_def map_of_eq_None_iff split: option.splits if_splits dest: map_of_SomeD
      intro: rev_image_eqI)

lemma take_append_cases: "i \<le> length (a @ b) \<Longrightarrow> prefix (take i (a @ b)) a \<or> (\<exists>j. take i (a @ b) = a @ take j b \<and> 0 < j \<and> j \<le> length b)"
  by (cases "i \<le> length a") (auto simp: take_is_prefix intro!: exI [of _ "i - length a"])

lemma above_staging:
  assumes "unpacked staging fs0 fs k" "\<not> prefix staging q" "prefix q (staging @ r)"
  shows "k q \<noteq> None"
proof -
  from assms(2,3) have "prefix q staging" using prefix_same_cases [of q "staging @ r" staging] by auto
  with assms(1) show ?thesis by (auto simp: unpacked_def is_dir_def split: option.splits)
qed

lemma unpack_step:
  assumes u: "unpacked staging fs0 fs k" and t: "file_tree (map fst fs @ [p])"
  obtains k1 k2 where "mkdir_parents (butlast (staging @ p)) k = Inr k1" "write_file (staging @ p) b k1 = Inr k2"
    "unpacked staging fs0 (fs @ [(p, b)]) k2"
proof -
  from t have p: "p \<noteq> []" and new: "p \<notin> fst ` set fs"
    and above: "\<And>q. q \<in> fst ` set fs \<Longrightarrow> \<not> strict_prefix q p \<and> \<not> strict_prefix p q"
    by (auto simp: file_tree_def)
  have bl: "butlast (staging @ p) = staging @ butlast p" using p by (simp add: butlast_append)
  have nf: "\<not> is_file k (take i (staging @ butlast p))" if "i \<le> length (staging @ butlast p)" for i
    using take_append_cases [OF that]
  proof
    assume "prefix (take i (staging @ butlast p)) staging"
    with u show ?thesis by (auto simp: unpacked_def is_dir_def is_file_def split: option.splits node.splits)
  next
    assume "\<exists>j. take i (staging @ butlast p) = staging @ take j (butlast p) \<and> 0 < j \<and> j \<le> length (butlast p)"
    then obtain j where j: "take i (staging @ butlast p) = staging @ take j (butlast p)" "0 < j" "j \<le> length (butlast p)" by blast
    then have "take j (butlast p) \<noteq> []" "strict_prefix (take j (butlast p)) p"
      using p by (auto simp: strict_prefix_def butlast_conv_take take_is_prefix)
    with above show ?thesis unfolding j(1) using unpacked_file [OF u] by blast
  qed
  then have none: "\<not> list_ex (\<lambda>i. is_file k (take i (staging @ butlast p))) [0..<Suc (length (staging @ butlast p))]"
    unfolding list_ex_iff using nf by (metis atLeastLessThan_iff less_Suc_eq_le set_upt)
  let ?k1 = "\<lambda>q. if prefix q (staging @ butlast p) \<and> k q = None then Some (Dir 493) else k q"
  have m: "mkdir_parents (butlast (staging @ p)) k = Inr ?k1"
    unfolding mkdir_parents_def bl if_not_P [OF none] by (rule refl)
  have "map_of fs p = None" using new by (simp add: map_of_eq_None_iff)
  with u p above have kp: "k (staging @ p) = None" by (auto simp: unpacked_def)
  have np: "\<not> prefix p (butlast p)" using p by (metis append_butlast_last_id length_append_singleton not_less_eq_eq prefix_length_le order_refl)
  let ?k2 = "?k1(staging @ p := Some (File b 420))"
  have w: "write_file (staging @ p) b ?k1 = Inr ?k2" using kp np by (simp add: write_file_def is_dir_def)
  have sp: "prefix q (butlast p) \<longleftrightarrow> strict_prefix q p" for q
    using p by (metis append_butlast_last_id prefix_snoc strict_prefix_def prefix_order.antisym_conv1 np prefix_order.trans prefixI)
  have "?k2 (staging @ q) = (case map_of (fs @ [(p, b)]) q of Some b \<Rightarrow> Some (File b 420)
      | None \<Rightarrow> if \<exists>d \<in> fst ` set (fs @ [(p, b)]). strict_prefix q d then Some (Dir 493) else None)" if "q \<noteq> []" for q
  proof (cases "q = p")
    case True
    then show ?thesis using new by (simp add: map_add_def map_of_eq_None_iff [THEN iffD2])
  next
    case False
    have "map_of fs q = None" if "strict_prefix q p" using above that by (metis map_of_eq_None_iff)
    with False u that show ?thesis by (auto simp: unpacked_def sp map_add_def split: option.split)
  qed
  moreover have "?k2 q = fs0 q" if "\<not> prefix staging q" for q
  proof -
    from that have "q \<noteq> staging @ p" by auto
    with above_staging [OF u that] u that show ?thesis by (auto simp: unpacked_def)
  qed
  moreover have "is_dir ?k2 q" if "prefix q staging" for q
    using u that p by (auto simp: unpacked_def is_dir_def)
  ultimately have "unpacked staging fs0 (fs @ [(p, b)]) ?k2" by (simp add: unpacked_def)
  with m w show thesis by (rule that)
qed

text \<open>The members \<open>tarfile\<close> reads back of the files the publisher archived.\<close>

definition regular_member :: "string \<times> bytes \<Rightarrow> member" where
  "regular_member f = \<lparr>tm_name = fst f, tm_kind = MReg, tm_size = length (snd f), tm_data = Some (snd f)\<rparr>"

definition at_path :: "string \<times> bytes \<Rightarrow> path \<times> bytes" where
  "at_path f = (path_parts (fst f), snd f)"

definition total_size :: "('a \<times> bytes) list \<Rightarrow> nat" where
  "total_size fs = sum_list (map (\<lambda>f. length (snd f)) fs)"

lemma total_size_simps [simp]:
  "total_size [] = 0" "total_size (f # fs) = length (snd f) + total_size fs"
  "total_size (fs @ gs) = total_size fs + total_size gs"
  by (simp_all add: total_size_def)

lemma file_tree_prefix: "file_tree (ps @ qs) \<Longrightarrow> file_tree ps"
  by (auto simp: file_tree_def)

lemma extract_all_installs:
  assumes "unpacked s fs0 ds (ex_fs x)" "ex_names x = map fst ds" "ex_count x = length ds" "ex_total x = total_size ds"
    and "file_tree (map fst ds @ map (\<lambda>f. path_parts (fst f)) fs)" "list_all (\<lambda>f. \<not> is_absolute (fst f)) fs" "resolve s = s"
    and "length ds + length fs \<le> mz_max_files M" "total_size ds + total_size fs \<le> mz_max_expanded_bytes M"
  shows "\<exists>x'. extract_all M s x (map regular_member fs) = Inr x' \<and> unpacked s fs0 (ds @ map at_path fs) (ex_fs x')"
  using assms
proof (induction fs arbitrary: x ds)
  case (Cons f fs)
  obtain n b where f: "f = (n, b)" by (cases f)
  let ?p = "path_parts n"
  have t: "file_tree (map fst ds @ [?p])" 
    using Cons.prems(5) f file_tree_prefix [of "map fst ds @ [?p]" "map (\<lambda>f. path_parts (fst f)) fs"] by simp
  then have p: "?p \<notin> set (map fst ds)" "''..'' \<notin> set ?p" "?p \<noteq> []" by (auto simp: file_tree_def)
  let ?x = "\<lparr>ex_fs = ex_fs x, ex_count = Suc (length ds), ex_total = total_size ds + length b, ex_names = map fst ds @ [?p]\<rparr>"
  have c: "check_member M x (regular_member (n, b)) = Inr ?x"
    using Cons.prems p f by (simp add: check_member_def Let_def regular_member_def)
  from unpack_step [OF Cons.prems(1) t] obtain k1 k2
    where k: "mkdir_parents (butlast (s @ ?p)) (ex_fs x) = Inr k1" "write_file (s @ ?p) b k1 = Inr k2"
      "unpacked s fs0 (ds @ [(?p, b)]) k2" by metis
  have r: "resolve (s @ ?p) = s @ ?p" using resolve_append_safe [OF p(2), of s] Cons.prems(7) by simp
  have e: "extract_member s ?x (regular_member (n, b)) = Inr (?x\<lparr>ex_fs := k2\<rparr>)"
    using k(1,2) Cons.prems(7) r by (simp add: extract_member_def regular_member_def Let_def)
  from Cons.IH [of "ds @ [(?p, b)]" "?x\<lparr>ex_fs := k2\<rparr>"] Cons.prems k(3) f
  show ?case by (simp add: c e at_path_def)
qed simp

section \<open>The agent installs what was published\<close>

text \<open>The agent's file system before the first installation of a release.\<close>

definition fresh_for :: "materializer \<Rightarrow> string \<Rightarrow> fs \<Rightarrow> bool" where
  "fresh_for M i fs \<longleftrightarrow> (\<forall>p. prefix p (mz_root M) \<longrightarrow> is_dir fs p) \<and>
     (\<forall>p. prefix (staging_path M i) p \<or> prefix (target_path M i) p \<longrightarrow> fs p = None)"

definition plain_names :: "materializer \<Rightarrow> string \<Rightarrow> bool" where
  "plain_names M i \<longleftrightarrow> component i \<and> i \<noteq> ''..'' \<and> CHR ''/'' \<notin> set (mz_pid M) \<and> ''..'' \<notin> set (mz_root M)"

lemma split_slash_free: "CHR ''/'' \<notin> set c \<Longrightarrow> c \<noteq> [] \<Longrightarrow> c \<noteq> ''.'' \<Longrightarrow> path_parts c = [c]"
  by (simp add: path_parts_def split_on_no)

lemma root_resolved: "''..'' \<notin> set r \<Longrightarrow> resolve r = r"
  using resolve_append_safe [of r "[]"] by (simp add: resolve_def)

lemma release_paths:
  assumes "plain_names M i"
  shows "staging_path M i = mz_root M @ [''.'' @ i @ ''.tmp-'' @ mz_pid M]" "target_path M i = mz_root M @ [i]"
proof -
  have i: "CHR ''/'' \<notin> set i" "i \<noteq> []" "i \<noteq> ''.''" "i \<noteq> ''..''" and pid: "CHR ''/'' \<notin> set (mz_pid M)"
    and r: "resolve (mz_root M) = mz_root M"
    using assms root_resolved by (auto simp: plain_names_def component_def)
  have a: "\<not> is_absolute i" using i(1,2) by (cases i) (auto simp: is_absolute_def starts_with_def)
  let ?c = "''.'' @ i @ ''.tmp-'' @ mz_pid M"
  have c: "path_parts ?c = [?c]" using i pid by (intro split_slash_free) auto
  have dd: "?c \<noteq> ''..''" using i(2) by (cases i) auto
  show "target_path M i = mz_root M @ [i]"
    using i r a by (simp add: target_path_def join_path_def split_slash_free resolve_snoc)
  have "\<not> is_absolute ?c" by (simp add: is_absolute_def starts_with_def)
  with c dd r(1) show "staging_path M i = mz_root M @ [?c]"
    by (simp add: staging_path_def join_path_def resolve_snoc del: append.simps)
qed

lemma unpack_installs:
  assumes "mz_tar M a = Inr (map regular_member fs)" "plain_names M i" "fresh_for M i fs0"
    and "mkdir_parents (staging_path M i) fs0 = Inr fs1"
    and "file_tree (map (\<lambda>f. path_parts (fst f)) fs)" "list_all (\<lambda>f. \<not> is_absolute (fst f)) fs"
    and "length fs \<le> mz_max_files M" "total_size fs \<le> mz_max_expanded_bytes M"
    and "[''operator.json''] \<in> (\<lambda>f. path_parts (fst f)) ` set fs"
  obtains fs2 where "unpack M (staging_path M i) (target_path M i) a fs1 = Inr fs2"
    "\<And>n b. (n, b) \<in> set fs \<Longrightarrow> fs2 (target_path M i @ path_parts n) = Some (File b 292)"
proof -
  let ?s = "staging_path M i" and ?t = "target_path M i"
  note paths = release_paths [OF assms(2)]
  have fs1: "fs1 = (\<lambda>q. if prefix q ?s \<and> fs0 q = None then Some (Dir 493) else fs0 q)"
    using assms(4) by (auto simp: mkdir_parents_def split: if_splits)
  have u0: "unpacked ?s fs1 [] fs1"
    using assms(3) unfolding unpacked_def fresh_for_def fs1 paths
    by (auto simp: is_dir_def prefix_snoc split: option.splits node.splits)
  from extract_all_installs [OF _ _ _ _ _ assms(6) staging_resolved, of M i fs1 "[]" "\<lparr>ex_fs = fs1, ex_count = 0, ex_total = 0, ex_names = []\<rparr>"]
    u0 assms(5,7,8)
  obtain x where x: "extract_all M ?s \<lparr>ex_fs = fs1, ex_count = 0, ex_total = 0, ex_names = []\<rparr> (map regular_member fs) = Inr x"
    and u: "unpacked ?s fs1 (map at_path fs) (ex_fs x)" by auto
  have d: "distinct (map fst (map at_path fs))" using assms(5) by (simp add: file_tree_def at_path_def comp_def)
  have unp: "ex_fs x (?s @ path_parts n) = Some (File b 420)" if "(n, b) \<in> set fs" for n b
  proof -
    have "(path_parts n, b) \<in> set (map at_path fs)" using that by (force simp: at_path_def)
    with d have "map_of (map at_path fs) (path_parts n) = Some b" by (rule map_of_is_SomeI)
    moreover have "path_parts n \<noteq> []" using assms(5) that by (force simp: file_tree_def)
    ultimately show ?thesis using u by (simp add: unpacked_def)
  qed
  from assms(9) obtain n b where "(n, b) \<in> set fs" "path_parts n = [''operator.json'']" by force
  with unp [of n b] have j: "is_file (ex_fs x) (?s @ [''operator.json''])" by (simp add: is_file_def)
  have "\<not> prefix ?s (butlast ?t)" "\<not> prefix ?s ?t" "\<not> prefix ?t ?s"
    using assms(2) unfolding paths by (auto simp: plain_names_def component_def dest: prefix_length_le)
  moreover have "is_dir (make_read_only ?s (ex_fs x)) (butlast ?t)"
  proof -
    have "butlast ?t = mz_root M" "prefix (mz_root M) ?s" unfolding paths by simp_all
    moreover from u this(2) have "is_dir (ex_fs x) (mz_root M)" unfolding unpacked_def by blast
    ultimately show ?thesis using \<open>\<not> prefix ?s (butlast ?t)\<close> by (simp add: is_dir_def make_read_only_def)
  qed
  ultimately have "unpack M ?s ?t a fs1 = Inr (\<lambda>p. if prefix ?t p then make_read_only ?s (ex_fs x) (?s @ drop (length ?t) p)
      else if prefix ?s p then None else make_read_only ?s (ex_fs x) p)"
    by (simp add: unpack_def assms(1) x j rename_dir_def)
  then show thesis by (rule that) (simp add: make_read_only_def unp)
qed

text \<open>The limits of the agent, and names that can be unpacked beside each other.\<close>

definition agent_accepts :: "materializer \<Rightarrow> (string \<times> bytes) list \<Rightarrow> bool" where
  "agent_accepts M fs \<longleftrightarrow> file_tree (map (\<lambda>f. path_parts (fst f)) fs) \<and> list_all (\<lambda>f. \<not> is_absolute (fst f)) fs \<and>
     length fs \<le> mz_max_files M \<and> total_size fs \<le> mz_max_expanded_bytes M"

text \<open>Publishing the same project again changes nothing in the catalog and gives the same release, which
  the catalog also answers for its id, with the digest of the artifact.\<close>

theorem publish_idempotent:
  assumes "publish_release P root q es C = (C', Inr rel)"
  shows "publish_release P root q es C' = (C', Inr rel) \<and>
     (\<exists>m a i. prepare_release P q es = Inr (m, a) \<and> dict_get m ''id'' = Some (JStr i) \<and>
        catalog_get root C' i = Inr rel \<and> rel_artifact_sha256 rel = pb_sha256 P a)"
  using publish_again [OF assms] by blast

text \<open>C22: A published release whose files keep the agent's limits is one the agent installs: every file of
  the project and the compiled manifest are there, with their content and read-only.\<close>

theorem published_release_installs:
  assumes "publish_release P root q es C = (C', Inr rel)" "prepare_release P q es = Inr (m, a)"
    and "dict_get m ''id'' = Some (JStr i)" "operator_spec P es = Inr d" "source_files es = Inr srcs"
    and "files = archive_files P q (spec_entrypoint P d) d srcs" "mz_tar M a = Inr (map regular_member files)"
    and "mz_sha256 M = pb_sha256 P" "plain_names M i" "fresh_for M i fs0" "agent_accepts M files"
  shows "\<exists>fs1. install M i (rel_artifact_sha256 rel) a fs0 = (fs1, Inr (target_path M i)) \<and>
       list_all (\<lambda>(n, b). fs1 (target_path M i @ path_parts n) = Some (File b 292)) files"
proof -
  let ?s = "staging_path M i"
  have sha: "rel_artifact_sha256 rel = pb_sha256 P a" using publish_again(2) [OF assms(1)] assms(2) by auto
  note paths = release_paths [OF assms(9)]
  have "\<not> is_file fs0 (take k ?s)" for k
  proof -
    have "prefix (take k ?s) (mz_root M) \<or> take k ?s = ?s" unfolding paths
      by (metis paths(1) prefix_snoc take_is_prefix)
    with assms(10) show ?thesis by (auto simp: fresh_for_def is_dir_def is_file_def split: option.splits node.splits)
  qed
  then have "\<exists>fs1. mkdir_parents ?s fs0 = Inr fs1" unfolding mkdir_parents_def by (simp add: list_ex_iff del: upt_Suc)
  then obtain fs1 where fs1: "mkdir_parents ?s fs0 = Inr fs1" by blast
  have j: "[''operator.json''] \<in> (\<lambda>f. path_parts (fst f)) ` set files"
    by (simp add: assms(6) archive_files_def path_parts_def)
  have acc: "file_tree (map (\<lambda>f. path_parts (fst f)) files)" "list_all (\<lambda>f. \<not> is_absolute (fst f)) files"
    "length files \<le> mz_max_files M" "total_size files \<le> mz_max_expanded_bytes M"
    using assms(11) by (simp_all add: agent_accepts_def)
  from unpack_installs [OF assms(7,9,10) fs1 acc j] obtain fs2
    where "unpack M ?s (target_path M i) a fs1 = Inr fs2"
      "\<And>n b. (n, b) \<in> set files \<Longrightarrow> fs2 (target_path M i @ path_parts n) = Some (File b 292)" by metis
  moreover have "fs0 ?s = None" "fs0 (target_path M i) = None" using assms(10) by (simp_all add: fresh_for_def)
  ultimately show ?thesis
    using fs1 by (auto simp: install_def Let_def sha assms(8) is_file_def list_all_iff)
qed

section \<open>A small project\<close>

definition small_publishing :: publishing where
  "small_publishing = \<lparr>pb_yaml = (\<lambda>_. Inr (JObj [(''entrypoint'', JStr ''m:f'')])), pb_show = (\<lambda>_. []),
     pb_canonical = (\<lambda>_. [1]), pb_digest = (\<lambda>_. [2]), pb_hex = (\<lambda>_. ''x''), pb_archive = (\<lambda>_. [9])\<rparr>"

definition small_project :: "project_entry list" where
  "small_project =
     [\<lparr>pe_parts = [''m.py''], pe_is_file = True, pe_symlink = False, pe_data = [5]\<rparr>,
      \<lparr>pe_parts = [''operator.yaml''], pe_is_file = True, pe_symlink = False, pe_data = [6]\<rparr>,
      \<lparr>pe_parts = [''__pycache__'', ''m.pyc''], pe_is_file = True, pe_symlink = False, pe_data = [7]\<rparr>]"

definition small_request :: publish_request where
  "small_request = \<lparr>pq_image = ''r/i:1'', pq_profile = ''p'', pq_python = ''3.12'', pq_mutable = True\<rparr>"

definition small_files :: "(string \<times> bytes) list" where
  "small_files = [(''m.py'', [5]), (''operator.yaml'', [6]), (''operator.json'', [1])]"

definition small_agent :: materializer where
  "small_agent = \<lparr>mz_root = [''r''], mz_max_files = 3, mz_max_expanded_bytes = 3, mz_pid = ''1'',
     mz_sha256 = (\<lambda>_. ''x''), mz_tar = (\<lambda>_. Inr (map regular_member small_files))\<rparr>"

definition small_disk :: fs where
  "small_disk = (\<lambda>p. if p = [] \<or> p = [''r''] then Some (Dir 493) else None)"

definition small_prepared :: "(string, json) dict \<times> bytes" where
  "small_prepared = (release_manifest small_publishing small_request ''m:f'' [(''entrypoint'', JStr ''m:f'')]
     [(''m.py'', [5]), (''operator.yaml'', [6])] [9], [9])"

definition small_release :: "catalog \<times> (exn + operator_release)" where
  "small_release = catalog_save ''/c'' [] (fst small_prepared) (snd small_prepared)"

definition small_outcome :: operator_release where
  "small_outcome = (case snd small_release of Inr r \<Rightarrow> r | Inl _ \<Rightarrow> undefined)"

lemma small_parts:
  "operator_spec small_publishing small_project = Inr [(''entrypoint'', JStr ''m:f'')]"
  "source_files small_project = Inr [(''m.py'', [5]), (''operator.yaml'', [6])]"
  "check_spec small_publishing small_request [(''entrypoint'', JStr ''m:f'')] = Inr ''m:f''"
  by code_simp+

lemma small_saved: "small_release = (fst small_release, Inr small_outcome)" by code_simp

lemma small_published:
  "prepare_release small_publishing small_request small_project = Inr (fst small_prepared, snd small_prepared)"
  "publish_release small_publishing ''/c'' small_request small_project [] = (fst small_release, Inr small_outcome)"
  "dict_get (fst small_prepared) ''id'' = Some (JStr ''x'')"
proof -
  show p: "prepare_release small_publishing small_request small_project = Inr (fst small_prepared, snd small_prepared)"
    by (simp add: prepare_release_def small_parts small_prepared_def MAX_ARTIFACT_BYTES_def Let_def)
      (simp add: small_publishing_def)
  show "publish_release small_publishing ''/c'' small_request small_project [] = (fst small_release, Inr small_outcome)"
    using small_saved by (simp add: publish_release_def p small_release_def split_beta)
qed code_simp

theorem publish_idempotent_witness:
  "publish_release small_publishing ''/c'' small_request small_project (fst small_release) = (fst small_release, Inr small_outcome)"
  using publish_idempotent [OF small_published(2)] by blast

lemma small_accepted:
  "small_files = archive_files small_publishing small_request (spec_entrypoint small_publishing [(''entrypoint'', JStr ''m:f'')])
     [(''entrypoint'', JStr ''m:f'')] [(''m.py'', [5]), (''operator.yaml'', [6])]"
  "mz_tar small_agent (snd small_prepared) = Inr (map regular_member small_files)"
  "mz_sha256 small_agent = pb_sha256 small_publishing" "plain_names small_agent ''x''"
  "fresh_for small_agent ''x'' small_disk" "agent_accepts small_agent small_files"
proof -
  have n: "map (\<lambda>f. path_parts (fst f)) small_files = [[''m.py''], [''operator.yaml''], [''operator.json'']]" by code_simp
  show "agent_accepts small_agent small_files"
    unfolding agent_accepts_def n
    by (simp add: file_tree_def strict_prefix_def component_def small_agent_def small_files_def is_absolute_def starts_with_def)
  show p: "plain_names small_agent ''x''" by (simp add: plain_names_def component_def small_agent_def)
  show "fresh_for small_agent ''x'' small_disk"
    unfolding fresh_for_def release_paths [OF p]
    by (auto simp: small_agent_def small_disk_def is_dir_def prefix_Cons)
qed (auto simp: small_files_def archive_files_def small_publishing_def small_agent_def pb_sha256_def)

theorem published_release_installs_witness:
  "\<exists>fs1. install small_agent ''x'' (rel_artifact_sha256 small_outcome) (snd small_prepared) small_disk =
     (fs1, Inr (target_path small_agent ''x''))"
  using published_release_installs [OF small_published(2,1,3) small_parts(1,2) small_accepted] by blast

end
