(* ===== verification/Cleanup_Client.thy ===== *)
theory Cleanup_Client
  imports Build_Http Publish_Lifecycle Admin_Http
begin

text \<open>
  The administration routes of the publish service (\<open>publish_service/lifecycle_routes.py\<close> over
  \<open>publish_service/lifecycle_service.py\<close>). The framework checks the fields of a body before it calls a route.
\<close>

definition text_field :: "(string, json) dict \<Rightarrow> string \<Rightarrow> nat \<Rightarrow> nat \<Rightarrow> string option" where
  "text_field d k lo hi = (case dict_get d k of Some (JStr s) \<Rightarrow> if text_between lo hi s then Some s else None | _ \<Rightarrow> None)"

lemma text_field_Some: "text_field d k lo hi = Some s \<longleftrightarrow> dict_get d k = Some (JStr s) \<and> text_between lo hi s"
  by (auto simp: text_field_def split: option.splits json.splits)

lemma text_field_nonempty: "text_field d k lo hi = Some s \<Longrightarrow> 0 < lo \<Longrightarrow> s \<noteq> []"
  by (auto simp: text_field_Some text_between_def text_length_def)

definition PUBLISH_ADMIN_TOKEN :: string where
  "PUBLISH_ADMIN_TOKEN = ''PUBLISH_ADMIN_TOKEN''"

definition publish_reference_json :: "operator_row \<times> contract_row \<times> variant_row \<Rightarrow> json" where
  "publish_reference_json x =
     (case x of (r, c, v) \<Rightarrow>
        JObj [(''operatorId'', JStr (op_id r)), (''name'', JStr (op_name r)), (''displayName'', JStr (op_display_name r)),
          (''contractId'', JStr (cv_id c)), (''variantId'', JStr (vr_id v)), (''publishedRef'', opt_text_json (vr_ref v)),
          (''publishedMetadata'', (case vr_metadata v of None \<Rightarrow> JNull | Some m \<Rightarrow> m))])"

definition retirement_items :: "retirement_answer \<Rightarrow> (string, json) dict" where
  "retirement_items a =
     [(''runtimeEnvKey'', JStr (ra_key a)), (''imageRef'', JStr (ra_image a)), (''lifecycleState'', JStr (lc_name (ra_state a))),
      (''publishedReferenceCount'', JInt (int (length (ra_references a)))),
      (''publishedReferences'', JList (map publish_reference_json (ra_references a))), (''safeForRetirement'', JBool (ra_safe a))]"

definition cancellation_items :: "string \<Rightarrow> cancellation \<Rightarrow> (string, json) dict" where
  "cancellation_items k c =
     (case c of
        AlreadyActive \<Rightarrow> [(''cancelled'', JBool True), (''alreadyActive'', JBool True), (''runtimeEnvKey'', JStr k)]
      | Cancelled img \<Rightarrow> [(''cancelled'', JBool True), (''runtimeEnvKey'', JStr k), (''imageRef'', JStr img)])"

definition gate_items :: "runtime_gate \<Rightarrow> (string, json) dict" where
  "gate_items g =
     [(''runtimeEnvKey'', JStr (rg_key g)), (''imageRef'', JStr (rg_image g)), (''lifecycleState'', JStr (lc_name (rg_state g)))]"

definition publish_error :: "exn \<Rightarrow> http_answer" where
  "publish_error e = (if of_class value_errors e then http_error 409 (exn_msg e) else server_error)"

definition publish_answer :: "('a \<Rightarrow> (string, json) dict) \<Rightarrow> exn + 'a \<Rightarrow> http_answer" where
  "publish_answer show r = (case r of Inr x \<Rightarrow> http_ok (JObj (show x)) | Inl e \<Rightarrow> publish_error e)"

definition publish_retire_route ::
  "postgres \<Rightarrow> int \<Rightarrow> string \<Rightarrow> string option \<Rightarrow> (string, json) dict \<Rightarrow> publish_db \<Rightarrow> publish_db \<times> http_answer" where
  "publish_retire_route G now token header d db =
     (case (text_field d ''runtimeEnvKey'' 1 256, text_field d ''imageRef'' 1 2048, text_field d ''reason'' 5 1000) of
        (Some k, Some img, Some reason) \<Rightarrow>
          admin_route PUBLISH_ADMIN_TOKEN token header
            (\<lambda>db. apsnd (publish_answer retirement_items) (begin_retirement G now k img reason db)) db
      | _ \<Rightarrow> (db, unprocessable))"

definition publish_cancel_route ::
  "string \<Rightarrow> string option \<Rightarrow> (string, json) dict \<Rightarrow> publish_db \<Rightarrow> publish_db \<times> http_answer" where
  "publish_cancel_route token header d db =
     (case text_field d ''runtimeEnvKey'' 1 256 of
        Some k \<Rightarrow>
          admin_route PUBLISH_ADMIN_TOKEN token header
            (\<lambda>db. apsnd (publish_answer (cancellation_items k)) (cancel_retirement k db)) db
      | None \<Rightarrow> (db, unprocessable))"

definition finalize_error :: "exn \<Rightarrow> http_answer" where
  "finalize_error e = (if of_class [''KeyError''] e then http_error 404 ''runtime lifecycle gate not found'' else server_error)"

definition publish_finalize_route ::
  "int \<Rightarrow> string \<Rightarrow> string option \<Rightarrow> (string, json) dict \<Rightarrow> publish_db \<Rightarrow> publish_db \<times> http_answer" where
  "publish_finalize_route now token header d db =
     (case text_field d ''runtimeEnvKey'' 1 256 of
        Some k \<Rightarrow>
          admin_route PUBLISH_ADMIN_TOKEN token header
            (\<lambda>db. apsnd (\<lambda>r. case r of Inr g \<Rightarrow> http_ok (JObj (gate_items g)) | Inl e \<Rightarrow> finalize_error e)
                    (finalize_retirement now k db)) db
      | None \<Rightarrow> (db, unprocessable))"

text \<open>
  \<open>web/admin/lifecycle_client.py\<close>: the console's requests to the administration routes of the build service, the
  publish service and the runner. What the network does with a request is one of three outcomes; the exceptions
  it can raise are \<open>urllib\<close>'s. A server finds the route of a path as the frameworks do.
\<close>

section \<open>Paths\<close>

definition hex_val :: "char \<Rightarrow> nat option" where
  "hex_val c = List.find (\<lambda>n. hex_digit n = c) [0..<16]"

fun unquote :: "string \<Rightarrow> string" where
  "unquote [] = []"
| "unquote (c # s) =
     (if c = CHR ''%''
      then (case s of
              a # b # r \<Rightarrow>
                (case (hex_val a, hex_val b) of
                   (Some x, Some y) \<Rightarrow> char_of (16 * x + y) # unquote r
                 | _ \<Rightarrow> c # unquote s)
            | _ \<Rightarrow> c # unquote s)
      else c # unquote s)"

lemma hex_val_digit: "n < 16 \<Longrightarrow> hex_val (hex_digit n) = Some n"
proof -
  have "\<forall>n \<in> set [0..<16]. hex_val (hex_digit n) = Some n" by code_simp
  then show "n < 16 \<Longrightarrow> ?thesis" by simp
qed

lemma url_safe_percent: "\<not> url_safe CHR ''%''"
  by (simp add: url_safe_def)

theorem unquote_quote: "unquote (quote s) = s"
proof (induction s)
  case (Cons c s)
  have "of_char c < (256 :: nat)" by simp
  then have "of_char c div 16 < (16 :: nat)" by (intro less_mult_imp_div_less) simp
  with Cons url_safe_percent show ?case
    by (cases "url_safe c") (auto simp: quote_def hex_val_digit)
qed (simp add: quote_def)

text \<open>The one parameter of a route: a segment between a prefix and a suffix.\<close>

definition path_param :: "string \<Rightarrow> string \<Rightarrow> string \<Rightarrow> string option" where
  "path_param front tail path =
     (let i = take (length path - length front - length tail) (drop (length front) path) in
      if path = front @ i @ tail \<and> i \<noteq> [] \<and> CHR ''/'' \<notin> set i then Some (unquote i) else None)"

lemma path_param_quote:
  "CHR ''/'' \<notin> set (quote i) \<Longrightarrow> i \<noteq> [] \<Longrightarrow> path_param front tail (front @ quote i @ tail) = Some i"
proof -
  assume "i \<noteq> []"
  then have "quote i \<noteq> []" by (cases i) (auto simp: quote_def)
  then show "CHR ''/'' \<notin> set (quote i) \<Longrightarrow> ?thesis" by (simp add: path_param_def unquote_quote)
qed

section \<open>Endpoints and answers\<close>

record endpoint =
  ep_url :: string
  ep_token :: string

definition ep_enabled :: "endpoint \<Rightarrow> bool" where
  "ep_enabled p \<longleftrightarrow> ep_url p \<noteq> [] \<and> ep_token p \<noteq> []"

text \<open>\<open>LifecycleRejected\<close> carries the status; the other exceptions are as everywhere.\<close>

datatype fault = Rejected nat string | Raised exn

definition fault_class :: "fault \<Rightarrow> string" where
  "fault_class f = (case f of Rejected _ _ \<Rightarrow> ''LifecycleRejected'' | Raised (PyError t m) \<Rightarrow> t | Raised (RunnerError c m r) \<Rightarrow> ''RunnerError'')"

definition fault_text :: "fault \<Rightarrow> string" where
  "fault_text f = (case f of Rejected _ m \<Rightarrow> m | Raised e \<Rightarrow> exn_msg e)"

definition unavailable :: "string \<Rightarrow> fault" where
  "unavailable m = Raised (PyError ''LifecycleUnavailable'' m)"

text \<open>The request is answered, it does not arrive, or its answer does not.\<close>

datatype net = Answered | NotSent exn | NoAnswer exn

definition network_fault :: "exn \<Rightarrow> fault" where
  "network_fault e = (if of_class [''URLError'', ''TimeoutError''] e then unavailable (exn_msg e) else Raised e)"

definition error_message :: "(json \<Rightarrow> string) \<Rightarrow> json \<Rightarrow> string" where
  "error_message show body = (case body of JObj d \<Rightarrow> str_of show (dict_get_or d ''detail'' JNull) | j \<Rightarrow> str_of show j)"

definition decode_answer :: "(json \<Rightarrow> string) \<Rightarrow> http_answer \<Rightarrow> fault + (string, json) dict" where
  "decode_answer show a =
     (if 300 \<le> ha_status a then Inl (Rejected (ha_status a) (error_message show (ha_body a)))
      else (case ha_body a of JObj d \<Rightarrow> Inr d | _ \<Rightarrow> Inl (unavailable ''owner service returned a non-object response'')))"

definition not_configured :: fault where
  "not_configured = unavailable ''owner-service lifecycle endpoint is not configured''"

definition disconnected :: exn where
  "disconnected = PyError ''RemoteDisconnected'' ''Remote end closed connection without response''"

record http_request =
  hq_method :: string
  hq_path :: string
  hq_body :: "(string, json) dict option"
  hq_authorization :: "string option"

definition client_request ::
  "(json \<Rightarrow> string) \<Rightarrow> endpoint \<Rightarrow> net \<Rightarrow> (http_request \<Rightarrow> 'w \<Rightarrow> 'w \<times> http_answer option) \<Rightarrow> string \<Rightarrow> string
     \<Rightarrow> (string, json) dict option \<Rightarrow> 'w \<Rightarrow> 'w \<times> (fault + (string, json) dict)" where
  "client_request show p n serve method path body w =
     (let q = \<lparr>hq_method = method, hq_path = path, hq_body = body, hq_authorization = Some (bearer @ ep_token p)\<rparr> in
      if \<not> ep_enabled p then (w, Inl not_configured)
      else (case n of
              NotSent e \<Rightarrow> (w, Inl (network_fault e))
            | NoAnswer e \<Rightarrow> (fst (serve q w), Inl (network_fault e))
            | Answered \<Rightarrow>
                (case serve q w of
                   (w1, None) \<Rightarrow> (w1, Inl (network_fault disconnected))
                 | (w1, Some a) \<Rightarrow> (w1, decode_answer show a))))"

section \<open>The servers\<close>

definition env_path :: string where
  "env_path = ''/v1/admin/runtime-environments/''"

definition not_found :: http_answer where
  "not_found = http_error 404 ''Not Found''"

definition env_row_items :: "(int \<Rightarrow> json) \<Rightarrow> env_row \<Rightarrow> (string, json) dict" where
  "env_row_items time e =
     [(''id'', JStr (ev_id e)), (''env_key'', JStr (ev_key e)), (''base_image'', JStr (sp_base (ev_spec e))),
      (''python_version'', JStr (sp_python (ev_spec e))), (''platform'', JStr (sp_platform (ev_spec e))),
      (''build_policy_version'', JStr (sp_policy (ev_spec e))), (''lock_sha256'', JStr (ev_lock_sha256 e)),
      (''requirements_lock'', JStr (sp_lock (ev_spec e))), (''packages'', JObj (map (\<lambda>(k, v). (k, JStr v)) (ev_packages e))),
      (''package_count'', JInt (int (ev_package_count e))), (''image_ref'', opt_text_json (ev_image e)),
      (''status'', JStr (status_name (ev_status e))), (''last_error'', opt_text_json (ev_last_error e)),
      (''created_at'', time (ev_created e)), (''updated_at'', time (ev_updated e)),
      (''lifecycle_state'', JStr (lifecycle_name (ev_lifecycle e))),
      (''retired_at'', (case ev_retired_at e of None \<Rightarrow> JNull | Some t \<Rightarrow> time t)),
      (''artifact_deleted_at'', (case ev_deleted_at e of None \<Rightarrow> JNull | Some t \<Rightarrow> time t)),
      (''cleanup_error'', opt_text_json (ev_cleanup_error e))]"

definition env_row_json :: "(int \<Rightarrow> json) \<Rightarrow> env_row \<Rightarrow> json" where
  "env_row_json time e = JObj (env_row_items time e)"

definition deletion_json :: "string \<Rightarrow> deletion \<Rightarrow> json" where
  "deletion_json i x =
     JObj ([(''environmentId'', JStr i), (''imageRef'', opt_text_json (dl_image x)), (''artifactDeleted'', JBool (dl_deleted x)),
        (''alreadyMissing'', JBool (dl_missing x))] @
        (case dl_image x of
           None \<Rightarrow> []
         | Some img \<Rightarrow>
             [(''harbor'', JObj ([(''deleted'', JBool (dl_deleted x)), (''alreadyMissing'', JBool (dl_missing x))] @
                 (case parse_image_ref img of
                    Inl e \<Rightarrow> []
                  | Inr ref \<Rightarrow> [(''project'', JStr (rf_project ref)), (''repository'', JStr (rf_repository ref)),
                                (''digest'', JStr (rf_digest ref))]))),
              (''garbageCollectionRequired'', JBool True)]))"

record build_server =
  zb_env :: build_env
  zb_harbor :: "harbor option"
  zb_token :: string
  zb_time :: "int \<Rightarrow> json"

definition body_of :: "http_request \<Rightarrow> (string, json) dict" where
  "body_of q = (case hq_body q of None \<Rightarrow> [] | Some d \<Rightarrow> d)"

definition build_retire_request :: "build_server \<Rightarrow> int \<Rightarrow> string \<Rightarrow> http_request \<Rightarrow> build_db \<Rightarrow> build_db \<times> http_answer" where
  "build_retire_request B now i q db =
     (case dict_get (body_of q) ''reason'' of
        Some (JStr reason) \<Rightarrow> retire_route (env_row_json (zb_time B)) now (zb_token B) (hq_authorization q) i reason db
      | _ \<Rightarrow> (db, unprocessable))"

definition build_delete_request :: "build_server \<Rightarrow> int \<Rightarrow> string \<Rightarrow> http_request \<Rightarrow> build_db \<Rightarrow> build_db \<times> http_answer" where
  "build_delete_request B now i q db =
     (case dict_get (body_of q) ''expectedImageRef'' of
        Some (JStr img) \<Rightarrow>
          delete_route (zb_env B) (zb_harbor B) (deletion_json i) now (zb_token B) (hq_authorization q) i img db
      | _ \<Rightarrow> (db, unprocessable))"

definition build_serve :: "build_server \<Rightarrow> int \<Rightarrow> http_request \<Rightarrow> build_db \<Rightarrow> build_db \<times> http_answer" where
  "build_serve B now q db =
     (if hq_method q = ''GET''
      then (case path_param env_path ''/cleanup-plan'' (hq_path q) of
              Some i \<Rightarrow> cleanup_plan_route (zb_token B) (hq_authorization q) i db
            | None \<Rightarrow> (db, not_found))
      else if hq_method q = ''DELETE''
      then (case path_param env_path ''/artifact'' (hq_path q) of
              Some i \<Rightarrow> build_delete_request B now i q db
            | None \<Rightarrow> (db, not_found))
      else (case path_param env_path ''/retire'' (hq_path q) of
              Some i \<Rightarrow> build_retire_request B now i q db
            | None \<Rightarrow>
                (case path_param env_path ''/cancel-retirement'' (hq_path q) of
                   Some i \<Rightarrow> cancel_route (env_row_json (zb_time B)) now (zb_token B) (hq_authorization q) i db
                 | None \<Rightarrow> (db, not_found))))"

definition publish_retire_path :: string where
  "publish_retire_path = ''/v1/admin/runner-runtimes/retire''"

definition publish_cancel_path :: string where
  "publish_cancel_path = ''/v1/admin/runner-runtimes/cancel-retirement''"

definition publish_finalize_path :: string where
  "publish_finalize_path = ''/v1/admin/runner-runtimes/finalize-retirement''"

definition publish_serve :: "postgres \<Rightarrow> string \<Rightarrow> int \<Rightarrow> http_request \<Rightarrow> publish_db \<Rightarrow> publish_db \<times> http_answer" where
  "publish_serve G token now q db =
     (if hq_path q = publish_retire_path then publish_retire_route G now token (hq_authorization q) (body_of q) db
      else if hq_path q = publish_cancel_path then publish_cancel_route token (hq_authorization q) (body_of q) db
      else if hq_path q = publish_finalize_path then publish_finalize_route now token (hq_authorization q) (body_of q) db
      else (db, not_found))"

text \<open>The runner's interface reads the bytes of a body. \<open>dumps\<close> is \<open>json.dumps\<close> with its encoding, and
  \<open>json.loads\<close> gives back the object it wrote.\<close>

record 'b runner_server =
  zr_admin :: admin_env
  zr_controller :: "'b controller"
  zr_dumps :: "json \<Rightarrow> bytes"

definition runner_status_path :: string where
  "runner_status_path = ''/v1/admin/runtime-images/status''"

definition runner_retire_path :: string where
  "runner_retire_path = ''/v1/admin/runtime-images/retire''"

definition runner_cancel_path :: string where
  "runner_cancel_path = ''/v1/admin/runtime-images/cancel-retirement''"

definition runner_finalize_path :: string where
  "runner_finalize_path = ''/v1/admin/runtime-images/finalize-retirement''"

definition runner_request :: "'b runner_server \<Rightarrow> http_request \<Rightarrow> (string, string list) dict \<Rightarrow> admin_request" where
  "runner_request R q query =
     (let data = (case hq_body q of None \<Rightarrow> [] | Some d \<Rightarrow> zr_dumps R (JObj d)) in
      \<lparr>aq_path = hq_path q, aq_query = query, aq_authorization = hq_authorization q,
       aq_length = (case hq_body q of None \<Rightarrow> None | Some d \<Rightarrow> Some (int_str (int (length data)))), aq_body = data\<rparr>)"

definition reading :: "admin_env \<Rightarrow> http_request \<Rightarrow> admin_env" where
  "reading D q = D\<lparr>ad_loads := (\<lambda>_. map_option JObj (hq_body q))\<rparr>"

definition runner_serve ::
  "'b runner_server \<Rightarrow> int \<Rightarrow> int \<Rightarrow> (string, string list) dict \<Rightarrow> http_request \<Rightarrow> 'b lifecycle_runner
     \<Rightarrow> 'b lifecycle_runner \<times> http_answer option" where
  "runner_serve R us ms query q =
     (if hq_method q = ''GET'' then do_get (reading (zr_admin R) q) (zr_controller R) us ms (runner_request R q query)
      else do_post (reading (zr_admin R) q) (zr_controller R) us ms (runner_request R q query))"

end
