(* ===== verification/Admin_Store.thy ===== *)
theory Admin_Store
  imports Build_Http
begin

text \<open>
  The console's own database (\<open>web/admin/store.py\<close>, \<open>web/admin/execution_store.py\<close>, the tables of
  \<open>web/admin/schema.py\<close>): notes with an optimistic version, cleanup requests, the executions of a request with
  their steps, and an audit trail. An operation is one transaction: an exception leaves the tables as they were.
  The routes have checked the types of the arguments. \<open>uuid\<close> is the constructor of \<open>UUID\<close>; the identifiers
  an operation draws and the clock are arguments. The case of an unreachable database is \<open>stored\<close>.
\<close>

section \<open>Tables\<close>

record note_row =
  nt_id :: string
  nt_type :: string
  nt_asset :: string
  nt_note :: string
  nt_version :: int
  nt_created_by :: string
  nt_updated_by :: string
  nt_created :: int
  nt_updated :: int

record request_row =
  cq_id :: string
  cq_env :: string
  cq_key :: string
  cq_status :: string
  cq_reason :: string
  cq_snapshot :: json
  cq_created_by :: string
  cq_created :: int
  cq_updated :: int

record audit_row =
  au_id :: string
  au_actor :: string
  au_action :: string
  au_type :: string
  au_resource :: string
  au_at :: int

record execution_row =
  ex_id :: string
  ex_request :: string
  ex_env :: string
  ex_status :: string
  ex_message :: string
  ex_by :: string
  ex_started :: int
  ex_finished :: "int option"
  ex_updated :: int

record step_row =
  es_id :: string
  es_execution :: string
  es_name :: string
  es_status :: string
  es_detail :: json
  es_at :: int

record admin_db =
  ab_notes :: "note_row list"
  ab_requests :: "request_row list"
  ab_audit :: "audit_row list"
  ab_executions :: "execution_row list"
  ab_steps :: "step_row list"

definition admin_db_init :: admin_db where
  "admin_db_init = \<lparr>ab_notes = [], ab_requests = [], ab_audit = [], ab_executions = [], ab_steps = []\<rparr>"

type_synonym 'a admin_op = "admin_db \<Rightarrow> admin_db \<times> (exn + 'a)"

type_synonym obj = "(string, json) dict"

definition obj_get :: "obj \<Rightarrow> string \<Rightarrow> json" where
  "obj_get d k = dict_get_or d k JNull"

definition json_str :: "json \<Rightarrow> string" where
  "json_str j = (case j of JStr s \<Rightarrow> s | _ \<Rightarrow> [])"

definition conflict :: "string \<Rightarrow> exn" where
  "conflict m = PyError ''Conflict'' m"

definition storage_unavailable :: exn where
  "storage_unavailable = PyError ''StorageUnavailable'' ''Admin metadata database unavailable; check DSN and permissions.''"

definition stored :: "bool \<Rightarrow> 'a admin_op \<Rightarrow> 'a admin_op" where
  "stored up m db = (if up then m db else (db, Inl storage_unavailable))"

definition uuid_text :: "(string \<Rightarrow> string option) \<Rightarrow> string \<Rightarrow> exn + string" where
  "uuid_text uuid v = (case uuid v of None \<Rightarrow> Inl (value_error ''Invalid UUID'') | Some u \<Rightarrow> Inr u)"

text \<open>An operation on a checked identifier.\<close>

definition with_uuid :: "(string \<Rightarrow> string option) \<Rightarrow> string \<Rightarrow> (string \<Rightarrow> 'a admin_op) \<Rightarrow> 'a admin_op" where
  "with_uuid uuid v m db = (case uuid_text uuid v of Inl e \<Rightarrow> (db, Inl e) | Inr u \<Rightarrow> m u db)"

section \<open>Audit\<close>

definition audit :: "int \<Rightarrow> string \<Rightarrow> string \<Rightarrow> string \<Rightarrow> string \<Rightarrow> string \<Rightarrow> admin_db \<Rightarrow> exn + admin_db" where
  "audit now i actor action kind resource db =
     (if i \<in> au_id ` set (ab_audit db) then Inl unique_violation
      else Inr (db\<lparr>ab_audit := ab_audit db @
             [\<lparr>au_id = i, au_actor = actor, au_action = action, au_type = kind, au_resource = resource, au_at = now\<rparr>]\<rparr>))"

text \<open>A transaction that ends with an audit event.\<close>

definition audited :: "int \<Rightarrow> string \<Rightarrow> string \<Rightarrow> string \<Rightarrow> string \<Rightarrow> string \<Rightarrow> 'a \<Rightarrow> admin_db \<Rightarrow> 'a admin_op" where
  "audited now i actor action kind resource result db1 db =
     (case audit now i actor action kind resource db1 of Inl e \<Rightarrow> (db, Inl e) | Inr db2 \<Rightarrow> (db2, Inr result))"

definition record_action :: "int \<Rightarrow> string \<Rightarrow> string \<Rightarrow> string \<Rightarrow> string \<Rightarrow> string \<Rightarrow> json admin_op" where
  "record_action now i actor action kind resource db =
     (if kind \<noteq> ''build_environment'' then (db, Inl (value_error ''Unsupported audited asset type''))
      else if \<not> text_between 1 160 resource then (db, Inl (value_error ''Invalid resource ID''))
      else audited now i actor action kind resource (JObj [(''recorded'', JBool True)]) db db)"

section \<open>Notes\<close>

definition KINDS :: "string list" where
  "KINDS = [''build_environment'', ''runner_lease'', ''runner_run'', ''publish_variant'']"

definition validate_note :: "string \<Rightarrow> string \<Rightarrow> string \<Rightarrow> exn + string \<times> string \<times> string" where
  "validate_note kind asset note =
     (if kind \<notin> set KINDS then Inl (value_error ''Unsupported asset type'')
      else if \<not> text_between 1 160 asset then Inl (value_error ''Asset ID must be 1..160 characters'')
      else if \<not> text_between 1 1000 (strip note) then Inl (value_error ''Note must be 1..1000 characters'')
      else Inr (kind, asset, strip note))"

definition note_exists :: exn where
  "note_exists = conflict ''A note for this asset already exists.''"

definition note_changed :: exn where
  "note_changed = conflict ''Note changed or no longer exists. Refresh and try again.''"

definition new_note :: "int \<Rightarrow> string \<Rightarrow> string \<Rightarrow> string \<Rightarrow> string \<Rightarrow> string \<Rightarrow> note_row" where
  "new_note now u actor kind asset note =
     \<lparr>nt_id = u, nt_type = kind, nt_asset = asset, nt_note = note, nt_version = 1, nt_created_by = actor,
      nt_updated_by = actor, nt_created = now, nt_updated = now\<rparr>"

definition note_json :: "note_row \<Rightarrow> json" where
  "note_json n =
     JObj [(''id'', JStr (nt_id n)), (''assetType'', JStr (nt_type n)), (''assetId'', JStr (nt_asset n)),
       (''note'', JStr (nt_note n)), (''version'', JInt (nt_version n))]"

definition create_note ::
  "int \<Rightarrow> string \<Rightarrow> string \<Rightarrow> string \<Rightarrow> string \<Rightarrow> string \<Rightarrow> string \<Rightarrow> json admin_op" where
  "create_note now u a actor kind0 asset0 note0 db =
     (case validate_note kind0 asset0 note0 of
        Inl e \<Rightarrow> (db, Inl e)
      | Inr (kind, asset, note) \<Rightarrow>
          if (kind, asset) \<in> (\<lambda>n. (nt_type n, nt_asset n)) ` set (ab_notes db) then (db, Inl note_exists)
          else (case sql_insert nt_id (new_note now u actor kind asset note) (ab_notes db) of
                  None \<Rightarrow> (db, Inl unique_violation)
                | Some notes \<Rightarrow>
                    audited now a actor ''note.create'' kind asset (note_json (new_note now u actor kind asset note))
                      (db\<lparr>ab_notes := notes\<rparr>) db))"

text \<open>The row of an identifier that has the version the writer has seen.\<close>

definition note_at :: "string \<Rightarrow> int \<Rightarrow> note_row \<Rightarrow> bool" where
  "note_at u v n \<longleftrightarrow> nt_id n = u \<and> nt_version n = v"

definition MAX_VERSION :: int where
  "MAX_VERSION = 2147483647"

definition edited_note :: "int \<Rightarrow> string \<Rightarrow> string \<Rightarrow> note_row \<Rightarrow> note_row" where
  "edited_note now actor note n =
     n\<lparr>nt_note := note, nt_updated_by := actor, nt_updated := now, nt_version := nt_version n + 1\<rparr>"

definition update_note ::
  "(string \<Rightarrow> string option) \<Rightarrow> int \<Rightarrow> string \<Rightarrow> string \<Rightarrow> string \<Rightarrow> string \<Rightarrow> int \<Rightarrow> json admin_op" where
  "update_note uuid now a actor uid note version = with_uuid uuid uid (\<lambda>u db.
     if \<not> text_between 1 1000 (strip note) then (db, Inl (value_error ''Note must be 1..1000 characters''))
     else if version < 1 then (db, Inl (value_error ''Expected positive note version''))
     else (case List.find (note_at u version) (ab_notes db) of
             None \<Rightarrow> (db, Inl note_changed)
           | Some n \<Rightarrow>
               if nt_version n = MAX_VERSION then (db, Inl (PyError ''NumericValueOutOfRange'' ''integer out of range''))
               else audited now a actor ''note.update'' (nt_type n) (nt_asset n)
                      (JObj [(''id'', JStr u), (''version'', JInt (nt_version n + 1)), (''note'', JStr (strip note))])
                      (db\<lparr>ab_notes := sql_update (note_at u version) (edited_note now actor (strip note)) (ab_notes db)\<rparr>) db))"

definition delete_note ::
  "(string \<Rightarrow> string option) \<Rightarrow> int \<Rightarrow> string \<Rightarrow> string \<Rightarrow> string \<Rightarrow> int \<Rightarrow> json admin_op" where
  "delete_note uuid now a actor uid version = with_uuid uuid uid (\<lambda>u db.
     if version < 1 then (db, Inl (value_error ''Expected positive note version''))
     else (case List.find (note_at u version) (ab_notes db) of
             None \<Rightarrow> (db, Inl note_changed)
           | Some n \<Rightarrow>
               audited now a actor ''note.delete'' (nt_type n) (nt_asset n)
                 (JObj [(''deleted'', JBool True), (''id'', JStr u)])
                 (db\<lparr>ab_notes := sql_delete (note_at u version) (ab_notes db)\<rparr>) db))"

section \<open>Cleanup requests\<close>

definition snapshot_keys :: "string list" where
  "snapshot_keys =
     [''environmentId'', ''status'', ''environment'', ''aliasCount'', ''activeBuildJobs'', ''publishedReferences'',
      ''activeLeaseReferences'', ''blockingReasons'', ''warnings'', ''canExecute'']"

definition preview_snapshot :: "obj \<Rightarrow> json" where
  "preview_snapshot preview = JObj (map (\<lambda>k. (k, obj_get preview k)) snapshot_keys)"

definition new_request :: "int \<Rightarrow> string \<Rightarrow> string \<Rightarrow> obj \<Rightarrow> string \<Rightarrow> request_row" where
  "new_request now u actor preview reason =
     \<lparr>cq_id = u, cq_env = json_str (obj_get preview ''environmentId''),
      cq_key = json_str (get_field (obj_get preview ''environment'') ''envKey''), cq_status = ''DRAFT'', cq_reason = reason,
      cq_snapshot = preview_snapshot preview, cq_created_by = actor, cq_created = now, cq_updated = now\<rparr>"

definition request_cleanup ::
  "int \<Rightarrow> string \<Rightarrow> string \<Rightarrow> string \<Rightarrow> obj \<Rightarrow> string \<Rightarrow> string \<Rightarrow> json admin_op" where
  "request_cleanup now u a actor preview reason confirmation db =
     (if \<not> truthy (obj_get preview ''found'') then (db, Inl (value_error ''Environment was not found''))
      else if \<not> text_between 10 1000 (strip reason) then (db, Inl (value_error ''Reason must be 10..1000 characters''))
      else if JStr confirmation \<noteq> get_field (obj_get preview ''environment'') ''envKey''
      then (db, Inl (value_error ''Confirmation must exactly match env_key''))
      else (let row = new_request now u actor preview (strip reason) in
            case sql_insert cq_id row (ab_requests db) of
              None \<Rightarrow> (db, Inl unique_violation)
            | Some requests \<Rightarrow>
                audited now a actor ''cleanup.request'' ''build_environment'' (cq_env row)
                  (JObj [(''id'', JStr u), (''environmentId'', JStr (cq_env row)), (''status'', JStr ''DRAFT''),
                     (''executed'', JBool False),
                     (''message'', JStr ''Request saved. No image or service record has been deleted.'')])
                  (db\<lparr>ab_requests := requests\<rparr>) db))"

definition draft :: "string \<Rightarrow> request_row \<Rightarrow> bool" where
  "draft u r \<longleftrightarrow> cq_id r = u \<and> cq_status r = ''DRAFT''"

definition cancel_cleanup ::
  "(string \<Rightarrow> string option) \<Rightarrow> int \<Rightarrow> string \<Rightarrow> string \<Rightarrow> string \<Rightarrow> json admin_op" where
  "cancel_cleanup uuid now a actor uid = with_uuid uuid uid (\<lambda>u db.
     case List.find (draft u) (ab_requests db) of
       None \<Rightarrow> (db, Inl (conflict ''Request not in DRAFT state or does not exist''))
     | Some r \<Rightarrow>
         audited now a actor ''cleanup.cancel'' ''build_environment'' (cq_env r)
           (JObj [(''id'', JStr u), (''status'', JStr ''CANCELLED''), (''executed'', JBool False)])
           (db\<lparr>ab_requests := sql_update (draft u) (\<lambda>r. r\<lparr>cq_status := ''CANCELLED'', cq_updated := now\<rparr>) (ab_requests db)\<rparr>) db)"

section \<open>Executions\<close>

record cleanup_request =
  cr_id :: string
  cr_env :: string
  cr_key :: string
  cr_status :: string
  cr_reason :: string
  cr_image :: json
  cr_created_by :: string
  cr_created :: int

definition request_view :: "request_row \<Rightarrow> cleanup_request" where
  "request_view r =
     \<lparr>cr_id = cq_id r, cr_env = cq_env r, cr_key = cq_key r, cr_status = cq_status r, cr_reason = cq_reason r,
      cr_image = get_field (get_field (cq_snapshot r) ''environment'') ''imageRef'', cr_created_by = cq_created_by r,
      cr_created = cq_created r\<rparr>"

definition get_cleanup_request :: "(string \<Rightarrow> string option) \<Rightarrow> string \<Rightarrow> cleanup_request option admin_op" where
  "get_cleanup_request uuid i = with_uuid uuid i (\<lambda>u db.
     (db, Inr (map_option request_view (List.find (\<lambda>r. cq_id r = u) (ab_requests db)))))"

definition new_execution :: "int \<Rightarrow> string \<Rightarrow> string \<Rightarrow> string \<Rightarrow> string \<Rightarrow> execution_row" where
  "new_execution now i actor request env =
     \<lparr>ex_id = i, ex_request = request, ex_env = env, ex_status = ''RUNNING'', ex_message = [], ex_by = actor,
      ex_started = now, ex_finished = None, ex_updated = now\<rparr>"

definition start_cleanup_execution ::
  "(string \<Rightarrow> string option) \<Rightarrow> int \<Rightarrow> string \<Rightarrow> string \<Rightarrow> string \<Rightarrow> string \<Rightarrow> string \<Rightarrow> string admin_op" where
  "start_cleanup_execution uuid now x a actor request env = with_uuid uuid request (\<lambda>r. with_uuid uuid env (\<lambda>e db.
     case sql_insert ex_id (new_execution now x actor r e) (ab_executions db) of
       None \<Rightarrow> (db, Inl unique_violation)
     | Some executions \<Rightarrow>
         if r \<notin> cq_id ` set (ab_requests db) then (db, Inl foreign_key_violation)
         else audited now a actor ''cleanup.execute.start'' ''build_environment'' e x (db\<lparr>ab_executions := executions\<rparr>) db))"

definition step_statuses :: "string list" where
  "step_statuses = [''RUNNING'', ''SUCCEEDED'', ''BLOCKED'', ''WAITING'', ''FAILED'']"

definition new_step :: "int \<Rightarrow> string \<Rightarrow> string \<Rightarrow> string \<Rightarrow> string \<Rightarrow> obj \<Rightarrow> step_row" where
  "new_step now s x name status detail =
     \<lparr>es_id = s, es_execution = x, es_name = take_text 120 name, es_status = status, es_detail = JObj detail, es_at = now\<rparr>"

definition record_cleanup_step ::
  "(string \<Rightarrow> string option) \<Rightarrow> int \<Rightarrow> string \<Rightarrow> string \<Rightarrow> string \<Rightarrow> string \<Rightarrow> obj \<Rightarrow> unit admin_op" where
  "record_cleanup_step uuid now s execution name status detail = with_uuid uuid execution (\<lambda>x db.
     if status \<notin> set step_statuses then (db, Inl (value_error ''invalid cleanup step status''))
     else (case sql_insert es_id (new_step now s x name status detail) (ab_steps db) of
             None \<Rightarrow> (db, Inl unique_violation)
           | Some steps \<Rightarrow>
               if x \<notin> ex_id ` set (ab_executions db) then (db, Inl foreign_key_violation)
               else (db\<lparr>ab_steps := steps\<rparr>, Inr ())))"

definition finish_statuses :: "string list" where
  "finish_statuses = [''BLOCKED'', ''WAITING'', ''SUCCEEDED'', ''FAILED'', ''PARTIAL'']"

definition finish_action :: "string \<Rightarrow> string" where
  "finish_action status =
     ''cleanup.execute.'' @
       (if status = ''BLOCKED'' then ''blocked'' else if status = ''WAITING'' then ''waiting''
        else if status = ''SUCCEEDED'' then ''succeeded'' else if status = ''FAILED'' then ''failed'' else ''partial'')"

definition finished_execution :: "int \<Rightarrow> string \<Rightarrow> string \<Rightarrow> execution_row \<Rightarrow> execution_row" where
  "finished_execution now status message x =
     x\<lparr>ex_status := status, ex_message := take_text 2000 message,
       ex_finished := (if status = ''WAITING'' then ex_finished x else Some now), ex_updated := now\<rparr>"

definition finish_cleanup_execution ::
  "(string \<Rightarrow> string option) \<Rightarrow> int \<Rightarrow> string \<Rightarrow> string \<Rightarrow> string \<Rightarrow> string \<Rightarrow> string \<Rightarrow> unit admin_op" where
  "finish_cleanup_execution uuid now a actor execution status message = with_uuid uuid execution (\<lambda>x db.
     if status \<notin> set finish_statuses then (db, Inl (value_error ''invalid cleanup execution status''))
     else (case List.find (\<lambda>r. ex_id r = x) (ab_executions db) of
             None \<Rightarrow> (db, Inl (value_error ''cleanup execution not found''))
           | Some r \<Rightarrow>
               audited now a actor (finish_action status) ''build_environment'' (ex_env r) ()
                 (db\<lparr>ab_executions := sql_update (\<lambda>r. ex_id r = x) (finished_execution now status message) (ab_executions db)\<rparr>) db))"

end
