(* ===== verification/Admin_Inventory.thy ===== *)
theory Admin_Inventory
  imports Admin_Store Publish_Lifecycle Runner_DB
begin

text \<open>
  The console's read-only inventory (\<open>web/admin/inventory.py\<close>, \<open>web/admin/lifecycle_inventory.py\<close>): whether an
  asset exists, whether a build may be retried, and the preflight of a cleanup over the three databases.
\<close>

section \<open>The three databases\<close>

text \<open>\<open>iv_up service n\<close> says whether the \<open>n\<close>-th statement on a service's database gets an answer; the connection
  is part of the first.\<close>

record inventory =
  iv_build :: build_db
  iv_publish :: publish_db
  iv_runner :: runner_db
  iv_up :: "string \<Rightarrow> nat \<Rightarrow> bool"
  iv_now :: int

record inventory_env =
  ie_uuid :: "string \<Rightarrow> string option"
  ie_postgres :: postgres
  ie_time :: "int \<Rightarrow> json"

definition asset_exists :: "inventory_env \<Rightarrow> string \<Rightarrow> string \<Rightarrow> inventory \<Rightarrow> exn + bool" where
  "asset_exists E kind raw V =
     (if kind \<notin> set KINDS then Inl (value_error ''Unsupported asset type'')
      else (case ie_uuid E raw of
              None \<Rightarrow> Inl (value_error ''Asset identifier must be a UUID'')
            | Some i \<Rightarrow>
                (let service = (if kind = ''build_environment'' then ''build'' else if kind = ''publish_variant'' then ''publish'' else ''runner'')
                 in if \<not> iv_up V service 0 then Inl (PyError ''RuntimeError'' ''Asset owner DB unavailable; note cannot be created'')
                    else Inr (if kind = ''build_environment'' then i \<in> ev_id ` set (bd_envs (iv_build V))
                              else if kind = ''runner_lease'' then i \<in> lr_id ` set (db_leases (iv_runner V))
                              else if kind = ''runner_run'' then i \<in> ru_id ` set (db_runs (iv_runner V))
                              else i \<in> vr_id ` set (pd_variants (iv_publish V))))))"

text \<open>\<open>re.fullmatch("[A-Za-z0-9_.-]{1,64}", env_key)\<close>.\<close>

definition env_key_pattern :: "string \<Rightarrow> bool" where
  "env_key_pattern k \<longleftrightarrow> 1 \<le> length k \<and> length k \<le> 64 \<and> list_all name_char k"

definition retry_preflight :: "string \<Rightarrow> inventory \<Rightarrow> exn + json" where
  "retry_preflight k V =
     (let down = Inl (PyError ''RuntimeError'' ''Build retry preflight unavailable'') in
      if \<not> env_key_pattern k then Inl (value_error ''Invalid env_key'')
      else if \<not> iv_up V ''build'' 0 then down
      else (case List.find (\<lambda>e. ev_key e = k) (bd_envs (iv_build V)) of
              None \<Rightarrow> Inl (value_error ''Environment not found'')
            | Some e \<Rightarrow>
                if \<not> iv_up V ''build'' 1 then down
                else (let active = count_active_build_jobs (ev_id e) (iv_build V) in
                      if ev_status e \<noteq> Failed \<or> active \<noteq> 0
                      then Inl (value_error ''Retry requires FAILED status and no active build job.'')
                      else Inr (JObj [(''id'', JStr (ev_id e)), (''envKey'', JStr (ev_key e)), (''status'', JStr (status_name (ev_status e))),
                                  (''activeJobs'', JInt (int active))]))))"

section \<open>The preflight\<close>

definition add_text :: "string \<Rightarrow> string \<Rightarrow> obj \<Rightarrow> obj" where
  "add_text field m d =
     dict_set field (JList ((case obj_get d field of JList l \<Rightarrow> l | _ \<Rightarrow> []) @ [JStr m])) d"

definition add_when :: "bool \<Rightarrow> string \<Rightarrow> string \<Rightarrow> obj \<Rightarrow> obj" where
  "add_when b field m d = (if b then add_text field m d else d)"

abbreviation "blocking \<equiv> ''blockingReasons''"
abbreviation "warnings \<equiv> ''warnings''"

definition preview_init :: "string \<Rightarrow> obj" where
  "preview_init i =
     [(''environmentId'', JStr i), (''found'', JBool False), (''status'', JStr ''unavailable''), (''environment'', JNull),
      (''aliasCount'', JNull), (''activeBuildJobs'', JNull), (''publishedReferences'', JNull), (''activeLeaseReferences'', JNull),
      (''releaseIds'', JList []), (''blockingReasons'', JList []), (''warnings'', JList []), (''canExecute'', JBool False),
      (''action'', JStr ''request_only'')]"

definition env_fields :: "inventory_env \<Rightarrow> env_row \<Rightarrow> obj" where
  "env_fields E e =
     [(''id'', JStr (ev_id e)), (''envKey'', JStr (ev_key e)), (''status'', JStr (status_name (ev_status e))),
      (''imageRef'', opt_text_json (map_option (take_text 320) (ev_image e))), (''packageCount'', JInt (int (ev_package_count e))),
      (''updatedAt'', ie_time E (ev_updated e))]"

definition found_preview :: "inventory_env \<Rightarrow> env_row \<Rightarrow> obj \<Rightarrow> obj" where
  "found_preview E e d =
     dict_set ''environment'' (JObj (env_fields E e)) (dict_set ''status'' (JStr ''ready'') (dict_set ''found'' (JBool True) d))"

definition build_remarks :: "env_row \<Rightarrow> nat \<Rightarrow> nat \<Rightarrow> obj \<Rightarrow> obj" where
  "build_remarks e aliases jobs d =
     add_when (\<not> (case ev_image e of None \<Rightarrow> True | Some x \<Rightarrow> x = [])) warnings
         ''Physical image existence, Docker hosts and registry references remain unverified.''
       (add_when (ev_status e = Ready \<and> ev_image e = None) warnings ''READY environment has no image_ref.''
         (add_when (aliases \<noteq> 0) warnings
             ''Aliases point to this environment; cleanup must invalidate aliases via Build Service.''
           (add_when (jobs \<noteq> 0) blocking ''Build jobs are still active.''
             (add_when (ev_status e \<in> {Pending, Building, Verifying}) blocking ''Environment is being prepared.'' d))))"

text \<open>The releases of the publications that name the environment or its image; \<open>DISTINCT\<close> keeps no order, here it is
  the table's.\<close>

definition names_runtime :: "postgres \<Rightarrow> string \<Rightarrow> string option \<Rightarrow> json option \<Rightarrow> bool" where
  "names_runtime G k img j \<longleftrightarrow>
     json_text G (json_member j ''envKey'') = Some k \<or> json_text G (json_member j ''runtimeEnvKey'') = Some k \<or>
     img \<noteq> None \<and> json_text G (json_member j ''runtimeImage'') = img"

definition publish_rows :: "postgres \<Rightarrow> string \<Rightarrow> string option \<Rightarrow> publish_db \<Rightarrow> string option list" where
  "publish_rows G k img db =
     take 101 (remdups (map (\<lambda>j. json_text G (json_member (pj_result j) ''releaseId''))
       (filter (\<lambda>j. pj_status j = JobReady \<and> pj_result j \<noteq> None \<and> names_runtime G k img (pj_result j)) (pd_jobs db))))"

definition is_release :: "string option \<Rightarrow> bool" where
  "is_release r = (case r of None \<Rightarrow> False | Some i \<Rightarrow> i \<noteq> [])"

definition publish_part :: "inventory_env \<Rightarrow> inventory \<Rightarrow> env_row \<Rightarrow> obj \<Rightarrow> obj \<times> string list" where
  "publish_part E V e d =
     (if \<not> iv_up V ''publish'' 0 then (add_text blocking ''Cannot verify Publish references; do not delete.'' d, [])
      else (let rows = publish_rows (ie_postgres E) (ev_key e) (ev_image e) (iv_publish V);
                ids = map the (filter is_release rows)
            in (add_when (101 \<le> length rows) blocking ''Publish references exceed query limit.''
                  (add_when (filter (\<lambda>r. \<not> is_release r) rows \<noteq> []) blocking
                      ''A matched Publish job has no releaseId; references cannot be verified.''
                    (dict_set ''publishedReferences'' (JInt (int (length ids))) d)), ids)))"

definition runner_part :: "inventory \<Rightarrow> string list \<Rightarrow> obj \<Rightarrow> obj" where
  "runner_part V ids d =
     (let d1 = dict_set ''releaseIds'' (JList (map JStr (take 30 ids))) d in
      if \<not> iv_up V ''runner'' 0
      then add_text blocking ''Cannot verify Runner leases; do not delete.'' (dict_set ''activeLeaseReferences'' JNull d1)
      else (let active = (if ids = [] then 0
                          else sql_count (\<lambda>l. iv_now V < lr_expires l \<and> lr_release l \<in> set ids) (db_leases (iv_runner V)))
            in add_when (active \<noteq> 0) blocking ''Active Runner leases reference published releases.''
                 (dict_set ''activeLeaseReferences'' (JInt (int active)) d1)))"

definition catalog_warning :: string where
  "catalog_warning =
     ''Runner Catalog, physical image usage, concurrent jobs and remote registry are not verifiable from these tables.''"

definition build_down :: "obj \<Rightarrow> obj" where
  "build_down d = add_text blocking ''Build database unavailable; cleanup must not proceed.'' d"

definition cross_checks :: "inventory_env \<Rightarrow> inventory \<Rightarrow> env_row \<Rightarrow> obj \<Rightarrow> obj" where
  "cross_checks E V e d = (case publish_part E V e d of (d1, ids) \<Rightarrow> add_text warnings catalog_warning (runner_part V ids d1))"

definition cleanup_preview :: "inventory_env \<Rightarrow> inventory \<Rightarrow> string \<Rightarrow> exn + obj" where
  "cleanup_preview E V raw =
     (case ie_uuid E raw of
        None \<Rightarrow> Inl (value_error ''Invalid environment UUID'')
      | Some i \<Rightarrow> Inr (
          if \<not> iv_up V ''build'' 0 then build_down (preview_init i)
          else (case env_at i (iv_build V) of
                  None \<Rightarrow> dict_set ''status'' (JStr ''not_found'') (preview_init i)
                | Some e \<Rightarrow>
                    (let d = found_preview E e (preview_init i);
                         aliases = count_aliases i (iv_build V); jobs = count_active_build_jobs i (iv_build V)
                     in if \<not> iv_up V ''build'' 1 then build_down d
                        else (let d1 = dict_set ''aliasCount'' (JInt (int aliases)) d in
                              if \<not> iv_up V ''build'' 2 then build_down d1
                              else cross_checks E V e
                                     (build_remarks e aliases jobs (dict_set ''activeBuildJobs'' (JInt (int jobs)) d1)))))))"

section \<open>The preflight with lifecycles\<close>

text \<open>Reasons about publications and leases give way to the check of what is published now.\<close>

definition kept_reason :: "json \<Rightarrow> bool" where
  "kept_reason r \<longleftrightarrow> \<not> contains ''Publish'' (json_str r) \<and>
     r \<noteq> JStr ''Active Runner leases reference published releases.''"

definition list_of :: "json \<Rightarrow> json list" where
  "list_of j = (case j of JList l \<Rightarrow> l | _ \<Rightarrow> [])"

definition keep_reasons :: "obj \<Rightarrow> obj" where
  "keep_reasons d = dict_set blocking (JList (filter kept_reason (list_of (obj_get d blocking)))) d"

definition lifecycle_fields :: "inventory_env \<Rightarrow> env_row \<Rightarrow> obj" where
  "lifecycle_fields E e =
     [(''lifecycleState'', JStr (lifecycle_name (ev_lifecycle e))), (''cleanupError'', opt_text_json (ev_cleanup_error e)),
      (''retiredAt'', (case ev_retired_at e of None \<Rightarrow> JNull | Some t \<Rightarrow> ie_time E t))]"

definition build_lifecycle_part :: "inventory_env \<Rightarrow> inventory \<Rightarrow> string \<Rightarrow> obj \<Rightarrow> obj" where
  "build_lifecycle_part E V i d =
     (if \<not> iv_up V ''build'' 3
      then add_text blocking ''Build lifecycle columns are unavailable; apply the lifecycle upgrade.'' d
      else (case env_at i (iv_build V) of
              None \<Rightarrow> add_text blocking ''Build environment disappeared during lifecycle preflight.'' d
            | Some e \<Rightarrow>
                (case obj_get d ''environment'' of
                   JObj x \<Rightarrow> dict_set ''environment'' (JObj (fold (\<lambda>(k, v). dict_set k v) (lifecycle_fields E e) x)) d
                 | _ \<Rightarrow> d)))"

definition current_references ::
  "postgres \<Rightarrow> string \<Rightarrow> string option \<Rightarrow> publish_db \<Rightarrow> (operator_row \<times> contract_row \<times> variant_row) list" where
  "current_references G k img db =
     sort_key (\<lambda>(r, c, v). (op_display_name r, - vr_updated v))
       (concat (map (\<lambda>v. concat (map (\<lambda>c. map (\<lambda>r. (r, c, v)) (filter (\<lambda>r. op_id r = cv_operator c) (pd_operators db)))
          (filter (\<lambda>c. cv_id c = vr_contract v \<and> is_latest db c) (pd_contracts db))))
        (filter (\<lambda>v. vr_backend v = ''runner'' \<and> vr_status v = Published \<and> vr_metadata v \<noteq> None \<and>
             names_runtime G k img (vr_metadata v)) (pd_variants db))))"

definition reference_json :: "operator_row \<times> contract_row \<times> variant_row \<Rightarrow> json" where
  "reference_json x =
     (case x of (r, c, v) \<Rightarrow>
        JObj [(''operatorId'', JStr (op_id r)), (''name'', JStr (op_name r)), (''displayName'', JStr (op_display_name r)),
          (''variantId'', JStr (vr_id v)), (''publishedRef'', opt_text_json (vr_ref v)),
          (''publishedMetadata'', (case vr_metadata v of None \<Rightarrow> JNull | Some m \<Rightarrow> m))])"

definition json_opt :: "json \<Rightarrow> string option" where
  "json_opt j = (case j of JStr s \<Rightarrow> Some s | _ \<Rightarrow> None)"

definition publish_lifecycle_part :: "inventory_env \<Rightarrow> inventory \<Rightarrow> obj \<Rightarrow> obj" where
  "publish_lifecycle_part E V d =
     (if \<not> iv_up V ''publish'' 1
      then add_text blocking ''Cannot verify CURRENT Publish references; cleanup must not proceed.''
             (dict_set ''currentPublishedReferences'' (JList []) d)
      else (let x = obj_get d ''environment'';
                rows = take 101 (current_references (ie_postgres E) (json_str (get_field x ''envKey''))
                         (json_opt (get_field x ''imageRef'')) (iv_publish V));
                references = map reference_json (take 100 rows)
            in add_when (100 < length rows) blocking ''Current Publish references exceed the lifecycle query limit.''
                 (add_when (references \<noteq> []) blocking ''Current published Runner variants still reference this runtime.''
                   (dict_set ''publishedReferences'' (JInt (int (length references)))
                     (dict_set ''currentPublishedReferences'' (JList references) d)))))"

definition lease_warning :: string where
  "lease_warning =
     ''Unexpired Runner leases exist. During execution the Runner RETIRING gate makes them non-executable before image deletion.''"

definition sandbox_warning :: string where
  "sandbox_warning =
     ''Physical sandbox and in-flight acquisition safety is re-checked by Runner Engine during cleanup execution.''"

definition lifecycle_end :: "obj \<Rightarrow> obj" where
  "lifecycle_end d =
     (let d1 = add_text warnings sandbox_warning (add_when (truthy (obj_get d ''activeLeaseReferences'')) warnings lease_warning d)
      in dict_set ''action'' (JStr ''owner_lifecycle'')
           (dict_set ''canExecute'' (JBool (\<not> truthy (obj_get d1 blocking))) d1))"

definition lifecycle_preview :: "inventory_env \<Rightarrow> inventory \<Rightarrow> string \<Rightarrow> exn + obj" where
  "lifecycle_preview E V i =
     (case cleanup_preview E V i of
        Inl e \<Rightarrow> Inl e
      | Inr d \<Rightarrow>
          if \<not> truthy (obj_get d ''found'') then Inr d
          else Inr (lifecycle_end (publish_lifecycle_part E V (build_lifecycle_part E V (json_str (obj_get d ''environmentId'')) (keep_reasons d)))))"

end
