(* ===== verification/Cleanup.thy ===== *)
theory Cleanup
  imports Cleanup_Client Admin_Inventory
begin

text \<open>
  The cleanup of a runtime environment (\<open>web/admin/cleanup.py\<close>): a plan over the inventory and the services that own
  the environment, and the execution of a request, which closes the gates of the build service, the publish service
  and the runner in this order, deletes the image, finalizes, and takes the gates back when it fails before the
  deletion. The coordinator's \<open>inventory\<close>, \<open>store\<close> and \<open>lifecycle\<close> are operations on one state.
\<close>

section \<open>Operations\<close>

type_synonym ('s, 'a) act = "'s \<Rightarrow> 's \<times> (fault + 'a)"

definition pass :: "'a \<Rightarrow> ('s, 'a) act" where
  "pass x s = (s, Inr x)"

definition raise :: "fault \<Rightarrow> ('s, 'a) act" where
  "raise f s = (s, Inl f)"

definition bind :: "('s, 'a) act \<Rightarrow> ('a \<Rightarrow> ('s, 'b) act) \<Rightarrow> ('s, 'b) act" where
  "bind m f s = (case m s of (s1, Inl e) \<Rightarrow> (s1, Inl e) | (s1, Inr x) \<Rightarrow> f x s1)"

record 's coordinator =
  co_enabled :: bool
  co_preview :: "string \<Rightarrow> ('s, obj) act"
  co_request :: "string \<Rightarrow> ('s, cleanup_request option) act"
  co_start :: "string \<Rightarrow> string \<Rightarrow> ('s, string) act"
  co_step :: "string \<Rightarrow> string \<Rightarrow> string \<Rightarrow> obj \<Rightarrow> ('s, unit) act"
  co_finish :: "string \<Rightarrow> string \<Rightarrow> string \<Rightarrow> ('s, unit) act"
  co_build_plan :: "string \<Rightarrow> ('s, obj) act"
  co_runner_status :: "json \<Rightarrow> ('s, obj) act"
  co_build_retire :: "string \<Rightarrow> string \<Rightarrow> ('s, obj) act"
  co_publish_retire :: "json \<Rightarrow> json \<Rightarrow> string \<Rightarrow> ('s, obj) act"
  co_runner_retire :: "json \<Rightarrow> string \<Rightarrow> ('s, obj) act"
  co_delete :: "string \<Rightarrow> json \<Rightarrow> ('s, obj) act"
  co_runner_finalize :: "json \<Rightarrow> ('s, obj) act"
  co_publish_finalize :: "json \<Rightarrow> ('s, obj) act"
  co_runner_cancel :: "json \<Rightarrow> ('s, obj) act"
  co_publish_cancel :: "json \<Rightarrow> ('s, obj) act"
  co_build_cancel :: "string \<Rightarrow> ('s, obj) act"

text \<open>Python's \<open>or\<close>.\<close>

definition py_or :: "json \<Rightarrow> json \<Rightarrow> json" where
  "py_or a b = (if truthy a then a else b)"

section \<open>The plan\<close>

definition missing_plan :: "string \<Rightarrow> obj \<Rightarrow> obj" where
  "missing_plan i preview =
     [(''environmentId'', JStr i), (''status'', dict_get_or preview ''status'' (JStr ''not_found'')), (''canExecute'', JBool False),
      (''blockingReasons'', dict_get_or preview blocking (JList [])), (''inventory'', JObj preview)]"

definition plan_blockers :: "obj \<Rightarrow> obj \<Rightarrow> json \<Rightarrow> json list" where
  "plan_blockers preview build img =
     list_of (obj_get preview blocking) @
     (if truthy (obj_get build ''locallyBlocked'') then [JStr ''Build Service reports active build work.''] else []) @
     (if \<not> truthy img \<and> obj_get build ''lifecycleState'' \<noteq> JStr ''RETIRED''
      then [JStr ''Runtime environment has no immutable image_ref.''] else [])"

definition plan_image :: "obj \<Rightarrow> obj \<Rightarrow> json" where
  "plan_image preview build = py_or (obj_get build ''imageRef'') (get_field (obj_get preview ''environment'') ''imageRef'')"

definition ready_plan :: "bool \<Rightarrow> string \<Rightarrow> obj \<Rightarrow> obj \<Rightarrow> json \<Rightarrow> obj" where
  "ready_plan enabled i preview build runner =
     (let blockers = plan_blockers preview build (plan_image preview build) in
      [(''environmentId'', JStr i), (''status'', JStr (if blockers = [] then ''ready'' else ''blocked'')),
       (''canExecute'', JBool (enabled \<and> blockers = [])), (''blockingReasons'', JList blockers),
       (''warnings'', py_or (obj_get preview warnings) (JList [])), (''inventory'', JObj preview), (''build'', JObj build),
       (''runner'', runner)])"

definition cleanup_plan :: "'s coordinator \<Rightarrow> string \<Rightarrow> ('s, obj) act" where
  "cleanup_plan K i = bind (co_preview K i) (\<lambda>preview.
     if \<not> truthy (obj_get preview ''found'') then pass (missing_plan i preview)
     else bind (co_build_plan K i) (\<lambda>build.
       let img = plan_image preview build in
       if truthy img then bind (co_runner_status K img) (\<lambda>r. pass (ready_plan (co_enabled K) i preview build (JObj r)))
       else pass (ready_plan (co_enabled K) i preview build JNull)))"

section \<open>Taking the gates back\<close>

record cleanup_ctx =
  cx_execution :: string
  cx_env :: string
  cx_key :: json
  cx_image :: json
  cx_reason :: string

text \<open>What was restored, and the errors.\<close>

definition undo :: "bool \<Rightarrow> string \<Rightarrow> ('s, obj) act \<Rightarrow> 's \<times> string list \<times> string list \<Rightarrow> 's \<times> string list \<times> string list" where
  "undo begun name m x =
     (case x of (s, restored, errors) \<Rightarrow>
        if \<not> begun then x
        else (case m s of
                (s1, Inr _) \<Rightarrow> (s1, restored @ [name], errors)
              | (s1, Inl f) \<Rightarrow> (s1, restored, errors @ [name @ '': '' @ fault_class f @ '': '' @ fault_text f])))"

definition rollback :: "'s coordinator \<Rightarrow> cleanup_ctx \<Rightarrow> string list \<Rightarrow> 's \<Rightarrow> 's \<times> string list \<times> string list" where
  "rollback K x gates s =
     undo (''build'' \<in> set gates) ''build'' (co_build_cancel K (cx_env x))
       (undo (''publish'' \<in> set gates) ''publish'' (co_publish_cancel K (cx_key x))
         (undo (''runner'' \<in> set gates) ''runner'' (co_runner_cancel K (cx_image x)) (s, [], [])))"

definition rollback_items :: "string list \<Rightarrow> string list \<Rightarrow> obj" where
  "rollback_items restored errors = [(''restored'', JList (map JStr restored)), (''errors'', JList (map JStr errors))]"

definition ok_or :: "string \<Rightarrow> bool \<Rightarrow> string" where
  "ok_or other b = (if b then ''SUCCEEDED'' else other)"

section \<open>The handler\<close>

text \<open>The classes the handler catches; any other exception leaves the execution as it is.\<close>

definition cleanup_caught :: "fault \<Rightarrow> bool" where
  "cleanup_caught f = (case f of Rejected _ _ \<Rightarrow> True | Raised e \<Rightarrow> of_class (''LifecycleUnavailable'' # value_errors @ runtime_errors) e)"

definition partial_message :: string where
  "partial_message = ''artifact deletion succeeded but finalization failed; lifecycle gates intentionally remain closed''"

definition cleanup_failed :: "'s coordinator \<Rightarrow> cleanup_ctx \<Rightarrow> string list \<Rightarrow> bool \<Rightarrow> fault \<Rightarrow> ('s, obj) act" where
  "cleanup_failed K x gates deleted f =
     bind (co_step K (cx_execution x) ''cleanup.error'' ''FAILED''
             [(''errorType'', JStr (fault_class f)), (''message'', JStr (fault_text f)), (''artifactDeleted'', JBool deleted)])
       (\<lambda>_. if deleted
            then bind (co_finish K (cx_execution x) ''PARTIAL'' partial_message) (\<lambda>_. raise f)
            else (\<lambda>s. case rollback K x gates s of
                    (s1, restored, errors) \<Rightarrow>
                      bind (co_step K (cx_execution x) ''rollback'' (ok_or ''FAILED'' (errors = [])) (rollback_items restored errors))
                        (\<lambda>_. bind (co_finish K (cx_execution x) ''FAILED'' (fault_text f)) (\<lambda>_. raise f)) s1))"

text \<open>One operation inside the \<open>try\<close>, with the gates begun and whether the image is deleted so far.\<close>

definition attempt ::
  "'s coordinator \<Rightarrow> cleanup_ctx \<Rightarrow> string list \<Rightarrow> bool \<Rightarrow> ('s, 'a) act \<Rightarrow> ('a \<Rightarrow> ('s, obj) act) \<Rightarrow> ('s, obj) act" where
  "attempt K x gates deleted m f s =
     (case m s of
        (s1, Inr v) \<Rightarrow> f v s1
      | (s1, Inl e) \<Rightarrow> if cleanup_caught e then cleanup_failed K x gates deleted e s1 else (s1, Inl e))"

section \<open>The execution\<close>

definition succeeded_items :: "cleanup_ctx \<Rightarrow> obj" where
  "succeeded_items x =
     [(''executionId'', JStr (cx_execution x)), (''status'', JStr ''SUCCEEDED''), (''environmentId'', JStr (cx_env x)),
      (''envKey'', cx_key x), (''imageRef'', cx_image x), (''garbageCollectionRequired'', JBool True)]"

definition all_gates :: "string list" where
  "all_gates = [''build'', ''publish'', ''runner'']"

definition phase_finalize :: "'s coordinator \<Rightarrow> cleanup_ctx \<Rightarrow> ('s, obj) act" where
  "phase_finalize K x =
     attempt K x all_gates True (co_runner_finalize K (cx_image x)) (\<lambda>r.
     attempt K x all_gates True (co_step K (cx_execution x) ''runner.finalize'' ''SUCCEEDED'' r) (\<lambda>_.
     attempt K x all_gates True (co_publish_finalize K (cx_key x)) (\<lambda>p.
     attempt K x all_gates True (co_step K (cx_execution x) ''publish.finalize'' ''SUCCEEDED'' p) (\<lambda>_.
     attempt K x all_gates True
       (co_finish K (cx_execution x) ''SUCCEEDED'' ''runtime environment retired and Harbor artifact removed'')
       (\<lambda>_. pass (succeeded_items x))))))"

text \<open>The lifecycle state in the build service's answer to the retirement.\<close>

definition answered_state :: "obj \<Rightarrow> json" where
  "answered_state build = py_or (obj_get build ''lifecycle_state'') (obj_get build ''lifecycleState'')"

definition phase_delete :: "'s coordinator \<Rightarrow> cleanup_ctx \<Rightarrow> obj \<Rightarrow> ('s, obj) act" where
  "phase_delete K x build =
     (if answered_state build \<noteq> JStr ''RETIRED''
      then attempt K x all_gates False (co_delete K (cx_env x) (cx_image x)) (\<lambda>d.
           attempt K x all_gates True (co_step K (cx_execution x) ''harbor.delete-artifact'' ''SUCCEEDED'' d)
             (\<lambda>_. phase_finalize K x))
      else phase_finalize K x)"

definition waiting_items :: "cleanup_ctx \<Rightarrow> obj \<Rightarrow> obj" where
  "waiting_items x runner =
     [(''executionId'', JStr (cx_execution x)), (''status'', JStr ''WAITING''),
      (''message'', JStr (''Retirement gates are active. New publish/lease/invoke '' @
         ''cannot use this image. Retry after active work drains.'')), (''runner'', JObj runner)]"

definition runner_waiting :: "'s coordinator \<Rightarrow> cleanup_ctx \<Rightarrow> obj \<Rightarrow> ('s, obj) act" where
  "runner_waiting K x runner =
     attempt K x all_gates False (co_step K (cx_execution x) ''runner.drain'' ''WAITING'' runner) (\<lambda>_.
     attempt K x all_gates False
       (co_finish K (cx_execution x) ''WAITING'' ''runtime is gated; wait for active work/sandboxes to drain'')
       (\<lambda>_. pass (waiting_items x runner)))"

definition phase_runner :: "'s coordinator \<Rightarrow> cleanup_ctx \<Rightarrow> obj \<Rightarrow> ('s, obj) act" where
  "phase_runner K x build =
     attempt K x [''build'', ''publish''] False (co_runner_retire K (cx_image x) (cx_reason x)) (\<lambda>runner.
     attempt K x all_gates False (co_step K (cx_execution x) ''runner.retire'' ''SUCCEEDED'' runner) (\<lambda>_.
       if \<not> truthy (obj_get runner ''safeForArtifactDeletion'') then runner_waiting K x runner
       else phase_delete K x build))"

definition blocked_items :: "cleanup_ctx \<Rightarrow> obj \<Rightarrow> obj" where
  "blocked_items x reply =
     [(''executionId'', JStr (cx_execution x)), (''status'', JStr ''BLOCKED''), (''publish'', JObj reply)]"

definition publish_blocked :: "'s coordinator \<Rightarrow> cleanup_ctx \<Rightarrow> obj \<Rightarrow> ('s, obj) act" where
  "publish_blocked K x reply s =
     (case rollback K x [''build'', ''publish''] s of
        (s1, restored, errors) \<Rightarrow>
          attempt K x [''build'', ''publish''] False
            (co_step K (cx_execution x) ''rollback'' (ok_or ''FAILED'' (errors = [])) (rollback_items restored errors)) (\<lambda>_.
          attempt K x [''build'', ''publish''] False
            (co_finish K (cx_execution x) ''BLOCKED'' ''CURRENT published Runner variants still reference this runtime'')
            (\<lambda>_. pass (blocked_items x reply))) s1)"

definition phase_publish :: "'s coordinator \<Rightarrow> cleanup_ctx \<Rightarrow> obj \<Rightarrow> ('s, obj) act" where
  "phase_publish K x build =
     attempt K x [''build''] False (co_publish_retire K (cx_key x) (cx_image x) (cx_reason x)) (\<lambda>reply.
       let safe = truthy (obj_get reply ''safeForRetirement'') in
       attempt K x [''build'', ''publish''] False (co_step K (cx_execution x) ''publish.retire'' (ok_or ''BLOCKED'' safe) reply)
         (\<lambda>_. if safe then phase_runner K x build else publish_blocked K x reply))"

definition phase_build :: "'s coordinator \<Rightarrow> cleanup_ctx \<Rightarrow> ('s, obj) act" where
  "phase_build K x =
     attempt K x [] False (co_build_retire K (cx_env x) (cx_reason x)) (\<lambda>build.
     attempt K x [''build''] False (co_step K (cx_execution x) ''build.retire'' ''SUCCEEDED'' build)
       (\<lambda>_. phase_publish K x build))"

definition execution_image :: "obj \<Rightarrow> cleanup_request \<Rightarrow> json" where
  "execution_image plan q =
     py_or (get_field (obj_get plan ''build'') ''imageRef'')
       (py_or (get_field (get_field (obj_get plan ''inventory'') ''environment'') ''imageRef'') (cr_image q))"

definition execution_ctx :: "string \<Rightarrow> cleanup_request \<Rightarrow> obj \<Rightarrow> cleanup_ctx" where
  "execution_ctx x q plan =
     \<lparr>cx_execution = x, cx_env = cr_env q, cx_key = get_field (get_field (obj_get plan ''inventory'') ''environment'') ''envKey'',
      cx_image = execution_image plan q, cx_reason = cr_reason q\<rparr>"

definition no_image :: fault where
  "no_image = Raised (value_error ''cleanup request has no image_ref'')"

definition plan_blocked_items :: "string \<Rightarrow> obj \<Rightarrow> obj" where
  "plan_blocked_items x plan = [(''executionId'', JStr x), (''status'', JStr ''BLOCKED''), (''plan'', JObj plan)]"

definition execute_planned :: "'s coordinator \<Rightarrow> cleanup_request \<Rightarrow> string \<Rightarrow> obj \<Rightarrow> ('s, obj) act" where
  "execute_planned K q x plan =
     (let can = truthy (obj_get plan ''canExecute'') in
      bind (co_step K x ''preflight'' (ok_or ''BLOCKED'' can) plan) (\<lambda>_.
        if \<not> can then bind (co_finish K x ''BLOCKED'' ''fresh preflight has blockers'') (\<lambda>_. pass (plan_blocked_items x plan))
        else if \<not> truthy (execution_image plan q)
        then bind (co_finish K x ''FAILED'' ''cleanup request has no image_ref'') (\<lambda>_. raise no_image)
        else phase_build K (execution_ctx x q plan)))"

definition execute_started :: "'s coordinator \<Rightarrow> cleanup_request \<Rightarrow> string \<Rightarrow> ('s, obj) act" where
  "execute_started K q x s =
     (case cleanup_plan K (cr_env q) s of
        (s1, Inl f) \<Rightarrow>
          bind (co_finish K x ''FAILED'' (''planning failed: '' @ fault_class f @ '': '' @ fault_text f)) (\<lambda>_. raise f) s1
      | (s1, Inr plan) \<Rightarrow> execute_planned K q x plan s1)"

definition cleanup_execute :: "'s coordinator \<Rightarrow> string \<Rightarrow> ('s, obj) act" where
  "cleanup_execute K i = bind (co_request K i) (\<lambda>r.
     case r of
       None \<Rightarrow> raise (Raised (value_error ''cleanup request not found''))
     | Some q \<Rightarrow>
         if cr_status q \<noteq> ''DRAFT'' then raise (Raised (value_error ''cleanup request must remain in DRAFT state''))
         else bind (co_start K i (cr_env q)) (\<lambda>x. execute_started K q x))"

end
