(* ===== verification/Cleanup_Laws.thy ===== *)
theory Cleanup_Laws
  imports Cleanup
begin

text \<open>
  What the coordinator relies on: locales for the operations it is given, and the theorems about an execution
  that follow from their laws.
\<close>

section \<open>Actions\<close>

text \<open>An action keeps a predicate of the state.\<close>

definition stable :: "('s \<Rightarrow> bool) \<Rightarrow> ('s, 'a) act \<Rightarrow> bool" where
  "stable P m \<longleftrightarrow> (\<forall>s. P s \<longrightarrow> P (fst (m s)))"

lemma stableD: "stable P m \<Longrightarrow> m s = (s1, r) \<Longrightarrow> P s \<Longrightarrow> P s1"
  by (metis fst_conv stable_def)

text \<open>Two ways an action goes on agree when they agree wherever it ends.\<close>

lemma attempt_cong:
  assumes "\<And>s1 v. m s = (s1, Inr v) \<Longrightarrow> f v s1 = g v s1" "\<And>e. cleanup_failed K x gates d e = cleanup_failed K' x gates d e"
  shows "attempt K x gates d m f s = attempt K' x gates d m g s"
  using assms by (simp add: attempt_def split: prod.split sum.split)

lemma bind_cong:
  assumes "\<And>s1 v. m s = (s1, Inr v) \<Longrightarrow> f v s1 = g v s1"
  shows "bind m f s = bind m g s"
  using assms by (simp add: bind_def split: prod.split sum.split)

lemma attempt_Inr:
  "attempt K x gates d m f s = (s', r) \<Longrightarrow>
     (\<And>s1 v. m s = (s1, Inr v) \<Longrightarrow> f v s1 = (s', r) \<Longrightarrow> Q) \<Longrightarrow>
     (\<And>s1 e. m s = (s1, Inl e) \<Longrightarrow> cleanup_caught e \<Longrightarrow> cleanup_failed K x gates d e s1 = (s', r) \<Longrightarrow> Q) \<Longrightarrow>
     (\<And>e. m s = (s', Inl e) \<Longrightarrow> \<not> cleanup_caught e \<Longrightarrow> r = Inl e \<Longrightarrow> Q) \<Longrightarrow> Q"
  by (cases "m s"; cases "snd (m s)") (auto simp: attempt_def split: if_splits)

lemma failed_Inl: "cleanup_failed K x gates d e s \<noteq> (s', Inr v)"
  by (auto simp: cleanup_failed_def bind_def raise_def split: prod.splits sum.splits if_splits)

text \<open>An attempt that succeeds has succeeded.\<close>

lemma attempt_ok:
  "attempt K x gates d m f s = (s', Inr v) \<longleftrightarrow> (\<exists>s1 y. m s = (s1, Inr y) \<and> f y s1 = (s', Inr v))"
  by (cases "m s"; cases "snd (m s)") (auto simp: attempt_def failed_Inl)

lemma bind_ok: "bind m f s = (s', Inr v) \<longleftrightarrow> (\<exists>s1 y. m s = (s1, Inr y) \<and> f y s1 = (s', Inr v))"
  by (cases "m s"; cases "snd (m s)") (auto simp: bind_def)

section \<open>The gates\<close>

text \<open>The coordinator whose deletion is refused when a gate is not closed.\<close>

definition gate_error :: fault where
  "gate_error = Raised (PyError ''AssertionError'' ''a retirement gate is open'')"

definition checked :: "(string \<Rightarrow> json \<Rightarrow> 's \<Rightarrow> bool) \<Rightarrow> (string \<Rightarrow> json \<Rightarrow> ('s, obj) act) \<Rightarrow> string \<Rightarrow> json \<Rightarrow> ('s, obj) act" where
  "checked guard delete i img s = (if guard i img s then delete i img s else raise gate_error s)"

definition guarded :: "(string \<Rightarrow> json \<Rightarrow> 's \<Rightarrow> bool) \<Rightarrow> 's coordinator \<Rightarrow> 's coordinator" where
  "guarded guard K = K\<lparr>co_delete := checked guard (co_delete K)\<rparr>"

lemma guarded_sel [simp]:
  "co_enabled (guarded g K) = co_enabled K" "co_preview (guarded g K) = co_preview K" "co_request (guarded g K) = co_request K"
  "co_start (guarded g K) = co_start K" "co_step (guarded g K) = co_step K" "co_finish (guarded g K) = co_finish K"
  "co_build_plan (guarded g K) = co_build_plan K" "co_runner_status (guarded g K) = co_runner_status K"
  "co_build_retire (guarded g K) = co_build_retire K" "co_publish_retire (guarded g K) = co_publish_retire K"
  "co_runner_retire (guarded g K) = co_runner_retire K" "co_runner_finalize (guarded g K) = co_runner_finalize K"
  "co_publish_finalize (guarded g K) = co_publish_finalize K" "co_runner_cancel (guarded g K) = co_runner_cancel K"
  "co_publish_cancel (guarded g K) = co_publish_cancel K" "co_build_cancel (guarded g K) = co_build_cancel K"
  "co_delete (guarded g K) = checked g (co_delete K)"
  by (simp_all add: guarded_def)

text \<open>\<open>build_closed i\<close>: the build service holds the environment as retiring. \<open>publish_closed img\<close>: the publish service has a gate
  for it and no publication that uses it. \<open>runner_closed img\<close>: the runner holds the image as retiring and does not use it.\<close>

locale gate_keepers =
  fixes K :: "'s coordinator"
    and build_closed :: "string \<Rightarrow> 's \<Rightarrow> bool"
    and publish_closed :: "json \<Rightarrow> 's \<Rightarrow> bool"
    and runner_closed :: "json \<Rightarrow> 's \<Rightarrow> bool"
  assumes build_closes: "co_build_retire K i reason s = (s1, Inr b) \<Longrightarrow> answered_state b \<noteq> JStr ''RETIRED'' \<Longrightarrow> build_closed i s1"
    and publish_closes: "co_publish_retire K k img reason s = (s1, Inr p) \<Longrightarrow> truthy (obj_get p ''safeForRetirement'') \<Longrightarrow>
      publish_closed img s1"
    and runner_closes: "co_runner_retire K img reason s = (s1, Inr r) \<Longrightarrow> truthy (obj_get r ''safeForArtifactDeletion'') \<Longrightarrow>
      runner_closed img s1"
    and step_keeps: "stable (build_closed i) (co_step K x name status d)" "stable (publish_closed img) (co_step K x name status d)"
      "stable (runner_closed img) (co_step K x name status d)"
    and others_keep: "stable (build_closed i) (co_publish_retire K k img reason)" "stable (build_closed i) (co_runner_retire K img reason)"
      "stable (publish_closed img') (co_runner_retire K img reason)"
begin

definition all_closed :: "string \<Rightarrow> json \<Rightarrow> 's \<Rightarrow> bool" where
  "all_closed i img s \<longleftrightarrow> build_closed i s \<and> publish_closed img s \<and> runner_closed img s"

abbreviation (input) "G \<equiv> guarded (\<lambda>i img s. build_closed i s \<and> publish_closed img s \<and> runner_closed img s) K"

lemma guarded_same: "cleanup_failed G x gates d e = cleanup_failed K x gates d e" "phase_finalize G x = phase_finalize K x"
  "runner_waiting G x r = runner_waiting K x r" "publish_blocked G x p = publish_blocked K x p"
proof -
  have r: "rollback G x gates = rollback K x gates" for x gates by (simp add: rollback_def fun_eq_iff)
  show f: "cleanup_failed G x gates d e = cleanup_failed K x gates d e" for x gates d e
    unfolding cleanup_failed_def r by simp
  have a: "attempt G x gates d m g = attempt K x gates d m g" for x gates d and m :: "('s, 'b) act" and g
    unfolding attempt_def f by simp
  show "phase_finalize G x = phase_finalize K x" unfolding phase_finalize_def a by simp
  show "runner_waiting G x r = runner_waiting K x r" unfolding runner_waiting_def a by simp
  show "publish_blocked G x p = publish_blocked K x p"
    unfolding publish_blocked_def a r by (simp add: fun_eq_iff)
qed

lemma delete_same:
  assumes "answered_state b \<noteq> JStr ''RETIRED'' \<Longrightarrow> build_closed (cx_env x) s" "publish_closed (cx_image x) s" "runner_closed (cx_image x) s"
  shows "phase_delete G x b s = phase_delete K x b s"
proof (cases "answered_state b = JStr ''RETIRED''")
  case False
  then have "co_delete G (cx_env x) (cx_image x) s = co_delete K (cx_env x) (cx_image x) s"
    using assms by (simp add: checked_def)
  then show ?thesis
    using False unfolding phase_delete_def guarded_same attempt_def
    by (simp add: guarded_same)
qed (simp add: phase_delete_def guarded_same)

lemma runner_same:
  assumes "answered_state b \<noteq> JStr ''RETIRED'' \<Longrightarrow> build_closed (cx_env x) s" "publish_closed (cx_image x) s"
  shows "phase_runner G x b s = phase_runner K x b s"
proof -
  have c: "co_runner_retire G = co_runner_retire K" "co_step G = co_step K" by simp_all
  show ?thesis
    unfolding phase_runner_def c guarded_same
  proof (intro attempt_cong guarded_same(1))
    fix s1 r s2 and u :: unit
    assume r: "co_runner_retire K (cx_image x) (cx_reason x) s = (s1, Inr r)"
      and w: "co_step K (cx_execution x) ''runner.retire'' ''SUCCEEDED'' r s1 = (s2, Inr u)"
    show "(if \<not> truthy (obj_get r ''safeForArtifactDeletion'') then runner_waiting K x r else phase_delete G x b) s2 =
        (if \<not> truthy (obj_get r ''safeForArtifactDeletion'') then runner_waiting K x r else phase_delete K x b) s2"
    proof (cases "truthy (obj_get r ''safeForArtifactDeletion'')")
      case True
      have "answered_state b \<noteq> JStr ''RETIRED'' \<Longrightarrow> build_closed (cx_env x) s2" "publish_closed (cx_image x) s2" "runner_closed (cx_image x) s2"
        using stableD [OF others_keep(2) r] stableD [OF others_keep(3) r] runner_closes [OF r True] stableD [OF step_keeps(1) w]
          stableD [OF step_keeps(2) w] stableD [OF step_keeps(3) w] assms by blast+
      with True show ?thesis by (simp add: delete_same)
    qed simp
  qed
qed

lemma publish_same:
  assumes "answered_state b \<noteq> JStr ''RETIRED'' \<Longrightarrow> build_closed (cx_env x) s"
  shows "phase_publish G x b s = phase_publish K x b s"
proof -
  have c: "co_publish_retire G = co_publish_retire K" "co_step G = co_step K" by simp_all
  show ?thesis
    unfolding phase_publish_def c guarded_same Let_def
  proof (intro attempt_cong guarded_same(1))
    fix s1 p s2 and u :: unit
    let ?safe = "truthy (obj_get p ''safeForRetirement'')"
    assume r: "co_publish_retire K (cx_key x) (cx_image x) (cx_reason x) s = (s1, Inr p)"
      and w: "co_step K (cx_execution x) ''publish.retire'' (ok_or ''BLOCKED'' ?safe) p s1 = (s2, Inr u)"
    show "(if ?safe then phase_runner G x b else publish_blocked K x p) s2 = (if ?safe then phase_runner K x b else publish_blocked K x p) s2"
    proof (cases ?safe)
      case True
      have "answered_state b \<noteq> JStr ''RETIRED'' \<Longrightarrow> build_closed (cx_env x) s2" "publish_closed (cx_image x) s2"
        using stableD [OF others_keep(1) r] publish_closes [OF r True] stableD [OF step_keeps(1) w] stableD [OF step_keeps(2) w] assms
        by blast+
      with True show ?thesis by (simp add: runner_same)
    qed simp
  qed
qed

lemma build_same: "phase_build G x s = phase_build K x s"
proof -
  have c: "co_build_retire G = co_build_retire K" "co_step G = co_step K" by simp_all
  show ?thesis
    unfolding phase_build_def c
    using stableD [OF step_keeps(1)] build_closes by (intro attempt_cong guarded_same(1) publish_same) blast
qed

text \<open>A deletion never meets an open gate: the check changes no execution.\<close>

theorem guard_redundant: "cleanup_execute G i s = cleanup_execute K i s"
proof -
  have c: "cleanup_plan G i = cleanup_plan K i" for i
    unfolding cleanup_plan_def guarded_sel ..
  have p: "phase_build G x = phase_build K x" for x by (rule ext) (rule build_same)
  have e: "execute_started G q x = execute_started K q x" for q x
    unfolding execute_planned_def execute_started_def fun_eq_iff c p guarded_sel by simp
  show ?thesis
    unfolding cleanup_execute_def e guarded_sel ..
qed

end

section \<open>Success\<close>

text \<open>What the owners hold of an environment, a publication gate and an image that are retired.\<close>

locale owners =
  fixes K :: "'s coordinator"
    and build_retired :: "string \<Rightarrow> 's \<Rightarrow> bool"
    and publish_retired :: "json \<Rightarrow> 's \<Rightarrow> bool"
    and runner_retired :: "json \<Rightarrow> 's \<Rightarrow> bool"
  assumes build_answers: "co_build_retire K i reason s = (s1, Inr b) \<Longrightarrow> answered_state b = JStr ''RETIRED'' \<Longrightarrow> build_retired i s1"
    and delete_retires: "co_delete K i img s = (s1, Inr d) \<Longrightarrow> build_retired i s1"
    and runner_retires: "co_runner_finalize K img s = (s1, Inr r) \<Longrightarrow> runner_retired img s1"
    and publish_retires: "co_publish_finalize K k s = (s1, Inr p) \<Longrightarrow> publish_retired k s1"
    and store_keeps: "stable (build_retired i) (co_step K x name status d)" "stable (runner_retired img) (co_step K x name status d)"
      "stable (publish_retired k) (co_step K x name status d)" "stable (build_retired i) (co_finish K x status m)"
      "stable (runner_retired img) (co_finish K x status m)" "stable (publish_retired k) (co_finish K x status m)"
    and build_kept: "stable (build_retired i) (co_publish_retire K k img reason)" "stable (build_retired i) (co_runner_retire K img reason)"
      "stable (build_retired i) (co_runner_finalize K img)" "stable (build_retired i) (co_publish_finalize K k)"
    and runner_kept: "stable (runner_retired img) (co_publish_finalize K k)"
begin

definition retired :: "cleanup_ctx \<Rightarrow> 's \<Rightarrow> bool" where
  "retired x s \<longleftrightarrow> build_retired (cx_env x) s \<and> publish_retired (cx_key x) s \<and> runner_retired (cx_image x) s"

lemma finalize_success:
  assumes "phase_finalize K x s = (s', Inr d)" "build_retired (cx_env x) s"
  shows "d = succeeded_items x \<and> retired x s'"
proof -
  from assms(1) obtain s1 r s2 u1 s3 p s4 u2 u3
    where 1: "co_runner_finalize K (cx_image x) s = (s1, Inr r)"
      and 2: "co_step K (cx_execution x) ''runner.finalize'' ''SUCCEEDED'' r s1 = (s2, Inr u1)"
      and 3: "co_publish_finalize K (cx_key x) s2 = (s3, Inr p)"
      and 4: "co_step K (cx_execution x) ''publish.finalize'' ''SUCCEEDED'' p s3 = (s4, Inr u2)"
      and 5: "co_finish K (cx_execution x) ''SUCCEEDED'' ''runtime environment retired and Harbor artifact removed'' s4 = (s', Inr u3)"
      and d: "d = succeeded_items x"
    unfolding phase_finalize_def attempt_ok pass_def by blast
  have b: "build_retired (cx_env x) s'"
    using stableD [OF store_keeps(4) 5] stableD [OF store_keeps(1) 4] stableD [OF build_kept(4) 3] stableD [OF store_keeps(1) 2]
      stableD [OF build_kept(3) 1] assms(2) by blast
  have r: "runner_retired (cx_image x) s'"
    using stableD [OF store_keeps(5) 5] stableD [OF store_keeps(2) 4] stableD [OF runner_kept 3] stableD [OF store_keeps(2) 2]
      runner_retires [OF 1] by blast
  have p: "publish_retired (cx_key x) s'"
    using stableD [OF store_keeps(6) 5] stableD [OF store_keeps(3) 4] publish_retires [OF 3] by blast
  show ?thesis using d b r p by (simp add: retired_def)
qed

lemma delete_success:
  assumes "phase_delete K x b s = (s', Inr d)" "answered_state b = JStr ''RETIRED'' \<Longrightarrow> build_retired (cx_env x) s"
  shows "d = succeeded_items x \<and> retired x s'"
proof (cases "answered_state b = JStr ''RETIRED''")
  case True
  with assms finalize_success show ?thesis by (simp add: phase_delete_def)
next
  case False
  with assms(1) obtain s1 y s2 u where 1: "co_delete K (cx_env x) (cx_image x) s = (s1, Inr y)"
    and 2: "co_step K (cx_execution x) ''harbor.delete-artifact'' ''SUCCEEDED'' y s1 = (s2, Inr u)"
    and 3: "phase_finalize K x s2 = (s', Inr d)"
    unfolding phase_delete_def by (simp add: attempt_ok) blast
  show ?thesis
    using finalize_success [OF 3] stableD [OF store_keeps(1) 2] delete_retires [OF 1] by blast
qed

lemma status_entries:
  "obj_get (succeeded_items x) ''status'' = JStr ''SUCCEEDED''" "obj_get (waiting_items x r) ''status'' = JStr ''WAITING''"
  "obj_get (blocked_items x p) ''status'' = JStr ''BLOCKED''" "obj_get (plan_blocked_items e q) ''status'' = JStr ''BLOCKED''"
  by (simp_all add: obj_get_def dict_get_or_def succeeded_items_def waiting_items_def blocked_items_def plan_blocked_items_def)

lemma runner_success:
  assumes "phase_runner K x b s = (s', Inr d)" "obj_get d ''status'' = JStr ''SUCCEEDED''"
    "answered_state b = JStr ''RETIRED'' \<Longrightarrow> build_retired (cx_env x) s"
  shows "d = succeeded_items x \<and> retired x s'"
proof -
  from assms(1) obtain s1 r s2 u where 1: "co_runner_retire K (cx_image x) (cx_reason x) s = (s1, Inr r)"
    and 2: "co_step K (cx_execution x) ''runner.retire'' ''SUCCEEDED'' r s1 = (s2, Inr u)"
    and 3: "(if \<not> truthy (obj_get r ''safeForArtifactDeletion'') then runner_waiting K x r else phase_delete K x b) s2 = (s', Inr d)"
    unfolding phase_runner_def attempt_ok by blast
  have "truthy (obj_get r ''safeForArtifactDeletion'')"
    using 3 assms(2) by (auto simp: runner_waiting_def attempt_ok pass_def status_entries split: if_splits)
  with 3 have "phase_delete K x b s2 = (s', Inr d)" by simp
  then show ?thesis
    using delete_success stableD [OF build_kept(2) 1] stableD [OF store_keeps(1) 2] assms(3) by blast
qed

lemma build_success:
  assumes "phase_build K x s = (s', Inr d)" "obj_get d ''status'' = JStr ''SUCCEEDED''"
  shows "d = succeeded_items x \<and> retired x s'"
proof -
  from assms(1) obtain s1 b s2 u where 1: "co_build_retire K (cx_env x) (cx_reason x) s = (s1, Inr b)"
    and 2: "co_step K (cx_execution x) ''build.retire'' ''SUCCEEDED'' b s1 = (s2, Inr u)"
    and r: "phase_publish K x b s2 = (s', Inr d)"
    unfolding phase_build_def attempt_ok by blast
  from r obtain s3 p s4 u2 where 3: "co_publish_retire K (cx_key x) (cx_image x) (cx_reason x) s2 = (s3, Inr p)"
    and 4: "co_step K (cx_execution x) ''publish.retire'' (ok_or ''BLOCKED'' (truthy (obj_get p ''safeForRetirement''))) p s3 = (s4, Inr u2)"
    and 5: "(if truthy (obj_get p ''safeForRetirement'') then phase_runner K x b else publish_blocked K x p) s4 = (s', Inr d)"
    unfolding phase_publish_def Let_def attempt_ok by blast
  have "truthy (obj_get p ''safeForRetirement'')"
    using 5 assms(2) by (auto simp: publish_blocked_def attempt_ok pass_def status_entries split: if_splits prod.splits)
  with 5 have "phase_runner K x b s4 = (s', Inr d)" by simp
  moreover have "answered_state b = JStr ''RETIRED'' \<Longrightarrow> build_retired (cx_env x) s4"
    using stableD [OF store_keeps(1) 2] stableD [OF build_kept(1) 3] stableD [OF store_keeps(1) 4] build_answers [OF 1] by blast
  ultimately show ?thesis using runner_success assms(2) by blast
qed

theorem success_means_retired:
  assumes "cleanup_execute K i s = (s', Inr d)" "obj_get d ''status'' = JStr ''SUCCEEDED''"
  shows "build_retired (json_str (obj_get d ''environmentId'')) s'" "publish_retired (obj_get d ''envKey'') s'"
    "runner_retired (obj_get d ''imageRef'') s'"
proof -
  from assms(1) obtain s0 r where "(case r of None \<Rightarrow> raise (Raised (value_error ''cleanup request not found''))
      | Some q \<Rightarrow> if cr_status q \<noteq> ''DRAFT'' then raise (Raised (value_error ''cleanup request must remain in DRAFT state''))
         else bind (co_start K i (cr_env q)) (\<lambda>x. execute_started K q x)) s0 = (s', Inr d)"
    unfolding cleanup_execute_def bind_ok by blast
  then obtain q where "bind (co_start K i (cr_env q)) (\<lambda>x. execute_started K q x) s0 = (s', Inr d)"
    by (auto simp: raise_def split: option.splits if_splits)
  then obtain s3 x where e: "execute_started K q x s3 = (s', Inr d)" unfolding bind_ok by blast
  obtain s1 p where "cleanup_plan K (cr_env q) s3 = (s1, p)" by fastforce
  with e obtain plan where "execute_planned K q x plan s1 = (s', Inr d)"
    by (cases p) (auto simp: execute_started_def bind_ok raise_def)
  with assms(2) obtain s2 where "phase_build K (execution_ctx x q plan) s2 = (s', Inr d)"
    by (auto simp: execute_planned_def Let_def bind_ok pass_def raise_def status_entries split: if_splits)
  from build_success [OF this assms(2)]
  show "build_retired (json_str (obj_get d ''environmentId'')) s'" "publish_retired (obj_get d ''envKey'') s'"
    "runner_retired (obj_get d ''imageRef'') s'"
    by (simp_all add: retired_def succeeded_items_def obj_get_def dict_get_or_def json_str_def)
qed

end

section \<open>Ends\<close>

definition quiet :: "('s \<Rightarrow> bool) \<Rightarrow> (string \<Rightarrow> 's \<Rightarrow> string option) \<Rightarrow> ('s, 'a) act \<Rightarrow> bool" where
  "quiet good status m \<longleftrightarrow> (\<forall>s. good s \<longrightarrow> good (fst (m s)) \<and> (\<forall>x. status x (fst (m s)) = status x s))"

text \<open>Quiet, and it raises only what the handler catches.\<close>

definition tame :: "('s \<Rightarrow> bool) \<Rightarrow> (string \<Rightarrow> 's \<Rightarrow> string option) \<Rightarrow> ('s, 'a) act \<Rightarrow> bool" where
  "tame good status m \<longleftrightarrow> quiet good status m \<and> (\<forall>s s1 f. good s \<longrightarrow> m s = (s1, Inl f) \<longrightarrow> cleanup_caught f)"

lemma quietD: "quiet good status m \<Longrightarrow> good s \<Longrightarrow> m s = (s1, r) \<Longrightarrow> good s1 \<and> status x s1 = status x s"
  by (metis fst_conv quiet_def)

lemma tameD: "tame good status m \<Longrightarrow> good s \<Longrightarrow> m s = (s1, Inl f) \<Longrightarrow> cleanup_caught f"
  by (simp add: tame_def)

lemma tame_quiet: "tame good status m \<Longrightarrow> quiet good status m"
  by (simp add: tame_def)

locale executions =
  fixes K :: "'s coordinator" and good :: "'s \<Rightarrow> bool" and status :: "string \<Rightarrow> 's \<Rightarrow> string option"
  assumes step_law: "good s \<Longrightarrow> status x s \<noteq> None \<Longrightarrow> st \<in> set step_statuses \<Longrightarrow>
      \<exists>s1. co_step K x name st d s = (s1, Inr ()) \<and> good s1 \<and> (\<forall>y. status y s1 = status y s)"
    and finish_law: "good s \<Longrightarrow> status x s \<noteq> None \<Longrightarrow> st \<in> set finish_statuses \<Longrightarrow>
      \<exists>s1. co_finish K x st m s = (s1, Inr ()) \<and> good s1 \<and> status x s1 = Some st"
    and start_law: "good s \<Longrightarrow> co_start K i e s = (s1, Inr x) \<Longrightarrow> good s1 \<and> status x s1 \<noteq> None"
    and request_law: "good s \<Longrightarrow> co_request K i s = (s1, r) \<Longrightarrow> good s1"
    and plan_law: "quiet good status (co_preview K i)" "quiet good status (co_build_plan K i)" "quiet good status (co_runner_status K img)"
    and gate_law: "tame good status (co_build_retire K i reason)" "tame good status (co_publish_retire K k img reason)"
      "tame good status (co_runner_retire K img reason)" "tame good status (co_delete K i img)"
      "tame good status (co_runner_finalize K img)" "tame good status (co_publish_finalize K k)"
    and cancel_law: "quiet good status (co_build_cancel K i)" "quiet good status (co_publish_cancel K k)" "quiet good status (co_runner_cancel K img)"
begin

text \<open>The execution \<open>x\<close> is there.\<close>

definition live :: "string \<Rightarrow> 's \<Rightarrow> bool" where
  "live x s \<longleftrightarrow> good s \<and> status x s \<noteq> None"

text \<open>The outcome agrees with the status recorded.\<close>

definition ends :: "string \<Rightarrow> ('s, obj) act \<Rightarrow> 's \<Rightarrow> bool" where
  "ends x m s \<longleftrightarrow> (\<exists>st. st \<in> set finish_statuses \<and> status x (fst (m s)) = Some st \<and>
     (case snd (m s) of Inr d \<Rightarrow> obj_get d ''status'' = JStr st | Inl f \<Rightarrow> st = ''FAILED'' \<or> st = ''PARTIAL''))"

lemma live_quiet: "quiet good status m \<Longrightarrow> live x s \<Longrightarrow> m s = (s1, r) \<Longrightarrow> live x s1"
  using quietD [of good status m s s1 r x] by (simp add: live_def)

lemma live_step:
  assumes "live x s" "st \<in> set step_statuses"
  shows "\<exists>s1. co_step K x name st d s = (s1, Inr ()) \<and> live x s1"
proof -
  from assms(1) have "good s" "status x s \<noteq> None" by (simp_all add: live_def)
  from step_law [OF this assms(2), of name d] obtain s1
    where s1: "co_step K x name st d s = (s1, Inr ())" "good s1" "status x s1 = status x s" by blast
  with \<open>status x s \<noteq> None\<close> have "live x s1" by (simp add: live_def)
  with s1(1) show ?thesis by blast
qed

lemma live_finish:
  assumes "live x s" "st \<in> set finish_statuses"
  shows "\<exists>s1. co_finish K x st m s = (s1, Inr ()) \<and> status x s1 = Some st"
proof -
  from assms(1) have "good s" "status x s \<noteq> None" by (simp_all add: live_def)
  from finish_law [OF this assms(2), of m] show ?thesis by blast
qed

lemma endsI:
  assumes "m s = (s1, r)" "st \<in> set finish_statuses" "status x s1 = Some st"
    "case r of Inr d \<Rightarrow> obj_get d ''status'' = JStr st | Inl f \<Rightarrow> st = ''FAILED'' \<or> st = ''PARTIAL''"
  shows "ends x m s"
  unfolding ends_def using assms by (intro exI [of _ st]) simp

lemma ends_eq: "m s = m' s' \<Longrightarrow> ends x m' s' \<Longrightarrow> ends x m s"
  by (simp add: ends_def)

lemma ends_finish_pass:
  assumes "live x s" "st \<in> set finish_statuses" "obj_get d ''status'' = JStr st"
  shows "ends x (bind (co_finish K x st m) (\<lambda>_. pass d)) s"
proof -
  obtain s1 where "co_finish K x st m s = (s1, Inr ())" "status x s1 = Some st" using live_finish [OF assms(1,2)] by blast
  then show ?thesis using assms(2,3) by (intro endsI [where r = "Inr d"]) (simp_all add: bind_def pass_def)
qed

lemma ends_finish_raise:
  assumes "live x s" "st = ''FAILED'' \<or> st = ''PARTIAL''"
  shows "ends x (bind (co_finish K x st m) (\<lambda>_. raise f)) s"
proof -
  have st: "st \<in> set finish_statuses" using assms(2) by (auto simp: finish_statuses_def)
  obtain s1 where "co_finish K x st m s = (s1, Inr ())" "status x s1 = Some st" using live_finish [OF assms(1) st] by blast
  then show ?thesis using st assms(2) by (intro endsI [where r = "Inl f"]) (simp_all add: bind_def raise_def)
qed

lemma ends_step:
  assumes "live x s" "st \<in> set step_statuses" "\<And>s1. live x s1 \<Longrightarrow> ends x f s1"
  shows "ends x (bind (co_step K x name st d) (\<lambda>_. f)) s"
proof -
  obtain s1 where s1: "co_step K x name st d s = (s1, Inr ())" "live x s1" using live_step [OF assms(1,2)] by blast
  show ?thesis by (rule ends_eq [OF _ assms(3) [OF s1(2)]]) (simp add: bind_def s1(1))
qed

lemma step_statuses_ok: "ok_or ''FAILED'' b \<in> set step_statuses" "ok_or ''BLOCKED'' b \<in> set step_statuses"
    "''FAILED'' \<in> set step_statuses" "''SUCCEEDED'' \<in> set step_statuses" "''WAITING'' \<in> set step_statuses"
  by (simp_all add: ok_or_def step_statuses_def)

lemma undo_live:
  assumes "undo b n m (s, res, err) = (s1, res1, err1)" "quiet good status m" "live x s"
  shows "live x s1"
  using assms live_quiet [OF assms(2,3)] by (auto simp: undo_def split: if_splits prod.splits sum.splits)

lemma rollback_live:
  assumes "rollback K x gates s = (s1, res, err)" "live e s"
  shows "live e s1"
proof -
  obtain s2 r2 e2 where 2: "undo (''runner'' \<in> set gates) ''runner'' (co_runner_cancel K (cx_image x)) (s, [], []) = (s2, r2, e2)"
    by (metis prod_cases3)
  obtain s3 r3 e3 where 3: "undo (''publish'' \<in> set gates) ''publish'' (co_publish_cancel K (cx_key x)) (s2, r2, e2) = (s3, r3, e3)"
    by (metis prod_cases3)
  have 4: "undo (''build'' \<in> set gates) ''build'' (co_build_cancel K (cx_env x)) (s3, r3, e3) = (s1, res, err)"
    using assms(1) by (simp add: rollback_def 2 3)
  show ?thesis
    using undo_live [OF 4 cancel_law(1) undo_live [OF 3 cancel_law(2) undo_live [OF 2 cancel_law(3) assms(2)]]] .
qed

lemma failed_ends: "live (cx_execution x) s \<Longrightarrow> ends (cx_execution x) (cleanup_failed K x gates deleted f) s"
  unfolding cleanup_failed_def
proof (rule ends_step)
  fix s1
  assume l: "live (cx_execution x) s1"
  show "ends (cx_execution x) (if deleted then bind (co_finish K (cx_execution x) ''PARTIAL'' partial_message) (\<lambda>_. raise f)
      else (\<lambda>s. case rollback K x gates s of (s1, restored, errors) \<Rightarrow>
        bind (co_step K (cx_execution x) ''rollback'' (ok_or ''FAILED'' (errors = [])) (rollback_items restored errors))
          (\<lambda>_. bind (co_finish K (cx_execution x) ''FAILED'' (fault_text f)) (\<lambda>_. raise f)) s1)) s1"
  proof (cases deleted)
    case True
    with ends_finish_raise [OF l] show ?thesis by simp
  next
    case False
    obtain s2 res err where r: "rollback K x gates s1 = (s2, res, err)" by (metis prod_cases3)
    have "ends (cx_execution x) (bind (co_step K (cx_execution x) ''rollback'' (ok_or ''FAILED'' (err = [])) (rollback_items res err))
          (\<lambda>_. bind (co_finish K (cx_execution x) ''FAILED'' (fault_text f)) (\<lambda>_. raise f))) s2"
      by (intro ends_step ends_finish_raise rollback_live [OF r l] step_statuses_ok) simp_all
    with False r show ?thesis by (elim ends_eq [rotated]) simp
  qed
qed (simp_all add: step_statuses_ok)

lemma attempt_ends:
  assumes "live (cx_execution x) s" "tame good status m" "\<And>v s1. live (cx_execution x) s1 \<Longrightarrow> ends (cx_execution x) (f v) s1"
  shows "ends (cx_execution x) (attempt K x gates d m f) s"
proof (cases "m s")
  case (Pair s1 r)
  have l: "live (cx_execution x) s1" using live_quiet [OF tame_quiet [OF assms(2)] assms(1) Pair] .
  show ?thesis
  proof (cases r)
    case (Inl e)
    have "good s" using assms(1) by (simp add: live_def)
    with Pair Inl have "cleanup_caught e" using tameD [OF assms(2), of s s1 e] by simp
    with Inl Pair show ?thesis by (intro ends_eq [OF _ failed_ends [OF l, of gates d e]]) (simp add: attempt_def)
  next
    case (Inr v)
    with Pair show ?thesis by (intro ends_eq [OF _ assms(3) [OF l, of v]]) (simp add: attempt_def)
  qed
qed

lemma attempt_step_ends:
  assumes "live (cx_execution x) s" "st \<in> set step_statuses" "\<And>v s1. live (cx_execution x) s1 \<Longrightarrow> ends (cx_execution x) (f v) s1"
  shows "ends (cx_execution x) (attempt K x gates d (co_step K (cx_execution x) name st i) f) s"
proof -
  obtain s1 where s1: "co_step K (cx_execution x) name st i s = (s1, Inr ())" "live (cx_execution x) s1"
    using live_step [OF assms(1,2)] by blast
  show ?thesis by (rule ends_eq [OF _ assms(3) [OF s1(2)]]) (simp add: attempt_def s1(1))
qed

lemma attempt_finish_ends:
  assumes "live (cx_execution x) s" "st \<in> set finish_statuses" "obj_get o' ''status'' = JStr st"
  shows "ends (cx_execution x) (attempt K x gates d (co_finish K (cx_execution x) st m) (\<lambda>_. pass o')) s"
proof -
  obtain s1 where "co_finish K (cx_execution x) st m s = (s1, Inr ())" "status (cx_execution x) s1 = Some st"
    using live_finish [OF assms(1,2)] by blast
  then show ?thesis using assms(2,3) by (intro endsI [where r = "Inr o'"]) (simp_all add: attempt_def pass_def)
qed

lemma finish_statuses_ok: "''SUCCEEDED'' \<in> set finish_statuses" "''BLOCKED'' \<in> set finish_statuses" "''WAITING'' \<in> set finish_statuses"
  by (simp_all add: finish_statuses_def)

lemma status_fields:
  "obj_get (succeeded_items x) ''status'' = JStr ''SUCCEEDED''" "obj_get (waiting_items x r) ''status'' = JStr ''WAITING''"
  "obj_get (blocked_items x p) ''status'' = JStr ''BLOCKED''" "obj_get (plan_blocked_items e q) ''status'' = JStr ''BLOCKED''"
  by (simp_all add: obj_get_def dict_get_or_def succeeded_items_def waiting_items_def blocked_items_def plan_blocked_items_def)

lemmas ends_rules = attempt_step_ends attempt_finish_ends attempt_ends step_statuses_ok finish_statuses_ok status_fields gate_law

lemma finalize_ends: "live (cx_execution x) s \<Longrightarrow> ends (cx_execution x) (phase_finalize K x) s"
  unfolding phase_finalize_def by (intro ends_rules)

lemma delete_ends: "live (cx_execution x) s \<Longrightarrow> ends (cx_execution x) (phase_delete K x b) s"
  unfolding phase_delete_def
  by (cases "answered_state b = JStr ''RETIRED''") (simp_all add: finalize_ends, intro ends_rules finalize_ends)

lemma runner_ends: "live (cx_execution x) s \<Longrightarrow> ends (cx_execution x) (phase_runner K x b) s"
  unfolding phase_runner_def
proof (intro ends_rules)
  fix r :: obj and s1
  assume l: "live (cx_execution x) s1"
  have "ends (cx_execution x) (runner_waiting K x r) s1" unfolding runner_waiting_def using l by (intro ends_rules)
  with delete_ends [OF l]
  show "ends (cx_execution x) (if \<not> truthy (obj_get r ''safeForArtifactDeletion'') then runner_waiting K x r else phase_delete K x b) s1"
    by simp
qed

lemma blocked_ends: "live (cx_execution x) s \<Longrightarrow> ends (cx_execution x) (publish_blocked K x p) s"
proof -
  assume l: "live (cx_execution x) s"
  obtain s1 res err where r: "rollback K x [''build'', ''publish''] s = (s1, res, err)" by (metis prod_cases3)
  have "ends (cx_execution x) (attempt K x [''build'', ''publish''] False
            (co_step K (cx_execution x) ''rollback'' (ok_or ''FAILED'' (err = [])) (rollback_items res err)) (\<lambda>_.
          attempt K x [''build'', ''publish''] False
            (co_finish K (cx_execution x) ''BLOCKED'' ''CURRENT published Runner variants still reference this runtime'')
            (\<lambda>_. pass (blocked_items x p)))) s1"
    using rollback_live [OF r l] by (intro ends_rules)
  then show ?thesis by (elim ends_eq [rotated]) (simp add: publish_blocked_def r)
qed

lemma publish_ends: "live (cx_execution x) s \<Longrightarrow> ends (cx_execution x) (phase_publish K x b) s"
  unfolding phase_publish_def Let_def
proof (intro ends_rules)
  fix p :: obj and s1
  assume "live (cx_execution x) s1"
  with runner_ends blocked_ends
  show "ends (cx_execution x) (if truthy (obj_get p ''safeForRetirement'') then phase_runner K x b else publish_blocked K x p) s1"
    by simp
qed

lemma build_ends: "live (cx_execution x) s \<Longrightarrow> ends (cx_execution x) (phase_build K x) s"
  unfolding phase_build_def by (intro ends_rules publish_ends)

lemma quiet_pass: "quiet good status (pass x)"
  by (simp add: quiet_def pass_def)

lemma quiet_bind: "quiet good status m \<Longrightarrow> (\<And>v. quiet good status (f v)) \<Longrightarrow> quiet good status (bind m f)"
  unfolding quiet_def bind_def
proof (intro allI impI)
  fix s
  assume m: "\<forall>s. good s \<longrightarrow> good (fst (m s)) \<and> (\<forall>x. status x (fst (m s)) = status x s)" and s: "good s"
    and f: "\<And>v. \<forall>s. good s \<longrightarrow> good (fst (f v s)) \<and> (\<forall>x. status x (fst (f v s)) = status x s)"
  obtain s1 r where 1: "m s = (s1, r)" by fastforce
  with m s have "good s1" "\<And>x. status x s1 = status x s" by (metis fst_conv)+
  with f show "good (fst (case m s of (s1, Inl e) \<Rightarrow> (s1, Inl e) | (s1, Inr x) \<Rightarrow> f x s1)) \<and>
      (\<forall>x. status x (fst (case m s of (s1, Inl e) \<Rightarrow> (s1, Inl e) | (s1, Inr x) \<Rightarrow> f x s1)) = status x s)"
    by (cases r) (simp_all add: 1)
qed

lemma plan_quiet: "quiet good status (cleanup_plan K i)"
  unfolding cleanup_plan_def by (simp add: quiet_bind quiet_pass plan_law Let_def)

lemma planned_ends: "live x s \<Longrightarrow> ends x (execute_planned K q x plan) s"
  unfolding execute_planned_def Let_def
proof (rule ends_step)
  fix s1
  assume l: "live x s1"
  let ?c = "execution_ctx x q plan"
  have "ends x (phase_build K ?c) s1" using build_ends [of ?c] l by (simp add: execution_ctx_def)
  then show "ends x (if \<not> truthy (obj_get plan ''canExecute'')
      then bind (co_finish K x ''BLOCKED'' ''fresh preflight has blockers'') (\<lambda>_. pass (plan_blocked_items x plan))
      else if \<not> truthy (execution_image plan q)
      then bind (co_finish K x ''FAILED'' ''cleanup request has no image_ref'') (\<lambda>_. raise no_image)
      else phase_build K ?c) s1"
    using ends_finish_pass [OF l finish_statuses_ok(2) status_fields(4)] ends_finish_raise [OF l] by simp
qed (simp_all add: step_statuses_ok)

theorem started_ends:
  assumes "good s" "co_request K i s = (s1, Inr (Some q))" "cr_status q = ''DRAFT''" "co_start K i (cr_env q) s1 = (s2, Inr x)"
  shows "ends x (cleanup_execute K i) s"
proof -
  have l: "live x s2" using start_law [OF request_law [OF assms(1,2)] assms(4)] by (simp add: live_def)
  obtain s3 p where p: "cleanup_plan K (cr_env q) s2 = (s3, p)" by fastforce
  have l3: "live x s3" using live_quiet [OF plan_quiet l p] .
  have "ends x (execute_started K q x) s2"
  proof (cases p)
    case (Inl f)
    have "ends x (bind (co_finish K x ''FAILED'' (''planning failed: '' @ fault_class f @ '': '' @ fault_text f)) (\<lambda>_. raise f)) s3"
      by (intro ends_finish_raise l3) simp
    with p Inl show ?thesis by (elim ends_eq [rotated]) (simp add: execute_started_def)
  next
    case (Inr plan)
    with p show ?thesis by (intro ends_eq [OF _ planned_ends [OF l3]]) (simp add: execute_started_def)
  qed
  with assms show ?thesis by (elim ends_eq [rotated]) (simp add: cleanup_execute_def bind_def)
qed

end

end
