(* ===== verification/Cleanup_Site.thy ===== *)
theory Cleanup_Site
  imports Cleanup_Laws
begin

text \<open>
  The coordinator of the console over the services it drives: the console's store, the build service with Harbor, the
  publish service and the runner, each with its own state, reached by HTTP requests that may fail. The calls of a
  coordinator are numbered; what happens around the \<open>n\<close>-th one (clocks, the network, whether the databases can be
  reached) is an argument of the model. No other request runs between two calls of an execution.
\<close>

record call_env =
  ce_us :: int
  ce_ms :: int
  ce_net :: net
  ce_store :: bool
  ce_up :: "string \<Rightarrow> nat \<Rightarrow> bool"

record 'b site =
  si_admin :: admin_db
  si_build :: build_db
  si_publish :: publish_db
  si_runner :: "'b lifecycle_runner"
  si_calls :: nat

record 'b site_cfg =
  sc_env :: "nat \<Rightarrow> call_env"
  sc_ids :: "nat \<Rightarrow> string"
  sc_audits :: "nat \<Rightarrow> string"
  sc_actor :: string
  sc_show :: "json \<Rightarrow> string"
  sc_inventory :: inventory_env
  sc_build :: build_server
  sc_publish_token :: string
  sc_runner :: "'b runner_server"
  sc_build_end :: endpoint
  sc_publish_end :: endpoint
  sc_runner_end :: endpoint

abbreviation sc_uuid :: "'b site_cfg \<Rightarrow> string \<Rightarrow> string option" where
  "sc_uuid C \<equiv> ie_uuid (sc_inventory C)"

section \<open>The console's own calls\<close>

definition store_call :: "'b site_cfg \<Rightarrow> (int \<Rightarrow> string \<Rightarrow> string \<Rightarrow> 'a admin_op) \<Rightarrow> ('b site, 'a) act" where
  "store_call C m s =
     (let n = si_calls s; e = sc_env C n in
      case stored (ce_store e) (m (ce_us e) (sc_ids C n) (sc_audits C n)) (si_admin s) of
        (db, r) \<Rightarrow> (s\<lparr>si_admin := db, si_calls := Suc n\<rparr>, map_sum Raised id r))"

definition inventory_at :: "'b site_cfg \<Rightarrow> 'b site \<Rightarrow> inventory" where
  "inventory_at C s =
     (let e = sc_env C (si_calls s) in
      \<lparr>iv_build = si_build s, iv_publish = si_publish s, iv_runner = sv_db (lr_service (si_runner s)), iv_up = ce_up e, iv_now = ce_us e\<rparr>)"

definition preview_call :: "'b site_cfg \<Rightarrow> string \<Rightarrow> ('b site, obj) act" where
  "preview_call C i s =
     (s\<lparr>si_calls := Suc (si_calls s)\<rparr>, map_sum Raised id (lifecycle_preview (sc_inventory C) (inventory_at C s) i))"

section \<open>Requests\<close>

definition build_call :: "'b site_cfg \<Rightarrow> string \<Rightarrow> string \<Rightarrow> obj option \<Rightarrow> ('b site, obj) act" where
  "build_call C method path body s =
     (let n = si_calls s; e = sc_env C n in
      case client_request (sc_show C) (sc_build_end C) (ce_net e)
             (\<lambda>q db. apsnd Some (build_serve (sc_build C) (ce_us e) q db)) method path body (si_build s) of
        (db, r) \<Rightarrow> (s\<lparr>si_build := db, si_calls := Suc n\<rparr>, r))"

definition publish_call :: "'b site_cfg \<Rightarrow> string \<Rightarrow> obj \<Rightarrow> ('b site, obj) act" where
  "publish_call C path body s =
     (let n = si_calls s; e = sc_env C n in
      case client_request (sc_show C) (sc_publish_end C) (ce_net e)
             (\<lambda>q db. apsnd Some (publish_serve (ie_postgres (sc_inventory C)) (sc_publish_token C) (ce_us e) q db))
             ''POST'' path (Some body) (si_publish s) of
        (db, r) \<Rightarrow> (s\<lparr>si_publish := db, si_calls := Suc n\<rparr>, r))"

definition runner_call :: "'b site_cfg \<Rightarrow> string \<Rightarrow> string \<Rightarrow> (string, string list) dict \<Rightarrow> obj option \<Rightarrow> ('b site, obj) act" where
  "runner_call C method path query body s =
     (let n = si_calls s; e = sc_env C n in
      case client_request (sc_show C) (sc_runner_end C) (ce_net e)
             (runner_serve (sc_runner C) (ce_us e) (ce_ms e) query) method path body (si_runner s) of
        (L, r) \<Rightarrow> (s\<lparr>si_runner := L, si_calls := Suc n\<rparr>, r))"

definition client_enabled :: "'b site_cfg \<Rightarrow> bool" where
  "client_enabled C \<longleftrightarrow> ep_enabled (sc_build_end C) \<and> ep_enabled (sc_publish_end C) \<and> ep_enabled (sc_runner_end C)"

definition client_build_plan :: "'b site_cfg \<Rightarrow> string \<Rightarrow> ('b site, obj) act" where
  "client_build_plan C i = build_call C ''GET'' (env_path @ quote i @ ''/cleanup-plan'') None"

definition client_build_retire :: "'b site_cfg \<Rightarrow> string \<Rightarrow> string \<Rightarrow> ('b site, obj) act" where
  "client_build_retire C i reason = build_call C ''POST'' (env_path @ quote i @ ''/retire'') (Some [(''reason'', JStr reason)])"

definition client_build_cancel :: "'b site_cfg \<Rightarrow> string \<Rightarrow> ('b site, obj) act" where
  "client_build_cancel C i = build_call C ''POST'' (env_path @ quote i @ ''/cancel-retirement'') (Some [])"

definition client_build_delete :: "'b site_cfg \<Rightarrow> string \<Rightarrow> json \<Rightarrow> ('b site, obj) act" where
  "client_build_delete C i img = build_call C ''DELETE'' (env_path @ quote i @ ''/artifact'') (Some [(''expectedImageRef'', img)])"

definition client_publish_begin :: "'b site_cfg \<Rightarrow> json \<Rightarrow> json \<Rightarrow> string \<Rightarrow> ('b site, obj) act" where
  "client_publish_begin C k img reason =
     publish_call C publish_retire_path [(''runtimeEnvKey'', k), (''imageRef'', img), (''reason'', JStr reason)]"

definition client_publish_cancel :: "'b site_cfg \<Rightarrow> json \<Rightarrow> ('b site, obj) act" where
  "client_publish_cancel C k = publish_call C publish_cancel_path [(''runtimeEnvKey'', k)]"

definition client_publish_finalize :: "'b site_cfg \<Rightarrow> json \<Rightarrow> ('b site, obj) act" where
  "client_publish_finalize C k = publish_call C publish_finalize_path [(''runtimeEnvKey'', k)]"

definition client_runner_status :: "'b site_cfg \<Rightarrow> json \<Rightarrow> ('b site, obj) act" where
  "client_runner_status C img =
     runner_call C ''GET'' runner_status_path [(''imageRef'', [str_of (sc_show C) img])] None"

definition client_runner_begin :: "'b site_cfg \<Rightarrow> json \<Rightarrow> string \<Rightarrow> ('b site, obj) act" where
  "client_runner_begin C img reason =
     runner_call C ''POST'' runner_retire_path [] (Some [(''imageRef'', img), (''reason'', JStr reason)])"

definition client_runner_cancel :: "'b site_cfg \<Rightarrow> json \<Rightarrow> ('b site, obj) act" where
  "client_runner_cancel C img = runner_call C ''POST'' runner_cancel_path [] (Some [(''imageRef'', img)])"

definition client_runner_finalize :: "'b site_cfg \<Rightarrow> json \<Rightarrow> ('b site, obj) act" where
  "client_runner_finalize C img = runner_call C ''POST'' runner_finalize_path [] (Some [(''imageRef'', img)])"

section \<open>The store's operations\<close>

definition call_request :: "'b site_cfg \<Rightarrow> string \<Rightarrow> ('b site, cleanup_request option) act" where
  "call_request C i s = store_call C (\<lambda>now x a. get_cleanup_request (sc_uuid C) i) s"

definition call_start :: "'b site_cfg \<Rightarrow> string \<Rightarrow> string \<Rightarrow> ('b site, string) act" where
  "call_start C i e s = store_call C (\<lambda>now x a. start_cleanup_execution (sc_uuid C) now x a (sc_actor C) i e) s"

definition call_step :: "'b site_cfg \<Rightarrow> string \<Rightarrow> string \<Rightarrow> string \<Rightarrow> obj \<Rightarrow> ('b site, unit) act" where
  "call_step C x name status d s = store_call C (\<lambda>now u a. record_cleanup_step (sc_uuid C) now u x name status d) s"

definition call_finish :: "'b site_cfg \<Rightarrow> string \<Rightarrow> string \<Rightarrow> string \<Rightarrow> ('b site, unit) act" where
  "call_finish C x status m s = store_call C (\<lambda>now u a. finish_cleanup_execution (sc_uuid C) now a (sc_actor C) x status m) s"

section \<open>The coordinator\<close>

definition site_coordinator :: "'b site_cfg \<Rightarrow> 'b site coordinator" where
  "site_coordinator C =
     \<lparr>co_enabled = client_enabled C,
      co_preview = preview_call C,
      co_request = call_request C, co_start = call_start C, co_step = call_step C, co_finish = call_finish C,
      co_build_plan = client_build_plan C, co_runner_status = client_runner_status C,
      co_build_retire = client_build_retire C, co_publish_retire = client_publish_begin C,
      co_runner_retire = client_runner_begin C, co_delete = client_build_delete C,
      co_runner_finalize = client_runner_finalize C, co_publish_finalize = client_publish_finalize C,
      co_runner_cancel = client_runner_cancel C, co_publish_cancel = client_publish_cancel C,
      co_build_cancel = client_build_cancel C\<rparr>"

definition site_cleanup :: "'b site_cfg \<Rightarrow> string \<Rightarrow> ('b site, obj) act" where
  "site_cleanup C = cleanup_execute (site_coordinator C)"

lemma site_sel [simp]:
  "co_enabled (site_coordinator C) = client_enabled C" "co_preview (site_coordinator C) = preview_call C"
  "co_request (site_coordinator C) i = store_call C (\<lambda>now x a. get_cleanup_request (sc_uuid C) i)"
  "co_start (site_coordinator C) i e = store_call C (\<lambda>now x a. start_cleanup_execution (sc_uuid C) now x a (sc_actor C) i e)"
  "co_step (site_coordinator C) y name status d = store_call C (\<lambda>now u a. record_cleanup_step (sc_uuid C) now u y name status d)"
  "co_finish (site_coordinator C) y status m = store_call C (\<lambda>now u a. finish_cleanup_execution (sc_uuid C) now a (sc_actor C) y status m)"
  "co_build_plan (site_coordinator C) = client_build_plan C" "co_runner_status (site_coordinator C) = client_runner_status C"
  "co_build_retire (site_coordinator C) = client_build_retire C" "co_publish_retire (site_coordinator C) = client_publish_begin C"
  "co_runner_retire (site_coordinator C) = client_runner_begin C" "co_delete (site_coordinator C) = client_build_delete C"
  "co_runner_finalize (site_coordinator C) = client_runner_finalize C"
  "co_publish_finalize (site_coordinator C) = client_publish_finalize C"
  "co_runner_cancel (site_coordinator C) = client_runner_cancel C" "co_publish_cancel (site_coordinator C) = client_publish_cancel C"
  "co_build_cancel (site_coordinator C) = client_build_cancel C"
  by (simp_all add: site_coordinator_def fun_eq_iff call_request_def call_start_def call_step_def call_finish_def)

end
