(* ===== verification/Cleanup_System.thy ===== *)
theory Cleanup_System
  imports Cleanup_Site Build_Facts
begin

text \<open>
  The laws of the coordinator's locales for the site: what an answer of each service means for its state. The
  interpretations give the theorems about the executions of a site.
\<close>

section \<open>Answers\<close>

lemma client_ok:
  assumes "client_request show p n serve method path body w = (w1, Inr d)"
  shows "\<exists>a. serve \<lparr>hq_method = method, hq_path = path, hq_body = body, hq_authorization = Some (bearer @ ep_token p)\<rparr> w = (w1, Some a) \<and>
    ha_status a < 300 \<and> ha_body a = JObj d"
  using assms
  by (auto simp: client_request_def Let_def decode_answer_def split: if_splits net.splits prod.splits option.splits json.splits)

lemma http_error_status [simp]: "ha_status (http_error st m) = st" "ha_status server_error = 500" "ha_status unprocessable = 422"
    "ha_status not_found = 404" "ha_status (http_ok j) = 200" "ha_body (http_ok j) = j"
  by (simp_all add: http_error_def server_error_def unprocessable_def not_found_def http_ok_def)

lemma admin_route_ok: "admin_route name token header f s = (s1, a) \<Longrightarrow> ha_status a < 300 \<Longrightarrow> f s = (s1, a)"
  by (auto simp: admin_route_def require_admin_def Let_def split: option.splits if_splits sum.splits)

lemma answer_of_ok: "ha_status (answer_of conflicts show r) < 300 \<Longrightarrow> \<exists>x. r = Inr x"
  by (cases r) (auto simp: answer_of_def lifecycle_error_def split: if_splits)

section \<open>Paths\<close>

lemma path_param_self:
  "path_param front tail (front @ x @ tail) = (if x \<noteq> [] \<and> CHR ''/'' \<notin> set x then Some (unquote x) else None)"
  by (simp add: path_param_def)

lemma path_param_Some: "path_param front tail path = Some i \<Longrightarrow> \<exists>x. path = front @ x @ tail"
  by (auto simp: path_param_def Let_def split: if_splits)

lemma last_differs: "a \<noteq> [] \<Longrightarrow> b \<noteq> [] \<Longrightarrow> List.last a \<noteq> List.last b \<Longrightarrow> x @ a \<noteq> y @ b"
  by (metis last_appendR)

lemma path_param_other:
  "tail \<noteq> [] \<Longrightarrow> tail' \<noteq> [] \<Longrightarrow> List.last tail \<noteq> List.last tail' \<Longrightarrow> path_param front tail (front' @ x @ tail') = None"
  using last_differs [of tail' tail "front' @ x"] path_param_Some [of front tail "front' @ x @ tail'"]
  by (cases "path_param front tail (front' @ x @ tail')") (auto simp: append_assoc [symmetric] simp del: append_assoc)

section \<open>The build service\<close>

lemma build_call_ok:
  assumes "build_call C method path body s = (s1, Inr d)"
  shows "\<exists>db a. build_serve (sc_build C) (ce_us (sc_env C (si_calls s)))
      \<lparr>hq_method = method, hq_path = path, hq_body = body, hq_authorization = Some (bearer @ ep_token (sc_build_end C))\<rparr> (si_build s) =
        (db, a) \<and> ha_status a < 300 \<and> ha_body a = JObj d \<and> s1 = s\<lparr>si_build := db, si_calls := Suc (si_calls s)\<rparr>"
proof -
  let ?n = "sc_env C (si_calls s)"
  obtain db where c: "client_request (sc_show C) (sc_build_end C) (ce_net ?n)
      (\<lambda>q db. apsnd Some (build_serve (sc_build C) (ce_us ?n) q db)) method path body (si_build s) = (db, Inr d)"
    and s1: "s1 = s\<lparr>si_build := db, si_calls := Suc (si_calls s)\<rparr>"
    using assms by (auto simp: build_call_def Let_def split: prod.splits)
  from client_ok [OF c] s1 show ?thesis by (auto simp: apsnd_def map_prod_def split: prod.splits)
qed

definition build_now :: "'b site_cfg \<Rightarrow> 'b site \<Rightarrow> int" where
  "build_now C s = ce_us (sc_env C (si_calls s))"

lemma build_retire_ok:
  assumes "client_build_retire C i reason s = (s1, Inr d)"
  shows "\<exists>e. build_begin_retirement (build_now C s) i (si_build s) = (si_build s1, Inr e) \<and> d = env_row_items (zb_time (sc_build C)) e"
proof -
  let ?q = "\<lparr>hq_method = ''POST'', hq_path = env_path @ quote i @ ''/retire'', hq_body = Some [(''reason'', JStr reason)],
    hq_authorization = Some (bearer @ ep_token (sc_build_end C))\<rparr>"
  have c: "path_param env_path ''/cancel-retirement'' (env_path @ quote i @ ''/retire'') = None"
    by (rule path_param_other) simp_all
  obtain db a where r: "build_serve (sc_build C) (build_now C s) ?q (si_build s) = (db, a)" "ha_status a < 300" "ha_body a = JObj d"
    and s1: "s1 = s\<lparr>si_build := db, si_calls := Suc (si_calls s)\<rparr>"
    using build_call_ok [OF assms [unfolded client_build_retire_def]] by (auto simp: build_now_def)
  from r have p: "path_param env_path ''/retire'' (env_path @ quote i @ ''/retire'') = Some i"
    by (auto simp: build_serve_def c path_param_self unquote_quote split: if_splits)
  from r obtain h where "retire_route (env_row_json (zb_time (sc_build C))) (build_now C s) (zb_token (sc_build C)) h i reason (si_build s) = (db, a)"
    by (auto simp: build_serve_def p build_retire_request_def body_of_def)
  with r(2) have "apsnd (answer_of value_errors (env_row_json (zb_time (sc_build C)))) (build_begin_retirement (build_now C s) i (si_build s)) = (db, a)"
    by (auto simp: retire_route_def split: if_splits dest: admin_route_ok)
  then obtain x where x: "build_begin_retirement (build_now C s) i (si_build s) = (db, x)" "a = answer_of value_errors (env_row_json (zb_time (sc_build C))) x"
    by (cases "build_begin_retirement (build_now C s) i (si_build s)") auto
  with answer_of_ok r(2) obtain e where "x = Inr e" by blast
  with x r(3) s1 show ?thesis by (simp add: answer_of_def env_row_json_def)
qed

lemma build_delete_ok:
  assumes "client_build_delete C i img s = (s1, Inr d)"
  shows "\<exists>t x. img = JStr t \<and>
    delete_artifact (zb_env (sc_build C)) (zb_harbor (sc_build C)) (build_now C s) i t (si_build s) = (si_build s1, Inr x)"
proof -
  let ?q = "\<lparr>hq_method = ''DELETE'', hq_path = env_path @ quote i @ ''/artifact'', hq_body = Some [(''expectedImageRef'', img)],
    hq_authorization = Some (bearer @ ep_token (sc_build_end C))\<rparr>"
  obtain db a where r: "build_serve (sc_build C) (build_now C s) ?q (si_build s) = (db, a)" "ha_status a < 300" "ha_body a = JObj d"
    and s1: "s1 = s\<lparr>si_build := db, si_calls := Suc (si_calls s)\<rparr>"
    using build_call_ok [OF assms [unfolded client_build_delete_def]] by (auto simp: build_now_def)
  from r have p: "path_param env_path ''/artifact'' (env_path @ quote i @ ''/artifact'') = Some i"
    by (auto simp: build_serve_def path_param_self unquote_quote split: if_splits)
  from r(1,2) obtain t where t: "img = JStr t"
    by (auto simp: build_serve_def p build_delete_request_def body_of_def split: json.splits)
  from r(1) obtain h where "delete_route (zb_env (sc_build C)) (zb_harbor (sc_build C)) (deletion_json i) (build_now C s) (zb_token (sc_build C)) h i t (si_build s) = (db, a)"
    by (auto simp: build_serve_def p build_delete_request_def body_of_def t)
  with r(2) have "apsnd (answer_of (value_errors @ runtime_errors) (deletion_json i))
      (delete_artifact (zb_env (sc_build C)) (zb_harbor (sc_build C)) (build_now C s) i t (si_build s)) = (db, a)"
    by (auto simp: delete_route_def split: if_splits dest: admin_route_ok)
  then obtain x where x: "delete_artifact (zb_env (sc_build C)) (zb_harbor (sc_build C)) (build_now C s) i t (si_build s) = (db, x)"
      "a = answer_of (value_errors @ runtime_errors) (deletion_json i) x"
    by (cases "delete_artifact (zb_env (sc_build C)) (zb_harbor (sc_build C)) (build_now C s) i t (si_build s)") auto
  with answer_of_ok r(2) obtain y where "x = Inr y" by blast
  with x t s1 show ?thesis by simp
qed

text \<open>The state of an environment in the build service.\<close>

definition build_state :: "string \<Rightarrow> 'b site \<Rightarrow> lifecycle_state option" where
  "build_state i s = map_option ev_lifecycle (env_at i (si_build s))"

lemma env_at_where:
  assumes "\<And>e. ev_id (f e) = ev_id e"
  shows "env_at i (fst (update_where i P f db)) = map_option (\<lambda>e. if P e then f e else e) (env_at i db)"
proof -
  have "env_at i (fst (update_where i P f db)) = map_option (\<lambda>e. if ev_id e = i \<and> P e then f e else e) (env_at i db)"
    using assms by (simp add: update_where_def update_env_def env_at_def find_sql_update)
  moreover have "ev_id e = i" if "env_at i db = Some e" for e using env_at_in [OF that] ..
  ultimately show ?thesis by (cases "env_at i db") simp_all
qed

lemma snd_where: "snd (update_where i P f db) = (case env_at i db of Some e \<Rightarrow> if P e then Some (f e) else None | None \<Rightarrow> None)"
  by (simp add: update_where_def)

lemma begin_retirement_state:
  assumes "build_begin_retirement now i db = (db1, Inr e)"
  shows "env_at i db1 = Some e \<and> ev_lifecycle e \<noteq> LActive"
proof -
  from assms obtain p e0 where p: "build_plan i db = Inr p" and e0: "env_at i db = Some e0" "lp_lifecycle p = ev_lifecycle e0"
    by (auto simp: build_begin_retirement_def build_plan_def split: option.splits sum.splits)
  show ?thesis
  proof (cases "ev_lifecycle e0 = LActive")
    case True
    let ?f = "\<lambda>e. e\<lparr>ev_lifecycle := LRetiring, ev_cleanup_error := None, ev_updated := now\<rparr>"
    let ?P = "\<lambda>e. ev_lifecycle e = LActive \<and> ev_status e \<notin> {Pending, Building, Verifying} \<and> \<not> list_ex (active_job i) (bd_jobs db)"
    from True assms p e0 have "store_begin_retirement now i db = (db1, Some e)"
      by (auto simp: build_begin_retirement_def split: if_splits prod.splits option.splits)
    then have u: "update_where i ?P ?f db = (db1, Some e)" unfolding store_begin_retirement_def .
    have "(if ?P e0 then Some (?f e0) else None) = Some e"
      using snd_where [of i ?P ?f db] by (simp only: u e0 snd_conv option.case)
    then have "?P e0" "e = ?f e0" by (simp_all only: split: if_splits) simp_all
    moreover have "env_at i db1 = map_option (\<lambda>e. if ?P e then ?f e else e) (Some e0)"
      using env_at_where [of ?f i ?P db] unfolding u fst_conv e0 by simp
    ultimately show ?thesis by simp
  next
    case False
    with assms p e0 show ?thesis
      by (auto simp: build_begin_retirement_def split: if_splits)
  qed
qed

lemma answered_row: "answered_state (env_row_items time e) = JStr (lifecycle_name (ev_lifecycle e))"
  by (cases "ev_lifecycle e") (simp_all add: answered_state_def obj_get_def dict_get_or_def env_row_items_def py_or_def lifecycle_name_def)

lemma build_retire_state:
  assumes "client_build_retire C i reason s = (s1, Inr d)"
  shows "build_state i s1 = Some (if answered_state d = JStr ''RETIRED'' then LRetired else LRetiring)"
proof -
  obtain e where e: "build_begin_retirement (build_now C s) i (si_build s) = (si_build s1, Inr e)" "d = env_row_items (zb_time (sc_build C)) e"
    using build_retire_ok [OF assms] by blast
  with begin_retirement_state [OF e(1)] show ?thesis
    by (cases "ev_lifecycle e") (simp_all add: build_state_def answered_row lifecycle_name_def)
qed

lemma finalize_state:
  assumes "env_at i db = Some e" "ev_lifecycle e = LRetiring"
  shows "map_option ev_lifecycle (env_at i (fst (store_finalize_retirement now i db))) = Some LRetired"
  using assms
    env_at_where [of "\<lambda>e. e\<lparr>ev_lifecycle := LRetired, ev_retired_at := coalesce (ev_retired_at e) now,
              ev_deleted_at := coalesce (ev_deleted_at e) now, ev_cleanup_error := None, ev_updated := now\<rparr>" i
       "\<lambda>e. ev_lifecycle e = LRetiring" "db\<lparr>bd_aliases := sql_delete (\<lambda>a. al_env a = i) (bd_aliases db)\<rparr>"]
  by (simp add: store_finalize_retirement_def env_at_def)

lemma build_delete_state:
  assumes "client_build_delete C i img s = (s1, Inr d)"
  shows "build_state i s1 = Some LRetired"
proof -
  obtain t x where d: "delete_artifact (zb_env (sc_build C)) (zb_harbor (sc_build C)) (build_now C s) i t (si_build s) = (si_build s1, Inr x)"
    using build_delete_ok [OF assms] by blast
  then obtain o' where c: "deletion_check i t (si_build s) = Inr o'" by (cases "deletion_check i t (si_build s)") (auto simp: delete_artifact_def)
  then obtain e where e: "env_at i (si_build s) = Some e" "ev_lifecycle e = LRetiring"
    by (auto simp: deletion_check_def build_plan_def split: option.splits sum.splits if_splits)
  from d c have "si_build s1 = fst (store_finalize_retirement (build_now C s) i (si_build s))"
    by (auto simp: delete_artifact_def split: option.splits sum.splits)
  with finalize_state [OF e] show ?thesis by (simp add: build_state_def)
qed

section \<open>The publish service\<close>

lemma publish_call_ok:
  assumes "publish_call C path body s = (s1, Inr d)"
  shows "\<exists>db a h. publish_serve (ie_postgres (sc_inventory C)) (sc_publish_token C) (build_now C s)
      \<lparr>hq_method = ''POST'', hq_path = path, hq_body = Some body, hq_authorization = h\<rparr> (si_publish s) =
        (db, a) \<and> ha_status a < 300 \<and> ha_body a = JObj d \<and> s1 = s\<lparr>si_publish := db, si_calls := Suc (si_calls s)\<rparr>"
proof -
  let ?n = "sc_env C (si_calls s)"
  obtain db where c: "client_request (sc_show C) (sc_publish_end C) (ce_net ?n)
      (\<lambda>q db. apsnd Some (publish_serve (ie_postgres (sc_inventory C)) (sc_publish_token C) (ce_us ?n) q db))
      ''POST'' path (Some body) (si_publish s) = (db, Inr d)"
    and s1: "s1 = s\<lparr>si_publish := db, si_calls := Suc (si_calls s)\<rparr>"
    using assms by (auto simp: publish_call_def Let_def split: prod.splits)
  from client_ok [OF c] s1 show ?thesis by (auto simp: build_now_def apsnd_def map_prod_def split: prod.splits)
qed

lemma publish_answer_ok: "ha_status (publish_answer show r) < 300 \<Longrightarrow> \<exists>x. r = Inr x"
  by (cases r) (auto simp: publish_answer_def publish_error_def split: if_splits)

lemma publish_paths [simp]: "publish_cancel_path \<noteq> publish_retire_path" "publish_finalize_path \<noteq> publish_retire_path"
    "publish_finalize_path \<noteq> publish_cancel_path"
  by (simp_all add: publish_cancel_path_def publish_retire_path_def publish_finalize_path_def)

lemma publish_begin_ok:
  assumes "client_publish_begin C k img reason s = (s1, Inr d)"
  shows "\<exists>kt it a. k = JStr kt \<and> img = JStr it \<and> kt \<noteq> [] \<and> it \<noteq> [] \<and> d = retirement_items a \<and>
    begin_retirement (ie_postgres (sc_inventory C)) (build_now C s) kt it reason (si_publish s) = (si_publish s1, Inr a)"
proof -
  obtain db a h where r: "publish_serve (ie_postgres (sc_inventory C)) (sc_publish_token C) (build_now C s)
      \<lparr>hq_method = ''POST'', hq_path = publish_retire_path, hq_body = Some [(''runtimeEnvKey'', k), (''imageRef'', img), (''reason'', JStr reason)],
       hq_authorization = h\<rparr> (si_publish s) = (db, a)" "ha_status a < 300" "ha_body a = JObj d"
    and s1: "s1 = s\<lparr>si_publish := db, si_calls := Suc (si_calls s)\<rparr>"
    using publish_call_ok [OF assms [unfolded client_publish_begin_def]] by blast
  let ?body = "[(''runtimeEnvKey'', k), (''imageRef'', img), (''reason'', JStr reason)]"
  from r have p: "publish_retire_route (ie_postgres (sc_inventory C)) (build_now C s) (sc_publish_token C) h ?body (si_publish s) = (db, a)"
    by (simp add: publish_serve_def body_of_def)
  from p r(2) obtain kt it rt where f: "text_field ?body ''runtimeEnvKey'' 1 256 = Some kt" "text_field ?body ''imageRef'' 1 2048 = Some it"
      "text_field ?body ''reason'' 5 1000 = Some rt"
    by (auto simp: publish_retire_route_def split: option.splits)
  then have j: "k = JStr kt" "img = JStr it" "rt = reason" by (auto simp: text_field_Some)
  have n: "kt \<noteq> []" "it \<noteq> []" using f(1,2) text_field_nonempty by fastforce+
  from p r(2) f have "apsnd (publish_answer retirement_items)
      (begin_retirement (ie_postgres (sc_inventory C)) (build_now C s) kt it reason (si_publish s)) = (db, a)"
    by (auto simp: publish_retire_route_def j(3) dest: admin_route_ok)
  then obtain x where x: "begin_retirement (ie_postgres (sc_inventory C)) (build_now C s) kt it reason (si_publish s) = (db, x)"
      "a = publish_answer retirement_items x"
    by (cases "begin_retirement (ie_postgres (sc_inventory C)) (build_now C s) kt it reason (si_publish s)") auto
  with publish_answer_ok r(2) obtain y where "x = Inr y" by blast
  with x r(3) s1 j n show ?thesis by (simp add: publish_answer_def)
qed

text \<open>A gate for the image is up, and no publication that is current uses it.\<close>

definition publish_closed_for :: "'b site_cfg \<Rightarrow> json \<Rightarrow> 'b site \<Rightarrow> bool" where
  "publish_closed_for C img s \<longleftrightarrow>
     (\<exists>k g. gate_at k (si_publish s) = Some g \<and> rg_state g = Retiring \<and> JStr (rg_image g) = img \<and>
        runner_references (ie_postgres (sc_inventory C)) k (rg_image g) (si_publish s) = [])"

lemma publish_begin_closes:
  assumes "client_publish_begin C k img reason s = (s1, Inr d)" "truthy (obj_get d ''safeForRetirement'')"
  shows "publish_closed_for C img s1"
proof -
  let ?G = "ie_postgres (sc_inventory C)"
  obtain kt it a where o: "img = JStr it" "kt \<noteq> []" "it \<noteq> []" "d = retirement_items a"
      and b: "begin_retirement ?G (build_now C s) kt it reason (si_publish s) = (si_publish s1, Inr a)"
    using publish_begin_ok [OF assms(1)] by blast
  obtain db g where g: "put_gate (build_now C s) kt it reason (si_publish s) = (db, g)" by fastforce
  have a: "a = retirement_answer ?G kt it g db" "db = si_publish s1"
    using b o(2,3) by (auto simp: begin_retirement_def g)
  have "ra_safe a" using assms(2) by (simp add: o(4) retirement_items_def obj_get_def dict_get_or_def)
  then have s: "runner_references ?G kt it (si_publish s1) = []" "rg_state g = Retiring"
    by (simp_all add: a retirement_answer_def Let_def)
  have "gate_at kt (si_publish s1) = Some g" "rg_image g = it"
    using put_gate_spec(1) [OF g, of kt] put_gate_spec(3) [OF g] a(2) by simp_all
  with s o(1) show ?thesis unfolding publish_closed_for_def by blast
qed

text \<open>The state of a gate in the publish service.\<close>

definition publish_state :: "json \<Rightarrow> 'b site \<Rightarrow> lc_state option" where
  "publish_state k s = gate_state (si_publish s) (json_str k)"

lemma publish_finalize_state:
  assumes "client_publish_finalize C k s = (s1, Inr d)"
  shows "publish_state k s1 = Some Retired"
proof -
  let ?body = "[(''runtimeEnvKey'', k)]"
  obtain db a h where r: "publish_serve (ie_postgres (sc_inventory C)) (sc_publish_token C) (build_now C s)
      \<lparr>hq_method = ''POST'', hq_path = publish_finalize_path, hq_body = Some ?body, hq_authorization = h\<rparr> (si_publish s) = (db, a)"
      "ha_status a < 300"
    and s1: "s1 = s\<lparr>si_publish := db, si_calls := Suc (si_calls s)\<rparr>"
    using publish_call_ok [OF assms [unfolded client_publish_finalize_def]] by blast
  then have p: "publish_finalize_route (build_now C s) (sc_publish_token C) h ?body (si_publish s) = (db, a)"
    by (simp add: publish_serve_def body_of_def)
  from p r(2) obtain kt where f: "text_field ?body ''runtimeEnvKey'' 1 256 = Some kt"
    by (auto simp: publish_finalize_route_def split: option.splits)
  then have k: "k = JStr kt" by (auto simp: text_field_Some)
  from p r(2) f have "apsnd (\<lambda>r. case r of Inr g \<Rightarrow> http_ok (JObj (gate_items g)) | Inl e \<Rightarrow> finalize_error e)
                    (finalize_retirement (build_now C s) kt (si_publish s)) = (db, a)"
    by (auto simp: publish_finalize_route_def dest: admin_route_ok)
  then obtain x where x: "finalize_retirement (build_now C s) kt (si_publish s) = (db, x)"
      "a = (case x of Inr g \<Rightarrow> http_ok (JObj (gate_items g)) | Inl e \<Rightarrow> finalize_error e)"
    by (cases "finalize_retirement (build_now C s) kt (si_publish s)") auto
  with r(2) obtain g where "x = Inr g" by (cases x) (auto simp: finalize_error_def split: if_splits)
  with x(1) have "gate_state db kt = Some Retired"
    using finalize_spec(2) [OF x(1), of kt]
    by (auto simp: finalize_retirement_def gate_state_def split: if_splits option.splits)
  with s1 k show ?thesis by (simp add: publish_state_def json_str_def)
qed

section \<open>The runner\<close>

lemma runner_call_ok:
  assumes "runner_call C method path query body s = (s1, Inr d)"
  shows "\<exists>L a h. runner_serve (sc_runner C) (build_now C s) (ce_ms (sc_env C (si_calls s))) query
      \<lparr>hq_method = method, hq_path = path, hq_body = body, hq_authorization = h\<rparr> (si_runner s) =
        (L, Some a) \<and> ha_status a < 300 \<and> ha_body a = JObj d \<and> s1 = s\<lparr>si_runner := L, si_calls := Suc (si_calls s)\<rparr>"
proof -
  let ?n = "sc_env C (si_calls s)"
  obtain L where c: "client_request (sc_show C) (sc_runner_end C) (ce_net ?n)
      (runner_serve (sc_runner C) (ce_us ?n) (ce_ms ?n) query) method path body (si_runner s) = (L, Inr d)"
    and s1: "s1 = s\<lparr>si_runner := L, si_calls := Suc (si_calls s)\<rparr>"
    using assms by (auto simp: runner_call_def Let_def split: prod.splits)
  from client_ok [OF c] s1 show ?thesis by (auto simp: build_now_def)
qed

definition runner_image :: "'b site_cfg \<Rightarrow> json \<Rightarrow> string" where
  "runner_image C img = (if truthy img then str_of (ad_show (zr_admin (sc_runner C))) img else [])"

lemma answer_or_ok: "ha_status (answer_or st show r) < 300 \<Longrightarrow> 300 \<le> st \<Longrightarrow> \<exists>x. r = Inr x"
  by (cases r) (auto simp: answer_or_def caught_def split: if_splits)

text \<open>The body of a request, as the interface reads it.\<close>

lemma payload_cases:
  assumes "admin_payload (reading D q) (runner_request R q query) = Inr d" "hq_body q = Some body"
  shows "d = body \<or> d = []"
  using assms by (auto simp: admin_payload_def reading_def runner_request_def Let_def split: option.splits if_splits)

lemma reading_frame [simp]: "ad_token (reading D q) = ad_token D" "ad_show (reading D q) = ad_show D"
  by (simp_all add: reading_def)

lemma payload_image: "payload_text (reading D q) d ''imageRef'' =
    (let v = dict_get_or d ''imageRef'' JNull in if truthy v then str_of (ad_show D) v else [])"
  by (simp add: payload_text_def Let_def)

lemma runner_paths [simp]: "runner_cancel_path \<noteq> runner_retire_path" "runner_finalize_path \<noteq> runner_retire_path"
    "runner_finalize_path \<noteq> runner_cancel_path"
  by (simp_all add: runner_cancel_path_def runner_retire_path_def runner_finalize_path_def)

lemmas runner_paths' [simp] = runner_paths [symmetric]

lemma post_ok:
  assumes "runner_serve R us ms query \<lparr>hq_method = ''POST'', hq_path = path, hq_body = Some body, hq_authorization = h\<rparr> L = (L1, Some a)"
    "ha_status a < 300"
  shows "\<exists>D d. (d = body \<or> d = []) \<and> ad_show D = ad_show (zr_admin R) \<and>
    (if path = runner_retire_path then admin_retire D (zr_controller R) us ms d L = (L1, a)
     else if path = runner_cancel_path then admin_cancel D d L = (L1, a)
     else if path = runner_finalize_path then admin_finalize D (zr_controller R) us ms d L = (L1, a) else True)"
proof -
  let ?q = "\<lparr>hq_method = ''POST'', hq_path = path, hq_body = Some body, hq_authorization = h\<rparr>"
  let ?D = "reading (zr_admin R) ?q" and ?a = "runner_request R ?q query"
  from assms have p: "post_route ?D (zr_controller R) us ms ?a L = (L1, a)"
    by (cases "post_route ?D (zr_controller R) us ms ?a L")
      (auto simp: runner_serve_def do_post_def admin_guard_def unauthorized_def split: sum.splits bool.splits)
  from p assms(2) obtain d where d: "admin_payload ?D ?a = Inr d"
    by (cases "admin_payload ?D ?a") (auto simp: post_route_def caught_def split: if_splits)
  have "d = body \<or> d = []" by (rule payload_cases [OF d]) simp
  moreover have "aq_path ?a = path" by (simp add: runner_request_def Let_def)
  then have "if path = runner_retire_path then admin_retire ?D (zr_controller R) us ms d L = (L1, a)
     else if path = runner_cancel_path then admin_cancel ?D d L = (L1, a)
     else if path = runner_finalize_path then admin_finalize ?D (zr_controller R) us ms d L = (L1, a) else True"
    using p unfolding post_route_def d sum.case runner_retire_path_def [symmetric] runner_cancel_path_def [symmetric]
      runner_finalize_path_def [symmetric]
    by (simp split: if_splits)
  moreover have "ad_show ?D = ad_show (zr_admin R)" by simp
  ultimately show ?thesis by blast
qed

lemma runner_begin_ok:
  assumes "client_runner_begin C img reason s = (s1, Inr d)"
  shows "\<exists>B us ms why x D. begin_runtime_retirement (ct_backend B) (ct_lister B) (ct_sha B) (ct_root B) us ms (runner_image C img) why (si_runner s) =
      (si_runner s1, Inr x) \<and> B = zr_controller (sc_runner C) \<and> retirement_json D x = JObj d"
proof -
  let ?R = "sc_runner C" and ?us = "build_now C s" and ?ms = "ce_ms (sc_env C (si_calls s))"
  let ?body = "[(''imageRef'', img), (''reason'', JStr reason)]"
  obtain L a h where r: "runner_serve ?R ?us ?ms [] \<lparr>hq_method = ''POST'', hq_path = runner_retire_path, hq_body = Some ?body, hq_authorization = h\<rparr>
      (si_runner s) = (L, Some a)" "ha_status a < 300" "ha_body a = JObj d" and s1: "s1 = s\<lparr>si_runner := L, si_calls := Suc (si_calls s)\<rparr>"
    using runner_call_ok [OF assms [unfolded client_runner_begin_def]] by blast
  from post_ok [OF r(1,2)] obtain D d' where d: "d' = ?body \<or> d' = []" "ad_show D = ad_show (zr_admin ?R)"
      and p: "admin_retire D (zr_controller ?R) ?us ?ms d' (si_runner s) = (L, a)" by auto
  from p r(2) have ne: "payload_text D d' ''imageRef'' \<noteq> []"
    by (auto simp: admin_retire_def caught_def Let_def split: if_splits)
  then have img: "payload_text D d' ''imageRef'' = runner_image C img"
    using d by (auto simp: payload_text_def runner_image_def dict_get_or_def Let_def split: if_splits)
  let ?why = "strip (payload_text D d' ''reason'')" and ?B = "zr_controller ?R"
  let ?run = "begin_runtime_retirement (ct_backend ?B) (ct_lister ?B) (ct_sha ?B) (ct_root ?B) ?us ?ms (runner_image C img) ?why (si_runner s)"
  from p r(2) have q: "apsnd (answer_or 409 (retirement_json D)) ?run = (L, a)"
    by (auto simp: admin_retire_def caught_def Let_def img split: if_splits)
  then obtain x where x: "?run = (L, x)" "a = answer_or 409 (retirement_json D) x" by (cases ?run) auto
  with answer_or_ok [of 409 "retirement_json D" x] r(2) obtain y where "x = Inr y" by auto
  with x r(3) have "?run = (si_runner s1, Inr y)" "retirement_json D y = JObj d" by (simp_all add: s1 answer_or_def)
  then show ?thesis by blast
qed

text \<open>The runner does not use a runtime: no invocation, no idle worker, no acquisition.\<close>

definition runtime_unused :: "string \<Rightarrow> 'b lifecycle_runner \<Rightarrow> bool" where
  "runtime_unused rid L \<longleftrightarrow> active_of rid (lr_service L) = [] \<and>
     filter (\<lambda>x. ii_runtime x = rid) (pool_snapshot 0 (sv_pool (lr_service L))) = [] \<and> dict_get_or (lr_acquiring L) rid 0 = 0"

definition runner_closed_for :: "'b site_cfg \<Rightarrow> json \<Rightarrow> 'b site \<Rightarrow> bool" where
  "runner_closed_for C img s \<longleftrightarrow>
     (let rid = ct_sha (zr_controller (sc_runner C)) (runner_image C img) in
      runtime_state (lr_table (si_runner s)) rid = Some Retiring \<and> runtime_unused rid (si_runner s))"

lemma snapshot_clock: "filter (\<lambda>x. ii_runtime x = rid) (pool_snapshot ms p) = [] \<longleftrightarrow> filter (\<lambda>x. ii_runtime x = rid) (pool_snapshot 0 p) = []"
  by (auto simp: filter_empty_conv pool_snapshot_def idle_info_def)

lemma status_closed:
  assumes "runtime_image_status lister sha root us ms img L = (L1, Inr st)" "st_safe st"
  shows "runtime_state (lr_table L1) (sha img) = Some Retiring \<and> runtime_unused (sha img) L1"
proof -
  have "runtime_state (lr_table L) (sha img) = Some Retiring"
    using assms by (auto simp: runtime_image_status_def runtime_state_def Let_def split: prod.splits sum.splits option.splits)
  moreover have "lr_acquiring L1 = lr_acquiring L" "active_of rid (lr_service L1) = active_of rid (lr_service L)"
      "pool_snapshot t (sv_pool (lr_service L1)) = pool_snapshot t (sv_pool (lr_service L))" for rid t
    using assms(1) by (auto simp: runtime_image_status_def active_of_def pool_snapshot_def Let_def split: prod.splits sum.splits option.splits)
  ultimately show ?thesis
    using status_safe [OF assms] iffD1 [OF snapshot_clock status_safe(2) [OF assms]] by (simp add: runtime_unused_def)
qed

lemma begin_status:
  assumes "begin_runtime_retirement B lister sha root us ms img why L = (L1, Inr x)"
  shows "\<exists>L2. runtime_image_status lister sha root us ms img L2 = (L1, Inr (fst x))"
  using assms unfolding begin_runtime_retirement_def Let_def
  by (auto split: sum.splits prod.splits if_splits)

lemma retirement_safe: "retirement_json D x = JObj d \<Longrightarrow> obj_get d ''safeForArtifactDeletion'' = JBool (st_safe (fst x))"
  by (auto simp: retirement_json_def status_items_def obj_get_def dict_get_or_def)

lemma runner_begin_closes:
  assumes "client_runner_begin C img reason s = (s1, Inr d)" "truthy (obj_get d ''safeForArtifactDeletion'')"
  shows "runner_closed_for C img s1"
proof -
  let ?B = "zr_controller (sc_runner C)"
  obtain us ms why x D where b: "begin_runtime_retirement (ct_backend ?B) (ct_lister ?B) (ct_sha ?B) (ct_root ?B) us ms (runner_image C img) why
      (si_runner s) = (si_runner s1, Inr x)" and d: "retirement_json D x = JObj d"
    using runner_begin_ok [OF assms(1)] by blast
  obtain L2 where "runtime_image_status (ct_lister ?B) (ct_sha ?B) (ct_root ?B) us ms (runner_image C img) L2 = (si_runner s1, Inr (fst x))"
    using begin_status [OF b] by blast
  from status_closed [OF this] assms(2) show ?thesis
    by (simp add: retirement_safe [OF d] runner_closed_for_def Let_def)
qed

text \<open>The state of an image in the runner.\<close>

definition runner_state :: "'b site_cfg \<Rightarrow> json \<Rightarrow> 'b site \<Rightarrow> lc_state option" where
  "runner_state C img s = map_option lc_status (get_by_image (runner_image C img) (lr_table (si_runner s)))"

lemma runner_finalize_state:
  assumes "client_runner_finalize C img s = (s1, Inr d)"
  shows "runner_state C img s1 = Some Retired"
proof -
  let ?R = "sc_runner C" and ?us = "build_now C s" and ?ms = "ce_ms (sc_env C (si_calls s))"
  let ?body = "[(''imageRef'', img)]" and ?B = "zr_controller (sc_runner C)"
  obtain L a h where r: "runner_serve ?R ?us ?ms [] \<lparr>hq_method = ''POST'', hq_path = runner_finalize_path, hq_body = Some ?body, hq_authorization = h\<rparr>
      (si_runner s) = (L, Some a)" "ha_status a < 300" and s1: "s1 = s\<lparr>si_runner := L, si_calls := Suc (si_calls s)\<rparr>"
    using runner_call_ok [OF assms [unfolded client_runner_finalize_def]] by blast
  from post_ok [OF r(1,2)] obtain D d' where d: "d' = ?body \<or> d' = []" "ad_show D = ad_show (zr_admin ?R)"
      and p: "admin_finalize D (zr_controller ?R) ?us ?ms d' (si_runner s) = (L, a)" by auto
  from p r(2) have ne: "payload_text D d' ''imageRef'' \<noteq> []"
    by (auto simp: admin_finalize_def caught_def Let_def split: if_splits)
  then have img: "payload_text D d' ''imageRef'' = runner_image C img"
    using d by (auto simp: payload_text_def runner_image_def dict_get_or_def Let_def split: if_splits)
  let ?run = "finalize_runtime_retirement (ct_lister ?B) (ct_sha ?B) (ct_root ?B) ?us ?ms (runner_image C img) (si_runner s)"
  from p r(2) have q: "apsnd (answer_or 409 (\<lambda>s. JObj (status_items D s))) ?run = (L, a)"
    by (auto simp: admin_finalize_def caught_def Let_def img split: if_splits)
  then obtain x where x: "?run = (L, x)" "a = answer_or 409 (\<lambda>s. JObj (status_items D s)) x" by (cases ?run) auto
  with answer_or_ok [of 409 "\<lambda>s. JObj (status_items D s)" x] r(2) obtain y where "x = Inr y" by auto
  with x have run: "?run = (L, Inr y)" by simp
  obtain L1 z where st: "runtime_image_status (ct_lister ?B) (ct_sha ?B) (ct_root ?B) ?us ?ms (runner_image C img) (si_runner s) = (L1, z)"
    by fastforce
  obtain t g where fin: "lc_finalize_retirement ?us (runner_image C img) (lr_table L1) = (t, g)" by fastforce
  from run have "lr_table L = t \<and> g \<noteq> None"
    unfolding finalize_runtime_retirement_def st by (auto simp: fin split: sum.splits if_splits option.splits)
  with fin obtain row where "lc_finalize_retirement ?us (runner_image C img) (lr_table L1) = (lr_table L, Some row)" by auto
  then have "map_option lc_status (get_by_image (runner_image C img) (lr_table L)) = Some Retired"
  proof -
    assume f: "lc_finalize_retirement ?us (runner_image C img) (lr_table L1) = (lr_table L, Some row)"
    then have L: "lr_table L = sql_update (\<lambda>r. lc_image r = runner_image C img) (finalize_row ?us) (lr_table L1)"
      by (simp add: lc_finalize_retirement_def)
    from f obtain z where "List.find (\<lambda>r. lc_image r = runner_image C img) (lr_table L1) = Some z"
      by (auto simp: lc_finalize_retirement_def get_by_image_def)
    then show ?thesis by (auto simp: L get_by_image_def find_sql_update dest: find_SomeD)
  qed
  then show ?thesis by (simp add: runner_state_def s1)
qed

section \<open>Frames\<close>

lemma store_call_frame:
  assumes "store_call C m s = (s1, r)"
  shows "si_build s1 = si_build s" "si_publish s1 = si_publish s" "si_runner s1 = si_runner s"
  using assms by (auto simp: store_call_def Let_def split: prod.splits)

lemma publish_call_frame:
  assumes "publish_call C path body s = (s1, r)"
  shows "si_build s1 = si_build s" "si_admin s1 = si_admin s" "si_runner s1 = si_runner s"
  using assms by (auto simp: publish_call_def Let_def split: prod.splits)

lemma runner_call_frame:
  assumes "runner_call C method path query body s = (s1, r)"
  shows "si_build s1 = si_build s" "si_admin s1 = si_admin s" "si_publish s1 = si_publish s"
  using assms by (auto simp: runner_call_def Let_def split: prod.splits)

lemma build_call_frame:
  assumes "build_call C method path body s = (s1, r)"
  shows "si_runner s1 = si_runner s" "si_admin s1 = si_admin s" "si_publish s1 = si_publish s"
  using assms by (auto simp: build_call_def Let_def split: prod.splits)

lemmas client_defs = client_publish_begin_def client_publish_cancel_def client_publish_finalize_def client_runner_begin_def
  client_runner_cancel_def client_runner_finalize_def client_runner_status_def client_build_retire_def client_build_cancel_def
  client_build_delete_def client_build_plan_def

lemma stableI: "(\<And>s s1 r. m s = (s1, r) \<Longrightarrow> P s \<Longrightarrow> P s1) \<Longrightarrow> stable P m"
  unfolding stable_def by (metis prod.collapse)

lemma build_kept:
  "stable (\<lambda>s. build_state i s = v) (store_call C m)" "stable (\<lambda>s. build_state i s = v) (publish_call C path body)"
  "stable (\<lambda>s. build_state i s = v) (runner_call C method path query body')"
  by (rule stableI; simp add: build_state_def store_call_frame publish_call_frame runner_call_frame)+

lemma publish_kept:
  "stable (publish_closed_for C img) (store_call C' m)" "stable (publish_closed_for C img) (runner_call C' method path query body)"
  "stable (\<lambda>s. publish_state k s = v) (store_call C' m)"
  by (rule stableI; simp add: publish_closed_for_def publish_state_def store_call_frame runner_call_frame)+

lemma runner_kept:
  "stable (runner_closed_for C img) (store_call C' m)" "stable (\<lambda>s. runner_state C img s = v) (store_call C' m)"
  "stable (\<lambda>s. runner_state C img s = v) (publish_call C' path body)"
  by (rule stableI; simp add: runner_closed_for_def runner_state_def store_call_frame publish_call_frame)+

section \<open>The interpretations\<close>

interpretation site_gates: gate_keepers "site_coordinator C" "\<lambda>i s. build_state i s = Some LRetiring"
  "publish_closed_for C" "runner_closed_for C" for C :: "'b site_cfg"
proof
  fix i reason k img img' x name status and s s1 :: "'b site" and d b
  show "co_build_retire (site_coordinator C) i reason s = (s1, Inr b) \<Longrightarrow> answered_state b \<noteq> JStr ''RETIRED'' \<Longrightarrow>
      build_state i s1 = Some LRetiring"
    using build_retire_state [of C i reason s s1 b] by simp
  show "co_publish_retire (site_coordinator C) k img reason s = (s1, Inr b) \<Longrightarrow> truthy (obj_get b ''safeForRetirement'') \<Longrightarrow>
      publish_closed_for C img s1"
    using publish_begin_closes [of C k img reason s s1 b] by simp
  show "co_runner_retire (site_coordinator C) img reason s = (s1, Inr b) \<Longrightarrow> truthy (obj_get b ''safeForArtifactDeletion'') \<Longrightarrow>
      runner_closed_for C img s1"
    using runner_begin_closes [of C img reason s s1 b] by simp
  show "stable (\<lambda>s. build_state i s = Some LRetiring) (co_step (site_coordinator C) x name status d)"
      "stable (publish_closed_for C img) (co_step (site_coordinator C) x name status d)"
      "stable (runner_closed_for C img) (co_step (site_coordinator C) x name status d)"
    by (simp_all add: build_kept publish_kept runner_kept)
  show "stable (\<lambda>s. build_state i s = Some LRetiring) (co_publish_retire (site_coordinator C) k img reason)"
      "stable (\<lambda>s. build_state i s = Some LRetiring) (co_runner_retire (site_coordinator C) img reason)"
      "stable (publish_closed_for C img') (co_runner_retire (site_coordinator C) img reason)"
    by (simp_all add: client_defs build_kept publish_kept)
qed

interpretation site_owners: owners "site_coordinator C" "\<lambda>i s. build_state i s = Some LRetired"
  "\<lambda>k s. publish_state k s = Some Retired" "\<lambda>img s. runner_state C img s = Some Retired" for C :: "'b site_cfg"
proof
  fix i reason k img x name status m and s s1 :: "'b site" and d b
  show "co_build_retire (site_coordinator C) i reason s = (s1, Inr b) \<Longrightarrow> answered_state b = JStr ''RETIRED'' \<Longrightarrow>
      build_state i s1 = Some LRetired"
    using build_retire_state [of C i reason s s1 b] by simp
  show "co_delete (site_coordinator C) i img s = (s1, Inr d) \<Longrightarrow> build_state i s1 = Some LRetired"
    using build_delete_state [of C i img s s1 d] by simp
  show "co_runner_finalize (site_coordinator C) img s = (s1, Inr d) \<Longrightarrow> runner_state C img s1 = Some Retired"
    using runner_finalize_state [of C img s s1 d] by simp
  show "co_publish_finalize (site_coordinator C) k s = (s1, Inr d) \<Longrightarrow> publish_state k s1 = Some Retired"
    using publish_finalize_state [of C k s s1 d] by simp
qed (simp_all add: client_defs build_kept publish_kept runner_kept)

end
