(* ===== verification/Admin_Store_Facts.thy ===== *)
theory Admin_Store_Facts
  imports Admin_Store
begin

text \<open>
  What holds of the console's database whatever the routes do with it: the operations as one datatype, the
  invariant of the tables, the audit trail, and the versions of notes.
\<close>

section \<open>Calls\<close>

datatype admin_call =
    CreateNote string string string
  | UpdateNote string string int
  | DeleteNote string int
  | RecordAction string string string
  | RequestCleanup obj string string
  | CancelCleanup string
  | StartExecution string string
  | RecordStep string string string obj
  | FinishExecution string string string

text \<open>What a call draws: the clock, the identifier of a new row and of its audit event, the actor.\<close>

record admin_draw =
  aw_now :: int
  aw_id :: string
  aw_audit :: string
  aw_actor :: string

definition unit_answer :: "admin_db \<times> (exn + 'a) \<Rightarrow> admin_db \<times> (exn + unit)" where
  "unit_answer x = apsnd (map_sum id (\<lambda>_. ())) x"

fun admin_apply :: "(string \<Rightarrow> string option) \<Rightarrow> admin_draw \<times> admin_call \<Rightarrow> unit admin_op" where
  "admin_apply uuid (d, CreateNote kind asset note) db =
     unit_answer (create_note (aw_now d) (aw_id d) (aw_audit d) (aw_actor d) kind asset note db)"
| "admin_apply uuid (d, UpdateNote u note v) db = unit_answer (update_note uuid (aw_now d) (aw_audit d) (aw_actor d) u note v db)"
| "admin_apply uuid (d, DeleteNote u v) db = unit_answer (delete_note uuid (aw_now d) (aw_audit d) (aw_actor d) u v db)"
| "admin_apply uuid (d, RecordAction action kind resource) db =
     unit_answer (record_action (aw_now d) (aw_audit d) (aw_actor d) action kind resource db)"
| "admin_apply uuid (d, RequestCleanup preview reason confirmation) db =
     unit_answer (request_cleanup (aw_now d) (aw_id d) (aw_audit d) (aw_actor d) preview reason confirmation db)"
| "admin_apply uuid (d, CancelCleanup u) db = unit_answer (cancel_cleanup uuid (aw_now d) (aw_audit d) (aw_actor d) u db)"
| "admin_apply uuid (d, StartExecution r e) db =
     unit_answer (start_cleanup_execution uuid (aw_now d) (aw_id d) (aw_audit d) (aw_actor d) r e db)"
| "admin_apply uuid (d, RecordStep x name status detail) db =
     unit_answer (record_cleanup_step uuid (aw_now d) (aw_id d) x name status detail db)"
| "admin_apply uuid (d, FinishExecution x status message) db =
     unit_answer (finish_cleanup_execution uuid (aw_now d) (aw_audit d) (aw_actor d) x status message db)"

definition admin_run :: "(string \<Rightarrow> string option) \<Rightarrow> (admin_draw \<times> admin_call) list \<Rightarrow> admin_db \<Rightarrow> admin_db" where
  "admin_run uuid calls db = fold (\<lambda>c db. fst (admin_apply uuid c db)) calls db"

text \<open>The only operation without an audit event.\<close>

definition is_step :: "admin_call \<Rightarrow> bool" where
  "is_step c = (case c of RecordStep _ _ _ _ \<Rightarrow> True | _ \<Rightarrow> False)"

text \<open>An audited operation is refused, or it adds its event.\<close>

lemma audited_cases:
  assumes "audited now i actor action kind resource result db1 db = (db', r)" "ab_audit db1 = ab_audit db"
  obtains e where "db' = db" "r = Inl e"
  | e where "db' = db1\<lparr>ab_audit := ab_audit db @ [e]\<rparr>" "r = Inr result" "i \<notin> au_id ` set (ab_audit db)" "au_id e = i"
    "au_actor e = actor" "au_at e = now"
  using assms by (auto simp: audited_def audit_def split: if_splits)

section \<open>The invariant\<close>

definition note_ok :: "note_row \<Rightarrow> bool" where
  "note_ok n \<longleftrightarrow> nt_type n \<in> set KINDS \<and> text_between 1 160 (nt_asset n) \<and> text_between 1 1000 (nt_note n) \<and>
     1 \<le> nt_version n \<and> nt_version n \<le> MAX_VERSION"

definition execution_statuses :: "string list" where
  "execution_statuses = ''RUNNING'' # finish_statuses"

definition execution_ok :: "execution_row \<Rightarrow> bool" where
  "execution_ok x \<longleftrightarrow> ex_status x \<in> set execution_statuses \<and>
     (ex_status x \<in> {''BLOCKED'', ''SUCCEEDED'', ''FAILED'', ''PARTIAL''} \<longrightarrow> ex_finished x \<noteq> None)"

definition request_ok :: "request_row \<Rightarrow> bool" where
  "request_ok r \<longleftrightarrow> cq_status r \<in> {''DRAFT'', ''CANCELLED''} \<and> text_between 10 1000 (cq_reason r)"

definition tables_ok :: "admin_db \<Rightarrow> bool" where
  "tables_ok db \<longleftrightarrow>
     distinct (map nt_id (ab_notes db)) \<and> distinct (map (\<lambda>n. (nt_type n, nt_asset n)) (ab_notes db)) \<and>
     (\<forall>n \<in> set (ab_notes db). note_ok n) \<and>
     distinct (map cq_id (ab_requests db)) \<and> (\<forall>r \<in> set (ab_requests db). request_ok r) \<and>
     distinct (map ex_id (ab_executions db)) \<and> (\<forall>x \<in> set (ab_executions db). execution_ok x) \<and>
     ex_request ` set (ab_executions db) \<subseteq> cq_id ` set (ab_requests db) \<and>
     distinct (map es_id (ab_steps db)) \<and> es_execution ` set (ab_steps db) \<subseteq> ex_id ` set (ab_executions db) \<and>
     (\<forall>s \<in> set (ab_steps db). es_status s \<in> set step_statuses)"

definition admin_ok :: "admin_db \<Rightarrow> bool" where
  "admin_ok db \<longleftrightarrow> tables_ok db \<and> distinct (map au_id (ab_audit db))"

lemma note_frame [simp]:
  "nt_id (edited_note now actor note n) = nt_id n" "nt_type (edited_note now actor note n) = nt_type n"
  "nt_asset (edited_note now actor note n) = nt_asset n" "nt_version (edited_note now actor note n) = nt_version n + 1"
  "nt_note (edited_note now actor note n) = note"
  "nt_id (new_note now u actor kind asset note) = u" "nt_type (new_note now u actor kind asset note) = kind"
  "nt_asset (new_note now u actor kind asset note) = asset" "nt_version (new_note now u actor kind asset note) = 1"
  "nt_note (new_note now u actor kind asset note) = note"
  "ex_id (finished_execution now status message x) = ex_id x" "ex_request (finished_execution now status message x) = ex_request x"
  "ex_status (finished_execution now status message x) = status" "ex_env (finished_execution now status message x) = ex_env x"
  by (simp_all add: edited_note_def new_note_def finished_execution_def)

lemma request_frame [simp]:
  "cq_id (new_request now u actor preview reason) = u" "cq_status (new_request now u actor preview reason) = ''DRAFT''"
  "cq_reason (new_request now u actor preview reason) = reason"
  "ex_id (new_execution now i actor r e) = i" "ex_request (new_execution now i actor r e) = r"
  "ex_status (new_execution now i actor r e) = ''RUNNING''"
  by (simp_all add: new_request_def new_execution_def)

lemma image_sql_update: "(\<And>r. P r \<Longrightarrow> key (f r) = key r) \<Longrightarrow> key ` set (sql_update P f t) = key ` set t"
  by (metis map_key_sql_update set_map)

lemma note_ok_edited:
  "note_ok n \<Longrightarrow> nt_version n < MAX_VERSION \<Longrightarrow> text_between 1 1000 note \<Longrightarrow> note_ok (edited_note now actor note n)"
  by (simp add: note_ok_def)

lemma note_ok_new:
  "kind \<in> set KINDS \<Longrightarrow> text_between 1 160 asset \<Longrightarrow> text_between 1 1000 note \<Longrightarrow> note_ok (new_note now u actor kind asset note)"
  by (simp add: note_ok_def MAX_VERSION_def)

lemma execution_ok_finished: "status \<in> set finish_statuses \<Longrightarrow> execution_ok (finished_execution now status message x)"
  by (auto simp: execution_ok_def execution_statuses_def finished_execution_def)

lemma tables_audit [simp]: "tables_ok (db\<lparr>ab_audit := a\<rparr>) = tables_ok db"
  by (simp add: tables_ok_def)

text \<open>The change of each operation, without the audit event.\<close>

inductive admin_change :: "admin_draw \<Rightarrow> admin_call \<Rightarrow> admin_db \<Rightarrow> admin_db \<Rightarrow> bool" for d where
  created: "kind \<in> set KINDS \<Longrightarrow> text_between 1 160 asset \<Longrightarrow> text_between 1 1000 note \<Longrightarrow>
    (kind, asset) \<notin> (\<lambda>n. (nt_type n, nt_asset n)) ` set (ab_notes db) \<Longrightarrow> aw_id d \<notin> nt_id ` set (ab_notes db) \<Longrightarrow>
    admin_change d (CreateNote kind asset note0) db
      (db\<lparr>ab_notes := ab_notes db @ [new_note (aw_now d) (aw_id d) (aw_actor d) kind asset note]\<rparr>)"
| updated: "text_between 1 1000 note \<Longrightarrow> List.find (note_at u v) (ab_notes db) = Some n \<Longrightarrow> nt_version n \<noteq> MAX_VERSION \<Longrightarrow>
    admin_change d (UpdateNote u0 note0 v) db
      (db\<lparr>ab_notes := sql_update (note_at u v) (edited_note (aw_now d) (aw_actor d) note) (ab_notes db)\<rparr>)"
| deleted: "List.find (note_at u v) (ab_notes db) = Some n \<Longrightarrow>
    admin_change d (DeleteNote u0 v) db (db\<lparr>ab_notes := sql_delete (note_at u v) (ab_notes db)\<rparr>)"
| action: "admin_change d (RecordAction action kind resource) db db"
| requested: "text_between 10 1000 reason \<Longrightarrow> aw_id d \<notin> cq_id ` set (ab_requests db) \<Longrightarrow>
    admin_change d (RequestCleanup preview reason0 confirmation) db
      (db\<lparr>ab_requests := ab_requests db @ [new_request (aw_now d) (aw_id d) (aw_actor d) preview reason]\<rparr>)"
| cancelled: "admin_change d (CancelCleanup u0) db
      (db\<lparr>ab_requests := sql_update (draft u) (\<lambda>r. r\<lparr>cq_status := ''CANCELLED'', cq_updated := aw_now d\<rparr>) (ab_requests db)\<rparr>)"
| started: "r \<in> cq_id ` set (ab_requests db) \<Longrightarrow> aw_id d \<notin> ex_id ` set (ab_executions db) \<Longrightarrow>
    admin_change d (StartExecution r0 e0) db
      (db\<lparr>ab_executions := ab_executions db @ [new_execution (aw_now d) (aw_id d) (aw_actor d) r e]\<rparr>)"
| finished: "status \<in> set finish_statuses \<Longrightarrow>
    admin_change d (FinishExecution x0 status message) db
      (db\<lparr>ab_executions := sql_update (\<lambda>r. ex_id r = x) (finished_execution (aw_now d) status message) (ab_executions db)\<rparr>)"

lemma change_audit: "admin_change d c db db1 \<Longrightarrow> ab_audit db1 = ab_audit db"
  by (induction rule: admin_change.induct) simp_all

lemma change_tables:
  assumes "admin_change d c db db1" "tables_ok db"
  shows "tables_ok db1"
  using assms
proof (induction rule: admin_change.induct)
  case (created kind asset nt db note0)
  then show ?case by (auto simp: tables_ok_def note_ok_new)
next
  case (updated nt u v db n u0 note0)
  then have v: "v < MAX_VERSION"
    by (auto simp: tables_ok_def note_ok_def note_at_def dest!: find_SomeD)
  from updated have "\<forall>n \<in> set (ab_notes db). note_ok n" by (simp add: tables_ok_def)
  with v updated(1) have "\<forall>n \<in> set (sql_update (note_at u v) (edited_note (aw_now d) (aw_actor d) nt) (ab_notes db)). note_ok n"
    by (auto simp: set_sql_update note_at_def intro!: note_ok_edited)
  with updated show ?case by (simp add: tables_ok_def map_key_sql_update)
next
  case (deleted u v db n u0)
  then show ?case by (auto simp: tables_ok_def distinct_key_sql_delete)
next
  case (requested reason db preview reason0 confirmation)
  then show ?case by (auto simp: tables_ok_def request_ok_def)
next
  case (cancelled u0 db u)
  have "cq_id ` set (sql_update (draft u) (\<lambda>r. r\<lparr>cq_status := ''CANCELLED'', cq_updated := aw_now d\<rparr>) (ab_requests db)) =
      cq_id ` set (ab_requests db)"
    by (simp add: image_sql_update)
  moreover have "\<forall>r \<in> set (ab_requests db). request_ok r" using cancelled by (simp add: tables_ok_def)
  then have "\<forall>r \<in> set (sql_update (draft u) (\<lambda>r. r\<lparr>cq_status := ''CANCELLED'', cq_updated := aw_now d\<rparr>) (ab_requests db)). request_ok r"
    by (fastforce simp: set_sql_update request_ok_def)
  ultimately show ?case using cancelled by (simp add: tables_ok_def map_key_sql_update)
next
  case (started r db r0 e0 e)
  then show ?case
    by (auto simp: tables_ok_def execution_ok_def execution_statuses_def)
next
  case (finished status x0 message db x)
  have "ex_id ` set (sql_update (\<lambda>r. ex_id r = x) (finished_execution (aw_now d) status message) (ab_executions db)) =
      ex_id ` set (ab_executions db)"
    by (simp add: image_sql_update)
  moreover have "\<forall>y \<in> set (sql_update (\<lambda>r. ex_id r = x) (finished_execution (aw_now d) status message) (ab_executions db)). execution_ok y"
    using finished by (auto simp: tables_ok_def set_sql_update execution_ok_finished)
  moreover have "ex_request ` set (sql_update (\<lambda>r. ex_id r = x) (finished_execution (aw_now d) status message) (ab_executions db)) =
      ex_request ` set (ab_executions db)"
    by (simp add: image_sql_update)
  ultimately show ?case using finished by (simp add: tables_ok_def map_key_sql_update)
qed simp

text \<open>Every call refuses, records a step, or makes its change and appends one audit event.\<close>

inductive_cases admin_changeE: "admin_change d c db db1"

definition applied :: "admin_draw \<Rightarrow> admin_call \<Rightarrow> admin_db \<Rightarrow> admin_db \<times> (exn + unit) \<Rightarrow> bool" where
  "applied d c db x \<longleftrightarrow> (\<exists>e. x = (db, Inl e)) \<or>
     (\<exists>db1 e. admin_change d c db db1 \<and> x = (db1\<lparr>ab_audit := ab_audit db @ [e]\<rparr>, Inr ()) \<and>
        aw_audit d \<notin> au_id ` set (ab_audit db) \<and> au_id e = aw_audit d \<and> au_actor e = aw_actor d \<and> au_at e = aw_now d)"

lemma applied_audited:
  assumes "admin_change d c db db1"
  shows "applied d c db (unit_answer (audited (aw_now d) (aw_audit d) (aw_actor d) action kind resource result db1 db))"
  using change_audit [OF assms] assms
  by (cases "audited (aw_now d) (aw_audit d) (aw_actor d) action kind resource result db1 db" rule: prod.exhaust)
    (auto simp: applied_def unit_answer_def elim!: audited_cases)

lemma applied_refused: "applied d c db (unit_answer (db, Inl e))"
  by (simp add: applied_def unit_answer_def)

lemmas applied_rules = applied_refused applied_audited

lemma applied_with_uuid:
  "(\<And>u. applied d c db (unit_answer (m u db))) \<Longrightarrow> applied d c db (unit_answer (with_uuid uuid v m db))"
  by (auto simp: with_uuid_def applied_refused split: sum.split)

lemma apply_cases: "\<not> is_step c \<Longrightarrow> applied d c db (admin_apply uuid (d, c) db)"
proof (cases c)
  case (CreateNote kind asset nt)
  then show ?thesis
    by (auto simp: create_note_def validate_note_def sql_insert_def intro!: applied_rules admin_change.intros split: if_splits)
next
  case (UpdateNote u nt v)
  then show ?thesis
    by (auto simp: update_note_def intro!: applied_with_uuid applied_rules admin_change.intros split: option.split)
next
  case (DeleteNote u v)
  then show ?thesis
    by (auto simp: delete_note_def intro!: applied_with_uuid applied_rules admin_change.intros split: option.split)
next
  case (RecordAction action kind resource)
  then show ?thesis by (auto simp: record_action_def intro!: applied_rules admin_change.intros)
next
  case (RequestCleanup preview reason confirmation)
  then show ?thesis
    by (auto simp: request_cleanup_def Let_def sql_insert_def intro!: applied_rules admin_change.intros)
next
  case (CancelCleanup u)
  then show ?thesis
    by (auto simp: cancel_cleanup_def intro!: applied_with_uuid applied_rules admin_change.intros split: option.split)
next
  case (StartExecution r e)
  then show ?thesis
    by (auto simp: start_cleanup_execution_def sql_insert_def
        intro!: applied_with_uuid applied_rules admin_change.intros)
next
  case (FinishExecution x status message)
  then show ?thesis
    by (auto simp: finish_cleanup_execution_def intro!: applied_with_uuid applied_rules admin_change.intros split: option.split)
qed (simp add: is_step_def)

lemma step_cases:
  "(\<exists>e. admin_apply uuid (d, RecordStep x0 name status detail) db = (db, Inl e)) \<or>
   (\<exists>x. admin_apply uuid (d, RecordStep x0 name status detail) db =
        (db\<lparr>ab_steps := ab_steps db @ [new_step (aw_now d) (aw_id d) x name status detail]\<rparr>, Inr ()) \<and>
      x \<in> ex_id ` set (ab_executions db) \<and> status \<in> set step_statuses \<and> aw_id d \<notin> es_id ` set (ab_steps db))"
  by (cases "uuid x0") (auto simp: unit_answer_def record_cleanup_step_def with_uuid_def uuid_text_def sql_insert_def new_step_def)

lemma apply_ok: "admin_ok db \<Longrightarrow> admin_ok (fst (admin_apply uuid (d, c) db))"
proof (cases "is_step c")
  case True
  then obtain x name status detail where c: "c = RecordStep x name status detail" by (auto simp: is_step_def split: admin_call.splits)
  assume "admin_ok db"
  moreover have "admin_ok (db\<lparr>ab_steps := ab_steps db @ [new_step (aw_now d) (aw_id d) y name status detail]\<rparr>)"
    if "admin_ok db" "y \<in> ex_id ` set (ab_executions db)" "status \<in> set step_statuses" "aw_id d \<notin> es_id ` set (ab_steps db)" for y
    using that by (simp add: admin_ok_def tables_ok_def new_step_def)
  ultimately show ?thesis
    using step_cases [of uuid d x name status detail db] by (auto simp: c simp del: admin_apply.simps)
next
  case False
  assume ok: "admin_ok db"
  from apply_cases [OF False, of d db uuid] consider e where "admin_apply uuid (d, c) db = (db, Inl e)"
    | db1 e where "admin_change d c db db1" "admin_apply uuid (d, c) db = (db1\<lparr>ab_audit := ab_audit db @ [e]\<rparr>, Inr ())"
      "au_id e \<notin> au_id ` set (ab_audit db)"
    unfolding applied_def by auto
  then show ?thesis
  proof cases
    case (2 db1 e)
    with ok change_tables [OF 2(1)] show ?thesis by (simp add: admin_ok_def)
  qed (use ok in simp)
qed

text \<open>C37: Whatever calls the console makes of its store, with whatever identifiers and texts, the tables keep their
  constraints: unique identifiers and one note per asset, notes of known kinds with lengths and versions within their
  bounds, requests that are drafts or cancelled, executions of existing requests with a known status and an end when they
  have ended, and steps of existing executions.\<close>

theorem console_tables_kept: "admin_ok (admin_run uuid calls admin_db_init)"
proof -
  have "admin_ok (admin_run uuid calls db)" if "admin_ok db" for db
    using that
  proof (induction calls arbitrary: db)
    case (Cons c calls)
    then show ?case using apply_ok by (cases c) (simp add: admin_run_def)
  qed (simp add: admin_run_def)
  moreover have "admin_ok admin_db_init" by (simp add: admin_ok_def tables_ok_def admin_db_init_def)
  ultimately show ?thesis .
qed

section \<open>The audit trail\<close>

text \<open>C38: A call other than the record of a step changes the console's tables only together with one new audit event, at
  the end of the trail, that names the actor; a refused call changes nothing, and recording a step leaves the trail alone.\<close>

theorem console_changes_audited:
  "(case admin_apply uuid (d, c) db of
      (db', Inl e) \<Rightarrow> db' = db
    | (db', Inr _) \<Rightarrow>
        if is_step c then ab_audit db' = ab_audit db
        else length (ab_audit db') = Suc (length (ab_audit db)) \<and> butlast (ab_audit db') = ab_audit db \<and>
          au_actor (List.last (ab_audit db')) = aw_actor d \<and> au_id (List.last (ab_audit db')) \<notin> au_id ` set (ab_audit db))"
proof (cases "is_step c")
  case True
  then obtain x name status detail where c: "c = RecordStep x name status detail" by (auto simp: is_step_def split: admin_call.splits)
  show ?thesis
    using step_cases [of uuid d x name status detail db] by (auto simp: c is_step_def simp del: admin_apply.simps)
next
  case False
  with apply_cases [OF False, of d db uuid] show ?thesis
    by (auto simp: applied_def simp del: admin_apply.simps)
qed

section \<open>Versions of notes\<close>

text \<open>No row of the identifier has the version, or a smaller one.\<close>

definition beyond :: "string \<Rightarrow> int \<Rightarrow> admin_db \<Rightarrow> bool" where
  "beyond u v db \<longleftrightarrow> (\<forall>n \<in> set (ab_notes db). nt_id n = u \<longrightarrow> v < nt_version n)"

definition draws :: "string \<Rightarrow> admin_draw \<times> admin_call \<Rightarrow> bool" where
  "draws u c = (case c of (d, CreateNote _ _ _) \<Rightarrow> aw_id d = u | _ \<Rightarrow> False)"

lemma change_beyond: "admin_change d c db db1 \<Longrightarrow> \<not> draws u (d, c) \<Longrightarrow> beyond u v db \<Longrightarrow> beyond u v db1"
  by (induction rule: admin_change.induct) (fastforce simp: beyond_def draws_def set_sql_update)+

lemma apply_beyond: "\<not> draws u (d, c) \<Longrightarrow> beyond u v db \<Longrightarrow> beyond u v (fst (admin_apply uuid (d, c) db))"
proof (cases "is_step c")
  case True
  then obtain x name status detail where c: "c = RecordStep x name status detail" by (auto simp: is_step_def split: admin_call.splits)
  assume "beyond u v db"
  then show ?thesis using step_cases [of uuid d x name status detail db] by (auto simp: c beyond_def simp del: admin_apply.simps)
next
  case False
  assume "\<not> draws u (d, c)" "beyond u v db"
  with apply_cases [OF False, of d db uuid] show ?thesis
    by (auto simp: applied_def beyond_def dest: change_beyond [unfolded beyond_def] simp del: admin_apply.simps)
qed

lemma run_beyond: "list_all (\<lambda>c. \<not> draws u c) calls \<Longrightarrow> beyond u v db \<Longrightarrow> beyond u v (admin_run uuid calls db)"
proof (induction calls arbitrary: db)
  case (Cons c calls)
  then show ?case using apply_beyond by (cases c) (simp add: admin_run_def)
qed (simp add: admin_run_def)

lemma beyond_stale: "beyond u v db \<Longrightarrow> List.find (note_at u v) (ab_notes db) = None"
  by (auto simp: beyond_def note_at_def find_None_iff)

text \<open>C39: Of two writers that have seen the same version of a note only one can change it: once an update of that version
  has succeeded, an update or a deletion that names it is refused and changes nothing, whatever calls come between them, as
  long as no new note draws the identifier.\<close>

theorem stale_edit_refused:
  assumes "admin_ok db" "uuid u0 = Some u" "update_note uuid now a actor u0 note v db = (db1, Inr j)"
    and "list_all (\<lambda>c. \<not> draws u c) calls" "text_between 1 1000 (strip note')"
  shows "update_note uuid now' a' actor' u0 note' v (admin_run uuid calls db1) = (admin_run uuid calls db1, Inl note_changed) \<and>
    delete_note uuid now' a' actor' u0 v (admin_run uuid calls db1) = (admin_run uuid calls db1, Inl note_changed)"
proof -
  from assms(2,3) obtain n where n: "List.find (note_at u v) (ab_notes db) = Some n" "1 \<le> v"
    and db1: "ab_notes db1 = sql_update (note_at u v) (edited_note now actor (strip note)) (ab_notes db)"
    by (auto simp: update_note_def with_uuid_def uuid_text_def audited_def audit_def split: if_splits option.splits sum.splits)
  from n have m: "n \<in> set (ab_notes db)" "nt_id n = u" "nt_version n = v" by (auto simp: note_at_def dest!: find_SomeD)
  have same: "nt_version x = v" if "x \<in> set (ab_notes db)" "nt_id x = u" for x
  proof -
    have "inj_on nt_id (set (ab_notes db))" using assms(1) by (simp add: admin_ok_def tables_ok_def distinct_map)
    then show ?thesis using that m by (auto dest: inj_onD)
  qed
  have "beyond u v db1" unfolding beyond_def db1
  proof (intro ballI impI)
    fix x
    assume x: "x \<in> set (sql_update (note_at u v) (edited_note now actor (strip note)) (ab_notes db))" "nt_id x = u"
    then obtain y where "y \<in> set (ab_notes db)" "x = (if note_at u v y then edited_note now actor (strip note) y else y)"
      unfolding set_sql_update by blast
    with x(2) same [of y] show "v < nt_version x" by (cases "note_at u v y") (simp_all add: note_at_def)
  qed
  then have b: "List.find (note_at u v) (ab_notes (admin_run uuid calls db1)) = None"
    using run_beyond [OF assms(4)] beyond_stale by blast
  show ?thesis
    using n(2) assms(2,5) b by (simp add: update_note_def delete_note_def with_uuid_def uuid_text_def)
qed

end
