(* ===== verification/Cleanup_Theorems.thy ===== *)
theory Cleanup_Theorems
  imports Cleanup_System Admin_Store_Facts
begin

text \<open>
  The third interpretation, of the locale about the end of executions, and the properties of a site's executions.
\<close>

section \<open>A site without surprises\<close>

text \<open>The store is reachable, drawn identifiers are new and in the form PostgreSQL prints, tokens are ASCII, and the
  network raises only what the client turns into \<open>LifecycleUnavailable\<close>.\<close>

definition net_tame :: "net \<Rightarrow> bool" where
  "net_tame n = (case n of Answered \<Rightarrow> True | NotSent e \<Rightarrow> cleanup_caught (network_fault e) | NoAnswer e \<Rightarrow> cleanup_caught (network_fault e))"

definition site_ok :: "'b site_cfg \<Rightarrow> bool" where
  "site_ok C \<longleftrightarrow> (\<forall>n. ce_store (sc_env C n) \<and> net_tame (ce_net (sc_env C n)) \<and> sc_uuid C (sc_ids C n) = Some (sc_ids C n)) \<and>
     inj (sc_ids C) \<and> inj (sc_audits C) \<and> ascii_text (ep_token (sc_runner_end C)) \<and> ascii_text (ad_token (zr_admin (sc_runner C)))"

definition ids_fresh :: "'b site_cfg \<Rightarrow> nat \<Rightarrow> admin_db \<Rightarrow> bool" where
  "ids_fresh C k db \<longleftrightarrow>
     (\<forall>n \<ge> k. sc_ids C n \<notin> ex_id ` set (ab_executions db) \<and> sc_ids C n \<notin> es_id ` set (ab_steps db) \<and>
        sc_audits C n \<notin> au_id ` set (ab_audit db)) \<and>
     (\<forall>r \<in> set (ab_executions db). sc_uuid C (ex_id r) = Some (ex_id r))"

definition site_good :: "'b site_cfg \<Rightarrow> 'b site \<Rightarrow> bool" where
  "site_good C s \<longleftrightarrow> site_ok C \<and> ids_fresh C (si_calls s) (si_admin s)"

definition execution_status :: "string \<Rightarrow> 'b site \<Rightarrow> string option" where
  "execution_status x s = map_option ex_status (List.find (\<lambda>r. ex_id r = x) (ab_executions (si_admin s)))"

lemma ids_later: "ids_fresh C k db \<Longrightarrow> k \<le> n \<Longrightarrow> ids_fresh C n db"
  by (auto simp: ids_fresh_def)

lemma status_in: "execution_status x s \<noteq> None \<Longrightarrow> \<exists>r \<in> set (ab_executions (si_admin s)). ex_id r = x"
  by (auto simp: execution_status_def dest: find_SomeD)

lemma good_uuid: "site_good C s \<Longrightarrow> execution_status x s \<noteq> None \<Longrightarrow> sc_uuid C x = Some x"
  using status_in [of x s] by (auto simp: site_good_def ids_fresh_def)

section \<open>The store\<close>

lemma store_runs:
  assumes "site_good C s"
  shows "store_call C m s = (case m (build_now C s) (sc_ids C (si_calls s)) (sc_audits C (si_calls s)) (si_admin s) of
      (db, r) \<Rightarrow> (s\<lparr>si_admin := db, si_calls := Suc (si_calls s)\<rparr>, map_sum Raised id r))"
  using assms by (simp add: store_call_def stored_def site_good_def site_ok_def Let_def build_now_def)

lemma audited_fresh:
  assumes "sc_audits C n \<notin> au_id ` set (ab_audit db)" "ab_audit db1 = ab_audit db"
  shows "\<exists>e. au_id e = sc_audits C n \<and>
    audited now (sc_audits C n) actor action kind resource r db1 db = (db1\<lparr>ab_audit := ab_audit db @ [e]\<rparr>, Inr r)"
  using assms
  by (intro exI [of _ "\<lparr>au_id = sc_audits C n, au_actor = actor, au_action = action, au_type = kind, au_resource = resource, au_at = now\<rparr>"])
    (simp add: audited_def audit_def)

lemma fresh_draw:
  assumes "site_good C s"
  shows "sc_ids C (si_calls s) \<notin> ex_id ` set (ab_executions (si_admin s))" "sc_ids C (si_calls s) \<notin> es_id ` set (ab_steps (si_admin s))"
    "sc_audits C (si_calls s) \<notin> au_id ` set (ab_audit (si_admin s))"
  using assms by (auto simp: site_good_def ids_fresh_def)

text \<open>What a call adds to the tables is drawn at its number.\<close>

lemma good_next:
  assumes "site_good C s"
    and "ex_id ` set (ab_executions db) \<subseteq> insert (sc_ids C (si_calls s)) (ex_id ` set (ab_executions (si_admin s)))"
    and "es_id ` set (ab_steps db) \<subseteq> insert (sc_ids C (si_calls s)) (es_id ` set (ab_steps (si_admin s)))"
    and "au_id ` set (ab_audit db) \<subseteq> insert (sc_audits C (si_calls s)) (au_id ` set (ab_audit (si_admin s)))"
  shows "site_good C (s\<lparr>si_admin := db, si_calls := Suc (si_calls s)\<rparr>)"
proof -
  from assms(1) have ok: "site_ok C" and f: "ids_fresh C (si_calls s) (si_admin s)" by (simp_all add: site_good_def)
  from ok have i: "inj (sc_ids C)" "inj (sc_audits C)" and u: "sc_uuid C (sc_ids C k) = Some (sc_ids C k)" for k
    by (simp_all add: site_ok_def)
  have d: "sc_ids C k \<noteq> sc_ids C (si_calls s)" "sc_audits C k \<noteq> sc_audits C (si_calls s)" if "Suc (si_calls s) \<le> k" for k
    using that i by (auto dest: injD)
  have "sc_ids C k \<notin> ex_id ` set (ab_executions db)" "sc_ids C k \<notin> es_id ` set (ab_steps db)" "sc_audits C k \<notin> au_id ` set (ab_audit db)"
    if "Suc (si_calls s) \<le> k" for k
  proof -
    have "si_calls s \<le> k" using that by simp
    with f have "sc_ids C k \<notin> ex_id ` set (ab_executions (si_admin s))" "sc_ids C k \<notin> es_id ` set (ab_steps (si_admin s))"
        "sc_audits C k \<notin> au_id ` set (ab_audit (si_admin s))"
      unfolding ids_fresh_def by blast+
    with assms(2-4) d [OF that]
    show "sc_ids C k \<notin> ex_id ` set (ab_executions db)" "sc_ids C k \<notin> es_id ` set (ab_steps db)" "sc_audits C k \<notin> au_id ` set (ab_audit db)"
      by blast+
  qed
  moreover have "sc_uuid C (ex_id r) = Some (ex_id r)" if "r \<in> set (ab_executions db)" for r
  proof -
    have "ex_id r = sc_ids C (si_calls s) \<or> ex_id r \<in> ex_id ` set (ab_executions (si_admin s))" using assms(2) that by auto
    then show ?thesis using u f by (auto simp: ids_fresh_def)
  qed
  ultimately show ?thesis using ok by (simp add: site_good_def ids_fresh_def)
qed

lemma site_step:
  assumes "site_good C s" "execution_status x s \<noteq> None" "st \<in> set step_statuses"
  shows "\<exists>s1. co_step (site_coordinator C) x name st d s = (s1, Inr ()) \<and> site_good C s1 \<and> (\<forall>y. execution_status y s1 = execution_status y s)"
proof -
  let ?n = "si_calls s"
  let ?db = "(si_admin s)\<lparr>ab_steps := ab_steps (si_admin s) @ [new_step (build_now C s) (sc_ids C ?n) x name st d]\<rparr>"
  obtain r where r: "r \<in> set (ab_executions (si_admin s))" "ex_id r = x" using status_in [OF assms(2)] by blast
  have "co_step (site_coordinator C) x name st d s = (s\<lparr>si_admin := ?db, si_calls := Suc ?n\<rparr>, Inr ())"
    using good_uuid [OF assms(1,2)] assms(3) fresh_draw(2) [OF assms(1)] r
    by (auto simp: store_runs [OF assms(1)] record_cleanup_step_def with_uuid_def uuid_text_def sql_insert_def new_step_def)
  moreover have "site_good C (s\<lparr>si_admin := ?db, si_calls := Suc ?n\<rparr>)"
    by (rule good_next [OF assms(1)]) (auto simp: new_step_def)
  ultimately show ?thesis by (simp add: execution_status_def)
qed

lemma site_finish:
  assumes "site_good C s" "execution_status x s \<noteq> None" "st \<in> set finish_statuses"
  shows "\<exists>s1. co_finish (site_coordinator C) x st m s = (s1, Inr ()) \<and> site_good C s1 \<and> execution_status x s1 = Some st"
proof -
  let ?n = "si_calls s" and ?f = "finished_execution (build_now C s) st m"
  let ?db = "(si_admin s)\<lparr>ab_executions := sql_update (\<lambda>r. ex_id r = x) ?f (ab_executions (si_admin s))\<rparr>"
  obtain r where r: "List.find (\<lambda>r. ex_id r = x) (ab_executions (si_admin s)) = Some r"
    using assms(2) by (auto simp: execution_status_def)
  obtain e where e: "au_id e = sc_audits C ?n" and a: "audited (build_now C s) (sc_audits C ?n) (sc_actor C) (finish_action st) ''build_environment''
      (ex_env r) () ?db (si_admin s) = (?db\<lparr>ab_audit := ab_audit (si_admin s) @ [e]\<rparr>, Inr ())"
    using audited_fresh [OF fresh_draw(3) [OF assms(1)], of ?db "build_now C s" "sc_actor C" "finish_action st" "''build_environment''" "ex_env r" "()"]
    by auto
  let ?s1 = "s\<lparr>si_admin := ?db\<lparr>ab_audit := ab_audit (si_admin s) @ [e]\<rparr>, si_calls := Suc ?n\<rparr>"
  have ids: "ex_id ` set (sql_update (\<lambda>r. ex_id r = x) ?f (ab_executions (si_admin s))) = ex_id ` set (ab_executions (si_admin s))"
    by (simp add: image_sql_update)
  have "co_finish (site_coordinator C) x st m s = (?s1, Inr ())"
    using good_uuid [OF assms(1,2)] assms(3)
    by (simp add: store_runs [OF assms(1)] finish_cleanup_execution_def with_uuid_def uuid_text_def r a)
  moreover have "site_good C ?s1"
    by (rule good_next [OF assms(1)]) (auto simp: ids e)
  moreover have "execution_status x ?s1 = Some st"
    using r find_SomeD [OF r] by (simp add: execution_status_def find_sql_update finished_execution_def)
  ultimately show ?thesis by blast
qed

lemma site_start:
  assumes "site_good C s" "co_start (site_coordinator C) i e s = (s1, Inr x)"
  shows "site_good C s1 \<and> execution_status x s1 \<noteq> None"
proof -
  let ?n = "si_calls s"
  obtain db y where run: "start_cleanup_execution (sc_uuid C) (build_now C s) (sc_ids C ?n) (sc_audits C ?n) (sc_actor C) i e (si_admin s) = (db, y)"
    by fastforce
  with assms(2) have s: "y = Inr x" "s1 = s\<lparr>si_admin := db, si_calls := Suc ?n\<rparr>"
    by (cases y; simp add: store_runs [OF assms(1)])+
  from run s(1) obtain r1 e1 where i: "sc_uuid C i = Some r1" "sc_uuid C e = Some e1"
    by (auto simp: start_cleanup_execution_def with_uuid_def uuid_text_def split: option.splits)
  let ?row = "new_execution (build_now C s) (sc_ids C ?n) (sc_actor C) r1 e1"
  have row: "ex_id ?row = sc_ids C ?n" by simp
  obtain v where v: "au_id v = sc_audits C ?n" and db: "db = (si_admin s)\<lparr>ab_executions := ab_executions (si_admin s) @ [?row],
      ab_audit := ab_audit (si_admin s) @ [v]\<rparr>" "x = sc_ids C ?n"
    using run fresh_draw [OF assms(1)] audited_fresh [OF fresh_draw(3) [OF assms(1)], of "(si_admin s)\<lparr>ab_executions := ab_executions (si_admin s) @ [?row]\<rparr>"
      "build_now C s" "sc_actor C" "''cleanup.execute.start''" "''build_environment''" e1 "sc_ids C ?n"]
    by (auto simp: start_cleanup_execution_def with_uuid_def uuid_text_def i sql_insert_def s(1) split: if_splits)
  have "site_good C s1" unfolding s(2) by (rule good_next [OF assms(1)]) (auto simp: db v)
  moreover have "execution_status x s1 \<noteq> None"
    by (simp add: execution_status_def s(2) db split: option.split)
  ultimately show ?thesis by blast
qed

section \<open>The requests\<close>

lemma caught_simps: "cleanup_caught (Rejected n m)" "cleanup_caught (unavailable m)" "cleanup_caught not_configured"
  by (simp_all add: cleanup_caught_def unavailable_def not_configured_def)

lemma good_call:
  "site_good C s \<Longrightarrow> si_admin s1 = si_admin s \<Longrightarrow> si_calls s1 = Suc (si_calls s) \<Longrightarrow>
     site_good C s1 \<and> (\<forall>x. execution_status x s1 = execution_status x s)"
  using ids_later [of C "si_calls s" "si_admin s" "Suc (si_calls s)"] by (simp add: site_good_def execution_status_def)

lemma quietI:
  "(\<And>s s1 r. m s = (s1, r) \<Longrightarrow> si_admin s1 = si_admin s \<and> si_calls s1 = Suc (si_calls s)) \<Longrightarrow> quiet (site_good C) execution_status m"
  unfolding quiet_def using good_call by (metis prod.collapse)

lemma quiet_requests:
  "quiet (site_good C) execution_status (build_call C' method path body)"
  "quiet (site_good C) execution_status (publish_call C' path body')"
  "quiet (site_good C) execution_status (runner_call C' method path query body)"
  "quiet (site_good C) execution_status (preview_call C' i)"
  by (rule quietI; auto simp: build_call_def publish_call_def runner_call_def preview_call_def Let_def split: prod.splits)+

lemma good_net: "site_good C s \<Longrightarrow> net_tame (ce_net (sc_env C (si_calls s)))"
  by (simp add: site_good_def site_ok_def)

lemma digest_ascii: "ascii_text a \<Longrightarrow> ascii_text b \<Longrightarrow> \<exists>x. compare_digest a b = Inr x"
  by (simp add: compare_digest_def)

lemma runner_answers:
  assumes "ascii_text (ad_token (zr_admin R))" "ascii_text t" "hq_authorization q = Some (bearer @ t)"
  shows "snd (runner_serve R us ms query q L) \<noteq> None"
proof -
  have "length bearer = 7" by (simp add: bearer_def)
  then have "\<exists>b. admin_authorized (reading (zr_admin R) q) (runner_request R q query) = Inr b"
    using digest_ascii [OF assms(2,1)] assms(3) by (simp add: admin_authorized_def runner_request_def Let_def)
  then show ?thesis by (auto simp: runner_serve_def do_get_def do_post_def admin_guard_def split: bool.splits)
qed

lemma client_fault_with:
  assumes "client_request show p n serve method path body w = (w1, Inl f)" "net_tame n"
    "\<And>q. hq_authorization q = Some (bearer @ ep_token p) \<Longrightarrow> snd (serve q w) \<noteq> None"
  shows "cleanup_caught f"
proof -
  let ?q = "\<lparr>hq_method = method, hq_path = path, hq_body = body, hq_authorization = Some (bearer @ ep_token p)\<rparr>"
  have "snd (serve ?q w) \<noteq> None" by (rule assms(3)) simp
  with assms(1,2) show ?thesis
    by (auto simp: client_request_def Let_def net_tame_def decode_answer_def caught_simps
        split: if_splits net.splits prod.splits option.splits json.splits)
qed

lemma tame_calls:
  "tame (site_good C) execution_status (build_call C method path body)"
  "tame (site_good C) execution_status (publish_call C path body')"
  "tame (site_good C) execution_status (runner_call C method path query body)"
proof -
  have "cleanup_caught f" if "site_good C s" "build_call C method path body s = (s1, Inl f)" for s s1 f
    using that(2) client_fault_with [OF _ good_net [OF that(1)]]
    by (fastforce simp: build_call_def Let_def split: prod.splits)
  then show "tame (site_good C) execution_status (build_call C method path body)" using quiet_requests(1) by (auto simp: tame_def)
  have "cleanup_caught f" if "site_good C s" "publish_call C path body' s = (s1, Inl f)" for s s1 f
    using that(2) client_fault_with [OF _ good_net [OF that(1)]]
    by (fastforce simp: publish_call_def Let_def split: prod.splits)
  then show "tame (site_good C) execution_status (publish_call C path body')" using quiet_requests(2) by (auto simp: tame_def)
  have "cleanup_caught f" if "site_good C s" "runner_call C method path query body s = (s1, Inl f)" for s s1 f
  proof -
    have t: "ascii_text (ad_token (zr_admin (sc_runner C)))" "ascii_text (ep_token (sc_runner_end C))"
      using that(1) by (simp_all add: site_good_def site_ok_def)
    from that(2) show ?thesis
      using client_fault_with [OF _ good_net [OF that(1)] runner_answers [OF t]]
      by (fastforce simp: runner_call_def Let_def split: prod.splits)
  qed
  then show "tame (site_good C) execution_status (runner_call C method path query body)" using quiet_requests(3) by (auto simp: tame_def)
qed

interpretation site_executions: executions "site_coordinator C" "site_good C" execution_status for C :: "'b site_cfg"
proof
  fix s s1 :: "'b site" and r i
  assume g: "site_good C s" and q: "co_request (site_coordinator C) i s = (s1, r)"
  from q show "site_good C s1"
    using good_call [OF g, of s1]
    by (auto simp: store_runs [OF g] get_cleanup_request_def with_uuid_def uuid_text_def split: option.splits)
qed (use site_step site_finish site_start in \<open>simp_all add: client_defs quiet_requests tame_calls\<close>)

section \<open>The properties\<close>

text \<open>C4: Composition of the four services: in one execution whose calls no other request interrupts, whatever the network
  does to them, the console asks the build service to delete an image only while the build service holds the environment as RETIRING, the publish service has a gate for the image and no
  current publication that uses it, and the runner holds the image as RETIRING with no invocation, idle worker or
  acquisition of it. Refusing every other deletion would change no such execution.\<close>

theorem deletion_needs_closed_gates:
  "cleanup_execute
     (guarded (\<lambda>i img s. build_state i s = Some LRetiring \<and> publish_closed_for C img s \<and> runner_closed_for C img s) (site_coordinator C)) i s =
   site_cleanup C i s"
  unfolding site_cleanup_def by (rule site_gates.guard_redundant)

text \<open>C12: A cleanup that reports success, no other request between its calls, has retired the environment everywhere: it is RETIRED in the build service, its gate in
  the publish service is RETIRED and so is its image in the runner.\<close>

theorem cleanup_success_retires:
  assumes "site_cleanup C i s = (s', Inr d)" "obj_get d ''status'' = JStr ''SUCCEEDED''"
  shows "build_state (json_str (obj_get d ''environmentId'')) s' = Some LRetired \<and> publish_state (obj_get d ''envKey'') s' = Some Retired \<and>
    runner_state C (obj_get d ''imageRef'') s' = Some Retired"
  using site_owners.success_means_retired [OF assms [unfolded site_cleanup_def]] by simp

text \<open>C11: Every execution that starts also ends, however requests and answers get lost, as long as the console's store is
  reachable, the network raises only what the client expects, and no other request comes between its calls: the row of the execution gets a final status (or WAITING),
  the status of the answer is the one recorded, and an exception leaves FAILED or PARTIAL.\<close>

theorem cleanup_execution_ends:
  assumes "site_good C s" "co_request (site_coordinator C) i s = (s1, Inr (Some q))" "cr_status q = ''DRAFT''"
    "co_start (site_coordinator C) i (cr_env q) s1 = (s2, Inr x)"
  shows "case site_cleanup C i s of (s', r) \<Rightarrow>
    execution_status x s' \<in> Some ` set finish_statuses \<and>
    (case r of Inr d \<Rightarrow> Some (obj_get d ''status'') = map_option JStr (execution_status x s')
             | Inl f \<Rightarrow> execution_status x s' \<in> {Some ''FAILED'', Some ''PARTIAL''})"
  using site_executions.started_ends [OF assms]
  by (auto simp: site_executions.ends_def site_cleanup_def split: prod.splits sum.splits)

end
