(* ===== verification/Cleanup_Forward.thy ===== *)
theory Cleanup_Forward
  imports Cleanup_Theorems
begin

text \<open>
  The other direction of the calls of a site: what a service does when the request is answered, or when only its
  answer is lost.
\<close>

section \<open>Calls that reach their service\<close>

definition reached :: "net \<Rightarrow> bool" where
  "reached n = (case n of Answered \<Rightarrow> True | NotSent _ \<Rightarrow> False | NoAnswer _ \<Rightarrow> True)"

definition heard :: "net \<Rightarrow> obj \<Rightarrow> fault + obj" where
  "heard n d = (case n of Answered \<Rightarrow> Inr d | NotSent e \<Rightarrow> Inl (network_fault e) | NoAnswer e \<Rightarrow> Inl (network_fault e))"

lemma heard_simps [simp]: "heard Answered d = Inr d" "heard (NoAnswer e) d = Inl (network_fault e)" "reached Answered" "reached (NoAnswer e)"
  by (simp_all add: heard_def reached_def)

text \<open>The console has the token of the service.\<close>

definition entrusted :: "endpoint \<Rightarrow> string \<Rightarrow> bool" where
  "entrusted p token \<longleftrightarrow> ep_url p \<noteq> [] \<and> ep_token p \<noteq> [] \<and> ascii_text token \<and> ep_token p = token"

definition site_entrusted :: "'b site_cfg \<Rightarrow> bool" where
  "site_entrusted C \<longleftrightarrow> entrusted (sc_build_end C) (zb_token (sc_build C)) \<and> entrusted (sc_publish_end C) (sc_publish_token C) \<and>
     entrusted (sc_runner_end C) (ad_token (zr_admin (sc_runner C)))"

lemma client_heard:
  assumes "entrusted p token" "reached n" "ha_status a < 300" "ha_body a = JObj d"
    "serve \<lparr>hq_method = method, hq_path = path, hq_body = body, hq_authorization = Some (bearer @ token)\<rparr> w = (w1, Some a)"
  shows "client_request show p n serve method path body w = (w1, heard n d)"
proof -
  have p: "ep_enabled p" "ep_token p = token" using assms(1) by (auto simp: entrusted_def ep_enabled_def)
  show ?thesis
    unfolding client_request_def Let_def p(2) using assms(2-5) p(1)
    by (cases n) (simp_all add: reached_def decode_answer_def)
qed

lemma admin_route_go: "entrusted p token \<Longrightarrow> admin_route name token (Some (bearer @ token)) f s = f s"
proof -
  assume "entrusted p token"
  then have "require_admin name token (Some (bearer @ token)) = None" by (auto simp: entrusted_def require_admin_token)
  then show ?thesis by (simp add: admin_route_def)
qed

lemma build_heard:
  assumes "site_entrusted C" "reached (ce_net (sc_env C (si_calls s)))" "ha_status a < 300" "ha_body a = JObj d"
    "build_serve (sc_build C) (build_now C s) \<lparr>hq_method = method, hq_path = path, hq_body = body,
       hq_authorization = Some (bearer @ zb_token (sc_build C))\<rparr> (si_build s) = (db, a)"
  shows "build_call C method path body s = (s\<lparr>si_build := db, si_calls := Suc (si_calls s)\<rparr>, heard (ce_net (sc_env C (si_calls s))) d)"
proof -
  have e: "entrusted (sc_build_end C) (zb_token (sc_build C))" using assms(1) by (simp add: site_entrusted_def)
  let ?e = "sc_env C (si_calls s)"
  have "client_request (sc_show C) (sc_build_end C) (ce_net ?e) (\<lambda>q db. apsnd Some (build_serve (sc_build C) (ce_us ?e) q db)) method path body
      (si_build s) = (db, heard (ce_net ?e) d)"
    by (rule client_heard [OF e assms(2-4)]) (use assms(5) in \<open>simp add: build_now_def\<close>)
  then show ?thesis by (simp add: build_call_def Let_def)
qed

lemma publish_heard:
  assumes "site_entrusted C" "reached (ce_net (sc_env C (si_calls s)))" "ha_status a < 300" "ha_body a = JObj d"
    "publish_serve (ie_postgres (sc_inventory C)) (sc_publish_token C) (build_now C s) \<lparr>hq_method = ''POST'', hq_path = path, hq_body = Some body,
       hq_authorization = Some (bearer @ sc_publish_token C)\<rparr> (si_publish s) = (db, a)"
  shows "publish_call C path body s = (s\<lparr>si_publish := db, si_calls := Suc (si_calls s)\<rparr>, heard (ce_net (sc_env C (si_calls s))) d)"
proof -
  have e: "entrusted (sc_publish_end C) (sc_publish_token C)" using assms(1) by (simp add: site_entrusted_def)
  let ?e = "sc_env C (si_calls s)"
  have "client_request (sc_show C) (sc_publish_end C) (ce_net ?e)
      (\<lambda>q db. apsnd Some (publish_serve (ie_postgres (sc_inventory C)) (sc_publish_token C) (ce_us ?e) q db)) ''POST'' path (Some body)
      (si_publish s) = (db, heard (ce_net ?e) d)"
    by (rule client_heard [OF e assms(2-4)]) (use assms(5) in \<open>simp add: build_now_def\<close>)
  then show ?thesis by (simp add: publish_call_def Let_def)
qed

text \<open>A body that fits the limit of the runner's interface.\<close>

definition body_fits :: "'b runner_server \<Rightarrow> obj \<Rightarrow> bool" where
  "body_fits R d \<longleftrightarrow> zr_dumps R (JObj d) \<noteq> [] \<and> int (length (zr_dumps R (JObj d))) \<le> MAX_BODY"

lemma runner_heard:
  assumes "site_entrusted C" "reached (ce_net (sc_env C (si_calls s)))" "ha_status a < 300" "ha_body a = JObj d"
    "runner_serve (sc_runner C) (build_now C s) (ce_ms (sc_env C (si_calls s))) query \<lparr>hq_method = method, hq_path = path, hq_body = body,
       hq_authorization = Some (bearer @ ad_token (zr_admin (sc_runner C)))\<rparr> (si_runner s) = (L, Some a)"
  shows "runner_call C method path query body s =
    (s\<lparr>si_runner := L, si_calls := Suc (si_calls s)\<rparr>, heard (ce_net (sc_env C (si_calls s))) d)"
proof -
  have e: "entrusted (sc_runner_end C) (ad_token (zr_admin (sc_runner C)))" using assms(1) by (simp add: site_entrusted_def)
  let ?e = "sc_env C (si_calls s)"
  have "client_request (sc_show C) (sc_runner_end C) (ce_net ?e) (runner_serve (sc_runner C) (ce_us ?e) (ce_ms ?e) query) method path body
      (si_runner s) = (L, heard (ce_net ?e) d)"
    by (rule client_heard [OF e assms(2-4)]) (use assms(5) in \<open>simp add: build_now_def\<close>)
  then show ?thesis by (simp add: runner_call_def Let_def)
qed

section \<open>The build service\<close>

definition plain_id :: "string \<Rightarrow> bool" where
  "plain_id i \<longleftrightarrow> i \<noteq> [] \<and> CHR ''/'' \<notin> set (quote i)"

lemma own_param: "plain_id i \<Longrightarrow> path_param front tail (front @ quote i @ tail) = Some i"
  by (simp add: plain_id_def path_param_quote)

lemma http_ok_simps: "answer_of c show (Inr x) = http_ok (show x)" "publish_answer f (Inr y) = http_ok (JObj (f y))" "answer_or n g (Inr z) = http_ok (g z)"
  by (simp_all add: answer_of_def publish_answer_def answer_or_def)

lemma retire_forward:
  assumes "site_entrusted C" "reached (ce_net (sc_env C (si_calls s)))" "plain_id i" "text_between 5 1000 reason"
    "build_begin_retirement (build_now C s) i (si_build s) = (db, Inr e)"
  shows "client_build_retire C i reason s =
    (s\<lparr>si_build := db, si_calls := Suc (si_calls s)\<rparr>, heard (ce_net (sc_env C (si_calls s))) (env_row_items (zb_time (sc_build C)) e))"
proof -
  have e: "entrusted (sc_build_end C) (zb_token (sc_build C))" using assms(1) by (simp add: site_entrusted_def)
  show ?thesis unfolding client_build_retire_def
    by (rule build_heard [OF assms(1,2), where a = "http_ok (env_row_json (zb_time (sc_build C)) e)"])
      (simp_all add: build_serve_def own_param [OF assms(3)] build_retire_request_def body_of_def retire_route_def admin_route_go [OF e] assms(4,5)
        http_ok_simps env_row_json_def del: One_nat_def)
qed

lemma delete_forward:
  assumes "site_entrusted C" "reached (ce_net (sc_env C (si_calls s)))" "plain_id i" "text_between 1 2048 img"
    "delete_artifact (zb_env (sc_build C)) (zb_harbor (sc_build C)) (build_now C s) i img (si_build s) = (db, Inr x)"
  shows "\<exists>d. client_build_delete C i (JStr img) s =
    (s\<lparr>si_build := db, si_calls := Suc (si_calls s)\<rparr>, heard (ce_net (sc_env C (si_calls s))) d)"
proof -
  have e: "entrusted (sc_build_end C) (zb_token (sc_build C))" using assms(1) by (simp add: site_entrusted_def)
  obtain d where d: "deletion_json i x = JObj d" by (simp add: deletion_json_def)
  have "client_build_delete C i (JStr img) s =
    (s\<lparr>si_build := db, si_calls := Suc (si_calls s)\<rparr>, heard (ce_net (sc_env C (si_calls s))) d)"
    unfolding client_build_delete_def
    by (rule build_heard [OF assms(1,2), where a = "http_ok (deletion_json i x)"])
      (simp_all add: build_serve_def own_param [OF assms(3)] build_delete_request_def body_of_def delete_route_def admin_route_go [OF e] assms(4,5)
        http_ok_simps d del: One_nat_def)
  then show ?thesis by blast
qed

section \<open>The publish service\<close>

lemma begin_forward:
  assumes "site_entrusted C" "reached (ce_net (sc_env C (si_calls s)))" "text_between 1 256 k" "text_between 1 2048 img" "text_between 5 1000 reason"
    "begin_retirement (ie_postgres (sc_inventory C)) (build_now C s) k img reason (si_publish s) = (db, Inr a)"
  shows "client_publish_begin C (JStr k) (JStr img) reason s =
    (s\<lparr>si_publish := db, si_calls := Suc (si_calls s)\<rparr>, heard (ce_net (sc_env C (si_calls s))) (retirement_items a))"
proof -
  have e: "entrusted (sc_publish_end C) (sc_publish_token C)" using assms(1) by (simp add: site_entrusted_def)
  show ?thesis unfolding client_publish_begin_def
    by (rule publish_heard [OF assms(1,2), where a = "http_ok (JObj (retirement_items a))"])
      (simp_all add: publish_serve_def publish_retire_route_def body_of_def text_field_def assms(3-6) admin_route_go [OF e] http_ok_simps del: One_nat_def)
qed

lemma cancel_forward:
  assumes "site_entrusted C" "reached (ce_net (sc_env C (si_calls s)))" "text_between 1 256 k" "cancel_retirement k (si_publish s) = (db, Inr a)"
  shows "client_publish_cancel C (JStr k) s =
    (s\<lparr>si_publish := db, si_calls := Suc (si_calls s)\<rparr>, heard (ce_net (sc_env C (si_calls s))) (cancellation_items k a))"
proof -
  have e: "entrusted (sc_publish_end C) (sc_publish_token C)" using assms(1) by (simp add: site_entrusted_def)
  show ?thesis unfolding client_publish_cancel_def
    by (rule publish_heard [OF assms(1,2), where a = "http_ok (JObj (cancellation_items k a))"])
      (simp_all add: publish_serve_def publish_cancel_route_def body_of_def text_field_def assms(3,4) admin_route_go [OF e] http_ok_simps del: One_nat_def)
qed

lemma gate_finalize_forward:
  assumes "site_entrusted C" "reached (ce_net (sc_env C (si_calls s)))" "text_between 1 256 k"
    "finalize_retirement (build_now C s) k (si_publish s) = (db, Inr g)"
  shows "client_publish_finalize C (JStr k) s =
    (s\<lparr>si_publish := db, si_calls := Suc (si_calls s)\<rparr>, heard (ce_net (sc_env C (si_calls s))) (gate_items g))"
proof -
  have e: "entrusted (sc_publish_end C) (sc_publish_token C)" using assms(1) by (simp add: site_entrusted_def)
  show ?thesis unfolding client_publish_finalize_def
    by (rule publish_heard [OF assms(1,2), where a = "http_ok (JObj (gate_items g))"])
      (simp_all add: publish_serve_def publish_finalize_route_def body_of_def text_field_def assms(3,4) admin_route_go [OF e] del: One_nat_def)
qed

section \<open>The runner\<close>

lemma post_forward:
  assumes "entrusted p (ad_token (zr_admin R))" "body_fits R body"
  shows "runner_serve R us ms query \<lparr>hq_method = ''POST'', hq_path = path, hq_body = Some body,
      hq_authorization = Some (bearer @ ad_token (zr_admin R))\<rparr> L =
    (let D = (zr_admin R)\<lparr>ad_loads := \<lambda>_. Some (JObj body)\<rparr>; K = zr_controller R in
     apsnd Some
      (if path = runner_retire_path then admin_retire D K us ms body L
       else if path = runner_cancel_path then admin_cancel D body L
       else if path = runner_finalize_path then admin_finalize D K us ms body L
       else if path = ''/v1/admin/sandboxes/retire-idle'' then admin_retire_idle D K body L
       else (L, http_error 404 ''not found'')))"
proof -
  let ?q = "\<lparr>hq_method = ''POST'', hq_path = path, hq_body = Some body, hq_authorization = Some (bearer @ ad_token (zr_admin R))\<rparr>"
  let ?D = "reading (zr_admin R) ?q" and ?a = "runner_request R ?q query"
  have D: "?D = (zr_admin R)\<lparr>ad_loads := \<lambda>_. Some (JObj body)\<rparr>" by (simp add: reading_def)
  have "length bearer = 7" by (simp add: bearer_def)
  then have auth: "admin_authorized ?D ?a = Inr True"
    using assms(1) by (simp add: admin_authorized_def runner_request_def Let_def compare_digest_def entrusted_def)
  have pay: "admin_payload ?D ?a = Inr body"
    using assms(2) by (simp add: admin_payload_def runner_request_def reading_def Let_def py_int_str body_fits_def)
  have "aq_path ?a = path" by (simp add: runner_request_def Let_def)
  then show ?thesis
    unfolding D [symmetric] Let_def
    by (simp add: runner_serve_def do_post_def admin_guard_def auth post_route_def pay runner_retire_path_def [symmetric]
        runner_cancel_path_def [symmetric] runner_finalize_path_def [symmetric] cong: if_cong)
qed

lemma entrusted_runner: "site_entrusted C \<Longrightarrow> entrusted (sc_runner_end C) (ad_token (zr_admin (sc_runner C)))"
  by (simp add: site_entrusted_def)

lemma runner_begin_forward:
  fixes C :: "'b site_cfg" and img reason
  defines "body \<equiv> [(''imageRef'', JStr img), (''reason'', JStr reason)]"
  assumes "site_entrusted C" "reached (ce_net (sc_env C (si_calls s)))" "body_fits (sc_runner C) body" "img \<noteq> []"
    "5 \<le> text_length (strip reason)"
    "begin_runtime_retirement (ct_backend K) (ct_lister K) (ct_sha K) (ct_root K) (build_now C s) (ce_ms (sc_env C (si_calls s))) img (strip reason)
       (si_runner s) = (L, Inr x)" "K = zr_controller (sc_runner C)"
  shows "\<exists>D d. client_runner_begin C (JStr img) reason s =
    (s\<lparr>si_runner := L, si_calls := Suc (si_calls s)\<rparr>, heard (ce_net (sc_env C (si_calls s))) d) \<and> retirement_json D x = JObj d"
proof -
  let ?R = "sc_runner C"
  let ?D = "(zr_admin ?R)\<lparr>ad_loads := \<lambda>_. Some (JObj body)\<rparr>"
  obtain d where d: "retirement_json ?D x = JObj d" by (simp add: retirement_json_def)
  have t: "payload_text ?D body ''imageRef'' = img" "payload_text ?D body ''reason'' = reason"
    using assms(5) by (simp_all add: payload_text_def body_def dict_get_or_def str_of_def Let_def)
  have "client_runner_begin C (JStr img) reason s =
    (s\<lparr>si_runner := L, si_calls := Suc (si_calls s)\<rparr>, heard (ce_net (sc_env C (si_calls s))) d)"
    unfolding client_runner_begin_def body_def [symmetric]
    by (rule runner_heard [OF assms(2,3), where a = "http_ok (JObj d)"])
      (use assms(5-8) in \<open>simp_all add: post_forward [OF entrusted_runner [OF assms(2)] assms(4)] admin_retire_def t Let_def http_ok_simps d\<close>)
  with d show ?thesis by blast
qed

lemma runner_cancel_forward:
  fixes C :: "'b site_cfg" and img
  defines "body \<equiv> [(''imageRef'', JStr img)]"
  assumes "site_entrusted C" "reached (ce_net (sc_env C (si_calls s)))" "body_fits (sc_runner C) body" "img \<noteq> []"
    "cancel_runtime_retirement img (si_runner s) = (L, Inr c)"
  shows "\<exists>d. client_runner_cancel C (JStr img) s =
    (s\<lparr>si_runner := L, si_calls := Suc (si_calls s)\<rparr>, heard (ce_net (sc_env C (si_calls s))) d)"
proof -
  let ?R = "sc_runner C"
  let ?D = "(zr_admin ?R)\<lparr>ad_loads := \<lambda>_. Some (JObj body)\<rparr>"
  have t: "payload_text ?D body ''imageRef'' = img"
    using assms(5) by (simp_all add: payload_text_def body_def dict_get_or_def str_of_def Let_def)
  have "client_runner_cancel C (JStr img) s = (s\<lparr>si_runner := L, si_calls := Suc (si_calls s)\<rparr>, heard (ce_net (sc_env C (si_calls s)))
      [(''cancelled'', JBool c), (''imageRef'', JStr img), (''lifecycleState'', JStr ''ACTIVE'')])"
    unfolding client_runner_cancel_def body_def [symmetric]
    by (rule runner_heard [OF assms(2,3), where a = "http_ok (JObj [(''cancelled'', JBool c), (''imageRef'', JStr img), (''lifecycleState'', JStr ''ACTIVE'')])"])
      (use assms(5,6) in \<open>simp_all add: post_forward [OF entrusted_runner [OF assms(2)] assms(4)] admin_cancel_def t Let_def http_ok_simps\<close>)
  then show ?thesis by blast
qed

lemma runner_finalize_forward:
  fixes C :: "'b site_cfg" and img
  defines "body \<equiv> [(''imageRef'', JStr img)]"
  assumes "site_entrusted C" "reached (ce_net (sc_env C (si_calls s)))" "body_fits (sc_runner C) body" "img \<noteq> []"
    "finalize_runtime_retirement (ct_lister K) (ct_sha K) (ct_root K) (build_now C s) (ce_ms (sc_env C (si_calls s))) img (si_runner s) = (L, Inr x)"
    "K = zr_controller (sc_runner C)"
  shows "\<exists>d. client_runner_finalize C (JStr img) s =
    (s\<lparr>si_runner := L, si_calls := Suc (si_calls s)\<rparr>, heard (ce_net (sc_env C (si_calls s))) d)"
proof -
  let ?R = "sc_runner C"
  let ?D = "(zr_admin ?R)\<lparr>ad_loads := \<lambda>_. Some (JObj body)\<rparr>"
  have t: "payload_text ?D body ''imageRef'' = img"
    using assms(5) by (simp_all add: payload_text_def body_def dict_get_or_def str_of_def Let_def)
  have "client_runner_finalize C (JStr img) s =
      (s\<lparr>si_runner := L, si_calls := Suc (si_calls s)\<rparr>, heard (ce_net (sc_env C (si_calls s))) (status_items ?D x))"
    unfolding client_runner_finalize_def body_def [symmetric]
    by (rule runner_heard [OF assms(2,3), where a = "http_ok (JObj (status_items ?D x))"])
      (use assms(5-7) in \<open>simp_all add: post_forward [OF entrusted_runner [OF assms(2)] assms(4)] admin_finalize_def t Let_def http_ok_simps\<close>)
  then show ?thesis by blast
qed

end
