(* ===== verification/Cleanup_Examples.thy ===== *)
theory Cleanup_Examples
  imports Cleanup_Forward Build_Examples Runner_Example Admin_Store_Facts
begin

text \<open>
  A small site: one environment that is built, nothing published, a runner without work, and a cleanup request.
  The properties of its executions each with an instance, and the runs in which an answer or a request is lost.
\<close>

section \<open>A site\<close>

definition tiny_image :: string where
  "tiny_image = ''r/p/q@sha256:'' @ replicate 64 CHR ''0''"

definition site_row :: env_row where
  "site_row = tiny_row\<lparr>ev_image := Some tiny_image\<rparr>"

definition site_build :: build_db where
  "site_build = \<lparr>bd_envs = [site_row], bd_aliases = [], bd_jobs = []\<rparr>"

definition idle_service :: "unit service" where
  "idle_service = \<lparr>sv_catalog = [], sv_db = db_init, sv_pool = pool_init (\<lambda>_. demo_worker) demo_quota (), sv_active = []\<rparr>"

definition idle_runner :: "unit lifecycle_runner" where
  "idle_runner = \<lparr>lr_service = idle_service, lr_acquiring = [], lr_table = []\<rparr>"

definition site_request :: request_row where
  "site_request = \<lparr>cq_id = ''q'', cq_env = ''e'', cq_key = ''k'', cq_status = ''DRAFT'', cq_reason = ''not needed any more'',
     cq_snapshot = JObj [], cq_created_by = ''a'', cq_created = 0, cq_updated = 0\<rparr>"

definition tiny_console :: "unit site" where
  "tiny_console = \<lparr>si_admin = admin_db_init\<lparr>ab_requests := [site_request]\<rparr>, si_build = site_build, si_publish = publish_db_init,
     si_runner = idle_runner, si_calls = 0\<rparr>"

definition site_admin_env :: admin_env where
  "site_admin_env = \<lparr>ad_token = ''rt'', ad_loads = (\<lambda>_. None), ad_show = (\<lambda>_. []), ad_seconds = JInt, ad_time = JInt\<rparr>"

definition site_controller :: "unit controller" where
  "site_controller = \<lparr>ct_backend = demo_B, ct_lister = None, ct_sha = (\<lambda>s. s), ct_root = ''/''\<rparr>"

definition site_postgres :: postgres where
  "site_postgres = \<lparr>pg_number = JFloat, pg_text = (\<lambda>_. []), pg_rank = (\<lambda>_. 0)\<rparr>"

text \<open>\<open>outage n\<close> is what the network does with the \<open>n\<close>-th call.\<close>

definition tiny_site :: "(nat \<Rightarrow> net) \<Rightarrow> unit site_cfg" where
  "tiny_site outage =
     \<lparr>sc_env = (\<lambda>n. \<lparr>ce_us = 9, ce_ms = 0, ce_net = outage n, ce_store = True, ce_up = (\<lambda>_ _. True)\<rparr>),
      sc_ids = (\<lambda>n. replicate (Suc n) CHR ''x''), sc_audits = (\<lambda>n. replicate (Suc n) CHR ''a''), sc_actor = ''admin'',
      sc_show = (\<lambda>_. []), sc_inventory = \<lparr>ie_uuid = Some, ie_postgres = site_postgres, ie_time = JInt\<rparr>,
      sc_build = \<lparr>zb_env = tiny_env, zb_harbor = Some \<lparr>hb_url = ''h'', hb_registry = [], hb_send = (\<lambda>_ _. HarborStatus 200 [])\<rparr>,
         zb_token = ''bt'', zb_time = JInt\<rparr>,
      sc_publish_token = ''pt'', sc_runner = \<lparr>zr_admin = site_admin_env, zr_controller = site_controller, zr_dumps = (\<lambda>_. [0])\<rparr>,
      sc_build_end = \<lparr>ep_url = ''b'', ep_token = ''bt''\<rparr>, sc_publish_end = \<lparr>ep_url = ''p'', ep_token = ''pt''\<rparr>,
      sc_runner_end = \<lparr>ep_url = ''r'', ep_token = ''rt''\<rparr>\<rparr>"

section \<open>What the services hold along the way\<close>

definition site_reason :: string where "site_reason = ''not needed any more''"

definition retiring_row :: env_row where
  "retiring_row = site_row\<lparr>ev_lifecycle := LRetiring, ev_cleanup_error := None, ev_updated := 9\<rparr>"

definition retired_row :: env_row where
  "retired_row = retiring_row\<lparr>ev_lifecycle := LRetired, ev_retired_at := Some 9, ev_deleted_at := Some 9, ev_cleanup_error := None, ev_updated := 9\<rparr>"

definition holding :: "env_row \<Rightarrow> build_db" where
  "holding e = \<lparr>bd_envs = [e], bd_aliases = [], bd_jobs = []\<rparr>"

definition site_gate :: runtime_gate where
  "site_gate = new_gate 9 ''k'' tiny_image site_reason"

definition gated :: "runtime_gate list \<Rightarrow> publish_db" where
  "gated gates = publish_db_init\<lparr>pd_gates := gates\<rparr>"

definition image_row :: lc_row where
  "image_row = new_lc_row 9 tiny_image tiny_image site_reason"

definition with_rows :: "lc_table \<Rightarrow> unit lifecycle_runner" where
  "with_rows rows = \<lparr>lr_service = idle_service, lr_acquiring = [], lr_table = rows\<rparr>"

lemma site_build_holding: "si_build tiny_console = holding site_row" "si_publish tiny_console = gated []" "si_runner tiny_console = with_rows []"
  by (simp_all add: tiny_console_def site_build_def holding_def gated_def with_rows_def idle_runner_def publish_db_init_def)

lemma tiny_texts: "text_between 5 1000 site_reason" "text_between 1 2048 tiny_image" "text_between 1 256 ''k''" "tiny_image \<noteq> []"
    "5 \<le> text_length (strip site_reason)" "plain_id ''e''" "strip site_reason = site_reason"
  by code_simp+

lemma build_answers:
  "build_begin_retirement 9 ''e'' (holding site_row) = (holding retiring_row, Inr retiring_row)"
  "delete_artifact (zb_env (sc_build (tiny_site outage))) (zb_harbor (sc_build (tiny_site outage))) 9 ''e'' tiny_image (holding retiring_row) =
     (holding retired_row, Inr \<lparr>dl_image = Some tiny_image, dl_deleted = True, dl_missing = False\<rparr>)"
  by code_simp+

lemma publish_answers:
  "begin_retirement site_postgres 9 ''k'' tiny_image site_reason (gated []) =
     (gated [site_gate], Inr \<lparr>ra_key = ''k'', ra_image = tiny_image, ra_state = Retiring, ra_references = [], ra_safe = True\<rparr>)"
  "finalize_retirement 9 ''k'' (gated [site_gate]) = (gated [finalized_gate 9 site_gate], Inr (finalized_gate 9 site_gate))"
  "cancel_retirement ''k'' (gated [site_gate]) = (gated [], Inr (Cancelled tiny_image))"
  by code_simp+

lemma runner_idle: "active_of rid idle_service = []" "pool_snapshot ms (sv_pool idle_service) = []"
    "(with_rows t)\<lparr>lr_service := idle_service\<lparr>sv_pool := (sv_pool idle_service)\<lparr>p_backend := p_backend (sv_pool idle_service)\<rparr>\<rparr>\<rparr> = with_rows t"
  by (simp_all add: active_of_def idle_service_def pool_snapshot_def pool_init_def with_rows_def)

lemma idle_status:
  "\<exists>st. runtime_image_status None (\<lambda>s. s) root 9 0 img (with_rows t) = (with_rows t, Inr st) \<and>
     (st_safe st \<longleftrightarrow> map_option lc_status (get_by_runtime_id img t) = Some Retiring)"
  using runner_idle(3) [of t] by (simp add: runtime_image_status_def runner_idle Let_def with_rows_def dict_get_or_def)

lemma image_found: "get_by_runtime_id tiny_image [image_row] = Some image_row" "get_by_image tiny_image [image_row] = Some image_row"
    "lc_status image_row = Retiring" "lc_image image_row = tiny_image"
  by (simp_all add: get_by_runtime_id_def get_by_image_def image_row_def new_lc_row_def)

lemma idle_retire: "retire_runtime demo_B rid (sv_pool idle_service) = (sv_pool idle_service, Inr [])"
  by (simp add: retire_runtime_def retired_workers_def idle_service_def pool_init_def Let_def)

lemma with_rows_sel: "(with_rows t)\<lparr>lr_table := t'\<rparr> = with_rows t'" "(with_rows t)\<lparr>lr_service := idle_service\<rparr> = with_rows t"
    "lr_service (with_rows t) = idle_service" "lr_table (with_rows t) = t" "idle_service\<lparr>sv_pool := sv_pool idle_service\<rparr> = idle_service"
  by (simp_all add: with_rows_def)

lemma runner_begins:
  "\<exists>x. begin_runtime_retirement demo_B None (\<lambda>s. s) root 9 0 tiny_image site_reason (with_rows []) = (with_rows [image_row], Inr x) \<and> st_safe (fst x)"
proof -
  have t: "lc_begin_retirement (\<lambda>s. s) 9 tiny_image site_reason [] = Inr ([image_row], image_row)"
    by (simp add: lc_begin_retirement_def get_by_runtime_id_def image_row_def Let_def)
  obtain st where "runtime_image_status None (\<lambda>s. s) root 9 0 tiny_image (with_rows [image_row]) = (with_rows [image_row], Inr st)" "st_safe st"
    using idle_status [of root tiny_image "[image_row]"] image_found by auto
  then show ?thesis
    by (simp add: begin_runtime_retirement_def t image_found idle_retire Let_def with_rows_sel)
qed

lemma runner_finalizes:
  "\<exists>x. finalize_runtime_retirement None (\<lambda>s. s) root 9 0 tiny_image (with_rows [image_row]) = (with_rows [finalize_row 9 image_row], Inr x)"
proof -
  obtain st where "runtime_image_status None (\<lambda>s. s) root 9 0 tiny_image (with_rows [image_row]) = (with_rows [image_row], Inr st)" "st_safe st"
    using idle_status [of root tiny_image "[image_row]"] image_found by auto
  moreover have "lc_finalize_retirement 9 tiny_image [image_row] = ([finalize_row 9 image_row], Some (finalize_row 9 image_row))"
    using image_found by (simp add: lc_finalize_retirement_def sql_update_def)
  ultimately show ?thesis by (simp add: finalize_runtime_retirement_def with_rows_def)
qed

lemma runner_cancels: "cancel_runtime_retirement tiny_image (with_rows [image_row]) = (with_rows [], Inr True)"
  using image_found by (simp add: cancel_runtime_retirement_def lc_cancel_retirement_def sql_delete_def sql_count_def with_rows_def)

section \<open>A run up to the deletion\<close>

abbreviation tiny_co :: "(nat \<Rightarrow> net) \<Rightarrow> unit site coordinator" where
  "tiny_co outage \<equiv> site_coordinator (tiny_site outage)"

lemma tiny_sel [simp]:
  "ie_uuid (sc_inventory (tiny_site outage)) = Some" "ce_net (sc_env (tiny_site outage) n) = outage n"
  "ce_us (sc_env (tiny_site outage) n) = 9" "ce_ms (sc_env (tiny_site outage) n) = 0" "ce_store (sc_env (tiny_site outage) n)"
  "ie_postgres (sc_inventory (tiny_site outage)) = site_postgres" "zr_controller (sc_runner (tiny_site outage)) = site_controller"
  "ct_sha site_controller = (\<lambda>s. s)" "ct_backend site_controller = demo_B" "ct_lister site_controller = None"
  "zb_time (sc_build (tiny_site outage)) = JInt"
  by (simp_all add: tiny_site_def site_controller_def)

lemma build_now_tiny [simp]: "build_now (tiny_site outage) s = 9"
  by (simp add: build_now_def)

lemma replicate_inj: "inj (\<lambda>n. replicate (Suc n) (c :: char))"
proof (rule injI)
  fix a b
  assume "replicate (Suc a) c = replicate (Suc b) c"
  then have "length (replicate (Suc a) c) = length (replicate (Suc b) c)" by (rule arg_cong)
  then show "a = b" by simp
qed

lemma tiny_ok: "(\<And>n. net_tame (outage n)) \<Longrightarrow> site_ok (tiny_site outage)"
proof -
  have "ascii_text ''rt''" by code_simp
  moreover have "inj (\<lambda>n. CHR ''x'' # replicate n CHR ''x'')" "inj (\<lambda>n. CHR ''a'' # replicate n CHR ''a'')"
    using replicate_inj [of "CHR ''x''"] replicate_inj [of "CHR ''a''"] by simp_all
  ultimately show "(\<And>n. net_tame (outage n)) \<Longrightarrow> ?thesis"
    by (simp add: site_ok_def tiny_site_def site_admin_env_def)
qed

lemma tiny_good: "(\<And>n. net_tame (outage n)) \<Longrightarrow> site_good (tiny_site outage) tiny_console"
  by (simp add: site_good_def tiny_ok ids_fresh_def tiny_console_def admin_db_init_def)

lemma tiny_entrusted: "site_entrusted (tiny_site outage)"
proof -
  have "ascii_text ''rt''" "ascii_text ''bt''" "ascii_text ''pt''" by code_simp+
  then show ?thesis by (simp add: site_entrusted_def entrusted_def tiny_site_def site_admin_env_def)
qed

lemma tiny_fits: "body_fits (sc_runner (tiny_site outage)) d"
  by (simp add: body_fits_def tiny_site_def MAX_BODY_def)

text \<open>Where a run is: the number of the next call, and what the services hold.\<close>

definition site_at :: "(nat \<Rightarrow> net) \<Rightarrow> nat \<Rightarrow> env_row \<Rightarrow> runtime_gate list \<Rightarrow> lc_table \<Rightarrow> unit site \<Rightarrow> bool" where
  "site_at outage n e gates rows s \<longleftrightarrow> si_calls s = n \<and> si_build s = holding e \<and> si_publish s = gated gates \<and> si_runner s = with_rows rows \<and>
     site_good (tiny_site outage) s \<and> execution_status ''xx'' s \<noteq> None"

lemma store_calls: "store_call C m s = (s1, r) \<Longrightarrow> si_calls s1 = Suc (si_calls s)"
  by (auto simp: store_call_def Let_def split: prod.splits)

lemma at_step:
  assumes "site_at outage n e gates rows s" "st \<in> set step_statuses"
  shows "\<exists>s1. co_step (tiny_co outage) ''xx'' name st d s = (s1, Inr ()) \<and> site_at outage (Suc n) e gates rows s1"
proof -
  obtain s1 where s1: "co_step (tiny_co outage) ''xx'' name st d s = (s1, Inr ())" "site_good (tiny_site outage) s1"
      "execution_status ''xx'' s1 = execution_status ''xx'' s"
    using site_step [of "tiny_site outage" s "''xx''" st name d] assms by (auto simp: site_at_def)
  then show ?thesis
    using assms(1) s1(1) [unfolded site_sel, THEN store_call_frame(1)] s1(1) [unfolded site_sel, THEN store_call_frame(2)]
      s1(1) [unfolded site_sel, THEN store_call_frame(3)] s1(1) [unfolded site_sel, THEN store_calls]
    by (auto simp: site_at_def)
qed

lemma at_finish:
  assumes "site_at outage n e gates rows s" "st \<in> set finish_statuses"
  shows "\<exists>s1. co_finish (tiny_co outage) ''xx'' st m s = (s1, Inr ()) \<and> site_at outage (Suc n) e gates rows s1 \<and> execution_status ''xx'' s1 = Some st"
proof -
  obtain s1 where s1: "co_finish (tiny_co outage) ''xx'' st m s = (s1, Inr ())" "site_good (tiny_site outage) s1"
      "execution_status ''xx'' s1 = Some st"
    using site_finish [of "tiny_site outage" s "''xx''" st m] assms by (auto simp: site_at_def)
  then show ?thesis
    using assms(1) s1(1) [unfolded site_sel, THEN store_call_frame(1)] s1(1) [unfolded site_sel, THEN store_call_frame(2)]
      s1(1) [unfolded site_sel, THEN store_call_frame(3)] s1(1) [unfolded site_sel, THEN store_calls]
    by (auto simp: site_at_def)
qed

text \<open>A request leaves the console's tables alone.\<close>

lemma at_calls: "site_at outage n e gates rows s \<Longrightarrow> si_calls s = n"
  by (simp add: site_at_def)

lemma at_call:
  assumes "site_at outage n e gates rows s"
  shows "site_at outage (Suc n) e' gates rows (s\<lparr>si_build := holding e', si_calls := Suc n\<rparr>)"
    "site_at outage (Suc n) e gates' rows (s\<lparr>si_publish := gated gates', si_calls := Suc n\<rparr>)"
    "site_at outage (Suc n) e gates rows' (s\<lparr>si_runner := with_rows rows', si_calls := Suc n\<rparr>)"
    "site_at outage (Suc n) e gates rows (s\<lparr>si_calls := Suc n\<rparr>)"
  using assms good_call [of "tiny_site outage" s]
  by (simp_all add: site_at_def)

lemma at_state:
  assumes "site_at outage n e gates rows s"
  shows "si_build s = holding e" "si_publish s = gated gates" "si_runner s = with_rows rows" "si_calls s = n"
  using assms by (simp_all add: site_at_def)

lemma at_retire:
  assumes a: "site_at outage n site_row gates rows s" and "outage n = Answered"
  shows "\<exists>s1. co_build_retire (tiny_co outage) ''e'' site_reason s = (s1, Inr (env_row_items JInt retiring_row)) \<and>
    site_at outage (Suc n) retiring_row gates rows s1"
proof -
  note st = at_state [OF a]
  have "client_build_retire (tiny_site outage) ''e'' site_reason s =
      (s\<lparr>si_build := holding retiring_row, si_calls := Suc n\<rparr>, Inr (env_row_items JInt retiring_row))"
    using retire_forward [OF tiny_entrusted, of outage s "''e''" site_reason "holding retiring_row" retiring_row] assms(2) tiny_texts build_answers(1)
    by (simp add: st)
  with at_call(1) [OF a] show ?thesis by auto
qed

lemma at_delete:
  assumes a: "site_at outage n retiring_row gates rows s" and "reached (outage n)"
  shows "\<exists>s1 d. co_delete (tiny_co outage) ''e'' (JStr tiny_image) s = (s1, heard (outage n) d) \<and> site_at outage (Suc n) retired_row gates rows s1"
proof -
  note st = at_state [OF a]
  obtain d where "client_build_delete (tiny_site outage) ''e'' (JStr tiny_image) s = (s\<lparr>si_build := holding retired_row, si_calls := Suc n\<rparr>, heard (outage n) d)"
    using delete_forward [OF tiny_entrusted, of outage s "''e''" tiny_image "holding retired_row"] assms(2) tiny_texts build_answers(2) [of outage]
    by (auto simp: st)
  with at_call(1) [OF a] show ?thesis by auto
qed

lemma at_begin:
  assumes a: "site_at outage n e [] rows s" and "outage n = Answered"
  shows "\<exists>s1 d. co_publish_retire (tiny_co outage) (JStr ''k'') (JStr tiny_image) site_reason s = (s1, Inr d) \<and>
    truthy (obj_get d ''safeForRetirement'') \<and> site_at outage (Suc n) e [site_gate] rows s1"
proof -
  note st = at_state [OF a]
  obtain x where "client_publish_begin (tiny_site outage) (JStr ''k'') (JStr tiny_image) site_reason s =
      (s\<lparr>si_publish := gated [site_gate], si_calls := Suc n\<rparr>, Inr (retirement_items x))" "ra_safe x"
    using begin_forward [OF tiny_entrusted, of outage s "''k''" tiny_image site_reason "gated [site_gate]"] assms(2) tiny_texts publish_answers(1)
    by (simp add: st)
  with at_call(2) [OF a] show ?thesis by (auto simp: retirement_items_def obj_get_def dict_get_or_def)
qed

lemma at_gate_finalize:
  assumes a: "site_at outage n e [site_gate] rows s" and "outage n = Answered"
  shows "\<exists>s1 d. co_publish_finalize (tiny_co outage) (JStr ''k'') s = (s1, Inr d) \<and>
    site_at outage (Suc n) e [finalized_gate 9 site_gate] rows s1"
proof -
  note st = at_state [OF a]
  have "client_publish_finalize (tiny_site outage) (JStr ''k'') s =
      (s\<lparr>si_publish := gated [finalized_gate 9 site_gate], si_calls := Suc n\<rparr>, Inr (gate_items (finalized_gate 9 site_gate)))"
    using gate_finalize_forward [OF tiny_entrusted, of outage s "''k''"] assms(2) tiny_texts publish_answers(2)
    by (simp add: st)
  with at_call(2) [OF a] show ?thesis by auto
qed

lemma at_gate_cancel:
  assumes a: "site_at outage n e [site_gate] rows s" and "outage n = Answered"
  shows "\<exists>s1 d. co_publish_cancel (tiny_co outage) (JStr ''k'') s = (s1, Inr d) \<and> site_at outage (Suc n) e [] rows s1"
proof -
  note st = at_state [OF a]
  have "client_publish_cancel (tiny_site outage) (JStr ''k'') s =
      (s\<lparr>si_publish := gated [], si_calls := Suc n\<rparr>, Inr (cancellation_items ''k'' (Cancelled tiny_image)))"
    using cancel_forward [OF tiny_entrusted, of outage s "''k''"] assms(2) tiny_texts publish_answers(3)
    by (simp add: st)
  with at_call(2) [OF a] show ?thesis by auto
qed

lemma at_runner_begin:
  assumes a: "site_at outage n e gates [] s" and "outage n = Answered"
  shows "\<exists>s1 d. co_runner_retire (tiny_co outage) (JStr tiny_image) site_reason s = (s1, Inr d) \<and>
    truthy (obj_get d ''safeForArtifactDeletion'') \<and> site_at outage (Suc n) e gates [image_row] s1"
proof -
  note st = at_state [OF a]
  obtain x where x: "begin_runtime_retirement demo_B None (\<lambda>s. s) (ct_root site_controller) 9 0 tiny_image site_reason (with_rows []) =
      (with_rows [image_row], Inr x)" "st_safe (fst x)"
    using runner_begins by blast
  obtain D d where "client_runner_begin (tiny_site outage) (JStr tiny_image) site_reason s =
      (s\<lparr>si_runner := with_rows [image_row], si_calls := Suc n\<rparr>, Inr d)" "retirement_json D x = JObj d"
    using runner_begin_forward [OF tiny_entrusted, of outage s tiny_image site_reason site_controller "with_rows [image_row]" x] assms(2) tiny_texts x(1) tiny_fits
    by (auto simp: st)
  with at_call(3) [OF a] retirement_safe x(2) show ?thesis by auto
qed

lemma at_runner_finalize:
  assumes a: "site_at outage n e gates [image_row] s" and "outage n = Answered"
  shows "\<exists>s1 d. co_runner_finalize (tiny_co outage) (JStr tiny_image) s = (s1, Inr d) \<and>
    site_at outage (Suc n) e gates [finalize_row 9 image_row] s1"
proof -
  note st = at_state [OF a]
  obtain x where x: "finalize_runtime_retirement None (\<lambda>s. s) (ct_root site_controller) 9 0 tiny_image (with_rows [image_row]) =
      (with_rows [finalize_row 9 image_row], Inr x)"
    using runner_finalizes by blast
  obtain d where "client_runner_finalize (tiny_site outage) (JStr tiny_image) s =
      (s\<lparr>si_runner := with_rows [finalize_row 9 image_row], si_calls := Suc n\<rparr>, Inr d)"
    using runner_finalize_forward [OF tiny_entrusted, of outage s tiny_image site_controller "with_rows [finalize_row 9 image_row]" x] assms(2) tiny_texts x tiny_fits
    by (auto simp: st)
  with at_call(3) [OF a] show ?thesis by auto
qed

lemma at_runner_cancel:
  assumes a: "site_at outage n e gates [image_row] s" and "outage n = Answered"
  shows "\<exists>s1 d. co_runner_cancel (tiny_co outage) (JStr tiny_image) s = (s1, Inr d) \<and> site_at outage (Suc n) e gates [] s1"
proof -
  note st = at_state [OF a]
  obtain d where "client_runner_cancel (tiny_site outage) (JStr tiny_image) s = (s\<lparr>si_runner := with_rows [], si_calls := Suc n\<rparr>, Inr d)"
    using runner_cancel_forward [OF tiny_entrusted, of outage s tiny_image "with_rows []" True] assms(2) tiny_texts runner_cancels tiny_fits
    by (auto simp: st)
  with at_call(3) [OF a] show ?thesis by auto
qed

section \<open>Before the gates\<close>

lemma tiny_request: "co_request (tiny_co outage) ''q'' tiny_console = (tiny_console\<lparr>si_calls := Suc 0\<rparr>, Inr (Some (request_view site_request)))"
  by (simp add: store_call_def stored_def get_cleanup_request_def with_uuid_def uuid_text_def tiny_console_def admin_db_init_def
      site_request_def Let_def)

lemma view_request [simp]: "cr_status (request_view site_request) = ''DRAFT''" "cr_env (request_view site_request) = ''e''"
    "cr_reason (request_view site_request) = site_reason"
  by (simp_all add: request_view_def site_request_def site_reason_def)

lemma tiny_starts:
  assumes "\<And>n. net_tame (outage n)"
  shows "\<exists>s. co_start (tiny_co outage) ''q'' ''e'' (tiny_console\<lparr>si_calls := Suc 0\<rparr>) = (s, Inr ''xx'') \<and> site_at outage (Suc (Suc 0)) site_row [] [] s"
proof -
  let ?s = "tiny_console\<lparr>si_calls := Suc 0\<rparr>"
  have g: "site_good (tiny_site outage) ?s"
    by (simp add: site_good_def tiny_ok [OF assms] ids_fresh_def tiny_console_def admin_db_init_def)
  have i: "sc_ids (tiny_site outage) (Suc 0) = ''xx''" "sc_audits (tiny_site outage) (Suc 0) = ''aa''"
      "si_admin tiny_console = admin_db_init\<lparr>ab_requests := [site_request]\<rparr>"
    by (simp_all add: tiny_site_def tiny_console_def)
  obtain db where d: "start_cleanup_execution Some 9 ''xx'' ''aa'' (sc_actor (tiny_site outage)) ''q'' ''e'' (admin_db_init\<lparr>ab_requests := [site_request]\<rparr>) =
      (db, Inr ''xx'')"
    by (simp add: start_cleanup_execution_def with_uuid_def uuid_text_def sql_insert_def audited_def audit_def admin_db_init_def site_request_def)
  have r: "co_start (tiny_co outage) ''q'' ''e'' ?s = (?s\<lparr>si_admin := db, si_calls := Suc (Suc 0)\<rparr>, Inr ''xx'')"
    by (simp add: store_runs [OF g] i d)
  then have "site_at outage (Suc (Suc 0)) site_row [] [] (?s\<lparr>si_admin := db, si_calls := Suc (Suc 0)\<rparr>)"
    using site_start [OF g r] by (simp add: site_at_def site_build_holding)
  with r show ?thesis by blast
qed

definition tiny_preview :: obj where
  "tiny_preview = projr (lifecycle_preview \<lparr>ie_uuid = Some, ie_postgres = site_postgres, ie_time = JInt\<rparr>
     \<lparr>iv_build = holding site_row, iv_publish = gated [], iv_runner = db_init, iv_up = (\<lambda>_ _. True), iv_now = 9\<rparr> ''e'')"

lemma at_preview:
  assumes a: "site_at outage n site_row [] [] s"
  shows "\<exists>s1. co_preview (tiny_co outage) ''e'' s = (s1, Inr tiny_preview) \<and> site_at outage (Suc n) site_row [] [] s1"
proof -
  note st = at_state [OF a]
  have v: "inventory_at (tiny_site outage) s = \<lparr>iv_build = holding site_row, iv_publish = gated [], iv_runner = db_init, iv_up = (\<lambda>_ _. True), iv_now = 9\<rparr>"
    by (simp add: inventory_at_def st tiny_site_def with_rows_def idle_service_def)
  have i: "sc_inventory (tiny_site outage) = \<lparr>ie_uuid = Some, ie_postgres = site_postgres, ie_time = JInt\<rparr>" by (simp add: tiny_site_def)
  have "\<not> isl (lifecycle_preview \<lparr>ie_uuid = Some, ie_postgres = site_postgres, ie_time = JInt\<rparr>
     \<lparr>iv_build = holding site_row, iv_publish = gated [], iv_runner = db_init, iv_up = (\<lambda>_ _. True), iv_now = 9\<rparr> ''e'')"
    by code_simp
  then have "lifecycle_preview \<lparr>ie_uuid = Some, ie_postgres = site_postgres, ie_time = JInt\<rparr>
     \<lparr>iv_build = holding site_row, iv_publish = gated [], iv_runner = db_init, iv_up = (\<lambda>_ _. True), iv_now = 9\<rparr> ''e'' = Inr tiny_preview"
    unfolding tiny_preview_def by simp
  then have "preview_call (tiny_site outage) ''e'' s = (s\<lparr>si_calls := Suc n\<rparr>, Inr tiny_preview)"
    by (simp add: preview_call_def v i st)
  with at_call(4) [OF a] show ?thesis by auto
qed

definition tiny_plan :: obj where
  "tiny_plan = (case plan_json (projr (build_plan ''e'' (holding site_row))) of JObj d \<Rightarrow> d | _ \<Rightarrow> [])"

lemma at_plan:
  assumes a: "site_at outage n site_row gates rows s" and "outage n = Answered"
  shows "\<exists>s1. co_build_plan (tiny_co outage) ''e'' s = (s1, Inr tiny_plan) \<and> site_at outage (Suc n) site_row gates rows s1"
proof -
  note st = at_state [OF a]
  have e: "entrusted (sc_build_end (tiny_site outage)) (zb_token (sc_build (tiny_site outage)))"
    using tiny_entrusted [of outage] by (simp add: site_entrusted_def)
  have "\<not> isl (build_plan ''e'' (holding site_row))" by code_simp
  then obtain p where p: "build_plan ''e'' (holding site_row) = Inr p" by (cases "build_plan ''e'' (holding site_row)") auto
  have j: "plan_json p = JObj tiny_plan" by (simp add: tiny_plan_def p plan_json_def)
  have "build_serve (sc_build (tiny_site outage)) 9 \<lparr>hq_method = ''GET'', hq_path = env_path @ quote ''e'' @ ''/cleanup-plan'', hq_body = None,
      hq_authorization = Some (bearer @ zb_token (sc_build (tiny_site outage)))\<rparr> (holding site_row) = (holding site_row, http_ok (JObj tiny_plan))"
    by (simp add: build_serve_def own_param [OF tiny_texts(6)] cleanup_plan_route_def admin_route_go [OF e] p http_ok_simps j)
  then have "client_build_plan (tiny_site outage) ''e'' s = (s\<lparr>si_build := holding site_row, si_calls := Suc (si_calls s)\<rparr>, heard (outage n) tiny_plan)"
    unfolding client_build_plan_def
    using build_heard [OF tiny_entrusted, of outage s "http_ok (JObj tiny_plan)" tiny_plan "''GET''" "env_path @ quote ''e'' @ ''/cleanup-plan''" None "holding site_row"]
      assms(2) by (simp add: st)
  with at_call(1) [OF a] assms(2) show ?thesis by (auto simp: st)
qed

lemma at_runner_status:
  assumes a: "site_at outage n e gates rows s" and "outage n = Answered"
  shows "\<exists>s1 d. co_runner_status (tiny_co outage) (JStr tiny_image) s = (s1, Inr d) \<and> site_at outage (Suc n) e gates rows s1"
proof -
  note st = at_state [OF a]
  let ?R = "sc_runner (tiny_site outage)"
  let ?q = "\<lparr>hq_method = ''GET'', hq_path = runner_status_path, hq_body = None, hq_authorization = Some (bearer @ ad_token (zr_admin ?R))\<rparr>"
  have "length bearer = 7" by (simp add: bearer_def)
  then have auth: "admin_authorized (reading (zr_admin ?R) ?q) (runner_request ?R ?q [(''imageRef'', [tiny_image])]) = Inr True"
    using entrusted_runner [OF tiny_entrusted, of outage] by (simp add: admin_authorized_def runner_request_def Let_def compare_digest_def entrusted_def)
  obtain x where x: "runtime_image_status None (\<lambda>s. s) (ct_root site_controller) 9 0 tiny_image (with_rows rows) = (with_rows rows, Inr x)"
    using idle_status by blast
  have "runner_serve ?R 9 0 [(''imageRef'', [tiny_image])] ?q (with_rows rows) = (with_rows rows, Some (http_ok (JObj (status_items (reading (zr_admin ?R) ?q) x))))"
    using x tiny_texts(4)
    by (simp add: runner_serve_def do_get_def admin_guard_def auth get_route_def)
      (simp add: runner_request_def last_query_def runner_status_path_def Let_def http_ok_simps)
  then have "client_runner_status (tiny_site outage) (JStr tiny_image) s =
      (s\<lparr>si_runner := with_rows rows, si_calls := Suc (si_calls s)\<rparr>, heard (outage n) (status_items (reading (zr_admin ?R) ?q) x))"
    unfolding client_runner_status_def
    using runner_heard [OF tiny_entrusted, of outage s "http_ok (JObj (status_items (reading (zr_admin ?R) ?q) x))"] assms(2)
    by (simp add: st str_of_def)
  with at_call(3) [OF a] assms(2) show ?thesis by (auto simp: st)
qed

lemma tiny_plans:
  "truthy (obj_get tiny_preview ''found'')" "plan_image tiny_preview tiny_plan = JStr tiny_image"
  "truthy (obj_get (ready_plan True ''e'' tiny_preview tiny_plan j) ''canExecute'')"
  "get_field (get_field (obj_get (ready_plan True ''e'' tiny_preview tiny_plan j) ''inventory'') ''environment'') ''envKey'' = JStr ''k''"
  "obj_get tiny_plan ''imageRef'' = JStr tiny_image"
proof -
  have b: "plan_blockers tiny_preview tiny_plan (JStr tiny_image) = []" and k: "get_field (get_field (JObj tiny_preview) ''environment'') ''envKey'' = JStr ''k''"
    by code_simp+
  show f: "truthy (obj_get tiny_preview ''found'')" "plan_image tiny_preview tiny_plan = JStr tiny_image" "obj_get tiny_plan ''imageRef'' = JStr tiny_image"
    by code_simp+
  show "truthy (obj_get (ready_plan True ''e'' tiny_preview tiny_plan j) ''canExecute'')"
    by (simp add: ready_plan_def f b Let_def obj_get_def dict_get_or_def)
  show "get_field (get_field (obj_get (ready_plan True ''e'' tiny_preview tiny_plan j) ''inventory'') ''environment'') ''envKey'' = JStr ''k''"
    using k by (simp add: ready_plan_def Let_def obj_get_def dict_get_or_def)
qed

lemma step_names: "''SUCCEEDED'' \<in> set step_statuses" "''FAILED'' \<in> set step_statuses" "''SUCCEEDED'' \<in> set finish_statuses" "''FAILED'' \<in> set finish_statuses"
    "''PARTIAL'' \<in> set finish_statuses"
  by code_simp+

definition tiny_ctx :: cleanup_ctx where
  "tiny_ctx = \<lparr>cx_execution = ''xx'', cx_env = ''e'', cx_key = JStr ''k'', cx_image = JStr tiny_image, cx_reason = site_reason\<rparr>"

lemma tiny_ctx_sel [simp]: "cx_execution tiny_ctx = ''xx''" "cx_env tiny_ctx = ''e''" "cx_key tiny_ctx = JStr ''k''"
    "cx_image tiny_ctx = JStr tiny_image" "cx_reason tiny_ctx = site_reason"
  by (simp_all add: tiny_ctx_def)

text \<open>The calls of a run: 2 to 5 plan, then the three gates are closed.\<close>

lemma tiny_planning:
  assumes a: "site_at outage 2 site_row [] [] s" and n: "outage 3 = Answered" "outage 4 = Answered"
  shows "\<exists>s1. execute_started (tiny_co outage) (request_view site_request) ''xx'' s = phase_build (tiny_co outage) tiny_ctx s1 \<and>
    site_at outage 6 site_row [] [] s1"
proof -
  obtain s1 where 1: "co_preview (tiny_co outage) ''e'' s = (s1, Inr tiny_preview)" "site_at outage 3 site_row [] [] s1"
    using at_preview [OF a] by (auto simp: eval_nat_numeral)
  obtain s2 where 2: "co_build_plan (tiny_co outage) ''e'' s1 = (s2, Inr tiny_plan)" "site_at outage 4 site_row [] [] s2"
    using at_plan [OF 1(2) n(1)] by (auto simp: eval_nat_numeral)
  obtain s3 r where 3: "co_runner_status (tiny_co outage) (JStr tiny_image) s2 = (s3, Inr r)" "site_at outage 5 site_row [] [] s3"
    using at_runner_status [OF 2(2) n(2)] by (auto simp: eval_nat_numeral)
  let ?plan = "ready_plan True ''e'' tiny_preview tiny_plan (JObj r)"
  have en: "co_enabled (tiny_co outage)" by (simp add: client_enabled_def tiny_site_def ep_enabled_def)
  have t: "truthy (JStr tiny_image)" using tiny_texts(4) by simp
  have plan: "cleanup_plan (tiny_co outage) ''e'' s = (s3, Inr ?plan)"
    using tiny_plans(1) t en by (simp add: cleanup_plan_def bind_def 1(1) 2(1) tiny_plans(2) Let_def 3(1) pass_def del: site_sel)
  obtain s4 where 4: "co_step (tiny_co outage) ''xx'' ''preflight'' ''SUCCEEDED'' ?plan s3 = (s4, Inr ())" "site_at outage 6 site_row [] [] s4"
    using at_step [OF 3(2) step_names(1)] by (fastforce simp: eval_nat_numeral)
  have x: "execution_image ?plan (request_view site_request) = JStr tiny_image"
    using tiny_plans(5) t by (simp add: execution_image_def ready_plan_def Let_def obj_get_def dict_get_or_def py_or_def get_field_def)
  then have c: "execution_ctx ''xx'' (request_view site_request) ?plan = tiny_ctx"
    using tiny_plans(4) by (simp add: execution_ctx_def tiny_ctx_def)
  have "execute_started (tiny_co outage) (request_view site_request) ''xx'' s = phase_build (tiny_co outage) tiny_ctx s4"
    using 4(1) tiny_plans(3) t by (simp add: execute_started_def plan execute_planned_def x c ok_or_def bind_def 4(1) del: site_sel)
  with 4(2) show ?thesis by blast
qed

lemma tiny_gates:
  assumes a: "site_at outage 6 site_row [] [] s" and n: "outage 6 = Answered" "outage 8 = Answered" "outage 10 = Answered"
  shows "\<exists>b s1. phase_build (tiny_co outage) tiny_ctx s = phase_delete (tiny_co outage) tiny_ctx b s1 \<and>
    answered_state b \<noteq> JStr ''RETIRED'' \<and> site_at outage 12 retiring_row [site_gate] [image_row] s1"
proof -
  let ?K = "tiny_co outage" and ?b = "env_row_items JInt retiring_row"
  obtain s1 where 1: "co_build_retire ?K ''e'' site_reason s = (s1, Inr ?b)" "site_at outage 7 retiring_row [] [] s1"
    using at_retire [OF a n(1)] by (auto simp: eval_nat_numeral)
  obtain s2 where 2: "co_step ?K ''xx'' ''build.retire'' ''SUCCEEDED'' ?b s1 = (s2, Inr ())" "site_at outage 8 retiring_row [] [] s2"
    using at_step [OF 1(2) step_names(1)] by (fastforce simp: eval_nat_numeral)
  have build: "phase_build ?K tiny_ctx s = phase_publish ?K tiny_ctx ?b s2"
    by (simp add: phase_build_def attempt_def 1(1) 2(1) del: site_sel)
  obtain s3 p where 3: "co_publish_retire ?K (JStr ''k'') (JStr tiny_image) site_reason s2 = (s3, Inr p)" "truthy (obj_get p ''safeForRetirement'')"
      "site_at outage 9 retiring_row [site_gate] [] s3"
    using at_begin [OF 2(2) n(2)] by (auto simp: eval_nat_numeral)
  obtain s4 where 4: "co_step ?K ''xx'' ''publish.retire'' ''SUCCEEDED'' p s3 = (s4, Inr ())" "site_at outage 10 retiring_row [site_gate] [] s4"
    using at_step [OF 3(3) step_names(1)] by (fastforce simp: eval_nat_numeral)
  have publish: "phase_publish ?K tiny_ctx ?b s2 = phase_runner ?K tiny_ctx ?b s4"
    by (simp add: phase_publish_def attempt_def 3(1,2) 4(1) ok_or_def Let_def del: site_sel)
  obtain s5 r where 5: "co_runner_retire ?K (JStr tiny_image) site_reason s4 = (s5, Inr r)" "truthy (obj_get r ''safeForArtifactDeletion'')"
      "site_at outage 11 retiring_row [site_gate] [image_row] s5"
    using at_runner_begin [OF 4(2) n(3)] by (auto simp: eval_nat_numeral)
  obtain s6 where 6: "co_step ?K ''xx'' ''runner.retire'' ''SUCCEEDED'' r s5 = (s6, Inr ())"
      "site_at outage 12 retiring_row [site_gate] [image_row] s6"
    using at_step [OF 5(3) step_names(1)] by (fastforce simp: eval_nat_numeral)
  have runner: "phase_runner ?K tiny_ctx ?b s4 = phase_delete ?K tiny_ctx ?b s6"
    by (simp add: phase_runner_def attempt_def 5(1,2) 6(1) del: site_sel)
  have "ev_lifecycle retiring_row = LRetiring" by (simp add: retiring_row_def)
  then have "answered_state ?b \<noteq> JStr ''RETIRED''"
    by (simp add: answered_state_def py_or_def env_row_items_def obj_get_def dict_get_or_def lifecycle_name_def)
  with build publish runner 6(2) show ?thesis by auto
qed

lemma tiny_run:
  assumes "\<And>n. net_tame (outage n)" "\<And>n. n < 12 \<Longrightarrow> outage n = Answered"
  shows "\<exists>b s. site_cleanup (tiny_site outage) ''q'' tiny_console = phase_delete (tiny_co outage) tiny_ctx b s \<and>
    answered_state b \<noteq> JStr ''RETIRED'' \<and> site_at outage 12 retiring_row [site_gate] [image_row] s"
proof -
  let ?K = "tiny_co outage"
  obtain s where 1: "co_start ?K ''q'' ''e'' (tiny_console\<lparr>si_calls := Suc 0\<rparr>) = (s, Inr ''xx'')" "site_at outage 2 site_row [] [] s"
    using tiny_starts [of outage] assms(1) by (auto simp: eval_nat_numeral)
  have "site_cleanup (tiny_site outage) ''q'' tiny_console = execute_started ?K (request_view site_request) ''xx'' s"
    unfolding site_cleanup_def cleanup_execute_def bind_def tiny_request using 1(1) by (simp del: site_sel)
  with tiny_planning [OF 1(2)] tiny_gates [of outage] assms(2) show ?thesis by fastforce
qed

text \<open>Nothing is lost: the execution succeeds.\<close>

lemma tiny_finalized:
  assumes a: "site_at outage 14 e [site_gate] [image_row] s" and n: "outage 14 = Answered" "outage 16 = Answered"
  shows "\<exists>s1. phase_finalize (tiny_co outage) tiny_ctx s = (s1, Inr (succeeded_items tiny_ctx)) \<and>
    site_at outage 19 e [finalized_gate 9 site_gate] [finalize_row 9 image_row] s1 \<and> execution_status ''xx'' s1 = Some ''SUCCEEDED''"
proof -
  let ?K = "tiny_co outage"
  obtain s1 r where 1: "co_runner_finalize ?K (JStr tiny_image) s = (s1, Inr r)" "site_at outage 15 e [site_gate] [finalize_row 9 image_row] s1"
    using at_runner_finalize [OF a n(1)] by (auto simp: eval_nat_numeral)
  obtain s2 where 2: "co_step ?K ''xx'' ''runner.finalize'' ''SUCCEEDED'' r s1 = (s2, Inr ())" "site_at outage 16 e [site_gate] [finalize_row 9 image_row] s2"
    using at_step [OF 1(2) step_names(1)] by (fastforce simp: eval_nat_numeral)
  obtain s3 p where 3: "co_publish_finalize ?K (JStr ''k'') s2 = (s3, Inr p)" "site_at outage 17 e [finalized_gate 9 site_gate] [finalize_row 9 image_row] s3"
    using at_gate_finalize [OF 2(2) n(2)] by (auto simp: eval_nat_numeral)
  obtain s4 where 4: "co_step ?K ''xx'' ''publish.finalize'' ''SUCCEEDED'' p s3 = (s4, Inr ())"
      "site_at outage 18 e [finalized_gate 9 site_gate] [finalize_row 9 image_row] s4"
    using at_step [OF 3(2) step_names(1)] by (fastforce simp: eval_nat_numeral)
  obtain s5 where 5: "co_finish ?K ''xx'' ''SUCCEEDED'' ''runtime environment retired and Harbor artifact removed'' s4 = (s5, Inr ())"
      "site_at outage 19 e [finalized_gate 9 site_gate] [finalize_row 9 image_row] s5" "execution_status ''xx'' s5 = Some ''SUCCEEDED''"
    using at_finish [OF 4(2) step_names(3)] by (fastforce simp: eval_nat_numeral)
  have "phase_finalize ?K tiny_ctx s = (s5, Inr (succeeded_items tiny_ctx))"
    by (simp add: phase_finalize_def attempt_def 1(1) 2(1) 3(1) 4(1) 5(1) pass_def del: site_sel)
  with 5 show ?thesis by blast
qed

lemma tiny_success:
  "\<exists>s d. site_cleanup (tiny_site (\<lambda>_. Answered)) ''q'' tiny_console = (s, Inr d) \<and> d = succeeded_items tiny_ctx"
proof -
  let ?o = "\<lambda>_::nat. Answered" and ?K = "tiny_co (\<lambda>_. Answered)"
  obtain b s where 1: "site_cleanup (tiny_site ?o) ''q'' tiny_console = phase_delete ?K tiny_ctx b s" "answered_state b \<noteq> JStr ''RETIRED''"
      "site_at ?o 12 retiring_row [site_gate] [image_row] s"
    using tiny_run [of ?o] by (auto simp: net_tame_def)
  obtain s2 d where 2: "co_delete ?K ''e'' (JStr tiny_image) s = (s2, Inr d)" "site_at ?o 13 retired_row [site_gate] [image_row] s2"
    using at_delete [OF 1(3)] by (auto simp: eval_nat_numeral)
  obtain s3 where 3: "co_step ?K ''xx'' ''harbor.delete-artifact'' ''SUCCEEDED'' d s2 = (s3, Inr ())" "site_at ?o 14 retired_row [site_gate] [image_row] s3"
    using at_step [OF 2(2) step_names(1)] by (fastforce simp: eval_nat_numeral)
  show ?thesis
    using 1(1,2) tiny_finalized [OF 3(2)] by (auto simp: phase_delete_def attempt_def 2(1) 3(1) simp del: site_sel)
qed

section \<open>Instances of the properties\<close>

lemma cleanup_success_retires_witness:
  "case site_cleanup (tiny_site (\<lambda>_. Answered)) ''q'' tiny_console of
     (s, r) \<Rightarrow> r = Inr (succeeded_items tiny_ctx) \<and> build_state ''e'' s = Some LRetired \<and> publish_state (JStr ''k'') s = Some Retired \<and>
       runner_state (tiny_site (\<lambda>_. Answered)) (JStr tiny_image) s = Some Retired"
proof -
  obtain s where s: "site_cleanup (tiny_site (\<lambda>_. Answered)) ''q'' tiny_console = (s, Inr (succeeded_items tiny_ctx))"
    using tiny_success by blast
  have i: "obj_get (succeeded_items tiny_ctx) ''status'' = JStr ''SUCCEEDED''" "json_str (obj_get (succeeded_items tiny_ctx) ''environmentId'') = ''e''"
      "obj_get (succeeded_items tiny_ctx) ''envKey'' = JStr ''k''" "obj_get (succeeded_items tiny_ctx) ''imageRef'' = JStr tiny_image"
    by (simp_all add: succeeded_items_def obj_get_def dict_get_or_def json_str_def str_of_def)
  show ?thesis using cleanup_success_retires [OF s i(1)] by (simp add: s i)
qed

lemma cleanup_execution_ends_witness:
  "execution_status ''xx'' (fst (site_cleanup (tiny_site (\<lambda>_. Answered)) ''q'' tiny_console)) \<in> Some ` set finish_statuses"
proof -
  have n: "net_tame ((\<lambda>_. Answered) n)" for n :: nat by (simp add: net_tame_def)
  obtain s where s: "co_start (tiny_co (\<lambda>_. Answered)) ''q'' ''e'' (tiny_console\<lparr>si_calls := Suc 0\<rparr>) = (s, Inr ''xx'')"
    using tiny_starts [of "\<lambda>_. Answered", OF n] by blast
  have q: "cr_status (request_view site_request) = ''DRAFT''"
      "co_start (tiny_co (\<lambda>_. Answered)) ''q'' (cr_env (request_view site_request)) (tiny_console\<lparr>si_calls := Suc 0\<rparr>) = (s, Inr ''xx'')"
    using s by (simp_all del: site_sel)
  show ?thesis
    using cleanup_execution_ends [OF tiny_good [of "\<lambda>_. Answered", OF n] tiny_request q] by (auto split: prod.splits)
qed

definition tiny_note :: note_row where
  "tiny_note = \<lparr>nt_id = ''n'', nt_type = ''runner_run'', nt_asset = ''r'', nt_note = ''first'', nt_version = 1, nt_created_by = ''a'',
     nt_updated_by = ''a'', nt_created = 0, nt_updated = 0\<rparr>"

definition noted :: "note_row \<Rightarrow> admin_db" where
  "noted n = admin_db_init\<lparr>ab_notes := [n]\<rparr>"

lemma stale_edit_refused_witness:
  "(let db1 = fst (update_note Some 5 ''e1'' ''bob'' ''n'' ''second'' 1 (noted tiny_note));
        db2 = admin_run Some [(\<lparr>aw_now = 6, aw_id = ''x'', aw_audit = ''e2'', aw_actor = ''eve''\<rparr>, UpdateNote ''n'' ''third'' 2)] db1
    in map nt_note (ab_notes db2) = [''third''] \<and>
       update_note Some 7 ''e3'' ''alice'' ''n'' ''mine'' 1 db2 = (db2, Inl note_changed) \<and>
       delete_note Some 7 ''e3'' ''alice'' ''n'' 1 db2 = (db2, Inl note_changed))"
proof -
  let ?calls = "[(\<lparr>aw_now = 6, aw_id = ''x'', aw_audit = ''e2'', aw_actor = ''eve''\<rparr>, UpdateNote ''n'' ''third'' 2)]"
  have ok: "admin_ok (noted tiny_note)"
  proof -
    have "note_ok tiny_note" by code_simp
    then show ?thesis by (simp add: admin_ok_def tables_ok_def noted_def admin_db_init_def)
  qed
  have "\<not> isl (snd (update_note Some 5 ''e1'' ''bob'' ''n'' ''second'' 1 (noted tiny_note)))"
    by code_simp
  then obtain db1 j where r: "update_note Some 5 ''e1'' ''bob'' ''n'' ''second'' 1 (noted tiny_note) = (db1, Inr j)"
    by (metis prod.collapse sum.collapse(2))
  have d: "list_all (\<lambda>c. \<not> draws ''n'' c) ?calls" and t: "text_between 1 1000 (strip ''mine'')" by code_simp+
  have "map nt_note (ab_notes (admin_run Some ?calls (fst (update_note Some 5 ''e1'' ''bob'' ''n'' ''second'' 1 (noted tiny_note))))) = [''third'']"
    by code_simp
  then show ?thesis using stale_edit_refused [OF ok _ r d t, where now' = 7 and a' = "''e3''" and actor' = "''alice''"] by (simp add: r Let_def)
qed

section \<open>A lost answer\<close>

text \<open>The connection breaks after the build service has deleted the image.\<close>

definition lost_deletion :: "nat \<Rightarrow> net" where
  "lost_deletion n = (if n = 12 then NoAnswer (PyError ''URLError'' ''timed out'') else Answered)"

lemma lost_tame: "net_tame (lost_deletion n)"
proof -
  have "cleanup_caught (network_fault (PyError ''URLError'' ''timed out''))" by code_simp
  then show ?thesis by (simp add: net_tame_def lost_deletion_def)
qed

lemma request_keeps:
  assumes "\<And>h. fst (serve \<lparr>hq_method = method, hq_path = path, hq_body = body, hq_authorization = h\<rparr> w) = w"
    "client_request show p n serve method path body w = (w1, r)"
  shows "w1 = w"
  using assms(2) assms(1) [of "Some (bearer @ ep_token p)"]
  by (auto simp: client_request_def Let_def split: if_splits net.splits prod.splits option.splits)

lemma at_build_cancel:
  assumes a: "site_at outage n retired_row gates rows s"
  shows "\<exists>s1 r. co_build_cancel (tiny_co outage) ''e'' s = (s1, r) \<and> site_at outage (Suc n) retired_row gates rows s1"
proof -
  note st = at_state [OF a]
  have c: "build_cancel_retirement 9 ''e'' (holding retired_row) = (holding retired_row, Inl (value_error ''only RETIRING environments can return to ACTIVE''))"
    by code_simp
  have p: "path_param env_path ''/retire'' (env_path @ quote ''e'' @ ''/cancel-retirement'') = None" by code_simp
  have serve: "fst (build_serve (sc_build (tiny_site outage)) 9 \<lparr>hq_method = ''POST'', hq_path = env_path @ quote ''e'' @ ''/cancel-retirement'', hq_body = b,
      hq_authorization = h\<rparr> (holding retired_row)) = holding retired_row" for b h
    by (simp add: build_serve_def p own_param [OF tiny_texts(6)] cancel_route_def admin_route_def c split: option.split)
  obtain db r where r: "client_request (sc_show (tiny_site outage)) (sc_build_end (tiny_site outage)) (outage n)
      (\<lambda>q db. apsnd Some (build_serve (sc_build (tiny_site outage)) 9 q db)) ''POST'' (env_path @ quote ''e'' @ ''/cancel-retirement'') (Some [])
      (holding retired_row) = (db, r)"
    by fastforce
  have "db = holding retired_row"
    using request_keeps [of "\<lambda>q db. apsnd Some (build_serve (sc_build (tiny_site outage)) 9 q db)", OF _ r] serve by simp
  with r have "client_build_cancel (tiny_site outage) ''e'' s = (s\<lparr>si_build := holding retired_row, si_calls := Suc n\<rparr>, r)"
    by (simp add: client_build_cancel_def build_call_def Let_def st)
  with at_call(1) [OF a] show ?thesis by auto
qed

text \<open>When the connection to the build service breaks after the image has been deleted, the execution is recorded as FAILED and
  the gates of the publish service and the runner are taken back, although the environment is RETIRED and its image gone:
  the rollback goes by whether the answer arrived, not by whether the deletion took place.\<close>

theorem lost_answer_reopens:
  "case site_cleanup (tiny_site lost_deletion) ''q'' tiny_console of
     (s, r) \<Rightarrow> r = Inl (unavailable ''timed out'') \<and> execution_status ''xx'' s = Some ''FAILED'' \<and>
       build_state ''e'' s = Some LRetired \<and> publish_state (JStr ''k'') s = None \<and>
       runner_state (tiny_site lost_deletion) (JStr tiny_image) s = None"
proof -
  let ?o = lost_deletion and ?K = "tiny_co lost_deletion" and ?f = "unavailable ''timed out''"
  obtain b s where 1: "site_cleanup (tiny_site ?o) ''q'' tiny_console = phase_delete ?K tiny_ctx b s" "answered_state b \<noteq> JStr ''RETIRED''"
      "site_at ?o 12 retiring_row [site_gate] [image_row] s"
    using tiny_run [of ?o, OF lost_tame] by (auto simp: lost_deletion_def)
  have f: "network_fault (PyError ''URLError'' ''timed out'') = ?f" by code_simp
  obtain s2 where 2: "co_delete ?K ''e'' (JStr tiny_image) s = (s2, Inl ?f)" "site_at ?o 13 retired_row [site_gate] [image_row] s2"
    using at_delete [OF 1(3)] by (auto simp: eval_nat_numeral lost_deletion_def f)
  obtain s3 where 3: "co_step ?K ''xx'' ''cleanup.error'' ''FAILED''
      [(''errorType'', JStr (fault_class ?f)), (''message'', JStr (fault_text ?f)), (''artifactDeleted'', JBool False)] s2 = (s3, Inr ())"
      "site_at ?o 14 retired_row [site_gate] [image_row] s3"
    using at_step [OF 2(2) step_names(2)] by (fastforce simp: eval_nat_numeral)
  obtain s4 r where 4: "co_runner_cancel ?K (JStr tiny_image) s3 = (s4, Inr r)" "site_at ?o 15 retired_row [site_gate] [] s4"
    using at_runner_cancel [OF 3(2)] by (auto simp: eval_nat_numeral lost_deletion_def)
  obtain s5 p where 5: "co_publish_cancel ?K (JStr ''k'') s4 = (s5, Inr p)" "site_at ?o 16 retired_row [] [] s5"
    using at_gate_cancel [OF 4(2)] by (auto simp: eval_nat_numeral lost_deletion_def)
  obtain s6 c where 6: "co_build_cancel ?K ''e'' s5 = (s6, c)" "site_at ?o 17 retired_row [] [] s6"
    using at_build_cancel [OF 5(2)] by (auto simp: eval_nat_numeral)
  obtain restored errors where rolled: "rollback ?K tiny_ctx all_gates s3 = (s6, restored, errors)"
    by (cases c) (simp_all add: rollback_def undo_def all_gates_def 4(1) 5(1) 6(1) del: site_sel)
  obtain s7 where 7: "co_step ?K ''xx'' ''rollback'' (ok_or ''FAILED'' (errors = [])) (rollback_items restored errors) s6 = (s7, Inr ())"
      "site_at ?o 18 retired_row [] [] s7"
    using at_step [OF 6(2)] step_names by (cases "errors = []") (fastforce simp: eval_nat_numeral ok_or_def)+
  obtain s8 where 8: "co_finish ?K ''xx'' ''FAILED'' (fault_text ?f) s7 = (s8, Inr ())" "site_at ?o 19 retired_row [] [] s8"
      "execution_status ''xx'' s8 = Some ''FAILED''"
    using at_finish [OF 7(2) step_names(4)] by (fastforce simp: eval_nat_numeral)
  note st = at_state [OF 8(2)]
  have "site_cleanup (tiny_site ?o) ''q'' tiny_console = (s8, Inl ?f)"
    using 1(1,2) by (simp add: phase_delete_def attempt_def 2(1) caught_simps cleanup_failed_def bind_def 3(1) rolled 7(1) 8(1) raise_def del: site_sel)
  moreover have "build_state ''e'' s8 = Some LRetired" "publish_state (JStr ''k'') s8 = None" "runner_state (tiny_site ?o) (JStr tiny_image) s8 = None"
    unfolding build_state_def publish_state_def runner_state_def st by code_simp+
  ultimately show ?thesis using 8(3) by simp
qed

end
