(* ===== verification/Admin_Console.thy ===== *)
theory Admin_Console
  imports Cleanup_Examples
begin

text \<open>
  The administration console (\<open>web/admin/main.py\<close>, \<open>web/admin/lifecycle_routes.py\<close>, \<open>web/admin/retry_client.py\<close>):
  the check that a request comes from the console's own page, the routes over the console's store, the inventory
  and the cleanup coordinator, and the retry of a build at the build service. The static pages, the tables of the
  inventory report and the parsing of numbers are arguments; 404 stands for an unknown path and an unknown method.
\<close>

section \<open>Requests\<close>

record 'b console =
  cn_site :: "'b site_cfg"
  cn_origin :: string
  cn_dsn :: bool
  cn_retry_url :: string
  cn_retry_token :: string
  cn_tools :: tools
  cn_settings :: build_settings
  cn_report :: "inventory \<Rightarrow> exn + json"
  cn_static :: "string \<Rightarrow> http_answer option"
  cn_int :: "json \<Rightarrow> int option"

record console_request =
  wq_method :: string
  wq_scheme :: string
  wq_path :: string
  wq_headers :: "(string, string) dict"
  wq_query :: "(string, string) dict"
  wq_body :: "json option"

definition header_of :: "console_request \<Rightarrow> string \<Rightarrow> string" where
  "header_of q name = dict_get_or (wq_headers q) name []"

definition changing_methods :: "string list" where
  "changing_methods = [''POST'', ''PATCH'', ''PUT'', ''DELETE'']"

definition same_origin :: "'b console \<Rightarrow> console_request \<Rightarrow> bool" where
  "same_origin C q \<longleftrightarrow>
     header_of q ''origin'' = (if cn_origin C = [] then wq_scheme q @ ''://'' @ header_of q ''host'' else cn_origin C) \<and>
     header_of q ''x-admin-request'' = ''1'' \<and>
     ascii_lower (hd (split_on CHR '';'' (header_of q ''content-type''))) = ''application/json''"

definition refused_origin :: http_answer where
  "refused_origin = http_error 403 ''Administrative action requires same-origin JSON request.''"

text \<open>The headers of every answer that a route gives.\<close>

definition security_headers :: "(string, string) dict" where
  "security_headers =
     [(''Cache-Control'', ''no-store''), (''X-Content-Type-Options'', ''nosniff''), (''X-Frame-Options'', ''DENY''),
      (''Referrer-Policy'', ''no-referrer''),
      (''Content-Security-Policy'', ''default-src 'self'; script-src 'self'; style-src 'self'; connect-src 'self'; img-src 'self' data:; '' @
         ''base-uri 'none'; object-src 'none'; frame-ancestors '' @ CHR 0x27 # ''none'' @ [CHR 0x27])]"

section \<open>Calls and their exceptions\<close>

type_synonym 'b handler = "'b site \<Rightarrow> 'b site \<times> http_answer"

text \<open>A call inside \<open>try\<close>: \<open>errors\<close> answers its exceptions.\<close>

definition attempted :: "('b site, 'a) act \<Rightarrow> (fault \<Rightarrow> http_answer) \<Rightarrow> ('a \<Rightarrow> 'b handler) \<Rightarrow> 'b handler" where
  "attempted m errors k s = (case m s of (s1, Inl f) \<Rightarrow> (s1, errors f) | (s1, Inr x) \<Rightarrow> k x s1)"

definition answers :: "http_answer \<Rightarrow> 'b handler" where
  "answers a s = (s, a)"

definition fault_answer :: "(string list \<times> nat) list \<Rightarrow> fault \<Rightarrow> http_answer" where
  "fault_answer table f = (case f of Rejected status m \<Rightarrow> http_error status m | Raised e \<Rightarrow> by_class table e)"

definition store_fault :: "fault \<Rightarrow> http_answer" where
  "store_fault = fault_answer [(value_errors, 422), ([''Conflict''], 409), ([''StorageUnavailable''], 503)]"

definition safe_store :: "'b console \<Rightarrow> (int \<Rightarrow> string \<Rightarrow> string \<Rightarrow> 'a admin_op) \<Rightarrow> ('a \<Rightarrow> 'b handler) \<Rightarrow> 'b handler" where
  "safe_store C m = attempted (store_call (cn_site C) m) store_fault"

definition inventory_call :: "'b console \<Rightarrow> (inventory_env \<Rightarrow> inventory \<Rightarrow> exn + 'a) \<Rightarrow> ('b site, 'a) act" where
  "inventory_call C f s =
     (s\<lparr>si_calls := Suc (si_calls s)\<rparr>, map_sum Raised id (f (sc_inventory (cn_site C)) (inventory_at (cn_site C) s)))"

abbreviation cn_actor :: "'b console \<Rightarrow> string" where
  "cn_actor C \<equiv> sc_actor (cn_site C)"

abbreviation cn_uuid :: "'b console \<Rightarrow> string \<Rightarrow> string option" where
  "cn_uuid C \<equiv> sc_uuid (cn_site C)"

section \<open>The overview\<close>

definition cn_time :: "'b console \<Rightarrow> int \<Rightarrow> json" where
  "cn_time C = ie_time (sc_inventory (cn_site C))"

definition latest :: "('a \<Rightarrow> int) \<Rightarrow> nat \<Rightarrow> 'a list \<Rightarrow> 'a list" where
  "latest key n xs = take n (sort_key (\<lambda>x. - key x) xs)"

definition note_view :: "(int \<Rightarrow> json) \<Rightarrow> note_row \<Rightarrow> json" where
  "note_view time n =
     JObj [(''id'', JStr (nt_id n)), (''assetType'', JStr (nt_type n)), (''assetId'', JStr (nt_asset n)), (''note'', JStr (nt_note n)),
       (''version'', JInt (nt_version n)), (''createdBy'', JStr (nt_created_by n)), (''updatedBy'', JStr (nt_updated_by n)),
       (''updatedAt'', time (nt_updated n))]"

definition request_json :: "(int \<Rightarrow> json) \<Rightarrow> request_row \<Rightarrow> json" where
  "request_json time r =
     JObj [(''id'', JStr (cq_id r)), (''environmentId'', JStr (cq_env r)), (''envKey'', JStr (cq_key r)), (''status'', JStr (cq_status r)),
       (''reason'', JStr (cq_reason r)), (''createdBy'', JStr (cq_created_by r)), (''createdAt'', time (cq_created r))]"

definition audit_json :: "(int \<Rightarrow> json) \<Rightarrow> audit_row \<Rightarrow> json" where
  "audit_json time a =
     JObj [(''id'', JStr (au_id a)), (''actor'', JStr (au_actor a)), (''action'', JStr (au_action a)), (''assetType'', JStr (au_type a)),
       (''assetId'', JStr (au_resource a)), (''createdAt'', time (au_at a))]"

definition store_overview :: "(int \<Rightarrow> json) \<Rightarrow> obj admin_op" where
  "store_overview time db =
     (db, Inr [(''status'', JStr ''ok''), (''message'', JStr []),
        (''notes'', JList (map (note_view time) (latest nt_updated 100 (ab_notes db)))),
        (''requests'', JList (map (request_json time) (latest cq_created 100 (ab_requests db)))),
        (''audit'', JList (map (audit_json time) (latest au_at 80 (ab_audit db))))])"

definition unconfigured_overview :: obj where
  "unconfigured_overview =
     [(''status'', JStr ''unconfigured''),
      (''message'', JStr ''Configure ADMIN_DB_URL; console_ops will be initialized automatically.''),
      (''notes'', JList []), (''requests'', JList []), (''audit'', JList [])]"

definition failed_overview :: obj where
  "failed_overview =
     [(''status'', JStr ''error''), (''notes'', JList []), (''requests'', JList []), (''audit'', JList []),
      (''message'', JStr ''Admin metadata DB unavailable; check ADMIN_DB_URL and console_ops grants.'')]"

definition overview_call :: "'b console \<Rightarrow> ('b site, obj) act" where
  "overview_call C s =
     (if \<not> cn_dsn C then (s, Inr unconfigured_overview) else store_call (cn_site C) (\<lambda>now x a. store_overview (cn_time C)) s)"

definition retry_enabled :: "'b console \<Rightarrow> bool" where
  "retry_enabled C \<longleftrightarrow> cn_retry_url C \<noteq> []"

definition capabilities :: "'b console \<Rightarrow> obj \<Rightarrow> json" where
  "capabilities C metadata =
     (let ok = (obj_get metadata ''status'' = JStr ''ok'') in
      JObj [(''coreDatabaseWrites'', JBool False), (''physicalImageDeletion'', JBool (client_enabled (cn_site C))),
        (''annotationsCrud'', JBool ok), (''cleanupDrafts'', JBool ok), (''cleanupExecute'', JBool (client_enabled (cn_site C) \<and> ok)),
        (''buildRetry'', JBool (retry_enabled C \<and> ok))])"

definition overview_route :: "'b console \<Rightarrow> 'b handler" where
  "overview_route C s =
     (case inventory_call C (\<lambda>E. cn_report C) s of (s1, r) \<Rightarrow>
      (case overview_call C s1 of (s2, o1) \<Rightarrow>
        (let inventory_result = (case r of Inr j \<Rightarrow> j
               | Inl f \<Rightarrow> JObj [(''error'', JStr ''Inventory unavailable; verify read-only database connections.'')]);
             metadata = (case o1 of Inr d \<Rightarrow> d | Inl f \<Rightarrow> failed_overview)
         in (s2, http_ok (JObj [(''inventory'', inventory_result), (''management'', JObj metadata),
                   (''capabilities'', capabilities C metadata)])))))"

definition preview_route :: "'b console \<Rightarrow> string \<Rightarrow> 'b handler" where
  "preview_route C i = attempted (preview_call (cn_site C) i) (fault_answer [(value_errors, 422)]) (\<lambda>d.
     answers (if obj_get d ''status'' = JStr ''not_found'' then http_error 404 ''Runtime environment not found'' else http_ok (JObj d)))"

section \<open>Retry of a build\<close>

definition retry_prefix :: string where
  "retry_prefix = ''/v1/runtime-environments/''"

text \<open>The route of \<open>build_service/app.py\<close>, which asks for no token.\<close>

definition build_retry_serve :: "'b console \<Rightarrow> int \<Rightarrow> string \<Rightarrow> http_request \<Rightarrow> build_db \<Rightarrow> build_db \<times> http_answer" where
  "build_retry_serve C now job q db =
     (case path_param retry_prefix ''/retry'' (hq_path q) of
        Some k \<Rightarrow> retry_route (build_retry (zb_env (sc_build (cn_site C))) lifecycle_store (cn_tools C) (cn_settings C) now job k db)
      | None \<Rightarrow> (db, not_found))"

text \<open>An exception of \<open>httpx\<close> goes under the name of its base class.\<close>

definition retry_fault :: "exn \<Rightarrow> fault" where
  "retry_fault e =
     (if of_class [''HTTPError''] e then Raised (PyError ''RetryUnavailable'' ''Build Service retry endpoint unavailable'') else Raised e)"

definition retry_rejected :: string where
  "retry_rejected = ''Build Service rejected retry; consult Build Service logs.''"

definition retry_content :: "(json \<Rightarrow> string) \<Rightarrow> string \<Rightarrow> http_answer \<Rightarrow> fault + obj" where
  "retry_content show k a =
     (if \<not> (200 \<le> ha_status a \<and> ha_status a < 300) then Inl (Rejected (ha_status a) retry_rejected)
      else (let d = (case ha_body a of JObj d \<Rightarrow> d | _ \<Rightarrow> []) in
            Inr [(''accepted'', JBool True), (''httpStatus'', JInt (int (ha_status a))),
              (''envKey'', JStr (take_text 64 (str_of show (dict_get_or d ''envKey'' (JStr k))))),
              (''status'', JStr (take_text 36 (str_of show (dict_get_or d ''status'' (JStr ''accepted'')))))]))"

definition client_retry :: "'b console \<Rightarrow> string \<Rightarrow> ('b site, obj) act" where
  "client_retry C k s =
     (let n = si_calls s; e = sc_env (cn_site C) n; s1 = s\<lparr>si_calls := Suc n\<rparr>;
          q = \<lparr>hq_method = ''POST'', hq_path = retry_prefix @ quote k @ ''/retry'', hq_body = None,
               hq_authorization = (if cn_retry_token C = [] then None else Some (bearer @ cn_retry_token C))\<rparr>;
          (db, a) = build_retry_serve C (ce_us e) (sc_ids (cn_site C) n) q (si_build s)
      in if \<not> retry_enabled C
         then (s1, Inl (Raised (PyError ''RetryUnavailable'' ''Set ADMIN_BUILD_SERVICE_URL to enable Build retry'')))
         else (case ce_net e of
                 NotSent x \<Rightarrow> (s1, Inl (retry_fault x))
               | NoAnswer x \<Rightarrow> (s1\<lparr>si_build := db\<rparr>, Inl (retry_fault x))
               | Answered \<Rightarrow> (s1\<lparr>si_build := db\<rparr>, retry_content (sc_show (cn_site C)) k a)))"

definition rejected_status :: "nat \<Rightarrow> nat" where
  "rejected_status n = (if 400 \<le> n \<and> n \<le> 599 then n else 502)"

definition retry_answer :: "fault \<Rightarrow> http_answer" where
  "retry_answer f =
     (case f of
        Rejected n m \<Rightarrow> http_error (rejected_status n) m
      | Raised e \<Rightarrow> by_class [([''RetryUnavailable''], 503)] e)"

definition record_retry :: "'b console \<Rightarrow> string \<Rightarrow> string \<Rightarrow> ('b site, json) act" where
  "record_retry C action i = store_call (cn_site C) (\<lambda>now x a. record_action now a (cn_actor C) action ''build_environment'' i)"

text \<open>The second audit event: an answer of \<open>safe_store\<close> is caught, another exception is not.\<close>

definition retry_confirmed :: "'b console \<Rightarrow> string \<Rightarrow> obj \<Rightarrow> 'b handler" where
  "retry_confirmed C i result s =
     (case record_retry C ''build.retry.accepted'' i s of
        (s1, Inr _) \<Rightarrow> (s1, http_ok (JObj (dict_set ''auditStatus'' (JStr ''recorded'') result)))
      | (s1, Inl f) \<Rightarrow>
          (s1, if store_fault f = server_error then server_error
               else http_ok (JObj (dict_set ''message'' (JStr ''Build accepted retry, but the completion audit could not be saved.'')
                      (dict_set ''auditStatus'' (JStr ''confirmation_pending'') result)))))"

definition console_retry_route :: "'b console \<Rightarrow> string \<Rightarrow> 'b handler" where
  "console_retry_route C k =
     (if \<not> retry_enabled C then answers (http_error 503 ''Configure ADMIN_BUILD_SERVICE_URL for retry'')
      else attempted (inventory_call C (\<lambda>E. retry_preflight k)) (fault_answer [(value_errors, 409), (runtime_errors, 503)]) (\<lambda>checked.
           let i = json_str (get_field checked ''id'') in
           attempted (record_retry C ''build.retry.attempt'' i) store_fault (\<lambda>_.
           attempted (client_retry C (json_str (get_field checked ''envKey''))) retry_answer (\<lambda>result.
           retry_confirmed C i result))))"

section \<open>Notes and cleanup requests\<close>

text \<open>A body as the framework has checked it.\<close>

definition body_obj :: "console_request \<Rightarrow> obj option" where
  "body_obj q = (case wq_body q of Some (JObj d) \<Rightarrow> Some d | _ \<Rightarrow> None)"

definition plain_text :: "obj \<Rightarrow> string \<Rightarrow> string option" where
  "plain_text d k = (case dict_get d k of Some (JStr s) \<Rightarrow> Some s | _ \<Rightarrow> None)"

definition version_field :: "'b console \<Rightarrow> obj \<Rightarrow> int option" where
  "version_field C d =
     (case Option.bind (dict_get d ''version'') (cn_int C) of None \<Rightarrow> None | Some v \<Rightarrow> if 1 \<le> v then Some v else None)"

definition add_note_route :: "'b console \<Rightarrow> obj \<Rightarrow> 'b handler" where
  "add_note_route C d =
     (case (plain_text d ''assetType'', plain_text d ''assetId'', text_field d ''note'' 1 1000) of
        (Some kind, Some asset, Some note) \<Rightarrow>
          attempted (inventory_call C (\<lambda>E. asset_exists E kind asset)) (fault_answer [(value_errors, 422), (runtime_errors, 503)]) (\<lambda>found.
            if \<not> found then answers (http_error 404 ''Asset not found in its owning service'')
            else safe_store C (\<lambda>now u a. create_note now u a (cn_actor C) kind asset note) (\<lambda>j. answers (http_ok j)))
      | _ \<Rightarrow> answers unprocessable)"

definition update_note_route :: "'b console \<Rightarrow> string \<Rightarrow> obj \<Rightarrow> 'b handler" where
  "update_note_route C i d =
     (case (text_field d ''note'' 1 1000, version_field C d) of
        (Some note, Some v) \<Rightarrow>
          safe_store C (\<lambda>now u a. update_note (cn_uuid C) now a (cn_actor C) i note v) (\<lambda>j. answers (http_ok j))
      | _ \<Rightarrow> answers unprocessable)"

definition delete_note_route :: "'b console \<Rightarrow> string \<Rightarrow> obj \<Rightarrow> 'b handler" where
  "delete_note_route C i d =
     (case version_field C d of
        Some v \<Rightarrow> safe_store C (\<lambda>now u a. delete_note (cn_uuid C) now a (cn_actor C) i v) (\<lambda>j. answers (http_ok j))
      | None \<Rightarrow> answers unprocessable)"

definition draft_route :: "'b console \<Rightarrow> obj \<Rightarrow> 'b handler" where
  "draft_route C d =
     (case (plain_text d ''environmentId'', text_field d ''reason'' 10 1000, plain_text d ''confirmation'') of
        (Some i, Some reason, Some confirmation) \<Rightarrow>
          attempted (preview_call (cn_site C) i) (fault_answer [(value_errors, 422)]) (\<lambda>snapshot.
            if \<not> truthy (obj_get snapshot ''found'')
            then answers (http_error (if obj_get snapshot ''status'' = JStr ''not_found'' then 404 else 503)
                   ''Environment not available for preflight'')
            else safe_store C (\<lambda>now u a. request_cleanup now u a (cn_actor C) snapshot reason confirmation) (\<lambda>j. answers (http_ok j)))
      | _ \<Rightarrow> answers unprocessable)"

definition cancel_request_route :: "'b console \<Rightarrow> string \<Rightarrow> 'b handler" where
  "cancel_request_route C i =
     safe_store C (\<lambda>now u a. cancel_cleanup (cn_uuid C) now a (cn_actor C) i) (\<lambda>j. answers (http_ok j))"

section \<open>Lifecycle routes\<close>

definition capabilities_route :: "'b console \<Rightarrow> 'b handler" where
  "capabilities_route C = answers (http_ok (JObj
     [(''enabled'', JBool (client_enabled (cn_site C))), (''build'', JBool (ep_enabled (sc_build_end (cn_site C)))),
      (''publish'', JBool (ep_enabled (sc_publish_end (cn_site C)))), (''runner'', JBool (ep_enabled (sc_runner_end (cn_site C)))),
      (''consoleSchemaAutoInit'', JBool True)]))"

definition plan_route :: "'b console \<Rightarrow> string \<Rightarrow> 'b handler" where
  "plan_route C i =
     (if \<not> client_enabled (cn_site C)
      then answers (http_error 503 ''Configure Build, Publish and Runner owner-service lifecycle endpoints'')
      else attempted (cleanup_plan (site_coordinator (cn_site C)) i)
             (fault_answer [([''LifecycleUnavailable''], 503), (value_errors, 422)]) (\<lambda>d. answers (http_ok (JObj d))))"

definition execute_route :: "'b console \<Rightarrow> string \<Rightarrow> 'b handler" where
  "execute_route C i =
     (if \<not> client_enabled (cn_site C) then answers (http_error 503 ''Owner-service lifecycle APIs are not fully configured'')
      else attempted (site_cleanup (cn_site C) i)
             (fault_answer [([''LifecycleUnavailable''], 503), (value_errors, 409), (runtime_errors, 409)]) (\<lambda>d. answers (http_ok (JObj d))))"

definition execution_json :: "(int \<Rightarrow> json) \<Rightarrow> execution_row \<Rightarrow> json" where
  "execution_json time x =
     JObj [(''id'', JStr (ex_id x)), (''requestId'', JStr (ex_request x)), (''environmentId'', JStr (ex_env x)),
       (''status'', JStr (ex_status x)), (''message'', JStr (ex_message x)), (''startedBy'', JStr (ex_by x)),
       (''startedAt'', time (ex_started x)), (''finishedAt'', (case ex_finished x of None \<Rightarrow> JNull | Some t \<Rightarrow> time t)),
       (''updatedAt'', time (ex_updated x))]"

definition list_recent :: "(int \<Rightarrow> json) \<Rightarrow> int \<Rightarrow> json list admin_op" where
  "list_recent time limit db =
     (db, Inr (map (execution_json time) (latest ex_started (nat (max 1 (min limit 300))) (ab_executions db))))"

definition executions_route :: "'b console \<Rightarrow> console_request \<Rightarrow> 'b handler" where
  "executions_route C q =
     (case (case dict_get (wq_query q) ''limit'' of None \<Rightarrow> Some 100 | Some t \<Rightarrow> cn_int C (JStr t)) of
        None \<Rightarrow> answers unprocessable
      | Some limit \<Rightarrow>
          attempted (store_call (cn_site C) (\<lambda>now x a. list_recent (cn_time C) limit))
            (\<lambda>f. http_error 503 (''cleanup execution store unavailable: '' @ fault_class f))
            (\<lambda>l. answers (http_ok (JObj [(''executions'', JList l)]))))"

section \<open>The application\<close>

abbreviation "environments_path \<equiv> ''/admin/api/environments/''"
abbreviation "notes_path \<equiv> ''/admin/api/notes/''"
abbreviation "cleanup_path \<equiv> ''/admin/api/cleanup-requests/''"

definition console_get :: "'b console \<Rightarrow> console_request \<Rightarrow> 'b handler" where
  "console_get C q =
     (if wq_path q = ''/admin/api/overview'' then overview_route C
      else if wq_path q = ''/admin/api/lifecycle-capabilities'' then capabilities_route C
      else if wq_path q = ''/admin/api/cleanup-executions'' then executions_route C q
      else (case path_param environments_path ''/preview'' (wq_path q) of
              Some i \<Rightarrow> preview_route C i
            | None \<Rightarrow>
                (case path_param environments_path ''/lifecycle-plan'' (wq_path q) of
                   Some i \<Rightarrow> plan_route C i
                 | None \<Rightarrow> answers (case cn_static C (wq_path q) of Some a \<Rightarrow> a | None \<Rightarrow> not_found))))"

definition with_body :: "console_request \<Rightarrow> (obj \<Rightarrow> 'b handler) \<Rightarrow> 'b handler" where
  "with_body q k = (case body_obj q of None \<Rightarrow> answers unprocessable | Some d \<Rightarrow> k d)"

definition console_post :: "'b console \<Rightarrow> console_request \<Rightarrow> 'b handler" where
  "console_post C q =
     (if wq_path q = ''/admin/api/notes'' then with_body q (add_note_route C)
      else if wq_path q = ''/admin/api/cleanup-requests'' then with_body q (draft_route C)
      else (case path_param environments_path ''/retry'' (wq_path q) of
              Some k \<Rightarrow> console_retry_route C k
            | None \<Rightarrow>
                (case path_param cleanup_path ''/cancel'' (wq_path q) of
                   Some i \<Rightarrow> cancel_request_route C i
                 | None \<Rightarrow>
                     (case path_param cleanup_path ''/execute'' (wq_path q) of
                        Some i \<Rightarrow> execute_route C i
                      | None \<Rightarrow> answers not_found))))"

definition console_route :: "'b console \<Rightarrow> console_request \<Rightarrow> 'b handler" where
  "console_route C q =
     (if wq_method q = ''GET'' then console_get C q
      else if wq_method q = ''POST'' then console_post C q
      else if wq_method q = ''PATCH'' \<or> wq_method q = ''DELETE''
      then (case path_param notes_path [] (wq_path q) of
              None \<Rightarrow> answers not_found
            | Some i \<Rightarrow> with_body q (if wq_method q = ''PATCH'' then update_note_route C i else delete_note_route C i))
      else answers not_found)"

text \<open>The middleware around the routes; an exception that no route catches goes through it.\<close>

definition console_serve :: "'b console \<Rightarrow> console_request \<Rightarrow> 'b site \<Rightarrow> 'b site \<times> http_answer \<times> (string, string) dict" where
  "console_serve C q s =
     (if wq_method q \<in> set changing_methods \<and> \<not> same_origin C q then (s, refused_origin, [])
      else (case console_route C q s of (s1, a) \<Rightarrow> (s1, a, if a = server_error then [] else security_headers)))"

section \<open>What reading leaves alone\<close>

text \<open>The databases of the console and of the three services, as they were.\<close>

definition untouched_site :: "'b site \<Rightarrow> 'b site \<Rightarrow> bool" where
  "untouched_site s s' \<longleftrightarrow> si_admin s' = si_admin s \<and> si_build s' = si_build s \<and> si_publish s' = si_publish s \<and>
     lr_table (si_runner s') = lr_table (si_runner s) \<and> sv_db (lr_service (si_runner s')) = sv_db (lr_service (si_runner s))"

lemma untouched_refl [simp]: "untouched_site s s"
  by (simp add: untouched_site_def)

lemma untouched_trans: "untouched_site s s1 \<Longrightarrow> untouched_site s1 s2 \<Longrightarrow> untouched_site s s2"
  by (simp add: untouched_site_def)

definition reads_only :: "('b site \<Rightarrow> 'b site \<times> 'a) \<Rightarrow> bool" where
  "reads_only m \<longleftrightarrow> (\<forall>s. untouched_site s (fst (m s)))"

lemma reads_onlyD: "reads_only m \<Longrightarrow> m s = (s1, r) \<Longrightarrow> untouched_site s s1"
  by (metis fst_conv reads_only_def)

lemma reads_onlyI: "(\<And>s s1 r. m s = (s1, r) \<Longrightarrow> untouched_site s s1) \<Longrightarrow> reads_only m"
  by (metis prod.collapse reads_only_def)

lemma reads_attempted: "reads_only m \<Longrightarrow> (\<And>x. reads_only (k x)) \<Longrightarrow> reads_only (attempted m errors k)"
  by (rule reads_onlyI) (auto simp: attempted_def split: prod.splits sum.splits dest: reads_onlyD intro: untouched_trans)

lemma reads_bind: "reads_only m \<Longrightarrow> (\<And>x. reads_only (f x)) \<Longrightarrow> reads_only (bind m f)"
  by (rule reads_onlyI) (auto simp: bind_def split: prod.splits sum.splits dest: reads_onlyD intro: untouched_trans)

lemma reads_basics [simp]: "reads_only (answers a)" "reads_only (pass x)" "reads_only (inventory_call C f)" "reads_only (preview_call S i)"
  by (simp_all add: reads_only_def answers_def pass_def inventory_call_def preview_call_def untouched_site_def)

lemma reads_store: "(\<And>now x a db. fst (m now x a db) = db) \<Longrightarrow> reads_only (store_call S m)"
proof (rule reads_onlyI)
  fix s s1 r
  assume m: "\<And>now x a db. fst (m now x a db) = db" and r: "store_call S m s = (s1, r)"
  let ?e = "sc_env S (si_calls s)"
  have "fst (stored (ce_store ?e) (m (ce_us ?e) (sc_ids S (si_calls s)) (sc_audits S (si_calls s))) (si_admin s)) = si_admin s"
    by (simp add: stored_def m)
  with r show "untouched_site s s1" by (auto simp: store_call_def Let_def untouched_site_def split: prod.splits)
qed

lemma reads_build_plan: "reads_only (client_build_plan S i)"
proof (rule reads_onlyI)
  fix s s1 r
  assume "client_build_plan S i s = (s1, r)"
  moreover have "fst (build_serve B now q db) = db" if "hq_method q = ''GET''" for B now q db
    using that by (auto simp: build_serve_def cleanup_plan_route_def admin_route_def split: option.splits)
  then have "fst (client_request sh p n (\<lambda>q db. apsnd Some (build_serve B now q db)) ''GET'' path None db) = db" for sh p n B now path db
    by (auto simp: client_request_def Let_def split: net.splits prod.splits option.splits) (metis apsnd_conv fst_conv http_request.select_convs(1) prod.collapse)+
  ultimately show "untouched_site s s1"
    by (auto simp: client_build_plan_def build_call_def Let_def untouched_site_def split: prod.splits) (metis fst_conv)+
qed

lemma runner_get_reads: "runner_serve R us ms query q L = (L1, a) \<Longrightarrow> hq_method q = ''GET'' \<Longrightarrow>
    lr_table L1 = lr_table L \<and> sv_db (lr_service L1) = sv_db (lr_service L)"
  by (auto simp: runner_serve_def do_get_def admin_guard_def get_route_def runtime_image_status_def Let_def
      split: sum.splits bool.splits if_splits prod.splits option.splits)

lemma reads_runner_status: "reads_only (client_runner_status S img)"
proof (rule reads_onlyI)
  fix s s1 r
  assume a: "client_runner_status S img s = (s1, r)"
  have keep: "lr_table L1 = lr_table L \<and> sv_db (lr_service L1) = sv_db (lr_service L)"
    if "client_request sh p n (runner_serve R us ms query) ''GET'' path body L = (L1, x)" for sh p n R us ms query path body L L1 x
    using that
    by (auto simp: client_request_def Let_def dest: runner_get_reads split: if_splits net.splits prod.splits option.splits)
      (metis http_request.select_convs(1) prod.collapse runner_get_reads)+
  show "untouched_site s s1"
    using a by (auto simp: client_runner_status_def runner_call_def Let_def untouched_site_def split: prod.splits dest: keep)
qed

lemma reads_plan: "reads_only (cleanup_plan (site_coordinator S) i)"
  unfolding cleanup_plan_def Let_def
  by (auto intro!: reads_bind reads_build_plan reads_runner_status)

lemma reads_get: "reads_only (console_get C q)"
proof -
  have "reads_only (overview_call C)"
    unfolding overview_call_def using reads_store [of "\<lambda>now x a. store_overview (cn_time C)" "cn_site C"]
    by (auto simp: reads_only_def store_overview_def)
  then have "reads_only (overview_route C)"
    by (intro reads_onlyI) (auto simp: overview_route_def Let_def split: prod.splits
        dest!: reads_onlyD [of "overview_call C"] reads_onlyD [OF reads_basics(3)] intro: untouched_trans)
  moreover have "reads_only (executions_route C q)"
    unfolding executions_route_def by (auto split: option.split intro!: reads_attempted reads_store simp: list_recent_def)
  ultimately show ?thesis
    unfolding console_get_def capabilities_route_def preview_route_def plan_route_def
    by (auto split: option.split intro!: reads_attempted reads_plan)
qed

text \<open>C26: Safety of the console against requests from other pages: without the console's origin, its header and a JSON body, no
  request of whatever method changes the console's tables or the databases of the build service, the publish service or the
  runner; one that asks for a change is answered with 403.\<close>

theorem changes_need_same_origin:
  assumes "\<not> (wq_method q \<in> set changing_methods \<and> same_origin C q)"
  shows "untouched_site s (fst (console_serve C q s)) \<and>
    (wq_method q \<in> set changing_methods \<longrightarrow> console_serve C q s = (s, refused_origin, []))"
proof (cases "wq_method q \<in> set changing_methods")
  case True
  then show ?thesis using assms by (simp add: console_serve_def)
next
  case False
  then have "wq_method q \<noteq> ''POST''" "wq_method q \<noteq> ''PATCH''" "wq_method q \<noteq> ''DELETE''" by (auto simp: changing_methods_def)
  then have "reads_only (console_route C q)" by (simp add: console_route_def reads_get)
  then show ?thesis using False by (auto simp: console_serve_def split: prod.splits dest: reads_onlyD)
qed

section \<open>Retries\<close>

lemma retry_recorded:
  assumes "record_retry C action i s = (s1, Inr x)"
  shows "si_build s1 = si_build s \<and> (\<exists>e. ab_audit (si_admin s1) = ab_audit (si_admin s) @ [e] \<and> au_id e \<notin> au_id ` set (ab_audit (si_admin s)) \<and>
    au_actor e = cn_actor C \<and> au_action e = action \<and> au_resource e = i)"
proof -
  let ?e = "sc_env (cn_site C) (si_calls s)" and ?a = "sc_audits (cn_site C) (si_calls s)"
  obtain db r where r: "stored (ce_store ?e) (record_action (ce_us ?e) ?a (cn_actor C) action ''build_environment'' i) (si_admin s) = (db, Inr r)"
    and s1: "s1 = s\<lparr>si_admin := db, si_calls := Suc (si_calls s)\<rparr>"
    using assms by (auto simp: record_retry_def store_call_def Let_def split: prod.splits sum.splits) (metis map_sum.simps(1) old.sum.exhaust sum.distinct(1))
  from r show ?thesis
    unfolding s1 by (auto simp: stored_def record_action_def audited_def audit_def storage_unavailable_def split: if_splits sum.splits)
qed

lemma record_fails: "record_retry C action i s = (s1, r) \<Longrightarrow> si_build s1 = si_build s \<and> set (ab_audit (si_admin s)) \<subseteq> set (ab_audit (si_admin s1))"
  by (auto simp: record_retry_def store_call_def stored_def record_action_def audited_def audit_def Let_def
      split: prod.splits if_splits sum.splits)

lemma record_keeps: "record_retry C action i s = (s1, r) \<Longrightarrow> x \<in> set (ab_audit (si_admin s)) \<Longrightarrow> x \<in> set (ab_audit (si_admin s1))"
  using record_fails by blast

text \<open>C27: Order of a retry: the build service's tables change only when the console has first found the environment of that key
  FAILED and without an active build, and has written the audit event of the attempt, by its actor and on that environment.\<close>

theorem retry_needs_audited_failure:
  assumes "console_retry_route C k s = (s', a)" "si_build s' \<noteq> si_build s"
  shows "\<exists>e \<in> set (bd_envs (si_build s)). ev_key e = k \<and> ev_status e = Failed \<and> count_active_build_jobs (ev_id e) (si_build s) = 0 \<and>
    (\<exists>x \<in> set (ab_audit (si_admin s')) - set (ab_audit (si_admin s)).
       au_action x = ''build.retry.attempt'' \<and> au_actor x = cn_actor C \<and> au_resource x = ev_id e)"
proof -
  let ?s1 = "s\<lparr>si_calls := Suc (si_calls s)\<rparr>"
  have enabled: "retry_enabled C" using assms by (auto simp: console_retry_route_def answers_def split: if_splits)
  obtain checked where c: "retry_preflight k (inventory_at (cn_site C) s) = Inr checked"
    using assms by (cases "retry_preflight k (inventory_at (cn_site C) s)")
      (auto simp: console_retry_route_def enabled attempted_def inventory_call_def)
  obtain e where e: "e \<in> set (bd_envs (si_build s))" "ev_key e = k" "ev_status e = Failed" "count_active_build_jobs (ev_id e) (si_build s) = 0"
    and checked: "json_str (get_field checked ''id'') = ev_id e"
    using c by (auto simp: retry_preflight_def inventory_at_def Let_def get_field_def json_str_def dict_get_or_def
        split: if_splits option.splits dest!: find_SomeD)
  let ?rec = "record_retry C ''build.retry.attempt'' (ev_id e) ?s1"
  have run: "attempted (record_retry C ''build.retry.attempt'' (ev_id e)) store_fault (\<lambda>_.
      attempted (client_retry C (json_str (get_field checked ''envKey''))) retry_answer (retry_confirmed C (ev_id e))) ?s1 = (s', a)"
    using assms(1) c checked by (simp add: console_retry_route_def enabled attempted_def [of "inventory_call C _"] inventory_call_def Let_def)
  obtain s2 r where s2: "?rec = (s2, r)" by fastforce
  obtain j where r: "r = Inr j"
    using run s2 assms(2) record_fails [OF s2] by (cases r) (auto simp: attempted_def)
  obtain x where x: "ab_audit (si_admin s2) = ab_audit (si_admin s) @ [x]" "au_id x \<notin> au_id ` set (ab_audit (si_admin s))"
    "au_actor x = cn_actor C" "au_action x = ''build.retry.attempt''" "au_resource x = ev_id e"
    using retry_recorded [OF s2 [unfolded r]] by auto
  have "set (ab_audit (si_admin s2)) \<subseteq> set (ab_audit (si_admin s'))"
  proof -
    obtain s3 r3 where s3: "client_retry C (json_str (get_field checked ''envKey'')) s2 = (s3, r3)" by fastforce
    have keep: "si_admin s3 = si_admin s2"
      using s3 by (auto simp: client_retry_def Let_def split: prod.splits if_splits net.splits)
    show ?thesis
      using run s2 s3 r keep
      by (cases r3) (auto simp: attempted_def retry_confirmed_def split: prod.splits sum.splits dest: record_keeps)
  qed
  then have "x \<in> set (ab_audit (si_admin s')) - set (ab_audit (si_admin s))" using x(1,2) by auto
  with e x show ?thesis by blast
qed

section \<open>A small console\<close>

definition small_console :: "unit console" where
  "small_console =
     \<lparr>cn_site = (tiny_site (\<lambda>_. Answered))\<lparr>sc_inventory := \<lparr>ie_uuid = (\<lambda>i. Some (ascii_lower i)), ie_postgres = site_postgres, ie_time = JInt\<rparr>\<rparr>,
      cn_origin = ''https://console'', cn_dsn = True, cn_retry_url = ''http://build'', cn_retry_token = [], cn_tools = tiny_tools,
      cn_settings = tiny_settings, cn_report = (\<lambda>_. Inr (JObj [])), cn_static = (\<lambda>_. None), cn_int = (\<lambda>_. None)\<rparr>"

definition foreign_request :: console_request where
  "foreign_request =
     \<lparr>wq_method = ''POST'', wq_scheme = ''https'', wq_path = ''/admin/api/environments/k/retry'',
      wq_headers = [(''origin'', ''https://other''), (''x-admin-request'', ''1''), (''content-type'', ''application/json'')],
      wq_query = [], wq_body = Some (JObj [])\<rparr>"

definition failed_console :: "unit site" where
  "failed_console = tiny_console\<lparr>si_build :=
     \<lparr>bd_envs = [tiny_row\<lparr>ev_status := Failed, ev_image := None\<rparr>],
      bd_aliases = [\<lparr>al_key = ''k'', al_env = ''e'', al_kind = Exact, al_created = 0\<rparr>], bd_jobs = []\<rparr>\<rparr>"

lemma changes_need_same_origin_witness:
  "console_serve small_console foreign_request failed_console = (failed_console, refused_origin, [])"
proof -
  have "\<not> same_origin small_console foreign_request" "wq_method foreign_request \<in> set changing_methods" by code_simp+
  then show ?thesis using changes_need_same_origin [of foreign_request small_console failed_console] by simp
qed

lemma retry_needs_audited_failure_witness:
  "\<exists>x \<in> set (ab_audit (si_admin (fst (console_retry_route small_console ''k'' failed_console)))).
     au_action x = ''build.retry.attempt'' \<and> au_resource x = ''e''"
proof -
  have changed: "length (bd_jobs (si_build (fst (console_retry_route small_console ''k'' failed_console)))) \<noteq> length (bd_jobs (si_build failed_console))"
    by code_simp
  have "\<exists>e \<in> set (bd_envs (si_build failed_console)). ev_key e = ''k'' \<and> ev_status e = Failed \<and>
    count_active_build_jobs (ev_id e) (si_build failed_console) = 0 \<and>
    (\<exists>x \<in> set (ab_audit (si_admin (fst (console_retry_route small_console ''k'' failed_console)))) - set (ab_audit (si_admin failed_console)).
       au_action x = ''build.retry.attempt'' \<and> au_actor x = cn_actor small_console \<and> au_resource x = ev_id e)"
    by (rule retry_needs_audited_failure [OF prod.collapse [symmetric]]) (use changed in metis)
  then show ?thesis by (auto simp: failed_console_def tiny_row_def)
qed

text \<open>The inventory looks an asset up by the identifier \<open>UUID\<close> prints, the note keeps the text that was sent: one asset gets
  two notes.\<close>

definition note_body :: "string \<Rightarrow> obj" where
  "note_body i = [(''assetType'', JStr ''build_environment''), (''assetId'', JStr i), (''note'', JStr ''x'')]"

lemma one_asset_two_notes:
  "map nt_asset (ab_notes (si_admin (fst (add_note_route small_console (note_body ''E'')
     (fst (add_note_route small_console (note_body ''e'') failed_console)))))) = [''e'', ''E'']"
  by code_simp

end
