(* ===== verification/Os_Files.thy ===== *)
theory Os_Files
  imports Text "HOL-Library.Sublist"
begin

text \<open>
  The functions of Python's \<open>os\<close> that the path layer of a child process wraps, over a POSIX file system: a tree of
  folders, regular files and symbolic links (the entries by the path of their components), the files by number, so
  that hard links share one, and the current directory. Permissions and \<open>umask\<close> are left out, a trailing slash
  is ignored, and the text of an \<open>OSError\<close> is not kept.
\<close>

section \<open>The state\<close>

record attrs =
  at_mode :: nat
  at_time :: int

datatype entry = Folder attrs | Regular nat | Link string

record content =
  fl_data :: bytes
  fl_attrs :: attrs

record os =
  os_tree :: "(path, entry) dict"
  os_files :: "content list"
  os_cwd :: path
  os_now :: int

section \<open>Errors\<close>

definition enoent :: exn where "enoent = PyError ''FileNotFoundError'' []"
definition eexist :: exn where "eexist = PyError ''FileExistsError'' []"
definition enotdir :: exn where "enotdir = PyError ''NotADirectoryError'' []"
definition eisdir :: exn where "eisdir = PyError ''IsADirectoryError'' []"
definition eperm :: exn where "eperm = PyError ''PermissionError'' []"
definition os_error :: "string \<Rightarrow> exn" where "os_error name = PyError ''OSError'' name"

section \<open>Paths\<close>

definition path_text :: "path \<Rightarrow> string" where
  "path_text p = ''/'' @ join_with ''/'' p"

text \<open>The kernel's walk from the folder \<open>cur\<close> along \<open>rest\<close>: the path of the entry, which may be missing in its
  folder. \<open>n\<close> links are followed at most.\<close>

fun walk :: "(path, entry) dict \<Rightarrow> nat \<Rightarrow> bool \<Rightarrow> path \<Rightarrow> path \<Rightarrow> exn + path" where
  "walk t n follow cur [] = Inr cur"
| "walk t n follow cur (c # rest) =
     (if c = ''..'' then walk t n follow (butlast cur) rest
      else (case dict_get t cur of
              Some (Folder _) \<Rightarrow>
                (case dict_get t (cur @ [c]) of
                   None \<Rightarrow> if rest = [] then Inr (cur @ [c]) else Inl enoent
                 | Some (Folder _) \<Rightarrow> walk t n follow (cur @ [c]) rest
                 | Some (Regular _) \<Rightarrow> if rest = [] then Inr (cur @ [c]) else Inl enotdir
                 | Some (Link target) \<Rightarrow>
                     if rest = [] \<and> \<not> follow then Inr (cur @ [c])
                     else (case n of
                             0 \<Rightarrow> Inl (os_error ''ELOOP'')
                           | Suc k \<Rightarrow> walk t k follow (if is_absolute target then [] else cur) (path_parts target @ rest)))
            | Some (Regular _) \<Rightarrow> Inl enotdir
            | _ \<Rightarrow> Inl enoent))"

definition MAX_LINKS :: nat where
  "MAX_LINKS = 40"

definition located :: "os \<Rightarrow> bool \<Rightarrow> string \<Rightarrow> exn + path" where
  "located S follow s =
     (if s = [] then Inl enoent else walk (os_tree S) MAX_LINKS follow (if is_absolute s then [] else os_cwd S) (path_parts s))"

definition lookup :: "os \<Rightarrow> bool \<Rightarrow> string \<Rightarrow> exn + path \<times> entry" where
  "lookup S follow s =
     (case located S follow s of
        Inl e \<Rightarrow> Inl e
      | Inr p \<Rightarrow> (case dict_get (os_tree S) p of None \<Rightarrow> Inl enoent | Some x \<Rightarrow> Inr (p, x)))"

definition children :: "os \<Rightarrow> path \<Rightarrow> string list" where
  "children S p = map (last \<circ> fst) (filter (\<lambda>(q, _). q \<noteq> [] \<and> butlast q = p) (os_tree S))"

section \<open>Reading\<close>

datatype kind = IsFolder | IsRegular | IsLink

record file_stat =
  st_kind :: kind
  st_attrs :: attrs
  st_size :: nat

definition no_attrs :: attrs where
  "no_attrs = \<lparr>at_mode = 511, at_time = 0\<rparr>"

definition stat_of :: "os \<Rightarrow> entry \<Rightarrow> file_stat" where
  "stat_of S x =
     (case x of
        Folder a \<Rightarrow> \<lparr>st_kind = IsFolder, st_attrs = a, st_size = 0\<rparr>
      | Regular i \<Rightarrow> \<lparr>st_kind = IsRegular, st_attrs = fl_attrs (os_files S ! i), st_size = length (fl_data (os_files S ! i))\<rparr>
      | Link target \<Rightarrow> \<lparr>st_kind = IsLink, st_attrs = no_attrs, st_size = length target\<rparr>)"

definition os_stat :: "bool \<Rightarrow> string \<Rightarrow> os \<Rightarrow> exn + file_stat" where
  "os_stat follow s S = map_sum id (\<lambda>(p, x). stat_of S x) (lookup S follow s)"

definition os_lstat :: "string \<Rightarrow> os \<Rightarrow> exn + file_stat" where
  "os_lstat = os_stat False"

definition os_listdir :: "string \<Rightarrow> os \<Rightarrow> exn + string list" where
  "os_listdir s S =
     (case lookup S True s of
        Inl e \<Rightarrow> Inl e
      | Inr (p, Folder _) \<Rightarrow> Inr (children S p)
      | Inr _ \<Rightarrow> Inl enotdir)"

definition os_readlink :: "string \<Rightarrow> os \<Rightarrow> exn + string" where
  "os_readlink s S =
     (case lookup S False s of
        Inl e \<Rightarrow> Inl e
      | Inr (p, Link target) \<Rightarrow> Inr target
      | Inr _ \<Rightarrow> Inl (os_error ''EINVAL''))"

definition os_getcwd :: "os \<Rightarrow> exn + string" where
  "os_getcwd S = (if dict_get (os_tree S) (os_cwd S) = None then Inl enoent else Inr (path_text (os_cwd S)))"

section \<open>Writing\<close>

definition put_entry :: "path \<Rightarrow> entry \<Rightarrow> os \<Rightarrow> os" where
  "put_entry p x S = S\<lparr>os_tree := dict_set p x (os_tree S)\<rparr>"

definition drop_entry :: "path \<Rightarrow> os \<Rightarrow> os" where
  "drop_entry p S = S\<lparr>os_tree := dict_pop p (os_tree S)\<rparr>"

definition set_file :: "nat \<Rightarrow> (content \<Rightarrow> content) \<Rightarrow> os \<Rightarrow> os" where
  "set_file i f S = S\<lparr>os_files := (os_files S)[i := f (os_files S ! i)]\<rparr>"

text \<open>A new regular file.\<close>

definition create_file :: "path \<Rightarrow> content \<Rightarrow> os \<Rightarrow> os" where
  "create_file p f S = put_entry p (Regular (length (os_files S))) (S\<lparr>os_files := os_files S @ [f]\<rparr>)"

record flags =
  fg_read :: bool
  fg_write :: bool
  fg_create :: bool
  fg_excl :: bool
  fg_trunc :: bool
  fg_append :: bool

text \<open>An open file, \<open>None\<close> for a folder.\<close>

record handle =
  hd_file :: "nat option"
  hd_flags :: flags

definition os_open :: "flags \<Rightarrow> nat \<Rightarrow> string \<Rightarrow> os \<Rightarrow> os \<times> (exn + handle)" where
  "os_open fl mode s S =
     (let fresh = fg_create fl \<and> fg_excl fl in
      case located S (\<not> fresh) s of
        Inl e \<Rightarrow> (S, Inl e)
      | Inr p \<Rightarrow>
          (case dict_get (os_tree S) p of
             None \<Rightarrow>
               if fg_create fl
               then (create_file p \<lparr>fl_data = [], fl_attrs = \<lparr>at_mode = mode, at_time = os_now S\<rparr>\<rparr> S,
                     Inr \<lparr>hd_file = Some (length (os_files S)), hd_flags = fl\<rparr>)
               else (S, Inl enoent)
           | Some (Folder _) \<Rightarrow>
               if fresh then (S, Inl eexist)
               else if fg_write fl \<or> fg_create fl then (S, Inl eisdir)
               else (S, Inr \<lparr>hd_file = None, hd_flags = fl\<rparr>)
           | Some (Regular i) \<Rightarrow>
               if fresh then (S, Inl eexist)
               else (if fg_trunc fl then set_file i (\<lambda>f. f\<lparr>fl_data := []\<rparr>) S else S, Inr \<lparr>hd_file = Some i, hd_flags = fl\<rparr>)
           | Some (Link _) \<Rightarrow> (S, Inl (if fresh then eexist else os_error ''ELOOP''))))"

text \<open>The whole content through an open file, and the first write after the file was opened.\<close>

definition fd_read :: "handle \<Rightarrow> os \<Rightarrow> exn + bytes" where
  "fd_read h S =
     (case hd_file h of
        None \<Rightarrow> Inl eisdir
      | Some i \<Rightarrow> if fg_read (hd_flags h) then Inr (fl_data (os_files S ! i)) else Inl (os_error ''EBADF''))"

definition fd_write :: "handle \<Rightarrow> bytes \<Rightarrow> os \<Rightarrow> os \<times> (exn + unit)" where
  "fd_write h data S =
     (case hd_file h of
        None \<Rightarrow> (S, Inl (os_error ''EBADF''))
      | Some i \<Rightarrow>
          if \<not> fg_write (hd_flags h) then (S, Inl (os_error ''EBADF''))
          else (set_file i (\<lambda>f. f\<lparr>fl_data := (if fg_append (hd_flags h) then fl_data f @ data
                                          else data @ drop (length data) (fl_data f)),
                             fl_attrs := (fl_attrs f)\<lparr>at_time := os_now S\<rparr>\<rparr>) S, Inr ()))"

definition os_mkdir :: "nat \<Rightarrow> string \<Rightarrow> os \<Rightarrow> os \<times> (exn + unit)" where
  "os_mkdir mode s S =
     (case located S False s of
        Inl e \<Rightarrow> (S, Inl e)
      | Inr p \<Rightarrow>
          if dict_get (os_tree S) p \<noteq> None then (S, Inl eexist)
          else (put_entry p (Folder \<lparr>at_mode = mode, at_time = os_now S\<rparr>) S, Inr ()))"

definition os_unlink :: "string \<Rightarrow> os \<Rightarrow> os \<times> (exn + unit)" where
  "os_unlink s S =
     (case lookup S False s of
        Inl e \<Rightarrow> (S, Inl e)
      | Inr (p, Folder _) \<Rightarrow> (S, Inl eisdir)
      | Inr (p, _) \<Rightarrow> (drop_entry p S, Inr ()))"

definition os_rmdir :: "string \<Rightarrow> os \<Rightarrow> os \<times> (exn + unit)" where
  "os_rmdir s S =
     (case lookup S False s of
        Inl e \<Rightarrow> (S, Inl e)
      | Inr (p, Folder _) \<Rightarrow>
          if p = [] then (S, Inl (os_error ''EBUSY''))
          else if children S p \<noteq> [] then (S, Inl (os_error ''ENOTEMPTY''))
          else (drop_entry p S, Inr ())
      | Inr _ \<Rightarrow> (S, Inl enotdir))"

text \<open>\<open>rename(2)\<close>, which is also \<open>os.replace\<close>.\<close>

definition moved :: "path \<Rightarrow> path \<Rightarrow> (path, entry) dict \<Rightarrow> (path, entry) dict" where
  "moved p q t = map (\<lambda>(k, x). (if prefix p k then q @ drop (length p) k else k, x)) (dict_pop q t)"

definition move_target :: "os \<Rightarrow> path \<Rightarrow> entry \<Rightarrow> path \<Rightarrow> exn + unit" where
  "move_target S p x q =
     (case x of
        Folder _ \<Rightarrow>
          if prefix p q then Inl (os_error ''EINVAL'')
          else (case dict_get (os_tree S) q of
                  None \<Rightarrow> Inr ()
                | Some (Folder _) \<Rightarrow> if children S q = [] then Inr () else Inl (os_error ''ENOTEMPTY'')
                | Some _ \<Rightarrow> Inl enotdir)
      | _ \<Rightarrow> (case dict_get (os_tree S) q of Some (Folder _) \<Rightarrow> Inl eisdir | _ \<Rightarrow> Inr ()))"

definition same_file :: "entry \<Rightarrow> entry option \<Rightarrow> bool" where
  "same_file x y = (case (x, y) of (Regular i, Some (Regular j)) \<Rightarrow> i = j | _ \<Rightarrow> False)"

definition os_rename :: "string \<Rightarrow> string \<Rightarrow> os \<Rightarrow> os \<times> (exn + unit)" where
  "os_rename src dst S =
     (case lookup S False src of
        Inl e \<Rightarrow> (S, Inl e)
      | Inr (p, x) \<Rightarrow>
          (case located S False dst of
             Inl e \<Rightarrow> (S, Inl e)
           | Inr q \<Rightarrow>
               if p = [] \<or> q = [] then (S, Inl (os_error ''EBUSY''))
               else if p = q \<or> same_file x (dict_get (os_tree S) q) then (S, Inr ())
               else (case move_target S p x q of
                       Inl e \<Rightarrow> (S, Inl e)
                     | Inr _ \<Rightarrow> (S\<lparr>os_tree := moved p q (os_tree S)\<rparr>, Inr ()))))"

definition os_symlink :: "string \<Rightarrow> string \<Rightarrow> os \<Rightarrow> os \<times> (exn + unit)" where
  "os_symlink target s S =
     (case located S False s of
        Inl e \<Rightarrow> (S, Inl e)
      | Inr p \<Rightarrow>
          if target = [] then (S, Inl enoent)
          else if dict_get (os_tree S) p \<noteq> None then (S, Inl eexist)
          else (put_entry p (Link target) S, Inr ()))"

text \<open>\<open>link(2)\<close> does not follow a link.\<close>

definition os_link :: "string \<Rightarrow> string \<Rightarrow> os \<Rightarrow> os \<times> (exn + unit)" where
  "os_link src dst S =
     (case lookup S False src of
        Inl e \<Rightarrow> (S, Inl e)
      | Inr (p, x) \<Rightarrow>
          (case located S False dst of
             Inl e \<Rightarrow> (S, Inl e)
           | Inr q \<Rightarrow>
               if dict_get (os_tree S) q \<noteq> None then (S, Inl eexist)
               else (case x of Folder _ \<Rightarrow> (S, Inl eperm) | _ \<Rightarrow> (put_entry q x S, Inr ()))))"

definition set_attrs :: "path \<Rightarrow> entry \<Rightarrow> (attrs \<Rightarrow> attrs) \<Rightarrow> os \<Rightarrow> os" where
  "set_attrs p x f S =
     (case x of
        Folder a \<Rightarrow> put_entry p (Folder (f a)) S
      | Regular i \<Rightarrow> set_file i (\<lambda>y. y\<lparr>fl_attrs := f (fl_attrs y)\<rparr>) S
      | Link _ \<Rightarrow> S)"

definition os_chmod :: "nat \<Rightarrow> bool \<Rightarrow> string \<Rightarrow> os \<Rightarrow> os \<times> (exn + unit)" where
  "os_chmod mode follow s S =
     (if \<not> follow then (S, Inl (PyError ''NotImplementedError'' []))
      else (case lookup S True s of
              Inl e \<Rightarrow> (S, Inl e)
            | Inr (p, x) \<Rightarrow> (set_attrs p x (\<lambda>a. a\<lparr>at_mode := mode\<rparr>) S, Inr ())))"

definition os_utime :: "int \<Rightarrow> bool \<Rightarrow> string \<Rightarrow> os \<Rightarrow> os \<times> (exn + unit)" where
  "os_utime time follow s S =
     (case lookup S follow s of
        Inl e \<Rightarrow> (S, Inl e)
      | Inr (p, x) \<Rightarrow> (set_attrs p x (\<lambda>a. a\<lparr>at_time := time\<rparr>) S, Inr ()))"

definition os_truncate :: "nat \<Rightarrow> string \<Rightarrow> os \<Rightarrow> os \<times> (exn + unit)" where
  "os_truncate n s S =
     (case lookup S True s of
        Inl e \<Rightarrow> (S, Inl e)
      | Inr (p, Regular i) \<Rightarrow> (set_file i (\<lambda>f. f\<lparr>fl_data := take n (fl_data f @ replicate n 0)\<rparr>) S, Inr ())
      | Inr _ \<Rightarrow> (S, Inl eisdir))"

definition os_chdir :: "string \<Rightarrow> os \<Rightarrow> os \<times> (exn + unit)" where
  "os_chdir s S =
     (case lookup S True s of
        Inl e \<Rightarrow> (S, Inl e)
      | Inr (p, Folder _) \<Rightarrow> (S\<lparr>os_cwd := p\<rparr>, Inr ())
      | Inr _ \<Rightarrow> (S, Inl enotdir))"

section \<open>Copies\<close>

text \<open>\<open>shutil.copy2\<close> of a regular file to a path that is free: content, mode and time.\<close>

definition copy_file :: "string \<Rightarrow> string \<Rightarrow> os \<Rightarrow> os \<times> (exn + unit)" where
  "copy_file src dst S =
     (case lookup S False src of
        Inr (p, Regular i) \<Rightarrow>
          (case located S True dst of
             Inl e \<Rightarrow> (S, Inl e)
           | Inr q \<Rightarrow>
               (case dict_get (os_tree S) q of
                  None \<Rightarrow> (create_file q (os_files S ! i) S, Inr ())
                | Some (Regular j) \<Rightarrow> (set_file j (\<lambda>_. os_files S ! i) S, Inr ())
                | Some _ \<Rightarrow> (S, Inl eisdir)))
      | Inr _ \<Rightarrow> (S, Inl eisdir)
      | Inl e \<Rightarrow> (S, Inl e))"

text \<open>One entry of a tree that is copied: files are copied, links stay links.\<close>

definition copy_entry :: "path \<Rightarrow> entry \<Rightarrow> os \<Rightarrow> os" where
  "copy_entry q x S = (case x of Regular i \<Rightarrow> create_file q (os_files S ! i) S | _ \<Rightarrow> put_entry q x S)"

text \<open>The entries below \<open>p\<close> that \<open>visible\<close> lets through, by their path below \<open>p\<close>.\<close>

definition below :: "(path \<Rightarrow> bool) \<Rightarrow> path \<Rightarrow> (path, entry) dict \<Rightarrow> (path, entry) dict" where
  "below visible p t = map (\<lambda>(k, x). (drop (length p) k, x)) (filter (\<lambda>(k, _). strict_prefix p k \<and> visible (drop (length p) k)) t)"

text \<open>\<open>shutil.copytree(symlinks=True)\<close> to a path that is free.\<close>

definition copy_tree :: "(path \<Rightarrow> bool) \<Rightarrow> string \<Rightarrow> string \<Rightarrow> os \<Rightarrow> os \<times> (exn + unit)" where
  "copy_tree visible src dst S =
     (case lookup S False src of
        Inr (p, Folder a) \<Rightarrow>
          (case located S False dst of
             Inl e \<Rightarrow> (S, Inl e)
           | Inr q \<Rightarrow>
               if dict_get (os_tree S) q \<noteq> None then (S, Inl eexist)
               else (fold (\<lambda>(k, x). copy_entry (q @ k) x) (below visible p (os_tree S)) (put_entry q (Folder a) S), Inr ()))
      | Inr _ \<Rightarrow> (S, Inl enotdir)
      | Inl e \<Rightarrow> (S, Inl e))"

end
