(* ===== verification/Path_Layer.thy ===== *)
theory Path_Layer
  imports Os_Files
begin

text \<open>
  runner_engine/worker/path_virtualization.py: the layer that redirects absolute paths of the user's code into
  \<open>absolute\<close> below the directory of the invocation, and hides what it has deleted behind tombstones. A method is a
  function of the layer's state, or does not return (\<open>None\<close>). Paths are texts; bytes are the same text. File
  descriptors and \<open>dir_fd\<close>, which go to the operating system as they are, are left out, as is the swap of the
  functions in \<open>builtins\<close>, \<open>io\<close> and \<open>os\<close>. The functions of \<open>shutil\<close> and \<open>pathlib\<close> that the layer calls end in
  its own methods, with the effect stated in Os_Files.
\<close>

section \<open>State and operations\<close>

record layer =
  ly_os :: os
  ly_root :: path
  ly_tombs :: "string list"

type_synonym 'a job = "layer \<Rightarrow> (layer \<times> (exn + 'a)) option"

definition done_with :: "'a \<Rightarrow> 'a job" where
  "done_with x L = Some (L, Inr x)"

definition raised :: "exn \<Rightarrow> 'a job" where
  "raised e L = Some (L, Inl e)"

definition after :: "'a job \<Rightarrow> ('a \<Rightarrow> 'b job) \<Rightarrow> 'b job" where
  "after m f L =
     (case m L of None \<Rightarrow> None | Some (L1, Inl e) \<Rightarrow> Some (L1, Inl e) | Some (L1, Inr x) \<Rightarrow> f x L1)"

text \<open>A handler for \<open>FileNotFoundError\<close>.\<close>

definition missing :: "'a job \<Rightarrow> 'a job \<Rightarrow> 'a job" where
  "missing m h L = (case m L of Some (L1, Inl (PyError c t)) \<Rightarrow> if c = ''FileNotFoundError'' then h L1 else m L | r \<Rightarrow> r)"

text \<open>The functions of \<open>os\<close> that the layer has kept.\<close>

definition asks :: "(os \<Rightarrow> exn + 'a) \<Rightarrow> 'a job" where
  "asks f L = Some (L, f (ly_os L))"

definition calls :: "(os \<Rightarrow> os \<times> (exn + 'a)) \<Rightarrow> 'a job" where
  "calls f L = (case f (ly_os L) of (S, r) \<Rightarrow> Some (L\<lparr>ly_os := S\<rparr>, r))"

definition absolute_root :: "layer \<Rightarrow> path" where
  "absolute_root L = ly_root L @ [''absolute'']"

section \<open>Logical paths\<close>

text \<open>\<open>posixpath.normpath\<close> of an absolute path, \<open>posixpath.join\<close> and \<open>posixpath.dirname\<close>.\<close>

definition normpath :: "string \<Rightarrow> string" where
  "normpath s =
     (if starts_with ''//'' s \<and> \<not> starts_with ''///'' s then ''/'' else []) @ path_text (resolve (path_parts s))"

definition posix_join :: "string \<Rightarrow> string \<Rightarrow> string" where
  "posix_join a b =
     (if is_absolute b then b else if a = [] \<or> last a = CHR ''/'' then a @ b else a @ ''/'' @ b)"

definition dirname :: "string \<Rightarrow> string" where
  "dirname s =
     (let head = rev (dropWhile (\<lambda>c. c \<noteq> CHR ''/'') (rev s)) in
      if list_all (\<lambda>c. c = CHR ''/'') head then head else rev (dropWhile (\<lambda>c. c = CHR ''/'') (rev head)))"

definition parent_text :: "string \<Rightarrow> string" where
  "parent_text s = (if dirname s = [] then ''/'' else dirname s)"

text \<open>\<open>Path.relative_to\<close> of a canonical path, as text.\<close>

definition relative_to :: "path \<Rightarrow> path \<Rightarrow> string option" where
  "relative_to root p =
     (if \<not> prefix root p then None
      else Some (if p = root then ''.'' else join_with ''/'' (drop (length root) p)))"

definition logical_absolute :: "string \<Rightarrow> string option job" where
  "logical_absolute s L =
     (if is_absolute s
      then (let n = normpath s; root = path_text (ly_root L) in
            done_with (if n = root \<or> starts_with (root @ ''/'') n then None else Some n) L)
      else after (asks os_getcwd) (\<lambda>cwd L.
             done_with (case relative_to (absolute_root L) (path_parts cwd) of
                          None \<Rightarrow> None
                        | Some r \<Rightarrow> Some (normpath (posix_join (''/'' @ r) s))) L) L)"

definition candidate :: "layer \<Rightarrow> string \<Rightarrow> string" where
  "candidate L logical = path_text (absolute_root L @ path_parts logical)"

section \<open>Tombstones\<close>

text \<open>The loop up the directories; it ends at the root only.\<close>

partial_function (option) tombstoned :: "string list \<Rightarrow> string \<Rightarrow> bool option" where
  "tombstoned tombs current =
     (if current \<in> set tombs then Some True
      else if current = ''/'' then Some False
      else tombstoned tombs (parent_text current))"

declare tombstoned.simps [code]

definition is_tombstoned :: "string \<Rightarrow> bool job" where
  "is_tombstoned logical L = map_option (\<lambda>b. (L, Inr b)) (tombstoned (ly_tombs L) logical)"

definition clear_tombstone :: "string \<Rightarrow> layer \<Rightarrow> layer" where
  "clear_tombstone logical L = L\<lparr>ly_tombs := removeAll logical (ly_tombs L)\<rparr>"

definition add_tombstone :: "string \<Rightarrow> unit job" where
  "add_tombstone logical L = Some (L\<lparr>ly_tombs := List.insert logical (ly_tombs L)\<rparr>, Inr ())"

definition exists_at :: "string \<Rightarrow> bool job" where
  "exists_at s = missing (after (asks (os_lstat s)) (\<lambda>_. done_with True)) (done_with False)"

definition candidate_exists :: "string \<Rightarrow> bool job" where
  "candidate_exists logical L = exists_at (candidate L logical) L"

section \<open>Reading and writing paths\<close>

definition read_path :: "string \<Rightarrow> string job" where
  "read_path s = after (logical_absolute s) (\<lambda>l.
     case l of
       None \<Rightarrow> done_with s
     | Some logical \<Rightarrow>
         after (candidate_exists logical) (\<lambda>found.
           if found then (\<lambda>L. done_with (candidate L logical) L)
           else after (is_tombstoned logical) (\<lambda>gone L. done_with (if gone then candidate L logical else s) L)))"

text \<open>\<open>Path.exists\<close>.\<close>

definition path_exists :: "string \<Rightarrow> bool job" where
  "path_exists s L = Some (L, Inr (case os_stat True s (ly_os L) of Inr _ \<Rightarrow> True | Inl _ \<Rightarrow> False))"

definition optional :: "'a job \<Rightarrow> 'a option job" where
  "optional m = missing (after m (\<lambda>x. done_with (Some x))) (done_with None)"

fun make_parents :: "path \<Rightarrow> string \<Rightarrow> path \<Rightarrow> unit job" where
  "make_parents [] real virtual = done_with ()"
| "make_parents (part # parts) real virtual =
     (let real1 = posix_join real part; virtual1 = virtual @ [part] in
      after (path_exists (path_text virtual1)) (\<lambda>found.
        if found then make_parents parts real1 virtual1
        else after (optional (asks (os_stat True real1))) (\<lambda>st.
               case st of
                 None \<Rightarrow> done_with ()
               | Some x \<Rightarrow>
                   if st_kind x \<noteq> IsFolder then done_with ()
                   else after (calls (os_mkdir 448 (path_text virtual1))) (\<lambda>_. make_parents parts real1 virtual1))))"

definition text_parts :: "string \<Rightarrow> path" where
  "text_parts s = filter (\<lambda>c. c \<noteq> []) (split_on CHR ''/'' s)"

definition materialize_existing_parents :: "string \<Rightarrow> unit job" where
  "materialize_existing_parents logical L =
     (if parent_text logical = ''/'' then done_with () L
      else make_parents (text_parts (parent_text logical)) ''/'' (absolute_root L) L)"

fun no_link_on :: "path \<Rightarrow> path \<Rightarrow> unit job" where
  "no_link_on [] current = done_with ()"
| "no_link_on (part # parts) current =
     after (optional (asks (os_lstat (path_text (current @ [part]))))) (\<lambda>st.
       case st of
         None \<Rightarrow> done_with ()
       | Some x \<Rightarrow> if st_kind x = IsLink then raised eperm else no_link_on parts (current @ [part]))"

definition assert_no_virtual_symlink_parent :: "string \<Rightarrow> unit job" where
  "assert_no_virtual_symlink_parent logical L = no_link_on (butlast (text_parts logical)) (absolute_root L) L"

text \<open>The visible part of a real tree: no tombstone on the way down from \<open>logical\<close>.\<close>

definition untouched :: "string list \<Rightarrow> string \<Rightarrow> path \<Rightarrow> bool" where
  "untouched tombs logical q = list_all (\<lambda>k. path_text (path_parts logical @ take (Suc k) q) \<notin> set tombs) [0..<length q]"

text \<open>Copies the entry \<open>logical\<close> of the real tree to its candidate.\<close>

definition copy_up :: "string \<Rightarrow> kind \<Rightarrow> unit job" where
  "copy_up logical k L =
     (case k of
        IsRegular \<Rightarrow> calls (copy_file logical (candidate L logical)) L
      | IsFolder \<Rightarrow> calls (copy_tree (untouched (ly_tombs L) logical) logical (candidate L logical)) L
      | IsLink \<Rightarrow> after (asks (os_readlink logical)) (\<lambda>target. calls (os_symlink target (candidate L logical))) L)"

definition write_path :: "bool \<Rightarrow> bool \<Rightarrow> string \<Rightarrow> string job" where
  "write_path copy_existing exclusive s = after (logical_absolute s) (\<lambda>l.
     case l of
       None \<Rightarrow> done_with s
     | Some logical \<Rightarrow>
         after (materialize_existing_parents logical) (\<lambda>_.
         after (assert_no_virtual_symlink_parent logical) (\<lambda>_.
         after (candidate_exists logical) (\<lambda>found.
         after (optional (asks (os_lstat logical))) (\<lambda>st.
         after (if st = None then done_with False else after (is_tombstoned logical) (\<lambda>gone. done_with (\<not> gone))) (\<lambda>real.
           if exclusive \<and> (found \<or> real) then raised eexist
           else after (if copy_existing \<and> \<not> found \<and> real then copy_up logical (st_kind (the st)) else done_with ()) (\<lambda>_ L.
                  done_with (candidate L logical) (clear_tombstone logical L))))))))"

section \<open>Listing\<close>

definition sort_names :: "string list \<Rightarrow> string list" where
  "sort_names xs = sort (remdups xs)"

fun visible_names :: "string \<Rightarrow> string list \<Rightarrow> string list job" where
  "visible_names logical [] = done_with []"
| "visible_names logical (name # names) =
     after (is_tombstoned (posix_join logical name)) (\<lambda>gone.
     after (visible_names logical names) (\<lambda>rest. done_with (if gone then rest else name # rest)))"

definition layer_listdir :: "string \<Rightarrow> string list job" where
  "layer_listdir s = after (logical_absolute s) (\<lambda>l.
     case l of
       None \<Rightarrow> asks (os_listdir s)
     | Some logical \<Rightarrow>
         after (is_tombstoned logical) (\<lambda>gone.
         after (if gone then candidate_exists logical else done_with True) (\<lambda>ok.
           if \<not> ok then raised enoent
           else after (optional (asks (os_listdir logical))) (\<lambda>real.
                after (visible_names logical (get_or [] real)) (\<lambda>names.
                after (\<lambda>L. optional (asks (os_listdir (candidate L logical))) L) (\<lambda>virtual.
                done_with (sort_names (names @ get_or [] virtual))))))))"

record dir_entry =
  de_name :: string
  de_path :: string

definition dir_entry_of :: "string \<Rightarrow> string \<Rightarrow> dir_entry" where
  "dir_entry_of parent name = \<lparr>de_name = name, de_path = (if parent \<noteq> ''/'' then posix_join parent name else ''/'' @ name)\<rparr>"

definition layer_scandir :: "string \<Rightarrow> dir_entry list job" where
  "layer_scandir s = after (logical_absolute s) (\<lambda>l.
     case l of
       None \<Rightarrow> after (asks (os_listdir s)) (\<lambda>names. done_with (map (dir_entry_of s) names))
     | Some logical \<Rightarrow> after (layer_listdir logical) (\<lambda>names. done_with (map (dir_entry_of logical) names)))"

section \<open>Attributes\<close>

definition layer_stat :: "bool \<Rightarrow> string \<Rightarrow> file_stat job" where
  "layer_stat follow s = after (read_path s) (\<lambda>target. asks (os_stat follow target))"

definition layer_lstat :: "string \<Rightarrow> file_stat job" where
  "layer_lstat s = after (read_path s) (\<lambda>target. asks (os_lstat target))"

definition entry_is :: "kind \<Rightarrow> bool \<Rightarrow> dir_entry \<Rightarrow> bool job" where
  "entry_is k follow d = after (layer_stat follow (de_path d)) (\<lambda>st. done_with (st_kind st = k))"

text \<open>\<open>granted\<close> is the kernel's decision on an entry that exists.\<close>

definition os_access :: "(file_stat \<Rightarrow> nat \<Rightarrow> bool) \<Rightarrow> nat \<Rightarrow> bool \<Rightarrow> string \<Rightarrow> os \<Rightarrow> exn + bool" where
  "os_access granted mode follow s S =
     Inr (case os_stat follow s S of Inl e \<Rightarrow> False | Inr st \<Rightarrow> mode = 0 \<or> granted st mode)"

definition layer_access :: "(file_stat \<Rightarrow> nat \<Rightarrow> bool) \<Rightarrow> nat \<Rightarrow> bool \<Rightarrow> string \<Rightarrow> bool job" where
  "layer_access granted mode follow s = after (read_path s) (\<lambda>target. asks (os_access granted mode follow target))"

definition layer_readlink :: "string \<Rightarrow> string job" where
  "layer_readlink s = after (read_path s) (\<lambda>target. asks (os_readlink target))"

definition layer_chmod :: "nat \<Rightarrow> bool \<Rightarrow> string \<Rightarrow> unit job" where
  "layer_chmod mode follow s = after (write_path True False s) (\<lambda>target. calls (os_chmod mode follow target))"

definition layer_utime :: "int \<Rightarrow> bool \<Rightarrow> string \<Rightarrow> unit job" where
  "layer_utime time follow s = after (write_path True False s) (\<lambda>target. calls (os_utime time follow target))"

definition layer_truncate :: "nat \<Rightarrow> string \<Rightarrow> unit job" where
  "layer_truncate n s = after (write_path True False s) (\<lambda>target. calls (os_truncate n target))"

section \<open>Files\<close>

text \<open>The mode of \<open>open\<close>, and the flags it stands for.\<close>

definition valid_mode :: "string \<Rightarrow> bool" where
  "valid_mode mode \<longleftrightarrow> set mode \<subseteq> set ''rwxabt+'' \<and> distinct mode \<and> length (filter (\<lambda>c. c \<in> set ''rwxa'') mode) = 1 \<and>
     \<not> (CHR ''b'' \<in> set mode \<and> CHR ''t'' \<in> set mode)"

definition mode_flags :: "string \<Rightarrow> flags" where
  "mode_flags mode =
     (let has = (\<lambda>c. c \<in> set mode) in
      \<lparr>fg_read = has CHR ''r'' \<or> has CHR ''+'', fg_write = \<not> has CHR ''r'' \<or> has CHR ''+'', fg_create = \<not> has CHR ''r'',
       fg_excl = has CHR ''x'', fg_trunc = has CHR ''w'', fg_append = has CHR ''a''\<rparr>)"

definition builtin_open :: "string \<Rightarrow> string \<Rightarrow> os \<Rightarrow> os \<times> (exn + handle)" where
  "builtin_open mode s S =
     (if \<not> valid_mode mode then (S, Inl (PyError ''ValueError'' ''invalid mode''))
      else (case os_open (mode_flags mode) 438 s S of
              (S1, Inr h) \<Rightarrow> (S1, if hd_file h = None then Inl eisdir else Inr h)
            | r \<Rightarrow> r))"

definition mode_writes :: "string \<Rightarrow> bool" where
  "mode_writes mode \<longleftrightarrow> (\<exists>c \<in> set ''wax+''. c \<in> set mode)"

definition mode_copies :: "string \<Rightarrow> bool" where
  "mode_copies mode \<longleftrightarrow> CHR ''a'' \<in> set mode \<or> CHR ''+'' \<in> set mode \<and> CHR ''w'' \<notin> set mode \<and> CHR ''x'' \<notin> set mode"

definition layer_open :: "string \<Rightarrow> string \<Rightarrow> handle job" where
  "layer_open mode s =
     after (if \<not> mode_writes mode then read_path s else write_path (mode_copies mode) (CHR ''x'' \<in> set mode) s)
       (\<lambda>target. calls (builtin_open mode target))"

definition flags_write :: "flags \<Rightarrow> bool" where
  "flags_write fl \<longleftrightarrow> fg_write fl \<or> fg_create fl \<or> fg_trunc fl \<or> fg_append fl"

definition layer_os_open :: "flags \<Rightarrow> nat \<Rightarrow> string \<Rightarrow> handle job" where
  "layer_os_open fl mode s =
     after (if \<not> flags_write fl then read_path s
            else let exclusive = fg_excl fl \<and> fg_create fl in write_path (\<not> fg_trunc fl \<and> \<not> exclusive) exclusive s)
       (\<lambda>target. calls (os_open fl mode target))"

section \<open>Directories and names\<close>

definition layer_mkdir :: "nat \<Rightarrow> string \<Rightarrow> unit job" where
  "layer_mkdir mode s = after (write_path False True s) (\<lambda>target. calls (os_mkdir mode target))"

definition delete_logical :: "bool \<Rightarrow> string \<Rightarrow> unit job" where
  "delete_logical directory s = after (logical_absolute s) (\<lambda>l.
     case l of
       None \<Rightarrow> calls (if directory then os_rmdir s else os_unlink s)
     | Some logical \<Rightarrow>
         after (\<lambda>L. optional (asks (os_lstat (candidate L logical))) L) (\<lambda>st.
         after (if st = None then done_with ()
                else (\<lambda>L. calls (if directory then os_rmdir (candidate L logical) else os_unlink (candidate L logical)) L)) (\<lambda>_.
         after (optional (asks (os_lstat logical))) (\<lambda>real.
           if st = None \<and> real = None then raised enoent
           else after (if directory \<and> real \<noteq> None then layer_listdir logical else done_with []) (\<lambda>visible.
                  if visible \<noteq> [] then raised (os_error ''ENOTEMPTY'') else add_tombstone logical)))))"

definition layer_unlink :: "string \<Rightarrow> unit job" where
  "layer_unlink = delete_logical False"

definition layer_rmdir :: "string \<Rightarrow> unit job" where
  "layer_rmdir = delete_logical True"

definition copy_up_source :: "string \<Rightarrow> (string \<times> string option) job" where
  "copy_up_source s = after (logical_absolute s) (\<lambda>l.
     case l of
       None \<Rightarrow> done_with (s, None)
     | Some logical \<Rightarrow>
         after (candidate_exists logical) (\<lambda>found.
           if found then (\<lambda>L. done_with (candidate L logical, Some logical) L)
           else after (is_tombstoned logical) (\<lambda>gone.
             if gone then raised enoent
             else after (asks (os_lstat logical)) (\<lambda>st.
                  after (materialize_existing_parents logical) (\<lambda>_.
                  after (copy_up logical (st_kind st)) (\<lambda>_ L. done_with (candidate L logical, Some logical) L))))))"

text \<open>Both calls of a move: \<open>exclusive\<close> for \<open>os.rename\<close>.\<close>

definition move :: "bool \<Rightarrow> string \<Rightarrow> string \<Rightarrow> unit job" where
  "move exclusive src dst = after (copy_up_source src) (\<lambda>(source, logical).
     after (write_path False exclusive dst) (\<lambda>target.
     after (calls (os_rename source target)) (\<lambda>_.
       case logical of None \<Rightarrow> done_with () | Some l \<Rightarrow> add_tombstone l)))"

definition layer_rename :: "string \<Rightarrow> string \<Rightarrow> unit job" where
  "layer_rename = move True"

definition layer_replace :: "string \<Rightarrow> string \<Rightarrow> unit job" where
  "layer_replace = move False"

definition layer_symlink :: "string \<Rightarrow> string \<Rightarrow> unit job" where
  "layer_symlink src dst = after (logical_absolute dst) (\<lambda>l.
     case l of
       None \<Rightarrow> calls (os_symlink src dst)
     | Some logical \<Rightarrow>
         after (write_path False True dst) (\<lambda>target.
           if is_absolute src then raised eperm else calls (os_symlink src target)))"

definition layer_link :: "string \<Rightarrow> string \<Rightarrow> unit job" where
  "layer_link src dst = after (read_path src) (\<lambda>source. after (write_path False True dst) (\<lambda>target. calls (os_link source target)))"

definition layer_chdir :: "string \<Rightarrow> unit job" where
  "layer_chdir s = after (logical_absolute s) (\<lambda>l.
     case l of
       None \<Rightarrow> calls (os_chdir s)
     | Some logical \<Rightarrow>
         after (candidate_exists logical) (\<lambda>found.
         after (if found then done_with ()
                else after (is_tombstoned logical) (\<lambda>gone.
                  if gone then raised enoent
                  else after (asks (os_stat True logical)) (\<lambda>st.
                    if st_kind st \<noteq> IsFolder then raised enotdir
                    else after (materialize_existing_parents (posix_join logical ''.mpr'')) (\<lambda>_ L.
                         after (path_exists (candidate L logical)) (\<lambda>there.
                           if there then done_with () else calls (os_mkdir 448 (candidate L logical))) L)))) (\<lambda>_ L.
         calls (os_chdir (candidate L logical)) L)))"

definition layer_getcwd :: "string job" where
  "layer_getcwd L = after (asks os_getcwd) (\<lambda>cwd.
     done_with (case relative_to (absolute_root L) (path_parts cwd) of None \<Rightarrow> cwd | Some r \<Rightarrow> ''/'' @ r)) L"

section \<open>Start\<close>

text \<open>\<open>mkdir(parents=True, exist_ok=True)\<close> of a path of components, and the layer of a child process.\<close>

fun make_all :: "path \<Rightarrow> path \<Rightarrow> os \<Rightarrow> exn + os" where
  "make_all p [] S = Inr S"
| "make_all p (c # r) S =
     (case dict_get (os_tree S) (p @ [c]) of
        None \<Rightarrow> make_all (p @ [c]) r (put_entry (p @ [c]) (Folder \<lparr>at_mode = 511, at_time = os_now S\<rparr>) S)
      | Some (Folder _) \<Rightarrow> make_all (p @ [c]) r S
      | Some _ \<Rightarrow> Inl (if r = [] then eexist else enotdir))"

definition new_layer :: "path \<Rightarrow> os \<Rightarrow> exn + layer" where
  "new_layer root S =
     (case make_all [] (root @ [''absolute'']) S of
        Inl e \<Rightarrow> Inl e
      | Inr S1 \<Rightarrow> Inr \<lparr>ly_os = S1, ly_root = root, ly_tombs = []\<rparr>)"

text \<open>\<open>real_path\<close> is \<open>Path.resolve\<close>.\<close>

definition install_from_env ::
  "(string \<Rightarrow> path) \<Rightarrow> (string, string) dict \<Rightarrow> os \<Rightarrow> exn + layer option \<times> (string, string) dict" where
  "install_from_env real_path env S =
     (let root = dict_get_or env ''RUNNER_INVOCATION_ROOT'' [] in
      if root = [] then Inr (None, env)
      else map_sum id (\<lambda>L. (Some L, dict_pop ''RUNNER_INVOCATION_ROOT'' env)) (new_layer (real_path root) S))"

end
