(* ===== verification/Path_Theorems.thy ===== *)
theory Path_Theorems
  imports Path_Layer
begin

text \<open>
  What the path layer leaves alone: in a container without symbolic links, no call on absolute paths (other than
  \<open>os.symlink\<close> and \<open>os.link\<close>) changes an entry or a file outside the directory of the invocation.
\<close>

section \<open>Path texts\<close>

definition no_slash :: "path \<Rightarrow> bool" where
  "no_slash p \<longleftrightarrow> list_all (\<lambda>c. CHR ''/'' \<notin> set c) p"

lemma split_on_cat: "split_on c (p @ c # s) = split_on c p @ split_on c s"
proof (induction p)
  case (Cons x p)
  have "split_on c p \<noteq> []" for p by (cases p) (auto split: list.splits)
  then show ?case using Cons by (auto split: list.splits)
qed simp

lemma split_on_joined: "no_slash p \<Longrightarrow> p \<noteq> [] \<Longrightarrow> split_on CHR ''/'' (join_with ''/'' p) = p"
  by (simp add: no_slash_def split_on_join)

lemma path_parts_text: "no_slash p \<Longrightarrow> path_parts (path_text p) = filter (\<lambda>c. c \<noteq> [] \<and> c \<noteq> ''.'') p"
  by (cases "p = []") (simp_all add: path_parts_def path_text_def split_on_joined)

lemma path_parts_cat: "path_parts (s @ ''/'' @ t) = path_parts s @ path_parts t"
  by (simp add: path_parts_def split_on_cat)

lemma components_slash: "list_all component p \<Longrightarrow> no_slash p"
  by (auto simp: no_slash_def component_def list_all_iff)

lemma components_text [simp]: "list_all component p \<Longrightarrow> path_parts (path_text p) = p"
  by (simp add: path_parts_text components_slash filter_id_conv) (auto simp: component_def list_all_iff)

lemma absolute_text [simp]: "is_absolute (path_text p)"
  by (simp add: is_absolute_def path_text_def starts_with_def)

lemma resolve_id: "''..'' \<notin> set p \<Longrightarrow> resolve p = p"
  using resolve_append_safe [of p "[]"] by (simp add: resolve_def)

lemma resolve_components: "list_all component p \<Longrightarrow> list_all component (resolve p)"
  by (induction p rule: rev_induct) (auto simp: resolve_snoc list_all_iff resolve_def dest: in_set_butlastD)

lemma starts_with_split: "starts_with p s \<Longrightarrow> \<exists>t. s = p @ t"
  by (metis append_take_drop_id starts_with_def)

text \<open>A canonical path: proper components, none of them dot-dot.\<close>

definition canonical :: "path \<Rightarrow> bool" where
  "canonical p \<longleftrightarrow> list_all component p \<and> ''..'' \<notin> set p"

lemma canonical_simps: "canonical p \<Longrightarrow> path_parts (path_text p) = p" "canonical p \<Longrightarrow> resolve p = p"
    "canonical (p @ q) \<longleftrightarrow> canonical p \<and> canonical q" "canonical []" "canonical (resolve (path_parts s))"
  by (auto simp: canonical_def resolve_id resolve_no_dotdot intro: resolve_components path_parts_component)

lemma canonical_take: "canonical p \<Longrightarrow> canonical (take n p)" "canonical p \<Longrightarrow> canonical (butlast p)"
  by (auto simp: canonical_def list_all_iff dest: in_set_takeD in_set_butlastD)

text \<open>What \<open>normpath\<close> makes of an absolute path.\<close>

lemma normpath_cases: "normpath s = path_text (resolve (path_parts s)) \<or> normpath s = ''/'' @ path_text (resolve (path_parts s))"
  by (simp add: normpath_def)

lemma normpath_parts: "path_parts (normpath s) = resolve (path_parts s)"
proof -
  have "path_parts (''/'' @ path_text (resolve (path_parts s))) = resolve (path_parts s)"
    using path_parts_cat [of "[]" "path_text (resolve (path_parts s))"] canonical_simps(1) [OF canonical_simps(5), of s]
    by (simp add: path_parts_def [of "[]"])
  then show ?thesis using normpath_cases [of s] canonical_simps(1) [OF canonical_simps(5), of s] by auto
qed

section \<open>The walk without links\<close>

definition link_free :: "(path, entry) dict \<Rightarrow> bool" where
  "link_free t \<longleftrightarrow> (\<forall>(k, x) \<in> set t. \<forall>target. x \<noteq> Link target)"

definition step_path :: "path \<Rightarrow> path \<Rightarrow> path" where
  "step_path cur rest = foldl (\<lambda>acc c. if c = ''..'' then butlast acc else acc @ [c]) cur rest"

lemma step_resolve: "step_path [] p = resolve p"
  by (simp add: step_path_def resolve_def)

lemma walk_plain: "link_free t \<Longrightarrow> walk t n follow cur rest = Inr p \<Longrightarrow> p = step_path cur rest"
  by (induction t n follow cur rest rule: walk.induct)
    (auto simp: step_path_def link_free_def split: if_splits option.splits entry.splits dest!: map_of_SomeD)

lemma located_plain: "link_free (os_tree S) \<Longrightarrow> is_absolute s \<Longrightarrow> located S follow s = Inr p \<Longrightarrow> p = resolve (path_parts s)"
  by (auto simp: located_def step_resolve dest!: walk_plain split: if_splits)

lemma lookup_plain:
  "link_free (os_tree S) \<Longrightarrow> is_absolute s \<Longrightarrow> lookup S follow s = Inr (p, x) \<Longrightarrow>
    p = resolve (path_parts s) \<and> dict_get (os_tree S) p = Some x"
  by (auto simp: lookup_def dest: located_plain split: sum.splits option.splits)

section \<open>Inside the invocation\<close>

definition files_in :: "path \<Rightarrow> os \<Rightarrow> nat set" where
  "files_in r S = {i. \<exists>k. (k, Regular i) \<in> set (os_tree S) \<and> prefix r k}"

definition files_out :: "path \<Rightarrow> os \<Rightarrow> nat set" where
  "files_out r S = {i. \<exists>k. (k, Regular i) \<in> set (os_tree S) \<and> \<not> prefix r k}"

text \<open>No links, and no file with a name on both sides.\<close>

definition sealed :: "path \<Rightarrow> os \<Rightarrow> bool" where
  "sealed r S \<longleftrightarrow> link_free (os_tree S) \<and> files_in r S \<union> files_out r S \<subseteq> {..<length (os_files S)} \<and> files_in r S \<inter> files_out r S = {}"

text \<open>An entry that an operation inside \<open>r\<close> may leave: one there was, on the same side, or a folder or a new file inside.\<close>

definition harmless :: "path \<Rightarrow> os \<Rightarrow> nat \<Rightarrow> path \<times> entry \<Rightarrow> bool" where
  "harmless r S n y = (case y of (k, x) \<Rightarrow>
     (\<exists>k0. (k0, x) \<in> set (os_tree S) \<and> (prefix r k0 \<longleftrightarrow> prefix r k)) \<or>
     prefix r k \<and> (case x of Folder _ \<Rightarrow> True | Regular i \<Rightarrow> length (os_files S) \<le> i \<and> i < n | Link _ \<Rightarrow> False))"

lemma sealed_step:
  assumes "sealed r S" "\<And>y. y \<in> set (os_tree S') \<Longrightarrow> harmless r S (length (os_files S')) y" "length (os_files S) \<le> length (os_files S')"
  shows "sealed r S'"
proof -
  have s: "link_free (os_tree S)" "files_in r S \<union> files_out r S \<subseteq> {..<length (os_files S)}" "files_in r S \<inter> files_out r S = {}"
    using assms(1) by (simp_all add: sealed_def)
  have cases: "(\<exists>k0. (k0, x) \<in> set (os_tree S) \<and> (prefix r k0 \<longleftrightarrow> prefix r k)) \<or>
      prefix r k \<and> (case x of Folder _ \<Rightarrow> True | Regular i \<Rightarrow> length (os_files S) \<le> i \<and> i < length (os_files S') | Link _ \<Rightarrow> False)"
    if "(k, x) \<in> set (os_tree S')" for k x
    using assms(2) [OF that] by (simp add: harmless_def)
  have "x \<noteq> Link target" if "(k, x) \<in> set (os_tree S')" for k x target
    using cases [OF that] s(1) by (cases x) (auto simp: link_free_def)
  then have l: "link_free (os_tree S')" by (auto simp: link_free_def)
  have regular: "(\<exists>k0. (k0, Regular i) \<in> set (os_tree S) \<and> (prefix r k0 \<longleftrightarrow> prefix r k)) \<or>
      prefix r k \<and> i \<in> {length (os_files S)..<length (os_files S')}" if "(k, Regular i) \<in> set (os_tree S')" for k i
    using cases [OF that] by simp
  have i: "files_in r S' \<subseteq> files_in r S \<union> {length (os_files S)..<length (os_files S')}"
  proof
    fix i assume "i \<in> files_in r S'"
    then obtain k where "(k, Regular i) \<in> set (os_tree S')" "prefix r k" by (auto simp: files_in_def)
    with regular [OF this(1)] show "i \<in> files_in r S \<union> {length (os_files S)..<length (os_files S')}" by (auto simp: files_in_def)
  qed
  have o: "files_out r S' \<subseteq> files_out r S"
  proof
    fix i assume "i \<in> files_out r S'"
    then obtain k where "(k, Regular i) \<in> set (os_tree S')" "\<not> prefix r k" by (auto simp: files_out_def)
    with regular [OF this(1)] show "i \<in> files_out r S" by (auto simp: files_out_def)
  qed
  have "files_in r S' \<union> files_out r S' \<subseteq> (files_in r S \<union> {length (os_files S)..<length (os_files S')}) \<union> files_out r S"
    by (rule Un_mono [OF i o])
  also have "\<dots> \<subseteq> {..<length (os_files S')}" using s(2) assms(3) by auto
  finally have u: "files_in r S' \<union> files_out r S' \<subseteq> {..<length (os_files S')}" .
  have "files_in r S' \<inter> files_out r S' \<subseteq> (files_in r S \<union> {length (os_files S)..<length (os_files S')}) \<inter> files_out r S"
    by (rule Int_mono [OF i o])
  also have "\<dots> = {}" using s(2,3) by auto
  finally have "files_in r S' \<inter> files_out r S' = {}" by simp
  with l u show ?thesis by (simp add: sealed_def)
qed

lemma harmless_same: "y \<in> set (os_tree S) \<Longrightarrow> harmless r S n y"
  by (cases y) (auto simp: harmless_def)

lemma harmless_put:
  "y \<in> set (dict_set p x t) \<Longrightarrow> (\<And>y. y \<in> set t \<Longrightarrow> harmless r S n y) \<Longrightarrow> harmless r S n (p, x) \<Longrightarrow> harmless r S n y"
  using set_dict_set_subset [of p x t] by (metis insertE subsetD)

text \<open>Nothing outside \<open>r\<close> differs, neither entries nor the files they stand for.\<close>

definition same_outside :: "path \<Rightarrow> os \<Rightarrow> os \<Rightarrow> bool" where
  "same_outside r S S' \<longleftrightarrow>
     (\<forall>k. \<not> prefix r k \<longrightarrow> dict_get (os_tree S') k = dict_get (os_tree S) k \<and>
        (\<forall>i. dict_get (os_tree S) k = Some (Regular i) \<longrightarrow> os_files S' ! i = os_files S ! i))"

definition moves :: "path \<Rightarrow> os \<Rightarrow> os \<Rightarrow> bool" where
  "moves r S S' \<longleftrightarrow> sealed r S' \<and> same_outside r S S'"

lemma same_refl [simp]: "same_outside r S S"
  by (simp add: same_outside_def)

lemma same_trans: "same_outside r S S1 \<Longrightarrow> same_outside r S1 S2 \<Longrightarrow> same_outside r S S2"
  by (simp add: same_outside_def)

lemma moves_refl: "sealed r S \<Longrightarrow> moves r S S"
  by (simp add: moves_def)

lemma moves_trans: "moves r S S1 \<Longrightarrow> moves r S1 S2 \<Longrightarrow> moves r S S2"
  by (auto simp: moves_def intro: same_trans)

lemma moves_sealed: "moves r S S1 \<Longrightarrow> sealed r S1"
  by (simp add: moves_def)

lemma put_folder_moves:
  assumes "sealed r S" "prefix r p"
  shows "moves r S (put_entry p (Folder a) S)"
proof -
  have "sealed r (put_entry p (Folder a) S)"
    by (rule sealed_step [OF assms(1)])
      (auto simp: put_entry_def harmless_def [of r S _ "(p, Folder a)"] assms(2) intro: harmless_same elim!: harmless_put)
  moreover have "same_outside r S (put_entry p (Folder a) S)"
    using assms(2) by (auto simp: same_outside_def put_entry_def)
  ultimately show ?thesis by (simp add: moves_def)
qed

lemma drop_moves:
  assumes "sealed r S" "prefix r p"
  shows "moves r S (drop_entry p S)"
proof -
  have "sealed r (drop_entry p S)"
    by (rule sealed_step [OF assms(1)]) (auto simp: drop_entry_def set_dict_pop intro: harmless_same)
  moreover have "same_outside r S (drop_entry p S)"
    using assms(2) by (auto simp: same_outside_def drop_entry_def)
  ultimately show ?thesis by (simp add: moves_def)
qed

lemma outside_file: "sealed r S \<Longrightarrow> \<not> prefix r k \<Longrightarrow> dict_get (os_tree S) k = Some (Regular i) \<Longrightarrow> i \<in> files_out r S \<and> i < length (os_files S)"
  by (auto simp: sealed_def files_out_def dest!: map_of_SomeD)

lemma create_moves:
  assumes "sealed r S" "prefix r p"
  shows "moves r S (create_file p f S)"
proof -
  have "sealed r (create_file p f S)"
    by (rule sealed_step [OF assms(1)])
      (auto simp: create_file_def put_entry_def harmless_def [of r S _ "(p, Regular _)"] assms(2) intro: harmless_same elim!: harmless_put)
  moreover have "same_outside r S (create_file p f S)"
    using assms(2) outside_file [OF assms(1)] by (auto simp: same_outside_def create_file_def put_entry_def nth_append)
  ultimately show ?thesis by (simp add: moves_def)
qed

lemma set_file_moves:
  assumes "sealed r S" "i \<in> files_in r S"
  shows "moves r S (set_file i f S)"
proof -
  have "sealed r (set_file i f S)"
    by (rule sealed_step [OF assms(1)]) (auto simp: set_file_def intro: harmless_same)
  moreover have "i \<notin> files_out r S" using assms by (auto simp: sealed_def)
  then have "i \<noteq> j" if "\<not> prefix r k" "dict_get (os_tree S) k = Some (Regular j)" for k j
    using outside_file [OF assms(1) that] by blast
  then have "same_outside r S (set_file i f S)"
    by (auto simp: same_outside_def set_file_def)
  ultimately show ?thesis by (simp add: moves_def)
qed

lemma moved_keep:
  assumes "prefix r p" "prefix r q" "\<not> prefix r k"
  shows "dict_get (moved p q t) k = dict_get t k"
proof -
  have a: "dict_get (map (\<lambda>(k, x). (if prefix p k then q @ drop (length p) k else k, x)) t) k = dict_get t k" for t :: "(path, entry) dict"
  proof (induction t)
    case (Cons y t)
    obtain k0 x where y: "y = (k0, x)" by fastforce
    have "k \<noteq> q @ drop (length p) k0" using assms(2,3) by auto
    moreover have "k \<noteq> k0" if "prefix p k0" using that assms(1,3) prefix_order.trans by blast
    ultimately show ?case using Cons y by auto
  qed simp
  have "k \<noteq> q" using assms(2,3) by auto
  then show ?thesis by (simp add: moved_def a)
qed

lemma moved_moves:
  assumes "sealed r S" "prefix r p" "prefix r q"
  shows "moves r S (S\<lparr>os_tree := moved p q (os_tree S)\<rparr>)"
proof -
  have "harmless r S n y" if y: "y \<in> set (moved p q (os_tree S))" for y n
  proof -
    obtain k0 x where k0: "(k0, x) \<in> set (os_tree S)" "y = (if prefix p k0 then q @ drop (length p) k0 else k0, x)"
      using y by (auto simp: moved_def set_dict_pop)
    have "prefix r k0 \<longleftrightarrow> prefix r (if prefix p k0 then q @ drop (length p) k0 else k0)"
      using assms(2,3) prefix_order.trans by auto
    with k0 show ?thesis unfolding harmless_def by blast
  qed
  then have "sealed r (S\<lparr>os_tree := moved p q (os_tree S)\<rparr>)"
    by (intro sealed_step [OF assms(1)]) simp_all
  moreover have "same_outside r S (S\<lparr>os_tree := moved p q (os_tree S)\<rparr>)"
    using moved_keep [OF assms(2,3)] by (simp add: same_outside_def)
  ultimately show ?thesis by (simp add: moves_def)
qed

section \<open>The operating system below the layer\<close>

definition inside :: "path \<Rightarrow> string \<Rightarrow> bool" where
  "inside r s \<longleftrightarrow> is_absolute s \<and> prefix r (resolve (path_parts s))"

lemma sealed_links: "sealed r S \<Longrightarrow> link_free (os_tree S)"
  by (simp add: sealed_def)

lemma inside_located: "sealed r S \<Longrightarrow> inside r s \<Longrightarrow> located S follow s = Inr p \<Longrightarrow> prefix r p"
  using located_plain [of S s follow p] by (auto simp: inside_def sealed_links)

lemma inside_lookup:
  "sealed r S \<Longrightarrow> inside r s \<Longrightarrow> lookup S follow s = Inr (p, x) \<Longrightarrow> prefix r p \<and> (p, x) \<in> set (os_tree S)"
  using lookup_plain [of S s follow p x] by (auto simp: inside_def sealed_links dest: map_of_SomeD)

lemma inside_file: "prefix r p \<Longrightarrow> (p, Regular i) \<in> set (os_tree S) \<Longrightarrow> i \<in> files_in r S"
  by (auto simp: files_in_def)

text \<open>An operation whose writes stay inside.\<close>

definition stays :: "path \<Rightarrow> (os \<Rightarrow> os \<times> (exn + 'a)) \<Rightarrow> bool" where
  "stays r f \<longleftrightarrow> (\<forall>S. sealed r S \<longrightarrow> moves r S (fst (f S)))"

lemma staysI: "(\<And>S. sealed r S \<Longrightarrow> moves r S (fst (f S))) \<Longrightarrow> stays r f"
  by (simp add: stays_def)

lemma set_attrs_moves: "sealed r S \<Longrightarrow> prefix r p \<Longrightarrow> (p, x) \<in> set (os_tree S) \<Longrightarrow> moves r S (set_attrs p x f S)"
  by (auto simp: set_attrs_def moves_refl inside_file intro: put_folder_moves set_file_moves split: entry.splits)

lemma os_mkdir_stays: "inside r s \<Longrightarrow> stays r (os_mkdir mode s)"
  by (rule staysI) (auto simp: os_mkdir_def moves_refl intro: put_folder_moves dest: inside_located split: sum.splits)

lemma os_unlink_stays: "inside r s \<Longrightarrow> stays r (os_unlink s)"
  by (rule staysI) (auto simp: os_unlink_def moves_refl intro: drop_moves dest: inside_lookup split: sum.splits entry.splits)

lemma os_rmdir_stays: "inside r s \<Longrightarrow> stays r (os_rmdir s)"
  by (rule staysI) (auto simp: os_rmdir_def moves_refl intro: drop_moves dest: inside_lookup split: sum.splits entry.splits)

lemma os_rename_stays: "inside r a \<Longrightarrow> inside r b \<Longrightarrow> stays r (os_rename a b)"
  by (rule staysI) (auto simp: os_rename_def moves_refl intro: moved_moves dest: inside_lookup inside_located split: sum.splits)

lemma os_chmod_stays: "inside r s \<Longrightarrow> stays r (os_chmod mode follow s)"
  by (rule staysI) (auto simp: os_chmod_def moves_refl intro: set_attrs_moves dest: inside_lookup split: sum.splits)

lemma os_utime_stays: "inside r s \<Longrightarrow> stays r (os_utime time follow s)"
  by (rule staysI) (auto simp: os_utime_def moves_refl intro: set_attrs_moves dest: inside_lookup split: sum.splits)

lemma os_truncate_stays: "inside r s \<Longrightarrow> stays r (os_truncate n s)"
  by (rule staysI) (auto simp: os_truncate_def moves_refl inside_file intro!: set_file_moves dest: inside_lookup split: sum.splits entry.splits)

lemma chdir_moves: "sealed r S \<Longrightarrow> moves r S (S\<lparr>os_cwd := p\<rparr>)"
  by (simp add: moves_def same_outside_def sealed_def files_in_def files_out_def)

lemma os_chdir_stays: "stays r (os_chdir s)"
  by (rule staysI) (auto simp: os_chdir_def moves_refl chdir_moves split: sum.splits entry.splits)

lemma no_link_read: "sealed r S \<Longrightarrow> is_absolute s \<Longrightarrow> os_readlink s S \<noteq> Inr target"
  using lookup_plain [of S s False _ "Link target"] sealed_links [of r S]
  by (fastforce simp: os_readlink_def link_free_def split: sum.splits entry.splits dest!: map_of_SomeD)

text \<open>What an open file lets through: a regular file inside, or a file that is not written.\<close>

definition inner_handle :: "path \<Rightarrow> os \<Rightarrow> handle \<Rightarrow> bool" where
  "inner_handle r S h \<longleftrightarrow> (case hd_file h of None \<Rightarrow> True | Some i \<Rightarrow> fg_write (hd_flags h) \<longrightarrow> i \<in> files_in r S)"

lemma create_inside: "prefix r p \<Longrightarrow> length (os_files S) \<in> files_in r (create_file p f S)"
proof -
  have "(p, Regular (length (os_files S))) \<in> set (dict_set p (Regular (length (os_files S))) (os_tree S))"
    using map_of_SomeD [of "dict_set p (Regular (length (os_files S))) (os_tree S)"] dict_get_set by metis
  then show "prefix r p \<Longrightarrow> ?thesis" by (auto simp: files_in_def create_file_def put_entry_def)
qed

lemma set_file_inside [simp]: "files_in r (set_file i f S) = files_in r S"
  by (simp add: files_in_def set_file_def)

lemma os_open_stays:
  assumes "inside r s" "sealed r S" "os_open fl mode s S = (S', x)"
  shows "moves r S S' \<and> (case x of Inl e \<Rightarrow> True | Inr h \<Rightarrow> inner_handle r S' h)"
proof (cases "located S (\<not> (fg_create fl \<and> fg_excl fl)) s")
  case (Inr p)
  then have p: "prefix r p" using inside_located [OF assms(2,1)] by blast
  have i: "i \<in> files_in r S" if "dict_get (os_tree S) p = Some (Regular i)" for i
    using inside_file [OF p] map_of_SomeD [OF that] by blast
  show ?thesis
    using assms(3) Inr p i create_inside [OF p] assms(2)
    by (auto simp: os_open_def Let_def inner_handle_def moves_refl intro!: create_moves set_file_moves split: option.splits entry.splits if_splits)
qed (use assms in \<open>auto simp: os_open_def Let_def moves_refl\<close>)

text \<open>Reading: any path may be opened.\<close>

lemma os_open_reads:
  assumes "\<not> fg_write fl" "\<not> fg_create fl" "\<not> fg_trunc fl" "os_open fl mode s S = (S', x)"
  shows "S' = S \<and> (case x of Inl e \<Rightarrow> True | Inr h \<Rightarrow> inner_handle r S' h)"
  using assms by (auto simp: os_open_def Let_def inner_handle_def split: sum.splits option.splits entry.splits if_splits)

lemma fd_write_moves: "sealed r S \<Longrightarrow> inner_handle r S h \<Longrightarrow> moves r S (fst (fd_write h data S))"
  by (auto simp: fd_write_def inner_handle_def moves_refl intro: set_file_moves split: option.splits)

lemma copy_file_stays: "inside r dst \<Longrightarrow> stays r (copy_file src dst)"
  by (rule staysI)
    (auto simp: copy_file_def moves_refl intro!: create_moves set_file_moves intro: inside_file dest: inside_located map_of_SomeD
      split: sum.splits entry.splits option.splits)

lemma copy_entries_moves:
  assumes "sealed r S" "prefix r q" "\<And>k x target. (k, x) \<in> set ys \<Longrightarrow> x \<noteq> Link target"
  shows "moves r S (fold (\<lambda>(k, x). copy_entry (q @ k) x) ys S)"
  using assms
proof (induction ys arbitrary: S)
  case (Cons y ys)
  obtain k x where y: "y = (k, x)" by fastforce
  have "prefix r (q @ k)" using Cons.prems(2) by auto
  then have "moves r S (copy_entry (q @ k) x S)"
    using Cons.prems(1) Cons.prems(3) [of k x] y
    by (cases x) (auto simp: copy_entry_def intro: put_folder_moves create_moves)
  note first = this
  have "moves r (copy_entry (q @ k) x S) (fold (\<lambda>(k, x). copy_entry (q @ k) x) ys (copy_entry (q @ k) x S))"
    by (rule Cons.IH [OF moves_sealed [OF first] Cons.prems(2)]) (use Cons.prems(3) in auto)
  with first y show ?case by (auto intro: moves_trans)
qed (simp add: moves_refl)

lemma copy_tree_stays: "inside r dst \<Longrightarrow> stays r (copy_tree visible src dst)"
proof (rule staysI)
  fix S assume i: "inside r dst" and s: "sealed r S"
  show "moves r S (fst (copy_tree visible src dst S))"
  proof (cases "\<exists>p a q. lookup S False src = Inr (p, Folder a) \<and> located S False dst = Inr q \<and> dict_get (os_tree S) q = None")
    case True
    then obtain p a q where *: "lookup S False src = Inr (p, Folder a)" "located S False dst = Inr q" "dict_get (os_tree S) q = None" by blast
    have q: "prefix r q" by (rule inside_located [OF s i *(2)])
    have m: "moves r S (put_entry q (Folder a) S)" by (rule put_folder_moves [OF s q])
    have "x \<noteq> Link target" if "(k, x) \<in> set (below visible p (os_tree S))" for k x target
      using that s by (auto simp: below_def sealed_def link_free_def)
    from moves_trans [OF m copy_entries_moves [OF moves_sealed [OF m] q this]] show ?thesis
      by (simp add: copy_tree_def *)
  qed (use s in \<open>auto simp: copy_tree_def moves_refl split: sum.splits entry.splits\<close>)
qed

section \<open>The layer\<close>

text \<open>From a state with \<open>P\<close>, \<open>m\<close> moves inside \<open>r\<close> only, and a value it returns has \<open>Q\<close>.\<close>

definition ends_well :: "path \<Rightarrow> ('a \<Rightarrow> layer \<Rightarrow> bool) \<Rightarrow> layer \<Rightarrow> (layer \<times> (exn + 'a)) option \<Rightarrow> bool" where
  "ends_well r Q L res \<longleftrightarrow>
     (case res of
        None \<Rightarrow> True
      | Some (L', x) \<Rightarrow> ly_root L' = r \<and> moves r (ly_os L) (ly_os L') \<and> (case x of Inl e \<Rightarrow> True | Inr v \<Rightarrow> Q v L'))"

definition contained :: "path \<Rightarrow> (layer \<Rightarrow> bool) \<Rightarrow> 'a job \<Rightarrow> ('a \<Rightarrow> layer \<Rightarrow> bool) \<Rightarrow> bool" where
  "contained r P m Q \<longleftrightarrow> (\<forall>L. ly_root L = r \<longrightarrow> sealed r (ly_os L) \<longrightarrow> P L \<longrightarrow> ends_well r Q L (m L))"

lemma containedI: "(\<And>L. ly_root L = r \<Longrightarrow> sealed r (ly_os L) \<Longrightarrow> P L \<Longrightarrow> ends_well r Q L (m L)) \<Longrightarrow> contained r P m Q"
  by (simp add: contained_def)

lemma ends_simps [simp]:
  "ends_well r Q L None" "ends_well r Q L (Some (L', Inl e)) \<longleftrightarrow> ly_root L' = r \<and> moves r (ly_os L) (ly_os L')"
  "ends_well r Q L (Some (L', Inr v)) \<longleftrightarrow> ly_root L' = r \<and> moves r (ly_os L) (ly_os L') \<and> Q v L'"
  by (simp_all add: ends_well_def)

lemma ends_weaken: "ends_well r Q L res \<Longrightarrow> (\<And>v L'. Q v L' \<Longrightarrow> Q' v L') \<Longrightarrow> ends_well r Q' L res"
  by (auto simp: ends_well_def split: option.splits sum.splits)

abbreviation anywhere :: "layer \<Rightarrow> bool" where
  "anywhere \<equiv> \<lambda>_. True"

abbreviation anything :: "'a \<Rightarrow> layer \<Rightarrow> bool" where
  "anything \<equiv> \<lambda>_ _. True"

lemma containedD: "contained r P m Q \<Longrightarrow> ly_root L = r \<Longrightarrow> sealed r (ly_os L) \<Longrightarrow> P L \<Longrightarrow> ends_well r Q L (m L)"
  by (simp add: contained_def)

lemma contained_weaken:
  assumes "contained r P m Q" "\<And>L. P' L \<Longrightarrow> P L" "\<And>v L. Q v L \<Longrightarrow> Q' v L"
  shows "contained r P' m Q'"
proof (rule containedI)
  fix L :: layer assume "ly_root L = r" "sealed r (ly_os L)" "P' L"
  then have "ends_well r Q L (m L)" using containedD [OF assms(1)] assms(2) by blast
  then show "ends_well r Q' L (m L)" by (rule ends_weaken) (rule assms(3))
qed

lemma contained_any: "contained r P m Q \<Longrightarrow> contained r P m anything"
  by (erule contained_weaken) simp_all

lemma contained_eq: "(\<And>L. ly_root L = r \<Longrightarrow> m L = m' L) \<Longrightarrow> contained r P m' Q \<Longrightarrow> contained r P m Q"
  by (rule containedI) (simp add: containedD)

lemma contained_done_at: "(\<And>L. P L \<Longrightarrow> ly_root L = r \<Longrightarrow> Q (g L) L) \<Longrightarrow> contained r P (\<lambda>L. done_with (g L) L) Q"
  by (rule containedI) (simp add: done_with_def moves_refl)

lemma contained_done: "(\<And>L. P L \<Longrightarrow> Q x L) \<Longrightarrow> contained r P (done_with x) Q"
  by (rule containedI) (simp add: done_with_def moves_refl)

lemma contained_raised: "contained r P (raised e) Q"
  by (rule containedI) (simp add: raised_def moves_refl)

lemma contained_asks:
  assumes "\<And>L v. sealed r (ly_os L) \<Longrightarrow> f (ly_os L) = Inr v \<Longrightarrow> Q v L"
  shows "contained r P (asks f) Q"
proof (rule containedI)
  fix L :: layer assume "sealed r (ly_os L)" "ly_root L = r"
  then show "ends_well r Q L (asks f L)" using assms [of L] by (cases "f (ly_os L)") (simp_all add: asks_def moves_refl)
qed

lemma contained_calls:
  assumes "stays r f"
  shows "contained r P (calls f) anything"
proof (rule containedI)
  fix L :: layer assume L: "sealed r (ly_os L)" "ly_root L = r"
  obtain S x where f: "f (ly_os L) = (S, x)" by fastforce
  then have "moves r (ly_os L) S" using assms L(1) by (auto simp: stays_def dest!: spec [of _ "ly_os L"])
  then show "ends_well r anything L (calls f L)" using f L(2) by (cases x) (simp_all add: calls_def)
qed

lemma contained_after:
  assumes "contained r P m Q" "\<And>v. contained r (Q v) (f v) R"
  shows "contained r P (after m f) R"
proof (rule containedI)
  fix L :: layer assume L: "ly_root L = r" "sealed r (ly_os L)" "P L"
  note e = containedD [OF assms(1) L]
  show "ends_well r R L (after m f L)"
  proof (cases "m L")
    case None
    then show ?thesis by (simp add: after_def)
  next
    case (Some y)
    obtain L1 z where y: "y = (L1, z)" by fastforce
    show ?thesis
    proof (cases z)
      case (Inl err)
      then show ?thesis using Some y e by (simp add: after_def)
    next
      case (Inr v)
      have d: "ly_root L1 = r" "moves r (ly_os L) (ly_os L1)" "Q v L1" using e Some y Inr by simp_all
      have "ends_well r R L1 (f v L1)" by (rule containedD [OF assms(2) d(1) moves_sealed [OF d(2)] d(3)])
      then have "ends_well r R L (f v L1)"
        using d(2) by (auto simp: ends_well_def intro: moves_trans split: option.splits)
      then show ?thesis using Some y Inr by (simp add: after_def)
    qed
  qed
qed

lemma contained_then:
  assumes "contained r P m (\<lambda>v _. B v)" "\<And>v. B v \<Longrightarrow> contained r anywhere (f v) R"
  shows "contained r P (after m f) R"
proof (rule contained_after [OF assms(1)])
  fix v
  show "contained r (\<lambda>_. B v) (f v) R"
  proof (cases "B v")
    case True
    then show ?thesis using assms(2) [OF True] by simp
  qed (simp add: contained_def)
qed

lemma contained_seq: "contained r P m anything \<Longrightarrow> (\<And>v. contained r anywhere (f v) R) \<Longrightarrow> contained r P (after m f) R"
  by (rule contained_after)

lemma contained_missing:
  assumes "contained r P m Q" "contained r anywhere h Q"
  shows "contained r P (missing m h) Q"
proof (rule containedI)
  fix L :: layer assume L: "ly_root L = r" "sealed r (ly_os L)" "P L"
  note e = containedD [OF assms(1) L]
  show "ends_well r Q L (missing m h L)"
  proof (cases "\<exists>L1 t. m L = Some (L1, Inl (PyError ''FileNotFoundError'' t))")
    case True
    then obtain L1 t where m: "m L = Some (L1, Inl (PyError ''FileNotFoundError'' t))" by blast
    then have d: "ly_root L1 = r" "moves r (ly_os L) (ly_os L1)" using e by simp_all
    have "ends_well r Q L1 (h L1)" by (rule containedD [OF assms(2) d(1) moves_sealed [OF d(2)] TrueI])
    then have "ends_well r Q L (h L1)" using d(2) by (auto simp: ends_well_def intro: moves_trans split: option.splits)
    then show ?thesis using m by (simp add: missing_def)
  next
    case False
    then have "missing m h L = m L" by (auto simp: missing_def split: option.splits prod.splits sum.splits exn.splits)
    with e show ?thesis by simp
  qed
qed

lemma contained_optional: "contained r P m anything \<Longrightarrow> contained r P (optional m) anything"
  unfolding optional_def by (rule contained_missing; (rule contained_seq)?; (rule contained_done)?) simp_all

lemma contained_tombs: "contained r P (is_tombstoned l) anything" "contained r P (add_tombstone l) anything"
proof -
  show "contained r P (is_tombstoned l) anything"
  proof (rule containedI)
    fix L :: layer assume "ly_root L = r" "sealed r (ly_os L)"
    then show "ends_well r anything L (is_tombstoned l L)"
      by (cases "tombstoned (ly_tombs L) l") (simp_all add: is_tombstoned_def moves_refl)
  qed
  show "contained r P (add_tombstone l) anything" by (rule containedI) (simp add: add_tombstone_def moves_refl)
qed

lemma contained_path_exists: "contained r P (path_exists s) anything"
  by (rule containedI) (simp add: path_exists_def moves_refl)

lemma contained_exists_at: "contained r P (exists_at s) anything"
  unfolding exists_at_def
  by (intro contained_missing contained_seq contained_done contained_asks) simp_all

lemma contained_candidate_exists: "contained r P (candidate_exists l) anything"
  by (rule contained_eq [of r _ "exists_at (path_text (r @ [''absolute''] @ path_parts l))"])
    (simp_all add: candidate_exists_def candidate_def absolute_root_def contained_exists_at)

section \<open>Candidates\<close>

definition target_in :: "path \<Rightarrow> string \<Rightarrow> string" where
  "target_in r l = path_text (r @ ''absolute'' # path_parts l)"

lemma candidate_target: "ly_root L = r \<Longrightarrow> candidate L l = target_in r l"
  by (simp add: candidate_def absolute_root_def target_in_def)

definition plain_path :: "string \<Rightarrow> bool" where
  "plain_path l \<longleftrightarrow> is_absolute l \<and> ''..'' \<notin> set (path_parts l)"

lemma inside_text: "canonical r \<Longrightarrow> no_slash p \<Longrightarrow> ''..'' \<notin> set p \<Longrightarrow> inside r (path_text (r @ p))"
proof -
  assume a: "canonical r" "no_slash p" "''..'' \<notin> set p"
  then have n: "no_slash (r @ p)" by (auto simp: canonical_def no_slash_def component_def list_all_iff)
  have "filter (\<lambda>c. c \<noteq> [] \<and> c \<noteq> ''.'') r = r" using a(1) by (auto simp: canonical_def component_def list_all_iff filter_id_conv)
  moreover have "''..'' \<notin> set (r @ filter (\<lambda>c. c \<noteq> [] \<and> c \<noteq> ''.'') p)" using a(1,3) by (auto simp: canonical_def)
  ultimately show ?thesis by (simp add: inside_def path_parts_text [OF n] resolve_id)
qed

lemma target_inside: "canonical r \<Longrightarrow> plain_path l \<Longrightarrow> inside r (target_in r l)"
  unfolding target_in_def
  by (rule inside_text) (use path_parts_component [of l] in \<open>auto simp: plain_path_def no_slash_def component_def list_all_iff\<close>)

lemma contained_logical:
  assumes "canonical r" "is_absolute s"
  shows "contained r P (logical_absolute s) (\<lambda>l _. case l of None \<Rightarrow> inside r s | Some l \<Rightarrow> plain_path l)"
proof -
  have n: "plain_path (normpath s)"
    using normpath_parts [of s] normpath_cases [of s] resolve_no_dotdot
    by (auto simp: plain_path_def is_absolute_def starts_with_def path_text_def)
  have "inside r s" if "normpath s = path_text r \<or> starts_with (path_text r @ ''/'') (normpath s)"
    using that
  proof
    assume "starts_with (path_text r @ ''/'') (normpath s)"
    then obtain t where "normpath s = path_text r @ ''/'' @ t" using starts_with_split by fastforce
    then have "resolve (path_parts s) = r @ path_parts t"
      using normpath_parts [of s] path_parts_cat [of "path_text r" t] canonical_simps(1) [OF assms(1)] by simp
    then show ?thesis using assms(2) by (simp add: inside_def)
  next
    assume "normpath s = path_text r"
    then have "resolve (path_parts s) = r" using normpath_parts [of s] canonical_simps(1) [OF assms(1)] by simp
    then show ?thesis using assms(2) by (simp add: inside_def)
  qed
  with n show ?thesis
    using assms(2) by (intro containedI) (simp add: logical_absolute_def Let_def done_with_def moves_refl)
qed

lemma contained_read_path:
  assumes "canonical r" "is_absolute s"
  shows "contained r P (read_path s) anything"
  unfolding read_path_def
proof (rule contained_then [OF contained_logical [OF assms]])
  fix l
  show "contained r anywhere (case l of None \<Rightarrow> done_with s
      | Some logical \<Rightarrow> after (candidate_exists logical) (\<lambda>found.
          if found then (\<lambda>L. done_with (candidate L logical) L)
          else after (is_tombstoned logical) (\<lambda>gone L. done_with (if gone then candidate L logical else s) L))) anything"
    by (cases l) (auto intro!: contained_done contained_done_at contained_seq contained_candidate_exists contained_tombs)
qed

section \<open>The methods\<close>

lemmas contained_basics = contained_done contained_raised contained_tombs contained_candidate_exists contained_path_exists
  contained_optional contained_calls contained_any

lemma contained_asks_any: "contained r P (asks f) anything"
  by (rule contained_asks) simp

lemma no_slash_snoc: "no_slash (p @ q) \<longleftrightarrow> no_slash p \<and> no_slash q"
  by (simp add: no_slash_def)

lemma contained_make_parents:
  assumes "canonical r" "no_slash (virtual @ parts)" "''..'' \<notin> set (virtual @ parts)"
  shows "contained r P (make_parents parts real (r @ virtual)) anything"
  using assms(2,3)
proof (induction parts arbitrary: real virtual P)
  case Nil
  show ?case by (simp add: contained_done)
next
  case (Cons part parts)
  have next_step: "contained r P (make_parents parts real1 (r @ virtual @ [part])) anything" for real1 P
    using Cons.IH [of "virtual @ [part]"] Cons.prems by simp
  have "inside r (path_text (r @ virtual @ [part]))"
    by (rule inside_text [OF assms(1)]) (use Cons.prems in \<open>auto simp: no_slash_def\<close>)
  then have mk: "contained r P (calls (os_mkdir 448 (path_text (r @ virtual @ [part])))) anything" for P
    by (intro contained_calls os_mkdir_stays)
  show ?case
    by (simp add: Let_def)
      (auto intro!: contained_seq contained_basics contained_asks_any next_step mk split: option.splits)
qed

lemma text_parts_plain: "plain_path l \<Longrightarrow> no_slash (text_parts l) \<and> ''..'' \<notin> set (text_parts l)"
  using split_on_parts [of _ "CHR ''/''" l]
  by (auto simp: plain_path_def text_parts_def path_parts_def no_slash_def list_all_iff)

lemma all_same: "W \<noteq> [] \<Longrightarrow> \<forall>c \<in> set W. c = x \<Longrightarrow> \<exists>u. W = x # u"
  by (cases W) auto

lemma glued: "s = h @ t \<Longrightarrow> h = d @ w \<Longrightarrow> w = c # u \<Longrightarrow> s = d @ c # (u @ t)"
  by simp

lemma dirname_split: "dirname s = [] \<or> list_all (\<lambda>c. c = CHR ''/'') (dirname s) \<or> (\<exists>t. s = dirname s @ CHR ''/'' # t)"
proof -
  let ?head = "rev (dropWhile (\<lambda>c. c \<noteq> CHR ''/'') (rev s))"
  show ?thesis
  proof (cases "list_all (\<lambda>c. c = CHR ''/'') ?head")
    case True
    then show ?thesis by (simp add: dirname_def)
  next
    case False
    have s: "s = ?head @ rev (takeWhile (\<lambda>c. c \<noteq> CHR ''/'') (rev s))"
      by (metis rev_append rev_rev_ident takeWhile_dropWhile_id)
    have d: "dirname s = rev (dropWhile (\<lambda>c. c = CHR ''/'') (rev ?head))" using False by (simp add: dirname_def Let_def)
    have h: "?head = dirname s @ rev (takeWhile (\<lambda>c. c = CHR ''/'') (rev ?head))"
      unfolding d by (metis rev_append rev_rev_ident takeWhile_dropWhile_id)
    have ne: "dropWhile (\<lambda>c. c \<noteq> CHR ''/'') (rev s) \<noteq> []" using False by (cases "dropWhile (\<lambda>c. c \<noteq> CHR ''/'') (rev s)") simp_all
    then have "?head \<noteq> []" by simp
    have "hd (rev ?head) = CHR ''/''" using hd_dropWhile [OF ne] by simp
    then have "takeWhile (\<lambda>c. c = CHR ''/'') (rev ?head) \<noteq> []" using \<open>?head \<noteq> []\<close>
      by (cases "rev ?head") auto
    then have w: "rev (takeWhile (\<lambda>c. c = CHR ''/'') (rev ?head)) \<noteq> []" by simp
    have a: "\<forall>c \<in> set (rev (takeWhile (\<lambda>c. c = CHR ''/'') (rev ?head))). c = CHR ''/''" by (auto dest: set_takeWhileD)
    obtain u where u: "rev (takeWhile (\<lambda>c. c = CHR ''/'') (rev ?head)) = CHR ''/'' # u"
      using all_same [OF w a] by blast
    have "s = dirname s @ CHR ''/'' # (u @ rev (takeWhile (\<lambda>c. c \<noteq> CHR ''/'') (rev s)))"
      by (rule glued [OF s h u])
    then show ?thesis by blast
  qed
qed

lemma text_parts_slashes: "list_all (\<lambda>c. c = CHR ''/'') s \<Longrightarrow> text_parts s = []"
  by (induction s) (auto simp: text_parts_def)

lemma text_parts_parent: "set (text_parts (parent_text l)) \<subseteq> set (text_parts l)"
proof -
  have "text_parts ''/'' = []" "text_parts [] = []" by (simp_all add: text_parts_def)
  then show ?thesis
    using dirname_split [of l] text_parts_slashes [of "dirname l"]
    by (auto simp: parent_text_def) (metis UnI1 filter_append set_append split_on_cat text_parts_def)
qed

lemma contained_materialize: "canonical r \<Longrightarrow> plain_path l \<Longrightarrow> contained r P (materialize_existing_parents l) anything"
proof -
  assume a: "canonical r" "plain_path l"
  let ?parts = "text_parts (parent_text l)"
  have "no_slash (''absolute'' # ?parts)" "''..'' \<notin> set (''absolute'' # ?parts)"
    using text_parts_plain [OF a(2)] text_parts_parent [of l] by (auto simp: no_slash_def list_all_iff)
  then have "contained r P (make_parents ?parts ''/'' (r @ [''absolute''])) anything"
    using contained_make_parents [OF a(1), of "[''absolute'']"] by simp
  then show ?thesis
    by (intro contained_eq [of r "materialize_existing_parents l" "if parent_text l = ''/'' then done_with () else make_parents ?parts ''/'' (r @ [''absolute''])"])
      (simp_all add: materialize_existing_parents_def absolute_root_def contained_done)
qed

lemma contained_no_link: "contained r P (no_link_on parts current) anything"
proof (induction parts arbitrary: current P)
  case (Cons part parts)
  then show ?case
    by (auto intro!: contained_seq contained_basics contained_asks_any split: option.splits)
qed (simp add: contained_done)

lemma contained_assert: "contained r P (assert_no_virtual_symlink_parent l) anything"
  by (rule contained_eq [of r _ "no_link_on (butlast (text_parts l)) (r @ [''absolute''])"])
    (simp_all add: assert_no_virtual_symlink_parent_def absolute_root_def contained_no_link)

lemma contained_copy_up: "canonical r \<Longrightarrow> plain_path l \<Longrightarrow> contained r P (copy_up l k) anything"
proof -
  assume a: "canonical r" "plain_path l"
  note i = target_inside [OF a]
  show ?thesis
  proof (cases k)
    case IsRegular
    then show ?thesis
      by (intro contained_eq [OF _ contained_calls [OF copy_file_stays [OF i]], of "copy_up l k"]) (simp add: copy_up_def candidate_target)
  next
    case IsFolder
    have "ends_well r anything L (calls (copy_tree (untouched (ly_tombs L) l) l (target_in r l)) L)"
      if "ly_root L = r" "sealed r (ly_os L)" for L :: layer
      using containedD [OF contained_calls [OF copy_tree_stays [OF i]] that, where P = anywhere] by simp
    then show ?thesis using IsFolder by (intro containedI) (simp add: copy_up_def candidate_target)
  next
    case IsLink
    have "contained r P (asks (os_readlink l)) (\<lambda>_ _. False)"
      by (rule contained_asks) (use a(2) no_link_read in \<open>auto simp: plain_path_def\<close>)
    then have "contained r P (after (asks (os_readlink l)) (\<lambda>target. calls (os_symlink target (target_in r l)))) anything"
      by (rule contained_then) simp
    then show ?thesis
      by (rule contained_eq [rotated]) (simp add: copy_up_def IsLink candidate_target)
  qed
qed

lemma contained_write_path:
  assumes "canonical r" "is_absolute s"
  shows "contained r P (write_path copy_existing exclusive s) (\<lambda>target _. inside r target)"
  unfolding write_path_def
proof (rule contained_then [OF contained_logical [OF assms]], goal_cases)
  case (1 l)
  show ?case
  proof (cases l)
    case None
    with 1 show ?thesis by (simp add: contained_done)
  next
    case (Some logical)
    with 1 have p: "plain_path logical" by simp
    have final: "contained r P (\<lambda>L. done_with (candidate L logical) (clear_tombstone logical L)) (\<lambda>target _. inside r target)" for P
      by (rule containedI) (simp add: candidate_target done_with_def clear_tombstone_def moves_refl target_inside [OF assms(1) p])
    show ?thesis unfolding Some option.case
      by (intro contained_seq contained_materialize [OF assms(1) p] contained_assert contained_candidate_exists contained_optional contained_asks_any)
        (auto intro!: contained_seq final contained_done contained_raised contained_tombs contained_copy_up [OF assms(1) p])
  qed
qed

lemma contained_names: "contained r P (visible_names l names) anything"
  by (induction names arbitrary: P) (auto intro!: contained_seq contained_done contained_tombs)

lemma contained_listdir: "canonical r \<Longrightarrow> is_absolute s \<Longrightarrow> contained r P (layer_listdir s) anything"
proof -
  assume a: "canonical r" "is_absolute s"
  have cand: "contained r P (\<lambda>L. optional (asks (os_listdir (candidate L l))) L) anything" for P l
    by (rule contained_eq [of r _ "optional (asks (os_listdir (target_in r l)))"]) (simp_all add: contained_optional contained_asks_any candidate_target)
  show ?thesis unfolding layer_listdir_def
    by (rule contained_then [OF contained_logical [OF a]])
      (auto intro!: contained_seq contained_done contained_raised contained_tombs contained_candidate_exists contained_optional contained_asks_any
        contained_names cand split: option.splits)
qed

text \<open>
  The calls of the user's code as one datatype, and what holds of any number of them: the real files stay as they are.
\<close>

section \<open>The other methods\<close>

lemma contained_delete: "canonical r \<Longrightarrow> is_absolute s \<Longrightarrow> contained r P (delete_logical directory s) anything"
proof -
  assume a: "canonical r" "is_absolute s"
  have raw: "contained r P (calls (if directory then os_rmdir x else os_unlink x)) anything" if "inside r x" for P x
    using that by (auto intro!: contained_calls os_rmdir_stays os_unlink_stays)
  show ?thesis
    unfolding delete_logical_def
  proof (rule contained_then [OF contained_logical [OF a]], goal_cases)
    case (1 l)
    show ?case
    proof (cases l)
      case None
      with 1 show ?thesis using raw by simp
    next
      case (Some logical)
      with 1 have p: "plain_path logical" by simp
      have stat: "contained r P (\<lambda>L. optional (asks (os_lstat (candidate L logical))) L) anything" for P
        by (rule contained_eq [of r _ "optional (asks (os_lstat (target_in r logical)))"])
          (simp_all add: candidate_target contained_optional contained_asks_any)
      have remove: "contained r P (\<lambda>L. calls (if directory then os_rmdir (candidate L logical) else os_unlink (candidate L logical)) L) anything" for P
        by (rule contained_eq [OF _ raw [OF target_inside [OF a(1) p]]]) (simp add: candidate_target)
      have list: "contained r P (layer_listdir logical) anything" for P
        using p by (intro contained_listdir a(1)) (simp add: plain_path_def)
      show ?thesis unfolding Some option.case
        by (auto intro!: contained_seq stat remove list contained_done contained_raised contained_tombs contained_optional contained_asks_any)
    qed
  qed
qed

lemma contained_source:
  "canonical r \<Longrightarrow> is_absolute s \<Longrightarrow> contained r P (copy_up_source s) (\<lambda>v _. inside r (fst v))"
proof -
  assume a: "canonical r" "is_absolute s"
  show ?thesis
    unfolding copy_up_source_def
  proof (rule contained_then [OF contained_logical [OF a]], goal_cases)
    case (1 l)
    show ?case
    proof (cases l)
      case None
      with 1 show ?thesis by (simp add: contained_done)
    next
      case (Some logical)
      with 1 have p: "plain_path logical" by simp
      have final: "contained r P (\<lambda>L. done_with (candidate L logical, Some logical) L) (\<lambda>v _. inside r (fst v))" for P
        by (rule contained_done_at) (simp add: candidate_target target_inside [OF a(1) p])
      show ?thesis unfolding Some option.case
        by (auto intro!: contained_seq final contained_raised contained_tombs contained_candidate_exists contained_asks_any
            contained_materialize [OF a(1) p] contained_copy_up [OF a(1) p])
    qed
  qed
qed

lemma contained_move: "canonical r \<Longrightarrow> is_absolute a \<Longrightarrow> is_absolute b \<Longrightarrow> contained r P (move exclusive a b) anything"
proof -
  assume c: "canonical r" "is_absolute a" "is_absolute b"
  have "contained r anywhere (case v of (source, logical) \<Rightarrow> after (write_path False exclusive b) (\<lambda>target. after (calls (os_rename source target))
      (\<lambda>_. case logical of None \<Rightarrow> done_with () | Some l \<Rightarrow> add_tombstone l))) anything" if "inside r (fst v)" for v
  proof -
    obtain source logical where v: "v = (source, logical)" by fastforce
    have "contained r anywhere (after (calls (os_rename source target)) (\<lambda>_. case logical of None \<Rightarrow> done_with () | Some l \<Rightarrow> add_tombstone l)) anything"
      if "inside r target" for target
      using that \<open>inside r (fst v)\<close> v
      by (auto intro!: contained_seq contained_calls os_rename_stays contained_done contained_tombs split: option.splits)
    then show ?thesis unfolding v prod.case by (rule contained_then [OF contained_write_path [OF c(1,3)]])
  qed
  then show ?thesis unfolding move_def by (rule contained_then [OF contained_source [OF c(1,2)]])
qed

text \<open>The methods that hand the path to write to one operation.\<close>

lemma contained_on_write:
  "canonical r \<Longrightarrow> is_absolute s \<Longrightarrow> (\<And>target. inside r target \<Longrightarrow> stays r (f target)) \<Longrightarrow>
    contained r P (after (write_path copy exclusive s) (\<lambda>target. calls (f target))) anything"
  by (rule contained_then [OF contained_write_path]) (auto intro: contained_calls)

lemma posix_join_parts: "\<not> is_absolute b \<Longrightarrow> path_parts (posix_join a b) = path_parts a @ path_parts b"
proof -
  assume b: "\<not> is_absolute b"
  have "path_parts [] = []" by (simp add: path_parts_def)
  moreover have "path_parts (a @ b) = path_parts a @ path_parts b" if "a \<noteq> []" "last a = CHR ''/''"
  proof -
    have "a = butlast a @ ''/''" using that append_butlast_last_id by metis
    then show ?thesis using path_parts_cat [of "butlast a" b] path_parts_cat [of "butlast a" "[]"] \<open>path_parts [] = []\<close> by (metis append.assoc append_Nil2)
  qed
  ultimately show ?thesis using b path_parts_cat [of a b] by (cases "a = []") (auto simp: posix_join_def)
qed

lemma posix_join_absolute: "is_absolute a \<Longrightarrow> is_absolute (posix_join a b)"
  by (cases a) (auto simp: posix_join_def is_absolute_def starts_with_def)

lemma contained_chdir: "canonical r \<Longrightarrow> is_absolute s \<Longrightarrow> contained r P (layer_chdir s) anything"
proof -
  assume a: "canonical r" "is_absolute s"
  show ?thesis
    unfolding layer_chdir_def
  proof (rule contained_then [OF contained_logical [OF a]], goal_cases)
    case (1 l)
    show ?case
    proof (cases l)
      case None
      then show ?thesis by (simp add: contained_calls os_chdir_stays)
    next
      case (Some logical)
      with 1 have p: "plain_path logical" by simp
      have p2: "plain_path (posix_join logical ''.mpr'')"
        using p posix_join_parts [of "''.mpr''" logical] posix_join_absolute [of logical "''.mpr''"]
        by (auto simp: plain_path_def path_parts_def is_absolute_def starts_with_def)
      have make: "contained r P (\<lambda>L. after (path_exists (candidate L logical)) (\<lambda>there.
          if there then done_with () else calls (os_mkdir 448 (candidate L logical))) L) anything" for P
        by (rule contained_eq [of r _ "after (path_exists (target_in r logical)) (\<lambda>there.
            if there then done_with () else calls (os_mkdir 448 (target_in r logical)))"])
          (auto simp: candidate_target target_inside [OF a(1) p] cong: if_cong
            intro!: contained_seq contained_path_exists contained_done contained_calls os_mkdir_stays)
      have go: "contained r P (\<lambda>L. calls (os_chdir (candidate L logical)) L) anything" for P
        by (rule contained_eq [of r _ "calls (os_chdir (target_in r logical))"]) (simp_all add: candidate_target contained_calls os_chdir_stays)
      show ?thesis unfolding Some option.case
        by (auto intro!: contained_seq make go contained_done contained_raised contained_tombs contained_candidate_exists contained_asks_any
            contained_materialize [OF a(1) p2])
    qed
  qed
qed

lemma contained_open: "canonical r \<Longrightarrow> is_absolute s \<Longrightarrow> contained r P (layer_open mode s) (\<lambda>h L. inner_handle r (ly_os L) h)"
  unfolding layer_open_def
proof (cases "mode_writes mode")
  assume a: "canonical r" "is_absolute s" and w: "mode_writes mode"
  have "contained r anywhere (calls (builtin_open mode target)) (\<lambda>h L. inner_handle r (ly_os L) h)" if "inside r target" for target
  proof (rule containedI)
    fix L :: layer assume L: "ly_root L = r" "sealed r (ly_os L)"
    obtain S x where o: "os_open (mode_flags mode) 438 target (ly_os L) = (S, x)" by fastforce
    from os_open_stays [OF that L(2) o] show "ends_well r (\<lambda>h L. inner_handle r (ly_os L) h) L (calls (builtin_open mode target) L)"
      using L by (cases x) (auto simp: calls_def builtin_open_def o moves_refl)
  qed
  then show "contained r P (after (if \<not> mode_writes mode then read_path s else write_path (mode_copies mode) (CHR ''x'' \<in> set mode) s)
      (\<lambda>target. calls (builtin_open mode target))) (\<lambda>h L. inner_handle r (ly_os L) h)"
    using w by (simp add: contained_then [OF contained_write_path [OF a]])
next
  assume a: "canonical r" "is_absolute s" and w: "\<not> mode_writes mode"
  have f: "\<not> fg_write (mode_flags mode)" "\<not> fg_create (mode_flags mode)" "\<not> fg_trunc (mode_flags mode)" if "valid_mode mode"
  proof -
    have "CHR ''r'' \<in> set mode"
    proof (rule ccontr)
      assume "CHR ''r'' \<notin> set mode"
      then have "filter (\<lambda>c. c \<in> set ''rwxa'') mode = []" using w by (auto simp: mode_writes_def filter_empty_conv)
      with that show False by (simp add: valid_mode_def)
    qed
    with w show "\<not> fg_write (mode_flags mode)" "\<not> fg_create (mode_flags mode)" "\<not> fg_trunc (mode_flags mode)"
      by (auto simp: mode_writes_def mode_flags_def Let_def)
  qed
  have "contained r anywhere (calls (builtin_open mode target)) (\<lambda>h L. inner_handle r (ly_os L) h)" for target
  proof (rule containedI)
    fix L :: layer assume L: "ly_root L = r" "sealed r (ly_os L)"
    obtain S x where o: "os_open (mode_flags mode) 438 target (ly_os L) = (S, x)" by fastforce
    show "ends_well r (\<lambda>h L. inner_handle r (ly_os L) h) L (calls (builtin_open mode target) L)"
    proof (cases "valid_mode mode")
      case True
      from os_open_reads [OF f [OF True] o] show ?thesis
        using L True by (cases x) (auto simp: calls_def builtin_open_def o moves_refl)
    qed (use L in \<open>simp add: calls_def builtin_open_def moves_refl\<close>)
  qed
  then show "contained r P (after (if \<not> mode_writes mode then read_path s else write_path (mode_copies mode) (CHR ''x'' \<in> set mode) s)
      (\<lambda>target. calls (builtin_open mode target))) (\<lambda>h L. inner_handle r (ly_os L) h)"
    using w by (simp add: contained_seq [OF contained_read_path [OF a]])
qed

lemma contained_os_open:
  "canonical r \<Longrightarrow> is_absolute s \<Longrightarrow> contained r P (layer_os_open fl mode s) (\<lambda>h L. inner_handle r (ly_os L) h)"
proof -
  assume a: "canonical r" "is_absolute s"
  have writing: "contained r anywhere (calls (os_open fl mode target)) (\<lambda>h L. inner_handle r (ly_os L) h)" if "inside r target" for target
  proof (rule containedI)
    fix L :: layer assume L: "ly_root L = r" "sealed r (ly_os L)"
    obtain S x where o: "os_open fl mode target (ly_os L) = (S, x)" by fastforce
    from os_open_stays [OF that L(2) o] show "ends_well r (\<lambda>h L. inner_handle r (ly_os L) h) L (calls (os_open fl mode target) L)"
      using L by (cases x) (auto simp: calls_def o)
  qed
  have reading: "contained r anywhere (calls (os_open fl mode target)) (\<lambda>h L. inner_handle r (ly_os L) h)" if "\<not> flags_write fl" for target
  proof (rule containedI)
    fix L :: layer assume L: "ly_root L = r" "sealed r (ly_os L)"
    obtain S x where o: "os_open fl mode target (ly_os L) = (S, x)" by fastforce
    have f: "\<not> fg_write fl" "\<not> fg_create fl" "\<not> fg_trunc fl" using that by (simp_all add: flags_write_def)
    from os_open_reads [OF f o, of r] show "ends_well r (\<lambda>h L. inner_handle r (ly_os L) h) L (calls (os_open fl mode target) L)"
      using L by (cases x) (auto simp: calls_def o moves_refl)
  qed
  show ?thesis
    unfolding layer_os_open_def Let_def
    by (cases "flags_write fl") (simp_all add: contained_then [OF contained_write_path [OF a] writing] contained_seq [OF contained_read_path [OF a] reading])
qed

section \<open>The calls of the user's code\<close>

datatype path_call =
    OpenFile string string bytes
  | OpenFd flags nat string bytes
  | MakeDir nat string
  | Unlink string
  | RemoveDir string
  | Rename string string
  | Replace string string
  | ChangeMode nat bool string
  | SetTimes int bool string
  | Truncate nat string
  | ChangeDir string
  | ListDir string
  | ScanDir string
  | Stat bool string
  | LStat string
  | ReadLink string
  | GetCwd

definition ignored :: "'a job \<Rightarrow> unit job" where
  "ignored m = after m (\<lambda>_. done_with ())"

text \<open>A file is opened, read, and written when it can be.\<close>

definition use_file :: "bytes \<Rightarrow> handle \<Rightarrow> unit job" where
  "use_file data h =
     (if fg_write (hd_flags h) then calls (fd_write h data) else ignored (asks (fd_read h)))"

fun perform :: "path_call \<Rightarrow> unit job" where
  "perform (OpenFile mode s data) = after (layer_open mode s) (use_file data)"
| "perform (OpenFd fl mode s data) = after (layer_os_open fl mode s) (use_file data)"
| "perform (MakeDir mode s) = layer_mkdir mode s"
| "perform (Unlink s) = layer_unlink s"
| "perform (RemoveDir s) = layer_rmdir s"
| "perform (Rename a b) = layer_rename a b"
| "perform (Replace a b) = layer_replace a b"
| "perform (ChangeMode mode follow s) = layer_chmod mode follow s"
| "perform (SetTimes time follow s) = layer_utime time follow s"
| "perform (Truncate n s) = layer_truncate n s"
| "perform (ChangeDir s) = layer_chdir s"
| "perform (ListDir s) = ignored (layer_listdir s)"
| "perform (ScanDir s) = ignored (layer_scandir s)"
| "perform (Stat follow s) = ignored (layer_stat follow s)"
| "perform (LStat s) = ignored (layer_lstat s)"
| "perform (ReadLink s) = ignored (layer_readlink s)"
| "perform GetCwd = ignored layer_getcwd"

fun call_paths :: "path_call \<Rightarrow> string list" where
  "call_paths (OpenFile mode s data) = [s]"
| "call_paths (OpenFd fl mode s data) = [s]"
| "call_paths (MakeDir mode s) = [s]"
| "call_paths (Unlink s) = [s]"
| "call_paths (RemoveDir s) = [s]"
| "call_paths (Rename a b) = [a, b]"
| "call_paths (Replace a b) = [a, b]"
| "call_paths (ChangeMode mode follow s) = [s]"
| "call_paths (SetTimes time follow s) = [s]"
| "call_paths (Truncate n s) = [s]"
| "call_paths (ChangeDir s) = [s]"
| "call_paths (ListDir s) = [s]"
| "call_paths (ScanDir s) = [s]"
| "call_paths (Stat follow s) = [s]"
| "call_paths (LStat s) = [s]"
| "call_paths (ReadLink s) = [s]"
| "call_paths GetCwd = []"

text \<open>A run of calls; the user's code goes on after an exception.\<close>

fun run_calls :: "path_call list \<Rightarrow> layer \<Rightarrow> layer option" where
  "run_calls [] L = Some L"
| "run_calls (c # cs) L = (case perform c L of None \<Rightarrow> None | Some (L1, x) \<Rightarrow> run_calls cs L1)"

lemma contained_ignored: "contained r P m anything \<Longrightarrow> contained r P (ignored m) anything"
  unfolding ignored_def by (intro contained_seq contained_done) simp_all

lemma contained_use: "contained r (\<lambda>L. inner_handle r (ly_os L) h) (use_file data h) anything"
proof (rule containedI)
  fix L :: layer assume L: "ly_root L = r" "sealed r (ly_os L)" "inner_handle r (ly_os L) h"
  obtain S x where w: "fd_write h data (ly_os L) = (S, x)" by fastforce
  then have "moves r (ly_os L) S" using fd_write_moves [OF L(2,3), of data] by simp
  then show "ends_well r anything L (use_file data h L)"
    using L containedD [OF contained_ignored [OF contained_asks_any] L(1,2), of anywhere "fd_read h"]
    by (cases x) (simp_all add: use_file_def calls_def w)
qed

lemma contained_perform:
  assumes "canonical r" "list_all is_absolute (call_paths c)"
  shows "contained r anywhere (perform c) anything"
proof (cases c)
  case (ScanDir s)
  then have s: "is_absolute s" using assms(2) by simp
  have "contained r P (case l of None \<Rightarrow> after (asks (os_listdir s)) (\<lambda>names. done_with (map (dir_entry_of s) names))
      | Some logical \<Rightarrow> after (layer_listdir logical) (\<lambda>names. done_with (map (dir_entry_of logical) names))) anything"
    if "case l of None \<Rightarrow> inside r s | Some l \<Rightarrow> plain_path l" for l P
    using that assms(1)
    by (cases l) (auto simp: plain_path_def intro!: contained_seq contained_asks_any contained_done contained_listdir)
  then show ?thesis
    unfolding ScanDir perform.simps layer_scandir_def
    by (intro contained_ignored contained_then [OF contained_logical [OF assms(1) s]])
next
  case GetCwd
  have "contained r anywhere layer_getcwd anything"
    by (rule contained_eq [of r _ "after (asks os_getcwd) (\<lambda>cwd.
        done_with (case relative_to (r @ [''absolute'']) (path_parts cwd) of None \<Rightarrow> cwd | Some q \<Rightarrow> ''/'' @ q))"])
      (simp_all add: layer_getcwd_def absolute_root_def contained_seq contained_asks_any contained_done)
  then show ?thesis by (simp add: GetCwd contained_ignored)
next
  case (OpenFile mode s data)
  then show ?thesis using assms contained_after [OF contained_open contained_use] by simp
next
  case (OpenFd fl mode s data)
  then show ?thesis using assms contained_after [OF contained_os_open contained_use] by simp
qed (use assms in \<open>simp_all add: layer_mkdir_def layer_unlink_def layer_rmdir_def layer_rename_def layer_replace_def layer_chmod_def
      layer_utime_def layer_truncate_def layer_stat_def layer_lstat_def layer_readlink_def contained_on_write os_mkdir_stays os_chmod_stays
      os_utime_stays os_truncate_stays contained_delete contained_move contained_chdir contained_listdir contained_ignored contained_seq
      contained_read_path contained_asks_any\<close>)

text \<open>C7: Safety of the path layer: in a container without symbolic links, whatever absolute paths the user's code opens, creates,
  removes, renames or changes (other than making links), every entry outside the directory of the invocation stays, with
  its content and its attributes.\<close>

theorem real_files_untouched:
  assumes "canonical (ly_root L)" "sealed (ly_root L) (ly_os L)" "list_all (\<lambda>c. list_all is_absolute (call_paths c)) cs"
    and "run_calls cs L = Some L'" "\<not> prefix (ly_root L) k"
  shows "dict_get (os_tree (ly_os L')) k = dict_get (os_tree (ly_os L)) k \<and>
    (\<forall>i. dict_get (os_tree (ly_os L)) k = Some (Regular i) \<longrightarrow> os_files (ly_os L') ! i = os_files (ly_os L) ! i)"
proof -
  have "ly_root L' = ly_root L \<and> moves (ly_root L) (ly_os L) (ly_os L')"
    using assms(1-4)
  proof (induction cs L rule: run_calls.induct)
    case (2 c cs L)
    from "2.prems"(4) obtain L1 x where p: "perform c L = Some (L1, x)" and run: "run_calls cs L1 = Some L'"
      by (auto split: option.splits)
    have "list_all is_absolute (call_paths c)" using "2.prems"(3) by simp
    from containedD [OF contained_perform [OF "2.prems"(1) this] refl "2.prems"(2) TrueI] p
    have m: "ly_root L1 = ly_root L" "moves (ly_root L) (ly_os L) (ly_os L1)" by (cases x; simp)+
    have "ly_root L' = ly_root L1 \<and> moves (ly_root L1) (ly_os L1) (ly_os L')"
      by (rule "2.IH" [OF p refl]) (use m run "2.prems"(1,3) moves_sealed [OF m(2)] in simp_all)
    with m show ?case by (auto intro: moves_trans)
  qed (simp add: moves_refl)
  then show ?thesis using assms(5) by (simp add: moves_def same_outside_def)
qed

end
