(* ===== verification/Path_View.thy ===== *)
theory Path_View
  imports Path_Theorems
begin

text \<open>
  Which calls of the path layer return, and what it shows: listings and look-ups agree, a file that is appended to
  reads back.
\<close>

section \<open>The loop over the tombstones\<close>

definition two_slashes :: "string \<Rightarrow> bool" where
  "two_slashes s \<longleftrightarrow> starts_with ''//'' s \<and> \<not> starts_with ''///'' s"

text \<open>A text that starts with one slash only.\<close>

definition one_slash :: "string \<Rightarrow> bool" where
  "one_slash s \<longleftrightarrow> starts_with ''/'' s \<and> \<not> starts_with ''//'' s"

lemma one_slash_cases: "one_slash s \<longleftrightarrow> s = ''/'' \<or> (\<exists>c t. s = CHR ''/'' # c # t \<and> c \<noteq> CHR ''/'')"
proof (cases s)
  case (Cons a u)
  then show ?thesis by (cases u) (auto simp: one_slash_def starts_with_def)
qed (simp add: one_slash_def starts_with_def)

lemma split_last_slash:
  obtains H T where "s = H @ T" "CHR ''/'' \<notin> set T" "H = [] \<or> last H = CHR ''/''" "H = rev (dropWhile (\<lambda>c. c \<noteq> CHR ''/'') (rev s))"
proof
  let ?H = "rev (dropWhile (\<lambda>c. c \<noteq> CHR ''/'') (rev s))"
  show "s = ?H @ rev (takeWhile (\<lambda>c. c \<noteq> CHR ''/'') (rev s))" by (metis rev_append rev_rev_ident takeWhile_dropWhile_id)
  show "CHR ''/'' \<notin> set (rev (takeWhile (\<lambda>c. c \<noteq> CHR ''/'') (rev s)))" by (auto dest: set_takeWhileD)
  show "?H = [] \<or> last ?H = CHR ''/''"
    using hd_dropWhile [of "\<lambda>c. c \<noteq> CHR ''/''" "rev s"] by (cases "dropWhile (\<lambda>c. c \<noteq> CHR ''/'') (rev s)") simp_all
qed simp

lemma split_slashes:
  assumes "last H = CHR ''/''" "\<not> list_all (\<lambda>c. c = CHR ''/'') H"
  obtains D n where "H = D @ replicate (Suc n) CHR ''/''" "D \<noteq> []" "last D \<noteq> CHR ''/''" "D = rev (dropWhile (\<lambda>c. c = CHR ''/'') (rev H))"
proof
  let ?D = "rev (dropWhile (\<lambda>c. c = CHR ''/'') (rev H))" and ?W = "takeWhile (\<lambda>c. c = CHR ''/'') (rev H)"
  have h: "H = ?D @ rev ?W" by (metis rev_append rev_rev_ident takeWhile_dropWhile_id)
  have "H \<noteq> []" using assms(2) by auto
  then obtain R where "rev H = CHR ''/'' # R" using assms(1) by (cases "rev H") (auto simp: hd_rev [symmetric])
  then have "length ?W = Suc (length ?W - 1)" by simp
  moreover have "?W = replicate (length ?W) CHR ''/''" by (rule replicate_length_same [symmetric]) (auto dest: set_takeWhileD)
  ultimately have "rev ?W = replicate (Suc (length ?W - 1)) CHR ''/''" by (metis rev_replicate)
  with h show "H = ?D @ replicate (Suc (length ?W - 1)) CHR ''/''" by simp
  have ne: "dropWhile (\<lambda>c. c = CHR ''/'') (rev H) \<noteq> []" using assms(2) by (auto simp: list_all_iff dropWhile_eq_Nil_conv)
  then show "?D \<noteq> []" by simp
  show "last ?D \<noteq> CHR ''/''" using hd_dropWhile [OF ne] by (simp add: last_rev)
qed simp

lemma dirname_cases:
  obtains (none) "CHR ''/'' \<notin> set s" "dirname s = []"
  | (slashes) n t where "s = replicate (Suc n) CHR ''/'' @ t" "CHR ''/'' \<notin> set t" "dirname s = replicate (Suc n) CHR ''/''"
  | (inner) d n t where "s = d @ replicate (Suc n) CHR ''/'' @ t" "CHR ''/'' \<notin> set t" "d \<noteq> []" "last d \<noteq> CHR ''/''" "dirname s = d"
proof -
  obtain H T where h: "s = H @ T" "CHR ''/'' \<notin> set T" "H = [] \<or> last H = CHR ''/''" "H = rev (dropWhile (\<lambda>c. c \<noteq> CHR ''/'') (rev s))"
    by (rule split_last_slash)
  have d: "dirname s = (if list_all (\<lambda>c. c = CHR ''/'') H then H else rev (dropWhile (\<lambda>c. c = CHR ''/'') (rev H)))"
    by (simp add: dirname_def h(4) [symmetric] Let_def)
  show ?thesis
  proof (cases "H = []")
    case True
    then have "s = T" "dirname s = []" using h(1) d by simp_all
    with h(2) show ?thesis by (intro none) simp_all
  next
    case ne: False
    show ?thesis
    proof (cases "list_all (\<lambda>c. c = CHR ''/'') H")
      case True
      then have "H = replicate (length H) CHR ''/''" by (intro replicate_length_same [symmetric]) (auto simp: list_all_iff)
      then obtain n where n: "H = replicate (Suc n) CHR ''/''" using ne by (cases "length H") auto
      have "dirname s = H" using d True by simp
      then show ?thesis using n h(1,2) by (intro slashes [of n T]) simp_all
    next
      case False
      have "last H = CHR ''/''" using h(3) ne by simp
      then obtain D n where D: "H = D @ replicate (Suc n) CHR ''/''" "D \<noteq> []" "last D \<noteq> CHR ''/''" "D = rev (dropWhile (\<lambda>c. c = CHR ''/'') (rev H))"
        using False by (rule split_slashes)
      have "dirname s = D" using d False D(4) by simp
      moreover have "s = D @ replicate (Suc n) CHR ''/'' @ T" using h(1) D(1) by (metis append.assoc)
      ultimately show ?thesis using h(2) D(2,3) by (intro inner [of D n T])
    qed
  qed
qed

lemma parent_one_slash:
  assumes "one_slash s" "s \<noteq> ''/''"
  shows "one_slash (parent_text s) \<and> length (parent_text s) < length s"
proof -
  obtain c t where s: "s = CHR ''/'' # c # t" "c \<noteq> CHR ''/''" using assms by (auto simp: one_slash_cases)
  show ?thesis
  proof (cases s rule: dirname_cases)
    case (slashes n u)
    then have "n = 0" using s by (cases n) auto
    with slashes s show ?thesis by (auto simp: parent_text_def one_slash_def starts_with_def)
  next
    case (inner d n u)
    have "one_slash d"
    proof (cases d)
      case (Cons a w)
      then show ?thesis using inner s by (cases w) (auto simp: one_slash_cases)
    qed (use inner in simp)
    with inner show ?thesis by (simp add: parent_text_def)
  qed (use s in simp)
qed

lemma tombstoned_returns: "one_slash s \<Longrightarrow> tombstoned tombs s \<noteq> None"
proof (induction s rule: length_induct)
  case (1 s)
  show ?case
  proof (cases "s \<in> set tombs \<or> s = ''/''")
    case False
    then have "tombstoned tombs s = tombstoned tombs (parent_text s)" by (subst tombstoned.simps) simp
    moreover have "one_slash (parent_text s)" "length (parent_text s) < length s" using parent_one_slash [OF 1(2)] False by blast+
    ultimately show ?thesis using 1(1) by auto
  qed (subst tombstoned.simps, auto)
qed

lemma parent_two_slashes:
  assumes "starts_with ''//'' s"
  shows "starts_with ''//'' (parent_text s)"
proof -
  obtain w where s: "s = CHR ''/'' # CHR ''/'' # w" using starts_with_split [OF assms] by auto
  show ?thesis
  proof (cases s rule: dirname_cases)
    case (slashes n t)
    then have "n \<noteq> 0" using s by (cases n) auto
    with slashes show ?thesis by (cases n) (simp_all add: parent_text_def starts_with_def)
  next
    case (inner d n t)
    obtain a u where d: "d = a # u" using inner(3) by (cases d) auto
    then have a: "a = CHR ''/''" using inner(1) s by simp
    obtain e v where "u = e # v" using inner(4) d a by (cases u) auto
    with inner(1,5) s d a show ?thesis by (simp add: parent_text_def starts_with_def)
  qed (use s in simp)
qed

lemma tombstoned_two_slashes:
  "tombstoned tombs s = Some b \<Longrightarrow> starts_with ''//'' s \<longrightarrow> (\<exists>t \<in> set tombs. starts_with ''//'' t)"
proof (erule tombstoned.raw_induct [of "\<lambda>tombs s b. starts_with ''//'' s \<longrightarrow> (\<exists>t \<in> set tombs. starts_with ''//'' t)", rotated], goal_cases)
  case (1 f tombs s b)
  then show ?case using parent_two_slashes [of s] by (auto split: if_splits simp: starts_with_def)
qed

section \<open>Calls that return\<close>

definition total :: "'a job \<Rightarrow> bool" where
  "total m \<longleftrightarrow> (\<forall>L. m L \<noteq> None)"

lemma total_after: "total m \<Longrightarrow> (\<And>v. total (f v)) \<Longrightarrow> total (after m f)"
  by (fastforce simp: total_def after_def split: option.splits sum.splits)

lemma total_basics [simp]:
  "total (done_with x)" "total (raised e)" "total (asks g)" "total (calls h)" "total (add_tombstone l)" "total (path_exists s)"
  "total (\<lambda>L. done_with (k L) L)" "total (\<lambda>L. done_with (k L) (clear_tombstone l L))"
  by (simp_all add: total_def done_with_def raised_def asks_def calls_def add_tombstone_def path_exists_def split: prod.split)

lemma total_missing: "total m \<Longrightarrow> total h \<Longrightarrow> total (missing m h)"
  by (auto simp: total_def missing_def split: option.split prod.split sum.split exn.split)

lemma total_optional [simp]: "total m \<Longrightarrow> total (optional m)"
  by (simp add: optional_def total_missing total_after)

lemma total_at: "(\<And>L. total (m L)) \<Longrightarrow> total (\<lambda>L. m L L)"
  by (simp add: total_def)

lemma total_candidate_exists [simp]: "total (candidate_exists l)"
proof -
  have "total (exists_at s)" for s by (simp add: exists_at_def total_missing total_after)
  then show ?thesis by (simp add: total_def candidate_exists_def)
qed

lemma total_tombstoned: "one_slash l \<Longrightarrow> total (is_tombstoned l)"
  using tombstoned_returns by (simp add: total_def is_tombstoned_def)

lemma total_make_parents: "total (make_parents parts real virtual)"
  by (induction parts real virtual rule: make_parents.induct)
    (auto simp: Let_def intro!: total_after split: option.split)

lemma total_materialize [simp]: "total (materialize_existing_parents l)"
  using total_make_parents by (auto simp: materialize_existing_parents_def total_def done_with_def)

lemma total_no_link: "total (no_link_on parts current)"
  by (induction parts current rule: no_link_on.induct) (auto intro!: total_after split: option.split)

lemma total_assert [simp]: "total (assert_no_virtual_symlink_parent l)"
  using total_no_link by (simp add: assert_no_virtual_symlink_parent_def total_def)

lemma total_copy_up [simp]: "total (copy_up l k)"
proof -
  have "total (after (asks (os_readlink l)) (\<lambda>target. calls (os_symlink target s)))" for s by (simp add: total_after)
  moreover have "calls h L \<noteq> None" for h :: "os \<Rightarrow> os \<times> (exn + unit)" and L by (simp add: calls_def split: prod.split)
  ultimately show ?thesis by (cases k) (simp_all add: copy_up_def total_def)
qed

text \<open>A path with one slash in front, or any number but two, has a logical path with one.\<close>

definition single :: "string \<Rightarrow> bool" where
  "single s \<longleftrightarrow> is_absolute s \<and> \<not> two_slashes s"

lemma path_text_second: "list_all component p \<Longrightarrow> p \<noteq> [] \<Longrightarrow> \<exists>a u. path_text p = CHR ''/'' # a # u \<and> a \<noteq> CHR ''/''"
proof -
  assume a: "list_all component p" "p \<noteq> []"
  then obtain c q where p: "p = c # q" by (cases p) auto
  then obtain b u where c: "c = b # u" "b \<noteq> CHR ''/''" using a(1) by (cases c) (auto simp: component_def)
  then obtain v where "join_with ''/'' p = b # v" using p by (cases q) auto
  with c show ?thesis by (simp add: path_text_def)
qed

lemma one_slash_text: "list_all component p \<Longrightarrow> one_slash (path_text p)"
  using path_text_second [of p] by (cases "p = []") (auto simp: one_slash_cases path_text_def)

definition logical_of :: "layer \<Rightarrow> string \<Rightarrow> string option" where
  "logical_of L s =
     (if normpath s = path_text (ly_root L) \<or> starts_with (path_text (ly_root L) @ ''/'') (normpath s) then None else Some (normpath s))"

lemma after_logical: "is_absolute s \<Longrightarrow> after (logical_absolute s) f L = f (logical_of L s) L"
  by (simp add: after_def logical_absolute_def Let_def done_with_def logical_of_def)

lemma normpath_single: "single s \<Longrightarrow> one_slash (normpath s)"
  using one_slash_text [OF resolve_components [OF path_parts_component], of s] by (auto simp: normpath_def single_def two_slashes_def)

lemma total_logical: "single s \<Longrightarrow> total (f None) \<Longrightarrow> (\<And>l. one_slash l \<Longrightarrow> total (f (Some l))) \<Longrightarrow> total (after (logical_absolute s) f)"
proof -
  assume a: "single s" "total (f None)" "\<And>l. one_slash l \<Longrightarrow> total (f (Some l))"
  have "f (logical_of L s) L \<noteq> None" for L
    using a(2) a(3) [OF normpath_single [OF a(1)]] by (simp add: logical_of_def total_def)
  then show ?thesis using after_logical [of s f] a(1) by (simp add: total_def single_def)
qed

lemma total_read_path: "single s \<Longrightarrow> total (read_path s)"
  unfolding read_path_def by (erule total_logical) (auto intro!: total_after total_tombstoned)

lemma total_write_path: "single s \<Longrightarrow> total (write_path c x s)"
  unfolding write_path_def by (erule total_logical) (auto intro!: total_after total_tombstoned)

text \<open>Listings look at the names there are, which must be names.\<close>

definition proper_names :: "os \<Rightarrow> bool" where
  "proper_names S \<longleftrightarrow> (\<forall>(k, x) \<in> set (os_tree S). list_all component k)"

definition orderly :: "'a job \<Rightarrow> bool" where
  "orderly m \<longleftrightarrow> (\<forall>L. proper_names (ly_os L) \<longrightarrow> (\<exists>L' x. m L = Some (L', x) \<and> proper_names (ly_os L')))"

lemma orderlyI: "(\<And>L. proper_names (ly_os L) \<Longrightarrow> \<exists>L' x. m L = Some (L', x) \<and> proper_names (ly_os L')) \<Longrightarrow> orderly m"
  by (simp add: orderly_def)

lemma orderly_after:
  assumes "orderly m" "\<And>v. orderly (f v)"
  shows "orderly (after m f)"
proof (rule orderlyI)
  fix L :: layer assume "proper_names (ly_os L)"
  then obtain L1 x where m: "m L = Some (L1, x)" "proper_names (ly_os L1)" using assms(1) by (auto simp: orderly_def)
  show "\<exists>L' x. after m f L = Some (L', x) \<and> proper_names (ly_os L')"
  proof (cases x)
    case (Inr v)
    then show ?thesis using assms(2) [of v] m by (simp add: after_def orderly_def)
  qed (use m in \<open>simp add: after_def\<close>)
qed

lemma orderly_basics [simp]: "orderly (done_with x)" "orderly (raised e)" "orderly (asks g)" "orderly (add_tombstone l)"
  by (auto simp: orderly_def done_with_def raised_def asks_def add_tombstone_def)

lemma orderly_missing: "orderly m \<Longrightarrow> orderly h \<Longrightarrow> orderly (missing m h)"
  unfolding orderly_def missing_def by (fastforce split: option.split prod.split sum.split exn.split)

lemma orderly_optional [simp]: "orderly m \<Longrightarrow> orderly (optional m)"
  by (simp add: optional_def orderly_missing orderly_after)

lemma orderly_candidate_exists [simp]: "orderly (candidate_exists l)"
proof -
  have "orderly (exists_at s)" for s by (simp add: exists_at_def orderly_missing orderly_after)
  then show ?thesis by (simp add: orderly_def candidate_exists_def)
qed

lemma orderly_tombstoned: "one_slash l \<Longrightarrow> orderly (is_tombstoned l)"
  using tombstoned_returns by (auto simp: orderly_def is_tombstoned_def)

lemma orderly_removal: "orderly (calls (os_rmdir s))" "orderly (calls (os_unlink s))"
  by (auto simp: orderly_def calls_def os_rmdir_def os_unlink_def drop_entry_def proper_names_def set_dict_pop
      split: sum.splits entry.splits if_splits)

lemma orderly_logical: "single s \<Longrightarrow> orderly (f None) \<Longrightarrow> (\<And>l. one_slash l \<Longrightarrow> orderly (f (Some l))) \<Longrightarrow> orderly (after (logical_absolute s) f)"
proof -
  assume a: "single s" "orderly (f None)" "\<And>l. one_slash l \<Longrightarrow> orderly (f (Some l))"
  have "orderly (f (logical_of L s))" for L
    using a(2) a(3) [OF normpath_single [OF a(1)]] by (simp add: logical_of_def)
  then show ?thesis using after_logical [of s f] a(1) by (auto simp: orderly_def single_def)
qed

lemma one_slash_single: "one_slash l \<Longrightarrow> single l"
  by (auto simp: one_slash_def single_def is_absolute_def two_slashes_def)

lemma one_slash_join: "one_slash l \<Longrightarrow> component name \<Longrightarrow> one_slash (posix_join l name)"
proof -
  assume a: "one_slash l" "component name"
  obtain b u where n: "name = b # u" "b \<noteq> CHR ''/''" using a(2) by (cases name) (auto simp: component_def)
  then have "\<not> is_absolute name" by (simp add: is_absolute_def starts_with_def)
  with a(1) n show ?thesis by (auto simp: posix_join_def one_slash_cases)
qed

lemma orderly_names: "one_slash l \<Longrightarrow> list_all component names \<Longrightarrow> orderly (visible_names l names)"
  by (induction names) (auto intro!: orderly_after orderly_tombstoned one_slash_join)

lemma children_components: "proper_names S \<Longrightarrow> list_all component (children S p)"
  by (auto simp: proper_names_def children_def list_all_iff dest!: bspec)

lemma orderly_listed: "one_slash l \<Longrightarrow> (\<And>names. orderly (f names)) \<Longrightarrow>
    orderly (after (optional (asks (os_listdir l))) (\<lambda>real. after (visible_names l (get_or [] real)) f))"
proof (rule orderlyI)
  fix L :: layer
  assume a: "one_slash l" "\<And>names. orderly (f names)" "proper_names (ly_os L)"
  have "list_all component names" if "os_listdir l (ly_os L) = Inr names" for names
    using that children_components [OF a(3)] by (auto simp: os_listdir_def split: sum.splits entry.splits)
  then have v: "orderly (visible_names l names)" if "os_listdir l (ly_os L) = Inr names" for names
    using that orderly_names [OF a(1)] by simp
  have v0: "orderly (visible_names l [])" by (simp add: orderly_names [OF a(1)])
  show "\<exists>L' x. after (optional (asks (os_listdir l))) (\<lambda>real. after (visible_names l (get_or [] real)) f) L = Some (L', x) \<and> proper_names (ly_os L')"
  proof (cases "os_listdir l (ly_os L)")
    case (Inr names)
    then have "after (optional (asks (os_listdir l))) (\<lambda>real. after (visible_names l (get_or [] real)) f) L = after (visible_names l names) f L"
      by (simp add: after_def optional_def missing_def asks_def done_with_def)
    then show ?thesis using orderly_after [OF v [OF Inr] a(2)] a(3) by (simp add: orderly_def)
  next
    case (Inl e)
    then have "after (optional (asks (os_listdir l))) (\<lambda>real. after (visible_names l (get_or [] real)) f) L = Some (L, Inl e) \<or>
        after (optional (asks (os_listdir l))) (\<lambda>real. after (visible_names l (get_or [] real)) f) L = after (visible_names l []) f L"
      by (cases e) (auto simp: after_def optional_def missing_def asks_def done_with_def)
    then show ?thesis using orderly_after [OF v0 a(2)] a(3) by (auto simp: orderly_def)
  qed
qed

lemma orderly_candidates:
  "orderly (\<lambda>L. optional (asks (os_listdir (candidate L l))) L)" "orderly (\<lambda>L. optional (asks (os_lstat (candidate L l))) L)"
  "orderly (\<lambda>L. calls (if directory then os_rmdir (candidate L l) else os_unlink (candidate L l)) L)"
proof -
  have "orderly (optional (asks (os_listdir s)))" "orderly (optional (asks (os_lstat s)))" for s by simp_all
  then show "orderly (\<lambda>L. optional (asks (os_listdir (candidate L l))) L)" "orderly (\<lambda>L. optional (asks (os_lstat (candidate L l))) L)"
    by (simp_all add: orderly_def)
  show "orderly (\<lambda>L. calls (if directory then os_rmdir (candidate L l) else os_unlink (candidate L l)) L)"
    using orderly_removal by (simp add: orderly_def)
qed

lemma orderly_listdir: "single s \<Longrightarrow> orderly (layer_listdir s)"
  unfolding layer_listdir_def
  by (erule orderly_logical) (auto intro!: orderly_after orderly_tombstoned orderly_listed orderly_candidates)

lemma orderly_delete: "single s \<Longrightarrow> orderly (delete_logical directory s)"
  unfolding delete_logical_def
  by (erule orderly_logical)
    (auto intro!: orderly_after orderly_removal orderly_candidates orderly_listdir one_slash_single)

lemma total_move: "single a \<Longrightarrow> single b \<Longrightarrow> total (move exclusive a b)"
proof -
  assume s: "single a" "single b"
  have source: "total (copy_up_source a)"
    unfolding copy_up_source_def by (rule total_logical [OF s(1)]) (auto intro!: total_after total_tombstoned)
  show ?thesis
    unfolding move_def
    by (auto intro!: total_after source total_write_path s split: prod.split option.split)
qed

lemma total_chdir: "single s \<Longrightarrow> total (layer_chdir s)"
proof -
  assume s: "single s"
  have make: "total (\<lambda>L. after (path_exists (candidate L l)) (\<lambda>there. if there then done_with () else calls (os_mkdir 448 (candidate L l))) L)" for l
  proof -
    have "total (after (path_exists x) (\<lambda>there. if there then done_with () else calls (os_mkdir 448 x)))" for x by (simp add: total_after)
    then show ?thesis by (simp add: total_def)
  qed
  have go: "total (\<lambda>L. calls (os_chdir (candidate L l)) L)" for l by (simp add: total_def calls_def split: prod.split)
  show ?thesis
    unfolding layer_chdir_def
    by (rule total_logical [OF s]) (auto intro!: total_after total_tombstoned make go)
qed

lemma total_ignored [simp]: "total m \<Longrightarrow> total (ignored m)"
  by (simp add: ignored_def total_after)

lemma total_use [simp]: "total (use_file data h)"
  by (simp add: use_file_def)

lemma total_perform:
  assumes "list_all single (call_paths c)" "\<And>s. c \<noteq> ListDir s" "\<And>s. c \<noteq> ScanDir s" "\<And>s. c \<noteq> Unlink s" "\<And>s. c \<noteq> RemoveDir s"
  shows "total (perform c)"
proof -
  show ?thesis
  proof (cases c)
    case (OpenFile mode s data)
    have "total (layer_open mode s)" using assms(1) OpenFile by (simp add: layer_open_def total_after total_read_path total_write_path)
    then show ?thesis by (simp add: OpenFile total_after)
  next
    case (OpenFd fl mode s data)
    have "total (layer_os_open fl mode s)" using assms(1) OpenFd by (simp add: layer_os_open_def Let_def total_after total_read_path total_write_path)
    then show ?thesis by (simp add: OpenFd total_after)
  next
    case GetCwd
    have "total layer_getcwd" by (simp add: total_def layer_getcwd_def after_def asks_def done_with_def split: sum.split)
    then show ?thesis by (simp add: GetCwd)
  qed (use assms in \<open>simp_all add: layer_mkdir_def layer_rename_def layer_replace_def layer_chmod_def layer_utime_def layer_truncate_def
      layer_stat_def layer_lstat_def layer_readlink_def total_after total_write_path total_read_path total_move total_chdir\<close>)
qed

text \<open>C20: Termination: a call on absolute paths returns, with a value or an exception, if none of the paths starts with exactly
  two slashes.\<close>

theorem calls_return:
  assumes "proper_names (ly_os L)" "list_all single (call_paths c)"
  shows "perform c L \<noteq> None"
proof -
  have returns: "orderly m \<Longrightarrow> m L \<noteq> None" for m :: "unit job" using assms(1) by (auto simp: orderly_def)
  consider s where "c = ListDir s" | s where "c = ScanDir s" | s where "c = Unlink s" | s where "c = RemoveDir s"
    | "total (perform c)"
    using total_perform [OF assms(2)] by blast
  then show ?thesis
  proof cases
    case (1 s)
    then show ?thesis using assms(2) returns [of "ignored (layer_listdir s)"] by (simp add: ignored_def orderly_after orderly_listdir)
  next
    case (2 s)
    have "orderly (layer_scandir s)"
      unfolding layer_scandir_def
      by (rule orderly_logical) (use assms(2) 2 in \<open>auto intro!: orderly_after orderly_listdir one_slash_single\<close>)
    then show ?thesis using returns [of "ignored (layer_scandir s)"] 2 by (simp add: ignored_def orderly_after)
  next
    case (3 s)
    then show ?thesis using assms(2) returns [OF orderly_delete] by (simp add: layer_unlink_def)
  next
    case (4 s)
    then show ?thesis using assms(2) returns [OF orderly_delete] by (simp add: layer_rmdir_def)
  qed (simp add: total_def)
qed

text \<open>A path with exactly two slashes in front that the layer has no copy of is never looked up: the search for its
  tombstone does not reach the root, so \<open>os.stat\<close>, \<open>os.lstat\<close> and \<open>open\<close> do not return.\<close>

theorem two_slashes_hang:
  assumes "canonical p" "p \<noteq> []" "canonical (ly_root L)" "ly_root L \<noteq> []" "list_all one_slash (ly_tombs L)"
    and "os_lstat (path_text (absolute_root L @ p)) (ly_os L) = Inl enoent"
  shows "layer_stat follow (''/'' @ path_text p) L = None \<and> layer_lstat (''/'' @ path_text p) L = None \<and>
    layer_open ''r'' (''/'' @ path_text p) L = None"
proof -
  let ?s = "''/'' @ path_text p"
  have parts: "path_parts ?s = p"
    using path_parts_cat [of "[]" "path_text p"] canonical_simps(1) [OF assms(1)] by (simp add: path_parts_def)
  obtain a u where u: "path_text p = CHR ''/'' # a # u" "a \<noteq> CHR ''/''"
    using path_text_second [of p] assms(1,2) by (auto simp: canonical_def)
  have two: "two_slashes ?s" "starts_with ''//'' ?s" using u by (simp_all add: two_slashes_def starts_with_def)
  have norm: "normpath ?s = ?s"
    unfolding normpath_def parts canonical_simps(2) [OF assms(1)] using two(1) by (simp only: two_slashes_def if_True simp_thms)
  have root: "logical_of L ?s = Some ?s"
  proof -
    obtain b v where "path_text (ly_root L) = CHR ''/'' # b # v" "b \<noteq> CHR ''/''"
      using path_text_second [of "ly_root L"] assms(3,4) by (auto simp: canonical_def)
    then show ?thesis using u norm by (auto simp: logical_of_def starts_with_def)
  qed
  have found: "candidate_exists ?s L = Some (L, Inr False)"
    using assms(6) by (simp add: candidate_exists_def candidate_def parts exists_at_def missing_def after_def asks_def done_with_def enoent_def
        del: append.simps)
  have "tombstoned (ly_tombs L) ?s = None"
  proof (rule ccontr)
    assume "tombstoned (ly_tombs L) ?s \<noteq> None"
    then obtain b where "tombstoned (ly_tombs L) ?s = Some b" by blast
    with tombstoned_two_slashes two(2) assms(5) show False by (auto simp: one_slash_def list_all_iff)
  qed
  then have "after (candidate_exists ?s) (\<lambda>found. if found then (\<lambda>L. done_with (candidate L ?s) L)
      else after (is_tombstoned ?s) (\<lambda>gone L. done_with (if gone then candidate L ?s else ?s) L)) L = None"
    using found by (simp add: after_def is_tombstoned_def)
  moreover have "is_absolute ?s" by (simp add: is_absolute_def starts_with_def)
  ultimately have "read_path ?s L = None" by (simp only: read_path_def after_logical root option.case)
  then show ?thesis by (simp add: layer_stat_def layer_lstat_def layer_open_def after_def mode_writes_def)
qed

section \<open>Look-ups of canonical paths\<close>

lemma walk_snoc:
  "link_free t \<Longrightarrow> c \<noteq> ''..'' \<Longrightarrow> walk t n follow cur (rest @ [c]) =
    (case walk t n follow cur rest of
       Inl e \<Rightarrow> Inl e
     | Inr p \<Rightarrow> (case dict_get t p of
                  Some (Folder _) \<Rightarrow> Inr (p @ [c])
                | Some (Regular _) \<Rightarrow> Inl enotdir
                | _ \<Rightarrow> Inl enoent))"
proof (induction t n follow cur rest rule: walk.induct)
  case (1 t n follow cur)
  have "dict_get t k \<noteq> Some (Link target)" for k target using 1(1) by (auto simp: link_free_def dest!: map_of_SomeD)
  then show ?case using 1(2) by (auto split: option.split entry.split)
next
  case (2 t n follow cur c' rest)
  have "dict_get t k \<noteq> Some (Link target)" for k target using "2.prems"(1) by (auto simp: link_free_def dest!: map_of_SomeD)
  then show ?case using 2 by (auto split: option.split entry.split)
qed

lemma located_text: "canonical p \<Longrightarrow> located S follow (path_text p) = walk (os_tree S) MAX_LINKS follow [] p"
proof -
  assume p: "canonical p"
  have "path_text p \<noteq> []" by (simp add: path_text_def)
  then show ?thesis by (simp add: located_def canonical_simps(1) [OF p])
qed

lemma lookup_text:
  assumes "link_free (os_tree S)" "canonical p" "lookup S follow (path_text p) = Inr (q, x)"
  shows "q = p \<and> dict_get (os_tree S) p = Some x"
  using lookup_plain [OF assms(1) absolute_text assms(3)] canonical_simps(1,2) [OF assms(2)] by auto

lemma lookup_snoc:
  assumes "link_free (os_tree S)" "canonical (p @ [c])"
  shows "lookup S follow (path_text (p @ [c])) =
    (case lookup S follow (path_text p) of
       Inl e \<Rightarrow> Inl e
     | Inr (q, Folder _) \<Rightarrow> (case dict_get (os_tree S) (p @ [c]) of None \<Rightarrow> Inl enoent | Some x \<Rightarrow> Inr (p @ [c], x))
     | Inr (q, Regular _) \<Rightarrow> Inl enotdir
     | Inr (q, Link _) \<Rightarrow> Inl enoent)"
proof -
  have c: "canonical p" "c \<noteq> ''..''" using assms(2) by (auto simp: canonical_def)
  have "q = p" if "walk (os_tree S) MAX_LINKS follow [] p = Inr q" for q
    using walk_plain [OF assms(1) that] canonical_simps(2) [OF c(1)] by (simp add: step_resolve)
  then show ?thesis
    using walk_snoc [OF assms(1) c(2), of MAX_LINKS follow "[]" p]
    by (auto simp: lookup_def located_text [OF assms(2)] located_text [OF c(1)] split: sum.split option.split entry.split)
qed

lemma lookup_follow: "link_free (os_tree S) \<Longrightarrow> canonical p \<Longrightarrow> lookup S True (path_text p) = lookup S False (path_text p)"
proof (induction p rule: rev_induct)
  case Nil
  show ?case by (simp add: lookup_def located_text [OF canonical_simps(4)])
next
  case (snoc c p)
  then show ?case using lookup_snoc [of S p c] by (simp add: canonical_simps)
qed

lemma children_mem: "n \<in> set (children S p) \<longleftrightarrow> dict_get (os_tree S) (p @ [n]) \<noteq> None"
proof
  assume "n \<in> set (children S p)"
  then obtain q x where q: "(q, x) \<in> set (os_tree S)" "q \<noteq> []" "butlast q = p" "n = last q" by (auto simp: children_def)
  then have "q = p @ [n]" by (metis append_butlast_last_id)
  with q(1) show "dict_get (os_tree S) (p @ [n]) \<noteq> None" by (metis domI domIff dom_map_of_conv_image_fst fst_conv image_eqI)
next
  assume "dict_get (os_tree S) (p @ [n]) \<noteq> None"
  then obtain x where "(p @ [n], x) \<in> set (os_tree S)" by (auto dest: map_of_SomeD)
  then show "n \<in> set (children S p)" by (force simp: children_def)
qed

lemma logical_text:
  assumes "canonical (ly_root L)" "canonical p" "\<not> prefix (ly_root L) p"
  shows "logical_of L (path_text p) = Some (path_text p)"
proof -
  have one: "one_slash (path_text p)" using assms(2) one_slash_text by (simp add: canonical_def)
  then have n: "normpath (path_text p) = path_text p"
    by (simp add: normpath_def canonical_simps(1,2) [OF assms(2)] one_slash_def)
  have "path_text p \<noteq> path_text (ly_root L)" using assms(3) canonical_simps(1) assms(1,2) by (metis prefix_order.refl)
  moreover have "\<not> starts_with (path_text (ly_root L) @ ''/'') (path_text p)"
  proof
    assume "starts_with (path_text (ly_root L) @ ''/'') (path_text p)"
    then obtain u where "path_text p = path_text (ly_root L) @ ''/'' @ u" using starts_with_split by fastforce
    then have "p = ly_root L @ path_parts u"
      using path_parts_cat [of "path_text (ly_root L)" u] canonical_simps(1) assms(1,2) by metis
    with assms(3) show False by simp
  qed
  ultimately show ?thesis by (simp add: logical_of_def n)
qed

lemma candidate_text: "canonical p \<Longrightarrow> candidate L (path_text p) = path_text (absolute_root L @ p)"
  by (simp add: candidate_def canonical_simps(1))

lemma canonical_absolute: "canonical (ly_root L) \<Longrightarrow> canonical p \<Longrightarrow> canonical (absolute_root L @ p)"
  by (simp add: absolute_root_def canonical_simps(3)) (simp add: canonical_def component_def)

lemma canonical_one_slash: "canonical p \<Longrightarrow> one_slash (path_text p)"
  by (simp add: canonical_def one_slash_text)

definition not_found :: "exn \<Rightarrow> bool" where
  "not_found e \<longleftrightarrow> (case e of PyError c t \<Rightarrow> c = ''FileNotFoundError'' | _ \<Rightarrow> False)"

lemma not_found_enoent [simp]: "not_found enoent"
  by (simp add: not_found_def enoent_def)

lemma optional_asks:
  "optional (asks f) L =
    (case f (ly_os L) of
       Inr v \<Rightarrow> Some (L, Inr (Some v))
     | Inl e \<Rightarrow> Some (L, if not_found e then Inr None else Inl e))"
  by (auto simp: optional_def missing_def after_def asks_def done_with_def not_found_def split: sum.split exn.split)

lemma exists_asks:
  "exists_at s L =
    (case os_lstat s (ly_os L) of
       Inr v \<Rightarrow> Some (L, Inr True)
     | Inl e \<Rightarrow> Some (L, if not_found e then Inr False else Inl e))"
  by (auto simp: exists_at_def missing_def after_def asks_def done_with_def not_found_def split: sum.split exn.split)

text \<open>What \<open>os.lstat\<close> shows at a canonical path outside the directory of the invocation.\<close>

lemma read_path_text:
  assumes "canonical (ly_root L)" "canonical p" "\<not> prefix (ly_root L) p" "tombstoned (ly_tombs L) (path_text p) = Some b"
  shows "read_path (path_text p) L =
    (case os_lstat (path_text (absolute_root L @ p)) (ly_os L) of
       Inr st \<Rightarrow> Some (L, Inr (path_text (absolute_root L @ p)))
     | Inl e \<Rightarrow> Some (L, if not_found e then Inr (if b then path_text (absolute_root L @ p) else path_text p) else Inl e))"
  unfolding read_path_def after_logical [OF absolute_text] logical_text [OF assms(1-3)] option.case
  by (simp add: after_def candidate_exists_def exists_asks candidate_text [OF assms(2)] done_with_def is_tombstoned_def assms(4) split: sum.split)

lemma lstat_text:
  assumes "canonical (ly_root L)" "canonical p" "\<not> prefix (ly_root L) p" "tombstoned (ly_tombs L) (path_text p) = Some b"
  shows "layer_lstat (path_text p) L =
    (case os_lstat (path_text (absolute_root L @ p)) (ly_os L) of
       Inr st \<Rightarrow> Some (L, Inr st)
     | Inl e \<Rightarrow> Some (L, if not_found e then (if b then Inl e else os_lstat (path_text p) (ly_os L)) else Inl e))"
  unfolding layer_lstat_def after_def read_path_text [OF assms] by (simp add: asks_def split: sum.split)

lemma posix_join_text: "canonical (q @ [n]) \<Longrightarrow> posix_join (path_text q) n = path_text (q @ [n])"
proof (cases q rule: rev_cases)
  case Nil
  assume "canonical (q @ [n])"
  then have "\<not> is_absolute n" by (cases n) (auto simp: canonical_def component_def is_absolute_def starts_with_def Nil)
  then show ?thesis by (simp add: posix_join_def path_text_def Nil is_absolute_def starts_with_def)
next
  case (snoc q' m)
  assume c: "canonical (q @ [n])"
  then have n: "\<not> is_absolute n" by (cases n) (auto simp: canonical_def component_def is_absolute_def starts_with_def)
  have m: "m \<noteq> []" "CHR ''/'' \<notin> set m" using c by (auto simp: canonical_def component_def snoc)
  have join: "join_with s (p @ [x]) = (if p = [] then x else join_with s p @ s @ x)" for s p and x :: string
    by (induction s p rule: join_with.induct) auto
  have "last (path_text q) \<noteq> CHR ''/''"
    using m last_in_set [OF m(1)] by (auto simp: path_text_def snoc join simp del: last_in_set)
  then have "posix_join (path_text q) n = path_text q @ ''/'' @ n" using n by (auto simp: posix_join_def path_text_def)
  also have "\<dots> = path_text (q @ [n])" unfolding path_text_def join [of "''/''" q n] by (simp add: snoc)
  finally show ?thesis .
qed

lemma visible_names_mem:
  "visible_names logical ns L = Some (L', Inr r) \<Longrightarrow>
    L' = L \<and> (n \<in> set r \<longleftrightarrow> n \<in> set ns \<and> tombstoned (ly_tombs L) (posix_join logical n) = Some False)"
proof (induction ns arbitrary: r)
  case (Cons a ns)
  from Cons.prems obtain b r1 where b: "tombstoned (ly_tombs L) (posix_join logical a) = Some b"
    and r1: "visible_names logical ns L = Some (L', Inr r1)" "r = (if b then r1 else a # r1)"
    by (auto simp: after_def is_tombstoned_def done_with_def split: option.splits sum.splits)
  then show ?case using Cons.IH [OF r1(1)] by auto
qed (simp add: done_with_def)

lemma after_Inr: "after m f L = Some (L', Inr y) \<longleftrightarrow> (\<exists>L1 x. m L = Some (L1, Inr x) \<and> f x L1 = Some (L', Inr y))"
  by (auto simp: after_def split: option.splits sum.splits)

lemma listdir_text:
  assumes "canonical (ly_root L)" "canonical q" "\<not> prefix (ly_root L) q" "layer_listdir (path_text q) L = Some (L', Inr names)"
  obtains real virtual shown where
    "optional (asks (os_listdir (path_text q))) L = Some (L, Inr real)"
    "optional (asks (os_listdir (path_text (absolute_root L @ q)))) L = Some (L, Inr virtual)"
    "visible_names (path_text q) (get_or [] real) L = Some (L, Inr shown)"
    "set names = set shown \<union> set (get_or [] virtual)" "L' = L"
proof -
  have opt: "L1 = L0" if "optional (asks f) L0 = Some (L1, x)" for f :: "os \<Rightarrow> exn + string list" and L0 L1 :: layer and x
    using that by (auto simp: optional_asks split: sum.splits)
  have gone: "L1 = L" if "is_tombstoned (path_text q) L = Some (L1, x)" for L1 x using that by (auto simp: is_tombstoned_def)
  have there: "L1 = L" if "(if b then candidate_exists (path_text q) else done_with True) L = Some (L1, Inr x)" for b L1 x
    using that by (auto simp: candidate_exists_def exists_asks done_with_def split: if_splits sum.splits)
  from assms(4) obtain b L1 x L2 real L3 shown L4 virtual L5 where
    r: "is_tombstoned (path_text q) L = Some (L1, Inr b)"
      "(if b then candidate_exists (path_text q) else done_with True) L1 = Some (L2, Inr x)"
      "optional (asks (os_listdir (path_text q))) L2 = Some (L3, Inr real)"
      "visible_names (path_text q) (get_or [] real) L3 = Some (L4, Inr shown)"
      "optional (asks (os_listdir (candidate L4 (path_text q)))) L4 = Some (L5, Inr virtual)"
      "L' = L5" "names = sort_names (shown @ get_or [] virtual)"
    unfolding layer_listdir_def after_logical [OF absolute_text] logical_text [OF assms(1-3)] option.case
    by (auto simp: after_Inr raised_def done_with_def [of "sort_names _"] split: if_splits)
  have s: "L1 = L" "L2 = L" "L3 = L" "L4 = L" "L5 = L"
  proof -
    show 1: "L1 = L" using gone [OF r(1)] .
    show 2: "L2 = L" using there r(2) 1 by blast
    show 3: "L3 = L" using opt [OF r(3)] 2 by simp
    show 4: "L4 = L" using visible_names_mem [OF r(4)] 3 by simp
    show "L5 = L" using opt [OF r(5)] 4 by simp
  qed
  show ?thesis
    by (rule that [of real virtual shown]) (use r s in \<open>simp_all add: candidate_text [OF assms(2)] sort_names_def\<close>)
qed

lemma listed_child:
  assumes "link_free (os_tree (ly_os L))" "canonical (q @ [n])" "optional (asks (os_listdir (path_text q))) L = Some (L, Inr xs)"
  shows "(n \<in> set (get_or [] xs) \<and> (\<exists>st. os_lstat (path_text (q @ [n])) (ly_os L) = Inr st)) \<or>
    (n \<notin> set (get_or [] xs) \<and> (\<exists>e. os_lstat (path_text (q @ [n])) (ly_os L) = Inl e \<and> not_found e))"
proof -
  let ?S = "ly_os L"
  have q: "canonical q" using assms(2) by (simp add: canonical_simps(3))
  note snoc = lookup_snoc [OF assms(1,2), of False] and follow = lookup_follow [OF assms(1) q]
  show ?thesis
  proof (cases "lookup ?S False (path_text q)")
    case (Inl e)
    then have "not_found e" "xs = None" using assms(3) by (auto simp: optional_asks os_listdir_def follow split: if_splits)
    then show ?thesis using snoc Inl by (simp add: os_lstat_def os_stat_def)
  next
    case (Inr v)
    obtain k x where v: "v = (k, x)" by fastforce
    then have k: "k = q" using lookup_text [OF assms(1) q] Inr by blast
    have "\<not> not_found enotdir" by (simp add: not_found_def enotdir_def)
    then obtain a where x: "x = Folder a" and xs: "xs = Some (children ?S q)"
      using assms(3) Inr v k by (cases x) (auto simp: optional_asks os_listdir_def follow)
    show ?thesis
      using snoc Inr v x xs k children_mem [of n ?S q]
      by (cases "dict_get (os_tree ?S) (q @ [n])") (simp_all add: os_lstat_def os_stat_def)
  qed
qed

text \<open>C19: Equivalence of the two views of a directory: in a container without symbolic links, a listing that succeeds holds
  exactly the names that \<open>os.lstat\<close> finds in the directory, whatever of it is real, copied, new or deleted.\<close>

theorem listing_matches_lookup:
  assumes "link_free (os_tree (ly_os L))" "canonical (ly_root L)" "canonical (q @ [n])" "\<not> prefix (ly_root L) (q @ [n])"
    and "layer_listdir (path_text q) L = Some (L', Inr names)"
  shows "n \<in> set names \<longleftrightarrow> (\<exists>st. layer_lstat (path_text (q @ [n])) L = Some (L, Inr st))"
proof -
  have q: "canonical q" "\<not> prefix (ly_root L) q" using assms(3,4) by (auto simp: canonical_simps(3))
  obtain real virtual shown where
    r: "optional (asks (os_listdir (path_text q))) L = Some (L, Inr real)"
      "optional (asks (os_listdir (path_text (absolute_root L @ q)))) L = Some (L, Inr virtual)"
      "visible_names (path_text q) (get_or [] real) L = Some (L, Inr shown)"
      "set names = set shown \<union> set (get_or [] virtual)"
    using listdir_text [OF assms(2) q assms(5)] .
  obtain b where b: "tombstoned (ly_tombs L) (path_text (q @ [n])) = Some b"
    using tombstoned_returns [OF canonical_one_slash [OF assms(3)]] by blast
  have "n \<in> set shown \<longleftrightarrow> n \<in> set (get_or [] real) \<and> \<not> b"
    using visible_names_mem [OF r(3), of n] b by (simp add: posix_join_text [OF assms(3)])
  moreover note listed_child [OF assms(1,3) r(1)]
  moreover have "canonical ((absolute_root L @ q) @ [n])"
    using canonical_absolute [OF assms(2,3)] by simp
  note listed_child [OF assms(1) this r(2)]
  ultimately show ?thesis
    unfolding lstat_text [OF assms(2-4) b] r(4) by (auto split: sum.split)
qed

text \<open>
  Copy on write: a file that the user's code appends to reads back as its old content and the new data, whether it
  was a real file or one of the layer's own.
\<close>

section \<open>Trees in which every entry has its folder\<close>

definition is_folder :: "entry option \<Rightarrow> bool" where
  "is_folder x \<longleftrightarrow> (case x of Some (Folder _) \<Rightarrow> True | _ \<Rightarrow> False)"

definition rooted :: "(path, entry) dict \<Rightarrow> bool" where
  "rooted t \<longleftrightarrow> is_folder (dict_get t []) \<and> list_all (\<lambda>(k, _). k = [] \<or> is_folder (dict_get t (butlast k))) t"

lemma is_folderD: "is_folder x \<Longrightarrow> \<exists>a. x = Some (Folder a)"
  by (auto simp: is_folder_def split: option.splits entry.splits)

lemma is_folder_simps [simp]: "is_folder (Some (Folder a))" "\<not> is_folder None" "\<not> is_folder (Some (Regular i))" "\<not> is_folder (Some (Link l))"
  by (simp_all add: is_folder_def)

lemma rooted_parent: "rooted t \<Longrightarrow> dict_get t (k @ [c]) = Some x \<Longrightarrow> is_folder (dict_get t k)"
  by (auto simp: rooted_def list_all_iff dest!: map_of_SomeD)

lemma rooted_put: "rooted t \<Longrightarrow> is_folder (dict_get t k) \<Longrightarrow> dict_get t (k @ [c]) = None \<Longrightarrow> rooted (dict_set (k @ [c]) x t)"
proof -
  assume r: "rooted t" and k: "is_folder (dict_get t k)" and n: "dict_get t (k @ [c]) = None"
  have keep: "is_folder (dict_get t m) \<Longrightarrow> is_folder (dict_get (dict_set (k @ [c]) x t) m)" for m using n by auto
  have "is_folder (dict_get t [])" using r by (simp add: rooted_def)
  then have root: "is_folder (dict_get (dict_set (k @ [c]) x t) [])" by (rule keep)
  have "m = [] \<or> is_folder (dict_get (dict_set (k @ [c]) x t) (butlast m))" if "(m, y) \<in> set (dict_set (k @ [c]) x t)" for m y
  proof (cases "(m, y) = (k @ [c], x)")
    case True
    then show ?thesis using keep [OF k] by simp
  next
    case False
    then have "(m, y) \<in> set t" using that set_dict_set_subset [of "k @ [c]" x t] by blast
    then have "m = [] \<or> is_folder (dict_get t (butlast m))" using r by (auto simp: rooted_def list_all_iff)
    then show ?thesis using keep by blast
  qed
  with root show ?thesis by (auto simp: rooted_def list_all_iff)
qed

lemma link_free_get: "link_free t \<Longrightarrow> dict_get t k \<noteq> Some (Link l)"
  by (auto simp: link_free_def dest!: map_of_SomeD)

lemma link_free_put: "link_free t \<Longrightarrow> (\<And>l. x \<noteq> Link l) \<Longrightarrow> link_free (dict_set k x t)"
  using set_dict_set_subset [of k x t] by (auto simp: link_free_def)

definition good_tree :: "os \<Rightarrow> bool" where
  "good_tree S \<longleftrightarrow> link_free (os_tree S) \<and> rooted (os_tree S)"

lemma lookup_rooted:
  "good_tree S \<Longrightarrow> canonical p \<Longrightarrow> dict_get (os_tree S) p = Some x \<Longrightarrow> lookup S follow (path_text p) = Inr (p, x)"
proof (induction p arbitrary: x rule: rev_induct)
  case Nil
  then show ?case by (simp add: lookup_def located_text [OF canonical_simps(4)])
next
  case (snoc c p)
  obtain a where a: "dict_get (os_tree S) p = Some (Folder a)"
    using rooted_parent [of "os_tree S" p c x] snoc.prems(1,3) is_folderD by (auto simp: good_tree_def)
  have "canonical p" using snoc.prems(2) by (simp add: canonical_simps(3))
  with snoc.IH [OF snoc.prems(1) this a] show ?case
    using lookup_snoc [of S p c follow] snoc.prems by (simp add: good_tree_def)
qed

lemma located_rooted:
  "good_tree S \<Longrightarrow> canonical (p @ [c]) \<Longrightarrow> is_folder (dict_get (os_tree S) p) \<Longrightarrow> located S follow (path_text (p @ [c])) = Inr (p @ [c])"
proof -
  assume g: "good_tree S" and c: "canonical (p @ [c])" and f: "is_folder (dict_get (os_tree S) p)"
  obtain a where a: "dict_get (os_tree S) p = Some (Folder a)" using f is_folderD by blast
  have p: "canonical p" "c \<noteq> ''..''" using c by (auto simp: canonical_def)
  have "located S follow (path_text p) = Inr p"
    using lookup_rooted [OF g p(1) a, of follow] by (auto simp: lookup_def split: sum.splits option.splits)
  then show ?thesis
    using walk_snoc [of "os_tree S" c MAX_LINKS follow "[]" p] p(2) g a
    by (simp add: located_text [OF c] located_text [OF p(1)] good_tree_def)
qed

lemma lookup_free:
  "good_tree S \<Longrightarrow> canonical (p @ [c]) \<Longrightarrow> is_folder (dict_get (os_tree S) p) \<Longrightarrow> dict_get (os_tree S) (p @ [c]) = None \<Longrightarrow>
    lookup S follow (path_text (p @ [c])) = Inl enoent"
  by (simp add: lookup_def located_rooted)

text \<open>What a look-up says where there is no entry: that nothing is there, unless it runs through a file.\<close>

definition is_regular :: "entry option \<Rightarrow> bool" where
  "is_regular x \<longleftrightarrow> (case x of Some (Regular _) \<Rightarrow> True | _ \<Rightarrow> False)"

lemma is_regular_simps [simp]: "\<not> is_regular (Some (Folder a))" "\<not> is_regular None" "is_regular (Some (Regular i))" "\<not> is_regular (Some (Link l))"
  by (simp_all add: is_regular_def)

definition through_file :: "(path, entry) dict \<Rightarrow> path \<Rightarrow> bool" where
  "through_file t p \<longleftrightarrow> (\<exists>k < length p. is_regular (dict_get t (take k p)))"

lemma through_snoc: "through_file t (p @ [c]) \<longleftrightarrow> through_file t p \<or> is_regular (dict_get t p)"
  by (auto simp: through_file_def less_Suc_eq)

lemma rooted_take: "rooted t \<Longrightarrow> dict_get t p = Some x \<Longrightarrow> m < length p \<Longrightarrow> is_folder (dict_get t (take m p))"
proof (induction p arbitrary: x rule: rev_induct)
  case (snoc c p)
  obtain a where a: "dict_get t p = Some (Folder a)" using rooted_parent [OF snoc.prems(1,2)] is_folderD by blast
  show ?case
  proof (cases "m = length p")
    case False
    then show ?thesis using snoc.IH [OF snoc.prems(1) a] snoc.prems(3) by simp
  qed (use a in simp)
qed simp

lemma rooted_not_through: "rooted t \<Longrightarrow> dict_get t p = Some x \<Longrightarrow> \<not> through_file t p"
  using rooted_take [of t p x] by (fastforce simp: through_file_def dest: is_folderD)

lemma lookup_none:
  "good_tree S \<Longrightarrow> canonical p \<Longrightarrow> dict_get (os_tree S) p = None \<Longrightarrow>
    lookup S follow (path_text p) = Inl (if through_file (os_tree S) p then enotdir else enoent)"
proof (induction p rule: rev_induct)
  case Nil
  then show ?case by (simp add: good_tree_def rooted_def)
next
  case (snoc c p)
  have p: "canonical p" using snoc.prems(2) by (simp add: canonical_simps(3))
  have l: "link_free (os_tree S)" "rooted (os_tree S)" using snoc.prems(1) by (simp_all add: good_tree_def)
  show ?case
  proof (cases "dict_get (os_tree S) p")
    case None
    then show ?thesis
      using snoc.IH [OF snoc.prems(1) p None] lookup_snoc [OF l(1) snoc.prems(2), of follow] by (simp add: through_snoc)
  next
    case (Some x)
    have "lookup S follow (path_text p) = Inr (p, x)" using lookup_rooted [OF snoc.prems(1) p Some] .
    then show ?thesis
      using lookup_snoc [OF l(1) snoc.prems(2), of follow] snoc.prems(3) Some rooted_not_through [OF l(2) Some] link_free_get [OF l(1)]
      by (cases x) (simp_all add: through_snoc)
  qed
qed

section \<open>Making the parents\<close>

text \<open>The tree has grown by folders only.\<close>

definition grown :: "os \<Rightarrow> os \<Rightarrow> bool" where
  "grown S S' \<longleftrightarrow> good_tree S' \<and> os_files S' = os_files S \<and>
     (\<forall>k. dict_get (os_tree S') k = dict_get (os_tree S) k \<or> dict_get (os_tree S) k = None \<and> is_folder (dict_get (os_tree S') k))"

lemma grown_refl: "good_tree S \<Longrightarrow> grown S S"
  by (simp add: grown_def)

lemma grown_trans: "grown S S1 \<Longrightarrow> grown S1 S2 \<Longrightarrow> grown S S2"
  unfolding grown_def by metis

lemma grown_get: "grown S S' \<Longrightarrow> dict_get (os_tree S) k = Some x \<Longrightarrow> dict_get (os_tree S') k = Some x"
  unfolding grown_def by (metis option.distinct(1))

lemma grown_through: "grown S S' \<Longrightarrow> through_file (os_tree S') p \<Longrightarrow> through_file (os_tree S) p"
  unfolding grown_def through_file_def using is_folderD is_regular_simps(1) by metis

lemma mkdir_free:
  assumes "good_tree S" "canonical (v @ [c])" "is_folder (dict_get (os_tree S) v)" "dict_get (os_tree S) (v @ [c]) = None"
  obtains S1 where "os_mkdir mode (path_text (v @ [c])) S = (S1, Inr ())" "grown S S1" "is_folder (dict_get (os_tree S1) (v @ [c]))"
    "\<And>k. k \<noteq> v @ [c] \<Longrightarrow> dict_get (os_tree S1) k = dict_get (os_tree S) k"
proof
  let ?S1 = "put_entry (v @ [c]) (Folder \<lparr>at_mode = mode, at_time = os_now S\<rparr>) S"
  show "os_mkdir mode (path_text (v @ [c])) S = (?S1, Inr ())"
    by (simp add: os_mkdir_def located_rooted [OF assms(1-3)] assms(4))
  show "is_folder (dict_get (os_tree ?S1) (v @ [c]))" by (simp add: put_entry_def)
  show "dict_get (os_tree ?S1) k = dict_get (os_tree S) k" if "k \<noteq> v @ [c]" for k using that by (simp add: put_entry_def)
  have "good_tree ?S1"
    using assms(1) rooted_put [OF _ assms(3,4)] link_free_put by (simp add: good_tree_def put_entry_def)
  then show "grown S ?S1" using assms(4) by (auto simp: grown_def put_entry_def)
qed

lemma make_parents_done:
  assumes "good_tree (ly_os L)" "canonical (r @ parts)" "canonical (v @ parts)" "is_folder (dict_get (os_tree (ly_os L)) v)"
    and "\<And>k. k \<le> length parts \<Longrightarrow> is_folder (dict_get (os_tree (ly_os L)) (v @ take k parts)) \<or>
      dict_get (os_tree (ly_os L)) (v @ take k parts) = None \<and> is_folder (dict_get (os_tree (ly_os L)) (r @ take k parts))"
  shows "\<exists>S'. make_parents parts (path_text r) v L = Some (L\<lparr>ly_os := S'\<rparr>, Inr ()) \<and> grown (ly_os L) S' \<and> is_folder (dict_get (os_tree S') (v @ parts)) \<and>
      (\<forall>k. length v + length parts < length k \<longrightarrow> dict_get (os_tree S') k = dict_get (os_tree (ly_os L)) k)"
  using assms
proof (induction parts arbitrary: r v L)
  case Nil
  then show ?case by (auto simp: done_with_def intro: grown_refl exI [of _ "ly_os L"])
next
  case (Cons c parts)
  let ?S = "ly_os L"
  have r: "canonical (r @ [c])" "canonical ((r @ [c]) @ parts)" and v: "canonical (v @ [c])" "canonical ((v @ [c]) @ parts)"
    using Cons.prems(2,3) by (auto simp: canonical_def)
  have join: "posix_join (path_text r) c = path_text (r @ [c])" by (rule posix_join_text [OF r(1)])
  have one: "is_folder (dict_get (os_tree ?S) (v @ [c])) \<or> dict_get (os_tree ?S) (v @ [c]) = None \<and> is_folder (dict_get (os_tree ?S) (r @ [c]))"
    using Cons.prems(5) [of 1] by simp
  have later: "is_folder (dict_get (os_tree ?S) ((v @ [c]) @ take k parts)) \<or>
      dict_get (os_tree ?S) ((v @ [c]) @ take k parts) = None \<and> is_folder (dict_get (os_tree ?S) ((r @ [c]) @ take k parts))"
    if "k \<le> length parts" for k using Cons.prems(5) [of "Suc k"] that by simp
  show ?case
  proof (cases "is_folder (dict_get (os_tree ?S) (v @ [c]))")
    case True
    then obtain a where a: "dict_get (os_tree ?S) (v @ [c]) = Some (Folder a)" using is_folderD by blast
    have "path_exists (path_text (v @ [c])) L = Some (L, Inr True)"
      by (simp add: path_exists_def os_stat_def lookup_rooted [OF Cons.prems(1) v(1) a])
    then have "make_parents (c # parts) (path_text r) v L = make_parents parts (path_text (r @ [c])) (v @ [c]) L"
      by (simp add: join after_def Let_def)
    then show ?thesis using Cons.IH [OF Cons.prems(1) r(2) v(2) True later] by simp
  next
    case False
    then have free: "dict_get (os_tree ?S) (v @ [c]) = None" and real: "is_folder (dict_get (os_tree ?S) (r @ [c]))" using one by auto
    obtain a where a: "dict_get (os_tree ?S) (r @ [c]) = Some (Folder a)" using real is_folderD by blast
    obtain S1 where S1: "os_mkdir 448 (path_text (v @ [c])) ?S = (S1, Inr ())" "grown ?S S1" "is_folder (dict_get (os_tree S1) (v @ [c]))"
      "\<And>k. k \<noteq> v @ [c] \<Longrightarrow> dict_get (os_tree S1) k = dict_get (os_tree ?S) k"
      using mkdir_free [OF Cons.prems(1) v(1) Cons.prems(4) free] by blast
    have "path_exists (path_text (v @ [c])) L = Some (L, Inr False)"
      by (simp add: path_exists_def os_stat_def lookup_free [OF Cons.prems(1) v(1) Cons.prems(4) free])
    moreover have "os_stat True (path_text (r @ [c])) ?S = Inr \<lparr>st_kind = IsFolder, st_attrs = a, st_size = 0\<rparr>"
      by (simp add: os_stat_def lookup_rooted [OF Cons.prems(1) r(1) a] stat_of_def)
    ultimately have step: "make_parents (c # parts) (path_text r) v L = make_parents parts (path_text (r @ [c])) (v @ [c]) (L\<lparr>ly_os := S1\<rparr>)"
      by (simp add: join after_def Let_def optional_asks calls_def S1(1))
    have "is_folder (dict_get (os_tree S1) ((v @ [c]) @ take k parts)) \<or>
      dict_get (os_tree S1) ((v @ [c]) @ take k parts) = None \<and> is_folder (dict_get (os_tree S1) ((r @ [c]) @ take k parts))"
      if "k \<le> length parts" for k
    proof (cases "take k parts = []")
      case False
      then have "dict_get (os_tree S1) ((v @ [c]) @ take k parts) = dict_get (os_tree ?S) ((v @ [c]) @ take k parts)"
        using S1(4) [of "(v @ [c]) @ take k parts"] by simp
      then show ?thesis using later [OF that] grown_get [OF S1(2)] is_folderD by (metis is_folder_simps(1))
    qed (use S1(3) in auto)
    moreover have "good_tree S1" using S1(2) by (simp add: grown_def)
    ultimately obtain S' where S': "make_parents parts (path_text (r @ [c])) (v @ [c]) (L\<lparr>ly_os := S1\<rparr>) = Some (L\<lparr>ly_os := S'\<rparr>, Inr ())"
      "grown S1 S'" "is_folder (dict_get (os_tree S') (v @ c # parts))"
      "\<And>k. length v + length (c # parts) < length k \<Longrightarrow> dict_get (os_tree S') k = dict_get (os_tree S1) k"
      using Cons.IH [of "L\<lparr>ly_os := S1\<rparr>" "r @ [c]" "v @ [c]"] r(2) v(2) S1(3) by auto
    have "dict_get (os_tree S') k = dict_get (os_tree ?S) k" if "length v + length (c # parts) < length k" for k
    proof -
      have "k \<noteq> v @ [c]" using that by auto
      then show ?thesis using S'(4) [OF that] S1(4) by simp
    qed
    with S'(1,3) grown_trans [OF S1(2) S'(2)] show ?thesis unfolding step by blast
  qed
qed

lemma text_parts_text: "canonical p \<Longrightarrow> text_parts (path_text p) = p"
proof (cases "p = []")
  case False
  assume p: "canonical p"
  have "no_slash p" "\<forall>c \<in> set p. c \<noteq> []" using p components_slash by (auto simp: canonical_def list_all_iff component_def)
  then show ?thesis using split_on_joined [of p] False by (simp add: text_parts_def path_text_def filter_id_conv)
qed (simp add: text_parts_def path_text_def)

lemma join_snoc: "join_with s (p @ [x]) = (if p = [] then x else join_with s p @ s @ x)" for x :: string
  by (induction s p rule: join_with.induct) auto

lemma text_last: "canonical (p @ [c]) \<Longrightarrow> last (path_text (p @ [c])) \<noteq> CHR ''/''"
proof -
  assume "canonical (p @ [c])"
  then have "c \<noteq> []" "CHR ''/'' \<notin> set c" by (auto simp: canonical_def component_def)
  then show ?thesis using last_in_set [of c] by (auto simp: path_text_def join_snoc simp del: last_in_set)
qed

lemma parent_text_snoc: "canonical (p @ [c]) \<Longrightarrow> parent_text (path_text (p @ [c])) = path_text p"
proof -
  assume c: "canonical (p @ [c])"
  then have no: "CHR ''/'' \<notin> set c" by (auto simp: canonical_def component_def)
  have drop: "rev (dropWhile (\<lambda>x. x \<noteq> CHR ''/'') (rev (h @ ''/'' @ c))) = h @ ''/''" for h
    using no by (simp add: dropWhile_append)
  show ?thesis
  proof (cases p rule: rev_cases)
    case Nil
    have "path_text (p @ [c]) = [] @ ''/'' @ c" by (simp add: path_text_def Nil)
    then have "dirname (path_text (p @ [c])) = ''/''" unfolding dirname_def by (simp only: drop) simp
    then show ?thesis by (simp add: parent_text_def path_text_def Nil)
  next
    case (snoc q d)
    have t: "path_text (p @ [c]) = path_text p @ ''/'' @ c" unfolding path_text_def join_snoc [of "''/''" p c] by (simp add: snoc)
    have "canonical (q @ [d])" using c by (simp add: snoc canonical_def)
    then have l: "last (path_text p) \<noteq> CHR ''/''" "path_text p \<noteq> []" unfolding snoc by (rule text_last) (simp add: path_text_def)
    then have "\<not> list_all (\<lambda>x. x = CHR ''/'') (path_text p @ ''/'')" by (meson last_in_set list_all_append list_all_iff)
    moreover have "rev (dropWhile (\<lambda>x. x = CHR ''/'') (rev (path_text p @ ''/''))) = path_text p"
      using l by (cases "path_text p" rule: rev_cases) simp_all
    ultimately have "dirname (path_text (p @ [c])) = path_text p" unfolding dirname_def t drop Let_def by simp
    then show ?thesis using l by (simp add: parent_text_def)
  qed
qed

lemma no_link_done:
  "good_tree (ly_os L) \<Longrightarrow> canonical (v @ parts) \<Longrightarrow> (\<And>k. k \<le> length parts \<Longrightarrow> is_folder (dict_get (os_tree (ly_os L)) (v @ take k parts))) \<Longrightarrow>
    no_link_on parts v L = Some (L, Inr ())"
proof (induction parts arbitrary: v)
  case (Cons c parts)
  obtain a where "dict_get (os_tree (ly_os L)) (v @ [c]) = Some (Folder a)" using Cons.prems(3) [of 1] is_folderD by auto
  moreover have "canonical (v @ [c])" using Cons.prems(2) by (auto simp: canonical_def)
  ultimately have "os_lstat (path_text (v @ [c])) (ly_os L) = Inr \<lparr>st_kind = IsFolder, st_attrs = a, st_size = 0\<rparr>"
    using Cons.prems(1) by (simp add: os_lstat_def os_stat_def lookup_rooted stat_of_def)
  moreover have "no_link_on parts (v @ [c]) L = Some (L, Inr ())"
  proof (rule Cons.IH [OF Cons.prems(1)])
    show "is_folder (dict_get (os_tree (ly_os L)) ((v @ [c]) @ take k parts))" if "k \<le> length parts" for k
      using Cons.prems(3) [of "Suc k"] that by simp
  qed (use Cons.prems(2) in simp)
  ultimately show ?case by (simp add: after_def optional_asks)
qed (simp add: done_with_def)

section \<open>The path to write\<close>

text \<open>The folders above the candidate are there or can be made: each is a folder of the overlay, or a real one.\<close>

definition parents_ready :: "layer \<Rightarrow> path \<Rightarrow> bool" where
  "parents_ready L p \<longleftrightarrow> is_folder (dict_get (os_tree (ly_os L)) (absolute_root L)) \<and>
     (\<forall>k \<le> length p. is_folder (dict_get (os_tree (ly_os L)) (absolute_root L @ take k p)) \<or>
        dict_get (os_tree (ly_os L)) (absolute_root L @ take k p) = None \<and> is_folder (dict_get (os_tree (ly_os L)) (take k p)))"

lemma materialize_done:
  assumes "good_tree (ly_os L)" "canonical (ly_root L)" "canonical (p @ [c])" "parents_ready L p"
  shows "\<exists>S'. materialize_existing_parents (path_text (p @ [c])) L = Some (L\<lparr>ly_os := S'\<rparr>, Inr ()) \<and> grown (ly_os L) S' \<and>
    is_folder (dict_get (os_tree S') (absolute_root L @ p)) \<and>
    dict_get (os_tree S') (absolute_root L @ p @ [c]) = dict_get (os_tree (ly_os L)) (absolute_root L @ p @ [c])"
proof -
  have p: "canonical p" using assms(3) by (simp add: canonical_simps(3))
  have slash: "path_text [] = ''/''" by (simp add: path_text_def)
  show ?thesis
  proof (cases "p = []")
    case True
    then show ?thesis
      using parent_text_snoc [OF assms(3)] assms(1,4)
      by (intro exI [of _ "ly_os L"]) (simp add: materialize_existing_parents_def slash done_with_def grown_refl parents_ready_def)
  next
    case False
    have "path_text p \<noteq> ''/''" using False canonical_simps(1) [OF p] slash canonical_simps(1) [OF canonical_simps(4)] by metis
    then have "materialize_existing_parents (path_text (p @ [c])) L = make_parents p (path_text []) (absolute_root L) L"
      by (simp add: materialize_existing_parents_def parent_text_snoc [OF assms(3)] text_parts_text [OF p] slash)
    moreover have "canonical (absolute_root L @ p)" using canonical_absolute [OF assms(2) p] .
    ultimately show ?thesis
      using make_parents_done [of L "[]" p "absolute_root L"] assms(1,4) p by (fastforce simp: parents_ready_def)
  qed
qed

lemma grown_folders:
  assumes "grown S S'" "good_tree S" "is_folder (dict_get (os_tree S') (r @ p))" "k \<le> length p"
  shows "is_folder (dict_get (os_tree S') (r @ take k p))"
proof (cases "k = length p")
  case False
  obtain a where "dict_get (os_tree S') (r @ p) = Some (Folder a)" using assms(3) is_folderD by blast
  moreover have "rooted (os_tree S')" using assms(1) by (simp add: grown_def good_tree_def)
  ultimately show ?thesis using rooted_take [of "os_tree S'" "r @ p" "Folder a" "length r + k"] assms(4) False by simp
qed (use assms(3) in simp)

lemma writable:
  assumes "good_tree (ly_os L)" "canonical (ly_root L)" "canonical (p @ [c])" "parents_ready L p"
  obtains S' where "materialize_existing_parents (path_text (p @ [c])) L = Some (L\<lparr>ly_os := S'\<rparr>, Inr ())" "grown (ly_os L) S'"
    "is_folder (dict_get (os_tree S') (absolute_root L @ p))" "good_tree S'"
    "assert_no_virtual_symlink_parent (path_text (p @ [c])) (L\<lparr>ly_os := S'\<rparr>) = Some (L\<lparr>ly_os := S'\<rparr>, Inr ())"
    "dict_get (os_tree S') (absolute_root L @ p @ [c]) = dict_get (os_tree (ly_os L)) (absolute_root L @ p @ [c])"
proof -
  obtain S' where S': "materialize_existing_parents (path_text (p @ [c])) L = Some (L\<lparr>ly_os := S'\<rparr>, Inr ())" "grown (ly_os L) S'"
    "is_folder (dict_get (os_tree S') (absolute_root L @ p))"
    "dict_get (os_tree S') (absolute_root L @ p @ [c]) = dict_get (os_tree (ly_os L)) (absolute_root L @ p @ [c])"
    using materialize_done [OF assms] by blast
  have g: "good_tree S'" using S'(2) by (simp add: grown_def)
  have p: "canonical p" using assms(3) by (simp add: canonical_simps(3))
  have "no_link_on p (absolute_root L) (L\<lparr>ly_os := S'\<rparr>) = Some (L\<lparr>ly_os := S'\<rparr>, Inr ())"
    by (rule no_link_done) (use g canonical_absolute [OF assms(2) p] grown_folders [OF S'(2) assms(1) S'(3)] in simp_all)
  then have "assert_no_virtual_symlink_parent (path_text (p @ [c])) (L\<lparr>ly_os := S'\<rparr>) = Some (L\<lparr>ly_os := S'\<rparr>, Inr ())"
    by (simp add: assert_no_virtual_symlink_parent_def text_parts_text [OF assms(3)] absolute_root_def)
  with S' g show ?thesis by (intro that)
qed

section \<open>Reading and appending\<close>

definition read_file :: "string \<Rightarrow> bytes job" where
  "read_file s = after (layer_open ''r'' s) (\<lambda>h. asks (fd_read h))"

lemma open_flags: "valid_mode ''r''" "valid_mode ''a''" "\<not> mode_writes ''r''" "mode_writes ''a''" "mode_copies ''a''" "CHR ''x'' \<notin> set ''a''"
    "mode_flags ''r'' = \<lparr>fg_read = True, fg_write = False, fg_create = False, fg_excl = False, fg_trunc = False, fg_append = False\<rparr>"
    "mode_flags ''a'' = \<lparr>fg_read = False, fg_write = True, fg_create = True, fg_excl = False, fg_trunc = False, fg_append = True\<rparr>"
  by (simp_all add: valid_mode_def mode_writes_def mode_copies_def mode_flags_def)

lemma opened:
  assumes "good_tree S" "canonical p" "dict_get (os_tree S) p = Some (Regular i)" "\<not> fg_trunc (mode_flags mode)" "\<not> fg_excl (mode_flags mode)" "valid_mode mode"
  shows "builtin_open mode (path_text p) S = (S, Inr \<lparr>hd_file = Some i, hd_flags = mode_flags mode\<rparr>)"
proof -
  have "located S True (path_text p) = Inr p"
    using lookup_rooted [OF assms(1-3), of True] by (auto simp: lookup_def split: sum.splits option.splits)
  then show ?thesis using assms(3-6) by (simp add: builtin_open_def os_open_def Let_def)
qed

lemma read_file_found:
  assumes "good_tree (ly_os L)" "canonical (ly_root L)" "canonical p" "\<not> prefix (ly_root L) p"
    and "dict_get (os_tree (ly_os L)) (absolute_root L @ p) = Some (Regular i)"
  shows "read_file (path_text p) L = Some (L, Inr (fl_data (os_files (ly_os L) ! i)))"
proof -
  obtain b where b: "tombstoned (ly_tombs L) (path_text p) = Some b"
    using tombstoned_returns [OF canonical_one_slash [OF assms(3)]] by blast
  have c: "canonical (absolute_root L @ p)" by (rule canonical_absolute [OF assms(2,3)])
  have "read_path (path_text p) L = Some (L, Inr (path_text (absolute_root L @ p)))"
    unfolding read_path_text [OF assms(2-4) b] by (simp add: os_lstat_def os_stat_def lookup_rooted [OF assms(1) c assms(5)])
  moreover have "builtin_open ''r'' (path_text (absolute_root L @ p)) (ly_os L) =
      (ly_os L, Inr \<lparr>hd_file = Some i, hd_flags = mode_flags ''r''\<rparr>)"
    by (rule opened [OF assms(1) c assms(5)]) (simp_all add: open_flags)
  ultimately show ?thesis
    by (simp add: read_file_def layer_open_def open_flags after_def calls_def asks_def fd_read_def)
qed

text \<open>A file that can be read is one of the layer's own, or a real one that the layer has neither copied nor deleted.\<close>

lemma read_file_cases:
  assumes "good_tree (ly_os L)" "canonical (ly_root L)" "canonical p" "\<not> prefix (ly_root L) p"
    and "read_file (path_text p) L = Some (L1, Inr old)"
  obtains (own) i where "dict_get (os_tree (ly_os L)) (absolute_root L @ p) = Some (Regular i)" "old = fl_data (os_files (ly_os L) ! i)"
  | (real) i where "dict_get (os_tree (ly_os L)) (absolute_root L @ p) = None" "\<not> through_file (os_tree (ly_os L)) (absolute_root L @ p)"
      "dict_get (os_tree (ly_os L)) p = Some (Regular i)" "tombstoned (ly_tombs L) (path_text p) = Some False"
      "old = fl_data (os_files (ly_os L) ! i)"
proof -
  let ?S = "ly_os L" and ?c = "absolute_root L @ p"
  obtain b where b: "tombstoned (ly_tombs L) (path_text p) = Some b"
    using tombstoned_returns [OF canonical_one_slash [OF assms(3)]] by blast
  have c: "canonical ?c" by (rule canonical_absolute [OF assms(2,3)])
  have readable: "\<exists>i. dict_get (os_tree ?S) q = Some (Regular i) \<and> old = fl_data (os_files ?S ! i)"
    if q: "canonical q" and r: "after (calls (builtin_open ''r'' (path_text q))) (\<lambda>h. asks (fd_read h)) L = Some (L1, Inr old)" for q
  proof (cases "dict_get (os_tree ?S) q")
    case None
    then have "\<And>k. located ?S True (path_text q) = Inr k \<Longrightarrow> dict_get (os_tree ?S) k = None"
      using lookup_none [OF assms(1) q None, of True] by (auto simp: lookup_def split: sum.splits option.splits)
    then show ?thesis
      using r by (cases "located ?S True (path_text q)")
        (auto simp: after_def calls_def builtin_open_def os_open_def open_flags Let_def)
  next
    case (Some x)
    have "located ?S True (path_text q) = Inr q"
      using lookup_rooted [OF assms(1) q Some, of True] by (auto simp: lookup_def split: sum.splits option.splits)
    then show ?thesis
      using r Some by (cases x) (auto simp: after_def calls_def asks_def fd_read_def builtin_open_def os_open_def open_flags Let_def)
  qed
  have run: "after (read_path (path_text p)) (\<lambda>target. after (calls (builtin_open ''r'' target)) (\<lambda>h. asks (fd_read h))) L = Some (L1, Inr old)"
    using assms(5) by (auto simp: read_file_def layer_open_def open_flags after_def split: option.splits sum.splits)
  show ?thesis
  proof (cases "dict_get (os_tree ?S) ?c")
    case (Some x)
    then have "read_path (path_text p) L = Some (L, Inr (path_text ?c))"
      unfolding read_path_text [OF assms(2-4) b] by (simp add: os_lstat_def os_stat_def lookup_rooted [OF assms(1) c])
    then show ?thesis using run readable [OF c] own by (auto simp: after_def [of "read_path (path_text p)"])
  next
    case None
    have n: "\<not> not_found enotdir" by (simp add: not_found_def enotdir_def)
    have path: "read_path (path_text p) L =
      Some (L, if through_file (os_tree ?S) ?c then Inl enotdir else Inr (if b then path_text ?c else path_text p))"
      unfolding read_path_text [OF assms(2-4) b] by (simp add: os_lstat_def os_stat_def lookup_none [OF assms(1) c None] n)
    then have t: "\<not> through_file (os_tree ?S) ?c" using run by (auto simp: after_def)
    have "\<not> b" using run path t readable [OF c] None by (auto simp: after_def [of "read_path (path_text p)"])
    then show ?thesis using run path t readable [OF assms(3)] b None real by (auto simp: after_def [of "read_path (path_text p)"])
  qed
qed

text \<open>Appending once the file is in the overlay.\<close>

lemma append_own:
  assumes "good_tree (ly_os L)" "canonical (ly_root L)" "canonical p" "\<not> prefix (ly_root L) p"
    and "dict_get (os_tree (ly_os L)) (absolute_root L @ p) = Some (Regular i)" "i < length (os_files (ly_os L))"
  shows "\<exists>L'. after (calls (builtin_open ''a'' (path_text (absolute_root L @ p)))) (use_file data) L = Some (L', Inr ()) \<and>
    read_file (path_text p) L' = Some (L', Inr (fl_data (os_files (ly_os L) ! i) @ data))"
proof -
  let ?S = "ly_os L"
  let ?S' = "set_file i (\<lambda>f. f\<lparr>fl_data := fl_data f @ data, fl_attrs := (fl_attrs f)\<lparr>at_time := os_now ?S\<rparr>\<rparr>) ?S"
  let ?L' = "L\<lparr>ly_os := ?S'\<rparr>"
  have c: "canonical (absolute_root L @ p)" by (rule canonical_absolute [OF assms(2,3)])
  have o: "builtin_open ''a'' (path_text (absolute_root L @ p)) ?S = (?S, Inr \<lparr>hd_file = Some i, hd_flags = mode_flags ''a''\<rparr>)"
    by (rule opened [OF assms(1) c assms(5)]) (simp_all add: open_flags)
  have "after (calls (builtin_open ''a'' (path_text (absolute_root L @ p)))) (use_file data) L = Some (?L', Inr ())"
    by (simp add: after_def calls_def o use_file_def open_flags fd_write_def)
  moreover have "read_file (path_text p) ?L' = Some (?L', Inr (fl_data (os_files (ly_os ?L') ! i)))"
    by (rule read_file_found) (use assms in \<open>simp_all add: good_tree_def set_file_def absolute_root_def\<close>)
  moreover have "fl_data (os_files (ly_os ?L') ! i) = fl_data (os_files ?S ! i) @ data"
    using assms(6) by (simp add: set_file_def)
  ultimately show ?thesis by auto
qed

lemma create_good:
  "good_tree S \<Longrightarrow> is_folder (dict_get (os_tree S) v) \<Longrightarrow> dict_get (os_tree S) (v @ [c]) = None \<Longrightarrow> good_tree (create_file (v @ [c]) f S)"
  by (simp add: good_tree_def create_file_def put_entry_def link_free_put rooted_put)

text \<open>Where the file to write is after \<open>write_path\<close>.\<close>

definition at_candidate :: "layer \<Rightarrow> path \<Rightarrow> bytes \<Rightarrow> layer \<Rightarrow> bool" where
  "at_candidate L p old L' \<longleftrightarrow> good_tree (ly_os L') \<and> ly_root L' = ly_root L \<and>
     (\<exists>i. dict_get (os_tree (ly_os L')) (absolute_root L @ p) = Some (Regular i) \<and> i < length (os_files (ly_os L')) \<and>
        fl_data (os_files (ly_os L') ! i) = old)"

lemma lstat_asks: "good_tree S \<Longrightarrow> canonical p \<Longrightarrow> dict_get (os_tree S) p = Some x \<Longrightarrow> os_lstat (path_text p) S = Inr (stat_of S x)"
    "good_tree S \<Longrightarrow> canonical p \<Longrightarrow> dict_get (os_tree S) p = None \<Longrightarrow> \<not> through_file (os_tree S) p \<Longrightarrow> os_lstat (path_text p) S = Inl enoent"
  by (simp_all add: os_lstat_def os_stat_def lookup_rooted lookup_none)

lemma write_path_own:
  assumes "good_tree (ly_os L)" "canonical (ly_root L)" "canonical (p @ [c])" "\<not> prefix (ly_root L) (p @ [c])" "parents_ready L p"
    and "\<not> through_file (os_tree (ly_os L)) (p @ [c])"
    and "dict_get (os_tree (ly_os L)) (absolute_root L @ p @ [c]) = Some (Regular i)" "i < length (os_files (ly_os L))"
  shows "\<exists>L'. write_path True False (path_text (p @ [c])) L = Some (L', Inr (path_text (absolute_root L @ p @ [c]))) \<and>
    at_candidate L (p @ [c]) (fl_data (os_files (ly_os L) ! i)) L'"
proof -
  let ?t = "path_text (p @ [c])"
  obtain S' where S': "materialize_existing_parents ?t L = Some (L\<lparr>ly_os := S'\<rparr>, Inr ())" "grown (ly_os L) S'" "good_tree S'"
    "assert_no_virtual_symlink_parent ?t (L\<lparr>ly_os := S'\<rparr>) = Some (L\<lparr>ly_os := S'\<rparr>, Inr ())"
    using writable [OF assms(1-3,5)] by blast
  let ?L1 = "L\<lparr>ly_os := S'\<rparr>"
  have r: "absolute_root ?L1 = absolute_root L" by (simp add: absolute_root_def)
  have entry: "dict_get (os_tree S') (absolute_root L @ p @ [c]) = Some (Regular i)" by (rule grown_get [OF S'(2) assms(7)])
  have cand: "candidate_exists ?t ?L1 = Some (?L1, Inr True)"
    using lstat_asks(1) [OF S'(3) canonical_absolute [OF assms(2,3)] entry]
    by (simp add: candidate_exists_def candidate_text [OF assms(3)] exists_asks r)
  obtain b where b: "tombstoned (ly_tombs L) ?t = Some b" using tombstoned_returns [OF canonical_one_slash [OF assms(3)]] by blast
  obtain st where st: "optional (asks (os_lstat ?t)) ?L1 = Some (?L1, Inr st)"
  proof (cases "dict_get (os_tree S') (p @ [c])")
    case None
    have "\<not> through_file (os_tree S') (p @ [c])" using grown_through [OF S'(2)] assms(6) by blast
    then show ?thesis using that lstat_asks(2) [OF S'(3) assms(3) None] by (simp add: optional_asks)
  next
    case (Some x)
    then show ?thesis using that lstat_asks(1) [OF S'(3) assms(3) Some] by (simp add: optional_asks)
  qed
  have "write_path True False ?t L = Some (clear_tombstone ?t ?L1, Inr (path_text (absolute_root L @ p @ [c])))"
    unfolding write_path_def after_logical [OF absolute_text] logical_text [OF assms(2-4)] option.case
    using b by (simp add: after_def S'(1,4) cand st is_tombstoned_def done_with_def candidate_text [OF assms(3)] r)
  moreover have "at_candidate L (p @ [c]) (fl_data (os_files (ly_os L) ! i)) (clear_tombstone ?t ?L1)"
    using S'(2,3) entry assms(8) by (simp add: at_candidate_def clear_tombstone_def grown_def)
  ultimately show ?thesis by blast
qed

lemma write_path_real:
  assumes "good_tree (ly_os L)" "canonical (ly_root L)" "canonical (p @ [c])" "\<not> prefix (ly_root L) (p @ [c])" "parents_ready L p"
    and "dict_get (os_tree (ly_os L)) (absolute_root L @ p @ [c]) = None"
    and "dict_get (os_tree (ly_os L)) (p @ [c]) = Some (Regular i)" "tombstoned (ly_tombs L) (path_text (p @ [c])) = Some False"
  shows "\<exists>L'. write_path True False (path_text (p @ [c])) L = Some (L', Inr (path_text (absolute_root L @ p @ [c]))) \<and>
    at_candidate L (p @ [c]) (fl_data (os_files (ly_os L) ! i)) L'"
proof -
  let ?t = "path_text (p @ [c])" and ?v = "absolute_root L @ p"
  obtain S' where S': "materialize_existing_parents ?t L = Some (L\<lparr>ly_os := S'\<rparr>, Inr ())" "grown (ly_os L) S'" "good_tree S'"
    "is_folder (dict_get (os_tree S') ?v)" "assert_no_virtual_symlink_parent ?t (L\<lparr>ly_os := S'\<rparr>) = Some (L\<lparr>ly_os := S'\<rparr>, Inr ())"
    "dict_get (os_tree S') (?v @ [c]) = None"
    using writable [OF assms(1-3,5)] assms(6) by (metis append_assoc)
  let ?L1 = "L\<lparr>ly_os := S'\<rparr>" and ?S2 = "create_file (?v @ [c]) (os_files S' ! i) S'"
  let ?L2 = "L\<lparr>ly_os := ?S2\<rparr>"
  have r: "absolute_root (L\<lparr>ly_os := X\<rparr>) = absolute_root L" for X by (simp add: absolute_root_def)
  have cc: "canonical (?v @ [c])" using canonical_absolute [OF assms(2,3)] by simp
  have cand: "candidate_exists ?t ?L1 = Some (?L1, Inr False)"
    using lookup_free [OF S'(3) cc S'(4,6), of False]
    by (simp add: candidate_exists_def candidate_text [OF assms(3)] exists_asks r os_lstat_def os_stat_def)
  have real: "dict_get (os_tree S') (p @ [c]) = Some (Regular i)" by (rule grown_get [OF S'(2) assms(7)])
  have st: "optional (asks (os_lstat ?t)) ?L1 = Some (?L1, Inr (Some (stat_of S' (Regular i))))"
    using lstat_asks(1) [OF S'(3) assms(3) real] by (simp add: optional_asks)
  have "located S' True (path_text (?v @ [c])) = Inr (?v @ [c])" by (rule located_rooted [OF S'(3) cc S'(4)])
  then have copy: "copy_up ?t IsRegular ?L1 = Some (?L2, Inr ())"
    using lookup_rooted [OF S'(3) assms(3) real, of False] S'(6)
    by (simp add: copy_up_def calls_def copy_file_def candidate_text [OF assms(3)] r)
  have kind: "st_kind (stat_of S' (Regular i)) = IsRegular" by (simp add: stat_of_def)
  have "write_path True False ?t L = Some (clear_tombstone ?t ?L2, Inr (path_text (?v @ [c])))"
    unfolding write_path_def after_logical [OF absolute_text] logical_text [OF assms(2-4)] option.case
    by (simp add: after_def S'(1,5) cand st assms(8) is_tombstoned_def done_with_def candidate_text [OF assms(3)] r kind copy)
  moreover have "good_tree ?S2" by (rule create_good [OF S'(3,4,6)])
  then have "at_candidate L (p @ [c]) (fl_data (os_files (ly_os L) ! i)) (clear_tombstone ?t ?L2)"
    using S'(2) by (simp add: at_candidate_def clear_tombstone_def grown_def create_file_def put_entry_def)
  ultimately show ?thesis by (metis append_assoc)
qed

text \<open>C8: Copy on write: when there are no symbolic links, no file has names both inside and outside the directory of the
  overlay, that directory exists, and the (normalized, absolute) path lies outside it and does not lead through a real file, appending to any file that the user's code can read (a real
  one, or one it has made) succeeds, and the file then reads as its old content followed by the new data.\<close>

theorem appended_file_reads_back:
  assumes "good_tree (ly_os L)" "sealed (ly_root L) (ly_os L)" "canonical (ly_root L)" "canonical p" "\<not> prefix (ly_root L) p"
    and "is_folder (dict_get (os_tree (ly_os L)) (absolute_root L))" "\<not> through_file (os_tree (ly_os L)) p"
    and "read_file (path_text p) L = Some (L1, Inr old)"
  shows "\<exists>L'. perform (OpenFile ''a'' (path_text p) data) L = Some (L', Inr ()) \<and> read_file (path_text p) L' = Some (L', Inr (old @ data))"
proof -
  have "p \<noteq> []"
  proof
    assume "p = []"
    with read_file_cases [OF assms(1,3-5,8)] assms(6) show False by fastforce
  qed
  then obtain q c where p: "p = q @ [c]" by (metis rev_exhaust)
  let ?t = "os_tree (ly_os L)"
  have rt: "rooted ?t" using assms(1) by (simp add: good_tree_def)
  obtain L2 where L2: "write_path True False (path_text p) L = Some (L2, Inr (path_text (absolute_root L @ p)))" "at_candidate L p old L2"
  proof (rule read_file_cases [OF assms(1,3-5,8)])
    fix i assume own: "dict_get ?t (absolute_root L @ p) = Some (Regular i)" "old = fl_data (os_files (ly_os L) ! i)"
    then have "i < length (os_files (ly_os L))" using assms(2) by (auto simp: sealed_def files_in_def files_out_def dest!: map_of_SomeD)
    moreover have "parents_ready L q"
      using rooted_take [OF rt own(1), of "length (absolute_root L) + k" for k] assms(6) p by (simp add: parents_ready_def)
    ultimately show thesis
      using write_path_own [OF assms(1,3)] assms(4,5,7) own that unfolding p by blast
  next
    fix i assume real: "dict_get ?t (absolute_root L @ p) = None" "\<not> through_file ?t (absolute_root L @ p)"
      "dict_get ?t p = Some (Regular i)" "tombstoned (ly_tombs L) (path_text p) = Some False" "old = fl_data (os_files (ly_os L) ! i)"
    have "is_folder (dict_get ?t (absolute_root L @ take k q)) \<or> dict_get ?t (absolute_root L @ take k q) = None" if "k \<le> length q" for k
    proof (cases "dict_get ?t (absolute_root L @ take k q)")
      case (Some x)
      have "\<not> is_regular (dict_get ?t (take (length (absolute_root L) + k) (absolute_root L @ p)))"
        using real(2) that unfolding through_file_def p by (metis length_append length_append_singleton less_Suc_eq_le nat_add_left_cancel_less)
      then show ?thesis using Some that p assms(1) link_free_get [of ?t] by (cases x) (auto simp: good_tree_def)
    qed simp
    moreover have "is_folder (dict_get ?t (take k q))" if "k \<le> length q" for k
      using rooted_take [OF rt real(3), of k] that p by simp
    ultimately have "parents_ready L q" using assms(6) by (auto simp: parents_ready_def)
    then show thesis
      using write_path_real [OF assms(1,3)] assms(4,5) real that unfolding p by blast
  qed
  obtain i where i: "good_tree (ly_os L2)" "ly_root L2 = ly_root L" "dict_get (os_tree (ly_os L2)) (absolute_root L2 @ p) = Some (Regular i)"
    "i < length (os_files (ly_os L2))" "fl_data (os_files (ly_os L2) ! i) = old"
    using L2(2) by (auto simp: at_candidate_def absolute_root_def)
  have "perform (OpenFile ''a'' (path_text p) data) L = after (calls (builtin_open ''a'' (path_text (absolute_root L2 @ p)))) (use_file data) L2"
    using L2(1) i(2) by (simp add: layer_open_def open_flags after_def absolute_root_def)
  then show ?thesis
    using append_own [OF i(1) _ assms(4) _ i(3,4), of data] assms(3,5) i(2,5) by simp
qed

end
