(* ===== verification/Path_Examples.thy ===== *)
theory Path_Examples
  imports Path_View
begin

text \<open>
  The path layer at work on a small container: what a program reads, writes, lists and deletes, and the calls whose
  result is not the file system's.
\<close>

definition file_of :: "bytes \<Rightarrow> content" where
  "file_of data = \<lparr>fl_data = data, fl_attrs = no_attrs\<rparr>"

text \<open>A container with a file, a folder with a file, and the directory of the invocation, and a layer on it.\<close>

definition small_os :: os where
  "small_os = \<lparr>os_tree = [([], Folder no_attrs), ([''tmp''], Folder no_attrs), ([''tmp'', ''f''], Regular 0),
       ([''tmp'', ''d''], Folder no_attrs), ([''tmp'', ''d'', ''x''], Regular 1), ([''inv''], Folder no_attrs),
       ([''inv'', ''absolute''], Folder no_attrs)],
     os_files = [file_of [1, 2], file_of [3]], os_cwd = [], os_now = 9\<rparr>"

definition small :: layer where
  "small = \<lparr>ly_os = small_os, ly_root = [''inv''], ly_tombs = []\<rparr>"

lemma small_tree:
  "canonical (ly_root small)" "sealed (ly_root small) (ly_os small)" "good_tree (ly_os small)" "proper_names (ly_os small)"
  by (auto simp: canonical_def component_def sealed_def link_free_def files_in_def files_out_def good_tree_def rooted_def is_folder_def
      proper_names_def small_def small_os_def prefix_def)

text \<open>Witness: a run that deletes, rewrites and appends leaves the real file as it was.\<close>

definition busy :: "path_call list" where
  "busy = [OpenFile ''a'' ''/tmp/f'' [7], Unlink ''/tmp/d/x'', RemoveDir ''/tmp/d'', OpenFile ''w'' ''/tmp/f'' [8]]"

lemma busy_runs: "run_calls busy small \<noteq> None" "list_all (\<lambda>c. list_all is_absolute (call_paths c)) busy"
  by code_simp+

definition after_busy :: layer where
  "after_busy = the (run_calls busy small)"

lemma after_busy: "run_calls busy small = Some after_busy"
  using busy_runs(1) by (auto simp: after_busy_def)

lemma real_files_untouched_witness:
  "dict_get (os_tree (ly_os after_busy)) [''tmp'', ''d'', ''x''] = Some (Regular 1) \<and> os_files (ly_os after_busy) ! 1 = file_of [3]"
proof -
  have "\<not> prefix (ly_root small) [''tmp'', ''d'', ''x'']" by (simp add: small_def)
  from real_files_untouched [OF small_tree(1,2) busy_runs(2) after_busy this] show ?thesis
    by (simp add: small_def small_os_def)
qed

lemma calls_return_witness: "perform (Unlink ''/tmp/f'') small \<noteq> None"
  by (rule calls_return [OF small_tree(4)]) code_simp

lemma two_slashes_hang_witness: "layer_stat True ''//tmp/f'' small = None"
proof -
  have "os_lstat (path_text (absolute_root small @ [''tmp'', ''f''])) (ly_os small) = Inl enoent" by code_simp
  moreover have "canonical [''tmp'', ''f'']" "ly_root small \<noteq> []" "list_all one_slash (ly_tombs small)"
    by (auto simp: canonical_def component_def small_def)
  moreover have "''/'' @ path_text [''tmp'', ''f''] = ''//tmp/f''" by code_simp
  ultimately show ?thesis using two_slashes_hang [of "[''tmp'', ''f'']" small True] small_tree(1) by auto
qed

text \<open>Of the folder's two files one is real and deleted, the other is new.\<close>

definition edited :: layer where
  "edited = the (run_calls [Unlink ''/tmp/d/x'', OpenFile ''w'' ''/tmp/d/y'' [5]] small)"

lemma listing_matches_lookup_witness:
  "(\<exists>st. layer_lstat (path_text [''tmp'', ''d'', ''y'']) edited = Some (edited, Inr st)) \<and>
   \<not> (\<exists>st. layer_lstat (path_text [''tmp'', ''d'', ''x'']) edited = Some (edited, Inr st))"
proof -
  have "layer_listdir (path_text [''tmp'', ''d'']) edited \<noteq> None \<and>
     snd (the (layer_listdir (path_text [''tmp'', ''d'']) edited)) = Inr [''y'']" by code_simp
  then obtain L' where l: "layer_listdir (path_text [''tmp'', ''d'']) edited = Some (L', Inr [''y''])" by (cases "layer_listdir (path_text [''tmp'', ''d'']) edited") auto
  have r: "ly_root edited = [''inv'']" by code_simp
  then have c: "canonical (ly_root edited)" by (auto simp: canonical_def component_def)
  have "list_all (\<lambda>(k, x). case x of Link _ \<Rightarrow> False | _ \<Rightarrow> True) (os_tree (ly_os edited))" by code_simp
  then have f: "link_free (os_tree (ly_os edited))" by (auto simp: link_free_def list_all_iff)
  have n: "canonical ([''tmp'', ''d''] @ [n])" "\<not> prefix (ly_root edited) ([''tmp'', ''d''] @ [n])" if "n = ''x'' \<or> n = ''y''" for n
    using that r by (auto simp: canonical_def component_def)
  show ?thesis
    using listing_matches_lookup [OF f c n l, of "''y''"] listing_matches_lookup [OF f c n l, of "''x''"] by simp
qed

lemma appended_file_reads_back_witness:
  "\<exists>L'. perform (OpenFile ''a'' ''/tmp/f'' [7]) small = Some (L', Inr ()) \<and> read_file ''/tmp/f'' L' = Some (L', Inr [1, 2, 7])"
proof -
  have t: "path_text [''tmp'', ''f''] = ''/tmp/f''" by code_simp
  have "read_file ''/tmp/f'' small \<noteq> None \<and> snd (the (read_file ''/tmp/f'' small)) = Inr [1, 2]" by code_simp
  then obtain L1 where "read_file (path_text [''tmp'', ''f'']) small = Some (L1, Inr [1, 2])" unfolding t by (cases "read_file ''/tmp/f'' small") auto
  moreover have "canonical [''tmp'', ''f'']" "\<not> prefix (ly_root small) [''tmp'', ''f'']"
    by (auto simp: canonical_def component_def small_def)
  moreover have "is_folder (dict_get (os_tree (ly_os small)) (absolute_root small))" "\<not> through_file (os_tree (ly_os small)) [''tmp'', ''f'']"
    by code_simp+
  ultimately show ?thesis
    using appended_file_reads_back [OF small_tree(3,2,1), of "[''tmp'', ''f'']" L1 "[1, 2]" "[7]"] unfolding t by simp
qed

section \<open>Where the layer is not a file system\<close>

text \<open>The result of the last of a run of operations.\<close>

definition result :: "'a job \<Rightarrow> layer \<Rightarrow> (exn + 'a) option" where
  "result m L = map_option snd (m L)"

definition real_data :: "layer \<Rightarrow> nat \<Rightarrow> bytes" where
  "real_data L i = fl_data (os_files (ly_os L) ! i)"

text \<open>A hard link is made to the real file, so that appending to it changes the real file.\<close>

lemma hard_link_writes_real_file:
  "map_option (\<lambda>(L, x). real_data L 0) (after (layer_link ''/tmp/f'' ''/tmp/g'') (\<lambda>_. perform (OpenFile ''a'' ''/tmp/g'' [7])) small) = Some [1, 2, 7]"
  by code_simp

text \<open>A symbolic link of the container is copied as a link, so that appending through it changes the real file.\<close>

definition linked :: layer where
  "linked = small\<lparr>ly_os := put_entry [''tmp'', ''l''] (Link ''/tmp/f'') small_os\<rparr>"

lemma symbolic_link_writes_real_file:
  "map_option (\<lambda>(L, x). real_data L 0) (perform (OpenFile ''a'' ''/tmp/l'' [7]) linked) = Some [1, 2, 7]"
  by code_simp

text \<open>A real file can be deleted twice, and a folder moved away comes back with its files.\<close>

lemma deleted_twice:
  "result (after (layer_unlink ''/tmp/f'') (\<lambda>_. layer_unlink ''/tmp/f'')) small = Some (Inr ())"
  by code_simp

lemma renamed_folder_returns:
  "result (after (layer_rename ''/tmp/d'' ''/tmp/e'') (\<lambda>_. after (layer_mkdir 511 ''/tmp/d'') (\<lambda>_. layer_listdir ''/tmp/d''))) small =
    Some (Inr [''x''])"
  by code_simp

text \<open>A folder that does not exist is listed as empty, and the current directory at the root is \<open>/.\<close>.\<close>

lemma missing_folder_is_empty: "result (layer_listdir ''/none'') small = Some (Inr [])"
  by code_simp

lemma root_is_dotted: "result (after (layer_chdir ''/'') (\<lambda>_. layer_getcwd)) small = Some (Inr ''/.'')"
  by code_simp

end
