(* ===== verification/Object_Storage.thy ===== *)
theory Object_Storage
  imports Edge_Bundle Http
begin

text \<open>
  The download of a folder from object storage into a new workspace (\<open>publish_service/utils/minio_tools.py\<close>
  and its route in \<open>app.py\<close>), over the disk of Edge_Bundle, which has no symbolic links. What a bucket lists and what a
  fetch does are arguments, as the client library is not under src; the root of the workspaces is resolved.
\<close>

section \<open>Configuration\<close>

definition minio_error :: "string \<Rightarrow> string \<Rightarrow> exn" where
  "minio_error c m = PyError c m"

definition required_env :: "(string, string) dict \<Rightarrow> string \<Rightarrow> exn + string" where
  "required_env env n =
     (let v = strip (dict_get_or env n []) in
      if v = [] then Inl (minio_error ''MinioConfigurationError'' (n @ '' is required'')) else Inr v)"

definition parse_bool :: "string \<Rightarrow> bool" where
  "parse_bool v \<longleftrightarrow> ascii_lower (strip v) \<in> {''1'', ''true'', ''yes'', ''on''}"

record minio_config =
  mc_endpoint :: string
  mc_access :: string
  mc_secret :: string
  mc_secure :: bool

fun contains_text :: "string \<Rightarrow> string \<Rightarrow> bool" where
  "contains_text t [] = (t = [])"
| "contains_text t (c # s) = (starts_with t (c # s) \<or> contains_text t s)"

definition without_slashes :: "string \<Rightarrow> string" where
  "without_slashes s = rev (dropWhile (\<lambda>c. c = CHR ''/'') (rev s))"

text \<open>\<open>url\<close> is the scheme and the host of \<open>urlparse\<close>.\<close>

definition create_minio_client :: "(string \<Rightarrow> string \<times> string) \<Rightarrow> (string, string) dict \<Rightarrow> exn + minio_config" where
  "create_minio_client url env =
     and_then (required_env env ''MINIO_ENDPOINT'') (\<lambda>raw.
     and_then (required_env env ''MINIO_ACCESS_KEY'') (\<lambda>access.
     and_then (required_env env ''MINIO_SECRET_KEY'') (\<lambda>secret.
       if contains_text ''://'' raw
       then (case url raw of (scheme, netloc) \<Rightarrow>
               if scheme \<noteq> ''http'' \<and> scheme \<noteq> ''https''
               then Inl (minio_error ''MinioConfigurationError'' ''MINIO_ENDPOINT scheme must be http or https'')
               else if netloc = [] then Inl (minio_error ''MinioConfigurationError'' ''Invalid MINIO_ENDPOINT'')
               else Inr \<lparr>mc_endpoint = netloc, mc_access = access, mc_secret = secret, mc_secure = (scheme = ''https'')\<rparr>)
       else Inr \<lparr>mc_endpoint = without_slashes raw, mc_access = access, mc_secret = secret,
              mc_secure = parse_bool (dict_get_or env ''MINIO_SECURE'' ''true'')\<rparr>)))"

section \<open>Names\<close>

definition normalize_folder_path :: "string \<Rightarrow> exn + string" where
  "normalize_folder_path raw =
     (let f = strip raw; parts = path_parts (dropWhile (\<lambda>c. c = CHR ''/'') f) in
      if f = [] then Inl (value_error ''folder_path cannot be empty'')
      else if CHR 0x5C \<in> set f then Inl (value_error (''folder_path must use '' @ [CHR 0x27] @ ''/'' @ [CHR 0x27] @ '' as path separator''))
      else if parts = [] then Inl (value_error ''folder_path cannot be empty'')
      else if ''..'' \<in> set parts then Inl (value_error (''folder_path cannot contain '' @ [CHR 0x27] @ ''..'' @ [CHR 0x27]))
      else Inr (join_with ''/'' parts @ ''/''))"

definition sanitize_workspace_name :: "(string \<Rightarrow> string) \<Rightarrow> string \<Rightarrow> exn + string" where
  "sanitize_workspace_name repr name =
     (let s = strip (map (\<lambda>c. if c = CHR ''/'' \<or> c = CHR 0x5C \<or> (of_char c :: nat) < 32 then CHR ''_'' else c) name) in
      if s = [] \<or> s = ''.'' \<or> s = ''..'' then Inl (value_error (''Invalid workspace folder name: '' @ repr name)) else Inr s)"

section \<open>The directory of a download\<close>

text \<open>The clock as \<open>strftime\<close> gives it, to the minute and to the microsecond.\<close>

record download_env =
  de_repr :: "string \<Rightarrow> string"
  de_root :: path
  de_minute :: string
  de_instant :: string

definition create_workspace_dir :: "download_env \<Rightarrow> string \<Rightarrow> path io" where
  "create_workspace_dir E folder k =
     then_io (mkdirs True (de_root E) k) (\<lambda>_ k.
       case sanitize_workspace_name (de_repr E) (last (split_on CHR ''/'' (without_slashes folder))) of
         Inl e \<Rightarrow> (k, Inl e)
       | Inr name \<Rightarrow>
           (let first = de_root E @ [name @ ''_'' @ de_minute E]; second = de_root E @ [name @ ''_'' @ de_instant E] in
            case mkdirs False first k of
              (k1, Inr _) \<Rightarrow> (k1, Inr first)
            | (k1, Inl e) \<Rightarrow>
                if of_class [''FileExistsError''] e then then_io (mkdirs False second k1) (\<lambda>_ k2. (k2, Inr second)) else (k1, Inl e)))"

definition safe_local_path :: "path \<Rightarrow> string \<Rightarrow> exn + path" where
  "safe_local_path base relative =
     (let unsafe = Inl (minio_error ''MinioToolError'' (''Unsafe MinIO object path: '' @ relative)) in
      if is_absolute relative then unsafe
      else if ''..'' \<in> set (path_parts relative) then unsafe
      else if CHR 0x00 \<in> set relative then Inl (value_error ''embedded null byte'')
      else let p = resolve (base @ path_parts relative) in if take (length base) p = base then Inr p else unsafe)"

section \<open>The storage\<close>

text \<open>An error of the service has a code and a message; other exceptions are the library's own.\<close>

datatype storage_fault = S3 string string | Failed exn

record storage =
  sg_list :: "string \<Rightarrow> string \<Rightarrow> string list \<times> storage_fault option"
  sg_fetch :: "string \<Rightarrow> string \<Rightarrow> path \<Rightarrow> disk \<Rightarrow> disk \<times> (storage_fault + unit)"

definition minio_fault :: "storage_fault \<Rightarrow> exn" where
  "minio_fault f =
     (case f of
        Failed e \<Rightarrow> e
      | S3 code m \<Rightarrow>
          if code \<in> {''NoSuchBucket'', ''NoSuchBucketPolicy''} then minio_error ''MinioBucketNotFoundError'' (if m = [] then code else m)
          else if code \<in> {''AccessDenied'', ''InvalidAccessKeyId'', ''SignatureDoesNotMatch''}
          then minio_error ''MinioAccessDeniedError'' (code @ '': '' @ m)
          else minio_error ''MinioToolError'' (''MinIO error '' @ code @ '': '' @ m))"

text \<open>One object: its files and bytes are counted.\<close>

definition download_object :: "storage \<Rightarrow> string \<Rightarrow> string \<Rightarrow> path \<Rightarrow> string \<Rightarrow> nat \<times> nat \<Rightarrow> (nat \<times> nat) io" where
  "download_object S bucket folder ws name n k =
     (let relative = drop (length folder) name in
      if \<not> starts_with folder name \<or> relative = [] then (k, Inr n)
      else case safe_local_path ws relative of
        Inl e \<Rightarrow> (k, Inl e)
      | Inr p \<Rightarrow>
          if last name = CHR ''/'' then then_io (mkdirs True p k) (\<lambda>_ k. (k, Inr n))
          else then_io (mkdirs True (butlast p) k) (\<lambda>_ k.
            case sg_fetch S bucket name p k of
              (k1, Inl f) \<Rightarrow> (k1, Inl (minio_fault f))
            | (k1, Inr _) \<Rightarrow>
                (case dict_get (dk_files k1) p of
                   None \<Rightarrow> (k1, Inl (os_error ''FileNotFoundError'' p))
                 | Some b \<Rightarrow> (k1, Inr (fst n + 1, snd n + length b)))))"

fun download_objects :: "storage \<Rightarrow> string \<Rightarrow> string \<Rightarrow> path \<Rightarrow> string list \<Rightarrow> nat \<times> nat \<Rightarrow> (nat \<times> nat) io" where
  "download_objects S bucket folder ws [] n k = (k, Inr n)"
| "download_objects S bucket folder ws (name # names) n k =
     then_io (download_object S bucket folder ws name n k) (download_objects S bucket folder ws names)"

record folder_download =
  fd_bucket :: string
  fd_folder :: string
  fd_workspace :: string
  fd_path :: path
  fd_files :: nat
  fd_bytes :: nat

definition download_all :: "storage \<Rightarrow> string \<Rightarrow> string \<Rightarrow> path \<Rightarrow> folder_download io" where
  "download_all S bucket folder ws k =
     (case sg_list S bucket folder of (names, fault) \<Rightarrow>
        then_io (download_objects S bucket folder ws names (0, 0) k) (\<lambda>n k.
          case fault of
            Some f \<Rightarrow> (k, Inl (minio_fault f))
          | None \<Rightarrow>
              if fst n = 0
              then (k, Inl (minio_error ''MinioFolderNotFoundError'' (''No files found under bucket='' @ bucket @ '', folder_path='' @ folder)))
              else (k, Inr \<lparr>fd_bucket = bucket, fd_folder = folder, fd_workspace = last ws, fd_path = ws, fd_files = fst n, fd_bytes = snd n\<rparr>)))"

text \<open>What is raised removes the directory; \<open>connect\<close> gives the storage of a configuration.\<close>

definition download_minio_folder ::
  "download_env \<Rightarrow> (exn + minio_config) \<Rightarrow> (minio_config \<Rightarrow> exn + storage) \<Rightarrow> string \<Rightarrow> string \<Rightarrow> folder_download io" where
  "download_minio_folder E client connect raw_bucket raw_folder k =
     (if strip raw_bucket = [] then (k, Inl (value_error ''bucket cannot be empty''))
      else case and_then (normalize_folder_path raw_folder) (\<lambda>folder. and_then (and_then client connect) (\<lambda>S. Inr (folder, S))) of
        Inl e \<Rightarrow> (k, Inl e)
      | Inr (folder, S) \<Rightarrow>
          then_io (create_workspace_dir E folder k) (\<lambda>ws k1.
            case download_all S (strip raw_bucket) folder ws k1 of
              (k2, Inl e) \<Rightarrow> (remove_tree ws k2, Inl e)
            | (k2, Inr d) \<Rightarrow> (k2, Inr d)))"

text \<open>The statuses of the route.\<close>

definition download_status :: "exn \<Rightarrow> http_answer" where
  "download_status =
     by_class [(value_errors, 400), ([''MinioBucketNotFoundError''], 404), ([''MinioFolderNotFoundError''], 404),
       ([''MinioAccessDeniedError''], 403), ([''MinioConfigurationError''], 500), ([''MinioToolError''], 502)]"

definition download_answer :: "folder_download \<Rightarrow> http_answer" where
  "download_answer d =
     http_ok (JObj [(''ok'', JBool True), (''data'', JObj
       [(''bucket'', JStr (fd_bucket d)), (''folder_path'', JStr (fd_folder d)), (''workspace_name'', JStr (fd_workspace d)),
        (''local_path'', JStr (''/'' @ join_with ''/'' (fd_path d))), (''downloaded_files'', JInt (int (fd_files d))),
        (''downloaded_bytes'', JInt (int (fd_bytes d)))])])"

definition download_route ::
  "download_env \<Rightarrow> (exn + minio_config) \<Rightarrow> (minio_config \<Rightarrow> exn + storage) \<Rightarrow> string \<Rightarrow> string \<Rightarrow> disk \<Rightarrow> disk \<times> http_answer" where
  "download_route E client connect bucket folder k =
     (case download_minio_folder E client connect bucket folder k of
        (k1, Inl e) \<Rightarrow> (k1, download_status e)
      | (k1, Inr d) \<Rightarrow> (k1, download_answer d))"

section \<open>What a download leaves\<close>

definition beyond :: "path \<Rightarrow> disk \<Rightarrow> (path, bytes) dict \<times> path set" where
  "beyond ws k = (filter (\<lambda>(q, b). \<not> under ws q) (dk_files k), {q \<in> set (dk_dirs k). \<not> under ws q})"

text \<open>What the code relies on: a fetch touches only the directory of the file, and nothing when the file is a directory.\<close>

definition fetch_ok :: "storage \<Rightarrow> bool" where
  "fetch_ok S \<longleftrightarrow> (\<forall>bucket name p k. (p \<in> set (dk_dirs k) \<longrightarrow> fst (sg_fetch S bucket name p k) = k) \<and>
     (\<forall>ws. under ws p \<longrightarrow> beyond ws (fst (sg_fetch S bucket name p k)) = beyond ws k))"

text \<open>Whatever exists has its parents.\<close>

definition disk_ok :: "disk \<Rightarrow> bool" where
  "disk_ok k \<longleftrightarrow> (\<forall>p \<in> fst ` set (dk_files k) \<union> set (dk_dirs k). \<forall>n < length p. take n p \<in> set (dk_dirs k))"

definition prefixes_of :: "path \<Rightarrow> path set" where
  "prefixes_of p = {take n p |n. True}"

lemma prefixes_set: "set (map (\<lambda>n. take n p) [0 ..< length p + 1]) = prefixes_of p"
proof -
  have "take n p \<in> (\<lambda>n. take n p) ` {0..<length p + 1}" for n
    by (cases "n \<le> length p") (auto intro!: image_eqI [of _ _ "length p"])
  then have "prefixes_of p \<subseteq> (\<lambda>n. take n p) ` {0..<length p + 1}" by (auto simp: prefixes_of_def)
  moreover have "(\<lambda>n. take n p) ` {0..<length p + 1} \<subseteq> prefixes_of p" unfolding prefixes_of_def by blast
  ultimately show ?thesis by (simp del: upt_Suc add: equalityI)
qed

lemma prefixes_self [simp]: "p \<in> prefixes_of p"
  unfolding prefixes_of_def by (rule CollectI, rule exI [of _ "length p"]) simp

lemma mkdirs_result:
  assumes "mkdirs b p k = (k', Inr x)"
  shows "dk_files k' = dk_files k" "set (dk_dirs k') = prefixes_of p \<union> set (dk_dirs k)" "b \<or> p \<notin> set (dk_dirs k)"
proof -
  from assms have k': "k' = k\<lparr>dk_dirs := map (\<lambda>n. take n p) [0 ..< length p + 1] @ dk_dirs k\<rparr>" and b: "b \<or> p \<notin> set (dk_dirs k)"
    by (auto simp: mkdirs_def simp del: upt_Suc split: if_splits)
  show "dk_files k' = dk_files k" "b \<or> p \<notin> set (dk_dirs k)" using b by (simp_all add: k')
  show "set (dk_dirs k') = prefixes_of p \<union> set (dk_dirs k)" using prefixes_set [of p] by (simp del: upt_Suc add: k')
qed

lemma mkdirs_failed: "mkdirs b p k = (k', Inl e) \<Longrightarrow> k' = k"
  by (auto simp: mkdirs_def split: if_splits)

lemma under_append [simp]: "under ws (ws @ r) \<longleftrightarrow> r \<noteq> []"
  by (auto simp: under_def)

lemma under_take: "under ws (take n (ws @ r)) \<or> take n (ws @ r) \<in> prefixes_of ws"
proof (cases "n \<le> length ws \<or> r = []")
  case True
  then show ?thesis by (auto simp: prefixes_of_def)
qed (simp add: under_def)

lemma mkdirs_beyond:
  assumes "prefixes_of ws \<subseteq> set (dk_dirs k)" "p = ws @ r \<or> p = butlast ws"
  shows "beyond ws (fst (mkdirs b p k)) = beyond ws k" "prefixes_of ws \<subseteq> set (dk_dirs (fst (mkdirs b p k)))"
proof -
  have p: "q \<in> prefixes_of p \<Longrightarrow> under ws q \<or> q \<in> set (dk_dirs k)" for q
  proof -
    assume q: "q \<in> prefixes_of p"
    from assms(2) show ?thesis
    proof
      assume "p = ws @ r"
      with q assms(1) under_take [of ws _ r] show ?thesis by (fastforce simp: prefixes_of_def)
    next
      assume "p = butlast ws"
      with q have "q \<in> prefixes_of ws" by (auto simp: prefixes_of_def butlast_conv_take)
      with assms(1) show ?thesis by blast
    qed
  qed
  obtain k' x where m: "mkdirs b p k = (k', x)" by (cases "mkdirs b p k")
  show "beyond ws (fst (mkdirs b p k)) = beyond ws k" "prefixes_of ws \<subseteq> set (dk_dirs (fst (mkdirs b p k)))"
    using p assms(1) m mkdirs_result [of b p k k'] mkdirs_failed [of b p k k'] by (cases x; auto simp: beyond_def)+
qed

lemma then_io_fst: "fst (then_io r f) = (case r of (k, Inl e) \<Rightarrow> k | (k, Inr x) \<Rightarrow> fst (f x k))"
  by (auto simp: then_io_def split: prod.splits sum.splits)

lemma safe_path: "safe_local_path ws relative = Inr p \<Longrightarrow> \<exists>r. p = ws @ r"
  by (auto simp: safe_local_path_def Let_def split: if_splits) (metis append_take_drop_id)

definition settled :: "path \<Rightarrow> disk \<Rightarrow> disk \<Rightarrow> bool" where
  "settled ws k k' \<longleftrightarrow> beyond ws k' = beyond ws k \<and> prefixes_of ws \<subseteq> set (dk_dirs k')"

lemma settled_dirs: "beyond ws k' = beyond ws k \<Longrightarrow> prefixes_of ws \<subseteq> set (dk_dirs k) \<Longrightarrow> settled ws k k'"
proof -
  assume b: "beyond ws k' = beyond ws k" and p: "prefixes_of ws \<subseteq> set (dk_dirs k)"
  have "\<not> under ws q" if "q \<in> prefixes_of ws" for q using that by (auto simp: prefixes_of_def under_def)
  with b p show ?thesis unfolding settled_def beyond_def by blast
qed

lemma object_settled:
  assumes "fetch_ok S" "prefixes_of ws \<subseteq> set (dk_dirs k)"
  shows "settled ws k (fst (download_object S bucket folder ws name n k))"
proof -
  have refl: "settled ws k k" using assms(2) by (simp add: settled_def)
  show ?thesis
  proof (cases "safe_local_path ws (drop (length folder) name)")
    case (Inl e)
    then show ?thesis using refl by (simp add: download_object_def Let_def)
  next
    case (Inr p)
    obtain r where p: "p = ws @ r" using safe_path [OF Inr] by blast
    have folder: "settled ws k (fst (mkdirs True p k))"
      using mkdirs_beyond [OF assms(2), of p r] p by (simp add: settled_def)
    have "butlast p = ws @ butlast r \<or> butlast p = butlast ws" unfolding p by (cases "r = []") (simp_all add: butlast_append)
    then have parent: "settled ws k (fst (mkdirs True (butlast p) k))"
      using mkdirs_beyond [OF assms(2), of "butlast p" "butlast r"] by (simp add: settled_def)
    have fetch: "settled ws k (fst (sg_fetch S bucket name p k1))" if "settled ws k k1" for k1
    proof (cases "r = []")
      case True
      with that have "p \<in> set (dk_dirs k1)" by (auto simp: p settled_def)
      then have "fst (sg_fetch S bucket name p k1) = k1" using assms(1) unfolding fetch_ok_def by blast
      with that show ?thesis by simp
    next
      case False
      then have "beyond ws (fst (sg_fetch S bucket name p k1)) = beyond ws k1" using assms(1) by (simp add: p fetch_ok_def)
      with that have "settled ws k1 (fst (sg_fetch S bucket name p k1))" by (intro settled_dirs) (simp_all add: settled_def)
      with that show ?thesis by (simp add: settled_def)
    qed
    obtain k1 x where m: "mkdirs True (butlast p) k = (k1, x)" by (cases "mkdirs True (butlast p) k")
    with parent have k1: "settled ws k k1" by simp
    obtain k2 y where f: "sg_fetch S bucket name p k1 = (k2, y)" by (cases "sg_fetch S bucket name p k1")
    with fetch [OF k1] have k2: "settled ws k k2" by simp
    obtain k3 z where d: "mkdirs True p k = (k3, z)" by (cases "mkdirs True p k")
    with folder have k3: "settled ws k k3" by simp
    show ?thesis
      using refl k1 k2 k3 Inr m f d
      by (cases x; cases y; cases z) (auto simp: download_object_def Let_def split: option.split)
  qed
qed

lemma objects_settled:
  assumes "fetch_ok S"
  shows "prefixes_of ws \<subseteq> set (dk_dirs k) \<Longrightarrow> settled ws k (fst (download_objects S bucket folder ws names n k))"
proof (induction names arbitrary: n k)
  case Nil
  then show ?case by (simp add: settled_def)
next
  case (Cons name names)
  obtain k1 x where o: "download_object S bucket folder ws name n k = (k1, x)" by (cases "download_object S bucket folder ws name n k")
  with object_settled [OF assms Cons.prems, of bucket folder name n] have s: "settled ws k k1" by simp
  then have "settled ws k1 (fst (download_objects S bucket folder ws names m k1))" for m by (intro Cons.IH) (simp add: settled_def)
  with s o show ?case by (cases x) (auto simp: settled_def)
qed

lemma all_settled:
  assumes "fetch_ok S" "prefixes_of ws \<subseteq> set (dk_dirs k)" "download_all S bucket folder ws k = (k', r)"
  shows "settled ws k k'" "r = Inr d \<Longrightarrow> fd_path d = ws \<and> 0 < fd_files d"
proof -
  obtain names fault where l: "sg_list S bucket folder = (names, fault)" by (cases "sg_list S bucket folder")
  obtain k1 x where o: "download_objects S bucket folder ws names (0, 0) k = (k1, x)"
    by (cases "download_objects S bucket folder ws names (0, 0) k")
  have "settled ws k k1" using objects_settled [OF assms(1,2), of bucket folder names "(0, 0)"] o by simp
  with assms(3) l o show "settled ws k k'" by (cases x) (auto simp: download_all_def split: option.splits if_splits)
  show "r = Inr d \<Longrightarrow> fd_path d = ws \<and> 0 < fd_files d"
    using assms(3) l o by (cases x) (auto simp: download_all_def split: option.splits if_splits)
qed

lemma create_dir:
  assumes "create_workspace_dir E folder k = (k', r)"
  shows "dk_files k' = dk_files k \<and> (case r of
     Inl e \<Rightarrow> set (dk_dirs k') \<subseteq> set (dk_dirs k) \<union> prefixes_of (de_root E)
   | Inr ws \<Rightarrow> set (dk_dirs k') = set (dk_dirs k) \<union> prefixes_of (de_root E) \<union> prefixes_of ws \<and> ws \<notin> set (dk_dirs k) \<and>
       butlast ws = de_root E \<and> ws \<noteq> [])"
proof -
  obtain k1 x where m: "mkdirs True (de_root E) k = (k1, x)" by (cases "mkdirs True (de_root E) k")
  show ?thesis
  proof (cases x)
    case (Inl e)
    with assms m mkdirs_failed [of True "de_root E" k k1 e] show ?thesis by (auto simp: create_workspace_dir_def)
  next
    case (Inr u)
    note k1 = mkdirs_result [OF m [unfolded Inr]]
    let ?name = "sanitize_workspace_name (de_repr E) (last (split_on CHR ''/'' (without_slashes folder)))"
    show ?thesis
    proof (cases ?name)
      case (Inl e)
      with assms m Inr k1 show ?thesis by (auto simp: create_workspace_dir_def)
    next
      case name: (Inr n)
      let ?first = "de_root E @ [n @ ''_'' @ de_minute E]" and ?second = "de_root E @ [n @ ''_'' @ de_instant E]"
      obtain k2 y where f: "mkdirs False ?first k1 = (k2, y)" by (cases "mkdirs False ?first k1")
      obtain k3 z where s: "mkdirs False ?second k1 = (k3, z)" by (cases "mkdirs False ?second k1")
      have eq: "(k', r) = (case (k2, y) of (k2, Inr _) \<Rightarrow> (k2, Inr ?first)
        | (k2, Inl e) \<Rightarrow> if of_class [''FileExistsError''] e then then_io (mkdirs False ?second k2) (\<lambda>_ k. (k, Inr ?second)) else (k2, Inl e))"
        unfolding assms [symmetric] create_workspace_dir_def m Inr then_io_simps name sum.case Let_def f by (rule refl)
      show ?thesis
      proof (cases y)
        case y: (Inr v)
        note k2 = mkdirs_result [OF f [unfolded y]]
        from eq y have "k' = k2" "r = Inr ?first" by simp_all
        with k1 k2 show ?thesis by auto
      next
        case y: (Inl e)
        with f have k2: "k2 = k1" using mkdirs_failed by blast
        show ?thesis
        proof (cases z)
          case z: (Inr v)
          note k3 = mkdirs_result [OF s [unfolded z]]
          from eq y k2 s z have "k' = k3 \<and> r = Inr ?second \<or> k' = k1 \<and> r = Inl e" by (auto split: if_splits)
          with k1 k3 show ?thesis by auto
        next
          case z: (Inl e')
          with s have k3: "k3 = k1" using mkdirs_failed by blast
          from eq y k2 s z k3 have "k' = k1 \<and> isl r" by (auto split: if_splits)
          with k1 show ?thesis by (auto split: sum.splits)
        qed
      qed
    qed
  qed
qed

text \<open>A folder is downloaded as a whole or not at all, whatever names the storage lists and whenever it fails: a download
  that is answered has put its files into a directory of its own that did not exist before and has changed nothing else,
  and one that failed leaves every file as it was and no directory but the root of the workspaces.\<close>

theorem download_all_or_nothing:
  assumes "\<And>c S. connect c = Inr S \<Longrightarrow> fetch_ok S" "disk_ok k" "download_minio_folder E client connect bucket folder k = (k', r)"
  shows "case r of
      Inl e \<Rightarrow> dk_files k' = dk_files k \<and> set (dk_dirs k') \<subseteq> set (dk_dirs k) \<union> prefixes_of (de_root E)
    | Inr d \<Rightarrow> fd_path d \<notin> set (dk_dirs k) \<and> butlast (fd_path d) = de_root E \<and> 0 < fd_files d \<and>
        filter (\<lambda>(p, b). \<not> under (fd_path d) p) (dk_files k') = dk_files k"
proof -
  consider e where "r = Inl e" "k' = k"
    | f S k1 y where "fetch_ok S" "create_workspace_dir E f k = (k1, y)"
      "(k', r) = then_io (k1, y) (\<lambda>ws k1. case download_all S (strip bucket) f ws k1 of
         (k2, Inl e) \<Rightarrow> (remove_tree ws k2, Inl e) | (k2, Inr d) \<Rightarrow> (k2, Inr d))"
  proof (cases "strip bucket = []")
    case True
    then have "r = Inl (value_error ''bucket cannot be empty'')" "k' = k" using assms(3) by (simp_all add: download_minio_folder_def)
    then show thesis by (rule that(1))
  next
    case False
    let ?s = "and_then (normalize_folder_path folder) (\<lambda>folder. and_then (and_then client connect) (\<lambda>S. Inr (folder, S)))"
    show thesis
    proof (cases ?s)
      case (Inl e)
      with assms(3) False have "r = Inl e" "k' = k" by (simp_all add: download_minio_folder_def)
      then show thesis by (rule that(1))
    next
      case (Inr x)
      obtain f S where x: "x = (f, S)" by (cases x)
      from Inr x obtain c where "connect c = Inr S" by (auto simp: and_then_def split: sum.splits)
      then have S: "fetch_ok S" by (rule assms(1))
      obtain k1 y where c: "create_workspace_dir E f k = (k1, y)" by (cases "create_workspace_dir E f k")
      show thesis
        by (rule that(2) [OF S c]) (use assms(3) False Inr x c in \<open>simp add: download_minio_folder_def\<close>)
    qed
  qed
  then show ?thesis
  proof cases
    case 1
    then show ?thesis by simp
  next
    case (2 f S k1 y)
    note C = create_dir [OF 2(2)]
    show ?thesis
    proof (cases y)
      case (Inl e)
      with 2 C show ?thesis by simp
    next
      case (Inr ws)
      with C have k1: "dk_files k1 = dk_files k" "set (dk_dirs k1) = set (dk_dirs k) \<union> prefixes_of (de_root E) \<union> prefixes_of ws"
        "ws \<notin> set (dk_dirs k)" "butlast ws = de_root E" "ws \<noteq> []" by simp_all
      have new: "\<not> under ws p" if "p \<in> fst ` set (dk_files k) \<union> set (dk_dirs k)" for p
      proof
        assume u: "under ws p"
        then have "length ws < length p" by (auto simp: under_def) (metis nat_less_le take_all linorder_not_less)
        with assms(2) that have "take (length ws) p \<in> set (dk_dirs k)" by (auto simp: disk_ok_def)
        with u k1(3) show False by (simp add: under_def)
      qed
      have old: "filter (\<lambda>(p, b). \<not> under ws p) (dk_files k) = dk_files k"
      proof (rule filter_True, clarify)
        fix p b assume "(p, b) \<in> set (dk_files k)" "under ws p"
        then show False using new [of p] by force
      qed
      obtain k2 x where a: "download_all S (strip bucket) f ws k1 = (k2, x)" by (cases "download_all S (strip bucket) f ws k1")
      have "prefixes_of ws \<subseteq> set (dk_dirs k1)" using k1(2) by blast
      note A = all_settled [OF 2(1) this a]
      have files: "filter (\<lambda>(p, b). \<not> under ws p) (dk_files k2) = dk_files k"
        using A(1) k1(1) old by (simp add: settled_def beyond_def)
      show ?thesis
      proof (cases x)
        case x: (Inl e)
        have pre: "q \<in> prefixes_of (de_root E) \<or> q = ws" if q: "q \<in> prefixes_of ws" for q
        proof -
          from k1(4,5) have ws: "ws = de_root E @ [last ws]" by (metis append_butlast_last_id)
          from q obtain n where n: "q = take n ws" by (auto simp: prefixes_of_def)
          show ?thesis
          proof (cases "n \<le> length (de_root E)")
            case True
            with n ws have "q = take n (de_root E)" by (metis take_append diff_is_0_eq' take0 append_Nil2)
            then show ?thesis by (auto simp: prefixes_of_def)
          next
            case False
            with n ws show ?thesis by (metis length_append_singleton not_less_eq_eq take_all)
          qed
        qed
        have "{q \<in> set (dk_dirs k2). \<not> under ws q} = {q \<in> set (dk_dirs k1). \<not> under ws q}"
          using A(1) by (simp add: settled_def beyond_def)
        then have "set (dk_dirs (remove_tree ws k2)) \<subseteq> set (dk_dirs k) \<union> prefixes_of (de_root E)"
          using pre k1(2) by (auto simp: remove_tree_def)
        with 2(3) Inr a x files show ?thesis by (simp add: remove_tree_def)
      next
        case x: (Inr d)
        with A(2) 2(3) Inr a k1 files show ?thesis by simp
      qed
    qed
  qed
qed

section \<open>A download of hostile names\<close>

definition plain_fetch :: "string \<Rightarrow> string \<Rightarrow> path \<Rightarrow> disk \<Rightarrow> disk \<times> (storage_fault + unit)" where
  "plain_fetch bucket name p k = (case write_at p [1, 2] k of (k', Inl e) \<Rightarrow> (k', Inl (Failed e)) | (k', Inr u) \<Rightarrow> (k', Inr ()))"

definition hostile_storage :: storage where
  "hostile_storage = \<lparr>sg_list = (\<lambda>b f. ([''flow/a.txt'', ''flow/../../etc/x''], None)), sg_fetch = plain_fetch\<rparr>"

definition store_disk :: disk where
  "store_disk = \<lparr>dk_files = [([''w'', ''x''], [7])], dk_dirs = [[''w''], []]\<rparr>"

definition store_env :: download_env where
  "store_env = \<lparr>de_repr = (\<lambda>s. s), de_root = [''w''], de_minute = ''1'', de_instant = ''2''\<rparr>"

definition store_config :: minio_config where
  "store_config = \<lparr>mc_endpoint = ''h'', mc_access = ''a'', mc_secret = ''s'', mc_secure = True\<rparr>"

lemma filter_dict_set:
  assumes "\<not> P (p, b)" "\<And>q c d. P (q, c) = P (q, d)"
  shows "filter P (dict_set p b d) = filter P d"
proof (induction d)
  case (Cons x d)
  have "\<not> P (p, snd x)" using assms(1) assms(2) [of p "snd x" b] by simp
  with Cons show ?case using assms(1) by (cases x) auto
qed (simp add: assms(1))

lemma plain_fetch_ok: "fetch_ok \<lparr>sg_list = l, sg_fetch = plain_fetch\<rparr>"
  by (auto simp: fetch_ok_def plain_fetch_def write_at_def beyond_def filter_dict_set)

theorem download_all_or_nothing_witness:
  "\<exists>k' e. download_minio_folder store_env (Inr store_config) (\<lambda>c. Inr hostile_storage) ''b'' ''/flow'' store_disk = (k', Inl e) \<and>
     dk_files k' = [([''w'', ''x''], [7])]"
proof -
  let ?r = "download_minio_folder store_env (Inr store_config) (\<lambda>c. Inr hostile_storage) ''b'' ''/flow'' store_disk"
  have "isl (snd ?r)" by code_simp
  then obtain k' e where r: "?r = (k', Inl e)" by (cases ?r) (auto simp: isl_def)
  have "disk_ok store_disk" by (auto simp: disk_ok_def store_disk_def less_Suc_eq)
  moreover have "fetch_ok S" if "(Inr hostile_storage :: exn + storage) = Inr S" for S
    using that plain_fetch_ok by (auto simp: hostile_storage_def)
  ultimately show ?thesis
    using download_all_or_nothing [of "\<lambda>c. Inr hostile_storage" store_disk store_env "Inr store_config" "''b''" "''/flow''" k' "Inl e"] r
    by (simp add: store_disk_def)
qed

end
