(* ===== verification/Publish_Http.thy ===== *)
theory Publish_Http
  imports Publish_Examples Authoring_Examples Object_Storage
begin

text \<open>
  The user interface of the publish service (\<open>publish_service/app.py\<close>, the job and event routes of
  \<open>progress_routes.py\<close>, \<open>auth/dependency.py\<close>, \<open>auth/passport.py\<close>): who a request is from, and what it may see and change. The check of a
  token is PyJWT's; a body and a path are taken as parsed, and an answer as the rows its JSON is made of.
\<close>

section \<open>Authentication\<close>

text \<open>\<open>pa_verify secret token\<close> is \<open>jwt.decode\<close> with HS256 and a required \<open>exp\<close>: the claims, or an exception.\<close>

record 'e publish_app =
  pa_env :: "'e publish_env"
  pa_mode :: string
  pa_demo :: "string option"
  pa_secret :: "string option"
  pa_verify :: "string \<Rightarrow> string \<Rightarrow> exn + (string, json) dict"

definition unauthorized_user :: "string \<Rightarrow> http_answer" where
  "unauthorized_user detail = http_error 401 detail"

text \<open>\<open>InvalidTokenError\<close> of PyJWT with the classes below it; the order is the one of the handlers.\<close>

definition token_errors :: "string list" where
  "token_errors =
     [''InvalidTokenError'', ''ImmatureSignatureError'', ''InvalidIssuedAtError'', ''InvalidAudienceError'', ''InvalidIssuerError'',
      ''InvalidAlgorithmError'', ''MissingRequiredClaimError'', ''InvalidSubjectError'', ''InvalidJTIError'']"

definition verify_answer :: "exn \<Rightarrow> http_answer" where
  "verify_answer e =
     (if of_class [''InvalidSignatureError''] e then unauthorized_user ''Invalid token signature''
      else if of_class [''DecodeError''] e then unauthorized_user ''Invalid token''
      else if of_class [''ExpiredSignatureError''] e then unauthorized_user ''Token expired''
      else if of_class token_errors e then unauthorized_user ''Invalid or expired token''
      else server_error)"

definition has_space :: "string \<Rightarrow> bool" where
  "has_space s \<longleftrightarrow> list_ex (\<lambda>k. space_len (drop k s) \<noteq> 0) [0..<length s]"

definition header_token :: "string \<Rightarrow> string option" where
  "header_token h =
     (let scheme = takeWhile (\<lambda>c. c \<noteq> CHR '' '') h; token = drop (length scheme + 1) h in
      if length scheme = length h \<or> ascii_lower scheme \<noteq> ''bearer'' \<or> token = [] \<or> strip token \<noteq> token \<or> has_space token then None
      else Some token)"

definition claim :: "(string, json) dict \<Rightarrow> string \<Rightarrow> json" where
  "claim d k = dict_get_or d k JNull"

text \<open>\<open>str\<close> of an identifier, which is a text or an integer.\<close>

definition user_text :: "json \<Rightarrow> string option" where
  "user_text j = (case j of JStr s \<Rightarrow> Some s | JInt n \<Rightarrow> Some (int_str n) | _ \<Rightarrow> None)"

definition claimed_user :: "(string, json) dict \<Rightarrow> http_answer + string" where
  "claimed_user d =
     (let uid = claim d ''user_uid''; user = (if truthy (claim d ''user_id'') then claim d ''user_id'' else uid) in
      case uid of
        JStr t \<Rightarrow>
          if strip t = [] then Inl (unauthorized_user ''Token missing user_uid'')
          else (case user_text user of
                  None \<Rightarrow> Inl (unauthorized_user ''Token missing user_id'')
                | Some i \<Rightarrow> if strip i = [] then Inl (unauthorized_user ''Token missing user_id'') else Inr i)
      | _ \<Rightarrow> Inl (unauthorized_user ''Token missing user_uid''))"

definition current_user :: "'e publish_app \<Rightarrow> string option \<Rightarrow> http_answer + string" where
  "current_user A authorization =
     (if pa_mode A \<noteq> ''required'' \<and> pa_mode A \<noteq> ''optional'' then Inl (http_error 503 ''Invalid PUBLISH_AUTH_MODE'')
      else (case authorization of
              None \<Rightarrow>
                if pa_mode A = ''optional''
                then (case pa_demo A of
                        None \<Rightarrow> Inl server_error
                      | Some demo \<Rightarrow> if strip demo = [] then Inl (http_error 503 ''Demo user is not configured'') else Inr (strip demo))
                else Inl (unauthorized_user ''Missing authorization token'')
            | Some h \<Rightarrow>
                (case header_token h of
                   None \<Rightarrow> Inl (unauthorized_user ''Invalid Authorization header'')
                 | Some token \<Rightarrow>
                     (case get_or [] (pa_secret A) of
                        [] \<Rightarrow> Inl (http_error 503 ''JWT verification is not configured'')
                      | secret \<Rightarrow>
                          (case pa_verify A secret token of Inl e \<Rightarrow> Inl (verify_answer e) | Inr d \<Rightarrow> claimed_user d)))))"

text \<open>\<open>_user_id\<close> of the application, and the one of the job routes.\<close>

definition user_id :: "string \<Rightarrow> http_answer + string" where
  "user_id value =
     (if value = [] \<or> strip value \<noteq> value \<or> (\<exists>c \<in> {CHR ''/'', CHR 0x5C, CHR 0x00}. c \<in> set value)
      then Inl (unauthorized_user ''Authenticated user_id is invalid'') else Inr value)"

definition job_user_id :: "string \<Rightarrow> http_answer + string" where
  "job_user_id value = (if strip value = [] then Inl (unauthorized_user ''Authenticated user is missing user_id'') else Inr value)"

section \<open>Calls and replies\<close>

datatype user_call =
    EdgePlatforms
  | EdgeDeployments
  | EdgeBundles int
  | EdgeOperations int
  | DownloadBundle string
  | AnalyzeWorkspace string "string option"
  | CreateOperator contract_selection
  | GetOperator string
  | CompileBackend string string options
  | PublishBackend string string options
  | ListOperators string
  | GetPublishJob string

datatype publish_reply =
    Denied http_answer
  | PlatformsReply string
  | DeploymentsReply string "(deployment_row \<times> operator_row) list"
  | BundlesReply string "bundle_row list"
  | OperationsReply string "(publish_job \<times> variant_row \<times> operator_row) list"
  | FileReply path
  | AnalysisReply analysis
  | CreatedReply created_contract
  | OperatorReply operator_view
  | CompiledReply variant_row "string \<times> nat \<times> string"
  | AcceptedReply string string
  | ListReply "listed_operator list"
  | JobReply job_view

text \<open>What a call draws: the clock, identifiers, how the move of a stored tree ended, whether the executor takes a job, and
  what the directory of the workspaces holds when it is read: it is shared, and downloads and other programs write it.\<close>

record 'e call_draw =
  dw_now :: int
  dw_operator :: string
  dw_contract :: string
  dw_variant :: string
  dw_job :: string
  dw_moved :: "'e replace_outcome"
  dw_submitted :: "exn option"
  dw_workspaces :: "path \<Rightarrow> 'e workspace option"

definition call_env :: "'e publish_app \<Rightarrow> 'e call_draw \<Rightarrow> 'e publish_env" where
  "call_env A w = (pa_env A)\<lparr>sx_source := (sx_source (pa_env A))\<lparr>sv_workspaces := dw_workspaces w\<rparr>\<rparr>"

definition answered_with :: "(exn \<Rightarrow> http_answer) \<Rightarrow> ('a \<Rightarrow> publish_reply) \<Rightarrow> exn + 'a \<Rightarrow> publish_reply" where
  "answered_with errors reply r = (case r of Inl e \<Rightarrow> Denied (errors e) | Inr x \<Rightarrow> reply x)"

definition hidden :: "string \<Rightarrow> exn \<Rightarrow> http_answer" where
  "hidden detail e = (if of_class publish_errors e then http_error 404 detail else server_error)"

definition user_route :: "'e publish_app \<Rightarrow> 'e call_draw \<Rightarrow> user_call \<Rightarrow> string \<Rightarrow> 'e publish_state \<Rightarrow> 'e publish_state \<times> publish_reply" where
  "user_route A w c u st =
     (let V = call_env A w; db = xs_db st; refused = value_errors @ publish_errors; conflicts = [''EdgeDependencyConflictError''] in
      case c of
        EdgePlatforms \<Rightarrow> (st, PlatformsReply (ne_python (sx_native V)))
      | EdgeDeployments \<Rightarrow> (st, DeploymentsReply u (list_edge_deployments_for_user u db))
      | EdgeBundles limit \<Rightarrow> (st, BundlesReply u (list_edge_bundles u limit db))
      | EdgeOperations limit \<Rightarrow> (st, OperationsReply u (list_edge_operations u limit db))
      | DownloadBundle i \<Rightarrow> (st, answered_with (hidden ''edge bundle not found'') FileReply (edge_bundle_file V i u st))
      | AnalyzeWorkspace name root \<Rightarrow> (st, answered_with (by_class [(refused, 400)]) AnalysisReply (analyze (sx_source V) name root))
      | CreateOperator s \<Rightarrow>
          apsnd (answered_with (by_class [(refused, 400)]) CreatedReply)
            (create_virtual_contract V (dw_now w) (dw_operator w) (dw_contract w) (dw_moved w) s u st)
      | GetOperator i \<Rightarrow> (st, answered_with (hidden ''operator not found'') OperatorReply (view_operator i u db))
      | CompileBackend i backend options \<Rightarrow>
          apsnd (answered_with (by_class [(conflicts, 409), (refused, 400)]) (\<lambda>(v, parent). CompiledReply v parent))
            (compile_backend V (dw_now w) (dw_variant w) i backend options u st)
      | PublishBackend i backend options \<Rightarrow>
          apsnd (answered_with (by_class [(conflicts, 409), (refused, 409)]) (\<lambda>t. AcceptedReply (tk_job t) (tk_variant t)))
            (publish_backend V (dw_now w) (dw_variant w) (dw_job w) (dw_submitted w) i backend options u st)
      | ListOperators run_type \<Rightarrow>
          (st, answered_with (by_class [(publish_errors, 404)]) ListReply (operator_list (sx_postgres V) run_type u db))
      | GetPublishJob i \<Rightarrow> (st, answered_with (by_class [(publish_errors, 404)]) JobReply (view_publish_job i u db)))"

definition checked_id :: "user_call \<Rightarrow> string \<Rightarrow> http_answer + string" where
  "checked_id c = (case c of GetPublishJob i \<Rightarrow> job_user_id | _ \<Rightarrow> user_id)"

definition caller :: "'e publish_app \<Rightarrow> string option \<Rightarrow> user_call \<Rightarrow> http_answer + string" where
  "caller A authorization c = (case current_user A authorization of Inl a \<Rightarrow> Inl a | Inr u \<Rightarrow> checked_id c u)"

definition publish_handle ::
  "'e publish_app \<Rightarrow> 'e call_draw \<Rightarrow> string option \<Rightarrow> user_call \<Rightarrow> 'e publish_state \<Rightarrow> 'e publish_state \<times> publish_reply" where
  "publish_handle A w authorization c st =
     (case caller A authorization c of Inl a \<Rightarrow> (st, Denied a) | Inr u \<Rightarrow> user_route A w c u st)"

text \<open>The download of a folder (Object_Storage) writes the shared directory of the workspaces and nothing the other calls store,
  so it has a function of its own.\<close>

definition download_handle ::
  "'e publish_app \<Rightarrow> download_env \<Rightarrow> (exn + minio_config) \<Rightarrow> (minio_config \<Rightarrow> exn + storage) \<Rightarrow> string option \<Rightarrow> string \<Rightarrow> string
     \<Rightarrow> disk \<Rightarrow> disk \<times> http_answer" where
  "download_handle A E client connect authorization bucket folder k =
     (case current_user A authorization of Inl a \<Rightarrow> (k, a) | Inr u \<Rightarrow>
     (case user_id u of Inl a \<Rightarrow> (k, a) | Inr v \<Rightarrow>
        download_route (E\<lparr>de_root := sv_workspace_root (sx_source (pa_env A))\<rparr>) client connect bucket folder k))"

section \<open>The events of a job\<close>

text \<open>What a turn of the loop sees: whether the client has gone, the job or the exception of the service, the clock in milliseconds.\<close>

record job_poll =
  dp_gone :: bool
  dp_job :: "exn + job_view"
  dp_time :: int

datatype job_event = ProgressEvent int "(string, json) dict" | CompletedEvent job_view | FailedEvent job_view | GoneEvent | IdleEvent

datatype stream_state = StreamOpen | StreamClosed | StreamBroken

text \<open>\<open>int(last-event-id)\<close>, and zero when it is none.\<close>

definition last_seen :: "string \<Rightarrow> int" where
  "last_seen h = (let r = strip h in if r = [] then 0 else case py_int r of None \<Rightarrow> 0 | Some n \<Rightarrow> max 0 n)"

text \<open>\<open>int(snapshot.get("seq") or 0)\<close>; \<open>trunc\<close> is \<open>int\<close> of a float.\<close>

definition snapshot_seq :: "(string \<Rightarrow> int option) \<Rightarrow> (string, json) dict \<Rightarrow> int option" where
  "snapshot_seq trunc d =
     (case dict_get_or d ''seq'' JNull of
        JInt n \<Rightarrow> Some n
      | JFloat s \<Rightarrow> if truthy (JFloat s) then trunc s else Some 0
      | JBool b \<Rightarrow> Some (if b then 1 else 0)
      | JStr s \<Rightarrow> if s = [] then Some 0 else py_int s
      | j \<Rightarrow> if truthy j then None else Some 0)"

text \<open>The progress event of a turn and the number of the last one sent; \<open>None\<close> is the exception of \<open>int\<close>.\<close>

definition job_progress :: "(string \<Rightarrow> int option) \<Rightarrow> int \<Rightarrow> job_view \<Rightarrow> (job_event list \<times> int) option" where
  "job_progress trunc seq v =
     (case jv_progress v of
        Some (JObj d) \<Rightarrow> map_option (\<lambda>n. if n > seq then ([ProgressEvent n d], n) else ([], seq)) (snapshot_seq trunc d)
      | _ \<Rightarrow> Some ([], seq))"

definition emitting :: "job_event list \<Rightarrow> job_event list \<times> stream_state \<Rightarrow> job_event list \<times> stream_state" where
  "emitting es r = (es @ fst r, snd r)"

fun job_events :: "(string \<Rightarrow> int option) \<Rightarrow> int \<Rightarrow> int \<Rightarrow> job_poll list \<Rightarrow> job_event list \<times> stream_state" where
  "job_events trunc seq alive [] = ([], StreamOpen)"
| "job_events trunc seq alive (p # ps) =
     (if dp_gone p then ([], StreamClosed)
      else case dp_job p of
        Inl e \<Rightarrow> if of_class publish_errors e then ([GoneEvent], StreamClosed) else ([], StreamBroken)
      | Inr v \<Rightarrow>
     (case job_progress trunc seq v of
        None \<Rightarrow> ([], StreamBroken)
      | Some (es, seq1) \<Rightarrow> emitting es
          (case pj_status (jv_job v) of
             JobReady \<Rightarrow> ([CompletedEvent v], StreamClosed)
           | JobFailed \<Rightarrow> ([FailedEvent v], StreamClosed)
           | _ \<Rightarrow>
               if dp_time p - alive \<ge> 15000 then emitting [IdleEvent] (job_events trunc seq1 (dp_time p) ps)
               else job_events trunc seq1 alive ps)))"

definition publish_job_events ::
  "'e publish_app \<Rightarrow> (string \<Rightarrow> int option) \<Rightarrow> string option \<Rightarrow> string \<Rightarrow> string \<Rightarrow> int \<Rightarrow> 'e publish_state \<Rightarrow> job_poll list
     \<Rightarrow> http_answer + job_event list \<times> stream_state" where
  "publish_job_events A trunc authorization i last_id started st polls =
     (case caller A authorization (GetPublishJob i) of
        Inl a \<Rightarrow> Inl a
      | Inr u \<Rightarrow>
     (case view_publish_job i u (xs_db st) of
        Inl e \<Rightarrow> Inl (by_class [(publish_errors, 404)] e)
      | Inr v \<Rightarrow> Inr (job_events trunc (last_seen last_id) started polls)))"

text \<open>\<open>_sse\<close> of an event whose JSON is \<open>payload\<close>.\<close>

definition job_sse :: "string option \<Rightarrow> string \<Rightarrow> string \<Rightarrow> string" where
  "job_sse event_id event payload =
     (let data = (if splitlines payload = [] then [[]] else splitlines payload) in
      join_with [CHR 0x0A] (map (\<lambda>i. ''id: '' @ i) (option_list event_id) @ [''event: '' @ event] @ map (\<lambda>l. ''data: '' @ l) data) @
      [CHR 0x0A, CHR 0x0A])"

fun progress_numbers :: "job_event list \<Rightarrow> int list" where
  "progress_numbers (ProgressEvent n d # es) = n # progress_numbers es"
| "progress_numbers (_ # es) = progress_numbers es"
| "progress_numbers [] = []"

text \<open>A client never gets a progress event twice, nor one older than the last it has seen.\<close>

lemma job_events_ordered: "sorted_wrt (<) (seq # progress_numbers (fst (job_events trunc seq alive polls)))"
proof (induction trunc seq alive polls rule: job_events.induct)
  case (2 trunc seq alive p ps)
  show ?case
  proof (cases "dp_gone p")
    case False
    show ?thesis
    proof (cases "dp_job p")
      case (Inr v)
      show ?thesis
      proof (cases "job_progress trunc seq v")
        case (Some x)
        obtain es seq1 where x: "x = (es, seq1)" by (cases x)
        from Some x have es: "es = [] \<and> seq1 = seq \<or> (\<exists>d. es = [ProgressEvent seq1 d] \<and> seq < seq1)"
          by (auto simp: job_progress_def split: option.splits json.splits if_splits)
        note IH = "2.IH" [OF False Inr Some x [symmetric]]
        show ?thesis
          using es IH False Inr Some x by (cases "pj_status (jv_job v)") (auto simp: emitting_def dest!: bspec)
      qed (use False Inr in simp)
    qed (use False in simp)
  qed simp
qed simp

lemma job_progress_None: "job_progress trunc a v = None \<Longrightarrow> job_progress trunc b v = None"
  by (simp add: job_progress_def split: option.splits json.splits)

definition still_running :: "(string \<Rightarrow> int option) \<Rightarrow> job_poll \<Rightarrow> bool" where
  "still_running trunc p \<longleftrightarrow> \<not> dp_gone p \<and>
     (case dp_job p of Inl e \<Rightarrow> False | Inr v \<Rightarrow> active_publish_job (jv_job v) \<and> job_progress trunc 0 v \<noteq> None)"

text \<open>The first turn that finds the job finished ends the stream with it.\<close>

lemma job_result_delivered:
  assumes "list_all (still_running trunc) ps" "\<not> dp_gone p" "dp_job p = Inr v" "jv_progress v = None"
    and "pj_status (jv_job v) = JobReady \<or> pj_status (jv_job v) = JobFailed"
  shows "\<exists>es. job_events trunc seq alive (ps @ p # qs) =
    (es @ [if pj_status (jv_job v) = JobReady then CompletedEvent v else FailedEvent v], StreamClosed)"
  using assms(1)
proof (induction ps arbitrary: seq alive)
  case Nil
  then show ?case using assms(2-) by (auto simp: job_progress_def emitting_def)
next
  case (Cons q ps)
  then obtain w where q: "\<not> dp_gone q" "dp_job q = Inr w" "active_publish_job (jv_job w)" "job_progress trunc 0 w \<noteq> None"
    by (auto simp: still_running_def split: sum.splits)
  then have "job_progress trunc seq w \<noteq> None" using job_progress_None by metis
  then obtain es seq1 where e: "job_progress trunc seq w = Some (es, seq1)" by auto
  have IH: "\<exists>es. job_events trunc a b (ps @ p # qs) =
    (es @ [if pj_status (jv_job v) = JobReady then CompletedEvent v else FailedEvent v], StreamClosed)" for a b
    using Cons by simp
  obtain es1 where 1: "job_events trunc seq1 alive (ps @ p # qs) =
      (es1 @ [if pj_status (jv_job v) = JobReady then CompletedEvent v else FailedEvent v], StreamClosed)" using IH by blast
  obtain es2 where 2: "job_events trunc seq1 (dp_time q) (ps @ p # qs) =
      (es2 @ [if pj_status (jv_job v) = JobReady then CompletedEvent v else FailedEvent v], StreamClosed)" using IH by blast
  show ?case
    using q e 1 2 by (cases "pj_status (jv_job w)") (auto simp: emitting_def active_publish_job_def)
qed

text \<open>A line separator, which JSON may hold as it is, splits the text of an event into two lines.\<close>

lemma separator_splits_event:
  "job_sse None ''failed'' (''{x'' @ map char_of [0xE2, 0x80, 0xA8 :: nat] @ ''y}'') =
     ''event: failed'' @ [CHR 0x0A] @ ''data: {x'' @ [CHR 0x0A] @ ''data: y}'' @ [CHR 0x0A, CHR 0x0A]"
  by code_simp

section \<open>The rows of a user\<close>

definition operator_owner :: "publish_db \<Rightarrow> string \<Rightarrow> string option" where
  "operator_owner db i = map_option op_user (operator_at i db)"

definition contract_owner :: "publish_db \<Rightarrow> string \<Rightarrow> string option" where
  "contract_owner db i = Option.bind (contract_at i db) (\<lambda>c. operator_owner db (cv_operator c))"

definition variant_owner :: "publish_db \<Rightarrow> string \<Rightarrow> string option" where
  "variant_owner db i = Option.bind (variant_at i db) (\<lambda>v. contract_owner db (vr_contract v))"

text \<open>The tables as a user could see them: rows of the user's operators and devices.\<close>

definition own_rows :: "string \<Rightarrow> publish_db \<Rightarrow> publish_db" where
  "own_rows w db =
     \<lparr>pd_operators = filter (\<lambda>r. op_user r = w) (pd_operators db),
      pd_contracts = filter (\<lambda>c. operator_owner db (cv_operator c) = Some w) (pd_contracts db),
      pd_variants = filter (\<lambda>v. contract_owner db (vr_contract v) = Some w) (pd_variants db),
      pd_jobs = filter (\<lambda>j. variant_owner db (pj_variant j) = Some w) (pd_jobs db),
      pd_deployments = filter (\<lambda>d. ed_user (dp_device d) = w) (pd_deployments db),
      pd_bundles = filter (\<lambda>b. ed_user (bn_device b) = w) (pd_bundles db),
      pd_members = [], pd_gates = []\<rparr>"

definition only_of :: "string \<Rightarrow> publish_db \<Rightarrow> publish_db \<Rightarrow> bool" where
  "only_of u db db' \<longleftrightarrow> (\<forall>w. w \<noteq> u \<longrightarrow> own_rows w db' = own_rows w db)"

lemma only_of_refl [simp]: "only_of u db db"
  by (simp add: only_of_def)

lemma only_of_trans: "only_of u db db1 \<Longrightarrow> only_of u db1 db2 \<Longrightarrow> only_of u db db2"
  by (simp add: only_of_def)

lemma find_filter: "List.find Q (filter P xs) = List.find (\<lambda>x. P x \<and> Q x) xs"
  by (induction xs) auto

lemma find_key_filter:
  assumes "distinct (map key xs)"
  shows "List.find (\<lambda>r. key r = i) (filter P xs) =
     (case List.find (\<lambda>r. key r = i) xs of None \<Rightarrow> None | Some r \<Rightarrow> if P r then Some r else None)"
  using assms
proof (induction xs)
  case (Cons x xs)
  show ?case
  proof (cases "key x = i")
    case True
    have "key x \<notin> key ` set xs" using Cons.prems by simp
    then have "\<forall>y \<in> set xs. key y \<noteq> i" using True by (metis image_eqI)
    then have "List.find (\<lambda>r. key r = i) (filter P xs) = None" by (simp add: find_None_iff)
    with True show ?thesis by simp
  next
    case False
    with Cons show ?thesis by simp
  qed
qed simp

lemma filter_update_out: "(\<And>r. r \<in> set t \<Longrightarrow> P r \<Longrightarrow> \<not> R r \<and> \<not> R (f r)) \<Longrightarrow> filter R (sql_update P f t) = filter R t"
  by (induction t) (auto simp: sql_update_def)

text \<open>An operation writes one table, and only rows of \<open>u\<close>: what others own stays theirs.\<close>

lemma operators_own:
  assumes "\<And>i w. w \<noteq> u \<Longrightarrow> (operator_owner (db\<lparr>pd_operators := t\<rparr>) i = Some w) = (operator_owner db i = Some w)"
    and "\<And>w. w \<noteq> u \<Longrightarrow> filter (\<lambda>r. op_user r = w) t = filter (\<lambda>r. op_user r = w) (pd_operators db)"
  shows "only_of u db (db\<lparr>pd_operators := t\<rparr>)"
proof -
  let ?d = "db\<lparr>pd_operators := t\<rparr>"
  have c: "w \<noteq> u \<Longrightarrow> (contract_owner ?d i = Some w) = (contract_owner db i = Some w)" for i w
    using assms(1) by (simp add: contract_owner_def contract_at_def bind_eq_Some_conv)
  have v: "w \<noteq> u \<Longrightarrow> (variant_owner ?d i = Some w) = (variant_owner db i = Some w)" for i w
    using c by (simp add: variant_owner_def variant_at_def bind_eq_Some_conv)
  show ?thesis using assms c v by (simp add: only_of_def own_rows_def)
qed

lemma contracts_own:
  assumes "contract_at (cv_id r) db = None" "operator_owner db (cv_operator r) = Some u"
  shows "only_of u db (db\<lparr>pd_contracts := pd_contracts db @ [r]\<rparr>)"
proof -
  let ?d = "db\<lparr>pd_contracts := pd_contracts db @ [r]\<rparr>"
  have o: "operator_owner ?d = operator_owner db" by (simp add: fun_eq_iff operator_owner_def operator_at_def)
  have c: "w \<noteq> u \<Longrightarrow> (contract_owner ?d i = Some w) = (contract_owner db i = Some w)" for i w
    using assms by (auto simp: contract_owner_def o contract_at_def split: option.splits)
  have v: "w \<noteq> u \<Longrightarrow> (variant_owner ?d i = Some w) = (variant_owner db i = Some w)" for i w
    using c by (simp add: variant_owner_def variant_at_def bind_eq_Some_conv)
  show ?thesis using c v assms(2) by (simp add: only_of_def own_rows_def o)
qed

lemma owners_frame [simp]:
  "operator_owner (db\<lparr>pd_variants := t\<rparr>) = operator_owner db" "contract_owner (db\<lparr>pd_variants := t\<rparr>) = contract_owner db"
  "operator_owner (db\<lparr>pd_jobs := j\<rparr>) = operator_owner db" "contract_owner (db\<lparr>pd_jobs := j\<rparr>) = contract_owner db"
  "variant_owner (db\<lparr>pd_jobs := j\<rparr>) = variant_owner db"
  by (simp_all add: fun_eq_iff operator_owner_def contract_owner_def variant_owner_def operator_at_def contract_at_def variant_at_def
      cong: option.map_cong)

lemma variants_own:
  assumes "\<And>i w. w \<noteq> u \<Longrightarrow> (variant_owner (db\<lparr>pd_variants := t\<rparr>) i = Some w) = (variant_owner db i = Some w)"
    and "\<And>w. w \<noteq> u \<Longrightarrow> filter (\<lambda>v. contract_owner db (vr_contract v) = Some w) t =
      filter (\<lambda>v. contract_owner db (vr_contract v) = Some w) (pd_variants db)"
  shows "only_of u db (db\<lparr>pd_variants := t\<rparr>)"
  using assms by (simp add: only_of_def own_rows_def)

lemma jobs_own:
  assumes "\<And>w. w \<noteq> u \<Longrightarrow> filter (\<lambda>j. variant_owner db (pj_variant j) = Some w) t =
      filter (\<lambda>j. variant_owner db (pj_variant j) = Some w) (pd_jobs db)"
  shows "only_of u db (db\<lparr>pd_jobs := t\<rparr>)"
  using assms by (simp add: only_of_def own_rows_def)

lemma find_update_key:
  assumes "\<And>r. key (f r) = key r"
  shows "List.find (\<lambda>r. key r = i) (sql_update P f t) = map_option (\<lambda>r. if P r then f r else r) (List.find (\<lambda>r. key r = i) t)"
  using assms by (intro find_sql_update) simp

lemma insert_operator_own:
  assumes "insert_operator now i u ws c db = Inr db'"
  shows "only_of u db db'"
proof -
  let ?f = "\<lambda>r. r\<lparr>op_display_name := oc_display_name c, op_description := oc_description c, op_updated := now\<rparr>"
  let ?t = "sql_update (owns u ws (oc_name c)) ?f (pd_operators db)"
  consider "db' = db\<lparr>pd_operators := ?t\<rparr>"
    | r where "db' = db\<lparr>pd_operators := pd_operators db @ [r]\<rparr>" "operator_at (op_id r) db = None" "op_user r = u"
    using assms by (auto simp: insert_operator_def split: if_splits)
  then show ?thesis
  proof cases
    case 1
    have "operator_owner (db\<lparr>pd_operators := ?t\<rparr>) k = operator_owner db k" for k
      using find_update_key [of op_id ?f k "owns u ws (oc_name c)" "pd_operators db"]
      by (cases "List.find (\<lambda>r. op_id r = k) (pd_operators db)") (simp_all add: operator_owner_def operator_at_def)
    moreover have "w \<noteq> u \<Longrightarrow> filter (\<lambda>r. op_user r = w) ?t = filter (\<lambda>r. op_user r = w) (pd_operators db)" for w
      by (rule filter_update_out) (simp add: owns_def)
    ultimately show ?thesis unfolding 1 by (intro operators_own) simp_all
  next
    case 2
    show ?thesis unfolding 2(1) 
    proof (rule operators_own)
      show "w \<noteq> u \<Longrightarrow> (operator_owner (db\<lparr>pd_operators := pd_operators db @ [r]\<rparr>) k = Some w) = (operator_owner db k = Some w)" for k w
        using 2(2,3) by (auto simp: operator_owner_def operator_at_def split: option.splits)
    qed (use 2(3) in simp)
  qed
qed

lemma insert_contract_own:
  assumes "insert_contract r db = Inr db'" "operator_owner db (cv_operator r) = Some u"
  shows "only_of u db db'"
  using assms contracts_own [of r db u] by (auto simp: insert_contract_def split: if_splits)

lemma named_owner:
  assumes "named_operator u ws n db = Some r" "distinct (map op_id (pd_operators db))"
  shows "operator_owner db (op_id r) = Some u"
proof -
  from assms(1) have r: "r \<in> set (pd_operators db)" "op_user r = u" by (auto simp: named_operator_def owns_def dest: find_SomeD)
  have "operator_at (op_id r) db = Some r" unfolding operator_at_def
    by (rule find_unique [where key = op_id]) (use r(1) assms(2) in simp_all)
  with r show ?thesis by (simp add: operator_owner_def)
qed

lemma save_own:
  assumes "save_virtual_contract A G now i ci ws c u db = Inr (db', x)" "rows_ok db"
  shows "only_of u db db'"
proof -
  from assms(1) obtain db1 where i: "insert_operator now i u ws c db = Inr db1"
    by (auto simp: save_virtual_contract_def Let_def split: sum.splits)
  have d: "distinct (map op_id (pd_operators db1))"
    using insert_operator_ok(1) [OF i] assms(2) by (simp add: rows_ok_def numbered_contracts_def)
  from assms(1) i consider "db' = db1"
    | r q where "insert_contract r db1 = Inr db'" "named_operator u ws (oc_name c) db1 = Some q" "cv_operator r = op_id q"
    by (auto simp: save_virtual_contract_def Let_def split: option.splits sum.splits)
  then have "only_of u db1 db'"
    by cases (simp_all add: insert_contract_own named_owner [OF _ d])
  then show ?thesis by (rule only_of_trans [OF insert_operator_own [OF i]])
qed

lemma upsert_own:
  assumes "upsert_variant G now n db = Inr (db', v)" "contract_owner db (nv_contract n) = Some u"
  shows "only_of u db db'"
proof -
  have k: "vr_id (recompiled G now n v) = vr_id v" "vr_contract (recompiled G now n v) = vr_contract v" for v
    by (simp_all add: recompiled_def)
  let ?t = "sql_update (variant_key_is n) (recompiled G now n) (pd_variants db)"
  consider "db' = db\<lparr>pd_variants := ?t\<rparr>"
    | q where "db' = db\<lparr>pd_variants := pd_variants db @ [q]\<rparr>" "variant_at (vr_id q) db = None" "vr_contract q = nv_contract n"
    using assms(1) by (auto simp: upsert_variant_def Let_def split: option.splits if_splits)
  then show ?thesis
  proof cases
    case 1
    have "variant_owner (db\<lparr>pd_variants := ?t\<rparr>) i = variant_owner db i" for i
      using find_update_key [of vr_id "recompiled G now n" i "variant_key_is n" "pd_variants db", OF k(1)]
      by (cases "List.find (\<lambda>r. vr_id r = i) (pd_variants db)") (simp_all add: variant_owner_def variant_at_def k)
    moreover have "w \<noteq> u \<Longrightarrow> filter (\<lambda>v. contract_owner db (vr_contract v) = Some w) ?t =
        filter (\<lambda>v. contract_owner db (vr_contract v) = Some w) (pd_variants db)" for w
      using assms(2) by (intro filter_update_out) (auto simp: variant_key_is_def k)
    ultimately show ?thesis unfolding 1 by (intro variants_own) simp_all
  next
    case 2
    show ?thesis unfolding 2(1)
    proof (rule variants_own)
      show "w \<noteq> u \<Longrightarrow> (variant_owner (db\<lparr>pd_variants := pd_variants db @ [q]\<rparr>) k = Some w) = (variant_owner db k = Some w)" for k w
        using 2(2,3) assms(2) by (auto simp: variant_owner_def variant_at_def split: option.splits)
    qed (use 2(3) assms(2) in simp)
  qed
qed

lemma and_then_Inr: "and_then r f = Inr y \<longleftrightarrow> (\<exists>x. r = Inr x \<and> f x = Inr y)"
  by (cases r) simp_all

lemma latest_owner:
  assumes "get_latest_contract i u db = Some r" "rows_ok db"
  shows "contract_owner db (cv_id r) = Some u"
proof -
  have n: "numbered_contracts db" using assms(2) by (simp add: rows_ok_def)
  from assms(1) have o: "operator_owner db i = Some u" and l: "latest_version i db = Some r"
    by (auto simp: get_latest_contract_def owned_by_def operator_owner_def split: if_splits option.splits)
  from l have "r \<in> set (contracts_of i db)" unfolding latest_contract [OF n] by (auto split: if_splits)
  then have r: "r \<in> set (pd_contracts db)" "cv_operator r = i" by (simp_all add: contracts_of_def)
  have "contract_at (cv_id r) db = Some r" unfolding contract_at_def
    by (rule find_unique [where key = cv_id]) (use r(1) n in \<open>simp_all add: numbered_contracts_def\<close>)
  with r o show ?thesis by (simp add: contract_owner_def)
qed

lemma upsert_owner:
  assumes "upsert_variant G now n db = Inr (db', v)" "contract_owner db (nv_contract n) = Some u" "rows_ok db"
  shows "variant_owner db' (vr_id v) = Some u"
proof -
  note U = upsert_ok [OF assms(1,3)]
  have d: "distinct (map vr_id (pd_variants db'))" using U(1) by (simp add: rows_ok_def)
  have v: "v \<in> set (pd_variants db')" "vr_contract v = nv_contract n"
    using assms(1) by (auto simp: upsert_variant_def recompiled_def variant_key_is_def Let_def set_sql_update
        split: option.splits if_splits dest!: find_SomeD)
  have "variant_at (vr_id v) db' = Some v" unfolding variant_at_def
    by (rule find_unique [where key = vr_id]) (use v(1) d in simp_all)
  moreover have "contract_owner db' = contract_owner db"
    by (simp add: fun_eq_iff contract_owner_def operator_owner_def contract_at_def operator_at_def U)
  ultimately show ?thesis using v(2) assms(2) by (simp add: variant_owner_def)
qed

lemma compile_own:
  assumes "compile_variant V now vi i backend options u st = Inr (db', c)" "rows_ok (xs_db st)"
  shows "rows_ok db'" "only_of u (xs_db st) db'" "variant_owner db' (vr_id (cn_variant c)) = Some u"
proof -
  from assms(1) obtain l k key o' b d j where l: "load_current_parent V i u st = Inr l"
    and n: "upsert_variant (sx_postgres V) now \<lparr>nv_id = vi, nv_contract = cv_id (ld_row l), nv_backend = b, nv_compiler = k,
      nv_key = key, nv_options = o', nv_sha256 = d, nv_backend_contract = j\<rparr> (xs_db st) = Inr (db', cn_variant c)"
    (is "upsert_variant _ _ ?n _ = _")
    by (auto simp: compile_variant_def and_then_Inr)
  from l have "get_latest_contract i u (xs_db st) = Some (ld_row l)"
    by (auto simp: load_current_parent_def and_then_Inr split: option.splits if_splits)
  then have o: "contract_owner (xs_db st) (nv_contract ?n) = Some u" using latest_owner [OF _ assms(2)] by simp
  show "rows_ok db'" by (rule upsert_ok(1) [OF n assms(2)])
  show "only_of u (xs_db st) db'" by (rule upsert_own [OF n o])
  show "variant_owner db' (vr_id (cn_variant c)) = Some u" by (rule upsert_owner [OF n o assms(2)])
qed

lemma create_job_own:
  assumes "create_publish_job now i v db = Inr (db', j)" "variant_owner db v = Some u"
  shows "only_of u db db'" "variant_owner db' = variant_owner db" "\<forall>q \<in> set (pd_jobs db'). pj_id q = i \<longrightarrow> pj_variant q = v"
proof -
  from assms(1) obtain q where q: "db' = db\<lparr>pd_jobs := pd_jobs db @ [q]\<rparr>" "pj_variant q = v" and new: "publish_job_at i db = None"
    by (auto simp: create_publish_job_def Let_def split: if_splits)
  show "only_of u db db'" unfolding q(1) by (rule jobs_own) (simp add: q(2) assms(2))
  show "variant_owner db' = variant_owner db" by (simp add: q(1))
  show "\<forall>q \<in> set (pd_jobs db'). pj_id q = i \<longrightarrow> pj_variant q = v"
    using new q(2) by (auto simp: q(1) at_None)
qed

lemma update_job_own:
  assumes "\<And>j. j \<in> set (pd_jobs db) \<Longrightarrow> P j \<Longrightarrow> variant_owner db (pj_variant j) = Some u" "\<And>j. pj_variant (f j) = pj_variant j"
  shows "only_of u db (update_publish_job P f db)"
  unfolding update_publish_job_def using assms by (intro jobs_own filter_update_out) simp

lemma update_variant_own:
  assumes "variant_owner db i = Some u" "\<And>v. vr_id (f v) = vr_id v \<and> vr_contract (f v) = vr_contract v" "distinct (map vr_id (pd_variants db))"
  shows "only_of u db (update_variant i f db)"
  unfolding update_variant_def
proof (rule variants_own)
  let ?t = "sql_update (\<lambda>v. vr_id v = i) f (pd_variants db)"
  have "variant_owner (db\<lparr>pd_variants := ?t\<rparr>) k = variant_owner db k" for k
    using find_update_key [of vr_id f k "\<lambda>v. vr_id v = i" "pd_variants db"] assms(2)
    by (cases "List.find (\<lambda>r. vr_id r = k) (pd_variants db)") (simp_all add: variant_owner_def variant_at_def)
  then show "w \<noteq> u \<Longrightarrow> (variant_owner (db\<lparr>pd_variants := ?t\<rparr>) k = Some w) = (variant_owner db k = Some w)" for k w by simp
next
  have "contract_owner db (vr_contract v) = Some u" if "v \<in> set (pd_variants db)" "vr_id v = i" for v
  proof -
    have "variant_at i db = Some v" unfolding variant_at_def
      by (rule find_unique [where key = vr_id]) (use that assms(3) in simp_all)
    with assms(1) show ?thesis by (simp add: variant_owner_def)
  qed
  then show "w \<noteq> u \<Longrightarrow> filter (\<lambda>v. contract_owner db (vr_contract v) = Some w) (sql_update (\<lambda>v. vr_id v = i) f (pd_variants db)) =
      filter (\<lambda>v. contract_owner db (vr_contract v) = Some w) (pd_variants db)" for w
    using assms(2) by (intro filter_update_out) simp
qed

lemma sql_update_all: "\<forall>q \<in> set t. R q \<Longrightarrow> (\<And>q. R q \<Longrightarrow> R (f q)) \<Longrightarrow> \<forall>q \<in> set (sql_update P f t). R q"
  by (auto simp: sql_update_def)

lemma progress_jobs: "pd_jobs (update_job_progress G i e db) =
    sql_update (\<lambda>j. pj_id j = i \<and> active_publish_job j) (\<lambda>j. j\<lparr>pj_result := Some (pg_jsonb G (JObj [(''_progress'', e)]))\<rparr>) (pd_jobs db)"
  by (simp add: update_job_progress_def update_publish_job_def)

lemma publish_own:
  assumes "publish_backend V now vi ji sub i backend options u st = (st', r)" "rows_ok (xs_db st)"
  shows "rows_ok (xs_db st')" "only_of u (xs_db st) (xs_db st')"
proof -
  have "rows_ok (xs_db st') \<and> only_of u (xs_db st) (xs_db st')"
  proof (cases "compile_variant V now vi i backend options u st")
    case (Inl e)
    with assms show ?thesis by (auto simp: publish_backend_def)
  next
    case (Inr x)
    obtain db1 c where x: "x = (db1, c)" by (cases x)
    note c = compile_own [OF Inr [unfolded x] assms(2)]
    show ?thesis
    proof (cases "create_publish_job now ji (vr_id (cn_variant c)) db1")
      case (Inl e)
      with assms Inr x c show ?thesis by (auto simp: publish_backend_def)
    next
      case J: (Inr y)
      obtain db2 j where y: "y = (db2, j)" by (cases y)
      note J = J [unfolded y]
      note o = create_job_own [OF J c(3)]
      have r2: "rows_ok db2" by (rule create_job_ok(1) [OF J c(1)])
      let ?w = "emit V ji backend ''PENDING'' ''QUEUED'' queued_text None (job_world_of st db2)"
      obtain event where w: "jw_db ?w = update_job_progress (sx_postgres V) ji event db2"
        by (auto simp: emit_def put_event_def job_world_of_def Let_def)
      let ?db3 = "update_job_progress (sx_postgres V) ji event db2"
      have v2: "variant_owner db2 (vr_id (cn_variant c)) = Some u" using o(2) c(3) by simp
      have r3: "rows_ok ?db3" by (rule job_rows_ok(2) [OF r2])
      have o3: "only_of u db2 ?db3" unfolding update_job_progress_def by (rule update_job_own) (use o(3) v2 in auto)
      have v3: "variant_owner ?db3 = variant_owner db2" by (simp add: update_job_progress_def update_publish_job_def)
      have j3: "\<forall>q \<in> set (pd_jobs ?db3). pj_id q = ji \<longrightarrow> pj_variant q = vr_id (cn_variant c)"
        unfolding progress_jobs by (rule sql_update_all [OF o(3)]) simp
      let ?m = "last_text 8192 m"
      have o4: "only_of u ?db3 (mark_job_failed now ji (vr_id (cn_variant c)) m ?db3)" for m
        unfolding mark_job_failed_def Let_def
      proof (rule only_of_trans [OF update_job_own update_variant_own])
        let ?u = "update_publish_job (\<lambda>j. pj_id j = ji) (\<lambda>j. j\<lparr>pj_status := JobFailed, pj_error := Some (last_text 8192 m), pj_finished := Some now\<rparr>) ?db3"
        show "variant_owner ?u (vr_id (cn_variant c)) = Some u" using v2 by (simp add: update_publish_job_def v3)
        show "distinct (map vr_id (pd_variants ?u))" using r3 by (simp add: rows_ok_def update_publish_job_def)
      qed (use j3 v2 in \<open>simp_all add: v3\<close>)
      note all = only_of_trans [OF c(2) only_of_trans [OF o(1) o3]]
      from assms(1) Inr x J w have "xs_db st' = ?db3 \<or> (\<exists>m. xs_db st' = mark_job_failed now ji (vr_id (cn_variant c)) m ?db3)"
        by (cases sub) (auto simp: publish_backend_def Let_def)
      with all r3 job_rows_ok(4) [OF r3] only_of_trans [OF all o4] show ?thesis by auto
    qed
  qed
  then show "rows_ok (xs_db st')" "only_of u (xs_db st) (xs_db st')" by simp_all
qed

lemma create_own:
  assumes "create_virtual_contract V now i ci mv s u st = (st', r)" "rows_ok (xs_db st)"
  shows "rows_ok (xs_db st')" "only_of u (xs_db st) (xs_db st')"
proof -
  have "xs_db st' = xs_db st \<or> (\<exists>A G ws c x. save_virtual_contract A G now i ci ws c u (xs_db st) = Inr (xs_db st', x))"
    using assms(1) by (auto simp: create_virtual_contract_def save_compiled_def and_then_Inr Let_def split: sum.splits prod.splits)
  then have "rows_ok (xs_db st') \<and> only_of u (xs_db st) (xs_db st')"
  proof (elim disjE exE)
    fix A G ws c x assume s: "save_virtual_contract A G now i ci ws c u (xs_db st) = Inr (xs_db st', x)"
    obtain q row cr where "x = (q, row, cr)" by (cases x)
    with s show ?thesis using save_ok(1) [of A G now i ci ws c u "xs_db st" "xs_db st'" q row cr] save_own [OF s assms(2)] assms(2) by simp
  qed (use assms(2) in simp)
  then show "rows_ok (xs_db st')" "only_of u (xs_db st) (xs_db st')" by simp_all
qed

lemma publish_disk: "xs_disk (fst (publish_backend V now vi ji sub i b options u st)) = xs_disk st"
  by (auto simp: publish_backend_def Let_def split: sum.splits option.splits prod.splits)

lemma create_disk: "xs_disk (fst (create_virtual_contract V now i ci mv s u st)) = xs_disk st"
  by (auto simp: create_virtual_contract_def Let_def split: sum.splits prod.splits)

lemma compile_backend_own:
  assumes "rows_ok (xs_db st)"
  shows "rows_ok (xs_db (fst (compile_backend V now vi i b options u st)))"
    "only_of u (xs_db st) (xs_db (fst (compile_backend V now vi i b options u st)))"
    "xs_disk (fst (compile_backend V now vi i b options u st)) = xs_disk st"
  using compile_own [of V now vi i b options u st] assms
  by (auto simp: compile_backend_def split: sum.splits prod.splits)

text \<open>The calls that only read what is stored.\<close>

definition read_call :: "user_call \<Rightarrow> bool" where
  "read_call c \<longleftrightarrow> (case c of AnalyzeWorkspace n r \<Rightarrow> False | CreateOperator s \<Rightarrow> False | CompileBackend i b opts \<Rightarrow> False | PublishBackend i b opts \<Rightarrow> False | _ \<Rightarrow> True)"

lemma read_route: "read_call c \<Longrightarrow> fst (user_route A w c u st) = st"
  by (cases c) (simp_all add: read_call_def user_route_def Let_def)

lemma route_own:
  assumes "rows_ok (xs_db st)"
  shows "rows_ok (xs_db (fst (user_route A w c u st)))" "only_of u (xs_db st) (xs_db (fst (user_route A w c u st)))"
    "xs_disk (fst (user_route A w c u st)) = xs_disk st"
proof -
  note create = create_own [OF surjective_pairing assms] create_disk and publish = publish_own [OF surjective_pairing assms] publish_disk
  note compile = compile_backend_own [OF assms]
  show "rows_ok (xs_db (fst (user_route A w c u st)))" "only_of u (xs_db st) (xs_db (fst (user_route A w c u st)))"
    "xs_disk (fst (user_route A w c u st)) = xs_disk st"
    by (cases "read_call c", use assms read_route [of c A w u st] in simp, cases c;
        use assms in \<open>simp add: read_call_def user_route_def Let_def create publish compile\<close>)+
qed

section \<open>What a user reads depends on the rows of the user\<close>

lemma keys_distinct:
  assumes "rows_ok db"
  shows "distinct (map op_id (pd_operators db))" "distinct (map cv_id (pd_contracts db))" "distinct (map vr_id (pd_variants db))"
    "distinct (map pj_id (pd_jobs db))"
  using assms by (simp_all add: rows_ok_def numbered_contracts_def)

lemma own_at:
  assumes "rows_ok db"
  shows "operator_at i (own_rows w db) = (if operator_owner db i = Some w then operator_at i db else None)"
    "contract_at i (own_rows w db) = (if contract_owner db i = Some w then contract_at i db else None)"
    "variant_at i (own_rows w db) = (if variant_owner db i = Some w then variant_at i db else None)"
    "publish_job_at i (own_rows w db) =
       (if Option.bind (publish_job_at i db) (\<lambda>j. variant_owner db (pj_variant j)) = Some w then publish_job_at i db else None)"
  using keys_distinct [OF assms]
  by (simp_all add: operator_at_def contract_at_def variant_at_def publish_job_at_def own_rows_def find_key_filter
      operator_owner_def contract_owner_def variant_owner_def split: option.split)

lemma owned_owner: "owned_by i w db \<longleftrightarrow> operator_owner db i = Some w"
  by (simp add: owned_by_def operator_owner_def split: option.split)

lemma own_owner: "rows_ok db \<Longrightarrow> operator_owner (own_rows w db) i = Some w \<longleftrightarrow> operator_owner db i = Some w"
  by (simp add: operator_owner_def own_at)

lemma own_operator: "get_operator i w (own_rows w db) = get_operator i w db"
  by (simp add: get_operator_def own_rows_def find_filter conj_commute conj_left_commute)

lemma own_latest:
  assumes "rows_ok db"
  shows "get_latest_contract i w (own_rows w db) = get_latest_contract i w db"
proof (cases "operator_owner db i = Some w")
  case True
  have "filter (\<lambda>r. cv_operator r = i) (pd_contracts (own_rows w db)) = filter (\<lambda>r. cv_operator r = i) (pd_contracts db)"
    using True by (auto simp: own_rows_def intro!: filter_cong)
  then show ?thesis by (simp add: get_latest_contract_def owned_owner own_owner [OF assms] latest_version_def)
next
  case False
  then show ?thesis by (simp add: get_latest_contract_def owned_owner own_owner [OF assms])
qed

lemma own_variants:
  assumes "contract_owner db i = Some w"
  shows "list_variants i (own_rows w db) = list_variants i db"
proof -
  have "filter (\<lambda>v. vr_contract v = i) (pd_variants (own_rows w db)) = filter (\<lambda>v. vr_contract v = i) (pd_variants db)"
    using assms by (auto simp: own_rows_def intro!: filter_cong)
  then show ?thesis by (simp add: list_variants_def)
qed

lemma own_view_operator:
  assumes "rows_ok db"
  shows "view_operator i w (own_rows w db) = view_operator i w db"
  using own_variants latest_owner [OF _ assms, of i w]
  by (simp add: view_operator_def own_operator own_latest [OF assms] split: option.split)

lemma own_view_job:
  assumes "rows_ok db"
  shows "view_publish_job i w (own_rows w db) = view_publish_job i w db"
proof -
  have "get_publish_job i w (own_rows w db) = get_publish_job i w db"
    by (simp add: get_publish_job_def own_at [OF assms] owned_owner own_owner [OF assms] variant_owner_def contract_owner_def
        split: option.split)
  then show ?thesis by (simp add: view_publish_job_def)
qed

lemma own_published:
  assumes "rows_ok db"
  shows "published_rows w b k (own_rows w db) = published_rows w b k db"
proof -
  have o: "operator_owner db (op_id r) = Some (op_user r)" if "r \<in> set (pd_operators db)" for r
    using find_unique [where key = op_id, OF keys_distinct(1) [OF assms] that, of "\<lambda>x. op_id x = op_id r"]
    by (simp add: operator_owner_def operator_at_def)
  have c: "contract_owner db (cv_id c) = Some (op_user r)"
    if "c \<in> set (pd_contracts db)" "r \<in> set (pd_operators db)" "cv_operator c = op_id r" for c r
    using find_unique [where key = cv_id, OF keys_distinct(2) [OF assms] that(1), of "\<lambda>x. cv_id x = cv_id c"] o [OF that(2)] that(3)
    by (simp add: contract_owner_def contract_at_def)
  show ?thesis
    unfolding published_rows_def own_rows_def publish_db.simps filter_filter
    by (intro arg_cong [where f = concat] map_cong filter_cong refl) (auto simp: o c)
qed

lemma own_list: "rows_ok db \<Longrightarrow> operator_list G t w (own_rows w db) = operator_list G t w db"
  by (simp add: operator_list_def get_operator_list_def own_published)

lemma own_edges:
  assumes "rows_ok db"
  shows "list_edge_deployments_for_user w (own_rows w db) = list_edge_deployments_for_user w db"
    "list_edge_bundles w n (own_rows w db) = list_edge_bundles w n db" "get_edge_bundle w i (own_rows w db) = get_edge_bundle w i db"
proof -
  show "list_edge_deployments_for_user w (own_rows w db) = list_edge_deployments_for_user w db"
    by (simp add: list_edge_deployments_for_user_def own_rows_def conj_commute)
  show "list_edge_bundles w n (own_rows w db) = list_edge_bundles w n db" by (simp add: list_edge_bundles_def own_rows_def)
  show "get_edge_bundle w i (own_rows w db) = get_edge_bundle w i db"
    by (simp add: get_edge_bundle_def own_rows_def find_filter conj_ac)
qed

lemma map_filter_filter: "(\<And>x. f x \<noteq> None \<Longrightarrow> P x) \<Longrightarrow> List.map_filter f (filter P xs) = List.map_filter f xs"
  by (induction xs) (auto simp: map_filter_simps split: option.split)

lemma own_operations:
  assumes "rows_ok db"
  shows "list_edge_operations w n (own_rows w db) = list_edge_operations w n db"
proof -
  let ?f = "\<lambda>db j. case variant_at (pj_variant j) db of None \<Rightarrow> None | Some v \<Rightarrow>
         (case contract_at (vr_contract v) db of None \<Rightarrow> None | Some c \<Rightarrow>
         (case operator_at (cv_operator c) db of None \<Rightarrow> None | Some r \<Rightarrow>
            if op_user r = w \<and> vr_backend v = ''nifi_native'' then Some (j, v, r) else None))"
  have "?f (own_rows w db) j = ?f db j" for j
    by (simp add: own_at [OF assms] variant_owner_def contract_owner_def operator_owner_def split: option.split)
  then have e: "?f (own_rows w db) = ?f db" by (rule ext)
  have "List.map_filter (?f db) (pd_jobs (own_rows w db)) = List.map_filter (?f db) (pd_jobs db)"
    unfolding own_rows_def publish_db.simps
    by (rule map_filter_filter) (simp add: variant_owner_def contract_owner_def operator_owner_def split: option.splits if_splits)
  then show ?thesis by (simp only: list_edge_operations_def e)
qed

lemma read_reply:
  assumes "rows_ok (xs_db st)" "rows_ok (xs_db st')" "own_rows w (xs_db st') = own_rows w (xs_db st)" "xs_disk st' = xs_disk st" "read_call c"
  shows "snd (user_route A d c w st') = snd (user_route A d c w st)"
proof -
  have same: "R (xs_db st') = R (xs_db st)" if "\<And>db. rows_ok db \<Longrightarrow> R (own_rows w db) = R db" for R :: "publish_db \<Rightarrow> 'z"
    using that [OF assms(1)] that [OF assms(2)] assms(3) by simp
  note reads = same [of "list_edge_deployments_for_user w", OF own_edges(1)] same [of "list_edge_bundles w n" for n, OF own_edges(2)]
    same [of "get_edge_bundle w i" for i, OF own_edges(3)] same [of "list_edge_operations w n" for n, OF own_operations]
    same [of "view_operator i w" for i, OF own_view_operator] same [of "view_publish_job i w" for i, OF own_view_job]
    same [of "operator_list G t w" for G t, OF own_list]
  show ?thesis
    using assms(5) by (cases c) (simp_all add: user_route_def Let_def read_call_def edge_bundle_file_def assms(4) reads split: option.split)
qed

text \<open>C33: What one user asks for, whatever it changes, leaves the rows of every other user as they were, and
  another user's calls that read what is stored - operators, jobs, deployments, bundles and the bundle file - are
  answered as they would have been before. The source trees that calls store and the directory of the workspaces are
  shared; the analysis, the saving, the compilation and the publication that read them are not among these calls.\<close>

theorem users_do_not_interfere:
  assumes "rows_ok (xs_db st)" "caller A auth c = Inr u" "caller A auth' c' = Inr w" "u \<noteq> w"
  shows "own_rows w (xs_db (fst (publish_handle A d auth c st))) = own_rows w (xs_db st) \<and>
    (read_call c' \<longrightarrow>
       snd (publish_handle A d' auth' c' (fst (publish_handle A d auth c st))) = snd (publish_handle A d' auth' c' st))"
proof -
  note route = route_own [OF assms(1), where A = A and w = d and c = c and u = u]
  have own: "own_rows w (xs_db (fst (user_route A d c u st))) = own_rows w (xs_db st)"
    using route(2) assms(4) by (simp add: only_of_def)
  then show ?thesis
    using assms(2,3) read_reply [OF assms(1) route(1) own route(3)] by (simp add: publish_handle_def)
qed

text \<open>C34: Where authentication is required, a call that changes anything or is answered with anything but a
  refusal carried a bearer token that the verifier accepted with the configured secret, and the user it acts for is
  the one of the token's claims.\<close>

theorem calls_need_a_verified_token:
  assumes "pa_mode A = ''required''"
    and "fst (publish_handle A d auth c st) \<noteq> st \<or> (\<forall>a. snd (publish_handle A d auth c st) \<noteq> Denied a)"
  shows "\<exists>header token claims u. auth = Some header \<and> header_token header = Some token \<and>
    get_or [] (pa_secret A) \<noteq> [] \<and> pa_verify A (get_or [] (pa_secret A)) token = Inr claims \<and> claimed_user claims = Inr u \<and>
    publish_handle A d auth c st = user_route A d c u st"
proof -
  from assms(2) obtain u where u: "caller A auth c = Inr u" by (auto simp: publish_handle_def split: sum.splits)
  then have h: "publish_handle A d auth c st = user_route A d c u st" by (simp add: publish_handle_def)
  from u obtain v where v: "current_user A auth = Inr v" "checked_id c v = Inr u" by (auto simp: caller_def split: sum.splits)
  then have "v = u" by (auto simp: checked_id_def user_id_def job_user_id_def split: user_call.splits if_splits)
  with v(1) assms(1) h show ?thesis
    by (auto simp: current_user_def split: option.splits list.splits sum.splits)
qed

text \<open>The same of a download, which is for any user with such a token.\<close>

lemma download_needs_a_verified_token:
  assumes "pa_mode A = ''required''" "fst (download_handle A E client connect auth bucket folder k) \<noteq> k"
  shows "\<exists>header token claims. auth = Some header \<and> header_token header = Some token \<and>
    pa_verify A (get_or [] (pa_secret A)) token = Inr claims"
  using assms by (auto simp: download_handle_def current_user_def split: option.splits list.splits sum.splits)

section \<open>Two users\<close>

text \<open>The project of the authoring examples in the service's workspace; everything a call below does not reach is constant.\<close>

definition shared_workspace :: "string workspace" where
  "shared_workspace = toy_workspace\<lparr>wk_entries := wk_entries toy_workspace @
     [\<lparr>we_parts = [''requirements.txt''], we_symlink = False, we_file = True, we_bytes = []\<rparr>]\<rparr>"

definition shared_env :: "string publish_env" where
  "shared_env =
     \<lparr>sx_source = \<lparr>sv_authoring = story_authoring, sv_scanner = toy_scanner, sv_hashing = toy_hashing, sv_title = (\<lambda>s. s),
        sv_workspace_root = [], sv_workspaces = (\<lambda>p. if p = [''w''] then Some shared_workspace else None)\<rparr>,
      sx_postgres = story_postgres, sx_source_root = [''s''], sx_max_source = 100, sx_copy = (\<lambda>_. shared_workspace), sx_profile = ''p'',
      sx_native = sx_native story_env, sx_publishing = sx_publishing story_env, sx_texts = sx_texts story_env, sx_catalog_root = ''/c'',
      sx_package = sx_package story_env, sx_bundle = sx_bundle story_env, sx_resolver = sx_resolver story_env,
      sx_native_root = [''n''], sx_bundle_root = [''b''], sx_dumps = (\<lambda>_. []), sx_utc = (\<lambda>_. ''now'')\<rparr>"

definition shared_app :: "string publish_app" where
  "shared_app = \<lparr>pa_env = shared_env, pa_mode = ''required'', pa_demo = None, pa_secret = Some ''key'',
     pa_verify = (\<lambda>secret token. if token = ''a'' then Inr [(''user_uid'', JStr ''user'')]
       else if token = ''b'' then Inr [(''user_uid'', JStr ''x''), (''user_id'', JInt 7)] else Inl (PyError ''DecodeError'' []))\<rparr>"

text \<open>The first user has published an operator; the second one saves a contract of its own.\<close>

definition shared_state :: "string publish_state" where
  "shared_state = \<lparr>xs_db = released_db, xs_trees = [], xs_catalog = [], xs_disk = \<lparr>dk_files = [], dk_dirs = []\<rparr>\<rparr>"

definition shared_draw :: "string call_draw" where
  "shared_draw = \<lparr>dw_now = 9, dw_operator = ''o2'', dw_contract = ''c9'', dw_variant = ''v9'', dw_job = ''j9'', dw_moved = Moved, dw_submitted = None,
     dw_workspaces = sv_workspaces (sx_source shared_env)\<rparr>"

definition chosen :: "binding_source \<Rightarrow> codec \<Rightarrow> string option \<Rightarrow> binding_selection" where
  "chosen s c k = \<lparr>bs_source = s, bs_codec = c, bs_metadata_key = None, bs_parameter_key = k, bs_display_name = None, bs_description = [],
     bs_required = False, bs_has_default = False, bs_default = JNull, bs_type = ''str'', bs_constant = JInt 7\<rparr>"

definition second_selection :: contract_selection where
  "second_selection = \<lparr>se_workspace = ''w'', se_revision = projr (source_revision toy_hashing (wk_entries shared_workspace)), se_python_root = ''.'', se_name = ''clean'', se_display_name = ''Mine'',
     se_description = ''other'', se_callable = ''m:K.run'', se_constructor = [(''a'', chosen ConstantValue JsonCodec None)],
     se_arguments = [(''x'', chosen InputPayload BytesCodec None), (''y'', chosen OperatorParameter TextCodec (Some ''p''))],
     se_output = oc_output (toy_contract [])\<rparr>"

abbreviation second_call :: "string publish_state \<times> publish_reply" where
  "second_call \<equiv> publish_handle shared_app shared_draw (Some ''Bearer b'') (CreateOperator second_selection) shared_state"

lemma second_answered: "map op_user (pd_operators (xs_db (fst second_call))) = [''user'', ''7'']"
  by code_simp

lemma shared_rows: "rows_ok (xs_db shared_state)"
  using published_ok [OF reach_released] by (simp add: sys_ok_def shared_state_def)

lemma shared_callers:
  "caller shared_app (Some ''Bearer b'') (CreateOperator second_selection) = Inr ''7''"
  "caller shared_app (Some ''bearer a'') (GetOperator ''operator'') = Inr ''user''"
  by code_simp+

abbreviation first_look :: "string publish_state \<Rightarrow> publish_reply" where
  "first_look st \<equiv> snd (publish_handle shared_app shared_draw (Some ''bearer a'') (GetOperator ''operator'') st)"

lemma first_answered: "map_option vw_variants (case first_look shared_state of OperatorReply v \<Rightarrow> Some v | _ \<Rightarrow> None) = Some (pd_variants released_db)"
  by code_simp

theorem users_do_not_interfere_witness:
  "map op_user (pd_operators (xs_db (fst second_call))) = [''user'', ''7''] \<and>
     own_rows ''user'' (xs_db (fst second_call)) = own_rows ''user'' released_db \<and>
     (\<exists>v. first_look (fst second_call) = OperatorReply v \<and> vw_variants v = pd_variants released_db)"
proof -
  have "read_call (GetOperator ''operator'')" by (simp add: read_call_def)
  moreover from first_answered obtain v where "first_look shared_state = OperatorReply v" "vw_variants v = pd_variants released_db"
    by (cases "first_look shared_state") simp_all
  ultimately show ?thesis
    using users_do_not_interfere [OF shared_rows shared_callers, of shared_draw shared_draw] second_answered
    by (simp add: shared_state_def)
qed

theorem calls_need_a_verified_token_witness:
  "\<exists>claims u. pa_verify shared_app ''key'' ''b'' = Inr claims \<and> claimed_user claims = Inr u \<and>
     second_call = user_route shared_app shared_draw (CreateOperator second_selection) u shared_state"
proof -
  have "fst second_call \<noteq> shared_state"
  proof
    assume "fst second_call = shared_state"
    with second_answered have "map op_user (pd_operators released_db) = [''user'', ''7'']" by (simp add: shared_state_def)
    moreover have "length (pd_operators released_db) = 1" by code_simp
    ultimately show False by (metis One_nat_def length_map length_Cons list.size(3) n_not_Suc_n)
  qed
  moreover have "header_token ''Bearer b'' = Some ''b''" "pa_mode shared_app = ''required''" "get_or [] (pa_secret shared_app) = ''key''"
    by code_simp+
  ultimately show ?thesis
    using calls_need_a_verified_token [of shared_app shared_draw "Some ''Bearer b''" "CreateOperator second_selection" shared_state] by auto
qed

end
