(* ===== verification/Spec2Isabelle.thy ===== *)
theory Spec2Isabelle
  imports Service_Examples Lifecycle_Examples Build_Examples Authoring_Examples Publish_Examples Build_Stream Build_Http Publisher_Theorems Admin_Console Path_Examples Publish_Http
begin

text \<open>
  A model of the Managed Python Runner (v3.3) and what makes it correct.

  \<^bold>\<open>The program.\<close> Users publish Python functions as operators; the runner executes them for NiFi over
  gRPC. \<open>runner_engine\<close> is the runner: a service with leases and idempotent invocations over a
  PostgreSQL database, a pool of warm sandboxes under quotas, two sandbox providers (local and
  OpenSandbox), and, inside every sandbox, an agent that unpacks releases and runs user code in a child
  process behind a length-prefixed pipe. \<open>build_service\<close> turns lists of requirements into runtime
  images, one per locked set of packages, and reuses compatible ones. \<open>operator_authoring\<close> and
  \<open>publish_service\<close> make releases out of source code; \<open>web\<close> is the consoles. A runtime image has a
  lifecycle (active, retiring, retired) that the runner, the build service and the publish service each
  keep in a table of their own, before Harbor deletes the image.

  \<^bold>\<open>How it is modelled.\<close> An operation is a function of the state that returns the new state and an
  exception or a value; a database operation is one transaction. Exceptions are values (\<open>exn\<close> of
  Prelude: the engine's own errors with code and retryability, the Python ones with type and message).
  A Python \<open>str\<close> is the list of its UTF-8 bytes, \<open>bytes\<close> are \<open>8 word\<close> lists, a \<open>dict\<close> is an association
  list in insertion order, a table is the list of its rows, Python's unbounded integers are \<open>int\<close> or
  \<open>nat\<close>. Shared mutable objects (the workers of the pool) live in a heap. What is not under src/ is an
  argument: hashes, uuids, the clock, JSON text, the archive reader, the HTTP exchange with the control
  plane and with Harbor, \<open>uv\<close>, \<open>docker\<close>, and the user's own code; it may answer anything, and what a
  theorem needs of it is a named hypothesis. Times are milliseconds in the runner's clock and
  microseconds in the database's.

  \<^bold>\<open>Theories.\<close>
  Prelude: exceptions, dictionaries, the SQL statements on tables. Text: Python's text operations and paths.
  Retirement: the locale of a lifecycle table, interpreted for the runner's and the build service's.

  Runner, data and pool. Runner_Model: \<open>model.py\<close>, \<open>policy.py\<close>, \<open>errors.py\<close>, and the protocol of \<open>sandbox/backend.py\<close> as a record of operations and the locale of its
  laws, which the pool relies on; Local_Backend (\<open>sandbox/local.py\<close>) and Open_Sandbox
  (\<open>sandbox/opensandbox.py\<close>) interpret it. Pool: \<open>quota.py\<close>, \<open>pool.py\<close>; Pool_Invariants: idle workers sit in the
  bucket of their key, no worker is in two places, the quota counts exactly the workers that are not destroyed, and
  these cover the sandboxes the provider handed out and was not asked to delete.

  Runner, inside a sandbox. Codec: base64, integers, JSON values. Frame: the pipe between agent and
  child (\<open>worker/agent.py\<close>, \<open>worker/child.py\<close>), written and read in pieces the operating system chooses.
  Child: the child process. Materialize: \<open>worker/materialize.py\<close> over a file system. Agent: the agent's
  state, its HTTP interface, the plan and the outcome of a run. Os_Files: a POSIX file system, as the
  functions of \<open>os\<close> see it. Path_Layer: \<open>worker/path_virtualization.py\<close>, which redirects the absolute
  paths of user code into the directory of the invocation; Path_Theorems: nothing outside
  that directory changes; Path_View: which calls return, listings and look-ups agree, copy on write;
  Path_Examples: concrete runs, and those on which the layer differs from a file system.

  Runner, database and service. Runner_DB: the transactions of \<open>state.py\<close>; Runner_DB_Facts: the
  idempotency key and the execution it claims agree, a stored answer is replayed. Catalog: \<open>catalog.py\<close>,
  with a save that may stop between two file operations. Service: \<open>service.py\<close>, \<open>invoke\<close> in its phases.
  Service_Steps: the phases of concurrent invocations, lease operations and maintenance as an
  inductive step relation, with its invariant; Runner_System: the sequential \<open>invoke\<close> is a run of it.
  Lifecycle_Store, Lifecycle_Runtime: \<open>lifecycle_store.py\<close>, \<open>lifecycle_runtime.py\<close>,
  \<open>lifecycle_service.py\<close>; Lifecycle_Steps and Lifecycle_Theorems: retirement beside running requests.
  Gateway: \<open>gateway.py\<close>, who may call what and which status a caller gets. Admin_Http: \<open>admin_http.py\<close>.

  Build service. Build_Model: \<open>model.py\<close> and the requirements of \<open>builder.py\<close>. Build_Store: \<open>store.py\<close> and
  the overriding store of \<open>lifecycle_service.py\<close>, two instances of the record \<open>build_store\<close>.
  Build_Service: \<open>service.py\<close>, \<open>harbor.py\<close>, \<open>lifecycle.py\<close>. Build_Facts: the invariant of the tables.
  Build_Laws: the locale of a build store, what a resolve answers proved inside it, both stores
  interpret it; transactions of concurrent requests, crashes and deletions as steps.
  Build_Theorems, Build_Examples: which images are served, and that a resolve is a run of the steps.
  Http: answers, administration tokens; Build_Http: the routes of \<open>app.py\<close>, \<open>lifecycle_routes.py\<close> and the
  event stream of \<open>progress_routes.py\<close>. Build_Client: \<open>publish_service/build_client.py\<close>, the reader of
  that stream; Build_Stream: what is streamed is what is read, and when the client's loops end.

  Authoring. Authoring_Model: \<open>model.py\<close>. Authoring_Scanner: \<open>ast_scanner.py\<close> and \<open>snapshot.py\<close> over syntax
  trees with opaque expressions. Authoring_Compiler: \<open>compiler.py\<close>, \<open>inference.py\<close>. Authoring_Adapter: how the
  template of \<open>adapter_generator.py\<close> binds the arguments of a call (no generated module imports).

  Publish service. Publisher, Publisher_Theorems: \<open>runner_engine/publisher.py\<close>, and that the agent can
  install what it packs. Publish_Store: the tables of \<open>store.py\<close>; Publish_Lifecycle: \<open>runtime_lifecycle.py\<close>.
  Publish_Contract, Publish_Roundtrip: contracts as JSON and back. Publish_Source: \<open>selection.py\<close>,
  \<open>source_store.py\<close>, the analysis of workspaces. Publish_Backends: \<open>backends\<close>, \<open>edge_identity.py\<close>.
  Edge_Bundle: \<open>edge_dependencies.py\<close>, \<open>edge_bundle.py\<close> and the packing of a native processor, as
  operations on a disk. Publish_Service: \<open>service.py\<close>, \<open>lifecycle_service.py\<close>, \<open>progress.py\<close>.
  Publish_Facts: the invariant of the tables. Publish_Theorems: the jobs, saves and retirements of
  concurrent threads as steps under PostgreSQL's advisory locks, and what holds in every reachable state;
  Publish_Jobs: a job ends, and is a run of the steps; Publish_Examples: concrete runs. Publish_Http:
  \<open>app.py\<close>, \<open>progress_routes.py\<close> and \<open>auth\<close>, who a request is from, what it may see and change, the
  events of a job. Object_Storage: \<open>utils/minio_tools.py\<close> and its route, the download of a folder into a workspace.

  Administration console. Admin_Store: the tables of \<open>web/admin/schema.py\<close> and the transactions of
  \<open>store.py\<close> and \<open>execution_store.py\<close>; Admin_Store_Facts: their invariant, the audit trail, versions of
  notes. Admin_Inventory: \<open>inventory.py\<close>, \<open>lifecycle_inventory.py\<close>, read-only checks over the databases
  of the three services.
  Cleanup_Client: the administration routes of the publish service, \<open>lifecycle_client.py\<close> and the servers its requests reach. Cleanup: \<open>cleanup.py\<close> over a
  record of operations. Cleanup_Laws: three locales, over the gates of the services, over the states
  they end in, and over the rows of executions; Cleanup_Site puts the models of the services together,
  Cleanup_System and Cleanup_Theorems interpret the locales on them; Cleanup_Forward, Cleanup_Examples:
  whole runs, with answers that arrive or get lost. The calls of one execution follow each other
  without calls of others in between, which the code does not ensure; what the network does to each call is an argument. Admin_Console:
  the application, \<open>main.py\<close>, \<open>lifecycle_routes.py\<close> and \<open>retry_client.py\<close>, its middleware and routes.

  Runner_Example, Runner_Theorems, Service_Examples, Lifecycle_Examples and
  Build_Examples hold the properties that need a whole system and their concrete instances.

  \<^bold>\<open>What the theorems show.\<close> Safety of the runner in every reachable state: a worker belongs to one
  invocation, the sandboxes not given back are within the quotas, at most one execution runs per idempotency key, an
  answer is replayed until it expires, an invocation restores its claims on every path and leaves the accounts right. Of the
  sandbox: whatever a child writes, the answer is within the limits; what an honest child computes is
  what the agent returns; one process at a time; archives stay in their directory; in a container
  without links the user's code changes no real file, and sees its own changes. Of the build
  service: one builder per environment, a returned environment serves the request, a deleted image is not
  served unless a retirement was taken back or an image built again during its deletion. Of the authoring compiler: the call a compiled plan describes is
  the one the contract describes, and fits the signature of its function when methods call their first parameter self or
  cls; no generated module that would make the call can be imported. Of the publish service: a
  published release within the agent's limits installs, a runtime whose retirement was answered as safe gets no current release
  any more, the newest bundle of a device holds exactly the processors deployed on it, every executed
  job ends, users see and change only the rows that are theirs, and are who their verified token says, a folder is
  downloaded as a whole or not at all. Of the lifecycles: RETIRED is final, a retired runtime without users stays without users.
  Of the interfaces: a call the access list does not permit changes nothing, nor does an administration
  request without the token. Of the console: only requests of its own page change anything, a retry is
  audited before it is asked for, its tables keep their constraints, every change leaves an
  audit event, a stale edit is refused. Of a cleanup across the services that no other request
  interrupts: an image is deleted only behind closed gates, success means retired everywhere, an execution that starts gets
  a final status while the console's store is reachable and the network raises what the client expects.
  Some theorems show what the code does where it fails to keep its
  intention: an interrupted save, a retirement finished under a request between two locks, a deleted
  image that is served after a cancellation, a build nobody takes up again, an alias that blocks its
  request, a release that is offered although its runtime was retired as safe, gates that open again
  because the answer of a deletion was lost, a look-up of a path with two slashes that never returns,
  links through which real files are written, an event stream of comments that keeps its reader for ever.

  \<^bold>\<open>Termination and bounds.\<close> Every loop is a terminating function: over the candidates of a bucket, the
  members of an archive, the pieces of a stream, the attempts of a readiness poll (bounded by the
  deadline and a clock that advances by the poll interval, as \<open>time.sleep\<close> promises). The loops of the
  build client are partial functions: the one over the event stream has no deadline, the one that polls has; client_resolve_ends
  says exactly when a resolve returns, and bounds the requests. So
  is the search for tombstones of the path layer, which calls_return shows to end but for paths that start with two slashes.

  \<^bold>\<open>Not modelled.\<close> The pages of the consoles but the application of the administration console, and the process wiring; schema creation and row migration; logging and the text of tracebacks; the swap of
  the functions of the standard library by the path layer, file descriptors and \<open>dir_fd\<close>, permissions; the text of generated
  code (the payload encoder of both templates is not valid Python); the NiFi processors and the
  scripts.
\<close>

end
